(* ===== verification/Prelude.thy ===== *)
theory Prelude
  imports "HOL-Library.Word"
begin

text \<open>
  Shared vocabulary of the development: the machine integer types of the C sources, and the
  generic facts about partial maps, sums over the entries of a partial map and word
  arithmetic that the component theories use. The collection \<open>view_simps\<close> gathers the
  equations that say what an operation does to the contents of a map.
\<close>

unbundle bit_operations_syntax

named_theorems view_simps

type_synonym u8 = "8 word"
type_synonym u32 = "32 word"
type_synonym i32 = "32 word"
type_synonym u64 = "64 word"
type_synonym i64 = "64 word"

subsection \<open>Sums over the entries of a partial map\<close>

definition map_sum :: "('v \<Rightarrow> 'a::comm_monoid_add) \<Rightarrow> ('k \<rightharpoonup> 'v) \<Rightarrow> 'a" where
  "map_sum f m = (\<Sum>k\<in>dom m. f (the (m k)))"

lemma map_sum_empty [simp]: "map_sum f Map.empty = 0"
  by (simp add: map_sum_def)

lemma map_sum_insert:
  assumes "finite (dom m)" and "m k = None"
  shows "map_sum f (m(k \<mapsto> v)) = f v + map_sum f m"
proof -
  have "k \<notin> dom m" using assms(2) by auto
  moreover have "(\<Sum>x\<in>dom m. f (the ((m(k \<mapsto> v)) x))) = (\<Sum>x\<in>dom m. f (the (m x)))"
    using \<open>k \<notin> dom m\<close> by (intro sum.cong) auto
  ultimately show ?thesis
    using assms(1) by (simp add: map_sum_def)
qed

lemma map_sum_remove:
  assumes "finite (dom m)" and "m k = Some v"
  shows "f v + map_sum f (m(k := None)) = map_sum f m"
proof -
  have "map_sum f ((m(k := None))(k \<mapsto> v)) = f v + map_sum f (m(k := None))"
    using assms(1) by (intro map_sum_insert) auto
  moreover have "(m(k := None))(k \<mapsto> v) = m"
    using assms(2) by auto
  ultimately show ?thesis by simp
qed

text \<open>In a group, storing a value adds its share and takes away the overwritten one's.\<close>

definition share :: "('v \<Rightarrow> 'a::comm_monoid_add) \<Rightarrow> 'v option \<Rightarrow> 'a" where
  "share f x = (case x of None \<Rightarrow> 0 | Some v \<Rightarrow> f v)"

lemma share_simps [simp]: "share f None = 0" "share f (Some v) = f v"
  by (simp_all add: share_def)

lemma map_sum_del:
  assumes "finite (dom m)"
  shows "map_sum (f :: 'v \<Rightarrow> 'a::ab_group_add) (m(k := None)) = map_sum f m - share f (m k)"
proof (cases "m k")
  case None
  then have "m(k := None) = m" by auto
  with None show ?thesis by simp
next
  case (Some v)
  with map_sum_remove [OF assms Some, of f] show ?thesis by (simp add: algebra_simps)
qed

lemma map_sum_upd:
  assumes "finite (dom m)"
  shows "map_sum (f :: 'v \<Rightarrow> 'a::ab_group_add) (m(k \<mapsto> v)) = map_sum f m + f v - share f (m k)"
proof -
  have "map_sum f ((m(k := None))(k \<mapsto> v)) = f v + map_sum f (m(k := None))"
    using assms by (intro map_sum_insert) auto
  then show ?thesis using assms by (simp add: map_sum_del)
qed

lemma map_sum_cong:
  "(\<And>k v. m k = Some v \<Longrightarrow> f v = g v) \<Longrightarrow> map_sum f m = map_sum g m"
  unfolding map_sum_def by (rule sum.cong) auto

lemma of_nat_map_sum:
  "(of_nat (map_sum f m) :: 'a::comm_semiring_1) = map_sum (\<lambda>v. of_nat (f v)) m"
  by (simp add: map_sum_def)

lemma map_sum_distrib: "map_sum (\<lambda>v. f v + g v) m = map_sum f m + map_sum g m"
  by (simp add: map_sum_def sum.distrib)

lemma map_sum_mult: "map_sum (\<lambda>v. c * f v) m = (c::nat) * map_sum f m"
  by (simp add: map_sum_def sum_distrib_left)

lemma map_sum_member_le:
  "finite (dom m) \<Longrightarrow> m k = Some v \<Longrightarrow> f v \<le> (map_sum f m :: nat)"
  using map_sum_remove [of m k v f] by linarith

lemma map_sum_const_one: "finite (dom m) \<Longrightarrow> map_sum (\<lambda>_. 1 :: nat) m = card (dom m)"
  by (simp add: map_sum_def)

subsection \<open>Partial maps\<close>

lemma card_dom_upd_le:
  "finite (dom m) \<Longrightarrow> card (dom (m(k \<mapsto> v))) \<le> Suc (card (dom m))"
  by (simp add: card_insert_if)

lemma card_dom_del_le:
  "finite (dom m) \<Longrightarrow> card (dom (m(k := None))) \<le> card (dom m)"
  by (simp add: card_Diff_singleton_if)

lemma map_upd_del_same [simp]: "m k = None \<Longrightarrow> (m(k \<mapsto> v))(k := None) = m"
  by auto

subsection \<open>Lists\<close>

text \<open>Replacing one element in a list of summands, the others keeping their value.\<close>

lemma sum_list_map_update:
  fixes f g :: "'a \<Rightarrow> 'b::comm_monoid_add"
  assumes "i < length xs" and "\<And>x. x \<in> set xs \<Longrightarrow> g x = f x"
  shows "sum_list (map g (xs[i := y])) + f (xs ! i) = sum_list (map f xs) + g y"
  using assms
proof (induction xs arbitrary: i)
  case (Cons x xs)
  have rest: "map g xs = map f xs" using Cons.prems(2) by simp
  show ?case
  proof (cases i)
    case 0
    then show ?thesis by (simp add: rest ac_simps)
  next
    case (Suc j)
    then have "sum_list (map g (xs[j := y])) + f (xs ! j) = sum_list (map f xs) + g y"
      using Cons.prems by (intro Cons.IH) simp_all
    then show ?thesis using Suc Cons.prems(2) by (simp add: add.assoc)
  qed
qed simp

subsection \<open>Words\<close>

lemma unat_of_nat64: "unat (of_nat n :: u64) = n mod 2 ^ 64"
  by (simp add: unat_of_nat)

lemma of_nat64_unat_small: "n < 2 ^ 64 \<Longrightarrow> unat (of_nat n :: u64) = n"
  by (simp add: unat_of_nat)

lemma of_nat64_nonzero:
  assumes "0 < n" and "n < 2 ^ 64" shows "(of_nat n :: u64) \<noteq> 0"
  using of_nat64_unat_small [OF assms(2)] assms(1) by (metis less_irrefl unat_0)

lemma u64_of_unat: "of_nat (unat w) = (w :: u64)"
  by simp

text \<open>The C conversion chain int to u64 to uint32 keeps the 32 bits of the int.\<close>

lemma ucast_scast_i32 [simp]: "(ucast (scast (x :: i32) :: u64) :: u32) = x"
  by (intro bit_word_eqI) (simp add: bit_ucast_iff bit_signed_iff)

lemma scast_i32_inject: "(scast (x :: i32) :: u64) = scast y \<longleftrightarrow> x = y"
  by (metis ucast_scast_i32)

subsection \<open>Numbers as text\<close>

text \<open>Decimal digits, as \<open>%zu\<close> and \<open>%d\<close> print a number that is not negative.\<close>

fun digits :: "nat \<Rightarrow> string" where
  "digits n = (if n < 10 then [char_of (48 + n)] else digits (n div 10) @ [char_of (48 + n mod 10)])"

declare digits.simps [simp del]

end
