(* ===== verification/MapsBpf.thy ===== *)
theory MapsBpf
  imports Prelude
begin

text \<open>
  The BPF hash map as the program sees it, and \<open>bpf/maps.bpf.h\<close>.

  The helpers \<open>bpf_map_lookup_elem\<close>, \<open>bpf_map_update_elem\<close> and \<open>bpf_map_delete_elem\<close> are
  kernel code: they are the fields of the record \<open>map_ops\<close>, a parameter of every definition
  that uses a map. A lookup returns the address of the element inside the map (None is NULL);
  \<open>elem_load\<close> and \<open>elem_store\<close> are the C reads and writes through such an address. The locale
  \<open>bpf_hash_map\<close> states what is documented of the helpers, over the contents
  \<open>map_find\<close> of a map; \<open>bpf_prealloc_map\<close> adds when an insertion succeeds, given the
  map's \<open>max_entries\<close>. The lemmas on \<open>bpf_map_lookup_or_try_init\<close> are proved in these
  locales.
\<close>

type_synonym vptr = nat

definition BPF_ANY :: u64 where "BPF_ANY = 0"
definition BPF_NOEXIST :: u64 where "BPF_NOEXIST = 1"
definition EEXIST :: i64 where "EEXIST = 17"
definition E2BIG :: i64 where "E2BIG = 7"

record ('m, 'k, 'v) map_ops =
  map_valid :: "'m \<Rightarrow> bool"
  lookup_elem :: "'m \<Rightarrow> 'k \<Rightarrow> vptr option"
  update_elem :: "'m \<Rightarrow> 'k \<Rightarrow> 'v \<Rightarrow> u64 \<Rightarrow> i64 \<times> 'm"
  delete_elem :: "'m \<Rightarrow> 'k \<Rightarrow> i64 \<times> 'm"
  elem_load :: "'m \<Rightarrow> vptr \<Rightarrow> 'v"
  elem_store :: "'m \<Rightarrow> vptr \<Rightarrow> 'v \<Rightarrow> 'm"

text \<open>The contents of a map: what a lookup followed by a read through the result gives.\<close>

definition map_find :: "('m, 'k, 'v) map_ops \<Rightarrow> 'm \<Rightarrow> 'k \<rightharpoonup> 'v" where
  "map_find ops m = (\<lambda>k. map_option (elem_load ops m) (lookup_elem ops m k))"

definition bpf_map_lookup_or_try_init ::
    "('m, 'k, 'v) map_ops \<Rightarrow> 'm \<Rightarrow> 'k \<Rightarrow> 'v \<Rightarrow> vptr option \<times> 'm" where
  "bpf_map_lookup_or_try_init ops m key init =
     (case lookup_elem ops m key of
        Some val \<Rightarrow> (Some val, m)
      | None \<Rightarrow>
          (let (err, m') = update_elem ops m key init BPF_NOEXIST
           in if err \<noteq> 0 \<and> err \<noteq> - EEXIST then (None, m')
              else (lookup_elem ops m' key, m')))"

text \<open>Insertion into a map that holds at most \<open>n\<close> keys: a new key is dropped when it is full.\<close>

definition bounded_upd :: "nat \<Rightarrow> ('k \<rightharpoonup> 'v) \<Rightarrow> 'k \<Rightarrow> 'v \<Rightarrow> ('k \<rightharpoonup> 'v)" where
  "bounded_upd n m k v = (if m k \<noteq> None \<or> card (dom m) < n then m(k \<mapsto> v) else m)"

lemma bounded_upd_other: "k' \<noteq> k \<Longrightarrow> bounded_upd n m k v k' = m k'"
  by (simp add: bounded_upd_def)

lemma bounded_upd_values: "bounded_upd n m k v k' = Some w \<Longrightarrow> m k' = Some w \<or> (k' = k \<and> w = v)"
  by (auto simp: bounded_upd_def split: if_splits)

lemma finite_bounded_upd: "finite (dom m) \<Longrightarrow> finite (dom (bounded_upd n m k v))"
  by (simp add: bounded_upd_def)

lemma card_bounded_upd:
  "finite (dom m) \<Longrightarrow> card (dom m) \<le> n \<Longrightarrow> card (dom (bounded_upd n m k v)) \<le> n"
  by (auto simp: bounded_upd_def card_insert_if)

lemma dom_bounded_upd: "dom m \<subseteq> dom (bounded_upd n m k v)"
  by (auto simp: bounded_upd_def)

lemma bounded_upd_present_or_full:
  "bounded_upd n m k v k \<noteq> None \<or> n \<le> card (dom (bounded_upd n m k v))"
  by (auto simp: bounded_upd_def)

subsection \<open>The documented laws of a hash map\<close>

locale bpf_hash_map =
  fixes ops :: "('m, 'k, 'v) map_ops"
  assumes update_valid: "map_valid ops m \<Longrightarrow> map_valid ops (snd (update_elem ops m k v f))"
    and delete_valid: "map_valid ops m \<Longrightarrow> map_valid ops (snd (delete_elem ops m k))"
    and store_valid: "map_valid ops m \<Longrightarrow> lookup_elem ops m k = Some p \<Longrightarrow>
          map_valid ops (elem_store ops m p v)"
    and finite_contents: "map_valid ops m \<Longrightarrow> finite (dom (map_find ops m))"
    and update_stored: "map_valid ops m \<Longrightarrow> fst (update_elem ops m k v f) = 0 \<Longrightarrow>
          map_find ops (snd (update_elem ops m k v f)) = (map_find ops m)(k \<mapsto> v)"
    and update_failed: "map_valid ops m \<Longrightarrow> fst (update_elem ops m k v f) \<noteq> 0 \<Longrightarrow>
          map_find ops (snd (update_elem ops m k v f)) = map_find ops m"
    and update_noexist: "map_valid ops m \<Longrightarrow> map_find ops m k \<noteq> None \<Longrightarrow>
          fst (update_elem ops m k v BPF_NOEXIST) = - EEXIST"
    and update_absent: "map_valid ops m \<Longrightarrow> map_find ops m k = None \<Longrightarrow>
          fst (update_elem ops m k v f) \<noteq> - EEXIST"
    and delete_found: "map_valid ops m \<Longrightarrow>
          map_find ops (snd (delete_elem ops m k)) = (map_find ops m)(k := None)"
    and delete_keeps_storage: "map_valid ops m \<Longrightarrow> lookup_elem ops m k = Some p \<Longrightarrow>
          elem_load ops (snd (delete_elem ops m k)) p = elem_load ops m p"
    and store_found: "map_valid ops m \<Longrightarrow> lookup_elem ops m k = Some p \<Longrightarrow>
          map_find ops (elem_store ops m p v) = (map_find ops m)(k \<mapsto> v)"
begin

lemma lookup_None_iff: "lookup_elem ops m k = None \<longleftrightarrow> map_find ops m k = None"
  by (simp add: map_find_def)

lemma lookup_Some_load:
  "lookup_elem ops m k = Some p \<Longrightarrow> map_find ops m k = Some (elem_load ops m p)"
  by (simp add: map_find_def)

lemma find_Some_lookup:
  "map_find ops m k = Some v \<Longrightarrow> \<exists>p. lookup_elem ops m k = Some p \<and> elem_load ops m p = v"
  by (auto simp: map_find_def)

lemma update_found:
  "map_valid ops m \<Longrightarrow>
     map_find ops (snd (update_elem ops m k v f)) =
       (if fst (update_elem ops m k v f) = 0 then (map_find ops m)(k \<mapsto> v) else map_find ops m)"
  by (simp add: update_stored update_failed)

text \<open>
  The three outcomes of \<open>bpf_map_lookup_or_try_init\<close>: the key is there; it was inserted
  with the initial value; the insertion failed and NULL is returned, nothing changed.
\<close>

lemma try_init_present:
  assumes "map_find ops m k = Some v"
  shows "\<exists>p. bpf_map_lookup_or_try_init ops m k i = (Some p, m) \<and>
             lookup_elem ops m k = Some p \<and> elem_load ops m p = v"
  using find_Some_lookup [OF assms] by (auto simp: bpf_map_lookup_or_try_init_def)

lemma try_init_inserted:
  assumes "map_valid ops m" and "map_find ops m k = None"
    and "fst (update_elem ops m k i BPF_NOEXIST) = 0"
  shows "\<exists>p m'. bpf_map_lookup_or_try_init ops m k i = (Some p, m') \<and> map_valid ops m' \<and>
             lookup_elem ops m' k = Some p \<and> elem_load ops m' p = i \<and>
             map_find ops m' = (map_find ops m)(k \<mapsto> i)"
proof -
  let ?m' = "snd (update_elem ops m k i BPF_NOEXIST)"
  have found: "map_find ops ?m' = (map_find ops m)(k \<mapsto> i)"
    using assms by (simp add: update_stored)
  then have "map_find ops ?m' k = Some i" by simp
  from find_Some_lookup [OF this] obtain p
    where "lookup_elem ops ?m' k = Some p" "elem_load ops ?m' p = i" by blast
  moreover have "lookup_elem ops m k = None" using assms(2) by (simp add: lookup_None_iff)
  ultimately show ?thesis
    using assms found by (simp add: bpf_map_lookup_or_try_init_def split_beta update_valid)
qed

lemma try_init_failed:
  assumes "map_valid ops m" and "map_find ops m k = None"
    and "fst (update_elem ops m k i BPF_NOEXIST) \<noteq> 0"
  shows "\<exists>m'. bpf_map_lookup_or_try_init ops m k i = (None, m') \<and> map_valid ops m' \<and>
             map_find ops m' = map_find ops m"
proof -
  have "lookup_elem ops m k = None" using assms(2) by (simp add: lookup_None_iff)
  then show ?thesis
    using assms
    by (simp add: bpf_map_lookup_or_try_init_def split_beta update_valid update_failed
        update_absent)
qed

end

text \<open>
  A preallocated map: an update of a present key, or of a new key while fewer than
  \<open>max_entries\<close> keys are stored, succeeds; a new key in a full map is refused with E2BIG.
\<close>

locale bpf_prealloc_map = bpf_hash_map ops for ops :: "('m, 'k, 'v) map_ops" +
  fixes max_entries :: nat
  assumes update_present_ok: "map_valid ops m \<Longrightarrow> map_find ops m k \<noteq> None \<Longrightarrow>
          fst (update_elem ops m k v BPF_ANY) = 0"
    and update_room_ok: "map_valid ops m \<Longrightarrow> map_find ops m k = None \<Longrightarrow>
          card (dom (map_find ops m)) < max_entries \<Longrightarrow> f \<in> {BPF_ANY, BPF_NOEXIST} \<Longrightarrow>
          fst (update_elem ops m k v f) = 0"
    and update_full: "map_valid ops m \<Longrightarrow> map_find ops m k = None \<Longrightarrow>
          max_entries \<le> card (dom (map_find ops m)) \<Longrightarrow> fst (update_elem ops m k v f) = - E2BIG"
begin

lemma update_any_found [view_simps]:
  assumes "map_valid ops m"
  shows "map_find ops (snd (update_elem ops m k v BPF_ANY)) =
           bounded_upd max_entries (map_find ops m) k v"
proof (cases "map_find ops m k \<noteq> None \<or> card (dom (map_find ops m)) < max_entries")
  case True
  then have "fst (update_elem ops m k v BPF_ANY) = 0"
    using assms update_present_ok [of m k v] update_room_ok [of m k BPF_ANY v] by auto
  with True assms show ?thesis by (simp add: update_stored bounded_upd_def)
next
  case False
  then have "fst (update_elem ops m k v BPF_ANY) \<noteq> 0"
    using assms by (simp add: update_full E2BIG_def)
  with False assms show ?thesis by (simp add: update_failed bounded_upd_def)
qed

text \<open>
  \<open>bpf_map_lookup_or_try_init\<close> on a preallocated map: it returns an element exactly if the key
  is present or there is room, and then the element holds the old value or the initial one.
\<close>

lemma try_init_some:
  assumes "map_valid ops m" and "map_find ops m k \<noteq> None \<or> card (dom (map_find ops m)) < max_entries"
  shows "\<exists>p m'. bpf_map_lookup_or_try_init ops m k i = (Some p, m') \<and> map_valid ops m' \<and>
      lookup_elem ops m' k = Some p \<and>
      elem_load ops m' p = (case map_find ops m k of None \<Rightarrow> i | Some v \<Rightarrow> v) \<and>
      map_find ops m' = (map_find ops m)(k \<mapsto> (case map_find ops m k of None \<Rightarrow> i | Some v \<Rightarrow> v))"
proof (cases "map_find ops m k")
  case None
  with assms have "fst (update_elem ops m k i BPF_NOEXIST) = 0"
    by (simp add: update_room_ok)
  from try_init_inserted [OF assms(1) None this] None show ?thesis by auto
next
  case (Some v)
  with assms(1) try_init_present [OF Some, of i] show ?thesis
    by (auto simp: fun_upd_idem)
qed

lemma try_init_none:
  assumes "map_valid ops m" and "map_find ops m k = None"
    and "max_entries \<le> card (dom (map_find ops m))"
  shows "\<exists>m'. bpf_map_lookup_or_try_init ops m k i = (None, m') \<and> map_valid ops m' \<and>
      map_find ops m' = map_find ops m"
  using assms by (intro try_init_failed) (simp_all add: update_full E2BIG_def)

lemma card_bounded:
  assumes "map_valid ops m" and "card (dom (map_find ops m)) \<le> max_entries"
  shows "card (dom (map_find ops (snd (update_elem ops m k v f)))) \<le> max_entries"
proof (cases "fst (update_elem ops m k v f) = 0")
  case True
  then have "map_find ops m k \<noteq> None \<or> card (dom (map_find ops m)) < max_entries"
    using assms update_full [of m k v f] by (force simp: E2BIG_def)
  then show ?thesis
    using True assms finite_contents [OF assms(1)]
    by (auto simp: update_stored card_insert_if)
next
  case False
  then show ?thesis using assms by (simp add: update_failed)
qed

end

text \<open>
  What a CPU may rely on while others insert elements and write to them, as long as none is
  deleted: an address obtained for a key stays the key's, and no other key's.
\<close>

locale bpf_stable_map = bpf_prealloc_map ops max_entries
  for ops :: "('m, 'k, 'v) map_ops" and max_entries :: nat +
  assumes insert_keeps: "map_valid ops m \<Longrightarrow> lookup_elem ops m k = Some p \<Longrightarrow>
          lookup_elem ops (snd (update_elem ops m k' v BPF_NOEXIST)) k = Some p"
    and store_keeps: "map_valid ops m \<Longrightarrow> lookup_elem ops m k' = Some p \<Longrightarrow>
          lookup_elem ops (elem_store ops m p v) k = lookup_elem ops m k"
    and element_of_one_key: "map_valid ops m \<Longrightarrow> lookup_elem ops m k = Some p \<Longrightarrow>
          lookup_elem ops m k' = Some p \<Longrightarrow> k = k'"
begin

text \<open>An insertion that does not overwrite, with room for the key: the key is stored afterwards.\<close>

lemma insert_present:
  assumes "map_valid ops m" and "map_find ops m k = Some w"
  shows "fst (update_elem ops m k v BPF_NOEXIST) = - EEXIST"
    and "map_find ops (snd (update_elem ops m k v BPF_NOEXIST)) = map_find ops m"
proof -
  show err: "fst (update_elem ops m k v BPF_NOEXIST) = - EEXIST"
    using assms by (simp add: update_noexist)
  show "map_find ops (snd (update_elem ops m k v BPF_NOEXIST)) = map_find ops m"
    using assms(1) by (intro update_failed) (simp_all add: err EEXIST_def)
qed

lemma insert_absent:
  assumes "map_valid ops m" and "map_find ops m k = None"
    and "card (dom (map_find ops m)) < max_entries"
  shows "fst (update_elem ops m k v BPF_NOEXIST) = 0"
    and "map_find ops (snd (update_elem ops m k v BPF_NOEXIST)) = (map_find ops m)(k \<mapsto> v)"
  using assms by (simp_all add: update_room_ok update_stored)

end

text \<open>
  What a CPU may rely on while others insert, overwrite and delete other keys: the element of a
  key stays where it is, and a deletion writes to no element. An insertion may: it can take the
  place of a deleted one.
\<close>

locale bpf_element_map = bpf_stable_map ops max_entries
  for ops :: "('m, 'k, 'v) map_ops" and max_entries :: nat +
  assumes update_keeps: "map_valid ops m \<Longrightarrow> k \<noteq> k' \<Longrightarrow> lookup_elem ops m k = Some p \<Longrightarrow>
          lookup_elem ops (snd (update_elem ops m k' v f)) k = Some p"
    and delete_keeps: "map_valid ops m \<Longrightarrow> k \<noteq> k' \<Longrightarrow> lookup_elem ops m k = Some p \<Longrightarrow>
          lookup_elem ops (snd (delete_elem ops m k')) k = Some p"
    and delete_keeps_elements: "map_valid ops m \<Longrightarrow>
          elem_load ops (snd (delete_elem ops m k)) p = elem_load ops m p"
begin

lemma update_other:
  assumes "map_valid ops m" and "k \<noteq> k'"
  shows "map_find ops (snd (update_elem ops m k' v f)) k = map_find ops m k"
    and "lookup_elem ops (snd (update_elem ops m k' v f)) k = lookup_elem ops m k"
proof -
  show find: "map_find ops (snd (update_elem ops m k' v f)) k = map_find ops m k"
    using assms by (simp add: update_found)
  show "lookup_elem ops (snd (update_elem ops m k' v f)) k = lookup_elem ops m k"
    using update_keeps [OF assms] find by (metis lookup_None_iff not_None_eq)
qed

lemma delete_other:
  assumes "map_valid ops m" and "k \<noteq> k'"
  shows "map_find ops (snd (delete_elem ops m k')) k = map_find ops m k"
    and "lookup_elem ops (snd (delete_elem ops m k')) k = lookup_elem ops m k"
proof -
  show find: "map_find ops (snd (delete_elem ops m k')) k = map_find ops m k"
    using assms by (simp add: delete_found)
  show "lookup_elem ops (snd (delete_elem ops m k')) k = lookup_elem ops m k"
    using delete_keeps [OF assms] find by (metis lookup_None_iff not_None_eq)
qed

end

end
