(* ===== verification/MemleakTypes.thy ===== *)
theory MemleakTypes
  imports Prelude
begin

text \<open>
  The data shared between the eBPF program and user space, \<open>bpf/memleak.h\<close>: the capacity
  constants, the record kept per live allocation and the union of the per-stack statistics
  (40 bits of bytes and 24 bits of allocations packed into one 64-bit word, so that one atomic
  addition updates both). The union's additions form a group; the fields read back the exact
  sums as long as each stays within its width, which is proved once for every reader of the
  packed word, in the locale \<open>combined_reader\<close>.
\<close>

definition ALLOCS_MAX_ENTRIES :: nat where "ALLOCS_MAX_ENTRIES = 1000000"
definition COMBINED_ALLOCS_MAX_ENTRIES :: nat where "COMBINED_ALLOCS_MAX_ENTRIES = 10240"
definition MAX_STACK_DEPTH :: nat where "MAX_STACK_DEPTH = 127"

record alloc_info =
  ai_size :: u64
  ai_timestamp_ns :: u64
  ai_stack_id :: i32

text \<open>The union is its 64 bits; the bit-fields are a view of them, low bits first.\<close>

datatype combined_alloc_info = Combined (bits: u64)

definition total_size :: "combined_alloc_info \<Rightarrow> u64" where
  "total_size c = take_bit 40 (bits c)"

definition number_of_allocs :: "combined_alloc_info \<Rightarrow> u64" where
  "number_of_allocs c = drop_bit 40 (bits c)"

text \<open>The initialiser \<open>{.info = {.total_size = t, .number_of_allocs = n}}\<close>.\<close>

definition combined_of_info :: "u64 \<Rightarrow> u64 \<Rightarrow> combined_alloc_info" where
  "combined_of_info t n = Combined (take_bit 40 t OR push_bit 40 (take_bit 24 n))"

definition initial_cinfo :: combined_alloc_info where
  "initial_cinfo = Combined 0"

instantiation combined_alloc_info :: ab_group_add
begin

definition zero_combined_alloc_info :: combined_alloc_info where
  "0 = Combined 0"

definition plus_combined_alloc_info ::
    "combined_alloc_info \<Rightarrow> combined_alloc_info \<Rightarrow> combined_alloc_info" where
  "c + d = Combined (bits c + bits d)"

definition minus_combined_alloc_info ::
    "combined_alloc_info \<Rightarrow> combined_alloc_info \<Rightarrow> combined_alloc_info" where
  "c - d = Combined (bits c - bits d)"

definition uminus_combined_alloc_info :: "combined_alloc_info \<Rightarrow> combined_alloc_info" where
  "- c = Combined (- bits c)"

instance
  by standard (simp_all add: zero_combined_alloc_info_def plus_combined_alloc_info_def
      minus_combined_alloc_info_def uminus_combined_alloc_info_def)

end

lemma bits_simps [simp]:
  "bits 0 = 0" "bits (c + d) = bits c + bits d" "bits (c - d) = bits c - bits d"
  by (simp_all add: zero_combined_alloc_info_def plus_combined_alloc_info_def
      minus_combined_alloc_info_def)

lemma initial_cinfo_zero [simp]: "initial_cinfo = 0"
  by (simp add: initial_cinfo_def zero_combined_alloc_info_def)

lemma combined_eq_iff: "c = d \<longleftrightarrow> bits c = bits d"
  by (cases c; cases d) simp

lemma bits_sum: "bits (sum f A) = (\<Sum>x\<in>A. bits (f x))"
  by (induction A rule: infinite_finite_induct) simp_all

lemma bits_map_sum: "bits (map_sum f m) = map_sum (\<lambda>v. bits (f v)) m"
  by (simp add: map_sum_def bits_sum)

subsection \<open>The bit-fields\<close>

lemma unat_total_size: "unat (total_size c) = unat (bits c) mod 2 ^ 40"
  by (metis total_size_def unsigned_take_bit_eq take_bit_eq_mod)

lemma unat_number_of_allocs: "unat (number_of_allocs c) = unat (bits c) div 2 ^ 40"
  by (metis number_of_allocs_def unat_drop_bit_eq drop_bit_eq_div)

lemma combined_fields_eq:
  "total_size c = total_size d \<Longrightarrow> number_of_allocs c = number_of_allocs d \<Longrightarrow> c = d"
  by (metis combined_eq_iff bits_ident number_of_allocs_def total_size_def)

lemma unat_combined_of_info:
  "unat (bits (combined_of_info t n)) = unat t mod 2 ^ 40 + 2 ^ 40 * (unat n mod 2 ^ 24)"
proof -
  let ?lo = "take_bit 40 (unat t)" and ?hi = "push_bit 40 (take_bit 24 (unat n))"
  have "?hi < 2 ^ 64"
    by (simp add: push_bit_eq_mult take_bit_eq_mod)
  then have "unat (bits (combined_of_info t n)) = ?lo OR ?hi"
    by (simp add: combined_of_info_def unsigned_or_eq unsigned_take_bit_eq unsigned_push_bit_eq
        take_bit_nat_eq_self)
  also have "\<dots> = ?lo + ?hi"
    by (rule disjunctive_add_eq_or [symmetric]) (auto simp: bit_eq_iff bit_simps)
  finally show ?thesis
    by (simp add: take_bit_eq_mod push_bit_eq_mult mult.commute)
qed

lemma bits_combined_of_info:
  "bits (combined_of_info t n) = of_nat (unat t mod 2 ^ 40 + 2 ^ 40 * (unat n mod 2 ^ 24))"
  by (metis unat_combined_of_info u64_of_unat)

text \<open>What one allocation of \<open>sz\<close> bytes adds: \<open>sz\<close> modulo 2^40 bytes and one allocation.\<close>

lemma bits_one_alloc: "bits (combined_of_info sz 1) = of_nat (unat sz mod 2 ^ 40 + 2 ^ 40)"
  by (simp add: bits_combined_of_info)

lemma unat_one_alloc: "unat (bits (combined_of_info sz 1)) = unat sz mod 2 ^ 40 + 2 ^ 40"
  by (simp add: unat_combined_of_info)

subsection \<open>Readers of the packed word\<close>

text \<open>
  A reader extracts the two fields. Whatever the reader, it returns the exact totals of a sum of
  allocations while the bytes stay below 2^40 and the count below 2^24.
\<close>

locale combined_reader =
  fixes read_total read_number :: "combined_alloc_info \<Rightarrow> nat"
  assumes read_total: "read_total c = unat (bits c) mod 2 ^ 40"
    and read_number: "read_number c = unat (bits c) div 2 ^ 40"
begin

lemma read_split: "unat (bits c) = read_total c + 2 ^ 40 * read_number c"
  by (simp add: read_total read_number)

lemma read_of_nat:
  assumes "bits c = of_nat (t + 2 ^ 40 * n)" and "t < 2 ^ 40" and "n < 2 ^ 24"
  shows "read_total c = t" and "read_number c = n"
proof -
  have "unat (bits c) = t + 2 ^ 40 * n"
    unfolding assms(1) by (rule of_nat64_unat_small) (use assms(2,3) in simp)
  then show "read_total c = t" and "read_number c = n"
    using assms(2) by (simp_all add: read_total read_number)
qed

lemma read_add:
  assumes "read_total c + unat sz < 2 ^ 40" and "read_number c + 1 < 2 ^ 24"
  shows "read_total (c + combined_of_info sz 1) = read_total c + unat sz"
    and "read_number (c + combined_of_info sz 1) = read_number c + 1"
proof -
  have "bits (c + combined_of_info sz 1) =
      of_nat ((read_total c + unat sz) + 2 ^ 40 * (read_number c + 1))"
  proof -
    have "bits c = of_nat (read_total c + 2 ^ 40 * read_number c)"
      by (metis read_split u64_of_unat)
    then show ?thesis
      using assms(1) by (simp add: bits_one_alloc)
  qed
  from read_of_nat [OF this assms]
  show "read_total (c + combined_of_info sz 1) = read_total c + unat sz"
    and "read_number (c + combined_of_info sz 1) = read_number c + 1" .
qed

text \<open>Past 2^40 bytes the total wraps and the carry lands in the number of allocations.\<close>

lemma read_add_carry:
  assumes "unat sz < 2 ^ 40" and "2 ^ 40 \<le> read_total c + unat sz"
    and "read_number c + 2 < 2 ^ 24"
  shows "read_total (c + combined_of_info sz 1) = read_total c + unat sz - 2 ^ 40"
    and "read_number (c + combined_of_info sz 1) = read_number c + 2"
proof -
  have lt: "read_total c < 2 ^ 40" by (simp add: read_total)
  have "bits (c + combined_of_info sz 1) =
      of_nat ((read_total c + unat sz - 2 ^ 40) + 2 ^ 40 * (read_number c + 2))"
  proof -
    have "bits c = of_nat (read_total c + 2 ^ 40 * read_number c)"
      by (metis read_split u64_of_unat)
    moreover have "(read_total c + unat sz - 2 ^ 40) + 2 ^ 40 * (read_number c + 2) =
        (read_total c + 2 ^ 40 * read_number c) + (unat sz mod 2 ^ 40 + 2 ^ 40)"
      using assms(1,2) by simp
    ultimately show ?thesis by (simp only: bits_simps bits_one_alloc of_nat_add)
  qed
  moreover have "read_total c + unat sz - 2 ^ 40 < 2 ^ 40" using assms(1) lt by linarith
  ultimately show "read_total (c + combined_of_info sz 1) = read_total c + unat sz - 2 ^ 40"
    and "read_number (c + combined_of_info sz 1) = read_number c + 2"
    using read_of_nat assms(3) by blast+
qed

lemma read_map_sum:
  assumes "finite (dom m)"
    and total: "map_sum (\<lambda>v. if P v then unat (sz v) else 0) m < 2 ^ 40"
    and count: "map_sum (\<lambda>v. if P v then 1 else 0) m < (2 ^ 24 :: nat)"
  shows "read_total (map_sum (\<lambda>v. if P v then combined_of_info (sz v) 1 else 0) m) =
           map_sum (\<lambda>v. if P v then unat (sz v) else 0) m"
    and "read_number (map_sum (\<lambda>v. if P v then combined_of_info (sz v) 1 else 0) m) =
           map_sum (\<lambda>v. if P v then 1 else 0) m"
proof -
  let ?c = "map_sum (\<lambda>v. if P v then combined_of_info (sz v) 1 else 0) m"
  have "bits ?c = map_sum (\<lambda>v. of_nat ((if P v then unat (sz v) else 0) +
      2 ^ 40 * (if P v then 1 else 0))) m"
    unfolding bits_map_sum
  proof (rule map_sum_cong)
    fix k v
    assume "m k = Some v"
    then have "(if P v then unat (sz v) else 0) < 2 ^ 40"
      using map_sum_member_le [OF assms(1), of k v "\<lambda>v. if P v then unat (sz v) else 0"] total
      by linarith
    then show "bits (if P v then combined_of_info (sz v) 1 else 0) =
        of_nat ((if P v then unat (sz v) else 0) + 2 ^ 40 * (if P v then 1 else 0))"
      by (simp add: bits_one_alloc split: if_splits)
  qed
  also have "\<dots> = of_nat (map_sum (\<lambda>v. if P v then unat (sz v) else 0) m +
      2 ^ 40 * map_sum (\<lambda>v. if P v then 1 else 0) m)"
    by (simp only: of_nat_map_sum [symmetric] map_sum_distrib map_sum_mult)
  finally show "read_total ?c = map_sum (\<lambda>v. if P v then unat (sz v) else 0) m"
    and "read_number ?c = map_sum (\<lambda>v. if P v then 1 else 0) m"
    using read_of_nat total count by blast+
qed

end

interpretation bitfields: combined_reader
  "\<lambda>c. unat (total_size c)" "\<lambda>c. unat (number_of_allocs c)"
  by unfold_locales (simp_all add: unat_total_size unat_number_of_allocs)

end
