(* ===== verification/MemleakState.thy ===== *)
theory MemleakState
  imports MapsBpf MemleakTypes
begin

text \<open>
  The state of \<open>bpf/memleak.bpf.c\<close>: the read-only configuration globals, the four hash maps
  and the trace pipe that \<open>bpf_printk\<close> writes to. The kernel's map helpers are bundled in the
  record \<open>kernel\<close>; what the other helpers return during one run of a program (pid and tgid,
  clock, stack id, registers, user memory) is the record \<open>invocation\<close>.
\<close>

record config =
  min_size :: u64
  max_size :: u64
  page_size :: u64
  sample_rate :: u64
  trace_all :: bool
  stack_flags :: u64
  wa_missing_free :: bool
  target_pid :: i32

definition default_config :: config where
  "default_config =
     \<lparr>min_size = 0, max_size = - 1, page_size = 4096, sample_rate = 0, trace_all = False,
      stack_flags = 0, wa_missing_free = False, target_pid = 0\<rparr>"

definition sizes_max_entries :: nat where "sizes_max_entries = 10240"
definition allocs_max_entries :: nat where "allocs_max_entries = ALLOCS_MAX_ENTRIES"
definition combined_allocs_max_entries :: nat where
  "combined_allocs_max_entries = COMBINED_ALLOCS_MAX_ENTRIES"
definition memptrs_max_entries :: nat where "memptrs_max_entries = 10240"

record ('ms, 'ma, 'mc, 'mp) kernel =
  sizes_ops :: "('ms, i32, u64) map_ops"
  allocs_ops :: "('ma, u64, alloc_info) map_ops"
  combined_allocs_ops :: "('mc, u64, combined_alloc_info) map_ops"
  memptrs_ops :: "('mp, u64, u64) map_ops"

record ('ms, 'ma, 'mc, 'mp) tracker =
  sizes :: 'ms
  allocs :: 'ma
  combined_allocs :: 'mc
  memptrs :: 'mp
  trace_pipe :: "(string \<times> u64 list) list"

text \<open>
  \<open>ktime_enter\<close> and \<open>ktime_exit\<close> are the values of the \<open>bpf_ktime_get_ns\<close> calls in
  \<open>gen_alloc_enter\<close> and \<open>gen_alloc_exit2\<close> (a program makes each at most once);
  \<open>get_stackid\<close> gives the result of \<open>bpf_get_stackid\<close> for given flags; \<open>regs_rc\<close> is
  \<open>PT_REGS_RC(ctx)\<close>; \<open>probe_read_user\<close> reads a pointer from user memory, None on a fault.
\<close>

record invocation =
  current_pid_tgid :: u64
  ktime_enter :: u64
  ktime_exit :: u64
  get_stackid :: "u64 \<Rightarrow> i64"
  regs_rc :: u64
  probe_read_user :: "u64 \<Rightarrow> u64 option"

text \<open>The C conversions of \<open>bpf_get_current_pid_tgid() >> 32\<close> to \<open>pid_t\<close> and to \<open>u64\<close>.\<close>

definition current_pid :: "invocation \<Rightarrow> i32" where
  "current_pid I = ucast (drop_bit 32 (current_pid_tgid I))"

definition current_pid64 :: "invocation \<Rightarrow> u64" where
  "current_pid64 I = drop_bit 32 (current_pid_tgid I)"

definition LF :: string where "LF = [CHR 0x0A]"

definition bpf_printk ::
    "string \<Rightarrow> u64 list \<Rightarrow> ('ms, 'ma, 'mc, 'mp) tracker \<Rightarrow> ('ms, 'ma, 'mc, 'mp) tracker" where
  "bpf_printk fmt args s = s\<lparr>trace_pipe := trace_pipe s @ [(fmt, args)]\<rparr>"

lemma bpf_printk_simps [simp]:
  "sizes (bpf_printk fmt args s) = sizes s"
  "allocs (bpf_printk fmt args s) = allocs s"
  "combined_allocs (bpf_printk fmt args s) = combined_allocs s"
  "memptrs (bpf_printk fmt args s) = memptrs s"
  by (simp_all add: bpf_printk_def)

subsection \<open>The contents of the maps\<close>

text \<open>What user space can read of the state: the contents of the four maps.\<close>

record contents =
  c_sizes :: "i32 \<rightharpoonup> u64"
  c_allocs :: "u64 \<rightharpoonup> alloc_info"
  c_combined :: "u64 \<rightharpoonup> combined_alloc_info"
  c_memptrs :: "u64 \<rightharpoonup> u64"

definition contents_of ::
    "('ms, 'ma, 'mc, 'mp) kernel \<Rightarrow> ('ms, 'ma, 'mc, 'mp) tracker \<Rightarrow> contents" where
  "contents_of K s =
     \<lparr>c_sizes = map_find (sizes_ops K) (sizes s), c_allocs = map_find (allocs_ops K) (allocs s),
      c_combined = map_find (combined_allocs_ops K) (combined_allocs s),
      c_memptrs = map_find (memptrs_ops K) (memptrs s)\<rparr>"

definition maps_valid :: "('ms, 'ma, 'mc, 'mp) kernel \<Rightarrow> ('ms, 'ma, 'mc, 'mp) tracker \<Rightarrow> bool" where
  "maps_valid K s \<longleftrightarrow> map_valid (sizes_ops K) (sizes s) \<and> map_valid (allocs_ops K) (allocs s) \<and>
     map_valid (combined_allocs_ops K) (combined_allocs s) \<and> map_valid (memptrs_ops K) (memptrs s)"

lemma contents_of_simps [simp]:
  "c_sizes (contents_of K s) = map_find (sizes_ops K) (sizes s)"
  "c_allocs (contents_of K s) = map_find (allocs_ops K) (allocs s)"
  "c_combined (contents_of K s) = map_find (combined_allocs_ops K) (combined_allocs s)"
  "c_memptrs (contents_of K s) = map_find (memptrs_ops K) (memptrs s)"
  by (simp_all add: contents_of_def)

lemma contents_of_printk [simp]: "contents_of K (bpf_printk fmt args s) = contents_of K s"
  by (simp add: contents_of_def)

lemma maps_valid_printk [simp]: "maps_valid K (bpf_printk fmt args s) = maps_valid K s"
  by (simp add: maps_valid_def)

text \<open>The statistics of a stack: a stack without an entry has none.\<close>

definition stack_stats :: "contents \<Rightarrow> u64 \<Rightarrow> combined_alloc_info" where
  "stack_stats c sid = (case c_combined c sid of None \<Rightarrow> 0 | Some ci \<Rightarrow> ci)"

subsection \<open>The kernel the program runs on\<close>

text \<open>Four preallocated hash maps of the declared capacities.\<close>

locale memleak_kernel =
  sz: bpf_prealloc_map "sizes_ops K" sizes_max_entries +
  al: bpf_prealloc_map "allocs_ops K" allocs_max_entries +
  cm: bpf_prealloc_map "combined_allocs_ops K" combined_allocs_max_entries +
  mp: bpf_prealloc_map "memptrs_ops K" memptrs_max_entries
  for K :: "('ms, 'ma, 'mc, 'mp) kernel"

text \<open>The statistics are updated by several CPUs at once.\<close>

locale stats_map = bpf_stable_map ops max_entries
  for ops :: "('m, u64, combined_alloc_info) map_ops" and max_entries :: nat

locale memleak_smp = memleak_kernel K +
  st: stats_map "combined_allocs_ops K" combined_allocs_max_entries
  for K :: "('ms, 'ma, 'mc, 'mp) kernel"

text \<open>All maps are used by several CPUs at once.\<close>

locale memleak_concurrent = memleak_smp K +
  sze: bpf_element_map "sizes_ops K" sizes_max_entries +
  ale: bpf_element_map "allocs_ops K" allocs_max_entries +
  mpe: bpf_element_map "memptrs_ops K" memptrs_max_entries
  for K :: "('ms, 'ma, 'mc, 'mp) kernel"

end
