(* ===== verification/Symbolizer.thy ===== *)
theory Symbolizer
  imports Prelude
begin

text \<open>
  \<open>internal/symbolizer\<close>: the parsing of \<open>/proc/kallsyms\<close> and \<open>/proc/PID/maps\<close>, the choice of the
  symbols of an ELF file, and the resolution of an address to the closest symbol below it. The
  files are lists of lines; the ELF reader and the commands \<open>addr2line\<close> and \<open>c++filt\<close> are
  parameters. Go iterates over a map in any order: a symbol table is a list of its entries in
  the order of one iteration. Text is ASCII.
\<close>

subsection \<open>The string functions of Go that are used\<close>

definition is_space :: "char \<Rightarrow> bool" where
  "is_space c \<longleftrightarrow> c \<in> {CHR '' '', CHR 0x09, CHR 0x0A, CHR 0x0B, CHR 0x0C, CHR 0x0D}"

text \<open>\<open>strings.Fields\<close>; \<open>w\<close> is the word read so far.\<close>

fun fields_from :: "string \<Rightarrow> string \<Rightarrow> string list" where
  "fields_from w [] = (if w = [] then [] else [w])"
| "fields_from w (c # cs) =
     (if is_space c then (if w = [] then fields_from [] cs else w # fields_from [] cs)
      else fields_from (w @ [c]) cs)"

definition Fields :: "string \<Rightarrow> string list" where
  "Fields s = fields_from [] s"

text \<open>\<open>strings.Split\<close> at a character.\<close>

fun split_from :: "char \<Rightarrow> string \<Rightarrow> string \<Rightarrow> string list" where
  "split_from d w [] = [w]"
| "split_from d w (c # cs) = (if c = d then w # split_from d [] cs else split_from d (w @ [c]) cs)"

definition TrimSpace :: "string \<Rightarrow> string" where
  "TrimSpace s = rev (dropWhile is_space (rev (dropWhile is_space s)))"

text \<open>\<open>strconv.ParseUint(s, 16, 64)\<close>; \<open>None\<close> is an error (no digits, a bad digit, out of range).\<close>

definition hex_value :: "char \<Rightarrow> nat option" where
  "hex_value c =
     (let n = of_char c
      in if 48 \<le> n \<and> n \<le> 57 then Some (n - 48)
         else if 97 \<le> n \<and> n \<le> 102 then Some (n - 87)
         else if 65 \<le> n \<and> n \<le> 70 then Some (n - 55)
         else None)"

fun parse_hex :: "nat \<Rightarrow> string \<Rightarrow> nat option" where
  "parse_hex n [] = Some n"
| "parse_hex n (c # cs) =
     (case hex_value c of
        None \<Rightarrow> None
      | Some d \<Rightarrow> (if 16 * n + d < 2 ^ 64 then parse_hex (16 * n + d) cs else None))"

definition ParseUint :: "string \<Rightarrow> u64 option" where
  "ParseUint s = (if s = [] then None else map_option word_of_nat (parse_hex 0 s))"

text \<open>\<open>%x\<close> of printf.\<close>

definition hex_digit :: "nat \<Rightarrow> char" where
  "hex_digit d = (if d < 10 then char_of (48 + d) else char_of (87 + d))"

fun hex_digits :: "nat \<Rightarrow> string" where
  "hex_digits n = (if n < 16 then [hex_digit n] else hex_digits (n div 16) @ [hex_digit (n mod 16)])"

declare hex_digits.simps [simp del]

definition hex :: "u64 \<Rightarrow> string" where
  "hex w = hex_digits (unat w)"

subsection \<open>Kernel symbols\<close>

text \<open>Storing in a symbol table: the entry of a known address is overwritten in place.\<close>

fun set_symbol :: "u64 \<Rightarrow> string \<Rightarrow> (u64 \<times> string) list \<Rightarrow> (u64 \<times> string) list" where
  "set_symbol a s [] = [(a, s)]"
| "set_symbol a s ((b, t) # xs) = (if b = a then (a, s) # xs else (b, t) # set_symbol a s xs)"

text \<open>The body of the loop over the lines of \<open>/proc/kallsyms\<close>.\<close>

definition kallsyms_line :: "string \<Rightarrow> (u64 \<times> string) list \<Rightarrow> (u64 \<times> string) list" where
  "kallsyms_line line syms =
     (let fields = Fields line
      in if length fields < 3 then syms
         else case ParseUint (fields ! 0) of
                None \<Rightarrow> syms
              | Some addr \<Rightarrow> set_symbol addr (fields ! 2) syms)"

definition LoadKernelSymbolsFromKallsyms :: "string list \<Rightarrow> (u64 \<times> string) list" where
  "LoadKernelSymbolsFromKallsyms ls = fold kallsyms_line ls []"

text \<open>The closest symbol at or below an address, as the loops over the maps find it.\<close>

fun closest_from :: "u64 \<Rightarrow> u64 \<times> string \<Rightarrow> (u64 \<times> string) list \<Rightarrow> u64 \<times> string" where
  "closest_from addr best [] = best"
| "closest_from addr (closestAddr, closestSym) ((symAddr, symName) # xs) =
     closest_from addr
       (if symAddr \<le> addr \<and> symAddr > closestAddr then (symAddr, symName)
        else (closestAddr, closestSym)) xs"

datatype sym_error = Symbol_not_found u64

text \<open>\<open>addr2line path addr\<close> is the command's output, \<open>None\<close> if it fails.\<close>

definition KernelResolve ::
    "(string \<Rightarrow> u64 \<Rightarrow> string option) \<Rightarrow> (u64 \<times> string) list \<Rightarrow> string \<Rightarrow> u64 \<Rightarrow> sym_error + string" where
  "KernelResolve addr2line kallsyms vmlinuxPath addr =
     (let (closestAddr, closestSym) = closest_from addr (0, '''') kallsyms;
          plain = (if addr \<noteq> closestAddr then closestSym @ ''+0x'' @ hex (addr - closestAddr)
                   else closestSym)
      in if closestSym = '''' then Inl (Symbol_not_found addr)
         else if vmlinuxPath \<noteq> ''''
         then (case addr2line vmlinuxPath addr of
                 Some out \<Rightarrow>
                   (let fileLine = TrimSpace out
                    in if fileLine \<noteq> ''??:?'' \<and> fileLine \<noteq> ''??:0'' \<and> fileLine \<noteq> ''''
                       then Inr (closestSym @ '' ('' @ fileLine @ '')'') else Inr plain)
               | None \<Rightarrow> Inr plain)
         else Inr plain)"

subsection \<open>Symbols of a process\<close>

record elf_symbol =
  sym_Name :: string
  sym_Value :: u64
  sym_Size :: u64

definition collectSymbols :: "elf_symbol list \<Rightarrow> (u64 \<times> string) list \<Rightarrow> (u64 \<times> string) list" where
  "collectSymbols syms symbols =
     fold (\<lambda>e t. if sym_Value e = 0 \<or> sym_Size e = 0 then t
                 else set_symbol (sym_Value e) (sym_Name e) t) syms symbols"

text \<open>What the ELF reader yields for a path: \<open>None\<close> if the file cannot be opened or parsed, else
  the symbol table and the dynamic symbol table, each if there is one.\<close>

type_synonym elf_reader = "string \<Rightarrow> (elf_symbol list option \<times> elf_symbol list option) option"

definition loadSymbols :: "elf_reader \<Rightarrow> string \<Rightarrow> (u64 \<times> string) list option" where
  "loadSymbols elf path =
     (case elf path of
        None \<Rightarrow> None
      | Some (syms, dynSyms) \<Rightarrow>
          (let symbols = (case syms of None \<Rightarrow> [] | Some ss \<Rightarrow> collectSymbols ss [])
           in Some (case dynSyms of None \<Rightarrow> symbols | Some ss \<Rightarrow> collectSymbols ss symbols)))"

record ProcMapEntry =
  pm_start :: u64
  pm_end :: u64
  pm_offset :: u64
  pm_path :: string
  pm_symbols :: "(u64 \<times> string) list"

text \<open>The body of the loop over the lines of \<open>/proc/PID/maps\<close>.\<close>

definition maps_line :: "elf_reader \<Rightarrow> string \<Rightarrow> ProcMapEntry option" where
  "maps_line elf line =
     (let fields = Fields line
      in if length fields < 6 then None
         else
           (let addresses = split_from (CHR ''-'') [] (fields ! 0)
            in if length addresses \<noteq> 2 then None
               else
                 case (ParseUint (addresses ! 0), ParseUint (addresses ! 1), ParseUint (fields ! 2)) of
                   (Some start, Some end', Some offset) \<Rightarrow>
                     (let path = fields ! 5
                      in if take 1 path = ''/'' \<and> CHR ''x'' \<in> set (fields ! 1)
                         then (case loadSymbols elf path of
                                 None \<Rightarrow> None
                               | Some symbols \<Rightarrow>
                                   Some \<lparr>pm_start = start, pm_end = end', pm_offset = offset,
                                         pm_path = path, pm_symbols = symbols\<rparr>)
                         else None)
                 | _ \<Rightarrow> None))"

definition NewUserspaceSymbolResolver :: "elf_reader \<Rightarrow> string list \<Rightarrow> ProcMapEntry list" where
  "NewUserspaceSymbolResolver elf ls = List.map_filter (maps_line elf) ls"

text \<open>\<open>filt name\<close> is the output of \<open>c++filt\<close>, \<open>None\<close> if it fails.\<close>

definition demangleSymbol :: "(string \<Rightarrow> string option) \<Rightarrow> string \<Rightarrow> string" where
  "demangleSymbol filt name = (case filt name of None \<Rightarrow> name | Some out \<Rightarrow> TrimSpace out)"

fun Resolve ::
    "(string \<Rightarrow> u64 \<Rightarrow> string option) \<Rightarrow> (string \<Rightarrow> string option) \<Rightarrow> ProcMapEntry list \<Rightarrow> u64 \<Rightarrow>
     sym_error + string" where
  "Resolve addr2line filt [] pc = Inl (Symbol_not_found pc)"
| "Resolve addr2line filt (m # ms) pc =
     (if pc \<ge> pm_start m \<and> pc < pm_end m
      then
        (let virtualAddr = pc - pm_start m + pm_offset m;
             (closestAddr, closestSym) = closest_from virtualAddr (0, '''') (pm_symbols m)
         in if closestSym \<noteq> ''''
            then
              (let demangledSym = demangleSymbol filt closestSym;
                   adjustedAddr = virtualAddr - 1;
                   fileLine = (case addr2line (pm_path m) adjustedAddr of
                                 Some out \<Rightarrow> TrimSpace out | None \<Rightarrow> ''??:?'');
                   fileLine = (if fileLine = ''??:?'' \<or> fileLine = '''' then pm_path m else fileLine)
               in Inr (demangledSym @ '' ('' @ fileLine @ '')''))
            else Resolve addr2line filt ms pc)
      else Resolve addr2line filt ms pc)"

subsection \<open>Words and numbers\<close>

lemma fields_word:
  "\<forall>c\<in>set u. \<not> is_space c \<Longrightarrow> fields_from w (u @ cs) = fields_from (w @ u) cs"
  by (induction u arbitrary: w) simp_all

lemma fields_spaces: "\<forall>c\<in>set p. is_space c \<Longrightarrow> fields_from [] (p @ cs) = fields_from [] cs"
  by (induction p) simp_all

text \<open>A word of a line: not empty, no white space in it.\<close>

definition word_ok :: "string \<Rightarrow> bool" where
  "word_ok u \<longleftrightarrow> u \<noteq> [] \<and> (\<forall>c\<in>set u. \<not> is_space c)"

definition gap_ok :: "string \<Rightarrow> bool" where
  "gap_ok p \<longleftrightarrow> p \<noteq> [] \<and> (\<forall>c\<in>set p. is_space c)"

lemma fields_step:
  assumes "word_ok u" and "gap_ok p"
  shows "fields_from [] (u @ p @ cs) = u # fields_from [] cs"
proof -
  obtain c p' where p: "p = c # p'" "is_space c" "\<forall>d\<in>set p'. is_space d"
    using assms(2) by (cases p) (auto simp: gap_ok_def)
  have "fields_from [] (u @ p @ cs) = fields_from u (c # p' @ cs)"
    using assms(1) by (simp add: word_ok_def fields_word p(1))
  also have "\<dots> = u # fields_from [] cs"
    using assms(1) p(2,3) by (simp add: word_ok_def fields_spaces)
  finally show ?thesis .
qed

lemma fields_last: "word_ok u \<Longrightarrow> fields_from [] u = [u]"
  using fields_word [of u "[]" "[]"] by (simp add: word_ok_def)

lemma gap_space: "gap_ok '' ''"
  by (simp add: gap_ok_def is_space_def)

lemma hex_digit_value: "d < 16 \<Longrightarrow> hex_value (hex_digit d) = Some d"
  by (auto simp: hex_value_def hex_digit_def Let_def of_char_of)

lemma parse_hex_append:
  "parse_hex n (xs @ ys) = Option.bind (parse_hex n xs) (\<lambda>m. parse_hex m ys)"
  by (induction xs arbitrary: n) (auto split: option.split)

lemma parse_hex_digits: "n < 2 ^ 64 \<Longrightarrow> parse_hex 0 (hex_digits n) = Some n"
proof (induction n rule: hex_digits.induct)
  case (1 n)
  show ?case
  proof (cases "n < 16")
    case True
    then show ?thesis by (subst hex_digits.simps) (simp add: hex_digit_value)
  next
    case False
    then have "parse_hex 0 (hex_digits (n div 16)) = Some (n div 16)" using 1 by simp
    moreover have "16 * (n div 16) + n mod 16 = n" by simp
    ultimately show ?thesis
      using False 1(2) by (subst hex_digits.simps) (simp add: parse_hex_append hex_digit_value)
  qed
qed

lemma hex_digits_not_nil: "hex_digits n \<noteq> []"
  by (subst hex_digits.simps) simp

lemma parse_zeros: "parse_hex 0 (replicate k (CHR ''0'') @ cs) = parse_hex 0 cs"
  by (induction k) (simp_all add: hex_value_def Let_def)

text \<open>An address as the kernel prints it, with leading zeros.\<close>

definition address :: "nat \<Rightarrow> u64 \<Rightarrow> string" where
  "address k a = replicate k (CHR ''0'') @ hex a"

lemma parse_address: "ParseUint (address k a) = Some a"
  using unsigned_less [of a, where 'a = nat]
  by (simp add: ParseUint_def address_def hex_def hex_digits_not_nil parse_zeros parse_hex_digits)

lemma hex_digit_char:
  "d < 16 \<Longrightarrow> \<not> is_space (hex_digit d)" "d < 16 \<Longrightarrow> hex_digit d \<noteq> CHR ''-''"
proof -
  assume "d < 16"
  then have "hex_value (hex_digit d) = Some d" by (rule hex_digit_value)
  then show "\<not> is_space (hex_digit d)" "hex_digit d \<noteq> CHR ''-''"
    by (auto simp: is_space_def hex_value_def Let_def)
qed

lemma hex_digits_chars: "c \<in> set (hex_digits n) \<Longrightarrow> \<not> is_space c \<and> c \<noteq> CHR ''-''"
proof (induction n rule: hex_digits.induct)
  case (1 n)
  then show ?case
    by (subst (asm) (2) hex_digits.simps) (auto simp: hex_digit_char split: if_splits)
qed

lemma address_chars: "c \<in> set (address k a) \<Longrightarrow> \<not> is_space c \<and> c \<noteq> CHR ''-''"
  by (auto simp: address_def hex_def is_space_def dest!: hex_digits_chars split: if_splits)

lemma address_word: "word_ok (address k a)"
  using address_chars by (auto simp: word_ok_def address_def hex_def hex_digits_not_nil)

lemma split_none: "d \<notin> set u \<Longrightarrow> split_from d w (u @ cs) = split_from d (w @ u) cs"
  by (induction u arbitrary: w) auto

subsection \<open>The closest symbol\<close>

lemma closest_cases:
  assumes "closest_from addr (ca, cs) xs = (a, s)"
  shows "a = ca \<and> s = cs \<and> (\<forall>k\<in>fst ` set xs. k \<le> addr \<longrightarrow> k \<le> ca) \<or>
    ca < a \<and> a \<le> addr \<and> map_of xs a = Some s \<and> (\<forall>k\<in>fst ` set xs. k \<le> addr \<longrightarrow> k \<le> a)"
  using assms
proof (induction xs arbitrary: ca cs)
  case (Cons x xs)
  obtain b t where x: "x = (b, t)" by fastforce
  show ?case
  proof (cases "b \<le> addr \<and> ca < b")
    case True
    with Cons.prems x have "closest_from addr (b, t) xs = (a, s)" by simp
    from Cons.IH [OF this] True x show ?thesis by auto
  next
    case False
    with Cons.prems x have "closest_from addr (ca, cs) xs = (a, s)" by auto
    from Cons.IH [OF this] False x show ?thesis by auto
  qed
qed simp

text \<open>What the loops are to find in a table: the symbol with the greatest address at or below
  \<open>addr\<close>, address 0 excepted, or nothing.\<close>

definition nearest :: "(u64 \<rightharpoonup> string) \<Rightarrow> u64 \<Rightarrow> u64 \<Rightarrow> string \<Rightarrow> bool" where
  "nearest m addr a s \<longleftrightarrow>
     (if a = 0 then s = '''' \<and> (\<forall>k\<in>dom m. k \<le> addr \<longrightarrow> k = 0)
      else a \<le> addr \<and> m a = Some s \<and> (\<forall>k\<in>dom m. k \<le> addr \<longrightarrow> k \<le> a))"

lemma nearest_unique:
  assumes "nearest m addr a s" and "nearest m addr b t"
  shows "a = b \<and> s = t"
proof -
  have zero: "b = 0" if "nearest m addr 0 s" "nearest m addr b t" for b s t
    using that unfolding nearest_def by (metis domI)
  have "a = b"
  proof (cases "a = 0 \<or> b = 0")
    case True
    then show ?thesis using zero assms by metis
  next
    case False
    then have "m a = Some s" "m b = Some t" "a \<le> addr" "b \<le> addr"
      "\<forall>k\<in>dom m. k \<le> addr \<longrightarrow> k \<le> a" "\<forall>k\<in>dom m. k \<le> addr \<longrightarrow> k \<le> b"
      using assms by (simp_all add: nearest_def)
    then show ?thesis by (metis domI order.antisym)
  qed
  moreover have "s = t" if "nearest m addr a s" "nearest m addr a t" for a s t
    using that unfolding nearest_def by (metis option.inject)
  ultimately show ?thesis using assms by metis
qed

lemma closest_nearest: "closest_from addr (0, '''') xs = (a, s) \<Longrightarrow> nearest (map_of xs) addr a s"
  using closest_cases [of addr 0 "''''" xs a s]
  by (auto simp: nearest_def dom_map_of_conv_image_fst word_gt_0)

text \<open>The closest symbol depends on the table only, not on the order of the iteration.\<close>

lemma closest_order:
  assumes "map_of xs = map_of ys"
  shows "closest_from addr (0, '''') xs = closest_from addr (0, '''') ys"
proof -
  obtain a s b t where r: "closest_from addr (0, '''') xs = (a, s)"
    "closest_from addr (0, '''') ys = (b, t)" by fastforce
  then have "nearest (map_of ys) addr a s" "nearest (map_of ys) addr b t"
    using closest_nearest assms by metis+
  from nearest_unique [OF this] r show ?thesis by simp
qed

text \<open>C30: A kernel address is resolved to the symbol with the greatest nonzero address at or below it,
  with the distance in hexadecimal if there is one, or with the source line that \<open>addr2line\<close>
  reports instead; it is an error exactly if there is no such symbol. The order in which Go
  iterates over the table does not matter. (Symbols have names.)\<close>

theorem kernel_resolve_nearest:
  assumes "map_of xs = map_of ys" and "'''' \<notin> ran (map_of xs)"
  shows "KernelResolve a2l xs vm addr = KernelResolve a2l ys vm addr \<and>
    (KernelResolve a2l xs vm addr = Inl (Symbol_not_found addr) \<longleftrightarrow>
       (\<forall>k\<in>dom (map_of xs). k \<le> addr \<longrightarrow> k = 0)) \<and>
    (\<forall>r. KernelResolve a2l xs vm addr = Inr r \<longrightarrow>
       (\<exists>a s. map_of xs a = Some s \<and> a \<le> addr \<and> (\<forall>k\<in>dom (map_of xs). k \<le> addr \<longrightarrow> k \<le> a) \<and>
          (r = (if a = addr then s else s @ ''+0x'' @ hex (addr - a)) \<or>
           vm \<noteq> '''' \<and> (\<exists>out. a2l vm addr = Some out \<and>
             r = s @ '' ('' @ TrimSpace out @ '')''))))"
proof -
  obtain a s where c: "closest_from addr (0, '''') xs = (a, s)" by fastforce
  from closest_nearest [OF c] have n: "nearest (map_of xs) addr a s" .
  have empty: "s = '''' \<longleftrightarrow> a = 0"
    using n assms(2) by (auto simp: nearest_def ran_def split: if_splits)
  have "KernelResolve a2l xs vm addr = KernelResolve a2l ys vm addr"
    using closest_order [OF assms(1), of addr] by (simp add: KernelResolve_def)
  moreover have "(KernelResolve a2l xs vm addr = Inl (Symbol_not_found addr)) \<longleftrightarrow> a = 0"
    using c empty by (simp add: KernelResolve_def Let_def split: option.split)
  moreover have "a = 0 \<longleftrightarrow> (\<forall>k\<in>dom (map_of xs). k \<le> addr \<longrightarrow> k = 0)"
    using n by (auto simp: nearest_def split: if_splits)
  moreover have "a \<noteq> 0 \<and> (r = (if a = addr then s else s @ ''+0x'' @ hex (addr - a)) \<or>
      vm \<noteq> '''' \<and> (\<exists>out. a2l vm addr = Some out \<and> r = s @ '' ('' @ TrimSpace out @ '')''))"
    if "KernelResolve a2l xs vm addr = Inr r" for r
    using that c empty by (auto simp: KernelResolve_def Let_def split: option.splits if_splits)
  moreover have "a \<noteq> 0 \<Longrightarrow> map_of xs a = Some s \<and> a \<le> addr \<and>
      (\<forall>k\<in>dom (map_of xs). k \<le> addr \<longrightarrow> k \<le> a)"
    using n by (simp add: nearest_def)
  ultimately show ?thesis by blast
qed

theorem kernel_resolve_nearest_witness:
  "KernelResolve (\<lambda>p a. None) [(4096, ''kmalloc''), (8192, ''kfree'')] '''' 4100 =
   KernelResolve (\<lambda>p a. None) [(8192, ''kfree''), (4096, ''kmalloc'')] '''' 4100"
proof -
  let ?xs = "[(4096, ''kmalloc''), (8192, ''kfree'')] :: (u64 \<times> string) list"
  let ?ys = "[(8192, ''kfree''), (4096, ''kmalloc'')] :: (u64 \<times> string) list"
  have "map_of ?xs = map_of ?ys" by (auto simp: fun_eq_iff)
  moreover have "'''' \<notin> ran (map_of ?xs)" by (auto simp: ran_def split: if_splits)
  ultimately show ?thesis using kernel_resolve_nearest by blast
qed

subsection \<open>Reading the files\<close>

lemma fields_head:
  assumes "word_ok u" and "rest = [] \<or> is_space (hd rest)"
  shows "\<exists>fs. fields_from [] (u @ rest) = u # fs"
proof (cases rest)
  case Nil
  then show ?thesis using fields_last [OF assms(1)] by simp
next
  case (Cons c cs)
  then have "fields_from [] (u @ rest) = fields_from [] (u @ [c] @ cs)" by simp
  moreover have "gap_ok [c]" using Cons assms(2) by (simp add: gap_ok_def)
  ultimately show ?thesis using fields_step [OF assms(1)] by metis
qed

text \<open>A line of \<open>/proc/kallsyms\<close>: address, type, name, and possibly the module.\<close>

definition kallsyms_text :: "nat \<Rightarrow> u64 \<Rightarrow> string \<Rightarrow> string \<Rightarrow> string \<Rightarrow> string" where
  "kallsyms_text k a ty name rest = address k a @ '' '' @ ty @ '' '' @ name @ rest"

lemma kallsyms_line_text:
  assumes "word_ok ty" and "word_ok name" and "rest = [] \<or> is_space (hd rest)"
  shows "kallsyms_line (kallsyms_text k a ty name rest) t = set_symbol a name t"
proof -
  obtain fs where "fields_from [] (name @ rest) = name # fs"
    using fields_head [OF assms(2,3)] by blast
  then have "Fields (kallsyms_text k a ty name rest) = address k a # ty # name # fs"
    unfolding Fields_def kallsyms_text_def
    by (simp only: fields_step [OF address_word gap_space] fields_step [OF assms(1) gap_space])
  then show ?thesis by (simp add: kallsyms_line_def Let_def parse_address)
qed

lemma map_of_set_symbol: "map_of (set_symbol a s t) = (map_of t)(a \<mapsto> s)"
  by (induction a s t rule: set_symbol.induct) (auto simp: fun_eq_iff)

text \<open>The table that is loaded has every symbol of the file; of two at one address the last.\<close>

lemma kallsyms_loaded:
  assumes "\<forall>(k, a, ty, name, rest)\<in>set ts.
    word_ok ty \<and> word_ok name \<and> (rest = [] \<or> is_space (hd rest))"
  shows "map_of (LoadKernelSymbolsFromKallsyms
      (map (\<lambda>(k, a, ty, name, rest). kallsyms_text k a ty name rest) ts)) =
    map_of (rev (map (\<lambda>(k, a, ty, name, rest). (a, name)) ts))"
proof -
  have "map_of (fold kallsyms_line
      (map (\<lambda>(k, a, ty, name, rest). kallsyms_text k a ty name rest) ts) t) =
    map_of t ++ map_of (rev (map (\<lambda>(k, a, ty, name, rest). (a, name)) ts))" for t
    using assms
  proof (induction ts arbitrary: t)
    case (Cons x ts)
    obtain k a ty name rest where x: "x = (k, a, ty, name, rest)" by (metis prod_cases5)
    have line: "kallsyms_line (kallsyms_text k a ty name rest) t = set_symbol a name t"
      using Cons.prems x by (intro kallsyms_line_text) auto
    have "\<forall>(k, a, ty, name, rest)\<in>set ts.
        word_ok ty \<and> word_ok name \<and> (rest = [] \<or> is_space (hd rest))"
      using Cons.prems by simp
    from Cons.IH [OF this, of "set_symbol a name t"] show ?case
      by (auto simp: x line map_of_set_symbol fun_eq_iff map_add_def split: option.split)
  qed simp
  from this [of "[]"] show ?thesis by (simp add: LoadKernelSymbolsFromKallsyms_def)
qed

text \<open>A line of \<open>/proc/PID/maps\<close> as the kernel prints it: addresses and offset in at least eight
  hexadecimal digits, four letters for the permissions, major and minor number of the device in at
  least two digits each, the inode in decimal, a space; and if the mapping has a name, the name after
  more space.\<close>

definition padded :: "nat \<Rightarrow> u64 \<Rightarrow> string" where
  "padded w a = address (w - length (hex a)) a"

definition perms_text :: "bool \<Rightarrow> bool \<Rightarrow> bool \<Rightarrow> bool \<Rightarrow> string" where
  "perms_text r w x s =
     [if r then CHR ''r'' else CHR ''-'', if w then CHR ''w'' else CHR ''-'',
      if x then CHR ''x'' else CHR ''-'', if s then CHR ''s'' else CHR ''p'']"

definition maps_text ::
    "u64 \<Rightarrow> u64 \<Rightarrow> string \<Rightarrow> u64 \<Rightarrow> u64 \<Rightarrow> u64 \<Rightarrow> nat \<Rightarrow> string \<Rightarrow> string" where
  "maps_text start end' perms offset major minor inode name =
     padded 8 start @ ''-'' @ padded 8 end' @ '' '' @ perms @ '' '' @ padded 8 offset @ '' '' @
     (padded 2 major @ '':'' @ padded 2 minor) @ '' '' @ digits inode @ '' '' @ name"

lemma padded_word: "word_ok (padded w a)"
  by (simp add: padded_def address_word)

lemma digits_word: "word_ok (digits n)"
proof -
  have "digits n \<noteq> [] \<and> (\<forall>c\<in>set (digits n). 48 \<le> (of_char c :: nat))"
  proof (induction n rule: digits.induct)
    case (1 n)
    then show ?case by (subst (1 2) digits.simps) (auto simp: of_char_of)
  qed
  moreover have "is_space c \<Longrightarrow> \<not> 48 \<le> (of_char c :: nat)" for c
    by (auto simp: is_space_def)
  ultimately show ?thesis by (auto simp: word_ok_def)
qed

lemma joined_word: "word_ok u \<Longrightarrow> word_ok v \<Longrightarrow> \<not> is_space c \<Longrightarrow> word_ok (u @ [c] @ v)"
  by (auto simp: word_ok_def)

lemma perms_word: "word_ok (perms_text r w x s)"
  by (simp add: perms_text_def word_ok_def is_space_def)

lemma split_range: "split_from (CHR ''-'') [] (padded v a @ ''-'' @ padded w b) = [padded v a, padded w b]"
proof -
  have no: "CHR ''-'' \<notin> set (padded w x)" for w x
    using address_chars by (auto simp: padded_def)
  have "split_from (CHR ''-'') [] (padded v a @ ''-'' @ padded w b) =
      padded v a # split_from (CHR ''-'') [] (padded w b @ [])"
    using split_none [OF no, of "[]" v a "''-'' @ padded w b"] by simp
  also have "split_from (CHR ''-'') [] (padded w b @ []) = [padded w b]"
    using split_none [OF no, of "[]" w b "[]"] by simp
  finally show ?thesis .
qed

lemma maps_fields:
  "Fields (maps_text start end' (perms_text r w x s) offset major minor inode name) =
     (padded 8 start @ ''-'' @ padded 8 end') # perms_text r w x s # padded 8 offset #
     (padded 2 major @ '':'' @ padded 2 minor) # digits inode # Fields name"
proof -
  have "\<not> is_space (CHR ''-'')" "\<not> is_space (CHR '':'')" by (simp_all add: is_space_def)
  note words = joined_word [OF padded_word padded_word this(1)] joined_word [OF padded_word padded_word this(2)]
  have "maps_text start end' (perms_text r w x s) offset major minor inode name =
      (padded 8 start @ ''-'' @ padded 8 end') @ '' '' @ perms_text r w x s @ '' '' @ padded 8 offset @ '' '' @
      (padded 2 major @ '':'' @ padded 2 minor) @ '' '' @ digits inode @ '' '' @ name"
    by (simp add: maps_text_def)
  then show ?thesis
    unfolding Fields_def
    by (simp only: fields_step [OF words(1) gap_space] fields_step [OF perms_word gap_space]
        fields_step [OF padded_word gap_space] fields_step [OF words(2) gap_space]
        fields_step [OF digits_word gap_space])
qed

text \<open>C31: A line of \<open>/proc/PID/maps\<close>, in the form in which the kernel prints it, is read back. An
  executable mapping whose name begins with a slash and whose symbols can be loaded gives an entry
  with exactly the printed addresses and offset; the path is the name up to its first white space.
  Any other line, one of a mapping without a name included, gives none.\<close>

theorem maps_line_read_back:
  "maps_line elf (maps_text start end' (perms_text r w x s) offset major minor inode name) =
     (case Fields name of
        [] \<Rightarrow> None
      | path # _ \<Rightarrow>
          if take 1 path = ''/'' \<and> x
          then map_option (\<lambda>t. \<lparr>pm_start = start, pm_end = end', pm_offset = offset, pm_path = path,
                                 pm_symbols = t\<rparr>) (loadSymbols elf path)
          else None)"
proof -
  have "ParseUint (padded w a) = Some a" for w a by (simp add: padded_def parse_address)
  moreover have "CHR ''x'' \<in> set (perms_text r w x s) \<longleftrightarrow> x" by (simp add: perms_text_def)
  ultimately show ?thesis
    by (cases "Fields name")
      (simp_all add: maps_line_def maps_fields Let_def split_range [simplified] split: option.split)
qed

text \<open>A real line; its path has a blank in it and is cut there.\<close>

lemma maps_line_example:
  "maps_text 0x400000 0x401000 (perms_text True False True False) 0 8 1 42 (''   /opt/my app'') =
     ''00400000-00401000 r-xp 00000000 08:01 42    /opt/my app''"
proof -
  have "hex 0x400000 = ''400000''" "hex 0x401000 = ''401000''" "hex 0 = ''0''" "hex 8 = ''8''" "hex 1 = ''1''"
    by (simp_all add: hex_def hex_digits.simps hex_digit_def char_of_eq_iff take_bit_eq_mod)
  moreover have "digits 42 = ''42''" by code_simp
  ultimately show ?thesis
    by (simp add: maps_text_def padded_def address_def perms_text_def eval_nat_numeral)
qed

subsection \<open>Resolving in a process\<close>

text \<open>The mappings of a process do not overlap: an address is resolved in the one that has it.\<close>

lemma resolve_in_mapping:
  assumes "m \<in> set ms" and "pm_start m \<le> pc" and "pc < pm_end m"
    and "\<forall>m'\<in>set ms. pm_start m' \<le> pc \<and> pc < pm_end m' \<longrightarrow> m' = m" and "distinct ms"
  shows "Resolve a2l filt ms pc = Resolve a2l filt [m] pc"
proof -
  have none: "Resolve a2l filt ns pc = Inl (Symbol_not_found pc)"
    if "\<forall>m'\<in>set ns. \<not> (pm_start m' \<le> pc \<and> pc < pm_end m')" for ns
    using that by (induction ns) auto
  show ?thesis using assms(1,4,5)
  proof (induction ms)
    case (Cons n ms)
    show ?case
    proof (cases "n = m")
      case True
      have "\<not> (pm_start m' \<le> pc \<and> pc < pm_end m')" if "m' \<in> set ms" for m'
        using Cons.prems(2,3) True that by (metis distinct.simps(2) list.set_intros(2))
      then have "Resolve a2l filt ms pc = Inl (Symbol_not_found pc)" by (intro none) blast
      then show ?thesis using True by (simp add: Let_def split_beta)
    next
      case False
      then have "\<not> (pm_start n \<le> pc \<and> pc < pm_end n)"
        using Cons.prems(2) by (metis list.set_intros(1))
      then have "Resolve a2l filt (n # ms) pc = Resolve a2l filt ms pc"
        by (simp only: Resolve.simps(2) if_False)
      moreover have "Resolve a2l filt ms pc = Resolve a2l filt [m] pc"
      proof (rule Cons.IH)
        show "m \<in> set ms" using Cons.prems(1) False by simp
        show "\<forall>m'\<in>set ms. pm_start m' \<le> pc \<and> pc < pm_end m' \<longrightarrow> m' = m"
          using Cons.prems(2) by (meson list.set_intros(2))
        show "distinct ms" using Cons.prems(3) by simp
      qed
      ultimately show ?thesis by simp
    qed
  qed simp
qed

text \<open>The address that is looked up is the offset in the file, not the address the symbols have: in
  an executable linked at a fixed base, none of whose symbols lies below the base, no address
  within the first \<open>base\<close> bytes of the file is resolved.\<close>

lemma fixed_base_unresolved:
  assumes "pm_start m \<le> pc" and "pc < pm_end m" and "\<forall>(a, s)\<in>set (pm_symbols m). base \<le> a"
    and "pc - pm_start m + pm_offset m < base"
  shows "Resolve a2l filt [m] pc = Inl (Symbol_not_found pc)"
proof -
  let ?v = "pc - pm_start m + pm_offset m"
  obtain a s where c: "closest_from ?v (0, '''') (pm_symbols m) = (a, s)" by fastforce
  from closest_nearest [OF c] have "nearest (map_of (pm_symbols m)) ?v a s" .
  moreover have "\<not> a \<le> ?v" if "map_of (pm_symbols m) a = Some s"
    using map_of_SomeD [OF that] assms(3,4) by auto
  ultimately have "s = ''''" by (auto simp: nearest_def split: if_splits)
  with c show ?thesis by (simp add: Let_def)
qed

lemma fixed_base_unresolved_witness:
  "Resolve (\<lambda>p a. None) (\<lambda>x. None)
     [\<lparr>pm_start = 0x401000, pm_end = 0x402000, pm_offset = 0x1000, pm_path = ''/bin/app'',
       pm_symbols = [(0x401136, ''main'')]\<rparr>] 0x401140 = Inl (Symbol_not_found 0x401140)"
  by (rule fixed_base_unresolved [where base = "0x400000"]) simp_all

end
