(* ===== verification/Loader.thy ===== *)
theory Loader
  imports MemleakState Symbolizer
begin

text \<open>
  \<open>cmd/main.go\<close> and the loading side of \<open>internal/probe/probe.go\<close>: how the command line becomes
  the globals of the eBPF object, which programs are attached, and how the addresses of a stack
  become the lines that are printed. That the collection has a variable, that a program can be
  attached and where libc is are answers of the loader library and of the system: parameters.
\<close>

subsection \<open>The command line\<close>

record flags =
  fl_pid :: i64
  fl_min_size :: u64
  fl_max_size :: u64
  fl_page_size :: u64
  fl_sample_rate :: u64
  fl_trace_all :: bool
  fl_wa_missing_free :: bool
  fl_n_top_stacks :: i64

definition default_flags :: flags where
  "default_flags =
     \<lparr>fl_pid = 0, fl_min_size = 0, fl_max_size = - 1, fl_page_size = 4096, fl_sample_rate = 1,
      fl_trace_all = False, fl_wa_missing_free = False, fl_n_top_stacks = 3\<rparr>"

definition BPF_F_USER_STACK :: u64 where "BPF_F_USER_STACK = 256"

definition stackFlag :: "i64 \<Rightarrow> u64" where
  "stackFlag pid = (if pid = 0 then 0 else BPF_F_USER_STACK)"

subsection \<open>Setting the globals\<close>

text \<open>\<open>spec.Variables[name].Set(v)\<close>, if the condition holds; \<open>None\<close> once a setting has failed.\<close>

definition set_variable ::
    "(string \<Rightarrow> bool) \<Rightarrow> string \<Rightarrow> bool \<Rightarrow> (config \<Rightarrow> config) \<Rightarrow> config option \<Rightarrow> config option" where
  "set_variable fails name cond upd c =
     (case c of
        None \<Rightarrow> None
      | Some cfg \<Rightarrow> (if cond then (if fails name then None else Some (upd cfg)) else Some cfg))"

definition loadObjects :: "(string \<Rightarrow> bool) \<Rightarrow> flags \<Rightarrow> u64 \<Rightarrow> config option" where
  "loadObjects fails fl stackFlags =
     (let c = Some default_config;
          c = set_variable fails ''target_pid'' (0 <s fl_pid fl)
                (\<lambda>cfg. cfg\<lparr>target_pid := ucast (fl_pid fl)\<rparr>) c;
          c = set_variable fails ''min_size'' (fl_min_size fl > 0)
                (\<lambda>cfg. cfg\<lparr>min_size := fl_min_size fl\<rparr>) c;
          c = set_variable fails ''max_size'' (fl_max_size fl > 0)
                (\<lambda>cfg. cfg\<lparr>max_size := fl_max_size fl\<rparr>) c;
          c = set_variable fails ''page_size'' (fl_page_size fl > 0)
                (\<lambda>cfg. cfg\<lparr>page_size := fl_page_size fl\<rparr>) c;
          c = set_variable fails ''sample_rate'' (fl_sample_rate fl > 0)
                (\<lambda>cfg. cfg\<lparr>sample_rate := fl_sample_rate fl\<rparr>) c;
          c = set_variable fails ''trace_all'' (fl_trace_all fl) (\<lambda>cfg. cfg\<lparr>trace_all := True\<rparr>) c;
          c = set_variable fails ''stack_flags'' (stackFlags > 0)
                (\<lambda>cfg. cfg\<lparr>stack_flags := stackFlags\<rparr>) c
      in set_variable fails ''wa_missing_free'' (fl_wa_missing_free fl)
           (\<lambda>cfg. cfg\<lparr>wa_missing_free := True\<rparr>) c)"

subsection \<open>Attaching the programs\<close>

text \<open>The first line of \<open>/proc/PID/maps\<close> that names libc and has a path.\<close>

definition contains :: "string \<Rightarrow> string \<Rightarrow> bool" where
  "contains s sub \<longleftrightarrow> (\<exists>i \<in> {0..length s}. take (length sub) (drop i s) = sub)"

fun getLibcPath :: "string list \<Rightarrow> string option" where
  "getLibcPath [] = None"
| "getLibcPath (line # ls) =
     (if (contains line ''/libc-'' \<or> contains line ''/libc.so'') \<and> 6 \<le> length (Fields line)
      then Some (last (Fields line)) else getLibcPath ls)"

text \<open>Attaching ends with the attached programs, with an error, or with the end of the command
  (\<open>log.Fatalf\<close>).\<close>

datatype attach_outcome = Attached "string list" | Attach_error | Exited

fun attach_each :: "(string \<Rightarrow> bool) \<Rightarrow> attach_outcome \<Rightarrow> string list \<Rightarrow> string list \<Rightarrow> attach_outcome" where
  "attach_each fails failed [] done' = Attached done'"
| "attach_each fails failed (p # ps) done' =
     (if fails p then failed else attach_each fails failed ps (done' @ [p]))"

definition attachPrograms ::
    "(string \<Rightarrow> bool) \<Rightarrow> (string \<Rightarrow> bool) \<Rightarrow> string list \<Rightarrow> i64 \<Rightarrow> attach_outcome" where
  "attachPrograms opens fails maps pid =
     (if 0 <s pid
      then
        (case getLibcPath maps of
           None \<Rightarrow> Attach_error
         | Some libcPath \<Rightarrow>
             (if opens libcPath
              then attach_each fails Exited
                     [''malloc_enter'', ''malloc_exit'', ''free_enter'', ''calloc_enter'',
                      ''calloc_exit'', ''realloc_enter'', ''realloc_exit''] []
              else Attach_error))
      else attach_each fails Attach_error [''memleak__kmalloc'', ''memleak__kfree''] [])"

subsection \<open>Printing a stack\<close>

text \<open>The lines for the addresses of a stack; zeros fill the rest of the array.\<close>

definition stack_frames :: "(u64 \<Rightarrow> sym_error + string) \<Rightarrow> u64 list \<Rightarrow> string list" where
  "stack_frames resolve stackTrace =
     map (\<lambda>pc. case resolve pc of
                 Inl e \<Rightarrow> ''0x'' @ hex pc @ '' [unknown]''
               | Inr name \<Rightarrow> ''0x'' @ hex pc @ '' '' @ name) (filter (\<lambda>pc. pc \<noteq> 0) stackTrace)"

subsection \<open>What is loaded and attached\<close>

text \<open>The globals after loading: a flag that is zero leaves the default of the object file, so that
  a maximal size of zero means no limit and a page size of zero the default.\<close>

lemma loaded_config:
  assumes "\<forall>n. \<not> fails n"
  shows "loadObjects fails fl sf = Some
    \<lparr>min_size = fl_min_size fl,
     max_size = (if fl_max_size fl = 0 then - 1 else fl_max_size fl),
     page_size = (if fl_page_size fl = 0 then 4096 else fl_page_size fl),
     sample_rate = fl_sample_rate fl, trace_all = fl_trace_all fl, stack_flags = sf,
     wa_missing_free = fl_wa_missing_free fl,
     target_pid = (if 0 <s fl_pid fl then ucast (fl_pid fl) else 0)\<rparr>"
  using assms by (auto simp: loadObjects_def set_variable_def default_config_def word_gt_0)

lemma load_fails_only_if_set:
  "loadObjects fails default_flags 0 = None \<longleftrightarrow>
     fails ''max_size'' \<or> fails ''page_size'' \<or> fails ''sample_rate''"
  by (simp add: loadObjects_def set_variable_def default_flags_def word_sless_alt word_gt_0)

lemma attach_each_result:
  "attach_each fails failed ps done' =
     (if \<exists>p\<in>set ps. fails p then failed else Attached (done' @ ps))"
  by (induction ps arbitrary: done') auto

text \<open>With a process to trace, only the probes of malloc, free, calloc and realloc are attached;
  without, only the tracepoints of kmalloc and kfree.\<close>

lemma attached_programs:
  assumes "attachPrograms opens fails maps pid = Attached ps"
  shows "set ps = (if 0 <s pid
     then {''malloc_enter'', ''malloc_exit'', ''free_enter'', ''calloc_enter'', ''calloc_exit'',
           ''realloc_enter'', ''realloc_exit''}
     else {''memleak__kmalloc'', ''memleak__kfree''})"
  using assms
  by (auto simp: attachPrograms_def attach_each_result split: option.splits if_splits)

end
