(* ===== verification/StackMap.thy ===== *)
theory StackMap
  imports Loader MemleakTypes
begin

text \<open>
  The map \<open>stack_traces\<close> of \<open>memleak.bpf.c\<close>. Its entries are made by the kernel, inside
  \<open>bpf_get_stackid\<close>, and read by user space: both are parameters (\<open>stack_ops\<close>), with what is
  documented of them as the locale \<open>bpf_stack_map\<close>. A table of hashed stacks, as the kernel keeps
  one, shows that these laws can hold; it models no source code.
\<close>

lemma uint_above [simp]: "c \<le> 0 \<Longrightarrow> c \<le> uint w" "c < 0 \<Longrightarrow> c < uint w"
  by (rule order_trans, assumption, rule uint_ge_0) (rule less_le_trans, assumption, rule uint_ge_0)

record 'st stack_ops =
  st_valid :: "'st \<Rightarrow> bool"
  st_get :: "'st \<Rightarrow> u64 \<Rightarrow> u64 list \<Rightarrow> i64 \<times> 'st"
  st_lookup :: "'st \<Rightarrow> u32 \<Rightarrow> u64 list option"

definition BPF_F_FAST_STACK_CMP :: u64 where "BPF_F_FAST_STACK_CMP = 512"
definition BPF_F_REUSE_STACKID :: u64 where "BPF_F_REUSE_STACKID = 1024"

text \<open>Flags with which two stacks never share an id.\<close>

definition keeps_stacks :: "u64 \<Rightarrow> bool" where
  "keeps_stacks f \<longleftrightarrow> f AND BPF_F_FAST_STACK_CMP = 0 \<and> f AND BPF_F_REUSE_STACKID = 0"

lemma stackFlag_keeps: "keeps_stacks (stackFlag pid)"
  by (simp add: keeps_stacks_def stackFlag_def BPF_F_USER_STACK_def BPF_F_FAST_STACK_CMP_def
      BPF_F_REUSE_STACKID_def)

text \<open>The value of an entry, an array of \<open>MAX_STACK_DEPTH\<close> addresses: longer stacks are cut.\<close>

definition stack_value :: "u64 list \<Rightarrow> u64 list" where
  "stack_value stk =
     take MAX_STACK_DEPTH stk @ replicate (MAX_STACK_DEPTH - length stk) 0"

lemma length_stack_value: "length (stack_value stk) = MAX_STACK_DEPTH"
  by (simp add: stack_value_def)

text \<open>The frames that are printed of an entry: zeros are skipped.\<close>

lemma stack_value_frames:
  "filter (\<lambda>pc. pc \<noteq> 0) (stack_value stk) = filter (\<lambda>pc. pc \<noteq> 0) (take MAX_STACK_DEPTH stk)"
  by (simp add: stack_value_def)

text \<open>
  A successful \<open>bpf_get_stackid\<close> returns an index of the map, below the sign bit of an int, where
  the stack is stored then and, without the flags above, from then on; a failed one returns a
  small negative error and changes nothing that is stored.
\<close>

locale bpf_stack_map =
  fixes ops :: "'st stack_ops"
  assumes get_valid: "st_valid ops m \<Longrightarrow> st_valid ops (snd (st_get ops m f stk))"
    and get_range: "st_valid ops m \<Longrightarrow>
          - 4096 < sint (fst (st_get ops m f stk)) \<and> sint (fst (st_get ops m f stk)) < 2 ^ 31"
    and get_stored: "st_valid ops m \<Longrightarrow> keeps_stacks f \<Longrightarrow> 0 \<le> sint (fst (st_get ops m f stk)) \<Longrightarrow>
          st_lookup ops (snd (st_get ops m f stk)) (ucast (fst (st_get ops m f stk))) =
            Some (stack_value stk)"
    and get_keeps: "st_valid ops m \<Longrightarrow> keeps_stacks f \<Longrightarrow> st_lookup ops m k = Some v \<Longrightarrow>
          st_lookup ops (snd (st_get ops m f stk)) k = Some v"
    and lookup_index: "st_valid ops m \<Longrightarrow> st_lookup ops m k = Some v \<Longrightarrow> uint k < 2 ^ 31"
begin

text \<open>The id as the int that a block records has the same value; a negative one has no entry.\<close>

lemma recorded_id:
  assumes "st_valid ops m"
  shows "sint (ucast (fst (st_get ops m f stk)) :: i32) = sint (fst (st_get ops m f stk))"
proof -
  have "(ucast x :: i32) = scast x" for x :: i64
    by (rule bit_word_eqI) (simp add: bit_simps)
  then show ?thesis
    using get_range [OF assms, of f stk]
    by (simp add: signed_scast_eq signed_take_bit_int_eq_self_iff)
qed

lemma negative_unknown:
  assumes "st_valid ops m" and "sint (k :: i32) < 0"
  shows "st_lookup ops m k = None"
proof (rule ccontr)
  assume "st_lookup ops m k \<noteq> None"
  then have "uint k < 2 ^ 31" using lookup_index [OF assms(1)] by blast
  then have "sint k = uint k"
    by (simp add: sint_uint signed_take_bit_int_eq_self_iff)
  then show False using assms(2) by simp
qed

end

subsection \<open>A table of hashed stacks\<close>

text \<open>A stack goes to the bucket of its hash; a bucket taken by another stack is an error
  (\<open>EEXIST\<close>), unless the flags say to compare hashes only or to replace the other.\<close>

type_synonym stack_table = "u32 \<rightharpoonup> u64 list"

definition bucket :: "u64 list \<Rightarrow> u32" where
  "bucket v = ucast (sum_list v) AND 0x3FFF"

definition hashed_get :: "stack_table \<Rightarrow> u64 \<Rightarrow> u64 list \<Rightarrow> i64 \<times> stack_table" where
  "hashed_get m f stk =
     (let v = stack_value stk; k = bucket v
      in case m k of
           None \<Rightarrow> (ucast k, m(k \<mapsto> v))
         | Some w \<Rightarrow>
             if w = v \<or> f AND BPF_F_FAST_STACK_CMP \<noteq> 0 then (ucast k, m)
             else if f AND BPF_F_REUSE_STACKID \<noteq> 0 then (ucast k, m(k \<mapsto> v))
             else (- EEXIST, m))"

definition hashed_stacks :: "stack_table stack_ops" where
  "hashed_stacks =
     \<lparr>st_valid = (\<lambda>m. \<forall>k v. m k = Some v \<longrightarrow> uint k < 2 ^ 14), st_get = hashed_get,
      st_lookup = (\<lambda>m. m)\<rparr>"

lemma bucket_small: "uint (bucket v) < 2 ^ 14"
proof -
  have "bucket v = take_bit 14 (ucast (sum_list v))"
    by (simp add: bucket_def take_bit_eq_mask mask_eq_exp_minus_1)
  then have "uint (bucket v) = take_bit 14 (uint (ucast (sum_list v) :: u32))"
    by (simp only: unsigned_take_bit_eq)
  then show ?thesis using take_bit_int_less_exp [of 14] by simp
qed

lemma bucket_id: "sint (ucast (bucket v) :: i64) = uint (bucket v)"
proof -
  have "uint (ucast (bucket v) :: i64) = uint (bucket v)"
    using bucket_small [of v] by (simp add: unsigned_ucast_eq take_bit_int_eq_self_iff)
  then show ?thesis
    using bucket_small [of v]
    by (simp add: sint_uint signed_take_bit_int_eq_self_iff)
qed

lemma bucket_id32: "(ucast (ucast (bucket v) :: i64) :: u32) = bucket v"
  by (rule bit_word_eqI) (simp add: bit_simps)

interpretation hashed: bpf_stack_map hashed_stacks
proof unfold_locales
  fix m :: stack_table and f stk k v
  assume valid: "st_valid hashed_stacks m"
  note small = bucket_small [of "stack_value stk"]
  show "st_valid hashed_stacks (snd (st_get hashed_stacks m f stk))"
    using valid small
    by (auto simp: hashed_stacks_def hashed_get_def Let_def split: option.split)
  show "- 4096 < sint (fst (st_get hashed_stacks m f stk)) \<and>
      sint (fst (st_get hashed_stacks m f stk)) < 2 ^ 31"
    using small
    by (auto simp: hashed_stacks_def hashed_get_def Let_def bucket_id EEXIST_def split: option.split)
  show "st_lookup hashed_stacks (snd (st_get hashed_stacks m f stk))
      (ucast (fst (st_get hashed_stacks m f stk))) = Some (stack_value stk)"
    if "keeps_stacks f" "0 \<le> sint (fst (st_get hashed_stacks m f stk))"
    using that
    by (auto simp: hashed_stacks_def hashed_get_def Let_def bucket_id bucket_id32 keeps_stacks_def EEXIST_def
        split: option.splits if_splits)
  show "st_lookup hashed_stacks (snd (st_get hashed_stacks m f stk)) k = Some v"
    if "keeps_stacks f" "st_lookup hashed_stacks m k = Some v"
    using that
    by (auto simp: hashed_stacks_def hashed_get_def Let_def keeps_stacks_def split: option.splits)
  show "uint k < 2 ^ 31" if "st_lookup hashed_stacks m k = Some v"
    using that valid by (force simp: hashed_stacks_def)
qed

lemma hashed_stacks_ok: "bpf_stack_map hashed_stacks"
  by (rule hashed.bpf_stack_map_axioms)

end
