(* ===== verification/TrackerSpec.thy ===== *)
theory TrackerSpec
  imports MemleakState
begin

text \<open>
  The specification of the tracker, over the contents of its maps: what noting a request,
  recording a block and forgetting a block mean, without element addresses. The quantity of
  interest is the drift of a stack: the statistics kept for it minus the sum over the blocks
  recorded for it. Forgetting a block never changes a drift; recording one changes it by
  exactly the blocks that are overwritten or do not fit, so that a tracker that neither
  overwrites nor overflows reports exactly its live blocks.
\<close>

text \<open>The key of an allocation's statistics: its int stack id, converted to u64.\<close>

definition stack_key :: "alloc_info \<Rightarrow> u64" where
  "stack_key i = scast (ai_stack_id i)"

definition contribution :: "u64 \<Rightarrow> alloc_info \<Rightarrow> combined_alloc_info" where
  "contribution sid i = (if stack_key i = sid then combined_of_info (ai_size i) 1 else 0)"

subsection \<open>Operations\<close>

definition alloc_admitted :: "config \<Rightarrow> invocation \<Rightarrow> u64 \<Rightarrow> bool" where
  "alloc_admitted cfg I sz \<longleftrightarrow> min_size cfg \<le> sz \<and> sz \<le> max_size cfg \<and>
     (sample_rate cfg \<le> 1 \<or> ktime_enter I mod sample_rate cfg = 0) \<and>
     (target_pid cfg = 0 \<or> current_pid I = target_pid cfg)"

definition spec_enter :: "config \<Rightarrow> invocation \<Rightarrow> u64 \<Rightarrow> contents \<Rightarrow> contents" where
  "spec_enter cfg I sz c =
     (if alloc_admitted cfg I sz
      then c\<lparr>c_sizes := bounded_upd sizes_max_entries (c_sizes c) (current_pid I) sz\<rparr>
      else c)"

definition spec_credit :: "u64 \<Rightarrow> u64 \<Rightarrow> contents \<Rightarrow> contents" where
  "spec_credit sid sz c =
     c\<lparr>c_combined := bounded_upd combined_allocs_max_entries (c_combined c) sid
                        (stack_stats c sid + combined_of_info sz 1)\<rparr>"

definition spec_debit :: "u64 \<Rightarrow> u64 \<Rightarrow> contents \<Rightarrow> contents" where
  "spec_debit sid sz c =
     (case c_combined c sid of
        None \<Rightarrow> c
      | Some ci \<Rightarrow> c\<lparr>c_combined := (c_combined c)(sid \<mapsto> ci - combined_of_info sz 1)\<rparr>)"

definition spec_record :: "u64 \<Rightarrow> alloc_info \<Rightarrow> contents \<Rightarrow> contents" where
  "spec_record addr i c =
     spec_credit (stack_key i) (ai_size i)
       (c\<lparr>c_allocs := bounded_upd allocs_max_entries (c_allocs c) addr i\<rparr>)"

definition exit_info :: "config \<Rightarrow> invocation \<Rightarrow> u64 \<Rightarrow> alloc_info" where
  "exit_info cfg I sz =
     \<lparr>ai_size = sz, ai_timestamp_ns = ktime_exit I,
      ai_stack_id = ucast (get_stackid I (stack_flags cfg))\<rparr>"

definition spec_exit :: "config \<Rightarrow> invocation \<Rightarrow> u64 \<Rightarrow> contents \<Rightarrow> contents" where
  "spec_exit cfg I addr c =
     (case c_sizes c (current_pid I) of
        None \<Rightarrow> c
      | Some sz \<Rightarrow>
          (let c' = c\<lparr>c_sizes := (c_sizes c)(current_pid I := None)\<rparr>
           in if addr = 0 then c' else spec_record addr (exit_info cfg I sz) c'))"

definition spec_free :: "u64 \<Rightarrow> contents \<Rightarrow> contents" where
  "spec_free addr c =
     (case c_allocs c addr of
        None \<Rightarrow> c
      | Some i \<Rightarrow> spec_debit (stack_key i) (ai_size i)
                   (c\<lparr>c_allocs := (c_allocs c)(addr := None)\<rparr>))"

lemmas spec_ops_defs = spec_enter_def spec_exit_def spec_free_def spec_record_def spec_credit_def
  spec_debit_def

subsection \<open>Drift\<close>

definition expected_stats :: "contents \<Rightarrow> u64 \<Rightarrow> combined_alloc_info" where
  "expected_stats c sid = map_sum (contribution sid) (c_allocs c)"

definition drift :: "contents \<Rightarrow> u64 \<Rightarrow> combined_alloc_info" where
  "drift c sid = stack_stats c sid - expected_stats c sid"

text \<open>Every recorded block has an entry for its stack, so its release is always accounted.\<close>

definition covered :: "contents \<Rightarrow> bool" where
  "covered c \<longleftrightarrow> finite (dom (c_allocs c)) \<and>
     (\<forall>a i. c_allocs c a = Some i \<longrightarrow> c_combined c (stack_key i) \<noteq> None)"

lemma covered_finite: "covered c \<Longrightarrow> finite (dom (c_allocs c))"
  by (simp add: covered_def)

lemma spec_enter_frame [simp]:
  "c_allocs (spec_enter cfg I sz c) = c_allocs c"
  "c_combined (spec_enter cfg I sz c) = c_combined c"
  "c_memptrs (spec_enter cfg I sz c) = c_memptrs c"
  by (simp_all add: spec_enter_def)

lemma spec_enter_drift [simp]: "drift (spec_enter cfg I sz c) = drift c"
  by (simp add: drift_def expected_stats_def stack_stats_def fun_eq_iff)

lemma spec_enter_covered [simp]: "covered (spec_enter cfg I sz c) = covered c"
  by (simp add: covered_def)

lemma spec_free_frame [simp]:
  "c_sizes (spec_free addr c) = c_sizes c" "c_memptrs (spec_free addr c) = c_memptrs c"
  by (simp_all add: spec_free_def spec_debit_def split: option.splits)

lemma spec_free_allocs [simp]: "c_allocs (spec_free addr c) = (c_allocs c)(addr := None)"
  by (auto simp: spec_free_def spec_debit_def split: option.splits)

lemma spec_free_stats:
  assumes "covered c"
  shows "stack_stats (spec_free addr c) sid =
           stack_stats c sid - share (contribution sid) (c_allocs c addr)"
proof (cases "c_allocs c addr")
  case None
  then show ?thesis by (simp add: spec_free_def)
next
  case (Some i)
  with assms obtain ci where "c_combined c (stack_key i) = Some ci"
    by (fastforce simp: covered_def)
  with Some show ?thesis
    by (auto simp: spec_free_def spec_debit_def stack_stats_def contribution_def)
qed

lemma spec_free_drift:
  "covered c \<Longrightarrow> drift (spec_free addr c) = drift c"
  by (rule ext)
    (simp add: drift_def spec_free_stats expected_stats_def map_sum_del covered_finite)

text \<open>A block whose stack has no statistics cannot be taken out of them.\<close>

definition uncounted :: "u64 \<Rightarrow> contents \<Rightarrow> u64 \<Rightarrow> combined_alloc_info" where
  "uncounted sid c addr =
     (case c_allocs c addr of
        None \<Rightarrow> 0
      | Some i \<Rightarrow> if c_combined c (stack_key i) = None then contribution sid i else 0)"

lemma spec_free_drift_all:
  assumes "finite (dom (c_allocs c))"
  shows "drift (spec_free addr c) sid = drift c sid + uncounted sid c addr"
proof (cases "c_allocs c addr")
  case None
  then show ?thesis by (simp add: spec_free_def uncounted_def)
next
  case (Some i)
  have "expected_stats (spec_free addr c) sid = expected_stats c sid - contribution sid i"
    using assms Some
    by (simp add: expected_stats_def spec_free_def spec_debit_def map_sum_del split: option.split)
  moreover have "stack_stats (spec_free addr c) sid =
      stack_stats c sid - (if c_combined c (stack_key i) = None then 0 else contribution sid i)"
    using Some
    by (auto simp: spec_free_def spec_debit_def stack_stats_def contribution_def split: option.split)
  ultimately show ?thesis using Some by (simp add: drift_def uncounted_def)
qed

lemma spec_free_covered: "covered c \<Longrightarrow> covered (spec_free addr c)"
  by (auto simp: covered_def spec_free_def spec_debit_def split: option.splits if_splits)

subsection \<open>Recording a block\<close>

definition has_room :: "contents \<Rightarrow> u64 \<Rightarrow> alloc_info \<Rightarrow> bool" where
  "has_room c addr i \<longleftrightarrow>
     (c_allocs c addr \<noteq> None \<or> card (dom (c_allocs c)) < allocs_max_entries) \<and>
     (c_combined c (stack_key i) \<noteq> None \<or>
      card (dom (c_combined c)) < combined_allocs_max_entries)"

lemma spec_record_frame [simp]:
  "c_sizes (spec_record addr i c) = c_sizes c" "c_memptrs (spec_record addr i c) = c_memptrs c"
  by (simp_all add: spec_record_def spec_credit_def)

lemma spec_record_allocs:
  "c_allocs (spec_record addr i c) = bounded_upd allocs_max_entries (c_allocs c) addr i"
  by (simp add: spec_record_def spec_credit_def)

lemma spec_record_combined:
  "c_combined (spec_record addr i c) =
     bounded_upd combined_allocs_max_entries (c_combined c) (stack_key i)
       (stack_stats c (stack_key i) + combined_of_info (ai_size i) 1)"
  by (simp add: spec_record_def spec_credit_def stack_stats_def)

lemma spec_record_stats:
  "c_combined c (stack_key i) \<noteq> None \<or> card (dom (c_combined c)) < combined_allocs_max_entries \<Longrightarrow>
     stack_stats (spec_record addr i c) sid = stack_stats c sid + contribution sid i"
  by (simp add: spec_record_def spec_credit_def stack_stats_def bounded_upd_def contribution_def)

text \<open>With room, the drift grows by exactly the block that is overwritten, if there is one.\<close>

lemma spec_record_drift:
  assumes "covered c" and "has_room c addr i"
  shows "drift (spec_record addr i c) sid = drift c sid + share (contribution sid) (c_allocs c addr)"
proof -
  have "expected_stats (spec_record addr i c) sid =
      expected_stats c sid + contribution sid i - share (contribution sid) (c_allocs c addr)"
    using assms by (simp add: expected_stats_def spec_record_allocs bounded_upd_def has_room_def
        map_sum_upd covered_finite)
  with assms(2) show ?thesis
    by (simp add: drift_def spec_record_stats has_room_def)
qed

text \<open>When \<open>allocs\<close> is full a new block is counted but not stored, and stays counted.\<close>

lemma spec_record_drift_full:
  assumes "covered c" and "c_allocs c addr = None"
    and "allocs_max_entries \<le> card (dom (c_allocs c))"
    and "c_combined c (stack_key i) \<noteq> None \<or> card (dom (c_combined c)) < combined_allocs_max_entries"
  shows "drift (spec_record addr i c) sid = drift c sid + contribution sid i"
  using assms by (simp add: drift_def spec_record_stats expected_stats_def spec_record_allocs
      bounded_upd_def)

lemma spec_record_covered:
  assumes "covered c" and "c_combined c (stack_key i) \<noteq> None \<or>
      card (dom (c_combined c)) < combined_allocs_max_entries"
  shows "covered (spec_record addr i c)"
  using assms
  by (auto simp: covered_def spec_record_def spec_credit_def finite_bounded_upd
      bounded_upd_def split: if_splits)

subsection \<open>Accounted trackers\<close>

definition accounted :: "contents \<Rightarrow> bool" where
  "accounted c \<longleftrightarrow> covered c \<and> (\<forall>sid. drift c sid = 0)"

lemma accounted_stats: "accounted c \<Longrightarrow> stack_stats c sid = expected_stats c sid"
  by (simp add: accounted_def drift_def)

lemma accounted_enter: "accounted (spec_enter cfg I sz c) = accounted c"
  by (simp add: accounted_def)

lemma accounted_free: "accounted c \<Longrightarrow> accounted (spec_free addr c)"
  by (simp add: accounted_def spec_free_covered spec_free_drift)

lemma accounted_sizes: "accounted (c\<lparr>c_sizes := m\<rparr>) = accounted c"
  by (simp add: accounted_def covered_def drift_def stack_stats_def expected_stats_def)

lemma accounted_memptrs: "accounted (c\<lparr>c_memptrs := m\<rparr>) = accounted c"
  by (simp add: accounted_def covered_def drift_def stack_stats_def expected_stats_def)

lemma accounted_record:
  "accounted c \<Longrightarrow> has_room c addr i \<Longrightarrow> c_allocs c addr = None \<Longrightarrow> accounted (spec_record addr i c)"
  by (simp add: accounted_def spec_record_drift spec_record_covered has_room_def)

lemma accounted_exit:
  assumes "accounted c"
    and "\<And>sz. c_sizes c (current_pid I) = Some sz \<Longrightarrow> addr \<noteq> 0 \<Longrightarrow>
      has_room c addr (exit_info cfg I sz) \<and> c_allocs c addr = None"
  shows "accounted (spec_exit cfg I addr c)"
  using assms
  by (auto simp: spec_exit_def Let_def accounted_sizes has_room_def
      intro!: accounted_record split: option.splits)

text \<open>An accounted tracker reports the exact totals while they fit the bit-fields.\<close>

definition outstanding_bytes :: "contents \<Rightarrow> u64 \<Rightarrow> nat" where
  "outstanding_bytes c sid = map_sum (\<lambda>i. if stack_key i = sid then unat (ai_size i) else 0) (c_allocs c)"

definition outstanding_count :: "contents \<Rightarrow> u64 \<Rightarrow> nat" where
  "outstanding_count c sid = map_sum (\<lambda>i. if stack_key i = sid then 1 else 0) (c_allocs c)"

context combined_reader
begin

lemma read_accounted:
  assumes "accounted c" and "outstanding_bytes c sid < 2 ^ 40" and "outstanding_count c sid < 2 ^ 24"
  shows "read_total (stack_stats c sid) = outstanding_bytes c sid"
    and "read_number (stack_stats c sid) = outstanding_count c sid"
proof -
  have "stack_stats c sid =
      map_sum (\<lambda>i. if stack_key i = sid then combined_of_info (ai_size i) 1 else 0) (c_allocs c)"
    using accounted_stats [OF assms(1), of sid] by (simp add: expected_stats_def contribution_def [abs_def])
  moreover have "finite (dom (c_allocs c))"
    using assms(1) by (simp add: accounted_def covered_def)
  ultimately show "read_total (stack_stats c sid) = outstanding_bytes c sid"
    and "read_number (stack_stats c sid) = outstanding_count c sid"
    using assms(2,3) read_map_sum [of "c_allocs c" "\<lambda>i. stack_key i = sid" ai_size]
    by (simp_all add: outstanding_bytes_def outstanding_count_def)
qed

end

subsection \<open>Filters\<close>

text \<open>
  Only admitted requests are noted, so every recorded block passed the size filter, and with a
  target only the target's requests are noted. The NULL address is never recorded.
\<close>

definition within_filter :: "config \<Rightarrow> u64 \<Rightarrow> bool" where
  "within_filter cfg sz \<longleftrightarrow> min_size cfg \<le> sz \<and> sz \<le> max_size cfg"

definition filtered :: "config \<Rightarrow> contents \<Rightarrow> bool" where
  "filtered cfg c \<longleftrightarrow>
     (\<forall>p sz. c_sizes c p = Some sz \<longrightarrow> within_filter cfg sz \<and> (target_pid cfg = 0 \<or> p = target_pid cfg)) \<and>
     (\<forall>a i. c_allocs c a = Some i \<longrightarrow> a \<noteq> 0 \<and> within_filter cfg (ai_size i))"

lemma filtered_enter: "filtered cfg c \<Longrightarrow> filtered cfg (spec_enter cfg I sz c)"
  by (auto simp: filtered_def spec_enter_def alloc_admitted_def within_filter_def
      dest!: bounded_upd_values)

lemma filtered_free: "filtered cfg c \<Longrightarrow> filtered cfg (spec_free addr c)"
  by (simp add: filtered_def)

lemma filtered_record:
  "filtered cfg c \<Longrightarrow> addr \<noteq> 0 \<Longrightarrow> within_filter cfg (ai_size i) \<Longrightarrow> filtered cfg (spec_record addr i c)"
  by (auto simp: filtered_def spec_record_allocs dest!: bounded_upd_values)

lemma filtered_forget: "filtered cfg c \<Longrightarrow> filtered cfg (c\<lparr>c_sizes := (c_sizes c)(p := None)\<rparr>)"
  by (simp add: filtered_def)

lemma filtered_memptrs: "filtered cfg (c\<lparr>c_memptrs := m\<rparr>) = filtered cfg c"
  by (simp add: filtered_def)

lemma filtered_exit: "filtered cfg c \<Longrightarrow> filtered cfg (spec_exit cfg I addr c)"
  unfolding spec_exit_def Let_def
  by (auto split: option.splits intro!: filtered_record filtered_forget simp: exit_info_def)
    (auto simp: filtered_def)

subsection \<open>Capacities\<close>

text \<open>
  No map outgrows its declared capacity, and a recorded block without a statistics entry exists
  only once \<open>combined_allocs\<close> is full: its entries are never removed.
\<close>

definition within_capacity :: "contents \<Rightarrow> bool" where
  "within_capacity c \<longleftrightarrow>
     finite (dom (c_sizes c)) \<and> card (dom (c_sizes c)) \<le> sizes_max_entries \<and>
     finite (dom (c_allocs c)) \<and> card (dom (c_allocs c)) \<le> allocs_max_entries \<and>
     finite (dom (c_combined c)) \<and> card (dom (c_combined c)) \<le> combined_allocs_max_entries \<and>
     finite (dom (c_memptrs c)) \<and> card (dom (c_memptrs c)) \<le> memptrs_max_entries"

definition covered_or_full :: "contents \<Rightarrow> bool" where
  "covered_or_full c \<longleftrightarrow>
     (\<forall>a i. c_allocs c a = Some i \<longrightarrow> c_combined c (stack_key i) \<noteq> None \<or>
        combined_allocs_max_entries \<le> card (dom (c_combined c)))"

lemma capacity_enter: "within_capacity c \<Longrightarrow> within_capacity (spec_enter cfg I n c)"
  by (simp add: within_capacity_def spec_enter_def finite_bounded_upd card_bounded_upd)

lemma capacity_debit: "within_capacity c \<Longrightarrow> within_capacity (spec_debit sid n c)"
  by (auto simp: within_capacity_def spec_debit_def insert_absorb domI split: option.split)

lemma capacity_free: "within_capacity c \<Longrightarrow> within_capacity (spec_free a c)"
  by (auto simp: spec_free_def intro!: capacity_debit split: option.split)
    (auto simp: within_capacity_def intro: le_trans [OF card_Diff1_le])

lemma capacity_record: "within_capacity c \<Longrightarrow> within_capacity (spec_record a i c)"
  by (simp add: within_capacity_def spec_record_def spec_credit_def finite_bounded_upd
      card_bounded_upd)

lemma capacity_forget: "within_capacity c \<Longrightarrow> within_capacity (c\<lparr>c_sizes := (c_sizes c)(p := None)\<rparr>)"
  by (auto simp: within_capacity_def intro: le_trans [OF card_Diff1_le])

lemma capacity_exit: "within_capacity c \<Longrightarrow> within_capacity (spec_exit cfg I a c)"
  by (simp add: spec_exit_def Let_def capacity_record capacity_forget split: option.split)

lemma covered_or_full_mono:
  assumes "covered_or_full c" and "finite (dom (c_combined d))"
    and "dom (c_combined c) \<subseteq> dom (c_combined d)"
    and "\<And>a i. c_allocs d a = Some i \<Longrightarrow> c_allocs c a = Some i \<or> c_combined d (stack_key i) \<noteq> None \<or>
        combined_allocs_max_entries \<le> card (dom (c_combined d))"
  shows "covered_or_full d"
  unfolding covered_or_full_def
proof (intro allI impI)
  fix a i
  assume "c_allocs d a = Some i"
  moreover have "card (dom (c_combined c)) \<le> card (dom (c_combined d))"
    using assms(2,3) by (rule card_mono)
  ultimately show "c_combined d (stack_key i) \<noteq> None \<or>
      combined_allocs_max_entries \<le> card (dom (c_combined d))"
    using assms(1,3,4) unfolding covered_or_full_def by (meson domIff in_mono le_trans)
qed

lemma covered_or_full_free:
  "covered_or_full c \<Longrightarrow> within_capacity c \<Longrightarrow> covered_or_full (spec_free a c)"
  by (erule covered_or_full_mono)
    (auto simp: spec_free_def spec_debit_def within_capacity_def split: option.splits if_splits)

lemma covered_or_full_record:
  assumes "covered_or_full c" and "within_capacity c"
  shows "covered_or_full (spec_record a i c)"
  using assms(1)
proof (rule covered_or_full_mono)
  fix b j
  assume "c_allocs (spec_record a i c) b = Some j"
  then have "c_allocs c b = Some j \<or> j = i"
    by (auto simp: spec_record_allocs dest!: bounded_upd_values)
  moreover have "c_combined (spec_record a i c) (stack_key i) \<noteq> None \<or>
      combined_allocs_max_entries \<le> card (dom (c_combined (spec_record a i c)))"
    unfolding spec_record_combined by (rule bounded_upd_present_or_full)
  ultimately show "c_allocs c b = Some j \<or> c_combined (spec_record a i c) (stack_key j) \<noteq> None \<or>
      combined_allocs_max_entries \<le> card (dom (c_combined (spec_record a i c)))"
    by blast
qed (use assms(2) in \<open>simp_all add: spec_record_combined within_capacity_def finite_bounded_upd
    dom_bounded_upd\<close>)

lemma covered_or_full_cong:
  "c_allocs d = c_allocs c \<Longrightarrow> c_combined d = c_combined c \<Longrightarrow> covered_or_full d = covered_or_full c"
  by (simp add: covered_or_full_def)

lemma covered_or_full_exit:
  "covered_or_full c \<Longrightarrow> within_capacity c \<Longrightarrow> covered_or_full (spec_exit cfg I a c)"
  by (auto simp: spec_exit_def Let_def capacity_forget covered_or_full_cong [of "c\<lparr>c_sizes := _\<rparr>" c]
      intro!: covered_or_full_record split: option.split)

end
