(* ===== verification/SlotMap.thy ===== *)
theory SlotMap
  imports MapsBpf "HOL-Library.AList"
begin

text \<open>
  A reference implementation of the hash map interface: a preallocated array of element slots,
  an index from keys to slots and a last-in first-out list of freed slots, as a BPF hash map
  created without BPF_F_NO_PREALLOC keeps them. It shows that the laws of \<open>bpf_prealloc_map\<close>
  can hold, for every capacity, and it is the map on which the witnesses of the development
  run. A deleted element keeps its contents until its slot is taken by the next insertion.
\<close>

record ('k, 'v) slot_map =
  index :: "('k \<times> nat) list"
  freed :: "nat list"
  used :: nat
  elems :: "nat \<Rightarrow> 'v"

definition sm_empty :: "'v \<Rightarrow> ('k, 'v) slot_map" where
  "sm_empty v = \<lparr>index = [], freed = [], used = 0, elems = (\<lambda>_. v)\<rparr>"

definition sm_valid :: "nat \<Rightarrow> ('k, 'v) slot_map \<Rightarrow> bool" where
  "sm_valid cap m \<longleftrightarrow> distinct (map fst (index m)) \<and> distinct (map snd (index m) @ freed m) \<and>
     (\<forall>p\<in>set (map snd (index m) @ freed m). p < used m) \<and>
     length (index m) + length (freed m) = used m \<and> used m \<le> cap"

definition sm_insert :: "('k, 'v) slot_map \<Rightarrow> 'k \<Rightarrow> nat \<Rightarrow> 'v \<Rightarrow> ('k, 'v) slot_map" where
  "sm_insert m k p v = m\<lparr>index := (k, p) # index m, elems := (elems m)(p := v)\<rparr>"

definition sm_update ::
    "nat \<Rightarrow> ('k, 'v) slot_map \<Rightarrow> 'k \<Rightarrow> 'v \<Rightarrow> u64 \<Rightarrow> i64 \<times> ('k, 'v) slot_map" where
  "sm_update cap m k v f =
     (case map_of (index m) k of
        Some p \<Rightarrow> if f = BPF_NOEXIST then (- EEXIST, m)
                   else (0, m\<lparr>elems := (elems m)(p := v)\<rparr>)
      | None \<Rightarrow>
          (case freed m of
             p # ps \<Rightarrow> (0, sm_insert (m\<lparr>freed := ps\<rparr>) k p v)
           | [] \<Rightarrow> if used m < cap then (0, sm_insert (m\<lparr>used := Suc (used m)\<rparr>) k (used m) v)
                    else (- E2BIG, m)))"

definition sm_delete :: "('k, 'v) slot_map \<Rightarrow> 'k \<Rightarrow> i64 \<times> ('k, 'v) slot_map" where
  "sm_delete m k =
     (case map_of (index m) k of
        None \<Rightarrow> (- 2, m)
      | Some p \<Rightarrow> (0, m\<lparr>index := AList.delete k (index m), freed := p # freed m\<rparr>))"

definition sm_ops :: "nat \<Rightarrow> (('k, 'v) slot_map, 'k, 'v) map_ops" where
  "sm_ops cap =
     \<lparr>map_valid = sm_valid cap, lookup_elem = (\<lambda>m. map_of (index m)),
      update_elem = sm_update cap, delete_elem = sm_delete,
      elem_load = elems, elem_store = (\<lambda>m p v. m\<lparr>elems := (elems m)(p := v)\<rparr>)\<rparr>"

lemma alist_delete_entry:
  assumes "distinct (map fst al)" and "(k, p) \<in> set al"
  obtains xs ys where "al = xs @ (k, p) # ys" and "AList.delete k al = xs @ ys"
proof -
  obtain xs ys where al: "al = xs @ (k, p) # ys"
    using assms(2) by (auto simp: in_set_conv_decomp)
  then have "k \<notin> fst ` set xs" "k \<notin> fst ` set ys" using assms(1) by auto
  then have "AList.delete k xs = xs" "AList.delete k ys = ys" by (simp_all add: delete_id)
  moreover have "AList.delete k al = AList.delete k xs @ AList.delete k ys"
    by (simp add: al AList.delete_eq)
  ultimately show ?thesis using that al by simp
qed

lemma sm_ops_simps [simp]:
  "map_valid (sm_ops cap) = sm_valid cap"
  "lookup_elem (sm_ops cap) = (\<lambda>m. map_of (index m))"
  "update_elem (sm_ops cap) = sm_update cap"
  "delete_elem (sm_ops cap) = sm_delete"
  "elem_load (sm_ops cap) = elems"
  "elem_store (sm_ops cap) = (\<lambda>m p v. m\<lparr>elems := (elems m)(p := v)\<rparr>)"
  by (simp_all add: sm_ops_def)

lemma sm_find: "map_find (sm_ops cap) m = (\<lambda>k. map_option (elems m) (map_of (index m) k))"
  by (simp add: map_find_def)

lemma sm_empty_valid [simp]: "sm_valid cap (sm_empty v)"
  by (simp add: sm_valid_def sm_empty_def)

lemma sm_find_empty [simp]: "map_find (sm_ops cap) (sm_empty v) = Map.empty"
  by (simp add: sm_find sm_empty_def)

lemma sm_dom_find: "dom (map_find (sm_ops cap) m) = fst ` set (index m)"
proof -
  have "dom (map_find (sm_ops cap) m) = dom (map_of (index m))"
    by (simp add: sm_find dom_def)
  then show ?thesis by (simp add: dom_map_of_conv_image_fst)
qed

lemma sm_card_find:
  "sm_valid cap m \<Longrightarrow> card (dom (map_find (sm_ops cap) m)) = length (index m)"
  unfolding sm_dom_find by (metis sm_valid_def distinct_card length_map set_map)

text \<open>No two keys share a slot, so a write through an element changes one key only.\<close>

lemma sm_slot_inj:
  assumes "sm_valid cap m" and "map_of (index m) k = Some p" and "map_of (index m) k' = Some p"
  shows "k = k'"
proof -
  have "distinct (map snd (index m))" using assms(1) by (simp add: sm_valid_def)
  moreover have "(k, p) \<in> set (index m)" "(k', p) \<in> set (index m)"
    using assms(2,3) by (auto dest: map_of_SomeD)
  ultimately show ?thesis
    by (metis (no_types, lifting) distinct_map fst_conv inj_onD snd_conv)
qed

lemma sm_slot_live:
  assumes "sm_valid cap m" and "map_of (index m) k = Some p"
  shows "p \<notin> set (freed m)" and "p < used m"
proof -
  have "p \<in> snd ` set (index m)" using assms(2) by (force dest: map_of_SomeD)
  then show "p \<notin> set (freed m)" and "p < used m"
    using assms(1) by (auto simp: sm_valid_def)
qed

lemma sm_find_write:
  assumes "sm_valid cap m" and "map_of (index m) k = Some p"
  shows "map_find (sm_ops cap) (m\<lparr>elems := (elems m)(p := v)\<rparr>) =
           (map_find (sm_ops cap) m)(k \<mapsto> v)"
proof
  fix x
  show "map_find (sm_ops cap) (m\<lparr>elems := (elems m)(p := v)\<rparr>) x =
          ((map_find (sm_ops cap) m)(k \<mapsto> v)) x"
    using sm_slot_inj [OF assms, of x] assms(2)
    by (cases "map_of (index m) x") (auto simp: sm_find)
qed

lemma sm_find_insert:
  assumes "\<forall>q\<in>set (map snd (index m)). q \<noteq> p"
  shows "map_find (sm_ops cap) (sm_insert m k p v) = (map_find (sm_ops cap) m)(k \<mapsto> v)"
proof
  fix x
  show "map_find (sm_ops cap) (sm_insert m k p v) x = ((map_find (sm_ops cap) m)(k \<mapsto> v)) x"
    using assms by (cases "map_of (index m) x") (force simp: sm_find sm_insert_def dest: map_of_SomeD)+
qed

lemma sm_update_cases:
  assumes "sm_valid cap m"
  obtains (present) p where "map_of (index m) k = Some p"
    | (reuse) p ps where "map_of (index m) k = None" "freed m = p # ps"
    | (fresh) "map_of (index m) k = None" "freed m = []" "used m < cap"
    | (full) "map_of (index m) k = None" "freed m = []" "used m = cap" "length (index m) = cap"
  using assms by (cases "map_of (index m) k"; cases "freed m"; cases "used m < cap")
    (auto simp: sm_valid_def)

lemma sm_update_valid:
  assumes "sm_valid cap m" shows "sm_valid cap (snd (sm_update cap m k v f))"
  using assms
proof (cases rule: sm_update_cases [where k = k])
  case (reuse p ps)
  then have "k \<notin> fst ` set (index m)" by (simp add: map_of_eq_None_iff)
  with assms reuse show ?thesis
    by (simp add: sm_update_def sm_insert_def sm_valid_def)
next
  case fresh
  then have "k \<notin> fst ` set (index m)" by (simp add: map_of_eq_None_iff)
  with assms fresh show ?thesis
    by (auto simp: sm_update_def sm_insert_def sm_valid_def less_Suc_eq)
qed (use assms in \<open>auto simp: sm_update_def sm_valid_def\<close>)

lemma sm_update_found:
  assumes "sm_valid cap m" and "fst (sm_update cap m k v f) = 0"
  shows "map_find (sm_ops cap) (snd (sm_update cap m k v f)) = (map_find (sm_ops cap) m)(k \<mapsto> v)"
  using assms(1)
proof (cases rule: sm_update_cases [of cap m k])
  case (present p)
  with assms show ?thesis
    by (auto simp: sm_update_def EEXIST_def sm_find_write split: if_splits)
next
  case (reuse p ps)
  then have "\<forall>q\<in>set (map snd (index m)). q \<noteq> p"
    using assms(1) by (auto simp: sm_valid_def)
  then show ?thesis
    using reuse sm_find_insert [of "m\<lparr>freed := ps\<rparr>" p cap k v]
    by (simp add: sm_update_def sm_find)
next
  case fresh
  then have "\<forall>q\<in>set (map snd (index m)). q \<noteq> used m"
    using assms(1) by (auto simp: sm_valid_def)
  then show ?thesis
    using fresh sm_find_insert [of "m\<lparr>used := Suc (used m)\<rparr>" "used m" cap k v]
    by (simp add: sm_update_def sm_find)
next
  case full
  with assms show ?thesis by (simp add: sm_update_def E2BIG_def)
qed

lemma sm_delete_valid:
  assumes "sm_valid cap m" shows "sm_valid cap (snd (sm_delete m k))"
proof (cases "map_of (index m) k")
  case (Some p)
  have "(k, p) \<in> set (index m)" using Some by (rule map_of_SomeD)
  moreover have "distinct (map fst (index m))" using assms by (simp add: sm_valid_def)
  ultimately obtain xs ys
    where "index m = xs @ (k, p) # ys" "AList.delete k (index m) = xs @ ys"
    by (elim alist_delete_entry)
  then show ?thesis
    using assms Some by (auto simp: sm_delete_def sm_valid_def)
qed (use assms in \<open>simp add: sm_delete_def\<close>)

lemma sm_delete_found:
  "map_find (sm_ops cap) (snd (sm_delete m k)) = (map_find (sm_ops cap) m)(k := None)"
  by (auto simp: sm_delete_def sm_find delete_conv' fun_eq_iff split: option.splits)

lemma sm_update_err:
  assumes "sm_valid cap m"
  shows "fst (sm_update cap m k v f) =
    (if map_find (sm_ops cap) m k \<noteq> None then (if f = BPF_NOEXIST then - EEXIST else 0)
     else if card (dom (map_find (sm_ops cap) m)) < cap then 0 else - E2BIG)"
  using assms
proof (cases rule: sm_update_cases [where k = k])
  case (reuse p ps)
  then have "length (index m) < cap" using assms by (simp add: sm_valid_def)
  then show ?thesis
    using reuse by (simp add: sm_update_def sm_find [of cap m] sm_card_find [OF assms, symmetric])
next
  case fresh
  then have "length (index m) < cap" using assms by (simp add: sm_valid_def)
  then show ?thesis
    using fresh by (simp add: sm_update_def sm_find [of cap m] sm_card_find [OF assms, symmetric])
next
  case full
  then show ?thesis
    by (simp add: sm_update_def sm_find [of cap m] sm_card_find [OF assms, symmetric])
qed (auto simp: sm_update_def sm_find)

lemma sm_update_failed:
  "sm_valid cap m \<Longrightarrow> fst (sm_update cap m k v f) \<noteq> 0 \<Longrightarrow> snd (sm_update cap m k v f) = m"
  by (auto simp: sm_update_def split: option.splits list.splits if_splits)

lemma sm_store_valid:
  "sm_valid cap m \<Longrightarrow> sm_valid cap (m\<lparr>elems := e\<rparr>)"
  by (simp add: sm_valid_def)

interpretation slot: bpf_prealloc_map "sm_ops cap" cap
proof unfold_locales
  fix m :: "('a, 'b) slot_map" and k v f p
  assume valid: "map_valid (sm_ops cap) m"
  note sm = valid [unfolded sm_ops_simps]
  show "map_valid (sm_ops cap) (snd (update_elem (sm_ops cap) m k v f))"
    and "map_valid (sm_ops cap) (snd (delete_elem (sm_ops cap) m k))"
    and "map_valid (sm_ops cap) (elem_store (sm_ops cap) m p v)"
    using sm by (simp_all add: sm_update_valid sm_delete_valid sm_store_valid)
  show "finite (dom (map_find (sm_ops cap) m))"
    by (simp add: sm_dom_find)
  show "fst (update_elem (sm_ops cap) m k v f) = 0 \<Longrightarrow>
      map_find (sm_ops cap) (snd (update_elem (sm_ops cap) m k v f)) =
        (map_find (sm_ops cap) m)(k \<mapsto> v)"
    using sm_update_found [OF sm] by simp
  show "fst (update_elem (sm_ops cap) m k v f) \<noteq> 0 \<Longrightarrow>
      map_find (sm_ops cap) (snd (update_elem (sm_ops cap) m k v f)) = map_find (sm_ops cap) m"
    using sm_update_failed [OF sm] by simp
  show "map_find (sm_ops cap) m k \<noteq> None \<Longrightarrow>
      fst (update_elem (sm_ops cap) m k v BPF_NOEXIST) = - EEXIST"
    and "map_find (sm_ops cap) m k = None \<Longrightarrow>
      fst (update_elem (sm_ops cap) m k v f) \<noteq> - EEXIST"
    and "map_find (sm_ops cap) m k \<noteq> None \<Longrightarrow>
      fst (update_elem (sm_ops cap) m k v BPF_ANY) = 0"
    and "map_find (sm_ops cap) m k = None \<Longrightarrow> card (dom (map_find (sm_ops cap) m)) < cap \<Longrightarrow>
      fst (update_elem (sm_ops cap) m k v f) = 0"
    and "map_find (sm_ops cap) m k = None \<Longrightarrow> cap \<le> card (dom (map_find (sm_ops cap) m)) \<Longrightarrow>
      fst (update_elem (sm_ops cap) m k v f) = - E2BIG"
    using sm_update_err [OF sm] by (simp_all add: EEXIST_def E2BIG_def BPF_ANY_def BPF_NOEXIST_def)
  show "map_find (sm_ops cap) (snd (delete_elem (sm_ops cap) m k)) =
      (map_find (sm_ops cap) m)(k := None)"
    by (simp add: sm_delete_found)
  show "elem_load (sm_ops cap) (snd (delete_elem (sm_ops cap) m k)) p =
      elem_load (sm_ops cap) m p"
    by (simp add: sm_delete_def split: option.splits)
  show "lookup_elem (sm_ops cap) m k = Some p \<Longrightarrow>
      map_find (sm_ops cap) (elem_store (sm_ops cap) m p v) = (map_find (sm_ops cap) m)(k \<mapsto> v)"
    using sm_find_write [OF sm] by simp
qed

interpretation slot_stable: bpf_stable_map "sm_ops cap" cap
proof unfold_locales
  fix m :: "('a, 'b) slot_map" and k k' v p
  assume valid: "map_valid (sm_ops cap) m"
  show "lookup_elem (sm_ops cap) m k = Some p \<Longrightarrow>
      lookup_elem (sm_ops cap) (snd (update_elem (sm_ops cap) m k' v BPF_NOEXIST)) k = Some p"
    by (auto simp: sm_update_def sm_insert_def split: option.splits list.splits)
  show "lookup_elem (sm_ops cap) (elem_store (sm_ops cap) m p v) k = lookup_elem (sm_ops cap) m k"
    by simp
  show "lookup_elem (sm_ops cap) m k = Some p \<Longrightarrow> lookup_elem (sm_ops cap) m k' = Some p \<Longrightarrow> k = k'"
    using sm_slot_inj [of cap m k p k'] valid by simp
qed

interpretation slot_elements: bpf_element_map "sm_ops cap" cap
proof unfold_locales
  fix m :: "('a, 'b) slot_map" and k k' v f p
  show "lookup_elem (sm_ops cap) m k = Some p \<Longrightarrow> k \<noteq> k' \<Longrightarrow>
      lookup_elem (sm_ops cap) (snd (update_elem (sm_ops cap) m k' v f)) k = Some p"
    by (auto simp: sm_update_def sm_insert_def split: option.splits list.splits)
  show "lookup_elem (sm_ops cap) m k = Some p \<Longrightarrow> k \<noteq> k' \<Longrightarrow>
      lookup_elem (sm_ops cap) (snd (delete_elem (sm_ops cap) m k')) k = Some p"
    by (simp add: sm_delete_def delete_conv' split: option.split)
  show "elem_load (sm_ops cap) (snd (delete_elem (sm_ops cap) m k)) p = elem_load (sm_ops cap) m p"
    by (simp add: sm_delete_def split: option.split)
qed

text \<open>A full map: keys \<open>key 0, key 1, \<dots>\<close>, all holding the same value.\<close>

definition sm_full :: "(nat \<Rightarrow> 'k) \<Rightarrow> nat \<Rightarrow> 'v \<Rightarrow> ('k, 'v) slot_map" where
  "sm_full key cap v =
     \<lparr>index = map (\<lambda>i. (key i, i)) [0..<cap], freed = [], used = cap, elems = (\<lambda>_. v)\<rparr>"

lemma sm_full_valid: "inj_on key {..<cap} \<Longrightarrow> sm_valid cap (sm_full key cap v)"
  by (simp add: sm_valid_def sm_full_def comp_def distinct_map atLeast0LessThan)

lemma sm_full_find:
  "map_find (sm_ops n) (sm_full key cap v) = (\<lambda>k. if k \<in> key ` {..<cap} then Some v else None)"
proof
  fix k
  have "dom (map_of (index (sm_full key cap v))) = key ` {..<cap}"
    by (simp add: sm_full_def dom_map_of_conv_image_fst image_image atLeast0LessThan)
  then have "k \<in> key ` {..<cap} \<longleftrightarrow> map_of (index (sm_full key cap v)) k \<noteq> None" by blast
  then show "map_find (sm_ops n) (sm_full key cap v) k =
      (if k \<in> key ` {..<cap} then Some v else None)"
    by (auto simp: sm_find sm_full_def [of key cap v])
qed

end
