(* ===== verification/SlotKernel.thy ===== *)
theory SlotKernel
  imports MemleakState SlotMap
begin

text \<open>
  A kernel with the reference maps of \<open>SlotMap\<close>, at the capacities the program declares, and
  the state of the program right after loading. The kernel assumptions hold for it, and the
  witnesses of the development run on it.
\<close>

type_synonym slot_tracker =
  "((i32, u64) slot_map, (u64, alloc_info) slot_map, (u64, combined_alloc_info) slot_map,
    (u64, u64) slot_map) tracker"

definition slot_kernel ::
    "((i32, u64) slot_map, (u64, alloc_info) slot_map, (u64, combined_alloc_info) slot_map,
      (u64, u64) slot_map) kernel" where
  "slot_kernel =
     \<lparr>sizes_ops = sm_ops sizes_max_entries, allocs_ops = sm_ops allocs_max_entries,
      combined_allocs_ops = sm_ops combined_allocs_max_entries,
      memptrs_ops = sm_ops memptrs_max_entries\<rparr>"

definition slot_init :: slot_tracker where
  "slot_init =
     \<lparr>sizes = sm_empty 0,
      allocs = sm_empty \<lparr>ai_size = 0, ai_timestamp_ns = 0, ai_stack_id = 0\<rparr>,
      combined_allocs = sm_empty 0, memptrs = sm_empty 0, trace_pipe = []\<rparr>"

definition no_contents :: contents where
  "no_contents = \<lparr>c_sizes = Map.empty, c_allocs = Map.empty, c_combined = Map.empty,
                  c_memptrs = Map.empty\<rparr>"

interpretation slotk: memleak_kernel slot_kernel
  unfolding memleak_kernel_def slot_kernel_def
  by (simp add: slot.bpf_prealloc_map_axioms)

interpretation slot_stats: stats_map "sm_ops cap" cap
  by (rule stats_map.intro, rule slot_stable.bpf_stable_map_axioms)

interpretation slotk_smp: memleak_smp slot_kernel
  by (intro memleak_smp.intro slotk.memleak_kernel_axioms)
    (simp add: slot_kernel_def slot_stats.stats_map_axioms)

lemma slot_kernel_smp: "memleak_smp slot_kernel"
  by (rule slotk_smp.memleak_smp_axioms)

interpretation slotk_concurrent: memleak_concurrent slot_kernel
  by (intro memleak_concurrent.intro slotk_smp.memleak_smp_axioms)
    (simp_all add: slot_kernel_def slot_elements.bpf_element_map_axioms)

lemma slot_kernel_concurrent: "memleak_concurrent slot_kernel"
  by (rule slotk_concurrent.memleak_concurrent_axioms)

lemma slot_kernel_ok: "memleak_kernel slot_kernel"
  by (rule slotk.memleak_kernel_axioms)

lemma slot_init_valid [simp]: "maps_valid slot_kernel slot_init"
  by (simp add: maps_valid_def slot_kernel_def slot_init_def)

lemma slot_init_contents [simp]: "contents_of slot_kernel slot_init = no_contents"
  by (simp add: contents_of_def slot_kernel_def slot_init_def no_contents_def)

text \<open>An invocation by process 7, thread 9, used in the witnesses.\<close>

definition call :: "u64 \<Rightarrow> u64 \<Rightarrow> invocation" where
  "call rc stackid =
     \<lparr>current_pid_tgid = push_bit 32 7 OR 9, ktime_enter = 100, ktime_exit = 200,
      get_stackid = (\<lambda>_. stackid), regs_rc = rc, probe_read_user = (\<lambda>_. None)\<rparr>"

lemma call_simps [simp]:
  "current_pid (call rc sid) = 7" "current_pid64 (call rc sid) = 7"
  "ktime_enter (call rc sid) = 100" "ktime_exit (call rc sid) = 200"
  "get_stackid (call rc sid) f = sid" "regs_rc (call rc sid) = rc"
  "probe_read_user (call rc sid) a = None"
  by (simp_all add: call_def current_pid_def current_pid64_def)

end
