(* ===== verification/MemleakCore.thy ===== *)
theory MemleakCore
  imports TrackerSpec SlotKernel
begin

text \<open>
  The common operations of \<open>bpf/memleak.bpf.c\<close>: the two statistics updates and
  \<open>gen_alloc_enter\<close>, \<open>gen_alloc_exit2\<close>, \<open>gen_alloc_exit\<close>, \<open>gen_free_enter\<close>, on which every
  attached program is built. They work on the elements of the maps through the addresses the
  helpers return. In the locale \<open>memleak_kernel\<close> each is shown to keep the maps valid and to
  act on their contents as the specification of \<open>TrackerSpec\<close> says.
\<close>

definition update_statistics_add ::
    "('ms, 'ma, 'mc, 'mp) kernel \<Rightarrow> u64 \<Rightarrow> u64 \<Rightarrow>
     ('ms, 'ma, 'mc, 'mp) tracker \<Rightarrow> ('ms, 'ma, 'mc, 'mp) tracker" where
  "update_statistics_add K stack_id sz s =
     (let (p, m) = bpf_map_lookup_or_try_init (combined_allocs_ops K) (combined_allocs s)
                     stack_id initial_cinfo;
          s1 = s\<lparr>combined_allocs := m\<rparr>
      in case p of
           None \<Rightarrow> s1
         | Some existing_cinfo \<Rightarrow>
             (let incremental_cinfo = combined_of_info sz 1;
                  old = elem_load (combined_allocs_ops K) m existing_cinfo
              in s1\<lparr>combined_allocs := elem_store (combined_allocs_ops K) m existing_cinfo
                      (Combined (bits old + bits incremental_cinfo))\<rparr>))"

definition update_statistics_del ::
    "('ms, 'ma, 'mc, 'mp) kernel \<Rightarrow> u64 \<Rightarrow> u64 \<Rightarrow>
     ('ms, 'ma, 'mc, 'mp) tracker \<Rightarrow> ('ms, 'ma, 'mc, 'mp) tracker" where
  "update_statistics_del K stack_id sz s =
     (case lookup_elem (combined_allocs_ops K) (combined_allocs s) stack_id of
        None \<Rightarrow> bpf_printk (''failed to lookup combined allocs'' @ LF) [] s
      | Some existing_cinfo \<Rightarrow>
          (let decremental_cinfo = combined_of_info sz 1;
               old = elem_load (combined_allocs_ops K) (combined_allocs s) existing_cinfo
           in s\<lparr>combined_allocs := elem_store (combined_allocs_ops K) (combined_allocs s)
                  existing_cinfo (Combined (bits old - bits decremental_cinfo))\<rparr>))"

definition gen_alloc_enter ::
    "('ms, 'ma, 'mc, 'mp) kernel \<Rightarrow> config \<Rightarrow> invocation \<Rightarrow> u64 \<Rightarrow>
     ('ms, 'ma, 'mc, 'mp) tracker \<Rightarrow> int \<times> ('ms, 'ma, 'mc, 'mp) tracker" where
  "gen_alloc_enter K cfg I nbytes s =
     (if nbytes < min_size cfg \<or> nbytes > max_size cfg then (0, s)
      else if sample_rate cfg > 1 \<and> ktime_enter I mod sample_rate cfg \<noteq> 0 then (0, s)
      else
        (let pid = current_pid I;
             tid = current_pid_tgid I
         in if target_pid cfg \<noteq> 0 \<and> pid \<noteq> target_pid cfg then (0, s)
            else
              (let s1 = bpf_printk ''alloc entered: pid=%u tid=%u'' [scast pid, tid] s;
                   s2 = s1\<lparr>sizes := snd (update_elem (sizes_ops K) (sizes s1) pid nbytes BPF_ANY)\<rparr>;
                   s3 = (if trace_all cfg
                         then bpf_printk (''alloc entered, size = %lu'' @ LF) [nbytes] s2 else s2)
               in (0, s3))))"

definition gen_alloc_exit2 ::
    "('ms, 'ma, 'mc, 'mp) kernel \<Rightarrow> config \<Rightarrow> invocation \<Rightarrow> u64 \<Rightarrow>
     ('ms, 'ma, 'mc, 'mp) tracker \<Rightarrow> int \<times> ('ms, 'ma, 'mc, 'mp) tracker" where
  "gen_alloc_exit2 K cfg I address s =
     (let pid = current_pid I
      in case lookup_elem (sizes_ops K) (sizes s) pid of
           None \<Rightarrow> (0, s)
         | Some size_p \<Rightarrow>
             (let info = \<lparr>ai_size = 0, ai_timestamp_ns = 0, ai_stack_id = 0\<rparr>;
                  info = info\<lparr>ai_size := elem_load (sizes_ops K) (sizes s) size_p\<rparr>;
                  s1 = s\<lparr>sizes := snd (delete_elem (sizes_ops K) (sizes s) pid)\<rparr>;
                  s2 = (if address \<noteq> 0
                        then
                          (let info = info\<lparr>ai_timestamp_ns := ktime_exit I\<rparr>;
                               info = info\<lparr>ai_stack_id := ucast (get_stackid I (stack_flags cfg))\<rparr>;
                               s' = s1\<lparr>allocs := snd (update_elem (allocs_ops K) (allocs s1)
                                                         address info BPF_ANY)\<rparr>
                           in update_statistics_add K (scast (ai_stack_id info)) (ai_size info) s')
                        else s1);
                  s3 = (if trace_all cfg
                        then bpf_printk (''alloc exited, size = %lu, result = %lx'' @ LF)
                               [ai_size info, address] s2
                        else s2)
              in (0, s3)))"

definition gen_alloc_exit ::
    "('ms, 'ma, 'mc, 'mp) kernel \<Rightarrow> config \<Rightarrow> invocation \<Rightarrow>
     ('ms, 'ma, 'mc, 'mp) tracker \<Rightarrow> int \<times> ('ms, 'ma, 'mc, 'mp) tracker" where
  "gen_alloc_exit K cfg I s = gen_alloc_exit2 K cfg I (regs_rc I) s"

text \<open>The element is read after it has been deleted, as the source does.\<close>

definition gen_free_enter ::
    "('ms, 'ma, 'mc, 'mp) kernel \<Rightarrow> config \<Rightarrow> u64 \<Rightarrow>
     ('ms, 'ma, 'mc, 'mp) tracker \<Rightarrow> int \<times> ('ms, 'ma, 'mc, 'mp) tracker" where
  "gen_free_enter K cfg addr s =
     (case lookup_elem (allocs_ops K) (allocs s) addr of
        None \<Rightarrow> (0, s)
      | Some p \<Rightarrow>
          (let m = snd (delete_elem (allocs_ops K) (allocs s) addr);
               s1 = s\<lparr>allocs := m\<rparr>;
               info = elem_load (allocs_ops K) m p;
               s2 = update_statistics_del K (scast (ai_stack_id info)) (ai_size info) s1;
               s3 = (if trace_all cfg
                     then bpf_printk (''free entered, address = %lx, size = %lu'' @ LF)
                            [addr, ai_size info] s2
                     else s2)
           in (0, s3)))"

subsection \<open>Refinement of the specification\<close>

lemma gen_alloc_exit2_result [simp]: "fst (gen_alloc_exit2 K cfg I a s) = 0"
  by (simp add: gen_alloc_exit2_def Let_def split: option.split)

lemma gen_alloc_exit_result [simp]: "fst (gen_alloc_exit K cfg I s) = 0"
  by (simp add: gen_alloc_exit_def)

lemma gen_alloc_enter_result [simp]: "fst (gen_alloc_enter K cfg I n s) = 0"
  by (simp add: gen_alloc_enter_def Let_def)

lemma gen_free_enter_result [simp]: "fst (gen_free_enter K cfg a s) = 0"
  by (simp add: gen_free_enter_def Let_def split: option.split)

lemma gen_alloc_enter_cases:
  "gen_alloc_enter K cfg I nbytes s =
     (0, if alloc_admitted cfg I nbytes
         then (let s1 = bpf_printk ''alloc entered: pid=%u tid=%u''
                          [scast (current_pid I), current_pid_tgid I] s;
                   s2 = s1\<lparr>sizes := snd (update_elem (sizes_ops K) (sizes s) (current_pid I)
                                          nbytes BPF_ANY)\<rparr>
               in if trace_all cfg
                  then bpf_printk (''alloc entered, size = %lu'' @ LF) [nbytes] s2 else s2)
         else s)"
  by (auto simp: gen_alloc_enter_def alloc_admitted_def Let_def not_less)

context memleak_kernel
begin

lemma credit_refines:
  assumes "maps_valid K s"
  shows "maps_valid K (update_statistics_add K sid n s)"
    and "contents_of K (update_statistics_add K sid n s) = spec_credit sid n (contents_of K s)"
proof -
  let ?find = "map_find (combined_allocs_ops K)" and ?m = "combined_allocs s"
  have valid: "map_valid (combined_allocs_ops K) ?m" using assms by (simp add: maps_valid_def)
  have "maps_valid K (update_statistics_add K sid n s) \<and>
      contents_of K (update_statistics_add K sid n s) = spec_credit sid n (contents_of K s)"
  proof (cases "?find ?m sid \<noteq> None \<or> card (dom (?find ?m)) < combined_allocs_max_entries")
    case True
    from cm.try_init_some [OF valid this, of 0] obtain p m'
      where *: "bpf_map_lookup_or_try_init (combined_allocs_ops K) ?m sid initial_cinfo = (Some p, m')"
        "map_valid (combined_allocs_ops K) m'" "lookup_elem (combined_allocs_ops K) m' sid = Some p"
        "elem_load (combined_allocs_ops K) m' p = stack_stats (contents_of K s) sid"
        "?find m' = (?find ?m)(sid \<mapsto> stack_stats (contents_of K s) sid)"
      by (auto simp: stack_stats_def)
    have sum: "Combined (bits c + bits d) = c + d" for c d
      by (simp add: plus_combined_alloc_info_def)
    show ?thesis
      using True assms * cm.store_valid [OF *(2,3)] cm.store_found [OF *(2,3)]
      by (simp add: update_statistics_add_def Let_def sum maps_valid_def contents_of_def
          spec_credit_def bounded_upd_def)
  next
    case False
    then obtain m' where
      "bpf_map_lookup_or_try_init (combined_allocs_ops K) ?m sid initial_cinfo = (None, m')"
      "map_valid (combined_allocs_ops K) m'" "?find m' = ?find ?m"
      using cm.try_init_none [OF valid, of sid initial_cinfo] by auto
    with False assms show ?thesis
      by (simp add: update_statistics_add_def maps_valid_def contents_of_def spec_credit_def
          bounded_upd_def)
  qed
  then show "maps_valid K (update_statistics_add K sid n s)"
    and "contents_of K (update_statistics_add K sid n s) = spec_credit sid n (contents_of K s)"
    by blast+
qed

lemma debit_refines:
  assumes "maps_valid K s"
  shows "maps_valid K (update_statistics_del K sid n s)"
    and "contents_of K (update_statistics_del K sid n s) = spec_debit sid n (contents_of K s)"
proof -
  have valid: "map_valid (combined_allocs_ops K) (combined_allocs s)"
    using assms by (simp add: maps_valid_def)
  have diff: "Combined (bits c - bits d) = c - d" for c d
    by (simp add: minus_combined_alloc_info_def)
  have "maps_valid K (update_statistics_del K sid n s) \<and>
      contents_of K (update_statistics_del K sid n s) = spec_debit sid n (contents_of K s)"
  proof (cases "lookup_elem (combined_allocs_ops K) (combined_allocs s) sid")
    case None
    with assms show ?thesis
      by (simp add: update_statistics_del_def spec_debit_def map_find_def)
  next
    case (Some p)
    with assms valid show ?thesis
      using cm.store_valid [OF valid Some] cm.store_found [OF valid Some]
        cm.lookup_Some_load [OF Some]
      by (simp add: update_statistics_del_def spec_debit_def Let_def diff maps_valid_def
          contents_of_def)
  qed
  then show "maps_valid K (update_statistics_del K sid n s)"
    and "contents_of K (update_statistics_del K sid n s) = spec_debit sid n (contents_of K s)"
    by blast+
qed

lemma enter_refines:
  assumes "maps_valid K s"
  shows "maps_valid K (snd (gen_alloc_enter K cfg I n s))"
    and "contents_of K (snd (gen_alloc_enter K cfg I n s)) = spec_enter cfg I n (contents_of K s)"
  using assms
  by (simp_all add: gen_alloc_enter_cases spec_enter_def Let_def maps_valid_def contents_of_def
      sz.update_valid sz.update_any_found)

lemma store_sizes_refines:
  assumes "maps_valid K s"
  shows "maps_valid K (s\<lparr>sizes := snd (delete_elem (sizes_ops K) (sizes s) p)\<rparr>)"
    and "contents_of K (s\<lparr>sizes := snd (delete_elem (sizes_ops K) (sizes s) p)\<rparr>) =
           (contents_of K s)\<lparr>c_sizes := (c_sizes (contents_of K s))(p := None)\<rparr>"
  using assms by (simp_all add: maps_valid_def contents_of_def sz.delete_valid sz.delete_found)

lemma store_alloc_refines:
  assumes "maps_valid K s"
  shows "maps_valid K (s\<lparr>allocs := snd (update_elem (allocs_ops K) (allocs s) a i BPF_ANY)\<rparr>)"
    and "contents_of K (s\<lparr>allocs := snd (update_elem (allocs_ops K) (allocs s) a i BPF_ANY)\<rparr>) =
           (contents_of K s)\<lparr>c_allocs := bounded_upd allocs_max_entries (c_allocs (contents_of K s)) a i\<rparr>"
  using assms by (simp_all add: maps_valid_def contents_of_def al.update_valid al.update_any_found)

lemma delete_alloc_refines:
  assumes "maps_valid K s"
  shows "maps_valid K (s\<lparr>allocs := snd (delete_elem (allocs_ops K) (allocs s) a)\<rparr>)"
    and "contents_of K (s\<lparr>allocs := snd (delete_elem (allocs_ops K) (allocs s) a)\<rparr>) =
           (contents_of K s)\<lparr>c_allocs := (c_allocs (contents_of K s))(a := None)\<rparr>"
  using assms by (simp_all add: maps_valid_def contents_of_def al.delete_valid al.delete_found)

lemma exit_refines:
  assumes "maps_valid K s"
  shows "maps_valid K (snd (gen_alloc_exit2 K cfg I a s))"
    and "contents_of K (snd (gen_alloc_exit2 K cfg I a s)) = spec_exit cfg I a (contents_of K s)"
proof -
  let ?s1 = "s\<lparr>sizes := snd (delete_elem (sizes_ops K) (sizes s) (current_pid I))\<rparr>"
  note s1 = store_sizes_refines [OF assms, of "current_pid I"]
  have "maps_valid K (snd (gen_alloc_exit2 K cfg I a s)) \<and>
      contents_of K (snd (gen_alloc_exit2 K cfg I a s)) = spec_exit cfg I a (contents_of K s)"
  proof (cases "lookup_elem (sizes_ops K) (sizes s) (current_pid I)")
    case None
    with assms show ?thesis
      by (simp add: gen_alloc_exit2_def spec_exit_def map_find_def)
  next
    case (Some p)
    let ?n = "elem_load (sizes_ops K) (sizes s) p"
    let ?i = "exit_info cfg I ?n"
    let ?s2 = "?s1\<lparr>allocs := snd (update_elem (allocs_ops K) (allocs ?s1) a ?i BPF_ANY)\<rparr>"
    note s2 = store_alloc_refines [OF s1(1), of a ?i]
    note s3 = credit_refines [OF s2(1), of "stack_key ?i" ?n]
    let ?t = "if a = 0 then ?s1 else update_statistics_add K (stack_key ?i) ?n ?s2"
    have run: "maps_valid K (snd (gen_alloc_exit2 K cfg I a s)) = maps_valid K ?t"
      "contents_of K (snd (gen_alloc_exit2 K cfg I a s)) = contents_of K ?t"
      using Some by (simp_all add: gen_alloc_exit2_def Let_def exit_info_def stack_key_def)
    have "map_find (sizes_ops K) (sizes s) (current_pid I) = Some ?n"
      using Some by (rule sz.lookup_Some_load)
    then have "spec_exit cfg I a (contents_of K s) =
        (if a = 0 then contents_of K ?s1 else spec_record a ?i (contents_of K ?s1))"
      by (simp add: spec_exit_def Let_def s1(2))
    moreover have "contents_of K (update_statistics_add K (stack_key ?i) ?n ?s2) =
        spec_record a ?i (contents_of K ?s1)"
      using s3(2) s2(2) by (simp add: spec_record_def exit_info_def)
    ultimately show ?thesis
      using run s1(1) s3(1) by (auto split: if_splits)
  qed
  then show "maps_valid K (snd (gen_alloc_exit2 K cfg I a s))"
    and "contents_of K (snd (gen_alloc_exit2 K cfg I a s)) = spec_exit cfg I a (contents_of K s)"
    by blast+
qed

lemma free_refines:
  assumes "maps_valid K s"
  shows "maps_valid K (snd (gen_free_enter K cfg a s))"
    and "contents_of K (snd (gen_free_enter K cfg a s)) = spec_free a (contents_of K s)"
proof -
  have valid: "map_valid (allocs_ops K) (allocs s)" using assms by (simp add: maps_valid_def)
  let ?s1 = "s\<lparr>allocs := snd (delete_elem (allocs_ops K) (allocs s) a)\<rparr>"
  note s1 = delete_alloc_refines [OF assms, of a]
  have "maps_valid K (snd (gen_free_enter K cfg a s)) \<and>
      contents_of K (snd (gen_free_enter K cfg a s)) = spec_free a (contents_of K s)"
  proof (cases "lookup_elem (allocs_ops K) (allocs s) a")
    case None
    with assms show ?thesis by (simp add: gen_free_enter_def spec_free_def map_find_def)
  next
    case (Some p)
    let ?i = "elem_load (allocs_ops K) (allocs s) p"
    have "elem_load (allocs_ops K) (snd (delete_elem (allocs_ops K) (allocs s) a)) p = ?i"
      using valid Some by (rule al.delete_keeps_storage)
    then show ?thesis
      using Some s1 debit_refines [OF s1(1), of "stack_key ?i" "ai_size ?i"] al.lookup_Some_load [OF Some]
      by (simp add: gen_free_enter_def spec_free_def Let_def stack_key_def)
  qed
  then show "maps_valid K (snd (gen_free_enter K cfg a s))"
    and "contents_of K (snd (gen_free_enter K cfg a s)) = spec_free a (contents_of K s)"
    by blast+
qed

lemma allocs_finite: "maps_valid K s \<Longrightarrow> finite (dom (c_allocs (contents_of K s)))"
  by (simp add: al.finite_contents)

lemmas core_refines = enter_refines exit_refines free_refines

end

end
