(* ===== verification/UserProbes.thy ===== *)
theory UserProbes
  imports MemleakCore
begin

text \<open>
  The uprobe and uretprobe programs of \<open>bpf/memleak.bpf.c\<close>, one definition per program. The
  parameters of an entry program are the ones \<open>BPF_KPROBE\<close> takes from the registers; an exit
  program takes the return value from \<open>regs_rc\<close>, except \<open>posix_memalign_exit\<close>, which reads
  the address from user memory through the pointer saved on entry.
\<close>

definition malloc_enter ::
    "('ms, 'ma, 'mc, 'mp) kernel \<Rightarrow> config \<Rightarrow> invocation \<Rightarrow> u64 \<Rightarrow>
     ('ms, 'ma, 'mc, 'mp) tracker \<Rightarrow> int \<times> ('ms, 'ma, 'mc, 'mp) tracker" where
  "malloc_enter K cfg I n s =
     gen_alloc_enter K cfg I n (bpf_printk (''malloc entered, size=%lu'' @ LF) [n] s)"

definition malloc_exit ::
    "('ms, 'ma, 'mc, 'mp) kernel \<Rightarrow> config \<Rightarrow> invocation \<Rightarrow>
     ('ms, 'ma, 'mc, 'mp) tracker \<Rightarrow> int \<times> ('ms, 'ma, 'mc, 'mp) tracker" where
  "malloc_exit K cfg I s = gen_alloc_exit K cfg I (bpf_printk ''malloc exited'' [] s)"

definition free_enter ::
    "('ms, 'ma, 'mc, 'mp) kernel \<Rightarrow> config \<Rightarrow> u64 \<Rightarrow>
     ('ms, 'ma, 'mc, 'mp) tracker \<Rightarrow> int \<times> ('ms, 'ma, 'mc, 'mp) tracker" where
  "free_enter K cfg address s = gen_free_enter K cfg address s"

definition calloc_enter ::
    "('ms, 'ma, 'mc, 'mp) kernel \<Rightarrow> config \<Rightarrow> invocation \<Rightarrow> u64 \<Rightarrow> u64 \<Rightarrow>
     ('ms, 'ma, 'mc, 'mp) tracker \<Rightarrow> int \<times> ('ms, 'ma, 'mc, 'mp) tracker" where
  "calloc_enter K cfg I nmemb n s = gen_alloc_enter K cfg I (nmemb * n) s"

definition calloc_exit ::
    "('ms, 'ma, 'mc, 'mp) kernel \<Rightarrow> config \<Rightarrow> invocation \<Rightarrow>
     ('ms, 'ma, 'mc, 'mp) tracker \<Rightarrow> int \<times> ('ms, 'ma, 'mc, 'mp) tracker" where
  "calloc_exit K cfg I s = gen_alloc_exit K cfg I s"

definition realloc_enter ::
    "('ms, 'ma, 'mc, 'mp) kernel \<Rightarrow> config \<Rightarrow> invocation \<Rightarrow> u64 \<Rightarrow> u64 \<Rightarrow>
     ('ms, 'ma, 'mc, 'mp) tracker \<Rightarrow> int \<times> ('ms, 'ma, 'mc, 'mp) tracker" where
  "realloc_enter K cfg I ptr n s =
     (let (_, s1) = gen_free_enter K cfg ptr s in gen_alloc_enter K cfg I n s1)"

definition realloc_exit ::
    "('ms, 'ma, 'mc, 'mp) kernel \<Rightarrow> config \<Rightarrow> invocation \<Rightarrow>
     ('ms, 'ma, 'mc, 'mp) tracker \<Rightarrow> int \<times> ('ms, 'ma, 'mc, 'mp) tracker" where
  "realloc_exit K cfg I s = gen_alloc_exit K cfg I s"

definition mmap_enter ::
    "('ms, 'ma, 'mc, 'mp) kernel \<Rightarrow> config \<Rightarrow> invocation \<Rightarrow> u64 \<Rightarrow> u64 \<Rightarrow>
     ('ms, 'ma, 'mc, 'mp) tracker \<Rightarrow> int \<times> ('ms, 'ma, 'mc, 'mp) tracker" where
  "mmap_enter K cfg I address n s = gen_alloc_enter K cfg I n s"

definition mmap_exit ::
    "('ms, 'ma, 'mc, 'mp) kernel \<Rightarrow> config \<Rightarrow> invocation \<Rightarrow>
     ('ms, 'ma, 'mc, 'mp) tracker \<Rightarrow> int \<times> ('ms, 'ma, 'mc, 'mp) tracker" where
  "mmap_exit K cfg I s = gen_alloc_exit K cfg I s"

definition munmap_enter ::
    "('ms, 'ma, 'mc, 'mp) kernel \<Rightarrow> config \<Rightarrow> u64 \<Rightarrow>
     ('ms, 'ma, 'mc, 'mp) tracker \<Rightarrow> int \<times> ('ms, 'ma, 'mc, 'mp) tracker" where
  "munmap_enter K cfg address s = gen_free_enter K cfg address s"

definition posix_memalign_enter ::
    "('ms, 'ma, 'mc, 'mp) kernel \<Rightarrow> config \<Rightarrow> invocation \<Rightarrow> u64 \<Rightarrow> u64 \<Rightarrow> u64 \<Rightarrow>
     ('ms, 'ma, 'mc, 'mp) tracker \<Rightarrow> int \<times> ('ms, 'ma, 'mc, 'mp) tracker" where
  "posix_memalign_enter K cfg I memptr alignment n s =
     (let pid = current_pid64 I;
          s1 = s\<lparr>memptrs := snd (update_elem (memptrs_ops K) (memptrs s) pid memptr BPF_ANY)\<rparr>
      in gen_alloc_enter K cfg I n s1)"

definition posix_memalign_exit ::
    "('ms, 'ma, 'mc, 'mp) kernel \<Rightarrow> config \<Rightarrow> invocation \<Rightarrow>
     ('ms, 'ma, 'mc, 'mp) tracker \<Rightarrow> int \<times> ('ms, 'ma, 'mc, 'mp) tracker" where
  "posix_memalign_exit K cfg I s =
     (let pid = current_pid64 I
      in case lookup_elem (memptrs_ops K) (memptrs s) pid of
           None \<Rightarrow> (0, s)
         | Some memptr64 \<Rightarrow>
             (let s1 = s\<lparr>memptrs := snd (delete_elem (memptrs_ops K) (memptrs s) pid)\<rparr>
              in case probe_read_user I (elem_load (memptrs_ops K) (memptrs s1) memptr64) of
                   None \<Rightarrow> (0, s1)
                 | Some addr64 \<Rightarrow> gen_alloc_exit2 K cfg I addr64 s1))"

definition aligned_alloc_enter ::
    "('ms, 'ma, 'mc, 'mp) kernel \<Rightarrow> config \<Rightarrow> invocation \<Rightarrow> u64 \<Rightarrow> u64 \<Rightarrow>
     ('ms, 'ma, 'mc, 'mp) tracker \<Rightarrow> int \<times> ('ms, 'ma, 'mc, 'mp) tracker" where
  "aligned_alloc_enter K cfg I alignment n s = gen_alloc_enter K cfg I n s"

definition aligned_alloc_exit ::
    "('ms, 'ma, 'mc, 'mp) kernel \<Rightarrow> config \<Rightarrow> invocation \<Rightarrow>
     ('ms, 'ma, 'mc, 'mp) tracker \<Rightarrow> int \<times> ('ms, 'ma, 'mc, 'mp) tracker" where
  "aligned_alloc_exit K cfg I s = gen_alloc_exit K cfg I s"

definition valloc_enter ::
    "('ms, 'ma, 'mc, 'mp) kernel \<Rightarrow> config \<Rightarrow> invocation \<Rightarrow> u64 \<Rightarrow>
     ('ms, 'ma, 'mc, 'mp) tracker \<Rightarrow> int \<times> ('ms, 'ma, 'mc, 'mp) tracker" where
  "valloc_enter K cfg I n s = gen_alloc_enter K cfg I n s"

definition valloc_exit ::
    "('ms, 'ma, 'mc, 'mp) kernel \<Rightarrow> config \<Rightarrow> invocation \<Rightarrow>
     ('ms, 'ma, 'mc, 'mp) tracker \<Rightarrow> int \<times> ('ms, 'ma, 'mc, 'mp) tracker" where
  "valloc_exit K cfg I s = gen_alloc_exit K cfg I s"

definition memalign_enter ::
    "('ms, 'ma, 'mc, 'mp) kernel \<Rightarrow> config \<Rightarrow> invocation \<Rightarrow> u64 \<Rightarrow> u64 \<Rightarrow>
     ('ms, 'ma, 'mc, 'mp) tracker \<Rightarrow> int \<times> ('ms, 'ma, 'mc, 'mp) tracker" where
  "memalign_enter K cfg I alignment n s = gen_alloc_enter K cfg I n s"

definition memalign_exit ::
    "('ms, 'ma, 'mc, 'mp) kernel \<Rightarrow> config \<Rightarrow> invocation \<Rightarrow>
     ('ms, 'ma, 'mc, 'mp) tracker \<Rightarrow> int \<times> ('ms, 'ma, 'mc, 'mp) tracker" where
  "memalign_exit K cfg I s = gen_alloc_exit K cfg I s"

definition pvalloc_enter ::
    "('ms, 'ma, 'mc, 'mp) kernel \<Rightarrow> config \<Rightarrow> invocation \<Rightarrow> u64 \<Rightarrow>
     ('ms, 'ma, 'mc, 'mp) tracker \<Rightarrow> int \<times> ('ms, 'ma, 'mc, 'mp) tracker" where
  "pvalloc_enter K cfg I n s = gen_alloc_enter K cfg I n s"

definition pvalloc_exit ::
    "('ms, 'ma, 'mc, 'mp) kernel \<Rightarrow> config \<Rightarrow> invocation \<Rightarrow>
     ('ms, 'ma, 'mc, 'mp) tracker \<Rightarrow> int \<times> ('ms, 'ma, 'mc, 'mp) tracker" where
  "pvalloc_exit K cfg I s = gen_alloc_exit K cfg I s"

lemmas user_probe_defs = malloc_enter_def malloc_exit_def free_enter_def calloc_enter_def
  calloc_exit_def realloc_enter_def realloc_exit_def mmap_enter_def mmap_exit_def munmap_enter_def
  aligned_alloc_enter_def aligned_alloc_exit_def valloc_enter_def valloc_exit_def
  memalign_enter_def memalign_exit_def pvalloc_enter_def pvalloc_exit_def

subsection \<open>The pointer saved for posix_memalign\<close>

definition spec_save_memptr :: "invocation \<Rightarrow> u64 \<Rightarrow> contents \<Rightarrow> contents" where
  "spec_save_memptr I memptr c =
     c\<lparr>c_memptrs := bounded_upd memptrs_max_entries (c_memptrs c) (current_pid64 I) memptr\<rparr>"

definition spec_memptr_exit :: "config \<Rightarrow> invocation \<Rightarrow> contents \<Rightarrow> contents" where
  "spec_memptr_exit cfg I c =
     (case c_memptrs c (current_pid64 I) of
        None \<Rightarrow> c
      | Some memptr \<Rightarrow>
          (let c' = c\<lparr>c_memptrs := (c_memptrs c)(current_pid64 I := None)\<rparr>
           in case probe_read_user I memptr of
                None \<Rightarrow> c'
              | Some addr \<Rightarrow> spec_exit cfg I addr c'))"

lemma posix_memalign_enter_result [simp]: "fst (posix_memalign_enter K cfg I m al n s) = 0"
  by (simp add: posix_memalign_enter_def Let_def)

lemma posix_memalign_exit_result [simp]: "fst (posix_memalign_exit K cfg I s) = 0"
  by (simp add: posix_memalign_exit_def Let_def split: option.split)

context memleak_kernel
begin

lemma save_memptr_refines:
  assumes "maps_valid K s"
  shows "maps_valid K (s\<lparr>memptrs := snd (update_elem (memptrs_ops K) (memptrs s)
                                        (current_pid64 I) m BPF_ANY)\<rparr>)"
    and "contents_of K (s\<lparr>memptrs := snd (update_elem (memptrs_ops K) (memptrs s)
                                        (current_pid64 I) m BPF_ANY)\<rparr>) =
           spec_save_memptr I m (contents_of K s)"
  using assms by (simp_all add: maps_valid_def contents_of_def spec_save_memptr_def
      mp.update_valid mp.update_any_found)

lemma drop_memptr_refines:
  assumes "maps_valid K s"
  shows "maps_valid K (s\<lparr>memptrs := snd (delete_elem (memptrs_ops K) (memptrs s) p)\<rparr>)"
    and "contents_of K (s\<lparr>memptrs := snd (delete_elem (memptrs_ops K) (memptrs s) p)\<rparr>) =
           (contents_of K s)\<lparr>c_memptrs := (c_memptrs (contents_of K s))(p := None)\<rparr>"
  using assms by (simp_all add: maps_valid_def contents_of_def mp.delete_valid mp.delete_found)

lemma posix_enter_refines:
  assumes "maps_valid K s"
  shows "maps_valid K (snd (posix_memalign_enter K cfg I m alignment n s))"
    and "contents_of K (snd (posix_memalign_enter K cfg I m alignment n s)) =
           spec_enter cfg I n (spec_save_memptr I m (contents_of K s))"
  using save_memptr_refines [OF assms, of I m]
  by (simp_all add: posix_memalign_enter_def Let_def core_refines)

lemma posix_exit_refines:
  assumes "maps_valid K s"
  shows "maps_valid K (snd (posix_memalign_exit K cfg I s))"
    and "contents_of K (snd (posix_memalign_exit K cfg I s)) =
           spec_memptr_exit cfg I (contents_of K s)"
proof -
  have valid: "map_valid (memptrs_ops K) (memptrs s)" using assms by (simp add: maps_valid_def)
  note s1 = drop_memptr_refines [OF assms, of "current_pid64 I"]
  have "maps_valid K (snd (posix_memalign_exit K cfg I s)) \<and>
      contents_of K (snd (posix_memalign_exit K cfg I s)) = spec_memptr_exit cfg I (contents_of K s)"
  proof (cases "lookup_elem (memptrs_ops K) (memptrs s) (current_pid64 I)")
    case None
    with assms show ?thesis
      by (simp add: posix_memalign_exit_def spec_memptr_exit_def map_find_def)
  next
    case (Some p)
    then show ?thesis
      using s1 mp.delete_keeps_storage [OF valid Some] mp.lookup_Some_load [OF Some]
      by (simp add: posix_memalign_exit_def spec_memptr_exit_def Let_def core_refines
          split: option.split)
  qed
  then show "maps_valid K (snd (posix_memalign_exit K cfg I s))"
    and "contents_of K (snd (posix_memalign_exit K cfg I s)) =
           spec_memptr_exit cfg I (contents_of K s)"
    by blast+
qed

end

end
