(* ===== verification/CoreFixes.thy ===== *)
theory CoreFixes
  imports Prelude
begin

text \<open>
  \<open>bpf/core_fixes.bpf.h\<close> and the struct flavours of \<open>bpf/memleak.bpf.c\<close>: the layouts of kernel
  structs that differ between kernel versions, and the predicates and accessors that choose one.

  A struct flavour is its name and its fields with their widths in bits. Which flavours and
  fields the running kernel has, and what a CO-RE read of a field yields, is the kernel's: the
  record \<open>btf\<close>, a parameter.
\<close>

datatype core_struct = Core_struct (cs_name: string) (cs_fields: "(string \<times> nat) list")

record btf =
  core_type_exists :: "core_struct \<Rightarrow> bool"
  core_field_exists :: "core_struct \<Rightarrow> string \<Rightarrow> bool"
  core_read :: "core_struct \<Rightarrow> string \<Rightarrow> u64 \<Rightarrow> u64"

subsection \<open>Task state\<close>

definition task_struct___o :: core_struct where
  "task_struct___o = Core_struct ''task_struct___o'' [(''state'', 64)]"

definition task_struct___x :: core_struct where
  "task_struct___x = Core_struct ''task_struct___x'' [(''__state'', 32)]"

text \<open>The new field is an \<open>unsigned int\<close>: its 32 bits are zero-extended to the result.\<close>

definition get_task_state :: "btf \<Rightarrow> u64 \<Rightarrow> i64" where
  "get_task_state B task =
     (if core_field_exists B task_struct___x ''__state''
      then ucast (ucast (core_read B task_struct___x ''__state'' task) :: u32)
      else core_read B task_struct___o ''state'' task)"

subsection \<open>Block layer\<close>

definition bio___o :: core_struct where
  "bio___o = Core_struct ''bio___o'' [(''bi_disk'', 64)]"

definition bio___x :: core_struct where
  "bio___x = Core_struct ''bio___x'' [(''bi_bdev'', 64)]"

definition block_device :: core_struct where
  "block_device = Core_struct ''block_device'' [(''bd_disk'', 64)]"

definition get_gendisk :: "btf \<Rightarrow> u64 \<Rightarrow> u64" where
  "get_gendisk B bio =
     (if core_field_exists B bio___x ''bi_bdev''
      then core_read B block_device ''bd_disk'' (core_read B bio___x ''bi_bdev'' bio)
      else core_read B bio___o ''bi_disk'' bio)"

definition trace_event_raw_block_rq_complete___x :: core_struct where
  "trace_event_raw_block_rq_complete___x =
     Core_struct ''trace_event_raw_block_rq_complete___x''
       [(''dev'', 32), (''sector'', 64), (''nr_sector'', 32)]"

definition trace_event_raw_block_rq_completion___x :: core_struct where
  "trace_event_raw_block_rq_completion___x =
     Core_struct ''trace_event_raw_block_rq_completion___x''
       [(''dev'', 32), (''sector'', 64), (''nr_sector'', 32)]"

definition has_block_rq_completion :: "btf \<Rightarrow> bool" where
  "has_block_rq_completion B =
     (if core_type_exists B trace_event_raw_block_rq_completion___x then True else False)"

definition request_queue___x :: core_struct where
  "request_queue___x = Core_struct ''request_queue___x'' [(''disk'', 64)]"

definition request___x :: core_struct where
  "request___x = Core_struct ''request___x'' [(''q'', 64), (''rq_disk'', 64)]"

definition get_disk :: "btf \<Rightarrow> u64 \<Rightarrow> u64" where
  "get_disk B request =
     (if core_field_exists B request___x ''rq_disk''
      then core_read B request___x ''rq_disk'' request
      else core_read B request_queue___x ''disk'' (core_read B request___x ''q'' request))"

definition renamedata___x :: core_struct where
  "renamedata___x = Core_struct ''renamedata___x'' [(''old_mnt_userns'', 64)]"

definition renamedata_has_old_mnt_userns_field :: "btf \<Rightarrow> bool" where
  "renamedata_has_old_mnt_userns_field B =
     (if core_field_exists B renamedata___x ''old_mnt_userns'' then True else False)"

subsection \<open>Slab tracepoints\<close>

definition trace_event_raw_kmem_free___x :: core_struct where
  "trace_event_raw_kmem_free___x = Core_struct ''trace_event_raw_kmem_free___x'' [(''ptr'', 64)]"

definition trace_event_raw_kfree___x :: core_struct where
  "trace_event_raw_kfree___x = Core_struct ''trace_event_raw_kfree___x'' [(''ptr'', 64)]"

definition trace_event_raw_kmem_cache_free___x :: core_struct where
  "trace_event_raw_kmem_cache_free___x =
     Core_struct ''trace_event_raw_kmem_cache_free___x'' [(''ptr'', 64)]"

definition has_kfree :: "btf \<Rightarrow> bool" where
  "has_kfree B = (if core_type_exists B trace_event_raw_kfree___x then True else False)"

definition has_kmem_cache_free :: "btf \<Rightarrow> bool" where
  "has_kmem_cache_free B =
     (if core_type_exists B trace_event_raw_kmem_cache_free___x then True else False)"

definition trace_event_raw_kmem_alloc_node___x :: core_struct where
  "trace_event_raw_kmem_alloc_node___x =
     Core_struct ''trace_event_raw_kmem_alloc_node___x'' [(''ptr'', 64), (''bytes_alloc'', 64)]"

definition has_kmem_alloc_node :: "btf \<Rightarrow> bool" where
  "has_kmem_alloc_node B =
     (if core_type_exists B trace_event_raw_kmem_alloc_node___x then True else False)"

definition trace_event_raw_kmem_alloc___x :: core_struct where
  "trace_event_raw_kmem_alloc___x =
     Core_struct ''trace_event_raw_kmem_alloc___x'' [(''ptr'', 64), (''bytes_alloc'', 64)]"

definition trace_event_raw_kmalloc___x :: core_struct where
  "trace_event_raw_kmalloc___x =
     Core_struct ''trace_event_raw_kmalloc___x'' [(''ptr'', 64), (''bytes_alloc'', 64)]"

definition trace_event_raw_kmem_cache_alloc___x :: core_struct where
  "trace_event_raw_kmem_cache_alloc___x =
     Core_struct ''trace_event_raw_kmem_cache_alloc___x'' [(''ptr'', 64), (''bytes_alloc'', 64)]"

definition has_kmem_alloc :: "btf \<Rightarrow> bool" where
  "has_kmem_alloc B =
     (if core_type_exists B trace_event_raw_kmem_alloc___x then True else False)"

text \<open>The tracepoint records used under their own names, from \<open>vmlinux.h\<close>.\<close>

definition trace_event_raw_mm_page_alloc :: core_struct where
  "trace_event_raw_mm_page_alloc =
     Core_struct ''trace_event_raw_mm_page_alloc''
       [(''pfn'', 64), (''order'', 32), (''gfp_flags'', 64), (''migratetype'', 32)]"

definition trace_event_raw_mm_page_free :: core_struct where
  "trace_event_raw_mm_page_free =
     Core_struct ''trace_event_raw_mm_page_free'' [(''pfn'', 64), (''order'', 32)]"

definition trace_event_raw_percpu_alloc_percpu :: core_struct where
  "trace_event_raw_percpu_alloc_percpu =
     Core_struct ''trace_event_raw_percpu_alloc_percpu''
       [(''call_site'', 64), (''reserved'', 8), (''is_atomic'', 8), (''size'', 64),
        (''align'', 64), (''base_addr'', 64), (''off'', 32), (''ptr'', 64),
        (''bytes_alloc'', 64), (''gfp_flags'', 64)]"

definition trace_event_raw_percpu_free_percpu :: core_struct where
  "trace_event_raw_percpu_free_percpu =
     Core_struct ''trace_event_raw_percpu_free_percpu''
       [(''base_addr'', 64), (''off'', 32), (''ptr'', 64)]"

end
