(* ===== verification/KernelProbes.thy ===== *)
theory KernelProbes
  imports MemleakCore CoreFixes
begin

text \<open>
  The tracepoint programs of \<open>bpf/memleak.bpf.c\<close>. \<open>ctx\<close> is the address of the tracepoint's
  record; its fields are read through the struct flavour the running kernel has. A tracepoint
  of an allocation both notes the request and records the block, in one run.
\<close>

definition memleak__kmalloc ::
    "('ms, 'ma, 'mc, 'mp) kernel \<Rightarrow> config \<Rightarrow> btf \<Rightarrow> invocation \<Rightarrow> u64 \<Rightarrow>
     ('ms, 'ma, 'mc, 'mp) tracker \<Rightarrow> int \<times> ('ms, 'ma, 'mc, 'mp) tracker" where
  "memleak__kmalloc K cfg B I ctx s =
     (let (ptr, bytes_alloc) =
            (if has_kmem_alloc B
             then (core_read B trace_event_raw_kmem_alloc___x ''ptr'' ctx,
                   core_read B trace_event_raw_kmem_alloc___x ''bytes_alloc'' ctx)
             else (core_read B trace_event_raw_kmalloc___x ''ptr'' ctx,
                   core_read B trace_event_raw_kmalloc___x ''bytes_alloc'' ctx));
          s1 = (if wa_missing_free cfg then snd (gen_free_enter K cfg ptr s) else s);
          s2 = snd (gen_alloc_enter K cfg I bytes_alloc s1)
      in gen_alloc_exit2 K cfg I ptr s2)"

definition memleak__kmalloc_node ::
    "('ms, 'ma, 'mc, 'mp) kernel \<Rightarrow> config \<Rightarrow> btf \<Rightarrow> invocation \<Rightarrow> u64 \<Rightarrow>
     ('ms, 'ma, 'mc, 'mp) tracker \<Rightarrow> int \<times> ('ms, 'ma, 'mc, 'mp) tracker" where
  "memleak__kmalloc_node K cfg B I ctx s =
     (if has_kmem_alloc_node B
      then
        (let ptr = core_read B trace_event_raw_kmem_alloc_node___x ''ptr'' ctx;
             bytes_alloc = core_read B trace_event_raw_kmem_alloc_node___x ''bytes_alloc'' ctx;
             s1 = (if wa_missing_free cfg then snd (gen_free_enter K cfg ptr s) else s);
             s2 = snd (gen_alloc_enter K cfg I bytes_alloc s1)
         in gen_alloc_exit2 K cfg I ptr s2)
      else (0, s))"

definition memleak__kfree ::
    "('ms, 'ma, 'mc, 'mp) kernel \<Rightarrow> config \<Rightarrow> btf \<Rightarrow> u64 \<Rightarrow>
     ('ms, 'ma, 'mc, 'mp) tracker \<Rightarrow> int \<times> ('ms, 'ma, 'mc, 'mp) tracker" where
  "memleak__kfree K cfg B ctx s =
     (let ptr = (if has_kfree B
                 then core_read B trace_event_raw_kfree___x ''ptr'' ctx
                 else core_read B trace_event_raw_kmem_free___x ''ptr'' ctx)
      in gen_free_enter K cfg ptr s)"

definition memleak__kmem_cache_alloc ::
    "('ms, 'ma, 'mc, 'mp) kernel \<Rightarrow> config \<Rightarrow> btf \<Rightarrow> invocation \<Rightarrow> u64 \<Rightarrow>
     ('ms, 'ma, 'mc, 'mp) tracker \<Rightarrow> int \<times> ('ms, 'ma, 'mc, 'mp) tracker" where
  "memleak__kmem_cache_alloc K cfg B I ctx s =
     (let (ptr, bytes_alloc) =
            (if has_kmem_alloc B
             then (core_read B trace_event_raw_kmem_alloc___x ''ptr'' ctx,
                   core_read B trace_event_raw_kmem_alloc___x ''bytes_alloc'' ctx)
             else (core_read B trace_event_raw_kmem_cache_alloc___x ''ptr'' ctx,
                   core_read B trace_event_raw_kmem_cache_alloc___x ''bytes_alloc'' ctx));
          s1 = (if wa_missing_free cfg then snd (gen_free_enter K cfg ptr s) else s);
          s2 = snd (gen_alloc_enter K cfg I bytes_alloc s1)
      in gen_alloc_exit2 K cfg I ptr s2)"

definition memleak__kmem_cache_alloc_node ::
    "('ms, 'ma, 'mc, 'mp) kernel \<Rightarrow> config \<Rightarrow> btf \<Rightarrow> invocation \<Rightarrow> u64 \<Rightarrow>
     ('ms, 'ma, 'mc, 'mp) tracker \<Rightarrow> int \<times> ('ms, 'ma, 'mc, 'mp) tracker" where
  "memleak__kmem_cache_alloc_node K cfg B I ctx s =
     (if has_kmem_alloc_node B
      then
        (let ptr = core_read B trace_event_raw_kmem_alloc_node___x ''ptr'' ctx;
             bytes_alloc = core_read B trace_event_raw_kmem_alloc_node___x ''bytes_alloc'' ctx;
             s1 = (if wa_missing_free cfg then snd (gen_free_enter K cfg ptr s) else s);
             s2 = snd (gen_alloc_enter K cfg I bytes_alloc s1)
         in gen_alloc_exit2 K cfg I ptr s2)
      else (0, s))"

definition memleak__kmem_cache_free ::
    "('ms, 'ma, 'mc, 'mp) kernel \<Rightarrow> config \<Rightarrow> btf \<Rightarrow> u64 \<Rightarrow>
     ('ms, 'ma, 'mc, 'mp) tracker \<Rightarrow> int \<times> ('ms, 'ma, 'mc, 'mp) tracker" where
  "memleak__kmem_cache_free K cfg B ctx s =
     (let ptr = (if has_kmem_cache_free B
                 then core_read B trace_event_raw_kmem_cache_free___x ''ptr'' ctx
                 else core_read B trace_event_raw_kmem_free___x ''ptr'' ctx)
      in gen_free_enter K cfg ptr s)"

text \<open>
  \<open>page_size << ctx->order\<close>: \<open>order\<close> is an unsigned int; the shift is defined in C for orders
  below 64, and page orders are far below.
\<close>

definition page_order :: "btf \<Rightarrow> u64 \<Rightarrow> nat" where
  "page_order B ctx = unat (ucast (core_read B trace_event_raw_mm_page_alloc ''order'' ctx) :: u32)"

definition memleak__mm_page_alloc ::
    "('ms, 'ma, 'mc, 'mp) kernel \<Rightarrow> config \<Rightarrow> btf \<Rightarrow> invocation \<Rightarrow> u64 \<Rightarrow>
     ('ms, 'ma, 'mc, 'mp) tracker \<Rightarrow> int \<times> ('ms, 'ma, 'mc, 'mp) tracker" where
  "memleak__mm_page_alloc K cfg B I ctx s =
     (let s1 = snd (gen_alloc_enter K cfg I (push_bit (page_order B ctx) (page_size cfg)) s)
      in gen_alloc_exit2 K cfg I (core_read B trace_event_raw_mm_page_alloc ''pfn'' ctx) s1)"

definition memleak__mm_page_free ::
    "('ms, 'ma, 'mc, 'mp) kernel \<Rightarrow> config \<Rightarrow> btf \<Rightarrow> u64 \<Rightarrow>
     ('ms, 'ma, 'mc, 'mp) tracker \<Rightarrow> int \<times> ('ms, 'ma, 'mc, 'mp) tracker" where
  "memleak__mm_page_free K cfg B ctx s =
     gen_free_enter K cfg (core_read B trace_event_raw_mm_page_free ''pfn'' ctx) s"

definition memleak__percpu_alloc_percpu ::
    "('ms, 'ma, 'mc, 'mp) kernel \<Rightarrow> config \<Rightarrow> btf \<Rightarrow> invocation \<Rightarrow> u64 \<Rightarrow>
     ('ms, 'ma, 'mc, 'mp) tracker \<Rightarrow> int \<times> ('ms, 'ma, 'mc, 'mp) tracker" where
  "memleak__percpu_alloc_percpu K cfg B I ctx s =
     (let s1 = snd (gen_alloc_enter K cfg I
                      (core_read B trace_event_raw_percpu_alloc_percpu ''bytes_alloc'' ctx) s)
      in gen_alloc_exit2 K cfg I (core_read B trace_event_raw_percpu_alloc_percpu ''ptr'' ctx) s1)"

definition memleak__percpu_free_percpu ::
    "('ms, 'ma, 'mc, 'mp) kernel \<Rightarrow> config \<Rightarrow> btf \<Rightarrow> u64 \<Rightarrow>
     ('ms, 'ma, 'mc, 'mp) tracker \<Rightarrow> int \<times> ('ms, 'ma, 'mc, 'mp) tracker" where
  "memleak__percpu_free_percpu K cfg B ctx s =
     gen_free_enter K cfg (core_read B trace_event_raw_percpu_free_percpu ''ptr'' ctx) s"

lemmas kernel_probe_defs = memleak__kmalloc_def memleak__kmalloc_node_def memleak__kfree_def
  memleak__kmem_cache_alloc_def memleak__kmem_cache_alloc_node_def memleak__kmem_cache_free_def
  memleak__mm_page_alloc_def memleak__mm_page_free_def memleak__percpu_alloc_percpu_def
  memleak__percpu_free_percpu_def

end
