(* ===== verification/Programs.thy ===== *)
theory Programs
  imports UserProbes KernelProbes
begin

text \<open>
  All programs of the object file under one dispatcher, and their runs. Each program is the
  composition of a few actions on the contents of the maps (\<open>actions_of\<close>); the refinement
  theorem says that running the program is running its actions. Invariants are proved per
  action and lifted to programs, to runs and to the reachable states of the tracker.
\<close>

declare contents_of_simps [simp del]

datatype program =
    Malloc_enter u64 | Malloc_exit | Free_enter u64
  | Calloc_enter u64 u64 | Calloc_exit
  | Realloc_enter u64 u64 | Realloc_exit
  | Mmap_enter u64 u64 | Mmap_exit | Munmap_enter u64
  | Posix_memalign_enter u64 u64 u64 | Posix_memalign_exit
  | Aligned_alloc_enter u64 u64 | Aligned_alloc_exit
  | Valloc_enter u64 | Valloc_exit
  | Memalign_enter u64 u64 | Memalign_exit
  | Pvalloc_enter u64 | Pvalloc_exit
  | Memleak_kmalloc u64 | Memleak_kmalloc_node u64 | Memleak_kfree u64
  | Memleak_kmem_cache_alloc u64 | Memleak_kmem_cache_alloc_node u64 | Memleak_kmem_cache_free u64
  | Memleak_mm_page_alloc u64 | Memleak_mm_page_free u64
  | Memleak_percpu_alloc_percpu u64 | Memleak_percpu_free_percpu u64

fun run_program ::
    "('ms, 'ma, 'mc, 'mp) kernel \<Rightarrow> config \<Rightarrow> btf \<Rightarrow> invocation \<Rightarrow> program \<Rightarrow>
     ('ms, 'ma, 'mc, 'mp) tracker \<Rightarrow> int \<times> ('ms, 'ma, 'mc, 'mp) tracker" where
  "run_program K cfg B I (Malloc_enter n) s = malloc_enter K cfg I n s"
| "run_program K cfg B I Malloc_exit s = malloc_exit K cfg I s"
| "run_program K cfg B I (Free_enter a) s = free_enter K cfg a s"
| "run_program K cfg B I (Calloc_enter nmemb n) s = calloc_enter K cfg I nmemb n s"
| "run_program K cfg B I Calloc_exit s = calloc_exit K cfg I s"
| "run_program K cfg B I (Realloc_enter p n) s = realloc_enter K cfg I p n s"
| "run_program K cfg B I Realloc_exit s = realloc_exit K cfg I s"
| "run_program K cfg B I (Mmap_enter a n) s = mmap_enter K cfg I a n s"
| "run_program K cfg B I Mmap_exit s = mmap_exit K cfg I s"
| "run_program K cfg B I (Munmap_enter a) s = munmap_enter K cfg a s"
| "run_program K cfg B I (Posix_memalign_enter m al n) s = posix_memalign_enter K cfg I m al n s"
| "run_program K cfg B I Posix_memalign_exit s = posix_memalign_exit K cfg I s"
| "run_program K cfg B I (Aligned_alloc_enter al n) s = aligned_alloc_enter K cfg I al n s"
| "run_program K cfg B I Aligned_alloc_exit s = aligned_alloc_exit K cfg I s"
| "run_program K cfg B I (Valloc_enter n) s = valloc_enter K cfg I n s"
| "run_program K cfg B I Valloc_exit s = valloc_exit K cfg I s"
| "run_program K cfg B I (Memalign_enter al n) s = memalign_enter K cfg I al n s"
| "run_program K cfg B I Memalign_exit s = memalign_exit K cfg I s"
| "run_program K cfg B I (Pvalloc_enter n) s = pvalloc_enter K cfg I n s"
| "run_program K cfg B I Pvalloc_exit s = pvalloc_exit K cfg I s"
| "run_program K cfg B I (Memleak_kmalloc c) s = memleak__kmalloc K cfg B I c s"
| "run_program K cfg B I (Memleak_kmalloc_node c) s = memleak__kmalloc_node K cfg B I c s"
| "run_program K cfg B I (Memleak_kfree c) s = memleak__kfree K cfg B c s"
| "run_program K cfg B I (Memleak_kmem_cache_alloc c) s = memleak__kmem_cache_alloc K cfg B I c s"
| "run_program K cfg B I (Memleak_kmem_cache_alloc_node c) s =
     memleak__kmem_cache_alloc_node K cfg B I c s"
| "run_program K cfg B I (Memleak_kmem_cache_free c) s = memleak__kmem_cache_free K cfg B c s"
| "run_program K cfg B I (Memleak_mm_page_alloc c) s = memleak__mm_page_alloc K cfg B I c s"
| "run_program K cfg B I (Memleak_mm_page_free c) s = memleak__mm_page_free K cfg B c s"
| "run_program K cfg B I (Memleak_percpu_alloc_percpu c) s =
     memleak__percpu_alloc_percpu K cfg B I c s"
| "run_program K cfg B I (Memleak_percpu_free_percpu c) s =
     memleak__percpu_free_percpu K cfg B c s"

subsection \<open>Actions\<close>

datatype action = Note u64 | Settle u64 | Forget u64 | Save_memptr u64 | Settle_memptr

fun spec_action :: "config \<Rightarrow> invocation \<Rightarrow> action \<Rightarrow> contents \<Rightarrow> contents" where
  "spec_action cfg I (Note n) c = spec_enter cfg I n c"
| "spec_action cfg I (Settle a) c = spec_exit cfg I a c"
| "spec_action cfg I (Forget a) c = spec_free a c"
| "spec_action cfg I (Save_memptr m) c = spec_save_memptr I m c"
| "spec_action cfg I Settle_memptr c = spec_memptr_exit cfg I c"

text \<open>A kernel allocation: with the workaround, the address is forgotten first.\<close>

definition traced_alloc :: "config \<Rightarrow> u64 \<Rightarrow> u64 \<Rightarrow> action list" where
  "traced_alloc cfg a n = (if wa_missing_free cfg then [Forget a] else []) @ [Note n, Settle a]"

fun actions_of :: "config \<Rightarrow> btf \<Rightarrow> invocation \<Rightarrow> program \<Rightarrow> action list" where
  "actions_of cfg B I (Malloc_enter n) = [Note n]"
| "actions_of cfg B I (Free_enter a) = [Forget a]"
| "actions_of cfg B I (Calloc_enter nmemb n) = [Note (nmemb * n)]"
| "actions_of cfg B I (Realloc_enter p n) = [Forget p, Note n]"
| "actions_of cfg B I (Mmap_enter a n) = [Note n]"
| "actions_of cfg B I (Munmap_enter a) = [Forget a]"
| "actions_of cfg B I (Posix_memalign_enter m al n) = [Save_memptr m, Note n]"
| "actions_of cfg B I Posix_memalign_exit = [Settle_memptr]"
| "actions_of cfg B I (Aligned_alloc_enter al n) = [Note n]"
| "actions_of cfg B I (Valloc_enter n) = [Note n]"
| "actions_of cfg B I (Memalign_enter al n) = [Note n]"
| "actions_of cfg B I (Pvalloc_enter n) = [Note n]"
| "actions_of cfg B I (Memleak_kmalloc c) =
     (let t = (if has_kmem_alloc B then trace_event_raw_kmem_alloc___x
               else trace_event_raw_kmalloc___x)
      in traced_alloc cfg (core_read B t ''ptr'' c) (core_read B t ''bytes_alloc'' c))"
| "actions_of cfg B I (Memleak_kmalloc_node c) =
     (if has_kmem_alloc_node B
      then traced_alloc cfg (core_read B trace_event_raw_kmem_alloc_node___x ''ptr'' c)
             (core_read B trace_event_raw_kmem_alloc_node___x ''bytes_alloc'' c)
      else [])"
| "actions_of cfg B I (Memleak_kfree c) =
     [Forget (core_read B (if has_kfree B then trace_event_raw_kfree___x
                           else trace_event_raw_kmem_free___x) ''ptr'' c)]"
| "actions_of cfg B I (Memleak_kmem_cache_alloc c) =
     (let t = (if has_kmem_alloc B then trace_event_raw_kmem_alloc___x
               else trace_event_raw_kmem_cache_alloc___x)
      in traced_alloc cfg (core_read B t ''ptr'' c) (core_read B t ''bytes_alloc'' c))"
| "actions_of cfg B I (Memleak_kmem_cache_alloc_node c) =
     (if has_kmem_alloc_node B
      then traced_alloc cfg (core_read B trace_event_raw_kmem_alloc_node___x ''ptr'' c)
             (core_read B trace_event_raw_kmem_alloc_node___x ''bytes_alloc'' c)
      else [])"
| "actions_of cfg B I (Memleak_kmem_cache_free c) =
     [Forget (core_read B (if has_kmem_cache_free B then trace_event_raw_kmem_cache_free___x
                           else trace_event_raw_kmem_free___x) ''ptr'' c)]"
| "actions_of cfg B I (Memleak_mm_page_alloc c) =
     [Note (push_bit (page_order B c) (page_size cfg)),
      Settle (core_read B trace_event_raw_mm_page_alloc ''pfn'' c)]"
| "actions_of cfg B I (Memleak_mm_page_free c) =
     [Forget (core_read B trace_event_raw_mm_page_free ''pfn'' c)]"
| "actions_of cfg B I (Memleak_percpu_alloc_percpu c) =
     [Note (core_read B trace_event_raw_percpu_alloc_percpu ''bytes_alloc'' c),
      Settle (core_read B trace_event_raw_percpu_alloc_percpu ''ptr'' c)]"
| "actions_of cfg B I (Memleak_percpu_free_percpu c) =
     [Forget (core_read B trace_event_raw_percpu_free_percpu ''ptr'' c)]"
| "actions_of cfg B I _ = [Settle (regs_rc I)]"

definition spec_program :: "config \<Rightarrow> btf \<Rightarrow> invocation \<Rightarrow> program \<Rightarrow> contents \<Rightarrow> contents" where
  "spec_program cfg B I p c = fold (spec_action cfg I) (actions_of cfg B I p) c"

lemma run_program_returns_0: "fst (run_program K cfg B I p s) = 0"
  by (cases p) (simp_all add: user_probe_defs kernel_probe_defs Let_def split_beta)

context memleak_kernel
begin

lemma program_refines:
  assumes "maps_valid K s"
  shows "maps_valid K (snd (run_program K cfg B I p s))"
    and "contents_of K (snd (run_program K cfg B I p s)) = spec_program cfg B I p (contents_of K s)"
  using assms
  by (cases p; simp add: spec_program_def user_probe_defs kernel_probe_defs traced_alloc_def
      gen_alloc_exit_def core_refines posix_enter_refines posix_exit_refines Let_def split_beta)+

end

end
