(* ===== verification/Runs.thy ===== *)
theory Runs
  imports Programs
begin

text \<open>
  Runs of the programs: sequences of invocations, as the kernel delivers them. A generic locale
  lifts a one-step refinement to runs; it is instantiated for the programs of any kernel that
  meets the map assumptions. On top of it stand the invariants of the reachable states and the
  exactness of the reported totals.
\<close>

type_synonym event = "invocation \<times> program"

locale run_refinement =
  fixes cstep :: "'e \<Rightarrow> 'c \<Rightarrow> 'c" and astep :: "'e \<Rightarrow> 'a \<Rightarrow> 'a"
    and view :: "'c \<Rightarrow> 'a" and good :: "'c \<Rightarrow> bool"
  assumes step_good: "good s \<Longrightarrow> good (cstep e s)"
    and step_view: "good s \<Longrightarrow> view (cstep e s) = astep e (view s)"
begin

lemma run_good: "good s \<Longrightarrow> good (fold cstep es s)"
  by (induction es arbitrary: s) (simp_all add: step_good)

lemma run_view: "good s \<Longrightarrow> view (fold cstep es s) = fold astep es (view s)"
  by (induction es arbitrary: s) (simp_all add: step_good step_view)

lemma run_invariant:
  assumes "\<And>e a. P a \<Longrightarrow> P (astep e a)" and "good s" and "P (view s)"
  shows "P (view (fold cstep es s))"
  using assms(2,3)
  by (induction es arbitrary: s) (simp_all add: step_good step_view assms(1))

end

definition program_step ::
    "('ms, 'ma, 'mc, 'mp) kernel \<Rightarrow> config \<Rightarrow> btf \<Rightarrow> event \<Rightarrow>
     ('ms, 'ma, 'mc, 'mp) tracker \<Rightarrow> ('ms, 'ma, 'mc, 'mp) tracker" where
  "program_step K cfg B e s = snd (run_program K cfg B (fst e) (snd e) s)"

definition spec_step :: "config \<Rightarrow> btf \<Rightarrow> event \<Rightarrow> contents \<Rightarrow> contents" where
  "spec_step cfg B e c = spec_program cfg B (fst e) (snd e) c"

definition run_events ::
    "('ms, 'ma, 'mc, 'mp) kernel \<Rightarrow> config \<Rightarrow> btf \<Rightarrow> event list \<Rightarrow>
     ('ms, 'ma, 'mc, 'mp) tracker \<Rightarrow> ('ms, 'ma, 'mc, 'mp) tracker" where
  "run_events K cfg B es s = fold (program_step K cfg B) es s"

definition spec_events :: "config \<Rightarrow> btf \<Rightarrow> event list \<Rightarrow> contents \<Rightarrow> contents" where
  "spec_events cfg B es c = fold (spec_step cfg B) es c"

sublocale memleak_kernel \<subseteq> programs: run_refinement
  "program_step K cfg B" "spec_step cfg B" "contents_of K" "maps_valid K" for cfg B
  by unfold_locales (simp_all add: program_step_def spec_step_def program_refines)

interpretation slot_programs: run_refinement
  "program_step slot_kernel cfg B" "spec_step cfg B" "contents_of slot_kernel" "maps_valid slot_kernel"
  by unfold_locales (simp_all add: program_step_def spec_step_def slotk.program_refines)

subsection \<open>Accounting over runs\<close>

text \<open>
  What the environment must grant an action for the accounting to stay exact: a new block is
  at an address that is not recorded (its last release was seen), and there is room for it.
\<close>

definition settle_ok :: "config \<Rightarrow> invocation \<Rightarrow> u64 \<Rightarrow> contents \<Rightarrow> bool" where
  "settle_ok cfg I a c =
     (case c_sizes c (current_pid I) of
        None \<Rightarrow> True
      | Some n \<Rightarrow> a = 0 \<or> c_allocs c a = None \<and> has_room c a (exit_info cfg I n))"

fun action_ok :: "config \<Rightarrow> invocation \<Rightarrow> action \<Rightarrow> contents \<Rightarrow> bool" where
  "action_ok cfg I (Settle a) c = settle_ok cfg I a c"
| "action_ok cfg I Settle_memptr c =
     (case c_memptrs c (current_pid64 I) of
        None \<Rightarrow> True
      | Some m \<Rightarrow> (case probe_read_user I m of
                     None \<Rightarrow> True
                   | Some a \<Rightarrow> settle_ok cfg I a c))"
| "action_ok cfg I _ c = True"

fun actions_ok :: "config \<Rightarrow> invocation \<Rightarrow> action list \<Rightarrow> contents \<Rightarrow> bool" where
  "actions_ok cfg I [] c = True"
| "actions_ok cfg I (a # as) c = (action_ok cfg I a c \<and> actions_ok cfg I as (spec_action cfg I a c))"

fun events_ok :: "config \<Rightarrow> btf \<Rightarrow> event list \<Rightarrow> contents \<Rightarrow> bool" where
  "events_ok cfg B [] c = True"
| "events_ok cfg B (e # es) c =
     (actions_ok cfg (fst e) (actions_of cfg B (fst e) (snd e)) c \<and>
      events_ok cfg B es (spec_step cfg B e c))"

lemma accounted_no_contents: "accounted no_contents"
  by (simp add: accounted_def covered_def drift_def stack_stats_def expected_stats_def
      no_contents_def)

lemma accounted_settle:
  "accounted c \<Longrightarrow> settle_ok cfg I a c \<Longrightarrow> accounted (spec_exit cfg I a c)"
  by (rule accounted_exit) (auto simp: settle_ok_def)

lemma accounted_action: "accounted c \<Longrightarrow> action_ok cfg I a c \<Longrightarrow> accounted (spec_action cfg I a c)"
proof (cases a)
  case Settle_memptr
  assume "accounted c" "action_ok cfg I a c"
  with Settle_memptr show ?thesis
    by (auto simp: spec_memptr_exit_def accounted_memptrs settle_ok_def has_room_def Let_def
        intro!: accounted_settle split: option.splits)
qed (auto simp: accounted_enter accounted_free accounted_settle spec_save_memptr_def
      accounted_memptrs)

lemma accounted_actions:
  "accounted c \<Longrightarrow> actions_ok cfg I as c \<Longrightarrow> accounted (fold (spec_action cfg I) as c)"
  by (induction as arbitrary: c) (auto intro: accounted_action)

lemma accounted_events:
  "accounted c \<Longrightarrow> events_ok cfg B es c \<Longrightarrow> accounted (spec_events cfg B es c)"
  unfolding spec_events_def
  by (induction es arbitrary: c)
    (auto simp: spec_step_def spec_program_def intro!: accounted_actions)

subsection \<open>Filters over runs\<close>

lemma filtered_no_contents: "filtered cfg no_contents"
  by (simp add: filtered_def no_contents_def)

lemma filtered_action: "filtered cfg c \<Longrightarrow> filtered cfg (spec_action cfg I a c)"
  by (cases a) (auto simp: filtered_enter filtered_exit filtered_free spec_save_memptr_def
      filtered_memptrs spec_memptr_exit_def Let_def split: option.split)

lemma filtered_step: "filtered cfg c \<Longrightarrow> filtered cfg (spec_step cfg B e c)"
proof -
  have "filtered cfg c \<Longrightarrow> filtered cfg (fold (spec_action cfg (fst e)) as c)" for as
    by (induction as arbitrary: c) (auto intro: filtered_action)
  then show "filtered cfg c \<Longrightarrow> filtered cfg (spec_step cfg B e c)"
    by (simp add: spec_step_def spec_program_def)
qed

subsection \<open>Capacities over runs\<close>

lemma capacity_no_contents: "within_capacity no_contents \<and> covered_or_full no_contents"
  by (simp add: within_capacity_def covered_or_full_def no_contents_def)

lemma capacity_memptrs:
  "within_capacity c \<Longrightarrow> finite (dom m) \<Longrightarrow> card (dom m) \<le> memptrs_max_entries \<Longrightarrow>
     within_capacity (c\<lparr>c_memptrs := m\<rparr>)"
  by (simp add: within_capacity_def)

lemma capacity_drop_memptr:
  "within_capacity c \<Longrightarrow> within_capacity (c\<lparr>c_memptrs := (c_memptrs c)(p := None)\<rparr>)"
  by (rule capacity_memptrs) (auto simp: within_capacity_def intro: le_trans [OF card_Diff1_le])

lemma capacity_action:
  "within_capacity c \<Longrightarrow> within_capacity (spec_action cfg I a c)"
proof (cases a)
  case (Save_memptr m)
  assume "within_capacity c"
  with Save_memptr show ?thesis
    by (simp add: within_capacity_def spec_save_memptr_def finite_bounded_upd card_bounded_upd)
qed (simp_all add: capacity_enter capacity_exit capacity_free spec_memptr_exit_def
      capacity_drop_memptr Let_def split: option.split)

lemma covered_or_full_enter: "covered_or_full (spec_enter cfg I n c) = covered_or_full c"
  by (simp add: covered_or_full_def)

lemma covered_or_full_save: "covered_or_full (spec_save_memptr I m c) = covered_or_full c"
  by (simp add: covered_or_full_def spec_save_memptr_def)

lemma covered_or_full_action:
  assumes "covered_or_full c" and "within_capacity c"
  shows "covered_or_full (spec_action cfg I a c)"
proof (cases a)
  case Settle_memptr
  have memptrs: "covered_or_full (c\<lparr>c_memptrs := m\<rparr>)" for m
    using assms(1) by (simp add: covered_or_full_def)
  show ?thesis
    using Settle_memptr assms memptrs capacity_drop_memptr [OF assms(2)]
    by (simp add: spec_memptr_exit_def Let_def covered_or_full_exit split: option.split)
qed (use assms in \<open>simp_all add: covered_or_full_free covered_or_full_exit covered_or_full_enter
      covered_or_full_save\<close>)

lemma capacity_step:
  assumes "within_capacity c \<and> covered_or_full c"
  shows "within_capacity (spec_step cfg B e c) \<and> covered_or_full (spec_step cfg B e c)"
proof -
  have "within_capacity c \<and> covered_or_full c \<Longrightarrow>
      within_capacity (fold (spec_action cfg (fst e)) as c) \<and>
      covered_or_full (fold (spec_action cfg (fst e)) as c)" for as
    by (induction as arbitrary: c) (auto simp: capacity_action covered_or_full_action)
  with assms show ?thesis by (simp add: spec_step_def spec_program_def)
qed

subsection \<open>Reachable states\<close>

text \<open>
  The step relation of the loaded object: any program may be invoked next, with any helper
  results. The reachable states are those of all runs from an empty tracker.
\<close>

inductive tracker_step ::
    "('ms, 'ma, 'mc, 'mp) kernel \<Rightarrow> config \<Rightarrow> btf \<Rightarrow> ('ms, 'ma, 'mc, 'mp) tracker \<Rightarrow> event \<Rightarrow>
     ('ms, 'ma, 'mc, 'mp) tracker \<Rightarrow> bool"
  for K cfg B where
  invoke: "run_program K cfg B I p s = (r, t) \<Longrightarrow> tracker_step K cfg B s (I, p) t"

inductive_cases tracker_stepE [elim!]: "tracker_step K cfg B s e t"

inductive_simps tracker_step_iff: "tracker_step K cfg B s (I, p) t"

inductive reachable ::
    "('ms, 'ma, 'mc, 'mp) kernel \<Rightarrow> config \<Rightarrow> btf \<Rightarrow> ('ms, 'ma, 'mc, 'mp) tracker \<Rightarrow> bool"
  for K cfg B where
  loaded: "maps_valid K s \<Longrightarrow> contents_of K s = no_contents \<Longrightarrow> reachable K cfg B s"
| stepped: "reachable K cfg B s \<Longrightarrow> tracker_step K cfg B s e t \<Longrightarrow> reachable K cfg B t"

lemma tracker_step_program_step: "tracker_step K cfg B s e t \<longleftrightarrow> t = program_step K cfg B e s"
  by (cases e) (simp add: tracker_step_iff program_step_def, metis prod.collapse snd_conv)

lemma reachable_step: "reachable K cfg B s \<Longrightarrow> reachable K cfg B (program_step K cfg B e s)"
  by (erule reachable.stepped) (simp add: tracker_step_program_step)

text \<open>A property of contents that no program breaks holds of every reachable state.\<close>

context memleak_kernel
begin

lemma reachable_invariant:
  assumes "reachable K cfg B s" and "P no_contents"
    and "\<And>e c. P c \<Longrightarrow> P (spec_step cfg B e c)"
  shows "maps_valid K s \<and> P (contents_of K s)"
  using assms(1)
proof (induction rule: reachable.induct)
  case (loaded s)
  then show ?case using assms(2) by simp
next
  case (stepped s e t)
  then show ?case
    using assms(3) programs.step_good [of s cfg B e] programs.step_view [of s cfg B e]
    by (simp add: tracker_step_program_step)
qed

lemmas run_contents = programs.run_view [folded run_events_def spec_events_def]
lemmas run_valid = programs.run_good [folded run_events_def]

end

lemma reachable_run:
  "reachable K cfg B s \<Longrightarrow> reachable K cfg B (run_events K cfg B es s)"
  unfolding run_events_def
  by (induction es arbitrary: s)
    (auto intro: reachable_step)

end
