(* ===== verification/Accounting.thy ===== *)
theory Accounting
  imports Runs
begin

text \<open>
  What the tracker promises over whole runs: the refinement of its specification, the exactness
  of the reported totals, the invariants of all reachable states, and how each event moves the
  drift between the statistics and the recorded blocks.
\<close>

definition no_btf :: btf where
  "no_btf = \<lparr>core_type_exists = (\<lambda>_. False), core_field_exists = (\<lambda>_ _. False),
             core_read = (\<lambda>_ _ _. 0)\<rparr>"

lemma no_contents_simps [simp]:
  "c_sizes no_contents = Map.empty" "c_allocs no_contents = Map.empty"
  "c_combined no_contents = Map.empty" "c_memptrs no_contents = Map.empty"
  by (simp_all add: no_contents_def)

lemmas capacity_defs = sizes_max_entries_def allocs_max_entries_def combined_allocs_max_entries_def
  memptrs_max_entries_def ALLOCS_MAX_ENTRIES_def COMBINED_ALLOCS_MAX_ENTRIES_def

lemmas run_spec_simps = spec_events_def spec_step_def spec_program_def spec_enter_def
  spec_exit_def spec_free_def alloc_admitted_def exit_info_def

text \<open>A run of two allocations and one release, on the reference kernel.\<close>

definition demo_events :: "event list" where
  "demo_events =
     [(call 0 5, Malloc_enter 64), (call 4096 5, Malloc_exit),
      (call 0 5, Malloc_enter 32), (call 8192 5, Malloc_exit),
      (call 0 5, Free_enter 4096)]"

lemma demo_contents:
  "spec_events default_config B demo_events no_contents =
     \<lparr>c_sizes = Map.empty,
      c_allocs = [8192 \<mapsto> \<lparr>ai_size = 32, ai_timestamp_ns = 200, ai_stack_id = 5\<rparr>],
      c_combined = [5 \<mapsto> combined_of_info 32 1], c_memptrs = Map.empty\<rparr>"
  by (simp add: demo_events_def run_spec_simps default_config_def bounded_upd_def capacity_defs
      spec_record_def spec_credit_def spec_debit_def stack_key_def stack_stats_def no_contents_def
      Let_def)

lemma demo_ok: "events_ok default_config B demo_events no_contents"
  by (simp add: demo_events_def run_spec_simps default_config_def bounded_upd_def capacity_defs
      spec_record_def spec_credit_def spec_debit_def stack_key_def stack_stats_def no_contents_def
      Let_def settle_ok_def has_room_def)

subsection \<open>Refinement and exact totals\<close>

text \<open>C4: For every kernel whose maps obey the documented laws, any sequence of invocations of
  the thirty programs keeps the maps valid, and the contents it leaves are the ones the
  specification computes on partial maps: the pointer-level code (lookup, try-init, reads of
  deleted elements, in-place atomic updates) implements the specification.\<close>

theorem run_refines_spec:
  assumes "memleak_kernel K" and "maps_valid K s"
  shows "maps_valid K (run_events K cfg B es s) \<and>
         contents_of K (run_events K cfg B es s) = spec_events cfg B es (contents_of K s)"
  using memleak_kernel.run_valid [OF assms] memleak_kernel.run_contents [OF assms] by blast

theorem run_refines_spec_witness:
  "contents_of slot_kernel (run_events slot_kernel default_config no_btf demo_events slot_init) =
     \<lparr>c_sizes = Map.empty,
      c_allocs = [8192 \<mapsto> \<lparr>ai_size = 32, ai_timestamp_ns = 200, ai_stack_id = 5\<rparr>],
      c_combined = [5 \<mapsto> combined_of_info 32 1], c_memptrs = Map.empty\<rparr>"
  using run_refines_spec [OF slot_kernel_ok slot_init_valid, of default_config no_btf demo_events]
  by (simp add: demo_contents)

text \<open>C3: Starting from an empty tracker, after any run in which every recorded block comes at an
  address not currently recorded and fits the tables, the two bit-fields kept for a stack are
  exactly the number of bytes and the number of blocks allocated from that stack and not yet
  released, as long as the bytes are below 2^40 and the blocks below 2^24.\<close>

theorem reported_totals_exact:
  assumes "memleak_kernel K" and "maps_valid K s" and "contents_of K s = no_contents"
    and "events_ok cfg B es no_contents"
    and "outstanding_bytes (contents_of K (run_events K cfg B es s)) sid < 2 ^ 40"
    and "outstanding_count (contents_of K (run_events K cfg B es s)) sid < 2 ^ 24"
  shows "unat (total_size (stack_stats (contents_of K (run_events K cfg B es s)) sid)) =
           outstanding_bytes (contents_of K (run_events K cfg B es s)) sid \<and>
         unat (number_of_allocs (stack_stats (contents_of K (run_events K cfg B es s)) sid)) =
           outstanding_count (contents_of K (run_events K cfg B es s)) sid"
proof -
  have "accounted (contents_of K (run_events K cfg B es s))"
    using assms(3,4) accounted_no_contents
    by (simp add: memleak_kernel.run_contents [OF assms(1,2)] accounted_events)
  with bitfields.read_accounted assms(5,6)
  show "unat (total_size (stack_stats (contents_of K (run_events K cfg B es s)) sid)) =
           outstanding_bytes (contents_of K (run_events K cfg B es s)) sid \<and>
         unat (number_of_allocs (stack_stats (contents_of K (run_events K cfg B es s)) sid)) =
           outstanding_count (contents_of K (run_events K cfg B es s)) sid"
    by blast
qed

lemma demo_run:
  "contents_of slot_kernel (run_events slot_kernel default_config B demo_events slot_init) =
     \<lparr>c_sizes = Map.empty,
      c_allocs = [8192 \<mapsto> \<lparr>ai_size = 32, ai_timestamp_ns = 200, ai_stack_id = 5\<rparr>],
      c_combined = [5 \<mapsto> combined_of_info 32 1], c_memptrs = Map.empty\<rparr>"
  by (simp add: slotk.run_contents demo_contents)

lemma demo_outstanding:
  "outstanding_bytes (contents_of slot_kernel
     (run_events slot_kernel default_config B demo_events slot_init)) 5 = 32"
  "outstanding_count (contents_of slot_kernel
     (run_events slot_kernel default_config B demo_events slot_init)) 5 = 1"
  by (simp_all add: demo_run outstanding_bytes_def outstanding_count_def map_sum_def stack_key_def)

theorem reported_totals_exact_witness:
  "unat (total_size (stack_stats (contents_of slot_kernel
     (run_events slot_kernel default_config no_btf demo_events slot_init)) 5)) = 32 \<and>
   unat (number_of_allocs (stack_stats (contents_of slot_kernel
     (run_events slot_kernel default_config no_btf demo_events slot_init)) 5)) = 1"
  using reported_totals_exact [OF slot_kernel_ok slot_init_valid slot_init_contents
      demo_ok [of no_btf], of 5]
  by (simp add: demo_outstanding)

subsection \<open>How events move the drift\<close>

text \<open>C13: A release takes out of the statistics exactly what it takes out of the recorded blocks: it
  changes no drift, and an unknown address nothing at all. The one exception is a recorded block
  whose stack has no statistics (there was no room for them when it was recorded): its release
  raises the drift of that stack by the block.\<close>

theorem free_keeps_drift:
  assumes "memleak_kernel K" and "maps_valid K s"
  shows "drift (contents_of K (snd (gen_free_enter K cfg a s))) sid =
    drift (contents_of K s) sid +
    (case c_allocs (contents_of K s) a of
       None \<Rightarrow> 0
     | Some i \<Rightarrow> if c_combined (contents_of K s) (stack_key i) = None then contribution sid i else 0)"
  using memleak_kernel.allocs_finite [OF assms]
  by (simp add: memleak_kernel.free_refines [OF assms] spec_free_drift_all uncounted_def
      del: contents_of_simps)

text \<open>A tracker holding one block of 64 bytes at 4096, allocated from stack 5, and a pending
  request of 32 bytes.\<close>

definition one_block :: slot_tracker where
  "one_block = run_events slot_kernel default_config no_btf
     [(call 0 5, Malloc_enter 64), (call 4096 5, Malloc_exit), (call 0 5, Malloc_enter 32)]
     slot_init"

lemma one_block_valid [simp]: "maps_valid slot_kernel one_block"
  by (simp add: one_block_def slotk.run_valid)

lemma one_block_contents [simp]:
  "contents_of slot_kernel one_block =
     \<lparr>c_sizes = [7 \<mapsto> 32],
      c_allocs = [4096 \<mapsto> \<lparr>ai_size = 64, ai_timestamp_ns = 200, ai_stack_id = 5\<rparr>],
      c_combined = [5 \<mapsto> combined_of_info 64 1], c_memptrs = Map.empty\<rparr>"
  by (simp add: one_block_def slotk.run_contents run_spec_simps default_config_def
      bounded_upd_def capacity_defs spec_record_def spec_credit_def stack_key_def stack_stats_def
      no_contents_def Let_def)

lemma one_block_covered: "covered (contents_of slot_kernel one_block)"
  by (simp add: covered_def stack_key_def)

lemma one_block_drift: "drift (contents_of slot_kernel one_block) 5 = 0"
  by (simp add: drift_def stack_stats_def expected_stats_def map_sum_def contribution_def
      stack_key_def)

theorem free_keeps_drift_witness:
  "drift (contents_of slot_kernel (snd (gen_free_enter slot_kernel default_config 4096 one_block))) 5 = 0"
  using free_keeps_drift [OF slot_kernel_ok one_block_valid, of default_config 4096 5]
  by (simp only: one_block_drift) (simp add: stack_key_def)

text \<open>Recording a block, with room in both tables, raises the drift of a stack by exactly the
  block of that stack that was still recorded at the returned address: none if the address was
  free, the old block (whose release was missed) if it was not.\<close>

theorem exit_drift:
  assumes "memleak_kernel K" and "maps_valid K s" and "covered (contents_of K s)"
    and "c_sizes (contents_of K s) (current_pid I) = Some n" and "a \<noteq> 0"
    and "has_room (contents_of K s) a (exit_info cfg I n)"
  shows "drift (contents_of K (snd (gen_alloc_exit2 K cfg I a s))) sid =
           drift (contents_of K s) sid + share (contribution sid) (c_allocs (contents_of K s) a)"
proof -
  let ?c = "(contents_of K s)\<lparr>c_sizes := (c_sizes (contents_of K s))(current_pid I := None)\<rparr>"
  have "covered ?c" "has_room ?c a (exit_info cfg I n)"
    using assms(3,6) by (simp_all add: covered_def has_room_def)
  from spec_record_drift [OF this, of sid] show ?thesis
    using assms(4,5)
    by (simp add: memleak_kernel.exit_refines [OF assms(1,2)] spec_exit_def Let_def)
      (simp add: drift_def stack_stats_def expected_stats_def)
qed

theorem exit_drift_witness:
  "drift (contents_of slot_kernel
     (snd (gen_alloc_exit2 slot_kernel default_config (call 4096 5) 4096 one_block))) 5 =
   combined_of_info 64 1"
  using exit_drift [OF slot_kernel_ok one_block_valid one_block_covered,
      of "call 4096 5" 32 4096 default_config 5]
  by (simp add: one_block_drift [simplified] has_room_def capacity_defs contribution_def stack_key_def)

text \<open>C28: When \<open>allocs\<close> is full, a new block is still added to the statistics although it
  cannot be stored; nothing will ever take it out again, so its stack is reported with one block
  too many from then on.\<close>

theorem full_table_overcounts:
  assumes "memleak_kernel K" and "maps_valid K s" and "covered (contents_of K s)"
    and "c_sizes (contents_of K s) (current_pid I) = Some n" and "a \<noteq> 0"
    and "c_allocs (contents_of K s) a = None"
    and "ALLOCS_MAX_ENTRIES \<le> card (dom (c_allocs (contents_of K s)))"
    and "c_combined (contents_of K s) (stack_key (exit_info cfg I n)) \<noteq> None"
  shows "c_allocs (contents_of K (snd (gen_alloc_exit2 K cfg I a s))) =
           c_allocs (contents_of K s) \<and>
         drift (contents_of K (snd (gen_alloc_exit2 K cfg I a s))) sid =
           drift (contents_of K s) sid + contribution sid (exit_info cfg I n)"
proof -
  let ?c = "(contents_of K s)\<lparr>c_sizes := (c_sizes (contents_of K s))(current_pid I := None)\<rparr>"
  have exit: "contents_of K (snd (gen_alloc_exit2 K cfg I a s)) = spec_record a (exit_info cfg I n) ?c"
    using assms(4,5) by (simp add: memleak_kernel.exit_refines [OF assms(1,2)] spec_exit_def Let_def)
  have "c_allocs (contents_of K (snd (gen_alloc_exit2 K cfg I a s))) = c_allocs (contents_of K s)"
    using assms(6,7) by (simp add: exit spec_record_allocs bounded_upd_def allocs_max_entries_def)
  moreover have "covered ?c" using assms(3) by (simp add: covered_def)
  note spec_record_drift_full [OF this, of a "exit_info cfg I n" sid]
  then have "drift (contents_of K (snd (gen_alloc_exit2 K cfg I a s))) sid =
      drift (contents_of K s) sid + contribution sid (exit_info cfg I n)"
    using assms(6-8) by (simp add: exit allocs_max_entries_def) (simp add: drift_def stack_stats_def expected_stats_def)
  ultimately show ?thesis by blast
qed

text \<open>The tracker with \<open>allocs\<close> full of 64-byte blocks of stack 5 and a pending request.\<close>

definition full_tracker :: slot_tracker where
  "full_tracker = one_block\<lparr>allocs := sm_full (\<lambda>i. of_nat (i + 4096)) ALLOCS_MAX_ENTRIES
     \<lparr>ai_size = 64, ai_timestamp_ns = 200, ai_stack_id = 5\<rparr>\<rparr>"

lemma full_keys_inj: "inj_on (\<lambda>i. of_nat (i + 4096) :: u64) {..<ALLOCS_MAX_ENTRIES}"
proof (rule inj_onI)
  fix i j
  assume "i \<in> {..<ALLOCS_MAX_ENTRIES}" "j \<in> {..<ALLOCS_MAX_ENTRIES}"
    and eq: "(of_nat (i + 4096) :: u64) = of_nat (j + 4096)"
  then have "i + 4096 < 2 ^ 64" "j + 4096 < 2 ^ 64" by (simp_all add: ALLOCS_MAX_ENTRIES_def)
  with arg_cong [OF eq, of unat] show "i = j" by (simp only: of_nat64_unat_small)
qed

lemma full_tracker_valid: "maps_valid slot_kernel full_tracker"
  using one_block_valid sm_full_valid [OF full_keys_inj]
  by (simp add: maps_valid_def full_tracker_def slot_kernel_def allocs_max_entries_def)

lemma full_tracker_contents:
  "contents_of slot_kernel full_tracker = (contents_of slot_kernel one_block)
     \<lparr>c_allocs := (\<lambda>k. if k \<in> (\<lambda>i. of_nat (i + 4096)) ` {..<ALLOCS_MAX_ENTRIES}
                      then Some \<lparr>ai_size = 64, ai_timestamp_ns = 200, ai_stack_id = 5\<rparr> else None)\<rparr>"
  by (simp add: full_tracker_def contents_of_def slot_kernel_def sm_full_find)

lemma full_tracker_allocs:
  "dom (c_allocs (contents_of slot_kernel full_tracker)) =
     (\<lambda>i. of_nat (i + 4096)) ` {..<ALLOCS_MAX_ENTRIES}"
  by (auto simp: full_tracker_contents split: if_splits simp del: of_nat_add)

lemma full_tracker_free_key: "c_allocs (contents_of slot_kernel full_tracker) 16 = None"
proof -
  have "(16 :: u64) \<noteq> of_nat (i + 4096)" if "i < ALLOCS_MAX_ENTRIES" for i
  proof
    assume "(16 :: u64) = of_nat (i + 4096)"
    moreover have "i + 4096 < 2 ^ 64" using that by (simp add: ALLOCS_MAX_ENTRIES_def)
    ultimately have "unat (16 :: u64) = i + 4096" by (simp only: of_nat64_unat_small)
    then show False by simp
  qed
  then show ?thesis by (auto simp: full_tracker_contents simp del: of_nat_add)
qed

theorem full_table_overcounts_witness:
  "drift (contents_of slot_kernel
     (snd (gen_alloc_exit2 slot_kernel default_config (call 16 5) 16 full_tracker))) 5 =
   drift (contents_of slot_kernel full_tracker) 5 + combined_of_info 32 1"
proof -
  have "card (dom (c_allocs (contents_of slot_kernel full_tracker))) = ALLOCS_MAX_ENTRIES"
    unfolding full_tracker_allocs by (simp only: card_image [OF full_keys_inj] card_lessThan)
  moreover have "covered (contents_of slot_kernel full_tracker)"
    unfolding covered_def full_tracker_allocs
    by (simp add: full_tracker_contents stack_key_def split: if_splits)
  ultimately have "drift (contents_of slot_kernel
      (snd (gen_alloc_exit2 slot_kernel default_config (call 16 5) 16 full_tracker))) 5 =
    drift (contents_of slot_kernel full_tracker) 5 +
      contribution 5 (exit_info default_config (call 16 5) 32)"
    using full_tracker_free_key
    by (intro full_table_overcounts [OF slot_kernel_ok full_tracker_valid, THEN conjunct2])
      (simp_all add: full_tracker_contents exit_info_def stack_key_def)
  then show ?thesis by (simp add: contribution_def exit_info_def stack_key_def)
qed

text \<open>With the missing-free workaround, a kmalloc tracepoint keeps the statistics exact even
  if the release of the previous block at the same address was never seen, as long as the tables
  have room.\<close>

theorem kmalloc_workaround_accounted:
  assumes "memleak_kernel K" and "maps_valid K s" and "wa_missing_free cfg"
    and "accounted (contents_of K s)"
    and "card (dom (c_allocs (contents_of K s))) < ALLOCS_MAX_ENTRIES"
    and "finite (dom (c_combined (contents_of K s)))"
    and "card (dom (c_combined (contents_of K s))) < COMBINED_ALLOCS_MAX_ENTRIES"
  shows "accounted (contents_of K (snd (memleak__kmalloc K cfg B I ctx s)))"
proof -
  have room: "has_room (spec_enter cfg I n (spec_free a (contents_of K s))) a i" for n a i
  proof -
    let ?c = "contents_of K s"
    have "card (dom (c_allocs (spec_free a ?c))) \<le> card (dom (c_allocs ?c))"
      using assms(4) by (simp add: accounted_def covered_def card_dom_del_le [simplified])
    moreover have "dom (c_combined (spec_free a ?c)) \<subseteq> dom (c_combined ?c)"
      by (auto simp: spec_free_def spec_debit_def split: option.splits if_splits)
    then have "card (dom (c_combined (spec_free a ?c))) \<le> card (dom (c_combined ?c))"
      using assms(6) by (intro card_mono)
    ultimately show ?thesis
      using assms(5,7) by (simp add: has_room_def capacity_defs)
  qed
  have "actions_ok cfg I (traced_alloc cfg a n) (contents_of K s)" for a n
    using assms(3) room by (simp add: traced_alloc_def settle_ok_def split: option.split)
  then have "accounted (spec_program cfg B I (Memleak_kmalloc ctx) (contents_of K s))"
    unfolding spec_program_def
    by (intro accounted_actions [OF assms(4)]) (simp add: Let_def)
  then show ?thesis
    using memleak_kernel.program_refines(2) [OF assms(1,2), of cfg B I "Memleak_kmalloc ctx"] by simp
qed

text \<open>The btf of a kernel whose kmalloc record at 1 reads: 128 bytes at 4096.\<close>

definition kmalloc_btf :: btf where
  "kmalloc_btf = \<lparr>core_type_exists = (\<lambda>_. False), core_field_exists = (\<lambda>_ _. True),
     core_read = (\<lambda>_ f _. if f = ''ptr'' then 4096 else 128)\<rparr>"

definition workaround_config :: config where
  "workaround_config = default_config\<lparr>wa_missing_free := True\<rparr>"

lemma one_block_accounted: "accounted (contents_of slot_kernel one_block)"
  by (auto simp: accounted_def covered_def drift_def stack_stats_def expected_stats_def
      map_sum_def contribution_def stack_key_def)

theorem kmalloc_workaround_accounted_witness:
  "c_allocs (contents_of slot_kernel one_block) 4096 \<noteq> None \<and>
   accounted (contents_of slot_kernel
     (snd (memleak__kmalloc slot_kernel workaround_config kmalloc_btf (call 0 5) 1 one_block)))"
proof
  show "c_allocs (contents_of slot_kernel one_block) 4096 \<noteq> None" by simp
  show "accounted (contents_of slot_kernel
     (snd (memleak__kmalloc slot_kernel workaround_config kmalloc_btf (call 0 5) 1 one_block)))"
    by (rule kmalloc_workaround_accounted [OF slot_kernel_ok one_block_valid _ one_block_accounted])
      (simp_all add: workaround_config_def capacity_defs)
qed

subsection \<open>Invariants of the reachable states\<close>

text \<open>C16: In every reachable state, every pending request and every recorded block passed the
  size filter, pending requests belong to the target process when one is set, and NULL is not
  recorded.\<close>

theorem reachable_filtered:
  assumes "memleak_kernel K" and "reachable K cfg B s"
  shows "(\<forall>p n. c_sizes (contents_of K s) p = Some n \<longrightarrow>
            min_size cfg \<le> n \<and> n \<le> max_size cfg \<and> (target_pid cfg = 0 \<or> p = target_pid cfg)) \<and>
         (\<forall>a i. c_allocs (contents_of K s) a = Some i \<longrightarrow>
            a \<noteq> 0 \<and> min_size cfg \<le> ai_size i \<and> ai_size i \<le> max_size cfg)"
proof -
  have "filtered cfg (contents_of K s)"
    using memleak_kernel.reachable_invariant [OF assms, of "filtered cfg"]
    by (simp add: filtered_no_contents filtered_step)
  then show ?thesis
    by (auto simp: filtered_def within_filter_def)
qed

lemma slot_init_reachable: "reachable slot_kernel cfg B slot_init"
  by (rule reachable.loaded) simp_all

lemma one_block_reachable: "reachable slot_kernel default_config no_btf one_block"
  unfolding one_block_def by (rule reachable_run [OF slot_init_reachable])

theorem reachable_filtered_witness:
  "c_allocs (contents_of slot_kernel one_block) 4096 =
     Some \<lparr>ai_size = 64, ai_timestamp_ns = 200, ai_stack_id = 5\<rparr> \<and>
   min_size default_config \<le> 64 \<and> 64 \<le> max_size default_config"
proof -
  let ?i = "\<lparr>ai_size = 64, ai_timestamp_ns = 200, ai_stack_id = 5\<rparr>"
  have "c_allocs (contents_of slot_kernel one_block) 4096 = Some ?i" by simp
  moreover from this have
    "min_size default_config \<le> ai_size ?i \<and> ai_size ?i \<le> max_size default_config"
    using reachable_filtered [OF slot_kernel_ok one_block_reachable] by blast
  ultimately show ?thesis by simp
qed

text \<open>C17: In every reachable state no map holds more entries than it was declared with, and a
  recorded block whose stack has no statistics exists only when \<open>combined_allocs\<close> is full.\<close>

theorem reachable_capacity:
  assumes "memleak_kernel K" and "reachable K cfg B s"
  shows "card (dom (c_sizes (contents_of K s))) \<le> 10240 \<and>
         card (dom (c_allocs (contents_of K s))) \<le> ALLOCS_MAX_ENTRIES \<and>
         card (dom (c_combined (contents_of K s))) \<le> COMBINED_ALLOCS_MAX_ENTRIES \<and>
         card (dom (c_memptrs (contents_of K s))) \<le> 10240 \<and>
         (\<forall>a i. c_allocs (contents_of K s) a = Some i \<longrightarrow>
            c_combined (contents_of K s) (stack_key i) \<noteq> None \<or>
            card (dom (c_combined (contents_of K s))) = COMBINED_ALLOCS_MAX_ENTRIES)"
proof -
  have "within_capacity (contents_of K s) \<and> covered_or_full (contents_of K s)"
    using memleak_kernel.reachable_invariant [OF assms,
        of "\<lambda>c. within_capacity c \<and> covered_or_full c"]
    by (simp add: capacity_no_contents capacity_step)
  then show ?thesis
    by (auto simp: within_capacity_def covered_or_full_def sizes_max_entries_def
        memptrs_max_entries_def allocs_max_entries_def combined_allocs_max_entries_def
        dest: le_antisym)
qed

theorem reachable_capacity_witness:
  "card (dom (c_allocs (contents_of slot_kernel one_block))) \<le> ALLOCS_MAX_ENTRIES"
  using reachable_capacity [OF slot_kernel_ok one_block_reachable] by blast

end
