(* ===== verification/Operations.thy ===== *)
theory Operations
  imports Accounting
begin

text \<open>
  Functional properties of the common operations and of the allocation sequences of libc: every
  branch of each operation, round trips, and the sequences on which the tracker's record
  differs from what the allocator did (two threads of a process, a failed realloc or mmap, a
  fault in posix_memalign).
\<close>

subsection \<open>Every branch of the common operations\<close>

text \<open>C18: A request is noted under the process id exactly when its size is within the limits, the
  clock is a multiple of the sample rate (when that is above one) and the process is the target
  (when one is set); otherwise the whole state is unchanged. A new process is dropped when
  \<open>sizes\<close> is full.\<close>

theorem gen_alloc_enter_effect:
  assumes "memleak_kernel K" and "maps_valid K s"
  shows "(let pid = ucast (drop_bit 32 (current_pid_tgid I)) :: 32 word;
              noted = min_size cfg \<le> n \<and> n \<le> max_size cfg \<and>
                (1 < sample_rate cfg \<longrightarrow> ktime_enter I mod sample_rate cfg = 0) \<and>
                (target_pid cfg = 0 \<or> pid = target_pid cfg);
              c = contents_of K s; t = snd (gen_alloc_enter K cfg I n s)
          in (\<not> noted \<longrightarrow> t = s) \<and>
             (noted \<longrightarrow> contents_of K t =
                c\<lparr>c_sizes := (if c_sizes c pid \<noteq> None \<or> card (dom (c_sizes c)) < 10240
                              then (c_sizes c)(pid \<mapsto> n) else c_sizes c)\<rparr>))"
proof -
  have eq: "alloc_admitted cfg I n \<longleftrightarrow> min_size cfg \<le> n \<and> n \<le> max_size cfg \<and>
      (1 < sample_rate cfg \<longrightarrow> ktime_enter I mod sample_rate cfg = 0) \<and>
      (target_pid cfg = 0 \<or> current_pid I = target_pid cfg)"
    by (simp only: alloc_admitted_def imp_conv_disj linorder_not_less)
  have "\<not> alloc_admitted cfg I n \<Longrightarrow> snd (gen_alloc_enter K cfg I n s) = s"
    by (simp add: gen_alloc_enter_cases)
  moreover have "alloc_admitted cfg I n \<Longrightarrow> contents_of K (snd (gen_alloc_enter K cfg I n s)) =
      (contents_of K s)\<lparr>c_sizes := bounded_upd 10240 (c_sizes (contents_of K s)) (current_pid I) n\<rparr>"
    by (simp add: memleak_kernel.enter_refines [OF assms] spec_enter_def sizes_max_entries_def)
  ultimately show ?thesis
    unfolding eq by (simp only: Let_def bounded_upd_def current_pid_def) blast
qed

theorem gen_alloc_enter_effect_witness:
  "c_sizes (contents_of slot_kernel
     (snd (gen_alloc_enter slot_kernel default_config (call 0 5) 99 slot_init))) = [7 \<mapsto> 99] \<and>
   snd (gen_alloc_enter slot_kernel (default_config\<lparr>min_size := 100\<rparr>) (call 0 5) 99 slot_init) =
     slot_init"
  using gen_alloc_enter_effect [OF slot_kernel_ok slot_init_valid, of "call 0 5" default_config 99]
    gen_alloc_enter_effect [OF slot_kernel_ok slot_init_valid, of "call 0 5"
      "default_config\<lparr>min_size := 100\<rparr>" 99]
  by (simp add: default_config_def Let_def current_pid_def [symmetric])

text \<open>C19: On an allocation's exit without a noted request nothing happens. Otherwise the request is
  consumed; a NULL result records nothing; any other result is recorded with the noted size, the
  time and the stack id, and its stack is credited, each as far as the tables have room.\<close>

theorem gen_alloc_exit2_effect:
  assumes "memleak_kernel K" and "maps_valid K s"
  shows "(let c = contents_of K s; t = snd (gen_alloc_exit2 K cfg I a s); d = contents_of K t
          in (c_sizes c (current_pid I) = None \<longrightarrow> t = s) \<and>
             (\<forall>n. c_sizes c (current_pid I) = Some n \<longrightarrow>
                (let i = \<lparr>ai_size = n, ai_timestamp_ns = ktime_exit I,
                          ai_stack_id = ucast (get_stackid I (stack_flags cfg))\<rparr>;
                     sid = scast (ai_stack_id i) :: 64 word
                 in c_sizes d = (c_sizes c)(current_pid I := None) \<and>
                    c_memptrs d = c_memptrs c \<and>
                    (a = 0 \<longrightarrow> c_allocs d = c_allocs c \<and> c_combined d = c_combined c) \<and>
                    (a \<noteq> 0 \<longrightarrow>
                       c_allocs d =
                         (if c_allocs c a \<noteq> None \<or> card (dom (c_allocs c)) < ALLOCS_MAX_ENTRIES
                          then (c_allocs c)(a \<mapsto> i) else c_allocs c) \<and>
                       c_combined d =
                         (if c_combined c sid \<noteq> None \<or>
                             card (dom (c_combined c)) < COMBINED_ALLOCS_MAX_ENTRIES
                          then (c_combined c)(sid \<mapsto> stack_stats c sid + combined_of_info n 1)
                          else c_combined c)))))"
proof -
  have "c_sizes (contents_of K s) (current_pid I) = None \<Longrightarrow> snd (gen_alloc_exit2 K cfg I a s) = s"
    by (simp add: gen_alloc_exit2_def map_find_def contents_of_simps)
  then show ?thesis
    by (simp add: Let_def memleak_kernel.exit_refines [OF assms] spec_exit_def)
      (simp add: spec_record_def spec_credit_def exit_info_def stack_key_def stack_stats_def
        bounded_upd_def allocs_max_entries_def combined_allocs_max_entries_def)
qed

theorem gen_alloc_exit2_effect_witness:
  "c_allocs (contents_of slot_kernel
     (snd (gen_alloc_exit2 slot_kernel default_config (call 0 6) 8192 one_block))) 8192 =
     Some \<lparr>ai_size = 32, ai_timestamp_ns = 200, ai_stack_id = 6\<rparr>"
  using gen_alloc_exit2_effect [OF slot_kernel_ok one_block_valid, of default_config "call 0 6" 8192]
  by (simp add: Let_def capacity_defs)

text \<open>C20: A release of an unrecorded address changes nothing. A release of a recorded one removes
  that entry and takes its size and one allocation out of the statistics of its stack, if the
  stack has any; nothing else changes.\<close>

theorem gen_free_enter_effect:
  assumes "memleak_kernel K" and "maps_valid K s"
  shows "(let c = contents_of K s; t = snd (gen_free_enter K cfg a s); d = contents_of K t
          in (c_allocs c a = None \<longrightarrow> t = s) \<and>
             (\<forall>i. c_allocs c a = Some i \<longrightarrow>
                (let sid = scast (ai_stack_id i) :: 64 word
                 in d = c\<lparr>c_allocs := (c_allocs c)(a := None),
                          c_combined := (case c_combined c sid of
                             None \<Rightarrow> c_combined c
                           | Some ci \<Rightarrow>
                               (c_combined c)(sid \<mapsto> ci - combined_of_info (ai_size i) 1))\<rparr>)))"
proof -
  have "c_allocs (contents_of K s) a = None \<Longrightarrow> snd (gen_free_enter K cfg a s) = s"
    by (simp add: gen_free_enter_def map_find_def contents_of_simps)
  then show ?thesis
    by (auto simp: Let_def memleak_kernel.free_refines [OF assms] spec_free_def spec_debit_def
        stack_key_def split: option.split)
qed

theorem gen_free_enter_effect_witness:
  "c_combined (contents_of slot_kernel
     (snd (gen_free_enter slot_kernel default_config 4096 one_block))) = [5 \<mapsto> 0]"
  using gen_free_enter_effect [OF slot_kernel_ok one_block_valid, of default_config 4096]
  by (simp add: Let_def)

text \<open>C21: \<open>bpf_map_lookup_or_try_init\<close> returns an element exactly if the key is stored or there is
  room for it. The element is the key's and holds the stored value, or the initial value if the
  key is new; no other key changes. Otherwise it returns NULL and nothing changes.\<close>

theorem lookup_or_try_init_outcomes:
  assumes "bpf_prealloc_map ops max_entries" and "map_valid ops m"
  shows "(let (r, m') = bpf_map_lookup_or_try_init ops m k i;
              v = (case map_find ops m k of None \<Rightarrow> i | Some v \<Rightarrow> v)
          in map_valid ops m' \<and>
             (r = None \<longleftrightarrow> map_find ops m k = None \<and> max_entries \<le> card (dom (map_find ops m))) \<and>
             (r = None \<longrightarrow> map_find ops m' = map_find ops m) \<and>
             (\<forall>p. r = Some p \<longrightarrow> lookup_elem ops m' k = Some p \<and> elem_load ops m' p = v \<and>
                map_find ops m' = (map_find ops m)(k \<mapsto> v)))"
proof (cases "map_find ops m k \<noteq> None \<or> card (dom (map_find ops m)) < max_entries")
  case True
  from bpf_prealloc_map.try_init_some [OF assms this, of i] True show ?thesis by auto
next
  case False
  then have "map_find ops m k = None" "max_entries \<le> card (dom (map_find ops m))" by auto
  from bpf_prealloc_map.try_init_none [OF assms this, of i] this show ?thesis by auto
qed

theorem lookup_or_try_init_outcomes_witness:
  "fst (bpf_map_lookup_or_try_init (sm_ops 1) (sm_empty (0::nat)) (3::nat) 4) \<noteq> None \<and>
   fst (bpf_map_lookup_or_try_init (sm_ops 0) (sm_empty (0::nat)) (3::nat) 4) = None"
  using lookup_or_try_init_outcomes [OF slot.bpf_prealloc_map_axioms, of 1 "sm_empty (0::nat)" "3::nat" 4]
    lookup_or_try_init_outcomes [OF slot.bpf_prealloc_map_axioms, of 0 "sm_empty (0::nat)" "3::nat" 4]
  by (auto simp: Let_def split_beta)

end
