(* ===== verification/Scenarios.thy ===== *)
theory Scenarios
  imports Operations
begin

text \<open>
  Sequences of invocations as libc calls and kernel tracepoints cause them: the round trips that
  the tracker gets right, and the sequences on which its record and the allocator's part ways.
\<close>

definition sizes_room :: "contents \<Rightarrow> i32 \<Rightarrow> bool" where
  "sizes_room c p \<longleftrightarrow> c_sizes c p \<noteq> None \<or> card (dom (c_sizes c)) < sizes_max_entries"

definition tables_room :: "contents \<Rightarrow> bool" where
  "tables_room c \<longleftrightarrow> card (dom (c_allocs c)) < ALLOCS_MAX_ENTRIES \<and>
     finite (dom (c_combined c)) \<and> card (dom (c_combined c)) < COMBINED_ALLOCS_MAX_ENTRIES"

lemma tables_room_has_room: "tables_room c \<Longrightarrow> has_room c a i"
  by (simp add: tables_room_def has_room_def allocs_max_entries_def combined_allocs_max_entries_def)

lemma tables_room_free:
  assumes "covered c" and "tables_room c"
  shows "tables_room (spec_free a c)"
proof -
  have "card (dom (c_allocs (spec_free a c))) \<le> card (dom (c_allocs c))"
    using assms(1) by (simp add: covered_def card_dom_del_le [simplified])
  moreover have "dom (c_combined (spec_free a c)) = dom (c_combined c)"
    by (auto simp: spec_free_def spec_debit_def split: option.splits if_splits)
  ultimately show ?thesis using assms(2) by (simp add: tables_room_def)
qed

lemma enter_noted:
  "alloc_admitted cfg I n \<Longrightarrow> sizes_room c (current_pid I) \<Longrightarrow>
     spec_enter cfg I n c = c\<lparr>c_sizes := (c_sizes c)(current_pid I \<mapsto> n)\<rparr>"
  by (simp add: spec_enter_def bounded_upd_def sizes_room_def)

lemma exit_noted:
  "c_sizes c (current_pid I) = Some n \<Longrightarrow> a \<noteq> 0 \<Longrightarrow>
     spec_exit cfg I a c =
       spec_record a (exit_info cfg I n) (c\<lparr>c_sizes := (c_sizes c)(current_pid I := None)\<rparr>)"
  by (simp add: spec_exit_def Let_def)

text \<open>An entry and the matching exit of the same process.\<close>

lemma enter_exit:
  assumes "alloc_admitted cfg I n" and "sizes_room c (current_pid I)"
    and "current_pid J = current_pid I" and "a \<noteq> 0"
  shows "spec_exit cfg J a (spec_enter cfg I n c) =
           spec_record a (exit_info cfg J n) (c\<lparr>c_sizes := (c_sizes c)(current_pid I := None)\<rparr>)"
  using assms by (simp add: enter_noted exit_noted)

lemma record_allocs_room:
  "has_room c a i \<Longrightarrow> c_allocs (spec_record a i c) = (c_allocs c)(a \<mapsto> i)"
  by (simp add: spec_record_allocs bounded_upd_def has_room_def)

lemma stack_stats_sizes [simp]: "stack_stats (c\<lparr>c_sizes := m\<rparr>) = stack_stats c"
  by (simp add: stack_stats_def fun_eq_iff)

lemma stack_stats_memptrs [simp]: "stack_stats (c\<lparr>c_memptrs := m\<rparr>) = stack_stats c"
  by (simp add: stack_stats_def fun_eq_iff)

lemma has_room_sizes [simp]: "has_room (c\<lparr>c_sizes := m\<rparr>) a i = has_room c a i"
  by (simp add: has_room_def)

lemma tables_room_sizes [simp]: "tables_room (c\<lparr>c_sizes := m\<rparr>) = tables_room c"
  by (simp add: tables_room_def)

lemma covered_sizes [simp]: "covered (c\<lparr>c_sizes := m\<rparr>) = covered c"
  by (simp add: covered_def)

lemma record_stats_room:
  "has_room c a i \<Longrightarrow> stack_stats (spec_record a i c) sid = stack_stats c sid + contribution sid i"
  by (rule spec_record_stats) (simp add: has_room_def)

lemmas spec_run = spec_events_def spec_step_def spec_program_def

subsection \<open>Round trips\<close>

text \<open>A malloc whose result is not NULL, followed by the free of that result, leaves the recorded
  blocks and every stack's statistics as they were.\<close>

theorem malloc_free_roundtrip:
  assumes "memleak_kernel K" and "maps_valid K s"
    and "alloc_admitted cfg I n" and "sizes_room (contents_of K s) (current_pid I)"
    and "current_pid J = current_pid I" and "regs_rc J = a" and "a \<noteq> 0"
    and "c_allocs (contents_of K s) a = None" and "tables_room (contents_of K s)"
  shows "(let t = run_events K cfg B [(I, Malloc_enter n), (J, Malloc_exit), (F, Free_enter a)] s
          in c_allocs (contents_of K t) = c_allocs (contents_of K s) \<and>
             stack_stats (contents_of K t) = stack_stats (contents_of K s))"
proof -
  let ?c = "(contents_of K s)\<lparr>c_sizes := (c_sizes (contents_of K s))(current_pid I := None)\<rparr>"
  let ?i = "exit_info cfg J n"
  let ?d = "spec_record a ?i ?c"
  have room: "has_room ?c a ?i" using assms(9) by (simp add: tables_room_has_room)
  have d: "c_allocs ?d = (c_allocs (contents_of K s))(a \<mapsto> ?i)"
    using record_allocs_room [OF room] by simp
  have entry: "c_combined ?d (stack_key ?i) = Some (stack_stats ?c (stack_key ?i) + combined_of_info n 1)"
    using room by (simp add: spec_record_combined bounded_upd_def has_room_def) (simp add: exit_info_def)
  have "stack_stats (spec_free a ?d) sid = stack_stats (contents_of K s) sid" for sid
  proof -
    have "stack_stats (spec_free a ?d) sid = stack_stats ?d sid - contribution sid ?i"
      using d entry by (auto simp: spec_free_def spec_debit_def stack_stats_def contribution_def)
    then show ?thesis using record_stats_room [OF room, of sid] by simp
  qed
  moreover have "contents_of K (run_events K cfg B
      [(I, Malloc_enter n), (J, Malloc_exit), (F, Free_enter a)] s) = spec_free a ?d"
    using assms(3-7) by (simp add: memleak_kernel.run_contents [OF assms(1,2)] spec_run enter_exit)
  ultimately show ?thesis
    using assms(8) d by (simp add: Let_def fun_eq_iff)
qed

theorem malloc_free_roundtrip_witness:
  "stack_stats (contents_of slot_kernel (run_events slot_kernel default_config no_btf
     [(call 0 5, Malloc_enter 48), (call 8192 5, Malloc_exit), (call 0 5, Free_enter 8192)]
     one_block)) = stack_stats (contents_of slot_kernel one_block)"
  using malloc_free_roundtrip [OF slot_kernel_ok one_block_valid, of default_config "call 0 5" 48
      "call 8192 5" 8192 no_btf "call 0 5"]
  by (simp add: Let_def alloc_admitted_def default_config_def sizes_room_def tables_room_def
      capacity_defs)

text \<open>A successful realloc moves the block: the old address is no longer recorded, the new one is,
  with the new size, and the statistics of the two stacks follow.\<close>

theorem realloc_moves_block:
  assumes "memleak_kernel K" and "maps_valid K s" and "covered (contents_of K s)"
    and "alloc_admitted cfg I n" and "sizes_room (contents_of K s) (current_pid I)"
    and "current_pid J = current_pid I" and "regs_rc J = q" and "q \<noteq> 0"
    and "c_allocs (contents_of K s) p = Some i" and "tables_room (contents_of K s)"
  shows "(let c = contents_of K s;
              d = contents_of K (run_events K cfg B [(I, Realloc_enter p n), (J, Realloc_exit)] s)
          in c_allocs d = (c_allocs c)(p := None, q \<mapsto> exit_info cfg J n) \<and>
             (\<forall>sid. stack_stats d sid =
                stack_stats c sid - contribution sid i + contribution sid (exit_info cfg J n)))"
proof -
  let ?f = "spec_free p (contents_of K s)"
  let ?c = "?f\<lparr>c_sizes := (c_sizes ?f)(current_pid I := None)\<rparr>"
  have "has_room ?c q (exit_info cfg J n)"
    using tables_room_free [OF assms(3,10)] by (simp add: tables_room_has_room)
  note room = this
  have "contents_of K (run_events K cfg B [(I, Realloc_enter p n), (J, Realloc_exit)] s) =
      spec_record q (exit_info cfg J n) ?c"
    using assms(4-8) enter_exit [of cfg I n ?f J q]
    by (simp add: memleak_kernel.run_contents [OF assms(1,2)] spec_run sizes_room_def)
  then show ?thesis
    using record_allocs_room [OF room] record_stats_room [OF room] assms(9)
    by (simp add: Let_def spec_free_stats [OF assms(3)])
qed

theorem realloc_moves_block_witness:
  "c_allocs (contents_of slot_kernel (run_events slot_kernel default_config no_btf
     [(call 0 6, Realloc_enter 4096 48), (call 8192 6, Realloc_exit)] one_block)) =
   [8192 \<mapsto> \<lparr>ai_size = 48, ai_timestamp_ns = 200, ai_stack_id = 6\<rparr>]"
  using realloc_moves_block [OF slot_kernel_ok one_block_valid one_block_covered, of default_config
      "call 0 6" 48 "call 8192 6" 8192 4096 _ no_btf]
  by (simp add: Let_def alloc_admitted_def default_config_def sizes_room_def tables_room_def
      capacity_defs exit_info_def fun_upd_twist)

subsection \<open>Where the record and the allocator part ways\<close>

text \<open>C23: If realloc fails (its result is NULL, and the old block stays allocated), the tracker has
  already forgotten the old block: it is no longer recorded and no longer counted.\<close>

theorem realloc_failure_forgets:
  assumes "memleak_kernel K" and "maps_valid K s" and "covered (contents_of K s)"
    and "regs_rc J = 0" and "c_allocs (contents_of K s) p = Some i"
  shows "(let c = contents_of K s;
              d = contents_of K (run_events K cfg B [(I, Realloc_enter p n), (J, Realloc_exit)] s)
          in c_allocs d = (c_allocs c)(p := None) \<and>
             (\<forall>sid. stack_stats d sid = stack_stats c sid - contribution sid i))"
proof -
  have "c_allocs (spec_exit cfg J 0 e) = c_allocs e" "c_combined (spec_exit cfg J 0 e) = c_combined e"
    for e by (simp_all add: spec_exit_def Let_def split: option.split)
  then show ?thesis
    using assms(4,5) spec_free_stats [OF assms(3), of p]
    by (simp add: Let_def memleak_kernel.run_contents [OF assms(1,2)] spec_run stack_stats_def)
qed

theorem realloc_failure_forgets_witness:
  "c_allocs (contents_of slot_kernel (run_events slot_kernel default_config no_btf
     [(call 0 6, Realloc_enter 4096 48), (call 0 6, Realloc_exit)] one_block)) = Map.empty"
  using realloc_failure_forgets [OF slot_kernel_ok one_block_valid one_block_covered, of
      "call 0 6" 4096 _ default_config no_btf "call 0 6" 48]
  by (simp add: Let_def)

text \<open>C24: Requests are noted per process, not per thread. If two threads of a process are inside
  malloc at the same time, the block of the thread that returns first is recorded with the other
  thread's size, and the block of the thread that returns second is not recorded at all.\<close>

theorem threads_mix_sizes:
  assumes "memleak_kernel K" and "maps_valid K s"
    and "alloc_admitted cfg I1 n1" and "alloc_admitted cfg I2 n2"
    and "current_pid I2 = current_pid I1" and "current_pid J1 = current_pid I1"
    and "current_pid J2 = current_pid I1"
    and "sizes_room (contents_of K s) (current_pid I1)" and "tables_room (contents_of K s)"
    and "regs_rc J1 = a1" and "a1 \<noteq> 0"
  shows "c_allocs (contents_of K (run_events K cfg B
           [(I1, Malloc_enter n1), (I2, Malloc_enter n2), (J1, Malloc_exit), (J2, Malloc_exit)] s)) =
         (c_allocs (contents_of K s))(a1 \<mapsto> exit_info cfg J1 n2)"
proof -
  let ?c = "contents_of K s"
  let ?c1 = "?c\<lparr>c_sizes := (c_sizes ?c)(current_pid I1 \<mapsto> n1)\<rparr>"
  let ?d = "spec_record a1 (exit_info cfg J1 n2) (?c1\<lparr>c_sizes := (c_sizes ?c1)(current_pid I1 := None)\<rparr>)"
  have "spec_enter cfg I1 n1 ?c = ?c1"
    using assms(3,8) by (rule enter_noted)
  moreover have "spec_exit cfg J1 a1 (spec_enter cfg I2 n2 ?c1) = ?d"
    using assms(4-6,11) enter_exit [of cfg I2 n2 ?c1 J1 a1] by (simp add: sizes_room_def)
  moreover have "spec_exit cfg J2 (regs_rc J2) ?d = ?d"
    using assms(7) by (simp add: spec_exit_def)
  moreover have "c_allocs ?d = (c_allocs ?c)(a1 \<mapsto> exit_info cfg J1 n2)"
    using assms(9) by (simp add: record_allocs_room tables_room_has_room)
  ultimately show ?thesis
    using assms(10) by (simp add: memleak_kernel.run_contents [OF assms(1,2)] spec_run)
qed

theorem threads_mix_sizes_witness:
  "c_allocs (contents_of slot_kernel (run_events slot_kernel default_config no_btf
     [(call 0 5, Malloc_enter 1000), (call 0 6, Malloc_enter 1),
      (call 4096 5, Malloc_exit), (call 8192 6, Malloc_exit)] slot_init)) =
   [4096 \<mapsto> \<lparr>ai_size = 1, ai_timestamp_ns = 200, ai_stack_id = 5\<rparr>]"
  using threads_mix_sizes [OF slot_kernel_ok slot_init_valid, of default_config "call 0 5" 1000
      "call 0 6" 1 "call 4096 5" "call 8192 6" 4096 no_btf]
  by (simp add: alloc_admitted_def default_config_def sizes_room_def tables_room_def capacity_defs
      exit_info_def)

text \<open>C25: If the read of the result pointer faults on the exit of posix_memalign, the noted request is
  left behind. A later request of the same process that the filter rejects is then recorded, with
  the size of the failed call.\<close>

theorem posix_memalign_fault_stale:
  assumes "memleak_kernel K" and "maps_valid K s"
    and "alloc_admitted cfg I n" and "sizes_room (contents_of K s) (current_pid I)"
    and "probe_read_user J m = None" and "current_pid64 J = current_pid64 I"
    and "c_memptrs (contents_of K s) (current_pid64 I) \<noteq> None \<or>
         card (dom (c_memptrs (contents_of K s))) < 10240"
    and "\<not> alloc_admitted cfg I' n'" and "current_pid J' = current_pid I"
    and "regs_rc J' = a" and "a \<noteq> 0" and "tables_room (contents_of K s)"
  shows "c_allocs (contents_of K (run_events K cfg B
           [(I, Posix_memalign_enter m al n), (J, Posix_memalign_exit),
            (I', Malloc_enter n'), (J', Malloc_exit)] s)) =
         (c_allocs (contents_of K s))(a \<mapsto> exit_info cfg J' n)"
proof -
  let ?c = "contents_of K s"
  let ?m = "(c_memptrs ?c)(current_pid64 I \<mapsto> m)"
  let ?c1 = "?c\<lparr>c_memptrs := ?m\<rparr>"
  let ?c2 = "?c1\<lparr>c_sizes := (c_sizes ?c)(current_pid I \<mapsto> n)\<rparr>"
  let ?c3 = "?c2\<lparr>c_memptrs := ?m(current_pid64 I := None)\<rparr>"
  have "spec_save_memptr I m ?c = ?c1"
    using assms(7) by (simp add: spec_save_memptr_def bounded_upd_def memptrs_max_entries_def)
  moreover have "spec_enter cfg I n ?c1 = ?c2"
    using assms(3,4) by (simp add: enter_noted sizes_room_def)
  moreover have "spec_memptr_exit cfg J ?c2 = ?c3"
    using assms(5,6) by (simp add: spec_memptr_exit_def)
  moreover have "spec_enter cfg I' n' ?c3 = ?c3"
    using assms(8) by (simp add: spec_enter_def)
  moreover have "c_allocs (spec_exit cfg J' a ?c3) = (c_allocs ?c)(a \<mapsto> exit_info cfg J' n)"
  proof -
    let ?c4 = "?c3\<lparr>c_sizes := (c_sizes ?c3)(current_pid J' := None)\<rparr>"
    have "spec_exit cfg J' a ?c3 = spec_record a (exit_info cfg J' n) ?c4"
      using assms(9,11) by (intro exit_noted) simp_all
    moreover have "has_room ?c4 a (exit_info cfg J' n)"
      using assms(12) by (intro tables_room_has_room) (simp add: tables_room_def)
    ultimately show ?thesis by (simp add: record_allocs_room)
  qed
  ultimately show ?thesis
    using assms(10) by (simp add: memleak_kernel.run_contents [OF assms(1,2)] spec_run)
qed

theorem posix_memalign_fault_stale_witness:
  "c_allocs (contents_of slot_kernel (run_events slot_kernel (default_config\<lparr>min_size := 100\<rparr>) no_btf
     [(call 0 5, Posix_memalign_enter 512 64 4000), (call 0 5, Posix_memalign_exit),
      (call 0 6, Malloc_enter 8), (call 8192 6, Malloc_exit)] slot_init)) =
   [8192 \<mapsto> \<lparr>ai_size = 4000, ai_timestamp_ns = 200, ai_stack_id = 6\<rparr>]"
  using posix_memalign_fault_stale [OF slot_kernel_ok slot_init_valid, of
      "default_config\<lparr>min_size := 100\<rparr>" "call 0 5" 4000 "call 0 5" 512 "call 0 6" 8 "call 8192 6"
      8192 no_btf 64]
  by (simp add: alloc_admitted_def default_config_def sizes_room_def tables_room_def capacity_defs
      exit_info_def)

text \<open>C26: A failed mmap returns MAP_FAILED, all ones, which is not NULL: the tracker records a block
  of the requested size at that address.\<close>

theorem mmap_failure_recorded:
  assumes "memleak_kernel K" and "maps_valid K s"
    and "alloc_admitted cfg I n" and "sizes_room (contents_of K s) (current_pid I)"
    and "current_pid J = current_pid I" and "regs_rc J = - 1" and "tables_room (contents_of K s)"
  shows "c_allocs (contents_of K (run_events K cfg B [(I, Mmap_enter addr n), (J, Mmap_exit)] s)) =
           (c_allocs (contents_of K s))(- 1 \<mapsto> exit_info cfg J n)"
  using assms(3-7)
  by (simp add: memleak_kernel.run_contents [OF assms(1,2)] spec_run enter_exit record_allocs_room
      tables_room_has_room)

theorem mmap_failure_recorded_witness:
  "c_allocs (contents_of slot_kernel (run_events slot_kernel default_config no_btf
     [(call 0 5, Mmap_enter 0 65536), (call (- 1) 5, Mmap_exit)] slot_init)) =
   [- 1 \<mapsto> \<lparr>ai_size = 65536, ai_timestamp_ns = 200, ai_stack_id = 5\<rparr>]"
  using mmap_failure_recorded [OF slot_kernel_ok slot_init_valid, of default_config "call 0 5" 65536
      "call (- 1) 5" no_btf 0]
  by (simp add: alloc_admitted_def default_config_def sizes_room_def tables_room_def capacity_defs
      exit_info_def)

end
