(* ===== verification/Statistics.thy ===== *)
theory Statistics
  imports Scenarios
begin

text \<open>
  The packed statistics as the two updates of \<open>bpf/memleak.bpf.c\<close> use them: within the widths of
  the bit-fields an update is exact on both fields, a removal undoes an update, and past 2^40
  bytes the total carries into the number of allocations. Then the sizes that reach the
  statistics: what a sampled, a multiplied (calloc) and a shifted (page) request records.
\<close>

lemma credit_stats:
  assumes "c_combined c sid \<noteq> None \<or> card (dom (c_combined c)) < COMBINED_ALLOCS_MAX_ENTRIES"
  shows "stack_stats (spec_credit sid n c) sid = stack_stats c sid + combined_of_info n 1"
  using assms
  by (auto simp: spec_credit_def stack_stats_def bounded_upd_def combined_allocs_max_entries_def)

subsection \<open>The two updates\<close>

text \<open>As long as the bytes of a stack stay below 2^40 and its allocations below 2^24, adding an
  allocation to its statistics adds exactly its size to the total and one to the number.\<close>

theorem update_statistics_add_exact:
  assumes "memleak_kernel K" and "maps_valid K s" and "tables_room (contents_of K s)"
    and "unat (total_size (stack_stats (contents_of K s) sid)) + unat n < 2 ^ 40"
    and "unat (number_of_allocs (stack_stats (contents_of K s) sid)) + 1 < 2 ^ 24"
  shows "(let c = stack_stats (contents_of K s) sid;
              d = stack_stats (contents_of K (update_statistics_add K sid n s)) sid
          in unat (total_size d) = unat (total_size c) + unat n \<and>
             unat (number_of_allocs d) = unat (number_of_allocs c) + 1)"
  using bitfields.read_add [OF assms(4,5)] assms(3)
  by (simp add: Let_def memleak_kernel.credit_refines [OF assms(1,2)] credit_stats tables_room_def)

lemma one_block_stats: "stack_stats (contents_of slot_kernel one_block) 5 = combined_of_info 64 1"
  by (simp add: stack_stats_def combined_of_info_def)

lemma one_block_room: "tables_room (contents_of slot_kernel one_block)"
  by (simp add: tables_room_def capacity_defs)

theorem update_statistics_add_exact_witness:
  "unat (total_size (stack_stats (contents_of slot_kernel
     (update_statistics_add slot_kernel 5 10 one_block)) 5)) = 74"
  using update_statistics_add_exact [OF slot_kernel_ok one_block_valid one_block_room, of 5 10]
  by (simp add: Let_def one_block_stats total_size_def number_of_allocs_def combined_of_info_def
      del: one_block_contents)

text \<open>C29: Past 2^40 outstanding bytes the total of a stack wraps to what exceeds 2^40, and the carry
  makes its number of allocations one too high.\<close>

theorem update_statistics_add_carry:
  assumes "memleak_kernel K" and "maps_valid K s" and "tables_room (contents_of K s)"
    and "unat n < 2 ^ 40"
    and "2 ^ 40 \<le> unat (total_size (stack_stats (contents_of K s) sid)) + unat n"
    and "unat (number_of_allocs (stack_stats (contents_of K s) sid)) + 2 < 2 ^ 24"
  shows "(let c = stack_stats (contents_of K s) sid;
              d = stack_stats (contents_of K (update_statistics_add K sid n s)) sid
          in unat (total_size d) + 2 ^ 40 = unat (total_size c) + unat n \<and>
             unat (number_of_allocs d) = unat (number_of_allocs c) + 2)"
  using bitfields.read_add_carry [OF assms(4-6)] assms(3,5)
  by (simp add: Let_def memleak_kernel.credit_refines [OF assms(1,2)] credit_stats tables_room_def)

theorem update_statistics_add_carry_witness:
  "(let d = stack_stats (contents_of slot_kernel
              (update_statistics_add slot_kernel 5 (2 ^ 40 - 64) one_block)) 5
    in total_size d = 0 \<and> number_of_allocs d = 3)"
  using update_statistics_add_carry [OF slot_kernel_ok one_block_valid one_block_room,
      of "2 ^ 40 - 64" 5]
  by (simp add: Let_def one_block_stats total_size_def number_of_allocs_def combined_of_info_def
      word_unat_eq_iff del: one_block_contents)

text \<open>Removing an allocation from the statistics of a stack undoes its addition, to the bit, for
  every size and also where the fields have wrapped; all maps are as before, but for the stack's
  own entry, which stays, at zero, if the addition created it.\<close>

theorem update_statistics_del_inverse:
  assumes "memleak_kernel K" and "maps_valid K s" and "tables_room (contents_of K s)"
  shows "contents_of K (update_statistics_del K sid n (update_statistics_add K sid n s)) =
           (contents_of K s)\<lparr>c_combined := (c_combined (contents_of K s))
              (sid \<mapsto> stack_stats (contents_of K s) sid)\<rparr>"
  using assms(3)
  by (simp add: memleak_kernel.debit_refines [OF assms(1) memleak_kernel.credit_refines(1)
        [OF assms(1,2)]] memleak_kernel.credit_refines [OF assms(1,2)] spec_debit_def
      spec_credit_def bounded_upd_def tables_room_def combined_allocs_max_entries_def)

theorem update_statistics_del_inverse_witness:
  "contents_of slot_kernel (update_statistics_del slot_kernel 5 (2 ^ 63)
     (update_statistics_add slot_kernel 5 (2 ^ 63) one_block)) = contents_of slot_kernel one_block"
  using update_statistics_del_inverse [OF slot_kernel_ok one_block_valid one_block_room, of 5 "2 ^ 63"]
  by (simp add: stack_stats_def)

subsection \<open>Sizes\<close>

text \<open>With a sample rate above one, a request is treated as without sampling when the clock is a
  multiple of the rate, and ignored otherwise: the choice depends on the clock alone, not on how
  many requests came before.\<close>

theorem sampling_is_by_clock:
  assumes "1 < sample_rate cfg"
  shows "gen_alloc_enter K cfg I n s =
           (if ktime_enter I mod sample_rate cfg = 0
            then gen_alloc_enter K (cfg\<lparr>sample_rate := 0\<rparr>) I n s else (0, s))"
  using assms by (simp add: gen_alloc_enter_def Let_def)

theorem sampling_is_by_clock_witness:
  "gen_alloc_enter slot_kernel (default_config\<lparr>sample_rate := 3\<rparr>) (call 0 5) 8 slot_init =
     (0, slot_init)"
  using sampling_is_by_clock [of "default_config\<lparr>sample_rate := 3\<rparr>" slot_kernel "call 0 5" 8 slot_init]
  by (simp add: default_config_def)

text \<open>calloc is recorded with the product of its arguments, exactly, given that libc fails
  (returns NULL) when the product does not fit a size_t: the wrapped product that the probe notes
  is then dropped on the exit.\<close>

theorem calloc_recorded_exactly:
  assumes "memleak_kernel K" and "maps_valid K s"
    and "alloc_admitted cfg I (nmemb * n)" and "sizes_room (contents_of K s) (current_pid I)"
    and "current_pid J = current_pid I" and "tables_room (contents_of K s)"
    and "2 ^ 64 \<le> unat nmemb * unat n \<longrightarrow> regs_rc J = 0"
  shows "(let i = exit_info cfg J (nmemb * n)
          in (regs_rc J \<noteq> 0 \<longrightarrow> unat (ai_size i) = unat nmemb * unat n) \<and>
             c_allocs (contents_of K
               (run_events K cfg B [(I, Calloc_enter nmemb n), (J, Calloc_exit)] s)) =
             (if regs_rc J = 0 then c_allocs (contents_of K s)
              else (c_allocs (contents_of K s))(regs_rc J \<mapsto> i)))"
proof -
  have "unat (ai_size (exit_info cfg J (nmemb * n))) = unat nmemb * unat n mod 2 ^ 64"
    by (simp add: exit_info_def unat_word_ariths)
  then have "regs_rc J \<noteq> 0 \<Longrightarrow> unat (ai_size (exit_info cfg J (nmemb * n))) = unat nmemb * unat n"
    using assms(7) by (metis linorder_not_less mod_less)
  then show ?thesis
    using assms(3-6)
    by (simp add: memleak_kernel.run_contents [OF assms(1,2)] spec_run enter_exit enter_noted
        spec_exit_def record_allocs_room tables_room_has_room Let_def)
qed

theorem calloc_recorded_exactly_witness:
  "c_allocs (contents_of slot_kernel (run_events slot_kernel default_config no_btf
     [(call 0 5, Calloc_enter 6 8), (call 8192 5, Calloc_exit)] slot_init)) =
   [8192 \<mapsto> \<lparr>ai_size = 48, ai_timestamp_ns = 200, ai_stack_id = 5\<rparr>]"
  using calloc_recorded_exactly [OF slot_kernel_ok slot_init_valid, of default_config "call 0 5" 6 8
      "call 8192 5" no_btf]
  by (simp add: alloc_admitted_def default_config_def sizes_room_def tables_room_def capacity_defs
      exit_info_def Let_def)

text \<open>A page allocation of order n is recorded under its page frame number with page_size * 2^n
  bytes, when that fits 64 bits, and the release of the same frame removes it again.\<close>

theorem page_alloc_recorded:
  assumes "memleak_kernel K" and "maps_valid K s"
    and "alloc_admitted cfg I (push_bit (page_order B ctx) (page_size cfg))"
    and "sizes_room (contents_of K s) (current_pid I)" and "tables_room (contents_of K s)"
    and "unat (page_size cfg) * 2 ^ page_order B ctx < 2 ^ 64"
    and "core_read B trace_event_raw_mm_page_alloc ''pfn'' ctx = pfn" and "pfn \<noteq> 0"
    and "core_read B trace_event_raw_mm_page_free ''pfn'' ctx' = pfn"
    and "c_allocs (contents_of K s) pfn = None"
  shows "(let t = run_events K cfg B [(I, Memleak_mm_page_alloc ctx)] s;
              u = run_events K cfg B [(I, Memleak_mm_page_alloc ctx), (J, Memleak_mm_page_free ctx')] s;
              i = exit_info cfg I (of_nat (unat (page_size cfg) * 2 ^ page_order B ctx))
          in unat (ai_size i) = unat (page_size cfg) * 2 ^ page_order B ctx \<and>
             c_allocs (contents_of K t) = (c_allocs (contents_of K s))(pfn \<mapsto> i) \<and>
             c_allocs (contents_of K u) = c_allocs (contents_of K s))"
proof -
  have "push_bit (page_order B ctx) (page_size cfg) =
      of_nat (unat (page_size cfg) * 2 ^ page_order B ctx)"
    by (simp add: push_bit_eq_mult)
  moreover have "unat (of_nat (unat (page_size cfg) * 2 ^ page_order B ctx) :: u64) =
      unat (page_size cfg) * 2 ^ page_order B ctx"
    using assms(6) by (rule of_nat64_unat_small)
  moreover have "c_allocs (contents_of K (run_events K cfg B [(I, Memleak_mm_page_alloc ctx)] s)) =
      (c_allocs (contents_of K s))(pfn \<mapsto> exit_info cfg I (push_bit (page_order B ctx) (page_size cfg)))"
    using assms(3-5,7,8)
    by (simp add: memleak_kernel.run_contents [OF assms(1,2)] spec_run enter_exit
        record_allocs_room tables_room_has_room)
  ultimately show ?thesis
    using assms(3-5,7-10)
    by (simp add: Let_def memleak_kernel.run_contents [OF assms(1,2)] spec_run enter_exit
        record_allocs_room tables_room_has_room exit_info_def fun_upd_idem del: of_nat_mult)
qed

definition page_btf :: btf where
  "page_btf = \<lparr>core_type_exists = (\<lambda>_. True), core_field_exists = (\<lambda>_ _. True),
     core_read = (\<lambda>_ f _. if f = ''pfn'' then 77 else if f = ''order'' then 3 else 0)\<rparr>"

theorem page_alloc_recorded_witness:
  "c_allocs (contents_of slot_kernel (run_events slot_kernel default_config page_btf
     [(call 0 5, Memleak_mm_page_alloc 0)] slot_init)) =
   [77 \<mapsto> \<lparr>ai_size = 32768, ai_timestamp_ns = 200, ai_stack_id = 5\<rparr>]"
  using page_alloc_recorded [OF slot_kernel_ok slot_init_valid, of default_config "call 0 5"
      page_btf 0 77 0 "call 0 5"]
  by (simp add: alloc_admitted_def default_config_def sizes_room_def tables_room_def capacity_defs
      page_btf_def page_order_def Let_def exit_info_def)

end
