(* ===== verification/KernelCompat.thy ===== *)
theory KernelCompat
  imports Statistics
begin

text \<open>
  Compile once, run everywhere: the programs and the accessors of \<open>bpf/core_fixes.bpf.h\<close> choose
  a struct flavour by what the running kernel has. A kernel is supported if, of each group of
  flavours that the code chooses from, it has one. On a supported kernel no result depends on a
  field that the kernel does not have: whatever a read of such a field would yield (the loader
  replaces it by an invalid instruction), the results are the same.
\<close>

definition fields_of :: "core_struct \<Rightarrow> string set" where
  "fields_of t = fst ` set (cs_fields t)"

text \<open>The kernel has a struct flavour with all of its fields.\<close>

definition has_all_fields :: "btf \<Rightarrow> core_struct \<Rightarrow> bool" where
  "has_all_fields B t \<longleftrightarrow> list_all (\<lambda>(f, w). core_field_exists B t f) (cs_fields t)"

text \<open>
  The tracepoint records of a kernel: a record that exists has the fields of its flavour; the
  allocation events are one class (before 6.1) or two, with or without their own node events;
  the release events share a class or have their own.
\<close>

definition supported_tracepoints :: "btf \<Rightarrow> bool" where
  "supported_tracepoints B \<longleftrightarrow>
     list_all (\<lambda>t. core_type_exists B t \<longrightarrow> has_all_fields B t)
       [trace_event_raw_kmem_alloc_node___x, trace_event_raw_kmem_alloc___x,
        trace_event_raw_kfree___x, trace_event_raw_kmem_cache_free___x] \<and>
     (core_type_exists B trace_event_raw_kmem_alloc___x \<or>
      has_all_fields B trace_event_raw_kmalloc___x \<and>
      has_all_fields B trace_event_raw_kmem_cache_alloc___x) \<and>
     (core_type_exists B trace_event_raw_kfree___x \<and>
      core_type_exists B trace_event_raw_kmem_cache_free___x \<or>
      has_all_fields B trace_event_raw_kmem_free___x) \<and>
     list_all (has_all_fields B)
       [trace_event_raw_mm_page_alloc, trace_event_raw_mm_page_free,
        trace_event_raw_percpu_alloc_percpu, trace_event_raw_percpu_free_percpu]"

text \<open>Two views of the same kernel: they agree on what exists and on the fields that exist.\<close>

definition same_kernel :: "btf \<Rightarrow> btf \<Rightarrow> bool" where
  "same_kernel B B' \<longleftrightarrow> core_type_exists B = core_type_exists B' \<and>
     core_field_exists B = core_field_exists B' \<and>
     (\<forall>t f. core_field_exists B t f \<longrightarrow> core_read B t f = core_read B' t f)"

lemma same_kernel_read:
  "same_kernel B B' \<Longrightarrow> core_field_exists B t f \<Longrightarrow> core_read B' t f = core_read B t f"
  by (simp add: same_kernel_def)

lemma same_kernel_choice:
  assumes "same_kernel B B'"
  shows "core_field_exists B' = core_field_exists B" "core_type_exists B' = core_type_exists B"
    "has_kmem_alloc B' = has_kmem_alloc B" "has_kmem_alloc_node B' = has_kmem_alloc_node B"
    "has_kfree B' = has_kfree B" "has_kmem_cache_free B' = has_kmem_cache_free B"
  using assms
  by (simp_all add: same_kernel_def has_kmem_alloc_def has_kmem_alloc_node_def has_kfree_def
      has_kmem_cache_free_def)

lemmas choice_defs = has_kmem_alloc_def has_kmem_alloc_node_def has_kfree_def
  has_kmem_cache_free_def

lemmas flavour_defs = trace_event_raw_kmem_alloc_node___x_def trace_event_raw_kmem_alloc___x_def
  trace_event_raw_kmalloc___x_def trace_event_raw_kmem_cache_alloc___x_def
  trace_event_raw_kmem_free___x_def trace_event_raw_kfree___x_def
  trace_event_raw_kmem_cache_free___x_def trace_event_raw_mm_page_alloc_def
  trace_event_raw_mm_page_free_def trace_event_raw_percpu_alloc_percpu_def
  trace_event_raw_percpu_free_percpu_def

lemma supported_fields:
  assumes "supported_tracepoints B"
  shows "has_kmem_alloc B \<Longrightarrow> has_all_fields B trace_event_raw_kmem_alloc___x"
    and "\<not> has_kmem_alloc B \<Longrightarrow> has_all_fields B trace_event_raw_kmalloc___x"
    and "\<not> has_kmem_alloc B \<Longrightarrow> has_all_fields B trace_event_raw_kmem_cache_alloc___x"
    and "has_kmem_alloc_node B \<Longrightarrow> has_all_fields B trace_event_raw_kmem_alloc_node___x"
    and "has_kfree B \<Longrightarrow> has_all_fields B trace_event_raw_kfree___x"
    and "\<not> has_kfree B \<Longrightarrow> has_all_fields B trace_event_raw_kmem_free___x"
    and "has_kmem_cache_free B \<Longrightarrow> has_all_fields B trace_event_raw_kmem_cache_free___x"
    and "\<not> has_kmem_cache_free B \<Longrightarrow> has_all_fields B trace_event_raw_kmem_free___x"
    and "has_all_fields B trace_event_raw_mm_page_alloc"
    and "has_all_fields B trace_event_raw_mm_page_free"
    and "has_all_fields B trace_event_raw_percpu_alloc_percpu"
    and "has_all_fields B trace_event_raw_percpu_free_percpu"
  using assms unfolding supported_tracepoints_def choice_defs by (auto split: if_splits)

text \<open>Reads of the fields of a flavour that the kernel has.\<close>

lemma flavour_read:
  assumes "same_kernel B B'" and "has_all_fields B t" and "f \<in> fields_of t"
  shows "core_read B' t f = core_read B t f"
proof (rule same_kernel_read [OF assms(1)])
  show "core_field_exists B t f"
    using assms(2,3) by (auto simp: has_all_fields_def fields_of_def list_all_iff)
qed

lemma tracepoint_fields:
  "''ptr'' \<in> fields_of trace_event_raw_kmem_alloc___x"
  "''bytes_alloc'' \<in> fields_of trace_event_raw_kmem_alloc___x"
  "''ptr'' \<in> fields_of trace_event_raw_kmalloc___x"
  "''bytes_alloc'' \<in> fields_of trace_event_raw_kmalloc___x"
  "''ptr'' \<in> fields_of trace_event_raw_kmem_cache_alloc___x"
  "''bytes_alloc'' \<in> fields_of trace_event_raw_kmem_cache_alloc___x"
  "''ptr'' \<in> fields_of trace_event_raw_kmem_alloc_node___x"
  "''bytes_alloc'' \<in> fields_of trace_event_raw_kmem_alloc_node___x"
  "''ptr'' \<in> fields_of trace_event_raw_kfree___x"
  "''ptr'' \<in> fields_of trace_event_raw_kmem_free___x"
  "''ptr'' \<in> fields_of trace_event_raw_kmem_cache_free___x"
  "''pfn'' \<in> fields_of trace_event_raw_mm_page_alloc"
  "''order'' \<in> fields_of trace_event_raw_mm_page_alloc"
  "''pfn'' \<in> fields_of trace_event_raw_mm_page_free"
  "''ptr'' \<in> fields_of trace_event_raw_percpu_alloc_percpu"
  "''bytes_alloc'' \<in> fields_of trace_event_raw_percpu_alloc_percpu"
  "''ptr'' \<in> fields_of trace_event_raw_percpu_free_percpu"
  by (simp_all add: fields_of_def flavour_defs)

text \<open>C32: On a supported kernel no program's result depends on a tracepoint field that the kernel does
  not have.\<close>

theorem programs_read_existing_fields:
  assumes "supported_tracepoints B" and "same_kernel B B'"
  shows "run_program K cfg B' I p s = run_program K cfg B I p s"
  using supported_fields [OF assms(1)]
  by (cases p)
    (simp_all add: memleak__kmalloc_def memleak__kmalloc_node_def memleak__kfree_def
      memleak__kmem_cache_alloc_def memleak__kmem_cache_alloc_node_def memleak__kmem_cache_free_def
      memleak__mm_page_alloc_def memleak__mm_page_free_def memleak__percpu_alloc_percpu_def
      memleak__percpu_free_percpu_def page_order_def same_kernel_choice [OF assms(2)]
      flavour_read [OF assms(2)] tracepoint_fields)

text \<open>A kernel with the common allocation class, without node events, and the two release classes;
  reads of fields it does not have yield \<open>junk\<close>.\<close>

definition old_kernel :: "u64 \<Rightarrow> btf" where
  "old_kernel junk =
     (let ts = [trace_event_raw_kmem_alloc___x, trace_event_raw_kfree___x,
                trace_event_raw_kmem_cache_free___x, trace_event_raw_mm_page_alloc,
                trace_event_raw_mm_page_free, trace_event_raw_percpu_alloc_percpu,
                trace_event_raw_percpu_free_percpu, task_struct___o, bio___o, request___x]
      in \<lparr>core_type_exists = (\<lambda>t. t \<in> set ts), core_field_exists = (\<lambda>t f. t \<in> set ts),
          core_read = (\<lambda>t f a. if t \<in> set ts then a + 8 else junk)\<rparr>)"

lemma old_kernel_ok: "supported_tracepoints (old_kernel x)" "same_kernel (old_kernel x) (old_kernel y)"
  by (simp_all add: supported_tracepoints_def has_all_fields_def old_kernel_def same_kernel_def
      flavour_defs task_struct___o_def bio___o_def request___x_def)

theorem programs_read_existing_fields_witness:
  "run_program slot_kernel default_config (old_kernel 1) (call 0 5) (Memleak_kmalloc 4096) slot_init =
   run_program slot_kernel default_config (old_kernel 2) (call 0 5) (Memleak_kmalloc 4096) slot_init"
  using programs_read_existing_fields [OF old_kernel_ok] by blast

text \<open>The accessors of the task state and of the disk of a bio and of a request read only fields
  that the kernel has, on a kernel with one of the two layouts of each struct.\<close>

theorem accessors_read_existing_fields:
  assumes "same_kernel B B'"
    and "core_field_exists B task_struct___x ''__state'' \<or>
         core_field_exists B task_struct___o ''state''"
    and "core_field_exists B bio___x ''bi_bdev'' \<and> core_field_exists B block_device ''bd_disk'' \<or>
         \<not> core_field_exists B bio___x ''bi_bdev'' \<and> core_field_exists B bio___o ''bi_disk''"
    and "core_field_exists B request___x ''rq_disk'' \<or>
         core_field_exists B request___x ''q'' \<and> core_field_exists B request_queue___x ''disk''"
  shows "get_task_state B' = get_task_state B \<and> get_gendisk B' = get_gendisk B \<and>
         get_disk B' = get_disk B"
  using assms(2-4)
  by (auto simp: fun_eq_iff get_task_state_def get_gendisk_def get_disk_def
      same_kernel_choice [OF assms(1)] same_kernel_read [OF assms(1)])

theorem accessors_read_existing_fields_witness:
  "get_task_state (old_kernel 1) = get_task_state (old_kernel 2) \<and>
   get_gendisk (old_kernel 1) = get_gendisk (old_kernel 2) \<and>
   get_disk (old_kernel 1) = get_disk (old_kernel 2)"
proof -
  have "core_field_exists (old_kernel 2) task_struct___o ''state''"
    "\<not> core_field_exists (old_kernel 2) bio___x ''bi_bdev''"
    "core_field_exists (old_kernel 2) bio___o ''bi_disk''"
    "core_field_exists (old_kernel 2) request___x ''rq_disk''"
    by (simp_all add: old_kernel_def flavour_defs task_struct___o_def bio___o_def bio___x_def
        request___x_def)
  then show ?thesis
    using accessors_read_existing_fields [OF old_kernel_ok(2) [of 2 1]] by blast
qed

end
