(* ===== verification/InfoGo.thy ===== *)
theory InfoGo
  imports KernelCompat
begin

text \<open>
  \<open>internal/info/info.go\<close>: user space reads the map values as raw bytes and decodes them. A
  value of the eBPF program is laid out in memory as the little-endian target does it; the
  decoders are shown to give back the fields. The decoder of the statistics is a second reader
  of the packed word, so that the exactness of the totals carries over to the printed report.
\<close>

subsection \<open>Bytes\<close>

definition le_bytes :: "nat \<Rightarrow> u64 \<Rightarrow> u8 list" where
  "le_bytes n w = map (\<lambda>i. ucast (drop_bit (8 * i) w)) [0..<n]"

definition le_value :: "u8 list \<Rightarrow> u64" where
  "le_value bs = foldr (\<lambda>b v. ucast b OR push_bit 8 v) bs 0"

lemma length_le_bytes [simp]: "length (le_bytes n w) = n"
  by (simp add: le_bytes_def)

lemma nth_le_bytes: "i < n \<Longrightarrow> le_bytes n w ! i = ucast (drop_bit (8 * i) w)"
  by (simp add: le_bytes_def)

lemma le_bytes_Suc: "le_bytes (Suc n) w = ucast w # le_bytes n (drop_bit 8 w)"
proof -
  have "[0..<Suc n] = 0 # map Suc [0..<n]" by (simp add: upt_conv_Cons map_Suc_upt del: upt_Suc)
  then show ?thesis by (simp add: le_bytes_def o_def add.commute del: upt_Suc)
qed

lemma le_value_Cons: "le_value (b # bs) = ucast b OR push_bit 8 (le_value bs)"
  by (simp add: le_value_def)

text \<open>A byte of a word, put back in its place.\<close>

lemma bit_byte_at:
  "bit (push_bit k (ucast (ucast (drop_bit k (w :: u64)) :: u8)) :: 'a::len word) n \<longleftrightarrow>
     n < LENGTH('a) \<and> k \<le> n \<and> n < k + 8 \<and> bit w n"
proof (cases "k \<le> n")
  case True
  then have "k + (n - k) = n" "n - k < 8 \<longleftrightarrow> n < k + 8" by auto
  with True show ?thesis by (auto simp: bit_simps dest: bit_imp_le_length)
qed (simp add: bit_simps)

lemma bit_low_byte:
  "bit (ucast (ucast (w :: u64) :: u8) :: 'a::len word) n \<longleftrightarrow> n < LENGTH('a) \<and> n < 8 \<and> bit w n"
  using bit_byte_at [of 0 w n] by simp

lemma byte_split_take:
  "ucast (ucast (w :: u64) :: u8) OR push_bit 8 (take_bit n (drop_bit 8 w)) = take_bit (n + 8) w"
  by (rule bit_word_eqI) (auto simp: bit_simps)

lemma le_value_bytes: "le_value (le_bytes n w) = take_bit (8 * n) w"
proof (induction n arbitrary: w)
  case 0
  then show ?case by (simp add: le_bytes_def le_value_def)
next
  case (Suc n)
  then show ?case
    by (simp add: le_bytes_Suc le_value_Cons byte_split_take add.commute)
qed

subsection \<open>Per-block records\<close>

record AllocInfoRaw =
  raw_Size :: u64
  raw_TimestampNs :: u64
  raw_StackId :: u32

record AllocInfo =
  AI_Size :: u64
  AI_TimestampNs :: u64
  AI_StackId :: u32
  AI_Address :: u64

text \<open>
  \<open>struct alloc_info\<close> in memory: two 8-byte fields, a 4-byte one and 4 bytes of padding (their
  contents are not the program's to choose).
\<close>

definition alloc_info_bytes :: "u8 list \<Rightarrow> alloc_info \<Rightarrow> u8 list" where
  "alloc_info_bytes pad i =
     le_bytes 8 (ai_size i) @ le_bytes 8 (ai_timestamp_ns i) @ le_bytes 4 (ucast (ai_stack_id i)) @ pad"

text \<open>
  \<open>binary.Read\<close> fills a fixed-size struct from the first bytes of the reader: no byte at all is
  EOF, too few are ErrUnexpectedEOF; the blank field is skipped.
\<close>

datatype read_error = EOF | ErrUnexpectedEOF

definition UnmarshalBinaryAllocInfo :: "u8 list \<Rightarrow> read_error + AllocInfoRaw" where
  "UnmarshalBinaryAllocInfo data =
     (if data = [] then Inl EOF
      else if length data < 24 then Inl ErrUnexpectedEOF
      else Inr \<lparr>raw_Size = le_value (take 8 data), raw_TimestampNs = le_value (take 8 (drop 8 data)),
                raw_StackId = ucast (le_value (take 4 (drop 16 data)))\<rparr>)"

definition GetAllocInfo :: "u64 \<Rightarrow> AllocInfoRaw \<Rightarrow> AllocInfo" where
  "GetAllocInfo address raw =
     \<lparr>AI_Size = raw_Size raw, AI_TimestampNs = raw_TimestampNs raw, AI_StackId = raw_StackId raw,
      AI_Address = address\<rparr>"

subsection \<open>Statistics\<close>

record CombinedAllocInfo =
  CA_StackId :: u32
  CA_TotalSize :: u64
  CA_NumberOfAllocs :: u32

definition combined_bytes :: "combined_alloc_info \<Rightarrow> u8 list" where
  "combined_bytes c = le_bytes 8 (bits c)"

text \<open>\<open>raw\<close> is the array of 8 bytes; the error result is always nil.\<close>

definition GetCombinedAllocInfo :: "u32 \<Rightarrow> u8 list \<Rightarrow> CombinedAllocInfo" where
  "GetCombinedAllocInfo stackId raw =
     (let total = ucast (raw ! 0) OR push_bit 8 (ucast (raw ! 1)) OR
                  push_bit 16 (ucast (raw ! 2)) OR push_bit 24 (ucast (raw ! 3)) OR
                  push_bit 32 (ucast (raw ! 4));
          number = ucast (raw ! 5) OR push_bit 8 (ucast (raw ! 6)) OR
                   push_bit 16 (ucast (raw ! 7))
      in \<lparr>CA_StackId = stackId, CA_TotalSize = total, CA_NumberOfAllocs = number\<rparr>)"

lemma decoded_fields:
  "CA_StackId (GetCombinedAllocInfo k (combined_bytes c)) = k"
  "CA_TotalSize (GetCombinedAllocInfo k (combined_bytes c)) = total_size c"
  "CA_NumberOfAllocs (GetCombinedAllocInfo k (combined_bytes c)) = ucast (number_of_allocs c)"
proof -
  have total: "ucast (ucast w :: u8) OR push_bit 8 (ucast (ucast (drop_bit 8 w) :: u8)) OR
      push_bit 16 (ucast (ucast (drop_bit 16 w) :: u8)) OR
      push_bit 24 (ucast (ucast (drop_bit 24 w) :: u8)) OR
      push_bit 32 (ucast (ucast (drop_bit 32 w) :: u8)) = take_bit 40 w" for w :: u64
    by (rule bit_word_eqI) (auto simp: bit_or_iff bit_take_bit_iff bit_byte_at bit_low_byte)
  have number: "ucast (ucast w :: u8) OR push_bit 8 (ucast (ucast (drop_bit 8 w) :: u8)) OR
      push_bit 16 (ucast (ucast (drop_bit 16 w) :: u8)) = (ucast (take_bit 24 w) :: u32)" for w :: u64
    by (rule bit_word_eqI)
      (auto simp: bit_or_iff bit_ucast_iff bit_take_bit_iff bit_byte_at bit_low_byte)
  have high: "take_bit 24 (drop_bit 40 w) = drop_bit 40 w" for w :: u64
    by (rule bit_word_eqI) (auto simp: bit_simps dest: bit_imp_le_length)
  show "CA_StackId (GetCombinedAllocInfo k (combined_bytes c)) = k"
    "CA_TotalSize (GetCombinedAllocInfo k (combined_bytes c)) = total_size c"
    "CA_NumberOfAllocs (GetCombinedAllocInfo k (combined_bytes c)) = ucast (number_of_allocs c)"
    using number [of "drop_bit 40 (bits c)"]
    by (simp_all add: GetCombinedAllocInfo_def combined_bytes_def nth_le_bytes total high
        total_size_def number_of_allocs_def)
qed

text \<open>C34: Decoding the eight bytes of a statistics entry gives its two bit-fields.\<close>

theorem decode_combined:
  "GetCombinedAllocInfo stackId (combined_bytes c) =
     \<lparr>CA_StackId = stackId, CA_TotalSize = total_size c, CA_NumberOfAllocs = ucast (number_of_allocs c)\<rparr>"
  by (rule CombinedAllocInfo.equality) (simp_all add: decoded_fields)

lemma unat_number_u32: "unat (ucast (number_of_allocs c) :: u32) = unat (bits c) div 2 ^ 40"
proof -
  have "unat (bits c) div 2 ^ 40 < 2 ^ 32"
    using unsigned_less [of "bits c", where ?'a = nat] by (simp add: less_mult_imp_div_less)
  then show ?thesis
    by (simp add: unsigned_ucast_eq unat_number_of_allocs take_bit_nat_eq_self)
qed

interpretation go_reader: combined_reader
  "\<lambda>c. unat (CA_TotalSize (GetCombinedAllocInfo 0 (combined_bytes c)))"
  "\<lambda>c. unat (CA_NumberOfAllocs (GetCombinedAllocInfo 0 (combined_bytes c)))"
  by unfold_locales (simp_all add: decoded_fields unat_total_size unat_number_u32)

text \<open>After any run from an empty tracker that reuses no recorded address and fits the tables, the
  total and the number that user space decodes from a stack's entry, and prints, are the bytes and
  blocks allocated from that stack and not released, while they fit the bit-fields.\<close>

theorem printed_totals_exact:
  assumes "memleak_kernel K" and "maps_valid K s" and "contents_of K s = no_contents"
    and "events_ok cfg B es no_contents"
    and "c_combined (contents_of K (run_events K cfg B es s)) key = Some ci"
    and "outstanding_bytes (contents_of K (run_events K cfg B es s)) key < 2 ^ 40"
    and "outstanding_count (contents_of K (run_events K cfg B es s)) key < 2 ^ 24"
  shows "(let r = GetCombinedAllocInfo (ucast key) (combined_bytes ci);
              c = contents_of K (run_events K cfg B es s)
          in unat (CA_TotalSize r) = outstanding_bytes c key \<and>
             unat (CA_NumberOfAllocs r) = outstanding_count c key)"
proof -
  have "accounted (contents_of K (run_events K cfg B es s))"
    using assms(3,4) accounted_no_contents
    by (simp add: memleak_kernel.run_contents [OF assms(1,2)] accounted_events)
  from go_reader.read_accounted [OF this assms(6,7)] assms(5) show ?thesis
    by (simp add: Let_def stack_stats_def decoded_fields)
qed

theorem printed_totals_exact_witness:
  "unat (CA_TotalSize (GetCombinedAllocInfo 5 (combined_bytes (combined_of_info 32 1)))) = 32 \<and>
   unat (CA_NumberOfAllocs (GetCombinedAllocInfo 5 (combined_bytes (combined_of_info 32 1)))) = 1"
  using printed_totals_exact [OF slot_kernel_ok slot_init_valid slot_init_contents
      demo_ok [of no_btf], of 5 "combined_of_info 32 1"]
  by (simp add: demo_run demo_outstanding [unfolded demo_run] Let_def)

lemma unmarshal_record:
  assumes "length pad = 4"
  shows "UnmarshalBinaryAllocInfo (alloc_info_bytes pad i @ rest) =
           Inr \<lparr>raw_Size = ai_size i, raw_TimestampNs = ai_timestamp_ns i, raw_StackId = ai_stack_id i\<rparr>"
    and "UnmarshalBinaryAllocInfo (alloc_info_bytes pad i) =
           Inr \<lparr>raw_Size = ai_size i, raw_TimestampNs = ai_timestamp_ns i, raw_StackId = ai_stack_id i\<rparr>"
proof -
  have word: "take_bit 64 w = w" for w :: u64
    by (rule bit_word_eqI) (auto simp: bit_simps)
  have id: "ucast (take_bit 32 (ucast x :: u64)) = x" for x :: i32
    by (rule bit_word_eqI) (auto simp: bit_simps)
  show *: "UnmarshalBinaryAllocInfo (alloc_info_bytes pad i @ rest) =
      Inr \<lparr>raw_Size = ai_size i, raw_TimestampNs = ai_timestamp_ns i, raw_StackId = ai_stack_id i\<rparr>"
    for rest
    using assms
    by (simp add: UnmarshalBinaryAllocInfo_def alloc_info_bytes_def le_value_bytes word id)
      (metis length_0_conv length_le_bytes zero_neq_numeral)
  from * [of "[]"] show "UnmarshalBinaryAllocInfo (alloc_info_bytes pad i) =
      Inr \<lparr>raw_Size = ai_size i, raw_TimestampNs = ai_timestamp_ns i, raw_StackId = ai_stack_id i\<rparr>"
    by simp
qed

lemma unmarshal_short:
  "length data < 24 \<Longrightarrow>
     UnmarshalBinaryAllocInfo data = Inl (if data = [] then EOF else ErrUnexpectedEOF)"
  by (simp add: UnmarshalBinaryAllocInfo_def)

text \<open>Decoding the bytes of a recorded block gives its size, time and stack id, whatever the padding
  holds and whatever follows; fewer bytes than a record are an error, EOF if there are none.\<close>

theorem unmarshal_alloc_info:
  "length pad = 4 \<Longrightarrow>
     UnmarshalBinaryAllocInfo (alloc_info_bytes pad i @ rest) =
       Inr \<lparr>raw_Size = ai_size i, raw_TimestampNs = ai_timestamp_ns i, raw_StackId = ai_stack_id i\<rparr> \<and>
     (\<forall>n < 24. UnmarshalBinaryAllocInfo (take n (alloc_info_bytes pad i)) =
        Inl (if n = 0 then EOF else ErrUnexpectedEOF))"
proof -
  assume pad: "length pad = 4"
  then have len: "length (alloc_info_bytes pad i) = 24" by (simp add: alloc_info_bytes_def)
  have "UnmarshalBinaryAllocInfo (take n (alloc_info_bytes pad i)) =
      Inl (if n = 0 then EOF else ErrUnexpectedEOF)" if "n < 24" for n
  proof -
    have "length (take n (alloc_info_bytes pad i)) = n" using len that by simp
    then show ?thesis using that unmarshal_short by (metis length_0_conv)
  qed
  with unmarshal_record(1) [OF pad] show ?thesis by blast
qed

theorem unmarshal_alloc_info_witness:
  "UnmarshalBinaryAllocInfo
     (alloc_info_bytes [0, 0, 0, 0] \<lparr>ai_size = 48, ai_timestamp_ns = 200, ai_stack_id = - 14\<rparr>) =
   Inr \<lparr>raw_Size = 48, raw_TimestampNs = 200, raw_StackId = 4294967282\<rparr>"
  using unmarshal_alloc_info [of "[0, 0, 0, 0]"
      "\<lparr>ai_size = 48, ai_timestamp_ns = 200, ai_stack_id = - 14\<rparr>" "[]"]
  by simp

subsection \<open>The join on stack ids\<close>

text \<open>
  User space identifies a stack by the low 32 bits of its key. No two keys of the statistics
  share them, as every key is a sign-extended int.
\<close>

definition keys_sign_extended :: "contents \<Rightarrow> bool" where
  "keys_sign_extended c \<longleftrightarrow> (\<forall>k. c_combined c k \<noteq> None \<longrightarrow> k = scast (ucast k :: i32))"

lemma keys_no_contents: "keys_sign_extended no_contents"
  by (simp add: keys_sign_extended_def)

lemma keys_frame [simp]:
  "keys_sign_extended (c\<lparr>c_sizes := m\<rparr>) = keys_sign_extended c"
  "keys_sign_extended (c\<lparr>c_memptrs := n\<rparr>) = keys_sign_extended c"
  "keys_sign_extended (spec_enter cfg I sz c) = keys_sign_extended c"
  by (simp_all add: keys_sign_extended_def)

lemma keys_free: "keys_sign_extended c \<Longrightarrow> keys_sign_extended (spec_free a c)"
  by (auto simp: keys_sign_extended_def spec_free_def spec_debit_def split: option.splits if_splits)

lemma keys_record: "keys_sign_extended c \<Longrightarrow> keys_sign_extended (spec_record a i c)"
  by (auto simp: keys_sign_extended_def spec_record_combined bounded_upd_def stack_key_def
      split: if_splits)

lemma keys_exit: "keys_sign_extended c \<Longrightarrow> keys_sign_extended (spec_exit cfg I a c)"
  by (simp add: spec_exit_def Let_def keys_record split: option.split)

lemma keys_action: "keys_sign_extended c \<Longrightarrow> keys_sign_extended (spec_action cfg I a c)"
  by (cases a) (simp_all add: keys_free keys_exit spec_save_memptr_def spec_memptr_exit_def Let_def
      split: option.split)

lemma keys_step: "keys_sign_extended c \<Longrightarrow> keys_sign_extended (spec_step cfg B e c)"
proof -
  have "keys_sign_extended c \<Longrightarrow> keys_sign_extended (fold (spec_action cfg (fst e)) as c)" for as
    by (induction as arbitrary: c) (auto intro: keys_action)
  then show "keys_sign_extended c \<Longrightarrow> keys_sign_extended (spec_step cfg B e c)"
    by (simp add: spec_step_def spec_program_def)
qed

text \<open>C33: In every reachable state, user space joins exactly the right blocks to a stack: the decoded
  stack id of a recorded block equals the decoded stack id of a statistics entry if and only if
  the entry is the one the block was counted in.\<close>

theorem stack_ids_join:
  assumes "memleak_kernel K" and "reachable K cfg B s"
    and "c_allocs (contents_of K s) a = Some i" and "c_combined (contents_of K s) key = Some ci"
    and "length pad = 4"
    and "UnmarshalBinaryAllocInfo (alloc_info_bytes pad i) = Inr raw"
  shows "AI_StackId (GetAllocInfo a raw) =
           CA_StackId (GetCombinedAllocInfo (ucast key) (combined_bytes ci)) \<longleftrightarrow> key = stack_key i"
proof -
  have "keys_sign_extended (contents_of K s)"
    using memleak_kernel.reachable_invariant [OF assms(1,2), of keys_sign_extended]
    by (simp add: keys_no_contents keys_step)
  with assms(4) have "key = scast (ucast key :: i32)" by (simp add: keys_sign_extended_def)
  moreover have "raw_StackId raw = ai_stack_id i"
    using unmarshal_record [OF assms(5), of i] assms(6) by simp
  ultimately show ?thesis
    by (metis AllocInfo.select_convs(3) CombinedAllocInfo.select_convs(1) GetAllocInfo_def
        decoded_fields(1) scast_i32_inject stack_key_def)
qed

theorem stack_ids_join_witness:
  "AI_StackId (GetAllocInfo 4096 \<lparr>raw_Size = 64, raw_TimestampNs = 200, raw_StackId = 5\<rparr>) =
   CA_StackId (GetCombinedAllocInfo (ucast (5 :: u64)) (combined_bytes (combined_of_info 64 1)))"
proof -
  let ?i = "\<lparr>ai_size = 64, ai_timestamp_ns = 200, ai_stack_id = 5\<rparr>"
  have "UnmarshalBinaryAllocInfo (alloc_info_bytes [0, 0, 0, 0] ?i) =
      Inr \<lparr>raw_Size = 64, raw_TimestampNs = 200, raw_StackId = 5\<rparr>"
    using unmarshal_record [of "[0, 0, 0, 0]" ?i] by simp
  then show ?thesis
    using stack_ids_join [OF slot_kernel_ok one_block_reachable, of 4096 ?i 5
        "combined_of_info 64 1" "[0, 0, 0, 0]"]
    by (simp add: stack_key_def)
qed

end
