(* ===== verification/StackTraces.thy ===== *)
theory StackTraces
  imports StackMap InfoGo
begin

text \<open>
  The tracker together with the map of stacks: every invocation comes with the call stack it was
  made from, and the stack id it gets is what \<open>bpf_get_stackid\<close> answers on that stack. A program
  calls the helper at most once, when it settles a request with an address; \<open>settled\<close> is that
  address. A ghost map remembers the stack from which each address was last settled, and the
  invariant is that the recorded id of a block leads to that stack.
\<close>

type_synonym origins = "u64 \<rightharpoonup> u64 list"

fun settles :: "invocation \<Rightarrow> action \<Rightarrow> contents \<Rightarrow> u64 option" where
  "settles I (Settle a) c = (if c_sizes c (current_pid I) \<noteq> None \<and> a \<noteq> 0 then Some a else None)"
| "settles I Settle_memptr c =
     (case c_memptrs c (current_pid64 I) of
        None \<Rightarrow> None
      | Some m \<Rightarrow>
          (case probe_read_user I m of
             None \<Rightarrow> None
           | Some a \<Rightarrow> if c_sizes c (current_pid I) \<noteq> None \<and> a \<noteq> 0 then Some a else None))"
| "settles I _ c = None"

fun settled :: "config \<Rightarrow> invocation \<Rightarrow> action list \<Rightarrow> contents \<Rightarrow> u64 option" where
  "settled cfg I [] c = None"
| "settled cfg I (a # as) c =
     (case settles I a c of
        Some x \<Rightarrow> Some x
      | None \<Rightarrow> settled cfg I as (spec_action cfg I a c))"

definition with_stack ::
    "'st stack_ops \<Rightarrow> 'st \<Rightarrow> u64 list \<Rightarrow> invocation \<Rightarrow> invocation" where
  "with_stack S m stk I = I\<lparr>get_stackid := (\<lambda>f. fst (st_get S m f stk))\<rparr>"

lemma with_stack_simps [simp]:
  "current_pid (with_stack S m stk I) = current_pid I"
  "current_pid64 (with_stack S m stk I) = current_pid64 I"
  "probe_read_user (with_stack S m stk I) = probe_read_user I"
  "regs_rc (with_stack S m stk I) = regs_rc I"
  "ktime_enter (with_stack S m stk I) = ktime_enter I"
  "ktime_exit (with_stack S m stk I) = ktime_exit I"
  "get_stackid (with_stack S m stk I) f = fst (st_get S m f stk)"
  by (simp_all add: with_stack_def current_pid_def current_pid64_def)

type_synonym stack_event = "event \<times> u64 list"

definition traced_step ::
    "'st stack_ops \<Rightarrow> ('ms, 'ma, 'mc, 'mp) kernel \<Rightarrow> config \<Rightarrow> btf \<Rightarrow> stack_event \<Rightarrow>
     'st \<times> ('ms, 'ma, 'mc, 'mp) tracker \<times> origins \<Rightarrow>
     'st \<times> ('ms, 'ma, 'mc, 'mp) tracker \<times> origins" where
  "traced_step S K cfg B e x =
     (case (e, x) of (((I, p), stk), (m, s, og)) \<Rightarrow>
        (let J = with_stack S m stk I;
             t = snd (run_program K cfg B J p s)
         in case settled cfg J (actions_of cfg B J p) (contents_of K s) of
              None \<Rightarrow> (m, t, og)
            | Some a \<Rightarrow> (snd (st_get S m (stack_flags cfg) stk), t, og(a \<mapsto> stk))))"

definition traced_run ::
    "'st stack_ops \<Rightarrow> ('ms, 'ma, 'mc, 'mp) kernel \<Rightarrow> config \<Rightarrow> btf \<Rightarrow> stack_event list \<Rightarrow>
     'st \<times> ('ms, 'ma, 'mc, 'mp) tracker \<times> origins \<Rightarrow>
     'st \<times> ('ms, 'ma, 'mc, 'mp) tracker \<times> origins" where
  "traced_run S K cfg B es x = fold (traced_step S K cfg B) es x"

text \<open>The same over the contents of the maps, and its refinement.\<close>

definition spec_traced_step ::
    "'st stack_ops \<Rightarrow> config \<Rightarrow> btf \<Rightarrow> stack_event \<Rightarrow> 'st \<times> contents \<times> origins \<Rightarrow>
     'st \<times> contents \<times> origins" where
  "spec_traced_step S cfg B e x =
     (case (e, x) of (((I, p), stk), (m, c, og)) \<Rightarrow>
        (let J = with_stack S m stk I;
             d = spec_program cfg B J p c
         in case settled cfg J (actions_of cfg B J p) c of
              None \<Rightarrow> (m, d, og)
            | Some a \<Rightarrow> (snd (st_get S m (stack_flags cfg) stk), d, og(a \<mapsto> stk))))"

definition traced_view ::
    "('ms, 'ma, 'mc, 'mp) kernel \<Rightarrow> 'st \<times> ('ms, 'ma, 'mc, 'mp) tracker \<times> origins \<Rightarrow>
     'st \<times> contents \<times> origins" where
  "traced_view K x = (case x of (m, s, og) \<Rightarrow> (m, contents_of K s, og))"

definition traced_valid ::
    "('ms, 'ma, 'mc, 'mp) kernel \<Rightarrow> 'st \<times> ('ms, 'ma, 'mc, 'mp) tracker \<times> origins \<Rightarrow> bool" where
  "traced_valid K x = (case x of (m, s, og) \<Rightarrow> maps_valid K s)"

sublocale memleak_kernel \<subseteq> stack_runs: run_refinement
  "traced_step S K cfg B" "spec_traced_step S cfg B" "traced_view K" "traced_valid K" for S cfg B
  by unfold_locales
    (auto simp: traced_step_def spec_traced_step_def traced_view_def traced_valid_def Let_def
      program_refines split: option.splits)

interpretation slot_stack_runs: run_refinement
  "traced_step S slot_kernel cfg B" "spec_traced_step S cfg B" "traced_view slot_kernel"
  "traced_valid slot_kernel" for S cfg B
  by unfold_locales (simp_all add: slotk.stack_runs.step_good slotk.stack_runs.step_view)

subsection \<open>A program settles at most one block\<close>

fun is_settle :: "action \<Rightarrow> bool" where
  "is_settle (Settle a) = True" | "is_settle Settle_memptr = True" | "is_settle a = False"

fun settles_last :: "action list \<Rightarrow> bool" where
  "settles_last [] = True"
| "settles_last (a # as) = ((is_settle a \<longrightarrow> as = []) \<and> settles_last as)"

lemma actions_settle_last: "settles_last (actions_of cfg B I p)"
  by (cases p) (simp_all add: traced_alloc_def Let_def)

text \<open>Only a settled block asks for a stack id: without one the program does the same whatever the
  helper would answer.\<close>

lemma stackid_frame [simp]:
  "current_pid (I\<lparr>get_stackid := g\<rparr>) = current_pid I"
  "current_pid64 (I\<lparr>get_stackid := g\<rparr>) = current_pid64 I"
  "alloc_admitted cfg (I\<lparr>get_stackid := g\<rparr>) n = alloc_admitted cfg I n"
  by (simp_all add: current_pid_def current_pid64_def alloc_admitted_def)

lemma spec_action_unasked:
  "settles I a c = None \<Longrightarrow> spec_action cfg (I\<lparr>get_stackid := g\<rparr>) a c = spec_action cfg I a c"
  by (cases a)
    (auto simp: spec_enter_def spec_exit_def spec_save_memptr_def spec_memptr_exit_def Let_def
      split: option.split if_splits)

lemma settles_stackid: "settles (I\<lparr>get_stackid := g\<rparr>) a c = settles I a c"
  by (cases a) (simp_all cong: option.case_cong)

lemma unasked_same:
  "settled cfg I as c = None \<Longrightarrow>
     fold (spec_action cfg (I\<lparr>get_stackid := g\<rparr>)) as c = fold (spec_action cfg I) as c"
  by (induction as arbitrary: c) (simp_all add: spec_action_unasked split: option.splits)

text \<open>What an action, and a program, can have done to the record at an address.\<close>

lemma settle_record:
  assumes "c_allocs (spec_exit cfg I a c) b = Some i"
  shows "c_allocs c b = Some i \<and> settles I (Settle a) c \<noteq> Some b \<or>
    settles I (Settle a) c = Some b \<and> (\<exists>n. i = exit_info cfg I n)"
  using assms
  by (auto simp: spec_exit_def spec_record_allocs bounded_upd_def Let_def
      split: option.splits if_splits)

lemma action_record:
  assumes "c_allocs (spec_action cfg I a c) b = Some i"
  shows "c_allocs c b = Some i \<and> settles I a c \<noteq> Some b \<or>
    settles I a c = Some b \<and> (\<exists>n. i = exit_info cfg I n)"
proof (cases a)
  case (Settle x)
  then show ?thesis using settle_record assms by simp
next
  case Settle_memptr
  show ?thesis
  proof (cases "c_memptrs c (current_pid64 I)")
    case None
    then show ?thesis using assms Settle_memptr by (simp add: spec_memptr_exit_def)
  next
    case (Some m)
    let ?c = "c\<lparr>c_memptrs := (c_memptrs c)(current_pid64 I := None)\<rparr>"
    show ?thesis
    proof (cases "probe_read_user I m")
      case None
      then show ?thesis using assms Settle_memptr Some by (simp add: spec_memptr_exit_def)
    next
      case (Some x)
      then have "c_allocs (spec_exit cfg I x ?c) b = Some i"
        using assms Settle_memptr \<open>c_memptrs c (current_pid64 I) = Some m\<close>
        by (simp add: spec_memptr_exit_def)
      from settle_record [OF this] show ?thesis
        using Some Settle_memptr \<open>c_memptrs c (current_pid64 I) = Some m\<close> by simp
    qed
  qed
qed (use assms in \<open>auto simp: spec_save_memptr_def split: if_splits\<close>)

lemma actions_record:
  "settles_last as \<Longrightarrow> c_allocs (fold (spec_action cfg I) as c) b = Some i \<Longrightarrow>
     c_allocs c b = Some i \<and> settled cfg I as c \<noteq> Some b \<or>
     settled cfg I as c = Some b \<and> (\<exists>n. i = exit_info cfg I n)"
proof (induction as arbitrary: c)
  case (Cons a as)
  show ?case
  proof (cases "is_settle a")
    case True
    then have "as = []" using Cons.prems(1) by simp
    then show ?thesis
      using action_record [of cfg I a c b i] Cons.prems(2) by (auto split: option.split)
  next
    case False
    then have none: "settles I a d = None" for d by (cases a) simp_all
    show ?thesis
      using Cons.IH [of "spec_action cfg I a c"] Cons.prems action_record [of cfg I a c b i] none
      by auto
  qed
qed simp

subsection \<open>Recorded ids lead to the stacks\<close>

text \<open>The invariant: a recorded id that is not negative is stored in the map of stacks, as the stack
  from which the block was allocated.\<close>

definition stacks_known :: "'st stack_ops \<Rightarrow> 'st \<Rightarrow> contents \<Rightarrow> origins \<Rightarrow> bool" where
  "stacks_known S m c og \<longleftrightarrow>
     (\<forall>a i. c_allocs c a = Some i \<longrightarrow> 0 \<le> sint (ai_stack_id i) \<longrightarrow>
        (\<exists>stk. og a = Some stk \<and> st_lookup S m (ai_stack_id i) = Some (stack_value stk)))"

lemma stacks_known_empty: "stacks_known S m no_contents og"
  by (simp add: stacks_known_def no_contents_def)

context bpf_stack_map
begin

lemma step_stacks_known:
  assumes "memleak_kernel K" and "keeps_stacks (stack_flags cfg)"
    and "st_valid ops m" and "maps_valid K s" and "stacks_known ops m (contents_of K s) og"
    and "traced_step ops K cfg B e (m, s, og) = (m', t, og')"
  shows "st_valid ops m' \<and> maps_valid K t \<and> stacks_known ops m' (contents_of K t) og'"
proof -
  obtain I p stk where e: "e = ((I, p), stk)" by (metis surj_pair)
  let ?J = "with_stack ops m stk I"
  let ?as = "actions_of cfg B ?J p"
  let ?x = "settled cfg ?J ?as (contents_of K s)"
  let ?n = "snd (st_get ops m (stack_flags cfg) stk)"
  have t: "t = snd (run_program K cfg B ?J p s)"
    and m': "m' = (if ?x = None then m else ?n)"
    and og': "og' = (case ?x of None \<Rightarrow> og | Some a \<Rightarrow> og(a \<mapsto> stk))"
    using assms(6) by (auto simp: traced_step_def e Let_def split: option.splits)
  note run = memleak_kernel.program_refines [OF assms(1,4), of cfg B ?J p, folded t]
  have keeps: "st_lookup ops m' k = Some v" if "st_lookup ops m k = Some v" for k v
    using that get_keeps [OF assms(3,2)] by (simp add: m')
  have "\<exists>stk. og' a = Some stk \<and> st_lookup ops m' (ai_stack_id i) = Some (stack_value stk)"
    if "c_allocs (contents_of K t) a = Some i" "0 \<le> sint (ai_stack_id i)" for a i
  proof -
    have "c_allocs (contents_of K s) a = Some i \<and> ?x \<noteq> Some a \<or>
        ?x = Some a \<and> (\<exists>n. i = exit_info cfg ?J n)"
      using that(1) run(2) by (intro actions_record [OF actions_settle_last])
        (simp add: spec_program_def)
    then show ?thesis
    proof
      assume old: "c_allocs (contents_of K s) a = Some i \<and> ?x \<noteq> Some a"
      then have "og' a = og a" by (auto simp: og' split: option.split)
      then show ?thesis
        using assms(5) old that(2) keeps unfolding stacks_known_def by metis
    next
      assume new: "?x = Some a \<and> (\<exists>n. i = exit_info cfg ?J n)"
      then have id: "ai_stack_id i = ucast (fst (st_get ops m (stack_flags cfg) stk))"
        by (auto simp: exit_info_def)
      then have "0 \<le> sint (fst (st_get ops m (stack_flags cfg) stk))"
        using that(2) recorded_id [OF assms(3), of "stack_flags cfg" stk] by simp
      from get_stored [OF assms(3,2) this] new show ?thesis
        by (simp add: id m' og')
    qed
  qed
  then show ?thesis
    using run(1) assms(3) get_valid [OF assms(3)] by (simp add: stacks_known_def m')
qed

lemma run_stacks_known:
  assumes "memleak_kernel K" and "keeps_stacks (stack_flags cfg)"
    and "st_valid ops m" and "maps_valid K s" and "stacks_known ops m (contents_of K s) og"
    and "traced_run ops K cfg B es (m, s, og) = (m', t, og')"
  shows "st_valid ops m' \<and> maps_valid K t \<and> stacks_known ops m' (contents_of K t) og'"
  using assms(3-6)
proof (induction es arbitrary: m s og)
  case (Cons e es)
  obtain n u oh where step: "traced_step ops K cfg B e (m, s, og) = (n, u, oh)"
    by (metis prod_cases3)
  have "traced_run ops K cfg B es (n, u, oh) = (m', t, og')"
    using Cons.prems(4) step by (simp add: traced_run_def)
  with step_stacks_known [OF assms(1,2) Cons.prems(1-3) step] Cons.IH show ?case by blast
qed (simp add: traced_run_def)

end

end
