(* ===== verification/TopStacks.thy ===== *)
theory TopStacks
  imports InfoGo "HOL-Library.Multiset"
begin

text \<open>
  The selection of the stacks to report in \<open>internal/probe/probe.go\<close>: one pass over the entries
  of \<open>combined_allocs\<close> keeps the largest totals in a min-heap of at most \<open>nTopStacks\<close> elements,
  which is then emptied from the back of the result. \<open>MinHeap\<close> and the operations of Go's
  \<open>container/heap\<close> work on a slice, here a list. What the selection needs of the heap is the
  locale \<open>min_queue\<close>; the selection is proved over it, and the heap is shown to provide it.
\<close>

subsection \<open>MinHeap\<close>

type_synonym min_heap = "CombinedAllocInfo list"

definition Less :: "min_heap \<Rightarrow> nat \<Rightarrow> nat \<Rightarrow> bool" where
  "Less h i j \<longleftrightarrow> CA_TotalSize (h ! i) < CA_TotalSize (h ! j)"

definition Swap :: "min_heap \<Rightarrow> nat \<Rightarrow> nat \<Rightarrow> min_heap" where
  "Swap h i j = h[i := h ! j, j := h ! i]"

text \<open>The loops \<open>up\<close> and \<open>down\<close> of \<open>container/heap\<close>.\<close>

lemma parent_less: "(j - 1) div 2 \<noteq> j \<Longrightarrow> (j - 1) div 2 < (j :: nat)"
  using div_le_dividend [of "j - 1" 2] by linarith

function heap_up :: "min_heap \<Rightarrow> nat \<Rightarrow> min_heap" where
  "heap_up h j =
     (let i = (j - 1) div 2
      in if i = j \<or> \<not> Less h j i then h else heap_up (Swap h i j) i)"
  by pat_completeness auto
termination
  by (relation "measure snd") (simp_all add: parent_less [simplified])

function heap_down :: "min_heap \<Rightarrow> nat \<Rightarrow> nat \<Rightarrow> min_heap" where
  "heap_down h i n =
     (let j1 = 2 * i + 1
      in if n \<le> j1 then h
         else
           (let j = (if j1 + 1 < n \<and> Less h (j1 + 1) j1 then j1 + 1 else j1)
            in if \<not> Less h j i then h else heap_down (Swap h i j) j n))"
  by pat_completeness auto
termination
  by (relation "measure (\<lambda>(h, i, n). n - i)") (auto split: if_splits)

declare heap_up.simps [simp del] heap_down.simps [simp del]

definition heap_Push :: "min_heap \<Rightarrow> CombinedAllocInfo \<Rightarrow> min_heap" where
  "heap_Push h x = heap_up (h @ [x]) (length h)"

definition heap_Pop :: "min_heap \<Rightarrow> CombinedAllocInfo \<times> min_heap" where
  "heap_Pop h =
     (let n = length h - 1;
          h' = heap_down (Swap h 0 n) 0 n
      in (h' ! n, take n h'))"

subsection \<open>The report loop\<close>

datatype go_panic = Index_out_of_range

text \<open>One entry of the iteration. Indexing an empty heap at 0 panics.\<close>

definition offer :: "int \<Rightarrow> min_heap \<Rightarrow> CombinedAllocInfo \<Rightarrow> go_panic + min_heap" where
  "offer nTopStacks h x =
     (if CA_TotalSize x > 0
      then if int (length h) < nTopStacks then Inr (heap_Push h x)
           else if h = [] then Inl Index_out_of_range
           else if CA_TotalSize x > CA_TotalSize (h ! 0)
           then (let (_, h') = heap_Pop h in Inr (heap_Push h' x))
           else Inr h
      else Inr h)"

fun collect :: "int \<Rightarrow> min_heap \<Rightarrow> CombinedAllocInfo list \<Rightarrow> go_panic + min_heap" where
  "collect nTopStacks h [] = Inr h"
| "collect nTopStacks h (x # xs) =
     (case offer nTopStacks h x of
        Inl e \<Rightarrow> Inl e
      | Inr h' \<Rightarrow> collect nTopStacks h' xs)"

text \<open>The result slice is filled from its last index to its first.\<close>

fun drain :: "nat \<Rightarrow> min_heap \<Rightarrow> CombinedAllocInfo list \<Rightarrow> CombinedAllocInfo list" where
  "drain 0 h ts = ts"
| "drain (Suc i) h ts = (let (x, h') = heap_Pop h in drain i h' (x # ts))"

definition decode_entries :: "(u64 \<times> u8 list) list \<Rightarrow> CombinedAllocInfo list" where
  "decode_entries es = map (\<lambda>(key, raw). GetCombinedAllocInfo (ucast key) raw) es"

definition topStacks :: "int \<Rightarrow> (u64 \<times> u8 list) list \<Rightarrow> go_panic + CombinedAllocInfo list" where
  "topStacks nTopStacks es =
     (case collect nTopStacks [] (decode_entries es) of
        Inl e \<Rightarrow> Inl e
      | Inr h \<Rightarrow> Inr (drain (length h) h []))"

subsection \<open>What the selection needs of the heap\<close>

locale min_queue =
  fixes push :: "'q \<Rightarrow> 'a \<Rightarrow> 'q" and pop :: "'q \<Rightarrow> 'a \<times> 'q"
    and elements :: "'q \<Rightarrow> 'a multiset" and ok :: "'q \<Rightarrow> bool" and key :: "'a \<Rightarrow> 'k::linorder"
  assumes push_ok: "ok q \<Longrightarrow> ok (push q x)"
    and push_elements: "ok q \<Longrightarrow> elements (push q x) = add_mset x (elements q)"
    and pop_ok: "ok q \<Longrightarrow> elements q \<noteq> {#} \<Longrightarrow> ok (snd (pop q))"
    and pop_elements: "ok q \<Longrightarrow> elements q \<noteq> {#} \<Longrightarrow>
          elements q = add_mset (fst (pop q)) (elements (snd (pop q)))"
    and pop_least: "ok q \<Longrightarrow> y \<in># elements q \<Longrightarrow> key (fst (pop q)) \<le> key y"
begin

text \<open>
  \<open>q\<close> holds the at most \<open>n\<close> largest of the elements seen, \<open>P\<close>; the others are \<open>R\<close>.
\<close>

definition largest :: "nat \<Rightarrow> 'a multiset \<Rightarrow> 'q \<Rightarrow> bool" where
  "largest n P q \<longleftrightarrow> ok q \<and> size (elements q) = min n (size P) \<and>
     (\<exists>R. P = elements q + R \<and> (\<forall>x \<in># R. \<forall>y \<in># elements q. key x \<le> key y))"

lemma largestE:
  assumes "largest n P q"
  obtains R where "ok q" "size (elements q) = min n (size P)" "P = elements q + R"
    "\<forall>x \<in># R. \<forall>y \<in># elements q. key x \<le> key y"
  using assms unfolding largest_def by blast

lemma largest_push:
  assumes "largest n P q" and "size (elements q) < n"
  shows "largest n (add_mset x P) (push q x)"
proof -
  obtain R where q: "ok q" "size (elements q) = min n (size P)" "P = elements q + R"
    using assms(1) by (rule largestE)
  then have "size R = 0" using assms(2) by (simp add: min_def split: if_splits)
  then show ?thesis
    using q assms(2) by (simp add: largest_def push_ok push_elements)
qed

lemma largest_replace:
  assumes "largest n P q" and "elements q \<noteq> {#}" and "n \<le> size (elements q)"
    and "key (fst (pop q)) < key x"
  shows "largest n (add_mset x P) (push (snd (pop q)) x)"
proof -
  let ?m = "fst (pop q)" and ?q = "snd (pop q)"
  obtain R where q: "ok q" "size (elements q) = min n (size P)" "P = elements q + R"
    "\<forall>x \<in># R. \<forall>y \<in># elements q. key x \<le> key y"
    using assms(1) by (rule largestE)
  have split: "elements q = add_mset ?m (elements ?q)"
    using pop_elements [OF q(1) assms(2)] .
  have ok: "ok ?q" using pop_ok [OF q(1) assms(2)] .
  then have new: "elements (push ?q x) = add_mset x (elements ?q)" by (rule push_elements)
  have m_in: "?m \<in># elements q" using split by (metis union_single_eq_member)
  have "key y \<le> key z" if "y \<in># add_mset ?m R" "z \<in># add_mset x (elements ?q)" for y z
  proof -
    have "key y \<le> key ?m" using that(1) q(4) m_in by auto
    moreover have "key ?m \<le> key z"
    proof (cases "z = x")
      case False
      then have "z \<in># elements q" using that(2) by (subst split) simp
      then show ?thesis by (rule pop_least [OF q(1)])
    qed (use assms(4) in simp)
    ultimately show ?thesis by (rule order_trans)
  qed
  moreover have "add_mset x P = add_mset x (elements ?q) + add_mset ?m R"
    unfolding q(3) by (subst split) simp
  moreover have "size (elements q) = Suc (size (elements ?q))"
    by (subst split) simp
  ultimately show ?thesis
    using q(2) assms(3) push_ok [OF ok] unfolding largest_def new by (intro conjI exI [of _ "add_mset ?m R"]) auto
qed

lemma largest_skip:
  assumes "largest n P q" and "elements q \<noteq> {#}" and "n \<le> size (elements q)"
    and "key x \<le> key (fst (pop q))"
  shows "largest n (add_mset x P) q"
proof -
  obtain R where q: "ok q" "size (elements q) = min n (size P)" "P = elements q + R"
    "\<forall>x \<in># R. \<forall>y \<in># elements q. key x \<le> key y"
    using assms(1) by (rule largestE)
  have "key y \<le> key z" if "y \<in># add_mset x R" "z \<in># elements q" for y z
    using that q(4) order_trans [OF assms(4) pop_least [OF q(1) that(2)]] by auto
  moreover have "add_mset x P = elements q + add_mset x R" by (simp add: q(3))
  ultimately show ?thesis
    using q(1,2) assms(3) unfolding largest_def by (intro conjI exI [of _ "add_mset x R"]) auto
qed

end

subsection \<open>The heap\<close>

abbreviation total_at :: "min_heap \<Rightarrow> nat \<Rightarrow> u64" where
  "total_at h k \<equiv> CA_TotalSize (h ! k)"

definition heap_upto :: "min_heap \<Rightarrow> nat \<Rightarrow> bool" where
  "heap_upto h n \<longleftrightarrow> (\<forall>k. 0 < k \<and> k < n \<longrightarrow> total_at h ((k - 1) div 2) \<le> total_at h k)"

lemma parent_iff: "0 < k \<Longrightarrow> (k - 1) div 2 = i \<longleftrightarrow> k = 2 * i + 1 \<or> k = 2 * i + (2 :: nat)"
  by presburger

lemma parent_lt: "0 < k \<Longrightarrow> (k - 1) div 2 < (k :: nat)"
  by presburger

lemma Swap_simps [simp]:
  "length (Swap h i j) = length h"
  "i < length h \<Longrightarrow> j < length h \<Longrightarrow> mset (Swap h i j) = mset h"
  using mset_swap [of j h i] by (simp_all add: Swap_def)

lemma nth_Swap:
  "i < length h \<Longrightarrow> j < length h \<Longrightarrow>
     Swap h i j ! k = (if k = i then h ! j else if k = j then h ! i else h ! k)"
  by (auto simp: Swap_def nth_list_update)

text \<open>Sifting up: only the element at \<open>j\<close> may be smaller than its parent.\<close>

lemma heap_up_ok:
  assumes "j < length h"
    and "\<And>k. 0 < k \<Longrightarrow> k < length h \<Longrightarrow> k \<noteq> j \<Longrightarrow> total_at h ((k - 1) div 2) \<le> total_at h k"
    and "\<And>k. 0 < k \<Longrightarrow> k < length h \<Longrightarrow> (k - 1) div 2 = j \<Longrightarrow> 0 < j \<Longrightarrow>
           total_at h ((j - 1) div 2) \<le> total_at h k"
  shows "length (heap_up h j) = length h \<and> mset (heap_up h j) = mset h \<and>
         heap_upto (heap_up h j) (length h)"
  using assms
proof (induction h j rule: heap_up.induct)
  case (1 h j)
  define i where "i = (j - 1) div 2"
  show ?case
  proof (cases "i = j \<or> \<not> Less h j i")
    case True
    then have "heap_up h j = h" by (subst heap_up.simps) (simp add: i_def)
    moreover have "total_at h i \<le> total_at h j"
      using True by (auto simp: Less_def)
    then have "total_at h ((k - 1) div 2) \<le> total_at h k" if "0 < k" "k < length h" for k
      using "1.prems"(2) [OF that] by (cases "k = j") (simp_all add: i_def)
    ultimately show ?thesis
      by (simp add: heap_upto_def)
  next
    case False
    then have ij: "i < j" using parent_less [of j] by (simp add: i_def)
    have less: "total_at h j < total_at h i" using False by (simp add: Less_def)
    have len: "i < length h" "j < length h" using ij "1.prems"(1) by simp_all
    let ?h = "Swap h i j"
    have par_i: "0 < i \<Longrightarrow> (i - 1) div 2 < i" by (rule parent_lt)
    have up: "0 < i \<Longrightarrow> total_at h ((i - 1) div 2) \<le> total_at h i"
      using "1.prems"(2) [of i] len ij by simp
    have "length (heap_up ?h i) = length ?h \<and> mset (heap_up ?h i) = mset ?h \<and>
        heap_upto (heap_up ?h i) (length ?h)"
    proof (rule "1.IH" [OF i_def False])
      show "i < length ?h" using len by simp
      show "total_at ?h ((k - 1) div 2) \<le> total_at ?h k"
        if "0 < k" "k < length ?h" "k \<noteq> i" for k
      proof (cases "k = j")
        case True
        then have "(k - 1) div 2 = i" by (simp add: i_def)
        then show ?thesis using True len ij less by (simp only: nth_Swap) simp
      next
        case False
        have "total_at h ((k - 1) div 2) \<le> total_at h k"
          using "1.prems"(2) [of k] that False by simp
        moreover have "(k - 1) div 2 = j \<Longrightarrow> total_at h i \<le> total_at h k"
          using "1.prems"(3) [of k] that ij by (simp add: i_def)
        ultimately show ?thesis
          using that False len less by (auto simp: nth_Swap)
      qed
      show "total_at ?h ((i - 1) div 2) \<le> total_at ?h k"
        if "0 < k" "k < length ?h" "(k - 1) div 2 = i" "0 < i" for k
      proof (cases "k = j")
        case True
        then show ?thesis using len up par_i that(4) ij by (simp add: nth_Swap)
      next
        case False
        have "total_at h i \<le> total_at h k"
          using "1.prems"(2) [of k] that False by simp
        then have "total_at h ((i - 1) div 2) \<le> total_at h k"
          using up that(4) by simp
        moreover have "k \<noteq> i" using that(3,4) par_i by auto
        ultimately show ?thesis using False len par_i that(4) ij by (simp add: nth_Swap)
      qed
    qed
    moreover have "heap_up h j = heap_up ?h i"
      using False by (subst heap_up.simps) (simp add: i_def Let_def)
    ultimately show ?thesis using len by simp
  qed
qed

text \<open>Sifting down: only the element at \<open>i\<close> may be larger than its children.\<close>

lemma heap_down_ok:
  assumes "i < n" and "n \<le> length h"
    and "\<And>k. 0 < k \<Longrightarrow> k < n \<Longrightarrow> (k - 1) div 2 \<noteq> i \<Longrightarrow> total_at h ((k - 1) div 2) \<le> total_at h k"
    and "\<And>k. 0 < k \<Longrightarrow> k < n \<Longrightarrow> (k - 1) div 2 = i \<Longrightarrow> 0 < i \<Longrightarrow>
           total_at h ((i - 1) div 2) \<le> total_at h k"
  shows "length (heap_down h i n) = length h \<and> mset (heap_down h i n) = mset h \<and>
         heap_upto (heap_down h i n) n \<and> (\<forall>k \<ge> n. heap_down h i n ! k = h ! k)"
  using assms
proof (induction h i n rule: heap_down.induct)
  case (1 h i n)
  define j where "j = (if 2 * i + 1 + 1 < n \<and> Less h (2 * i + 1 + 1) (2 * i + 1)
                       then 2 * i + 1 + 1 else 2 * i + 1)"
  show ?case
  proof (cases "n \<le> 2 * i + 1")
    case True
    then have "(k - 1) div 2 \<noteq> i" if "0 < k" "k < n" for k
      using that by (simp only: parent_iff) linarith
    moreover have "heap_down h i n = h" using True by (subst heap_down.simps) simp
    ultimately show ?thesis using "1.prems"(3) by (simp add: heap_upto_def)
  next
    case False
    have step: "heap_down h i n = (if \<not> Less h j i then h else heap_down (Swap h i j) j n)"
      unfolding heap_down.simps [of h i n] Let_def j_def using False by (simp only: if_False)
    have j: "i < j" "j < n" "(j - 1) div 2 = i" "0 < j"
      using False by (auto simp: j_def)
    have least: "total_at h j \<le> total_at h k" if "0 < k" "k < n" "(k - 1) div 2 = i" for k
    proof -
      have "k = 2 * i + 1 \<or> k = 2 * i + 1 + 1"
        using parent_iff [OF that(1), of i] that(3) by simp
      then show ?thesis
        using that(2) by (elim disjE) (auto simp: j_def Less_def not_less intro: less_imp_le)
    qed
    have len: "i < length h" "j < length h" using j "1.prems"(2) by simp_all
    show ?thesis
    proof (cases "Less h j i")
      case stop: False
      then have "heap_down h i n = h"
        by (simp add: step)
      moreover have "total_at h i \<le> total_at h j" using stop by (simp add: Less_def)
      then have "total_at h ((k - 1) div 2) \<le> total_at h k" if "0 < k" "k < n" for k
        using "1.prems"(3) [OF that] least [OF that] by (cases "(k - 1) div 2 = i") auto
      ultimately show ?thesis by (simp add: heap_upto_def)
    next
      case less: True
      let ?h = "Swap h i j"
      have lt: "total_at h j < total_at h i" using less by (simp add: Less_def)
      have "length (heap_down ?h j n) = length ?h \<and> mset (heap_down ?h j n) = mset ?h \<and>
          heap_upto (heap_down ?h j n) n \<and> (\<forall>k \<ge> n. heap_down ?h j n ! k = ?h ! k)"
      proof (rule "1.IH" [OF refl False])
        show "j = (if 2 * i + 1 + 1 < n \<and> Less h (2 * i + 1 + 1) (2 * i + 1)
                   then 2 * i + 1 + 1 else 2 * i + 1)" by (fact j_def)
        show "\<not> \<not> Less h j i" using less by simp
        show "j < n" by (fact j(2))
        show "n \<le> length ?h" using "1.prems"(2) by simp
        show "total_at ?h ((k - 1) div 2) \<le> total_at ?h k"
          if k: "0 < k" "k < n" "(k - 1) div 2 \<noteq> j" for k
        proof (cases "(k - 1) div 2 = i")
          case True
          then have "k \<noteq> i" using parent_lt [OF k(1)] by simp
          then show ?thesis
            using True len lt j(1) least [OF k(1,2) True] by (auto simp: nth_Swap)
        next
          case other: False
          then have "k \<noteq> j" using j(3) by auto
          have "total_at h ((k - 1) div 2) \<le> total_at h k"
            using "1.prems"(3) [OF k(1,2) other] .
          moreover have "total_at h ((i - 1) div 2) \<le> total_at h j" if "0 < i"
            using "1.prems"(4) [OF j(4,2,3) that] .
          ultimately show ?thesis
            using k other \<open>k \<noteq> j\<close> len by (cases "k = i") (simp_all add: nth_Swap)
        qed
        show "total_at ?h ((j - 1) div 2) \<le> total_at ?h k"
          if k: "0 < k" "k < n" "(k - 1) div 2 = j" "0 < j" for k
        proof -
          have "total_at h j \<le> total_at h k"
            using "1.prems"(3) [OF k(1,2)] k(3) j(1) by simp
          moreover have "k \<noteq> i" "k \<noteq> j" using parent_lt [OF k(1)] k(3) j(1) by auto
          ultimately show ?thesis using len j(3) by (simp add: nth_Swap)
        qed
      qed
      moreover have "heap_down h i n = heap_down ?h j n"
        using less by (simp add: step)
      moreover have "?h ! k = h ! k" if "n \<le> k" for k
        using that j len by (simp add: nth_Swap)
      ultimately show ?thesis using len by simp
    qed
  qed
qed

lemma heap_Push_ok:
  assumes "heap_upto h (length h)"
  shows "heap_upto (heap_Push h x) (length (heap_Push h x)) \<and> mset (heap_Push h x) = add_mset x (mset h)"
proof -
  let ?h = "h @ [x]"
  have "length (heap_up ?h (length h)) = length ?h \<and> mset (heap_up ?h (length h)) = mset ?h \<and>
      heap_upto (heap_up ?h (length h)) (length ?h)"
  proof (rule heap_up_ok)
    show "total_at ?h ((k - 1) div 2) \<le> total_at ?h k"
      if "0 < k" "k < length ?h" "k \<noteq> length h" for k
      using that assms parent_lt [OF that(1)] by (auto simp: heap_upto_def nth_append)
    show "total_at ?h ((length h - 1) div 2) \<le> total_at ?h k"
      if "0 < k" "k < length ?h" "(k - 1) div 2 = length h" for k
      using that parent_lt [OF that(1)] by simp
  qed simp
  then show ?thesis by (simp add: heap_Push_def)
qed

lemma heap_root_least:
  assumes "heap_upto h n" and "k < n"
  shows "total_at h 0 \<le> total_at h k"
  using assms(2)
proof (induction k rule: less_induct)
  case (less k)
  show ?case
  proof (cases "k = 0")
    case False
    then have "total_at h 0 \<le> total_at h ((k - 1) div 2)"
      using less parent_lt [of k] by (meson less_trans neq0_conv)
    also have "\<dots> \<le> total_at h k"
      using assms(1) less.prems False by (simp add: heap_upto_def)
    finally show ?thesis .
  qed simp
qed

lemma heap_Pop_ok:
  assumes "heap_upto h (length h)" and "h \<noteq> []"
  shows "fst (heap_Pop h) = h ! 0"
    and "heap_upto (snd (heap_Pop h)) (length (snd (heap_Pop h)))"
    and "mset h = add_mset (h ! 0) (mset (snd (heap_Pop h)))"
proof -
  define n where "n = length h - 1"
  let ?h = "Swap h 0 n"
  let ?d = "heap_down ?h 0 n"
  have len: "0 < length h" "n < length h" using assms(2) by (simp_all add: n_def)
  have down: "length ?d = length h \<and> mset ?d = mset h \<and> heap_upto ?d n \<and> (\<forall>k \<ge> n. ?d ! k = ?h ! k)"
  proof (cases "n = 0")
    case True
    then show ?thesis using len by (subst (1 2 3 4) heap_down.simps) (simp add: heap_upto_def)
  next
    case False
    have "length ?d = length ?h \<and> mset ?d = mset ?h \<and> heap_upto ?d n \<and> (\<forall>k \<ge> n. ?d ! k = ?h ! k)"
    proof (rule heap_down_ok)
      show "0 < n" "n \<le> length ?h" using False len by simp_all
      show "total_at ?h ((k - 1) div 2) \<le> total_at ?h k"
        if "0 < k" "k < n" "(k - 1) div 2 \<noteq> 0" for k
      proof -
        have "k \<noteq> n" "(k - 1) div 2 \<noteq> n" using that parent_lt [OF that(1)] by simp_all
        then show ?thesis using assms(1) that len by (simp add: nth_Swap heap_upto_def)
      qed
    qed simp
    then show ?thesis using len by simp
  qed
  have pop: "heap_Pop h = (?d ! n, take n ?d)" by (simp add: heap_Pop_def n_def Let_def)
  have last: "?d ! n = h ! 0" using down len by (cases "n = 0") (simp_all add: nth_Swap)
  show "fst (heap_Pop h) = h ! 0" by (simp add: pop last)
  have dlen: "length ?d = Suc n" using down len by (simp add: n_def)
  show "heap_upto (snd (heap_Pop h)) (length (snd (heap_Pop h)))"
    using down parent_lt dlen by (auto simp: pop heap_upto_def)
  have "?d = take n ?d @ [?d ! n]"
    using dlen by (metis lessI order_refl take_Suc_conv_app_nth take_all)
  then have "mset ?d = add_mset (?d ! n) (mset (take n ?d))"
    by (metis mset.simps mset_append add_mset_add_single mset_single_iff)
  then show "mset h = add_mset (h ! 0) (mset (snd (heap_Pop h)))"
    using down by (simp add: pop last)
qed

interpretation go_heap: min_queue heap_Push heap_Pop mset "\<lambda>h. heap_upto h (length h)" CA_TotalSize
proof unfold_locales
  fix h :: min_heap and x y
  assume ok: "heap_upto h (length h)"
  show "heap_upto (heap_Push h x) (length (heap_Push h x))" "mset (heap_Push h x) = add_mset x (mset h)"
    using heap_Push_ok [OF ok] by simp_all
  show "heap_upto (snd (heap_Pop h)) (length (snd (heap_Pop h)))" if "mset h \<noteq> {#}"
    using heap_Pop_ok(2) [OF ok] that by simp
  show "mset h = add_mset (fst (heap_Pop h)) (mset (snd (heap_Pop h)))" if "mset h \<noteq> {#}"
    using heap_Pop_ok(1,3) [OF ok] that by simp
  show "CA_TotalSize (fst (heap_Pop h)) \<le> CA_TotalSize y" if y: "y \<in># mset h"
  proof -
    obtain k where "k < length h" "y = h ! k" using y by (auto simp: in_set_conv_nth)
    moreover have "h \<noteq> []" using y by auto
    ultimately show ?thesis
      using heap_root_least [OF ok] heap_Pop_ok(1) [OF ok] by simp
  qed
qed

subsection \<open>The selection\<close>

definition positive :: "CombinedAllocInfo list \<Rightarrow> CombinedAllocInfo multiset" where
  "positive xs = filter_mset (\<lambda>x. 0 < CA_TotalSize x) (mset xs)"

lemma offer_largest:
  assumes "go_heap.largest (nat n) P h" and "0 < n"
  shows "\<exists>h'. offer n h x = Inr h' \<and>
           go_heap.largest (nat n) (if 0 < CA_TotalSize x then add_mset x P else P) h'"
proof (cases "0 < CA_TotalSize x \<and> \<not> int (length h) < n")
  case True
  then have h: "h \<noteq> []" "nat n \<le> size (mset h)" "0 < CA_TotalSize x" using assms(2) by auto
  have "fst (heap_Pop h) = h ! 0"
    using assms(1) h(1) unfolding go_heap.largest_def by (blast intro: heap_Pop_ok(1))
  then show ?thesis
    using True h go_heap.largest_replace [OF assms(1), of x] go_heap.largest_skip [OF assms(1), of x]
    by (auto simp: offer_def split_beta not_less)
next
  case False
  then show ?thesis
    using assms go_heap.largest_push [OF assms(1), of x] by (auto simp: offer_def)
qed

lemma collect_largest:
  assumes "go_heap.largest (nat n) P h" and "0 < n"
  shows "\<exists>h'. collect n h xs = Inr h' \<and> go_heap.largest (nat n) (P + positive xs) h'"
  using assms(1)
proof (induction xs arbitrary: P h)
  case Nil
  then show ?case by (simp add: positive_def)
next
  case (Cons x xs)
  obtain h' where "offer n h x = Inr h'"
    "go_heap.largest (nat n) (if 0 < CA_TotalSize x then add_mset x P else P) h'"
    using offer_largest [OF Cons.prems assms(2)] by blast
  with Cons.IH [OF this(2)] show ?case by (auto simp: positive_def split: if_splits)
qed

lemma drain_sorted:
  assumes "heap_upto h (length h)" and "i = length h"
    and "sorted (rev (map CA_TotalSize ts))"
    and "\<And>x y. x \<in> set h \<Longrightarrow> y \<in> set ts \<Longrightarrow> CA_TotalSize y \<le> CA_TotalSize x"
  shows "mset (drain i h ts) = mset h + mset ts \<and> sorted (rev (map CA_TotalSize (drain i h ts)))"
  using assms
proof (induction i h ts rule: drain.induct)
  case (2 i h ts)
  let ?x = "fst (heap_Pop h)" and ?h = "snd (heap_Pop h)"
  have ne: "mset h \<noteq> {#}" using "2.prems"(2) by auto
  note split = go_heap.pop_elements [OF "2.prems"(1) ne]
  have least: "CA_TotalSize ?x \<le> CA_TotalSize y" if "y \<in> set h" for y
    using that by (intro go_heap.pop_least [OF "2.prems"(1)]) simp
  have sets: "?x \<in> set h" "set ?h \<subseteq> set h"
    using split by (metis set_mset_mset union_single_eq_member, metis set_mset_mset set_mset_add_mset_insert subset_insertI)
  have "mset (drain i ?h (?x # ts)) = mset ?h + mset (?x # ts) \<and>
      sorted (rev (map CA_TotalSize (drain i ?h (?x # ts))))"
  proof (rule "2.IH" [OF refl prod.collapse])
    show "heap_upto ?h (length ?h)" using go_heap.pop_ok [OF "2.prems"(1) ne] .
    show "i = length ?h" using split "2.prems"(2) by (metis add_left_cancel plus_1_eq_Suc size_add_mset size_mset)
    show "sorted (rev (map CA_TotalSize (?x # ts)))"
      using "2.prems"(3,4) sets(1) by (auto simp: sorted_append)
    show "CA_TotalSize y \<le> CA_TotalSize z" if "z \<in> set ?h" "y \<in> set (?x # ts)" for y z
      using that least sets "2.prems"(4) by auto
  qed
  then show ?case using split by (simp add: split_beta)
qed simp

lemma selected_largest:
  assumes "0 < n"
  shows "\<exists>ts R. topStacks n es = Inr ts \<and>
           mset ts + R = filter_mset (\<lambda>x. 0 < CA_TotalSize x) (mset (decode_entries es)) \<and>
           length ts = min (nat n) (size (mset ts + R)) \<and>
           (\<forall>x \<in># R. \<forall>y \<in> set ts. CA_TotalSize x \<le> CA_TotalSize y) \<and>
           sorted (rev (map CA_TotalSize ts))"
proof -
  have "go_heap.largest (nat n) {#} []"
    unfolding go_heap.largest_def by (simp add: heap_upto_def)
  from collect_largest [OF this assms] obtain h where
    h: "collect n [] (decode_entries es) = Inr h" "go_heap.largest (nat n) (positive (decode_entries es)) h"
    by auto
  from h(2) obtain R where R: "heap_upto h (length h)"
    "size (mset h) = min (nat n) (size (positive (decode_entries es)))"
    "positive (decode_entries es) = mset h + R"
    "\<forall>x \<in># R. \<forall>y \<in># mset h. CA_TotalSize x \<le> CA_TotalSize y"
    by (rule go_heap.largestE)
  let ?ts = "drain (length h) h []"
  have ts: "mset ?ts = mset h" "sorted (rev (map CA_TotalSize ?ts))"
    using drain_sorted [OF R(1) refl, of "[]"] by simp_all
  have "length ?ts = length h" "set ?ts = set h"
    using ts(1) by (metis size_mset, metis set_mset_mset)
  moreover have "topStacks n es = Inr ?ts" by (simp add: topStacks_def h(1))
  moreover have "mset ?ts + R = positive (decode_entries es)" using R(3) ts(1) by (simp only:)
  moreover from this have "length ?ts = min (nat n) (size (mset ?ts + R))"
    using R(2) ts(1) by (metis size_mset)
  moreover have "\<forall>x \<in># R. \<forall>y \<in> set ?ts. CA_TotalSize x \<le> CA_TotalSize y"
    using R(4) ts(1) by (metis set_mset_mset)
  ultimately show ?thesis
    using ts(2) unfolding positive_def by blast
qed

text \<open>C38: With a positive limit the report selects, among the entries with a nonzero total, as many as
  the limit allows, none of the others having a larger total than any selected one, and lists
  them by descending total.\<close>

theorem top_stacks_largest:
  assumes "0 < n"
  shows "\<exists>ts R. topStacks n es = Inr ts \<and>
           mset ts + R = filter_mset (\<lambda>x. 0 < CA_TotalSize x) (mset (decode_entries es)) \<and>
           length ts = min (nat n) (size (mset ts + R)) \<and>
           (\<forall>x \<in># R. \<forall>y \<in> set ts. CA_TotalSize x \<le> CA_TotalSize y) \<and>
           sorted (rev (map CA_TotalSize ts))"
  using selected_largest [OF assms] .

theorem top_stacks_largest_witness:
  "\<exists>ts. topStacks 2 [(5, combined_bytes (combined_of_info 64 1)), (6, combined_bytes 0),
                      (7, combined_bytes (combined_of_info 96 2)),
                      (8, combined_bytes (combined_of_info 32 1))] = Inr ts \<and> length ts = 2"
proof -
  let ?es = "[(5, combined_bytes (combined_of_info 64 1)), (6, combined_bytes 0),
              (7, combined_bytes (combined_of_info 96 2)), (8, combined_bytes (combined_of_info 32 1))]"
  have totals: "total_size (combined_of_info 64 1) = 64" "total_size (combined_of_info 96 2) = 96"
    "total_size (combined_of_info 32 1) = 32" "total_size 0 = 0"
    by (simp_all add: total_size_def combined_of_info_def)
  obtain ts R where ts: "topStacks 2 ?es = Inr ts"
    "mset ts + R = filter_mset (\<lambda>x. 0 < CA_TotalSize x) (mset (decode_entries ?es))"
    "length ts = min (nat 2) (size (mset ts + R))"
    using top_stacks_largest [of 2 ?es] by (metis zero_less_numeral)
  have "size (mset ts + R) = 3"
    unfolding ts(2) by (simp add: decode_entries_def decoded_fields totals)
  with ts(1,3) show ?thesis by auto
qed

lemma collect_no_limit:
  "n \<le> 0 \<Longrightarrow> collect n [] xs = (if positive xs = {#} then Inr [] else Inl Index_out_of_range)"
  by (induction xs) (auto simp: offer_def positive_def)

text \<open>C39: With a limit of zero (or less) the report panics, indexing an empty heap, as soon as there is
  an entry with a nonzero total.\<close>

theorem no_limit_panics:
  assumes "n \<le> 0"
  shows "topStacks n es =
           (if \<exists>x \<in> set (decode_entries es). 0 < CA_TotalSize x
            then Inl Index_out_of_range else Inr [])"
  using collect_no_limit [OF assms, of "decode_entries es"]
  by (auto simp: topStacks_def positive_def filter_mset_eq_mempty_iff)

theorem no_limit_panics_witness:
  "topStacks 0 [(5, combined_bytes (combined_of_info 64 1))] = Inl Index_out_of_range"
proof -
  have "total_size (combined_of_info 64 1) = 64" by (simp add: total_size_def combined_of_info_def)
  then show ?thesis
    using no_limit_panics [of 0 "[(5, combined_bytes (combined_of_info 64 1))]"]
    by (simp add: decode_entries_def decoded_fields)
qed

end
