(* ===== verification/Report.thy ===== *)
theory Report
  imports StackTraces TopStacks
begin

text \<open>
  The report of \<open>internal/probe/probe.go\<close>: the functions that turn a stack id into lines, one round
  of the loop in \<open>Run\<close>, the loop itself and \<open>Close\<close>. What the process reads in a round, and what
  the system answers, are parameters: the entries of the two maps, the map of stacks, the files
  of \<open>/proc\<close>, the clock, whether the traced process lives.
\<close>

subsection \<open>The frames of a stack\<close>

datatype trace_error = Lookup_failed | Resolver_failed | Open_failed

text \<open>\<open>uname\<close> is the output of \<open>uname -r\<close>, if the command works; \<open>stat\<close> tells which files exist.\<close>

definition findVmlinux :: "string option \<Rightarrow> (string \<Rightarrow> bool) \<Rightarrow> string" where
  "findVmlinux uname stat =
     (case uname of
        None \<Rightarrow> ''''
      | Some output \<Rightarrow>
          (let kernelVersion = TrimSpace output;
               paths = [''/usr/lib/debug/boot/vmlinux-'' @ kernelVersion,
                        ''/usr/lib/debug/lib/modules/'' @ kernelVersion @ ''/vmlinux'',
                        ''/lib/modules/'' @ kernelVersion @ ''/build/vmlinux'',
                        ''/boot/vmlinux-'' @ kernelVersion]
           in case find stat paths of None \<Rightarrow> '''' | Some path \<Rightarrow> path))"

record system =
  sys_uname :: "string option"
  sys_stat :: "string \<Rightarrow> bool"
  sys_kallsyms :: "string list option"
  sys_maps :: "string list option"
  sys_maps_again :: bool
  sys_elf :: elf_reader
  sys_addr2line :: "string \<Rightarrow> u64 \<Rightarrow> string option"
  sys_filt :: "string \<Rightarrow> string option"

text \<open>\<open>NewKernelSymbolResolver\<close> drops a path that does not exist.\<close>

definition kernel_resolver :: "system \<Rightarrow> (u64 \<Rightarrow> sym_error + string) option" where
  "kernel_resolver Y =
     (let vmlinuxPath = findVmlinux (sys_uname Y) (sys_stat Y)
      in case sys_kallsyms Y of
           None \<Rightarrow> None
         | Some ls \<Rightarrow>
             Some (KernelResolve (sys_addr2line Y) (LoadKernelSymbolsFromKallsyms ls)
               (if vmlinuxPath \<noteq> '''' \<and> \<not> sys_stat Y vmlinuxPath then '''' else vmlinuxPath)))"

definition getKernelspaceStackTrace ::
    "system \<Rightarrow> u32 \<Rightarrow> (u32 \<Rightarrow> u64 list option) \<Rightarrow> trace_error + string list" where
  "getKernelspaceStackTrace Y stackId stackTracesMap =
     (case stackTracesMap stackId of
        None \<Rightarrow> Inl Lookup_failed
      | Some stackTrace \<Rightarrow>
          (case kernel_resolver Y of
             None \<Rightarrow> Inl Resolver_failed
           | Some resolve \<Rightarrow> Inr (stack_frames resolve stackTrace)))"

definition user_resolver :: "system \<Rightarrow> (u64 \<Rightarrow> sym_error + string) option" where
  "user_resolver Y =
     (case sys_maps Y of
        None \<Rightarrow> None
      | Some ls \<Rightarrow>
          Some (Resolve (sys_addr2line Y) (sys_filt Y) (NewUserspaceSymbolResolver (sys_elf Y) ls)))"

text \<open>The maps file is opened a second time, after the resolver has read it.\<close>

definition getUserspaceStackTrace ::
    "system \<Rightarrow> u32 \<Rightarrow> (u32 \<Rightarrow> u64 list option) \<Rightarrow> trace_error + string list" where
  "getUserspaceStackTrace Y stackId stackTracesMap =
     (case stackTracesMap stackId of
        None \<Rightarrow> Inl Lookup_failed
      | Some stackTrace \<Rightarrow>
          (case user_resolver Y of
             None \<Rightarrow> Inl Resolver_failed
           | Some resolve \<Rightarrow>
               if \<not> sys_maps_again Y then Inl Open_failed
               else Inr (stack_frames resolve stackTrace)))"

subsection \<open>One round of the loop\<close>

text \<open>What goes to standard output and what to the log.\<close>

datatype out_line = Out string | Log_iterator_error | Log_no_trace u32 trace_error | Log_exited i64

record snapshot =
  sn_system :: system
  sn_combined :: "(u64 \<times> u8 list) list"
  sn_iter_error :: bool
  sn_allocs :: "(u64 \<times> AllocInfoRaw) list"
  sn_stacks :: "u32 \<Rightarrow> u64 list option"
  sn_now :: string

text \<open>The blocks of the selected stacks; a stack that is not selected has no entry.\<close>

fun join_allocs :: "(u32 \<rightharpoonup> AllocInfo list) \<Rightarrow> (u64 \<times> AllocInfoRaw) list \<Rightarrow> (u32 \<rightharpoonup> AllocInfo list)" where
  "join_allocs allocs' [] = allocs'"
| "join_allocs allocs' ((allocKey, raw) # rest) =
     join_allocs
       (case allocs' (raw_StackId raw) of
          None \<Rightarrow> allocs'
        | Some as \<Rightarrow> allocs'(raw_StackId raw \<mapsto> as @ [GetAllocInfo allocKey raw])) rest"

definition allocs_of_stacks ::
    "CombinedAllocInfo list \<Rightarrow> (u64 \<times> AllocInfoRaw) list \<Rightarrow> (u32 \<rightharpoonup> AllocInfo list)" where
  "allocs_of_stacks ts raws = join_allocs (map_of (map (\<lambda>t. (CA_StackId t, [])) ts)) raws"

text \<open>Every selected stack gets exactly its own blocks.\<close>

lemma join_allocs_blocks:
  "join_allocs m raws sid =
     map_option (\<lambda>as. as @ map (\<lambda>(k, r). GetAllocInfo k r)
                            (filter (\<lambda>(k, r). raw_StackId r = sid) raws)) (m sid)"
proof (induction raws arbitrary: m)
  case (Cons x rest)
  obtain k r where "x = (k, r)" by fastforce
  then show ?case by (simp add: Cons.IH split: option.split)
qed (simp add: option.map_ident)

lemma allocs_of_stacks_blocks:
  "allocs_of_stacks ts raws sid =
     (if sid \<in> CA_StackId ` set ts
      then Some (map (\<lambda>(k, r). GetAllocInfo k r) (filter (\<lambda>(k, r). raw_StackId r = sid) raws))
      else None)"
proof -
  have "map_of (map (\<lambda>t. (CA_StackId t, [] :: AllocInfo list)) ts) sid =
      (if sid \<in> CA_StackId ` set ts then Some [] else None)"
    by (induction ts) auto
  then show ?thesis by (simp add: allocs_of_stacks_def join_allocs_blocks)
qed

definition frame_lines :: "i64 \<Rightarrow> snapshot \<Rightarrow> u32 \<Rightarrow> out_line list" where
  "frame_lines pid sn stackId =
     (case (if 0 <s pid then getUserspaceStackTrace (sn_system sn) stackId (sn_stacks sn)
            else getKernelspaceStackTrace (sn_system sn) stackId (sn_stacks sn)) of
        Inl err \<Rightarrow> [Log_no_trace stackId err]
      | Inr stackFrames \<Rightarrow> map (\<lambda>frame. Out (''    '' @ frame)) stackFrames)"

definition stack_lines :: "i64 \<Rightarrow> snapshot \<Rightarrow> CombinedAllocInfo \<Rightarrow> out_line list" where
  "stack_lines pid sn stackInfo =
     Out (digits (unat (CA_TotalSize stackInfo)) @ '' Bytes in '' @
          digits (unat (CA_NumberOfAllocs stackInfo)) @ '' allocations from stack'') #
     frame_lines pid sn (CA_StackId stackInfo)"

text \<open>A round prints lines and ends, or panics.\<close>

definition report :: "i64 \<Rightarrow> int \<Rightarrow> snapshot \<Rightarrow> out_line list \<times> go_panic option" where
  "report pid nTopStacks sn =
     (let start = [Out ''=== Reading combined allocs map entries ===''];
          log = (if sn_iter_error sn then [Log_iterator_error] else [])
      in case topStacks nTopStacks (sn_combined sn) of
           Inl panic \<Rightarrow> (start, Some panic)
         | Inr ts \<Rightarrow>
             (start @ log @
              [Out (''['' @ sn_now sn @ ''] Top '' @ digits (length ts) @
                    '' stacks with outstanding allocations:'')] @
              concat (map (stack_lines pid sn) ts) @ [Out ''===========================''], None))"

subsection \<open>The loop\<close>

text \<open>The rounds so far, each with the answer to whether the process lives; the loop still runs, has
  ended, or the command has crashed.\<close>

datatype loop_end = Running | Ended | Crashed go_panic

fun run_loop :: "i64 \<Rightarrow> int \<Rightarrow> (bool \<times> snapshot) list \<Rightarrow> out_line list \<times> loop_end" where
  "run_loop pid nTopStacks [] = ([], Running)"
| "run_loop pid nTopStacks ((isProcessAlive, sn) # rounds) =
     (if 0 <s pid \<and> isProcessAlive \<or> pid = 0
      then case report pid nTopStacks sn of
             (ls, Some panic) \<Rightarrow> (ls, Crashed panic)
           | (ls, None) \<Rightarrow> (let (ls', e) = run_loop pid nTopStacks rounds in (ls @ ls', e))
      else (if 0 <s pid then [Log_exited pid] else [], Ended))"

subsection \<open>Closing the links\<close>

text \<open>The links start with 35 empty ones when a process is traced. Closing stops at the first failure:
  the links closed, and whether all went well.\<close>

definition links_of :: "i64 \<Rightarrow> string list \<Rightarrow> string option list" where
  "links_of pid attached = (if 0 <s pid then replicate 35 None else []) @ map Some attached"

fun Close :: "(string \<Rightarrow> bool) \<Rightarrow> string option list \<Rightarrow> string list \<times> bool" where
  "Close fails [] = ([], True)"
| "Close fails (None # ls) = Close fails ls"
| "Close fails (Some l # ls) =
     (if fails l then ([], False) else (let (closed, ok) = Close fails ls in (l # closed, ok)))"

lemma links_closed: "Close (\<lambda>_. False) (links_of pid attached) = (attached, True)"
proof -
  have "Close f (replicate n None @ ls) = Close f ls" for f n ls by (induction n) simp_all
  moreover have "Close (\<lambda>_. False) (map Some ls) = (ls, True)" for ls by (induction ls) simp_all
  ultimately show ?thesis by (simp add: links_of_def)
qed

subsection \<open>What is printed of a stack\<close>

definition resolver_of :: "i64 \<Rightarrow> system \<Rightarrow> (u64 \<Rightarrow> sym_error + string) option" where
  "resolver_of pid Y =
     (if 0 <s pid then (if sys_maps_again Y then user_resolver Y else None) else kernel_resolver Y)"

lemma stack_frames_value:
  "stack_frames resolve (stack_value stk) = stack_frames resolve (take MAX_STACK_DEPTH stk)"
  by (simp add: stack_frames_def stack_value_frames)

lemma stack_lines_known:
  assumes "resolver_of pid (sn_system sn) = Some resolve"
    and "sn_stacks sn (CA_StackId x) = Some v"
  shows "stack_lines pid sn x =
    Out (digits (unat (CA_TotalSize x)) @ '' Bytes in '' @ digits (unat (CA_NumberOfAllocs x)) @
         '' allocations from stack'') # map (\<lambda>frame. Out (''    '' @ frame)) (stack_frames resolve v)"
  using assms
  by (simp add: stack_lines_def frame_lines_def getUserspaceStackTrace_def getKernelspaceStackTrace_def
      resolver_of_def split: if_splits)

lemma stack_lines_unknown:
  assumes "sn_stacks sn (CA_StackId x) = None"
  shows "stack_lines pid sn x =
    [Out (digits (unat (CA_TotalSize x)) @ '' Bytes in '' @ digits (unat (CA_NumberOfAllocs x)) @
          '' allocations from stack''), Log_no_trace (CA_StackId x) Lookup_failed]"
  using assms by (simp add: stack_lines_def frame_lines_def getUserspaceStackTrace_def getKernelspaceStackTrace_def)

lemma entry_stack_id: "CA_StackId (GetCombinedAllocInfo (ucast (stack_key i)) raw) = ai_stack_id i"
  by (simp add: GetCombinedAllocInfo_def stack_key_def)

text \<open>C9: What the report prints under the totals of a stack are the symbols of the call stack of
  every block counted there: with any map of stacks that keeps its promises, after any run, a
  block with a stack id that is not an error was allocated from just the stack whose frames (the
  first 127) are printed for its statistics entry.\<close>

theorem report_shows_origin:
  assumes "bpf_stack_map S" and "memleak_kernel K" and "keeps_stacks (stack_flags cfg)"
    and "st_valid S m" and "maps_valid K s" and "contents_of K s = no_contents"
    and "traced_run S K cfg B es (m, s, Map.empty) = (m', t, og)"
    and "c_allocs (contents_of K t) a = Some i" and "0 \<le> sint (ai_stack_id i)"
    and "x = GetCombinedAllocInfo (ucast (stack_key i)) raw"
    and "sn_stacks sn = st_lookup S m'" and "resolver_of pid (sn_system sn) = Some resolve"
  shows "\<exists>stk. og a = Some stk \<and>
    tl (stack_lines pid sn x) =
      map (\<lambda>frame. Out (''    '' @ frame)) (stack_frames resolve (take MAX_STACK_DEPTH stk))"
proof -
  have "stacks_known S m' (contents_of K t) og"
    using bpf_stack_map.run_stacks_known [OF assms(1-5) _ assms(7)] assms(6)
    by (simp add: stacks_known_empty)
  with assms(8,9) obtain stk where "og a = Some stk"
    "st_lookup S m' (ai_stack_id i) = Some (stack_value stk)"
    unfolding stacks_known_def by blast
  moreover from this(2) have "sn_stacks sn (CA_StackId x) = Some (stack_value stk)"
    by (simp add: assms(10,11) entry_stack_id)
  ultimately show ?thesis
    using stack_lines_known [OF assms(12)] by (simp add: stack_frames_value)
qed

text \<open>Three blocks of 64 bytes: the stacks of the second and the third have the hash of the first's.\<close>

definition colliding_events :: "stack_event list" where
  "colliding_events =
     [((call 0 0, Malloc_enter 64), []), ((call 4096 0, Malloc_exit), [3]),
      ((call 0 0, Malloc_enter 64), []), ((call 8192 0, Malloc_exit), [1, 2]),
      ((call 0 0, Malloc_enter 64), []), ((call 12288 0, Malloc_exit), [2, 1])]"

definition block_with :: "i32 \<Rightarrow> alloc_info" where
  "block_with sid = \<lparr>ai_size = 64, ai_timestamp_ns = 200, ai_stack_id = sid\<rparr>"

lemma bucket_of_three:
  "bucket (stack_value [3]) = 3" "bucket (stack_value [1, 2]) = 3" "bucket (stack_value [2, 1]) = 3"
  by (simp_all add: bucket_def stack_value_def MAX_STACK_DEPTH_def sum_list_replicate)

lemma different_values:
  "stack_value [1, 2] \<noteq> stack_value [3]" "stack_value [2, 1] \<noteq> stack_value [3]"
  by (simp_all add: stack_value_def MAX_STACK_DEPTH_def)

lemma hashed_fields [simp]:
  "st_get hashed_stacks = hashed_get" "st_lookup hashed_stacks = (\<lambda>m. m)"
  "st_valid hashed_stacks m = (\<forall>k v. m k = Some v \<longrightarrow> uint k < 2 ^ 14)"
  by (simp_all add: hashed_stacks_def)

abbreviation tr_step where
  "tr_step \<equiv> spec_traced_step hashed_stacks default_config no_btf"

lemma enter_step:
  "tr_step ((call 0 0, Malloc_enter 64), []) (m, c, og) =
     (m, c\<lparr>c_sizes := bounded_upd sizes_max_entries (c_sizes c) 7 64\<rparr>, og)"
  by (simp add: spec_traced_step_def spec_program_def spec_enter_def alloc_admitted_def
      default_config_def Let_def)

lemma exit_step:
  assumes "c_sizes c 7 = Some n" and "a \<noteq> 0"
  shows "tr_step ((call a 0, Malloc_exit), stk) (m, c, og) =
     (let (id, m') = hashed_get m (stack_flags default_config) stk
      in (m', spec_record a \<lparr>ai_size = n, ai_timestamp_ns = 200, ai_stack_id = ucast id\<rparr>
                (c\<lparr>c_sizes := (c_sizes c)(7 := None)\<rparr>), og(a \<mapsto> stk)))"
  using assms
  by (simp add: spec_traced_step_def spec_program_def spec_exit_def exit_info_def Let_def
      split: prod.split)

lemma colliding_ids:
  "hashed_get Map.empty f [3] = (3, [3 \<mapsto> stack_value [3]])"
  "f AND BPF_F_FAST_STACK_CMP = 0 \<Longrightarrow> f AND BPF_F_REUSE_STACKID = 0 \<Longrightarrow>
     hashed_get [3 \<mapsto> stack_value [3]] f [1, 2] = (- EEXIST, [3 \<mapsto> stack_value [3]])"
  "f AND BPF_F_FAST_STACK_CMP = 0 \<Longrightarrow> f AND BPF_F_REUSE_STACKID = 0 \<Longrightarrow>
     hashed_get [3 \<mapsto> stack_value [3]] f [2, 1] = (- EEXIST, [3 \<mapsto> stack_value [3]])"
  using different_values
  by (simp_all add: hashed_get_def Let_def bucket_of_three)

lemma no_flags:
  "stack_flags default_config AND BPF_F_FAST_STACK_CMP = 0"
  "stack_flags default_config AND BPF_F_REUSE_STACKID = 0"
  by (simp_all add: default_config_def)

lemma error_as_id: "(18446744073709551599 :: i32) = - 17" "(18446744073709551599 :: u64) = - 17"
  by (transfer, simp)+

lemma colliding_spec:
  "fold tr_step colliding_events (Map.empty, no_contents, Map.empty) =
   ([3 \<mapsto> stack_value [3]],
    no_contents\<lparr>c_allocs := [4096 \<mapsto> block_with 3, 8192 \<mapsto> block_with (- 17), 12288 \<mapsto> block_with (- 17)],
      c_combined := [3 \<mapsto> combined_of_info 64 1, - 17 \<mapsto> combined_of_info 64 1 + combined_of_info 64 1]\<rparr>,
    [4096 \<mapsto> [3], 8192 \<mapsto> [1, 2], 12288 \<mapsto> [2, 1]])"
  by (simp add: colliding_events_def enter_step exit_step colliding_ids no_flags spec_record_def
      spec_credit_def stack_stats_def stack_key_def bounded_upd_def capacity_defs block_with_def
      no_contents_def EEXIST_def error_as_id)


definition colliding_run where
  "colliding_run =
     traced_run hashed_stacks slot_kernel default_config no_btf colliding_events
       (Map.empty, slot_init, Map.empty)"

lemma colliding_contents:
  assumes "colliding_run = (m, t, og)"
  shows "m = [3 \<mapsto> stack_value [3]]"
    and "c_allocs (contents_of slot_kernel t) =
      [4096 \<mapsto> block_with 3, 8192 \<mapsto> block_with (- 17), 12288 \<mapsto> block_with (- 17)]"
    and "og = [4096 \<mapsto> [3], 8192 \<mapsto> [1, 2], 12288 \<mapsto> [2, 1]]"
proof -
  have "traced_view slot_kernel colliding_run =
      fold tr_step colliding_events (traced_view slot_kernel (Map.empty, slot_init, Map.empty))"
    unfolding colliding_run_def traced_run_def
    by (rule slotk.stack_runs.run_view) (simp add: traced_valid_def slot_init_valid)
  then have "(m, contents_of slot_kernel t, og) =
      fold tr_step colliding_events (Map.empty, no_contents, Map.empty)"
    by (simp add: assms traced_view_def)
  note end_ = this [unfolded colliding_spec prod.inject]
  show "m = [3 \<mapsto> stack_value [3]]" and "og = [4096 \<mapsto> [3], 8192 \<mapsto> [1, 2], 12288 \<mapsto> [2, 1]]"
    using end_ by blast+
  show "c_allocs (contents_of slot_kernel t) =
      [4096 \<mapsto> block_with 3, 8192 \<mapsto> block_with (- 17), 12288 \<mapsto> block_with (- 17)]"
    using end_ by (simp del: contents_of_simps)
qed

definition demo_system :: system where
  "demo_system =
     \<lparr>sys_uname = None, sys_stat = (\<lambda>_. False), sys_kallsyms = Some [''1 T start''],
      sys_maps = None, sys_maps_again = False, sys_elf = (\<lambda>_. None),
      sys_addr2line = (\<lambda>_ _. None), sys_filt = (\<lambda>_. None)\<rparr>"

definition demo_snapshot :: "stack_table \<Rightarrow> snapshot" where
  "demo_snapshot m =
     \<lparr>sn_system = demo_system, sn_combined = [], sn_iter_error = False, sn_allocs = [],
      sn_stacks = m, sn_now = ''12:00:00''\<rparr>"

lemma demo_kallsyms: "LoadKernelSymbolsFromKallsyms [''1 T start''] = [(1, ''start'')]"
  by (simp add: LoadKernelSymbolsFromKallsyms_def kallsyms_line_def Fields_def is_space_def
      ParseUint_def hex_value_def)

lemma demo_resolver:
  "resolver_of 0 demo_system = Some (KernelResolve (\<lambda>_ _. None) [(1, ''start'')] '''')"
  by (simp add: resolver_of_def kernel_resolver_def demo_system_def findVmlinux_def demo_kallsyms)

lemma demo_frames:
  "stack_frames (KernelResolve (\<lambda>_ _. None) [(1, ''start'')] '''') [3] = [''0x3 start+0x2'']"
  by code_simp

lemmas demo_laws = hashed_stacks_ok slot_kernel_ok

theorem report_shows_origin_witness:
  "tl (stack_lines 0 (demo_snapshot (fst colliding_run))
        (GetCombinedAllocInfo (ucast (stack_key (block_with 3))) [])) = [Out ''    0x3 start+0x2'']"
proof -
  obtain m t og where run: "colliding_run = (m, t, og)" by (metis prod_cases3)
  note end_ = colliding_contents [OF run]
  have "\<exists>stk. og 4096 = Some stk \<and> tl (stack_lines 0 (demo_snapshot m)
      (GetCombinedAllocInfo (ucast (stack_key (block_with 3))) [])) =
    map (\<lambda>frame. Out (''    '' @ frame))
      (stack_frames (KernelResolve (\<lambda>_ _. None) [(1, ''start'')] '''') (take MAX_STACK_DEPTH stk))"
    by (rule report_shows_origin [OF demo_laws _ _ slot_init_valid _ run [unfolded colliding_run_def]])
      (simp_all add: end_ no_flags keeps_stacks_def block_with_def demo_snapshot_def demo_resolver
        del: contents_of_simps)
  then show ?thesis by (simp add: run end_ demo_frames MAX_STACK_DEPTH_def)
qed

text \<open>A malloc that succeeds, from a state without requests: what its two programs do to the contents.\<close>

context memleak_kernel
begin

lemmas traced_run_view = stack_runs.run_view [folded traced_run_def]

end

abbreviation malloc_pair :: "invocation \<Rightarrow> invocation \<Rightarrow> u64 \<Rightarrow> u64 list \<Rightarrow> stack_event list" where
  "malloc_pair I J n stk \<equiv> [((I, Malloc_enter n), []), ((J, Malloc_exit), stk)]"

definition block_of :: "u64 \<Rightarrow> u64 \<Rightarrow> i64 \<Rightarrow> alloc_info" where
  "block_of n now got = \<lparr>ai_size = n, ai_timestamp_ns = now, ai_stack_id = ucast got\<rparr>"

lemma malloc_pair_spec:
  assumes "alloc_admitted cfg I n" and "current_pid J = current_pid I" and "regs_rc J \<noteq> 0"
    and "c_sizes c = Map.empty"
  shows "fold (spec_traced_step S cfg B) (malloc_pair I J n stk) (m, c, og) =
    (snd (st_get S m (stack_flags cfg) stk),
     spec_record (regs_rc J) (block_of n (ktime_exit J) (fst (st_get S m (stack_flags cfg) stk))) c,
     og(regs_rc J \<mapsto> stk))"
proof -
  have "alloc_admitted cfg (with_stack S m [] I) n" using assms(1) by (simp add: with_stack_def)
  then have "fold (spec_traced_step S cfg B) (malloc_pair I J n stk) (m, c, og) =
      spec_traced_step S cfg B ((J, Malloc_exit), stk) (m, c\<lparr>c_sizes := [current_pid I \<mapsto> n]\<rparr>, og)"
    using assms(4) by (simp add: spec_traced_step_def spec_program_def spec_enter_def Let_def
        bounded_upd_def sizes_max_entries_def)
  moreover have "c\<lparr>c_sizes := Map.empty\<rparr> = c" using assms(4) by simp
  ultimately show ?thesis
    using assms(2,3) by (simp add: spec_traced_step_def spec_program_def spec_exit_def exit_info_def
        block_of_def Let_def)
qed

lemma report_of_entry:
  assumes "sn_stacks sn sid = None" and "sid = ucast key"
  shows "stack_lines pid sn (GetCombinedAllocInfo (ucast key) (combined_bytes ci)) =
    [Out (digits (unat (total_size ci)) @ '' Bytes in '' @ digits (unat (number_of_allocs ci)) @
       '' allocations from stack''), Log_no_trace sid Lookup_failed]"
  using assms stack_lines_unknown [of sn "GetCombinedAllocInfo sid (combined_bytes ci)" pid]
  by (simp add: decoded_fields unat_number_u32 unat_number_of_allocs)

lemma two_records:
  assumes "finite (dom (c_allocs c))" and "a \<noteq> b" and "c_allocs c a = None" and "c_allocs c b = None"
    and "card (dom (c_allocs c)) + 2 \<le> ALLOCS_MAX_ENTRIES"
    and "card (dom (c_combined c)) < COMBINED_ALLOCS_MAX_ENTRIES"
    and "stack_key i = key" and "stack_key j = key" and "d = spec_record b j (spec_record a i c)"
  shows "c_allocs d = (c_allocs c)(a \<mapsto> i, b \<mapsto> j)"
    and "c_combined d = (c_combined c)
      (key \<mapsto> stack_stats c key + combined_of_info (ai_size i) 1 + combined_of_info (ai_size j) 1)"
proof -
  have "c_allocs (spec_record a i c) = (c_allocs c)(a \<mapsto> i)"
    "card (dom ((c_allocs c)(a \<mapsto> i))) < ALLOCS_MAX_ENTRIES"
    using assms(1,3,5) by (simp_all add: spec_record_def spec_credit_def bounded_upd_def
        allocs_max_entries_def card_insert_if domIff)
  then show "c_allocs d = (c_allocs c)(a \<mapsto> i, b \<mapsto> j)"
    unfolding assms(9) by (simp add: spec_record_def spec_credit_def bounded_upd_def allocs_max_entries_def)
  have "c_combined (spec_record a i c) =
      (c_combined c)(key \<mapsto> stack_stats c key + combined_of_info (ai_size i) 1)"
    using assms(6) by (simp add: spec_record_combined bounded_upd_def combined_allocs_max_entries_def assms(7))
  then show "c_combined d = (c_combined c)
      (key \<mapsto> stack_stats c key + combined_of_info (ai_size i) 1 + combined_of_info (ai_size j) 1)"
    unfolding assms(9) by (simp add: spec_record_combined bounded_upd_def stack_stats_def assms(8))
qed

text \<open>C27: A \<open>bpf_get_stackid\<close> that fails is not noticed: its error is recorded as the stack id. When two
  mallocs succeed and the helper fails for their two stacks with the same error (as it does with
  EEXIST for every stack whose hash is taken by another), both blocks are recorded, both are added
  to the one statistics entry of that error, and for this entry the report prints its totals and
  logs that there is no stack. The conditions: the two sizes pass the filters, the blocks have new
  addresses, no request of another call is pending, and the tables have room for two blocks and
  one more entry.\<close>

theorem failed_stack_ids_merge:
  assumes "bpf_stack_map S" and "memleak_kernel K" and "st_valid S m" and "maps_valid K s"
    and "c = contents_of K s" and "c_sizes c = Map.empty"
    and "alloc_admitted cfg I n" and "current_pid J = current_pid I"
    and "alloc_admitted cfg I' n'" and "current_pid J' = current_pid I'"
    and "a = regs_rc J" and "b = regs_rc J'" and "a \<noteq> 0" and "b \<noteq> 0" and "a \<noteq> b"
    and "c_allocs c a = None" and "c_allocs c b = None"
    and "card (dom (c_allocs c)) + 2 \<le> ALLOCS_MAX_ENTRIES"
    and "card (dom (c_combined c)) < COMBINED_ALLOCS_MAX_ENTRIES"
    and "st_get S m (stack_flags cfg) stk = (e, m')" and "fst (st_get S m' (stack_flags cfg) stk') = e"
    and "sint e < 0"
    and "traced_run S K cfg B (malloc_pair I J n stk @ malloc_pair I' J' n' stk') (m, s, og) = (m'', t, og')"
    and "d = contents_of K t" and "sid = ucast e" and "key = scast (sid :: i32)"
    and "sn_stacks sn = st_lookup S m''"
  shows "c_allocs d a = Some (block_of n (ktime_exit J) e) \<and>
    c_allocs d b = Some (block_of n' (ktime_exit J') e) \<and>
    (\<exists>ci. ci = stack_stats c key + combined_of_info n 1 + combined_of_info n' 1 \<and>
       c_combined d = (c_combined c)(key \<mapsto> ci) \<and>
       stack_lines pid sn (GetCombinedAllocInfo (ucast key) (combined_bytes ci)) =
         [Out (digits (unat (total_size ci)) @ '' Bytes in '' @ digits (unat (number_of_allocs ci)) @
            '' allocations from stack''), Log_no_trace sid Lookup_failed])"
proof -
  let ?i = "block_of n (ktime_exit J) e" and ?j = "block_of n' (ktime_exit J') e"
  let ?d = "spec_record a ?i c"
  have ids: "sint sid = sint e" "st_valid S m'"
    using bpf_stack_map.recorded_id [OF assms(1,3), of "stack_flags cfg" stk] assms(20,25)
      bpf_stack_map.get_valid [OF assms(1,3), of "stack_flags cfg" stk]
    by simp_all
  have sizes: "c_sizes ?d = Map.empty" using assms(6) by (simp add: spec_record_def spec_credit_def)
  have "traced_view K (m'', t, og') = fold (spec_traced_step S cfg B)
      (malloc_pair I J n stk @ malloc_pair I' J' n' stk') (traced_view K (m, s, og))"
    unfolding assms(23) [symmetric]
    by (rule memleak_kernel.traced_run_view [OF assms(2)]) (simp add: traced_valid_def assms(4))
  then have "(m'', d, og') = fold (spec_traced_step S cfg B) (malloc_pair I' J' n' stk')
      (fold (spec_traced_step S cfg B) (malloc_pair I J n stk) (m, c, og))"
    by (simp only: traced_view_def prod.case assms(5,24) fold_append comp_apply)
  also have "fold (spec_traced_step S cfg B) (malloc_pair I J n stk) (m, c, og) = (m', ?d, og(a \<mapsto> stk))"
    using malloc_pair_spec [OF assms(7,8) _ assms(6), of S B stk m og] assms(11,13,20) by simp
  also have "fold (spec_traced_step S cfg B) (malloc_pair I' J' n' stk') (m', ?d, og(a \<mapsto> stk)) =
      (snd (st_get S m' (stack_flags cfg) stk'), spec_record b ?j ?d, og(a \<mapsto> stk, b \<mapsto> stk'))"
    using malloc_pair_spec [OF assms(9,10) _ sizes, of S B stk' m'] assms(12,14,21) by simp
  finally have end_: "m'' = snd (st_get S m' (stack_flags cfg) stk')" "d = spec_record b ?j ?d"
    by simp_all
  have key: "stack_key ?i = key" "stack_key ?j = key" "ucast key = sid"
    by (simp_all add: stack_key_def block_of_def assms(25,26))
  have "finite (dom (c_allocs c))"
    using memleak_kernel.allocs_finite [OF assms(2,4)] by (simp add: assms(5))
  note both = two_records [OF this assms(15-19) key(1,2) end_(2)]
  have "st_valid S m''" using bpf_stack_map.get_valid [OF assms(1) ids(2)] by (simp add: end_)
  from bpf_stack_map.negative_unknown [OF assms(1) this, of sid] have "sn_stacks sn sid = None"
    using assms(22,27) ids(1) by simp
  from report_of_entry [OF this key(3) [symmetric]] show ?thesis
    using both assms(15) by (simp add: block_of_def)
qed

text \<open>Two mallocs of 64 bytes after one whose stack has taken their hash.\<close>

lemma merged_totals:
  "digits (unat (total_size (combined_of_info 64 1 + combined_of_info 64 1))) = ''128''"
  "digits (unat (number_of_allocs (combined_of_info 64 1 + combined_of_info 64 1))) = ''2''"
  by code_simp+

theorem failed_stack_ids_merge_witness:
  "\<exists>m t og. traced_run hashed_stacks slot_kernel default_config no_btf
       (malloc_pair (call 0 0) (call 8192 0) 64 [1, 2] @ malloc_pair (call 0 0) (call 12288 0) 64 [2, 1])
       ([3 \<mapsto> stack_value [3]], slot_init, Map.empty) = (m, t, og) \<and>
     c_combined (contents_of slot_kernel t) = [- 17 \<mapsto> combined_of_info 64 1 + combined_of_info 64 1] \<and>
     stack_lines 0 (demo_snapshot m) (GetCombinedAllocInfo (- 17)
         (combined_bytes (combined_of_info 64 1 + combined_of_info 64 1))) =
       [Out ''128 Bytes in 2 allocations from stack'', Log_no_trace (- 17) Lookup_failed]"
proof -
  let ?m = "[3 \<mapsto> stack_value [3]]"
  obtain m t og where run: "traced_run hashed_stacks slot_kernel default_config no_btf
      (malloc_pair (call 0 0) (call 8192 0) 64 [1, 2] @ malloc_pair (call 0 0) (call 12288 0) 64 [2, 1])
      (?m, slot_init, Map.empty) = (m, t, og)"
    by (metis prod_cases3)
  have get: "st_get hashed_stacks ?m (stack_flags default_config) [1, 2] = (- 17, ?m)"
    "fst (st_get hashed_stacks ?m (stack_flags default_config) [2, 1]) = - 17"
    using colliding_ids(2,3) [OF no_flags] by (simp_all add: EEXIST_def)
  have room: "card (dom (c_allocs no_contents)) + 2 \<le> ALLOCS_MAX_ENTRIES"
    "card (dom (c_combined no_contents)) < COMBINED_ALLOCS_MAX_ENTRIES"
    "c_allocs no_contents a = None" "c_sizes no_contents = Map.empty" "stack_stats no_contents k = 0"
    "c_combined no_contents = Map.empty" for a k
    by (simp_all add: no_contents_def ALLOCS_MAX_ENTRIES_def COMBINED_ALLOCS_MAX_ENTRIES_def stack_stats_def)
  have admitted: "alloc_admitted default_config (call 0 0) 64"
    by (simp add: alloc_admitted_def default_config_def)
  have valid: "st_valid hashed_stacks ?m" by simp
  from failed_stack_ids_merge [OF hashed_stacks_ok slot_kernel_ok valid slot_init_valid
      slot_init_contents [symmetric] room(4) admitted _ admitted _ refl refl _ _ _ room(3,3,1,2)
      get _ run refl refl refl, of "demo_snapshot m" 0] run
  show ?thesis
    by (simp add: demo_snapshot_def merged_totals error_as_id room del: contents_of_simps)
qed

subsection \<open>When the loop ends\<close>

lemma report_no_panic: "0 < n \<Longrightarrow> \<exists>ls. report pid n sn = (ls, None)"
proof -
  assume "0 < n"
  moreover have "go_heap.largest (nat n) {#} []"
    unfolding go_heap.largest_def by (simp add: heap_upto_def)
  ultimately obtain h where "collect n [] (decode_entries (sn_combined sn)) = Inr h"
    using collect_largest by blast
  then show ?thesis by (simp add: report_def topStacks_def Let_def)
qed

text \<open>C40: With a positive number of stacks to show, the loop prints one report per round as long as the
  traced process is found alive, says that it has exited and ends when it is not; without a
  process it never ends; and with a negative process id it ends at once and prints nothing.\<close>

theorem loop_follows_process:
  assumes "0 < n"
  shows "run_loop pid n rounds =
    (let reports = (\<lambda>rs. concat (map (\<lambda>(alive, sn). fst (report pid n sn)) rs));
         live = takeWhile fst rounds
     in if pid = 0 then (reports rounds, Running)
        else if 0 <s pid
        then (if live = rounds then (reports rounds, Running)
              else (reports live @ [Log_exited pid], Ended))
        else ([], if rounds = [] then Running else Ended))"
proof (induction rounds)
  case (Cons r rounds)
  obtain alive sn where r: "r = (alive, sn)" by fastforce
  obtain ls where "report pid n sn = (ls, None)" using report_no_panic [OF assms] by blast
  with Cons show ?case by (auto simp: r Let_def)
qed (simp add: Let_def)

theorem loop_follows_process_witness:
  "snd (run_loop 7 1 [(True, demo_snapshot Map.empty), (False, demo_snapshot Map.empty)]) = Ended"
  using loop_follows_process
    [of 1 7 "[(True, demo_snapshot Map.empty), (False, demo_snapshot Map.empty)]"]
  by (simp add: Let_def)

end
