(* ===== verification/Command.thy ===== *)
theory Command
  imports Report
begin

text \<open>
  The life of the command: \<open>main\<close>, \<open>newProbe\<close> and \<open>Run\<close> of \<open>internal/probe/probe.go\<close>. Two goroutines
  run at once: the monitor, which prints the reports line by line, and the main one, which waits for
  a signal or for the monitor's end and then closes the links. What the system answers, and in
  which order the two take their steps, are parameters. The log messages of the main goroutine are
  left out.
\<close>

subsection \<open>Starting\<close>

text \<open>The answers of the loader library and of the system: whether the object file and the collection
  can be loaded, which variables cannot be set, which programs cannot be attached, which links
  cannot be closed; the maps file of the process.\<close>

record world =
  w_spec_fails :: bool
  w_set_fails :: "string \<Rightarrow> bool"
  w_assign_fails :: bool
  w_maps :: "string list"
  w_opens :: "string \<Rightarrow> bool"
  w_attach_fails :: "string \<Rightarrow> bool"
  w_close_fails :: "string \<Rightarrow> bool"

datatype probe_outcome = New_probe config "string option list" | Probe_error | Probe_fatal

definition newProbe :: "world \<Rightarrow> flags \<Rightarrow> u64 \<Rightarrow> probe_outcome" where
  "newProbe w fl stackFlags =
     (if w_spec_fails w then Probe_error
      else
        case loadObjects (w_set_fails w) fl stackFlags of
          None \<Rightarrow> Probe_error
        | Some cfg \<Rightarrow>
            if w_assign_fails w then Probe_error
            else
              case attachPrograms (w_opens w) (w_attach_fails w) (w_maps w) (fl_pid fl) of
                Attached ps \<Rightarrow> New_probe cfg (links_of (fl_pid fl) ps)
              | Attach_error \<Rightarrow> Probe_error
              | Exited \<Rightarrow> Probe_fatal)"

subsection \<open>The two goroutines\<close>

datatype monitor =
    Checking | Printing "out_line list" "go_panic option" | Sleeping
  | Leaving "out_line list" | Finished

datatype main_state = Waiting | Closing | Exit nat

record run_state =
  rs_main :: main_state
  rs_monitor :: monitor
  rs_cancelled :: bool
  rs_links :: "string option list"
  rs_closed :: "string list"
  rs_out :: "out_line list"
  rs_rounds :: "(bool \<times> snapshot) list"

text \<open>The main goroutine: \<open>select\<close>, then \<open>Close\<close> link by link. An error of \<open>Close\<close> ends the command with
  status 1 (\<open>log.Fatalf\<close>).\<close>

definition main_step :: "(string \<Rightarrow> bool) \<Rightarrow> run_state \<Rightarrow> run_state" where
  "main_step fails s =
     (case rs_main s of
        Waiting \<Rightarrow>
          if rs_cancelled s \<or> rs_monitor s = Finished then s\<lparr>rs_main := Closing\<rparr> else s
      | Closing \<Rightarrow>
          (case rs_links s of
             [] \<Rightarrow> s\<lparr>rs_main := Exit 0\<rparr>
           | None # ls \<Rightarrow> s\<lparr>rs_links := ls\<rparr>
           | Some l # ls \<Rightarrow>
               if fails l then s\<lparr>rs_main := Exit 1\<rparr>
               else s\<lparr>rs_links := ls, rs_closed := rs_closed s @ [l]\<rparr>)
      | Exit c \<Rightarrow> s)"

text \<open>The monitor: the condition of the loop, a round, the pause; a panic ends the command with status
  2. \<open>isProcessAlive\<close> and what the round reads are the arguments.\<close>

definition monitor_step :: "i64 \<Rightarrow> int \<Rightarrow> bool \<Rightarrow> snapshot \<Rightarrow> run_state \<Rightarrow> run_state" where
  "monitor_step pid nTopStacks isProcessAlive sn s =
     (case rs_monitor s of
        Checking \<Rightarrow>
          (let s' = s\<lparr>rs_rounds := rs_rounds s @ [(isProcessAlive, sn)]\<rparr>
           in if 0 <s pid \<and> isProcessAlive \<or> pid = 0
              then (let (ls, panic) = report pid nTopStacks sn in s'\<lparr>rs_monitor := Printing ls panic\<rparr>)
              else s'\<lparr>rs_monitor := Leaving (if 0 <s pid then [Log_exited pid] else [])\<rparr>)
      | Printing [] None \<Rightarrow> s\<lparr>rs_monitor := Sleeping\<rparr>
      | Printing [] (Some panic) \<Rightarrow> s\<lparr>rs_main := Exit 2\<rparr>
      | Printing (l # ls) panic \<Rightarrow> s\<lparr>rs_monitor := Printing ls panic, rs_out := rs_out s @ [l]\<rparr>
      | Sleeping \<Rightarrow> s\<lparr>rs_monitor := Checking\<rparr>
      | Leaving [] \<Rightarrow> s\<lparr>rs_monitor := Finished\<rparr>
      | Leaving (l # ls) \<Rightarrow> s\<lparr>rs_monitor := Leaving ls, rs_out := rs_out s @ [l]\<rparr>
      | Finished \<Rightarrow> s)"

datatype happening = Main_runs | Monitor_runs bool snapshot | Signal

text \<open>After the command has ended nothing happens any more.\<close>

definition command_step ::
    "i64 \<Rightarrow> int \<Rightarrow> (string \<Rightarrow> bool) \<Rightarrow> happening \<Rightarrow> run_state \<Rightarrow> run_state" where
  "command_step pid nTopStacks fails h s =
     (case rs_main s of
        Exit c \<Rightarrow> s
      | _ \<Rightarrow>
          (case h of
             Main_runs \<Rightarrow> main_step fails s
           | Monitor_runs isProcessAlive sn \<Rightarrow> monitor_step pid nTopStacks isProcessAlive sn s
           | Signal \<Rightarrow> s\<lparr>rs_cancelled := True\<rparr>))"

definition started :: "bool \<Rightarrow> string option list \<Rightarrow> run_state" where
  "started signalled links =
     \<lparr>rs_main = Waiting, rs_monitor = Checking, rs_cancelled = signalled, rs_links = links,
      rs_closed = [], rs_out = [], rs_rounds = []\<rparr>"

text \<open>The whole command, for what happens while it runs; a signal may come before it watches.\<close>

definition command :: "world \<Rightarrow> flags \<Rightarrow> bool \<Rightarrow> happening list \<Rightarrow> run_state" where
  "command w fl signalled hs =
     (case newProbe w fl (stackFlag (fl_pid fl)) of
        New_probe cfg links \<Rightarrow>
          fold (command_step (fl_pid fl) (sint (fl_n_top_stacks fl)) (w_close_fails w)) hs
            (started signalled links)
      | _ \<Rightarrow> (started signalled [])\<lparr>rs_main := Exit 1\<rparr>)"

text \<open>What every step keeps holds after any number of steps.\<close>

lemma command_invariant:
  assumes "\<And>h s. P s \<Longrightarrow> P (command_step pid n fails h s)" and "P s"
  shows "P (fold (command_step pid n fails) hs s)"
  using assms(2) by (induction hs arbitrary: s) (simp_all add: assms(1))

subsection \<open>What is printed\<close>

fun pending :: "monitor \<Rightarrow> out_line list" where
  "pending (Printing ls panic) = ls" | "pending (Leaving ls) = ls" | "pending m = []"

fun reached_end :: "monitor \<Rightarrow> loop_end" where
  "reached_end (Printing ls (Some panic)) = Crashed panic"
| "reached_end (Leaving ls) = Ended" | "reached_end Finished = Ended" | "reached_end m = Running"

definition follows_loop :: "i64 \<Rightarrow> int \<Rightarrow> run_state \<Rightarrow> bool" where
  "follows_loop pid n s \<longleftrightarrow>
     run_loop pid n (rs_rounds s) = (rs_out s @ pending (rs_monitor s), reached_end (rs_monitor s))"

lemma run_loop_append:
  "run_loop pid n rounds = (ls, Running) \<Longrightarrow>
     run_loop pid n (rounds @ rs) = (ls @ fst (run_loop pid n rs), snd (run_loop pid n rs))"
proof (induction rounds arbitrary: ls)
  case (Cons r rounds)
  then show ?case
    by (cases r) (auto simp: Let_def split: if_splits prod.splits option.splits)
qed simp

lemma monitor_follows: "follows_loop pid n s \<Longrightarrow> follows_loop pid n (monitor_step pid n alive sn s)"
proof (cases "rs_monitor s")
  case Checking
  assume "follows_loop pid n s"
  with Checking have "run_loop pid n (rs_rounds s) = (rs_out s, Running)"
    by (simp add: follows_loop_def)
  from run_loop_append [OF this, of "[(alive, sn)]"] Checking show ?thesis
    by (auto simp: follows_loop_def monitor_step_def Let_def split: prod.split option.split)
qed (auto simp: follows_loop_def monitor_step_def split: list.split option.split)

lemma main_step_frame [simp]:
  "rs_monitor (main_step fails s) = rs_monitor s" "rs_out (main_step fails s) = rs_out s"
  "rs_rounds (main_step fails s) = rs_rounds s" "rs_cancelled (main_step fails s) = rs_cancelled s"
  by (simp_all add: main_step_def split: main_state.split list.split option.split)

lemma monitor_step_frame [simp]:
  "rs_cancelled (monitor_step pid n alive sn s) = rs_cancelled s"
  "rs_links (monitor_step pid n alive sn s) = rs_links s"
  "rs_closed (monitor_step pid n alive sn s) = rs_closed s"
  by (auto simp: monitor_step_def Let_def split: monitor.split list.split option.split prod.split)

lemma monitor_step_main:
  "rs_main (monitor_step pid n alive sn s) = rs_main s \<or> rs_main (monitor_step pid n alive sn s) = Exit 2"
  by (auto simp: monitor_step_def Let_def split: monitor.split list.split option.split prod.split)

lemma monitor_step_finished [simp]:
  "rs_monitor s = Finished \<Longrightarrow> monitor_step pid n alive sn s = s"
  by (simp add: monitor_step_def)

lemma command_follows: "follows_loop pid n s \<Longrightarrow> follows_loop pid n (command_step pid n fails h s)"
  by (auto simp: command_step_def monitor_follows split: main_state.split happening.split)
    (auto simp: follows_loop_def)

lemma command_follows_run:
  "follows_loop pid n s \<Longrightarrow> follows_loop pid n (fold (command_step pid n fails) hs s)"
  by (rule command_invariant [where P = "follows_loop pid n"]) (rule command_follows)

text \<open>C10: At every moment of every run of the command, whatever the schedule of its goroutines and
  whenever a signal comes, what has been printed and what the monitor is about to print are together
  exactly the output of the loop over the rounds so far, in order: a signal cuts the output off and
  changes nothing else.\<close>

theorem command_prints_loop:
  "(let s = command w fl signalled hs
    in run_loop (fl_pid fl) (sint (fl_n_top_stacks fl)) (rs_rounds s) =
         (rs_out s @ pending (rs_monitor s), reached_end (rs_monitor s)))"
proof -
  have "follows_loop pid n (started b links)" for pid n b links
    by (simp add: follows_loop_def started_def)
  moreover from this have "follows_loop pid n ((started b links)\<lparr>rs_main := Exit 1\<rparr>)" for pid n b links
    by (simp add: follows_loop_def)
  ultimately have "follows_loop (fl_pid fl) (sint (fl_n_top_stacks fl)) (command w fl signalled hs)"
    unfolding command_def
    by (auto intro: command_follows_run split: probe_outcome.split)
  then show ?thesis by (simp only: follows_loop_def Let_def)
qed

subsection \<open>How the command ends\<close>

definition attached_links :: "string option list \<Rightarrow> string list" where
  "attached_links links = List.map_filter (\<lambda>l. l) links"

lemma attached_links_simps [simp]:
  "attached_links [] = []" "attached_links (None # ls) = attached_links ls"
  "attached_links (Some l # ls) = l # attached_links ls"
  by (simp_all add: attached_links_def)

lemma attached_links_of: "attached_links (links_of pid ps) = ps"
proof -
  have "attached_links (replicate k None @ map Some ps) = ps" for k
  proof (induction k)
    case 0
    show ?case by (induction ps) simp_all
  qed simp
  from this [of 35] this [of 0] show ?thesis by (simp add: links_of_def)
qed

text \<open>Somebody has asked the main goroutine to stop.\<close>

definition asked :: "run_state \<Rightarrow> bool" where
  "asked s \<longleftrightarrow> rs_cancelled s \<or> rs_monitor s = Finished"

text \<open>Links are closed in the order in which they were attached, up to the first failure, and only
  when asked; a panic needs a limit that is not positive.\<close>

definition closing_ok :: "int \<Rightarrow> (string \<Rightarrow> bool) \<Rightarrow> string list \<Rightarrow> run_state \<Rightarrow> bool" where
  "closing_ok n fails ps s \<longleftrightarrow>
     ps = rs_closed s @ attached_links (rs_links s) \<and> (\<forall>l\<in>set (rs_closed s). \<not> fails l) \<and>
     (\<forall>ls e. rs_monitor s = Printing ls (Some e) \<longrightarrow> n \<le> 0) \<and>
     (case rs_main s of
        Waiting \<Rightarrow> rs_closed s = []
      | Closing \<Rightarrow> asked s
      | Exit c \<Rightarrow>
          c = 0 \<and> asked s \<and> rs_links s = [] \<or>
          c = 1 \<and> asked s \<and> (\<exists>l ls. rs_links s = Some l # ls \<and> fails l) \<or>
          c = 2 \<and> n \<le> 0)"

lemma report_panics: "report pid n sn = (ls, Some e) \<Longrightarrow> n \<le> 0"
  using report_no_panic [of n pid sn] by (cases "0 < n") auto

lemma main_closing: "closing_ok n fails ps s \<Longrightarrow> closing_ok n fails ps (main_step fails s)"
  by (auto simp: closing_ok_def main_step_def asked_def split: main_state.splits list.split option.split)

lemma monitor_closing:
  "closing_ok n fails ps s \<Longrightarrow> \<forall>c. rs_main s \<noteq> Exit c \<Longrightarrow>
     closing_ok n fails ps (monitor_step pid n alive sn s)"
  by (cases "rs_main s"; cases "rs_monitor s")
    (auto simp: closing_ok_def monitor_step_def asked_def Let_def report_panics
      split: list.split option.split prod.split)

lemma command_closing: "closing_ok n fails ps s \<Longrightarrow> closing_ok n fails ps (command_step pid n fails h s)"
proof (cases "\<exists>c. rs_main s = Exit c")
  case False
  moreover assume ok: "closing_ok n fails ps s"
  moreover from ok have "closing_ok n fails ps (s\<lparr>rs_cancelled := True\<rparr>)"
    by (auto simp: closing_ok_def asked_def split: main_state.split)
  ultimately show ?thesis
    by (cases h)
      (auto simp: command_step_def main_closing monitor_closing split: main_state.split)
qed (auto simp: command_step_def)

lemma command_closing_run:
  "closing_ok n fails ps s \<Longrightarrow> closing_ok n fails ps (fold (command_step pid n fails) hs s)"
  by (rule command_invariant [where P = "closing_ok n fails ps"]) (rule command_closing)

lemma started_closing: "closing_ok n fails (attached_links links) (started b links)"
  by (simp add: closing_ok_def started_def)

lemma closed_prefix:
  "\<forall>l\<in>set xs. \<not> fails l \<Longrightarrow> fails y \<Longrightarrow> takeWhile (\<lambda>l. \<not> fails l) (xs @ y # ys) = xs"
  by (induction xs) simp_all

lemma run_loop_kernel:
  "pid = 0 \<Longrightarrow> snd (run_loop pid n rounds) \<noteq> Ended"
  by (induction rounds) (auto simp: Let_def split: prod.splits option.splits)

lemma started_exit:
  assumes "newProbe w fl (stackFlag (fl_pid fl)) = New_probe cfg links"
    and "s = command w fl signalled hs" and "rs_main s = Exit c"
  shows "(c = 0 \<and> rs_closed s = attached_links links \<or>
          c = 1 \<and> (\<exists>l\<in>set (attached_links links). w_close_fails w l) \<and>
            rs_closed s = takeWhile (\<lambda>l. \<not> w_close_fails w l) (attached_links links) \<or>
          c = 2 \<and> sint (fl_n_top_stacks fl) \<le> 0) \<and>
         (c \<noteq> 2 \<longrightarrow> rs_cancelled s \<or> rs_monitor s = Finished \<and> fl_pid fl \<noteq> 0)"
proof -
  let ?n = "sint (fl_n_top_stacks fl)" and ?ps = "attached_links links"
  have ok: "closing_ok ?n (w_close_fails w) ?ps s"
    using assms(1,2) by (simp add: command_def command_closing_run started_closing)
  have loop: "run_loop (fl_pid fl) ?n (rs_rounds s) =
      (rs_out s @ pending (rs_monitor s), reached_end (rs_monitor s))"
    using command_follows_run [of "fl_pid fl" ?n "started signalled links" "w_close_fails w" hs] assms(1,2)
    by (simp add: command_def follows_loop_def started_def)
  have kernel: "rs_monitor s \<noteq> Finished" if "fl_pid fl = 0"
    using loop run_loop_kernel [OF that, of ?n "rs_rounds s"] by auto
  from ok have split: "?ps = rs_closed s @ attached_links (rs_links s)"
    "\<forall>l\<in>set (rs_closed s). \<not> w_close_fails w l" by (simp_all add: closing_ok_def)
  from ok assms(3) consider "c = 0" "asked s" "rs_links s = []"
    | l ls where "c = 1" "asked s" "rs_links s = Some l # ls" "w_close_fails w l"
    | "c = 2" "?n \<le> 0"
    by (auto simp: closing_ok_def)
  then show ?thesis
  proof cases
    case 1
    then show ?thesis using split kernel by (auto simp: asked_def)
  next
    case 2
    then show ?thesis
      using split kernel closed_prefix [OF split(2) 2(4)] by (auto simp: asked_def)
  next
    case 3
    then show ?thesis by simp
  qed
qed

text \<open>C11: If the command ends, then in one of these ways. The probe could not be created: status 1, with
  nothing printed and no link closed. Otherwise with status 0 after closing all links that were
  attached, in order; with status 1 after closing those before the first that cannot be closed; or
  with status 2, by a panic, only if the number of stacks to show is not positive. When the probe
  was created and it was no panic, a signal had come or the monitor had finished, which it never
  does for the kernel.\<close>

theorem command_exit:
  assumes "s = command w fl signalled hs" and "rs_main s = Exit c"
  shows "case newProbe w fl (stackFlag (fl_pid fl)) of
      New_probe cfg links \<Rightarrow>
        (c = 0 \<and> rs_closed s = attached_links links \<or>
         c = 1 \<and> (\<exists>l\<in>set (attached_links links). w_close_fails w l) \<and>
           rs_closed s = takeWhile (\<lambda>l. \<not> w_close_fails w l) (attached_links links) \<or>
         c = 2 \<and> sint (fl_n_top_stacks fl) \<le> 0) \<and>
        (c \<noteq> 2 \<longrightarrow> rs_cancelled s \<or> rs_monitor s = Finished \<and> fl_pid fl \<noteq> 0)
    | _ \<Rightarrow> c = 1 \<and> rs_closed s = [] \<and> rs_out s = []"
proof (cases "newProbe w fl (stackFlag (fl_pid fl))")
  case (New_probe cfg links)
  then show ?thesis using started_exit [OF New_probe assms] by simp
qed (use assms in \<open>auto simp: command_def started_def\<close>)

lemma links_shrink:
  "length (rs_links (fold (command_step pid n fails) hs s)) \<le> length (rs_links s)"
proof (induction hs arbitrary: s)
  case (Cons h hs)
  have "length (rs_links (command_step pid n fails h s)) \<le> length (rs_links s)"
    by (auto simp: command_step_def main_step_def
        split: main_state.split happening.split list.split option.split)
  with Cons.IH [of "command_step pid n fails h s"] show ?case by simp
qed simp

text \<open>A system in which everything succeeds, and the command as it starts without flags.\<close>

definition willing :: world where
  "willing =
     \<lparr>w_spec_fails = False, w_set_fails = (\<lambda>_. False), w_assign_fails = False, w_maps = [],
      w_opens = (\<lambda>_. True), w_attach_fails = (\<lambda>_. False), w_close_fails = (\<lambda>_. False)\<rparr>"

lemma willing_probe:
  "\<exists>cfg. newProbe willing default_flags 0 =
     New_probe cfg [Some ''memleak__kmalloc'', Some ''memleak__kfree'']"
  by (simp add: newProbe_def willing_def loaded_config attachPrograms_def default_flags_def
      links_of_def)

lemma willing_command:
  "command willing default_flags signalled hs =
     fold (command_step 0 3 (\<lambda>_. False)) hs
       (started signalled [Some ''memleak__kmalloc'', Some ''memleak__kfree''])"
  using willing_probe by (auto simp: command_def default_flags_def stackFlag_def willing_def)

theorem command_exit_witness:
  "rs_closed (command willing default_flags False
     [Signal, Main_runs, Main_runs, Main_runs, Main_runs]) = [''memleak__kmalloc'', ''memleak__kfree'']"
proof -
  obtain cfg where probe: "newProbe willing default_flags (stackFlag (fl_pid default_flags)) =
      New_probe cfg [Some ''memleak__kmalloc'', Some ''memleak__kfree'']"
    using willing_probe by (auto simp: stackFlag_def default_flags_def)
  have "rs_main (command willing default_flags False
      [Signal, Main_runs, Main_runs, Main_runs, Main_runs]) = Exit 0"
    by (simp add: willing_command command_step_def main_step_def started_def)
  from command_exit [OF refl this] show ?thesis by (simp add: probe)
qed

text \<open>What the main goroutine still has to do.\<close>

definition main_left :: "run_state \<Rightarrow> nat" where
  "main_left s =
     (case rs_main s of
        Waiting \<Rightarrow> length (rs_links s) + 2 | Closing \<Rightarrow> length (rs_links s) + 1 | Exit c \<Rightarrow> 0)"

lemma asked_step: "asked s \<Longrightarrow> asked (command_step pid n fails h s)"
  by (auto simp: asked_def command_step_def split: main_state.split happening.split)

lemma main_left_step:
  assumes "asked s"
  shows "main_left (command_step pid n fails h s) \<le> main_left s - (if h = Main_runs then 1 else 0)"
  using assms
proof (cases h)
  case (Monitor_runs alive sn)
  then show ?thesis
    using monitor_step_main [of pid n alive sn s]
    by (auto simp: main_left_def command_step_def split: main_state.split)
qed (auto simp: main_left_def command_step_def main_step_def asked_def
      split: main_state.split list.split option.split)

lemma main_left_run:
  "asked s \<Longrightarrow> main_left (fold (command_step pid n fails) hs s) \<le> main_left s - count_list hs Main_runs"
proof (induction hs arbitrary: s)
  case (Cons h hs)
  have "main_left (fold (command_step pid n fails) hs (command_step pid n fails h s)) \<le>
      main_left (command_step pid n fails h s) - count_list hs Main_runs"
    by (rule Cons.IH [OF asked_step [OF Cons.prems]])
  with main_left_step [OF Cons.prems, of pid n fails h] show ?case
    by (cases "h = Main_runs") simp_all
qed simp

text \<open>C12: Once a signal has come, or the monitor has finished, the command ends within as many steps of
  the main goroutine as there are links, and two, whatever the monitor does meanwhile.\<close>

theorem command_stops:
  assumes "newProbe w fl (stackFlag (fl_pid fl)) = New_probe cfg links"
    and "rs_cancelled (command w fl signalled hs) \<or> rs_monitor (command w fl signalled hs) = Finished"
    and "length links + 2 \<le> count_list hs' Main_runs"
  shows "\<exists>c. rs_main (command w fl signalled (hs @ hs')) = Exit c"
proof -
  let ?step = "command_step (fl_pid fl) (sint (fl_n_top_stacks fl)) (w_close_fails w)"
  let ?s = "command w fl signalled hs"
  have s: "?s = fold ?step hs (started signalled links)"
    "command w fl signalled (hs @ hs') = fold ?step hs' ?s"
    using assms(1) by (simp_all add: command_def)
  have "asked ?s" using assms(2) by (simp add: asked_def)
  moreover have "length (rs_links (fold ?step hs (started signalled links))) \<le> length links"
    using links_shrink [of _ _ _ hs "started signalled links"] by (simp add: started_def)
  then have "main_left ?s \<le> length links + 2"
    by (auto simp: s(1) main_left_def split: main_state.split)
  ultimately have "main_left (fold ?step hs' ?s) = 0"
    using main_left_run [of ?s "fl_pid fl" "sint (fl_n_top_stacks fl)" "w_close_fails w" hs'] assms(3)
    by simp
  then show ?thesis
    by (auto simp: s(2) main_left_def split: main_state.splits)
qed

theorem command_stops_witness:
  "\<exists>c. rs_main (command willing default_flags True ([] @ replicate 4 Main_runs)) = Exit c"
proof -
  obtain cfg where "newProbe willing default_flags (stackFlag (fl_pid default_flags)) =
      New_probe cfg [Some ''memleak__kmalloc'', Some ''memleak__kfree'']"
    using willing_probe by (auto simp: stackFlag_def default_flags_def)
  then show ?thesis
    by (rule command_stops) (simp_all add: willing_command started_def numeral_eq_Suc)
qed

end
