(* ===== verification/Blocks.thy ===== *)
theory Blocks
  imports Scenarios
begin

text \<open>
  Blocks counted outside the tracker, by what was allocated and released: when the contents of the
  maps agree with them, and how an allocation and a release keep that. \<open>KernelEvents\<close> and
  \<open>LibcCalls\<close> follow the events of the kernel and the calls of a process in this way.
\<close>

type_synonym blocks = "u64 \<rightharpoonup> alloc_info"

definition stack_of :: "config \<Rightarrow> invocation \<Rightarrow> u64" where
  "stack_of cfg I = stack_key (exit_info cfg I 0)"

lemma stack_of_block: "stack_key (exit_info cfg I n) = stack_of cfg I"
  by (simp add: stack_of_def exit_info_def stack_key_def)

text \<open>The bytes and the number of the blocks of a stack.\<close>

definition live_bytes :: "u64 \<Rightarrow> blocks \<Rightarrow> nat" where
  "live_bytes sid m = map_sum (\<lambda>i. if stack_key i = sid then unat (ai_size i) else 0) m"

definition live_count :: "u64 \<Rightarrow> blocks \<Rightarrow> nat" where
  "live_count sid m = map_sum (\<lambda>i. if stack_key i = sid then 1 else 0) m"

text \<open>The contents for given blocks: no request is pending, the blocks are the recorded ones, the
  statistics are theirs, for stacks out of \<open>T\<close>.\<close>

definition agrees :: "u64 set \<Rightarrow> blocks \<Rightarrow> contents \<Rightarrow> bool" where
  "agrees T m c \<longleftrightarrow> c_sizes c = Map.empty \<and> c_allocs c = m \<and> dom (c_combined c) \<subseteq> T \<and> accounted c"

lemma agrees_empty: "agrees T Map.empty no_contents"
  by (simp add: agrees_def accounted_no_contents)

lemma agrees_free: "agrees T m c \<Longrightarrow> agrees T (m(p := None)) (spec_free p c)"
  by (auto simp: agrees_def accounted_free)
    (auto simp: spec_free_def spec_debit_def fun_eq_iff split: option.splits if_splits)

lemma agrees_room:
  assumes "agrees T m c" and "finite T" and "card T \<le> COMBINED_ALLOCS_MAX_ENTRIES"
    and "stack_key i \<in> T" and "card (dom m) < ALLOCS_MAX_ENTRIES"
  shows "has_room c p i"
proof -
  have "card (dom (c_combined c)) < card T" if "c_combined c (stack_key i) = None"
    using assms(1,2,4) that by (intro psubset_card_mono) (auto simp: agrees_def)
  then show ?thesis
    using assms(1,3,5)
    by (cases "c_combined c (stack_key i)")
      (simp_all add: has_room_def agrees_def allocs_max_entries_def combined_allocs_max_entries_def)
qed

lemma agrees_alloc:
  assumes "agrees T m c" and "finite T" and "card T \<le> COMBINED_ALLOCS_MAX_ENTRIES"
    and "stack_of cfg J \<in> T" and "current_pid J = current_pid I"
    and "alloc_admitted cfg I n \<and> p \<noteq> 0 \<longrightarrow> m p = None \<and> card (dom m) < ALLOCS_MAX_ENTRIES"
  shows "agrees T (if alloc_admitted cfg I n \<and> p \<noteq> 0 then m(p \<mapsto> exit_info cfg J n) else m)
           (spec_exit cfg J p (spec_enter cfg I n c))"
proof (cases "alloc_admitted cfg I n")
  case False
  then show ?thesis using assms(1) by (simp add: spec_enter_def spec_exit_def agrees_def)
next
  case True
  let ?i = "exit_info cfg J n"
  have noted: "spec_enter cfg I n c = c\<lparr>c_sizes := [current_pid I \<mapsto> n]\<rparr>"
    using True assms(1) enter_noted [of cfg I n c]
    by (simp add: agrees_def sizes_room_def sizes_max_entries_def)
  have restored: "c\<lparr>c_sizes := [current_pid I \<mapsto> n]\<rparr>\<lparr>c_sizes := Map.empty\<rparr> = c"
    using assms(1) by (simp add: agrees_def)
  show ?thesis
  proof (cases "p = 0")
    case zero: True
    then have "spec_exit cfg J p (spec_enter cfg I n c) = c"
      using restored assms(5) by (simp add: noted spec_exit_def)
    then show ?thesis using assms(1) zero by simp
  next
    case False
    have result: "spec_exit cfg J p (spec_enter cfg I n c) = spec_record p ?i c"
      using False restored assms(5) by (simp add: noted spec_exit_def Let_def)
    have free: "m p = None" "card (dom m) < ALLOCS_MAX_ENTRIES" using True False assms(6) by auto
    then have room: "has_room c p ?i"
      using assms(1-4) by (intro agrees_room) (simp_all add: stack_of_block)
    have "accounted (spec_record p ?i c)"
      using assms(1) room free(1) by (intro accounted_record) (simp_all add: agrees_def)
    moreover have "dom (c_combined (spec_record p ?i c)) \<subseteq> T"
      using assms(1,4) by (auto simp: agrees_def spec_record_combined bounded_upd_def stack_of_block
          split: if_splits)
    ultimately show ?thesis
      using True False assms(1) record_allocs_room [OF room]
      by (simp add: result agrees_def)
  qed
qed

text \<open>Then the totals of every stack are the bytes and the number of its blocks.\<close>

lemma agrees_totals:
  assumes "agrees T m c" and "live_bytes sid m < 2 ^ 40" and "live_count sid m < 2 ^ 24"
  shows "c_allocs c = m \<and> unat (total_size (stack_stats c sid)) = live_bytes sid m \<and>
    unat (number_of_allocs (stack_stats c sid)) = live_count sid m"
proof -
  have c: "c_allocs c = m" "accounted c" using assms(1) by (simp_all add: agrees_def)
  then have "outstanding_bytes c sid < 2 ^ 40" "outstanding_count c sid < 2 ^ 24"
    using assms(2,3)
    by (simp_all add: outstanding_bytes_def outstanding_count_def live_bytes_def live_count_def)
  from bitfields.read_accounted [OF c(2) this] show ?thesis
    by (simp add: c(1) outstanding_bytes_def outstanding_count_def live_bytes_def live_count_def)
qed

end
