(* ===== verification/LibcCalls.thy ===== *)
theory LibcCalls
  imports Blocks
begin

text \<open>
  Tracing a process: sequences of its calls of the traced libc functions, each with the invocations
  of the probes at its entry and its exit, and what the tracker then reports. The blocks that are
  outstanding are counted from the calls and their results alone, as the C library documents
  them, without reference to the maps.
\<close>

subsection \<open>What calls mean\<close>

datatype libc_call =
    Malloc u64 | Calloc u64 u64 | Realloc u64 u64 | Mmap u64 u64 | Posix_memalign u64 u64 u64
  | Aligned_alloc u64 u64 | Valloc u64 | Memalign u64 u64 | Pvalloc u64 | Free u64 | Munmap u64

text \<open>The block that a call releases, given the invocation at its exit: a realloc that fails keeps
  it, as does a munmap.\<close>

fun released :: "invocation \<Rightarrow> libc_call \<Rightarrow> u64 option" where
  "released J (Free p) = Some p"
| "released J (Munmap p) = (if regs_rc J = 0 then Some p else None)"
| "released J (Realloc p n) = (if regs_rc J = 0 \<and> n \<noteq> 0 then None else Some p)"
| "released J _ = None"

text \<open>The address and the size of the block that a call allocates. A failure is NULL, for mmap the
  address with all bits set, for posix_memalign a return code other than zero. (An overflow in
  calloc is a failure.)\<close>

definition unless_null :: "u64 \<Rightarrow> u64 \<Rightarrow> (u64 \<times> u64) option" where
  "unless_null a n = (if a = 0 then None else Some (a, n))"

fun allocated :: "invocation \<Rightarrow> libc_call \<Rightarrow> (u64 \<times> u64) option" where
  "allocated J (Malloc n) = unless_null (regs_rc J) n"
| "allocated J (Calloc nmemb n) = unless_null (regs_rc J) (nmemb * n)"
| "allocated J (Realloc p n) = unless_null (regs_rc J) n"
| "allocated J (Mmap a n) = (if regs_rc J = - 1 then None else Some (regs_rc J, n))"
| "allocated J (Posix_memalign m al n) =
     (if regs_rc J = 0 then map_option (\<lambda>a. (a, n)) (probe_read_user J m) else None)"
| "allocated J (Aligned_alloc al n) = unless_null (regs_rc J) n"
| "allocated J (Valloc n) = unless_null (regs_rc J) n"
| "allocated J (Memalign al n) = unless_null (regs_rc J) n"
| "allocated J (Pvalloc n) = unless_null (regs_rc J) n"
| "allocated J _ = None"

text \<open>A traced call: the invocations at its entry and at its exit, and the call.\<close>

type_synonym traced_call = "invocation \<times> invocation \<times> libc_call"

definition without :: "u64 option \<Rightarrow> blocks \<Rightarrow> blocks" where
  "without x m = (case x of None \<Rightarrow> m | Some p \<Rightarrow> m(p := None))"

text \<open>The outstanding blocks after a call: those that pass the filters.\<close>

definition call_step :: "config \<Rightarrow> traced_call \<Rightarrow> blocks \<Rightarrow> blocks" where
  "call_step cfg x m =
     (case x of (I, J, f) \<Rightarrow>
        (let m' = without (released J f) m
         in case allocated J f of
              None \<Rightarrow> m'
            | Some (a, n) \<Rightarrow> if alloc_admitted cfg I n then m'(a \<mapsto> exit_info cfg J n) else m'))"

text \<open>The calls whose results the probes take the right way: not a realloc, mmap or posix_memalign
  that fails, a munmap that fails, or a result pointer that cannot be read.\<close>

fun understood :: "invocation \<Rightarrow> libc_call \<Rightarrow> bool" where
  "understood J (Realloc p n) = (regs_rc J \<noteq> 0 \<or> n = 0)"
| "understood J (Mmap a n) = (regs_rc J \<noteq> - 1 \<and> regs_rc J \<noteq> 0)"
| "understood J (Posix_memalign m al n) =
     (regs_rc J = 0 \<and> (case probe_read_user J m of None \<Rightarrow> False | Some a \<Rightarrow> a \<noteq> 0))"
| "understood J (Munmap p) = (regs_rc J = 0)"
| "understood J _ = True"

text \<open>A call that the tracker can follow: besides, entry and exit are in the same process, a new
  block is at a free address, and there are fewer than a million blocks.\<close>

definition call_followed :: "config \<Rightarrow> traced_call \<Rightarrow> blocks \<Rightarrow> bool" where
  "call_followed cfg x m \<longleftrightarrow>
     (case x of (I, J, f) \<Rightarrow>
        understood J f \<and> current_pid J = current_pid I \<and> current_pid64 J = current_pid64 I \<and>
        (case allocated J f of
           None \<Rightarrow> True
         | Some (a, n) \<Rightarrow>
             (let m' = without (released J f) m
              in alloc_admitted cfg I n \<longrightarrow> m' a = None \<and> card (dom m') < ALLOCS_MAX_ENTRIES)))"

fun outstanding :: "config \<Rightarrow> traced_call list \<Rightarrow> blocks \<Rightarrow> blocks" where
  "outstanding cfg [] m = m"
| "outstanding cfg (x # xs) m = outstanding cfg xs (call_step cfg x m)"

fun calls_followed :: "config \<Rightarrow> traced_call list \<Rightarrow> blocks \<Rightarrow> bool" where
  "calls_followed cfg [] m = True"
| "calls_followed cfg (x # xs) m =
     (call_followed cfg x m \<and> calls_followed cfg xs (call_step cfg x m))"

definition call_stacks :: "config \<Rightarrow> traced_call list \<Rightarrow> u64 set" where
  "call_stacks cfg xs = (\<lambda>(I, J, f). stack_of cfg J) ` set xs"

subsection \<open>The probes of a call\<close>

fun call_events :: "traced_call \<Rightarrow> event list" where
  "call_events (I, J, Malloc n) = [(I, Malloc_enter n), (J, Malloc_exit)]"
| "call_events (I, J, Calloc nmemb n) = [(I, Calloc_enter nmemb n), (J, Calloc_exit)]"
| "call_events (I, J, Realloc p n) = [(I, Realloc_enter p n), (J, Realloc_exit)]"
| "call_events (I, J, Mmap a n) = [(I, Mmap_enter a n), (J, Mmap_exit)]"
| "call_events (I, J, Posix_memalign m al n) =
     [(I, Posix_memalign_enter m al n), (J, Posix_memalign_exit)]"
| "call_events (I, J, Aligned_alloc al n) = [(I, Aligned_alloc_enter al n), (J, Aligned_alloc_exit)]"
| "call_events (I, J, Valloc n) = [(I, Valloc_enter n), (J, Valloc_exit)]"
| "call_events (I, J, Memalign al n) = [(I, Memalign_enter al n), (J, Memalign_exit)]"
| "call_events (I, J, Pvalloc n) = [(I, Pvalloc_enter n), (J, Pvalloc_exit)]"
| "call_events (I, J, Free p) = [(I, Free_enter p)]"
| "call_events (I, J, Munmap p) = [(I, Munmap_enter p)]"

text \<open>What they do to the contents: an address is forgotten, then a request is noted and settled.\<close>

fun forgets :: "libc_call \<Rightarrow> u64 option" where
  "forgets (Free p) = Some p" | "forgets (Munmap p) = Some p" | "forgets (Realloc p n) = Some p"
| "forgets _ = None"

fun requests :: "libc_call \<Rightarrow> u64 option" where
  "requests (Malloc n) = Some n" | "requests (Calloc nmemb n) = Some (nmemb * n)"
| "requests (Realloc p n) = Some n" | "requests (Mmap a n) = Some n"
| "requests (Posix_memalign m al n) = Some n" | "requests (Aligned_alloc al n) = Some n"
| "requests (Valloc n) = Some n" | "requests (Memalign al n) = Some n"
| "requests (Pvalloc n) = Some n" | "requests _ = None"

fun returned :: "invocation \<Rightarrow> libc_call \<Rightarrow> u64" where
  "returned J (Posix_memalign m al n) = (case probe_read_user J m of None \<Rightarrow> 0 | Some a \<Rightarrow> a)"
| "returned J _ = regs_rc J"

definition spec_call :: "config \<Rightarrow> traced_call \<Rightarrow> contents \<Rightarrow> contents" where
  "spec_call cfg x c =
     (case x of (I, J, f) \<Rightarrow>
        (let c' = (case forgets f of None \<Rightarrow> c | Some p \<Rightarrow> spec_free p c)
         in case requests f of
              None \<Rightarrow> c'
            | Some n \<Rightarrow> spec_exit cfg J (returned J f) (spec_enter cfg I n c')))"

lemma spec_exit_memptrs [simp]: "c_memptrs (spec_exit cfg I a c) = c_memptrs c"
  by (simp add: spec_exit_def spec_record_def spec_credit_def Let_def split: option.split)

lemma spec_call_memptrs: "c_memptrs (spec_call cfg x c) = c_memptrs c"
  by (cases x) (simp add: spec_call_def Let_def split: option.split)

lemma memptr_saved_taken:
  assumes "c_memptrs c = Map.empty" and "probe_read_user J m = Some a"
    and "current_pid64 J = current_pid64 I"
  shows "spec_memptr_exit cfg J (spec_enter cfg I n (spec_save_memptr I m c)) =
    spec_exit cfg J a (spec_enter cfg I n c)"
proof -
  have "spec_enter cfg I n (spec_save_memptr I m c) =
      (spec_enter cfg I n c)\<lparr>c_memptrs := [current_pid64 I \<mapsto> m]\<rparr>"
    using assms(1)
    by (simp add: spec_enter_def spec_save_memptr_def bounded_upd_def memptrs_max_entries_def)
  moreover have "(spec_enter cfg I n c)\<lparr>c_memptrs := Map.empty\<rparr> = spec_enter cfg I n c"
    using assms(1) by (simp add: spec_enter_def)
  ultimately show ?thesis using assms(2,3) by (simp add: spec_memptr_exit_def)
qed

lemma call_contents:
  assumes "understood J f" and "current_pid64 J = current_pid64 I" and "c_memptrs c = Map.empty"
  shows "spec_events cfg B (call_events (I, J, f)) c = spec_call cfg (I, J, f) c"
  using assms
  by (cases f)
    (simp_all add: spec_call_def spec_run memptr_saved_taken split: option.splits)

text \<open>The outstanding blocks in the same terms.\<close>

lemma call_step_understood:
  assumes "understood J f"
  shows "released J f = forgets f"
    and "allocated J f =
      (case requests f of None \<Rightarrow> None | Some n \<Rightarrow> unless_null (returned J f) n)"
  using assms by (cases f; auto simp: unless_null_def split: option.splits)+

text \<open>A munmap that fails is an example of a call that is not understood.\<close>

lemma munmap_failure_forgets:
  assumes "regs_rc J \<noteq> 0"
  shows "call_step cfg (I, J, Munmap p) m = m"
    and "c_allocs (spec_events cfg B (call_events (I, J, Munmap p)) c) = (c_allocs c)(p := None)"
  using assms by (simp_all add: call_step_def without_def spec_run)

subsection \<open>The tracker follows the calls\<close>

lemma agrees_call:
  assumes "agrees T m c" and "finite T" and "card T \<le> COMBINED_ALLOCS_MAX_ENTRIES"
    and "stack_of cfg J \<in> T" and "call_followed cfg (I, J, f) m"
  shows "agrees T (call_step cfg (I, J, f) m) (spec_call cfg (I, J, f) c)"
proof -
  let ?m = "without (forgets f) m"
  let ?c = "case forgets f of None \<Rightarrow> c | Some p \<Rightarrow> spec_free p c"
  have ok: "understood J f" "current_pid J = current_pid I"
    using assms(5) by (simp_all add: call_followed_def)
  note same = call_step_understood [OF ok(1)]
  have m: "agrees T ?m ?c" using assms(1) by (simp add: without_def agrees_free split: option.split)
  show ?thesis
  proof (cases "requests f")
    case None
    then show ?thesis using m by (simp add: call_step_def spec_call_def same)
  next
    case (Some n)
    let ?a = "returned J f"
    have "alloc_admitted cfg I n \<and> ?a \<noteq> 0 \<longrightarrow> ?m ?a = None \<and> card (dom ?m) < ALLOCS_MAX_ENTRIES"
      using assms(5) Some by (auto simp: call_followed_def same unless_null_def Let_def)
    from agrees_alloc [OF m assms(2-4) ok(2) this] show ?thesis
      using Some by (auto simp: call_step_def spec_call_def same unless_null_def Let_def)
  qed
qed

lemma agrees_calls:
  assumes "finite T" and "card T \<le> COMBINED_ALLOCS_MAX_ENTRIES"
  shows "agrees T m c \<Longrightarrow> c_memptrs c = Map.empty \<Longrightarrow> call_stacks cfg xs \<subseteq> T \<Longrightarrow>
    calls_followed cfg xs m \<Longrightarrow>
    agrees T (outstanding cfg xs m) (spec_events cfg B (concat (map call_events xs)) c)"
proof (induction xs arbitrary: m c)
  case (Cons x xs)
  obtain I J f where x: "x = (I, J, f)" by (metis prod_cases3)
  have "stack_of cfg J \<in> T" using Cons.prems(3) by (simp add: x call_stacks_def)
  with agrees_call [OF Cons.prems(1) assms] Cons.prems(4)
  have "agrees T (call_step cfg x m) (spec_call cfg x c)" by (simp add: x)
  moreover have "spec_events cfg B (call_events x) c = spec_call cfg x c"
    using Cons.prems(2,4) call_contents by (simp add: x call_followed_def)
  ultimately show ?case
    using Cons.IH [of "call_step cfg x m" "spec_call cfg x c"] Cons.prems
    by (simp add: call_stacks_def spec_call_memptrs spec_events_def)
qed (simp add: spec_events_def)

lemma libc_trace_agrees:
  assumes "memleak_kernel K" and "maps_valid K s" and "contents_of K s = no_contents"
    and "calls_followed cfg xs Map.empty"
    and "card (call_stacks cfg xs) \<le> COMBINED_ALLOCS_MAX_ENTRIES"
  shows "agrees (call_stacks cfg xs) (outstanding cfg xs Map.empty)
    (contents_of K (run_events K cfg B (concat (map call_events xs)) s))"
proof -
  let ?c = "contents_of K (run_events K cfg B (concat (map call_events xs)) s)"
  have "?c = spec_events cfg B (concat (map call_events xs)) no_contents"
    using memleak_kernel.run_contents [OF assms(1,2)] assms(3) by simp
  moreover have "finite (call_stacks cfg xs)" by (simp add: call_stacks_def)
  moreover have "c_memptrs no_contents = Map.empty" by (simp add: no_contents_def)
  ultimately show ?thesis
    using agrees_calls [OF _ assms(5) agrees_empty _ order_refl assms(4)] by simp
qed


text \<open>A calloc of three times 16 bytes, a realloc of its block to 100, a posix_memalign of 512, and the
  free of the realloc's block.\<close>

definition demo_calls :: "traced_call list" where
  "demo_calls =
     [(call 0 5, call 4096 5, Calloc 3 16),
      (call 0 5, call 8192 6, Realloc 4096 100),
      (call 0 5, (call 0 6)\<lparr>probe_read_user := [256 \<mapsto> 16384]\<rparr>, Posix_memalign 256 64 512),
      (call 0 5, call 0 5, Free 8192)]"

lemma demo_outstanding_blocks:
  "calls_followed default_config demo_calls Map.empty"
  "outstanding default_config demo_calls Map.empty =
     [16384 \<mapsto> \<lparr>ai_size = 512, ai_timestamp_ns = 200, ai_stack_id = 6\<rparr>]"
  "call_stacks default_config demo_calls = {5, 6}"
  by (simp_all add: demo_calls_def call_followed_def call_step_def without_def unless_null_def
      default_config_def alloc_admitted_def exit_info_def call_stacks_def stack_of_def stack_key_def
      ALLOCS_MAX_ENTRIES_def call_def current_pid_def current_pid64_def Let_def fun_eq_iff
      insert_commute)


end
