(* ===== verification/CLayout.thy ===== *)
theory CLayout
  imports Prelude
begin

text \<open>
  C types as data and their layout in memory by the x86-64 System V rules, for the types of
  \<open>vmlinux.h\<close> and \<open>memleak.h\<close>: sizes and alignments, the places of members and bit-fields, and
  the fields of a type with those of its anonymous members. Offsets and widths are in bits.

  A reference to a struct, union, enum or typedef behind a pointer is by name (\<open>Named\<close>); a type
  used by value is embedded. The collection \<open>layout_simps\<close> evaluates layouts, and gathers the
  size, the alignment and the well-formedness of every modelled type.
\<close>

named_theorems layout_simps

subsection \<open>Types\<close>

datatype base = Bool8 | Char8 | UChar8 | Short16 | UShort16 | Int32 | UInt32 | Long64 | ULong64
  | LongLong64 | ULongLong64 | UInt128

fun base_size :: "base \<Rightarrow> nat" where
  "base_size Bool8 = 1" | "base_size Char8 = 1" | "base_size UChar8 = 1"
| "base_size Short16 = 2" | "base_size UShort16 = 2"
| "base_size Int32 = 4" | "base_size UInt32 = 4"
| "base_size Long64 = 8" | "base_size ULong64 = 8"
| "base_size LongLong64 = 8" | "base_size ULongLong64 = 8"
| "base_size UInt128 = 16"

datatype tag = Struct | Union

datatype name_kind = Struct_name | Union_name | Enum_name | Typedef_name

datatype ctype =
    Void
  | Scalar base
  | Enum "(string \<times> int) list"
  | Pointer ctype
  | Function ctype "ctype list"
  | Array ctype nat
  | Named name_kind string
  | Composite tag bool "member list"
and member =
    Member string ctype
  | Anonymous ctype
  | Bitfield string ctype nat
  | Padding ctype nat

subsection \<open>Placing members\<close>

text \<open>What the layout needs of a member: size and alignment in bytes; of a bit-field also the
  width. An unnamed bit-field moves its successors but does not align the whole.\<close>

datatype slot = Whole nat nat | Bits nat nat nat | Gap nat nat nat

fun slot_bits :: "slot \<Rightarrow> nat" where
  "slot_bits (Whole n a) = 8 * n" | "slot_bits (Bits n a w) = w" | "slot_bits (Gap n a w) = w"

fun slot_align :: "slot \<Rightarrow> nat" where
  "slot_align (Whole n a) = a" | "slot_align (Bits n a w) = a" | "slot_align (Gap n a w) = 1"

definition round_up :: "nat \<Rightarrow> nat \<Rightarrow> nat" where
  "round_up a n = (n + (a - 1)) div a * a"

text \<open>A bit-field goes at the next bit, or at the next storage unit of its type where it would
  cross one; one of width 0 ends the unit. Packing ignores alignments.\<close>

definition bits_start :: "bool \<Rightarrow> nat \<Rightarrow> nat \<Rightarrow> nat \<Rightarrow> nat \<Rightarrow> nat" where
  "bits_start pk b n a w =
     (if w = 0 then round_up (8 * a) b
      else if pk \<or> b div (8 * n) = (b + (w - 1)) div (8 * n) then b
      else round_up (8 * a) b)"

fun slot_start :: "bool \<Rightarrow> nat \<Rightarrow> slot \<Rightarrow> nat" where
  "slot_start pk b (Whole n a) = round_up (if pk then 8 else 8 * a) b"
| "slot_start pk b (Bits n a w) = bits_start pk b n a w"
| "slot_start pk b (Gap n a w) = bits_start pk b n a w"

fun place :: "bool \<Rightarrow> nat \<Rightarrow> slot list \<Rightarrow> (nat \<times> nat) list" where
  "place pk b [] = []"
| "place pk b (s # ss) =
     (slot_start pk b s, slot_bits s) # place pk (slot_start pk b s + slot_bits s) ss"

fun extent :: "bool \<Rightarrow> nat \<Rightarrow> slot list \<Rightarrow> nat" where
  "extent pk b [] = b"
| "extent pk b (s # ss) = extent pk (slot_start pk b s + slot_bits s) ss"

fun places :: "tag \<Rightarrow> bool \<Rightarrow> slot list \<Rightarrow> (nat \<times> nat) list" where
  "places Struct pk ss = place pk 0 ss"
| "places Union pk ss = map (\<lambda>s. (0, slot_bits s)) ss"

fun total_bits :: "tag \<Rightarrow> bool \<Rightarrow> slot list \<Rightarrow> nat" where
  "total_bits Struct pk ss = extent pk 0 ss"
| "total_bits Union pk ss = foldr (\<lambda>s m. max (slot_bits s) m) ss 0"

definition slots_align :: "bool \<Rightarrow> slot list \<Rightarrow> nat" where
  "slots_align pk ss = (if pk then 1 else foldr (\<lambda>s m. max (slot_align s) m) ss 1)"

definition composite_shape :: "tag \<Rightarrow> bool \<Rightarrow> slot list \<Rightarrow> nat \<times> nat" where
  "composite_shape k pk ss =
     (let a = slots_align pk ss in (round_up a ((total_bits k pk ss + 7) div 8), a))"

subsection \<open>Sizes, alignments and fields of types\<close>

definition enum_fits :: "(string \<times> int) list \<Rightarrow> bool" where
  "enum_fits vs \<longleftrightarrow> list_all (\<lambda>(n, v). - (2 ^ 31) \<le> v \<and> v < 2 ^ 32) vs"

text \<open>Size and alignment. (Incomplete types and functions have none; they get size 0.)\<close>

primrec shape :: "ctype \<Rightarrow> nat \<times> nat" and slot_of :: "member \<Rightarrow> slot" where
  "shape Void = (0, 1)"
| "shape (Scalar b) = (base_size b, base_size b)"
| "shape (Enum vs) = (if enum_fits vs then (4, 4) else (8, 8))"
| "shape (Pointer t) = (8, 8)"
| "shape (Function t ts) = (0, 1)"
| "shape (Array t n) = (n * fst (shape t), snd (shape t))"
| "shape (Named k n) = (0, 1)"
| "shape (Composite k pk ms) = composite_shape k pk (map slot_of ms)"
| "slot_of (Member f t) = Whole (fst (shape t)) (snd (shape t))"
| "slot_of (Anonymous t) = Whole (fst (shape t)) (snd (shape t))"
| "slot_of (Bitfield f t w) = Bits (fst (shape t)) (snd (shape t)) w"
| "slot_of (Padding t w) = Gap (fst (shape t)) (snd (shape t)) w"

abbreviation size_of :: "ctype \<Rightarrow> nat" where "size_of t \<equiv> fst (shape t)"
abbreviation align_of :: "ctype \<Rightarrow> nat" where "align_of t \<equiv> snd (shape t)"

text \<open>A field: its name, first bit, width in bits and type.\<close>

type_synonym field = "string \<times> nat \<times> nat \<times> ctype"

definition shift_field :: "nat \<Rightarrow> field \<Rightarrow> field" where
  "shift_field d = (\<lambda>(f, o', w, t). (f, d + o', w, t))"

lemma shift_field_simps [layout_simps]: "shift_field d (f, p, w, t) = (f, d + p, w, t)"
  by (simp add: shift_field_def)

text \<open>The fields of a struct or union, one list for each member: an anonymous member contributes
  the fields of its type.\<close>

primrec field_groups :: "ctype \<Rightarrow> field list list" and member_fields :: "member \<Rightarrow> field list" where
  "field_groups Void = []"
| "field_groups (Scalar b) = []"
| "field_groups (Enum vs) = []"
| "field_groups (Pointer t) = []"
| "field_groups (Function t ts) = []"
| "field_groups (Array t n) = []"
| "field_groups (Named k n) = []"
| "field_groups (Composite k pk ms) =
     map2 (\<lambda>p fs. map (shift_field (fst p)) fs) (places k pk (map slot_of ms)) (map member_fields ms)"
| "member_fields (Member f t) = [(f, 0, 8 * size_of t, t)]"
| "member_fields (Anonymous t) = concat (field_groups t)"
| "member_fields (Bitfield f t w) = [(f, 0, w, t)]"
| "member_fields (Padding t w) = []"

definition fields :: "ctype \<Rightarrow> field list" where
  "fields t = concat (field_groups t)"

definition field_at :: "ctype \<Rightarrow> string \<Rightarrow> (nat \<times> nat \<times> ctype) option" where
  "field_at t f = map_of (fields t) f"

text \<open>Looking up a field of a struct member by member: \<open>find_here\<close> looks at a member placed at \<open>p\<close>.\<close>

fun find_field :: "bool \<Rightarrow> nat \<Rightarrow> member list \<Rightarrow> string \<Rightarrow> (nat \<times> nat \<times> ctype) option"
  and find_here :: "bool \<Rightarrow> nat \<Rightarrow> member \<Rightarrow> member list \<Rightarrow> string \<Rightarrow> (nat \<times> nat \<times> ctype) option" where
  "find_field pk b [] f = None"
| "find_field pk b (m # ms) f = find_here pk (slot_start pk b (slot_of m)) m ms f"
| "find_here pk p m ms f =
     (case map_of (member_fields m) f of
        Some (q, w, u) \<Rightarrow> Some (p + q, w, u)
      | None \<Rightarrow> find_field pk (p + slot_bits (slot_of m)) ms f)"

lemma map_of_shift:
  "map_of (map (shift_field d) fs) f = map_option (\<lambda>(p, w, u). (d + p, w, u)) (map_of fs f)"
  by (induction fs) (auto simp: shift_field_def)

lemma field_at_struct: "field_at (Composite Struct pk ms) f = find_field pk 0 ms f"
proof -
  have "map_of (concat (map2 (\<lambda>p fs. map (shift_field (fst p)) fs) (place pk b (map slot_of ms))
      (map member_fields ms))) f = find_field pk b ms f" for b
    by (induction ms arbitrary: b)
      (auto simp: Let_def map_of_shift map_add_def split: option.splits)
  then show ?thesis by (simp add: field_at_def fields_def)
qed

subsection \<open>Well-formed types\<close>

fun integral :: "ctype \<Rightarrow> bool" where
  "integral (Scalar b) = True" | "integral (Enum vs) = enum_fits vs" | "integral t = False"

fun composite :: "ctype \<Rightarrow> bool" where
  "composite (Composite k pk ms) = True" | "composite t = False"

text \<open>A complete object type: every member is complete, an anonymous member is a struct or
  union, a bit-field has an integer type and fits in it.\<close>

primrec wf_type :: "ctype \<Rightarrow> bool" and wf_member :: "member \<Rightarrow> bool" where
  "wf_type Void = False"
| "wf_type (Scalar b) = True"
| "wf_type (Enum vs) = (enum_fits vs \<and> distinct (map fst vs))"
| "wf_type (Pointer t) = True"
| "wf_type (Function t ts) = False"
| "wf_type (Array t n) = wf_type t"
| "wf_type (Named k n) = False"
| "wf_type (Composite k pk ms) = list_all (\<lambda>b. b) (map wf_member ms)"
| "wf_member (Member f t) = wf_type t"
| "wf_member (Anonymous t) = (wf_type t \<and> composite t)"
| "wf_member (Bitfield f t w) = (wf_type t \<and> integral t \<and> 0 < w \<and> w \<le> 8 * size_of t)"
| "wf_member (Padding t w) = (wf_type t \<and> integral t \<and> w \<le> 8 * size_of t)"


lemmas layout_eval = round_up_def bits_start_def slots_align_def composite_shape_def enum_fits_def
  Let_def

subsection \<open>Soundness of the layout\<close>

lemma round_up_ge: "0 < a \<Longrightarrow> n \<le> round_up a n"
proof -
  assume "0 < a"
  then have "(n + (a - 1)) mod a \<le> a - 1" using mod_less_divisor [of a] by (simp add: less_Suc_eq_le [symmetric])
  moreover have "(n + (a - 1)) div a * a + (n + (a - 1)) mod a = n + (a - 1)" by simp
  ultimately show ?thesis unfolding round_up_def by linarith
qed

lemma round_up_dvd: "a dvd round_up a n"
  by (simp add: round_up_def)

text \<open>A usable slot has a positive alignment, and a bit-field fits its storage unit.\<close>

fun slot_ok :: "slot \<Rightarrow> bool" where
  "slot_ok (Whole n a) = (\<exists>k. a = 2 ^ k)"
| "slot_ok (Bits n a w) = ((\<exists>k. a = 2 ^ k) \<and> n = a \<and> 0 < w \<and> w \<le> 8 * n)"
| "slot_ok (Gap n a w) = ((\<exists>k. a = 2 ^ k) \<and> n = a \<and> w \<le> 8 * n)"

lemma bits_start_ge: "0 < a \<Longrightarrow> b \<le> bits_start pk b n a w"
  by (simp add: bits_start_def round_up_ge)

lemma slot_start_ge: "slot_ok s \<Longrightarrow> b \<le> slot_start pk b s"
  by (cases s) (auto simp: round_up_ge bits_start_ge)

lemma extent_ge: "list_all slot_ok ss \<Longrightarrow> b \<le> extent pk b ss"
proof (induction ss arbitrary: b)
  case (Cons s ss)
  then have "b \<le> slot_start pk b s" by (simp add: slot_start_ge)
  also have "\<dots> \<le> extent pk b (s # ss)" using Cons by simp (metis add_leE)
  finally show ?case .
qed simp

lemma place_bounds:
  "list_all slot_ok ss \<Longrightarrow> (p, l) \<in> set (place pk b ss) \<Longrightarrow> b \<le> p \<and> p + l \<le> extent pk b ss"
proof (induction ss arbitrary: b)
  case (Cons s ss)
  let ?b = "slot_start pk b s"
  have ge: "b \<le> ?b" "?b + slot_bits s \<le> extent pk (?b + slot_bits s) ss"
    using Cons.prems(1) by (simp_all add: slot_start_ge extent_ge)
  from Cons.prems(2) consider "p = ?b" "l = slot_bits s"
    | "(p, l) \<in> set (place pk (?b + slot_bits s) ss)"
    by (auto simp: Let_def)
  then show ?case
  proof cases
    case 2
    with Cons.IH [of "?b + slot_bits s"] Cons.prems(1) ge show ?thesis by simp
  qed (use ge in simp)
qed simp

text \<open>The places of a struct's members follow each other without overlap.\<close>

lemma place_sorted:
  "list_all slot_ok ss \<Longrightarrow> sorted_wrt (\<lambda>p q. fst p + snd p \<le> fst q) (place pk b ss)"
proof (induction ss arbitrary: b)
  case (Cons s ss)
  then show ?case
    using place_bounds [of ss _ _ pk "slot_start pk b s + slot_bits s"] by (auto simp: Let_def)
qed simp

lemma place_length: "length (place pk b ss) = length ss"
  by (induction ss arbitrary: b) (simp_all add: Let_def)

lemma places_length: "length (places k pk ss) = length ss"
  by (cases k) (simp_all add: place_length)

lemma place_widths: "map snd (place pk b ss) = map slot_bits ss"
  by (induction ss arbitrary: b) (simp_all add: Let_def)

lemma places_widths: "map snd (places k pk ss) = map slot_bits ss"
  by (cases k) (simp_all add: place_widths o_def)

lemma foldr_max_ge: "s \<in> set ss \<Longrightarrow> f s \<le> foldr (\<lambda>s m. max (f s) m) ss (d :: nat)"
  by (induction ss) auto

lemma places_bounds:
  assumes "list_all slot_ok ss" and "(p, l) \<in> set (places k pk ss)"
  shows "p + l \<le> total_bits k pk ss"
  using assms place_bounds [of ss p l pk 0] foldr_max_ge [of _ ss slot_bits 0] by (cases k) auto

text \<open>Aligned places: of a member, and of a bit-field as wide as its type.\<close>

lemma full_unit:
  assumes "0 < (n :: nat)" and "b div n = (b + (n - 1)) div n"
  shows "n dvd b"
proof -
  have "b mod n + (n - 1) < n"
  proof (rule ccontr)
    assume "\<not> b mod n + (n - 1) < n"
    moreover have "b + (n - 1) = n * (b div n) + (b mod n + (n - 1))" by simp
    ultimately have "n * Suc (b div n) \<le> b + (n - 1)"
      by (metis add_le_mono1 mult_Suc_right add.commute not_less)
    then have "Suc (b div n) \<le> (b + (n - 1)) div n"
      using assms(1) by (simp add: less_eq_div_iff_mult_less_eq mult.commute)
    with assms(2) show False by simp
  qed
  then show ?thesis using assms(1) by (simp add: dvd_eq_mod_eq_0)
qed

lemma bits_start_aligned:
  "0 < n \<Longrightarrow> bits_start False b n n (8 * n) mod (8 * n) = 0"
  using round_up_dvd [of "8 * n" b] full_unit [of "8 * n" b]
  by (auto simp: bits_start_def dvd_eq_mod_eq_0)

lemma slot_start_aligned:
  "slot_ok s \<Longrightarrow> s = Whole n a \<or> s = Bits n a (8 * n) \<Longrightarrow> 8 * a dvd slot_start False b s"
  using round_up_dvd [of "8 * a" b] bits_start_aligned [of n b]
  by (auto simp: dvd_eq_mod_eq_0)


subsection \<open>Well-formed types are laid out soundly\<close>

lemma base_size_power: "\<exists>k. base_size b = 2 ^ k"
  by (cases b) (auto intro: exI [of _ 0] exI [of _ 1] exI [of _ 2] exI [of _ 3] exI [of _ 4])

lemma integral_shape: "integral t \<Longrightarrow> size_of t = align_of t"
  by (cases t) simp_all

lemma slots_align_power:
  assumes "list_all slot_ok ss" shows "\<exists>k. slots_align pk ss = 2 ^ k"
proof -
  have one: "\<exists>k. (1 :: nat) = 2 ^ k" by (rule exI [of _ 0]) simp
  have "\<exists>k. slot_align s = 2 ^ k" if "slot_ok s" for s
    using that one by (cases s) auto
  then have "\<exists>k. foldr (\<lambda>s m. max (slot_align s) m) ss 1 = 2 ^ k"
    using assms one by (induction ss) (auto simp: max_def)
  then show ?thesis using one by (simp add: slots_align_def)
qed

lemma wf_slots: "list_all (\<lambda>b. b) (map wf_member ms) \<Longrightarrow>
   (\<And>m. m \<in> set ms \<Longrightarrow> wf_member m \<Longrightarrow> slot_ok (slot_of m)) \<Longrightarrow>
   list_all slot_ok (map slot_of ms)"
  by (auto simp: list_all_iff)

lemma wf_shape:
  "wf_type t \<Longrightarrow> (\<exists>k. align_of t = 2 ^ k) \<and> align_of t dvd size_of t"
  "wf_member m \<Longrightarrow> slot_ok (slot_of m)"
proof (induction t and m)
  case (Enum vs)
  then show ?case by (auto intro: exI [of _ 2])
next
  case (Pointer t)
  then show ?case by (auto intro: exI [of _ 3])
next
  case (Composite k pk ms)
  then have "list_all slot_ok (map slot_of ms)"
    by (intro wf_slots) simp_all
  from slots_align_power [OF this, of pk] show ?case
    by (auto simp: composite_shape_def Let_def round_up_dvd)
next
  case (Bitfield f t w)
  then show ?case using integral_shape [of t] by simp
next
  case (Padding t w)
  then show ?case using integral_shape [of t] by simp
qed (simp_all add: base_size_power)

lemma wf_slot_list: "wf_type (Composite k pk ms) \<Longrightarrow> list_all slot_ok (map slot_of ms)"
  by (rule wf_slots) (simp_all add: wf_shape)

text \<open>The fields of a member lie within the member's place, those of a struct or union within its
  size.\<close>

lemma total_within: "total_bits k pk ss \<le> 8 * fst (composite_shape k pk ss)" if "list_all slot_ok ss"
proof -
  have "0 < slots_align pk ss" using slots_align_power [OF that, of pk] by auto
  then have "(total_bits k pk ss + 7) div 8 \<le> fst (composite_shape k pk ss)"
    by (simp add: composite_shape_def Let_def round_up_ge)
  then show ?thesis by linarith
qed

lemma fields_within:
  "wf_type t \<Longrightarrow> (f, p, w, u) \<in> set (fields t) \<Longrightarrow> p + w \<le> 8 * size_of t"
  "wf_member m \<Longrightarrow> (f, p, w, u) \<in> set (member_fields m) \<Longrightarrow> p + w \<le> slot_bits (slot_of m)"
proof (induction t and m arbitrary: p and p)
  case (Composite k pk ms)
  let ?ss = "map slot_of ms"
  have ok: "list_all slot_ok ?ss" using Composite.prems(1) by (rule wf_slot_list)
  from Composite.prems(2) obtain i q where i: "i < length ms"
    and q: "(f, q, w, u) \<in> set (member_fields (ms ! i))" "p = fst (places k pk ?ss ! i) + q"
    by (auto simp: fields_def in_set_zip shift_field_def places_length)
  have "map snd (places k pk ?ss) ! i = map slot_bits ?ss ! i"
    by (simp only: places_widths)
  then have width: "snd (places k pk ?ss ! i) = slot_bits (slot_of (ms ! i))"
    using i by (simp add: places_length)
  have "ms ! i \<in> set ms" using i by simp
  with Composite.IH [of "ms ! i" q] Composite.prems(1) q(1)
  have "q + w \<le> slot_bits (slot_of (ms ! i))" by (auto simp: list_all_iff)
  moreover have "places k pk ?ss ! i \<in> set (places k pk ?ss)"
    using i by (simp add: places_length)
  then have "fst (places k pk ?ss ! i) + snd (places k pk ?ss ! i) \<le> total_bits k pk ?ss"
    using places_bounds [OF ok] by (metis prod.collapse)
  ultimately show ?case using total_within [OF ok, of k pk] q(2) width by simp
next
  case (Anonymous t)
  then show ?case by (simp add: fields_def)
qed (simp_all add: fields_def)

text \<open>The fields of different members of a struct do not overlap.\<close>

definition before :: "field \<Rightarrow> field \<Rightarrow> bool" where
  "before = (\<lambda>(f, p, w, t) (f', p', w', t'). p + w \<le> p')"

lemma groups_length: "length (field_groups (Composite k pk ms)) = length ms"
  by (simp add: places_length)

lemma struct_fields_apart:
  assumes "wf_type (Composite Struct pk ms)" and "i < j" and "j < length ms"
    and "x \<in> set (field_groups (Composite Struct pk ms) ! i)"
    and "y \<in> set (field_groups (Composite Struct pk ms) ! j)"
  shows "before x y"
proof -
  let ?ss = "map slot_of ms"
  let ?ps = "place pk 0 ?ss"
  have ok: "list_all slot_ok ?ss" using assms(1) by (rule wf_slot_list)
  obtain f p w t where x: "(f, p, w, t) \<in> set (member_fields (ms ! i))"
    "x = (f, fst (?ps ! i) + p, w, t)"
    using assms(2-4) by (auto simp: shift_field_def place_length)
  obtain f' p' w' t' where y: "y = (f', fst (?ps ! j) + p', w', t')"
    using assms(2,3,5) by (auto simp: shift_field_def place_length)
  have "map snd ?ps ! i = map slot_bits ?ss ! i" by (simp only: place_widths)
  then have width: "snd (?ps ! i) = slot_bits (slot_of (ms ! i))"
    using assms(2,3) by (simp add: place_length)
  have "wf_member (ms ! i)" using assms(1-3) by (simp add: list_all_length)
  from fields_within(2) [OF this x(1)] have "p + w \<le> slot_bits (slot_of (ms ! i))" .
  moreover have "fst (?ps ! i) + snd (?ps ! i) \<le> fst (?ps ! j)"
    using sorted_wrt_nth_less [OF place_sorted [OF ok] assms(2)] assms(3) by (simp add: place_length)
  ultimately show ?thesis using x(2) y width by (simp add: before_def)
qed


fun is_struct :: "ctype \<Rightarrow> bool" where
  "is_struct (Composite Struct pk ms) = True" | "is_struct t = False"

lemma struct_groups_apart:
  "wf_type t \<Longrightarrow> is_struct t \<Longrightarrow> i < j \<Longrightarrow> j < length (field_groups t) \<Longrightarrow>
   x \<in> set (field_groups t ! i) \<Longrightarrow> y \<in> set (field_groups t ! j) \<Longrightarrow> before x y"
  using struct_fields_apart
  by (cases t rule: is_struct.cases) (auto simp del: field_groups.simps wf_type.simps simp: groups_length)

text \<open>Without packing, every field that is not a narrow bit-field is aligned for its type.\<close>

primrec natural :: "ctype \<Rightarrow> bool" and natural_member :: "member \<Rightarrow> bool" where
  "natural Void = True"
| "natural (Scalar b) = True"
| "natural (Enum vs) = True"
| "natural (Pointer t) = True"
| "natural (Function t ts) = True"
| "natural (Array t n) = True"
| "natural (Named k n) = True"
| "natural (Composite k pk ms) = (\<not> pk \<and> list_all (\<lambda>b. b) (map natural_member ms))"
| "natural_member (Member f t) = True"
| "natural_member (Anonymous t) = natural t"
| "natural_member (Bitfield f t w) = True"
| "natural_member (Padding t w) = True"

lemma power_le_dvd: "\<exists>i. a = 2 ^ i \<Longrightarrow> \<exists>j. b = 2 ^ j \<Longrightarrow> a \<le> b \<Longrightarrow> a dvd (b :: nat)"
  by (auto simp: le_imp_power_dvd)

lemma slot_align_power: "slot_ok s \<Longrightarrow> \<exists>k. slot_align s = 2 ^ k"
  by (cases s) (auto intro: exI [of _ 0])

lemma slot_align_dvd:
  assumes "list_all slot_ok ss" and "s \<in> set ss"
  shows "slot_align s dvd slots_align False ss"
proof (rule power_le_dvd)
  show "\<exists>i. slot_align s = 2 ^ i" using assms by (simp add: slot_align_power list_all_iff)
  show "\<exists>j. slots_align False ss = 2 ^ j" using assms(1) by (rule slots_align_power)
  show "slot_align s \<le> slots_align False ss"
    using foldr_max_ge [OF assms(2), of slot_align 1] by (simp add: slots_align_def)
qed

lemma place_aligned:
  "list_all slot_ok ss \<Longrightarrow> i < length ss \<Longrightarrow> ss ! i = Whole n a \<or> ss ! i = Bits n a (8 * n) \<Longrightarrow>
   8 * a dvd fst (place False b ss ! i)"
proof (induction ss arbitrary: b i)
  case (Cons s ss)
  then show ?case
    using slot_start_aligned [of s n a b] by (cases i) (auto simp: Let_def)
qed simp

lemma places_aligned:
  "list_all slot_ok ss \<Longrightarrow> i < length ss \<Longrightarrow> ss ! i = Whole n a \<or> ss ! i = Bits n a (8 * n) \<Longrightarrow>
   8 * a dvd fst (places k False ss ! i)"
  by (cases k) (simp_all add: place_aligned)

lemma member_fields_slot:
  "(f, p, w, u) \<in> set (member_fields m) \<Longrightarrow> w = 8 * size_of u \<Longrightarrow> wf_member m \<Longrightarrow>
   \<exists>n a. a = slot_align (slot_of m) \<and> (slot_of m = Whole n a \<or> slot_of m = Bits n a (8 * n))"
  by (cases m) auto

lemma fields_aligned:
  "wf_type t \<Longrightarrow> natural t \<Longrightarrow> (f, p, w, u) \<in> set (fields t) \<Longrightarrow> w = 8 * size_of u \<Longrightarrow>
     8 * align_of u dvd p \<and> align_of u dvd align_of t"
  "wf_member m \<Longrightarrow> natural_member m \<Longrightarrow> (f, p, w, u) \<in> set (member_fields m) \<Longrightarrow>
     w = 8 * size_of u \<Longrightarrow> 8 * align_of u dvd p \<and> align_of u dvd slot_align (slot_of m)"
proof (induction t and m arbitrary: p and p)
  case (Composite k pk ms)
  let ?ss = "map slot_of ms"
  have ok: "list_all slot_ok ?ss" using Composite.prems(1) by (rule wf_slot_list)
  have pk: "\<not> pk" using Composite.prems(2) by simp
  from Composite.prems(3) obtain i q where i: "i < length ms"
    and q: "(f, q, w, u) \<in> set (member_fields (ms ! i))" "p = fst (places k pk ?ss ! i) + q"
    by (auto simp: fields_def in_set_zip shift_field_def places_length)
  have m: "ms ! i \<in> set ms" "wf_member (ms ! i)" "natural_member (ms ! i)"
    using i Composite.prems(1,2) by (simp_all add: list_all_length)
  have u: "8 * align_of u dvd q" "align_of u dvd slot_align (slot_of (ms ! i))"
    using Composite.IH [OF m(1-3) q(1) Composite.prems(4)] by simp_all
  have "8 * slot_align (slot_of (ms ! i)) dvd fst (places k False ?ss ! i)"
    using member_fields_slot [OF q(1) Composite.prems(4) m(2)] places_aligned [OF ok, of i] i
    by auto
  with u(2) have "8 * align_of u dvd fst (places k False ?ss ! i)"
    by (metis dvd_trans mult_dvd_mono dvd_refl)
  moreover have "slot_align (slot_of (ms ! i)) dvd slots_align False ?ss"
    using i by (intro slot_align_dvd [OF ok]) simp
  ultimately show ?case
    using u q(2) pk by (auto simp: composite_shape_def Let_def)
next
  case (Anonymous t)
  then show ?case by (simp add: fields_def)
qed (simp_all add: fields_def)

end
