(* ===== verification/VmlinuxBase.thy ===== *)
theory VmlinuxBase
  imports CLayout
begin

text \<open>
  Kernel types: typedefs and small types of \<open>bpf/vmlinux.h\<close> that several of the
  types below embed: machine integers, lists, locks, reference counts, timers, red-black and
  maple trees. Each definition is one declaration of the header, in the order of use; a lemma
  with each gives its size and alignment in bytes.
\<close>

definition typedef___u8 :: ctype where
  "typedef___u8 = Scalar UChar8"

lemma typedef___u8_layout [layout_simps]:
  "integral typedef___u8" "wf_type typedef___u8" "shape typedef___u8 = (1, 1)"
  by (simp_all del: One_nat_def add: typedef___u8_def layout_eval layout_simps)

definition typedef___u16 :: ctype where
  "typedef___u16 = Scalar UShort16"

lemma typedef___u16_layout [layout_simps]:
  "integral typedef___u16" "wf_type typedef___u16" "shape typedef___u16 = (2, 2)"
  by (simp_all del: One_nat_def add: typedef___u16_def layout_eval layout_simps)

definition typedef___u32 :: ctype where
  "typedef___u32 = Scalar UInt32"

lemma typedef___u32_layout [layout_simps]:
  "integral typedef___u32" "wf_type typedef___u32" "shape typedef___u32 = (4, 4)"
  by (simp_all del: One_nat_def add: typedef___u32_def layout_eval layout_simps)

definition typedef___s64 :: ctype where
  "typedef___s64 = Scalar LongLong64"

lemma typedef___s64_layout [layout_simps]:
  "integral typedef___s64" "wf_type typedef___s64" "shape typedef___s64 = (8, 8)"
  by (simp_all del: One_nat_def add: typedef___s64_def layout_eval layout_simps)

definition typedef___u64 :: ctype where
  "typedef___u64 = Scalar ULongLong64"

lemma typedef___u64_layout [layout_simps]:
  "integral typedef___u64" "wf_type typedef___u64" "shape typedef___u64 = (8, 8)"
  by (simp_all del: One_nat_def add: typedef___u64_def layout_eval layout_simps)

definition typedef_u8 :: ctype where
  "typedef_u8 = typedef___u8"

lemma typedef_u8_layout [layout_simps]:
  "integral typedef_u8" "wf_type typedef_u8" "shape typedef_u8 = (1, 1)"
  by (simp_all del: One_nat_def add: typedef_u8_def layout_eval layout_simps)

definition typedef_u16 :: ctype where
  "typedef_u16 = typedef___u16"

lemma typedef_u16_layout [layout_simps]:
  "integral typedef_u16" "wf_type typedef_u16" "shape typedef_u16 = (2, 2)"
  by (simp_all del: One_nat_def add: typedef_u16_def layout_eval layout_simps)

definition typedef_u32 :: ctype where
  "typedef_u32 = typedef___u32"

lemma typedef_u32_layout [layout_simps]:
  "integral typedef_u32" "wf_type typedef_u32" "shape typedef_u32 = (4, 4)"
  by (simp_all del: One_nat_def add: typedef_u32_def layout_eval layout_simps)

definition typedef_s64 :: ctype where
  "typedef_s64 = typedef___s64"

lemma typedef_s64_layout [layout_simps]:
  "integral typedef_s64" "wf_type typedef_s64" "shape typedef_s64 = (8, 8)"
  by (simp_all del: One_nat_def add: typedef_s64_def layout_eval layout_simps)

definition typedef_u64 :: ctype where
  "typedef_u64 = typedef___u64"

lemma typedef_u64_layout [layout_simps]:
  "integral typedef_u64" "wf_type typedef_u64" "shape typedef_u64 = (8, 8)"
  by (simp_all del: One_nat_def add: typedef_u64_def layout_eval layout_simps)

definition typedef___kernel_ulong_t :: ctype where
  "typedef___kernel_ulong_t = Scalar ULong64"

lemma typedef___kernel_ulong_t_layout [layout_simps]:
  "integral typedef___kernel_ulong_t" "wf_type typedef___kernel_ulong_t" "shape typedef___kernel_ulong_t = (8, 8)"
  by (simp_all del: One_nat_def add: typedef___kernel_ulong_t_def layout_eval layout_simps)

definition typedef___kernel_uid32_t :: ctype where
  "typedef___kernel_uid32_t = Scalar UInt32"

lemma typedef___kernel_uid32_t_layout [layout_simps]:
  "integral typedef___kernel_uid32_t" "wf_type typedef___kernel_uid32_t" "shape typedef___kernel_uid32_t = (4, 4)"
  by (simp_all del: One_nat_def add: typedef___kernel_uid32_t_def layout_eval layout_simps)

definition typedef___kernel_size_t :: ctype where
  "typedef___kernel_size_t = typedef___kernel_ulong_t"

lemma typedef___kernel_size_t_layout [layout_simps]:
  "integral typedef___kernel_size_t" "wf_type typedef___kernel_size_t" "shape typedef___kernel_size_t = (8, 8)"
  by (simp_all del: One_nat_def add: typedef___kernel_size_t_def layout_eval layout_simps)

definition typedef_bool :: ctype where
  "typedef_bool = Scalar Bool8"

lemma typedef_bool_layout [layout_simps]:
  "integral typedef_bool" "wf_type typedef_bool" "shape typedef_bool = (1, 1)"
  by (simp_all del: One_nat_def add: typedef_bool_def layout_eval layout_simps)

definition typedef_uid_t :: ctype where
  "typedef_uid_t = typedef___kernel_uid32_t"

lemma typedef_uid_t_layout [layout_simps]:
  "integral typedef_uid_t" "wf_type typedef_uid_t" "shape typedef_uid_t = (4, 4)"
  by (simp_all del: One_nat_def add: typedef_uid_t_def layout_eval layout_simps)

definition typedef_size_t :: ctype where
  "typedef_size_t = typedef___kernel_size_t"

lemma typedef_size_t_layout [layout_simps]:
  "integral typedef_size_t" "wf_type typedef_size_t" "shape typedef_size_t = (8, 8)"
  by (simp_all del: One_nat_def add: typedef_size_t_def layout_eval layout_simps)

definition typedef_ktime_t :: ctype where
  "typedef_ktime_t = typedef_s64"

lemma typedef_ktime_t_layout [layout_simps]:
  "integral typedef_ktime_t" "wf_type typedef_ktime_t" "shape typedef_ktime_t = (8, 8)"
  by (simp_all del: One_nat_def add: typedef_ktime_t_def layout_eval layout_simps)

definition typedef_gfp_t :: ctype where
  "typedef_gfp_t = Scalar UInt32"

lemma typedef_gfp_t_layout [layout_simps]:
  "integral typedef_gfp_t" "wf_type typedef_gfp_t" "shape typedef_gfp_t = (4, 4)"
  by (simp_all del: One_nat_def add: typedef_gfp_t_def layout_eval layout_simps)

definition typedef_atomic_t :: ctype where
  "typedef_atomic_t =
     Composite Struct False
     [Member ''counter'' (Scalar Int32)]"

lemma typedef_atomic_t_layout [layout_simps]:
  "wf_type typedef_atomic_t" "shape typedef_atomic_t = (4, 4)"
  by (simp_all del: One_nat_def add: typedef_atomic_t_def layout_eval layout_simps)

definition typedef_atomic64_t :: ctype where
  "typedef_atomic64_t =
     Composite Struct False
     [Member ''counter'' typedef_s64]"

lemma typedef_atomic64_t_layout [layout_simps]:
  "wf_type typedef_atomic64_t" "shape typedef_atomic64_t = (8, 8)"
  by (simp_all del: One_nat_def add: typedef_atomic64_t_def layout_eval layout_simps)

definition struct_list_head :: ctype where
  "struct_list_head =
     Composite Struct False
     [Member ''next'' (Pointer (Named Struct_name ''list_head'')),
      Member ''prev'' (Pointer (Named Struct_name ''list_head''))]"

lemma struct_list_head_layout [layout_simps]:
  "wf_type struct_list_head" "shape struct_list_head = (16, 8)"
  by (simp_all del: One_nat_def add: struct_list_head_def layout_eval layout_simps)

definition struct_hlist_head :: ctype where
  "struct_hlist_head =
     Composite Struct False
     [Member ''first'' (Pointer (Named Struct_name ''hlist_node''))]"

lemma struct_hlist_head_layout [layout_simps]:
  "wf_type struct_hlist_head" "shape struct_hlist_head = (8, 8)"
  by (simp_all del: One_nat_def add: struct_hlist_head_def layout_eval layout_simps)

definition struct_hlist_node :: ctype where
  "struct_hlist_node =
     Composite Struct False
     [Member ''next'' (Pointer (Named Struct_name ''hlist_node'')),
      Member ''pprev'' (Pointer (Pointer (Named Struct_name ''hlist_node'')))]"

lemma struct_hlist_node_layout [layout_simps]:
  "wf_type struct_hlist_node" "shape struct_hlist_node = (16, 8)"
  by (simp_all del: One_nat_def add: struct_hlist_node_def layout_eval layout_simps)

definition struct_callback_head :: ctype where
  "struct_callback_head =
     Composite Struct False
     [Member ''next'' (Pointer (Named Struct_name ''callback_head'')),
      Member ''func'' (Pointer (Function Void [Pointer (Named Struct_name ''callback_head'')]))]"

lemma struct_callback_head_layout [layout_simps]:
  "wf_type struct_callback_head" "shape struct_callback_head = (16, 8)"
  by (simp_all del: One_nat_def add: struct_callback_head_def layout_eval layout_simps)

definition struct_qspinlock :: ctype where
  "struct_qspinlock =
     Composite Struct False
     [Anonymous (Composite Union False
       [Member ''val'' typedef_atomic_t,
        Anonymous (Composite Struct False
         [Member ''locked'' typedef_u8,
          Member ''pending'' typedef_u8]),
        Anonymous (Composite Struct False
         [Member ''locked_pending'' typedef_u16,
          Member ''tail'' typedef_u16])])]"

lemma struct_qspinlock_layout [layout_simps]:
  "wf_type struct_qspinlock" "shape struct_qspinlock = (4, 4)"
  by (simp_all del: One_nat_def add: struct_qspinlock_def layout_eval layout_simps)

definition typedef_arch_spinlock_t :: ctype where
  "typedef_arch_spinlock_t = struct_qspinlock"

lemma typedef_arch_spinlock_t_layout [layout_simps]:
  "wf_type typedef_arch_spinlock_t" "shape typedef_arch_spinlock_t = (4, 4)"
  by (simp_all del: One_nat_def add: typedef_arch_spinlock_t_def layout_eval layout_simps)

definition struct_raw_spinlock :: ctype where
  "struct_raw_spinlock =
     Composite Struct False
     [Member ''raw_lock'' typedef_arch_spinlock_t]"

lemma struct_raw_spinlock_layout [layout_simps]:
  "wf_type struct_raw_spinlock" "shape struct_raw_spinlock = (4, 4)"
  by (simp_all del: One_nat_def add: struct_raw_spinlock_def layout_eval layout_simps)

definition typedef_raw_spinlock_t :: ctype where
  "typedef_raw_spinlock_t = struct_raw_spinlock"

lemma typedef_raw_spinlock_t_layout [layout_simps]:
  "wf_type typedef_raw_spinlock_t" "shape typedef_raw_spinlock_t = (4, 4)"
  by (simp_all del: One_nat_def add: typedef_raw_spinlock_t_def layout_eval layout_simps)

definition struct_refcount_struct :: ctype where
  "struct_refcount_struct =
     Composite Struct False
     [Member ''refs'' typedef_atomic_t]"

lemma struct_refcount_struct_layout [layout_simps]:
  "wf_type struct_refcount_struct" "shape struct_refcount_struct = (4, 4)"
  by (simp_all del: One_nat_def add: struct_refcount_struct_def layout_eval layout_simps)

definition typedef_refcount_t :: ctype where
  "typedef_refcount_t = struct_refcount_struct"

lemma typedef_refcount_t_layout [layout_simps]:
  "wf_type typedef_refcount_t" "shape typedef_refcount_t = (4, 4)"
  by (simp_all del: One_nat_def add: typedef_refcount_t_def layout_eval layout_simps)

definition struct_llist_node :: ctype where
  "struct_llist_node =
     Composite Struct False
     [Member ''next'' (Pointer (Named Struct_name ''llist_node''))]"

lemma struct_llist_node_layout [layout_simps]:
  "wf_type struct_llist_node" "shape struct_llist_node = (8, 8)"
  by (simp_all del: One_nat_def add: struct_llist_node_def layout_eval layout_simps)

definition struct___call_single_node :: ctype where
  "struct___call_single_node =
     Composite Struct False
     [Member ''llist'' struct_llist_node,
      Anonymous (Composite Union False
       [Member ''u_flags'' (Scalar UInt32),
        Member ''a_flags'' typedef_atomic_t]),
      Member ''src'' typedef_u16,
      Member ''dst'' typedef_u16]"

lemma struct___call_single_node_layout [layout_simps]:
  "wf_type struct___call_single_node" "shape struct___call_single_node = (16, 8)"
  by (simp_all del: One_nat_def add: struct___call_single_node_def layout_eval layout_simps)

definition struct_rb_node :: ctype where
  "struct_rb_node =
     Composite Struct False
     [Member ''__rb_parent_color'' (Scalar ULong64),
      Member ''rb_right'' (Pointer (Named Struct_name ''rb_node'')),
      Member ''rb_left'' (Pointer (Named Struct_name ''rb_node''))]"

lemma struct_rb_node_layout [layout_simps]:
  "wf_type struct_rb_node" "shape struct_rb_node = (24, 8)"
  by (simp_all del: One_nat_def add: struct_rb_node_def layout_eval layout_simps)

definition struct_timerqueue_node :: ctype where
  "struct_timerqueue_node =
     Composite Struct False
     [Member ''node'' struct_rb_node,
      Member ''expires'' typedef_ktime_t]"

lemma struct_timerqueue_node_layout [layout_simps]:
  "wf_type struct_timerqueue_node" "shape struct_timerqueue_node = (32, 8)"
  by (simp_all del: One_nat_def add: struct_timerqueue_node_def layout_eval layout_simps)

definition struct_hrtimer :: ctype where
  "struct_hrtimer =
     Composite Struct False
     [Member ''node'' struct_timerqueue_node,
      Member ''_softexpires'' typedef_ktime_t,
      Member ''function'' (Pointer (Function (Named Enum_name ''hrtimer_restart'') [Pointer (Named Struct_name ''hrtimer'')])),
      Member ''base'' (Pointer (Named Struct_name ''hrtimer_clock_base'')),
      Member ''state'' typedef_u8,
      Member ''is_rel'' typedef_u8,
      Member ''is_soft'' typedef_u8,
      Member ''is_hard'' typedef_u8]"

lemma struct_hrtimer_layout [layout_simps]:
  "wf_type struct_hrtimer" "shape struct_hrtimer = (64, 8)"
  by (simp_all del: One_nat_def add: struct_hrtimer_def layout_eval layout_simps)

definition struct_seqcount :: ctype where
  "struct_seqcount =
     Composite Struct False
     [Member ''sequence'' (Scalar UInt32)]"

lemma struct_seqcount_layout [layout_simps]:
  "wf_type struct_seqcount" "shape struct_seqcount = (4, 4)"
  by (simp_all del: One_nat_def add: struct_seqcount_def layout_eval layout_simps)

definition typedef_seqcount_t :: ctype where
  "typedef_seqcount_t = struct_seqcount"

lemma typedef_seqcount_t_layout [layout_simps]:
  "wf_type typedef_seqcount_t" "shape typedef_seqcount_t = (4, 4)"
  by (simp_all del: One_nat_def add: typedef_seqcount_t_def layout_eval layout_simps)

definition struct_rb_root :: ctype where
  "struct_rb_root =
     Composite Struct False
     [Member ''rb_node'' (Pointer (Named Struct_name ''rb_node''))]"

lemma struct_rb_root_layout [layout_simps]:
  "wf_type struct_rb_root" "shape struct_rb_root = (8, 8)"
  by (simp_all del: One_nat_def add: struct_rb_root_def layout_eval layout_simps)

definition struct_rb_root_cached :: ctype where
  "struct_rb_root_cached =
     Composite Struct False
     [Member ''rb_root'' struct_rb_root,
      Member ''rb_leftmost'' (Pointer (Named Struct_name ''rb_node''))]"

lemma struct_rb_root_cached_layout [layout_simps]:
  "wf_type struct_rb_root_cached" "shape struct_rb_root_cached = (16, 8)"
  by (simp_all del: One_nat_def add: struct_rb_root_cached_def layout_eval layout_simps)

definition typedef_atomic_long_t :: ctype where
  "typedef_atomic_long_t = typedef_atomic64_t"

lemma typedef_atomic_long_t_layout [layout_simps]:
  "wf_type typedef_atomic_long_t" "shape typedef_atomic_long_t = (8, 8)"
  by (simp_all del: One_nat_def add: typedef_atomic_long_t_def layout_eval layout_simps)

definition struct_optimistic_spin_queue :: ctype where
  "struct_optimistic_spin_queue =
     Composite Struct False
     [Member ''tail'' typedef_atomic_t]"

lemma struct_optimistic_spin_queue_layout [layout_simps]:
  "wf_type struct_optimistic_spin_queue" "shape struct_optimistic_spin_queue = (4, 4)"
  by (simp_all del: One_nat_def add: struct_optimistic_spin_queue_def layout_eval layout_simps)

definition struct_mutex :: ctype where
  "struct_mutex =
     Composite Struct False
     [Member ''owner'' typedef_atomic_long_t,
      Member ''wait_lock'' typedef_raw_spinlock_t,
      Member ''osq'' struct_optimistic_spin_queue,
      Member ''wait_list'' struct_list_head]"

lemma struct_mutex_layout [layout_simps]:
  "wf_type struct_mutex" "shape struct_mutex = (32, 8)"
  by (simp_all del: One_nat_def add: struct_mutex_def layout_eval layout_simps)

definition typedef_kuid_t :: ctype where
  "typedef_kuid_t =
     Composite Struct False
     [Member ''val'' typedef_uid_t]"

lemma typedef_kuid_t_layout [layout_simps]:
  "wf_type typedef_kuid_t" "shape typedef_kuid_t = (4, 4)"
  by (simp_all del: One_nat_def add: typedef_kuid_t_def layout_eval layout_simps)

definition struct_spinlock :: ctype where
  "struct_spinlock =
     Composite Struct False
     [Anonymous (Composite Union False
       [Member ''rlock'' struct_raw_spinlock])]"

lemma struct_spinlock_layout [layout_simps]:
  "wf_type struct_spinlock" "shape struct_spinlock = (4, 4)"
  by (simp_all del: One_nat_def add: struct_spinlock_def layout_eval layout_simps)

definition typedef_spinlock_t :: ctype where
  "typedef_spinlock_t = struct_spinlock"

lemma typedef_spinlock_t_layout [layout_simps]:
  "wf_type typedef_spinlock_t" "shape typedef_spinlock_t = (4, 4)"
  by (simp_all del: One_nat_def add: typedef_spinlock_t_def layout_eval layout_simps)

definition struct_seqcount_spinlock :: ctype where
  "struct_seqcount_spinlock =
     Composite Struct False
     [Member ''seqcount'' typedef_seqcount_t]"

lemma struct_seqcount_spinlock_layout [layout_simps]:
  "wf_type struct_seqcount_spinlock" "shape struct_seqcount_spinlock = (4, 4)"
  by (simp_all del: One_nat_def add: struct_seqcount_spinlock_def layout_eval layout_simps)

definition typedef_seqcount_spinlock_t :: ctype where
  "typedef_seqcount_spinlock_t = struct_seqcount_spinlock"

lemma typedef_seqcount_spinlock_t_layout [layout_simps]:
  "wf_type typedef_seqcount_spinlock_t" "shape typedef_seqcount_spinlock_t = (4, 4)"
  by (simp_all del: One_nat_def add: typedef_seqcount_spinlock_t_def layout_eval layout_simps)

definition struct_timer_list :: ctype where
  "struct_timer_list =
     Composite Struct False
     [Member ''entry'' struct_hlist_node,
      Member ''expires'' (Scalar ULong64),
      Member ''function'' (Pointer (Function Void [Pointer (Named Struct_name ''timer_list'')])),
      Member ''flags'' typedef_u32]"

lemma struct_timer_list_layout [layout_simps]:
  "wf_type struct_timer_list" "shape struct_timer_list = (40, 8)"
  by (simp_all del: One_nat_def add: struct_timer_list_def layout_eval layout_simps)

definition typedef___kernel_gid32_t :: ctype where
  "typedef___kernel_gid32_t = Scalar UInt32"

lemma typedef___kernel_gid32_t_layout [layout_simps]:
  "integral typedef___kernel_gid32_t" "wf_type typedef___kernel_gid32_t" "shape typedef___kernel_gid32_t = (4, 4)"
  by (simp_all del: One_nat_def add: typedef___kernel_gid32_t_def layout_eval layout_simps)

definition typedef_gid_t :: ctype where
  "typedef_gid_t = typedef___kernel_gid32_t"

lemma typedef_gid_t_layout [layout_simps]:
  "integral typedef_gid_t" "wf_type typedef_gid_t" "shape typedef_gid_t = (4, 4)"
  by (simp_all del: One_nat_def add: typedef_gid_t_def layout_eval layout_simps)

definition typedef_kgid_t :: ctype where
  "typedef_kgid_t =
     Composite Struct False
     [Member ''val'' typedef_gid_t]"

lemma typedef_kgid_t_layout [layout_simps]:
  "wf_type typedef_kgid_t" "shape typedef_kgid_t = (4, 4)"
  by (simp_all del: One_nat_def add: typedef_kgid_t_def layout_eval layout_simps)

definition typedef___s16 :: ctype where
  "typedef___s16 = Scalar Short16"

lemma typedef___s16_layout [layout_simps]:
  "integral typedef___s16" "wf_type typedef___s16" "shape typedef___s16 = (2, 2)"
  by (simp_all del: One_nat_def add: typedef___s16_def layout_eval layout_simps)

definition typedef___s32 :: ctype where
  "typedef___s32 = Scalar Int32"

lemma typedef___s32_layout [layout_simps]:
  "integral typedef___s32" "wf_type typedef___s32" "shape typedef___s32 = (4, 4)"
  by (simp_all del: One_nat_def add: typedef___s32_def layout_eval layout_simps)

definition typedef___kernel_loff_t :: ctype where
  "typedef___kernel_loff_t = Scalar LongLong64"

lemma typedef___kernel_loff_t_layout [layout_simps]:
  "integral typedef___kernel_loff_t" "wf_type typedef___kernel_loff_t" "shape typedef___kernel_loff_t = (8, 8)"
  by (simp_all del: One_nat_def add: typedef___kernel_loff_t_def layout_eval layout_simps)

definition typedef___kernel_dev_t :: ctype where
  "typedef___kernel_dev_t = typedef_u32"

lemma typedef___kernel_dev_t_layout [layout_simps]:
  "integral typedef___kernel_dev_t" "wf_type typedef___kernel_dev_t" "shape typedef___kernel_dev_t = (4, 4)"
  by (simp_all del: One_nat_def add: typedef___kernel_dev_t_def layout_eval layout_simps)

definition typedef_dev_t :: ctype where
  "typedef_dev_t = typedef___kernel_dev_t"

lemma typedef_dev_t_layout [layout_simps]:
  "integral typedef_dev_t" "wf_type typedef_dev_t" "shape typedef_dev_t = (4, 4)"
  by (simp_all del: One_nat_def add: typedef_dev_t_def layout_eval layout_simps)

definition typedef_loff_t :: ctype where
  "typedef_loff_t = typedef___kernel_loff_t"

lemma typedef_loff_t_layout [layout_simps]:
  "integral typedef_loff_t" "wf_type typedef_loff_t" "shape typedef_loff_t = (8, 8)"
  by (simp_all del: One_nat_def add: typedef_loff_t_def layout_eval layout_simps)

definition typedef_sector_t :: ctype where
  "typedef_sector_t = typedef_u64"

lemma typedef_sector_t_layout [layout_simps]:
  "integral typedef_sector_t" "wf_type typedef_sector_t" "shape typedef_sector_t = (8, 8)"
  by (simp_all del: One_nat_def add: typedef_sector_t_def layout_eval layout_simps)

definition struct_lock_class_key :: ctype where
  "struct_lock_class_key =
     Composite Struct False
     []"

lemma struct_lock_class_key_layout [layout_simps]:
  "wf_type struct_lock_class_key" "shape struct_lock_class_key = (0, 1)"
  by (simp_all del: One_nat_def add: struct_lock_class_key_def layout_eval layout_simps)

definition struct_rw_semaphore :: ctype where
  "struct_rw_semaphore =
     Composite Struct False
     [Member ''count'' typedef_atomic_long_t,
      Member ''owner'' typedef_atomic_long_t,
      Member ''osq'' struct_optimistic_spin_queue,
      Member ''wait_lock'' typedef_raw_spinlock_t,
      Member ''wait_list'' struct_list_head]"

lemma struct_rw_semaphore_layout [layout_simps]:
  "wf_type struct_rw_semaphore" "shape struct_rw_semaphore = (40, 8)"
  by (simp_all del: One_nat_def add: struct_rw_semaphore_def layout_eval layout_simps)

definition struct_percpu_counter :: ctype where
  "struct_percpu_counter =
     Composite Struct False
     [Member ''lock'' typedef_raw_spinlock_t,
      Member ''count'' typedef_s64,
      Member ''list'' struct_list_head,
      Member ''counters'' (Pointer (Named Typedef_name ''s32''))]"

lemma struct_percpu_counter_layout [layout_simps]:
  "wf_type struct_percpu_counter" "shape struct_percpu_counter = (40, 8)"
  by (simp_all del: One_nat_def add: struct_percpu_counter_def layout_eval layout_simps)

definition typedef_work_func_t :: ctype where
  "typedef_work_func_t = Pointer (Function Void [Pointer (Named Struct_name ''work_struct'')])"

lemma typedef_work_func_t_layout [layout_simps]:
  "wf_type typedef_work_func_t" "shape typedef_work_func_t = (8, 8)"
  by (simp_all del: One_nat_def add: typedef_work_func_t_def layout_eval layout_simps)

definition struct_work_struct :: ctype where
  "struct_work_struct =
     Composite Struct False
     [Member ''data'' typedef_atomic_long_t,
      Member ''entry'' struct_list_head,
      Member ''func'' typedef_work_func_t]"

lemma struct_work_struct_layout [layout_simps]:
  "wf_type struct_work_struct" "shape struct_work_struct = (32, 8)"
  by (simp_all del: One_nat_def add: struct_work_struct_def layout_eval layout_simps)

definition struct_kref :: ctype where
  "struct_kref =
     Composite Struct False
     [Member ''refcount'' typedef_refcount_t]"

lemma struct_kref_layout [layout_simps]:
  "wf_type struct_kref" "shape struct_kref = (4, 4)"
  by (simp_all del: One_nat_def add: struct_kref_def layout_eval layout_simps)

definition struct_kobject :: ctype where
  "struct_kobject =
     Composite Struct False
     [Member ''name'' (Pointer (Scalar Char8)),
      Member ''entry'' struct_list_head,
      Member ''parent'' (Pointer (Named Struct_name ''kobject'')),
      Member ''kset'' (Pointer (Named Struct_name ''kset'')),
      Member ''ktype'' (Pointer (Named Struct_name ''kobj_type'')),
      Member ''sd'' (Pointer (Named Struct_name ''kernfs_node'')),
      Member ''kref'' struct_kref,
      Bitfield ''state_initialized'' (Scalar UInt32) 1,
      Bitfield ''state_in_sysfs'' (Scalar UInt32) 1,
      Bitfield ''state_add_uevent_sent'' (Scalar UInt32) 1,
      Bitfield ''state_remove_uevent_sent'' (Scalar UInt32) 1,
      Bitfield ''uevent_suppress'' (Scalar UInt32) 1]"

lemma struct_kobject_layout [layout_simps]:
  "wf_type struct_kobject" "shape struct_kobject = (64, 8)"
  by (simp_all del: One_nat_def add: struct_kobject_def layout_eval layout_simps)

definition struct_wait_queue_head :: ctype where
  "struct_wait_queue_head =
     Composite Struct False
     [Member ''lock'' typedef_spinlock_t,
      Member ''head'' struct_list_head]"

lemma struct_wait_queue_head_layout [layout_simps]:
  "wf_type struct_wait_queue_head" "shape struct_wait_queue_head = (24, 8)"
  by (simp_all del: One_nat_def add: struct_wait_queue_head_def layout_eval layout_simps)

definition typedef_wait_queue_head_t :: ctype where
  "typedef_wait_queue_head_t = struct_wait_queue_head"

lemma typedef_wait_queue_head_t_layout [layout_simps]:
  "wf_type typedef_wait_queue_head_t" "shape typedef_wait_queue_head_t = (24, 8)"
  by (simp_all del: One_nat_def add: typedef_wait_queue_head_t_def layout_eval layout_simps)

definition struct_rcuwait :: ctype where
  "struct_rcuwait =
     Composite Struct False
     [Member ''task'' (Pointer (Named Struct_name ''task_struct''))]"

lemma struct_rcuwait_layout [layout_simps]:
  "wf_type struct_rcuwait" "shape struct_rcuwait = (8, 8)"
  by (simp_all del: One_nat_def add: struct_rcuwait_def layout_eval layout_simps)

definition struct_xarray :: ctype where
  "struct_xarray =
     Composite Struct False
     [Member ''xa_lock'' typedef_spinlock_t,
      Member ''xa_flags'' typedef_gfp_t,
      Member ''xa_head'' (Pointer Void)]"

lemma struct_xarray_layout [layout_simps]:
  "wf_type struct_xarray" "shape struct_xarray = (16, 8)"
  by (simp_all del: One_nat_def add: struct_xarray_def layout_eval layout_simps)

definition typedef_seqlock_t :: ctype where
  "typedef_seqlock_t =
     Composite Struct False
     [Member ''seqcount'' typedef_seqcount_spinlock_t,
      Member ''lock'' typedef_spinlock_t]"

lemma typedef_seqlock_t_layout [layout_simps]:
  "wf_type typedef_seqlock_t" "shape typedef_seqlock_t = (8, 4)"
  by (simp_all del: One_nat_def add: typedef_seqlock_t_def layout_eval layout_simps)

definition struct_path :: ctype where
  "struct_path =
     Composite Struct False
     [Member ''mnt'' (Pointer (Named Struct_name ''vfsmount'')),
      Member ''dentry'' (Pointer (Named Struct_name ''dentry''))]"

lemma struct_path_layout [layout_simps]:
  "wf_type struct_path" "shape struct_path = (16, 8)"
  by (simp_all del: One_nat_def add: struct_path_def layout_eval layout_simps)

text \<open>The types of this theory by kind and name.\<close>

definition base_types :: "(name_kind \<times> string \<times> ctype) list" where
  "base_types =
     [(Typedef_name, ''__u8'', typedef___u8),
      (Typedef_name, ''__u16'', typedef___u16),
      (Typedef_name, ''__u32'', typedef___u32),
      (Typedef_name, ''__s64'', typedef___s64),
      (Typedef_name, ''__u64'', typedef___u64),
      (Typedef_name, ''u8'', typedef_u8),
      (Typedef_name, ''u16'', typedef_u16),
      (Typedef_name, ''u32'', typedef_u32),
      (Typedef_name, ''s64'', typedef_s64),
      (Typedef_name, ''u64'', typedef_u64),
      (Typedef_name, ''__kernel_ulong_t'', typedef___kernel_ulong_t),
      (Typedef_name, ''__kernel_uid32_t'', typedef___kernel_uid32_t),
      (Typedef_name, ''__kernel_size_t'', typedef___kernel_size_t),
      (Typedef_name, ''bool'', typedef_bool),
      (Typedef_name, ''uid_t'', typedef_uid_t),
      (Typedef_name, ''size_t'', typedef_size_t),
      (Typedef_name, ''ktime_t'', typedef_ktime_t),
      (Typedef_name, ''gfp_t'', typedef_gfp_t),
      (Typedef_name, ''atomic_t'', typedef_atomic_t),
      (Typedef_name, ''atomic64_t'', typedef_atomic64_t),
      (Struct_name, ''list_head'', struct_list_head),
      (Struct_name, ''hlist_head'', struct_hlist_head),
      (Struct_name, ''hlist_node'', struct_hlist_node),
      (Struct_name, ''callback_head'', struct_callback_head),
      (Struct_name, ''qspinlock'', struct_qspinlock),
      (Typedef_name, ''arch_spinlock_t'', typedef_arch_spinlock_t),
      (Struct_name, ''raw_spinlock'', struct_raw_spinlock),
      (Typedef_name, ''raw_spinlock_t'', typedef_raw_spinlock_t),
      (Struct_name, ''refcount_struct'', struct_refcount_struct),
      (Typedef_name, ''refcount_t'', typedef_refcount_t),
      (Struct_name, ''llist_node'', struct_llist_node),
      (Struct_name, ''__call_single_node'', struct___call_single_node),
      (Struct_name, ''rb_node'', struct_rb_node),
      (Struct_name, ''timerqueue_node'', struct_timerqueue_node),
      (Struct_name, ''hrtimer'', struct_hrtimer),
      (Struct_name, ''seqcount'', struct_seqcount),
      (Typedef_name, ''seqcount_t'', typedef_seqcount_t),
      (Struct_name, ''rb_root'', struct_rb_root),
      (Struct_name, ''rb_root_cached'', struct_rb_root_cached),
      (Typedef_name, ''atomic_long_t'', typedef_atomic_long_t),
      (Struct_name, ''optimistic_spin_queue'', struct_optimistic_spin_queue),
      (Struct_name, ''mutex'', struct_mutex),
      (Typedef_name, ''kuid_t'', typedef_kuid_t),
      (Struct_name, ''spinlock'', struct_spinlock),
      (Typedef_name, ''spinlock_t'', typedef_spinlock_t),
      (Struct_name, ''seqcount_spinlock'', struct_seqcount_spinlock),
      (Typedef_name, ''seqcount_spinlock_t'', typedef_seqcount_spinlock_t),
      (Struct_name, ''timer_list'', struct_timer_list),
      (Typedef_name, ''__kernel_gid32_t'', typedef___kernel_gid32_t),
      (Typedef_name, ''gid_t'', typedef_gid_t),
      (Typedef_name, ''kgid_t'', typedef_kgid_t),
      (Typedef_name, ''__s16'', typedef___s16),
      (Typedef_name, ''__s32'', typedef___s32),
      (Typedef_name, ''__kernel_loff_t'', typedef___kernel_loff_t),
      (Typedef_name, ''__kernel_dev_t'', typedef___kernel_dev_t),
      (Typedef_name, ''dev_t'', typedef_dev_t),
      (Typedef_name, ''loff_t'', typedef_loff_t),
      (Typedef_name, ''sector_t'', typedef_sector_t),
      (Struct_name, ''lock_class_key'', struct_lock_class_key),
      (Struct_name, ''rw_semaphore'', struct_rw_semaphore),
      (Struct_name, ''percpu_counter'', struct_percpu_counter),
      (Typedef_name, ''work_func_t'', typedef_work_func_t),
      (Struct_name, ''work_struct'', struct_work_struct),
      (Struct_name, ''kref'', struct_kref),
      (Struct_name, ''kobject'', struct_kobject),
      (Struct_name, ''wait_queue_head'', struct_wait_queue_head),
      (Typedef_name, ''wait_queue_head_t'', typedef_wait_queue_head_t),
      (Struct_name, ''rcuwait'', struct_rcuwait),
      (Struct_name, ''xarray'', struct_xarray),
      (Typedef_name, ''seqlock_t'', typedef_seqlock_t),
      (Struct_name, ''path'', struct_path)]"

end
