(* ===== verification/VmlinuxTrace.thy ===== *)
theory VmlinuxTrace
  imports VmlinuxBase
begin

text \<open>
  Kernel types: the records of the tracepoints that the programs are attached to and the types
  of the attachment itself: tracepoint events, uprobes, the saved registers. Each definition is
  one declaration of the header, in the order of use; a lemma with each gives its size and
  alignment in bytes.
\<close>

definition typedef___kernel_long_t :: ctype where
  "typedef___kernel_long_t = Scalar Long64"

lemma typedef___kernel_long_t_layout [layout_simps]:
  "integral typedef___kernel_long_t" "wf_type typedef___kernel_long_t" "shape typedef___kernel_long_t = (8, 8)"
  by (simp_all del: One_nat_def add: typedef___kernel_long_t_def layout_eval layout_simps)

definition typedef___kernel_ssize_t :: ctype where
  "typedef___kernel_ssize_t = typedef___kernel_long_t"

lemma typedef___kernel_ssize_t_layout [layout_simps]:
  "integral typedef___kernel_ssize_t" "wf_type typedef___kernel_ssize_t" "shape typedef___kernel_ssize_t = (8, 8)"
  by (simp_all del: One_nat_def add: typedef___kernel_ssize_t_def layout_eval layout_simps)

definition typedef_ssize_t :: ctype where
  "typedef_ssize_t = typedef___kernel_ssize_t"

lemma typedef_ssize_t_layout [layout_simps]:
  "integral typedef_ssize_t" "wf_type typedef_ssize_t" "shape typedef_ssize_t = (8, 8)"
  by (simp_all del: One_nat_def add: typedef_ssize_t_def layout_eval layout_simps)

definition struct_fred_cs :: ctype where
  "struct_fred_cs =
     Composite Struct False
     [Bitfield ''cs'' typedef_u64 16,
      Bitfield ''sl'' typedef_u64 2,
      Bitfield ''wfe'' typedef_u64 1]"

lemma struct_fred_cs_layout [layout_simps]:
  "wf_type struct_fred_cs" "shape struct_fred_cs = (8, 8)"
  by (simp_all del: One_nat_def add: struct_fred_cs_def layout_eval layout_simps)

definition struct_fred_ss :: ctype where
  "struct_fred_ss =
     Composite Struct False
     [Bitfield ''ss'' typedef_u64 16,
      Bitfield ''sti'' typedef_u64 1,
      Bitfield ''swevent'' typedef_u64 1,
      Bitfield ''nmi'' typedef_u64 1,
      Padding (Scalar Int32) 13,
      Bitfield ''vector'' typedef_u64 8,
      Padding (Scalar Short16) 8,
      Bitfield ''type'' typedef_u64 4,
      Padding (Scalar Char8) 4,
      Bitfield ''enclave'' typedef_u64 1,
      Bitfield ''lm'' typedef_u64 1,
      Bitfield ''nested'' typedef_u64 1,
      Padding (Scalar Char8) 1,
      Bitfield ''insnlen'' typedef_u64 4]"

lemma struct_fred_ss_layout [layout_simps]:
  "wf_type struct_fred_ss" "shape struct_fred_ss = (8, 8)"
  by (simp_all del: One_nat_def add: struct_fred_ss_def layout_eval layout_simps)

definition struct_pt_regs :: ctype where
  "struct_pt_regs =
     Composite Struct False
     [Member ''r15'' (Scalar ULong64),
      Member ''r14'' (Scalar ULong64),
      Member ''r13'' (Scalar ULong64),
      Member ''r12'' (Scalar ULong64),
      Member ''bp'' (Scalar ULong64),
      Member ''bx'' (Scalar ULong64),
      Member ''r11'' (Scalar ULong64),
      Member ''r10'' (Scalar ULong64),
      Member ''r9'' (Scalar ULong64),
      Member ''r8'' (Scalar ULong64),
      Member ''ax'' (Scalar ULong64),
      Member ''cx'' (Scalar ULong64),
      Member ''dx'' (Scalar ULong64),
      Member ''si'' (Scalar ULong64),
      Member ''di'' (Scalar ULong64),
      Member ''orig_ax'' (Scalar ULong64),
      Member ''ip'' (Scalar ULong64),
      Anonymous (Composite Union False
       [Member ''cs'' typedef_u16,
        Member ''csx'' typedef_u64,
        Member ''fred_cs'' struct_fred_cs]),
      Member ''flags'' (Scalar ULong64),
      Member ''sp'' (Scalar ULong64),
      Anonymous (Composite Union False
       [Member ''ss'' typedef_u16,
        Member ''ssx'' typedef_u64,
        Member ''fred_ss'' struct_fred_ss])]"

lemma struct_pt_regs_layout [layout_simps]:
  "wf_type struct_pt_regs" "shape struct_pt_regs = (168, 8)"
  by (simp_all del: One_nat_def add: struct_pt_regs_def layout_eval layout_simps)

definition typedef_s32 :: ctype where
  "typedef_s32 = typedef___s32"

lemma typedef_s32_layout [layout_simps]:
  "integral typedef_s32" "wf_type typedef_s32" "shape typedef_s32 = (4, 4)"
  by (simp_all del: One_nat_def add: typedef_s32_def layout_eval layout_simps)

definition struct_arch_uprobe :: ctype where
  "struct_arch_uprobe =
     Composite Struct False
     [Anonymous (Composite Union False
       [Member ''insn'' (Array typedef_u8 16),
        Member ''ixol'' (Array typedef_u8 16)]),
      Member ''ops'' (Pointer (Named Struct_name ''uprobe_xol_ops'')),
      Anonymous (Composite Union False
       [Member ''branch'' (Composite Struct False
         [Member ''offs'' typedef_s32,
          Member ''ilen'' typedef_u8,
          Member ''opc1'' typedef_u8]),
        Member ''defparam'' (Composite Struct False
         [Member ''fixups'' typedef_u8,
          Member ''ilen'' typedef_u8]),
        Member ''push'' (Composite Struct False
         [Member ''reg_offset'' typedef_u8,
          Member ''ilen'' typedef_u8])])]"

lemma struct_arch_uprobe_layout [layout_simps]:
  "wf_type struct_arch_uprobe" "shape struct_arch_uprobe = (32, 8)"
  by (simp_all del: One_nat_def add: struct_arch_uprobe_def layout_eval layout_simps)

definition struct_trace_event :: ctype where
  "struct_trace_event =
     Composite Struct False
     [Member ''node'' struct_hlist_node,
      Member ''type'' (Scalar Int32),
      Member ''funcs'' (Pointer (Named Struct_name ''trace_event_functions''))]"

lemma struct_trace_event_layout [layout_simps]:
  "wf_type struct_trace_event" "shape struct_trace_event = (32, 8)"
  by (simp_all del: One_nat_def add: struct_trace_event_def layout_eval layout_simps)

definition struct_trace_event_call :: ctype where
  "struct_trace_event_call =
     Composite Struct False
     [Member ''list'' struct_list_head,
      Member ''class'' (Pointer (Named Struct_name ''trace_event_class'')),
      Anonymous (Composite Union False
       [Member ''name'' (Pointer (Scalar Char8)),
        Member ''tp'' (Pointer (Named Struct_name ''tracepoint''))]),
      Member ''event'' struct_trace_event,
      Member ''print_fmt'' (Pointer (Scalar Char8)),
      Member ''filter'' (Pointer (Named Struct_name ''event_filter'')),
      Anonymous (Composite Union False
       [Member ''module'' (Pointer Void),
        Member ''refcnt'' typedef_atomic_t]),
      Member ''data'' (Pointer Void),
      Member ''flags'' (Scalar Int32),
      Member ''perf_refcount'' (Scalar Int32),
      Member ''perf_events'' (Pointer (Named Struct_name ''hlist_head'')),
      Member ''prog_array'' (Pointer (Named Struct_name ''bpf_prog_array'')),
      Member ''perf_perm'' (Pointer (Function (Scalar Int32) [Pointer (Named Struct_name ''trace_event_call''), Pointer (Named Struct_name ''perf_event'')]))]"

lemma struct_trace_event_call_layout [layout_simps]:
  "wf_type struct_trace_event_call" "shape struct_trace_event_call = (128, 8)"
  by (simp_all del: One_nat_def add: struct_trace_event_call_def layout_eval layout_simps)

definition struct_trace_entry :: ctype where
  "struct_trace_entry =
     Composite Struct False
     [Member ''type'' (Scalar UShort16),
      Member ''flags'' (Scalar UChar8),
      Member ''preempt_count'' (Scalar UChar8),
      Member ''pid'' (Scalar Int32)]"

lemma struct_trace_entry_layout [layout_simps]:
  "wf_type struct_trace_entry" "shape struct_trace_entry = (8, 4)"
  by (simp_all del: One_nat_def add: struct_trace_entry_def layout_eval layout_simps)

definition struct_dyn_event :: ctype where
  "struct_dyn_event =
     Composite Struct False
     [Member ''list'' struct_list_head,
      Member ''ops'' (Pointer (Named Struct_name ''dyn_event_operations''))]"

lemma struct_dyn_event_layout [layout_simps]:
  "wf_type struct_dyn_event" "shape struct_dyn_event = (24, 8)"
  by (simp_all del: One_nat_def add: struct_dyn_event_def layout_eval layout_simps)

definition struct_uprobe_consumer :: ctype where
  "struct_uprobe_consumer =
     Composite Struct False
     [Member ''handler'' (Pointer (Function (Scalar Int32) [Pointer (Named Struct_name ''uprobe_consumer''), Pointer (Named Struct_name ''pt_regs'')])),
      Member ''ret_handler'' (Pointer (Function (Scalar Int32) [Pointer (Named Struct_name ''uprobe_consumer''), Scalar ULong64, Pointer (Named Struct_name ''pt_regs'')])),
      Member ''filter'' (Pointer (Function (Named Typedef_name ''bool'') [Pointer (Named Struct_name ''uprobe_consumer''), Named Enum_name ''uprobe_filter_ctx'', Pointer (Named Struct_name ''mm_struct'')])),
      Member ''next'' (Pointer (Named Struct_name ''uprobe_consumer''))]"

lemma struct_uprobe_consumer_layout [layout_simps]:
  "wf_type struct_uprobe_consumer" "shape struct_uprobe_consumer = (32, 8)"
  by (simp_all del: One_nat_def add: struct_uprobe_consumer_def layout_eval layout_simps)

definition struct_probe_arg :: ctype where
  "struct_probe_arg =
     Composite Struct False
     [Member ''code'' (Pointer (Named Struct_name ''fetch_insn'')),
      Member ''dynamic'' typedef_bool,
      Member ''offset'' (Scalar UInt32),
      Member ''count'' (Scalar UInt32),
      Member ''name'' (Pointer (Scalar Char8)),
      Member ''comm'' (Pointer (Scalar Char8)),
      Member ''fmt'' (Pointer (Scalar Char8)),
      Member ''type'' (Pointer (Named Struct_name ''fetch_type''))]"

lemma struct_probe_arg_layout [layout_simps]:
  "wf_type struct_probe_arg" "shape struct_probe_arg = (56, 8)"
  by (simp_all del: One_nat_def add: struct_probe_arg_def layout_eval layout_simps)

definition struct_trace_probe :: ctype where
  "struct_trace_probe =
     Composite Struct False
     [Member ''list'' struct_list_head,
      Member ''event'' (Pointer (Named Struct_name ''trace_probe_event'')),
      Member ''size'' typedef_ssize_t,
      Member ''nr_args'' (Scalar UInt32),
      Member ''entry_arg'' (Pointer (Named Struct_name ''probe_entry_arg'')),
      Member ''args'' (Array struct_probe_arg 0)]"

lemma struct_trace_probe_layout [layout_simps]:
  "wf_type struct_trace_probe" "shape struct_trace_probe = (48, 8)"
  by (simp_all del: One_nat_def add: struct_trace_probe_def layout_eval layout_simps)

definition struct_trace_uprobe :: ctype where
  "struct_trace_uprobe =
     Composite Struct False
     [Member ''devent'' struct_dyn_event,
      Member ''consumer'' struct_uprobe_consumer,
      Member ''path'' struct_path,
      Member ''inode'' (Pointer (Named Struct_name ''inode'')),
      Member ''filename'' (Pointer (Scalar Char8)),
      Member ''offset'' (Scalar ULong64),
      Member ''ref_ctr_offset'' (Scalar ULong64),
      Member ''nhit'' (Scalar ULong64),
      Member ''tp'' struct_trace_probe]"

lemma struct_trace_uprobe_layout [layout_simps]:
  "wf_type struct_trace_uprobe" "shape struct_trace_uprobe = (160, 8)"
  by (simp_all del: One_nat_def add: struct_trace_uprobe_def layout_eval layout_simps)

definition struct_uprobe :: ctype where
  "struct_uprobe =
     Composite Struct False
     [Member ''rb_node'' struct_rb_node,
      Member ''ref'' typedef_refcount_t,
      Member ''register_rwsem'' struct_rw_semaphore,
      Member ''consumer_rwsem'' struct_rw_semaphore,
      Member ''pending_list'' struct_list_head,
      Member ''consumers'' (Pointer (Named Struct_name ''uprobe_consumer'')),
      Member ''inode'' (Pointer (Named Struct_name ''inode'')),
      Member ''offset'' typedef_loff_t,
      Member ''ref_ctr_offset'' typedef_loff_t,
      Member ''flags'' (Scalar ULong64),
      Member ''arch'' struct_arch_uprobe]"

lemma struct_uprobe_layout [layout_simps]:
  "wf_type struct_uprobe" "shape struct_uprobe = (200, 8)"
  by (simp_all del: One_nat_def add: struct_uprobe_def layout_eval layout_simps)

definition struct_trace_event_raw_kmem_cache_alloc :: ctype where
  "struct_trace_event_raw_kmem_cache_alloc =
     Composite Struct False
     [Member ''ent'' struct_trace_entry,
      Member ''call_site'' (Scalar ULong64),
      Member ''ptr'' (Pointer Void),
      Member ''bytes_req'' typedef_size_t,
      Member ''bytes_alloc'' typedef_size_t,
      Member ''gfp_flags'' (Scalar ULong64),
      Member ''node'' (Scalar Int32),
      Member ''accounted'' typedef_bool,
      Member ''__data'' (Array (Scalar Char8) 0)]"

lemma struct_trace_event_raw_kmem_cache_alloc_layout [layout_simps]:
  "wf_type struct_trace_event_raw_kmem_cache_alloc" "shape struct_trace_event_raw_kmem_cache_alloc = (56, 8)"
  by (simp_all del: One_nat_def add: struct_trace_event_raw_kmem_cache_alloc_def layout_eval layout_simps)

definition struct_trace_event_raw_kmalloc :: ctype where
  "struct_trace_event_raw_kmalloc =
     Composite Struct False
     [Member ''ent'' struct_trace_entry,
      Member ''call_site'' (Scalar ULong64),
      Member ''ptr'' (Pointer Void),
      Member ''bytes_req'' typedef_size_t,
      Member ''bytes_alloc'' typedef_size_t,
      Member ''gfp_flags'' (Scalar ULong64),
      Member ''node'' (Scalar Int32),
      Member ''__data'' (Array (Scalar Char8) 0)]"

lemma struct_trace_event_raw_kmalloc_layout [layout_simps]:
  "wf_type struct_trace_event_raw_kmalloc" "shape struct_trace_event_raw_kmalloc = (56, 8)"
  by (simp_all del: One_nat_def add: struct_trace_event_raw_kmalloc_def layout_eval layout_simps)

definition struct_trace_event_raw_kfree :: ctype where
  "struct_trace_event_raw_kfree =
     Composite Struct False
     [Member ''ent'' struct_trace_entry,
      Member ''call_site'' (Scalar ULong64),
      Member ''ptr'' (Pointer Void),
      Member ''__data'' (Array (Scalar Char8) 0)]"

lemma struct_trace_event_raw_kfree_layout [layout_simps]:
  "wf_type struct_trace_event_raw_kfree" "shape struct_trace_event_raw_kfree = (24, 8)"
  by (simp_all del: One_nat_def add: struct_trace_event_raw_kfree_def layout_eval layout_simps)

definition struct_trace_event_raw_kmem_cache_free :: ctype where
  "struct_trace_event_raw_kmem_cache_free =
     Composite Struct False
     [Member ''ent'' struct_trace_entry,
      Member ''call_site'' (Scalar ULong64),
      Member ''ptr'' (Pointer Void),
      Member ''__data_loc_name'' typedef_u32,
      Member ''__data'' (Array (Scalar Char8) 0)]"

lemma struct_trace_event_raw_kmem_cache_free_layout [layout_simps]:
  "wf_type struct_trace_event_raw_kmem_cache_free" "shape struct_trace_event_raw_kmem_cache_free = (32, 8)"
  by (simp_all del: One_nat_def add: struct_trace_event_raw_kmem_cache_free_def layout_eval layout_simps)

definition struct_trace_event_raw_mm_page_free :: ctype where
  "struct_trace_event_raw_mm_page_free =
     Composite Struct False
     [Member ''ent'' struct_trace_entry,
      Member ''pfn'' (Scalar ULong64),
      Member ''order'' (Scalar UInt32),
      Member ''__data'' (Array (Scalar Char8) 0)]"

lemma struct_trace_event_raw_mm_page_free_layout [layout_simps]:
  "wf_type struct_trace_event_raw_mm_page_free" "shape struct_trace_event_raw_mm_page_free = (24, 8)"
  by (simp_all del: One_nat_def add: struct_trace_event_raw_mm_page_free_def layout_eval layout_simps)

definition struct_trace_event_raw_mm_page_alloc :: ctype where
  "struct_trace_event_raw_mm_page_alloc =
     Composite Struct False
     [Member ''ent'' struct_trace_entry,
      Member ''pfn'' (Scalar ULong64),
      Member ''order'' (Scalar UInt32),
      Member ''gfp_flags'' (Scalar ULong64),
      Member ''migratetype'' (Scalar Int32),
      Member ''__data'' (Array (Scalar Char8) 0)]"

lemma struct_trace_event_raw_mm_page_alloc_layout [layout_simps]:
  "wf_type struct_trace_event_raw_mm_page_alloc" "shape struct_trace_event_raw_mm_page_alloc = (40, 8)"
  by (simp_all del: One_nat_def add: struct_trace_event_raw_mm_page_alloc_def layout_eval layout_simps)

definition struct_trace_event_raw_block_rq_completion :: ctype where
  "struct_trace_event_raw_block_rq_completion =
     Composite Struct False
     [Member ''ent'' struct_trace_entry,
      Member ''dev'' typedef_dev_t,
      Member ''sector'' typedef_sector_t,
      Member ''nr_sector'' (Scalar UInt32),
      Member ''error'' (Scalar Int32),
      Member ''rwbs'' (Array (Scalar Char8) 8),
      Member ''__data_loc_cmd'' typedef_u32,
      Member ''__data'' (Array (Scalar Char8) 0)]"

lemma struct_trace_event_raw_block_rq_completion_layout [layout_simps]:
  "wf_type struct_trace_event_raw_block_rq_completion" "shape struct_trace_event_raw_block_rq_completion = (48, 8)"
  by (simp_all del: One_nat_def add: struct_trace_event_raw_block_rq_completion_def layout_eval layout_simps)

definition struct_trace_event_raw_percpu_alloc_percpu :: ctype where
  "struct_trace_event_raw_percpu_alloc_percpu =
     Composite Struct False
     [Member ''ent'' struct_trace_entry,
      Member ''call_site'' (Scalar ULong64),
      Member ''reserved'' typedef_bool,
      Member ''is_atomic'' typedef_bool,
      Member ''size'' typedef_size_t,
      Member ''align'' typedef_size_t,
      Member ''base_addr'' (Pointer Void),
      Member ''off'' (Scalar Int32),
      Member ''ptr'' (Pointer Void),
      Member ''bytes_alloc'' typedef_size_t,
      Member ''gfp_flags'' (Scalar ULong64),
      Member ''__data'' (Array (Scalar Char8) 0)]"

lemma struct_trace_event_raw_percpu_alloc_percpu_layout [layout_simps]:
  "wf_type struct_trace_event_raw_percpu_alloc_percpu" "shape struct_trace_event_raw_percpu_alloc_percpu = (80, 8)"
  by (simp_all del: One_nat_def add: struct_trace_event_raw_percpu_alloc_percpu_def layout_eval layout_simps)

definition struct_trace_event_raw_percpu_free_percpu :: ctype where
  "struct_trace_event_raw_percpu_free_percpu =
     Composite Struct False
     [Member ''ent'' struct_trace_entry,
      Member ''base_addr'' (Pointer Void),
      Member ''off'' (Scalar Int32),
      Member ''ptr'' (Pointer Void),
      Member ''__data'' (Array (Scalar Char8) 0)]"

lemma struct_trace_event_raw_percpu_free_percpu_layout [layout_simps]:
  "wf_type struct_trace_event_raw_percpu_free_percpu" "shape struct_trace_event_raw_percpu_free_percpu = (32, 8)"
  by (simp_all del: One_nat_def add: struct_trace_event_raw_percpu_free_percpu_def layout_eval layout_simps)

text \<open>The types of this theory by kind and name.\<close>

definition trace_types :: "(name_kind \<times> string \<times> ctype) list" where
  "trace_types =
     [(Typedef_name, ''__kernel_long_t'', typedef___kernel_long_t),
      (Typedef_name, ''__kernel_ssize_t'', typedef___kernel_ssize_t),
      (Typedef_name, ''ssize_t'', typedef_ssize_t),
      (Struct_name, ''fred_cs'', struct_fred_cs),
      (Struct_name, ''fred_ss'', struct_fred_ss),
      (Struct_name, ''pt_regs'', struct_pt_regs),
      (Typedef_name, ''s32'', typedef_s32),
      (Struct_name, ''arch_uprobe'', struct_arch_uprobe),
      (Struct_name, ''trace_event'', struct_trace_event),
      (Struct_name, ''trace_event_call'', struct_trace_event_call),
      (Struct_name, ''trace_entry'', struct_trace_entry),
      (Struct_name, ''dyn_event'', struct_dyn_event),
      (Struct_name, ''uprobe_consumer'', struct_uprobe_consumer),
      (Struct_name, ''probe_arg'', struct_probe_arg),
      (Struct_name, ''trace_probe'', struct_trace_probe),
      (Struct_name, ''trace_uprobe'', struct_trace_uprobe),
      (Struct_name, ''uprobe'', struct_uprobe),
      (Struct_name, ''trace_event_raw_kmem_cache_alloc'', struct_trace_event_raw_kmem_cache_alloc),
      (Struct_name, ''trace_event_raw_kmalloc'', struct_trace_event_raw_kmalloc),
      (Struct_name, ''trace_event_raw_kfree'', struct_trace_event_raw_kfree),
      (Struct_name, ''trace_event_raw_kmem_cache_free'', struct_trace_event_raw_kmem_cache_free),
      (Struct_name, ''trace_event_raw_mm_page_free'', struct_trace_event_raw_mm_page_free),
      (Struct_name, ''trace_event_raw_mm_page_alloc'', struct_trace_event_raw_mm_page_alloc),
      (Struct_name, ''trace_event_raw_block_rq_completion'', struct_trace_event_raw_block_rq_completion),
      (Struct_name, ''trace_event_raw_percpu_alloc_percpu'', struct_trace_event_raw_percpu_alloc_percpu),
      (Struct_name, ''trace_event_raw_percpu_free_percpu'', struct_trace_event_raw_percpu_free_percpu)]"

end
