(* ===== verification/VmlinuxTask.thy ===== *)
theory VmlinuxTask
  imports VmlinuxBase
begin

text \<open>
  Kernel types: \<open>task_struct\<close>, from which the task state is read, and the structs
  of a process that it points to. Each definition is one declaration of the header, in the order
  of use; a lemma with each gives its size and alignment in bytes.
\<close>

definition typedef___kernel_pid_t :: ctype where
  "typedef___kernel_pid_t = Scalar Int32"

lemma typedef___kernel_pid_t_layout [layout_simps]:
  "integral typedef___kernel_pid_t" "wf_type typedef___kernel_pid_t" "shape typedef___kernel_pid_t = (4, 4)"
  by (simp_all del: One_nat_def add: typedef___kernel_pid_t_def layout_eval layout_simps)

definition typedef___kernel_clockid_t :: ctype where
  "typedef___kernel_clockid_t = Scalar Int32"

lemma typedef___kernel_clockid_t_layout [layout_simps]:
  "integral typedef___kernel_clockid_t" "wf_type typedef___kernel_clockid_t" "shape typedef___kernel_clockid_t = (4, 4)"
  by (simp_all del: One_nat_def add: typedef___kernel_clockid_t_def layout_eval layout_simps)

definition typedef_pid_t :: ctype where
  "typedef_pid_t = typedef___kernel_pid_t"

lemma typedef_pid_t_layout [layout_simps]:
  "integral typedef_pid_t" "wf_type typedef_pid_t" "shape typedef_pid_t = (4, 4)"
  by (simp_all del: One_nat_def add: typedef_pid_t_def layout_eval layout_simps)

definition typedef_clockid_t :: ctype where
  "typedef_clockid_t = typedef___kernel_clockid_t"

lemma typedef_clockid_t_layout [layout_simps]:
  "integral typedef_clockid_t" "wf_type typedef_clockid_t" "shape typedef_clockid_t = (4, 4)"
  by (simp_all del: One_nat_def add: typedef_clockid_t_def layout_eval layout_simps)

definition struct_thread_info :: ctype where
  "struct_thread_info =
     Composite Struct False
     [Member ''flags'' (Scalar ULong64),
      Member ''syscall_work'' (Scalar ULong64),
      Member ''status'' typedef_u32,
      Member ''cpu'' typedef_u32]"

lemma struct_thread_info_layout [layout_simps]:
  "wf_type struct_thread_info" "shape struct_thread_info = (24, 8)"
  by (simp_all del: One_nat_def add: struct_thread_info_def layout_eval layout_simps)

definition struct_load_weight :: ctype where
  "struct_load_weight =
     Composite Struct False
     [Member ''weight'' (Scalar ULong64),
      Member ''inv_weight'' typedef_u32]"

lemma struct_load_weight_layout [layout_simps]:
  "wf_type struct_load_weight" "shape struct_load_weight = (16, 8)"
  by (simp_all del: One_nat_def add: struct_load_weight_def layout_eval layout_simps)

definition struct_sched_avg :: ctype where
  "struct_sched_avg =
     Composite Struct False
     [Member ''last_update_time'' typedef_u64,
      Member ''load_sum'' typedef_u64,
      Member ''runnable_sum'' typedef_u64,
      Member ''util_sum'' typedef_u32,
      Member ''period_contrib'' typedef_u32,
      Member ''load_avg'' (Scalar ULong64),
      Member ''runnable_avg'' (Scalar ULong64),
      Member ''util_avg'' (Scalar ULong64),
      Member ''util_est'' (Scalar UInt32)]"

lemma struct_sched_avg_layout [layout_simps]:
  "wf_type struct_sched_avg" "shape struct_sched_avg = (64, 8)"
  by (simp_all del: One_nat_def add: struct_sched_avg_def layout_eval layout_simps)

definition struct_sched_entity :: ctype where
  "struct_sched_entity =
     Composite Struct False
     [Member ''load'' struct_load_weight,
      Member ''run_node'' struct_rb_node,
      Member ''deadline'' typedef_u64,
      Member ''min_vruntime'' typedef_u64,
      Member ''group_node'' struct_list_head,
      Member ''on_rq'' (Scalar UInt32),
      Member ''exec_start'' typedef_u64,
      Member ''sum_exec_runtime'' typedef_u64,
      Member ''prev_sum_exec_runtime'' typedef_u64,
      Member ''vruntime'' typedef_u64,
      Member ''vlag'' typedef_s64,
      Member ''slice'' typedef_u64,
      Member ''nr_migrations'' typedef_u64,
      Member ''depth'' (Scalar Int32),
      Member ''parent'' (Pointer (Named Struct_name ''sched_entity'')),
      Member ''cfs_rq'' (Pointer (Named Struct_name ''cfs_rq'')),
      Member ''my_q'' (Pointer (Named Struct_name ''cfs_rq'')),
      Member ''runnable_weight'' (Scalar ULong64),
      Padding (Scalar Long64) 64,
      Padding (Scalar Long64) 64,
      Member ''avg'' struct_sched_avg]"

lemma struct_sched_entity_layout [layout_simps]:
  "wf_type struct_sched_entity" "shape struct_sched_entity = (256, 8)"
  by (simp_all del: One_nat_def add: struct_sched_entity_def layout_eval layout_simps)

definition struct_sched_rt_entity :: ctype where
  "struct_sched_rt_entity =
     Composite Struct False
     [Member ''run_list'' struct_list_head,
      Member ''timeout'' (Scalar ULong64),
      Member ''watchdog_stamp'' (Scalar ULong64),
      Member ''time_slice'' (Scalar UInt32),
      Member ''on_rq'' (Scalar UShort16),
      Member ''on_list'' (Scalar UShort16),
      Member ''back'' (Pointer (Named Struct_name ''sched_rt_entity''))]"

lemma struct_sched_rt_entity_layout [layout_simps]:
  "wf_type struct_sched_rt_entity" "shape struct_sched_rt_entity = (48, 8)"
  by (simp_all del: One_nat_def add: struct_sched_rt_entity_def layout_eval layout_simps)

definition typedef_dl_server_has_tasks_f :: ctype where
  "typedef_dl_server_has_tasks_f = Pointer (Function (Named Typedef_name ''bool'') [Pointer (Named Struct_name ''sched_dl_entity'')])"

lemma typedef_dl_server_has_tasks_f_layout [layout_simps]:
  "wf_type typedef_dl_server_has_tasks_f" "shape typedef_dl_server_has_tasks_f = (8, 8)"
  by (simp_all del: One_nat_def add: typedef_dl_server_has_tasks_f_def layout_eval layout_simps)

definition typedef_dl_server_pick_f :: ctype where
  "typedef_dl_server_pick_f = Pointer (Function (Pointer (Named Struct_name ''task_struct'')) [Pointer (Named Struct_name ''sched_dl_entity'')])"

lemma typedef_dl_server_pick_f_layout [layout_simps]:
  "wf_type typedef_dl_server_pick_f" "shape typedef_dl_server_pick_f = (8, 8)"
  by (simp_all del: One_nat_def add: typedef_dl_server_pick_f_def layout_eval layout_simps)

definition struct_sched_dl_entity :: ctype where
  "struct_sched_dl_entity =
     Composite Struct False
     [Member ''rb_node'' struct_rb_node,
      Member ''dl_runtime'' typedef_u64,
      Member ''dl_deadline'' typedef_u64,
      Member ''dl_period'' typedef_u64,
      Member ''dl_bw'' typedef_u64,
      Member ''dl_density'' typedef_u64,
      Member ''runtime'' typedef_s64,
      Member ''deadline'' typedef_u64,
      Member ''flags'' (Scalar UInt32),
      Bitfield ''dl_throttled'' (Scalar UInt32) 1,
      Bitfield ''dl_yielded'' (Scalar UInt32) 1,
      Bitfield ''dl_non_contending'' (Scalar UInt32) 1,
      Bitfield ''dl_overrun'' (Scalar UInt32) 1,
      Bitfield ''dl_server'' (Scalar UInt32) 1,
      Member ''dl_timer'' struct_hrtimer,
      Member ''inactive_timer'' struct_hrtimer,
      Member ''rq'' (Pointer (Named Struct_name ''rq'')),
      Member ''server_has_tasks'' typedef_dl_server_has_tasks_f,
      Member ''server_pick'' typedef_dl_server_pick_f,
      Member ''pi_se'' (Pointer (Named Struct_name ''sched_dl_entity''))]"

lemma struct_sched_dl_entity_layout [layout_simps]:
  "wf_type struct_sched_dl_entity" "shape struct_sched_dl_entity = (248, 8)"
  by (simp_all del: One_nat_def add: struct_sched_dl_entity_def layout_eval layout_simps)

definition struct_uclamp_se :: ctype where
  "struct_uclamp_se =
     Composite Struct False
     [Bitfield ''value'' (Scalar UInt32) 11,
      Bitfield ''bucket_id'' (Scalar UInt32) 3,
      Bitfield ''active'' (Scalar UInt32) 1,
      Bitfield ''user_defined'' (Scalar UInt32) 1]"

lemma struct_uclamp_se_layout [layout_simps]:
  "wf_type struct_uclamp_se" "shape struct_uclamp_se = (4, 4)"
  by (simp_all del: One_nat_def add: struct_uclamp_se_def layout_eval layout_simps)

definition struct_sched_statistics :: ctype where
  "struct_sched_statistics =
     Composite Struct False
     [Member ''wait_start'' typedef_u64,
      Member ''wait_max'' typedef_u64,
      Member ''wait_count'' typedef_u64,
      Member ''wait_sum'' typedef_u64,
      Member ''iowait_count'' typedef_u64,
      Member ''iowait_sum'' typedef_u64,
      Member ''sleep_start'' typedef_u64,
      Member ''sleep_max'' typedef_u64,
      Member ''sum_sleep_runtime'' typedef_s64,
      Member ''block_start'' typedef_u64,
      Member ''block_max'' typedef_u64,
      Member ''sum_block_runtime'' typedef_s64,
      Member ''exec_max'' typedef_s64,
      Member ''slice_max'' typedef_u64,
      Member ''nr_migrations_cold'' typedef_u64,
      Member ''nr_failed_migrations_affine'' typedef_u64,
      Member ''nr_failed_migrations_running'' typedef_u64,
      Member ''nr_failed_migrations_hot'' typedef_u64,
      Member ''nr_forced_migrations'' typedef_u64,
      Member ''nr_wakeups'' typedef_u64,
      Member ''nr_wakeups_sync'' typedef_u64,
      Member ''nr_wakeups_migrate'' typedef_u64,
      Member ''nr_wakeups_local'' typedef_u64,
      Member ''nr_wakeups_remote'' typedef_u64,
      Member ''nr_wakeups_affine'' typedef_u64,
      Member ''nr_wakeups_affine_attempts'' typedef_u64,
      Member ''nr_wakeups_passive'' typedef_u64,
      Member ''nr_wakeups_idle'' typedef_u64,
      Member ''core_forceidle_sum'' typedef_u64,
      Padding (Scalar Long64) 64,
      Padding (Scalar Long64) 64,
      Padding (Scalar Long64) 64]"

lemma struct_sched_statistics_layout [layout_simps]:
  "wf_type struct_sched_statistics" "shape struct_sched_statistics = (256, 8)"
  by (simp_all del: One_nat_def add: struct_sched_statistics_def layout_eval layout_simps)

definition struct_cpumask :: ctype where
  "struct_cpumask =
     Composite Struct False
     [Member ''bits'' (Array (Scalar ULong64) 128)]"

lemma struct_cpumask_layout [layout_simps]:
  "wf_type struct_cpumask" "shape struct_cpumask = (1024, 8)"
  by (simp_all del: One_nat_def add: struct_cpumask_def layout_eval layout_simps)

definition typedef_cpumask_t :: ctype where
  "typedef_cpumask_t = struct_cpumask"

lemma typedef_cpumask_t_layout [layout_simps]:
  "wf_type typedef_cpumask_t" "shape typedef_cpumask_t = (1024, 8)"
  by (simp_all del: One_nat_def add: typedef_cpumask_t_def layout_eval layout_simps)

definition union_rcu_special :: ctype where
  "union_rcu_special =
     Composite Union False
     [Member ''b'' (Composite Struct False
       [Member ''blocked'' typedef_u8,
        Member ''need_qs'' typedef_u8,
        Member ''exp_hint'' typedef_u8,
        Member ''need_mb'' typedef_u8]),
      Member ''s'' typedef_u32]"

lemma union_rcu_special_layout [layout_simps]:
  "wf_type union_rcu_special" "shape union_rcu_special = (4, 4)"
  by (simp_all del: One_nat_def add: union_rcu_special_def layout_eval layout_simps)

definition struct_sched_info :: ctype where
  "struct_sched_info =
     Composite Struct False
     [Member ''pcount'' (Scalar ULong64),
      Member ''run_delay'' (Scalar ULongLong64),
      Member ''last_arrival'' (Scalar ULongLong64),
      Member ''last_queued'' (Scalar ULongLong64)]"

lemma struct_sched_info_layout [layout_simps]:
  "wf_type struct_sched_info" "shape struct_sched_info = (32, 8)"
  by (simp_all del: One_nat_def add: struct_sched_info_def layout_eval layout_simps)

definition struct_plist_node :: ctype where
  "struct_plist_node =
     Composite Struct False
     [Member ''prio'' (Scalar Int32),
      Member ''prio_list'' struct_list_head,
      Member ''node_list'' struct_list_head]"

lemma struct_plist_node_layout [layout_simps]:
  "wf_type struct_plist_node" "shape struct_plist_node = (40, 8)"
  by (simp_all del: One_nat_def add: struct_plist_node_def layout_eval layout_simps)

definition enum_timespec_type :: ctype where
  "enum_timespec_type =
     Enum
     [(''TT_NONE'', 0), (''TT_NATIVE'', 1), (''TT_COMPAT'', 2)]"

lemma enum_timespec_type_layout [layout_simps]:
  "integral enum_timespec_type" "wf_type enum_timespec_type" "shape enum_timespec_type = (4, 4)"
  by (simp_all del: One_nat_def add: enum_timespec_type_def layout_eval layout_simps)

definition struct_restart_block :: ctype where
  "struct_restart_block =
     Composite Struct False
     [Member ''arch_data'' (Scalar ULong64),
      Member ''fn'' (Pointer (Function (Scalar Long64) [Pointer (Named Struct_name ''restart_block'')])),
      Anonymous (Composite Union False
       [Member ''futex'' (Composite Struct False
         [Member ''uaddr'' (Pointer (Named Typedef_name ''u32'')),
          Member ''val'' typedef_u32,
          Member ''flags'' typedef_u32,
          Member ''bitset'' typedef_u32,
          Member ''time'' typedef_u64,
          Member ''uaddr2'' (Pointer (Named Typedef_name ''u32''))]),
        Member ''nanosleep'' (Composite Struct False
         [Member ''clockid'' typedef_clockid_t,
          Member ''type'' enum_timespec_type,
          Anonymous (Composite Union False
           [Member ''rmtp'' (Pointer (Named Struct_name ''__kernel_timespec'')),
            Member ''compat_rmtp'' (Pointer (Named Struct_name ''old_timespec32''))]),
          Member ''expires'' typedef_u64]),
        Member ''poll'' (Composite Struct False
         [Member ''ufds'' (Pointer (Named Struct_name ''pollfd'')),
          Member ''nfds'' (Scalar Int32),
          Member ''has_timeout'' (Scalar Int32),
          Member ''tv_sec'' (Scalar ULong64),
          Member ''tv_nsec'' (Scalar ULong64)])])]"

lemma struct_restart_block_layout [layout_simps]:
  "wf_type struct_restart_block" "shape struct_restart_block = (56, 8)"
  by (simp_all del: One_nat_def add: struct_restart_block_def layout_eval layout_simps)

definition struct_prev_cputime :: ctype where
  "struct_prev_cputime =
     Composite Struct False
     [Member ''utime'' typedef_u64,
      Member ''stime'' typedef_u64,
      Member ''lock'' typedef_raw_spinlock_t]"

lemma struct_prev_cputime_layout [layout_simps]:
  "wf_type struct_prev_cputime" "shape struct_prev_cputime = (24, 8)"
  by (simp_all del: One_nat_def add: struct_prev_cputime_def layout_eval layout_simps)

definition enum_vtime_state :: ctype where
  "enum_vtime_state =
     Enum
     [(''VTIME_INACTIVE'', 0), (''VTIME_IDLE'', 1), (''VTIME_SYS'', 2), (''VTIME_USER'', 3),
      (''VTIME_GUEST'', 4)]"

lemma enum_vtime_state_layout [layout_simps]:
  "integral enum_vtime_state" "wf_type enum_vtime_state" "shape enum_vtime_state = (4, 4)"
  by (simp_all del: One_nat_def add: enum_vtime_state_def layout_eval layout_simps)

definition struct_vtime :: ctype where
  "struct_vtime =
     Composite Struct False
     [Member ''seqcount'' typedef_seqcount_t,
      Member ''starttime'' (Scalar ULongLong64),
      Member ''state'' enum_vtime_state,
      Member ''cpu'' (Scalar UInt32),
      Member ''utime'' typedef_u64,
      Member ''stime'' typedef_u64,
      Member ''gtime'' typedef_u64]"

lemma struct_vtime_layout [layout_simps]:
  "wf_type struct_vtime" "shape struct_vtime = (48, 8)"
  by (simp_all del: One_nat_def add: struct_vtime_def layout_eval layout_simps)

definition struct_timerqueue_head :: ctype where
  "struct_timerqueue_head =
     Composite Struct False
     [Member ''rb_root'' struct_rb_root_cached]"

lemma struct_timerqueue_head_layout [layout_simps]:
  "wf_type struct_timerqueue_head" "shape struct_timerqueue_head = (16, 8)"
  by (simp_all del: One_nat_def add: struct_timerqueue_head_def layout_eval layout_simps)

definition struct_posix_cputimer_base :: ctype where
  "struct_posix_cputimer_base =
     Composite Struct False
     [Member ''nextevt'' typedef_u64,
      Member ''tqhead'' struct_timerqueue_head]"

lemma struct_posix_cputimer_base_layout [layout_simps]:
  "wf_type struct_posix_cputimer_base" "shape struct_posix_cputimer_base = (24, 8)"
  by (simp_all del: One_nat_def add: struct_posix_cputimer_base_def layout_eval layout_simps)

definition struct_posix_cputimers :: ctype where
  "struct_posix_cputimers =
     Composite Struct False
     [Member ''bases'' (Array struct_posix_cputimer_base 3),
      Member ''timers_active'' (Scalar UInt32),
      Member ''expiry_active'' (Scalar UInt32)]"

lemma struct_posix_cputimers_layout [layout_simps]:
  "wf_type struct_posix_cputimers" "shape struct_posix_cputimers = (80, 8)"
  by (simp_all del: One_nat_def add: struct_posix_cputimers_def layout_eval layout_simps)

definition struct_posix_cputimers_work :: ctype where
  "struct_posix_cputimers_work =
     Composite Struct False
     [Member ''work'' struct_callback_head,
      Member ''mutex'' struct_mutex,
      Member ''scheduled'' (Scalar UInt32)]"

lemma struct_posix_cputimers_work_layout [layout_simps]:
  "wf_type struct_posix_cputimers_work" "shape struct_posix_cputimers_work = (56, 8)"
  by (simp_all del: One_nat_def add: struct_posix_cputimers_work_def layout_eval layout_simps)

definition struct_sysv_sem :: ctype where
  "struct_sysv_sem =
     Composite Struct False
     [Member ''undo_list'' (Pointer (Named Struct_name ''sem_undo_list''))]"

lemma struct_sysv_sem_layout [layout_simps]:
  "wf_type struct_sysv_sem" "shape struct_sysv_sem = (8, 8)"
  by (simp_all del: One_nat_def add: struct_sysv_sem_def layout_eval layout_simps)

definition struct_sysv_shm :: ctype where
  "struct_sysv_shm =
     Composite Struct False
     [Member ''shm_clist'' struct_list_head]"

lemma struct_sysv_shm_layout [layout_simps]:
  "wf_type struct_sysv_shm" "shape struct_sysv_shm = (16, 8)"
  by (simp_all del: One_nat_def add: struct_sysv_shm_def layout_eval layout_simps)

definition typedef_sigset_t :: ctype where
  "typedef_sigset_t =
     Composite Struct False
     [Member ''sig'' (Array (Scalar ULong64) 1)]"

lemma typedef_sigset_t_layout [layout_simps]:
  "wf_type typedef_sigset_t" "shape typedef_sigset_t = (8, 8)"
  by (simp_all del: One_nat_def add: typedef_sigset_t_def layout_eval layout_simps)

definition struct_sigpending :: ctype where
  "struct_sigpending =
     Composite Struct False
     [Member ''list'' struct_list_head,
      Member ''signal'' typedef_sigset_t]"

lemma struct_sigpending_layout [layout_simps]:
  "wf_type struct_sigpending" "shape struct_sigpending = (24, 8)"
  by (simp_all del: One_nat_def add: struct_sigpending_def layout_eval layout_simps)

definition struct_seccomp :: ctype where
  "struct_seccomp =
     Composite Struct False
     [Member ''mode'' (Scalar Int32),
      Member ''filter_count'' typedef_atomic_t,
      Member ''filter'' (Pointer (Named Struct_name ''seccomp_filter''))]"

lemma struct_seccomp_layout [layout_simps]:
  "wf_type struct_seccomp" "shape struct_seccomp = (16, 8)"
  by (simp_all del: One_nat_def add: struct_seccomp_def layout_eval layout_simps)

definition struct_syscall_user_dispatch :: ctype where
  "struct_syscall_user_dispatch =
     Composite Struct False
     [Member ''selector'' (Pointer (Scalar Char8)),
      Member ''offset'' (Scalar ULong64),
      Member ''len'' (Scalar ULong64),
      Member ''on_dispatch'' typedef_bool]"

lemma struct_syscall_user_dispatch_layout [layout_simps]:
  "wf_type struct_syscall_user_dispatch" "shape struct_syscall_user_dispatch = (32, 8)"
  by (simp_all del: One_nat_def add: struct_syscall_user_dispatch_def layout_eval layout_simps)

definition struct_wake_q_node :: ctype where
  "struct_wake_q_node =
     Composite Struct False
     [Member ''next'' (Pointer (Named Struct_name ''wake_q_node''))]"

lemma struct_wake_q_node_layout [layout_simps]:
  "wf_type struct_wake_q_node" "shape struct_wake_q_node = (8, 8)"
  by (simp_all del: One_nat_def add: struct_wake_q_node_def layout_eval layout_simps)

definition struct_task_io_accounting :: ctype where
  "struct_task_io_accounting =
     Composite Struct False
     [Member ''rchar'' typedef_u64,
      Member ''wchar'' typedef_u64,
      Member ''syscr'' typedef_u64,
      Member ''syscw'' typedef_u64,
      Member ''read_bytes'' typedef_u64,
      Member ''write_bytes'' typedef_u64,
      Member ''cancelled_write_bytes'' typedef_u64]"

lemma struct_task_io_accounting_layout [layout_simps]:
  "wf_type struct_task_io_accounting" "shape struct_task_io_accounting = (56, 8)"
  by (simp_all del: One_nat_def add: struct_task_io_accounting_def layout_eval layout_simps)

definition typedef_nodemask_t :: ctype where
  "typedef_nodemask_t =
     Composite Struct False
     [Member ''bits'' (Array (Scalar ULong64) 16)]"

lemma typedef_nodemask_t_layout [layout_simps]:
  "wf_type typedef_nodemask_t" "shape typedef_nodemask_t = (128, 8)"
  by (simp_all del: One_nat_def add: typedef_nodemask_t_def layout_eval layout_simps)

definition struct_arch_tlbflush_unmap_batch :: ctype where
  "struct_arch_tlbflush_unmap_batch =
     Composite Struct False
     [Member ''cpumask'' struct_cpumask]"

lemma struct_arch_tlbflush_unmap_batch_layout [layout_simps]:
  "wf_type struct_arch_tlbflush_unmap_batch" "shape struct_arch_tlbflush_unmap_batch = (1024, 8)"
  by (simp_all del: One_nat_def add: struct_arch_tlbflush_unmap_batch_def layout_eval layout_simps)

definition struct_tlbflush_unmap_batch :: ctype where
  "struct_tlbflush_unmap_batch =
     Composite Struct False
     [Member ''arch'' struct_arch_tlbflush_unmap_batch,
      Member ''flush_required'' typedef_bool,
      Member ''writable'' typedef_bool]"

lemma struct_tlbflush_unmap_batch_layout [layout_simps]:
  "wf_type struct_tlbflush_unmap_batch" "shape struct_tlbflush_unmap_batch = (1032, 8)"
  by (simp_all del: One_nat_def add: struct_tlbflush_unmap_batch_def layout_eval layout_simps)

definition struct_page_frag :: ctype where
  "struct_page_frag =
     Composite Struct False
     [Member ''page'' (Pointer (Named Struct_name ''page'')),
      Member ''offset'' typedef___u32,
      Member ''size'' typedef___u32]"

lemma struct_page_frag_layout [layout_simps]:
  "wf_type struct_page_frag" "shape struct_page_frag = (16, 8)"
  by (simp_all del: One_nat_def add: struct_page_frag_def layout_eval layout_simps)

definition struct_latency_record :: ctype where
  "struct_latency_record =
     Composite Struct False
     [Member ''backtrace'' (Array (Scalar ULong64) 12),
      Member ''count'' (Scalar UInt32),
      Member ''time'' (Scalar ULong64),
      Member ''max'' (Scalar ULong64)]"

lemma struct_latency_record_layout [layout_simps]:
  "wf_type struct_latency_record" "shape struct_latency_record = (120, 8)"
  by (simp_all del: One_nat_def add: struct_latency_record_def layout_eval layout_simps)

definition struct_kmap_ctrl :: ctype where
  "struct_kmap_ctrl =
     Composite Struct False
     []"

lemma struct_kmap_ctrl_layout [layout_simps]:
  "wf_type struct_kmap_ctrl" "shape struct_kmap_ctrl = (0, 1)"
  by (simp_all del: One_nat_def add: struct_kmap_ctrl_def layout_eval layout_simps)

definition struct_llist_head :: ctype where
  "struct_llist_head =
     Composite Struct False
     [Member ''first'' (Pointer (Named Struct_name ''llist_node''))]"

lemma struct_llist_head_layout [layout_simps]:
  "wf_type struct_llist_head" "shape struct_llist_head = (8, 8)"
  by (simp_all del: One_nat_def add: struct_llist_head_def layout_eval layout_simps)

definition struct_da_monitor :: ctype where
  "struct_da_monitor =
     Composite Struct False
     [Member ''monitoring'' typedef_bool,
      Member ''curr_state'' (Scalar UInt32)]"

lemma struct_da_monitor_layout [layout_simps]:
  "wf_type struct_da_monitor" "shape struct_da_monitor = (8, 4)"
  by (simp_all del: One_nat_def add: struct_da_monitor_def layout_eval layout_simps)

definition union_rv_task_monitor :: ctype where
  "union_rv_task_monitor =
     Composite Union False
     [Member ''da_mon'' struct_da_monitor]"

lemma union_rv_task_monitor_layout [layout_simps]:
  "wf_type union_rv_task_monitor" "shape union_rv_task_monitor = (8, 4)"
  by (simp_all del: One_nat_def add: union_rv_task_monitor_def layout_eval layout_simps)

definition struct_desc_struct :: ctype where
  "struct_desc_struct =
     Composite Struct False
     [Member ''limit0'' typedef_u16,
      Member ''base0'' typedef_u16,
      Bitfield ''base1'' typedef_u16 8,
      Bitfield ''type'' typedef_u16 4,
      Bitfield ''s'' typedef_u16 1,
      Bitfield ''dpl'' typedef_u16 2,
      Bitfield ''p'' typedef_u16 1,
      Bitfield ''limit1'' typedef_u16 4,
      Bitfield ''avl'' typedef_u16 1,
      Bitfield ''l'' typedef_u16 1,
      Bitfield ''d'' typedef_u16 1,
      Bitfield ''g'' typedef_u16 1,
      Bitfield ''base2'' typedef_u16 8]"

lemma struct_desc_struct_layout [layout_simps]:
  "wf_type struct_desc_struct" "shape struct_desc_struct = (8, 2)"
  by (simp_all del: One_nat_def add: struct_desc_struct_def layout_eval layout_simps)

definition struct_thread_shstk :: ctype where
  "struct_thread_shstk =
     Composite Struct False
     [Member ''base'' typedef_u64,
      Member ''size'' typedef_u64]"

lemma struct_thread_shstk_layout [layout_simps]:
  "wf_type struct_thread_shstk" "shape struct_thread_shstk = (16, 8)"
  by (simp_all del: One_nat_def add: struct_thread_shstk_def layout_eval layout_simps)

definition struct_fpu_state_perm :: ctype where
  "struct_fpu_state_perm =
     Composite Struct False
     [Member ''__state_perm'' typedef_u64,
      Member ''__state_size'' (Scalar UInt32),
      Member ''__user_state_size'' (Scalar UInt32)]"

lemma struct_fpu_state_perm_layout [layout_simps]:
  "wf_type struct_fpu_state_perm" "shape struct_fpu_state_perm = (16, 8)"
  by (simp_all del: One_nat_def add: struct_fpu_state_perm_def layout_eval layout_simps)

definition struct_fregs_state :: ctype where
  "struct_fregs_state =
     Composite Struct False
     [Member ''cwd'' typedef_u32,
      Member ''swd'' typedef_u32,
      Member ''twd'' typedef_u32,
      Member ''fip'' typedef_u32,
      Member ''fcs'' typedef_u32,
      Member ''foo'' typedef_u32,
      Member ''fos'' typedef_u32,
      Member ''st_space'' (Array typedef_u32 20),
      Member ''status'' typedef_u32]"

lemma struct_fregs_state_layout [layout_simps]:
  "wf_type struct_fregs_state" "shape struct_fregs_state = (112, 4)"
  by (simp_all del: One_nat_def add: struct_fregs_state_def layout_eval layout_simps)

definition struct_fxregs_state :: ctype where
  "struct_fxregs_state =
     Composite Struct False
     [Member ''cwd'' typedef_u16,
      Member ''swd'' typedef_u16,
      Member ''twd'' typedef_u16,
      Member ''fop'' typedef_u16,
      Anonymous (Composite Union False
       [Anonymous (Composite Struct False
         [Member ''rip'' typedef_u64,
          Member ''rdp'' typedef_u64]),
        Anonymous (Composite Struct False
         [Member ''fip'' typedef_u32,
          Member ''fcs'' typedef_u32,
          Member ''foo'' typedef_u32,
          Member ''fos'' typedef_u32])]),
      Member ''mxcsr'' typedef_u32,
      Member ''mxcsr_mask'' typedef_u32,
      Member ''st_space'' (Array typedef_u32 32),
      Member ''xmm_space'' (Array typedef_u32 64),
      Member ''padding'' (Array typedef_u32 12),
      Anonymous (Composite Union False
       [Member ''padding1'' (Array typedef_u32 12),
        Member ''sw_reserved'' (Array typedef_u32 12)])]"

lemma struct_fxregs_state_layout [layout_simps]:
  "wf_type struct_fxregs_state" "shape struct_fxregs_state = (512, 8)"
  by (simp_all del: One_nat_def add: struct_fxregs_state_def layout_eval layout_simps)

definition struct_swregs_state :: ctype where
  "struct_swregs_state =
     Composite Struct False
     [Member ''cwd'' typedef_u32,
      Member ''swd'' typedef_u32,
      Member ''twd'' typedef_u32,
      Member ''fip'' typedef_u32,
      Member ''fcs'' typedef_u32,
      Member ''foo'' typedef_u32,
      Member ''fos'' typedef_u32,
      Member ''st_space'' (Array typedef_u32 20),
      Member ''ftop'' typedef_u8,
      Member ''changed'' typedef_u8,
      Member ''lookahead'' typedef_u8,
      Member ''no_update'' typedef_u8,
      Member ''rm'' typedef_u8,
      Member ''alimit'' typedef_u8,
      Member ''info'' (Pointer (Named Struct_name ''math_emu_info'')),
      Member ''entry_eip'' typedef_u32]"

lemma struct_swregs_state_layout [layout_simps]:
  "wf_type struct_swregs_state" "shape struct_swregs_state = (136, 8)"
  by (simp_all del: One_nat_def add: struct_swregs_state_def layout_eval layout_simps)

definition struct_xstate_header :: ctype where
  "struct_xstate_header =
     Composite Struct False
     [Member ''xfeatures'' typedef_u64,
      Member ''xcomp_bv'' typedef_u64,
      Member ''reserved'' (Array typedef_u64 6)]"

lemma struct_xstate_header_layout [layout_simps]:
  "wf_type struct_xstate_header" "shape struct_xstate_header = (64, 8)"
  by (simp_all del: One_nat_def add: struct_xstate_header_def layout_eval layout_simps)

definition struct_xregs_state :: ctype where
  "struct_xregs_state =
     Composite Struct False
     [Member ''i387'' struct_fxregs_state,
      Member ''header'' struct_xstate_header,
      Member ''extended_state_area'' (Array typedef_u8 0)]"

lemma struct_xregs_state_layout [layout_simps]:
  "wf_type struct_xregs_state" "shape struct_xregs_state = (576, 8)"
  by (simp_all del: One_nat_def add: struct_xregs_state_def layout_eval layout_simps)

definition union_fpregs_state :: ctype where
  "union_fpregs_state =
     Composite Union False
     [Member ''fsave'' struct_fregs_state,
      Member ''fxsave'' struct_fxregs_state,
      Member ''soft'' struct_swregs_state,
      Member ''xsave'' struct_xregs_state,
      Member ''__padding'' (Array typedef_u8 4096)]"

lemma union_fpregs_state_layout [layout_simps]:
  "wf_type union_fpregs_state" "shape union_fpregs_state = (4096, 8)"
  by (simp_all del: One_nat_def add: union_fpregs_state_def layout_eval layout_simps)

definition struct_fpstate :: ctype where
  "struct_fpstate =
     Composite Struct False
     [Member ''size'' (Scalar UInt32),
      Member ''user_size'' (Scalar UInt32),
      Member ''xfeatures'' typedef_u64,
      Member ''user_xfeatures'' typedef_u64,
      Member ''xfd'' typedef_u64,
      Bitfield ''is_valloc'' (Scalar UInt32) 1,
      Bitfield ''is_guest'' (Scalar UInt32) 1,
      Bitfield ''is_confidential'' (Scalar UInt32) 1,
      Bitfield ''in_use'' (Scalar UInt32) 1,
      Padding (Scalar Long64) 64,
      Padding (Scalar Long64) 64,
      Padding (Scalar Long64) 64,
      Member ''regs'' union_fpregs_state]"

lemma struct_fpstate_layout [layout_simps]:
  "wf_type struct_fpstate" "shape struct_fpstate = (4160, 8)"
  by (simp_all del: One_nat_def add: struct_fpstate_def layout_eval layout_simps)

definition struct_fpu :: ctype where
  "struct_fpu =
     Composite Struct False
     [Member ''last_cpu'' (Scalar UInt32),
      Member ''avx512_timestamp'' (Scalar ULong64),
      Member ''fpstate'' (Pointer (Named Struct_name ''fpstate'')),
      Member ''__task_fpstate'' (Pointer (Named Struct_name ''fpstate'')),
      Member ''perm'' struct_fpu_state_perm,
      Member ''guest_perm'' struct_fpu_state_perm,
      Member ''__fpstate'' struct_fpstate]"

lemma struct_fpu_layout [layout_simps]:
  "wf_type struct_fpu" "shape struct_fpu = (4224, 8)"
  by (simp_all del: One_nat_def add: struct_fpu_def layout_eval layout_simps)

definition struct_thread_struct :: ctype where
  "struct_thread_struct =
     Composite Struct False
     [Member ''tls_array'' (Array struct_desc_struct 3),
      Member ''sp'' (Scalar ULong64),
      Member ''es'' (Scalar UShort16),
      Member ''ds'' (Scalar UShort16),
      Member ''fsindex'' (Scalar UShort16),
      Member ''gsindex'' (Scalar UShort16),
      Member ''fsbase'' (Scalar ULong64),
      Member ''gsbase'' (Scalar ULong64),
      Member ''ptrace_bps'' (Array (Pointer (Named Struct_name ''perf_event'')) 4),
      Member ''virtual_dr6'' (Scalar ULong64),
      Member ''ptrace_dr7'' (Scalar ULong64),
      Member ''cr2'' (Scalar ULong64),
      Member ''trap_nr'' (Scalar ULong64),
      Member ''error_code'' (Scalar ULong64),
      Member ''io_bitmap'' (Pointer (Named Struct_name ''io_bitmap'')),
      Member ''iopl_emul'' (Scalar ULong64),
      Bitfield ''iopl_warn'' (Scalar UInt32) 1,
      Member ''pkru'' typedef_u32,
      Member ''features'' (Scalar ULong64),
      Member ''features_locked'' (Scalar ULong64),
      Member ''shstk'' struct_thread_shstk,
      Padding (Scalar Long64) 64,
      Member ''fpu'' struct_fpu]"

lemma struct_thread_struct_layout [layout_simps]:
  "wf_type struct_thread_struct" "shape struct_thread_struct = (4416, 8)"
  by (simp_all del: One_nat_def add: struct_thread_struct_def layout_eval layout_simps)

definition struct_task_struct :: ctype where
  "struct_task_struct =
     Composite Struct False
     [Member ''thread_info'' struct_thread_info,
      Member ''__state'' (Scalar UInt32),
      Member ''saved_state'' (Scalar UInt32),
      Member ''stack'' (Pointer Void),
      Member ''usage'' typedef_refcount_t,
      Member ''flags'' (Scalar UInt32),
      Member ''ptrace'' (Scalar UInt32),
      Member ''on_cpu'' (Scalar Int32),
      Member ''wake_entry'' struct___call_single_node,
      Member ''wakee_flips'' (Scalar UInt32),
      Member ''wakee_flip_decay_ts'' (Scalar ULong64),
      Member ''last_wakee'' (Pointer (Named Struct_name ''task_struct'')),
      Member ''recent_used_cpu'' (Scalar Int32),
      Member ''wake_cpu'' (Scalar Int32),
      Member ''on_rq'' (Scalar Int32),
      Member ''prio'' (Scalar Int32),
      Member ''static_prio'' (Scalar Int32),
      Member ''normal_prio'' (Scalar Int32),
      Member ''rt_priority'' (Scalar UInt32),
      Member ''se'' struct_sched_entity,
      Member ''rt'' struct_sched_rt_entity,
      Member ''dl'' struct_sched_dl_entity,
      Member ''dl_server'' (Pointer (Named Struct_name ''sched_dl_entity'')),
      Member ''sched_class'' (Pointer (Named Struct_name ''sched_class'')),
      Member ''core_node'' struct_rb_node,
      Member ''core_cookie'' (Scalar ULong64),
      Member ''core_occupation'' (Scalar UInt32),
      Member ''sched_task_group'' (Pointer (Named Struct_name ''task_group'')),
      Member ''uclamp_req'' (Array struct_uclamp_se 2),
      Member ''uclamp'' (Array struct_uclamp_se 2),
      Padding (Scalar Long64) 64,
      Member ''stats'' struct_sched_statistics,
      Member ''preempt_notifiers'' struct_hlist_head,
      Member ''btrace_seq'' (Scalar UInt32),
      Member ''policy'' (Scalar UInt32),
      Member ''nr_cpus_allowed'' (Scalar Int32),
      Member ''cpus_ptr'' (Pointer (Named Typedef_name ''cpumask_t'')),
      Member ''user_cpus_ptr'' (Pointer (Named Typedef_name ''cpumask_t'')),
      Member ''cpus_mask'' typedef_cpumask_t,
      Member ''migration_pending'' (Pointer Void),
      Member ''migration_disabled'' (Scalar UShort16),
      Member ''migration_flags'' (Scalar UShort16),
      Member ''rcu_read_lock_nesting'' (Scalar Int32),
      Member ''rcu_read_unlock_special'' union_rcu_special,
      Member ''rcu_node_entry'' struct_list_head,
      Member ''rcu_blocked_node'' (Pointer (Named Struct_name ''rcu_node'')),
      Member ''rcu_tasks_nvcsw'' (Scalar ULong64),
      Member ''rcu_tasks_holdout'' typedef_u8,
      Member ''rcu_tasks_idx'' typedef_u8,
      Member ''rcu_tasks_idle_cpu'' (Scalar Int32),
      Member ''rcu_tasks_holdout_list'' struct_list_head,
      Member ''rcu_tasks_exit_cpu'' (Scalar Int32),
      Member ''rcu_tasks_exit_list'' struct_list_head,
      Member ''trc_reader_nesting'' (Scalar Int32),
      Member ''trc_ipi_to_cpu'' (Scalar Int32),
      Member ''trc_reader_special'' union_rcu_special,
      Member ''trc_holdout_list'' struct_list_head,
      Member ''trc_blkd_node'' struct_list_head,
      Member ''trc_blkd_cpu'' (Scalar Int32),
      Member ''sched_info'' struct_sched_info,
      Member ''tasks'' struct_list_head,
      Member ''pushable_tasks'' struct_plist_node,
      Member ''pushable_dl_tasks'' struct_rb_node,
      Member ''mm'' (Pointer (Named Struct_name ''mm_struct'')),
      Member ''active_mm'' (Pointer (Named Struct_name ''mm_struct'')),
      Member ''faults_disabled_mapping'' (Pointer (Named Struct_name ''address_space'')),
      Member ''exit_state'' (Scalar Int32),
      Member ''exit_code'' (Scalar Int32),
      Member ''exit_signal'' (Scalar Int32),
      Member ''pdeath_signal'' (Scalar Int32),
      Member ''jobctl'' (Scalar ULong64),
      Member ''personality'' (Scalar UInt32),
      Bitfield ''sched_reset_on_fork'' (Scalar UInt32) 1,
      Bitfield ''sched_contributes_to_load'' (Scalar UInt32) 1,
      Bitfield ''sched_migrated'' (Scalar UInt32) 1,
      Bitfield ''sched_task_hot'' (Scalar UInt32) 1,
      Padding (Scalar Long64) 28,
      Bitfield ''sched_remote_wakeup'' (Scalar UInt32) 1,
      Bitfield ''sched_rt_mutex'' (Scalar UInt32) 1,
      Bitfield ''in_execve'' (Scalar UInt32) 1,
      Bitfield ''in_iowait'' (Scalar UInt32) 1,
      Bitfield ''restore_sigmask'' (Scalar UInt32) 1,
      Bitfield ''in_user_fault'' (Scalar UInt32) 1,
      Bitfield ''in_lru_fault'' (Scalar UInt32) 1,
      Bitfield ''no_cgroup_migration'' (Scalar UInt32) 1,
      Bitfield ''frozen'' (Scalar UInt32) 1,
      Bitfield ''use_memdelay'' (Scalar UInt32) 1,
      Bitfield ''in_memstall'' (Scalar UInt32) 1,
      Bitfield ''in_eventfd'' (Scalar UInt32) 1,
      Bitfield ''pasid_activated'' (Scalar UInt32) 1,
      Bitfield ''reported_split_lock'' (Scalar UInt32) 1,
      Bitfield ''in_thrashing'' (Scalar UInt32) 1,
      Member ''atomic_flags'' (Scalar ULong64),
      Member ''restart_block'' struct_restart_block,
      Member ''pid'' typedef_pid_t,
      Member ''tgid'' typedef_pid_t,
      Member ''stack_canary'' (Scalar ULong64),
      Member ''real_parent'' (Pointer (Named Struct_name ''task_struct'')),
      Member ''parent'' (Pointer (Named Struct_name ''task_struct'')),
      Member ''children'' struct_list_head,
      Member ''sibling'' struct_list_head,
      Member ''group_leader'' (Pointer (Named Struct_name ''task_struct'')),
      Member ''ptraced'' struct_list_head,
      Member ''ptrace_entry'' struct_list_head,
      Member ''thread_pid'' (Pointer (Named Struct_name ''pid'')),
      Member ''pid_links'' (Array struct_hlist_node 4),
      Member ''thread_node'' struct_list_head,
      Member ''vfork_done'' (Pointer (Named Struct_name ''completion'')),
      Member ''set_child_tid'' (Pointer (Scalar Int32)),
      Member ''clear_child_tid'' (Pointer (Scalar Int32)),
      Member ''worker_private'' (Pointer Void),
      Member ''utime'' typedef_u64,
      Member ''stime'' typedef_u64,
      Member ''gtime'' typedef_u64,
      Member ''prev_cputime'' struct_prev_cputime,
      Member ''vtime'' struct_vtime,
      Member ''tick_dep_mask'' typedef_atomic_t,
      Member ''nvcsw'' (Scalar ULong64),
      Member ''nivcsw'' (Scalar ULong64),
      Member ''start_time'' typedef_u64,
      Member ''start_boottime'' typedef_u64,
      Member ''min_flt'' (Scalar ULong64),
      Member ''maj_flt'' (Scalar ULong64),
      Member ''posix_cputimers'' struct_posix_cputimers,
      Member ''posix_cputimers_work'' struct_posix_cputimers_work,
      Member ''ptracer_cred'' (Pointer (Named Struct_name ''cred'')),
      Member ''real_cred'' (Pointer (Named Struct_name ''cred'')),
      Member ''cred'' (Pointer (Named Struct_name ''cred'')),
      Member ''cached_requested_key'' (Pointer (Named Struct_name ''key'')),
      Member ''comm'' (Array (Scalar Char8) 16),
      Member ''nameidata'' (Pointer (Named Struct_name ''nameidata'')),
      Member ''sysvsem'' struct_sysv_sem,
      Member ''sysvshm'' struct_sysv_shm,
      Member ''last_switch_count'' (Scalar ULong64),
      Member ''last_switch_time'' (Scalar ULong64),
      Member ''fs'' (Pointer (Named Struct_name ''fs_struct'')),
      Member ''files'' (Pointer (Named Struct_name ''files_struct'')),
      Member ''io_uring'' (Pointer (Named Struct_name ''io_uring_task'')),
      Member ''nsproxy'' (Pointer (Named Struct_name ''nsproxy'')),
      Member ''signal'' (Pointer (Named Struct_name ''signal_struct'')),
      Member ''sighand'' (Pointer (Named Struct_name ''sighand_struct'')),
      Member ''blocked'' typedef_sigset_t,
      Member ''real_blocked'' typedef_sigset_t,
      Member ''saved_sigmask'' typedef_sigset_t,
      Member ''pending'' struct_sigpending,
      Member ''sas_ss_sp'' (Scalar ULong64),
      Member ''sas_ss_size'' typedef_size_t,
      Member ''sas_ss_flags'' (Scalar UInt32),
      Member ''task_works'' (Pointer (Named Struct_name ''callback_head'')),
      Member ''audit_context'' (Pointer (Named Struct_name ''audit_context'')),
      Member ''loginuid'' typedef_kuid_t,
      Member ''sessionid'' (Scalar UInt32),
      Member ''seccomp'' struct_seccomp,
      Member ''syscall_dispatch'' struct_syscall_user_dispatch,
      Member ''parent_exec_id'' typedef_u64,
      Member ''self_exec_id'' typedef_u64,
      Member ''alloc_lock'' typedef_spinlock_t,
      Member ''pi_lock'' typedef_raw_spinlock_t,
      Member ''wake_q'' struct_wake_q_node,
      Member ''pi_waiters'' struct_rb_root_cached,
      Member ''pi_top_task'' (Pointer (Named Struct_name ''task_struct'')),
      Member ''pi_blocked_on'' (Pointer (Named Struct_name ''rt_mutex_waiter'')),
      Member ''in_ubsan'' (Scalar UInt32),
      Member ''journal_info'' (Pointer Void),
      Member ''bio_list'' (Pointer (Named Struct_name ''bio_list'')),
      Member ''plug'' (Pointer (Named Struct_name ''blk_plug'')),
      Member ''reclaim_state'' (Pointer (Named Struct_name ''reclaim_state'')),
      Member ''io_context'' (Pointer (Named Struct_name ''io_context'')),
      Member ''capture_control'' (Pointer (Named Struct_name ''capture_control'')),
      Member ''ptrace_message'' (Scalar ULong64),
      Member ''last_siginfo'' (Pointer (Named Typedef_name ''kernel_siginfo_t'')),
      Member ''ioac'' struct_task_io_accounting,
      Member ''psi_flags'' (Scalar UInt32),
      Member ''acct_rss_mem1'' typedef_u64,
      Member ''acct_vm_mem1'' typedef_u64,
      Member ''acct_timexpd'' typedef_u64,
      Member ''mems_allowed'' typedef_nodemask_t,
      Member ''mems_allowed_seq'' typedef_seqcount_spinlock_t,
      Member ''cpuset_mem_spread_rotor'' (Scalar Int32),
      Member ''cpuset_slab_spread_rotor'' (Scalar Int32),
      Member ''cgroups'' (Pointer (Named Struct_name ''css_set'')),
      Member ''cg_list'' struct_list_head,
      Member ''closid'' typedef_u32,
      Member ''rmid'' typedef_u32,
      Member ''robust_list'' (Pointer (Named Struct_name ''robust_list_head'')),
      Member ''compat_robust_list'' (Pointer (Named Struct_name ''compat_robust_list_head'')),
      Member ''pi_state_list'' struct_list_head,
      Member ''pi_state_cache'' (Pointer (Named Struct_name ''futex_pi_state'')),
      Member ''futex_exit_mutex'' struct_mutex,
      Member ''futex_state'' (Scalar UInt32),
      Member ''perf_event_ctxp'' (Pointer (Named Struct_name ''perf_event_context'')),
      Member ''perf_event_mutex'' struct_mutex,
      Member ''perf_event_list'' struct_list_head,
      Member ''mempolicy'' (Pointer (Named Struct_name ''mempolicy'')),
      Member ''il_prev'' (Scalar Short16),
      Member ''pref_node_fork'' (Scalar Short16),
      Member ''numa_scan_seq'' (Scalar Int32),
      Member ''numa_scan_period'' (Scalar UInt32),
      Member ''numa_scan_period_max'' (Scalar UInt32),
      Member ''numa_preferred_nid'' (Scalar Int32),
      Member ''numa_migrate_retry'' (Scalar ULong64),
      Member ''node_stamp'' typedef_u64,
      Member ''last_task_numa_placement'' typedef_u64,
      Member ''last_sum_exec_runtime'' typedef_u64,
      Member ''numa_work'' struct_callback_head,
      Member ''numa_group'' (Pointer (Named Struct_name ''numa_group'')),
      Member ''numa_faults'' (Pointer (Scalar ULong64)),
      Member ''total_numa_faults'' (Scalar ULong64),
      Member ''numa_faults_locality'' (Array (Scalar ULong64) 3),
      Member ''numa_pages_migrated'' (Scalar ULong64),
      Member ''rseq'' (Pointer (Named Struct_name ''rseq'')),
      Member ''rseq_len'' typedef_u32,
      Member ''rseq_sig'' typedef_u32,
      Member ''rseq_event_mask'' (Scalar ULong64),
      Member ''mm_cid'' (Scalar Int32),
      Member ''last_mm_cid'' (Scalar Int32),
      Member ''migrate_from_cpu'' (Scalar Int32),
      Member ''mm_cid_active'' (Scalar Int32),
      Member ''cid_work'' struct_callback_head,
      Member ''tlb_ubc'' struct_tlbflush_unmap_batch,
      Member ''splice_pipe'' (Pointer (Named Struct_name ''pipe_inode_info'')),
      Member ''task_frag'' struct_page_frag,
      Member ''delays'' (Pointer (Named Struct_name ''task_delay_info'')),
      Member ''nr_dirtied'' (Scalar Int32),
      Member ''nr_dirtied_pause'' (Scalar Int32),
      Member ''dirty_paused_when'' (Scalar ULong64),
      Member ''latency_record_count'' (Scalar Int32),
      Member ''latency_record'' (Array struct_latency_record 32),
      Member ''timer_slack_ns'' typedef_u64,
      Member ''default_timer_slack_ns'' typedef_u64,
      Member ''curr_ret_stack'' (Scalar Int32),
      Member ''curr_ret_depth'' (Scalar Int32),
      Member ''ret_stack'' (Pointer (Named Struct_name ''ftrace_ret_stack'')),
      Member ''ftrace_timestamp'' (Scalar ULongLong64),
      Member ''trace_overrun'' typedef_atomic_t,
      Member ''tracing_graph_pause'' typedef_atomic_t,
      Member ''trace_recursion'' (Scalar ULong64),
      Member ''memcg_in_oom'' (Pointer (Named Struct_name ''mem_cgroup'')),
      Member ''memcg_oom_gfp_mask'' typedef_gfp_t,
      Member ''memcg_oom_order'' (Scalar Int32),
      Member ''memcg_nr_pages_over_high'' (Scalar UInt32),
      Member ''active_memcg'' (Pointer (Named Struct_name ''mem_cgroup'')),
      Member ''objcg'' (Pointer (Named Struct_name ''obj_cgroup'')),
      Member ''throttle_disk'' (Pointer (Named Struct_name ''gendisk'')),
      Member ''utask'' (Pointer (Named Struct_name ''uprobe_task'')),
      Member ''sequential_io'' (Scalar UInt32),
      Member ''sequential_io_avg'' (Scalar UInt32),
      Member ''kmap_ctrl'' struct_kmap_ctrl,
      Member ''rcu'' struct_callback_head,
      Member ''rcu_users'' typedef_refcount_t,
      Member ''pagefault_disabled'' (Scalar Int32),
      Member ''oom_reaper_list'' (Pointer (Named Struct_name ''task_struct'')),
      Member ''oom_reaper_timer'' struct_timer_list,
      Member ''stack_vm_area'' (Pointer (Named Struct_name ''vm_struct'')),
      Member ''stack_refcount'' typedef_refcount_t,
      Member ''patch_state'' (Scalar Int32),
      Member ''security'' (Pointer Void),
      Member ''bpf_storage'' (Pointer (Named Struct_name ''bpf_local_storage'')),
      Member ''bpf_ctx'' (Pointer (Named Struct_name ''bpf_run_ctx'')),
      Member ''mce_vaddr'' (Pointer Void),
      Member ''mce_kflags'' typedef___u64,
      Member ''mce_addr'' typedef_u64,
      Bitfield ''mce_ripv'' typedef___u64 1,
      Bitfield ''mce_whole_page'' typedef___u64 1,
      Bitfield ''__mce_reserved'' typedef___u64 62,
      Member ''mce_kill_me'' struct_callback_head,
      Member ''mce_count'' (Scalar Int32),
      Member ''kretprobe_instances'' struct_llist_head,
      Member ''rethooks'' struct_llist_head,
      Member ''l1d_flush_kill'' struct_callback_head,
      Member ''rv'' (Array union_rv_task_monitor 1),
      Member ''user_event_mm'' (Pointer (Named Struct_name ''user_event_mm'')),
      Member ''thread'' struct_thread_struct]"

lemma struct_task_struct_layout [layout_simps]:
  "wf_type struct_task_struct" "shape struct_task_struct = (13696, 8)"
  by (simp_all del: One_nat_def add: struct_task_struct_def layout_eval layout_simps)

definition typedef_kernel_cap_t :: ctype where
  "typedef_kernel_cap_t =
     Composite Struct False
     [Member ''val'' typedef_u64]"

lemma typedef_kernel_cap_t_layout [layout_simps]:
  "wf_type typedef_kernel_cap_t" "shape typedef_kernel_cap_t = (8, 8)"
  by (simp_all del: One_nat_def add: typedef_kernel_cap_t_def layout_eval layout_simps)

definition struct_cred :: ctype where
  "struct_cred =
     Composite Struct False
     [Member ''usage'' typedef_atomic_long_t,
      Member ''uid'' typedef_kuid_t,
      Member ''gid'' typedef_kgid_t,
      Member ''suid'' typedef_kuid_t,
      Member ''sgid'' typedef_kgid_t,
      Member ''euid'' typedef_kuid_t,
      Member ''egid'' typedef_kgid_t,
      Member ''fsuid'' typedef_kuid_t,
      Member ''fsgid'' typedef_kgid_t,
      Member ''securebits'' (Scalar UInt32),
      Member ''cap_inheritable'' typedef_kernel_cap_t,
      Member ''cap_permitted'' typedef_kernel_cap_t,
      Member ''cap_effective'' typedef_kernel_cap_t,
      Member ''cap_bset'' typedef_kernel_cap_t,
      Member ''cap_ambient'' typedef_kernel_cap_t,
      Member ''jit_keyring'' (Scalar UChar8),
      Member ''session_keyring'' (Pointer (Named Struct_name ''key'')),
      Member ''process_keyring'' (Pointer (Named Struct_name ''key'')),
      Member ''thread_keyring'' (Pointer (Named Struct_name ''key'')),
      Member ''request_key_auth'' (Pointer (Named Struct_name ''key'')),
      Member ''security'' (Pointer Void),
      Member ''user'' (Pointer (Named Struct_name ''user_struct'')),
      Member ''user_ns'' (Pointer (Named Struct_name ''user_namespace'')),
      Member ''ucounts'' (Pointer (Named Struct_name ''ucounts'')),
      Member ''group_info'' (Pointer (Named Struct_name ''group_info'')),
      Anonymous (Composite Union False
       [Member ''non_rcu'' (Scalar Int32),
        Member ''rcu'' struct_callback_head])]"

lemma struct_cred_layout [layout_simps]:
  "wf_type struct_cred" "shape struct_cred = (184, 8)"
  by (simp_all del: One_nat_def add: struct_cred_def layout_eval layout_simps)

definition struct_rlimit :: ctype where
  "struct_rlimit =
     Composite Struct False
     [Member ''rlim_cur'' typedef___kernel_ulong_t,
      Member ''rlim_max'' typedef___kernel_ulong_t]"

lemma struct_rlimit_layout [layout_simps]:
  "wf_type struct_rlimit" "shape struct_rlimit = (16, 8)"
  by (simp_all del: One_nat_def add: struct_rlimit_def layout_eval layout_simps)

definition typedef___sighandler_t :: ctype where
  "typedef___sighandler_t = Pointer (Named Typedef_name ''__signalfn_t'')"

lemma typedef___sighandler_t_layout [layout_simps]:
  "wf_type typedef___sighandler_t" "shape typedef___sighandler_t = (8, 8)"
  by (simp_all del: One_nat_def add: typedef___sighandler_t_def layout_eval layout_simps)

definition typedef___sigrestore_t :: ctype where
  "typedef___sigrestore_t = Pointer (Named Typedef_name ''__restorefn_t'')"

lemma typedef___sigrestore_t_layout [layout_simps]:
  "wf_type typedef___sigrestore_t" "shape typedef___sigrestore_t = (8, 8)"
  by (simp_all del: One_nat_def add: typedef___sigrestore_t_def layout_eval layout_simps)

definition struct_sigaction :: ctype where
  "struct_sigaction =
     Composite Struct False
     [Member ''sa_handler'' typedef___sighandler_t,
      Member ''sa_flags'' (Scalar ULong64),
      Member ''sa_restorer'' typedef___sigrestore_t,
      Member ''sa_mask'' typedef_sigset_t]"

lemma struct_sigaction_layout [layout_simps]:
  "wf_type struct_sigaction" "shape struct_sigaction = (32, 8)"
  by (simp_all del: One_nat_def add: struct_sigaction_def layout_eval layout_simps)

definition struct_k_sigaction :: ctype where
  "struct_k_sigaction =
     Composite Struct False
     [Member ''sa'' struct_sigaction]"

lemma struct_k_sigaction_layout [layout_simps]:
  "wf_type struct_k_sigaction" "shape struct_k_sigaction = (32, 8)"
  by (simp_all del: One_nat_def add: struct_k_sigaction_def layout_eval layout_simps)

definition struct_cpu_itimer :: ctype where
  "struct_cpu_itimer =
     Composite Struct False
     [Member ''expires'' typedef_u64,
      Member ''incr'' typedef_u64]"

lemma struct_cpu_itimer_layout [layout_simps]:
  "wf_type struct_cpu_itimer" "shape struct_cpu_itimer = (16, 8)"
  by (simp_all del: One_nat_def add: struct_cpu_itimer_def layout_eval layout_simps)

definition struct_task_cputime_atomic :: ctype where
  "struct_task_cputime_atomic =
     Composite Struct False
     [Member ''utime'' typedef_atomic64_t,
      Member ''stime'' typedef_atomic64_t,
      Member ''sum_exec_runtime'' typedef_atomic64_t]"

lemma struct_task_cputime_atomic_layout [layout_simps]:
  "wf_type struct_task_cputime_atomic" "shape struct_task_cputime_atomic = (24, 8)"
  by (simp_all del: One_nat_def add: struct_task_cputime_atomic_def layout_eval layout_simps)

definition struct_thread_group_cputimer :: ctype where
  "struct_thread_group_cputimer =
     Composite Struct False
     [Member ''cputime_atomic'' struct_task_cputime_atomic]"

lemma struct_thread_group_cputimer_layout [layout_simps]:
  "wf_type struct_thread_group_cputimer" "shape struct_thread_group_cputimer = (24, 8)"
  by (simp_all del: One_nat_def add: struct_thread_group_cputimer_def layout_eval layout_simps)

definition struct_pacct_struct :: ctype where
  "struct_pacct_struct =
     Composite Struct False
     [Member ''ac_flag'' (Scalar Int32),
      Member ''ac_exitcode'' (Scalar Long64),
      Member ''ac_mem'' (Scalar ULong64),
      Member ''ac_utime'' typedef_u64,
      Member ''ac_stime'' typedef_u64,
      Member ''ac_minflt'' (Scalar ULong64),
      Member ''ac_majflt'' (Scalar ULong64)]"

lemma struct_pacct_struct_layout [layout_simps]:
  "wf_type struct_pacct_struct" "shape struct_pacct_struct = (56, 8)"
  by (simp_all del: One_nat_def add: struct_pacct_struct_def layout_eval layout_simps)

definition struct_signal_struct :: ctype where
  "struct_signal_struct =
     Composite Struct False
     [Member ''sigcnt'' typedef_refcount_t,
      Member ''live'' typedef_atomic_t,
      Member ''nr_threads'' (Scalar Int32),
      Member ''quick_threads'' (Scalar Int32),
      Member ''thread_head'' struct_list_head,
      Member ''wait_chldexit'' typedef_wait_queue_head_t,
      Member ''curr_target'' (Pointer (Named Struct_name ''task_struct'')),
      Member ''shared_pending'' struct_sigpending,
      Member ''multiprocess'' struct_hlist_head,
      Member ''group_exit_code'' (Scalar Int32),
      Member ''notify_count'' (Scalar Int32),
      Member ''group_exec_task'' (Pointer (Named Struct_name ''task_struct'')),
      Member ''group_stop_count'' (Scalar Int32),
      Member ''flags'' (Scalar UInt32),
      Member ''core_state'' (Pointer (Named Struct_name ''core_state'')),
      Bitfield ''is_child_subreaper'' (Scalar UInt32) 1,
      Bitfield ''has_child_subreaper'' (Scalar UInt32) 1,
      Member ''next_posix_timer_id'' (Scalar UInt32),
      Member ''posix_timers'' struct_list_head,
      Member ''real_timer'' struct_hrtimer,
      Member ''it_real_incr'' typedef_ktime_t,
      Member ''it'' (Array struct_cpu_itimer 2),
      Member ''cputimer'' struct_thread_group_cputimer,
      Member ''posix_cputimers'' struct_posix_cputimers,
      Member ''pids'' (Array (Pointer (Named Struct_name ''pid'')) 4),
      Member ''tick_dep_mask'' typedef_atomic_t,
      Member ''tty_old_pgrp'' (Pointer (Named Struct_name ''pid'')),
      Member ''leader'' (Scalar Int32),
      Member ''tty'' (Pointer (Named Struct_name ''tty_struct'')),
      Member ''autogroup'' (Pointer (Named Struct_name ''autogroup'')),
      Member ''stats_lock'' typedef_seqlock_t,
      Member ''utime'' typedef_u64,
      Member ''stime'' typedef_u64,
      Member ''cutime'' typedef_u64,
      Member ''cstime'' typedef_u64,
      Member ''gtime'' typedef_u64,
      Member ''cgtime'' typedef_u64,
      Member ''prev_cputime'' struct_prev_cputime,
      Member ''nvcsw'' (Scalar ULong64),
      Member ''nivcsw'' (Scalar ULong64),
      Member ''cnvcsw'' (Scalar ULong64),
      Member ''cnivcsw'' (Scalar ULong64),
      Member ''min_flt'' (Scalar ULong64),
      Member ''maj_flt'' (Scalar ULong64),
      Member ''cmin_flt'' (Scalar ULong64),
      Member ''cmaj_flt'' (Scalar ULong64),
      Member ''inblock'' (Scalar ULong64),
      Member ''oublock'' (Scalar ULong64),
      Member ''cinblock'' (Scalar ULong64),
      Member ''coublock'' (Scalar ULong64),
      Member ''maxrss'' (Scalar ULong64),
      Member ''cmaxrss'' (Scalar ULong64),
      Member ''ioac'' struct_task_io_accounting,
      Member ''sum_sched_runtime'' (Scalar ULongLong64),
      Member ''rlim'' (Array struct_rlimit 16),
      Member ''pacct'' struct_pacct_struct,
      Member ''stats'' (Pointer (Named Struct_name ''taskstats'')),
      Member ''audit_tty'' (Scalar UInt32),
      Member ''tty_audit_buf'' (Pointer (Named Struct_name ''tty_audit_buf'')),
      Member ''oom_flag_origin'' typedef_bool,
      Member ''oom_score_adj'' (Scalar Short16),
      Member ''oom_score_adj_min'' (Scalar Short16),
      Member ''oom_mm'' (Pointer (Named Struct_name ''mm_struct'')),
      Member ''cred_guard_mutex'' struct_mutex,
      Member ''exec_update_lock'' struct_rw_semaphore]"

lemma struct_signal_struct_layout [layout_simps]:
  "wf_type struct_signal_struct" "shape struct_signal_struct = (1112, 8)"
  by (simp_all del: One_nat_def add: struct_signal_struct_def layout_eval layout_simps)

definition struct_sighand_struct :: ctype where
  "struct_sighand_struct =
     Composite Struct False
     [Member ''siglock'' typedef_spinlock_t,
      Member ''count'' typedef_refcount_t,
      Member ''signalfd_wqh'' typedef_wait_queue_head_t,
      Member ''action'' (Array struct_k_sigaction 64)]"

lemma struct_sighand_struct_layout [layout_simps]:
  "wf_type struct_sighand_struct" "shape struct_sighand_struct = (2080, 8)"
  by (simp_all del: One_nat_def add: struct_sighand_struct_def layout_eval layout_simps)

definition struct_fdtable :: ctype where
  "struct_fdtable =
     Composite Struct False
     [Member ''max_fds'' (Scalar UInt32),
      Member ''fd'' (Pointer (Pointer (Named Struct_name ''file''))),
      Member ''close_on_exec'' (Pointer (Scalar ULong64)),
      Member ''open_fds'' (Pointer (Scalar ULong64)),
      Member ''full_fds_bits'' (Pointer (Scalar ULong64)),
      Member ''rcu'' struct_callback_head]"

lemma struct_fdtable_layout [layout_simps]:
  "wf_type struct_fdtable" "shape struct_fdtable = (56, 8)"
  by (simp_all del: One_nat_def add: struct_fdtable_def layout_eval layout_simps)

definition struct_files_struct :: ctype where
  "struct_files_struct =
     Composite Struct False
     [Member ''count'' typedef_atomic_t,
      Member ''resize_in_progress'' typedef_bool,
      Member ''resize_wait'' typedef_wait_queue_head_t,
      Member ''fdt'' (Pointer (Named Struct_name ''fdtable'')),
      Member ''fdtab'' struct_fdtable,
      Padding (Scalar Long64) 64,
      Padding (Scalar Long64) 64,
      Padding (Scalar Long64) 64,
      Padding (Scalar Long64) 64,
      Member ''file_lock'' typedef_spinlock_t,
      Member ''next_fd'' (Scalar UInt32),
      Member ''close_on_exec_init'' (Array (Scalar ULong64) 1),
      Member ''open_fds_init'' (Array (Scalar ULong64) 1),
      Member ''full_fds_bits_init'' (Array (Scalar ULong64) 1),
      Member ''fd_array'' (Array (Pointer (Named Struct_name ''file'')) 64),
      Padding (Scalar Long64) 64,
      Padding (Scalar Long64) 64,
      Padding (Scalar Long64) 64,
      Padding (Scalar Long64) 64]"

lemma struct_files_struct_layout [layout_simps]:
  "wf_type struct_files_struct" "shape struct_files_struct = (704, 8)"
  by (simp_all del: One_nat_def add: struct_files_struct_def layout_eval layout_simps)

text \<open>The types of this theory by kind and name.\<close>

definition task_types :: "(name_kind \<times> string \<times> ctype) list" where
  "task_types =
     [(Typedef_name, ''__kernel_pid_t'', typedef___kernel_pid_t),
      (Typedef_name, ''__kernel_clockid_t'', typedef___kernel_clockid_t),
      (Typedef_name, ''pid_t'', typedef_pid_t),
      (Typedef_name, ''clockid_t'', typedef_clockid_t),
      (Struct_name, ''thread_info'', struct_thread_info),
      (Struct_name, ''load_weight'', struct_load_weight),
      (Struct_name, ''sched_avg'', struct_sched_avg),
      (Struct_name, ''sched_entity'', struct_sched_entity),
      (Struct_name, ''sched_rt_entity'', struct_sched_rt_entity),
      (Typedef_name, ''dl_server_has_tasks_f'', typedef_dl_server_has_tasks_f),
      (Typedef_name, ''dl_server_pick_f'', typedef_dl_server_pick_f),
      (Struct_name, ''sched_dl_entity'', struct_sched_dl_entity),
      (Struct_name, ''uclamp_se'', struct_uclamp_se),
      (Struct_name, ''sched_statistics'', struct_sched_statistics),
      (Struct_name, ''cpumask'', struct_cpumask),
      (Typedef_name, ''cpumask_t'', typedef_cpumask_t),
      (Union_name, ''rcu_special'', union_rcu_special),
      (Struct_name, ''sched_info'', struct_sched_info),
      (Struct_name, ''plist_node'', struct_plist_node),
      (Enum_name, ''timespec_type'', enum_timespec_type),
      (Struct_name, ''restart_block'', struct_restart_block),
      (Struct_name, ''prev_cputime'', struct_prev_cputime),
      (Enum_name, ''vtime_state'', enum_vtime_state),
      (Struct_name, ''vtime'', struct_vtime),
      (Struct_name, ''timerqueue_head'', struct_timerqueue_head),
      (Struct_name, ''posix_cputimer_base'', struct_posix_cputimer_base),
      (Struct_name, ''posix_cputimers'', struct_posix_cputimers),
      (Struct_name, ''posix_cputimers_work'', struct_posix_cputimers_work),
      (Struct_name, ''sysv_sem'', struct_sysv_sem),
      (Struct_name, ''sysv_shm'', struct_sysv_shm),
      (Typedef_name, ''sigset_t'', typedef_sigset_t),
      (Struct_name, ''sigpending'', struct_sigpending),
      (Struct_name, ''seccomp'', struct_seccomp),
      (Struct_name, ''syscall_user_dispatch'', struct_syscall_user_dispatch),
      (Struct_name, ''wake_q_node'', struct_wake_q_node),
      (Struct_name, ''task_io_accounting'', struct_task_io_accounting),
      (Typedef_name, ''nodemask_t'', typedef_nodemask_t),
      (Struct_name, ''arch_tlbflush_unmap_batch'', struct_arch_tlbflush_unmap_batch),
      (Struct_name, ''tlbflush_unmap_batch'', struct_tlbflush_unmap_batch),
      (Struct_name, ''page_frag'', struct_page_frag),
      (Struct_name, ''latency_record'', struct_latency_record),
      (Struct_name, ''kmap_ctrl'', struct_kmap_ctrl),
      (Struct_name, ''llist_head'', struct_llist_head),
      (Struct_name, ''da_monitor'', struct_da_monitor),
      (Union_name, ''rv_task_monitor'', union_rv_task_monitor),
      (Struct_name, ''desc_struct'', struct_desc_struct),
      (Struct_name, ''thread_shstk'', struct_thread_shstk),
      (Struct_name, ''fpu_state_perm'', struct_fpu_state_perm),
      (Struct_name, ''fregs_state'', struct_fregs_state),
      (Struct_name, ''fxregs_state'', struct_fxregs_state),
      (Struct_name, ''swregs_state'', struct_swregs_state),
      (Struct_name, ''xstate_header'', struct_xstate_header),
      (Struct_name, ''xregs_state'', struct_xregs_state),
      (Union_name, ''fpregs_state'', union_fpregs_state),
      (Struct_name, ''fpstate'', struct_fpstate),
      (Struct_name, ''fpu'', struct_fpu),
      (Struct_name, ''thread_struct'', struct_thread_struct),
      (Struct_name, ''task_struct'', struct_task_struct),
      (Typedef_name, ''kernel_cap_t'', typedef_kernel_cap_t),
      (Struct_name, ''cred'', struct_cred),
      (Struct_name, ''rlimit'', struct_rlimit),
      (Typedef_name, ''__sighandler_t'', typedef___sighandler_t),
      (Typedef_name, ''__sigrestore_t'', typedef___sigrestore_t),
      (Struct_name, ''sigaction'', struct_sigaction),
      (Struct_name, ''k_sigaction'', struct_k_sigaction),
      (Struct_name, ''cpu_itimer'', struct_cpu_itimer),
      (Struct_name, ''task_cputime_atomic'', struct_task_cputime_atomic),
      (Struct_name, ''thread_group_cputimer'', struct_thread_group_cputimer),
      (Struct_name, ''pacct_struct'', struct_pacct_struct),
      (Struct_name, ''signal_struct'', struct_signal_struct),
      (Struct_name, ''sighand_struct'', struct_sighand_struct),
      (Struct_name, ''fdtable'', struct_fdtable),
      (Struct_name, ''files_struct'', struct_files_struct)]"

end
