(* ===== verification/VmlinuxMm.thy ===== *)
theory VmlinuxMm
  imports VmlinuxBase
begin

text \<open>
  Kernel types: the objects of the allocators behind the kernel tracepoints: pages, folios,
  slabs, caches, per-cpu chunks, zones, and the address space of a process. Each definition is
  one declaration of the header, in the order of use; a lemma with each gives its size and
  alignment in bytes.
\<close>

definition typedef_s16 :: ctype where
  "typedef_s16 = typedef___s16"

lemma typedef_s16_layout [layout_simps]:
  "integral typedef_s16" "wf_type typedef_s16" "shape typedef_s16 = (2, 2)"
  by (simp_all del: One_nat_def add: typedef_s16_def layout_eval layout_simps)

definition struct_cacheline_padding :: ctype where
  "struct_cacheline_padding =
     Composite Struct False
     [Member ''x'' (Array (Scalar Char8) 0)]"

lemma struct_cacheline_padding_layout [layout_simps]:
  "wf_type struct_cacheline_padding" "shape struct_cacheline_padding = (0, 1)"
  by (simp_all del: One_nat_def add: struct_cacheline_padding_def layout_eval layout_simps)

definition typedef_pgprotval_t :: ctype where
  "typedef_pgprotval_t = Scalar ULong64"

lemma typedef_pgprotval_t_layout [layout_simps]:
  "integral typedef_pgprotval_t" "wf_type typedef_pgprotval_t" "shape typedef_pgprotval_t = (8, 8)"
  by (simp_all del: One_nat_def add: typedef_pgprotval_t_def layout_eval layout_simps)

definition struct_pgprot :: ctype where
  "struct_pgprot =
     Composite Struct False
     [Member ''pgprot'' typedef_pgprotval_t]"

lemma struct_pgprot_layout [layout_simps]:
  "wf_type struct_pgprot" "shape struct_pgprot = (8, 8)"
  by (simp_all del: One_nat_def add: struct_pgprot_def layout_eval layout_simps)

definition typedef_pgprot_t :: ctype where
  "typedef_pgprot_t = struct_pgprot"

lemma typedef_pgprot_t_layout [layout_simps]:
  "wf_type typedef_pgprot_t" "shape typedef_pgprot_t = (8, 8)"
  by (simp_all del: One_nat_def add: typedef_pgprot_t_def layout_eval layout_simps)

definition struct_page :: ctype where
  "struct_page =
     Composite Struct False
     [Member ''flags'' (Scalar ULong64),
      Anonymous (Composite Union False
       [Anonymous (Composite Struct False
         [Anonymous (Composite Union False
           [Member ''lru'' struct_list_head,
            Anonymous (Composite Struct False
             [Member ''__filler'' (Pointer Void),
              Member ''mlock_count'' (Scalar UInt32)]),
            Member ''buddy_list'' struct_list_head,
            Member ''pcp_list'' struct_list_head]),
          Member ''mapping'' (Pointer (Named Struct_name ''address_space'')),
          Anonymous (Composite Union False
           [Member ''index'' (Scalar ULong64),
            Member ''share'' (Scalar ULong64)]),
          Member ''private'' (Scalar ULong64)]),
        Anonymous (Composite Struct False
         [Member ''pp_magic'' (Scalar ULong64),
          Member ''pp'' (Pointer (Named Struct_name ''page_pool'')),
          Member ''_pp_mapping_pad'' (Scalar ULong64),
          Member ''dma_addr'' (Scalar ULong64),
          Member ''pp_ref_count'' typedef_atomic_long_t]),
        Anonymous (Composite Struct False
         [Member ''compound_head'' (Scalar ULong64)]),
        Anonymous (Composite Struct False
         [Member ''pgmap'' (Pointer (Named Struct_name ''dev_pagemap'')),
          Member ''zone_device_data'' (Pointer Void)]),
        Member ''callback_head'' struct_callback_head]),
      Anonymous (Composite Union False
       [Member ''_mapcount'' typedef_atomic_t,
        Member ''page_type'' (Scalar UInt32)]),
      Member ''_refcount'' typedef_atomic_t,
      Member ''memcg_data'' (Scalar ULong64)]"

lemma struct_page_layout [layout_simps]:
  "wf_type struct_page" "shape struct_page = (64, 8)"
  by (simp_all del: One_nat_def add: struct_page_def layout_eval layout_simps)

definition typedef_lockdep_map_p :: ctype where
  "typedef_lockdep_map_p =
     Composite Struct False
     []"

lemma typedef_lockdep_map_p_layout [layout_simps]:
  "wf_type typedef_lockdep_map_p" "shape typedef_lockdep_map_p = (0, 1)"
  by (simp_all del: One_nat_def add: typedef_lockdep_map_p_def layout_eval layout_simps)

definition struct_maple_tree :: ctype where
  "struct_maple_tree =
     Composite Struct False
     [Anonymous (Composite Union False
       [Member ''ma_lock'' typedef_spinlock_t,
        Member ''ma_external_lock'' typedef_lockdep_map_p]),
      Member ''ma_flags'' (Scalar UInt32),
      Member ''ma_root'' (Pointer Void)]"

lemma struct_maple_tree_layout [layout_simps]:
  "wf_type struct_maple_tree" "shape struct_maple_tree = (16, 8)"
  by (simp_all del: One_nat_def add: struct_maple_tree_def layout_eval layout_simps)

definition typedef_mm_context_t :: ctype where
  "typedef_mm_context_t =
     Composite Struct False
     [Member ''ctx_id'' typedef_u64,
      Member ''tlb_gen'' typedef_atomic64_t,
      Member ''ldt_usr_sem'' struct_rw_semaphore,
      Member ''ldt'' (Pointer (Named Struct_name ''ldt_struct'')),
      Member ''flags'' (Scalar ULong64),
      Member ''lock'' struct_mutex,
      Member ''vdso'' (Pointer Void),
      Member ''vdso_image'' (Pointer (Named Struct_name ''vdso_image'')),
      Member ''perf_rdpmc_allowed'' typedef_atomic_t,
      Member ''pkey_allocation_map'' typedef_u16,
      Member ''execute_only_pkey'' typedef_s16]"

lemma typedef_mm_context_t_layout [layout_simps]:
  "wf_type typedef_mm_context_t" "shape typedef_mm_context_t = (128, 8)"
  by (simp_all del: One_nat_def add: typedef_mm_context_t_def layout_eval layout_simps)

definition struct_uprobes_state :: ctype where
  "struct_uprobes_state =
     Composite Struct False
     [Member ''xol_area'' (Pointer (Named Struct_name ''xol_area''))]"

lemma struct_uprobes_state_layout [layout_simps]:
  "wf_type struct_uprobes_state" "shape struct_uprobes_state = (8, 8)"
  by (simp_all del: One_nat_def add: struct_uprobes_state_def layout_eval layout_simps)

definition struct_mm_struct :: ctype where
  "struct_mm_struct =
     Composite Struct False
     [Anonymous (Composite Struct False
       [Anonymous (Composite Struct False
         [Member ''mm_count'' typedef_atomic_t,
          Padding (Scalar Long64) 64,
          Padding (Scalar Long64) 64,
          Padding (Scalar Long64) 64,
          Padding (Scalar Long64) 64,
          Padding (Scalar Long64) 64,
          Padding (Scalar Long64) 64,
          Padding (Scalar Long64) 64]),
        Member ''mm_mt'' struct_maple_tree,
        Member ''get_unmapped_area'' (Pointer (Function (Scalar ULong64) [Pointer (Named Struct_name ''file''), Scalar ULong64, Scalar ULong64, Scalar ULong64, Scalar ULong64])),
        Member ''mmap_base'' (Scalar ULong64),
        Member ''mmap_legacy_base'' (Scalar ULong64),
        Member ''mmap_compat_base'' (Scalar ULong64),
        Member ''mmap_compat_legacy_base'' (Scalar ULong64),
        Member ''task_size'' (Scalar ULong64),
        Member ''pgd'' (Pointer (Named Typedef_name ''pgd_t'')),
        Member ''membarrier_state'' typedef_atomic_t,
        Member ''mm_users'' typedef_atomic_t,
        Member ''pcpu_cid'' (Pointer (Named Struct_name ''mm_cid'')),
        Member ''mm_cid_next_scan'' (Scalar ULong64),
        Member ''pgtables_bytes'' typedef_atomic_long_t,
        Member ''map_count'' (Scalar Int32),
        Member ''page_table_lock'' typedef_spinlock_t,
        Member ''mmap_lock'' struct_rw_semaphore,
        Member ''mmlist'' struct_list_head,
        Member ''mm_lock_seq'' (Scalar Int32),
        Member ''hiwater_rss'' (Scalar ULong64),
        Member ''hiwater_vm'' (Scalar ULong64),
        Member ''total_vm'' (Scalar ULong64),
        Member ''locked_vm'' (Scalar ULong64),
        Member ''pinned_vm'' typedef_atomic64_t,
        Member ''data_vm'' (Scalar ULong64),
        Member ''exec_vm'' (Scalar ULong64),
        Member ''stack_vm'' (Scalar ULong64),
        Member ''def_flags'' (Scalar ULong64),
        Member ''write_protect_seq'' typedef_seqcount_t,
        Member ''arg_lock'' typedef_spinlock_t,
        Member ''start_code'' (Scalar ULong64),
        Member ''end_code'' (Scalar ULong64),
        Member ''start_data'' (Scalar ULong64),
        Member ''end_data'' (Scalar ULong64),
        Member ''start_brk'' (Scalar ULong64),
        Member ''brk'' (Scalar ULong64),
        Member ''start_stack'' (Scalar ULong64),
        Member ''arg_start'' (Scalar ULong64),
        Member ''arg_end'' (Scalar ULong64),
        Member ''env_start'' (Scalar ULong64),
        Member ''env_end'' (Scalar ULong64),
        Member ''saved_auxv'' (Array (Scalar ULong64) 52),
        Member ''rss_stat'' (Array struct_percpu_counter 4),
        Member ''binfmt'' (Pointer (Named Struct_name ''linux_binfmt'')),
        Member ''context'' typedef_mm_context_t,
        Member ''flags'' (Scalar ULong64),
        Member ''ioctx_lock'' typedef_spinlock_t,
        Member ''ioctx_table'' (Pointer (Named Struct_name ''kioctx_table'')),
        Member ''owner'' (Pointer (Named Struct_name ''task_struct'')),
        Member ''user_ns'' (Pointer (Named Struct_name ''user_namespace'')),
        Member ''exe_file'' (Pointer (Named Struct_name ''file'')),
        Member ''notifier_subscriptions'' (Pointer (Named Struct_name ''mmu_notifier_subscriptions'')),
        Member ''numa_next_scan'' (Scalar ULong64),
        Member ''numa_scan_offset'' (Scalar ULong64),
        Member ''numa_scan_seq'' (Scalar Int32),
        Member ''tlb_flush_pending'' typedef_atomic_t,
        Member ''tlb_flush_batched'' typedef_atomic_t,
        Member ''uprobes_state'' struct_uprobes_state,
        Member ''hugetlb_usage'' typedef_atomic_long_t,
        Member ''async_put_work'' struct_work_struct,
        Member ''iommu_mm'' (Pointer (Named Struct_name ''iommu_mm_data'')),
        Member ''ksm_merging_pages'' (Scalar ULong64),
        Member ''ksm_rmap_items'' (Scalar ULong64),
        Member ''ksm_zero_pages'' typedef_atomic_long_t,
        Member ''lru_gen'' (Composite Struct False
         [Member ''list'' struct_list_head,
          Member ''bitmap'' (Scalar ULong64),
          Member ''memcg'' (Pointer (Named Struct_name ''mem_cgroup''))]),
        Padding (Scalar Long64) 64,
        Padding (Scalar Long64) 64,
        Padding (Scalar Long64) 64]),
      Member ''cpu_bitmap'' (Array (Scalar ULong64) 0)]"

lemma struct_mm_struct_layout [layout_simps]:
  "wf_type struct_mm_struct" "shape struct_mm_struct = (1344, 8)"
  by (simp_all del: One_nat_def add: struct_mm_struct_def layout_eval layout_simps)

definition typedef_vm_flags_t :: ctype where
  "typedef_vm_flags_t = Scalar ULong64"

lemma typedef_vm_flags_t_layout [layout_simps]:
  "integral typedef_vm_flags_t" "wf_type typedef_vm_flags_t" "shape typedef_vm_flags_t = (8, 8)"
  by (simp_all del: One_nat_def add: typedef_vm_flags_t_def layout_eval layout_simps)

definition struct_vm_userfaultfd_ctx :: ctype where
  "struct_vm_userfaultfd_ctx =
     Composite Struct False
     [Member ''ctx'' (Pointer (Named Struct_name ''userfaultfd_ctx''))]"

lemma struct_vm_userfaultfd_ctx_layout [layout_simps]:
  "wf_type struct_vm_userfaultfd_ctx" "shape struct_vm_userfaultfd_ctx = (8, 8)"
  by (simp_all del: One_nat_def add: struct_vm_userfaultfd_ctx_def layout_eval layout_simps)

definition struct_vm_area_struct :: ctype where
  "struct_vm_area_struct =
     Composite Struct False
     [Anonymous (Composite Union False
       [Anonymous (Composite Struct False
         [Member ''vm_start'' (Scalar ULong64),
          Member ''vm_end'' (Scalar ULong64)]),
        Member ''vm_rcu'' struct_callback_head]),
      Member ''vm_mm'' (Pointer (Named Struct_name ''mm_struct'')),
      Member ''vm_page_prot'' typedef_pgprot_t,
      Anonymous (Composite Union False
       [Member ''vm_flags'' typedef_vm_flags_t,
        Member ''__vm_flags'' typedef_vm_flags_t]),
      Member ''vm_lock_seq'' (Scalar Int32),
      Member ''vm_lock'' (Pointer (Named Struct_name ''vma_lock'')),
      Member ''detached'' typedef_bool,
      Member ''shared'' (Composite Struct False
       [Member ''rb'' struct_rb_node,
        Member ''rb_subtree_last'' (Scalar ULong64)]),
      Member ''anon_vma_chain'' struct_list_head,
      Member ''anon_vma'' (Pointer (Named Struct_name ''anon_vma'')),
      Member ''vm_ops'' (Pointer (Named Struct_name ''vm_operations_struct'')),
      Member ''vm_pgoff'' (Scalar ULong64),
      Member ''vm_file'' (Pointer (Named Struct_name ''file'')),
      Member ''vm_private_data'' (Pointer Void),
      Member ''anon_name'' (Pointer (Named Struct_name ''anon_vma_name'')),
      Member ''swap_readahead_info'' typedef_atomic_long_t,
      Member ''vm_policy'' (Pointer (Named Struct_name ''mempolicy'')),
      Member ''numab_state'' (Pointer (Named Struct_name ''vma_numab_state'')),
      Member ''vm_userfaultfd_ctx'' struct_vm_userfaultfd_ctx]"

lemma struct_vm_area_struct_layout [layout_simps]:
  "wf_type struct_vm_area_struct" "shape struct_vm_area_struct = (192, 8)"
  by (simp_all del: One_nat_def add: struct_vm_area_struct_def layout_eval layout_simps)

definition typedef_swp_entry_t :: ctype where
  "typedef_swp_entry_t =
     Composite Struct False
     [Member ''val'' (Scalar ULong64)]"

lemma typedef_swp_entry_t_layout [layout_simps]:
  "wf_type typedef_swp_entry_t" "shape typedef_swp_entry_t = (8, 8)"
  by (simp_all del: One_nat_def add: typedef_swp_entry_t_def layout_eval layout_simps)

definition struct_folio :: ctype where
  "struct_folio =
     Composite Struct False
     [Anonymous (Composite Union False
       [Anonymous (Composite Struct False
         [Member ''flags'' (Scalar ULong64),
          Anonymous (Composite Union False
           [Member ''lru'' struct_list_head,
            Anonymous (Composite Struct False
             [Member ''__filler'' (Pointer Void),
              Member ''mlock_count'' (Scalar UInt32)])]),
          Member ''mapping'' (Pointer (Named Struct_name ''address_space'')),
          Member ''index'' (Scalar ULong64),
          Anonymous (Composite Union False
           [Member ''private'' (Pointer Void),
            Member ''swap'' typedef_swp_entry_t]),
          Member ''_mapcount'' typedef_atomic_t,
          Member ''_refcount'' typedef_atomic_t,
          Member ''memcg_data'' (Scalar ULong64)]),
        Member ''page'' struct_page]),
      Anonymous (Composite Union False
       [Anonymous (Composite Struct False
         [Member ''_flags_1'' (Scalar ULong64),
          Member ''_head_1'' (Scalar ULong64),
          Member ''_folio_avail'' (Scalar ULong64),
          Member ''_entire_mapcount'' typedef_atomic_t,
          Member ''_nr_pages_mapped'' typedef_atomic_t,
          Member ''_pincount'' typedef_atomic_t,
          Member ''_folio_nr_pages'' (Scalar UInt32)]),
        Member ''__page_1'' struct_page]),
      Anonymous (Composite Union False
       [Anonymous (Composite Struct False
         [Member ''_flags_2'' (Scalar ULong64),
          Member ''_head_2'' (Scalar ULong64),
          Member ''_hugetlb_subpool'' (Pointer Void),
          Member ''_hugetlb_cgroup'' (Pointer Void),
          Member ''_hugetlb_cgroup_rsvd'' (Pointer Void),
          Member ''_hugetlb_hwpoison'' (Pointer Void)]),
        Anonymous (Composite Struct False
         [Member ''_flags_2a'' (Scalar ULong64),
          Member ''_head_2a'' (Scalar ULong64),
          Member ''_deferred_list'' struct_list_head]),
        Member ''__page_2'' struct_page])]"

lemma struct_folio_layout [layout_simps]:
  "wf_type struct_folio" "shape struct_folio = (192, 8)"
  by (simp_all del: One_nat_def add: struct_folio_def layout_eval layout_simps)

definition struct_deferred_split :: ctype where
  "struct_deferred_split =
     Composite Struct False
     [Member ''split_queue_lock'' typedef_spinlock_t,
      Member ''split_queue'' struct_list_head,
      Member ''split_queue_len'' (Scalar ULong64)]"

lemma struct_deferred_split_layout [layout_simps]:
  "wf_type struct_deferred_split" "shape struct_deferred_split = (32, 8)"
  by (simp_all del: One_nat_def add: struct_deferred_split_def layout_eval layout_simps)

definition struct_hlist_nulls_head :: ctype where
  "struct_hlist_nulls_head =
     Composite Struct False
     [Member ''first'' (Pointer (Named Struct_name ''hlist_nulls_node''))]"

lemma struct_hlist_nulls_head_layout [layout_simps]:
  "wf_type struct_hlist_nulls_head" "shape struct_hlist_nulls_head = (8, 8)"
  by (simp_all del: One_nat_def add: struct_hlist_nulls_head_def layout_eval layout_simps)

definition struct_hlist_nulls_node :: ctype where
  "struct_hlist_nulls_node =
     Composite Struct False
     [Member ''next'' (Pointer (Named Struct_name ''hlist_nulls_node'')),
      Member ''pprev'' (Pointer (Pointer (Named Struct_name ''hlist_nulls_node'')))]"

lemma struct_hlist_nulls_node_layout [layout_simps]:
  "wf_type struct_hlist_nulls_node" "shape struct_hlist_nulls_node = (16, 8)"
  by (simp_all del: One_nat_def add: struct_hlist_nulls_node_def layout_eval layout_simps)

definition struct_zswap_lruvec_state :: ctype where
  "struct_zswap_lruvec_state =
     Composite Struct False
     [Member ''nr_zswap_protected'' typedef_atomic_long_t]"

lemma struct_zswap_lruvec_state_layout [layout_simps]:
  "wf_type struct_zswap_lruvec_state" "shape struct_zswap_lruvec_state = (8, 8)"
  by (simp_all del: One_nat_def add: struct_zswap_lruvec_state_def layout_eval layout_simps)

definition struct_free_area :: ctype where
  "struct_free_area =
     Composite Struct False
     [Member ''free_list'' (Array struct_list_head 5),
      Member ''nr_free'' (Scalar ULong64)]"

lemma struct_free_area_layout [layout_simps]:
  "wf_type struct_free_area" "shape struct_free_area = (88, 8)"
  by (simp_all del: One_nat_def add: struct_free_area_def layout_eval layout_simps)

definition struct_lru_gen_folio :: ctype where
  "struct_lru_gen_folio =
     Composite Struct False
     [Member ''max_seq'' (Scalar ULong64),
      Member ''min_seq'' (Array (Scalar ULong64) 2),
      Member ''timestamps'' (Array (Scalar ULong64) 4),
      Member ''folios'' (Array struct_list_head 40),
      Member ''nr_pages'' (Array (Scalar Long64) 40),
      Member ''avg_refaulted'' (Array (Scalar ULong64) 8),
      Member ''avg_total'' (Array (Scalar ULong64) 8),
      Member ''protected'' (Array (Scalar ULong64) 6),
      Member ''evicted'' (Array typedef_atomic_long_t 8),
      Member ''refaulted'' (Array typedef_atomic_long_t 8),
      Member ''enabled'' typedef_bool,
      Member ''gen'' typedef_u8,
      Member ''seg'' typedef_u8,
      Member ''list'' struct_hlist_nulls_node]"

lemma struct_lru_gen_folio_layout [layout_simps]:
  "wf_type struct_lru_gen_folio" "shape struct_lru_gen_folio = (1344, 8)"
  by (simp_all del: One_nat_def add: struct_lru_gen_folio_def layout_eval layout_simps)

definition struct_lru_gen_mm_state :: ctype where
  "struct_lru_gen_mm_state =
     Composite Struct False
     [Member ''seq'' (Scalar ULong64),
      Member ''head'' (Pointer (Named Struct_name ''list_head'')),
      Member ''tail'' (Pointer (Named Struct_name ''list_head'')),
      Member ''filters'' (Array (Pointer (Scalar ULong64)) 2),
      Member ''stats'' (Array (Scalar ULong64) 4)]"

lemma struct_lru_gen_mm_state_layout [layout_simps]:
  "wf_type struct_lru_gen_mm_state" "shape struct_lru_gen_mm_state = (72, 8)"
  by (simp_all del: One_nat_def add: struct_lru_gen_mm_state_def layout_eval layout_simps)

definition struct_lru_gen_mm_walk :: ctype where
  "struct_lru_gen_mm_walk =
     Composite Struct False
     [Member ''lruvec'' (Pointer (Named Struct_name ''lruvec'')),
      Member ''max_seq'' (Scalar ULong64),
      Member ''next_addr'' (Scalar ULong64),
      Member ''nr_pages'' (Array (Scalar Int32) 40),
      Member ''mm_stats'' (Array (Scalar Int32) 4),
      Member ''batched'' (Scalar Int32),
      Member ''can_swap'' typedef_bool,
      Member ''force_scan'' typedef_bool]"

lemma struct_lru_gen_mm_walk_layout [layout_simps]:
  "wf_type struct_lru_gen_mm_walk" "shape struct_lru_gen_mm_walk = (208, 8)"
  by (simp_all del: One_nat_def add: struct_lru_gen_mm_walk_def layout_eval layout_simps)

definition struct_lruvec :: ctype where
  "struct_lruvec =
     Composite Struct False
     [Member ''lists'' (Array struct_list_head 5),
      Member ''lru_lock'' typedef_spinlock_t,
      Member ''anon_cost'' (Scalar ULong64),
      Member ''file_cost'' (Scalar ULong64),
      Member ''nonresident_age'' typedef_atomic_long_t,
      Member ''refaults'' (Array (Scalar ULong64) 2),
      Member ''flags'' (Scalar ULong64),
      Member ''lrugen'' struct_lru_gen_folio,
      Member ''mm_state'' struct_lru_gen_mm_state,
      Member ''pgdat'' (Pointer (Named Struct_name ''pglist_data'')),
      Member ''zswap_lruvec_state'' struct_zswap_lruvec_state]"

lemma struct_lruvec_layout [layout_simps]:
  "wf_type struct_lruvec" "shape struct_lruvec = (1568, 8)"
  by (simp_all del: One_nat_def add: struct_lruvec_def layout_eval layout_simps)

definition struct_lru_gen_memcg :: ctype where
  "struct_lru_gen_memcg =
     Composite Struct False
     [Member ''seq'' (Scalar ULong64),
      Member ''nr_memcgs'' (Array (Scalar ULong64) 3),
      Member ''fifo'' (Array struct_hlist_nulls_head 24),
      Member ''lock'' typedef_spinlock_t]"

lemma struct_lru_gen_memcg_layout [layout_simps]:
  "wf_type struct_lru_gen_memcg" "shape struct_lru_gen_memcg = (232, 8)"
  by (simp_all del: One_nat_def add: struct_lru_gen_memcg_def layout_eval layout_simps)

definition struct_zone :: ctype where
  "struct_zone =
     Composite Struct False
     [Member ''_watermark'' (Array (Scalar ULong64) 4),
      Member ''watermark_boost'' (Scalar ULong64),
      Member ''nr_reserved_highatomic'' (Scalar ULong64),
      Member ''lowmem_reserve'' (Array (Scalar Long64) 5),
      Member ''node'' (Scalar Int32),
      Member ''zone_pgdat'' (Pointer (Named Struct_name ''pglist_data'')),
      Member ''per_cpu_pageset'' (Pointer (Named Struct_name ''per_cpu_pages'')),
      Member ''per_cpu_zonestats'' (Pointer (Named Struct_name ''per_cpu_zonestat'')),
      Member ''pageset_high_min'' (Scalar Int32),
      Member ''pageset_high_max'' (Scalar Int32),
      Member ''pageset_batch'' (Scalar Int32),
      Member ''zone_start_pfn'' (Scalar ULong64),
      Member ''managed_pages'' typedef_atomic_long_t,
      Member ''spanned_pages'' (Scalar ULong64),
      Member ''present_pages'' (Scalar ULong64),
      Member ''present_early_pages'' (Scalar ULong64),
      Member ''name'' (Pointer (Scalar Char8)),
      Member ''nr_isolate_pageblock'' (Scalar ULong64),
      Member ''span_seqlock'' typedef_seqlock_t,
      Member ''initialized'' (Scalar Int32),
      Padding (Scalar Long64) 64,
      Padding (Scalar Long64) 64,
      Padding (Scalar Long64) 64,
      Padding (Scalar Long64) 64,
      Padding (Scalar Long64) 64,
      Padding (Scalar Long64) 64,
      Member ''_pad1_'' struct_cacheline_padding,
      Member ''free_area'' (Array struct_free_area 11),
      Member ''unaccepted_pages'' struct_list_head,
      Member ''flags'' (Scalar ULong64),
      Member ''lock'' typedef_spinlock_t,
      Padding (Scalar Long64) 64,
      Padding (Scalar Long64) 64,
      Padding (Scalar Long64) 64,
      Member ''_pad2_'' struct_cacheline_padding,
      Member ''percpu_drift_mark'' (Scalar ULong64),
      Member ''compact_cached_free_pfn'' (Scalar ULong64),
      Member ''compact_cached_migrate_pfn'' (Array (Scalar ULong64) 2),
      Member ''compact_init_migrate_pfn'' (Scalar ULong64),
      Member ''compact_init_free_pfn'' (Scalar ULong64),
      Member ''compact_considered'' (Scalar UInt32),
      Member ''compact_defer_shift'' (Scalar UInt32),
      Member ''compact_order_failed'' (Scalar Int32),
      Member ''compact_blockskip_flush'' typedef_bool,
      Member ''contiguous'' typedef_bool,
      Padding (Scalar Long64) 0,
      Member ''_pad3_'' struct_cacheline_padding,
      Member ''vm_stat'' (Array typedef_atomic_long_t 12),
      Member ''vm_numa_event'' (Array typedef_atomic_long_t 6),
      Padding (Scalar Long64) 64,
      Padding (Scalar Long64) 64,
      Padding (Scalar Long64) 64,
      Padding (Scalar Long64) 64,
      Padding (Scalar Long64) 64,
      Padding (Scalar Long64) 64]"

lemma struct_zone_layout [layout_simps]:
  "wf_type struct_zone" "shape struct_zone = (1536, 8)"
  by (simp_all del: One_nat_def add: struct_zone_def layout_eval layout_simps)

definition struct_zoneref :: ctype where
  "struct_zoneref =
     Composite Struct False
     [Member ''zone'' (Pointer (Named Struct_name ''zone'')),
      Member ''zone_idx'' (Scalar Int32)]"

lemma struct_zoneref_layout [layout_simps]:
  "wf_type struct_zoneref" "shape struct_zoneref = (16, 8)"
  by (simp_all del: One_nat_def add: struct_zoneref_def layout_eval layout_simps)

definition struct_zonelist :: ctype where
  "struct_zonelist =
     Composite Struct False
     [Member ''_zonerefs'' (Array struct_zoneref 5121)]"

lemma struct_zonelist_layout [layout_simps]:
  "wf_type struct_zonelist" "shape struct_zonelist = (81936, 8)"
  by (simp_all del: One_nat_def add: struct_zonelist_def layout_eval layout_simps)

definition enum_zone_type :: ctype where
  "enum_zone_type =
     Enum
     [(''ZONE_DMA'', 0), (''ZONE_DMA32'', 1), (''ZONE_NORMAL'', 2), (''ZONE_MOVABLE'', 3),
      (''ZONE_DEVICE'', 4), (''__MAX_NR_ZONES'', 5)]"

lemma enum_zone_type_layout [layout_simps]:
  "integral enum_zone_type" "wf_type enum_zone_type" "shape enum_zone_type = (4, 4)"
  by (simp_all del: One_nat_def add: enum_zone_type_def layout_eval layout_simps)

definition struct_memory_failure_stats :: ctype where
  "struct_memory_failure_stats =
     Composite Struct False
     [Member ''total'' (Scalar ULong64),
      Member ''ignored'' (Scalar ULong64),
      Member ''failed'' (Scalar ULong64),
      Member ''delayed'' (Scalar ULong64),
      Member ''recovered'' (Scalar ULong64)]"

lemma struct_memory_failure_stats_layout [layout_simps]:
  "wf_type struct_memory_failure_stats" "shape struct_memory_failure_stats = (40, 8)"
  by (simp_all del: One_nat_def add: struct_memory_failure_stats_def layout_eval layout_simps)

definition struct_pglist_data :: ctype where
  "struct_pglist_data =
     Composite Struct False
     [Member ''node_zones'' (Array struct_zone 5),
      Member ''node_zonelists'' (Array struct_zonelist 2),
      Member ''nr_zones'' (Scalar Int32),
      Member ''node_size_lock'' typedef_spinlock_t,
      Member ''node_start_pfn'' (Scalar ULong64),
      Member ''node_present_pages'' (Scalar ULong64),
      Member ''node_spanned_pages'' (Scalar ULong64),
      Member ''node_id'' (Scalar Int32),
      Member ''kswapd_wait'' typedef_wait_queue_head_t,
      Member ''pfmemalloc_wait'' typedef_wait_queue_head_t,
      Member ''reclaim_wait'' (Array typedef_wait_queue_head_t 4),
      Member ''nr_writeback_throttled'' typedef_atomic_t,
      Member ''nr_reclaim_start'' (Scalar ULong64),
      Member ''kswapd_lock'' struct_mutex,
      Member ''kswapd'' (Pointer (Named Struct_name ''task_struct'')),
      Member ''kswapd_order'' (Scalar Int32),
      Member ''kswapd_highest_zoneidx'' enum_zone_type,
      Member ''kswapd_failures'' (Scalar Int32),
      Member ''kcompactd_max_order'' (Scalar Int32),
      Member ''kcompactd_highest_zoneidx'' enum_zone_type,
      Member ''kcompactd_wait'' typedef_wait_queue_head_t,
      Member ''kcompactd'' (Pointer (Named Struct_name ''task_struct'')),
      Member ''proactive_compact_trigger'' typedef_bool,
      Member ''totalreserve_pages'' (Scalar ULong64),
      Member ''min_unmapped_pages'' (Scalar ULong64),
      Member ''min_slab_pages'' (Scalar ULong64),
      Padding (Scalar Long64) 64,
      Padding (Scalar Long64) 64,
      Padding (Scalar Long64) 64,
      Member ''_pad1_'' struct_cacheline_padding,
      Member ''deferred_split_queue'' struct_deferred_split,
      Member ''nbp_rl_start'' (Scalar UInt32),
      Member ''nbp_rl_nr_cand'' (Scalar ULong64),
      Member ''nbp_threshold'' (Scalar UInt32),
      Member ''nbp_th_start'' (Scalar UInt32),
      Member ''nbp_th_nr_cand'' (Scalar ULong64),
      Member ''__lruvec'' struct_lruvec,
      Member ''flags'' (Scalar ULong64),
      Member ''mm_walk'' struct_lru_gen_mm_walk,
      Member ''memcg_lru'' struct_lru_gen_memcg,
      Padding (Scalar Long64) 64,
      Padding (Scalar Long64) 64,
      Padding (Scalar Long64) 64,
      Padding (Scalar Long64) 64,
      Member ''_pad2_'' struct_cacheline_padding,
      Member ''per_cpu_nodestats'' (Pointer (Named Struct_name ''per_cpu_nodestat'')),
      Member ''vm_stat'' (Array typedef_atomic_long_t 46),
      Member ''memtier'' (Pointer (Named Struct_name ''memory_tier'')),
      Member ''mf_stats'' struct_memory_failure_stats,
      Padding (Scalar Long64) 64,
      Padding (Scalar Long64) 64,
      Padding (Scalar Long64) 64]"

lemma struct_pglist_data_layout [layout_simps]:
  "wf_type struct_pglist_data" "shape struct_pglist_data = (174464, 8)"
  by (simp_all del: One_nat_def add: struct_pglist_data_def layout_eval layout_simps)

definition typedef_slab_flags_t :: ctype where
  "typedef_slab_flags_t = Scalar UInt32"

lemma typedef_slab_flags_t_layout [layout_simps]:
  "integral typedef_slab_flags_t" "wf_type typedef_slab_flags_t" "shape typedef_slab_flags_t = (4, 4)"
  by (simp_all del: One_nat_def add: typedef_slab_flags_t_def layout_eval layout_simps)

definition struct_reciprocal_value :: ctype where
  "struct_reciprocal_value =
     Composite Struct False
     [Member ''m'' typedef_u32,
      Member ''sh1'' typedef_u8,
      Member ''sh2'' typedef_u8]"

lemma struct_reciprocal_value_layout [layout_simps]:
  "wf_type struct_reciprocal_value" "shape struct_reciprocal_value = (8, 4)"
  by (simp_all del: One_nat_def add: struct_reciprocal_value_def layout_eval layout_simps)

definition struct_kmem_cache_order_objects :: ctype where
  "struct_kmem_cache_order_objects =
     Composite Struct False
     [Member ''x'' (Scalar UInt32)]"

lemma struct_kmem_cache_order_objects_layout [layout_simps]:
  "wf_type struct_kmem_cache_order_objects" "shape struct_kmem_cache_order_objects = (4, 4)"
  by (simp_all del: One_nat_def add: struct_kmem_cache_order_objects_def layout_eval layout_simps)

definition struct_kmem_cache :: ctype where
  "struct_kmem_cache =
     Composite Struct False
     [Member ''cpu_slab'' (Pointer (Named Struct_name ''kmem_cache_cpu'')),
      Member ''flags'' typedef_slab_flags_t,
      Member ''min_partial'' (Scalar ULong64),
      Member ''size'' (Scalar UInt32),
      Member ''object_size'' (Scalar UInt32),
      Member ''reciprocal_size'' struct_reciprocal_value,
      Member ''offset'' (Scalar UInt32),
      Member ''cpu_partial'' (Scalar UInt32),
      Member ''cpu_partial_slabs'' (Scalar UInt32),
      Member ''oo'' struct_kmem_cache_order_objects,
      Member ''min'' struct_kmem_cache_order_objects,
      Member ''allocflags'' typedef_gfp_t,
      Member ''refcount'' (Scalar Int32),
      Member ''ctor'' (Pointer (Function Void [Pointer Void])),
      Member ''inuse'' (Scalar UInt32),
      Member ''align'' (Scalar UInt32),
      Member ''red_left_pad'' (Scalar UInt32),
      Member ''name'' (Pointer (Scalar Char8)),
      Member ''list'' struct_list_head,
      Member ''kobj'' struct_kobject,
      Member ''random'' (Scalar ULong64),
      Member ''remote_node_defrag_ratio'' (Scalar UInt32),
      Member ''random_seq'' (Pointer (Scalar UInt32)),
      Member ''useroffset'' (Scalar UInt32),
      Member ''usersize'' (Scalar UInt32),
      Member ''node'' (Array (Pointer (Named Struct_name ''kmem_cache_node'')) 1024)]"

lemma struct_kmem_cache_layout [layout_simps]:
  "wf_type struct_kmem_cache" "shape struct_kmem_cache = (8408, 8)"
  by (simp_all del: One_nat_def add: struct_kmem_cache_def layout_eval layout_simps)

definition typedef___u128 :: ctype where
  "typedef___u128 = Scalar UInt128"

lemma typedef___u128_layout [layout_simps]:
  "integral typedef___u128" "wf_type typedef___u128" "shape typedef___u128 = (16, 16)"
  by (simp_all del: One_nat_def add: typedef___u128_def layout_eval layout_simps)

definition typedef_u128 :: ctype where
  "typedef_u128 = typedef___u128"

lemma typedef_u128_layout [layout_simps]:
  "integral typedef_u128" "wf_type typedef_u128" "shape typedef_u128 = (16, 16)"
  by (simp_all del: One_nat_def add: typedef_u128_def layout_eval layout_simps)

definition typedef_freelist_full_t :: ctype where
  "typedef_freelist_full_t = typedef_u128"

lemma typedef_freelist_full_t_layout [layout_simps]:
  "integral typedef_freelist_full_t" "wf_type typedef_freelist_full_t" "shape typedef_freelist_full_t = (16, 16)"
  by (simp_all del: One_nat_def add: typedef_freelist_full_t_def layout_eval layout_simps)

definition typedef_freelist_aba_t :: ctype where
  "typedef_freelist_aba_t =
     Composite Union False
     [Anonymous (Composite Struct False
       [Member ''freelist'' (Pointer Void),
        Member ''counter'' (Scalar ULong64)]),
      Member ''full'' typedef_freelist_full_t]"

lemma typedef_freelist_aba_t_layout [layout_simps]:
  "wf_type typedef_freelist_aba_t" "shape typedef_freelist_aba_t = (16, 16)"
  by (simp_all del: One_nat_def add: typedef_freelist_aba_t_def layout_eval layout_simps)

definition struct_slab :: ctype where
  "struct_slab =
     Composite Struct False
     [Member ''__page_flags'' (Scalar ULong64),
      Member ''slab_cache'' (Pointer (Named Struct_name ''kmem_cache'')),
      Anonymous (Composite Union False
       [Anonymous (Composite Struct False
         [Anonymous (Composite Union False
           [Member ''slab_list'' struct_list_head,
            Anonymous (Composite Struct False
             [Member ''next'' (Pointer (Named Struct_name ''slab'')),
              Member ''slabs'' (Scalar Int32)])]),
          Anonymous (Composite Union False
           [Anonymous (Composite Struct False
             [Member ''freelist'' (Pointer Void),
              Anonymous (Composite Union False
               [Member ''counters'' (Scalar ULong64),
                Anonymous (Composite Struct False
                 [Bitfield ''inuse'' (Scalar UInt32) 16,
                  Bitfield ''objects'' (Scalar UInt32) 15,
                  Bitfield ''frozen'' (Scalar UInt32) 1])])]),
            Member ''freelist_counter'' typedef_freelist_aba_t])]),
        Member ''callback_head'' struct_callback_head]),
      Member ''__unused'' (Scalar UInt32),
      Member ''__page_refcount'' typedef_atomic_t,
      Member ''memcg_data'' (Scalar ULong64)]"

lemma struct_slab_layout [layout_simps]:
  "wf_type struct_slab" "shape struct_slab = (64, 16)"
  by (simp_all del: One_nat_def add: struct_slab_def layout_eval layout_simps)

definition struct_pcpu_block_md :: ctype where
  "struct_pcpu_block_md =
     Composite Struct False
     [Member ''scan_hint'' (Scalar Int32),
      Member ''scan_hint_start'' (Scalar Int32),
      Member ''contig_hint'' (Scalar Int32),
      Member ''contig_hint_start'' (Scalar Int32),
      Member ''left_free'' (Scalar Int32),
      Member ''right_free'' (Scalar Int32),
      Member ''first_free'' (Scalar Int32),
      Member ''nr_bits'' (Scalar Int32)]"

lemma struct_pcpu_block_md_layout [layout_simps]:
  "wf_type struct_pcpu_block_md" "shape struct_pcpu_block_md = (32, 4)"
  by (simp_all del: One_nat_def add: struct_pcpu_block_md_def layout_eval layout_simps)

definition struct_pcpu_chunk :: ctype where
  "struct_pcpu_chunk =
     Composite Struct False
     [Member ''list'' struct_list_head,
      Member ''free_bytes'' (Scalar Int32),
      Member ''chunk_md'' struct_pcpu_block_md,
      Member ''bound_map'' (Pointer (Scalar ULong64)),
      Member ''base_addr'' (Pointer Void),
      Member ''alloc_map'' (Pointer (Scalar ULong64)),
      Member ''md_blocks'' (Pointer (Named Struct_name ''pcpu_block_md'')),
      Member ''data'' (Pointer Void),
      Member ''immutable'' typedef_bool,
      Member ''isolated'' typedef_bool,
      Member ''start_offset'' (Scalar Int32),
      Member ''end_offset'' (Scalar Int32),
      Member ''obj_cgroups'' (Pointer (Pointer (Named Struct_name ''obj_cgroup''))),
      Member ''nr_pages'' (Scalar Int32),
      Member ''nr_populated'' (Scalar Int32),
      Member ''nr_empty_pop_pages'' (Scalar Int32),
      Member ''populated'' (Array (Scalar ULong64) 0),
      Padding (Scalar Long64) 64,
      Padding (Scalar Long64) 64,
      Padding (Scalar Long64) 64,
      Padding (Scalar Long64) 64,
      Padding (Scalar Long64) 64,
      Padding (Scalar Long64) 64,
      Padding (Scalar Long64) 64]"

lemma struct_pcpu_chunk_layout [layout_simps]:
  "wf_type struct_pcpu_chunk" "shape struct_pcpu_chunk = (192, 8)"
  by (simp_all del: One_nat_def add: struct_pcpu_chunk_def layout_eval layout_simps)

text \<open>The types of this theory by kind and name.\<close>

definition mm_types :: "(name_kind \<times> string \<times> ctype) list" where
  "mm_types =
     [(Typedef_name, ''s16'', typedef_s16),
      (Struct_name, ''cacheline_padding'', struct_cacheline_padding),
      (Typedef_name, ''pgprotval_t'', typedef_pgprotval_t),
      (Struct_name, ''pgprot'', struct_pgprot),
      (Typedef_name, ''pgprot_t'', typedef_pgprot_t),
      (Struct_name, ''page'', struct_page),
      (Typedef_name, ''lockdep_map_p'', typedef_lockdep_map_p),
      (Struct_name, ''maple_tree'', struct_maple_tree),
      (Typedef_name, ''mm_context_t'', typedef_mm_context_t),
      (Struct_name, ''uprobes_state'', struct_uprobes_state),
      (Struct_name, ''mm_struct'', struct_mm_struct),
      (Typedef_name, ''vm_flags_t'', typedef_vm_flags_t),
      (Struct_name, ''vm_userfaultfd_ctx'', struct_vm_userfaultfd_ctx),
      (Struct_name, ''vm_area_struct'', struct_vm_area_struct),
      (Typedef_name, ''swp_entry_t'', typedef_swp_entry_t),
      (Struct_name, ''folio'', struct_folio),
      (Struct_name, ''deferred_split'', struct_deferred_split),
      (Struct_name, ''hlist_nulls_head'', struct_hlist_nulls_head),
      (Struct_name, ''hlist_nulls_node'', struct_hlist_nulls_node),
      (Struct_name, ''zswap_lruvec_state'', struct_zswap_lruvec_state),
      (Struct_name, ''free_area'', struct_free_area),
      (Struct_name, ''lru_gen_folio'', struct_lru_gen_folio),
      (Struct_name, ''lru_gen_mm_state'', struct_lru_gen_mm_state),
      (Struct_name, ''lru_gen_mm_walk'', struct_lru_gen_mm_walk),
      (Struct_name, ''lruvec'', struct_lruvec),
      (Struct_name, ''lru_gen_memcg'', struct_lru_gen_memcg),
      (Struct_name, ''zone'', struct_zone),
      (Struct_name, ''zoneref'', struct_zoneref),
      (Struct_name, ''zonelist'', struct_zonelist),
      (Enum_name, ''zone_type'', enum_zone_type),
      (Struct_name, ''memory_failure_stats'', struct_memory_failure_stats),
      (Struct_name, ''pglist_data'', struct_pglist_data),
      (Typedef_name, ''slab_flags_t'', typedef_slab_flags_t),
      (Struct_name, ''reciprocal_value'', struct_reciprocal_value),
      (Struct_name, ''kmem_cache_order_objects'', struct_kmem_cache_order_objects),
      (Struct_name, ''kmem_cache'', struct_kmem_cache),
      (Typedef_name, ''__u128'', typedef___u128),
      (Typedef_name, ''u128'', typedef_u128),
      (Typedef_name, ''freelist_full_t'', typedef_freelist_full_t),
      (Typedef_name, ''freelist_aba_t'', typedef_freelist_aba_t),
      (Struct_name, ''slab'', struct_slab),
      (Struct_name, ''pcpu_block_md'', struct_pcpu_block_md),
      (Struct_name, ''pcpu_chunk'', struct_pcpu_chunk)]"

end
