(* ===== verification/VmlinuxBlock.thy ===== *)
theory VmlinuxBlock
  imports VmlinuxBase
begin

text \<open>
  Kernel types: the block layer: \<open>bio\<close>, \<open>block_device\<close>,
  \<open>gendisk\<close>, \<open>request\<close> and \<open>request_queue\<close>, from which
  the accessors find a disk, and their queues. Each definition is one declaration of the header,
  in the order of use; a lemma with each gives its size and alignment in bytes.
\<close>

definition struct_lockdep_map :: ctype where
  "struct_lockdep_map =
     Composite Struct False
     []"

lemma struct_lockdep_map_layout [layout_simps]:
  "wf_type struct_lockdep_map" "shape struct_lockdep_map = (0, 1)"
  by (simp_all del: One_nat_def add: struct_lockdep_map_def layout_eval layout_simps)

definition typedef_cpumask_var_t :: ctype where
  "typedef_cpumask_var_t = Pointer (Named Struct_name ''cpumask'')"

lemma typedef_cpumask_var_t_layout [layout_simps]:
  "wf_type typedef_cpumask_var_t" "shape typedef_cpumask_var_t = (8, 8)"
  by (simp_all del: One_nat_def add: typedef_cpumask_var_t_def layout_eval layout_simps)

definition struct_swait_queue_head :: ctype where
  "struct_swait_queue_head =
     Composite Struct False
     [Member ''lock'' typedef_raw_spinlock_t,
      Member ''task_list'' struct_list_head]"

lemma struct_swait_queue_head_layout [layout_simps]:
  "wf_type struct_swait_queue_head" "shape struct_swait_queue_head = (24, 8)"
  by (simp_all del: One_nat_def add: struct_swait_queue_head_def layout_eval layout_simps)

definition struct_completion :: ctype where
  "struct_completion =
     Composite Struct False
     [Member ''done'' (Scalar UInt32),
      Member ''wait'' struct_swait_queue_head]"

lemma struct_completion_layout [layout_simps]:
  "wf_type struct_completion" "shape struct_completion = (32, 8)"
  by (simp_all del: One_nat_def add: struct_completion_def layout_eval layout_simps)

definition struct_delayed_work :: ctype where
  "struct_delayed_work =
     Composite Struct False
     [Member ''work'' struct_work_struct,
      Member ''timer'' struct_timer_list,
      Member ''wq'' (Pointer (Named Struct_name ''workqueue_struct'')),
      Member ''cpu'' (Scalar Int32)]"

lemma struct_delayed_work_layout [layout_simps]:
  "wf_type struct_delayed_work" "shape struct_delayed_work = (88, 8)"
  by (simp_all del: One_nat_def add: struct_delayed_work_def layout_eval layout_simps)

definition struct_percpu_ref :: ctype where
  "struct_percpu_ref =
     Composite Struct False
     [Member ''percpu_count_ptr'' (Scalar ULong64),
      Member ''data'' (Pointer (Named Struct_name ''percpu_ref_data''))]"

lemma struct_percpu_ref_layout [layout_simps]:
  "wf_type struct_percpu_ref" "shape struct_percpu_ref = (16, 8)"
  by (simp_all del: One_nat_def add: struct_percpu_ref_def layout_eval layout_simps)

definition enum_dl_dev_state :: ctype where
  "enum_dl_dev_state =
     Enum
     [(''DL_DEV_NO_DRIVER'', 0), (''DL_DEV_PROBING'', 1), (''DL_DEV_DRIVER_BOUND'', 2),
      (''DL_DEV_UNBINDING'', 3)]"

lemma enum_dl_dev_state_layout [layout_simps]:
  "integral enum_dl_dev_state" "wf_type enum_dl_dev_state" "shape enum_dl_dev_state = (4, 4)"
  by (simp_all del: One_nat_def add: enum_dl_dev_state_def layout_eval layout_simps)

definition struct_dev_links_info :: ctype where
  "struct_dev_links_info =
     Composite Struct False
     [Member ''suppliers'' struct_list_head,
      Member ''consumers'' struct_list_head,
      Member ''defer_sync'' struct_list_head,
      Member ''status'' enum_dl_dev_state]"

lemma struct_dev_links_info_layout [layout_simps]:
  "wf_type struct_dev_links_info" "shape struct_dev_links_info = (56, 8)"
  by (simp_all del: One_nat_def add: struct_dev_links_info_def layout_eval layout_simps)

definition struct_pm_message :: ctype where
  "struct_pm_message =
     Composite Struct False
     [Member ''event'' (Scalar Int32)]"

lemma struct_pm_message_layout [layout_simps]:
  "wf_type struct_pm_message" "shape struct_pm_message = (4, 4)"
  by (simp_all del: One_nat_def add: struct_pm_message_def layout_eval layout_simps)

definition typedef_pm_message_t :: ctype where
  "typedef_pm_message_t = struct_pm_message"

lemma typedef_pm_message_t_layout [layout_simps]:
  "wf_type typedef_pm_message_t" "shape typedef_pm_message_t = (4, 4)"
  by (simp_all del: One_nat_def add: typedef_pm_message_t_def layout_eval layout_simps)

definition enum_rpm_request :: ctype where
  "enum_rpm_request =
     Enum
     [(''RPM_REQ_NONE'', 0), (''RPM_REQ_IDLE'', 1), (''RPM_REQ_SUSPEND'', 2),
      (''RPM_REQ_AUTOSUSPEND'', 3), (''RPM_REQ_RESUME'', 4)]"

lemma enum_rpm_request_layout [layout_simps]:
  "integral enum_rpm_request" "wf_type enum_rpm_request" "shape enum_rpm_request = (4, 4)"
  by (simp_all del: One_nat_def add: enum_rpm_request_def layout_eval layout_simps)

definition enum_rpm_status :: ctype where
  "enum_rpm_status =
     Enum
     [(''RPM_INVALID'', -1), (''RPM_ACTIVE'', 0), (''RPM_RESUMING'', 1), (''RPM_SUSPENDED'', 2),
      (''RPM_SUSPENDING'', 3)]"

lemma enum_rpm_status_layout [layout_simps]:
  "integral enum_rpm_status" "wf_type enum_rpm_status" "shape enum_rpm_status = (4, 4)"
  by (simp_all del: One_nat_def add: enum_rpm_status_def layout_eval layout_simps)

definition struct_dev_pm_info :: ctype where
  "struct_dev_pm_info =
     Composite Struct False
     [Member ''power_state'' typedef_pm_message_t,
      Bitfield ''can_wakeup'' (Scalar UInt32) 1,
      Bitfield ''async_suspend'' (Scalar UInt32) 1,
      Bitfield ''in_dpm_list'' typedef_bool 1,
      Bitfield ''is_prepared'' typedef_bool 1,
      Bitfield ''is_suspended'' typedef_bool 1,
      Bitfield ''is_noirq_suspended'' typedef_bool 1,
      Bitfield ''is_late_suspended'' typedef_bool 1,
      Bitfield ''no_pm'' typedef_bool 1,
      Bitfield ''early_init'' typedef_bool 1,
      Bitfield ''direct_complete'' typedef_bool 1,
      Member ''driver_flags'' typedef_u32,
      Member ''lock'' typedef_spinlock_t,
      Member ''entry'' struct_list_head,
      Member ''completion'' struct_completion,
      Member ''wakeup'' (Pointer (Named Struct_name ''wakeup_source'')),
      Bitfield ''wakeup_path'' typedef_bool 1,
      Bitfield ''syscore'' typedef_bool 1,
      Bitfield ''no_pm_callbacks'' typedef_bool 1,
      Bitfield ''async_in_progress'' typedef_bool 1,
      Bitfield ''must_resume'' (Scalar UInt32) 1,
      Bitfield ''may_skip_resume'' (Scalar UInt32) 1,
      Member ''suspend_timer'' struct_hrtimer,
      Member ''timer_expires'' typedef_u64,
      Member ''work'' struct_work_struct,
      Member ''wait_queue'' typedef_wait_queue_head_t,
      Member ''wakeirq'' (Pointer (Named Struct_name ''wake_irq'')),
      Member ''usage_count'' typedef_atomic_t,
      Member ''child_count'' typedef_atomic_t,
      Bitfield ''disable_depth'' (Scalar UInt32) 3,
      Bitfield ''idle_notification'' (Scalar UInt32) 1,
      Bitfield ''request_pending'' (Scalar UInt32) 1,
      Bitfield ''deferred_resume'' (Scalar UInt32) 1,
      Bitfield ''needs_force_resume'' (Scalar UInt32) 1,
      Bitfield ''runtime_auto'' (Scalar UInt32) 1,
      Bitfield ''ignore_children'' typedef_bool 1,
      Bitfield ''no_callbacks'' (Scalar UInt32) 1,
      Bitfield ''irq_safe'' (Scalar UInt32) 1,
      Bitfield ''use_autosuspend'' (Scalar UInt32) 1,
      Bitfield ''timer_autosuspends'' (Scalar UInt32) 1,
      Bitfield ''memalloc_noio'' (Scalar UInt32) 1,
      Member ''links_count'' (Scalar UInt32),
      Member ''request'' enum_rpm_request,
      Member ''runtime_status'' enum_rpm_status,
      Member ''last_status'' enum_rpm_status,
      Member ''runtime_error'' (Scalar Int32),
      Member ''autosuspend_delay'' (Scalar Int32),
      Member ''last_busy'' typedef_u64,
      Member ''active_time'' typedef_u64,
      Member ''suspended_time'' typedef_u64,
      Member ''accounting_timestamp'' typedef_u64,
      Member ''subsys_data'' (Pointer (Named Struct_name ''pm_subsys_data'')),
      Member ''set_latency_tolerance'' (Pointer (Function Void [Pointer (Named Struct_name ''device''), Named Typedef_name ''s32''])),
      Member ''qos'' (Pointer (Named Struct_name ''dev_pm_qos''))]"

lemma struct_dev_pm_info_layout [layout_simps]:
  "wf_type struct_dev_pm_info" "shape struct_dev_pm_info = (312, 8)"
  by (simp_all del: One_nat_def add: struct_dev_pm_info_def layout_eval layout_simps)

definition struct_dev_msi_info :: ctype where
  "struct_dev_msi_info =
     Composite Struct False
     [Member ''domain'' (Pointer (Named Struct_name ''irq_domain'')),
      Member ''data'' (Pointer (Named Struct_name ''msi_device_data''))]"

lemma struct_dev_msi_info_layout [layout_simps]:
  "wf_type struct_dev_msi_info" "shape struct_dev_msi_info = (16, 8)"
  by (simp_all del: One_nat_def add: struct_dev_msi_info_def layout_eval layout_simps)

definition struct_dev_archdata :: ctype where
  "struct_dev_archdata =
     Composite Struct False
     []"

lemma struct_dev_archdata_layout [layout_simps]:
  "wf_type struct_dev_archdata" "shape struct_dev_archdata = (0, 1)"
  by (simp_all del: One_nat_def add: struct_dev_archdata_def layout_eval layout_simps)

definition enum_device_removable :: ctype where
  "enum_device_removable =
     Enum
     [(''DEVICE_REMOVABLE_NOT_SUPPORTED'', 0), (''DEVICE_REMOVABLE_UNKNOWN'', 1),
      (''DEVICE_FIXED'', 2), (''DEVICE_REMOVABLE'', 3)]"

lemma enum_device_removable_layout [layout_simps]:
  "integral enum_device_removable" "wf_type enum_device_removable" "shape enum_device_removable = (4, 4)"
  by (simp_all del: One_nat_def add: enum_device_removable_def layout_eval layout_simps)

definition struct_device :: ctype where
  "struct_device =
     Composite Struct False
     [Member ''kobj'' struct_kobject,
      Member ''parent'' (Pointer (Named Struct_name ''device'')),
      Member ''p'' (Pointer (Named Struct_name ''device_private'')),
      Member ''init_name'' (Pointer (Scalar Char8)),
      Member ''type'' (Pointer (Named Struct_name ''device_type'')),
      Member ''bus'' (Pointer (Named Struct_name ''bus_type'')),
      Member ''driver'' (Pointer (Named Struct_name ''device_driver'')),
      Member ''platform_data'' (Pointer Void),
      Member ''driver_data'' (Pointer Void),
      Member ''mutex'' struct_mutex,
      Member ''links'' struct_dev_links_info,
      Member ''power'' struct_dev_pm_info,
      Member ''pm_domain'' (Pointer (Named Struct_name ''dev_pm_domain'')),
      Member ''em_pd'' (Pointer (Named Struct_name ''em_perf_domain'')),
      Member ''pins'' (Pointer (Named Struct_name ''dev_pin_info'')),
      Member ''msi'' struct_dev_msi_info,
      Member ''dma_ops'' (Pointer (Named Struct_name ''dma_map_ops'')),
      Member ''dma_mask'' (Pointer (Named Typedef_name ''u64'')),
      Member ''coherent_dma_mask'' typedef_u64,
      Member ''bus_dma_limit'' typedef_u64,
      Member ''dma_range_map'' (Pointer (Named Struct_name ''bus_dma_region'')),
      Member ''dma_parms'' (Pointer (Named Struct_name ''device_dma_parameters'')),
      Member ''dma_pools'' struct_list_head,
      Member ''dma_io_tlb_mem'' (Pointer (Named Struct_name ''io_tlb_mem'')),
      Member ''dma_io_tlb_pools'' struct_list_head,
      Member ''dma_io_tlb_lock'' typedef_spinlock_t,
      Member ''dma_uses_io_tlb'' typedef_bool,
      Member ''archdata'' struct_dev_archdata,
      Member ''of_node'' (Pointer (Named Struct_name ''device_node'')),
      Member ''fwnode'' (Pointer (Named Struct_name ''fwnode_handle'')),
      Member ''numa_node'' (Scalar Int32),
      Member ''devt'' typedef_dev_t,
      Member ''id'' typedef_u32,
      Member ''devres_lock'' typedef_spinlock_t,
      Member ''devres_head'' struct_list_head,
      Member ''class'' (Pointer (Named Struct_name ''class'')),
      Member ''groups'' (Pointer (Pointer (Named Struct_name ''attribute_group''))),
      Member ''release'' (Pointer (Function Void [Pointer (Named Struct_name ''device'')])),
      Member ''iommu_group'' (Pointer (Named Struct_name ''iommu_group'')),
      Member ''iommu'' (Pointer (Named Struct_name ''dev_iommu'')),
      Member ''physical_location'' (Pointer (Named Struct_name ''device_physical_location'')),
      Member ''removable'' enum_device_removable,
      Bitfield ''offline_disabled'' typedef_bool 1,
      Bitfield ''offline'' typedef_bool 1,
      Bitfield ''of_node_reused'' typedef_bool 1,
      Bitfield ''state_synced'' typedef_bool 1,
      Bitfield ''can_match'' typedef_bool 1]"

lemma struct_device_layout [layout_simps]:
  "wf_type struct_device" "shape struct_device = (768, 8)"
  by (simp_all del: One_nat_def add: struct_device_def layout_eval layout_simps)

definition struct_bio_vec :: ctype where
  "struct_bio_vec =
     Composite Struct False
     [Member ''bv_page'' (Pointer (Named Struct_name ''page'')),
      Member ''bv_len'' (Scalar UInt32),
      Member ''bv_offset'' (Scalar UInt32)]"

lemma struct_bio_vec_layout [layout_simps]:
  "wf_type struct_bio_vec" "shape struct_bio_vec = (16, 8)"
  by (simp_all del: One_nat_def add: struct_bio_vec_def layout_eval layout_simps)

definition struct_bio_list :: ctype where
  "struct_bio_list =
     Composite Struct False
     [Member ''head'' (Pointer (Named Struct_name ''bio'')),
      Member ''tail'' (Pointer (Named Struct_name ''bio''))]"

lemma struct_bio_list_layout [layout_simps]:
  "wf_type struct_bio_list" "shape struct_bio_list = (16, 8)"
  by (simp_all del: One_nat_def add: struct_bio_list_def layout_eval layout_simps)

definition struct_fprop_local_percpu :: ctype where
  "struct_fprop_local_percpu =
     Composite Struct False
     [Member ''events'' struct_percpu_counter,
      Member ''period'' (Scalar UInt32),
      Member ''lock'' typedef_raw_spinlock_t]"

lemma struct_fprop_local_percpu_layout [layout_simps]:
  "wf_type struct_fprop_local_percpu" "shape struct_fprop_local_percpu = (48, 8)"
  by (simp_all del: One_nat_def add: struct_fprop_local_percpu_def layout_eval layout_simps)

definition enum_wb_reason :: ctype where
  "enum_wb_reason =
     Enum
     [(''WB_REASON_BACKGROUND'', 0), (''WB_REASON_VMSCAN'', 1), (''WB_REASON_SYNC'', 2),
      (''WB_REASON_PERIODIC'', 3), (''WB_REASON_LAPTOP_TIMER'', 4),
      (''WB_REASON_FS_FREE_SPACE'', 5), (''WB_REASON_FORKER_THREAD'', 6),
      (''WB_REASON_FOREIGN_FLUSH'', 7), (''WB_REASON_MAX'', 8)]"

lemma enum_wb_reason_layout [layout_simps]:
  "integral enum_wb_reason" "wf_type enum_wb_reason" "shape enum_wb_reason = (4, 4)"
  by (simp_all del: One_nat_def add: enum_wb_reason_def layout_eval layout_simps)

definition struct_bdi_writeback :: ctype where
  "struct_bdi_writeback =
     Composite Struct False
     [Member ''bdi'' (Pointer (Named Struct_name ''backing_dev_info'')),
      Member ''state'' (Scalar ULong64),
      Member ''last_old_flush'' (Scalar ULong64),
      Member ''b_dirty'' struct_list_head,
      Member ''b_io'' struct_list_head,
      Member ''b_more_io'' struct_list_head,
      Member ''b_dirty_time'' struct_list_head,
      Member ''list_lock'' typedef_spinlock_t,
      Member ''writeback_inodes'' typedef_atomic_t,
      Member ''stat'' (Array struct_percpu_counter 4),
      Member ''bw_time_stamp'' (Scalar ULong64),
      Member ''dirtied_stamp'' (Scalar ULong64),
      Member ''written_stamp'' (Scalar ULong64),
      Member ''write_bandwidth'' (Scalar ULong64),
      Member ''avg_write_bandwidth'' (Scalar ULong64),
      Member ''dirty_ratelimit'' (Scalar ULong64),
      Member ''balanced_dirty_ratelimit'' (Scalar ULong64),
      Member ''completions'' struct_fprop_local_percpu,
      Member ''dirty_exceeded'' (Scalar Int32),
      Member ''start_all_reason'' enum_wb_reason,
      Member ''work_lock'' typedef_spinlock_t,
      Member ''work_list'' struct_list_head,
      Member ''dwork'' struct_delayed_work,
      Member ''bw_dwork'' struct_delayed_work,
      Member ''bdi_node'' struct_list_head,
      Member ''refcnt'' struct_percpu_ref,
      Member ''memcg_completions'' struct_fprop_local_percpu,
      Member ''memcg_css'' (Pointer (Named Struct_name ''cgroup_subsys_state'')),
      Member ''blkcg_css'' (Pointer (Named Struct_name ''cgroup_subsys_state'')),
      Member ''memcg_node'' struct_list_head,
      Member ''blkcg_node'' struct_list_head,
      Member ''b_attached'' struct_list_head,
      Member ''offline_node'' struct_list_head,
      Anonymous (Composite Union False
       [Member ''release_work'' struct_work_struct,
        Member ''rcu'' struct_callback_head])]"

lemma struct_bdi_writeback_layout [layout_simps]:
  "wf_type struct_bdi_writeback" "shape struct_bdi_writeback = (760, 8)"
  by (simp_all del: One_nat_def add: struct_bdi_writeback_def layout_eval layout_simps)

definition struct_block_device :: ctype where
  "struct_block_device =
     Composite Struct False
     [Member ''bd_start_sect'' typedef_sector_t,
      Member ''bd_nr_sectors'' typedef_sector_t,
      Member ''bd_disk'' (Pointer (Named Struct_name ''gendisk'')),
      Member ''bd_queue'' (Pointer (Named Struct_name ''request_queue'')),
      Member ''bd_stats'' (Pointer (Named Struct_name ''disk_stats'')),
      Member ''bd_stamp'' (Scalar ULong64),
      Member ''bd_read_only'' typedef_bool,
      Member ''bd_partno'' typedef_u8,
      Member ''bd_write_holder'' typedef_bool,
      Member ''bd_has_submit_bio'' typedef_bool,
      Member ''bd_dev'' typedef_dev_t,
      Member ''bd_inode'' (Pointer (Named Struct_name ''inode'')),
      Member ''bd_openers'' typedef_atomic_t,
      Member ''bd_size_lock'' typedef_spinlock_t,
      Member ''bd_claiming'' (Pointer Void),
      Member ''bd_holder'' (Pointer Void),
      Member ''bd_holder_ops'' (Pointer (Named Struct_name ''blk_holder_ops'')),
      Member ''bd_holder_lock'' struct_mutex,
      Member ''bd_holders'' (Scalar Int32),
      Member ''bd_holder_dir'' (Pointer (Named Struct_name ''kobject'')),
      Member ''bd_fsfreeze_count'' typedef_atomic_t,
      Member ''bd_fsfreeze_mutex'' struct_mutex,
      Member ''bd_meta_info'' (Pointer (Named Struct_name ''partition_meta_info'')),
      Member ''bd_ro_warned'' typedef_bool,
      Member ''bd_writers'' (Scalar Int32),
      Member ''bd_device'' struct_device]"

lemma struct_block_device_layout [layout_simps]:
  "wf_type struct_block_device" "shape struct_block_device = (968, 8)"
  by (simp_all del: One_nat_def add: struct_block_device_def layout_eval layout_simps)

definition struct_backing_dev_info :: ctype where
  "struct_backing_dev_info =
     Composite Struct False
     [Member ''id'' typedef_u64,
      Member ''rb_node'' struct_rb_node,
      Member ''bdi_list'' struct_list_head,
      Member ''ra_pages'' (Scalar ULong64),
      Member ''io_pages'' (Scalar ULong64),
      Member ''refcnt'' struct_kref,
      Member ''capabilities'' (Scalar UInt32),
      Member ''min_ratio'' (Scalar UInt32),
      Member ''max_ratio'' (Scalar UInt32),
      Member ''max_prop_frac'' (Scalar UInt32),
      Member ''tot_write_bandwidth'' typedef_atomic_long_t,
      Member ''last_bdp_sleep'' (Scalar ULong64),
      Member ''wb'' struct_bdi_writeback,
      Member ''wb_list'' struct_list_head,
      Member ''cgwb_tree'' struct_xarray,
      Member ''cgwb_release_mutex'' struct_mutex,
      Member ''wb_switch_rwsem'' struct_rw_semaphore,
      Member ''wb_waitq'' typedef_wait_queue_head_t,
      Member ''dev'' (Pointer (Named Struct_name ''device'')),
      Member ''dev_name'' (Array (Scalar Char8) 64),
      Member ''owner'' (Pointer (Named Struct_name ''device'')),
      Member ''laptop_mode_wb_timer'' struct_timer_list,
      Member ''debug_dir'' (Pointer (Named Struct_name ''dentry''))]"

lemma struct_backing_dev_info_layout [layout_simps]:
  "wf_type struct_backing_dev_info" "shape struct_backing_dev_info = (1120, 8)"
  by (simp_all del: One_nat_def add: struct_backing_dev_info_def layout_eval layout_simps)

definition typedef_blk_opf_t :: ctype where
  "typedef_blk_opf_t = typedef___u32"

lemma typedef_blk_opf_t_layout [layout_simps]:
  "integral typedef_blk_opf_t" "wf_type typedef_blk_opf_t" "shape typedef_blk_opf_t = (4, 4)"
  by (simp_all del: One_nat_def add: typedef_blk_opf_t_def layout_eval layout_simps)

definition typedef_blk_status_t :: ctype where
  "typedef_blk_status_t = typedef_u8"

lemma typedef_blk_status_t_layout [layout_simps]:
  "integral typedef_blk_status_t" "wf_type typedef_blk_status_t" "shape typedef_blk_status_t = (1, 1)"
  by (simp_all del: One_nat_def add: typedef_blk_status_t_def layout_eval layout_simps)

definition struct_bvec_iter :: ctype where
  "struct_bvec_iter =
     Composite Struct True
     [Member ''bi_sector'' typedef_sector_t,
      Member ''bi_size'' (Scalar UInt32),
      Member ''bi_idx'' (Scalar UInt32),
      Member ''bi_bvec_done'' (Scalar UInt32)]"

lemma struct_bvec_iter_layout [layout_simps]:
  "wf_type struct_bvec_iter" "shape struct_bvec_iter = (20, 1)"
  by (simp_all del: One_nat_def add: struct_bvec_iter_def layout_eval layout_simps)

definition typedef_blk_qc_t :: ctype where
  "typedef_blk_qc_t = Scalar UInt32"

lemma typedef_blk_qc_t_layout [layout_simps]:
  "integral typedef_blk_qc_t" "wf_type typedef_blk_qc_t" "shape typedef_blk_qc_t = (4, 4)"
  by (simp_all del: One_nat_def add: typedef_blk_qc_t_def layout_eval layout_simps)

definition struct_bio_issue :: ctype where
  "struct_bio_issue =
     Composite Struct False
     [Member ''value'' typedef_u64]"

lemma struct_bio_issue_layout [layout_simps]:
  "wf_type struct_bio_issue" "shape struct_bio_issue = (8, 8)"
  by (simp_all del: One_nat_def add: struct_bio_issue_def layout_eval layout_simps)

definition struct_bio :: ctype where
  "struct_bio =
     Composite Struct False
     [Member ''bi_next'' (Pointer (Named Struct_name ''bio'')),
      Member ''bi_bdev'' (Pointer (Named Struct_name ''block_device'')),
      Member ''bi_opf'' typedef_blk_opf_t,
      Member ''bi_flags'' (Scalar UShort16),
      Member ''bi_ioprio'' (Scalar UShort16),
      Member ''bi_status'' typedef_blk_status_t,
      Member ''__bi_remaining'' typedef_atomic_t,
      Member ''bi_iter'' struct_bvec_iter,
      Member ''bi_cookie'' typedef_blk_qc_t,
      Member ''bi_end_io'' (Pointer (Named Typedef_name ''bio_end_io_t'')),
      Member ''bi_private'' (Pointer Void),
      Member ''bi_blkg'' (Pointer (Named Struct_name ''blkcg_gq'')),
      Member ''bi_issue'' struct_bio_issue,
      Member ''bi_iocost_cost'' typedef_u64,
      Member ''bi_crypt_context'' (Pointer (Named Struct_name ''bio_crypt_ctx'')),
      Anonymous (Composite Union False
       [Member ''bi_integrity'' (Pointer (Named Struct_name ''bio_integrity_payload''))]),
      Member ''bi_vcnt'' (Scalar UShort16),
      Member ''bi_max_vecs'' (Scalar UShort16),
      Member ''__bi_cnt'' typedef_atomic_t,
      Member ''bi_io_vec'' (Pointer (Named Struct_name ''bio_vec'')),
      Member ''bi_pool'' (Pointer (Named Struct_name ''bio_set'')),
      Member ''bi_inline_vecs'' (Array struct_bio_vec 0)]"

lemma struct_bio_layout [layout_simps]:
  "wf_type struct_bio" "shape struct_bio = (136, 8)"
  by (simp_all del: One_nat_def add: struct_bio_def layout_eval layout_simps)

definition struct_mempool_s :: ctype where
  "struct_mempool_s =
     Composite Struct False
     [Member ''lock'' typedef_spinlock_t,
      Member ''min_nr'' (Scalar Int32),
      Member ''curr_nr'' (Scalar Int32),
      Member ''elements'' (Pointer (Pointer Void)),
      Member ''pool_data'' (Pointer Void),
      Member ''alloc'' (Pointer (Named Typedef_name ''mempool_alloc_t'')),
      Member ''free'' (Pointer (Named Typedef_name ''mempool_free_t'')),
      Member ''wait'' typedef_wait_queue_head_t]"

lemma struct_mempool_s_layout [layout_simps]:
  "wf_type struct_mempool_s" "shape struct_mempool_s = (72, 8)"
  by (simp_all del: One_nat_def add: struct_mempool_s_def layout_eval layout_simps)

definition typedef_mempool_t :: ctype where
  "typedef_mempool_t = struct_mempool_s"

lemma typedef_mempool_t_layout [layout_simps]:
  "wf_type typedef_mempool_t" "shape typedef_mempool_t = (72, 8)"
  by (simp_all del: One_nat_def add: typedef_mempool_t_def layout_eval layout_simps)

definition struct_bio_set :: ctype where
  "struct_bio_set =
     Composite Struct False
     [Member ''bio_slab'' (Pointer (Named Struct_name ''kmem_cache'')),
      Member ''front_pad'' (Scalar UInt32),
      Member ''cache'' (Pointer (Named Struct_name ''bio_alloc_cache'')),
      Member ''bio_pool'' typedef_mempool_t,
      Member ''bvec_pool'' typedef_mempool_t,
      Member ''bio_integrity_pool'' typedef_mempool_t,
      Member ''bvec_integrity_pool'' typedef_mempool_t,
      Member ''back_pad'' (Scalar UInt32),
      Member ''rescue_lock'' typedef_spinlock_t,
      Member ''rescue_list'' struct_bio_list,
      Member ''rescue_work'' struct_work_struct,
      Member ''rescue_workqueue'' (Pointer (Named Struct_name ''workqueue_struct'')),
      Member ''cpuhp_dead'' struct_hlist_node]"

lemma struct_bio_set_layout [layout_simps]:
  "wf_type struct_bio_set" "shape struct_bio_set = (392, 8)"
  by (simp_all del: One_nat_def add: struct_bio_set_def layout_eval layout_simps)

definition typedef_wait_queue_func_t :: ctype where
  "typedef_wait_queue_func_t = Pointer (Function (Scalar Int32) [Pointer (Named Struct_name ''wait_queue_entry''), Scalar UInt32, Scalar Int32, Pointer Void])"

lemma typedef_wait_queue_func_t_layout [layout_simps]:
  "wf_type typedef_wait_queue_func_t" "shape typedef_wait_queue_func_t = (8, 8)"
  by (simp_all del: One_nat_def add: typedef_wait_queue_func_t_def layout_eval layout_simps)

definition struct_wait_queue_entry :: ctype where
  "struct_wait_queue_entry =
     Composite Struct False
     [Member ''flags'' (Scalar UInt32),
      Member ''private'' (Pointer Void),
      Member ''func'' typedef_wait_queue_func_t,
      Member ''entry'' struct_list_head]"

lemma struct_wait_queue_entry_layout [layout_simps]:
  "wf_type struct_wait_queue_entry" "shape struct_wait_queue_entry = (40, 8)"
  by (simp_all del: One_nat_def add: struct_wait_queue_entry_def layout_eval layout_simps)

definition typedef_wait_queue_entry_t :: ctype where
  "typedef_wait_queue_entry_t = struct_wait_queue_entry"

lemma typedef_wait_queue_entry_t_layout [layout_simps]:
  "wf_type typedef_wait_queue_entry_t" "shape typedef_wait_queue_entry_t = (40, 8)"
  by (simp_all del: One_nat_def add: typedef_wait_queue_entry_t_def layout_eval layout_simps)

definition typedef_blk_mode_t :: ctype where
  "typedef_blk_mode_t = Scalar UInt32"

lemma typedef_blk_mode_t_layout [layout_simps]:
  "integral typedef_blk_mode_t" "wf_type typedef_blk_mode_t" "shape typedef_blk_mode_t = (4, 4)"
  by (simp_all del: One_nat_def add: typedef_blk_mode_t_def layout_eval layout_simps)

definition struct_gendisk :: ctype where
  "struct_gendisk =
     Composite Struct False
     [Member ''major'' (Scalar Int32),
      Member ''first_minor'' (Scalar Int32),
      Member ''minors'' (Scalar Int32),
      Member ''disk_name'' (Array (Scalar Char8) 32),
      Member ''events'' (Scalar UShort16),
      Member ''event_flags'' (Scalar UShort16),
      Member ''part_tbl'' struct_xarray,
      Member ''part0'' (Pointer (Named Struct_name ''block_device'')),
      Member ''fops'' (Pointer (Named Struct_name ''block_device_operations'')),
      Member ''queue'' (Pointer (Named Struct_name ''request_queue'')),
      Member ''private_data'' (Pointer Void),
      Member ''bio_split'' struct_bio_set,
      Member ''flags'' (Scalar Int32),
      Member ''state'' (Scalar ULong64),
      Member ''open_mutex'' struct_mutex,
      Member ''open_partitions'' (Scalar UInt32),
      Member ''bdi'' (Pointer (Named Struct_name ''backing_dev_info'')),
      Member ''queue_kobj'' struct_kobject,
      Member ''slave_dir'' (Pointer (Named Struct_name ''kobject'')),
      Member ''slave_bdevs'' struct_list_head,
      Member ''random'' (Pointer (Named Struct_name ''timer_rand_state'')),
      Member ''sync_io'' typedef_atomic_t,
      Member ''ev'' (Pointer (Named Struct_name ''disk_events'')),
      Member ''nr_zones'' (Scalar UInt32),
      Member ''max_open_zones'' (Scalar UInt32),
      Member ''max_active_zones'' (Scalar UInt32),
      Member ''conv_zones_bitmap'' (Pointer (Scalar ULong64)),
      Member ''seq_zones_wlock'' (Pointer (Scalar ULong64)),
      Member ''cdi'' (Pointer (Named Struct_name ''cdrom_device_info'')),
      Member ''node_id'' (Scalar Int32),
      Member ''bb'' (Pointer (Named Struct_name ''badblocks'')),
      Member ''lockdep_map'' struct_lockdep_map,
      Member ''diskseq'' typedef_u64,
      Member ''open_mode'' typedef_blk_mode_t,
      Member ''ia_ranges'' (Pointer (Named Struct_name ''blk_independent_access_ranges''))]"

lemma struct_gendisk_layout [layout_simps]:
  "wf_type struct_gendisk" "shape struct_gendisk = (744, 8)"
  by (simp_all del: One_nat_def add: struct_gendisk_def layout_eval layout_simps)

definition enum_blk_bounce :: ctype where
  "enum_blk_bounce =
     Enum
     [(''BLK_BOUNCE_NONE'', 0), (''BLK_BOUNCE_HIGH'', 1)]"

lemma enum_blk_bounce_layout [layout_simps]:
  "integral enum_blk_bounce" "wf_type enum_blk_bounce" "shape enum_blk_bounce = (4, 4)"
  by (simp_all del: One_nat_def add: enum_blk_bounce_def layout_eval layout_simps)

definition struct_queue_limits :: ctype where
  "struct_queue_limits =
     Composite Struct False
     [Member ''bounce'' enum_blk_bounce,
      Member ''seg_boundary_mask'' (Scalar ULong64),
      Member ''virt_boundary_mask'' (Scalar ULong64),
      Member ''max_hw_sectors'' (Scalar UInt32),
      Member ''max_dev_sectors'' (Scalar UInt32),
      Member ''chunk_sectors'' (Scalar UInt32),
      Member ''max_sectors'' (Scalar UInt32),
      Member ''max_user_sectors'' (Scalar UInt32),
      Member ''max_segment_size'' (Scalar UInt32),
      Member ''physical_block_size'' (Scalar UInt32),
      Member ''logical_block_size'' (Scalar UInt32),
      Member ''alignment_offset'' (Scalar UInt32),
      Member ''io_min'' (Scalar UInt32),
      Member ''io_opt'' (Scalar UInt32),
      Member ''max_discard_sectors'' (Scalar UInt32),
      Member ''max_hw_discard_sectors'' (Scalar UInt32),
      Member ''max_secure_erase_sectors'' (Scalar UInt32),
      Member ''max_write_zeroes_sectors'' (Scalar UInt32),
      Member ''max_zone_append_sectors'' (Scalar UInt32),
      Member ''discard_granularity'' (Scalar UInt32),
      Member ''discard_alignment'' (Scalar UInt32),
      Member ''zone_write_granularity'' (Scalar UInt32),
      Member ''max_segments'' (Scalar UShort16),
      Member ''max_integrity_segments'' (Scalar UShort16),
      Member ''max_discard_segments'' (Scalar UShort16),
      Member ''misaligned'' (Scalar UChar8),
      Member ''discard_misaligned'' (Scalar UChar8),
      Member ''raid_partial_stripes_expensive'' (Scalar UChar8),
      Member ''zoned'' typedef_bool,
      Member ''dma_alignment'' (Scalar UInt32)]"

lemma struct_queue_limits_layout [layout_simps]:
  "wf_type struct_queue_limits" "shape struct_queue_limits = (120, 8)"
  by (simp_all del: One_nat_def add: struct_queue_limits_def layout_eval layout_simps)

definition struct_blk_integrity :: ctype where
  "struct_blk_integrity =
     Composite Struct False
     [Member ''profile'' (Pointer (Named Struct_name ''blk_integrity_profile'')),
      Member ''flags'' (Scalar UChar8),
      Member ''tuple_size'' (Scalar UChar8),
      Member ''interval_exp'' (Scalar UChar8),
      Member ''tag_size'' (Scalar UChar8)]"

lemma struct_blk_integrity_layout [layout_simps]:
  "wf_type struct_blk_integrity" "shape struct_blk_integrity = (16, 8)"
  by (simp_all del: One_nat_def add: struct_blk_integrity_def layout_eval layout_simps)

definition struct_request_queue :: ctype where
  "struct_request_queue =
     Composite Struct False
     [Member ''queuedata'' (Pointer Void),
      Member ''elevator'' (Pointer (Named Struct_name ''elevator_queue'')),
      Member ''mq_ops'' (Pointer (Named Struct_name ''blk_mq_ops'')),
      Member ''queue_ctx'' (Pointer (Named Struct_name ''blk_mq_ctx'')),
      Member ''queue_flags'' (Scalar ULong64),
      Member ''rq_timeout'' (Scalar UInt32),
      Member ''queue_depth'' (Scalar UInt32),
      Member ''refs'' typedef_refcount_t,
      Member ''nr_hw_queues'' (Scalar UInt32),
      Member ''hctx_table'' struct_xarray,
      Member ''q_usage_counter'' struct_percpu_ref,
      Member ''io_lock_cls_key'' struct_lock_class_key,
      Member ''io_lockdep_map'' struct_lockdep_map,
      Member ''q_lock_cls_key'' struct_lock_class_key,
      Member ''q_lockdep_map'' struct_lockdep_map,
      Member ''last_merge'' (Pointer (Named Struct_name ''request'')),
      Member ''queue_lock'' typedef_spinlock_t,
      Member ''quiesce_depth'' (Scalar Int32),
      Member ''disk'' (Pointer (Named Struct_name ''gendisk'')),
      Member ''mq_kobj'' (Pointer (Named Struct_name ''kobject'')),
      Member ''limits'' struct_queue_limits,
      Member ''integrity'' struct_blk_integrity,
      Member ''dev'' (Pointer (Named Struct_name ''device'')),
      Member ''rpm_status'' enum_rpm_status,
      Member ''pm_only'' typedef_atomic_t,
      Member ''stats'' (Pointer (Named Struct_name ''blk_queue_stats'')),
      Member ''rq_qos'' (Pointer (Named Struct_name ''rq_qos'')),
      Member ''rq_qos_mutex'' struct_mutex,
      Member ''id'' (Scalar Int32),
      Member ''dma_pad_mask'' (Scalar UInt32),
      Member ''nr_requests'' (Scalar ULong64),
      Member ''crypto_profile'' (Pointer (Named Struct_name ''blk_crypto_profile'')),
      Member ''crypto_kobject'' (Pointer (Named Struct_name ''kobject'')),
      Member ''timeout'' struct_timer_list,
      Member ''timeout_work'' struct_work_struct,
      Member ''nr_active_requests_shared_tags'' typedef_atomic_t,
      Member ''required_elevator_features'' (Scalar UInt32),
      Member ''sched_shared_tags'' (Pointer (Named Struct_name ''blk_mq_tags'')),
      Member ''icq_list'' struct_list_head,
      Member ''blkcg_pols'' (Array (Scalar ULong64) 1),
      Member ''root_blkg'' (Pointer (Named Struct_name ''blkcg_gq'')),
      Member ''blkg_list'' struct_list_head,
      Member ''blkcg_mutex'' struct_mutex,
      Member ''node'' (Scalar Int32),
      Member ''requeue_lock'' typedef_spinlock_t,
      Member ''requeue_list'' struct_list_head,
      Member ''requeue_work'' struct_delayed_work,
      Member ''blk_trace'' (Pointer (Named Struct_name ''blk_trace'')),
      Member ''fq'' (Pointer (Named Struct_name ''blk_flush_queue'')),
      Member ''flush_list'' struct_list_head,
      Member ''sysfs_lock'' struct_mutex,
      Member ''sysfs_dir_lock'' struct_mutex,
      Member ''unused_hctx_list'' struct_list_head,
      Member ''unused_hctx_lock'' typedef_spinlock_t,
      Member ''mq_freeze_depth'' (Scalar Int32),
      Member ''td'' (Pointer (Named Struct_name ''throtl_data'')),
      Member ''callback_head'' struct_callback_head,
      Member ''mq_freeze_wq'' typedef_wait_queue_head_t,
      Member ''mq_freeze_lock'' struct_mutex,
      Member ''tag_set'' (Pointer (Named Struct_name ''blk_mq_tag_set'')),
      Member ''tag_set_list'' struct_list_head,
      Member ''debugfs_dir'' (Pointer (Named Struct_name ''dentry'')),
      Member ''sched_debugfs_dir'' (Pointer (Named Struct_name ''dentry'')),
      Member ''rqos_debugfs_dir'' (Pointer (Named Struct_name ''dentry'')),
      Member ''debugfs_mutex'' struct_mutex,
      Member ''mq_sysfs_init_done'' typedef_bool]"

lemma struct_request_queue_layout [layout_simps]:
  "wf_type struct_request_queue" "shape struct_request_queue = (920, 8)"
  by (simp_all del: One_nat_def add: struct_request_queue_def layout_eval layout_simps)

definition struct_block_device_operations :: ctype where
  "struct_block_device_operations =
     Composite Struct False
     [Member ''submit_bio'' (Pointer (Function Void [Pointer (Named Struct_name ''bio'')])),
      Member ''poll_bio'' (Pointer (Function (Scalar Int32) [Pointer (Named Struct_name ''bio''), Pointer (Named Struct_name ''io_comp_batch''), Scalar UInt32])),
      Member ''open'' (Pointer (Function (Scalar Int32) [Pointer (Named Struct_name ''gendisk''), Named Typedef_name ''blk_mode_t''])),
      Member ''release'' (Pointer (Function Void [Pointer (Named Struct_name ''gendisk'')])),
      Member ''ioctl'' (Pointer (Function (Scalar Int32) [Pointer (Named Struct_name ''block_device''), Named Typedef_name ''blk_mode_t'', Scalar UInt32, Scalar ULong64])),
      Member ''compat_ioctl'' (Pointer (Function (Scalar Int32) [Pointer (Named Struct_name ''block_device''), Named Typedef_name ''blk_mode_t'', Scalar UInt32, Scalar ULong64])),
      Member ''check_events'' (Pointer (Function (Scalar UInt32) [Pointer (Named Struct_name ''gendisk''), Scalar UInt32])),
      Member ''unlock_native_capacity'' (Pointer (Function Void [Pointer (Named Struct_name ''gendisk'')])),
      Member ''getgeo'' (Pointer (Function (Scalar Int32) [Pointer (Named Struct_name ''block_device''), Pointer (Named Struct_name ''hd_geometry'')])),
      Member ''set_read_only'' (Pointer (Function (Scalar Int32) [Pointer (Named Struct_name ''block_device''), Named Typedef_name ''bool''])),
      Member ''free_disk'' (Pointer (Function Void [Pointer (Named Struct_name ''gendisk'')])),
      Member ''swap_slot_free_notify'' (Pointer (Function Void [Pointer (Named Struct_name ''block_device''), Scalar ULong64])),
      Member ''report_zones'' (Pointer (Function (Scalar Int32) [Pointer (Named Struct_name ''gendisk''), Named Typedef_name ''sector_t'', Scalar UInt32, Named Typedef_name ''report_zones_cb'', Pointer Void])),
      Member ''devnode'' (Pointer (Function (Pointer (Scalar Char8)) [Pointer (Named Struct_name ''gendisk''), Pointer (Named Typedef_name ''umode_t'')])),
      Member ''get_unique_id'' (Pointer (Function (Scalar Int32) [Pointer (Named Struct_name ''gendisk''), Pointer (Named Typedef_name ''u8''), Named Enum_name ''blk_unique_id''])),
      Member ''owner'' (Pointer (Named Struct_name ''module'')),
      Member ''pr_ops'' (Pointer (Named Struct_name ''pr_ops'')),
      Member ''alternative_gpt_sector'' (Pointer (Function (Scalar Int32) [Pointer (Named Struct_name ''gendisk''), Pointer (Named Typedef_name ''sector_t'')]))]"

lemma struct_block_device_operations_layout [layout_simps]:
  "wf_type struct_block_device_operations" "shape struct_block_device_operations = (144, 8)"
  by (simp_all del: One_nat_def add: struct_block_device_operations_def layout_eval layout_simps)

definition struct_sbitmap :: ctype where
  "struct_sbitmap =
     Composite Struct False
     [Member ''depth'' (Scalar UInt32),
      Member ''shift'' (Scalar UInt32),
      Member ''map_nr'' (Scalar UInt32),
      Member ''round_robin'' typedef_bool,
      Member ''map'' (Pointer (Named Struct_name ''sbitmap_word'')),
      Member ''alloc_hint'' (Pointer (Scalar UInt32))]"

lemma struct_sbitmap_layout [layout_simps]:
  "wf_type struct_sbitmap" "shape struct_sbitmap = (32, 8)"
  by (simp_all del: One_nat_def add: struct_sbitmap_def layout_eval layout_simps)

definition typedef_req_flags_t :: ctype where
  "typedef_req_flags_t = typedef___u32"

lemma typedef_req_flags_t_layout [layout_simps]:
  "integral typedef_req_flags_t" "wf_type typedef_req_flags_t" "shape typedef_req_flags_t = (4, 4)"
  by (simp_all del: One_nat_def add: typedef_req_flags_t_def layout_eval layout_simps)

definition enum_mq_rq_state :: ctype where
  "enum_mq_rq_state =
     Enum
     [(''MQ_RQ_IDLE'', 0), (''MQ_RQ_IN_FLIGHT'', 1), (''MQ_RQ_COMPLETE'', 2)]"

lemma enum_mq_rq_state_layout [layout_simps]:
  "integral enum_mq_rq_state" "wf_type enum_mq_rq_state" "shape enum_mq_rq_state = (4, 4)"
  by (simp_all del: One_nat_def add: enum_mq_rq_state_def layout_eval layout_simps)

definition struct_request :: ctype where
  "struct_request =
     Composite Struct False
     [Member ''q'' (Pointer (Named Struct_name ''request_queue'')),
      Member ''mq_ctx'' (Pointer (Named Struct_name ''blk_mq_ctx'')),
      Member ''mq_hctx'' (Pointer (Named Struct_name ''blk_mq_hw_ctx'')),
      Member ''cmd_flags'' typedef_blk_opf_t,
      Member ''rq_flags'' typedef_req_flags_t,
      Member ''tag'' (Scalar Int32),
      Member ''internal_tag'' (Scalar Int32),
      Member ''timeout'' (Scalar UInt32),
      Member ''__data_len'' (Scalar UInt32),
      Member ''__sector'' typedef_sector_t,
      Member ''bio'' (Pointer (Named Struct_name ''bio'')),
      Member ''biotail'' (Pointer (Named Struct_name ''bio'')),
      Anonymous (Composite Union False
       [Member ''queuelist'' struct_list_head,
        Member ''rq_next'' (Pointer (Named Struct_name ''request''))]),
      Member ''part'' (Pointer (Named Struct_name ''block_device'')),
      Member ''alloc_time_ns'' typedef_u64,
      Member ''start_time_ns'' typedef_u64,
      Member ''io_start_time_ns'' typedef_u64,
      Member ''wbt_flags'' (Scalar UShort16),
      Member ''stats_sectors'' (Scalar UShort16),
      Member ''nr_phys_segments'' (Scalar UShort16),
      Member ''nr_integrity_segments'' (Scalar UShort16),
      Member ''crypt_ctx'' (Pointer (Named Struct_name ''bio_crypt_ctx'')),
      Member ''crypt_keyslot'' (Pointer (Named Struct_name ''blk_crypto_keyslot'')),
      Member ''ioprio'' (Scalar UShort16),
      Member ''state'' enum_mq_rq_state,
      Member ''ref'' typedef_atomic_t,
      Member ''deadline'' (Scalar ULong64),
      Anonymous (Composite Union False
       [Member ''hash'' struct_hlist_node,
        Member ''ipi_list'' struct_llist_node]),
      Anonymous (Composite Union False
       [Member ''rb_node'' struct_rb_node,
        Member ''special_vec'' struct_bio_vec]),
      Member ''elv'' (Composite Struct False
       [Member ''icq'' (Pointer (Named Struct_name ''io_cq'')),
        Member ''priv'' (Array (Pointer Void) 2)]),
      Member ''flush'' (Composite Struct False
       [Member ''seq'' (Scalar UInt32),
        Member ''saved_end_io'' (Pointer (Named Typedef_name ''rq_end_io_fn''))]),
      Member ''fifo_time'' typedef_u64,
      Member ''end_io'' (Pointer (Named Typedef_name ''rq_end_io_fn'')),
      Member ''end_io_data'' (Pointer Void)]"

lemma struct_request_layout [layout_simps]:
  "wf_type struct_request" "shape struct_request = (272, 8)"
  by (simp_all del: One_nat_def add: struct_request_def layout_eval layout_simps)

definition struct_blk_mq_queue_map :: ctype where
  "struct_blk_mq_queue_map =
     Composite Struct False
     [Member ''mq_map'' (Pointer (Scalar UInt32)),
      Member ''nr_queues'' (Scalar UInt32),
      Member ''queue_offset'' (Scalar UInt32)]"

lemma struct_blk_mq_queue_map_layout [layout_simps]:
  "wf_type struct_blk_mq_queue_map" "shape struct_blk_mq_queue_map = (16, 8)"
  by (simp_all del: One_nat_def add: struct_blk_mq_queue_map_def layout_eval layout_simps)

definition struct_blk_mq_tag_set :: ctype where
  "struct_blk_mq_tag_set =
     Composite Struct False
     [Member ''ops'' (Pointer (Named Struct_name ''blk_mq_ops'')),
      Member ''map'' (Array struct_blk_mq_queue_map 3),
      Member ''nr_maps'' (Scalar UInt32),
      Member ''nr_hw_queues'' (Scalar UInt32),
      Member ''queue_depth'' (Scalar UInt32),
      Member ''reserved_tags'' (Scalar UInt32),
      Member ''cmd_size'' (Scalar UInt32),
      Member ''numa_node'' (Scalar Int32),
      Member ''timeout'' (Scalar UInt32),
      Member ''flags'' (Scalar UInt32),
      Member ''driver_data'' (Pointer Void),
      Member ''tags'' (Pointer (Pointer (Named Struct_name ''blk_mq_tags''))),
      Member ''shared_tags'' (Pointer (Named Struct_name ''blk_mq_tags'')),
      Member ''tag_list_lock'' struct_mutex,
      Member ''tag_list'' struct_list_head,
      Member ''srcu'' (Pointer (Named Struct_name ''srcu_struct''))]"

lemma struct_blk_mq_tag_set_layout [layout_simps]:
  "wf_type struct_blk_mq_tag_set" "shape struct_blk_mq_tag_set = (168, 8)"
  by (simp_all del: One_nat_def add: struct_blk_mq_tag_set_def layout_eval layout_simps)

definition struct_blk_mq_hw_ctx :: ctype where
  "struct_blk_mq_hw_ctx =
     Composite Struct False
     [Anonymous (Composite Struct False
       [Member ''lock'' typedef_spinlock_t,
        Member ''dispatch'' struct_list_head,
        Member ''state'' (Scalar ULong64),
        Padding (Scalar Long64) 64,
        Padding (Scalar Long64) 64,
        Padding (Scalar Long64) 64,
        Padding (Scalar Long64) 64]),
      Member ''run_work'' struct_delayed_work,
      Member ''cpumask'' typedef_cpumask_var_t,
      Member ''next_cpu'' (Scalar Int32),
      Member ''next_cpu_batch'' (Scalar Int32),
      Member ''flags'' (Scalar ULong64),
      Member ''sched_data'' (Pointer Void),
      Member ''queue'' (Pointer (Named Struct_name ''request_queue'')),
      Member ''fq'' (Pointer (Named Struct_name ''blk_flush_queue'')),
      Member ''driver_data'' (Pointer Void),
      Member ''ctx_map'' struct_sbitmap,
      Member ''dispatch_from'' (Pointer (Named Struct_name ''blk_mq_ctx'')),
      Member ''dispatch_busy'' (Scalar UInt32),
      Member ''type'' (Scalar UShort16),
      Member ''nr_ctx'' (Scalar UShort16),
      Member ''ctxs'' (Pointer (Pointer (Named Struct_name ''blk_mq_ctx''))),
      Member ''dispatch_wait_lock'' typedef_spinlock_t,
      Member ''dispatch_wait'' typedef_wait_queue_entry_t,
      Member ''wait_index'' typedef_atomic_t,
      Member ''tags'' (Pointer (Named Struct_name ''blk_mq_tags'')),
      Member ''sched_tags'' (Pointer (Named Struct_name ''blk_mq_tags'')),
      Member ''numa_node'' (Scalar UInt32),
      Member ''queue_num'' (Scalar UInt32),
      Member ''nr_active'' typedef_atomic_t,
      Member ''cpuhp_online'' struct_hlist_node,
      Member ''cpuhp_dead'' struct_hlist_node,
      Member ''kobj'' struct_kobject,
      Member ''debugfs_dir'' (Pointer (Named Struct_name ''dentry'')),
      Member ''sched_debugfs_dir'' (Pointer (Named Struct_name ''dentry'')),
      Member ''hctx_list'' struct_list_head,
      Padding (Scalar Long64) 64,
      Padding (Scalar Long64) 64,
      Padding (Scalar Long64) 64,
      Padding (Scalar Long64) 64]"

lemma struct_blk_mq_hw_ctx_layout [layout_simps]:
  "wf_type struct_blk_mq_hw_ctx" "shape struct_blk_mq_hw_ctx = (512, 8)"
  by (simp_all del: One_nat_def add: struct_blk_mq_hw_ctx_def layout_eval layout_simps)

definition struct_elevator_queue :: ctype where
  "struct_elevator_queue =
     Composite Struct False
     [Member ''type'' (Pointer (Named Struct_name ''elevator_type'')),
      Member ''elevator_data'' (Pointer Void),
      Member ''kobj'' struct_kobject,
      Member ''sysfs_lock'' struct_mutex,
      Member ''flags'' (Scalar ULong64),
      Member ''hash'' (Array struct_hlist_head 64)]"

lemma struct_elevator_queue_layout [layout_simps]:
  "wf_type struct_elevator_queue" "shape struct_elevator_queue = (632, 8)"
  by (simp_all del: One_nat_def add: struct_elevator_queue_def layout_eval layout_simps)

definition struct_blk_mq_ctx :: ctype where
  "struct_blk_mq_ctx =
     Composite Struct False
     [Anonymous (Composite Struct False
       [Member ''lock'' typedef_spinlock_t,
        Member ''rq_lists'' (Array struct_list_head 3),
        Padding (Scalar Long64) 64]),
      Member ''cpu'' (Scalar UInt32),
      Member ''index_hw'' (Array (Scalar UShort16) 3),
      Member ''hctxs'' (Array (Pointer (Named Struct_name ''blk_mq_hw_ctx'')) 3),
      Member ''queue'' (Pointer (Named Struct_name ''request_queue'')),
      Member ''ctxs'' (Pointer (Named Struct_name ''blk_mq_ctxs'')),
      Member ''kobj'' struct_kobject,
      Padding (Scalar Long64) 64]"

lemma struct_blk_mq_ctx_layout [layout_simps]:
  "wf_type struct_blk_mq_ctx" "shape struct_blk_mq_ctx = (192, 8)"
  by (simp_all del: One_nat_def add: struct_blk_mq_ctx_def layout_eval layout_simps)

text \<open>The types of this theory by kind and name.\<close>

definition block_types :: "(name_kind \<times> string \<times> ctype) list" where
  "block_types =
     [(Struct_name, ''lockdep_map'', struct_lockdep_map),
      (Typedef_name, ''cpumask_var_t'', typedef_cpumask_var_t),
      (Struct_name, ''swait_queue_head'', struct_swait_queue_head),
      (Struct_name, ''completion'', struct_completion),
      (Struct_name, ''delayed_work'', struct_delayed_work),
      (Struct_name, ''percpu_ref'', struct_percpu_ref),
      (Enum_name, ''dl_dev_state'', enum_dl_dev_state),
      (Struct_name, ''dev_links_info'', struct_dev_links_info),
      (Struct_name, ''pm_message'', struct_pm_message),
      (Typedef_name, ''pm_message_t'', typedef_pm_message_t),
      (Enum_name, ''rpm_request'', enum_rpm_request),
      (Enum_name, ''rpm_status'', enum_rpm_status),
      (Struct_name, ''dev_pm_info'', struct_dev_pm_info),
      (Struct_name, ''dev_msi_info'', struct_dev_msi_info),
      (Struct_name, ''dev_archdata'', struct_dev_archdata),
      (Enum_name, ''device_removable'', enum_device_removable),
      (Struct_name, ''device'', struct_device),
      (Struct_name, ''bio_vec'', struct_bio_vec),
      (Struct_name, ''bio_list'', struct_bio_list),
      (Struct_name, ''fprop_local_percpu'', struct_fprop_local_percpu),
      (Enum_name, ''wb_reason'', enum_wb_reason),
      (Struct_name, ''bdi_writeback'', struct_bdi_writeback),
      (Struct_name, ''block_device'', struct_block_device),
      (Struct_name, ''backing_dev_info'', struct_backing_dev_info),
      (Typedef_name, ''blk_opf_t'', typedef_blk_opf_t),
      (Typedef_name, ''blk_status_t'', typedef_blk_status_t),
      (Struct_name, ''bvec_iter'', struct_bvec_iter),
      (Typedef_name, ''blk_qc_t'', typedef_blk_qc_t),
      (Struct_name, ''bio_issue'', struct_bio_issue),
      (Struct_name, ''bio'', struct_bio),
      (Struct_name, ''mempool_s'', struct_mempool_s),
      (Typedef_name, ''mempool_t'', typedef_mempool_t),
      (Struct_name, ''bio_set'', struct_bio_set),
      (Typedef_name, ''wait_queue_func_t'', typedef_wait_queue_func_t),
      (Struct_name, ''wait_queue_entry'', struct_wait_queue_entry),
      (Typedef_name, ''wait_queue_entry_t'', typedef_wait_queue_entry_t),
      (Typedef_name, ''blk_mode_t'', typedef_blk_mode_t),
      (Struct_name, ''gendisk'', struct_gendisk),
      (Enum_name, ''blk_bounce'', enum_blk_bounce),
      (Struct_name, ''queue_limits'', struct_queue_limits),
      (Struct_name, ''blk_integrity'', struct_blk_integrity),
      (Struct_name, ''request_queue'', struct_request_queue),
      (Struct_name, ''block_device_operations'', struct_block_device_operations),
      (Struct_name, ''sbitmap'', struct_sbitmap),
      (Typedef_name, ''req_flags_t'', typedef_req_flags_t),
      (Enum_name, ''mq_rq_state'', enum_mq_rq_state),
      (Struct_name, ''request'', struct_request),
      (Struct_name, ''blk_mq_queue_map'', struct_blk_mq_queue_map),
      (Struct_name, ''blk_mq_tag_set'', struct_blk_mq_tag_set),
      (Struct_name, ''blk_mq_hw_ctx'', struct_blk_mq_hw_ctx),
      (Struct_name, ''elevator_queue'', struct_elevator_queue),
      (Struct_name, ''blk_mq_ctx'', struct_blk_mq_ctx)]"

end
