(* ===== verification/VmlinuxFs.thy ===== *)
theory VmlinuxFs
  imports VmlinuxBase
begin

text \<open>
  Kernel types: file system objects: \<open>renamedata\<close>, and the inodes, directory
  entries, super blocks and user namespaces that it refers to. Each definition is one
  declaration of the header, in the order of use; a lemma with each gives its size and alignment
  in bytes.
\<close>

definition struct_ns_common :: ctype where
  "struct_ns_common =
     Composite Struct False
     [Member ''stashed'' typedef_atomic_long_t,
      Member ''ops'' (Pointer (Named Struct_name ''proc_ns_operations'')),
      Member ''inum'' (Scalar UInt32),
      Member ''count'' typedef_refcount_t]"

lemma struct_ns_common_layout [layout_simps]:
  "wf_type struct_ns_common" "shape struct_ns_common = (24, 8)"
  by (simp_all del: One_nat_def add: struct_ns_common_def layout_eval layout_simps)

definition typedef_umode_t :: ctype where
  "typedef_umode_t = Scalar UShort16"

lemma typedef_umode_t_layout [layout_simps]:
  "integral typedef_umode_t" "wf_type typedef_umode_t" "shape typedef_umode_t = (2, 2)"
  by (simp_all del: One_nat_def add: typedef_umode_t_def layout_eval layout_simps)

definition typedef_blkcnt_t :: ctype where
  "typedef_blkcnt_t = typedef_u64"

lemma typedef_blkcnt_t_layout [layout_simps]:
  "integral typedef_blkcnt_t" "wf_type typedef_blkcnt_t" "shape typedef_blkcnt_t = (8, 8)"
  by (simp_all del: One_nat_def add: typedef_blkcnt_t_def layout_eval layout_simps)

definition typedef_fmode_t :: ctype where
  "typedef_fmode_t = Scalar UInt32"

lemma typedef_fmode_t_layout [layout_simps]:
  "integral typedef_fmode_t" "wf_type typedef_fmode_t" "shape typedef_fmode_t = (4, 4)"
  by (simp_all del: One_nat_def add: typedef_fmode_t_def layout_eval layout_simps)

definition struct_qrwlock :: ctype where
  "struct_qrwlock =
     Composite Struct False
     [Anonymous (Composite Union False
       [Member ''cnts'' typedef_atomic_t,
        Anonymous (Composite Struct False
         [Member ''wlocked'' typedef_u8,
          Member ''__lstate'' (Array typedef_u8 3)])]),
      Member ''wait_lock'' typedef_arch_spinlock_t]"

lemma struct_qrwlock_layout [layout_simps]:
  "wf_type struct_qrwlock" "shape struct_qrwlock = (8, 4)"
  by (simp_all del: One_nat_def add: struct_qrwlock_def layout_eval layout_simps)

definition typedef_arch_rwlock_t :: ctype where
  "typedef_arch_rwlock_t = struct_qrwlock"

lemma typedef_arch_rwlock_t_layout [layout_simps]:
  "wf_type typedef_arch_rwlock_t" "shape typedef_arch_rwlock_t = (8, 4)"
  by (simp_all del: One_nat_def add: typedef_arch_rwlock_t_def layout_eval layout_simps)

definition enum_pid_type :: ctype where
  "enum_pid_type =
     Enum
     [(''PIDTYPE_PID'', 0), (''PIDTYPE_TGID'', 1), (''PIDTYPE_PGID'', 2), (''PIDTYPE_SID'', 3),
      (''PIDTYPE_MAX'', 4)]"

lemma enum_pid_type_layout [layout_simps]:
  "integral enum_pid_type" "wf_type enum_pid_type" "shape enum_pid_type = (4, 4)"
  by (simp_all del: One_nat_def add: enum_pid_type_def layout_eval layout_simps)

definition typedef_rwlock_t :: ctype where
  "typedef_rwlock_t =
     Composite Struct False
     [Member ''raw_lock'' typedef_arch_rwlock_t]"

lemma typedef_rwlock_t_layout [layout_simps]:
  "wf_type typedef_rwlock_t" "shape typedef_rwlock_t = (8, 4)"
  by (simp_all del: One_nat_def add: typedef_rwlock_t_def layout_eval layout_simps)

definition typedef_errseq_t :: ctype where
  "typedef_errseq_t = typedef_u32"

lemma typedef_errseq_t_layout [layout_simps]:
  "integral typedef_errseq_t" "wf_type typedef_errseq_t" "shape typedef_errseq_t = (4, 4)"
  by (simp_all del: One_nat_def add: typedef_errseq_t_def layout_eval layout_simps)

definition struct_address_space :: ctype where
  "struct_address_space =
     Composite Struct False
     [Member ''host'' (Pointer (Named Struct_name ''inode'')),
      Member ''i_pages'' struct_xarray,
      Member ''invalidate_lock'' struct_rw_semaphore,
      Member ''gfp_mask'' typedef_gfp_t,
      Member ''i_mmap_writable'' typedef_atomic_t,
      Member ''i_mmap'' struct_rb_root_cached,
      Member ''nrpages'' (Scalar ULong64),
      Member ''writeback_index'' (Scalar ULong64),
      Member ''a_ops'' (Pointer (Named Struct_name ''address_space_operations'')),
      Member ''flags'' (Scalar ULong64),
      Member ''i_mmap_rwsem'' struct_rw_semaphore,
      Member ''wb_err'' typedef_errseq_t,
      Member ''i_private_lock'' typedef_spinlock_t,
      Member ''i_private_list'' struct_list_head,
      Member ''i_private_data'' (Pointer Void)]"

lemma struct_address_space_layout [layout_simps]:
  "wf_type struct_address_space" "shape struct_address_space = (192, 8)"
  by (simp_all del: One_nat_def add: struct_address_space_def layout_eval layout_simps)

definition typedef_time64_t :: ctype where
  "typedef_time64_t = typedef___s64"

lemma typedef_time64_t_layout [layout_simps]:
  "integral typedef_time64_t" "wf_type typedef_time64_t" "shape typedef_time64_t = (8, 8)"
  by (simp_all del: One_nat_def add: typedef_time64_t_def layout_eval layout_simps)

definition struct_timespec64 :: ctype where
  "struct_timespec64 =
     Composite Struct False
     [Member ''tv_sec'' typedef_time64_t,
      Member ''tv_nsec'' (Scalar Long64)]"

lemma struct_timespec64_layout [layout_simps]:
  "wf_type struct_timespec64" "shape struct_timespec64 = (16, 8)"
  by (simp_all del: One_nat_def add: struct_timespec64_def layout_eval layout_simps)

definition struct_fown_struct :: ctype where
  "struct_fown_struct =
     Composite Struct False
     [Member ''lock'' typedef_rwlock_t,
      Member ''pid'' (Pointer (Named Struct_name ''pid'')),
      Member ''pid_type'' enum_pid_type,
      Member ''uid'' typedef_kuid_t,
      Member ''euid'' typedef_kuid_t,
      Member ''signum'' (Scalar Int32)]"

lemma struct_fown_struct_layout [layout_simps]:
  "wf_type struct_fown_struct" "shape struct_fown_struct = (32, 8)"
  by (simp_all del: One_nat_def add: struct_fown_struct_def layout_eval layout_simps)

definition struct_file_ra_state :: ctype where
  "struct_file_ra_state =
     Composite Struct False
     [Member ''start'' (Scalar ULong64),
      Member ''size'' (Scalar UInt32),
      Member ''async_size'' (Scalar UInt32),
      Member ''ra_pages'' (Scalar UInt32),
      Member ''mmap_miss'' (Scalar UInt32),
      Member ''prev_pos'' typedef_loff_t]"

lemma struct_file_ra_state_layout [layout_simps]:
  "wf_type struct_file_ra_state" "shape struct_file_ra_state = (32, 8)"
  by (simp_all del: One_nat_def add: struct_file_ra_state_def layout_eval layout_simps)

definition struct_file :: ctype where
  "struct_file =
     Composite Struct False
     [Anonymous (Composite Union False
       [Member ''f_task_work'' struct_callback_head,
        Member ''f_llist'' struct_llist_node,
        Member ''f_iocb_flags'' (Scalar UInt32)]),
      Member ''f_lock'' typedef_spinlock_t,
      Member ''f_mode'' typedef_fmode_t,
      Member ''f_count'' typedef_atomic_long_t,
      Member ''f_pos_lock'' struct_mutex,
      Member ''f_pos'' typedef_loff_t,
      Member ''f_flags'' (Scalar UInt32),
      Member ''f_owner'' struct_fown_struct,
      Member ''f_cred'' (Pointer (Named Struct_name ''cred'')),
      Member ''f_ra'' struct_file_ra_state,
      Member ''f_path'' struct_path,
      Member ''f_inode'' (Pointer (Named Struct_name ''inode'')),
      Member ''f_op'' (Pointer (Named Struct_name ''file_operations'')),
      Member ''f_version'' typedef_u64,
      Member ''f_security'' (Pointer Void),
      Member ''private_data'' (Pointer Void),
      Member ''f_ep'' (Pointer (Named Struct_name ''hlist_head'')),
      Member ''f_mapping'' (Pointer (Named Struct_name ''address_space'')),
      Member ''f_wb_err'' typedef_errseq_t,
      Member ''f_sb_err'' typedef_errseq_t]"

lemma struct_file_layout [layout_simps]:
  "wf_type struct_file" "shape struct_file = (232, 8)"
  by (simp_all del: One_nat_def add: struct_file_def layout_eval layout_simps)

definition struct_uid_gid_extent :: ctype where
  "struct_uid_gid_extent =
     Composite Struct False
     [Member ''first'' typedef_u32,
      Member ''lower_first'' typedef_u32,
      Member ''count'' typedef_u32]"

lemma struct_uid_gid_extent_layout [layout_simps]:
  "wf_type struct_uid_gid_extent" "shape struct_uid_gid_extent = (12, 4)"
  by (simp_all del: One_nat_def add: struct_uid_gid_extent_def layout_eval layout_simps)

definition struct_uid_gid_map :: ctype where
  "struct_uid_gid_map =
     Composite Struct False
     [Member ''nr_extents'' typedef_u32,
      Anonymous (Composite Union False
       [Member ''extent'' (Array struct_uid_gid_extent 5),
        Anonymous (Composite Struct False
         [Member ''forward'' (Pointer (Named Struct_name ''uid_gid_extent'')),
          Member ''reverse'' (Pointer (Named Struct_name ''uid_gid_extent''))])])]"

lemma struct_uid_gid_map_layout [layout_simps]:
  "wf_type struct_uid_gid_map" "shape struct_uid_gid_map = (72, 8)"
  by (simp_all del: One_nat_def add: struct_uid_gid_map_def layout_eval layout_simps)

definition struct_ctl_table_header :: ctype where
  "struct_ctl_table_header =
     Composite Struct False
     [Anonymous (Composite Union False
       [Anonymous (Composite Struct False
         [Member ''ctl_table'' (Pointer (Named Struct_name ''ctl_table'')),
          Member ''ctl_table_size'' (Scalar Int32),
          Member ''used'' (Scalar Int32),
          Member ''count'' (Scalar Int32),
          Member ''nreg'' (Scalar Int32)]),
        Member ''rcu'' struct_callback_head]),
      Member ''unregistering'' (Pointer (Named Struct_name ''completion'')),
      Member ''ctl_table_arg'' (Pointer (Named Struct_name ''ctl_table'')),
      Member ''root'' (Pointer (Named Struct_name ''ctl_table_root'')),
      Member ''set'' (Pointer (Named Struct_name ''ctl_table_set'')),
      Member ''parent'' (Pointer (Named Struct_name ''ctl_dir'')),
      Member ''node'' (Pointer (Named Struct_name ''ctl_node'')),
      Member ''inodes'' struct_hlist_head]"

lemma struct_ctl_table_header_layout [layout_simps]:
  "wf_type struct_ctl_table_header" "shape struct_ctl_table_header = (80, 8)"
  by (simp_all del: One_nat_def add: struct_ctl_table_header_def layout_eval layout_simps)

definition struct_ctl_dir :: ctype where
  "struct_ctl_dir =
     Composite Struct False
     [Member ''header'' struct_ctl_table_header,
      Member ''root'' struct_rb_root]"

lemma struct_ctl_dir_layout [layout_simps]:
  "wf_type struct_ctl_dir" "shape struct_ctl_dir = (88, 8)"
  by (simp_all del: One_nat_def add: struct_ctl_dir_def layout_eval layout_simps)

definition struct_ctl_table_set :: ctype where
  "struct_ctl_table_set =
     Composite Struct False
     [Member ''is_seen'' (Pointer (Function (Scalar Int32) [Pointer (Named Struct_name ''ctl_table_set'')])),
      Member ''dir'' struct_ctl_dir]"

lemma struct_ctl_table_set_layout [layout_simps]:
  "wf_type struct_ctl_table_set" "shape struct_ctl_table_set = (96, 8)"
  by (simp_all del: One_nat_def add: struct_ctl_table_set_def layout_eval layout_simps)

definition struct_user_namespace :: ctype where
  "struct_user_namespace =
     Composite Struct False
     [Member ''uid_map'' struct_uid_gid_map,
      Member ''gid_map'' struct_uid_gid_map,
      Member ''projid_map'' struct_uid_gid_map,
      Member ''parent'' (Pointer (Named Struct_name ''user_namespace'')),
      Member ''level'' (Scalar Int32),
      Member ''owner'' typedef_kuid_t,
      Member ''group'' typedef_kgid_t,
      Member ''ns'' struct_ns_common,
      Member ''flags'' (Scalar ULong64),
      Member ''parent_could_setfcap'' typedef_bool,
      Member ''keyring_name_list'' struct_list_head,
      Member ''user_keyring_register'' (Pointer (Named Struct_name ''key'')),
      Member ''keyring_sem'' struct_rw_semaphore,
      Member ''persistent_keyring_register'' (Pointer (Named Struct_name ''key'')),
      Member ''work'' struct_work_struct,
      Member ''set'' struct_ctl_table_set,
      Member ''sysctls'' (Pointer (Named Struct_name ''ctl_table_header'')),
      Member ''ucounts'' (Pointer (Named Struct_name ''ucounts'')),
      Member ''ucount_max'' (Array (Scalar Long64) 12),
      Member ''rlimit_max'' (Array (Scalar Long64) 4),
      Member ''binfmt_misc'' (Pointer (Named Struct_name ''binfmt_misc''))]"

lemma struct_user_namespace_layout [layout_simps]:
  "wf_type struct_user_namespace" "shape struct_user_namespace = (632, 8)"
  by (simp_all del: One_nat_def add: struct_user_namespace_def layout_eval layout_simps)

definition struct_list_lru :: ctype where
  "struct_list_lru =
     Composite Struct False
     [Member ''node'' (Pointer (Named Struct_name ''list_lru_node'')),
      Member ''list'' struct_list_head,
      Member ''shrinker_id'' (Scalar Int32),
      Member ''memcg_aware'' typedef_bool,
      Member ''xa'' struct_xarray]"

lemma struct_list_lru_layout [layout_simps]:
  "wf_type struct_list_lru" "shape struct_list_lru = (48, 8)"
  by (simp_all del: One_nat_def add: struct_list_lru_def layout_eval layout_simps)

definition struct_hlist_bl_head :: ctype where
  "struct_hlist_bl_head =
     Composite Struct False
     [Member ''first'' (Pointer (Named Struct_name ''hlist_bl_node''))]"

lemma struct_hlist_bl_head_layout [layout_simps]:
  "wf_type struct_hlist_bl_head" "shape struct_hlist_bl_head = (8, 8)"
  by (simp_all del: One_nat_def add: struct_hlist_bl_head_def layout_eval layout_simps)

definition struct_hlist_bl_node :: ctype where
  "struct_hlist_bl_node =
     Composite Struct False
     [Member ''next'' (Pointer (Named Struct_name ''hlist_bl_node'')),
      Member ''pprev'' (Pointer (Pointer (Named Struct_name ''hlist_bl_node'')))]"

lemma struct_hlist_bl_node_layout [layout_simps]:
  "wf_type struct_hlist_bl_node" "shape struct_hlist_bl_node = (16, 8)"
  by (simp_all del: One_nat_def add: struct_hlist_bl_node_def layout_eval layout_simps)

definition struct_lockref :: ctype where
  "struct_lockref =
     Composite Struct False
     [Anonymous (Composite Union False
       [Member ''lock_count'' typedef___u64,
        Anonymous (Composite Struct False
         [Member ''lock'' typedef_spinlock_t,
          Member ''count'' (Scalar Int32)])])]"

lemma struct_lockref_layout [layout_simps]:
  "wf_type struct_lockref" "shape struct_lockref = (8, 8)"
  by (simp_all del: One_nat_def add: struct_lockref_def layout_eval layout_simps)

definition struct_qstr :: ctype where
  "struct_qstr =
     Composite Struct False
     [Anonymous (Composite Union False
       [Anonymous (Composite Struct False
         [Member ''hash'' typedef_u32,
          Member ''len'' typedef_u32]),
        Member ''hash_len'' typedef_u64]),
      Member ''name'' (Pointer (Scalar UChar8))]"

lemma struct_qstr_layout [layout_simps]:
  "wf_type struct_qstr" "shape struct_qstr = (16, 8)"
  by (simp_all del: One_nat_def add: struct_qstr_def layout_eval layout_simps)

definition struct_dentry :: ctype where
  "struct_dentry =
     Composite Struct False
     [Member ''d_flags'' (Scalar UInt32),
      Member ''d_seq'' typedef_seqcount_spinlock_t,
      Member ''d_hash'' struct_hlist_bl_node,
      Member ''d_parent'' (Pointer (Named Struct_name ''dentry'')),
      Member ''d_name'' struct_qstr,
      Member ''d_inode'' (Pointer (Named Struct_name ''inode'')),
      Member ''d_iname'' (Array (Scalar UChar8) 40),
      Member ''d_lockref'' struct_lockref,
      Member ''d_op'' (Pointer (Named Struct_name ''dentry_operations'')),
      Member ''d_sb'' (Pointer (Named Struct_name ''super_block'')),
      Member ''d_time'' (Scalar ULong64),
      Member ''d_fsdata'' (Pointer Void),
      Anonymous (Composite Union False
       [Member ''d_lru'' struct_list_head,
        Member ''d_wait'' (Pointer (Named Typedef_name ''wait_queue_head_t''))]),
      Member ''d_sib'' struct_hlist_node,
      Member ''d_children'' struct_hlist_head,
      Member ''d_u'' (Composite Union False
       [Member ''d_alias'' struct_hlist_node,
        Member ''d_in_lookup_hash'' struct_hlist_bl_node,
        Member ''d_rcu'' struct_callback_head])]"

lemma struct_dentry_layout [layout_simps]:
  "wf_type struct_dentry" "shape struct_dentry = (192, 8)"
  by (simp_all del: One_nat_def add: struct_dentry_def layout_eval layout_simps)

definition struct_inode :: ctype where
  "struct_inode =
     Composite Struct False
     [Member ''i_mode'' typedef_umode_t,
      Member ''i_opflags'' (Scalar UShort16),
      Member ''i_uid'' typedef_kuid_t,
      Member ''i_lru'' struct_list_head,
      Member ''i_gid'' typedef_kgid_t,
      Member ''i_flags'' (Scalar UInt32),
      Member ''i_acl'' (Pointer (Named Struct_name ''posix_acl'')),
      Member ''i_default_acl'' (Pointer (Named Struct_name ''posix_acl'')),
      Member ''i_op'' (Pointer (Named Struct_name ''inode_operations'')),
      Member ''i_sb'' (Pointer (Named Struct_name ''super_block'')),
      Member ''i_mapping'' (Pointer (Named Struct_name ''address_space'')),
      Member ''i_security'' (Pointer Void),
      Member ''i_ino'' (Scalar ULong64),
      Anonymous (Composite Union False
       [Member ''i_nlink'' (Scalar UInt32),
        Member ''__i_nlink'' (Scalar UInt32)]),
      Member ''i_rdev'' typedef_dev_t,
      Member ''i_size'' typedef_loff_t,
      Member ''__i_atime'' struct_timespec64,
      Member ''__i_mtime'' struct_timespec64,
      Member ''__i_ctime'' struct_timespec64,
      Member ''i_lock'' typedef_spinlock_t,
      Member ''i_bytes'' (Scalar UShort16),
      Member ''i_blkbits'' typedef_u8,
      Member ''i_write_hint'' typedef_u8,
      Member ''i_blocks'' typedef_blkcnt_t,
      Member ''i_state'' (Scalar ULong64),
      Member ''i_rwsem'' struct_rw_semaphore,
      Member ''dirtied_when'' (Scalar ULong64),
      Member ''dirtied_time_when'' (Scalar ULong64),
      Member ''i_hash'' struct_hlist_node,
      Member ''i_io_list'' struct_list_head,
      Member ''i_wb'' (Pointer (Named Struct_name ''bdi_writeback'')),
      Member ''i_wb_frn_winner'' (Scalar Int32),
      Member ''i_wb_frn_avg_time'' typedef_u16,
      Member ''i_wb_frn_history'' typedef_u16,
      Member ''i_sb_list'' struct_list_head,
      Member ''i_wb_list'' struct_list_head,
      Anonymous (Composite Union False
       [Member ''i_dentry'' struct_hlist_head,
        Member ''i_rcu'' struct_callback_head]),
      Member ''i_version'' typedef_atomic64_t,
      Member ''i_sequence'' typedef_atomic64_t,
      Member ''i_count'' typedef_atomic_t,
      Member ''i_dio_count'' typedef_atomic_t,
      Member ''i_writecount'' typedef_atomic_t,
      Member ''i_readcount'' typedef_atomic_t,
      Anonymous (Composite Union False
       [Member ''i_fop'' (Pointer (Named Struct_name ''file_operations'')),
        Member ''free_inode'' (Pointer (Function Void [Pointer (Named Struct_name ''inode'')]))]),
      Member ''i_flctx'' (Pointer (Named Struct_name ''file_lock_context'')),
      Member ''i_data'' struct_address_space,
      Member ''i_devices'' struct_list_head,
      Anonymous (Composite Union False
       [Member ''i_pipe'' (Pointer (Named Struct_name ''pipe_inode_info'')),
        Member ''i_cdev'' (Pointer (Named Struct_name ''cdev'')),
        Member ''i_link'' (Pointer (Scalar Char8)),
        Member ''i_dir_seq'' (Scalar UInt32)]),
      Member ''i_generation'' typedef___u32,
      Member ''i_fsnotify_mask'' typedef___u32,
      Member ''i_fsnotify_marks'' (Pointer (Named Struct_name ''fsnotify_mark_connector'')),
      Member ''i_crypt_info'' (Pointer (Named Struct_name ''fscrypt_inode_info'')),
      Member ''i_verity_info'' (Pointer (Named Struct_name ''fsverity_info'')),
      Member ''i_private'' (Pointer Void)]"

lemma struct_inode_layout [layout_simps]:
  "wf_type struct_inode" "shape struct_inode = (632, 8)"
  by (simp_all del: One_nat_def add: struct_inode_def layout_eval layout_simps)

definition typedef_qsize_t :: ctype where
  "typedef_qsize_t = Scalar LongLong64"

lemma typedef_qsize_t_layout [layout_simps]:
  "integral typedef_qsize_t" "wf_type typedef_qsize_t" "shape typedef_qsize_t = (8, 8)"
  by (simp_all del: One_nat_def add: typedef_qsize_t_def layout_eval layout_simps)

definition struct_mem_dqinfo :: ctype where
  "struct_mem_dqinfo =
     Composite Struct False
     [Member ''dqi_format'' (Pointer (Named Struct_name ''quota_format_type'')),
      Member ''dqi_fmt_id'' (Scalar Int32),
      Member ''dqi_dirty_list'' struct_list_head,
      Member ''dqi_flags'' (Scalar ULong64),
      Member ''dqi_bgrace'' (Scalar UInt32),
      Member ''dqi_igrace'' (Scalar UInt32),
      Member ''dqi_max_spc_limit'' typedef_qsize_t,
      Member ''dqi_max_ino_limit'' typedef_qsize_t,
      Member ''dqi_priv'' (Pointer Void)]"

lemma struct_mem_dqinfo_layout [layout_simps]:
  "wf_type struct_mem_dqinfo" "shape struct_mem_dqinfo = (72, 8)"
  by (simp_all del: One_nat_def add: struct_mem_dqinfo_def layout_eval layout_simps)

definition struct_quota_info :: ctype where
  "struct_quota_info =
     Composite Struct False
     [Member ''flags'' (Scalar UInt32),
      Member ''dqio_sem'' struct_rw_semaphore,
      Member ''files'' (Array (Pointer (Named Struct_name ''inode'')) 3),
      Member ''info'' (Array struct_mem_dqinfo 3),
      Member ''ops'' (Array (Pointer (Named Struct_name ''quota_format_ops'')) 3)]"

lemma struct_quota_info_layout [layout_simps]:
  "wf_type struct_quota_info" "shape struct_quota_info = (312, 8)"
  by (simp_all del: One_nat_def add: struct_quota_info_def layout_eval layout_simps)

definition struct_rcu_sync :: ctype where
  "struct_rcu_sync =
     Composite Struct False
     [Member ''gp_state'' (Scalar Int32),
      Member ''gp_count'' (Scalar Int32),
      Member ''gp_wait'' typedef_wait_queue_head_t,
      Member ''cb_head'' struct_callback_head]"

lemma struct_rcu_sync_layout [layout_simps]:
  "wf_type struct_rcu_sync" "shape struct_rcu_sync = (48, 8)"
  by (simp_all del: One_nat_def add: struct_rcu_sync_def layout_eval layout_simps)

definition struct_percpu_rw_semaphore :: ctype where
  "struct_percpu_rw_semaphore =
     Composite Struct False
     [Member ''rss'' struct_rcu_sync,
      Member ''read_count'' (Pointer (Scalar UInt32)),
      Member ''writer'' struct_rcuwait,
      Member ''waiters'' typedef_wait_queue_head_t,
      Member ''block'' typedef_atomic_t]"

lemma struct_percpu_rw_semaphore_layout [layout_simps]:
  "wf_type struct_percpu_rw_semaphore" "shape struct_percpu_rw_semaphore = (96, 8)"
  by (simp_all del: One_nat_def add: struct_percpu_rw_semaphore_def layout_eval layout_simps)

definition struct_sb_writers :: ctype where
  "struct_sb_writers =
     Composite Struct False
     [Member ''frozen'' (Scalar UShort16),
      Member ''freeze_kcount'' (Scalar Int32),
      Member ''freeze_ucount'' (Scalar Int32),
      Member ''rw_sem'' (Array struct_percpu_rw_semaphore 3)]"

lemma struct_sb_writers_layout [layout_simps]:
  "wf_type struct_sb_writers" "shape struct_sb_writers = (304, 8)"
  by (simp_all del: One_nat_def add: struct_sb_writers_def layout_eval layout_simps)

definition typedef_uuid_t :: ctype where
  "typedef_uuid_t =
     Composite Struct False
     [Member ''b'' (Array typedef___u8 16)]"

lemma typedef_uuid_t_layout [layout_simps]:
  "wf_type typedef_uuid_t" "shape typedef_uuid_t = (16, 1)"
  by (simp_all del: One_nat_def add: typedef_uuid_t_def layout_eval layout_simps)

definition struct_super_block :: ctype where
  "struct_super_block =
     Composite Struct False
     [Member ''s_list'' struct_list_head,
      Member ''s_dev'' typedef_dev_t,
      Member ''s_blocksize_bits'' (Scalar UChar8),
      Member ''s_blocksize'' (Scalar ULong64),
      Member ''s_maxbytes'' typedef_loff_t,
      Member ''s_type'' (Pointer (Named Struct_name ''file_system_type'')),
      Member ''s_op'' (Pointer (Named Struct_name ''super_operations'')),
      Member ''dq_op'' (Pointer (Named Struct_name ''dquot_operations'')),
      Member ''s_qcop'' (Pointer (Named Struct_name ''quotactl_ops'')),
      Member ''s_export_op'' (Pointer (Named Struct_name ''export_operations'')),
      Member ''s_flags'' (Scalar ULong64),
      Member ''s_iflags'' (Scalar ULong64),
      Member ''s_magic'' (Scalar ULong64),
      Member ''s_root'' (Pointer (Named Struct_name ''dentry'')),
      Member ''s_umount'' struct_rw_semaphore,
      Member ''s_count'' (Scalar Int32),
      Member ''s_active'' typedef_atomic_t,
      Member ''s_security'' (Pointer Void),
      Member ''s_xattr'' (Pointer (Pointer (Named Struct_name ''xattr_handler''))),
      Member ''s_cop'' (Pointer (Named Struct_name ''fscrypt_operations'')),
      Member ''s_master_keys'' (Pointer (Named Struct_name ''fscrypt_keyring'')),
      Member ''s_vop'' (Pointer (Named Struct_name ''fsverity_operations'')),
      Member ''s_encoding'' (Pointer (Named Struct_name ''unicode_map'')),
      Member ''s_encoding_flags'' typedef___u16,
      Member ''s_roots'' struct_hlist_bl_head,
      Member ''s_mounts'' struct_list_head,
      Member ''s_bdev'' (Pointer (Named Struct_name ''block_device'')),
      Member ''s_bdev_handle'' (Pointer (Named Struct_name ''bdev_handle'')),
      Member ''s_bdi'' (Pointer (Named Struct_name ''backing_dev_info'')),
      Member ''s_mtd'' (Pointer (Named Struct_name ''mtd_info'')),
      Member ''s_instances'' struct_hlist_node,
      Member ''s_quota_types'' (Scalar UInt32),
      Member ''s_dquot'' struct_quota_info,
      Member ''s_writers'' struct_sb_writers,
      Member ''s_fs_info'' (Pointer Void),
      Member ''s_time_gran'' typedef_u32,
      Member ''s_time_min'' typedef_time64_t,
      Member ''s_time_max'' typedef_time64_t,
      Member ''s_fsnotify_mask'' typedef___u32,
      Member ''s_fsnotify_marks'' (Pointer (Named Struct_name ''fsnotify_mark_connector'')),
      Member ''s_id'' (Array (Scalar Char8) 32),
      Member ''s_uuid'' typedef_uuid_t,
      Member ''s_max_links'' (Scalar UInt32),
      Member ''s_vfs_rename_mutex'' struct_mutex,
      Member ''s_subtype'' (Pointer (Scalar Char8)),
      Member ''s_d_op'' (Pointer (Named Struct_name ''dentry_operations'')),
      Member ''s_shrink'' (Pointer (Named Struct_name ''shrinker'')),
      Member ''s_remove_count'' typedef_atomic_long_t,
      Member ''s_fsnotify_connectors'' typedef_atomic_long_t,
      Member ''s_readonly_remount'' (Scalar Int32),
      Member ''s_wb_err'' typedef_errseq_t,
      Member ''s_dio_done_wq'' (Pointer (Named Struct_name ''workqueue_struct'')),
      Member ''s_pins'' struct_hlist_head,
      Member ''s_user_ns'' (Pointer (Named Struct_name ''user_namespace'')),
      Member ''s_dentry_lru'' struct_list_lru,
      Member ''s_inode_lru'' struct_list_lru,
      Member ''rcu'' struct_callback_head,
      Member ''destroy_work'' struct_work_struct,
      Member ''s_sync_lock'' struct_mutex,
      Member ''s_stack_depth'' (Scalar Int32),
      Padding (Scalar Long64) 64,
      Padding (Scalar Long64) 64,
      Padding (Scalar Long64) 64,
      Padding (Scalar Long64) 64,
      Padding (Scalar Long64) 64,
      Member ''s_inode_list_lock'' typedef_spinlock_t,
      Member ''s_inodes'' struct_list_head,
      Member ''s_inode_wblist_lock'' typedef_spinlock_t,
      Member ''s_inodes_wb'' struct_list_head,
      Padding (Scalar Long64) 64,
      Padding (Scalar Long64) 64]"

lemma struct_super_block_layout [layout_simps]:
  "wf_type struct_super_block" "shape struct_super_block = (1408, 8)"
  by (simp_all del: One_nat_def add: struct_super_block_def layout_eval layout_simps)

definition struct_renamedata :: ctype where
  "struct_renamedata =
     Composite Struct False
     [Member ''old_mnt_idmap'' (Pointer (Named Struct_name ''mnt_idmap'')),
      Member ''old_dir'' (Pointer (Named Struct_name ''inode'')),
      Member ''old_dentry'' (Pointer (Named Struct_name ''dentry'')),
      Member ''new_mnt_idmap'' (Pointer (Named Struct_name ''mnt_idmap'')),
      Member ''new_dir'' (Pointer (Named Struct_name ''inode'')),
      Member ''new_dentry'' (Pointer (Named Struct_name ''dentry'')),
      Member ''delegated_inode'' (Pointer (Pointer (Named Struct_name ''inode''))),
      Member ''flags'' (Scalar UInt32)]"

lemma struct_renamedata_layout [layout_simps]:
  "wf_type struct_renamedata" "shape struct_renamedata = (64, 8)"
  by (simp_all del: One_nat_def add: struct_renamedata_def layout_eval layout_simps)

text \<open>The types of this theory by kind and name.\<close>

definition fs_types :: "(name_kind \<times> string \<times> ctype) list" where
  "fs_types =
     [(Struct_name, ''ns_common'', struct_ns_common),
      (Typedef_name, ''umode_t'', typedef_umode_t),
      (Typedef_name, ''blkcnt_t'', typedef_blkcnt_t),
      (Typedef_name, ''fmode_t'', typedef_fmode_t),
      (Struct_name, ''qrwlock'', struct_qrwlock),
      (Typedef_name, ''arch_rwlock_t'', typedef_arch_rwlock_t),
      (Enum_name, ''pid_type'', enum_pid_type),
      (Typedef_name, ''rwlock_t'', typedef_rwlock_t),
      (Typedef_name, ''errseq_t'', typedef_errseq_t),
      (Struct_name, ''address_space'', struct_address_space),
      (Typedef_name, ''time64_t'', typedef_time64_t),
      (Struct_name, ''timespec64'', struct_timespec64),
      (Struct_name, ''fown_struct'', struct_fown_struct),
      (Struct_name, ''file_ra_state'', struct_file_ra_state),
      (Struct_name, ''file'', struct_file),
      (Struct_name, ''uid_gid_extent'', struct_uid_gid_extent),
      (Struct_name, ''uid_gid_map'', struct_uid_gid_map),
      (Struct_name, ''ctl_table_header'', struct_ctl_table_header),
      (Struct_name, ''ctl_dir'', struct_ctl_dir),
      (Struct_name, ''ctl_table_set'', struct_ctl_table_set),
      (Struct_name, ''user_namespace'', struct_user_namespace),
      (Struct_name, ''list_lru'', struct_list_lru),
      (Struct_name, ''hlist_bl_head'', struct_hlist_bl_head),
      (Struct_name, ''hlist_bl_node'', struct_hlist_bl_node),
      (Struct_name, ''lockref'', struct_lockref),
      (Struct_name, ''qstr'', struct_qstr),
      (Struct_name, ''dentry'', struct_dentry),
      (Struct_name, ''inode'', struct_inode),
      (Typedef_name, ''qsize_t'', typedef_qsize_t),
      (Struct_name, ''mem_dqinfo'', struct_mem_dqinfo),
      (Struct_name, ''quota_info'', struct_quota_info),
      (Struct_name, ''rcu_sync'', struct_rcu_sync),
      (Struct_name, ''percpu_rw_semaphore'', struct_percpu_rw_semaphore),
      (Struct_name, ''sb_writers'', struct_sb_writers),
      (Typedef_name, ''uuid_t'', typedef_uuid_t),
      (Struct_name, ''super_block'', struct_super_block),
      (Struct_name, ''renamedata'', struct_renamedata)]"

end
