(* ===== verification/VmlinuxBpf.thy ===== *)
theory VmlinuxBpf
  imports VmlinuxBase
begin

text \<open>
  Kernel types: the kernel side of the programs and maps: \<open>bpf_map\<close> and its
  implementations, \<open>bpf_prog\<close>, the perf event a program is attached by, and the
  constants of map types, update flags and stack flags. Each definition is one declaration of
  the header, in the order of use; a lemma with each gives its size and alignment in bytes.
\<close>

definition struct_latch_tree_node :: ctype where
  "struct_latch_tree_node =
     Composite Struct False
     [Member ''node'' (Array struct_rb_node 2)]"

lemma struct_latch_tree_node_layout [layout_simps]:
  "wf_type struct_latch_tree_node" "shape struct_latch_tree_node = (48, 8)"
  by (simp_all del: One_nat_def add: struct_latch_tree_node_def layout_eval layout_simps)

definition enum_perf_event_state :: ctype where
  "enum_perf_event_state =
     Enum
     [(''PERF_EVENT_STATE_DEAD'', -4), (''PERF_EVENT_STATE_EXIT'', -3),
      (''PERF_EVENT_STATE_ERROR'', -2), (''PERF_EVENT_STATE_OFF'', -1),
      (''PERF_EVENT_STATE_INACTIVE'', 0), (''PERF_EVENT_STATE_ACTIVE'', 1)]"

lemma enum_perf_event_state_layout [layout_simps]:
  "integral enum_perf_event_state" "wf_type enum_perf_event_state" "shape enum_perf_event_state = (4, 4)"
  by (simp_all del: One_nat_def add: enum_perf_event_state_def layout_eval layout_simps)

definition typedef_local_t :: ctype where
  "typedef_local_t =
     Composite Struct False
     [Member ''a'' typedef_atomic_long_t]"

lemma typedef_local_t_layout [layout_simps]:
  "wf_type typedef_local_t" "shape typedef_local_t = (8, 8)"
  by (simp_all del: One_nat_def add: typedef_local_t_def layout_eval layout_simps)

definition typedef_local64_t :: ctype where
  "typedef_local64_t =
     Composite Struct False
     [Member ''a'' typedef_local_t]"

lemma typedef_local64_t_layout [layout_simps]:
  "wf_type typedef_local64_t" "shape typedef_local64_t = (8, 8)"
  by (simp_all del: One_nat_def add: typedef_local64_t_def layout_eval layout_simps)

definition struct_perf_event_attr :: ctype where
  "struct_perf_event_attr =
     Composite Struct False
     [Member ''type'' typedef___u32,
      Member ''size'' typedef___u32,
      Member ''config'' typedef___u64,
      Anonymous (Composite Union False
       [Member ''sample_period'' typedef___u64,
        Member ''sample_freq'' typedef___u64]),
      Member ''sample_type'' typedef___u64,
      Member ''read_format'' typedef___u64,
      Bitfield ''disabled'' typedef___u64 1,
      Bitfield ''inherit'' typedef___u64 1,
      Bitfield ''pinned'' typedef___u64 1,
      Bitfield ''exclusive'' typedef___u64 1,
      Bitfield ''exclude_user'' typedef___u64 1,
      Bitfield ''exclude_kernel'' typedef___u64 1,
      Bitfield ''exclude_hv'' typedef___u64 1,
      Bitfield ''exclude_idle'' typedef___u64 1,
      Bitfield ''mmap'' typedef___u64 1,
      Bitfield ''comm'' typedef___u64 1,
      Bitfield ''freq'' typedef___u64 1,
      Bitfield ''inherit_stat'' typedef___u64 1,
      Bitfield ''enable_on_exec'' typedef___u64 1,
      Bitfield ''task'' typedef___u64 1,
      Bitfield ''watermark'' typedef___u64 1,
      Bitfield ''precise_ip'' typedef___u64 2,
      Bitfield ''mmap_data'' typedef___u64 1,
      Bitfield ''sample_id_all'' typedef___u64 1,
      Bitfield ''exclude_host'' typedef___u64 1,
      Bitfield ''exclude_guest'' typedef___u64 1,
      Bitfield ''exclude_callchain_kernel'' typedef___u64 1,
      Bitfield ''exclude_callchain_user'' typedef___u64 1,
      Bitfield ''mmap2'' typedef___u64 1,
      Bitfield ''comm_exec'' typedef___u64 1,
      Bitfield ''use_clockid'' typedef___u64 1,
      Bitfield ''context_switch'' typedef___u64 1,
      Bitfield ''write_backward'' typedef___u64 1,
      Bitfield ''namespaces'' typedef___u64 1,
      Bitfield ''ksymbol'' typedef___u64 1,
      Bitfield ''bpf_event'' typedef___u64 1,
      Bitfield ''aux_output'' typedef___u64 1,
      Bitfield ''cgroup'' typedef___u64 1,
      Bitfield ''text_poke'' typedef___u64 1,
      Bitfield ''build_id'' typedef___u64 1,
      Bitfield ''inherit_thread'' typedef___u64 1,
      Bitfield ''remove_on_exec'' typedef___u64 1,
      Bitfield ''sigtrap'' typedef___u64 1,
      Bitfield ''__reserved_1'' typedef___u64 26,
      Anonymous (Composite Union False
       [Member ''wakeup_events'' typedef___u32,
        Member ''wakeup_watermark'' typedef___u32]),
      Member ''bp_type'' typedef___u32,
      Anonymous (Composite Union False
       [Member ''bp_addr'' typedef___u64,
        Member ''kprobe_func'' typedef___u64,
        Member ''uprobe_path'' typedef___u64,
        Member ''config1'' typedef___u64]),
      Anonymous (Composite Union False
       [Member ''bp_len'' typedef___u64,
        Member ''kprobe_addr'' typedef___u64,
        Member ''probe_offset'' typedef___u64,
        Member ''config2'' typedef___u64]),
      Member ''branch_sample_type'' typedef___u64,
      Member ''sample_regs_user'' typedef___u64,
      Member ''sample_stack_user'' typedef___u32,
      Member ''clockid'' typedef___s32,
      Member ''sample_regs_intr'' typedef___u64,
      Member ''aux_watermark'' typedef___u32,
      Member ''sample_max_stack'' typedef___u16,
      Member ''__reserved_2'' typedef___u16,
      Member ''aux_sample_size'' typedef___u32,
      Member ''__reserved_3'' typedef___u32,
      Member ''sig_data'' typedef___u64,
      Member ''config3'' typedef___u64]"

lemma struct_perf_event_attr_layout [layout_simps]:
  "wf_type struct_perf_event_attr" "shape struct_perf_event_attr = (136, 8)"
  by (simp_all del: One_nat_def add: struct_perf_event_attr_def layout_eval layout_simps)

definition struct_hw_perf_event_extra :: ctype where
  "struct_hw_perf_event_extra =
     Composite Struct False
     [Member ''config'' typedef_u64,
      Member ''reg'' (Scalar UInt32),
      Member ''alloc'' (Scalar Int32),
      Member ''idx'' (Scalar Int32)]"

lemma struct_hw_perf_event_extra_layout [layout_simps]:
  "wf_type struct_hw_perf_event_extra" "shape struct_hw_perf_event_extra = (24, 8)"
  by (simp_all del: One_nat_def add: struct_hw_perf_event_extra_def layout_eval layout_simps)

definition struct_arch_hw_breakpoint :: ctype where
  "struct_arch_hw_breakpoint =
     Composite Struct False
     [Member ''address'' (Scalar ULong64),
      Member ''mask'' (Scalar ULong64),
      Member ''len'' typedef_u8,
      Member ''type'' typedef_u8]"

lemma struct_arch_hw_breakpoint_layout [layout_simps]:
  "wf_type struct_arch_hw_breakpoint" "shape struct_arch_hw_breakpoint = (24, 8)"
  by (simp_all del: One_nat_def add: struct_arch_hw_breakpoint_def layout_eval layout_simps)

definition struct_rhash_head :: ctype where
  "struct_rhash_head =
     Composite Struct False
     [Member ''next'' (Pointer (Named Struct_name ''rhash_head''))]"

lemma struct_rhash_head_layout [layout_simps]:
  "wf_type struct_rhash_head" "shape struct_rhash_head = (8, 8)"
  by (simp_all del: One_nat_def add: struct_rhash_head_def layout_eval layout_simps)

definition struct_rhlist_head :: ctype where
  "struct_rhlist_head =
     Composite Struct False
     [Member ''rhead'' struct_rhash_head,
      Member ''next'' (Pointer (Named Struct_name ''rhlist_head''))]"

lemma struct_rhlist_head_layout [layout_simps]:
  "wf_type struct_rhlist_head" "shape struct_rhlist_head = (16, 8)"
  by (simp_all del: One_nat_def add: struct_rhlist_head_def layout_eval layout_simps)

definition struct_hw_perf_event :: ctype where
  "struct_hw_perf_event =
     Composite Struct False
     [Anonymous (Composite Union False
       [Anonymous (Composite Struct False
         [Member ''config'' typedef_u64,
          Member ''last_tag'' typedef_u64,
          Member ''config_base'' (Scalar ULong64),
          Member ''event_base'' (Scalar ULong64),
          Member ''event_base_rdpmc'' (Scalar Int32),
          Member ''idx'' (Scalar Int32),
          Member ''last_cpu'' (Scalar Int32),
          Member ''flags'' (Scalar Int32),
          Member ''extra_reg'' struct_hw_perf_event_extra,
          Member ''branch_reg'' struct_hw_perf_event_extra]),
        Anonymous (Composite Struct False
         [Member ''hrtimer'' struct_hrtimer]),
        Anonymous (Composite Struct False
         [Member ''tp_list'' struct_list_head]),
        Anonymous (Composite Struct False
         [Member ''pwr_acc'' typedef_u64,
          Member ''ptsc'' typedef_u64]),
        Anonymous (Composite Struct False
         [Member ''info'' struct_arch_hw_breakpoint,
          Member ''bp_list'' struct_rhlist_head]),
        Anonymous (Composite Struct False
         [Member ''iommu_bank'' typedef_u8,
          Member ''iommu_cntr'' typedef_u8,
          Member ''padding'' typedef_u16,
          Member ''conf'' typedef_u64,
          Member ''conf1'' typedef_u64])]),
      Member ''target'' (Pointer (Named Struct_name ''task_struct'')),
      Member ''addr_filters'' (Pointer Void),
      Member ''addr_filters_gen'' (Scalar ULong64),
      Member ''state'' (Scalar Int32),
      Member ''prev_count'' typedef_local64_t,
      Member ''sample_period'' typedef_u64,
      Anonymous (Composite Union False
       [Anonymous (Composite Struct False
         [Member ''last_period'' typedef_u64,
          Member ''period_left'' typedef_local64_t]),
        Anonymous (Composite Struct False
         [Member ''saved_metric'' typedef_u64,
          Member ''saved_slots'' typedef_u64])]),
      Member ''interrupts_seq'' typedef_u64,
      Member ''interrupts'' typedef_u64,
      Member ''freq_time_stamp'' typedef_u64,
      Member ''freq_count_stamp'' typedef_u64]"

lemma struct_hw_perf_event_layout [layout_simps]:
  "wf_type struct_hw_perf_event" "shape struct_hw_perf_event = (192, 8)"
  by (simp_all del: One_nat_def add: struct_hw_perf_event_def layout_eval layout_simps)

definition struct_irq_work :: ctype where
  "struct_irq_work =
     Composite Struct False
     [Member ''node'' struct___call_single_node,
      Member ''func'' (Pointer (Function Void [Pointer (Named Struct_name ''irq_work'')])),
      Member ''irqwait'' struct_rcuwait]"

lemma struct_irq_work_layout [layout_simps]:
  "wf_type struct_irq_work" "shape struct_irq_work = (32, 8)"
  by (simp_all del: One_nat_def add: struct_irq_work_def layout_eval layout_simps)

definition struct_perf_addr_filters_head :: ctype where
  "struct_perf_addr_filters_head =
     Composite Struct False
     [Member ''list'' struct_list_head,
      Member ''lock'' typedef_raw_spinlock_t,
      Member ''nr_file_filters'' (Scalar UInt32)]"

lemma struct_perf_addr_filters_head_layout [layout_simps]:
  "wf_type struct_perf_addr_filters_head" "shape struct_perf_addr_filters_head = (24, 8)"
  by (simp_all del: One_nat_def add: struct_perf_addr_filters_head_def layout_eval layout_simps)

definition typedef_perf_overflow_handler_t :: ctype where
  "typedef_perf_overflow_handler_t = Pointer (Function Void [Pointer (Named Struct_name ''perf_event''), Pointer (Named Struct_name ''perf_sample_data''), Pointer (Named Struct_name ''pt_regs'')])"

lemma typedef_perf_overflow_handler_t_layout [layout_simps]:
  "wf_type typedef_perf_overflow_handler_t" "shape typedef_perf_overflow_handler_t = (8, 8)"
  by (simp_all del: One_nat_def add: typedef_perf_overflow_handler_t_def layout_eval layout_simps)

definition typedef_ftrace_func_t :: ctype where
  "typedef_ftrace_func_t = Pointer (Function Void [Scalar ULong64, Scalar ULong64, Pointer (Named Struct_name ''ftrace_ops''), Pointer (Named Struct_name ''ftrace_regs'')])"

lemma typedef_ftrace_func_t_layout [layout_simps]:
  "wf_type typedef_ftrace_func_t" "shape typedef_ftrace_func_t = (8, 8)"
  by (simp_all del: One_nat_def add: typedef_ftrace_func_t_def layout_eval layout_simps)

definition struct_ftrace_ops_hash :: ctype where
  "struct_ftrace_ops_hash =
     Composite Struct False
     [Member ''notrace_hash'' (Pointer (Named Struct_name ''ftrace_hash'')),
      Member ''filter_hash'' (Pointer (Named Struct_name ''ftrace_hash'')),
      Member ''regex_lock'' struct_mutex]"

lemma struct_ftrace_ops_hash_layout [layout_simps]:
  "wf_type struct_ftrace_ops_hash" "shape struct_ftrace_ops_hash = (48, 8)"
  by (simp_all del: One_nat_def add: struct_ftrace_ops_hash_def layout_eval layout_simps)

definition typedef_ftrace_ops_func_t :: ctype where
  "typedef_ftrace_ops_func_t = Pointer (Function (Scalar Int32) [Pointer (Named Struct_name ''ftrace_ops''), Named Enum_name ''ftrace_ops_cmd''])"

lemma typedef_ftrace_ops_func_t_layout [layout_simps]:
  "wf_type typedef_ftrace_ops_func_t" "shape typedef_ftrace_ops_func_t = (8, 8)"
  by (simp_all del: One_nat_def add: typedef_ftrace_ops_func_t_def layout_eval layout_simps)

definition struct_ftrace_ops :: ctype where
  "struct_ftrace_ops =
     Composite Struct False
     [Member ''func'' typedef_ftrace_func_t,
      Member ''next'' (Pointer (Named Struct_name ''ftrace_ops'')),
      Member ''flags'' (Scalar ULong64),
      Member ''private'' (Pointer Void),
      Member ''saved_func'' typedef_ftrace_func_t,
      Member ''local_hash'' struct_ftrace_ops_hash,
      Member ''func_hash'' (Pointer (Named Struct_name ''ftrace_ops_hash'')),
      Member ''old_hash'' struct_ftrace_ops_hash,
      Member ''trampoline'' (Scalar ULong64),
      Member ''trampoline_size'' (Scalar ULong64),
      Member ''list'' struct_list_head,
      Member ''ops_func'' typedef_ftrace_ops_func_t,
      Member ''direct_call'' (Scalar ULong64)]"

lemma struct_ftrace_ops_layout [layout_simps]:
  "wf_type struct_ftrace_ops" "shape struct_ftrace_ops = (192, 8)"
  by (simp_all del: One_nat_def add: struct_ftrace_ops_def layout_eval layout_simps)

definition struct_perf_event :: ctype where
  "struct_perf_event =
     Composite Struct False
     [Member ''event_entry'' struct_list_head,
      Member ''sibling_list'' struct_list_head,
      Member ''active_list'' struct_list_head,
      Member ''group_node'' struct_rb_node,
      Member ''group_index'' typedef_u64,
      Member ''migrate_entry'' struct_list_head,
      Member ''hlist_entry'' struct_hlist_node,
      Member ''active_entry'' struct_list_head,
      Member ''nr_siblings'' (Scalar Int32),
      Member ''event_caps'' (Scalar Int32),
      Member ''group_caps'' (Scalar Int32),
      Member ''group_generation'' (Scalar UInt32),
      Member ''group_leader'' (Pointer (Named Struct_name ''perf_event'')),
      Member ''pmu'' (Pointer (Named Struct_name ''pmu'')),
      Member ''pmu_private'' (Pointer Void),
      Member ''state'' enum_perf_event_state,
      Member ''attach_state'' (Scalar UInt32),
      Member ''count'' typedef_local64_t,
      Member ''child_count'' typedef_atomic64_t,
      Member ''total_time_enabled'' typedef_u64,
      Member ''total_time_running'' typedef_u64,
      Member ''tstamp'' typedef_u64,
      Member ''attr'' struct_perf_event_attr,
      Member ''header_size'' typedef_u16,
      Member ''id_header_size'' typedef_u16,
      Member ''read_size'' typedef_u16,
      Member ''hw'' struct_hw_perf_event,
      Member ''ctx'' (Pointer (Named Struct_name ''perf_event_context'')),
      Member ''pmu_ctx'' (Pointer (Named Struct_name ''perf_event_pmu_context'')),
      Member ''refcount'' typedef_atomic_long_t,
      Member ''child_total_time_enabled'' typedef_atomic64_t,
      Member ''child_total_time_running'' typedef_atomic64_t,
      Member ''child_mutex'' struct_mutex,
      Member ''child_list'' struct_list_head,
      Member ''parent'' (Pointer (Named Struct_name ''perf_event'')),
      Member ''oncpu'' (Scalar Int32),
      Member ''cpu'' (Scalar Int32),
      Member ''owner_entry'' struct_list_head,
      Member ''owner'' (Pointer (Named Struct_name ''task_struct'')),
      Member ''mmap_mutex'' struct_mutex,
      Member ''mmap_count'' typedef_atomic_t,
      Member ''rb'' (Pointer (Named Struct_name ''perf_buffer'')),
      Member ''rb_entry'' struct_list_head,
      Member ''rcu_batches'' (Scalar ULong64),
      Member ''rcu_pending'' (Scalar Int32),
      Member ''waitq'' typedef_wait_queue_head_t,
      Member ''fasync'' (Pointer (Named Struct_name ''fasync_struct'')),
      Member ''pending_wakeup'' (Scalar UInt32),
      Member ''pending_kill'' (Scalar UInt32),
      Member ''pending_disable'' (Scalar UInt32),
      Member ''pending_sigtrap'' (Scalar UInt32),
      Member ''pending_addr'' (Scalar ULong64),
      Member ''pending_irq'' struct_irq_work,
      Member ''pending_task'' struct_callback_head,
      Member ''pending_work'' (Scalar UInt32),
      Member ''pending_work_wait'' struct_rcuwait,
      Member ''event_limit'' typedef_atomic_t,
      Member ''addr_filters'' struct_perf_addr_filters_head,
      Member ''addr_filter_ranges'' (Pointer (Named Struct_name ''perf_addr_filter_range'')),
      Member ''addr_filters_gen'' (Scalar ULong64),
      Member ''aux_event'' (Pointer (Named Struct_name ''perf_event'')),
      Member ''destroy'' (Pointer (Function Void [Pointer (Named Struct_name ''perf_event'')])),
      Member ''callback_head'' struct_callback_head,
      Member ''ns'' (Pointer (Named Struct_name ''pid_namespace'')),
      Member ''id'' typedef_u64,
      Member ''lost_samples'' typedef_atomic64_t,
      Member ''clock'' (Pointer (Function (Named Typedef_name ''u64'') [])),
      Member ''overflow_handler'' typedef_perf_overflow_handler_t,
      Member ''overflow_handler_context'' (Pointer Void),
      Member ''orig_overflow_handler'' typedef_perf_overflow_handler_t,
      Member ''prog'' (Pointer (Named Struct_name ''bpf_prog'')),
      Member ''bpf_cookie'' typedef_u64,
      Member ''tp_event'' (Pointer (Named Struct_name ''trace_event_call'')),
      Member ''filter'' (Pointer (Named Struct_name ''event_filter'')),
      Member ''ftrace_ops'' struct_ftrace_ops,
      Member ''cgrp'' (Pointer (Named Struct_name ''perf_cgroup'')),
      Member ''security'' (Pointer Void),
      Member ''sb_list'' struct_list_head,
      Member ''orig_type'' typedef___u32]"

lemma struct_perf_event_layout [layout_simps]:
  "wf_type struct_perf_event" "shape struct_perf_event = (1280, 8)"
  by (simp_all del: One_nat_def add: struct_perf_event_def layout_eval layout_simps)

definition struct_bpf_insn :: ctype where
  "struct_bpf_insn =
     Composite Struct False
     [Member ''code'' typedef___u8,
      Bitfield ''dst_reg'' typedef___u8 4,
      Bitfield ''src_reg'' typedef___u8 4,
      Member ''off'' typedef___s16,
      Member ''imm'' typedef___s32]"

lemma struct_bpf_insn_layout [layout_simps]:
  "wf_type struct_bpf_insn" "shape struct_bpf_insn = (8, 4)"
  by (simp_all del: One_nat_def add: struct_bpf_insn_def layout_eval layout_simps)

definition enum_bpf_map_type :: ctype where
  "enum_bpf_map_type =
     Enum
     [(''BPF_MAP_TYPE_UNSPEC'', 0), (''BPF_MAP_TYPE_HASH'', 1), (''BPF_MAP_TYPE_ARRAY'', 2),
      (''BPF_MAP_TYPE_PROG_ARRAY'', 3), (''BPF_MAP_TYPE_PERF_EVENT_ARRAY'', 4),
      (''BPF_MAP_TYPE_PERCPU_HASH'', 5), (''BPF_MAP_TYPE_PERCPU_ARRAY'', 6),
      (''BPF_MAP_TYPE_STACK_TRACE'', 7), (''BPF_MAP_TYPE_CGROUP_ARRAY'', 8),
      (''BPF_MAP_TYPE_LRU_HASH'', 9), (''BPF_MAP_TYPE_LRU_PERCPU_HASH'', 10),
      (''BPF_MAP_TYPE_LPM_TRIE'', 11), (''BPF_MAP_TYPE_ARRAY_OF_MAPS'', 12),
      (''BPF_MAP_TYPE_HASH_OF_MAPS'', 13), (''BPF_MAP_TYPE_DEVMAP'', 14),
      (''BPF_MAP_TYPE_SOCKMAP'', 15), (''BPF_MAP_TYPE_CPUMAP'', 16),
      (''BPF_MAP_TYPE_XSKMAP'', 17), (''BPF_MAP_TYPE_SOCKHASH'', 18),
      (''BPF_MAP_TYPE_CGROUP_STORAGE_DEPRECATED'', 19), (''BPF_MAP_TYPE_CGROUP_STORAGE'', 19),
      (''BPF_MAP_TYPE_REUSEPORT_SOCKARRAY'', 20),
      (''BPF_MAP_TYPE_PERCPU_CGROUP_STORAGE_DEPRECATED'', 21),
      (''BPF_MAP_TYPE_PERCPU_CGROUP_STORAGE'', 21), (''BPF_MAP_TYPE_QUEUE'', 22),
      (''BPF_MAP_TYPE_STACK'', 23), (''BPF_MAP_TYPE_SK_STORAGE'', 24),
      (''BPF_MAP_TYPE_DEVMAP_HASH'', 25), (''BPF_MAP_TYPE_STRUCT_OPS'', 26),
      (''BPF_MAP_TYPE_RINGBUF'', 27), (''BPF_MAP_TYPE_INODE_STORAGE'', 28),
      (''BPF_MAP_TYPE_TASK_STORAGE'', 29), (''BPF_MAP_TYPE_BLOOM_FILTER'', 30),
      (''BPF_MAP_TYPE_USER_RINGBUF'', 31), (''BPF_MAP_TYPE_CGRP_STORAGE'', 32)]"

lemma enum_bpf_map_type_layout [layout_simps]:
  "integral enum_bpf_map_type" "wf_type enum_bpf_map_type" "shape enum_bpf_map_type = (4, 4)"
  by (simp_all del: One_nat_def add: enum_bpf_map_type_def layout_eval layout_simps)

definition enum_bpf_prog_type :: ctype where
  "enum_bpf_prog_type =
     Enum
     [(''BPF_PROG_TYPE_UNSPEC'', 0), (''BPF_PROG_TYPE_SOCKET_FILTER'', 1),
      (''BPF_PROG_TYPE_KPROBE'', 2), (''BPF_PROG_TYPE_SCHED_CLS'', 3),
      (''BPF_PROG_TYPE_SCHED_ACT'', 4), (''BPF_PROG_TYPE_TRACEPOINT'', 5),
      (''BPF_PROG_TYPE_XDP'', 6), (''BPF_PROG_TYPE_PERF_EVENT'', 7),
      (''BPF_PROG_TYPE_CGROUP_SKB'', 8), (''BPF_PROG_TYPE_CGROUP_SOCK'', 9),
      (''BPF_PROG_TYPE_LWT_IN'', 10), (''BPF_PROG_TYPE_LWT_OUT'', 11),
      (''BPF_PROG_TYPE_LWT_XMIT'', 12), (''BPF_PROG_TYPE_SOCK_OPS'', 13),
      (''BPF_PROG_TYPE_SK_SKB'', 14), (''BPF_PROG_TYPE_CGROUP_DEVICE'', 15),
      (''BPF_PROG_TYPE_SK_MSG'', 16), (''BPF_PROG_TYPE_RAW_TRACEPOINT'', 17),
      (''BPF_PROG_TYPE_CGROUP_SOCK_ADDR'', 18), (''BPF_PROG_TYPE_LWT_SEG6LOCAL'', 19),
      (''BPF_PROG_TYPE_LIRC_MODE2'', 20), (''BPF_PROG_TYPE_SK_REUSEPORT'', 21),
      (''BPF_PROG_TYPE_FLOW_DISSECTOR'', 22), (''BPF_PROG_TYPE_CGROUP_SYSCTL'', 23),
      (''BPF_PROG_TYPE_RAW_TRACEPOINT_WRITABLE'', 24), (''BPF_PROG_TYPE_CGROUP_SOCKOPT'', 25),
      (''BPF_PROG_TYPE_TRACING'', 26), (''BPF_PROG_TYPE_STRUCT_OPS'', 27),
      (''BPF_PROG_TYPE_EXT'', 28), (''BPF_PROG_TYPE_LSM'', 29),
      (''BPF_PROG_TYPE_SK_LOOKUP'', 30), (''BPF_PROG_TYPE_SYSCALL'', 31),
      (''BPF_PROG_TYPE_NETFILTER'', 32)]"

lemma enum_bpf_prog_type_layout [layout_simps]:
  "integral enum_bpf_prog_type" "wf_type enum_bpf_prog_type" "shape enum_bpf_prog_type = (4, 4)"
  by (simp_all del: One_nat_def add: enum_bpf_prog_type_def layout_eval layout_simps)

definition enum_bpf_attach_type :: ctype where
  "enum_bpf_attach_type =
     Enum
     [(''BPF_CGROUP_INET_INGRESS'', 0), (''BPF_CGROUP_INET_EGRESS'', 1),
      (''BPF_CGROUP_INET_SOCK_CREATE'', 2), (''BPF_CGROUP_SOCK_OPS'', 3),
      (''BPF_SK_SKB_STREAM_PARSER'', 4), (''BPF_SK_SKB_STREAM_VERDICT'', 5),
      (''BPF_CGROUP_DEVICE'', 6), (''BPF_SK_MSG_VERDICT'', 7), (''BPF_CGROUP_INET4_BIND'', 8),
      (''BPF_CGROUP_INET6_BIND'', 9), (''BPF_CGROUP_INET4_CONNECT'', 10),
      (''BPF_CGROUP_INET6_CONNECT'', 11), (''BPF_CGROUP_INET4_POST_BIND'', 12),
      (''BPF_CGROUP_INET6_POST_BIND'', 13), (''BPF_CGROUP_UDP4_SENDMSG'', 14),
      (''BPF_CGROUP_UDP6_SENDMSG'', 15), (''BPF_LIRC_MODE2'', 16), (''BPF_FLOW_DISSECTOR'', 17),
      (''BPF_CGROUP_SYSCTL'', 18), (''BPF_CGROUP_UDP4_RECVMSG'', 19),
      (''BPF_CGROUP_UDP6_RECVMSG'', 20), (''BPF_CGROUP_GETSOCKOPT'', 21),
      (''BPF_CGROUP_SETSOCKOPT'', 22), (''BPF_TRACE_RAW_TP'', 23), (''BPF_TRACE_FENTRY'', 24),
      (''BPF_TRACE_FEXIT'', 25), (''BPF_MODIFY_RETURN'', 26), (''BPF_LSM_MAC'', 27),
      (''BPF_TRACE_ITER'', 28), (''BPF_CGROUP_INET4_GETPEERNAME'', 29),
      (''BPF_CGROUP_INET6_GETPEERNAME'', 30), (''BPF_CGROUP_INET4_GETSOCKNAME'', 31),
      (''BPF_CGROUP_INET6_GETSOCKNAME'', 32), (''BPF_XDP_DEVMAP'', 33),
      (''BPF_CGROUP_INET_SOCK_RELEASE'', 34), (''BPF_XDP_CPUMAP'', 35), (''BPF_SK_LOOKUP'', 36),
      (''BPF_XDP'', 37), (''BPF_SK_SKB_VERDICT'', 38), (''BPF_SK_REUSEPORT_SELECT'', 39),
      (''BPF_SK_REUSEPORT_SELECT_OR_MIGRATE'', 40), (''BPF_PERF_EVENT'', 41),
      (''BPF_TRACE_KPROBE_MULTI'', 42), (''BPF_LSM_CGROUP'', 43), (''BPF_STRUCT_OPS'', 44),
      (''BPF_NETFILTER'', 45), (''BPF_TCX_INGRESS'', 46), (''BPF_TCX_EGRESS'', 47),
      (''BPF_TRACE_UPROBE_MULTI'', 48), (''BPF_CGROUP_UNIX_CONNECT'', 49),
      (''BPF_CGROUP_UNIX_SENDMSG'', 50), (''BPF_CGROUP_UNIX_RECVMSG'', 51),
      (''BPF_CGROUP_UNIX_GETPEERNAME'', 52), (''BPF_CGROUP_UNIX_GETSOCKNAME'', 53),
      (''BPF_NETKIT_PRIMARY'', 54), (''BPF_NETKIT_PEER'', 55), (''__MAX_BPF_ATTACH_TYPE'', 56)]"

lemma enum_bpf_attach_type_layout [layout_simps]:
  "integral enum_bpf_attach_type" "wf_type enum_bpf_attach_type" "shape enum_bpf_attach_type = (4, 4)"
  by (simp_all del: One_nat_def add: enum_bpf_attach_type_def layout_eval layout_simps)

definition struct_sock_filter :: ctype where
  "struct_sock_filter =
     Composite Struct False
     [Member ''code'' typedef___u16,
      Member ''jt'' typedef___u8,
      Member ''jf'' typedef___u8,
      Member ''k'' typedef___u32]"

lemma struct_sock_filter_layout [layout_simps]:
  "wf_type struct_sock_filter" "shape struct_sock_filter = (8, 4)"
  by (simp_all del: One_nat_def add: struct_sock_filter_def layout_eval layout_simps)

definition struct_bpf_prog :: ctype where
  "struct_bpf_prog =
     Composite Struct False
     [Member ''pages'' typedef_u16,
      Bitfield ''jited'' typedef_u16 1,
      Bitfield ''jit_requested'' typedef_u16 1,
      Bitfield ''gpl_compatible'' typedef_u16 1,
      Bitfield ''cb_access'' typedef_u16 1,
      Bitfield ''dst_needed'' typedef_u16 1,
      Bitfield ''blinding_requested'' typedef_u16 1,
      Bitfield ''blinded'' typedef_u16 1,
      Bitfield ''is_func'' typedef_u16 1,
      Bitfield ''kprobe_override'' typedef_u16 1,
      Bitfield ''has_callchain_buf'' typedef_u16 1,
      Bitfield ''enforce_expected_attach_type'' typedef_u16 1,
      Bitfield ''call_get_stack'' typedef_u16 1,
      Bitfield ''call_get_func_ip'' typedef_u16 1,
      Bitfield ''tstamp_type_access'' typedef_u16 1,
      Member ''type'' enum_bpf_prog_type,
      Member ''expected_attach_type'' enum_bpf_attach_type,
      Member ''len'' typedef_u32,
      Member ''jited_len'' typedef_u32,
      Member ''tag'' (Array typedef_u8 8),
      Member ''stats'' (Pointer (Named Struct_name ''bpf_prog_stats'')),
      Member ''active'' (Pointer (Scalar Int32)),
      Member ''bpf_func'' (Pointer (Function (Scalar UInt32) [Pointer Void, Pointer (Named Struct_name ''bpf_insn'')])),
      Member ''aux'' (Pointer (Named Struct_name ''bpf_prog_aux'')),
      Member ''orig_prog'' (Pointer (Named Struct_name ''sock_fprog_kern'')),
      Anonymous (Composite Union False
       [Anonymous (Composite Struct False
         [Member ''__empty_insns'' (Composite Struct False
           []),
          Member ''insns'' (Array struct_sock_filter 0)]),
        Anonymous (Composite Struct False
         [Member ''__empty_insnsi'' (Composite Struct False
           []),
          Member ''insnsi'' (Array struct_bpf_insn 0)])])]"

lemma struct_bpf_prog_layout [layout_simps]:
  "wf_type struct_bpf_prog" "shape struct_bpf_prog = (72, 8)"
  by (simp_all del: One_nat_def add: struct_bpf_prog_def layout_eval layout_simps)

definition struct_bpf_map :: ctype where
  "struct_bpf_map =
     Composite Struct False
     [Member ''ops'' (Pointer (Named Struct_name ''bpf_map_ops'')),
      Member ''inner_map_meta'' (Pointer (Named Struct_name ''bpf_map'')),
      Member ''security'' (Pointer Void),
      Member ''map_type'' enum_bpf_map_type,
      Member ''key_size'' typedef_u32,
      Member ''value_size'' typedef_u32,
      Member ''max_entries'' typedef_u32,
      Member ''map_extra'' typedef_u64,
      Member ''map_flags'' typedef_u32,
      Member ''id'' typedef_u32,
      Member ''record'' (Pointer (Named Struct_name ''btf_record'')),
      Member ''numa_node'' (Scalar Int32),
      Member ''btf_key_type_id'' typedef_u32,
      Member ''btf_value_type_id'' typedef_u32,
      Member ''btf_vmlinux_value_type_id'' typedef_u32,
      Member ''btf'' (Pointer (Named Struct_name ''btf'')),
      Member ''objcg'' (Pointer (Named Struct_name ''obj_cgroup'')),
      Member ''name'' (Array (Scalar Char8) 16),
      Padding (Scalar Long64) 64,
      Padding (Scalar Long64) 64,
      Member ''refcnt'' typedef_atomic64_t,
      Member ''usercnt'' typedef_atomic64_t,
      Anonymous (Composite Union False
       [Member ''work'' struct_work_struct,
        Member ''rcu'' struct_callback_head]),
      Member ''freeze_mutex'' struct_mutex,
      Member ''writecnt'' typedef_atomic64_t,
      Member ''owner'' (Composite Struct False
       [Member ''attach_func_proto'' (Pointer (Named Struct_name ''btf_type'')),
        Member ''lock'' typedef_spinlock_t,
        Member ''type'' enum_bpf_prog_type,
        Member ''jited'' typedef_bool,
        Member ''xdp_has_frags'' typedef_bool]),
      Member ''bypass_spec_v1'' typedef_bool,
      Member ''frozen'' typedef_bool,
      Member ''free_after_mult_rcu_gp'' typedef_bool,
      Member ''free_after_rcu_gp'' typedef_bool,
      Member ''sleepable_refcnt'' typedef_atomic64_t,
      Member ''elem_count'' (Pointer (Named Typedef_name ''s64'')),
      Padding (Scalar Long64) 64,
      Padding (Scalar Long64) 64,
      Padding (Scalar Long64) 64,
      Padding (Scalar Long64) 64,
      Padding (Scalar Long64) 64,
      Padding (Scalar Long64) 64,
      Padding (Scalar Long64) 64]"

lemma struct_bpf_map_layout [layout_simps]:
  "wf_type struct_bpf_map" "shape struct_bpf_map = (320, 8)"
  by (simp_all del: One_nat_def add: struct_bpf_map_def layout_eval layout_simps)

definition struct_bpf_ksym :: ctype where
  "struct_bpf_ksym =
     Composite Struct False
     [Member ''start'' (Scalar ULong64),
      Member ''end'' (Scalar ULong64),
      Member ''name'' (Array (Scalar Char8) 512),
      Member ''lnode'' struct_list_head,
      Member ''tnode'' struct_latch_tree_node,
      Member ''prog'' typedef_bool]"

lemma struct_bpf_ksym_layout [layout_simps]:
  "wf_type struct_bpf_ksym" "shape struct_bpf_ksym = (600, 8)"
  by (simp_all del: One_nat_def add: struct_bpf_ksym_def layout_eval layout_simps)

definition struct_bpf_prog_aux :: ctype where
  "struct_bpf_prog_aux =
     Composite Struct False
     [Member ''refcnt'' typedef_atomic64_t,
      Member ''used_map_cnt'' typedef_u32,
      Member ''used_btf_cnt'' typedef_u32,
      Member ''max_ctx_offset'' typedef_u32,
      Member ''max_pkt_offset'' typedef_u32,
      Member ''max_tp_access'' typedef_u32,
      Member ''stack_depth'' typedef_u32,
      Member ''id'' typedef_u32,
      Member ''func_cnt'' typedef_u32,
      Member ''real_func_cnt'' typedef_u32,
      Member ''func_idx'' typedef_u32,
      Member ''attach_btf_id'' typedef_u32,
      Member ''ctx_arg_info_size'' typedef_u32,
      Member ''max_rdonly_access'' typedef_u32,
      Member ''max_rdwr_access'' typedef_u32,
      Member ''attach_btf'' (Pointer (Named Struct_name ''btf'')),
      Member ''ctx_arg_info'' (Pointer (Named Struct_name ''bpf_ctx_arg_aux'')),
      Member ''dst_mutex'' struct_mutex,
      Member ''dst_prog'' (Pointer (Named Struct_name ''bpf_prog'')),
      Member ''dst_trampoline'' (Pointer (Named Struct_name ''bpf_trampoline'')),
      Member ''saved_dst_prog_type'' enum_bpf_prog_type,
      Member ''saved_dst_attach_type'' enum_bpf_attach_type,
      Member ''verifier_zext'' typedef_bool,
      Member ''dev_bound'' typedef_bool,
      Member ''offload_requested'' typedef_bool,
      Member ''attach_btf_trace'' typedef_bool,
      Member ''attach_tracing_prog'' typedef_bool,
      Member ''func_proto_unreliable'' typedef_bool,
      Member ''sleepable'' typedef_bool,
      Member ''tail_call_reachable'' typedef_bool,
      Member ''xdp_has_frags'' typedef_bool,
      Member ''exception_cb'' typedef_bool,
      Member ''exception_boundary'' typedef_bool,
      Member ''is_extended'' typedef_bool,
      Member ''prog_array_member_cnt'' typedef_u64,
      Member ''ext_mutex'' struct_mutex,
      Member ''attach_func_proto'' (Pointer (Named Struct_name ''btf_type'')),
      Member ''attach_func_name'' (Pointer (Scalar Char8)),
      Member ''func'' (Pointer (Pointer (Named Struct_name ''bpf_prog''))),
      Member ''jit_data'' (Pointer Void),
      Member ''poke_tab'' (Pointer (Named Struct_name ''bpf_jit_poke_descriptor'')),
      Member ''kfunc_tab'' (Pointer (Named Struct_name ''bpf_kfunc_desc_tab'')),
      Member ''kfunc_btf_tab'' (Pointer (Named Struct_name ''bpf_kfunc_btf_tab'')),
      Member ''size_poke_tab'' typedef_u32,
      Member ''ksym'' struct_bpf_ksym,
      Member ''ops'' (Pointer (Named Struct_name ''bpf_prog_ops'')),
      Member ''used_maps'' (Pointer (Pointer (Named Struct_name ''bpf_map''))),
      Member ''used_maps_mutex'' struct_mutex,
      Member ''used_btfs'' (Pointer (Named Struct_name ''btf_mod_pair'')),
      Member ''prog'' (Pointer (Named Struct_name ''bpf_prog'')),
      Member ''user'' (Pointer (Named Struct_name ''user_struct'')),
      Member ''load_time'' typedef_u64,
      Member ''verified_insns'' typedef_u32,
      Member ''cgroup_atype'' (Scalar Int32),
      Member ''cgroup_storage'' (Array (Pointer (Named Struct_name ''bpf_map'')) 2),
      Member ''name'' (Array (Scalar Char8) 16),
      Member ''bpf_exception_cb'' (Pointer (Function (Named Typedef_name ''u64'') [Named Typedef_name ''u64'', Named Typedef_name ''u64'', Named Typedef_name ''u64'', Named Typedef_name ''u64'', Named Typedef_name ''u64''])),
      Member ''security'' (Pointer Void),
      Member ''offload'' (Pointer (Named Struct_name ''bpf_prog_offload'')),
      Member ''btf'' (Pointer (Named Struct_name ''btf'')),
      Member ''func_info'' (Pointer (Named Struct_name ''bpf_func_info'')),
      Member ''func_info_aux'' (Pointer (Named Struct_name ''bpf_func_info_aux'')),
      Member ''linfo'' (Pointer (Named Struct_name ''bpf_line_info'')),
      Member ''jited_linfo'' (Pointer (Pointer Void)),
      Member ''func_info_cnt'' typedef_u32,
      Member ''nr_linfo'' typedef_u32,
      Member ''linfo_idx'' typedef_u32,
      Member ''mod'' (Pointer (Named Struct_name ''module'')),
      Member ''num_exentries'' typedef_u32,
      Member ''extable'' (Pointer (Named Struct_name ''exception_table_entry'')),
      Anonymous (Composite Union False
       [Member ''work'' struct_work_struct,
        Member ''rcu'' struct_callback_head])]"

lemma struct_bpf_prog_aux_layout [layout_simps]:
  "wf_type struct_bpf_prog_aux" "shape struct_bpf_prog_aux = (1112, 8)"
  by (simp_all del: One_nat_def add: struct_bpf_prog_aux_def layout_eval layout_simps)

definition struct_bpf_mem_alloc :: ctype where
  "struct_bpf_mem_alloc =
     Composite Struct False
     [Member ''caches'' (Pointer (Named Struct_name ''bpf_mem_caches'')),
      Member ''cache'' (Pointer (Named Struct_name ''bpf_mem_cache'')),
      Member ''objcg'' (Pointer (Named Struct_name ''obj_cgroup'')),
      Member ''percpu'' typedef_bool,
      Member ''work'' struct_work_struct]"

lemma struct_bpf_mem_alloc_layout [layout_simps]:
  "wf_type struct_bpf_mem_alloc" "shape struct_bpf_mem_alloc = (64, 8)"
  by (simp_all del: One_nat_def add: struct_bpf_mem_alloc_def layout_eval layout_simps)

definition struct_bpf_array :: ctype where
  "struct_bpf_array =
     Composite Struct False
     [Member ''map'' struct_bpf_map,
      Member ''elem_size'' typedef_u32,
      Member ''index_mask'' typedef_u32,
      Member ''aux'' (Pointer (Named Struct_name ''bpf_array_aux'')),
      Anonymous (Composite Union False
       [Anonymous (Composite Struct False
         [Member ''__empty_value'' (Composite Struct False
           []),
          Member ''value'' (Array (Scalar Char8) 0)]),
        Anonymous (Composite Struct False
         [Member ''__empty_ptrs'' (Composite Struct False
           []),
          Member ''ptrs'' (Array (Pointer Void) 0)]),
        Anonymous (Composite Struct False
         [Member ''__empty_pptrs'' (Composite Struct False
           []),
          Member ''pptrs'' (Array (Pointer Void) 0)])]),
      Padding (Scalar Long64) 64,
      Padding (Scalar Long64) 64,
      Padding (Scalar Long64) 64,
      Padding (Scalar Long64) 64,
      Padding (Scalar Long64) 64,
      Padding (Scalar Long64) 64]"

lemma struct_bpf_array_layout [layout_simps]:
  "wf_type struct_bpf_array" "shape struct_bpf_array = (384, 8)"
  by (simp_all del: One_nat_def add: struct_bpf_array_def layout_eval layout_simps)

definition enum_map_update_flags :: ctype where
  "enum_map_update_flags =
     Enum
     [(''BPF_ANY'', 0), (''BPF_NOEXIST'', 1), (''BPF_EXIST'', 2), (''BPF_F_LOCK'', 4)]"

lemma enum_map_update_flags_layout [layout_simps]:
  "integral enum_map_update_flags" "wf_type enum_map_update_flags" "shape enum_map_update_flags = (4, 4)"
  by (simp_all del: One_nat_def add: enum_map_update_flags_def layout_eval layout_simps)

definition struct_pcpu_freelist_head :: ctype where
  "struct_pcpu_freelist_head =
     Composite Struct False
     [Member ''first'' (Pointer (Named Struct_name ''pcpu_freelist_node'')),
      Member ''lock'' typedef_raw_spinlock_t]"

lemma struct_pcpu_freelist_head_layout [layout_simps]:
  "wf_type struct_pcpu_freelist_head" "shape struct_pcpu_freelist_head = (16, 8)"
  by (simp_all del: One_nat_def add: struct_pcpu_freelist_head_def layout_eval layout_simps)

definition struct_pcpu_freelist :: ctype where
  "struct_pcpu_freelist =
     Composite Struct False
     [Member ''freelist'' (Pointer (Named Struct_name ''pcpu_freelist_head'')),
      Member ''extralist'' struct_pcpu_freelist_head]"

lemma struct_pcpu_freelist_layout [layout_simps]:
  "wf_type struct_pcpu_freelist" "shape struct_pcpu_freelist = (24, 8)"
  by (simp_all del: One_nat_def add: struct_pcpu_freelist_def layout_eval layout_simps)

definition struct_bpf_lru_list :: ctype where
  "struct_bpf_lru_list =
     Composite Struct False
     [Member ''lists'' (Array struct_list_head 3),
      Member ''counts'' (Array (Scalar UInt32) 2),
      Member ''next_inactive_rotation'' (Pointer (Named Struct_name ''list_head'')),
      Member ''lock'' typedef_raw_spinlock_t,
      Padding (Scalar Long64) 64,
      Padding (Scalar Long64) 64,
      Padding (Scalar Long64) 64,
      Padding (Scalar Long64) 64,
      Padding (Scalar Long64) 64,
      Padding (Scalar Long64) 64,
      Padding (Scalar Long64) 64]"

lemma struct_bpf_lru_list_layout [layout_simps]:
  "wf_type struct_bpf_lru_list" "shape struct_bpf_lru_list = (128, 8)"
  by (simp_all del: One_nat_def add: struct_bpf_lru_list_def layout_eval layout_simps)

definition struct_bpf_common_lru :: ctype where
  "struct_bpf_common_lru =
     Composite Struct False
     [Member ''lru_list'' struct_bpf_lru_list,
      Member ''local_list'' (Pointer (Named Struct_name ''bpf_lru_locallist'')),
      Padding (Scalar Long64) 64,
      Padding (Scalar Long64) 64,
      Padding (Scalar Long64) 64,
      Padding (Scalar Long64) 64,
      Padding (Scalar Long64) 64,
      Padding (Scalar Long64) 64,
      Padding (Scalar Long64) 64]"

lemma struct_bpf_common_lru_layout [layout_simps]:
  "wf_type struct_bpf_common_lru" "shape struct_bpf_common_lru = (192, 8)"
  by (simp_all del: One_nat_def add: struct_bpf_common_lru_def layout_eval layout_simps)

definition typedef_del_from_htab_func :: ctype where
  "typedef_del_from_htab_func = Pointer (Function (Named Typedef_name ''bool'') [Pointer Void, Pointer (Named Struct_name ''bpf_lru_node'')])"

lemma typedef_del_from_htab_func_layout [layout_simps]:
  "wf_type typedef_del_from_htab_func" "shape typedef_del_from_htab_func = (8, 8)"
  by (simp_all del: One_nat_def add: typedef_del_from_htab_func_def layout_eval layout_simps)

definition struct_bpf_lru :: ctype where
  "struct_bpf_lru =
     Composite Struct False
     [Anonymous (Composite Union False
       [Member ''common_lru'' struct_bpf_common_lru,
        Member ''percpu_lru'' (Pointer (Named Struct_name ''bpf_lru_list''))]),
      Member ''del_from_htab'' typedef_del_from_htab_func,
      Member ''del_arg'' (Pointer Void),
      Member ''hash_offset'' (Scalar UInt32),
      Member ''nr_scans'' (Scalar UInt32),
      Member ''percpu'' typedef_bool,
      Padding (Scalar Long64) 64,
      Padding (Scalar Long64) 64,
      Padding (Scalar Long64) 64,
      Padding (Scalar Long64) 64]"

lemma struct_bpf_lru_layout [layout_simps]:
  "wf_type struct_bpf_lru" "shape struct_bpf_lru = (256, 8)"
  by (simp_all del: One_nat_def add: struct_bpf_lru_def layout_eval layout_simps)

definition struct_bpf_htab :: ctype where
  "struct_bpf_htab =
     Composite Struct False
     [Member ''map'' struct_bpf_map,
      Member ''ma'' struct_bpf_mem_alloc,
      Member ''pcpu_ma'' struct_bpf_mem_alloc,
      Member ''buckets'' (Pointer (Named Struct_name ''bucket'')),
      Member ''elems'' (Pointer Void),
      Padding (Scalar Long64) 64,
      Padding (Scalar Long64) 64,
      Padding (Scalar Long64) 64,
      Padding (Scalar Long64) 64,
      Padding (Scalar Long64) 64,
      Padding (Scalar Long64) 64,
      Anonymous (Composite Union False
       [Member ''freelist'' struct_pcpu_freelist,
        Member ''lru'' struct_bpf_lru]),
      Member ''extra_elems'' (Pointer (Pointer (Named Struct_name ''htab_elem''))),
      Member ''pcount'' struct_percpu_counter,
      Member ''count'' typedef_atomic_t,
      Member ''use_percpu_counter'' typedef_bool,
      Member ''n_buckets'' typedef_u32,
      Member ''elem_size'' typedef_u32,
      Member ''hashrnd'' typedef_u32,
      Member ''lockdep_key'' struct_lock_class_key,
      Member ''map_locked'' (Array (Pointer (Scalar Int32)) 8),
      Padding (Scalar Long64) 64,
      Padding (Scalar Long64) 64,
      Padding (Scalar Long64) 64,
      Padding (Scalar Long64) 64,
      Padding (Scalar Long64) 64,
      Padding (Scalar Long64) 64,
      Padding (Scalar Long64) 64]"

lemma struct_bpf_htab_layout [layout_simps]:
  "wf_type struct_bpf_htab" "shape struct_bpf_htab = (960, 8)"
  by (simp_all del: One_nat_def add: struct_bpf_htab_def layout_eval layout_simps)

definition enum_stack_flags :: ctype where
  "enum_stack_flags =
     Enum
     [(''BPF_F_SKIP_FIELD_MASK'', 255), (''BPF_F_USER_STACK'', 256),
      (''BPF_F_FAST_STACK_CMP'', 512), (''BPF_F_REUSE_STACKID'', 1024),
      (''BPF_F_USER_BUILD_ID'', 2048)]"

lemma enum_stack_flags_layout [layout_simps]:
  "integral enum_stack_flags" "wf_type enum_stack_flags" "shape enum_stack_flags = (4, 4)"
  by (simp_all del: One_nat_def add: enum_stack_flags_def layout_eval layout_simps)

definition struct_bpf_stack_map :: ctype where
  "struct_bpf_stack_map =
     Composite Struct False
     [Member ''map'' struct_bpf_map,
      Member ''elems'' (Pointer Void),
      Member ''freelist'' struct_pcpu_freelist,
      Member ''n_buckets'' typedef_u32,
      Member ''buckets'' (Array (Pointer (Named Struct_name ''stack_map_bucket'')) 0),
      Padding (Scalar Long64) 64,
      Padding (Scalar Long64) 64,
      Padding (Scalar Long64) 64]"

lemma struct_bpf_stack_map_layout [layout_simps]:
  "wf_type struct_bpf_stack_map" "shape struct_bpf_stack_map = (384, 8)"
  by (simp_all del: One_nat_def add: struct_bpf_stack_map_def layout_eval layout_simps)

text \<open>The types of this theory by kind and name.\<close>

definition bpf_types :: "(name_kind \<times> string \<times> ctype) list" where
  "bpf_types =
     [(Struct_name, ''latch_tree_node'', struct_latch_tree_node),
      (Enum_name, ''perf_event_state'', enum_perf_event_state),
      (Typedef_name, ''local_t'', typedef_local_t),
      (Typedef_name, ''local64_t'', typedef_local64_t),
      (Struct_name, ''perf_event_attr'', struct_perf_event_attr),
      (Struct_name, ''hw_perf_event_extra'', struct_hw_perf_event_extra),
      (Struct_name, ''arch_hw_breakpoint'', struct_arch_hw_breakpoint),
      (Struct_name, ''rhash_head'', struct_rhash_head),
      (Struct_name, ''rhlist_head'', struct_rhlist_head),
      (Struct_name, ''hw_perf_event'', struct_hw_perf_event),
      (Struct_name, ''irq_work'', struct_irq_work),
      (Struct_name, ''perf_addr_filters_head'', struct_perf_addr_filters_head),
      (Typedef_name, ''perf_overflow_handler_t'', typedef_perf_overflow_handler_t),
      (Typedef_name, ''ftrace_func_t'', typedef_ftrace_func_t),
      (Struct_name, ''ftrace_ops_hash'', struct_ftrace_ops_hash),
      (Typedef_name, ''ftrace_ops_func_t'', typedef_ftrace_ops_func_t),
      (Struct_name, ''ftrace_ops'', struct_ftrace_ops),
      (Struct_name, ''perf_event'', struct_perf_event),
      (Struct_name, ''bpf_insn'', struct_bpf_insn),
      (Enum_name, ''bpf_map_type'', enum_bpf_map_type),
      (Enum_name, ''bpf_prog_type'', enum_bpf_prog_type),
      (Enum_name, ''bpf_attach_type'', enum_bpf_attach_type),
      (Struct_name, ''sock_filter'', struct_sock_filter),
      (Struct_name, ''bpf_prog'', struct_bpf_prog),
      (Struct_name, ''bpf_map'', struct_bpf_map),
      (Struct_name, ''bpf_ksym'', struct_bpf_ksym),
      (Struct_name, ''bpf_prog_aux'', struct_bpf_prog_aux),
      (Struct_name, ''bpf_mem_alloc'', struct_bpf_mem_alloc),
      (Struct_name, ''bpf_array'', struct_bpf_array),
      (Enum_name, '''', enum_map_update_flags),
      (Struct_name, ''pcpu_freelist_head'', struct_pcpu_freelist_head),
      (Struct_name, ''pcpu_freelist'', struct_pcpu_freelist),
      (Struct_name, ''bpf_lru_list'', struct_bpf_lru_list),
      (Struct_name, ''bpf_common_lru'', struct_bpf_common_lru),
      (Typedef_name, ''del_from_htab_func'', typedef_del_from_htab_func),
      (Struct_name, ''bpf_lru'', struct_bpf_lru),
      (Struct_name, ''bpf_htab'', struct_bpf_htab),
      (Enum_name, '''', enum_stack_flags),
      (Struct_name, ''bpf_stack_map'', struct_bpf_stack_map)]"

end
