(* ===== verification/VmlinuxUapi.thy ===== *)
theory VmlinuxUapi
  imports VmlinuxTrace VmlinuxTask VmlinuxMm VmlinuxBlock VmlinuxFs VmlinuxBpf
begin

text \<open>
  Kernel types: the commands, constants and arguments of the bpf system call, by which programs are
  loaded and attached, and the small types that the records of the tracepoints embed. Each
  definition is one declaration of the header, in the order of use; a lemma with each gives its
  size and alignment in bytes.
\<close>

definition typedef___s8 :: ctype where
  "typedef___s8 = Scalar Char8"

lemma typedef___s8_layout [layout_simps]:
  "integral typedef___s8" "wf_type typedef___s8" "shape typedef___s8 = (1, 1)"
  by (simp_all del: One_nat_def add: typedef___s8_def layout_eval layout_simps)

definition typedef_s8 :: ctype where
  "typedef_s8 = typedef___s8"

lemma typedef_s8_layout [layout_simps]:
  "integral typedef_s8" "wf_type typedef_s8" "shape typedef_s8 = (1, 1)"
  by (simp_all del: One_nat_def add: typedef_s8_def layout_eval layout_simps)

definition typedef_uint32_t :: ctype where
  "typedef_uint32_t = typedef_u32"

lemma typedef_uint32_t_layout [layout_simps]:
  "integral typedef_uint32_t" "wf_type typedef_uint32_t" "shape typedef_uint32_t = (4, 4)"
  by (simp_all del: One_nat_def add: typedef_uint32_t_def layout_eval layout_simps)

definition typedef_pteval_t :: ctype where
  "typedef_pteval_t = Scalar ULong64"

lemma typedef_pteval_t_layout [layout_simps]:
  "integral typedef_pteval_t" "wf_type typedef_pteval_t" "shape typedef_pteval_t = (8, 8)"
  by (simp_all del: One_nat_def add: typedef_pteval_t_def layout_eval layout_simps)

definition typedef_pmdval_t :: ctype where
  "typedef_pmdval_t = Scalar ULong64"

lemma typedef_pmdval_t_layout [layout_simps]:
  "integral typedef_pmdval_t" "wf_type typedef_pmdval_t" "shape typedef_pmdval_t = (8, 8)"
  by (simp_all del: One_nat_def add: typedef_pmdval_t_def layout_eval layout_simps)

definition typedef_pudval_t :: ctype where
  "typedef_pudval_t = Scalar ULong64"

lemma typedef_pudval_t_layout [layout_simps]:
  "integral typedef_pudval_t" "wf_type typedef_pudval_t" "shape typedef_pudval_t = (8, 8)"
  by (simp_all del: One_nat_def add: typedef_pudval_t_def layout_eval layout_simps)

definition typedef_fl_owner_t :: ctype where
  "typedef_fl_owner_t = Pointer Void"

lemma typedef_fl_owner_t_layout [layout_simps]:
  "wf_type typedef_fl_owner_t" "shape typedef_fl_owner_t = (8, 8)"
  by (simp_all del: One_nat_def add: typedef_fl_owner_t_def layout_eval layout_simps)

definition enum_migrate_mode :: ctype where
  "enum_migrate_mode =
     Enum
     [(''MIGRATE_ASYNC'', 0), (''MIGRATE_SYNC_LIGHT'', 1), (''MIGRATE_SYNC'', 2),
      (''MIGRATE_SYNC_NO_COPY'', 3)]"

lemma enum_migrate_mode_layout [layout_simps]:
  "integral enum_migrate_mode" "wf_type enum_migrate_mode" "shape enum_migrate_mode = (4, 4)"
  by (simp_all del: One_nat_def add: enum_migrate_mode_def layout_eval layout_simps)

definition typedef_dma_addr_t :: ctype where
  "typedef_dma_addr_t = typedef_u64"

lemma typedef_dma_addr_t_layout [layout_simps]:
  "integral typedef_dma_addr_t" "wf_type typedef_dma_addr_t" "shape typedef_dma_addr_t = (8, 8)"
  by (simp_all del: One_nat_def add: typedef_dma_addr_t_def layout_eval layout_simps)

definition typedef_p4dval_t :: ctype where
  "typedef_p4dval_t = Scalar ULong64"

lemma typedef_p4dval_t_layout [layout_simps]:
  "integral typedef_p4dval_t" "wf_type typedef_p4dval_t" "shape typedef_p4dval_t = (8, 8)"
  by (simp_all del: One_nat_def add: typedef_p4dval_t_def layout_eval layout_simps)

definition enum_lru_list :: ctype where
  "enum_lru_list =
     Enum
     [(''LRU_INACTIVE_ANON'', 0), (''LRU_ACTIVE_ANON'', 1), (''LRU_INACTIVE_FILE'', 2),
      (''LRU_ACTIVE_FILE'', 3), (''LRU_UNEVICTABLE'', 4), (''NR_LRU_LISTS'', 5)]"

lemma enum_lru_list_layout [layout_simps]:
  "integral enum_lru_list" "wf_type enum_lru_list" "shape enum_lru_list = (4, 4)"
  by (simp_all del: One_nat_def add: enum_lru_list_def layout_eval layout_simps)

definition enum_hrtimer_mode :: ctype where
  "enum_hrtimer_mode =
     Enum
     [(''HRTIMER_MODE_ABS'', 0), (''HRTIMER_MODE_REL'', 1), (''HRTIMER_MODE_PINNED'', 2),
      (''HRTIMER_MODE_SOFT'', 4), (''HRTIMER_MODE_HARD'', 8), (''HRTIMER_MODE_ABS_PINNED'', 2),
      (''HRTIMER_MODE_REL_PINNED'', 3), (''HRTIMER_MODE_ABS_SOFT'', 4),
      (''HRTIMER_MODE_REL_SOFT'', 5), (''HRTIMER_MODE_ABS_PINNED_SOFT'', 6),
      (''HRTIMER_MODE_REL_PINNED_SOFT'', 7), (''HRTIMER_MODE_ABS_HARD'', 8),
      (''HRTIMER_MODE_REL_HARD'', 9), (''HRTIMER_MODE_ABS_PINNED_HARD'', 10),
      (''HRTIMER_MODE_REL_PINNED_HARD'', 11)]"

lemma enum_hrtimer_mode_layout [layout_simps]:
  "integral enum_hrtimer_mode" "wf_type enum_hrtimer_mode" "shape enum_hrtimer_mode = (4, 4)"
  by (simp_all del: One_nat_def add: enum_hrtimer_mode_def layout_eval layout_simps)

definition enum_xen_lazy_mode :: ctype where
  "enum_xen_lazy_mode =
     Enum
     [(''XEN_LAZY_NONE'', 0), (''XEN_LAZY_MMU'', 1), (''XEN_LAZY_CPU'', 2)]"

lemma enum_xen_lazy_mode_layout [layout_simps]:
  "integral enum_xen_lazy_mode" "wf_type enum_xen_lazy_mode" "shape enum_xen_lazy_mode = (4, 4)"
  by (simp_all del: One_nat_def add: enum_xen_lazy_mode_def layout_eval layout_simps)

definition enum_xen_mc_flush_reason :: ctype where
  "enum_xen_mc_flush_reason =
     Enum
     [(''XEN_MC_FL_NONE'', 0), (''XEN_MC_FL_BATCH'', 1), (''XEN_MC_FL_ARGS'', 2),
      (''XEN_MC_FL_CALLBACK'', 3)]"

lemma enum_xen_mc_flush_reason_layout [layout_simps]:
  "integral enum_xen_mc_flush_reason" "wf_type enum_xen_mc_flush_reason" "shape enum_xen_mc_flush_reason = (4, 4)"
  by (simp_all del: One_nat_def add: enum_xen_mc_flush_reason_def layout_eval layout_simps)

definition enum_xen_mc_extend_args :: ctype where
  "enum_xen_mc_extend_args =
     Enum
     [(''XEN_MC_XE_OK'', 0), (''XEN_MC_XE_BAD_OP'', 1), (''XEN_MC_XE_NO_SPACE'', 2)]"

lemma enum_xen_mc_extend_args_layout [layout_simps]:
  "integral enum_xen_mc_extend_args" "wf_type enum_xen_mc_extend_args" "shape enum_xen_mc_extend_args = (4, 4)"
  by (simp_all del: One_nat_def add: enum_xen_mc_extend_args_def layout_eval layout_simps)

definition typedef_xen_mc_callback_fn_t :: ctype where
  "typedef_xen_mc_callback_fn_t = Pointer (Function Void [Pointer Void])"

lemma typedef_xen_mc_callback_fn_t_layout [layout_simps]:
  "wf_type typedef_xen_mc_callback_fn_t" "shape typedef_xen_mc_callback_fn_t = (8, 8)"
  by (simp_all del: One_nat_def add: typedef_xen_mc_callback_fn_t_def layout_eval layout_simps)

definition typedef_guid_t :: ctype where
  "typedef_guid_t =
     Composite Struct False
     [Member ''b'' (Array typedef___u8 16)]"

lemma typedef_guid_t_layout [layout_simps]:
  "wf_type typedef_guid_t" "shape typedef_guid_t = (16, 1)"
  by (simp_all del: One_nat_def add: typedef_guid_t_def layout_eval layout_simps)

definition enum_dev_pm_qos_req_type :: ctype where
  "enum_dev_pm_qos_req_type =
     Enum
     [(''DEV_PM_QOS_RESUME_LATENCY'', 1), (''DEV_PM_QOS_LATENCY_TOLERANCE'', 2),
      (''DEV_PM_QOS_MIN_FREQUENCY'', 3), (''DEV_PM_QOS_MAX_FREQUENCY'', 4),
      (''DEV_PM_QOS_FLAGS'', 5)]"

lemma enum_dev_pm_qos_req_type_layout [layout_simps]:
  "integral enum_dev_pm_qos_req_type" "wf_type enum_dev_pm_qos_req_type" "shape enum_dev_pm_qos_req_type = (4, 4)"
  by (simp_all del: One_nat_def add: enum_dev_pm_qos_req_type_def layout_eval layout_simps)

definition enum_error_detector :: ctype where
  "enum_error_detector =
     Enum
     [(''ERROR_DETECTOR_KFENCE'', 0), (''ERROR_DETECTOR_KASAN'', 1),
      (''ERROR_DETECTOR_WARN'', 2)]"

lemma enum_error_detector_layout [layout_simps]:
  "integral enum_error_detector" "wf_type enum_error_detector" "shape enum_error_detector = (4, 4)"
  by (simp_all del: One_nat_def add: enum_error_detector_def layout_eval layout_simps)

definition enum_numa_vmaskip_reason :: ctype where
  "enum_numa_vmaskip_reason =
     Enum
     [(''NUMAB_SKIP_UNSUITABLE'', 0), (''NUMAB_SKIP_SHARED_RO'', 1),
      (''NUMAB_SKIP_INACCESSIBLE'', 2), (''NUMAB_SKIP_SCAN_DELAY'', 3),
      (''NUMAB_SKIP_PID_INACTIVE'', 4), (''NUMAB_SKIP_IGNORE_PID'', 5),
      (''NUMAB_SKIP_SEQ_COMPLETED'', 6)]"

lemma enum_numa_vmaskip_reason_layout [layout_simps]:
  "integral enum_numa_vmaskip_reason" "wf_type enum_numa_vmaskip_reason" "shape enum_numa_vmaskip_reason = (4, 4)"
  by (simp_all del: One_nat_def add: enum_numa_vmaskip_reason_def layout_eval layout_simps)

definition typedef_ino_t :: ctype where
  "typedef_ino_t = typedef___kernel_ulong_t"

lemma typedef_ino_t_layout [layout_simps]:
  "integral typedef_ino_t" "wf_type typedef_ino_t" "shape typedef_ino_t = (8, 8)"
  by (simp_all del: One_nat_def add: typedef_ino_t_def layout_eval layout_simps)

definition union_bpf_attr :: ctype where
  "union_bpf_attr =
     Composite Union False
     [Anonymous (Composite Struct False
       [Member ''map_type'' typedef___u32,
        Member ''key_size'' typedef___u32,
        Member ''value_size'' typedef___u32,
        Member ''max_entries'' typedef___u32,
        Member ''map_flags'' typedef___u32,
        Member ''inner_map_fd'' typedef___u32,
        Member ''numa_node'' typedef___u32,
        Member ''map_name'' (Array (Scalar Char8) 16),
        Member ''map_ifindex'' typedef___u32,
        Member ''btf_fd'' typedef___u32,
        Member ''btf_key_type_id'' typedef___u32,
        Member ''btf_value_type_id'' typedef___u32,
        Member ''btf_vmlinux_value_type_id'' typedef___u32,
        Member ''map_extra'' typedef___u64]),
      Anonymous (Composite Struct False
       [Member ''map_fd'' typedef___u32,
        Member ''key'' typedef___u64,
        Anonymous (Composite Union False
         [Member ''value'' typedef___u64,
          Member ''next_key'' typedef___u64]),
        Member ''flags'' typedef___u64]),
      Member ''batch'' (Composite Struct False
       [Member ''in_batch'' typedef___u64,
        Member ''out_batch'' typedef___u64,
        Member ''keys'' typedef___u64,
        Member ''values'' typedef___u64,
        Member ''count'' typedef___u32,
        Member ''map_fd'' typedef___u32,
        Member ''elem_flags'' typedef___u64,
        Member ''flags'' typedef___u64]),
      Anonymous (Composite Struct False
       [Member ''prog_type'' typedef___u32,
        Member ''insn_cnt'' typedef___u32,
        Member ''insns'' typedef___u64,
        Member ''license'' typedef___u64,
        Member ''log_level'' typedef___u32,
        Member ''log_size'' typedef___u32,
        Member ''log_buf'' typedef___u64,
        Member ''kern_version'' typedef___u32,
        Member ''prog_flags'' typedef___u32,
        Member ''prog_name'' (Array (Scalar Char8) 16),
        Member ''prog_ifindex'' typedef___u32,
        Member ''expected_attach_type'' typedef___u32,
        Member ''prog_btf_fd'' typedef___u32,
        Member ''func_info_rec_size'' typedef___u32,
        Member ''func_info'' typedef___u64,
        Member ''func_info_cnt'' typedef___u32,
        Member ''line_info_rec_size'' typedef___u32,
        Member ''line_info'' typedef___u64,
        Member ''line_info_cnt'' typedef___u32,
        Member ''attach_btf_id'' typedef___u32,
        Anonymous (Composite Union False
         [Member ''attach_prog_fd'' typedef___u32,
          Member ''attach_btf_obj_fd'' typedef___u32]),
        Member ''core_relo_cnt'' typedef___u32,
        Member ''fd_array'' typedef___u64,
        Member ''core_relos'' typedef___u64,
        Member ''core_relo_rec_size'' typedef___u32,
        Member ''log_true_size'' typedef___u32]),
      Anonymous (Composite Struct False
       [Member ''pathname'' typedef___u64,
        Member ''bpf_fd'' typedef___u32,
        Member ''file_flags'' typedef___u32,
        Member ''path_fd'' typedef___s32]),
      Anonymous (Composite Struct False
       [Anonymous (Composite Union False
         [Member ''target_fd'' typedef___u32,
          Member ''target_ifindex'' typedef___u32]),
        Member ''attach_bpf_fd'' typedef___u32,
        Member ''attach_type'' typedef___u32,
        Member ''attach_flags'' typedef___u32,
        Member ''replace_bpf_fd'' typedef___u32,
        Anonymous (Composite Union False
         [Member ''relative_fd'' typedef___u32,
          Member ''relative_id'' typedef___u32]),
        Member ''expected_revision'' typedef___u64]),
      Member ''test'' (Composite Struct False
       [Member ''prog_fd'' typedef___u32,
        Member ''retval'' typedef___u32,
        Member ''data_size_in'' typedef___u32,
        Member ''data_size_out'' typedef___u32,
        Member ''data_in'' typedef___u64,
        Member ''data_out'' typedef___u64,
        Member ''repeat'' typedef___u32,
        Member ''duration'' typedef___u32,
        Member ''ctx_size_in'' typedef___u32,
        Member ''ctx_size_out'' typedef___u32,
        Member ''ctx_in'' typedef___u64,
        Member ''ctx_out'' typedef___u64,
        Member ''flags'' typedef___u32,
        Member ''cpu'' typedef___u32,
        Member ''batch_size'' typedef___u32]),
      Anonymous (Composite Struct False
       [Anonymous (Composite Union False
         [Member ''start_id'' typedef___u32,
          Member ''prog_id'' typedef___u32,
          Member ''map_id'' typedef___u32,
          Member ''btf_id'' typedef___u32,
          Member ''link_id'' typedef___u32]),
        Member ''next_id'' typedef___u32,
        Member ''open_flags'' typedef___u32]),
      Member ''info'' (Composite Struct False
       [Member ''bpf_fd'' typedef___u32,
        Member ''info_len'' typedef___u32,
        Member ''info'' typedef___u64]),
      Member ''query'' (Composite Struct False
       [Anonymous (Composite Union False
         [Member ''target_fd'' typedef___u32,
          Member ''target_ifindex'' typedef___u32]),
        Member ''attach_type'' typedef___u32,
        Member ''query_flags'' typedef___u32,
        Member ''attach_flags'' typedef___u32,
        Member ''prog_ids'' typedef___u64,
        Anonymous (Composite Union False
         [Member ''prog_cnt'' typedef___u32,
          Member ''count'' typedef___u32]),
        Member ''prog_attach_flags'' typedef___u64,
        Member ''link_ids'' typedef___u64,
        Member ''link_attach_flags'' typedef___u64,
        Member ''revision'' typedef___u64]),
      Member ''raw_tracepoint'' (Composite Struct False
       [Member ''name'' typedef___u64,
        Member ''prog_fd'' typedef___u32]),
      Anonymous (Composite Struct False
       [Member ''btf'' typedef___u64,
        Member ''btf_log_buf'' typedef___u64,
        Member ''btf_size'' typedef___u32,
        Member ''btf_log_size'' typedef___u32,
        Member ''btf_log_level'' typedef___u32,
        Member ''btf_log_true_size'' typedef___u32]),
      Member ''task_fd_query'' (Composite Struct False
       [Member ''pid'' typedef___u32,
        Member ''fd'' typedef___u32,
        Member ''flags'' typedef___u32,
        Member ''buf_len'' typedef___u32,
        Member ''buf'' typedef___u64,
        Member ''prog_id'' typedef___u32,
        Member ''fd_type'' typedef___u32,
        Member ''probe_offset'' typedef___u64,
        Member ''probe_addr'' typedef___u64]),
      Member ''link_create'' (Composite Struct False
       [Anonymous (Composite Union False
         [Member ''prog_fd'' typedef___u32,
          Member ''map_fd'' typedef___u32]),
        Anonymous (Composite Union False
         [Member ''target_fd'' typedef___u32,
          Member ''target_ifindex'' typedef___u32]),
        Member ''attach_type'' typedef___u32,
        Member ''flags'' typedef___u32,
        Anonymous (Composite Union False
         [Member ''target_btf_id'' typedef___u32,
          Anonymous (Composite Struct False
           [Member ''iter_info'' typedef___u64,
            Member ''iter_info_len'' typedef___u32]),
          Member ''perf_event'' (Composite Struct False
           [Member ''bpf_cookie'' typedef___u64]),
          Member ''kprobe_multi'' (Composite Struct False
           [Member ''flags'' typedef___u32,
            Member ''cnt'' typedef___u32,
            Member ''syms'' typedef___u64,
            Member ''addrs'' typedef___u64,
            Member ''cookies'' typedef___u64]),
          Member ''tracing'' (Composite Struct False
           [Member ''target_btf_id'' typedef___u32,
            Member ''cookie'' typedef___u64]),
          Member ''netfilter'' (Composite Struct False
           [Member ''pf'' typedef___u32,
            Member ''hooknum'' typedef___u32,
            Member ''priority'' typedef___s32,
            Member ''flags'' typedef___u32]),
          Member ''tcx'' (Composite Struct False
           [Anonymous (Composite Union False
             [Member ''relative_fd'' typedef___u32,
              Member ''relative_id'' typedef___u32]),
            Member ''expected_revision'' typedef___u64]),
          Member ''uprobe_multi'' (Composite Struct False
           [Member ''path'' typedef___u64,
            Member ''offsets'' typedef___u64,
            Member ''ref_ctr_offsets'' typedef___u64,
            Member ''cookies'' typedef___u64,
            Member ''cnt'' typedef___u32,
            Member ''flags'' typedef___u32,
            Member ''pid'' typedef___u32]),
          Member ''netkit'' (Composite Struct False
           [Anonymous (Composite Union False
             [Member ''relative_fd'' typedef___u32,
              Member ''relative_id'' typedef___u32]),
            Member ''expected_revision'' typedef___u64])])]),
      Member ''link_update'' (Composite Struct False
       [Member ''link_fd'' typedef___u32,
        Anonymous (Composite Union False
         [Member ''new_prog_fd'' typedef___u32,
          Member ''new_map_fd'' typedef___u32]),
        Member ''flags'' typedef___u32,
        Anonymous (Composite Union False
         [Member ''old_prog_fd'' typedef___u32,
          Member ''old_map_fd'' typedef___u32])]),
      Member ''link_detach'' (Composite Struct False
       [Member ''link_fd'' typedef___u32]),
      Member ''enable_stats'' (Composite Struct False
       [Member ''type'' typedef___u32]),
      Member ''iter_create'' (Composite Struct False
       [Member ''link_fd'' typedef___u32,
        Member ''flags'' typedef___u32]),
      Member ''prog_bind_map'' (Composite Struct False
       [Member ''prog_fd'' typedef___u32,
        Member ''map_fd'' typedef___u32,
        Member ''flags'' typedef___u32])]"

lemma union_bpf_attr_layout [layout_simps]:
  "wf_type union_bpf_attr" "shape union_bpf_attr = (144, 8)"
  by (simp_all del: One_nat_def add: union_bpf_attr_def layout_eval layout_simps)

definition enum_skb_drop_reason :: ctype where
  "enum_skb_drop_reason =
     Enum
     [(''SKB_NOT_DROPPED_YET'', 0), (''SKB_CONSUMED'', 1),
      (''SKB_DROP_REASON_NOT_SPECIFIED'', 2), (''SKB_DROP_REASON_NO_SOCKET'', 3),
      (''SKB_DROP_REASON_PKT_TOO_SMALL'', 4), (''SKB_DROP_REASON_TCP_CSUM'', 5),
      (''SKB_DROP_REASON_SOCKET_FILTER'', 6), (''SKB_DROP_REASON_UDP_CSUM'', 7),
      (''SKB_DROP_REASON_NETFILTER_DROP'', 8), (''SKB_DROP_REASON_OTHERHOST'', 9),
      (''SKB_DROP_REASON_IP_CSUM'', 10), (''SKB_DROP_REASON_IP_INHDR'', 11),
      (''SKB_DROP_REASON_IP_RPFILTER'', 12), (''SKB_DROP_REASON_UNICAST_IN_L2_MULTICAST'', 13),
      (''SKB_DROP_REASON_XFRM_POLICY'', 14), (''SKB_DROP_REASON_IP_NOPROTO'', 15),
      (''SKB_DROP_REASON_SOCKET_RCVBUFF'', 16), (''SKB_DROP_REASON_PROTO_MEM'', 17),
      (''SKB_DROP_REASON_TCP_AUTH_HDR'', 18), (''SKB_DROP_REASON_TCP_MD5NOTFOUND'', 19),
      (''SKB_DROP_REASON_TCP_MD5UNEXPECTED'', 20), (''SKB_DROP_REASON_TCP_MD5FAILURE'', 21),
      (''SKB_DROP_REASON_TCP_AONOTFOUND'', 22), (''SKB_DROP_REASON_TCP_AOUNEXPECTED'', 23),
      (''SKB_DROP_REASON_TCP_AOKEYNOTFOUND'', 24), (''SKB_DROP_REASON_TCP_AOFAILURE'', 25),
      (''SKB_DROP_REASON_SOCKET_BACKLOG'', 26), (''SKB_DROP_REASON_TCP_FLAGS'', 27),
      (''SKB_DROP_REASON_TCP_ZEROWINDOW'', 28), (''SKB_DROP_REASON_TCP_OLD_DATA'', 29),
      (''SKB_DROP_REASON_TCP_OVERWINDOW'', 30), (''SKB_DROP_REASON_TCP_OFOMERGE'', 31),
      (''SKB_DROP_REASON_TCP_RFC7323_PAWS'', 32), (''SKB_DROP_REASON_TCP_OLD_SEQUENCE'', 33),
      (''SKB_DROP_REASON_TCP_INVALID_SEQUENCE'', 34), (''SKB_DROP_REASON_TCP_RESET'', 35),
      (''SKB_DROP_REASON_TCP_INVALID_SYN'', 36), (''SKB_DROP_REASON_TCP_CLOSE'', 37),
      (''SKB_DROP_REASON_TCP_FASTOPEN'', 38), (''SKB_DROP_REASON_TCP_OLD_ACK'', 39),
      (''SKB_DROP_REASON_TCP_TOO_OLD_ACK'', 40), (''SKB_DROP_REASON_TCP_ACK_UNSENT_DATA'', 41),
      (''SKB_DROP_REASON_TCP_OFO_QUEUE_PRUNE'', 42), (''SKB_DROP_REASON_TCP_OFO_DROP'', 43),
      (''SKB_DROP_REASON_IP_OUTNOROUTES'', 44), (''SKB_DROP_REASON_BPF_CGROUP_EGRESS'', 45),
      (''SKB_DROP_REASON_IPV6DISABLED'', 46), (''SKB_DROP_REASON_NEIGH_CREATEFAIL'', 47),
      (''SKB_DROP_REASON_NEIGH_FAILED'', 48), (''SKB_DROP_REASON_NEIGH_QUEUEFULL'', 49),
      (''SKB_DROP_REASON_NEIGH_DEAD'', 50), (''SKB_DROP_REASON_TC_EGRESS'', 51),
      (''SKB_DROP_REASON_QDISC_DROP'', 52), (''SKB_DROP_REASON_CPU_BACKLOG'', 53),
      (''SKB_DROP_REASON_XDP'', 54), (''SKB_DROP_REASON_TC_INGRESS'', 55),
      (''SKB_DROP_REASON_UNHANDLED_PROTO'', 56), (''SKB_DROP_REASON_SKB_CSUM'', 57),
      (''SKB_DROP_REASON_SKB_GSO_SEG'', 58), (''SKB_DROP_REASON_SKB_UCOPY_FAULT'', 59),
      (''SKB_DROP_REASON_DEV_HDR'', 60), (''SKB_DROP_REASON_DEV_READY'', 61),
      (''SKB_DROP_REASON_FULL_RING'', 62), (''SKB_DROP_REASON_NOMEM'', 63),
      (''SKB_DROP_REASON_HDR_TRUNC'', 64), (''SKB_DROP_REASON_TAP_FILTER'', 65),
      (''SKB_DROP_REASON_TAP_TXFILTER'', 66), (''SKB_DROP_REASON_ICMP_CSUM'', 67),
      (''SKB_DROP_REASON_INVALID_PROTO'', 68), (''SKB_DROP_REASON_IP_INADDRERRORS'', 69),
      (''SKB_DROP_REASON_IP_INNOROUTES'', 70), (''SKB_DROP_REASON_PKT_TOO_BIG'', 71),
      (''SKB_DROP_REASON_DUP_FRAG'', 72), (''SKB_DROP_REASON_FRAG_REASM_TIMEOUT'', 73),
      (''SKB_DROP_REASON_FRAG_TOO_FAR'', 74), (''SKB_DROP_REASON_TCP_MINTTL'', 75),
      (''SKB_DROP_REASON_IPV6_BAD_EXTHDR'', 76), (''SKB_DROP_REASON_IPV6_NDISC_FRAG'', 77),
      (''SKB_DROP_REASON_IPV6_NDISC_HOP_LIMIT'', 78),
      (''SKB_DROP_REASON_IPV6_NDISC_BAD_CODE'', 79),
      (''SKB_DROP_REASON_IPV6_NDISC_BAD_OPTIONS'', 80),
      (''SKB_DROP_REASON_IPV6_NDISC_NS_OTHERHOST'', 81), (''SKB_DROP_REASON_QUEUE_PURGE'', 82),
      (''SKB_DROP_REASON_TC_COOKIE_ERROR'', 83), (''SKB_DROP_REASON_PACKET_SOCK_ERROR'', 84),
      (''SKB_DROP_REASON_TC_CHAIN_NOTFOUND'', 85), (''SKB_DROP_REASON_TC_RECLASSIFY_LOOP'', 86),
      (''SKB_DROP_REASON_MAX'', 87), (''SKB_DROP_REASON_SUBSYS_MASK'', 4294901760)]"

lemma enum_skb_drop_reason_layout [layout_simps]:
  "integral enum_skb_drop_reason" "wf_type enum_skb_drop_reason" "shape enum_skb_drop_reason = (4, 4)"
  by (simp_all del: One_nat_def add: enum_skb_drop_reason_def layout_eval layout_simps)

definition enum_bpf_link_type :: ctype where
  "enum_bpf_link_type =
     Enum
     [(''BPF_LINK_TYPE_UNSPEC'', 0), (''BPF_LINK_TYPE_RAW_TRACEPOINT'', 1),
      (''BPF_LINK_TYPE_TRACING'', 2), (''BPF_LINK_TYPE_CGROUP'', 3),
      (''BPF_LINK_TYPE_ITER'', 4), (''BPF_LINK_TYPE_NETNS'', 5), (''BPF_LINK_TYPE_XDP'', 6),
      (''BPF_LINK_TYPE_PERF_EVENT'', 7), (''BPF_LINK_TYPE_KPROBE_MULTI'', 8),
      (''BPF_LINK_TYPE_STRUCT_OPS'', 9), (''BPF_LINK_TYPE_NETFILTER'', 10),
      (''BPF_LINK_TYPE_TCX'', 11), (''BPF_LINK_TYPE_UPROBE_MULTI'', 12),
      (''BPF_LINK_TYPE_NETKIT'', 13), (''__MAX_BPF_LINK_TYPE'', 14)]"

lemma enum_bpf_link_type_layout [layout_simps]:
  "integral enum_bpf_link_type" "wf_type enum_bpf_link_type" "shape enum_bpf_link_type = (4, 4)"
  by (simp_all del: One_nat_def add: enum_bpf_link_type_def layout_eval layout_simps)

definition typedef_tid_t :: ctype where
  "typedef_tid_t = Scalar UInt32"

lemma typedef_tid_t_layout [layout_simps]:
  "integral typedef_tid_t" "wf_type typedef_tid_t" "shape typedef_tid_t = (4, 4)"
  by (simp_all del: One_nat_def add: typedef_tid_t_def layout_eval layout_simps)

definition typedef_ext4_fsblk_t :: ctype where
  "typedef_ext4_fsblk_t = Scalar ULongLong64"

lemma typedef_ext4_fsblk_t_layout [layout_simps]:
  "integral typedef_ext4_fsblk_t" "wf_type typedef_ext4_fsblk_t" "shape typedef_ext4_fsblk_t = (8, 8)"
  by (simp_all del: One_nat_def add: typedef_ext4_fsblk_t_def layout_eval layout_simps)

definition typedef_ext4_lblk_t :: ctype where
  "typedef_ext4_lblk_t = typedef___u32"

lemma typedef_ext4_lblk_t_layout [layout_simps]:
  "integral typedef_ext4_lblk_t" "wf_type typedef_ext4_lblk_t" "shape typedef_ext4_lblk_t = (4, 4)"
  by (simp_all del: One_nat_def add: typedef_ext4_lblk_t_def layout_eval layout_simps)

definition enum_pwm_polarity :: ctype where
  "enum_pwm_polarity =
     Enum
     [(''PWM_POLARITY_NORMAL'', 0), (''PWM_POLARITY_INVERSED'', 1)]"

lemma enum_pwm_polarity_layout [layout_simps]:
  "integral enum_pwm_polarity" "wf_type enum_pwm_polarity" "shape enum_pwm_polarity = (4, 4)"
  by (simp_all del: One_nat_def add: enum_pwm_polarity_def layout_eval layout_simps)

definition enum_thermal_trip_type :: ctype where
  "enum_thermal_trip_type =
     Enum
     [(''THERMAL_TRIP_ACTIVE'', 0), (''THERMAL_TRIP_PASSIVE'', 1), (''THERMAL_TRIP_HOT'', 2),
      (''THERMAL_TRIP_CRITICAL'', 3)]"

lemma enum_thermal_trip_type_layout [layout_simps]:
  "integral enum_thermal_trip_type" "wf_type enum_thermal_trip_type" "shape enum_thermal_trip_type = (4, 4)"
  by (simp_all del: One_nat_def add: enum_thermal_trip_type_def layout_eval layout_simps)

definition typedef_initcall_t :: ctype where
  "typedef_initcall_t = Pointer (Function (Scalar Int32) [])"

lemma typedef_initcall_t_layout [layout_simps]:
  "wf_type typedef_initcall_t" "shape typedef_initcall_t = (8, 8)"
  by (simp_all del: One_nat_def add: typedef_initcall_t_def layout_eval layout_simps)

definition enum_pm_qos_req_action :: ctype where
  "enum_pm_qos_req_action =
     Enum
     [(''PM_QOS_ADD_REQ'', 0), (''PM_QOS_UPDATE_REQ'', 1), (''PM_QOS_REMOVE_REQ'', 2)]"

lemma enum_pm_qos_req_action_layout [layout_simps]:
  "integral enum_pm_qos_req_action" "wf_type enum_pm_qos_req_action" "shape enum_pm_qos_req_action = (4, 4)"
  by (simp_all del: One_nat_def add: enum_pm_qos_req_action_def layout_eval layout_simps)

definition struct_cper_mem_err_compact :: ctype where
  "struct_cper_mem_err_compact =
     Composite Struct True
     [Member ''validation_bits'' typedef_u64,
      Member ''node'' typedef_u16,
      Member ''card'' typedef_u16,
      Member ''module'' typedef_u16,
      Member ''bank'' typedef_u16,
      Member ''device'' typedef_u16,
      Member ''row'' typedef_u16,
      Member ''column'' typedef_u16,
      Member ''bit_pos'' typedef_u16,
      Member ''requestor_id'' typedef_u64,
      Member ''responder_id'' typedef_u64,
      Member ''target_id'' typedef_u64,
      Member ''rank'' typedef_u16,
      Member ''mem_array_handle'' typedef_u16,
      Member ''mem_dev_handle'' typedef_u16,
      Member ''extended'' typedef_u8]"

lemma struct_cper_mem_err_compact_layout [layout_simps]:
  "wf_type struct_cper_mem_err_compact" "shape struct_cper_mem_err_compact = (55, 1)"
  by (simp_all del: One_nat_def add: struct_cper_mem_err_compact_def layout_eval layout_simps)

definition enum_bpf_cmd :: ctype where
  "enum_bpf_cmd =
     Enum
     [(''BPF_MAP_CREATE'', 0), (''BPF_MAP_LOOKUP_ELEM'', 1), (''BPF_MAP_UPDATE_ELEM'', 2),
      (''BPF_MAP_DELETE_ELEM'', 3), (''BPF_MAP_GET_NEXT_KEY'', 4), (''BPF_PROG_LOAD'', 5),
      (''BPF_OBJ_PIN'', 6), (''BPF_OBJ_GET'', 7), (''BPF_PROG_ATTACH'', 8),
      (''BPF_PROG_DETACH'', 9), (''BPF_PROG_TEST_RUN'', 10), (''BPF_PROG_RUN'', 10),
      (''BPF_PROG_GET_NEXT_ID'', 11), (''BPF_MAP_GET_NEXT_ID'', 12),
      (''BPF_PROG_GET_FD_BY_ID'', 13), (''BPF_MAP_GET_FD_BY_ID'', 14),
      (''BPF_OBJ_GET_INFO_BY_FD'', 15), (''BPF_PROG_QUERY'', 16),
      (''BPF_RAW_TRACEPOINT_OPEN'', 17), (''BPF_BTF_LOAD'', 18), (''BPF_BTF_GET_FD_BY_ID'', 19),
      (''BPF_TASK_FD_QUERY'', 20), (''BPF_MAP_LOOKUP_AND_DELETE_ELEM'', 21),
      (''BPF_MAP_FREEZE'', 22), (''BPF_BTF_GET_NEXT_ID'', 23), (''BPF_MAP_LOOKUP_BATCH'', 24),
      (''BPF_MAP_LOOKUP_AND_DELETE_BATCH'', 25), (''BPF_MAP_UPDATE_BATCH'', 26),
      (''BPF_MAP_DELETE_BATCH'', 27), (''BPF_LINK_CREATE'', 28), (''BPF_LINK_UPDATE'', 29),
      (''BPF_LINK_GET_FD_BY_ID'', 30), (''BPF_LINK_GET_NEXT_ID'', 31),
      (''BPF_ENABLE_STATS'', 32), (''BPF_ITER_CREATE'', 33), (''BPF_LINK_DETACH'', 34),
      (''BPF_PROG_BIND_MAP'', 35)]"

lemma enum_bpf_cmd_layout [layout_simps]:
  "integral enum_bpf_cmd" "wf_type enum_bpf_cmd" "shape enum_bpf_cmd = (4, 4)"
  by (simp_all del: One_nat_def add: enum_bpf_cmd_def layout_eval layout_simps)

text \<open>The types of this theory by kind and name.\<close>

definition uapi_types :: "(name_kind \<times> string \<times> ctype) list" where
  "uapi_types =
     [(Typedef_name, ''__s8'', typedef___s8),
      (Typedef_name, ''s8'', typedef_s8),
      (Typedef_name, ''uint32_t'', typedef_uint32_t),
      (Typedef_name, ''pteval_t'', typedef_pteval_t),
      (Typedef_name, ''pmdval_t'', typedef_pmdval_t),
      (Typedef_name, ''pudval_t'', typedef_pudval_t),
      (Typedef_name, ''fl_owner_t'', typedef_fl_owner_t),
      (Enum_name, ''migrate_mode'', enum_migrate_mode),
      (Typedef_name, ''dma_addr_t'', typedef_dma_addr_t),
      (Typedef_name, ''p4dval_t'', typedef_p4dval_t),
      (Enum_name, ''lru_list'', enum_lru_list),
      (Enum_name, ''hrtimer_mode'', enum_hrtimer_mode),
      (Enum_name, ''xen_lazy_mode'', enum_xen_lazy_mode),
      (Enum_name, ''xen_mc_flush_reason'', enum_xen_mc_flush_reason),
      (Enum_name, ''xen_mc_extend_args'', enum_xen_mc_extend_args),
      (Typedef_name, ''xen_mc_callback_fn_t'', typedef_xen_mc_callback_fn_t),
      (Typedef_name, ''guid_t'', typedef_guid_t),
      (Enum_name, ''dev_pm_qos_req_type'', enum_dev_pm_qos_req_type),
      (Enum_name, ''error_detector'', enum_error_detector),
      (Enum_name, ''numa_vmaskip_reason'', enum_numa_vmaskip_reason),
      (Typedef_name, ''ino_t'', typedef_ino_t),
      (Union_name, ''bpf_attr'', union_bpf_attr),
      (Enum_name, ''skb_drop_reason'', enum_skb_drop_reason),
      (Enum_name, ''bpf_link_type'', enum_bpf_link_type),
      (Typedef_name, ''tid_t'', typedef_tid_t),
      (Typedef_name, ''ext4_fsblk_t'', typedef_ext4_fsblk_t),
      (Typedef_name, ''ext4_lblk_t'', typedef_ext4_lblk_t),
      (Enum_name, ''pwm_polarity'', enum_pwm_polarity),
      (Enum_name, ''thermal_trip_type'', enum_thermal_trip_type),
      (Typedef_name, ''initcall_t'', typedef_initcall_t),
      (Enum_name, ''pm_qos_req_action'', enum_pm_qos_req_action),
      (Struct_name, ''cper_mem_err_compact'', struct_cper_mem_err_compact),
      (Enum_name, ''bpf_cmd'', enum_bpf_cmd)]"

text \<open>The record of a tracepoint, by the name of its event.\<close>

definition event_record :: "string \<times> ctype \<Rightarrow> name_kind \<times> string \<times> ctype" where
  "event_record = (\<lambda>(n, t). (Struct_name, ''trace_event_raw_'' @ n, t))"

end
