(* ===== verification/VmlinuxEventsA.thy ===== *)
theory VmlinuxEventsA
  imports VmlinuxUapi
begin

text \<open>
  Kernel types: the records of the tracepoints of the kernel besides those that the programs are
  attached to, \<open>trace_event_raw_ack_update_msk\<close> to
  \<open>trace_event_raw_finish_task_reaping\<close>. Each definition is one declaration of the
  header, in the order of use; a lemma with each gives its size and alignment in bytes.
\<close>

definition struct_trace_event_raw_emulate_vsyscall :: ctype where
  "struct_trace_event_raw_emulate_vsyscall =
     Composite Struct False
     [Member ''ent'' struct_trace_entry,
      Member ''nr'' (Scalar Int32),
      Member ''__data'' (Array (Scalar Char8) 0)]"

lemma struct_trace_event_raw_emulate_vsyscall_layout [layout_simps]:
  "wf_type struct_trace_event_raw_emulate_vsyscall" "shape struct_trace_event_raw_emulate_vsyscall = (12, 4)"
  by (simp_all del: One_nat_def add: struct_trace_event_raw_emulate_vsyscall_def layout_eval layout_simps)

definition struct_trace_event_raw_csd_queue_cpu :: ctype where
  "struct_trace_event_raw_csd_queue_cpu =
     Composite Struct False
     [Member ''ent'' struct_trace_entry,
      Member ''cpu'' (Scalar UInt32),
      Member ''callsite'' (Pointer Void),
      Member ''func'' (Pointer Void),
      Member ''csd'' (Pointer Void),
      Member ''__data'' (Array (Scalar Char8) 0)]"

lemma struct_trace_event_raw_csd_queue_cpu_layout [layout_simps]:
  "wf_type struct_trace_event_raw_csd_queue_cpu" "shape struct_trace_event_raw_csd_queue_cpu = (40, 8)"
  by (simp_all del: One_nat_def add: struct_trace_event_raw_csd_queue_cpu_def layout_eval layout_simps)

definition struct_trace_event_raw_csd_function :: ctype where
  "struct_trace_event_raw_csd_function =
     Composite Struct False
     [Member ''ent'' struct_trace_entry,
      Member ''func'' (Pointer Void),
      Member ''csd'' (Pointer Void),
      Member ''__data'' (Array (Scalar Char8) 0)]"

lemma struct_trace_event_raw_csd_function_layout [layout_simps]:
  "wf_type struct_trace_event_raw_csd_function" "shape struct_trace_event_raw_csd_function = (24, 8)"
  by (simp_all del: One_nat_def add: struct_trace_event_raw_csd_function_def layout_eval layout_simps)

definition struct_trace_event_raw_cgroup_root :: ctype where
  "struct_trace_event_raw_cgroup_root =
     Composite Struct False
     [Member ''ent'' struct_trace_entry,
      Member ''root'' (Scalar Int32),
      Member ''ss_mask'' typedef_u16,
      Member ''__data_loc_name'' typedef_u32,
      Member ''__data'' (Array (Scalar Char8) 0)]"

lemma struct_trace_event_raw_cgroup_root_layout [layout_simps]:
  "wf_type struct_trace_event_raw_cgroup_root" "shape struct_trace_event_raw_cgroup_root = (20, 4)"
  by (simp_all del: One_nat_def add: struct_trace_event_raw_cgroup_root_def layout_eval layout_simps)

definition struct_trace_event_raw_cgroup :: ctype where
  "struct_trace_event_raw_cgroup =
     Composite Struct False
     [Member ''ent'' struct_trace_entry,
      Member ''root'' (Scalar Int32),
      Member ''level'' (Scalar Int32),
      Member ''id'' typedef_u64,
      Member ''__data_loc_path'' typedef_u32,
      Member ''__data'' (Array (Scalar Char8) 0)]"

lemma struct_trace_event_raw_cgroup_layout [layout_simps]:
  "wf_type struct_trace_event_raw_cgroup" "shape struct_trace_event_raw_cgroup = (32, 8)"
  by (simp_all del: One_nat_def add: struct_trace_event_raw_cgroup_def layout_eval layout_simps)

definition struct_trace_event_raw_cgroup_migrate :: ctype where
  "struct_trace_event_raw_cgroup_migrate =
     Composite Struct False
     [Member ''ent'' struct_trace_entry,
      Member ''dst_root'' (Scalar Int32),
      Member ''dst_level'' (Scalar Int32),
      Member ''dst_id'' typedef_u64,
      Member ''pid'' (Scalar Int32),
      Member ''__data_loc_dst_path'' typedef_u32,
      Member ''__data_loc_comm'' typedef_u32,
      Member ''__data'' (Array (Scalar Char8) 0)]"

lemma struct_trace_event_raw_cgroup_migrate_layout [layout_simps]:
  "wf_type struct_trace_event_raw_cgroup_migrate" "shape struct_trace_event_raw_cgroup_migrate = (40, 8)"
  by (simp_all del: One_nat_def add: struct_trace_event_raw_cgroup_migrate_def layout_eval layout_simps)

definition struct_trace_event_raw_cgroup_event :: ctype where
  "struct_trace_event_raw_cgroup_event =
     Composite Struct False
     [Member ''ent'' struct_trace_entry,
      Member ''root'' (Scalar Int32),
      Member ''level'' (Scalar Int32),
      Member ''id'' typedef_u64,
      Member ''__data_loc_path'' typedef_u32,
      Member ''val'' (Scalar Int32),
      Member ''__data'' (Array (Scalar Char8) 0)]"

lemma struct_trace_event_raw_cgroup_event_layout [layout_simps]:
  "wf_type struct_trace_event_raw_cgroup_event" "shape struct_trace_event_raw_cgroup_event = (32, 8)"
  by (simp_all del: One_nat_def add: struct_trace_event_raw_cgroup_event_def layout_eval layout_simps)

definition struct_trace_event_raw_error_report_template :: ctype where
  "struct_trace_event_raw_error_report_template =
     Composite Struct False
     [Member ''ent'' struct_trace_entry,
      Member ''error_detector'' enum_error_detector,
      Member ''id'' (Scalar ULong64),
      Member ''__data'' (Array (Scalar Char8) 0)]"

lemma struct_trace_event_raw_error_report_template_layout [layout_simps]:
  "wf_type struct_trace_event_raw_error_report_template" "shape struct_trace_event_raw_error_report_template = (24, 8)"
  by (simp_all del: One_nat_def add: struct_trace_event_raw_error_report_template_def layout_eval layout_simps)

definition struct_trace_event_raw_clk :: ctype where
  "struct_trace_event_raw_clk =
     Composite Struct False
     [Member ''ent'' struct_trace_entry,
      Member ''__data_loc_name'' typedef_u32,
      Member ''__data'' (Array (Scalar Char8) 0)]"

lemma struct_trace_event_raw_clk_layout [layout_simps]:
  "wf_type struct_trace_event_raw_clk" "shape struct_trace_event_raw_clk = (12, 4)"
  by (simp_all del: One_nat_def add: struct_trace_event_raw_clk_def layout_eval layout_simps)

definition struct_trace_event_raw_clk_rate :: ctype where
  "struct_trace_event_raw_clk_rate =
     Composite Struct False
     [Member ''ent'' struct_trace_entry,
      Member ''__data_loc_name'' typedef_u32,
      Member ''rate'' (Scalar ULong64),
      Member ''__data'' (Array (Scalar Char8) 0)]"

lemma struct_trace_event_raw_clk_rate_layout [layout_simps]:
  "wf_type struct_trace_event_raw_clk_rate" "shape struct_trace_event_raw_clk_rate = (24, 8)"
  by (simp_all del: One_nat_def add: struct_trace_event_raw_clk_rate_def layout_eval layout_simps)

definition struct_trace_event_raw_clk_rate_range :: ctype where
  "struct_trace_event_raw_clk_rate_range =
     Composite Struct False
     [Member ''ent'' struct_trace_entry,
      Member ''__data_loc_name'' typedef_u32,
      Member ''min'' (Scalar ULong64),
      Member ''max'' (Scalar ULong64),
      Member ''__data'' (Array (Scalar Char8) 0)]"

lemma struct_trace_event_raw_clk_rate_range_layout [layout_simps]:
  "wf_type struct_trace_event_raw_clk_rate_range" "shape struct_trace_event_raw_clk_rate_range = (32, 8)"
  by (simp_all del: One_nat_def add: struct_trace_event_raw_clk_rate_range_def layout_eval layout_simps)

definition struct_trace_event_raw_clk_parent :: ctype where
  "struct_trace_event_raw_clk_parent =
     Composite Struct False
     [Member ''ent'' struct_trace_entry,
      Member ''__data_loc_name'' typedef_u32,
      Member ''__data_loc_pname'' typedef_u32,
      Member ''__data'' (Array (Scalar Char8) 0)]"

lemma struct_trace_event_raw_clk_parent_layout [layout_simps]:
  "wf_type struct_trace_event_raw_clk_parent" "shape struct_trace_event_raw_clk_parent = (16, 4)"
  by (simp_all del: One_nat_def add: struct_trace_event_raw_clk_parent_def layout_eval layout_simps)

definition struct_trace_event_raw_clk_phase :: ctype where
  "struct_trace_event_raw_clk_phase =
     Composite Struct False
     [Member ''ent'' struct_trace_entry,
      Member ''__data_loc_name'' typedef_u32,
      Member ''phase'' (Scalar Int32),
      Member ''__data'' (Array (Scalar Char8) 0)]"

lemma struct_trace_event_raw_clk_phase_layout [layout_simps]:
  "wf_type struct_trace_event_raw_clk_phase" "shape struct_trace_event_raw_clk_phase = (16, 4)"
  by (simp_all del: One_nat_def add: struct_trace_event_raw_clk_phase_def layout_eval layout_simps)

definition struct_trace_event_raw_clk_duty_cycle :: ctype where
  "struct_trace_event_raw_clk_duty_cycle =
     Composite Struct False
     [Member ''ent'' struct_trace_entry,
      Member ''__data_loc_name'' typedef_u32,
      Member ''num'' (Scalar UInt32),
      Member ''den'' (Scalar UInt32),
      Member ''__data'' (Array (Scalar Char8) 0)]"

lemma struct_trace_event_raw_clk_duty_cycle_layout [layout_simps]:
  "wf_type struct_trace_event_raw_clk_duty_cycle" "shape struct_trace_event_raw_clk_duty_cycle = (20, 4)"
  by (simp_all del: One_nat_def add: struct_trace_event_raw_clk_duty_cycle_def layout_eval layout_simps)

definition struct_trace_event_raw_clk_rate_request :: ctype where
  "struct_trace_event_raw_clk_rate_request =
     Composite Struct False
     [Member ''ent'' struct_trace_entry,
      Member ''__data_loc_name'' typedef_u32,
      Member ''__data_loc_pname'' typedef_u32,
      Member ''min'' (Scalar ULong64),
      Member ''max'' (Scalar ULong64),
      Member ''prate'' (Scalar ULong64),
      Member ''__data'' (Array (Scalar Char8) 0)]"

lemma struct_trace_event_raw_clk_rate_request_layout [layout_simps]:
  "wf_type struct_trace_event_raw_clk_rate_request" "shape struct_trace_event_raw_clk_rate_request = (40, 8)"
  by (simp_all del: One_nat_def add: struct_trace_event_raw_clk_rate_request_def layout_eval layout_simps)

definition struct_trace_event_raw_ata_qc_issue_template :: ctype where
  "struct_trace_event_raw_ata_qc_issue_template =
     Composite Struct False
     [Member ''ent'' struct_trace_entry,
      Member ''ata_port'' (Scalar UInt32),
      Member ''ata_dev'' (Scalar UInt32),
      Member ''tag'' (Scalar UInt32),
      Member ''cmd'' (Scalar UChar8),
      Member ''dev'' (Scalar UChar8),
      Member ''lbal'' (Scalar UChar8),
      Member ''lbam'' (Scalar UChar8),
      Member ''lbah'' (Scalar UChar8),
      Member ''nsect'' (Scalar UChar8),
      Member ''feature'' (Scalar UChar8),
      Member ''hob_lbal'' (Scalar UChar8),
      Member ''hob_lbam'' (Scalar UChar8),
      Member ''hob_lbah'' (Scalar UChar8),
      Member ''hob_nsect'' (Scalar UChar8),
      Member ''hob_feature'' (Scalar UChar8),
      Member ''ctl'' (Scalar UChar8),
      Member ''proto'' (Scalar UChar8),
      Member ''flags'' (Scalar ULong64),
      Member ''__data'' (Array (Scalar Char8) 0)]"

lemma struct_trace_event_raw_ata_qc_issue_template_layout [layout_simps]:
  "wf_type struct_trace_event_raw_ata_qc_issue_template" "shape struct_trace_event_raw_ata_qc_issue_template = (48, 8)"
  by (simp_all del: One_nat_def add: struct_trace_event_raw_ata_qc_issue_template_def layout_eval layout_simps)

definition struct_trace_event_raw_ata_qc_complete_template :: ctype where
  "struct_trace_event_raw_ata_qc_complete_template =
     Composite Struct False
     [Member ''ent'' struct_trace_entry,
      Member ''ata_port'' (Scalar UInt32),
      Member ''ata_dev'' (Scalar UInt32),
      Member ''tag'' (Scalar UInt32),
      Member ''status'' (Scalar UChar8),
      Member ''dev'' (Scalar UChar8),
      Member ''lbal'' (Scalar UChar8),
      Member ''lbam'' (Scalar UChar8),
      Member ''lbah'' (Scalar UChar8),
      Member ''nsect'' (Scalar UChar8),
      Member ''error'' (Scalar UChar8),
      Member ''hob_lbal'' (Scalar UChar8),
      Member ''hob_lbam'' (Scalar UChar8),
      Member ''hob_lbah'' (Scalar UChar8),
      Member ''hob_nsect'' (Scalar UChar8),
      Member ''hob_feature'' (Scalar UChar8),
      Member ''ctl'' (Scalar UChar8),
      Member ''flags'' (Scalar ULong64),
      Member ''__data'' (Array (Scalar Char8) 0)]"

lemma struct_trace_event_raw_ata_qc_complete_template_layout [layout_simps]:
  "wf_type struct_trace_event_raw_ata_qc_complete_template" "shape struct_trace_event_raw_ata_qc_complete_template = (48, 8)"
  by (simp_all del: One_nat_def add: struct_trace_event_raw_ata_qc_complete_template_def layout_eval layout_simps)

definition struct_trace_event_raw_ata_tf_load :: ctype where
  "struct_trace_event_raw_ata_tf_load =
     Composite Struct False
     [Member ''ent'' struct_trace_entry,
      Member ''ata_port'' (Scalar UInt32),
      Member ''cmd'' (Scalar UChar8),
      Member ''dev'' (Scalar UChar8),
      Member ''lbal'' (Scalar UChar8),
      Member ''lbam'' (Scalar UChar8),
      Member ''lbah'' (Scalar UChar8),
      Member ''nsect'' (Scalar UChar8),
      Member ''feature'' (Scalar UChar8),
      Member ''hob_lbal'' (Scalar UChar8),
      Member ''hob_lbam'' (Scalar UChar8),
      Member ''hob_lbah'' (Scalar UChar8),
      Member ''hob_nsect'' (Scalar UChar8),
      Member ''hob_feature'' (Scalar UChar8),
      Member ''proto'' (Scalar UChar8),
      Member ''__data'' (Array (Scalar Char8) 0)]"

lemma struct_trace_event_raw_ata_tf_load_layout [layout_simps]:
  "wf_type struct_trace_event_raw_ata_tf_load" "shape struct_trace_event_raw_ata_tf_load = (28, 4)"
  by (simp_all del: One_nat_def add: struct_trace_event_raw_ata_tf_load_def layout_eval layout_simps)

definition struct_trace_event_raw_ata_exec_command_template :: ctype where
  "struct_trace_event_raw_ata_exec_command_template =
     Composite Struct False
     [Member ''ent'' struct_trace_entry,
      Member ''ata_port'' (Scalar UInt32),
      Member ''tag'' (Scalar UInt32),
      Member ''cmd'' (Scalar UChar8),
      Member ''feature'' (Scalar UChar8),
      Member ''hob_nsect'' (Scalar UChar8),
      Member ''proto'' (Scalar UChar8),
      Member ''__data'' (Array (Scalar Char8) 0)]"

lemma struct_trace_event_raw_ata_exec_command_template_layout [layout_simps]:
  "wf_type struct_trace_event_raw_ata_exec_command_template" "shape struct_trace_event_raw_ata_exec_command_template = (20, 4)"
  by (simp_all del: One_nat_def add: struct_trace_event_raw_ata_exec_command_template_def layout_eval layout_simps)

definition struct_trace_event_raw_ata_bmdma_status :: ctype where
  "struct_trace_event_raw_ata_bmdma_status =
     Composite Struct False
     [Member ''ent'' struct_trace_entry,
      Member ''ata_port'' (Scalar UInt32),
      Member ''tag'' (Scalar UInt32),
      Member ''host_stat'' (Scalar UChar8),
      Member ''__data'' (Array (Scalar Char8) 0)]"

lemma struct_trace_event_raw_ata_bmdma_status_layout [layout_simps]:
  "wf_type struct_trace_event_raw_ata_bmdma_status" "shape struct_trace_event_raw_ata_bmdma_status = (20, 4)"
  by (simp_all del: One_nat_def add: struct_trace_event_raw_ata_bmdma_status_def layout_eval layout_simps)

definition struct_trace_event_raw_ata_eh_link_autopsy :: ctype where
  "struct_trace_event_raw_ata_eh_link_autopsy =
     Composite Struct False
     [Member ''ent'' struct_trace_entry,
      Member ''ata_port'' (Scalar UInt32),
      Member ''ata_dev'' (Scalar UInt32),
      Member ''eh_action'' (Scalar UInt32),
      Member ''eh_err_mask'' (Scalar UInt32),
      Member ''__data'' (Array (Scalar Char8) 0)]"

lemma struct_trace_event_raw_ata_eh_link_autopsy_layout [layout_simps]:
  "wf_type struct_trace_event_raw_ata_eh_link_autopsy" "shape struct_trace_event_raw_ata_eh_link_autopsy = (24, 4)"
  by (simp_all del: One_nat_def add: struct_trace_event_raw_ata_eh_link_autopsy_def layout_eval layout_simps)

definition struct_trace_event_raw_ata_eh_link_autopsy_qc :: ctype where
  "struct_trace_event_raw_ata_eh_link_autopsy_qc =
     Composite Struct False
     [Member ''ent'' struct_trace_entry,
      Member ''ata_port'' (Scalar UInt32),
      Member ''ata_dev'' (Scalar UInt32),
      Member ''tag'' (Scalar UInt32),
      Member ''qc_flags'' (Scalar UInt32),
      Member ''eh_err_mask'' (Scalar UInt32),
      Member ''__data'' (Array (Scalar Char8) 0)]"

lemma struct_trace_event_raw_ata_eh_link_autopsy_qc_layout [layout_simps]:
  "wf_type struct_trace_event_raw_ata_eh_link_autopsy_qc" "shape struct_trace_event_raw_ata_eh_link_autopsy_qc = (28, 4)"
  by (simp_all del: One_nat_def add: struct_trace_event_raw_ata_eh_link_autopsy_qc_def layout_eval layout_simps)

definition struct_trace_event_raw_ata_eh_action_template :: ctype where
  "struct_trace_event_raw_ata_eh_action_template =
     Composite Struct False
     [Member ''ent'' struct_trace_entry,
      Member ''ata_port'' (Scalar UInt32),
      Member ''ata_dev'' (Scalar UInt32),
      Member ''eh_action'' (Scalar UInt32),
      Member ''__data'' (Array (Scalar Char8) 0)]"

lemma struct_trace_event_raw_ata_eh_action_template_layout [layout_simps]:
  "wf_type struct_trace_event_raw_ata_eh_action_template" "shape struct_trace_event_raw_ata_eh_action_template = (20, 4)"
  by (simp_all del: One_nat_def add: struct_trace_event_raw_ata_eh_action_template_def layout_eval layout_simps)

definition struct_trace_event_raw_ata_link_reset_begin_template :: ctype where
  "struct_trace_event_raw_ata_link_reset_begin_template =
     Composite Struct False
     [Member ''ent'' struct_trace_entry,
      Member ''ata_port'' (Scalar UInt32),
      Member ''class'' (Array (Scalar UInt32) 2),
      Member ''deadline'' (Scalar ULong64),
      Member ''__data'' (Array (Scalar Char8) 0)]"

lemma struct_trace_event_raw_ata_link_reset_begin_template_layout [layout_simps]:
  "wf_type struct_trace_event_raw_ata_link_reset_begin_template" "shape struct_trace_event_raw_ata_link_reset_begin_template = (32, 8)"
  by (simp_all del: One_nat_def add: struct_trace_event_raw_ata_link_reset_begin_template_def layout_eval layout_simps)

definition struct_trace_event_raw_ata_link_reset_end_template :: ctype where
  "struct_trace_event_raw_ata_link_reset_end_template =
     Composite Struct False
     [Member ''ent'' struct_trace_entry,
      Member ''ata_port'' (Scalar UInt32),
      Member ''class'' (Array (Scalar UInt32) 2),
      Member ''rc'' (Scalar Int32),
      Member ''__data'' (Array (Scalar Char8) 0)]"

lemma struct_trace_event_raw_ata_link_reset_end_template_layout [layout_simps]:
  "wf_type struct_trace_event_raw_ata_link_reset_end_template" "shape struct_trace_event_raw_ata_link_reset_end_template = (24, 4)"
  by (simp_all del: One_nat_def add: struct_trace_event_raw_ata_link_reset_end_template_def layout_eval layout_simps)

definition struct_trace_event_raw_ata_port_eh_begin_template :: ctype where
  "struct_trace_event_raw_ata_port_eh_begin_template =
     Composite Struct False
     [Member ''ent'' struct_trace_entry,
      Member ''ata_port'' (Scalar UInt32),
      Member ''__data'' (Array (Scalar Char8) 0)]"

lemma struct_trace_event_raw_ata_port_eh_begin_template_layout [layout_simps]:
  "wf_type struct_trace_event_raw_ata_port_eh_begin_template" "shape struct_trace_event_raw_ata_port_eh_begin_template = (12, 4)"
  by (simp_all del: One_nat_def add: struct_trace_event_raw_ata_port_eh_begin_template_def layout_eval layout_simps)

definition struct_trace_event_raw_ata_sff_hsm_template :: ctype where
  "struct_trace_event_raw_ata_sff_hsm_template =
     Composite Struct False
     [Member ''ent'' struct_trace_entry,
      Member ''ata_port'' (Scalar UInt32),
      Member ''ata_dev'' (Scalar UInt32),
      Member ''tag'' (Scalar UInt32),
      Member ''qc_flags'' (Scalar UInt32),
      Member ''protocol'' (Scalar UInt32),
      Member ''hsm_state'' (Scalar UInt32),
      Member ''dev_state'' (Scalar UChar8),
      Member ''__data'' (Array (Scalar Char8) 0)]"

lemma struct_trace_event_raw_ata_sff_hsm_template_layout [layout_simps]:
  "wf_type struct_trace_event_raw_ata_sff_hsm_template" "shape struct_trace_event_raw_ata_sff_hsm_template = (36, 4)"
  by (simp_all del: One_nat_def add: struct_trace_event_raw_ata_sff_hsm_template_def layout_eval layout_simps)

definition struct_trace_event_raw_ata_transfer_data_template :: ctype where
  "struct_trace_event_raw_ata_transfer_data_template =
     Composite Struct False
     [Member ''ent'' struct_trace_entry,
      Member ''ata_port'' (Scalar UInt32),
      Member ''ata_dev'' (Scalar UInt32),
      Member ''tag'' (Scalar UInt32),
      Member ''flags'' (Scalar UInt32),
      Member ''offset'' (Scalar UInt32),
      Member ''bytes'' (Scalar UInt32),
      Member ''__data'' (Array (Scalar Char8) 0)]"

lemma struct_trace_event_raw_ata_transfer_data_template_layout [layout_simps]:
  "wf_type struct_trace_event_raw_ata_transfer_data_template" "shape struct_trace_event_raw_ata_transfer_data_template = (32, 4)"
  by (simp_all del: One_nat_def add: struct_trace_event_raw_ata_transfer_data_template_def layout_eval layout_simps)

definition struct_trace_event_raw_ata_sff_template :: ctype where
  "struct_trace_event_raw_ata_sff_template =
     Composite Struct False
     [Member ''ent'' struct_trace_entry,
      Member ''ata_port'' (Scalar UInt32),
      Member ''hsm_state'' (Scalar UChar8),
      Member ''__data'' (Array (Scalar Char8) 0)]"

lemma struct_trace_event_raw_ata_sff_template_layout [layout_simps]:
  "wf_type struct_trace_event_raw_ata_sff_template" "shape struct_trace_event_raw_ata_sff_template = (16, 4)"
  by (simp_all del: One_nat_def add: struct_trace_event_raw_ata_sff_template_def layout_eval layout_simps)

definition struct_trace_event_raw_devfreq_frequency :: ctype where
  "struct_trace_event_raw_devfreq_frequency =
     Composite Struct False
     [Member ''ent'' struct_trace_entry,
      Member ''__data_loc_dev_name'' typedef_u32,
      Member ''freq'' (Scalar ULong64),
      Member ''prev_freq'' (Scalar ULong64),
      Member ''busy_time'' (Scalar ULong64),
      Member ''total_time'' (Scalar ULong64),
      Member ''__data'' (Array (Scalar Char8) 0)]"

lemma struct_trace_event_raw_devfreq_frequency_layout [layout_simps]:
  "wf_type struct_trace_event_raw_devfreq_frequency" "shape struct_trace_event_raw_devfreq_frequency = (48, 8)"
  by (simp_all del: One_nat_def add: struct_trace_event_raw_devfreq_frequency_def layout_eval layout_simps)

definition struct_trace_event_raw_devfreq_monitor :: ctype where
  "struct_trace_event_raw_devfreq_monitor =
     Composite Struct False
     [Member ''ent'' struct_trace_entry,
      Member ''freq'' (Scalar ULong64),
      Member ''busy_time'' (Scalar ULong64),
      Member ''total_time'' (Scalar ULong64),
      Member ''polling_ms'' (Scalar UInt32),
      Member ''__data_loc_dev_name'' typedef_u32,
      Member ''__data'' (Array (Scalar Char8) 0)]"

lemma struct_trace_event_raw_devfreq_monitor_layout [layout_simps]:
  "wf_type struct_trace_event_raw_devfreq_monitor" "shape struct_trace_event_raw_devfreq_monitor = (40, 8)"
  by (simp_all del: One_nat_def add: struct_trace_event_raw_devfreq_monitor_def layout_eval layout_simps)

definition struct_trace_event_raw_cpuhp_enter :: ctype where
  "struct_trace_event_raw_cpuhp_enter =
     Composite Struct False
     [Member ''ent'' struct_trace_entry,
      Member ''cpu'' (Scalar UInt32),
      Member ''target'' (Scalar Int32),
      Member ''idx'' (Scalar Int32),
      Member ''fun'' (Pointer Void),
      Member ''__data'' (Array (Scalar Char8) 0)]"

lemma struct_trace_event_raw_cpuhp_enter_layout [layout_simps]:
  "wf_type struct_trace_event_raw_cpuhp_enter" "shape struct_trace_event_raw_cpuhp_enter = (32, 8)"
  by (simp_all del: One_nat_def add: struct_trace_event_raw_cpuhp_enter_def layout_eval layout_simps)

definition struct_trace_event_raw_cpuhp_multi_enter :: ctype where
  "struct_trace_event_raw_cpuhp_multi_enter =
     Composite Struct False
     [Member ''ent'' struct_trace_entry,
      Member ''cpu'' (Scalar UInt32),
      Member ''target'' (Scalar Int32),
      Member ''idx'' (Scalar Int32),
      Member ''fun'' (Pointer Void),
      Member ''__data'' (Array (Scalar Char8) 0)]"

lemma struct_trace_event_raw_cpuhp_multi_enter_layout [layout_simps]:
  "wf_type struct_trace_event_raw_cpuhp_multi_enter" "shape struct_trace_event_raw_cpuhp_multi_enter = (32, 8)"
  by (simp_all del: One_nat_def add: struct_trace_event_raw_cpuhp_multi_enter_def layout_eval layout_simps)

definition struct_trace_event_raw_cpuhp_exit :: ctype where
  "struct_trace_event_raw_cpuhp_exit =
     Composite Struct False
     [Member ''ent'' struct_trace_entry,
      Member ''cpu'' (Scalar UInt32),
      Member ''state'' (Scalar Int32),
      Member ''idx'' (Scalar Int32),
      Member ''ret'' (Scalar Int32),
      Member ''__data'' (Array (Scalar Char8) 0)]"

lemma struct_trace_event_raw_cpuhp_exit_layout [layout_simps]:
  "wf_type struct_trace_event_raw_cpuhp_exit" "shape struct_trace_event_raw_cpuhp_exit = (24, 4)"
  by (simp_all del: One_nat_def add: struct_trace_event_raw_cpuhp_exit_def layout_eval layout_simps)

definition struct_trace_event_raw_contention_begin :: ctype where
  "struct_trace_event_raw_contention_begin =
     Composite Struct False
     [Member ''ent'' struct_trace_entry,
      Member ''lock_addr'' (Pointer Void),
      Member ''flags'' (Scalar UInt32),
      Member ''__data'' (Array (Scalar Char8) 0)]"

lemma struct_trace_event_raw_contention_begin_layout [layout_simps]:
  "wf_type struct_trace_event_raw_contention_begin" "shape struct_trace_event_raw_contention_begin = (24, 8)"
  by (simp_all del: One_nat_def add: struct_trace_event_raw_contention_begin_def layout_eval layout_simps)

definition struct_trace_event_raw_contention_end :: ctype where
  "struct_trace_event_raw_contention_end =
     Composite Struct False
     [Member ''ent'' struct_trace_entry,
      Member ''lock_addr'' (Pointer Void),
      Member ''ret'' (Scalar Int32),
      Member ''__data'' (Array (Scalar Char8) 0)]"

lemma struct_trace_event_raw_contention_end_layout [layout_simps]:
  "wf_type struct_trace_event_raw_contention_end" "shape struct_trace_event_raw_contention_end = (24, 8)"
  by (simp_all del: One_nat_def add: struct_trace_event_raw_contention_end_def layout_eval layout_simps)

definition struct_trace_event_raw_cpu :: ctype where
  "struct_trace_event_raw_cpu =
     Composite Struct False
     [Member ''ent'' struct_trace_entry,
      Member ''state'' typedef_u32,
      Member ''cpu_id'' typedef_u32,
      Member ''__data'' (Array (Scalar Char8) 0)]"

lemma struct_trace_event_raw_cpu_layout [layout_simps]:
  "wf_type struct_trace_event_raw_cpu" "shape struct_trace_event_raw_cpu = (16, 4)"
  by (simp_all del: One_nat_def add: struct_trace_event_raw_cpu_def layout_eval layout_simps)

definition struct_trace_event_raw_cpu_idle_miss :: ctype where
  "struct_trace_event_raw_cpu_idle_miss =
     Composite Struct False
     [Member ''ent'' struct_trace_entry,
      Member ''cpu_id'' typedef_u32,
      Member ''state'' typedef_u32,
      Member ''below'' typedef_bool,
      Member ''__data'' (Array (Scalar Char8) 0)]"

lemma struct_trace_event_raw_cpu_idle_miss_layout [layout_simps]:
  "wf_type struct_trace_event_raw_cpu_idle_miss" "shape struct_trace_event_raw_cpu_idle_miss = (20, 4)"
  by (simp_all del: One_nat_def add: struct_trace_event_raw_cpu_idle_miss_def layout_eval layout_simps)

definition struct_trace_event_raw_cpu_frequency_limits :: ctype where
  "struct_trace_event_raw_cpu_frequency_limits =
     Composite Struct False
     [Member ''ent'' struct_trace_entry,
      Member ''min_freq'' typedef_u32,
      Member ''max_freq'' typedef_u32,
      Member ''cpu_id'' typedef_u32,
      Member ''__data'' (Array (Scalar Char8) 0)]"

lemma struct_trace_event_raw_cpu_frequency_limits_layout [layout_simps]:
  "wf_type struct_trace_event_raw_cpu_frequency_limits" "shape struct_trace_event_raw_cpu_frequency_limits = (20, 4)"
  by (simp_all del: One_nat_def add: struct_trace_event_raw_cpu_frequency_limits_def layout_eval layout_simps)

definition struct_trace_event_raw_device_pm_callback_start :: ctype where
  "struct_trace_event_raw_device_pm_callback_start =
     Composite Struct False
     [Member ''ent'' struct_trace_entry,
      Member ''__data_loc_device'' typedef_u32,
      Member ''__data_loc_driver'' typedef_u32,
      Member ''__data_loc_parent'' typedef_u32,
      Member ''__data_loc_pm_ops'' typedef_u32,
      Member ''event'' (Scalar Int32),
      Member ''__data'' (Array (Scalar Char8) 0)]"

lemma struct_trace_event_raw_device_pm_callback_start_layout [layout_simps]:
  "wf_type struct_trace_event_raw_device_pm_callback_start" "shape struct_trace_event_raw_device_pm_callback_start = (28, 4)"
  by (simp_all del: One_nat_def add: struct_trace_event_raw_device_pm_callback_start_def layout_eval layout_simps)

definition struct_trace_event_raw_device_pm_callback_end :: ctype where
  "struct_trace_event_raw_device_pm_callback_end =
     Composite Struct False
     [Member ''ent'' struct_trace_entry,
      Member ''__data_loc_device'' typedef_u32,
      Member ''__data_loc_driver'' typedef_u32,
      Member ''error'' (Scalar Int32),
      Member ''__data'' (Array (Scalar Char8) 0)]"

lemma struct_trace_event_raw_device_pm_callback_end_layout [layout_simps]:
  "wf_type struct_trace_event_raw_device_pm_callback_end" "shape struct_trace_event_raw_device_pm_callback_end = (20, 4)"
  by (simp_all del: One_nat_def add: struct_trace_event_raw_device_pm_callback_end_def layout_eval layout_simps)

definition struct_trace_event_raw_clock :: ctype where
  "struct_trace_event_raw_clock =
     Composite Struct False
     [Member ''ent'' struct_trace_entry,
      Member ''__data_loc_name'' typedef_u32,
      Member ''state'' typedef_u64,
      Member ''cpu_id'' typedef_u64,
      Member ''__data'' (Array (Scalar Char8) 0)]"

lemma struct_trace_event_raw_clock_layout [layout_simps]:
  "wf_type struct_trace_event_raw_clock" "shape struct_trace_event_raw_clock = (32, 8)"
  by (simp_all del: One_nat_def add: struct_trace_event_raw_clock_def layout_eval layout_simps)

definition struct_trace_event_raw_cpu_latency_qos_request :: ctype where
  "struct_trace_event_raw_cpu_latency_qos_request =
     Composite Struct False
     [Member ''ent'' struct_trace_entry,
      Member ''value'' typedef_s32,
      Member ''__data'' (Array (Scalar Char8) 0)]"

lemma struct_trace_event_raw_cpu_latency_qos_request_layout [layout_simps]:
  "wf_type struct_trace_event_raw_cpu_latency_qos_request" "shape struct_trace_event_raw_cpu_latency_qos_request = (12, 4)"
  by (simp_all del: One_nat_def add: struct_trace_event_raw_cpu_latency_qos_request_def layout_eval layout_simps)

definition struct_trace_event_raw_dev_pm_qos_request :: ctype where
  "struct_trace_event_raw_dev_pm_qos_request =
     Composite Struct False
     [Member ''ent'' struct_trace_entry,
      Member ''__data_loc_name'' typedef_u32,
      Member ''type'' enum_dev_pm_qos_req_type,
      Member ''new_value'' typedef_s32,
      Member ''__data'' (Array (Scalar Char8) 0)]"

lemma struct_trace_event_raw_dev_pm_qos_request_layout [layout_simps]:
  "wf_type struct_trace_event_raw_dev_pm_qos_request" "shape struct_trace_event_raw_dev_pm_qos_request = (20, 4)"
  by (simp_all del: One_nat_def add: struct_trace_event_raw_dev_pm_qos_request_def layout_eval layout_simps)

definition struct_trace_event_raw_filemap_set_wb_err :: ctype where
  "struct_trace_event_raw_filemap_set_wb_err =
     Composite Struct False
     [Member ''ent'' struct_trace_entry,
      Member ''i_ino'' (Scalar ULong64),
      Member ''s_dev'' typedef_dev_t,
      Member ''errseq'' typedef_errseq_t,
      Member ''__data'' (Array (Scalar Char8) 0)]"

lemma struct_trace_event_raw_filemap_set_wb_err_layout [layout_simps]:
  "wf_type struct_trace_event_raw_filemap_set_wb_err" "shape struct_trace_event_raw_filemap_set_wb_err = (24, 8)"
  by (simp_all del: One_nat_def add: struct_trace_event_raw_filemap_set_wb_err_def layout_eval layout_simps)

definition struct_trace_event_raw_file_check_and_advance_wb_err :: ctype where
  "struct_trace_event_raw_file_check_and_advance_wb_err =
     Composite Struct False
     [Member ''ent'' struct_trace_entry,
      Member ''file'' (Pointer (Named Struct_name ''file'')),
      Member ''i_ino'' (Scalar ULong64),
      Member ''s_dev'' typedef_dev_t,
      Member ''old'' typedef_errseq_t,
      Member ''new'' typedef_errseq_t,
      Member ''__data'' (Array (Scalar Char8) 0)]"

lemma struct_trace_event_raw_file_check_and_advance_wb_err_layout [layout_simps]:
  "wf_type struct_trace_event_raw_file_check_and_advance_wb_err" "shape struct_trace_event_raw_file_check_and_advance_wb_err = (40, 8)"
  by (simp_all del: One_nat_def add: struct_trace_event_raw_file_check_and_advance_wb_err_def layout_eval layout_simps)

definition struct_trace_event_raw_alloc_vmap_area :: ctype where
  "struct_trace_event_raw_alloc_vmap_area =
     Composite Struct False
     [Member ''ent'' struct_trace_entry,
      Member ''addr'' (Scalar ULong64),
      Member ''size'' (Scalar ULong64),
      Member ''align'' (Scalar ULong64),
      Member ''vstart'' (Scalar ULong64),
      Member ''vend'' (Scalar ULong64),
      Member ''failed'' (Scalar Int32),
      Member ''__data'' (Array (Scalar Char8) 0)]"

lemma struct_trace_event_raw_alloc_vmap_area_layout [layout_simps]:
  "wf_type struct_trace_event_raw_alloc_vmap_area" "shape struct_trace_event_raw_alloc_vmap_area = (56, 8)"
  by (simp_all del: One_nat_def add: struct_trace_event_raw_alloc_vmap_area_def layout_eval layout_simps)

definition struct_trace_event_raw_bdi_dirty_ratelimit :: ctype where
  "struct_trace_event_raw_bdi_dirty_ratelimit =
     Composite Struct False
     [Member ''ent'' struct_trace_entry,
      Member ''bdi'' (Array (Scalar Char8) 32),
      Member ''write_bw'' (Scalar ULong64),
      Member ''avg_write_bw'' (Scalar ULong64),
      Member ''dirty_rate'' (Scalar ULong64),
      Member ''dirty_ratelimit'' (Scalar ULong64),
      Member ''task_ratelimit'' (Scalar ULong64),
      Member ''balanced_dirty_ratelimit'' (Scalar ULong64),
      Member ''cgroup_ino'' typedef_ino_t,
      Member ''__data'' (Array (Scalar Char8) 0)]"

lemma struct_trace_event_raw_bdi_dirty_ratelimit_layout [layout_simps]:
  "wf_type struct_trace_event_raw_bdi_dirty_ratelimit" "shape struct_trace_event_raw_bdi_dirty_ratelimit = (96, 8)"
  by (simp_all del: One_nat_def add: struct_trace_event_raw_bdi_dirty_ratelimit_def layout_eval layout_simps)

definition struct_trace_event_raw_balance_dirty_pages :: ctype where
  "struct_trace_event_raw_balance_dirty_pages =
     Composite Struct False
     [Member ''ent'' struct_trace_entry,
      Member ''bdi'' (Array (Scalar Char8) 32),
      Member ''limit'' (Scalar ULong64),
      Member ''setpoint'' (Scalar ULong64),
      Member ''dirty'' (Scalar ULong64),
      Member ''bdi_setpoint'' (Scalar ULong64),
      Member ''bdi_dirty'' (Scalar ULong64),
      Member ''dirty_ratelimit'' (Scalar ULong64),
      Member ''task_ratelimit'' (Scalar ULong64),
      Member ''dirtied'' (Scalar UInt32),
      Member ''dirtied_pause'' (Scalar UInt32),
      Member ''paused'' (Scalar ULong64),
      Member ''pause'' (Scalar Long64),
      Member ''period'' (Scalar ULong64),
      Member ''think'' (Scalar Long64),
      Member ''cgroup_ino'' typedef_ino_t,
      Member ''__data'' (Array (Scalar Char8) 0)]"

lemma struct_trace_event_raw_balance_dirty_pages_layout [layout_simps]:
  "wf_type struct_trace_event_raw_balance_dirty_pages" "shape struct_trace_event_raw_balance_dirty_pages = (144, 8)"
  by (simp_all del: One_nat_def add: struct_trace_event_raw_balance_dirty_pages_def layout_eval layout_simps)

definition struct_trace_event_raw_dax_pmd_fault_class :: ctype where
  "struct_trace_event_raw_dax_pmd_fault_class =
     Composite Struct False
     [Member ''ent'' struct_trace_entry,
      Member ''ino'' (Scalar ULong64),
      Member ''vm_start'' (Scalar ULong64),
      Member ''vm_end'' (Scalar ULong64),
      Member ''vm_flags'' (Scalar ULong64),
      Member ''address'' (Scalar ULong64),
      Member ''pgoff'' (Scalar ULong64),
      Member ''max_pgoff'' (Scalar ULong64),
      Member ''dev'' typedef_dev_t,
      Member ''flags'' (Scalar UInt32),
      Member ''result'' (Scalar Int32),
      Member ''__data'' (Array (Scalar Char8) 0)]"

lemma struct_trace_event_raw_dax_pmd_fault_class_layout [layout_simps]:
  "wf_type struct_trace_event_raw_dax_pmd_fault_class" "shape struct_trace_event_raw_dax_pmd_fault_class = (80, 8)"
  by (simp_all del: One_nat_def add: struct_trace_event_raw_dax_pmd_fault_class_def layout_eval layout_simps)

definition struct_trace_event_raw_dax_pmd_load_hole_class :: ctype where
  "struct_trace_event_raw_dax_pmd_load_hole_class =
     Composite Struct False
     [Member ''ent'' struct_trace_entry,
      Member ''ino'' (Scalar ULong64),
      Member ''vm_flags'' (Scalar ULong64),
      Member ''address'' (Scalar ULong64),
      Member ''zero_page'' (Pointer (Named Struct_name ''page'')),
      Member ''radix_entry'' (Pointer Void),
      Member ''dev'' typedef_dev_t,
      Member ''__data'' (Array (Scalar Char8) 0)]"

lemma struct_trace_event_raw_dax_pmd_load_hole_class_layout [layout_simps]:
  "wf_type struct_trace_event_raw_dax_pmd_load_hole_class" "shape struct_trace_event_raw_dax_pmd_load_hole_class = (56, 8)"
  by (simp_all del: One_nat_def add: struct_trace_event_raw_dax_pmd_load_hole_class_def layout_eval layout_simps)

definition struct_trace_event_raw_dax_pmd_insert_mapping_class :: ctype where
  "struct_trace_event_raw_dax_pmd_insert_mapping_class =
     Composite Struct False
     [Member ''ent'' struct_trace_entry,
      Member ''ino'' (Scalar ULong64),
      Member ''vm_flags'' (Scalar ULong64),
      Member ''address'' (Scalar ULong64),
      Member ''length'' (Scalar Long64),
      Member ''pfn_val'' typedef_u64,
      Member ''radix_entry'' (Pointer Void),
      Member ''dev'' typedef_dev_t,
      Member ''write'' (Scalar Int32),
      Member ''__data'' (Array (Scalar Char8) 0)]"

lemma struct_trace_event_raw_dax_pmd_insert_mapping_class_layout [layout_simps]:
  "wf_type struct_trace_event_raw_dax_pmd_insert_mapping_class" "shape struct_trace_event_raw_dax_pmd_insert_mapping_class = (64, 8)"
  by (simp_all del: One_nat_def add: struct_trace_event_raw_dax_pmd_insert_mapping_class_def layout_eval layout_simps)

definition struct_trace_event_raw_dax_pte_fault_class :: ctype where
  "struct_trace_event_raw_dax_pte_fault_class =
     Composite Struct False
     [Member ''ent'' struct_trace_entry,
      Member ''ino'' (Scalar ULong64),
      Member ''vm_flags'' (Scalar ULong64),
      Member ''address'' (Scalar ULong64),
      Member ''pgoff'' (Scalar ULong64),
      Member ''dev'' typedef_dev_t,
      Member ''flags'' (Scalar UInt32),
      Member ''result'' (Scalar Int32),
      Member ''__data'' (Array (Scalar Char8) 0)]"

lemma struct_trace_event_raw_dax_pte_fault_class_layout [layout_simps]:
  "wf_type struct_trace_event_raw_dax_pte_fault_class" "shape struct_trace_event_raw_dax_pte_fault_class = (56, 8)"
  by (simp_all del: One_nat_def add: struct_trace_event_raw_dax_pte_fault_class_def layout_eval layout_simps)

definition struct_trace_event_raw_dax_insert_mapping :: ctype where
  "struct_trace_event_raw_dax_insert_mapping =
     Composite Struct False
     [Member ''ent'' struct_trace_entry,
      Member ''ino'' (Scalar ULong64),
      Member ''vm_flags'' (Scalar ULong64),
      Member ''address'' (Scalar ULong64),
      Member ''radix_entry'' (Pointer Void),
      Member ''dev'' typedef_dev_t,
      Member ''write'' (Scalar Int32),
      Member ''__data'' (Array (Scalar Char8) 0)]"

lemma struct_trace_event_raw_dax_insert_mapping_layout [layout_simps]:
  "wf_type struct_trace_event_raw_dax_insert_mapping" "shape struct_trace_event_raw_dax_insert_mapping = (48, 8)"
  by (simp_all del: One_nat_def add: struct_trace_event_raw_dax_insert_mapping_def layout_eval layout_simps)

definition struct_trace_event_raw_dax_writeback_range_class :: ctype where
  "struct_trace_event_raw_dax_writeback_range_class =
     Composite Struct False
     [Member ''ent'' struct_trace_entry,
      Member ''ino'' (Scalar ULong64),
      Member ''start_index'' (Scalar ULong64),
      Member ''end_index'' (Scalar ULong64),
      Member ''dev'' typedef_dev_t,
      Member ''__data'' (Array (Scalar Char8) 0)]"

lemma struct_trace_event_raw_dax_writeback_range_class_layout [layout_simps]:
  "wf_type struct_trace_event_raw_dax_writeback_range_class" "shape struct_trace_event_raw_dax_writeback_range_class = (40, 8)"
  by (simp_all del: One_nat_def add: struct_trace_event_raw_dax_writeback_range_class_def layout_eval layout_simps)

definition struct_trace_event_raw_dax_writeback_one :: ctype where
  "struct_trace_event_raw_dax_writeback_one =
     Composite Struct False
     [Member ''ent'' struct_trace_entry,
      Member ''ino'' (Scalar ULong64),
      Member ''pgoff'' (Scalar ULong64),
      Member ''pglen'' (Scalar ULong64),
      Member ''dev'' typedef_dev_t,
      Member ''__data'' (Array (Scalar Char8) 0)]"

lemma struct_trace_event_raw_dax_writeback_one_layout [layout_simps]:
  "wf_type struct_trace_event_raw_dax_writeback_one" "shape struct_trace_event_raw_dax_writeback_one = (40, 8)"
  by (simp_all del: One_nat_def add: struct_trace_event_raw_dax_writeback_one_def layout_eval layout_simps)

definition struct_trace_event_raw_block_buffer :: ctype where
  "struct_trace_event_raw_block_buffer =
     Composite Struct False
     [Member ''ent'' struct_trace_entry,
      Member ''dev'' typedef_dev_t,
      Member ''sector'' typedef_sector_t,
      Member ''size'' typedef_size_t,
      Member ''__data'' (Array (Scalar Char8) 0)]"

lemma struct_trace_event_raw_block_buffer_layout [layout_simps]:
  "wf_type struct_trace_event_raw_block_buffer" "shape struct_trace_event_raw_block_buffer = (32, 8)"
  by (simp_all del: One_nat_def add: struct_trace_event_raw_block_buffer_def layout_eval layout_simps)

definition struct_trace_event_raw_block_rq_requeue :: ctype where
  "struct_trace_event_raw_block_rq_requeue =
     Composite Struct False
     [Member ''ent'' struct_trace_entry,
      Member ''dev'' typedef_dev_t,
      Member ''sector'' typedef_sector_t,
      Member ''nr_sector'' (Scalar UInt32),
      Member ''rwbs'' (Array (Scalar Char8) 8),
      Member ''__data_loc_cmd'' typedef_u32,
      Member ''__data'' (Array (Scalar Char8) 0)]"

lemma struct_trace_event_raw_block_rq_requeue_layout [layout_simps]:
  "wf_type struct_trace_event_raw_block_rq_requeue" "shape struct_trace_event_raw_block_rq_requeue = (40, 8)"
  by (simp_all del: One_nat_def add: struct_trace_event_raw_block_rq_requeue_def layout_eval layout_simps)

definition struct_trace_event_raw_block_rq :: ctype where
  "struct_trace_event_raw_block_rq =
     Composite Struct False
     [Member ''ent'' struct_trace_entry,
      Member ''dev'' typedef_dev_t,
      Member ''sector'' typedef_sector_t,
      Member ''nr_sector'' (Scalar UInt32),
      Member ''bytes'' (Scalar UInt32),
      Member ''rwbs'' (Array (Scalar Char8) 8),
      Member ''comm'' (Array (Scalar Char8) 16),
      Member ''__data_loc_cmd'' typedef_u32,
      Member ''__data'' (Array (Scalar Char8) 0)]"

lemma struct_trace_event_raw_block_rq_layout [layout_simps]:
  "wf_type struct_trace_event_raw_block_rq" "shape struct_trace_event_raw_block_rq = (64, 8)"
  by (simp_all del: One_nat_def add: struct_trace_event_raw_block_rq_def layout_eval layout_simps)

definition struct_trace_event_raw_block_bio_complete :: ctype where
  "struct_trace_event_raw_block_bio_complete =
     Composite Struct False
     [Member ''ent'' struct_trace_entry,
      Member ''dev'' typedef_dev_t,
      Member ''sector'' typedef_sector_t,
      Member ''nr_sector'' (Scalar UInt32),
      Member ''error'' (Scalar Int32),
      Member ''rwbs'' (Array (Scalar Char8) 8),
      Member ''__data'' (Array (Scalar Char8) 0)]"

lemma struct_trace_event_raw_block_bio_complete_layout [layout_simps]:
  "wf_type struct_trace_event_raw_block_bio_complete" "shape struct_trace_event_raw_block_bio_complete = (40, 8)"
  by (simp_all del: One_nat_def add: struct_trace_event_raw_block_bio_complete_def layout_eval layout_simps)

definition struct_trace_event_raw_block_bio :: ctype where
  "struct_trace_event_raw_block_bio =
     Composite Struct False
     [Member ''ent'' struct_trace_entry,
      Member ''dev'' typedef_dev_t,
      Member ''sector'' typedef_sector_t,
      Member ''nr_sector'' (Scalar UInt32),
      Member ''rwbs'' (Array (Scalar Char8) 8),
      Member ''comm'' (Array (Scalar Char8) 16),
      Member ''__data'' (Array (Scalar Char8) 0)]"

lemma struct_trace_event_raw_block_bio_layout [layout_simps]:
  "wf_type struct_trace_event_raw_block_bio" "shape struct_trace_event_raw_block_bio = (56, 8)"
  by (simp_all del: One_nat_def add: struct_trace_event_raw_block_bio_def layout_eval layout_simps)

definition struct_trace_event_raw_block_plug :: ctype where
  "struct_trace_event_raw_block_plug =
     Composite Struct False
     [Member ''ent'' struct_trace_entry,
      Member ''comm'' (Array (Scalar Char8) 16),
      Member ''__data'' (Array (Scalar Char8) 0)]"

lemma struct_trace_event_raw_block_plug_layout [layout_simps]:
  "wf_type struct_trace_event_raw_block_plug" "shape struct_trace_event_raw_block_plug = (24, 4)"
  by (simp_all del: One_nat_def add: struct_trace_event_raw_block_plug_def layout_eval layout_simps)

definition struct_trace_event_raw_block_unplug :: ctype where
  "struct_trace_event_raw_block_unplug =
     Composite Struct False
     [Member ''ent'' struct_trace_entry,
      Member ''nr_rq'' (Scalar Int32),
      Member ''comm'' (Array (Scalar Char8) 16),
      Member ''__data'' (Array (Scalar Char8) 0)]"

lemma struct_trace_event_raw_block_unplug_layout [layout_simps]:
  "wf_type struct_trace_event_raw_block_unplug" "shape struct_trace_event_raw_block_unplug = (28, 4)"
  by (simp_all del: One_nat_def add: struct_trace_event_raw_block_unplug_def layout_eval layout_simps)

definition struct_trace_event_raw_block_split :: ctype where
  "struct_trace_event_raw_block_split =
     Composite Struct False
     [Member ''ent'' struct_trace_entry,
      Member ''dev'' typedef_dev_t,
      Member ''sector'' typedef_sector_t,
      Member ''new_sector'' typedef_sector_t,
      Member ''rwbs'' (Array (Scalar Char8) 8),
      Member ''comm'' (Array (Scalar Char8) 16),
      Member ''__data'' (Array (Scalar Char8) 0)]"

lemma struct_trace_event_raw_block_split_layout [layout_simps]:
  "wf_type struct_trace_event_raw_block_split" "shape struct_trace_event_raw_block_split = (56, 8)"
  by (simp_all del: One_nat_def add: struct_trace_event_raw_block_split_def layout_eval layout_simps)

definition struct_trace_event_raw_block_bio_remap :: ctype where
  "struct_trace_event_raw_block_bio_remap =
     Composite Struct False
     [Member ''ent'' struct_trace_entry,
      Member ''dev'' typedef_dev_t,
      Member ''sector'' typedef_sector_t,
      Member ''nr_sector'' (Scalar UInt32),
      Member ''old_dev'' typedef_dev_t,
      Member ''old_sector'' typedef_sector_t,
      Member ''rwbs'' (Array (Scalar Char8) 8),
      Member ''__data'' (Array (Scalar Char8) 0)]"

lemma struct_trace_event_raw_block_bio_remap_layout [layout_simps]:
  "wf_type struct_trace_event_raw_block_bio_remap" "shape struct_trace_event_raw_block_bio_remap = (48, 8)"
  by (simp_all del: One_nat_def add: struct_trace_event_raw_block_bio_remap_def layout_eval layout_simps)

definition struct_trace_event_raw_block_rq_remap :: ctype where
  "struct_trace_event_raw_block_rq_remap =
     Composite Struct False
     [Member ''ent'' struct_trace_entry,
      Member ''dev'' typedef_dev_t,
      Member ''sector'' typedef_sector_t,
      Member ''nr_sector'' (Scalar UInt32),
      Member ''old_dev'' typedef_dev_t,
      Member ''old_sector'' typedef_sector_t,
      Member ''nr_bios'' (Scalar UInt32),
      Member ''rwbs'' (Array (Scalar Char8) 8),
      Member ''__data'' (Array (Scalar Char8) 0)]"

lemma struct_trace_event_raw_block_rq_remap_layout [layout_simps]:
  "wf_type struct_trace_event_raw_block_rq_remap" "shape struct_trace_event_raw_block_rq_remap = (56, 8)"
  by (simp_all del: One_nat_def add: struct_trace_event_raw_block_rq_remap_def layout_eval layout_simps)

definition struct_trace_event_raw_dma_fence :: ctype where
  "struct_trace_event_raw_dma_fence =
     Composite Struct False
     [Member ''ent'' struct_trace_entry,
      Member ''__data_loc_driver'' typedef_u32,
      Member ''__data_loc_timeline'' typedef_u32,
      Member ''context'' (Scalar UInt32),
      Member ''seqno'' (Scalar UInt32),
      Member ''__data'' (Array (Scalar Char8) 0)]"

lemma struct_trace_event_raw_dma_fence_layout [layout_simps]:
  "wf_type struct_trace_event_raw_dma_fence" "shape struct_trace_event_raw_dma_fence = (24, 4)"
  by (simp_all del: One_nat_def add: struct_trace_event_raw_dma_fence_def layout_eval layout_simps)

definition struct_trace_event_raw_cdev_update :: ctype where
  "struct_trace_event_raw_cdev_update =
     Composite Struct False
     [Member ''ent'' struct_trace_entry,
      Member ''__data_loc_type'' typedef_u32,
      Member ''target'' (Scalar ULong64),
      Member ''__data'' (Array (Scalar Char8) 0)]"

lemma struct_trace_event_raw_cdev_update_layout [layout_simps]:
  "wf_type struct_trace_event_raw_cdev_update" "shape struct_trace_event_raw_cdev_update = (24, 8)"
  by (simp_all del: One_nat_def add: struct_trace_event_raw_cdev_update_def layout_eval layout_simps)

definition struct_trace_event_raw_extlog_mem_event :: ctype where
  "struct_trace_event_raw_extlog_mem_event =
     Composite Struct False
     [Member ''ent'' struct_trace_entry,
      Member ''err_seq'' typedef_u32,
      Member ''etype'' typedef_u8,
      Member ''sev'' typedef_u8,
      Member ''pa'' typedef_u64,
      Member ''pa_mask_lsb'' typedef_u8,
      Member ''fru_id'' typedef_guid_t,
      Member ''__data_loc_fru_text'' typedef_u32,
      Member ''data'' struct_cper_mem_err_compact,
      Member ''__data'' (Array (Scalar Char8) 0)]"

lemma struct_trace_event_raw_extlog_mem_event_layout [layout_simps]:
  "wf_type struct_trace_event_raw_extlog_mem_event" "shape struct_trace_event_raw_extlog_mem_event = (104, 8)"
  by (simp_all del: One_nat_def add: struct_trace_event_raw_extlog_mem_event_def layout_eval layout_simps)

definition struct_trace_event_raw_arm_event :: ctype where
  "struct_trace_event_raw_arm_event =
     Composite Struct False
     [Member ''ent'' struct_trace_entry,
      Member ''mpidr'' typedef_u64,
      Member ''midr'' typedef_u64,
      Member ''running_state'' typedef_u32,
      Member ''psci_state'' typedef_u32,
      Member ''affinity'' typedef_u8,
      Member ''__data'' (Array (Scalar Char8) 0)]"

lemma struct_trace_event_raw_arm_event_layout [layout_simps]:
  "wf_type struct_trace_event_raw_arm_event" "shape struct_trace_event_raw_arm_event = (40, 8)"
  by (simp_all del: One_nat_def add: struct_trace_event_raw_arm_event_def layout_eval layout_simps)

definition struct_trace_event_raw_aer_event :: ctype where
  "struct_trace_event_raw_aer_event =
     Composite Struct False
     [Member ''ent'' struct_trace_entry,
      Member ''__data_loc_dev_name'' typedef_u32,
      Member ''status'' typedef_u32,
      Member ''severity'' typedef_u8,
      Member ''tlp_header_valid'' typedef_u8,
      Member ''tlp_header'' (Array typedef_u32 4),
      Member ''__data'' (Array (Scalar Char8) 0)]"

lemma struct_trace_event_raw_aer_event_layout [layout_simps]:
  "wf_type struct_trace_event_raw_aer_event" "shape struct_trace_event_raw_aer_event = (36, 4)"
  by (simp_all del: One_nat_def add: struct_trace_event_raw_aer_event_def layout_eval layout_simps)

definition struct_trace_event_raw_fib6_table_lookup :: ctype where
  "struct_trace_event_raw_fib6_table_lookup =
     Composite Struct False
     [Member ''ent'' struct_trace_entry,
      Member ''tb_id'' typedef_u32,
      Member ''err'' (Scalar Int32),
      Member ''oif'' (Scalar Int32),
      Member ''iif'' (Scalar Int32),
      Member ''tos'' typedef___u8,
      Member ''scope'' typedef___u8,
      Member ''flags'' typedef___u8,
      Member ''src'' (Array typedef___u8 16),
      Member ''dst'' (Array typedef___u8 16),
      Member ''sport'' typedef_u16,
      Member ''dport'' typedef_u16,
      Member ''proto'' typedef_u8,
      Member ''rt_type'' typedef_u8,
      Member ''name'' (Array (Scalar Char8) 16),
      Member ''gw'' (Array typedef___u8 16),
      Member ''__data'' (Array (Scalar Char8) 0)]"

lemma struct_trace_event_raw_fib6_table_lookup_layout [layout_simps]:
  "wf_type struct_trace_event_raw_fib6_table_lookup" "shape struct_trace_event_raw_fib6_table_lookup = (100, 4)"
  by (simp_all del: One_nat_def add: struct_trace_event_raw_fib6_table_lookup_def layout_eval layout_simps)

definition struct_trace_event_raw_ack_update_msk :: ctype where
  "struct_trace_event_raw_ack_update_msk =
     Composite Struct False
     [Member ''ent'' struct_trace_entry,
      Member ''data_ack'' typedef_u64,
      Member ''old_snd_una'' typedef_u64,
      Member ''new_snd_una'' typedef_u64,
      Member ''new_wnd_end'' typedef_u64,
      Member ''msk_wnd_end'' typedef_u64,
      Member ''__data'' (Array (Scalar Char8) 0)]"

lemma struct_trace_event_raw_ack_update_msk_layout [layout_simps]:
  "wf_type struct_trace_event_raw_ack_update_msk" "shape struct_trace_event_raw_ack_update_msk = (48, 8)"
  by (simp_all del: One_nat_def add: struct_trace_event_raw_ack_update_msk_def layout_eval layout_simps)

definition struct_trace_event_raw_alarmtimer_suspend :: ctype where
  "struct_trace_event_raw_alarmtimer_suspend =
     Composite Struct False
     [Member ''ent'' struct_trace_entry,
      Member ''expires'' typedef_s64,
      Member ''alarm_type'' (Scalar UChar8),
      Member ''__data'' (Array (Scalar Char8) 0)]"

lemma struct_trace_event_raw_alarmtimer_suspend_layout [layout_simps]:
  "wf_type struct_trace_event_raw_alarmtimer_suspend" "shape struct_trace_event_raw_alarmtimer_suspend = (24, 8)"
  by (simp_all del: One_nat_def add: struct_trace_event_raw_alarmtimer_suspend_def layout_eval layout_simps)

definition struct_trace_event_raw_alarm_class :: ctype where
  "struct_trace_event_raw_alarm_class =
     Composite Struct False
     [Member ''ent'' struct_trace_entry,
      Member ''alarm'' (Pointer Void),
      Member ''alarm_type'' (Scalar UChar8),
      Member ''expires'' typedef_s64,
      Member ''now'' typedef_s64,
      Member ''__data'' (Array (Scalar Char8) 0)]"

lemma struct_trace_event_raw_alarm_class_layout [layout_simps]:
  "wf_type struct_trace_event_raw_alarm_class" "shape struct_trace_event_raw_alarm_class = (40, 8)"
  by (simp_all del: One_nat_def add: struct_trace_event_raw_alarm_class_def layout_eval layout_simps)

definition struct_trace_event_raw_event_da_monitor_id :: ctype where
  "struct_trace_event_raw_event_da_monitor_id =
     Composite Struct False
     [Member ''ent'' struct_trace_entry,
      Member ''id'' (Scalar Int32),
      Member ''state'' (Array (Scalar Char8) 24),
      Member ''event'' (Array (Scalar Char8) 24),
      Member ''next_state'' (Array (Scalar Char8) 24),
      Member ''final_state'' typedef_bool,
      Member ''__data'' (Array (Scalar Char8) 0)]"

lemma struct_trace_event_raw_event_da_monitor_id_layout [layout_simps]:
  "wf_type struct_trace_event_raw_event_da_monitor_id" "shape struct_trace_event_raw_event_da_monitor_id = (88, 4)"
  by (simp_all del: One_nat_def add: struct_trace_event_raw_event_da_monitor_id_def layout_eval layout_simps)

definition struct_trace_event_raw_error_da_monitor_id :: ctype where
  "struct_trace_event_raw_error_da_monitor_id =
     Composite Struct False
     [Member ''ent'' struct_trace_entry,
      Member ''id'' (Scalar Int32),
      Member ''state'' (Array (Scalar Char8) 24),
      Member ''event'' (Array (Scalar Char8) 24),
      Member ''__data'' (Array (Scalar Char8) 0)]"

lemma struct_trace_event_raw_error_da_monitor_id_layout [layout_simps]:
  "wf_type struct_trace_event_raw_error_da_monitor_id" "shape struct_trace_event_raw_error_da_monitor_id = (60, 4)"
  by (simp_all del: One_nat_def add: struct_trace_event_raw_error_da_monitor_id_def layout_eval layout_simps)

definition struct_trace_event_raw_bpf_xdp_link_attach_failed :: ctype where
  "struct_trace_event_raw_bpf_xdp_link_attach_failed =
     Composite Struct False
     [Member ''ent'' struct_trace_entry,
      Member ''__data_loc_msg'' typedef_u32,
      Member ''__data'' (Array (Scalar Char8) 0)]"

lemma struct_trace_event_raw_bpf_xdp_link_attach_failed_layout [layout_simps]:
  "wf_type struct_trace_event_raw_bpf_xdp_link_attach_failed" "shape struct_trace_event_raw_bpf_xdp_link_attach_failed = (12, 4)"
  by (simp_all del: One_nat_def add: struct_trace_event_raw_bpf_xdp_link_attach_failed_def layout_eval layout_simps)

definition struct_trace_event_raw_context_tracking_user :: ctype where
  "struct_trace_event_raw_context_tracking_user =
     Composite Struct False
     [Member ''ent'' struct_trace_entry,
      Member ''dummy'' (Scalar Int32),
      Member ''__data'' (Array (Scalar Char8) 0)]"

lemma struct_trace_event_raw_context_tracking_user_layout [layout_simps]:
  "wf_type struct_trace_event_raw_context_tracking_user" "shape struct_trace_event_raw_context_tracking_user = (12, 4)"
  by (simp_all del: One_nat_def add: struct_trace_event_raw_context_tracking_user_def layout_eval layout_simps)

definition struct_trace_event_raw_filelock_lock :: ctype where
  "struct_trace_event_raw_filelock_lock =
     Composite Struct False
     [Member ''ent'' struct_trace_entry,
      Member ''fl'' (Pointer (Named Struct_name ''file_lock'')),
      Member ''i_ino'' (Scalar ULong64),
      Member ''s_dev'' typedef_dev_t,
      Member ''fl_blocker'' (Pointer (Named Struct_name ''file_lock'')),
      Member ''fl_owner'' typedef_fl_owner_t,
      Member ''fl_pid'' (Scalar UInt32),
      Member ''fl_flags'' (Scalar UInt32),
      Member ''fl_type'' (Scalar UChar8),
      Member ''fl_start'' typedef_loff_t,
      Member ''fl_end'' typedef_loff_t,
      Member ''ret'' (Scalar Int32),
      Member ''__data'' (Array (Scalar Char8) 0)]"

lemma struct_trace_event_raw_filelock_lock_layout [layout_simps]:
  "wf_type struct_trace_event_raw_filelock_lock" "shape struct_trace_event_raw_filelock_lock = (88, 8)"
  by (simp_all del: One_nat_def add: struct_trace_event_raw_filelock_lock_def layout_eval layout_simps)

definition struct_trace_event_raw_filelock_lease :: ctype where
  "struct_trace_event_raw_filelock_lease =
     Composite Struct False
     [Member ''ent'' struct_trace_entry,
      Member ''fl'' (Pointer (Named Struct_name ''file_lock'')),
      Member ''i_ino'' (Scalar ULong64),
      Member ''s_dev'' typedef_dev_t,
      Member ''fl_blocker'' (Pointer (Named Struct_name ''file_lock'')),
      Member ''fl_owner'' typedef_fl_owner_t,
      Member ''fl_flags'' (Scalar UInt32),
      Member ''fl_type'' (Scalar UChar8),
      Member ''fl_break_time'' (Scalar ULong64),
      Member ''fl_downgrade_time'' (Scalar ULong64),
      Member ''__data'' (Array (Scalar Char8) 0)]"

lemma struct_trace_event_raw_filelock_lease_layout [layout_simps]:
  "wf_type struct_trace_event_raw_filelock_lease" "shape struct_trace_event_raw_filelock_lease = (72, 8)"
  by (simp_all del: One_nat_def add: struct_trace_event_raw_filelock_lease_def layout_eval layout_simps)

definition struct_trace_event_raw_devres :: ctype where
  "struct_trace_event_raw_devres =
     Composite Struct False
     [Member ''ent'' struct_trace_entry,
      Member ''__data_loc_devname'' typedef_u32,
      Member ''dev'' (Pointer (Named Struct_name ''device'')),
      Member ''op'' (Pointer (Scalar Char8)),
      Member ''node'' (Pointer Void),
      Member ''__data_loc_name'' typedef_u32,
      Member ''size'' typedef_size_t,
      Member ''__data'' (Array (Scalar Char8) 0)]"

lemma struct_trace_event_raw_devres_layout [layout_simps]:
  "wf_type struct_trace_event_raw_devres" "shape struct_trace_event_raw_devres = (56, 8)"
  by (simp_all del: One_nat_def add: struct_trace_event_raw_devres_def layout_eval layout_simps)

definition struct_trace_event_raw_amd_pstate_perf :: ctype where
  "struct_trace_event_raw_amd_pstate_perf =
     Composite Struct False
     [Member ''ent'' struct_trace_entry,
      Member ''min_perf'' (Scalar ULong64),
      Member ''target_perf'' (Scalar ULong64),
      Member ''capacity'' (Scalar ULong64),
      Member ''freq'' (Scalar ULongLong64),
      Member ''mperf'' (Scalar ULongLong64),
      Member ''aperf'' (Scalar ULongLong64),
      Member ''tsc'' (Scalar ULongLong64),
      Member ''cpu_id'' (Scalar UInt32),
      Member ''changed'' typedef_bool,
      Member ''fast_switch'' typedef_bool,
      Member ''__data'' (Array (Scalar Char8) 0)]"

lemma struct_trace_event_raw_amd_pstate_perf_layout [layout_simps]:
  "wf_type struct_trace_event_raw_amd_pstate_perf" "shape struct_trace_event_raw_amd_pstate_perf = (72, 8)"
  by (simp_all del: One_nat_def add: struct_trace_event_raw_amd_pstate_perf_def layout_eval layout_simps)

definition struct_trace_event_raw_devlink_hwmsg :: ctype where
  "struct_trace_event_raw_devlink_hwmsg =
     Composite Struct False
     [Member ''ent'' struct_trace_entry,
      Member ''__data_loc_bus_name'' typedef_u32,
      Member ''__data_loc_dev_name'' typedef_u32,
      Member ''__data_loc_driver_name'' typedef_u32,
      Member ''incoming'' typedef_bool,
      Member ''type'' (Scalar ULong64),
      Member ''__data_loc_buf'' typedef_u32,
      Member ''len'' typedef_size_t,
      Member ''__data'' (Array (Scalar Char8) 0)]"

lemma struct_trace_event_raw_devlink_hwmsg_layout [layout_simps]:
  "wf_type struct_trace_event_raw_devlink_hwmsg" "shape struct_trace_event_raw_devlink_hwmsg = (48, 8)"
  by (simp_all del: One_nat_def add: struct_trace_event_raw_devlink_hwmsg_def layout_eval layout_simps)

definition struct_trace_event_raw_devlink_hwerr :: ctype where
  "struct_trace_event_raw_devlink_hwerr =
     Composite Struct False
     [Member ''ent'' struct_trace_entry,
      Member ''__data_loc_bus_name'' typedef_u32,
      Member ''__data_loc_dev_name'' typedef_u32,
      Member ''__data_loc_driver_name'' typedef_u32,
      Member ''err'' (Scalar Int32),
      Member ''__data_loc_msg'' typedef_u32,
      Member ''__data'' (Array (Scalar Char8) 0)]"

lemma struct_trace_event_raw_devlink_hwerr_layout [layout_simps]:
  "wf_type struct_trace_event_raw_devlink_hwerr" "shape struct_trace_event_raw_devlink_hwerr = (28, 4)"
  by (simp_all del: One_nat_def add: struct_trace_event_raw_devlink_hwerr_def layout_eval layout_simps)

definition struct_trace_event_raw_devlink_health_report :: ctype where
  "struct_trace_event_raw_devlink_health_report =
     Composite Struct False
     [Member ''ent'' struct_trace_entry,
      Member ''__data_loc_bus_name'' typedef_u32,
      Member ''__data_loc_dev_name'' typedef_u32,
      Member ''__data_loc_driver_name'' typedef_u32,
      Member ''__data_loc_reporter_name'' typedef_u32,
      Member ''__data_loc_msg'' typedef_u32,
      Member ''__data'' (Array (Scalar Char8) 0)]"

lemma struct_trace_event_raw_devlink_health_report_layout [layout_simps]:
  "wf_type struct_trace_event_raw_devlink_health_report" "shape struct_trace_event_raw_devlink_health_report = (28, 4)"
  by (simp_all del: One_nat_def add: struct_trace_event_raw_devlink_health_report_def layout_eval layout_simps)

definition struct_trace_event_raw_devlink_health_recover_aborted :: ctype where
  "struct_trace_event_raw_devlink_health_recover_aborted =
     Composite Struct False
     [Member ''ent'' struct_trace_entry,
      Member ''__data_loc_bus_name'' typedef_u32,
      Member ''__data_loc_dev_name'' typedef_u32,
      Member ''__data_loc_driver_name'' typedef_u32,
      Member ''__data_loc_reporter_name'' typedef_u32,
      Member ''health_state'' typedef_bool,
      Member ''time_since_last_recover'' typedef_u64,
      Member ''__data'' (Array (Scalar Char8) 0)]"

lemma struct_trace_event_raw_devlink_health_recover_aborted_layout [layout_simps]:
  "wf_type struct_trace_event_raw_devlink_health_recover_aborted" "shape struct_trace_event_raw_devlink_health_recover_aborted = (40, 8)"
  by (simp_all del: One_nat_def add: struct_trace_event_raw_devlink_health_recover_aborted_def layout_eval layout_simps)

definition struct_trace_event_raw_devlink_health_reporter_state_update :: ctype where
  "struct_trace_event_raw_devlink_health_reporter_state_update =
     Composite Struct False
     [Member ''ent'' struct_trace_entry,
      Member ''__data_loc_bus_name'' typedef_u32,
      Member ''__data_loc_dev_name'' typedef_u32,
      Member ''__data_loc_driver_name'' typedef_u32,
      Member ''__data_loc_reporter_name'' typedef_u32,
      Member ''new_state'' typedef_u8,
      Member ''__data'' (Array (Scalar Char8) 0)]"

lemma struct_trace_event_raw_devlink_health_reporter_state_update_layout [layout_simps]:
  "wf_type struct_trace_event_raw_devlink_health_reporter_state_update" "shape struct_trace_event_raw_devlink_health_reporter_state_update = (28, 4)"
  by (simp_all del: One_nat_def add: struct_trace_event_raw_devlink_health_reporter_state_update_def layout_eval layout_simps)

definition struct_trace_event_raw_devlink_trap_report :: ctype where
  "struct_trace_event_raw_devlink_trap_report =
     Composite Struct False
     [Member ''ent'' struct_trace_entry,
      Member ''__data_loc_bus_name'' typedef_u32,
      Member ''__data_loc_dev_name'' typedef_u32,
      Member ''__data_loc_driver_name'' typedef_u32,
      Member ''__data_loc_trap_name'' typedef_u32,
      Member ''__data_loc_trap_group_name'' typedef_u32,
      Member ''input_dev_name'' (Array (Scalar Char8) 16),
      Member ''__data'' (Array (Scalar Char8) 0)]"

lemma struct_trace_event_raw_devlink_trap_report_layout [layout_simps]:
  "wf_type struct_trace_event_raw_devlink_trap_report" "shape struct_trace_event_raw_devlink_trap_report = (44, 4)"
  by (simp_all del: One_nat_def add: struct_trace_event_raw_devlink_trap_report_def layout_eval layout_simps)

definition struct_trace_event_raw_console :: ctype where
  "struct_trace_event_raw_console =
     Composite Struct False
     [Member ''ent'' struct_trace_entry,
      Member ''__data_loc_msg'' typedef_u32,
      Member ''__data'' (Array (Scalar Char8) 0)]"

lemma struct_trace_event_raw_console_layout [layout_simps]:
  "wf_type struct_trace_event_raw_console" "shape struct_trace_event_raw_console = (12, 4)"
  by (simp_all del: One_nat_def add: struct_trace_event_raw_console_def layout_eval layout_simps)

definition struct_trace_event_raw_bpf_trace_printk :: ctype where
  "struct_trace_event_raw_bpf_trace_printk =
     Composite Struct False
     [Member ''ent'' struct_trace_entry,
      Member ''__data_loc_bpf_string'' typedef_u32,
      Member ''__data'' (Array (Scalar Char8) 0)]"

lemma struct_trace_event_raw_bpf_trace_printk_layout [layout_simps]:
  "wf_type struct_trace_event_raw_bpf_trace_printk" "shape struct_trace_event_raw_bpf_trace_printk = (12, 4)"
  by (simp_all del: One_nat_def add: struct_trace_event_raw_bpf_trace_printk_def layout_eval layout_simps)

definition struct_trace_event_raw_finish_task_reaping :: ctype where
  "struct_trace_event_raw_finish_task_reaping =
     Composite Struct False
     [Member ''ent'' struct_trace_entry,
      Member ''pid'' (Scalar Int32),
      Member ''__data'' (Array (Scalar Char8) 0)]"

lemma struct_trace_event_raw_finish_task_reaping_layout [layout_simps]:
  "wf_type struct_trace_event_raw_finish_task_reaping" "shape struct_trace_event_raw_finish_task_reaping = (12, 4)"
  by (simp_all del: One_nat_def add: struct_trace_event_raw_finish_task_reaping_def layout_eval layout_simps)

definition struct_trace_event_raw_compact_retry :: ctype where
  "struct_trace_event_raw_compact_retry =
     Composite Struct False
     [Member ''ent'' struct_trace_entry,
      Member ''order'' (Scalar Int32),
      Member ''priority'' (Scalar Int32),
      Member ''result'' (Scalar Int32),
      Member ''retries'' (Scalar Int32),
      Member ''max_retries'' (Scalar Int32),
      Member ''ret'' typedef_bool,
      Member ''__data'' (Array (Scalar Char8) 0)]"

lemma struct_trace_event_raw_compact_retry_layout [layout_simps]:
  "wf_type struct_trace_event_raw_compact_retry" "shape struct_trace_event_raw_compact_retry = (32, 4)"
  by (simp_all del: One_nat_def add: struct_trace_event_raw_compact_retry_def layout_eval layout_simps)

definition struct_trace_event_raw_exit_mmap :: ctype where
  "struct_trace_event_raw_exit_mmap =
     Composite Struct False
     [Member ''ent'' struct_trace_entry,
      Member ''mm'' (Pointer (Named Struct_name ''mm_struct'')),
      Member ''mt'' (Pointer (Named Struct_name ''maple_tree'')),
      Member ''__data'' (Array (Scalar Char8) 0)]"

lemma struct_trace_event_raw_exit_mmap_layout [layout_simps]:
  "wf_type struct_trace_event_raw_exit_mmap" "shape struct_trace_event_raw_exit_mmap = (24, 8)"
  by (simp_all del: One_nat_def add: struct_trace_event_raw_exit_mmap_def layout_eval layout_simps)

definition struct_trace_event_raw_ext4_other_inode_update_time :: ctype where
  "struct_trace_event_raw_ext4_other_inode_update_time =
     Composite Struct False
     [Member ''ent'' struct_trace_entry,
      Member ''dev'' typedef_dev_t,
      Member ''ino'' typedef_ino_t,
      Member ''orig_ino'' typedef_ino_t,
      Member ''uid'' typedef_uid_t,
      Member ''gid'' typedef_gid_t,
      Member ''mode'' typedef___u16,
      Member ''__data'' (Array (Scalar Char8) 0)]"

lemma struct_trace_event_raw_ext4_other_inode_update_time_layout [layout_simps]:
  "wf_type struct_trace_event_raw_ext4_other_inode_update_time" "shape struct_trace_event_raw_ext4_other_inode_update_time = (48, 8)"
  by (simp_all del: One_nat_def add: struct_trace_event_raw_ext4_other_inode_update_time_def layout_eval layout_simps)

definition struct_trace_event_raw_ext4_free_inode :: ctype where
  "struct_trace_event_raw_ext4_free_inode =
     Composite Struct False
     [Member ''ent'' struct_trace_entry,
      Member ''dev'' typedef_dev_t,
      Member ''ino'' typedef_ino_t,
      Member ''uid'' typedef_uid_t,
      Member ''gid'' typedef_gid_t,
      Member ''blocks'' typedef___u64,
      Member ''mode'' typedef___u16,
      Member ''__data'' (Array (Scalar Char8) 0)]"

lemma struct_trace_event_raw_ext4_free_inode_layout [layout_simps]:
  "wf_type struct_trace_event_raw_ext4_free_inode" "shape struct_trace_event_raw_ext4_free_inode = (48, 8)"
  by (simp_all del: One_nat_def add: struct_trace_event_raw_ext4_free_inode_def layout_eval layout_simps)

definition struct_trace_event_raw_ext4_request_inode :: ctype where
  "struct_trace_event_raw_ext4_request_inode =
     Composite Struct False
     [Member ''ent'' struct_trace_entry,
      Member ''dev'' typedef_dev_t,
      Member ''dir'' typedef_ino_t,
      Member ''mode'' typedef___u16,
      Member ''__data'' (Array (Scalar Char8) 0)]"

lemma struct_trace_event_raw_ext4_request_inode_layout [layout_simps]:
  "wf_type struct_trace_event_raw_ext4_request_inode" "shape struct_trace_event_raw_ext4_request_inode = (32, 8)"
  by (simp_all del: One_nat_def add: struct_trace_event_raw_ext4_request_inode_def layout_eval layout_simps)

definition struct_trace_event_raw_ext4_allocate_inode :: ctype where
  "struct_trace_event_raw_ext4_allocate_inode =
     Composite Struct False
     [Member ''ent'' struct_trace_entry,
      Member ''dev'' typedef_dev_t,
      Member ''ino'' typedef_ino_t,
      Member ''dir'' typedef_ino_t,
      Member ''mode'' typedef___u16,
      Member ''__data'' (Array (Scalar Char8) 0)]"

lemma struct_trace_event_raw_ext4_allocate_inode_layout [layout_simps]:
  "wf_type struct_trace_event_raw_ext4_allocate_inode" "shape struct_trace_event_raw_ext4_allocate_inode = (40, 8)"
  by (simp_all del: One_nat_def add: struct_trace_event_raw_ext4_allocate_inode_def layout_eval layout_simps)

definition struct_trace_event_raw_ext4_evict_inode :: ctype where
  "struct_trace_event_raw_ext4_evict_inode =
     Composite Struct False
     [Member ''ent'' struct_trace_entry,
      Member ''dev'' typedef_dev_t,
      Member ''ino'' typedef_ino_t,
      Member ''nlink'' (Scalar Int32),
      Member ''__data'' (Array (Scalar Char8) 0)]"

lemma struct_trace_event_raw_ext4_evict_inode_layout [layout_simps]:
  "wf_type struct_trace_event_raw_ext4_evict_inode" "shape struct_trace_event_raw_ext4_evict_inode = (32, 8)"
  by (simp_all del: One_nat_def add: struct_trace_event_raw_ext4_evict_inode_def layout_eval layout_simps)

definition struct_trace_event_raw_ext4_drop_inode :: ctype where
  "struct_trace_event_raw_ext4_drop_inode =
     Composite Struct False
     [Member ''ent'' struct_trace_entry,
      Member ''dev'' typedef_dev_t,
      Member ''ino'' typedef_ino_t,
      Member ''drop'' (Scalar Int32),
      Member ''__data'' (Array (Scalar Char8) 0)]"

lemma struct_trace_event_raw_ext4_drop_inode_layout [layout_simps]:
  "wf_type struct_trace_event_raw_ext4_drop_inode" "shape struct_trace_event_raw_ext4_drop_inode = (32, 8)"
  by (simp_all del: One_nat_def add: struct_trace_event_raw_ext4_drop_inode_def layout_eval layout_simps)

definition struct_trace_event_raw_ext4_nfs_commit_metadata :: ctype where
  "struct_trace_event_raw_ext4_nfs_commit_metadata =
     Composite Struct False
     [Member ''ent'' struct_trace_entry,
      Member ''dev'' typedef_dev_t,
      Member ''ino'' typedef_ino_t,
      Member ''__data'' (Array (Scalar Char8) 0)]"

lemma struct_trace_event_raw_ext4_nfs_commit_metadata_layout [layout_simps]:
  "wf_type struct_trace_event_raw_ext4_nfs_commit_metadata" "shape struct_trace_event_raw_ext4_nfs_commit_metadata = (24, 8)"
  by (simp_all del: One_nat_def add: struct_trace_event_raw_ext4_nfs_commit_metadata_def layout_eval layout_simps)

definition struct_trace_event_raw_ext4_mark_inode_dirty :: ctype where
  "struct_trace_event_raw_ext4_mark_inode_dirty =
     Composite Struct False
     [Member ''ent'' struct_trace_entry,
      Member ''dev'' typedef_dev_t,
      Member ''ino'' typedef_ino_t,
      Member ''ip'' (Scalar ULong64),
      Member ''__data'' (Array (Scalar Char8) 0)]"

lemma struct_trace_event_raw_ext4_mark_inode_dirty_layout [layout_simps]:
  "wf_type struct_trace_event_raw_ext4_mark_inode_dirty" "shape struct_trace_event_raw_ext4_mark_inode_dirty = (32, 8)"
  by (simp_all del: One_nat_def add: struct_trace_event_raw_ext4_mark_inode_dirty_def layout_eval layout_simps)

definition struct_trace_event_raw_ext4_begin_ordered_truncate :: ctype where
  "struct_trace_event_raw_ext4_begin_ordered_truncate =
     Composite Struct False
     [Member ''ent'' struct_trace_entry,
      Member ''dev'' typedef_dev_t,
      Member ''ino'' typedef_ino_t,
      Member ''new_size'' typedef_loff_t,
      Member ''__data'' (Array (Scalar Char8) 0)]"

lemma struct_trace_event_raw_ext4_begin_ordered_truncate_layout [layout_simps]:
  "wf_type struct_trace_event_raw_ext4_begin_ordered_truncate" "shape struct_trace_event_raw_ext4_begin_ordered_truncate = (32, 8)"
  by (simp_all del: One_nat_def add: struct_trace_event_raw_ext4_begin_ordered_truncate_def layout_eval layout_simps)

definition struct_trace_event_raw_ext4__write_begin :: ctype where
  "struct_trace_event_raw_ext4__write_begin =
     Composite Struct False
     [Member ''ent'' struct_trace_entry,
      Member ''dev'' typedef_dev_t,
      Member ''ino'' typedef_ino_t,
      Member ''pos'' typedef_loff_t,
      Member ''len'' (Scalar UInt32),
      Member ''__data'' (Array (Scalar Char8) 0)]"

lemma struct_trace_event_raw_ext4__write_begin_layout [layout_simps]:
  "wf_type struct_trace_event_raw_ext4__write_begin" "shape struct_trace_event_raw_ext4__write_begin = (40, 8)"
  by (simp_all del: One_nat_def add: struct_trace_event_raw_ext4__write_begin_def layout_eval layout_simps)

definition struct_trace_event_raw_ext4__write_end :: ctype where
  "struct_trace_event_raw_ext4__write_end =
     Composite Struct False
     [Member ''ent'' struct_trace_entry,
      Member ''dev'' typedef_dev_t,
      Member ''ino'' typedef_ino_t,
      Member ''pos'' typedef_loff_t,
      Member ''len'' (Scalar UInt32),
      Member ''copied'' (Scalar UInt32),
      Member ''__data'' (Array (Scalar Char8) 0)]"

lemma struct_trace_event_raw_ext4__write_end_layout [layout_simps]:
  "wf_type struct_trace_event_raw_ext4__write_end" "shape struct_trace_event_raw_ext4__write_end = (40, 8)"
  by (simp_all del: One_nat_def add: struct_trace_event_raw_ext4__write_end_def layout_eval layout_simps)

definition struct_trace_event_raw_ext4_writepages :: ctype where
  "struct_trace_event_raw_ext4_writepages =
     Composite Struct False
     [Member ''ent'' struct_trace_entry,
      Member ''dev'' typedef_dev_t,
      Member ''ino'' typedef_ino_t,
      Member ''nr_to_write'' (Scalar Long64),
      Member ''pages_skipped'' (Scalar Long64),
      Member ''range_start'' typedef_loff_t,
      Member ''range_end'' typedef_loff_t,
      Member ''writeback_index'' (Scalar ULong64),
      Member ''sync_mode'' (Scalar Int32),
      Member ''for_kupdate'' (Scalar Char8),
      Member ''range_cyclic'' (Scalar Char8),
      Member ''__data'' (Array (Scalar Char8) 0)]"

lemma struct_trace_event_raw_ext4_writepages_layout [layout_simps]:
  "wf_type struct_trace_event_raw_ext4_writepages" "shape struct_trace_event_raw_ext4_writepages = (72, 8)"
  by (simp_all del: One_nat_def add: struct_trace_event_raw_ext4_writepages_def layout_eval layout_simps)

definition struct_trace_event_raw_ext4_da_write_pages :: ctype where
  "struct_trace_event_raw_ext4_da_write_pages =
     Composite Struct False
     [Member ''ent'' struct_trace_entry,
      Member ''dev'' typedef_dev_t,
      Member ''ino'' typedef_ino_t,
      Member ''first_page'' (Scalar ULong64),
      Member ''nr_to_write'' (Scalar Long64),
      Member ''sync_mode'' (Scalar Int32),
      Member ''__data'' (Array (Scalar Char8) 0)]"

lemma struct_trace_event_raw_ext4_da_write_pages_layout [layout_simps]:
  "wf_type struct_trace_event_raw_ext4_da_write_pages" "shape struct_trace_event_raw_ext4_da_write_pages = (48, 8)"
  by (simp_all del: One_nat_def add: struct_trace_event_raw_ext4_da_write_pages_def layout_eval layout_simps)

definition struct_trace_event_raw_ext4_da_write_pages_extent :: ctype where
  "struct_trace_event_raw_ext4_da_write_pages_extent =
     Composite Struct False
     [Member ''ent'' struct_trace_entry,
      Member ''dev'' typedef_dev_t,
      Member ''ino'' typedef_ino_t,
      Member ''lblk'' typedef___u64,
      Member ''len'' typedef___u32,
      Member ''flags'' typedef___u32,
      Member ''__data'' (Array (Scalar Char8) 0)]"

lemma struct_trace_event_raw_ext4_da_write_pages_extent_layout [layout_simps]:
  "wf_type struct_trace_event_raw_ext4_da_write_pages_extent" "shape struct_trace_event_raw_ext4_da_write_pages_extent = (40, 8)"
  by (simp_all del: One_nat_def add: struct_trace_event_raw_ext4_da_write_pages_extent_def layout_eval layout_simps)

definition struct_trace_event_raw_ext4_writepages_result :: ctype where
  "struct_trace_event_raw_ext4_writepages_result =
     Composite Struct False
     [Member ''ent'' struct_trace_entry,
      Member ''dev'' typedef_dev_t,
      Member ''ino'' typedef_ino_t,
      Member ''ret'' (Scalar Int32),
      Member ''pages_written'' (Scalar Int32),
      Member ''pages_skipped'' (Scalar Long64),
      Member ''writeback_index'' (Scalar ULong64),
      Member ''sync_mode'' (Scalar Int32),
      Member ''__data'' (Array (Scalar Char8) 0)]"

lemma struct_trace_event_raw_ext4_writepages_result_layout [layout_simps]:
  "wf_type struct_trace_event_raw_ext4_writepages_result" "shape struct_trace_event_raw_ext4_writepages_result = (56, 8)"
  by (simp_all del: One_nat_def add: struct_trace_event_raw_ext4_writepages_result_def layout_eval layout_simps)

definition struct_trace_event_raw_ext4__folio_op :: ctype where
  "struct_trace_event_raw_ext4__folio_op =
     Composite Struct False
     [Member ''ent'' struct_trace_entry,
      Member ''dev'' typedef_dev_t,
      Member ''ino'' typedef_ino_t,
      Member ''index'' (Scalar ULong64),
      Member ''__data'' (Array (Scalar Char8) 0)]"

lemma struct_trace_event_raw_ext4__folio_op_layout [layout_simps]:
  "wf_type struct_trace_event_raw_ext4__folio_op" "shape struct_trace_event_raw_ext4__folio_op = (32, 8)"
  by (simp_all del: One_nat_def add: struct_trace_event_raw_ext4__folio_op_def layout_eval layout_simps)

definition struct_trace_event_raw_ext4_invalidate_folio_op :: ctype where
  "struct_trace_event_raw_ext4_invalidate_folio_op =
     Composite Struct False
     [Member ''ent'' struct_trace_entry,
      Member ''dev'' typedef_dev_t,
      Member ''ino'' typedef_ino_t,
      Member ''index'' (Scalar ULong64),
      Member ''offset'' typedef_size_t,
      Member ''length'' typedef_size_t,
      Member ''__data'' (Array (Scalar Char8) 0)]"

lemma struct_trace_event_raw_ext4_invalidate_folio_op_layout [layout_simps]:
  "wf_type struct_trace_event_raw_ext4_invalidate_folio_op" "shape struct_trace_event_raw_ext4_invalidate_folio_op = (48, 8)"
  by (simp_all del: One_nat_def add: struct_trace_event_raw_ext4_invalidate_folio_op_def layout_eval layout_simps)

definition struct_trace_event_raw_ext4_discard_blocks :: ctype where
  "struct_trace_event_raw_ext4_discard_blocks =
     Composite Struct False
     [Member ''ent'' struct_trace_entry,
      Member ''dev'' typedef_dev_t,
      Member ''blk'' typedef___u64,
      Member ''count'' typedef___u64,
      Member ''__data'' (Array (Scalar Char8) 0)]"

lemma struct_trace_event_raw_ext4_discard_blocks_layout [layout_simps]:
  "wf_type struct_trace_event_raw_ext4_discard_blocks" "shape struct_trace_event_raw_ext4_discard_blocks = (32, 8)"
  by (simp_all del: One_nat_def add: struct_trace_event_raw_ext4_discard_blocks_def layout_eval layout_simps)

definition struct_trace_event_raw_ext4__mb_new_pa :: ctype where
  "struct_trace_event_raw_ext4__mb_new_pa =
     Composite Struct False
     [Member ''ent'' struct_trace_entry,
      Member ''dev'' typedef_dev_t,
      Member ''ino'' typedef_ino_t,
      Member ''pa_pstart'' typedef___u64,
      Member ''pa_lstart'' typedef___u64,
      Member ''pa_len'' typedef___u32,
      Member ''__data'' (Array (Scalar Char8) 0)]"

lemma struct_trace_event_raw_ext4__mb_new_pa_layout [layout_simps]:
  "wf_type struct_trace_event_raw_ext4__mb_new_pa" "shape struct_trace_event_raw_ext4__mb_new_pa = (48, 8)"
  by (simp_all del: One_nat_def add: struct_trace_event_raw_ext4__mb_new_pa_def layout_eval layout_simps)

definition struct_trace_event_raw_ext4_mb_release_inode_pa :: ctype where
  "struct_trace_event_raw_ext4_mb_release_inode_pa =
     Composite Struct False
     [Member ''ent'' struct_trace_entry,
      Member ''dev'' typedef_dev_t,
      Member ''ino'' typedef_ino_t,
      Member ''block'' typedef___u64,
      Member ''count'' typedef___u32,
      Member ''__data'' (Array (Scalar Char8) 0)]"

lemma struct_trace_event_raw_ext4_mb_release_inode_pa_layout [layout_simps]:
  "wf_type struct_trace_event_raw_ext4_mb_release_inode_pa" "shape struct_trace_event_raw_ext4_mb_release_inode_pa = (40, 8)"
  by (simp_all del: One_nat_def add: struct_trace_event_raw_ext4_mb_release_inode_pa_def layout_eval layout_simps)

definition struct_trace_event_raw_ext4_mb_release_group_pa :: ctype where
  "struct_trace_event_raw_ext4_mb_release_group_pa =
     Composite Struct False
     [Member ''ent'' struct_trace_entry,
      Member ''dev'' typedef_dev_t,
      Member ''pa_pstart'' typedef___u64,
      Member ''pa_len'' typedef___u32,
      Member ''__data'' (Array (Scalar Char8) 0)]"

lemma struct_trace_event_raw_ext4_mb_release_group_pa_layout [layout_simps]:
  "wf_type struct_trace_event_raw_ext4_mb_release_group_pa" "shape struct_trace_event_raw_ext4_mb_release_group_pa = (32, 8)"
  by (simp_all del: One_nat_def add: struct_trace_event_raw_ext4_mb_release_group_pa_def layout_eval layout_simps)

definition struct_trace_event_raw_ext4_discard_preallocations :: ctype where
  "struct_trace_event_raw_ext4_discard_preallocations =
     Composite Struct False
     [Member ''ent'' struct_trace_entry,
      Member ''dev'' typedef_dev_t,
      Member ''ino'' typedef_ino_t,
      Member ''len'' (Scalar UInt32),
      Member ''__data'' (Array (Scalar Char8) 0)]"

lemma struct_trace_event_raw_ext4_discard_preallocations_layout [layout_simps]:
  "wf_type struct_trace_event_raw_ext4_discard_preallocations" "shape struct_trace_event_raw_ext4_discard_preallocations = (32, 8)"
  by (simp_all del: One_nat_def add: struct_trace_event_raw_ext4_discard_preallocations_def layout_eval layout_simps)

definition struct_trace_event_raw_ext4_mb_discard_preallocations :: ctype where
  "struct_trace_event_raw_ext4_mb_discard_preallocations =
     Composite Struct False
     [Member ''ent'' struct_trace_entry,
      Member ''dev'' typedef_dev_t,
      Member ''needed'' (Scalar Int32),
      Member ''__data'' (Array (Scalar Char8) 0)]"

lemma struct_trace_event_raw_ext4_mb_discard_preallocations_layout [layout_simps]:
  "wf_type struct_trace_event_raw_ext4_mb_discard_preallocations" "shape struct_trace_event_raw_ext4_mb_discard_preallocations = (16, 4)"
  by (simp_all del: One_nat_def add: struct_trace_event_raw_ext4_mb_discard_preallocations_def layout_eval layout_simps)

definition struct_trace_event_raw_ext4_request_blocks :: ctype where
  "struct_trace_event_raw_ext4_request_blocks =
     Composite Struct False
     [Member ''ent'' struct_trace_entry,
      Member ''dev'' typedef_dev_t,
      Member ''ino'' typedef_ino_t,
      Member ''len'' (Scalar UInt32),
      Member ''logical'' typedef___u32,
      Member ''lleft'' typedef___u32,
      Member ''lright'' typedef___u32,
      Member ''goal'' typedef___u64,
      Member ''pleft'' typedef___u64,
      Member ''pright'' typedef___u64,
      Member ''flags'' (Scalar UInt32),
      Member ''__data'' (Array (Scalar Char8) 0)]"

lemma struct_trace_event_raw_ext4_request_blocks_layout [layout_simps]:
  "wf_type struct_trace_event_raw_ext4_request_blocks" "shape struct_trace_event_raw_ext4_request_blocks = (72, 8)"
  by (simp_all del: One_nat_def add: struct_trace_event_raw_ext4_request_blocks_def layout_eval layout_simps)

definition struct_trace_event_raw_ext4_allocate_blocks :: ctype where
  "struct_trace_event_raw_ext4_allocate_blocks =
     Composite Struct False
     [Member ''ent'' struct_trace_entry,
      Member ''dev'' typedef_dev_t,
      Member ''ino'' typedef_ino_t,
      Member ''block'' typedef___u64,
      Member ''len'' (Scalar UInt32),
      Member ''logical'' typedef___u32,
      Member ''lleft'' typedef___u32,
      Member ''lright'' typedef___u32,
      Member ''goal'' typedef___u64,
      Member ''pleft'' typedef___u64,
      Member ''pright'' typedef___u64,
      Member ''flags'' (Scalar UInt32),
      Member ''__data'' (Array (Scalar Char8) 0)]"

lemma struct_trace_event_raw_ext4_allocate_blocks_layout [layout_simps]:
  "wf_type struct_trace_event_raw_ext4_allocate_blocks" "shape struct_trace_event_raw_ext4_allocate_blocks = (80, 8)"
  by (simp_all del: One_nat_def add: struct_trace_event_raw_ext4_allocate_blocks_def layout_eval layout_simps)

definition struct_trace_event_raw_ext4_free_blocks :: ctype where
  "struct_trace_event_raw_ext4_free_blocks =
     Composite Struct False
     [Member ''ent'' struct_trace_entry,
      Member ''dev'' typedef_dev_t,
      Member ''ino'' typedef_ino_t,
      Member ''block'' typedef___u64,
      Member ''count'' (Scalar ULong64),
      Member ''flags'' (Scalar Int32),
      Member ''mode'' typedef___u16,
      Member ''__data'' (Array (Scalar Char8) 0)]"

lemma struct_trace_event_raw_ext4_free_blocks_layout [layout_simps]:
  "wf_type struct_trace_event_raw_ext4_free_blocks" "shape struct_trace_event_raw_ext4_free_blocks = (48, 8)"
  by (simp_all del: One_nat_def add: struct_trace_event_raw_ext4_free_blocks_def layout_eval layout_simps)

definition struct_trace_event_raw_ext4_sync_file_enter :: ctype where
  "struct_trace_event_raw_ext4_sync_file_enter =
     Composite Struct False
     [Member ''ent'' struct_trace_entry,
      Member ''dev'' typedef_dev_t,
      Member ''ino'' typedef_ino_t,
      Member ''parent'' typedef_ino_t,
      Member ''datasync'' (Scalar Int32),
      Member ''__data'' (Array (Scalar Char8) 0)]"

lemma struct_trace_event_raw_ext4_sync_file_enter_layout [layout_simps]:
  "wf_type struct_trace_event_raw_ext4_sync_file_enter" "shape struct_trace_event_raw_ext4_sync_file_enter = (40, 8)"
  by (simp_all del: One_nat_def add: struct_trace_event_raw_ext4_sync_file_enter_def layout_eval layout_simps)

definition struct_trace_event_raw_ext4_sync_file_exit :: ctype where
  "struct_trace_event_raw_ext4_sync_file_exit =
     Composite Struct False
     [Member ''ent'' struct_trace_entry,
      Member ''dev'' typedef_dev_t,
      Member ''ino'' typedef_ino_t,
      Member ''ret'' (Scalar Int32),
      Member ''__data'' (Array (Scalar Char8) 0)]"

lemma struct_trace_event_raw_ext4_sync_file_exit_layout [layout_simps]:
  "wf_type struct_trace_event_raw_ext4_sync_file_exit" "shape struct_trace_event_raw_ext4_sync_file_exit = (32, 8)"
  by (simp_all del: One_nat_def add: struct_trace_event_raw_ext4_sync_file_exit_def layout_eval layout_simps)

definition struct_trace_event_raw_ext4_sync_fs :: ctype where
  "struct_trace_event_raw_ext4_sync_fs =
     Composite Struct False
     [Member ''ent'' struct_trace_entry,
      Member ''dev'' typedef_dev_t,
      Member ''wait'' (Scalar Int32),
      Member ''__data'' (Array (Scalar Char8) 0)]"

lemma struct_trace_event_raw_ext4_sync_fs_layout [layout_simps]:
  "wf_type struct_trace_event_raw_ext4_sync_fs" "shape struct_trace_event_raw_ext4_sync_fs = (16, 4)"
  by (simp_all del: One_nat_def add: struct_trace_event_raw_ext4_sync_fs_def layout_eval layout_simps)

definition struct_trace_event_raw_ext4_alloc_da_blocks :: ctype where
  "struct_trace_event_raw_ext4_alloc_da_blocks =
     Composite Struct False
     [Member ''ent'' struct_trace_entry,
      Member ''dev'' typedef_dev_t,
      Member ''ino'' typedef_ino_t,
      Member ''data_blocks'' (Scalar UInt32),
      Member ''__data'' (Array (Scalar Char8) 0)]"

lemma struct_trace_event_raw_ext4_alloc_da_blocks_layout [layout_simps]:
  "wf_type struct_trace_event_raw_ext4_alloc_da_blocks" "shape struct_trace_event_raw_ext4_alloc_da_blocks = (32, 8)"
  by (simp_all del: One_nat_def add: struct_trace_event_raw_ext4_alloc_da_blocks_def layout_eval layout_simps)

definition struct_trace_event_raw_ext4_mballoc_alloc :: ctype where
  "struct_trace_event_raw_ext4_mballoc_alloc =
     Composite Struct False
     [Member ''ent'' struct_trace_entry,
      Member ''dev'' typedef_dev_t,
      Member ''ino'' typedef_ino_t,
      Member ''orig_logical'' typedef___u32,
      Member ''orig_start'' (Scalar Int32),
      Member ''orig_group'' typedef___u32,
      Member ''orig_len'' (Scalar Int32),
      Member ''goal_logical'' typedef___u32,
      Member ''goal_start'' (Scalar Int32),
      Member ''goal_group'' typedef___u32,
      Member ''goal_len'' (Scalar Int32),
      Member ''result_logical'' typedef___u32,
      Member ''result_start'' (Scalar Int32),
      Member ''result_group'' typedef___u32,
      Member ''result_len'' (Scalar Int32),
      Member ''found'' typedef___u16,
      Member ''groups'' typedef___u16,
      Member ''buddy'' typedef___u16,
      Member ''flags'' typedef___u16,
      Member ''tail'' typedef___u16,
      Member ''cr'' typedef___u8,
      Member ''__data'' (Array (Scalar Char8) 0)]"

lemma struct_trace_event_raw_ext4_mballoc_alloc_layout [layout_simps]:
  "wf_type struct_trace_event_raw_ext4_mballoc_alloc" "shape struct_trace_event_raw_ext4_mballoc_alloc = (88, 8)"
  by (simp_all del: One_nat_def add: struct_trace_event_raw_ext4_mballoc_alloc_def layout_eval layout_simps)

definition struct_trace_event_raw_ext4_mballoc_prealloc :: ctype where
  "struct_trace_event_raw_ext4_mballoc_prealloc =
     Composite Struct False
     [Member ''ent'' struct_trace_entry,
      Member ''dev'' typedef_dev_t,
      Member ''ino'' typedef_ino_t,
      Member ''orig_logical'' typedef___u32,
      Member ''orig_start'' (Scalar Int32),
      Member ''orig_group'' typedef___u32,
      Member ''orig_len'' (Scalar Int32),
      Member ''result_logical'' typedef___u32,
      Member ''result_start'' (Scalar Int32),
      Member ''result_group'' typedef___u32,
      Member ''result_len'' (Scalar Int32),
      Member ''__data'' (Array (Scalar Char8) 0)]"

lemma struct_trace_event_raw_ext4_mballoc_prealloc_layout [layout_simps]:
  "wf_type struct_trace_event_raw_ext4_mballoc_prealloc" "shape struct_trace_event_raw_ext4_mballoc_prealloc = (56, 8)"
  by (simp_all del: One_nat_def add: struct_trace_event_raw_ext4_mballoc_prealloc_def layout_eval layout_simps)

definition struct_trace_event_raw_ext4__mballoc :: ctype where
  "struct_trace_event_raw_ext4__mballoc =
     Composite Struct False
     [Member ''ent'' struct_trace_entry,
      Member ''dev'' typedef_dev_t,
      Member ''ino'' typedef_ino_t,
      Member ''result_start'' (Scalar Int32),
      Member ''result_group'' typedef___u32,
      Member ''result_len'' (Scalar Int32),
      Member ''__data'' (Array (Scalar Char8) 0)]"

lemma struct_trace_event_raw_ext4__mballoc_layout [layout_simps]:
  "wf_type struct_trace_event_raw_ext4__mballoc" "shape struct_trace_event_raw_ext4__mballoc = (40, 8)"
  by (simp_all del: One_nat_def add: struct_trace_event_raw_ext4__mballoc_def layout_eval layout_simps)

definition struct_trace_event_raw_ext4_forget :: ctype where
  "struct_trace_event_raw_ext4_forget =
     Composite Struct False
     [Member ''ent'' struct_trace_entry,
      Member ''dev'' typedef_dev_t,
      Member ''ino'' typedef_ino_t,
      Member ''block'' typedef___u64,
      Member ''is_metadata'' (Scalar Int32),
      Member ''mode'' typedef___u16,
      Member ''__data'' (Array (Scalar Char8) 0)]"

lemma struct_trace_event_raw_ext4_forget_layout [layout_simps]:
  "wf_type struct_trace_event_raw_ext4_forget" "shape struct_trace_event_raw_ext4_forget = (40, 8)"
  by (simp_all del: One_nat_def add: struct_trace_event_raw_ext4_forget_def layout_eval layout_simps)

definition struct_trace_event_raw_ext4_da_update_reserve_space :: ctype where
  "struct_trace_event_raw_ext4_da_update_reserve_space =
     Composite Struct False
     [Member ''ent'' struct_trace_entry,
      Member ''dev'' typedef_dev_t,
      Member ''ino'' typedef_ino_t,
      Member ''i_blocks'' typedef___u64,
      Member ''used_blocks'' (Scalar Int32),
      Member ''reserved_data_blocks'' (Scalar Int32),
      Member ''quota_claim'' (Scalar Int32),
      Member ''mode'' typedef___u16,
      Member ''__data'' (Array (Scalar Char8) 0)]"

lemma struct_trace_event_raw_ext4_da_update_reserve_space_layout [layout_simps]:
  "wf_type struct_trace_event_raw_ext4_da_update_reserve_space" "shape struct_trace_event_raw_ext4_da_update_reserve_space = (48, 8)"
  by (simp_all del: One_nat_def add: struct_trace_event_raw_ext4_da_update_reserve_space_def layout_eval layout_simps)

definition struct_trace_event_raw_ext4_da_reserve_space :: ctype where
  "struct_trace_event_raw_ext4_da_reserve_space =
     Composite Struct False
     [Member ''ent'' struct_trace_entry,
      Member ''dev'' typedef_dev_t,
      Member ''ino'' typedef_ino_t,
      Member ''i_blocks'' typedef___u64,
      Member ''reserved_data_blocks'' (Scalar Int32),
      Member ''mode'' typedef___u16,
      Member ''__data'' (Array (Scalar Char8) 0)]"

lemma struct_trace_event_raw_ext4_da_reserve_space_layout [layout_simps]:
  "wf_type struct_trace_event_raw_ext4_da_reserve_space" "shape struct_trace_event_raw_ext4_da_reserve_space = (40, 8)"
  by (simp_all del: One_nat_def add: struct_trace_event_raw_ext4_da_reserve_space_def layout_eval layout_simps)

definition struct_trace_event_raw_ext4_da_release_space :: ctype where
  "struct_trace_event_raw_ext4_da_release_space =
     Composite Struct False
     [Member ''ent'' struct_trace_entry,
      Member ''dev'' typedef_dev_t,
      Member ''ino'' typedef_ino_t,
      Member ''i_blocks'' typedef___u64,
      Member ''freed_blocks'' (Scalar Int32),
      Member ''reserved_data_blocks'' (Scalar Int32),
      Member ''mode'' typedef___u16,
      Member ''__data'' (Array (Scalar Char8) 0)]"

lemma struct_trace_event_raw_ext4_da_release_space_layout [layout_simps]:
  "wf_type struct_trace_event_raw_ext4_da_release_space" "shape struct_trace_event_raw_ext4_da_release_space = (48, 8)"
  by (simp_all del: One_nat_def add: struct_trace_event_raw_ext4_da_release_space_def layout_eval layout_simps)

definition struct_trace_event_raw_ext4__bitmap_load :: ctype where
  "struct_trace_event_raw_ext4__bitmap_load =
     Composite Struct False
     [Member ''ent'' struct_trace_entry,
      Member ''dev'' typedef_dev_t,
      Member ''group'' typedef___u32,
      Member ''__data'' (Array (Scalar Char8) 0)]"

lemma struct_trace_event_raw_ext4__bitmap_load_layout [layout_simps]:
  "wf_type struct_trace_event_raw_ext4__bitmap_load" "shape struct_trace_event_raw_ext4__bitmap_load = (16, 4)"
  by (simp_all del: One_nat_def add: struct_trace_event_raw_ext4__bitmap_load_def layout_eval layout_simps)

definition struct_trace_event_raw_ext4_read_block_bitmap_load :: ctype where
  "struct_trace_event_raw_ext4_read_block_bitmap_load =
     Composite Struct False
     [Member ''ent'' struct_trace_entry,
      Member ''dev'' typedef_dev_t,
      Member ''group'' typedef___u32,
      Member ''prefetch'' typedef_bool,
      Member ''__data'' (Array (Scalar Char8) 0)]"

lemma struct_trace_event_raw_ext4_read_block_bitmap_load_layout [layout_simps]:
  "wf_type struct_trace_event_raw_ext4_read_block_bitmap_load" "shape struct_trace_event_raw_ext4_read_block_bitmap_load = (20, 4)"
  by (simp_all del: One_nat_def add: struct_trace_event_raw_ext4_read_block_bitmap_load_def layout_eval layout_simps)

definition struct_trace_event_raw_ext4__fallocate_mode :: ctype where
  "struct_trace_event_raw_ext4__fallocate_mode =
     Composite Struct False
     [Member ''ent'' struct_trace_entry,
      Member ''dev'' typedef_dev_t,
      Member ''ino'' typedef_ino_t,
      Member ''offset'' typedef_loff_t,
      Member ''len'' typedef_loff_t,
      Member ''mode'' (Scalar Int32),
      Member ''__data'' (Array (Scalar Char8) 0)]"

lemma struct_trace_event_raw_ext4__fallocate_mode_layout [layout_simps]:
  "wf_type struct_trace_event_raw_ext4__fallocate_mode" "shape struct_trace_event_raw_ext4__fallocate_mode = (48, 8)"
  by (simp_all del: One_nat_def add: struct_trace_event_raw_ext4__fallocate_mode_def layout_eval layout_simps)

definition struct_trace_event_raw_ext4_fallocate_exit :: ctype where
  "struct_trace_event_raw_ext4_fallocate_exit =
     Composite Struct False
     [Member ''ent'' struct_trace_entry,
      Member ''dev'' typedef_dev_t,
      Member ''ino'' typedef_ino_t,
      Member ''pos'' typedef_loff_t,
      Member ''blocks'' (Scalar UInt32),
      Member ''ret'' (Scalar Int32),
      Member ''__data'' (Array (Scalar Char8) 0)]"

lemma struct_trace_event_raw_ext4_fallocate_exit_layout [layout_simps]:
  "wf_type struct_trace_event_raw_ext4_fallocate_exit" "shape struct_trace_event_raw_ext4_fallocate_exit = (40, 8)"
  by (simp_all del: One_nat_def add: struct_trace_event_raw_ext4_fallocate_exit_def layout_eval layout_simps)

definition struct_trace_event_raw_ext4_unlink_enter :: ctype where
  "struct_trace_event_raw_ext4_unlink_enter =
     Composite Struct False
     [Member ''ent'' struct_trace_entry,
      Member ''dev'' typedef_dev_t,
      Member ''ino'' typedef_ino_t,
      Member ''parent'' typedef_ino_t,
      Member ''size'' typedef_loff_t,
      Member ''__data'' (Array (Scalar Char8) 0)]"

lemma struct_trace_event_raw_ext4_unlink_enter_layout [layout_simps]:
  "wf_type struct_trace_event_raw_ext4_unlink_enter" "shape struct_trace_event_raw_ext4_unlink_enter = (40, 8)"
  by (simp_all del: One_nat_def add: struct_trace_event_raw_ext4_unlink_enter_def layout_eval layout_simps)

definition struct_trace_event_raw_ext4_unlink_exit :: ctype where
  "struct_trace_event_raw_ext4_unlink_exit =
     Composite Struct False
     [Member ''ent'' struct_trace_entry,
      Member ''dev'' typedef_dev_t,
      Member ''ino'' typedef_ino_t,
      Member ''ret'' (Scalar Int32),
      Member ''__data'' (Array (Scalar Char8) 0)]"

lemma struct_trace_event_raw_ext4_unlink_exit_layout [layout_simps]:
  "wf_type struct_trace_event_raw_ext4_unlink_exit" "shape struct_trace_event_raw_ext4_unlink_exit = (32, 8)"
  by (simp_all del: One_nat_def add: struct_trace_event_raw_ext4_unlink_exit_def layout_eval layout_simps)

definition struct_trace_event_raw_ext4__truncate :: ctype where
  "struct_trace_event_raw_ext4__truncate =
     Composite Struct False
     [Member ''ent'' struct_trace_entry,
      Member ''dev'' typedef_dev_t,
      Member ''ino'' typedef_ino_t,
      Member ''blocks'' typedef___u64,
      Member ''__data'' (Array (Scalar Char8) 0)]"

lemma struct_trace_event_raw_ext4__truncate_layout [layout_simps]:
  "wf_type struct_trace_event_raw_ext4__truncate" "shape struct_trace_event_raw_ext4__truncate = (32, 8)"
  by (simp_all del: One_nat_def add: struct_trace_event_raw_ext4__truncate_def layout_eval layout_simps)

definition struct_trace_event_raw_ext4_ext_convert_to_initialized_enter :: ctype where
  "struct_trace_event_raw_ext4_ext_convert_to_initialized_enter =
     Composite Struct False
     [Member ''ent'' struct_trace_entry,
      Member ''dev'' typedef_dev_t,
      Member ''ino'' typedef_ino_t,
      Member ''m_lblk'' typedef_ext4_lblk_t,
      Member ''m_len'' (Scalar UInt32),
      Member ''u_lblk'' typedef_ext4_lblk_t,
      Member ''u_len'' (Scalar UInt32),
      Member ''u_pblk'' typedef_ext4_fsblk_t,
      Member ''__data'' (Array (Scalar Char8) 0)]"

lemma struct_trace_event_raw_ext4_ext_convert_to_initialized_enter_layout [layout_simps]:
  "wf_type struct_trace_event_raw_ext4_ext_convert_to_initialized_enter" "shape struct_trace_event_raw_ext4_ext_convert_to_initialized_enter = (48, 8)"
  by (simp_all del: One_nat_def add: struct_trace_event_raw_ext4_ext_convert_to_initialized_enter_def layout_eval layout_simps)

definition struct_trace_event_raw_ext4_ext_convert_to_initialized_fastpath :: ctype where
  "struct_trace_event_raw_ext4_ext_convert_to_initialized_fastpath =
     Composite Struct False
     [Member ''ent'' struct_trace_entry,
      Member ''dev'' typedef_dev_t,
      Member ''ino'' typedef_ino_t,
      Member ''m_lblk'' typedef_ext4_lblk_t,
      Member ''m_len'' (Scalar UInt32),
      Member ''u_lblk'' typedef_ext4_lblk_t,
      Member ''u_len'' (Scalar UInt32),
      Member ''u_pblk'' typedef_ext4_fsblk_t,
      Member ''i_lblk'' typedef_ext4_lblk_t,
      Member ''i_len'' (Scalar UInt32),
      Member ''i_pblk'' typedef_ext4_fsblk_t,
      Member ''__data'' (Array (Scalar Char8) 0)]"

lemma struct_trace_event_raw_ext4_ext_convert_to_initialized_fastpath_layout [layout_simps]:
  "wf_type struct_trace_event_raw_ext4_ext_convert_to_initialized_fastpath" "shape struct_trace_event_raw_ext4_ext_convert_to_initialized_fastpath = (64, 8)"
  by (simp_all del: One_nat_def add: struct_trace_event_raw_ext4_ext_convert_to_initialized_fastpath_def layout_eval layout_simps)

definition struct_trace_event_raw_ext4__map_blocks_enter :: ctype where
  "struct_trace_event_raw_ext4__map_blocks_enter =
     Composite Struct False
     [Member ''ent'' struct_trace_entry,
      Member ''dev'' typedef_dev_t,
      Member ''ino'' typedef_ino_t,
      Member ''lblk'' typedef_ext4_lblk_t,
      Member ''len'' (Scalar UInt32),
      Member ''flags'' (Scalar UInt32),
      Member ''__data'' (Array (Scalar Char8) 0)]"

lemma struct_trace_event_raw_ext4__map_blocks_enter_layout [layout_simps]:
  "wf_type struct_trace_event_raw_ext4__map_blocks_enter" "shape struct_trace_event_raw_ext4__map_blocks_enter = (40, 8)"
  by (simp_all del: One_nat_def add: struct_trace_event_raw_ext4__map_blocks_enter_def layout_eval layout_simps)

definition struct_trace_event_raw_ext4__map_blocks_exit :: ctype where
  "struct_trace_event_raw_ext4__map_blocks_exit =
     Composite Struct False
     [Member ''ent'' struct_trace_entry,
      Member ''dev'' typedef_dev_t,
      Member ''ino'' typedef_ino_t,
      Member ''flags'' (Scalar UInt32),
      Member ''pblk'' typedef_ext4_fsblk_t,
      Member ''lblk'' typedef_ext4_lblk_t,
      Member ''len'' (Scalar UInt32),
      Member ''mflags'' (Scalar UInt32),
      Member ''ret'' (Scalar Int32),
      Member ''__data'' (Array (Scalar Char8) 0)]"

lemma struct_trace_event_raw_ext4__map_blocks_exit_layout [layout_simps]:
  "wf_type struct_trace_event_raw_ext4__map_blocks_exit" "shape struct_trace_event_raw_ext4__map_blocks_exit = (56, 8)"
  by (simp_all del: One_nat_def add: struct_trace_event_raw_ext4__map_blocks_exit_def layout_eval layout_simps)

definition struct_trace_event_raw_ext4_ext_load_extent :: ctype where
  "struct_trace_event_raw_ext4_ext_load_extent =
     Composite Struct False
     [Member ''ent'' struct_trace_entry,
      Member ''dev'' typedef_dev_t,
      Member ''ino'' typedef_ino_t,
      Member ''pblk'' typedef_ext4_fsblk_t,
      Member ''lblk'' typedef_ext4_lblk_t,
      Member ''__data'' (Array (Scalar Char8) 0)]"

lemma struct_trace_event_raw_ext4_ext_load_extent_layout [layout_simps]:
  "wf_type struct_trace_event_raw_ext4_ext_load_extent" "shape struct_trace_event_raw_ext4_ext_load_extent = (40, 8)"
  by (simp_all del: One_nat_def add: struct_trace_event_raw_ext4_ext_load_extent_def layout_eval layout_simps)

definition struct_trace_event_raw_ext4_load_inode :: ctype where
  "struct_trace_event_raw_ext4_load_inode =
     Composite Struct False
     [Member ''ent'' struct_trace_entry,
      Member ''dev'' typedef_dev_t,
      Member ''ino'' typedef_ino_t,
      Member ''__data'' (Array (Scalar Char8) 0)]"

lemma struct_trace_event_raw_ext4_load_inode_layout [layout_simps]:
  "wf_type struct_trace_event_raw_ext4_load_inode" "shape struct_trace_event_raw_ext4_load_inode = (24, 8)"
  by (simp_all del: One_nat_def add: struct_trace_event_raw_ext4_load_inode_def layout_eval layout_simps)

definition struct_trace_event_raw_ext4_journal_start_sb :: ctype where
  "struct_trace_event_raw_ext4_journal_start_sb =
     Composite Struct False
     [Member ''ent'' struct_trace_entry,
      Member ''dev'' typedef_dev_t,
      Member ''ip'' (Scalar ULong64),
      Member ''blocks'' (Scalar Int32),
      Member ''rsv_blocks'' (Scalar Int32),
      Member ''revoke_creds'' (Scalar Int32),
      Member ''type'' (Scalar Int32),
      Member ''__data'' (Array (Scalar Char8) 0)]"

lemma struct_trace_event_raw_ext4_journal_start_sb_layout [layout_simps]:
  "wf_type struct_trace_event_raw_ext4_journal_start_sb" "shape struct_trace_event_raw_ext4_journal_start_sb = (40, 8)"
  by (simp_all del: One_nat_def add: struct_trace_event_raw_ext4_journal_start_sb_def layout_eval layout_simps)

definition struct_trace_event_raw_ext4_journal_start_inode :: ctype where
  "struct_trace_event_raw_ext4_journal_start_inode =
     Composite Struct False
     [Member ''ent'' struct_trace_entry,
      Member ''ino'' (Scalar ULong64),
      Member ''dev'' typedef_dev_t,
      Member ''ip'' (Scalar ULong64),
      Member ''blocks'' (Scalar Int32),
      Member ''rsv_blocks'' (Scalar Int32),
      Member ''revoke_creds'' (Scalar Int32),
      Member ''type'' (Scalar Int32),
      Member ''__data'' (Array (Scalar Char8) 0)]"

lemma struct_trace_event_raw_ext4_journal_start_inode_layout [layout_simps]:
  "wf_type struct_trace_event_raw_ext4_journal_start_inode" "shape struct_trace_event_raw_ext4_journal_start_inode = (48, 8)"
  by (simp_all del: One_nat_def add: struct_trace_event_raw_ext4_journal_start_inode_def layout_eval layout_simps)

definition struct_trace_event_raw_ext4_journal_start_reserved :: ctype where
  "struct_trace_event_raw_ext4_journal_start_reserved =
     Composite Struct False
     [Member ''ent'' struct_trace_entry,
      Member ''dev'' typedef_dev_t,
      Member ''ip'' (Scalar ULong64),
      Member ''blocks'' (Scalar Int32),
      Member ''__data'' (Array (Scalar Char8) 0)]"

lemma struct_trace_event_raw_ext4_journal_start_reserved_layout [layout_simps]:
  "wf_type struct_trace_event_raw_ext4_journal_start_reserved" "shape struct_trace_event_raw_ext4_journal_start_reserved = (32, 8)"
  by (simp_all del: One_nat_def add: struct_trace_event_raw_ext4_journal_start_reserved_def layout_eval layout_simps)

definition struct_trace_event_raw_ext4__trim :: ctype where
  "struct_trace_event_raw_ext4__trim =
     Composite Struct False
     [Member ''ent'' struct_trace_entry,
      Member ''dev_major'' (Scalar Int32),
      Member ''dev_minor'' (Scalar Int32),
      Member ''group'' typedef___u32,
      Member ''start'' (Scalar Int32),
      Member ''len'' (Scalar Int32),
      Member ''__data'' (Array (Scalar Char8) 0)]"

lemma struct_trace_event_raw_ext4__trim_layout [layout_simps]:
  "wf_type struct_trace_event_raw_ext4__trim" "shape struct_trace_event_raw_ext4__trim = (28, 4)"
  by (simp_all del: One_nat_def add: struct_trace_event_raw_ext4__trim_def layout_eval layout_simps)

definition struct_trace_event_raw_ext4_ext_handle_unwritten_extents :: ctype where
  "struct_trace_event_raw_ext4_ext_handle_unwritten_extents =
     Composite Struct False
     [Member ''ent'' struct_trace_entry,
      Member ''dev'' typedef_dev_t,
      Member ''ino'' typedef_ino_t,
      Member ''flags'' (Scalar Int32),
      Member ''lblk'' typedef_ext4_lblk_t,
      Member ''pblk'' typedef_ext4_fsblk_t,
      Member ''len'' (Scalar UInt32),
      Member ''allocated'' (Scalar UInt32),
      Member ''newblk'' typedef_ext4_fsblk_t,
      Member ''__data'' (Array (Scalar Char8) 0)]"

lemma struct_trace_event_raw_ext4_ext_handle_unwritten_extents_layout [layout_simps]:
  "wf_type struct_trace_event_raw_ext4_ext_handle_unwritten_extents" "shape struct_trace_event_raw_ext4_ext_handle_unwritten_extents = (56, 8)"
  by (simp_all del: One_nat_def add: struct_trace_event_raw_ext4_ext_handle_unwritten_extents_def layout_eval layout_simps)

definition struct_trace_event_raw_ext4_get_implied_cluster_alloc_exit :: ctype where
  "struct_trace_event_raw_ext4_get_implied_cluster_alloc_exit =
     Composite Struct False
     [Member ''ent'' struct_trace_entry,
      Member ''dev'' typedef_dev_t,
      Member ''flags'' (Scalar UInt32),
      Member ''lblk'' typedef_ext4_lblk_t,
      Member ''pblk'' typedef_ext4_fsblk_t,
      Member ''len'' (Scalar UInt32),
      Member ''ret'' (Scalar Int32),
      Member ''__data'' (Array (Scalar Char8) 0)]"

lemma struct_trace_event_raw_ext4_get_implied_cluster_alloc_exit_layout [layout_simps]:
  "wf_type struct_trace_event_raw_ext4_get_implied_cluster_alloc_exit" "shape struct_trace_event_raw_ext4_get_implied_cluster_alloc_exit = (40, 8)"
  by (simp_all del: One_nat_def add: struct_trace_event_raw_ext4_get_implied_cluster_alloc_exit_def layout_eval layout_simps)

definition struct_trace_event_raw_ext4_ext_show_extent :: ctype where
  "struct_trace_event_raw_ext4_ext_show_extent =
     Composite Struct False
     [Member ''ent'' struct_trace_entry,
      Member ''dev'' typedef_dev_t,
      Member ''ino'' typedef_ino_t,
      Member ''pblk'' typedef_ext4_fsblk_t,
      Member ''lblk'' typedef_ext4_lblk_t,
      Member ''len'' (Scalar UShort16),
      Member ''__data'' (Array (Scalar Char8) 0)]"

lemma struct_trace_event_raw_ext4_ext_show_extent_layout [layout_simps]:
  "wf_type struct_trace_event_raw_ext4_ext_show_extent" "shape struct_trace_event_raw_ext4_ext_show_extent = (40, 8)"
  by (simp_all del: One_nat_def add: struct_trace_event_raw_ext4_ext_show_extent_def layout_eval layout_simps)

definition struct_trace_event_raw_ext4_remove_blocks :: ctype where
  "struct_trace_event_raw_ext4_remove_blocks =
     Composite Struct False
     [Member ''ent'' struct_trace_entry,
      Member ''dev'' typedef_dev_t,
      Member ''ino'' typedef_ino_t,
      Member ''from'' typedef_ext4_lblk_t,
      Member ''to'' typedef_ext4_lblk_t,
      Member ''ee_pblk'' typedef_ext4_fsblk_t,
      Member ''ee_lblk'' typedef_ext4_lblk_t,
      Member ''ee_len'' (Scalar UShort16),
      Member ''pc_pclu'' typedef_ext4_fsblk_t,
      Member ''pc_lblk'' typedef_ext4_lblk_t,
      Member ''pc_state'' (Scalar Int32),
      Member ''__data'' (Array (Scalar Char8) 0)]"

lemma struct_trace_event_raw_ext4_remove_blocks_layout [layout_simps]:
  "wf_type struct_trace_event_raw_ext4_remove_blocks" "shape struct_trace_event_raw_ext4_remove_blocks = (64, 8)"
  by (simp_all del: One_nat_def add: struct_trace_event_raw_ext4_remove_blocks_def layout_eval layout_simps)

definition struct_trace_event_raw_ext4_ext_rm_leaf :: ctype where
  "struct_trace_event_raw_ext4_ext_rm_leaf =
     Composite Struct False
     [Member ''ent'' struct_trace_entry,
      Member ''dev'' typedef_dev_t,
      Member ''ino'' typedef_ino_t,
      Member ''start'' typedef_ext4_lblk_t,
      Member ''ee_lblk'' typedef_ext4_lblk_t,
      Member ''ee_pblk'' typedef_ext4_fsblk_t,
      Member ''ee_len'' (Scalar Short16),
      Member ''pc_pclu'' typedef_ext4_fsblk_t,
      Member ''pc_lblk'' typedef_ext4_lblk_t,
      Member ''pc_state'' (Scalar Int32),
      Member ''__data'' (Array (Scalar Char8) 0)]"

lemma struct_trace_event_raw_ext4_ext_rm_leaf_layout [layout_simps]:
  "wf_type struct_trace_event_raw_ext4_ext_rm_leaf" "shape struct_trace_event_raw_ext4_ext_rm_leaf = (64, 8)"
  by (simp_all del: One_nat_def add: struct_trace_event_raw_ext4_ext_rm_leaf_def layout_eval layout_simps)

definition struct_trace_event_raw_ext4_ext_rm_idx :: ctype where
  "struct_trace_event_raw_ext4_ext_rm_idx =
     Composite Struct False
     [Member ''ent'' struct_trace_entry,
      Member ''dev'' typedef_dev_t,
      Member ''ino'' typedef_ino_t,
      Member ''pblk'' typedef_ext4_fsblk_t,
      Member ''__data'' (Array (Scalar Char8) 0)]"

lemma struct_trace_event_raw_ext4_ext_rm_idx_layout [layout_simps]:
  "wf_type struct_trace_event_raw_ext4_ext_rm_idx" "shape struct_trace_event_raw_ext4_ext_rm_idx = (32, 8)"
  by (simp_all del: One_nat_def add: struct_trace_event_raw_ext4_ext_rm_idx_def layout_eval layout_simps)

definition struct_trace_event_raw_ext4_ext_remove_space :: ctype where
  "struct_trace_event_raw_ext4_ext_remove_space =
     Composite Struct False
     [Member ''ent'' struct_trace_entry,
      Member ''dev'' typedef_dev_t,
      Member ''ino'' typedef_ino_t,
      Member ''start'' typedef_ext4_lblk_t,
      Member ''end'' typedef_ext4_lblk_t,
      Member ''depth'' (Scalar Int32),
      Member ''__data'' (Array (Scalar Char8) 0)]"

lemma struct_trace_event_raw_ext4_ext_remove_space_layout [layout_simps]:
  "wf_type struct_trace_event_raw_ext4_ext_remove_space" "shape struct_trace_event_raw_ext4_ext_remove_space = (40, 8)"
  by (simp_all del: One_nat_def add: struct_trace_event_raw_ext4_ext_remove_space_def layout_eval layout_simps)

definition struct_trace_event_raw_ext4_ext_remove_space_done :: ctype where
  "struct_trace_event_raw_ext4_ext_remove_space_done =
     Composite Struct False
     [Member ''ent'' struct_trace_entry,
      Member ''dev'' typedef_dev_t,
      Member ''ino'' typedef_ino_t,
      Member ''start'' typedef_ext4_lblk_t,
      Member ''end'' typedef_ext4_lblk_t,
      Member ''depth'' (Scalar Int32),
      Member ''pc_pclu'' typedef_ext4_fsblk_t,
      Member ''pc_lblk'' typedef_ext4_lblk_t,
      Member ''pc_state'' (Scalar Int32),
      Member ''eh_entries'' (Scalar UShort16),
      Member ''__data'' (Array (Scalar Char8) 0)]"

lemma struct_trace_event_raw_ext4_ext_remove_space_done_layout [layout_simps]:
  "wf_type struct_trace_event_raw_ext4_ext_remove_space_done" "shape struct_trace_event_raw_ext4_ext_remove_space_done = (64, 8)"
  by (simp_all del: One_nat_def add: struct_trace_event_raw_ext4_ext_remove_space_done_def layout_eval layout_simps)

definition struct_trace_event_raw_ext4__es_extent :: ctype where
  "struct_trace_event_raw_ext4__es_extent =
     Composite Struct False
     [Member ''ent'' struct_trace_entry,
      Member ''dev'' typedef_dev_t,
      Member ''ino'' typedef_ino_t,
      Member ''lblk'' typedef_ext4_lblk_t,
      Member ''len'' typedef_ext4_lblk_t,
      Member ''pblk'' typedef_ext4_fsblk_t,
      Member ''status'' (Scalar Char8),
      Member ''__data'' (Array (Scalar Char8) 0)]"

lemma struct_trace_event_raw_ext4__es_extent_layout [layout_simps]:
  "wf_type struct_trace_event_raw_ext4__es_extent" "shape struct_trace_event_raw_ext4__es_extent = (48, 8)"
  by (simp_all del: One_nat_def add: struct_trace_event_raw_ext4__es_extent_def layout_eval layout_simps)

definition struct_trace_event_raw_ext4_es_remove_extent :: ctype where
  "struct_trace_event_raw_ext4_es_remove_extent =
     Composite Struct False
     [Member ''ent'' struct_trace_entry,
      Member ''dev'' typedef_dev_t,
      Member ''ino'' typedef_ino_t,
      Member ''lblk'' typedef_loff_t,
      Member ''len'' typedef_loff_t,
      Member ''__data'' (Array (Scalar Char8) 0)]"

lemma struct_trace_event_raw_ext4_es_remove_extent_layout [layout_simps]:
  "wf_type struct_trace_event_raw_ext4_es_remove_extent" "shape struct_trace_event_raw_ext4_es_remove_extent = (40, 8)"
  by (simp_all del: One_nat_def add: struct_trace_event_raw_ext4_es_remove_extent_def layout_eval layout_simps)

definition struct_trace_event_raw_ext4_es_find_extent_range_enter :: ctype where
  "struct_trace_event_raw_ext4_es_find_extent_range_enter =
     Composite Struct False
     [Member ''ent'' struct_trace_entry,
      Member ''dev'' typedef_dev_t,
      Member ''ino'' typedef_ino_t,
      Member ''lblk'' typedef_ext4_lblk_t,
      Member ''__data'' (Array (Scalar Char8) 0)]"

lemma struct_trace_event_raw_ext4_es_find_extent_range_enter_layout [layout_simps]:
  "wf_type struct_trace_event_raw_ext4_es_find_extent_range_enter" "shape struct_trace_event_raw_ext4_es_find_extent_range_enter = (32, 8)"
  by (simp_all del: One_nat_def add: struct_trace_event_raw_ext4_es_find_extent_range_enter_def layout_eval layout_simps)

definition struct_trace_event_raw_ext4_es_find_extent_range_exit :: ctype where
  "struct_trace_event_raw_ext4_es_find_extent_range_exit =
     Composite Struct False
     [Member ''ent'' struct_trace_entry,
      Member ''dev'' typedef_dev_t,
      Member ''ino'' typedef_ino_t,
      Member ''lblk'' typedef_ext4_lblk_t,
      Member ''len'' typedef_ext4_lblk_t,
      Member ''pblk'' typedef_ext4_fsblk_t,
      Member ''status'' (Scalar Char8),
      Member ''__data'' (Array (Scalar Char8) 0)]"

lemma struct_trace_event_raw_ext4_es_find_extent_range_exit_layout [layout_simps]:
  "wf_type struct_trace_event_raw_ext4_es_find_extent_range_exit" "shape struct_trace_event_raw_ext4_es_find_extent_range_exit = (48, 8)"
  by (simp_all del: One_nat_def add: struct_trace_event_raw_ext4_es_find_extent_range_exit_def layout_eval layout_simps)

definition struct_trace_event_raw_ext4_es_lookup_extent_enter :: ctype where
  "struct_trace_event_raw_ext4_es_lookup_extent_enter =
     Composite Struct False
     [Member ''ent'' struct_trace_entry,
      Member ''dev'' typedef_dev_t,
      Member ''ino'' typedef_ino_t,
      Member ''lblk'' typedef_ext4_lblk_t,
      Member ''__data'' (Array (Scalar Char8) 0)]"

lemma struct_trace_event_raw_ext4_es_lookup_extent_enter_layout [layout_simps]:
  "wf_type struct_trace_event_raw_ext4_es_lookup_extent_enter" "shape struct_trace_event_raw_ext4_es_lookup_extent_enter = (32, 8)"
  by (simp_all del: One_nat_def add: struct_trace_event_raw_ext4_es_lookup_extent_enter_def layout_eval layout_simps)

definition struct_trace_event_raw_ext4_es_lookup_extent_exit :: ctype where
  "struct_trace_event_raw_ext4_es_lookup_extent_exit =
     Composite Struct False
     [Member ''ent'' struct_trace_entry,
      Member ''dev'' typedef_dev_t,
      Member ''ino'' typedef_ino_t,
      Member ''lblk'' typedef_ext4_lblk_t,
      Member ''len'' typedef_ext4_lblk_t,
      Member ''pblk'' typedef_ext4_fsblk_t,
      Member ''status'' (Scalar Char8),
      Member ''found'' (Scalar Int32),
      Member ''__data'' (Array (Scalar Char8) 0)]"

lemma struct_trace_event_raw_ext4_es_lookup_extent_exit_layout [layout_simps]:
  "wf_type struct_trace_event_raw_ext4_es_lookup_extent_exit" "shape struct_trace_event_raw_ext4_es_lookup_extent_exit = (48, 8)"
  by (simp_all del: One_nat_def add: struct_trace_event_raw_ext4_es_lookup_extent_exit_def layout_eval layout_simps)

definition struct_trace_event_raw_ext4__es_shrink_enter :: ctype where
  "struct_trace_event_raw_ext4__es_shrink_enter =
     Composite Struct False
     [Member ''ent'' struct_trace_entry,
      Member ''dev'' typedef_dev_t,
      Member ''nr_to_scan'' (Scalar Int32),
      Member ''cache_cnt'' (Scalar Int32),
      Member ''__data'' (Array (Scalar Char8) 0)]"

lemma struct_trace_event_raw_ext4__es_shrink_enter_layout [layout_simps]:
  "wf_type struct_trace_event_raw_ext4__es_shrink_enter" "shape struct_trace_event_raw_ext4__es_shrink_enter = (20, 4)"
  by (simp_all del: One_nat_def add: struct_trace_event_raw_ext4__es_shrink_enter_def layout_eval layout_simps)

definition struct_trace_event_raw_ext4_es_shrink_scan_exit :: ctype where
  "struct_trace_event_raw_ext4_es_shrink_scan_exit =
     Composite Struct False
     [Member ''ent'' struct_trace_entry,
      Member ''dev'' typedef_dev_t,
      Member ''nr_shrunk'' (Scalar Int32),
      Member ''cache_cnt'' (Scalar Int32),
      Member ''__data'' (Array (Scalar Char8) 0)]"

lemma struct_trace_event_raw_ext4_es_shrink_scan_exit_layout [layout_simps]:
  "wf_type struct_trace_event_raw_ext4_es_shrink_scan_exit" "shape struct_trace_event_raw_ext4_es_shrink_scan_exit = (20, 4)"
  by (simp_all del: One_nat_def add: struct_trace_event_raw_ext4_es_shrink_scan_exit_def layout_eval layout_simps)

definition struct_trace_event_raw_ext4_collapse_range :: ctype where
  "struct_trace_event_raw_ext4_collapse_range =
     Composite Struct False
     [Member ''ent'' struct_trace_entry,
      Member ''dev'' typedef_dev_t,
      Member ''ino'' typedef_ino_t,
      Member ''offset'' typedef_loff_t,
      Member ''len'' typedef_loff_t,
      Member ''__data'' (Array (Scalar Char8) 0)]"

lemma struct_trace_event_raw_ext4_collapse_range_layout [layout_simps]:
  "wf_type struct_trace_event_raw_ext4_collapse_range" "shape struct_trace_event_raw_ext4_collapse_range = (40, 8)"
  by (simp_all del: One_nat_def add: struct_trace_event_raw_ext4_collapse_range_def layout_eval layout_simps)

definition struct_trace_event_raw_ext4_insert_range :: ctype where
  "struct_trace_event_raw_ext4_insert_range =
     Composite Struct False
     [Member ''ent'' struct_trace_entry,
      Member ''dev'' typedef_dev_t,
      Member ''ino'' typedef_ino_t,
      Member ''offset'' typedef_loff_t,
      Member ''len'' typedef_loff_t,
      Member ''__data'' (Array (Scalar Char8) 0)]"

lemma struct_trace_event_raw_ext4_insert_range_layout [layout_simps]:
  "wf_type struct_trace_event_raw_ext4_insert_range" "shape struct_trace_event_raw_ext4_insert_range = (40, 8)"
  by (simp_all del: One_nat_def add: struct_trace_event_raw_ext4_insert_range_def layout_eval layout_simps)

definition struct_trace_event_raw_ext4_es_shrink :: ctype where
  "struct_trace_event_raw_ext4_es_shrink =
     Composite Struct False
     [Member ''ent'' struct_trace_entry,
      Member ''dev'' typedef_dev_t,
      Member ''nr_shrunk'' (Scalar Int32),
      Member ''scan_time'' (Scalar ULongLong64),
      Member ''nr_skipped'' (Scalar Int32),
      Member ''retried'' (Scalar Int32),
      Member ''__data'' (Array (Scalar Char8) 0)]"

lemma struct_trace_event_raw_ext4_es_shrink_layout [layout_simps]:
  "wf_type struct_trace_event_raw_ext4_es_shrink" "shape struct_trace_event_raw_ext4_es_shrink = (32, 8)"
  by (simp_all del: One_nat_def add: struct_trace_event_raw_ext4_es_shrink_def layout_eval layout_simps)

definition struct_trace_event_raw_ext4_es_insert_delayed_block :: ctype where
  "struct_trace_event_raw_ext4_es_insert_delayed_block =
     Composite Struct False
     [Member ''ent'' struct_trace_entry,
      Member ''dev'' typedef_dev_t,
      Member ''ino'' typedef_ino_t,
      Member ''lblk'' typedef_ext4_lblk_t,
      Member ''len'' typedef_ext4_lblk_t,
      Member ''pblk'' typedef_ext4_fsblk_t,
      Member ''status'' (Scalar Char8),
      Member ''allocated'' typedef_bool,
      Member ''__data'' (Array (Scalar Char8) 0)]"

lemma struct_trace_event_raw_ext4_es_insert_delayed_block_layout [layout_simps]:
  "wf_type struct_trace_event_raw_ext4_es_insert_delayed_block" "shape struct_trace_event_raw_ext4_es_insert_delayed_block = (48, 8)"
  by (simp_all del: One_nat_def add: struct_trace_event_raw_ext4_es_insert_delayed_block_def layout_eval layout_simps)

definition struct_trace_event_raw_ext4_fsmap_class :: ctype where
  "struct_trace_event_raw_ext4_fsmap_class =
     Composite Struct False
     [Member ''ent'' struct_trace_entry,
      Member ''dev'' typedef_dev_t,
      Member ''keydev'' typedef_dev_t,
      Member ''agno'' typedef_u32,
      Member ''bno'' typedef_u64,
      Member ''len'' typedef_u64,
      Member ''owner'' typedef_u64,
      Member ''__data'' (Array (Scalar Char8) 0)]"

lemma struct_trace_event_raw_ext4_fsmap_class_layout [layout_simps]:
  "wf_type struct_trace_event_raw_ext4_fsmap_class" "shape struct_trace_event_raw_ext4_fsmap_class = (48, 8)"
  by (simp_all del: One_nat_def add: struct_trace_event_raw_ext4_fsmap_class_def layout_eval layout_simps)

definition struct_trace_event_raw_ext4_getfsmap_class :: ctype where
  "struct_trace_event_raw_ext4_getfsmap_class =
     Composite Struct False
     [Member ''ent'' struct_trace_entry,
      Member ''dev'' typedef_dev_t,
      Member ''keydev'' typedef_dev_t,
      Member ''block'' typedef_u64,
      Member ''len'' typedef_u64,
      Member ''owner'' typedef_u64,
      Member ''flags'' typedef_u64,
      Member ''__data'' (Array (Scalar Char8) 0)]"

lemma struct_trace_event_raw_ext4_getfsmap_class_layout [layout_simps]:
  "wf_type struct_trace_event_raw_ext4_getfsmap_class" "shape struct_trace_event_raw_ext4_getfsmap_class = (48, 8)"
  by (simp_all del: One_nat_def add: struct_trace_event_raw_ext4_getfsmap_class_def layout_eval layout_simps)

definition struct_trace_event_raw_ext4_shutdown :: ctype where
  "struct_trace_event_raw_ext4_shutdown =
     Composite Struct False
     [Member ''ent'' struct_trace_entry,
      Member ''dev'' typedef_dev_t,
      Member ''flags'' (Scalar UInt32),
      Member ''__data'' (Array (Scalar Char8) 0)]"

lemma struct_trace_event_raw_ext4_shutdown_layout [layout_simps]:
  "wf_type struct_trace_event_raw_ext4_shutdown" "shape struct_trace_event_raw_ext4_shutdown = (16, 4)"
  by (simp_all del: One_nat_def add: struct_trace_event_raw_ext4_shutdown_def layout_eval layout_simps)

definition struct_trace_event_raw_ext4_error :: ctype where
  "struct_trace_event_raw_ext4_error =
     Composite Struct False
     [Member ''ent'' struct_trace_entry,
      Member ''dev'' typedef_dev_t,
      Member ''function'' (Pointer (Scalar Char8)),
      Member ''line'' (Scalar UInt32),
      Member ''__data'' (Array (Scalar Char8) 0)]"

lemma struct_trace_event_raw_ext4_error_layout [layout_simps]:
  "wf_type struct_trace_event_raw_ext4_error" "shape struct_trace_event_raw_ext4_error = (32, 8)"
  by (simp_all del: One_nat_def add: struct_trace_event_raw_ext4_error_def layout_eval layout_simps)

definition struct_trace_event_raw_ext4_prefetch_bitmaps :: ctype where
  "struct_trace_event_raw_ext4_prefetch_bitmaps =
     Composite Struct False
     [Member ''ent'' struct_trace_entry,
      Member ''dev'' typedef_dev_t,
      Member ''group'' typedef___u32,
      Member ''next'' typedef___u32,
      Member ''ios'' typedef___u32,
      Member ''__data'' (Array (Scalar Char8) 0)]"

lemma struct_trace_event_raw_ext4_prefetch_bitmaps_layout [layout_simps]:
  "wf_type struct_trace_event_raw_ext4_prefetch_bitmaps" "shape struct_trace_event_raw_ext4_prefetch_bitmaps = (24, 4)"
  by (simp_all del: One_nat_def add: struct_trace_event_raw_ext4_prefetch_bitmaps_def layout_eval layout_simps)

definition struct_trace_event_raw_ext4_lazy_itable_init :: ctype where
  "struct_trace_event_raw_ext4_lazy_itable_init =
     Composite Struct False
     [Member ''ent'' struct_trace_entry,
      Member ''dev'' typedef_dev_t,
      Member ''group'' typedef___u32,
      Member ''__data'' (Array (Scalar Char8) 0)]"

lemma struct_trace_event_raw_ext4_lazy_itable_init_layout [layout_simps]:
  "wf_type struct_trace_event_raw_ext4_lazy_itable_init" "shape struct_trace_event_raw_ext4_lazy_itable_init = (16, 4)"
  by (simp_all del: One_nat_def add: struct_trace_event_raw_ext4_lazy_itable_init_def layout_eval layout_simps)

definition struct_trace_event_raw_ext4_fc_replay_scan :: ctype where
  "struct_trace_event_raw_ext4_fc_replay_scan =
     Composite Struct False
     [Member ''ent'' struct_trace_entry,
      Member ''dev'' typedef_dev_t,
      Member ''error'' (Scalar Int32),
      Member ''off'' (Scalar Int32),
      Member ''__data'' (Array (Scalar Char8) 0)]"

lemma struct_trace_event_raw_ext4_fc_replay_scan_layout [layout_simps]:
  "wf_type struct_trace_event_raw_ext4_fc_replay_scan" "shape struct_trace_event_raw_ext4_fc_replay_scan = (20, 4)"
  by (simp_all del: One_nat_def add: struct_trace_event_raw_ext4_fc_replay_scan_def layout_eval layout_simps)

definition struct_trace_event_raw_ext4_fc_replay :: ctype where
  "struct_trace_event_raw_ext4_fc_replay =
     Composite Struct False
     [Member ''ent'' struct_trace_entry,
      Member ''dev'' typedef_dev_t,
      Member ''tag'' (Scalar Int32),
      Member ''ino'' (Scalar Int32),
      Member ''priv1'' (Scalar Int32),
      Member ''priv2'' (Scalar Int32),
      Member ''__data'' (Array (Scalar Char8) 0)]"

lemma struct_trace_event_raw_ext4_fc_replay_layout [layout_simps]:
  "wf_type struct_trace_event_raw_ext4_fc_replay" "shape struct_trace_event_raw_ext4_fc_replay = (28, 4)"
  by (simp_all del: One_nat_def add: struct_trace_event_raw_ext4_fc_replay_def layout_eval layout_simps)

definition struct_trace_event_raw_ext4_fc_commit_start :: ctype where
  "struct_trace_event_raw_ext4_fc_commit_start =
     Composite Struct False
     [Member ''ent'' struct_trace_entry,
      Member ''dev'' typedef_dev_t,
      Member ''tid'' typedef_tid_t,
      Member ''__data'' (Array (Scalar Char8) 0)]"

lemma struct_trace_event_raw_ext4_fc_commit_start_layout [layout_simps]:
  "wf_type struct_trace_event_raw_ext4_fc_commit_start" "shape struct_trace_event_raw_ext4_fc_commit_start = (16, 4)"
  by (simp_all del: One_nat_def add: struct_trace_event_raw_ext4_fc_commit_start_def layout_eval layout_simps)

definition struct_trace_event_raw_ext4_fc_commit_stop :: ctype where
  "struct_trace_event_raw_ext4_fc_commit_stop =
     Composite Struct False
     [Member ''ent'' struct_trace_entry,
      Member ''dev'' typedef_dev_t,
      Member ''nblks'' (Scalar Int32),
      Member ''reason'' (Scalar Int32),
      Member ''num_fc'' (Scalar Int32),
      Member ''num_fc_ineligible'' (Scalar Int32),
      Member ''nblks_agg'' (Scalar Int32),
      Member ''tid'' typedef_tid_t,
      Member ''__data'' (Array (Scalar Char8) 0)]"

lemma struct_trace_event_raw_ext4_fc_commit_stop_layout [layout_simps]:
  "wf_type struct_trace_event_raw_ext4_fc_commit_stop" "shape struct_trace_event_raw_ext4_fc_commit_stop = (36, 4)"
  by (simp_all del: One_nat_def add: struct_trace_event_raw_ext4_fc_commit_stop_def layout_eval layout_simps)

definition struct_trace_event_raw_ext4_fc_stats :: ctype where
  "struct_trace_event_raw_ext4_fc_stats =
     Composite Struct False
     [Member ''ent'' struct_trace_entry,
      Member ''dev'' typedef_dev_t,
      Member ''fc_ineligible_rc'' (Array (Scalar UInt32) 10),
      Member ''fc_commits'' (Scalar ULong64),
      Member ''fc_ineligible_commits'' (Scalar ULong64),
      Member ''fc_numblks'' (Scalar ULong64),
      Member ''__data'' (Array (Scalar Char8) 0)]"

lemma struct_trace_event_raw_ext4_fc_stats_layout [layout_simps]:
  "wf_type struct_trace_event_raw_ext4_fc_stats" "shape struct_trace_event_raw_ext4_fc_stats = (80, 8)"
  by (simp_all del: One_nat_def add: struct_trace_event_raw_ext4_fc_stats_def layout_eval layout_simps)

definition struct_trace_event_raw_ext4_fc_track_dentry :: ctype where
  "struct_trace_event_raw_ext4_fc_track_dentry =
     Composite Struct False
     [Member ''ent'' struct_trace_entry,
      Member ''dev'' typedef_dev_t,
      Member ''t_tid'' typedef_tid_t,
      Member ''i_ino'' typedef_ino_t,
      Member ''i_sync_tid'' typedef_tid_t,
      Member ''error'' (Scalar Int32),
      Member ''__data'' (Array (Scalar Char8) 0)]"

lemma struct_trace_event_raw_ext4_fc_track_dentry_layout [layout_simps]:
  "wf_type struct_trace_event_raw_ext4_fc_track_dentry" "shape struct_trace_event_raw_ext4_fc_track_dentry = (32, 8)"
  by (simp_all del: One_nat_def add: struct_trace_event_raw_ext4_fc_track_dentry_def layout_eval layout_simps)

definition struct_trace_event_raw_ext4_fc_track_inode :: ctype where
  "struct_trace_event_raw_ext4_fc_track_inode =
     Composite Struct False
     [Member ''ent'' struct_trace_entry,
      Member ''dev'' typedef_dev_t,
      Member ''t_tid'' typedef_tid_t,
      Member ''i_ino'' typedef_ino_t,
      Member ''i_sync_tid'' typedef_tid_t,
      Member ''error'' (Scalar Int32),
      Member ''__data'' (Array (Scalar Char8) 0)]"

lemma struct_trace_event_raw_ext4_fc_track_inode_layout [layout_simps]:
  "wf_type struct_trace_event_raw_ext4_fc_track_inode" "shape struct_trace_event_raw_ext4_fc_track_inode = (32, 8)"
  by (simp_all del: One_nat_def add: struct_trace_event_raw_ext4_fc_track_inode_def layout_eval layout_simps)

definition struct_trace_event_raw_ext4_fc_track_range :: ctype where
  "struct_trace_event_raw_ext4_fc_track_range =
     Composite Struct False
     [Member ''ent'' struct_trace_entry,
      Member ''dev'' typedef_dev_t,
      Member ''t_tid'' typedef_tid_t,
      Member ''i_ino'' typedef_ino_t,
      Member ''i_sync_tid'' typedef_tid_t,
      Member ''start'' (Scalar Long64),
      Member ''end'' (Scalar Long64),
      Member ''error'' (Scalar Int32),
      Member ''__data'' (Array (Scalar Char8) 0)]"

lemma struct_trace_event_raw_ext4_fc_track_range_layout [layout_simps]:
  "wf_type struct_trace_event_raw_ext4_fc_track_range" "shape struct_trace_event_raw_ext4_fc_track_range = (56, 8)"
  by (simp_all del: One_nat_def add: struct_trace_event_raw_ext4_fc_track_range_def layout_eval layout_simps)

definition struct_trace_event_raw_ext4_fc_cleanup :: ctype where
  "struct_trace_event_raw_ext4_fc_cleanup =
     Composite Struct False
     [Member ''ent'' struct_trace_entry,
      Member ''dev'' typedef_dev_t,
      Member ''j_fc_off'' (Scalar Int32),
      Member ''full'' (Scalar Int32),
      Member ''tid'' typedef_tid_t,
      Member ''__data'' (Array (Scalar Char8) 0)]"

lemma struct_trace_event_raw_ext4_fc_cleanup_layout [layout_simps]:
  "wf_type struct_trace_event_raw_ext4_fc_cleanup" "shape struct_trace_event_raw_ext4_fc_cleanup = (24, 4)"
  by (simp_all del: One_nat_def add: struct_trace_event_raw_ext4_fc_cleanup_def layout_eval layout_simps)

definition struct_trace_event_raw_ext4_update_sb :: ctype where
  "struct_trace_event_raw_ext4_update_sb =
     Composite Struct False
     [Member ''ent'' struct_trace_entry,
      Member ''dev'' typedef_dev_t,
      Member ''fsblk'' typedef_ext4_fsblk_t,
      Member ''flags'' (Scalar UInt32),
      Member ''__data'' (Array (Scalar Char8) 0)]"

lemma struct_trace_event_raw_ext4_update_sb_layout [layout_simps]:
  "wf_type struct_trace_event_raw_ext4_update_sb" "shape struct_trace_event_raw_ext4_update_sb = (32, 8)"
  by (simp_all del: One_nat_def add: struct_trace_event_raw_ext4_update_sb_def layout_eval layout_simps)

definition struct_trace_event_raw_drm_vblank_event :: ctype where
  "struct_trace_event_raw_drm_vblank_event =
     Composite Struct False
     [Member ''ent'' struct_trace_entry,
      Member ''crtc'' (Scalar Int32),
      Member ''seq'' (Scalar UInt32),
      Member ''time'' typedef_ktime_t,
      Member ''high_prec'' typedef_bool,
      Member ''__data'' (Array (Scalar Char8) 0)]"

lemma struct_trace_event_raw_drm_vblank_event_layout [layout_simps]:
  "wf_type struct_trace_event_raw_drm_vblank_event" "shape struct_trace_event_raw_drm_vblank_event = (32, 8)"
  by (simp_all del: One_nat_def add: struct_trace_event_raw_drm_vblank_event_def layout_eval layout_simps)

definition struct_trace_event_raw_drm_vblank_event_queued :: ctype where
  "struct_trace_event_raw_drm_vblank_event_queued =
     Composite Struct False
     [Member ''ent'' struct_trace_entry,
      Member ''file'' (Pointer (Named Struct_name ''drm_file'')),
      Member ''crtc'' (Scalar Int32),
      Member ''seq'' (Scalar UInt32),
      Member ''__data'' (Array (Scalar Char8) 0)]"

lemma struct_trace_event_raw_drm_vblank_event_queued_layout [layout_simps]:
  "wf_type struct_trace_event_raw_drm_vblank_event_queued" "shape struct_trace_event_raw_drm_vblank_event_queued = (24, 8)"
  by (simp_all del: One_nat_def add: struct_trace_event_raw_drm_vblank_event_queued_def layout_eval layout_simps)

definition struct_trace_event_raw_drm_vblank_event_delivered :: ctype where
  "struct_trace_event_raw_drm_vblank_event_delivered =
     Composite Struct False
     [Member ''ent'' struct_trace_entry,
      Member ''file'' (Pointer (Named Struct_name ''drm_file'')),
      Member ''crtc'' (Scalar Int32),
      Member ''seq'' (Scalar UInt32),
      Member ''__data'' (Array (Scalar Char8) 0)]"

lemma struct_trace_event_raw_drm_vblank_event_delivered_layout [layout_simps]:
  "wf_type struct_trace_event_raw_drm_vblank_event_delivered" "shape struct_trace_event_raw_drm_vblank_event_delivered = (24, 8)"
  by (simp_all del: One_nat_def add: struct_trace_event_raw_drm_vblank_event_delivered_def layout_eval layout_simps)

definition struct_trace_event_raw_cros_ec_request_start :: ctype where
  "struct_trace_event_raw_cros_ec_request_start =
     Composite Struct False
     [Member ''ent'' struct_trace_entry,
      Member ''version'' typedef_uint32_t,
      Member ''offset'' typedef_uint32_t,
      Member ''command'' typedef_uint32_t,
      Member ''outsize'' typedef_uint32_t,
      Member ''insize'' typedef_uint32_t,
      Member ''__data'' (Array (Scalar Char8) 0)]"

lemma struct_trace_event_raw_cros_ec_request_start_layout [layout_simps]:
  "wf_type struct_trace_event_raw_cros_ec_request_start" "shape struct_trace_event_raw_cros_ec_request_start = (28, 4)"
  by (simp_all del: One_nat_def add: struct_trace_event_raw_cros_ec_request_start_def layout_eval layout_simps)

definition struct_trace_event_raw_cros_ec_request_done :: ctype where
  "struct_trace_event_raw_cros_ec_request_done =
     Composite Struct False
     [Member ''ent'' struct_trace_entry,
      Member ''version'' typedef_uint32_t,
      Member ''offset'' typedef_uint32_t,
      Member ''command'' typedef_uint32_t,
      Member ''outsize'' typedef_uint32_t,
      Member ''insize'' typedef_uint32_t,
      Member ''result'' typedef_uint32_t,
      Member ''retval'' (Scalar Int32),
      Member ''__data'' (Array (Scalar Char8) 0)]"

lemma struct_trace_event_raw_cros_ec_request_done_layout [layout_simps]:
  "wf_type struct_trace_event_raw_cros_ec_request_done" "shape struct_trace_event_raw_cros_ec_request_done = (36, 4)"
  by (simp_all del: One_nat_def add: struct_trace_event_raw_cros_ec_request_done_def layout_eval layout_simps)

definition struct_trace_event_raw_consume_skb :: ctype where
  "struct_trace_event_raw_consume_skb =
     Composite Struct False
     [Member ''ent'' struct_trace_entry,
      Member ''skbaddr'' (Pointer Void),
      Member ''location'' (Pointer Void),
      Member ''__data'' (Array (Scalar Char8) 0)]"

lemma struct_trace_event_raw_consume_skb_layout [layout_simps]:
  "wf_type struct_trace_event_raw_consume_skb" "shape struct_trace_event_raw_consume_skb = (24, 8)"
  by (simp_all del: One_nat_def add: struct_trace_event_raw_consume_skb_def layout_eval layout_simps)

definition struct_trace_event_raw_fib_table_lookup :: ctype where
  "struct_trace_event_raw_fib_table_lookup =
     Composite Struct False
     [Member ''ent'' struct_trace_entry,
      Member ''tb_id'' typedef_u32,
      Member ''err'' (Scalar Int32),
      Member ''oif'' (Scalar Int32),
      Member ''iif'' (Scalar Int32),
      Member ''proto'' typedef_u8,
      Member ''tos'' typedef___u8,
      Member ''scope'' typedef___u8,
      Member ''flags'' typedef___u8,
      Member ''src'' (Array typedef___u8 4),
      Member ''dst'' (Array typedef___u8 4),
      Member ''gw4'' (Array typedef___u8 4),
      Member ''gw6'' (Array typedef___u8 16),
      Member ''sport'' typedef_u16,
      Member ''dport'' typedef_u16,
      Member ''name'' (Array (Scalar Char8) 16),
      Member ''__data'' (Array (Scalar Char8) 0)]"

lemma struct_trace_event_raw_fib_table_lookup_layout [layout_simps]:
  "wf_type struct_trace_event_raw_fib_table_lookup" "shape struct_trace_event_raw_fib_table_lookup = (76, 4)"
  by (simp_all del: One_nat_def add: struct_trace_event_raw_fib_table_lookup_def layout_eval layout_simps)

definition struct_trace_event_raw_br_fdb_add :: ctype where
  "struct_trace_event_raw_br_fdb_add =
     Composite Struct False
     [Member ''ent'' struct_trace_entry,
      Member ''ndm_flags'' typedef_u8,
      Member ''__data_loc_dev'' typedef_u32,
      Member ''addr'' (Array (Scalar UChar8) 6),
      Member ''vid'' typedef_u16,
      Member ''nlh_flags'' typedef_u16,
      Member ''__data'' (Array (Scalar Char8) 0)]"

lemma struct_trace_event_raw_br_fdb_add_layout [layout_simps]:
  "wf_type struct_trace_event_raw_br_fdb_add" "shape struct_trace_event_raw_br_fdb_add = (28, 4)"
  by (simp_all del: One_nat_def add: struct_trace_event_raw_br_fdb_add_def layout_eval layout_simps)

definition struct_trace_event_raw_br_fdb_external_learn_add :: ctype where
  "struct_trace_event_raw_br_fdb_external_learn_add =
     Composite Struct False
     [Member ''ent'' struct_trace_entry,
      Member ''__data_loc_br_dev'' typedef_u32,
      Member ''__data_loc_dev'' typedef_u32,
      Member ''addr'' (Array (Scalar UChar8) 6),
      Member ''vid'' typedef_u16,
      Member ''__data'' (Array (Scalar Char8) 0)]"

lemma struct_trace_event_raw_br_fdb_external_learn_add_layout [layout_simps]:
  "wf_type struct_trace_event_raw_br_fdb_external_learn_add" "shape struct_trace_event_raw_br_fdb_external_learn_add = (24, 4)"
  by (simp_all del: One_nat_def add: struct_trace_event_raw_br_fdb_external_learn_add_def layout_eval layout_simps)

definition struct_trace_event_raw_fdb_delete :: ctype where
  "struct_trace_event_raw_fdb_delete =
     Composite Struct False
     [Member ''ent'' struct_trace_entry,
      Member ''__data_loc_br_dev'' typedef_u32,
      Member ''__data_loc_dev'' typedef_u32,
      Member ''addr'' (Array (Scalar UChar8) 6),
      Member ''vid'' typedef_u16,
      Member ''__data'' (Array (Scalar Char8) 0)]"

lemma struct_trace_event_raw_fdb_delete_layout [layout_simps]:
  "wf_type struct_trace_event_raw_fdb_delete" "shape struct_trace_event_raw_fdb_delete = (24, 4)"
  by (simp_all del: One_nat_def add: struct_trace_event_raw_fdb_delete_def layout_eval layout_simps)

definition struct_trace_event_raw_br_fdb_update :: ctype where
  "struct_trace_event_raw_br_fdb_update =
     Composite Struct False
     [Member ''ent'' struct_trace_entry,
      Member ''__data_loc_br_dev'' typedef_u32,
      Member ''__data_loc_dev'' typedef_u32,
      Member ''addr'' (Array (Scalar UChar8) 6),
      Member ''vid'' typedef_u16,
      Member ''flags'' (Scalar ULong64),
      Member ''__data'' (Array (Scalar Char8) 0)]"

lemma struct_trace_event_raw_br_fdb_update_layout [layout_simps]:
  "wf_type struct_trace_event_raw_br_fdb_update" "shape struct_trace_event_raw_br_fdb_update = (32, 8)"
  by (simp_all del: One_nat_def add: struct_trace_event_raw_br_fdb_update_def layout_eval layout_simps)

definition struct_trace_event_raw_br_mdb_full :: ctype where
  "struct_trace_event_raw_br_mdb_full =
     Composite Struct False
     [Member ''ent'' struct_trace_entry,
      Member ''__data_loc_dev'' typedef_u32,
      Member ''af'' (Scalar Int32),
      Member ''vid'' typedef_u16,
      Member ''src'' (Array typedef___u8 16),
      Member ''grp'' (Array typedef___u8 16),
      Member ''grpmac'' (Array typedef___u8 6),
      Member ''__data'' (Array (Scalar Char8) 0)]"

lemma struct_trace_event_raw_br_mdb_full_layout [layout_simps]:
  "wf_type struct_trace_event_raw_br_mdb_full" "shape struct_trace_event_raw_br_mdb_full = (56, 4)"
  by (simp_all del: One_nat_def add: struct_trace_event_raw_br_mdb_full_def layout_eval layout_simps)

definition struct_trace_event_raw_bpf_test_finish :: ctype where
  "struct_trace_event_raw_bpf_test_finish =
     Composite Struct False
     [Member ''ent'' struct_trace_entry,
      Member ''err'' (Scalar Int32),
      Member ''__data'' (Array (Scalar Char8) 0)]"

lemma struct_trace_event_raw_bpf_test_finish_layout [layout_simps]:
  "wf_type struct_trace_event_raw_bpf_test_finish" "shape struct_trace_event_raw_bpf_test_finish = (12, 4)"
  by (simp_all del: One_nat_def add: struct_trace_event_raw_bpf_test_finish_def layout_eval layout_simps)

text \<open>The types of this theory by kind and name.\<close>

definition events_a_records :: "(string \<times> ctype) list" where
  "events_a_records =
     [(''emulate_vsyscall'', struct_trace_event_raw_emulate_vsyscall),
      (''csd_queue_cpu'', struct_trace_event_raw_csd_queue_cpu),
      (''csd_function'', struct_trace_event_raw_csd_function),
      (''cgroup_root'', struct_trace_event_raw_cgroup_root),
      (''cgroup'', struct_trace_event_raw_cgroup),
      (''cgroup_migrate'', struct_trace_event_raw_cgroup_migrate),
      (''cgroup_event'', struct_trace_event_raw_cgroup_event),
      (''error_report_template'', struct_trace_event_raw_error_report_template),
      (''clk'', struct_trace_event_raw_clk),
      (''clk_rate'', struct_trace_event_raw_clk_rate),
      (''clk_rate_range'', struct_trace_event_raw_clk_rate_range),
      (''clk_parent'', struct_trace_event_raw_clk_parent),
      (''clk_phase'', struct_trace_event_raw_clk_phase),
      (''clk_duty_cycle'', struct_trace_event_raw_clk_duty_cycle),
      (''clk_rate_request'', struct_trace_event_raw_clk_rate_request),
      (''ata_qc_issue_template'', struct_trace_event_raw_ata_qc_issue_template),
      (''ata_qc_complete_template'', struct_trace_event_raw_ata_qc_complete_template),
      (''ata_tf_load'', struct_trace_event_raw_ata_tf_load),
      (''ata_exec_command_template'', struct_trace_event_raw_ata_exec_command_template),
      (''ata_bmdma_status'', struct_trace_event_raw_ata_bmdma_status),
      (''ata_eh_link_autopsy'', struct_trace_event_raw_ata_eh_link_autopsy),
      (''ata_eh_link_autopsy_qc'', struct_trace_event_raw_ata_eh_link_autopsy_qc),
      (''ata_eh_action_template'', struct_trace_event_raw_ata_eh_action_template),
      (''ata_link_reset_begin_template'', struct_trace_event_raw_ata_link_reset_begin_template),
      (''ata_link_reset_end_template'', struct_trace_event_raw_ata_link_reset_end_template),
      (''ata_port_eh_begin_template'', struct_trace_event_raw_ata_port_eh_begin_template),
      (''ata_sff_hsm_template'', struct_trace_event_raw_ata_sff_hsm_template),
      (''ata_transfer_data_template'', struct_trace_event_raw_ata_transfer_data_template),
      (''ata_sff_template'', struct_trace_event_raw_ata_sff_template),
      (''devfreq_frequency'', struct_trace_event_raw_devfreq_frequency),
      (''devfreq_monitor'', struct_trace_event_raw_devfreq_monitor),
      (''cpuhp_enter'', struct_trace_event_raw_cpuhp_enter),
      (''cpuhp_multi_enter'', struct_trace_event_raw_cpuhp_multi_enter),
      (''cpuhp_exit'', struct_trace_event_raw_cpuhp_exit),
      (''contention_begin'', struct_trace_event_raw_contention_begin),
      (''contention_end'', struct_trace_event_raw_contention_end),
      (''cpu'', struct_trace_event_raw_cpu),
      (''cpu_idle_miss'', struct_trace_event_raw_cpu_idle_miss),
      (''cpu_frequency_limits'', struct_trace_event_raw_cpu_frequency_limits),
      (''device_pm_callback_start'', struct_trace_event_raw_device_pm_callback_start),
      (''device_pm_callback_end'', struct_trace_event_raw_device_pm_callback_end),
      (''clock'', struct_trace_event_raw_clock),
      (''cpu_latency_qos_request'', struct_trace_event_raw_cpu_latency_qos_request),
      (''dev_pm_qos_request'', struct_trace_event_raw_dev_pm_qos_request),
      (''filemap_set_wb_err'', struct_trace_event_raw_filemap_set_wb_err),
      (''file_check_and_advance_wb_err'', struct_trace_event_raw_file_check_and_advance_wb_err),
      (''alloc_vmap_area'', struct_trace_event_raw_alloc_vmap_area),
      (''bdi_dirty_ratelimit'', struct_trace_event_raw_bdi_dirty_ratelimit),
      (''balance_dirty_pages'', struct_trace_event_raw_balance_dirty_pages),
      (''dax_pmd_fault_class'', struct_trace_event_raw_dax_pmd_fault_class),
      (''dax_pmd_load_hole_class'', struct_trace_event_raw_dax_pmd_load_hole_class),
      (''dax_pmd_insert_mapping_class'', struct_trace_event_raw_dax_pmd_insert_mapping_class),
      (''dax_pte_fault_class'', struct_trace_event_raw_dax_pte_fault_class),
      (''dax_insert_mapping'', struct_trace_event_raw_dax_insert_mapping),
      (''dax_writeback_range_class'', struct_trace_event_raw_dax_writeback_range_class),
      (''dax_writeback_one'', struct_trace_event_raw_dax_writeback_one),
      (''block_buffer'', struct_trace_event_raw_block_buffer),
      (''block_rq_requeue'', struct_trace_event_raw_block_rq_requeue),
      (''block_rq'', struct_trace_event_raw_block_rq),
      (''block_bio_complete'', struct_trace_event_raw_block_bio_complete),
      (''block_bio'', struct_trace_event_raw_block_bio),
      (''block_plug'', struct_trace_event_raw_block_plug),
      (''block_unplug'', struct_trace_event_raw_block_unplug),
      (''block_split'', struct_trace_event_raw_block_split),
      (''block_bio_remap'', struct_trace_event_raw_block_bio_remap),
      (''block_rq_remap'', struct_trace_event_raw_block_rq_remap),
      (''dma_fence'', struct_trace_event_raw_dma_fence),
      (''cdev_update'', struct_trace_event_raw_cdev_update),
      (''extlog_mem_event'', struct_trace_event_raw_extlog_mem_event),
      (''arm_event'', struct_trace_event_raw_arm_event),
      (''aer_event'', struct_trace_event_raw_aer_event),
      (''fib6_table_lookup'', struct_trace_event_raw_fib6_table_lookup),
      (''ack_update_msk'', struct_trace_event_raw_ack_update_msk),
      (''alarmtimer_suspend'', struct_trace_event_raw_alarmtimer_suspend),
      (''alarm_class'', struct_trace_event_raw_alarm_class),
      (''event_da_monitor_id'', struct_trace_event_raw_event_da_monitor_id),
      (''error_da_monitor_id'', struct_trace_event_raw_error_da_monitor_id),
      (''bpf_xdp_link_attach_failed'', struct_trace_event_raw_bpf_xdp_link_attach_failed),
      (''context_tracking_user'', struct_trace_event_raw_context_tracking_user),
      (''filelock_lock'', struct_trace_event_raw_filelock_lock),
      (''filelock_lease'', struct_trace_event_raw_filelock_lease),
      (''devres'', struct_trace_event_raw_devres),
      (''amd_pstate_perf'', struct_trace_event_raw_amd_pstate_perf),
      (''devlink_hwmsg'', struct_trace_event_raw_devlink_hwmsg),
      (''devlink_hwerr'', struct_trace_event_raw_devlink_hwerr),
      (''devlink_health_report'', struct_trace_event_raw_devlink_health_report),
      (''devlink_health_recover_aborted'', struct_trace_event_raw_devlink_health_recover_aborted),
      (''devlink_health_reporter_state_update'', struct_trace_event_raw_devlink_health_reporter_state_update),
      (''devlink_trap_report'', struct_trace_event_raw_devlink_trap_report),
      (''console'', struct_trace_event_raw_console),
      (''bpf_trace_printk'', struct_trace_event_raw_bpf_trace_printk),
      (''finish_task_reaping'', struct_trace_event_raw_finish_task_reaping),
      (''compact_retry'', struct_trace_event_raw_compact_retry),
      (''exit_mmap'', struct_trace_event_raw_exit_mmap),
      (''ext4_other_inode_update_time'', struct_trace_event_raw_ext4_other_inode_update_time),
      (''ext4_free_inode'', struct_trace_event_raw_ext4_free_inode),
      (''ext4_request_inode'', struct_trace_event_raw_ext4_request_inode),
      (''ext4_allocate_inode'', struct_trace_event_raw_ext4_allocate_inode),
      (''ext4_evict_inode'', struct_trace_event_raw_ext4_evict_inode),
      (''ext4_drop_inode'', struct_trace_event_raw_ext4_drop_inode),
      (''ext4_nfs_commit_metadata'', struct_trace_event_raw_ext4_nfs_commit_metadata),
      (''ext4_mark_inode_dirty'', struct_trace_event_raw_ext4_mark_inode_dirty),
      (''ext4_begin_ordered_truncate'', struct_trace_event_raw_ext4_begin_ordered_truncate),
      (''ext4__write_begin'', struct_trace_event_raw_ext4__write_begin),
      (''ext4__write_end'', struct_trace_event_raw_ext4__write_end),
      (''ext4_writepages'', struct_trace_event_raw_ext4_writepages),
      (''ext4_da_write_pages'', struct_trace_event_raw_ext4_da_write_pages),
      (''ext4_da_write_pages_extent'', struct_trace_event_raw_ext4_da_write_pages_extent),
      (''ext4_writepages_result'', struct_trace_event_raw_ext4_writepages_result),
      (''ext4__folio_op'', struct_trace_event_raw_ext4__folio_op),
      (''ext4_invalidate_folio_op'', struct_trace_event_raw_ext4_invalidate_folio_op),
      (''ext4_discard_blocks'', struct_trace_event_raw_ext4_discard_blocks),
      (''ext4__mb_new_pa'', struct_trace_event_raw_ext4__mb_new_pa),
      (''ext4_mb_release_inode_pa'', struct_trace_event_raw_ext4_mb_release_inode_pa),
      (''ext4_mb_release_group_pa'', struct_trace_event_raw_ext4_mb_release_group_pa),
      (''ext4_discard_preallocations'', struct_trace_event_raw_ext4_discard_preallocations),
      (''ext4_mb_discard_preallocations'', struct_trace_event_raw_ext4_mb_discard_preallocations),
      (''ext4_request_blocks'', struct_trace_event_raw_ext4_request_blocks),
      (''ext4_allocate_blocks'', struct_trace_event_raw_ext4_allocate_blocks),
      (''ext4_free_blocks'', struct_trace_event_raw_ext4_free_blocks),
      (''ext4_sync_file_enter'', struct_trace_event_raw_ext4_sync_file_enter),
      (''ext4_sync_file_exit'', struct_trace_event_raw_ext4_sync_file_exit),
      (''ext4_sync_fs'', struct_trace_event_raw_ext4_sync_fs),
      (''ext4_alloc_da_blocks'', struct_trace_event_raw_ext4_alloc_da_blocks),
      (''ext4_mballoc_alloc'', struct_trace_event_raw_ext4_mballoc_alloc),
      (''ext4_mballoc_prealloc'', struct_trace_event_raw_ext4_mballoc_prealloc),
      (''ext4__mballoc'', struct_trace_event_raw_ext4__mballoc),
      (''ext4_forget'', struct_trace_event_raw_ext4_forget),
      (''ext4_da_update_reserve_space'', struct_trace_event_raw_ext4_da_update_reserve_space),
      (''ext4_da_reserve_space'', struct_trace_event_raw_ext4_da_reserve_space),
      (''ext4_da_release_space'', struct_trace_event_raw_ext4_da_release_space),
      (''ext4__bitmap_load'', struct_trace_event_raw_ext4__bitmap_load),
      (''ext4_read_block_bitmap_load'', struct_trace_event_raw_ext4_read_block_bitmap_load),
      (''ext4__fallocate_mode'', struct_trace_event_raw_ext4__fallocate_mode),
      (''ext4_fallocate_exit'', struct_trace_event_raw_ext4_fallocate_exit),
      (''ext4_unlink_enter'', struct_trace_event_raw_ext4_unlink_enter),
      (''ext4_unlink_exit'', struct_trace_event_raw_ext4_unlink_exit),
      (''ext4__truncate'', struct_trace_event_raw_ext4__truncate),
      (''ext4_ext_convert_to_initialized_enter'', struct_trace_event_raw_ext4_ext_convert_to_initialized_enter),
      (''ext4_ext_convert_to_initialized_fastpath'', struct_trace_event_raw_ext4_ext_convert_to_initialized_fastpath),
      (''ext4__map_blocks_enter'', struct_trace_event_raw_ext4__map_blocks_enter),
      (''ext4__map_blocks_exit'', struct_trace_event_raw_ext4__map_blocks_exit),
      (''ext4_ext_load_extent'', struct_trace_event_raw_ext4_ext_load_extent),
      (''ext4_load_inode'', struct_trace_event_raw_ext4_load_inode),
      (''ext4_journal_start_sb'', struct_trace_event_raw_ext4_journal_start_sb),
      (''ext4_journal_start_inode'', struct_trace_event_raw_ext4_journal_start_inode),
      (''ext4_journal_start_reserved'', struct_trace_event_raw_ext4_journal_start_reserved),
      (''ext4__trim'', struct_trace_event_raw_ext4__trim),
      (''ext4_ext_handle_unwritten_extents'', struct_trace_event_raw_ext4_ext_handle_unwritten_extents),
      (''ext4_get_implied_cluster_alloc_exit'', struct_trace_event_raw_ext4_get_implied_cluster_alloc_exit),
      (''ext4_ext_show_extent'', struct_trace_event_raw_ext4_ext_show_extent),
      (''ext4_remove_blocks'', struct_trace_event_raw_ext4_remove_blocks),
      (''ext4_ext_rm_leaf'', struct_trace_event_raw_ext4_ext_rm_leaf),
      (''ext4_ext_rm_idx'', struct_trace_event_raw_ext4_ext_rm_idx),
      (''ext4_ext_remove_space'', struct_trace_event_raw_ext4_ext_remove_space),
      (''ext4_ext_remove_space_done'', struct_trace_event_raw_ext4_ext_remove_space_done),
      (''ext4__es_extent'', struct_trace_event_raw_ext4__es_extent),
      (''ext4_es_remove_extent'', struct_trace_event_raw_ext4_es_remove_extent),
      (''ext4_es_find_extent_range_enter'', struct_trace_event_raw_ext4_es_find_extent_range_enter),
      (''ext4_es_find_extent_range_exit'', struct_trace_event_raw_ext4_es_find_extent_range_exit),
      (''ext4_es_lookup_extent_enter'', struct_trace_event_raw_ext4_es_lookup_extent_enter),
      (''ext4_es_lookup_extent_exit'', struct_trace_event_raw_ext4_es_lookup_extent_exit),
      (''ext4__es_shrink_enter'', struct_trace_event_raw_ext4__es_shrink_enter),
      (''ext4_es_shrink_scan_exit'', struct_trace_event_raw_ext4_es_shrink_scan_exit),
      (''ext4_collapse_range'', struct_trace_event_raw_ext4_collapse_range),
      (''ext4_insert_range'', struct_trace_event_raw_ext4_insert_range),
      (''ext4_es_shrink'', struct_trace_event_raw_ext4_es_shrink),
      (''ext4_es_insert_delayed_block'', struct_trace_event_raw_ext4_es_insert_delayed_block),
      (''ext4_fsmap_class'', struct_trace_event_raw_ext4_fsmap_class),
      (''ext4_getfsmap_class'', struct_trace_event_raw_ext4_getfsmap_class),
      (''ext4_shutdown'', struct_trace_event_raw_ext4_shutdown),
      (''ext4_error'', struct_trace_event_raw_ext4_error),
      (''ext4_prefetch_bitmaps'', struct_trace_event_raw_ext4_prefetch_bitmaps),
      (''ext4_lazy_itable_init'', struct_trace_event_raw_ext4_lazy_itable_init),
      (''ext4_fc_replay_scan'', struct_trace_event_raw_ext4_fc_replay_scan),
      (''ext4_fc_replay'', struct_trace_event_raw_ext4_fc_replay),
      (''ext4_fc_commit_start'', struct_trace_event_raw_ext4_fc_commit_start),
      (''ext4_fc_commit_stop'', struct_trace_event_raw_ext4_fc_commit_stop),
      (''ext4_fc_stats'', struct_trace_event_raw_ext4_fc_stats),
      (''ext4_fc_track_dentry'', struct_trace_event_raw_ext4_fc_track_dentry),
      (''ext4_fc_track_inode'', struct_trace_event_raw_ext4_fc_track_inode),
      (''ext4_fc_track_range'', struct_trace_event_raw_ext4_fc_track_range),
      (''ext4_fc_cleanup'', struct_trace_event_raw_ext4_fc_cleanup),
      (''ext4_update_sb'', struct_trace_event_raw_ext4_update_sb),
      (''drm_vblank_event'', struct_trace_event_raw_drm_vblank_event),
      (''drm_vblank_event_queued'', struct_trace_event_raw_drm_vblank_event_queued),
      (''drm_vblank_event_delivered'', struct_trace_event_raw_drm_vblank_event_delivered),
      (''cros_ec_request_start'', struct_trace_event_raw_cros_ec_request_start),
      (''cros_ec_request_done'', struct_trace_event_raw_cros_ec_request_done),
      (''consume_skb'', struct_trace_event_raw_consume_skb),
      (''fib_table_lookup'', struct_trace_event_raw_fib_table_lookup),
      (''br_fdb_add'', struct_trace_event_raw_br_fdb_add),
      (''br_fdb_external_learn_add'', struct_trace_event_raw_br_fdb_external_learn_add),
      (''fdb_delete'', struct_trace_event_raw_fdb_delete),
      (''br_fdb_update'', struct_trace_event_raw_br_fdb_update),
      (''br_mdb_full'', struct_trace_event_raw_br_mdb_full),
      (''bpf_test_finish'', struct_trace_event_raw_bpf_test_finish)]"

definition events_a_types :: "(name_kind \<times> string \<times> ctype) list" where
  "events_a_types = map event_record events_a_records"

lemmas events_a_defs = struct_trace_event_raw_emulate_vsyscall_def
  struct_trace_event_raw_csd_queue_cpu_def struct_trace_event_raw_csd_function_def
  struct_trace_event_raw_cgroup_root_def struct_trace_event_raw_cgroup_def
  struct_trace_event_raw_cgroup_migrate_def struct_trace_event_raw_cgroup_event_def
  struct_trace_event_raw_error_report_template_def struct_trace_event_raw_clk_def
  struct_trace_event_raw_clk_rate_def struct_trace_event_raw_clk_rate_range_def
  struct_trace_event_raw_clk_parent_def struct_trace_event_raw_clk_phase_def
  struct_trace_event_raw_clk_duty_cycle_def struct_trace_event_raw_clk_rate_request_def
  struct_trace_event_raw_ata_qc_issue_template_def
  struct_trace_event_raw_ata_qc_complete_template_def struct_trace_event_raw_ata_tf_load_def
  struct_trace_event_raw_ata_exec_command_template_def struct_trace_event_raw_ata_bmdma_status_def
  struct_trace_event_raw_ata_eh_link_autopsy_def struct_trace_event_raw_ata_eh_link_autopsy_qc_def
  struct_trace_event_raw_ata_eh_action_template_def
  struct_trace_event_raw_ata_link_reset_begin_template_def
  struct_trace_event_raw_ata_link_reset_end_template_def
  struct_trace_event_raw_ata_port_eh_begin_template_def
  struct_trace_event_raw_ata_sff_hsm_template_def
  struct_trace_event_raw_ata_transfer_data_template_def
  struct_trace_event_raw_ata_sff_template_def struct_trace_event_raw_devfreq_frequency_def
  struct_trace_event_raw_devfreq_monitor_def struct_trace_event_raw_cpuhp_enter_def
  struct_trace_event_raw_cpuhp_multi_enter_def struct_trace_event_raw_cpuhp_exit_def
  struct_trace_event_raw_contention_begin_def struct_trace_event_raw_contention_end_def
  struct_trace_event_raw_cpu_def struct_trace_event_raw_cpu_idle_miss_def
  struct_trace_event_raw_cpu_frequency_limits_def
  struct_trace_event_raw_device_pm_callback_start_def
  struct_trace_event_raw_device_pm_callback_end_def struct_trace_event_raw_clock_def
  struct_trace_event_raw_cpu_latency_qos_request_def struct_trace_event_raw_dev_pm_qos_request_def
  struct_trace_event_raw_filemap_set_wb_err_def
  struct_trace_event_raw_file_check_and_advance_wb_err_def
  struct_trace_event_raw_alloc_vmap_area_def struct_trace_event_raw_bdi_dirty_ratelimit_def
  struct_trace_event_raw_balance_dirty_pages_def struct_trace_event_raw_dax_pmd_fault_class_def
  struct_trace_event_raw_dax_pmd_load_hole_class_def
  struct_trace_event_raw_dax_pmd_insert_mapping_class_def
  struct_trace_event_raw_dax_pte_fault_class_def struct_trace_event_raw_dax_insert_mapping_def
  struct_trace_event_raw_dax_writeback_range_class_def
  struct_trace_event_raw_dax_writeback_one_def struct_trace_event_raw_block_buffer_def
  struct_trace_event_raw_block_rq_requeue_def struct_trace_event_raw_block_rq_def
  struct_trace_event_raw_block_bio_complete_def struct_trace_event_raw_block_bio_def
  struct_trace_event_raw_block_plug_def struct_trace_event_raw_block_unplug_def
  struct_trace_event_raw_block_split_def struct_trace_event_raw_block_bio_remap_def
  struct_trace_event_raw_block_rq_remap_def struct_trace_event_raw_dma_fence_def
  struct_trace_event_raw_cdev_update_def struct_trace_event_raw_extlog_mem_event_def
  struct_trace_event_raw_arm_event_def struct_trace_event_raw_aer_event_def
  struct_trace_event_raw_fib6_table_lookup_def struct_trace_event_raw_ack_update_msk_def
  struct_trace_event_raw_alarmtimer_suspend_def struct_trace_event_raw_alarm_class_def
  struct_trace_event_raw_event_da_monitor_id_def struct_trace_event_raw_error_da_monitor_id_def
  struct_trace_event_raw_bpf_xdp_link_attach_failed_def
  struct_trace_event_raw_context_tracking_user_def struct_trace_event_raw_filelock_lock_def
  struct_trace_event_raw_filelock_lease_def struct_trace_event_raw_devres_def
  struct_trace_event_raw_amd_pstate_perf_def struct_trace_event_raw_devlink_hwmsg_def
  struct_trace_event_raw_devlink_hwerr_def struct_trace_event_raw_devlink_health_report_def
  struct_trace_event_raw_devlink_health_recover_aborted_def
  struct_trace_event_raw_devlink_health_reporter_state_update_def
  struct_trace_event_raw_devlink_trap_report_def struct_trace_event_raw_console_def
  struct_trace_event_raw_bpf_trace_printk_def struct_trace_event_raw_finish_task_reaping_def
  struct_trace_event_raw_compact_retry_def struct_trace_event_raw_exit_mmap_def
  struct_trace_event_raw_ext4_other_inode_update_time_def
  struct_trace_event_raw_ext4_free_inode_def struct_trace_event_raw_ext4_request_inode_def
  struct_trace_event_raw_ext4_allocate_inode_def struct_trace_event_raw_ext4_evict_inode_def
  struct_trace_event_raw_ext4_drop_inode_def struct_trace_event_raw_ext4_nfs_commit_metadata_def
  struct_trace_event_raw_ext4_mark_inode_dirty_def
  struct_trace_event_raw_ext4_begin_ordered_truncate_def
  struct_trace_event_raw_ext4__write_begin_def struct_trace_event_raw_ext4__write_end_def
  struct_trace_event_raw_ext4_writepages_def struct_trace_event_raw_ext4_da_write_pages_def
  struct_trace_event_raw_ext4_da_write_pages_extent_def
  struct_trace_event_raw_ext4_writepages_result_def struct_trace_event_raw_ext4__folio_op_def
  struct_trace_event_raw_ext4_invalidate_folio_op_def
  struct_trace_event_raw_ext4_discard_blocks_def struct_trace_event_raw_ext4__mb_new_pa_def
  struct_trace_event_raw_ext4_mb_release_inode_pa_def
  struct_trace_event_raw_ext4_mb_release_group_pa_def
  struct_trace_event_raw_ext4_discard_preallocations_def
  struct_trace_event_raw_ext4_mb_discard_preallocations_def
  struct_trace_event_raw_ext4_request_blocks_def struct_trace_event_raw_ext4_allocate_blocks_def
  struct_trace_event_raw_ext4_free_blocks_def struct_trace_event_raw_ext4_sync_file_enter_def
  struct_trace_event_raw_ext4_sync_file_exit_def struct_trace_event_raw_ext4_sync_fs_def
  struct_trace_event_raw_ext4_alloc_da_blocks_def struct_trace_event_raw_ext4_mballoc_alloc_def
  struct_trace_event_raw_ext4_mballoc_prealloc_def struct_trace_event_raw_ext4__mballoc_def
  struct_trace_event_raw_ext4_forget_def struct_trace_event_raw_ext4_da_update_reserve_space_def
  struct_trace_event_raw_ext4_da_reserve_space_def
  struct_trace_event_raw_ext4_da_release_space_def struct_trace_event_raw_ext4__bitmap_load_def
  struct_trace_event_raw_ext4_read_block_bitmap_load_def
  struct_trace_event_raw_ext4__fallocate_mode_def struct_trace_event_raw_ext4_fallocate_exit_def
  struct_trace_event_raw_ext4_unlink_enter_def struct_trace_event_raw_ext4_unlink_exit_def
  struct_trace_event_raw_ext4__truncate_def
  struct_trace_event_raw_ext4_ext_convert_to_initialized_enter_def
  struct_trace_event_raw_ext4_ext_convert_to_initialized_fastpath_def
  struct_trace_event_raw_ext4__map_blocks_enter_def
  struct_trace_event_raw_ext4__map_blocks_exit_def struct_trace_event_raw_ext4_ext_load_extent_def
  struct_trace_event_raw_ext4_load_inode_def struct_trace_event_raw_ext4_journal_start_sb_def
  struct_trace_event_raw_ext4_journal_start_inode_def
  struct_trace_event_raw_ext4_journal_start_reserved_def struct_trace_event_raw_ext4__trim_def
  struct_trace_event_raw_ext4_ext_handle_unwritten_extents_def
  struct_trace_event_raw_ext4_get_implied_cluster_alloc_exit_def
  struct_trace_event_raw_ext4_ext_show_extent_def struct_trace_event_raw_ext4_remove_blocks_def
  struct_trace_event_raw_ext4_ext_rm_leaf_def struct_trace_event_raw_ext4_ext_rm_idx_def
  struct_trace_event_raw_ext4_ext_remove_space_def
  struct_trace_event_raw_ext4_ext_remove_space_done_def struct_trace_event_raw_ext4__es_extent_def
  struct_trace_event_raw_ext4_es_remove_extent_def
  struct_trace_event_raw_ext4_es_find_extent_range_enter_def
  struct_trace_event_raw_ext4_es_find_extent_range_exit_def
  struct_trace_event_raw_ext4_es_lookup_extent_enter_def
  struct_trace_event_raw_ext4_es_lookup_extent_exit_def
  struct_trace_event_raw_ext4__es_shrink_enter_def
  struct_trace_event_raw_ext4_es_shrink_scan_exit_def
  struct_trace_event_raw_ext4_collapse_range_def struct_trace_event_raw_ext4_insert_range_def
  struct_trace_event_raw_ext4_es_shrink_def
  struct_trace_event_raw_ext4_es_insert_delayed_block_def
  struct_trace_event_raw_ext4_fsmap_class_def struct_trace_event_raw_ext4_getfsmap_class_def
  struct_trace_event_raw_ext4_shutdown_def struct_trace_event_raw_ext4_error_def
  struct_trace_event_raw_ext4_prefetch_bitmaps_def
  struct_trace_event_raw_ext4_lazy_itable_init_def struct_trace_event_raw_ext4_fc_replay_scan_def
  struct_trace_event_raw_ext4_fc_replay_def struct_trace_event_raw_ext4_fc_commit_start_def
  struct_trace_event_raw_ext4_fc_commit_stop_def struct_trace_event_raw_ext4_fc_stats_def
  struct_trace_event_raw_ext4_fc_track_dentry_def struct_trace_event_raw_ext4_fc_track_inode_def
  struct_trace_event_raw_ext4_fc_track_range_def struct_trace_event_raw_ext4_fc_cleanup_def
  struct_trace_event_raw_ext4_update_sb_def struct_trace_event_raw_drm_vblank_event_def
  struct_trace_event_raw_drm_vblank_event_queued_def
  struct_trace_event_raw_drm_vblank_event_delivered_def
  struct_trace_event_raw_cros_ec_request_start_def struct_trace_event_raw_cros_ec_request_done_def
  struct_trace_event_raw_consume_skb_def struct_trace_event_raw_fib_table_lookup_def
  struct_trace_event_raw_br_fdb_add_def struct_trace_event_raw_br_fdb_external_learn_add_def
  struct_trace_event_raw_fdb_delete_def struct_trace_event_raw_br_fdb_update_def
  struct_trace_event_raw_br_mdb_full_def struct_trace_event_raw_bpf_test_finish_def

end
