(* ===== verification/VmlinuxEventsB.thy ===== *)
theory VmlinuxEventsB
  imports VmlinuxUapi
begin

text \<open>
  Kernel types: the records of the tracepoints of the kernel besides those that the programs are
  attached to, \<open>trace_event_raw_flush_foreign\<close> to
  \<open>trace_event_raw_pseudo_lock_l3\<close>. Each definition is one declaration of the
  header, in the order of use; a lemma with each gives its size and alignment in bytes.
\<close>

definition struct_trace_event_raw_pseudo_lock_l2 :: ctype where
  "struct_trace_event_raw_pseudo_lock_l2 =
     Composite Struct False
     [Member ''ent'' struct_trace_entry,
      Member ''l2_hits'' typedef_u64,
      Member ''l2_miss'' typedef_u64,
      Member ''__data'' (Array (Scalar Char8) 0)]"

lemma struct_trace_event_raw_pseudo_lock_l2_layout [layout_simps]:
  "wf_type struct_trace_event_raw_pseudo_lock_l2" "shape struct_trace_event_raw_pseudo_lock_l2 = (24, 8)"
  by (simp_all del: One_nat_def add: struct_trace_event_raw_pseudo_lock_l2_def layout_eval layout_simps)

definition struct_trace_event_raw_pseudo_lock_l3 :: ctype where
  "struct_trace_event_raw_pseudo_lock_l3 =
     Composite Struct False
     [Member ''ent'' struct_trace_entry,
      Member ''l3_hits'' typedef_u64,
      Member ''l3_miss'' typedef_u64,
      Member ''__data'' (Array (Scalar Char8) 0)]"

lemma struct_trace_event_raw_pseudo_lock_l3_layout [layout_simps]:
  "wf_type struct_trace_event_raw_pseudo_lock_l3" "shape struct_trace_event_raw_pseudo_lock_l3 = (24, 8)"
  by (simp_all del: One_nat_def add: struct_trace_event_raw_pseudo_lock_l3_def layout_eval layout_simps)

definition struct_trace_event_raw_irq_handler_entry :: ctype where
  "struct_trace_event_raw_irq_handler_entry =
     Composite Struct False
     [Member ''ent'' struct_trace_entry,
      Member ''irq'' (Scalar Int32),
      Member ''__data_loc_name'' typedef_u32,
      Member ''__data'' (Array (Scalar Char8) 0)]"

lemma struct_trace_event_raw_irq_handler_entry_layout [layout_simps]:
  "wf_type struct_trace_event_raw_irq_handler_entry" "shape struct_trace_event_raw_irq_handler_entry = (16, 4)"
  by (simp_all del: One_nat_def add: struct_trace_event_raw_irq_handler_entry_def layout_eval layout_simps)

definition struct_trace_event_raw_irq_handler_exit :: ctype where
  "struct_trace_event_raw_irq_handler_exit =
     Composite Struct False
     [Member ''ent'' struct_trace_entry,
      Member ''irq'' (Scalar Int32),
      Member ''ret'' (Scalar Int32),
      Member ''__data'' (Array (Scalar Char8) 0)]"

lemma struct_trace_event_raw_irq_handler_exit_layout [layout_simps]:
  "wf_type struct_trace_event_raw_irq_handler_exit" "shape struct_trace_event_raw_irq_handler_exit = (16, 4)"
  by (simp_all del: One_nat_def add: struct_trace_event_raw_irq_handler_exit_def layout_eval layout_simps)

definition struct_trace_event_raw_notifier_info :: ctype where
  "struct_trace_event_raw_notifier_info =
     Composite Struct False
     [Member ''ent'' struct_trace_entry,
      Member ''cb'' (Pointer Void),
      Member ''__data'' (Array (Scalar Char8) 0)]"

lemma struct_trace_event_raw_notifier_info_layout [layout_simps]:
  "wf_type struct_trace_event_raw_notifier_info" "shape struct_trace_event_raw_notifier_info = (16, 8)"
  by (simp_all del: One_nat_def add: struct_trace_event_raw_notifier_info_def layout_eval layout_simps)

definition struct_trace_event_raw_ipi_raise :: ctype where
  "struct_trace_event_raw_ipi_raise =
     Composite Struct False
     [Member ''ent'' struct_trace_entry,
      Member ''__data_loc_target_cpus'' typedef_u32,
      Member ''reason'' (Pointer (Scalar Char8)),
      Member ''__data'' (Array (Scalar Char8) 0)]"

lemma struct_trace_event_raw_ipi_raise_layout [layout_simps]:
  "wf_type struct_trace_event_raw_ipi_raise" "shape struct_trace_event_raw_ipi_raise = (24, 8)"
  by (simp_all del: One_nat_def add: struct_trace_event_raw_ipi_raise_def layout_eval layout_simps)

definition struct_trace_event_raw_ipi_send_cpu :: ctype where
  "struct_trace_event_raw_ipi_send_cpu =
     Composite Struct False
     [Member ''ent'' struct_trace_entry,
      Member ''cpu'' (Scalar UInt32),
      Member ''callsite'' (Pointer Void),
      Member ''callback'' (Pointer Void),
      Member ''__data'' (Array (Scalar Char8) 0)]"

lemma struct_trace_event_raw_ipi_send_cpu_layout [layout_simps]:
  "wf_type struct_trace_event_raw_ipi_send_cpu" "shape struct_trace_event_raw_ipi_send_cpu = (32, 8)"
  by (simp_all del: One_nat_def add: struct_trace_event_raw_ipi_send_cpu_def layout_eval layout_simps)

definition struct_trace_event_raw_ipi_send_cpumask :: ctype where
  "struct_trace_event_raw_ipi_send_cpumask =
     Composite Struct False
     [Member ''ent'' struct_trace_entry,
      Member ''__data_loc_cpumask'' typedef_u32,
      Member ''callsite'' (Pointer Void),
      Member ''callback'' (Pointer Void),
      Member ''__data'' (Array (Scalar Char8) 0)]"

lemma struct_trace_event_raw_ipi_send_cpumask_layout [layout_simps]:
  "wf_type struct_trace_event_raw_ipi_send_cpumask" "shape struct_trace_event_raw_ipi_send_cpumask = (32, 8)"
  by (simp_all del: One_nat_def add: struct_trace_event_raw_ipi_send_cpumask_def layout_eval layout_simps)

definition struct_trace_event_raw_ipi_handler :: ctype where
  "struct_trace_event_raw_ipi_handler =
     Composite Struct False
     [Member ''ent'' struct_trace_entry,
      Member ''reason'' (Pointer (Scalar Char8)),
      Member ''__data'' (Array (Scalar Char8) 0)]"

lemma struct_trace_event_raw_ipi_handler_layout [layout_simps]:
  "wf_type struct_trace_event_raw_ipi_handler" "shape struct_trace_event_raw_ipi_handler = (16, 8)"
  by (simp_all del: One_nat_def add: struct_trace_event_raw_ipi_handler_def layout_eval layout_simps)

definition struct_trace_event_raw_irq_matrix_global :: ctype where
  "struct_trace_event_raw_irq_matrix_global =
     Composite Struct False
     [Member ''ent'' struct_trace_entry,
      Member ''online_maps'' (Scalar UInt32),
      Member ''global_available'' (Scalar UInt32),
      Member ''global_reserved'' (Scalar UInt32),
      Member ''total_allocated'' (Scalar UInt32),
      Member ''__data'' (Array (Scalar Char8) 0)]"

lemma struct_trace_event_raw_irq_matrix_global_layout [layout_simps]:
  "wf_type struct_trace_event_raw_irq_matrix_global" "shape struct_trace_event_raw_irq_matrix_global = (24, 4)"
  by (simp_all del: One_nat_def add: struct_trace_event_raw_irq_matrix_global_def layout_eval layout_simps)

definition struct_trace_event_raw_irq_matrix_global_update :: ctype where
  "struct_trace_event_raw_irq_matrix_global_update =
     Composite Struct False
     [Member ''ent'' struct_trace_entry,
      Member ''bit'' (Scalar Int32),
      Member ''online_maps'' (Scalar UInt32),
      Member ''global_available'' (Scalar UInt32),
      Member ''global_reserved'' (Scalar UInt32),
      Member ''total_allocated'' (Scalar UInt32),
      Member ''__data'' (Array (Scalar Char8) 0)]"

lemma struct_trace_event_raw_irq_matrix_global_update_layout [layout_simps]:
  "wf_type struct_trace_event_raw_irq_matrix_global_update" "shape struct_trace_event_raw_irq_matrix_global_update = (28, 4)"
  by (simp_all del: One_nat_def add: struct_trace_event_raw_irq_matrix_global_update_def layout_eval layout_simps)

definition struct_trace_event_raw_irq_matrix_cpu :: ctype where
  "struct_trace_event_raw_irq_matrix_cpu =
     Composite Struct False
     [Member ''ent'' struct_trace_entry,
      Member ''bit'' (Scalar Int32),
      Member ''cpu'' (Scalar UInt32),
      Member ''online'' typedef_bool,
      Member ''available'' (Scalar UInt32),
      Member ''allocated'' (Scalar UInt32),
      Member ''managed'' (Scalar UInt32),
      Member ''online_maps'' (Scalar UInt32),
      Member ''global_available'' (Scalar UInt32),
      Member ''global_reserved'' (Scalar UInt32),
      Member ''total_allocated'' (Scalar UInt32),
      Member ''__data'' (Array (Scalar Char8) 0)]"

lemma struct_trace_event_raw_irq_matrix_cpu_layout [layout_simps]:
  "wf_type struct_trace_event_raw_irq_matrix_cpu" "shape struct_trace_event_raw_irq_matrix_cpu = (48, 4)"
  by (simp_all del: One_nat_def add: struct_trace_event_raw_irq_matrix_cpu_def layout_eval layout_simps)

definition struct_trace_event_raw_irq_noise :: ctype where
  "struct_trace_event_raw_irq_noise =
     Composite Struct False
     [Member ''ent'' struct_trace_entry,
      Member ''start'' typedef_u64,
      Member ''duration'' typedef_u64,
      Member ''__data_loc_desc'' typedef_u32,
      Member ''vector'' (Scalar Int32),
      Member ''__data'' (Array (Scalar Char8) 0)]"

lemma struct_trace_event_raw_irq_noise_layout [layout_simps]:
  "wf_type struct_trace_event_raw_irq_noise" "shape struct_trace_event_raw_irq_noise = (32, 8)"
  by (simp_all del: One_nat_def add: struct_trace_event_raw_irq_noise_def layout_eval layout_simps)

definition struct_trace_event_raw_nmi_noise :: ctype where
  "struct_trace_event_raw_nmi_noise =
     Composite Struct False
     [Member ''ent'' struct_trace_entry,
      Member ''start'' typedef_u64,
      Member ''duration'' typedef_u64,
      Member ''__data'' (Array (Scalar Char8) 0)]"

lemma struct_trace_event_raw_nmi_noise_layout [layout_simps]:
  "wf_type struct_trace_event_raw_nmi_noise" "shape struct_trace_event_raw_nmi_noise = (24, 8)"
  by (simp_all del: One_nat_def add: struct_trace_event_raw_nmi_noise_def layout_eval layout_simps)

definition struct_trace_event_raw_mm_page_free_batched :: ctype where
  "struct_trace_event_raw_mm_page_free_batched =
     Composite Struct False
     [Member ''ent'' struct_trace_entry,
      Member ''pfn'' (Scalar ULong64),
      Member ''__data'' (Array (Scalar Char8) 0)]"

lemma struct_trace_event_raw_mm_page_free_batched_layout [layout_simps]:
  "wf_type struct_trace_event_raw_mm_page_free_batched" "shape struct_trace_event_raw_mm_page_free_batched = (16, 8)"
  by (simp_all del: One_nat_def add: struct_trace_event_raw_mm_page_free_batched_def layout_eval layout_simps)

definition struct_trace_event_raw_mm_page :: ctype where
  "struct_trace_event_raw_mm_page =
     Composite Struct False
     [Member ''ent'' struct_trace_entry,
      Member ''pfn'' (Scalar ULong64),
      Member ''order'' (Scalar UInt32),
      Member ''migratetype'' (Scalar Int32),
      Member ''percpu_refill'' (Scalar Int32),
      Member ''__data'' (Array (Scalar Char8) 0)]"

lemma struct_trace_event_raw_mm_page_layout [layout_simps]:
  "wf_type struct_trace_event_raw_mm_page" "shape struct_trace_event_raw_mm_page = (32, 8)"
  by (simp_all del: One_nat_def add: struct_trace_event_raw_mm_page_def layout_eval layout_simps)

definition struct_trace_event_raw_mm_page_pcpu_drain :: ctype where
  "struct_trace_event_raw_mm_page_pcpu_drain =
     Composite Struct False
     [Member ''ent'' struct_trace_entry,
      Member ''pfn'' (Scalar ULong64),
      Member ''order'' (Scalar UInt32),
      Member ''migratetype'' (Scalar Int32),
      Member ''__data'' (Array (Scalar Char8) 0)]"

lemma struct_trace_event_raw_mm_page_pcpu_drain_layout [layout_simps]:
  "wf_type struct_trace_event_raw_mm_page_pcpu_drain" "shape struct_trace_event_raw_mm_page_pcpu_drain = (24, 8)"
  by (simp_all del: One_nat_def add: struct_trace_event_raw_mm_page_pcpu_drain_def layout_eval layout_simps)

definition struct_trace_event_raw_mm_page_alloc_extfrag :: ctype where
  "struct_trace_event_raw_mm_page_alloc_extfrag =
     Composite Struct False
     [Member ''ent'' struct_trace_entry,
      Member ''pfn'' (Scalar ULong64),
      Member ''alloc_order'' (Scalar Int32),
      Member ''fallback_order'' (Scalar Int32),
      Member ''alloc_migratetype'' (Scalar Int32),
      Member ''fallback_migratetype'' (Scalar Int32),
      Member ''change_ownership'' (Scalar Int32),
      Member ''__data'' (Array (Scalar Char8) 0)]"

lemma struct_trace_event_raw_mm_page_alloc_extfrag_layout [layout_simps]:
  "wf_type struct_trace_event_raw_mm_page_alloc_extfrag" "shape struct_trace_event_raw_mm_page_alloc_extfrag = (40, 8)"
  by (simp_all del: One_nat_def add: struct_trace_event_raw_mm_page_alloc_extfrag_def layout_eval layout_simps)

definition struct_trace_event_raw_mm_khugepaged_scan_pmd :: ctype where
  "struct_trace_event_raw_mm_khugepaged_scan_pmd =
     Composite Struct False
     [Member ''ent'' struct_trace_entry,
      Member ''mm'' (Pointer (Named Struct_name ''mm_struct'')),
      Member ''pfn'' (Scalar ULong64),
      Member ''writable'' typedef_bool,
      Member ''referenced'' (Scalar Int32),
      Member ''none_or_zero'' (Scalar Int32),
      Member ''status'' (Scalar Int32),
      Member ''unmapped'' (Scalar Int32),
      Member ''__data'' (Array (Scalar Char8) 0)]"

lemma struct_trace_event_raw_mm_khugepaged_scan_pmd_layout [layout_simps]:
  "wf_type struct_trace_event_raw_mm_khugepaged_scan_pmd" "shape struct_trace_event_raw_mm_khugepaged_scan_pmd = (48, 8)"
  by (simp_all del: One_nat_def add: struct_trace_event_raw_mm_khugepaged_scan_pmd_def layout_eval layout_simps)

definition struct_trace_event_raw_mm_collapse_huge_page :: ctype where
  "struct_trace_event_raw_mm_collapse_huge_page =
     Composite Struct False
     [Member ''ent'' struct_trace_entry,
      Member ''mm'' (Pointer (Named Struct_name ''mm_struct'')),
      Member ''isolated'' (Scalar Int32),
      Member ''status'' (Scalar Int32),
      Member ''__data'' (Array (Scalar Char8) 0)]"

lemma struct_trace_event_raw_mm_collapse_huge_page_layout [layout_simps]:
  "wf_type struct_trace_event_raw_mm_collapse_huge_page" "shape struct_trace_event_raw_mm_collapse_huge_page = (24, 8)"
  by (simp_all del: One_nat_def add: struct_trace_event_raw_mm_collapse_huge_page_def layout_eval layout_simps)

definition struct_trace_event_raw_mm_collapse_huge_page_isolate :: ctype where
  "struct_trace_event_raw_mm_collapse_huge_page_isolate =
     Composite Struct False
     [Member ''ent'' struct_trace_entry,
      Member ''pfn'' (Scalar ULong64),
      Member ''none_or_zero'' (Scalar Int32),
      Member ''referenced'' (Scalar Int32),
      Member ''writable'' typedef_bool,
      Member ''status'' (Scalar Int32),
      Member ''__data'' (Array (Scalar Char8) 0)]"

lemma struct_trace_event_raw_mm_collapse_huge_page_isolate_layout [layout_simps]:
  "wf_type struct_trace_event_raw_mm_collapse_huge_page_isolate" "shape struct_trace_event_raw_mm_collapse_huge_page_isolate = (32, 8)"
  by (simp_all del: One_nat_def add: struct_trace_event_raw_mm_collapse_huge_page_isolate_def layout_eval layout_simps)

definition struct_trace_event_raw_mm_collapse_huge_page_swapin :: ctype where
  "struct_trace_event_raw_mm_collapse_huge_page_swapin =
     Composite Struct False
     [Member ''ent'' struct_trace_entry,
      Member ''mm'' (Pointer (Named Struct_name ''mm_struct'')),
      Member ''swapped_in'' (Scalar Int32),
      Member ''referenced'' (Scalar Int32),
      Member ''ret'' (Scalar Int32),
      Member ''__data'' (Array (Scalar Char8) 0)]"

lemma struct_trace_event_raw_mm_collapse_huge_page_swapin_layout [layout_simps]:
  "wf_type struct_trace_event_raw_mm_collapse_huge_page_swapin" "shape struct_trace_event_raw_mm_collapse_huge_page_swapin = (32, 8)"
  by (simp_all del: One_nat_def add: struct_trace_event_raw_mm_collapse_huge_page_swapin_def layout_eval layout_simps)

definition struct_trace_event_raw_mm_khugepaged_scan_file :: ctype where
  "struct_trace_event_raw_mm_khugepaged_scan_file =
     Composite Struct False
     [Member ''ent'' struct_trace_entry,
      Member ''mm'' (Pointer (Named Struct_name ''mm_struct'')),
      Member ''pfn'' (Scalar ULong64),
      Member ''__data_loc_filename'' typedef_u32,
      Member ''present'' (Scalar Int32),
      Member ''swap'' (Scalar Int32),
      Member ''result'' (Scalar Int32),
      Member ''__data'' (Array (Scalar Char8) 0)]"

lemma struct_trace_event_raw_mm_khugepaged_scan_file_layout [layout_simps]:
  "wf_type struct_trace_event_raw_mm_khugepaged_scan_file" "shape struct_trace_event_raw_mm_khugepaged_scan_file = (40, 8)"
  by (simp_all del: One_nat_def add: struct_trace_event_raw_mm_khugepaged_scan_file_def layout_eval layout_simps)

definition struct_trace_event_raw_mm_khugepaged_collapse_file :: ctype where
  "struct_trace_event_raw_mm_khugepaged_collapse_file =
     Composite Struct False
     [Member ''ent'' struct_trace_entry,
      Member ''mm'' (Pointer (Named Struct_name ''mm_struct'')),
      Member ''hpfn'' (Scalar ULong64),
      Member ''index'' (Scalar ULong64),
      Member ''addr'' (Scalar ULong64),
      Member ''is_shmem'' typedef_bool,
      Member ''__data_loc_filename'' typedef_u32,
      Member ''nr'' (Scalar Int32),
      Member ''result'' (Scalar Int32),
      Member ''__data'' (Array (Scalar Char8) 0)]"

lemma struct_trace_event_raw_mm_khugepaged_collapse_file_layout [layout_simps]:
  "wf_type struct_trace_event_raw_mm_khugepaged_collapse_file" "shape struct_trace_event_raw_mm_khugepaged_collapse_file = (56, 8)"
  by (simp_all del: One_nat_def add: struct_trace_event_raw_mm_khugepaged_collapse_file_def layout_eval layout_simps)

definition struct_trace_event_raw_io_uring_create :: ctype where
  "struct_trace_event_raw_io_uring_create =
     Composite Struct False
     [Member ''ent'' struct_trace_entry,
      Member ''fd'' (Scalar Int32),
      Member ''ctx'' (Pointer Void),
      Member ''sq_entries'' typedef_u32,
      Member ''cq_entries'' typedef_u32,
      Member ''flags'' typedef_u32,
      Member ''__data'' (Array (Scalar Char8) 0)]"

lemma struct_trace_event_raw_io_uring_create_layout [layout_simps]:
  "wf_type struct_trace_event_raw_io_uring_create" "shape struct_trace_event_raw_io_uring_create = (40, 8)"
  by (simp_all del: One_nat_def add: struct_trace_event_raw_io_uring_create_def layout_eval layout_simps)

definition struct_trace_event_raw_io_uring_register :: ctype where
  "struct_trace_event_raw_io_uring_register =
     Composite Struct False
     [Member ''ent'' struct_trace_entry,
      Member ''ctx'' (Pointer Void),
      Member ''opcode'' (Scalar UInt32),
      Member ''nr_files'' (Scalar UInt32),
      Member ''nr_bufs'' (Scalar UInt32),
      Member ''ret'' (Scalar Long64),
      Member ''__data'' (Array (Scalar Char8) 0)]"

lemma struct_trace_event_raw_io_uring_register_layout [layout_simps]:
  "wf_type struct_trace_event_raw_io_uring_register" "shape struct_trace_event_raw_io_uring_register = (40, 8)"
  by (simp_all del: One_nat_def add: struct_trace_event_raw_io_uring_register_def layout_eval layout_simps)

definition struct_trace_event_raw_io_uring_file_get :: ctype where
  "struct_trace_event_raw_io_uring_file_get =
     Composite Struct False
     [Member ''ent'' struct_trace_entry,
      Member ''ctx'' (Pointer Void),
      Member ''req'' (Pointer Void),
      Member ''user_data'' typedef_u64,
      Member ''fd'' (Scalar Int32),
      Member ''__data'' (Array (Scalar Char8) 0)]"

lemma struct_trace_event_raw_io_uring_file_get_layout [layout_simps]:
  "wf_type struct_trace_event_raw_io_uring_file_get" "shape struct_trace_event_raw_io_uring_file_get = (40, 8)"
  by (simp_all del: One_nat_def add: struct_trace_event_raw_io_uring_file_get_def layout_eval layout_simps)

definition struct_trace_event_raw_io_uring_queue_async_work :: ctype where
  "struct_trace_event_raw_io_uring_queue_async_work =
     Composite Struct False
     [Member ''ent'' struct_trace_entry,
      Member ''ctx'' (Pointer Void),
      Member ''req'' (Pointer Void),
      Member ''user_data'' typedef_u64,
      Member ''opcode'' typedef_u8,
      Member ''flags'' (Scalar UInt32),
      Member ''work'' (Pointer (Named Struct_name ''io_wq_work'')),
      Member ''rw'' (Scalar Int32),
      Member ''__data_loc_op_str'' typedef_u32,
      Member ''__data'' (Array (Scalar Char8) 0)]"

lemma struct_trace_event_raw_io_uring_queue_async_work_layout [layout_simps]:
  "wf_type struct_trace_event_raw_io_uring_queue_async_work" "shape struct_trace_event_raw_io_uring_queue_async_work = (56, 8)"
  by (simp_all del: One_nat_def add: struct_trace_event_raw_io_uring_queue_async_work_def layout_eval layout_simps)

definition struct_trace_event_raw_io_uring_defer :: ctype where
  "struct_trace_event_raw_io_uring_defer =
     Composite Struct False
     [Member ''ent'' struct_trace_entry,
      Member ''ctx'' (Pointer Void),
      Member ''req'' (Pointer Void),
      Member ''data'' (Scalar ULongLong64),
      Member ''opcode'' typedef_u8,
      Member ''__data_loc_op_str'' typedef_u32,
      Member ''__data'' (Array (Scalar Char8) 0)]"

lemma struct_trace_event_raw_io_uring_defer_layout [layout_simps]:
  "wf_type struct_trace_event_raw_io_uring_defer" "shape struct_trace_event_raw_io_uring_defer = (40, 8)"
  by (simp_all del: One_nat_def add: struct_trace_event_raw_io_uring_defer_def layout_eval layout_simps)

definition struct_trace_event_raw_io_uring_link :: ctype where
  "struct_trace_event_raw_io_uring_link =
     Composite Struct False
     [Member ''ent'' struct_trace_entry,
      Member ''ctx'' (Pointer Void),
      Member ''req'' (Pointer Void),
      Member ''target_req'' (Pointer Void),
      Member ''__data'' (Array (Scalar Char8) 0)]"

lemma struct_trace_event_raw_io_uring_link_layout [layout_simps]:
  "wf_type struct_trace_event_raw_io_uring_link" "shape struct_trace_event_raw_io_uring_link = (32, 8)"
  by (simp_all del: One_nat_def add: struct_trace_event_raw_io_uring_link_def layout_eval layout_simps)

definition struct_trace_event_raw_io_uring_cqring_wait :: ctype where
  "struct_trace_event_raw_io_uring_cqring_wait =
     Composite Struct False
     [Member ''ent'' struct_trace_entry,
      Member ''ctx'' (Pointer Void),
      Member ''min_events'' (Scalar Int32),
      Member ''__data'' (Array (Scalar Char8) 0)]"

lemma struct_trace_event_raw_io_uring_cqring_wait_layout [layout_simps]:
  "wf_type struct_trace_event_raw_io_uring_cqring_wait" "shape struct_trace_event_raw_io_uring_cqring_wait = (24, 8)"
  by (simp_all del: One_nat_def add: struct_trace_event_raw_io_uring_cqring_wait_def layout_eval layout_simps)

definition struct_trace_event_raw_io_uring_fail_link :: ctype where
  "struct_trace_event_raw_io_uring_fail_link =
     Composite Struct False
     [Member ''ent'' struct_trace_entry,
      Member ''ctx'' (Pointer Void),
      Member ''req'' (Pointer Void),
      Member ''user_data'' (Scalar ULongLong64),
      Member ''opcode'' typedef_u8,
      Member ''link'' (Pointer Void),
      Member ''__data_loc_op_str'' typedef_u32,
      Member ''__data'' (Array (Scalar Char8) 0)]"

lemma struct_trace_event_raw_io_uring_fail_link_layout [layout_simps]:
  "wf_type struct_trace_event_raw_io_uring_fail_link" "shape struct_trace_event_raw_io_uring_fail_link = (56, 8)"
  by (simp_all del: One_nat_def add: struct_trace_event_raw_io_uring_fail_link_def layout_eval layout_simps)

definition struct_trace_event_raw_io_uring_complete :: ctype where
  "struct_trace_event_raw_io_uring_complete =
     Composite Struct False
     [Member ''ent'' struct_trace_entry,
      Member ''ctx'' (Pointer Void),
      Member ''req'' (Pointer Void),
      Member ''user_data'' typedef_u64,
      Member ''res'' (Scalar Int32),
      Member ''cflags'' (Scalar UInt32),
      Member ''extra1'' typedef_u64,
      Member ''extra2'' typedef_u64,
      Member ''__data'' (Array (Scalar Char8) 0)]"

lemma struct_trace_event_raw_io_uring_complete_layout [layout_simps]:
  "wf_type struct_trace_event_raw_io_uring_complete" "shape struct_trace_event_raw_io_uring_complete = (56, 8)"
  by (simp_all del: One_nat_def add: struct_trace_event_raw_io_uring_complete_def layout_eval layout_simps)

definition struct_trace_event_raw_io_uring_submit_req :: ctype where
  "struct_trace_event_raw_io_uring_submit_req =
     Composite Struct False
     [Member ''ent'' struct_trace_entry,
      Member ''ctx'' (Pointer Void),
      Member ''req'' (Pointer Void),
      Member ''user_data'' (Scalar ULongLong64),
      Member ''opcode'' typedef_u8,
      Member ''flags'' typedef_u32,
      Member ''sq_thread'' typedef_bool,
      Member ''__data_loc_op_str'' typedef_u32,
      Member ''__data'' (Array (Scalar Char8) 0)]"

lemma struct_trace_event_raw_io_uring_submit_req_layout [layout_simps]:
  "wf_type struct_trace_event_raw_io_uring_submit_req" "shape struct_trace_event_raw_io_uring_submit_req = (48, 8)"
  by (simp_all del: One_nat_def add: struct_trace_event_raw_io_uring_submit_req_def layout_eval layout_simps)

definition struct_trace_event_raw_io_uring_poll_arm :: ctype where
  "struct_trace_event_raw_io_uring_poll_arm =
     Composite Struct False
     [Member ''ent'' struct_trace_entry,
      Member ''ctx'' (Pointer Void),
      Member ''req'' (Pointer Void),
      Member ''user_data'' (Scalar ULongLong64),
      Member ''opcode'' typedef_u8,
      Member ''mask'' (Scalar Int32),
      Member ''events'' (Scalar Int32),
      Member ''__data_loc_op_str'' typedef_u32,
      Member ''__data'' (Array (Scalar Char8) 0)]"

lemma struct_trace_event_raw_io_uring_poll_arm_layout [layout_simps]:
  "wf_type struct_trace_event_raw_io_uring_poll_arm" "shape struct_trace_event_raw_io_uring_poll_arm = (48, 8)"
  by (simp_all del: One_nat_def add: struct_trace_event_raw_io_uring_poll_arm_def layout_eval layout_simps)

definition struct_trace_event_raw_io_uring_task_add :: ctype where
  "struct_trace_event_raw_io_uring_task_add =
     Composite Struct False
     [Member ''ent'' struct_trace_entry,
      Member ''ctx'' (Pointer Void),
      Member ''req'' (Pointer Void),
      Member ''user_data'' (Scalar ULongLong64),
      Member ''opcode'' typedef_u8,
      Member ''mask'' (Scalar Int32),
      Member ''__data_loc_op_str'' typedef_u32,
      Member ''__data'' (Array (Scalar Char8) 0)]"

lemma struct_trace_event_raw_io_uring_task_add_layout [layout_simps]:
  "wf_type struct_trace_event_raw_io_uring_task_add" "shape struct_trace_event_raw_io_uring_task_add = (48, 8)"
  by (simp_all del: One_nat_def add: struct_trace_event_raw_io_uring_task_add_def layout_eval layout_simps)

definition struct_trace_event_raw_io_uring_req_failed :: ctype where
  "struct_trace_event_raw_io_uring_req_failed =
     Composite Struct False
     [Member ''ent'' struct_trace_entry,
      Member ''ctx'' (Pointer Void),
      Member ''req'' (Pointer Void),
      Member ''user_data'' (Scalar ULongLong64),
      Member ''opcode'' typedef_u8,
      Member ''flags'' typedef_u8,
      Member ''ioprio'' typedef_u8,
      Member ''off'' typedef_u64,
      Member ''addr'' typedef_u64,
      Member ''len'' typedef_u32,
      Member ''op_flags'' typedef_u32,
      Member ''buf_index'' typedef_u16,
      Member ''personality'' typedef_u16,
      Member ''file_index'' typedef_u32,
      Member ''pad1'' typedef_u64,
      Member ''addr3'' typedef_u64,
      Member ''error'' (Scalar Int32),
      Member ''__data_loc_op_str'' typedef_u32,
      Member ''__data'' (Array (Scalar Char8) 0)]"

lemma struct_trace_event_raw_io_uring_req_failed_layout [layout_simps]:
  "wf_type struct_trace_event_raw_io_uring_req_failed" "shape struct_trace_event_raw_io_uring_req_failed = (96, 8)"
  by (simp_all del: One_nat_def add: struct_trace_event_raw_io_uring_req_failed_def layout_eval layout_simps)

definition struct_trace_event_raw_io_uring_cqe_overflow :: ctype where
  "struct_trace_event_raw_io_uring_cqe_overflow =
     Composite Struct False
     [Member ''ent'' struct_trace_entry,
      Member ''ctx'' (Pointer Void),
      Member ''user_data'' (Scalar ULongLong64),
      Member ''res'' typedef_s32,
      Member ''cflags'' typedef_u32,
      Member ''ocqe'' (Pointer Void),
      Member ''__data'' (Array (Scalar Char8) 0)]"

lemma struct_trace_event_raw_io_uring_cqe_overflow_layout [layout_simps]:
  "wf_type struct_trace_event_raw_io_uring_cqe_overflow" "shape struct_trace_event_raw_io_uring_cqe_overflow = (40, 8)"
  by (simp_all del: One_nat_def add: struct_trace_event_raw_io_uring_cqe_overflow_def layout_eval layout_simps)

definition struct_trace_event_raw_io_uring_task_work_run :: ctype where
  "struct_trace_event_raw_io_uring_task_work_run =
     Composite Struct False
     [Member ''ent'' struct_trace_entry,
      Member ''tctx'' (Pointer Void),
      Member ''count'' (Scalar UInt32),
      Member ''loops'' (Scalar UInt32),
      Member ''__data'' (Array (Scalar Char8) 0)]"

lemma struct_trace_event_raw_io_uring_task_work_run_layout [layout_simps]:
  "wf_type struct_trace_event_raw_io_uring_task_work_run" "shape struct_trace_event_raw_io_uring_task_work_run = (24, 8)"
  by (simp_all del: One_nat_def add: struct_trace_event_raw_io_uring_task_work_run_def layout_eval layout_simps)

definition struct_trace_event_raw_io_uring_short_write :: ctype where
  "struct_trace_event_raw_io_uring_short_write =
     Composite Struct False
     [Member ''ent'' struct_trace_entry,
      Member ''ctx'' (Pointer Void),
      Member ''fpos'' typedef_u64,
      Member ''wanted'' typedef_u64,
      Member ''got'' typedef_u64,
      Member ''__data'' (Array (Scalar Char8) 0)]"

lemma struct_trace_event_raw_io_uring_short_write_layout [layout_simps]:
  "wf_type struct_trace_event_raw_io_uring_short_write" "shape struct_trace_event_raw_io_uring_short_write = (40, 8)"
  by (simp_all del: One_nat_def add: struct_trace_event_raw_io_uring_short_write_def layout_eval layout_simps)

definition struct_trace_event_raw_io_uring_local_work_run :: ctype where
  "struct_trace_event_raw_io_uring_local_work_run =
     Composite Struct False
     [Member ''ent'' struct_trace_entry,
      Member ''ctx'' (Pointer Void),
      Member ''count'' (Scalar Int32),
      Member ''loops'' (Scalar UInt32),
      Member ''__data'' (Array (Scalar Char8) 0)]"

lemma struct_trace_event_raw_io_uring_local_work_run_layout [layout_simps]:
  "wf_type struct_trace_event_raw_io_uring_local_work_run" "shape struct_trace_event_raw_io_uring_local_work_run = (24, 8)"
  by (simp_all del: One_nat_def add: struct_trace_event_raw_io_uring_local_work_run_def layout_eval layout_simps)

definition struct_trace_event_raw_initcall_level :: ctype where
  "struct_trace_event_raw_initcall_level =
     Composite Struct False
     [Member ''ent'' struct_trace_entry,
      Member ''__data_loc_level'' typedef_u32,
      Member ''__data'' (Array (Scalar Char8) 0)]"

lemma struct_trace_event_raw_initcall_level_layout [layout_simps]:
  "wf_type struct_trace_event_raw_initcall_level" "shape struct_trace_event_raw_initcall_level = (12, 4)"
  by (simp_all del: One_nat_def add: struct_trace_event_raw_initcall_level_def layout_eval layout_simps)

definition struct_trace_event_raw_initcall_start :: ctype where
  "struct_trace_event_raw_initcall_start =
     Composite Struct False
     [Member ''ent'' struct_trace_entry,
      Member ''func'' typedef_initcall_t,
      Member ''__data'' (Array (Scalar Char8) 0)]"

lemma struct_trace_event_raw_initcall_start_layout [layout_simps]:
  "wf_type struct_trace_event_raw_initcall_start" "shape struct_trace_event_raw_initcall_start = (16, 8)"
  by (simp_all del: One_nat_def add: struct_trace_event_raw_initcall_start_def layout_eval layout_simps)

definition struct_trace_event_raw_initcall_finish :: ctype where
  "struct_trace_event_raw_initcall_finish =
     Composite Struct False
     [Member ''ent'' struct_trace_entry,
      Member ''func'' typedef_initcall_t,
      Member ''ret'' (Scalar Int32),
      Member ''__data'' (Array (Scalar Char8) 0)]"

lemma struct_trace_event_raw_initcall_finish_layout [layout_simps]:
  "wf_type struct_trace_event_raw_initcall_finish" "shape struct_trace_event_raw_initcall_finish = (24, 8)"
  by (simp_all del: One_nat_def add: struct_trace_event_raw_initcall_finish_def layout_eval layout_simps)

definition struct_trace_event_raw_powernv_throttle :: ctype where
  "struct_trace_event_raw_powernv_throttle =
     Composite Struct False
     [Member ''ent'' struct_trace_entry,
      Member ''chip_id'' (Scalar Int32),
      Member ''__data_loc_reason'' typedef_u32,
      Member ''pmax'' (Scalar Int32),
      Member ''__data'' (Array (Scalar Char8) 0)]"

lemma struct_trace_event_raw_powernv_throttle_layout [layout_simps]:
  "wf_type struct_trace_event_raw_powernv_throttle" "shape struct_trace_event_raw_powernv_throttle = (20, 4)"
  by (simp_all del: One_nat_def add: struct_trace_event_raw_powernv_throttle_def layout_eval layout_simps)

definition struct_trace_event_raw_power_domain :: ctype where
  "struct_trace_event_raw_power_domain =
     Composite Struct False
     [Member ''ent'' struct_trace_entry,
      Member ''__data_loc_name'' typedef_u32,
      Member ''state'' typedef_u64,
      Member ''cpu_id'' typedef_u64,
      Member ''__data'' (Array (Scalar Char8) 0)]"

lemma struct_trace_event_raw_power_domain_layout [layout_simps]:
  "wf_type struct_trace_event_raw_power_domain" "shape struct_trace_event_raw_power_domain = (32, 8)"
  by (simp_all del: One_nat_def add: struct_trace_event_raw_power_domain_def layout_eval layout_simps)

definition struct_trace_event_raw_pm_qos_update :: ctype where
  "struct_trace_event_raw_pm_qos_update =
     Composite Struct False
     [Member ''ent'' struct_trace_entry,
      Member ''action'' enum_pm_qos_req_action,
      Member ''prev_value'' (Scalar Int32),
      Member ''curr_value'' (Scalar Int32),
      Member ''__data'' (Array (Scalar Char8) 0)]"

lemma struct_trace_event_raw_pm_qos_update_layout [layout_simps]:
  "wf_type struct_trace_event_raw_pm_qos_update" "shape struct_trace_event_raw_pm_qos_update = (20, 4)"
  by (simp_all del: One_nat_def add: struct_trace_event_raw_pm_qos_update_def layout_eval layout_simps)

definition struct_trace_event_raw_guest_halt_poll_ns :: ctype where
  "struct_trace_event_raw_guest_halt_poll_ns =
     Composite Struct False
     [Member ''ent'' struct_trace_entry,
      Member ''grow'' typedef_bool,
      Member ''new'' (Scalar UInt32),
      Member ''old'' (Scalar UInt32),
      Member ''__data'' (Array (Scalar Char8) 0)]"

lemma struct_trace_event_raw_guest_halt_poll_ns_layout [layout_simps]:
  "wf_type struct_trace_event_raw_guest_halt_poll_ns" "shape struct_trace_event_raw_guest_halt_poll_ns = (20, 4)"
  by (simp_all del: One_nat_def add: struct_trace_event_raw_guest_halt_poll_ns_def layout_eval layout_simps)

definition struct_trace_event_raw_mm_filemap_op_page_cache :: ctype where
  "struct_trace_event_raw_mm_filemap_op_page_cache =
     Composite Struct False
     [Member ''ent'' struct_trace_entry,
      Member ''pfn'' (Scalar ULong64),
      Member ''i_ino'' (Scalar ULong64),
      Member ''index'' (Scalar ULong64),
      Member ''s_dev'' typedef_dev_t,
      Member ''order'' (Scalar UChar8),
      Member ''__data'' (Array (Scalar Char8) 0)]"

lemma struct_trace_event_raw_mm_filemap_op_page_cache_layout [layout_simps]:
  "wf_type struct_trace_event_raw_mm_filemap_op_page_cache" "shape struct_trace_event_raw_mm_filemap_op_page_cache = (40, 8)"
  by (simp_all del: One_nat_def add: struct_trace_event_raw_mm_filemap_op_page_cache_def layout_eval layout_simps)

definition struct_trace_event_raw_mm_lru_insertion :: ctype where
  "struct_trace_event_raw_mm_lru_insertion =
     Composite Struct False
     [Member ''ent'' struct_trace_entry,
      Member ''folio'' (Pointer (Named Struct_name ''folio'')),
      Member ''pfn'' (Scalar ULong64),
      Member ''lru'' enum_lru_list,
      Member ''flags'' (Scalar ULong64),
      Member ''__data'' (Array (Scalar Char8) 0)]"

lemma struct_trace_event_raw_mm_lru_insertion_layout [layout_simps]:
  "wf_type struct_trace_event_raw_mm_lru_insertion" "shape struct_trace_event_raw_mm_lru_insertion = (40, 8)"
  by (simp_all del: One_nat_def add: struct_trace_event_raw_mm_lru_insertion_def layout_eval layout_simps)

definition struct_trace_event_raw_mm_lru_activate :: ctype where
  "struct_trace_event_raw_mm_lru_activate =
     Composite Struct False
     [Member ''ent'' struct_trace_entry,
      Member ''folio'' (Pointer (Named Struct_name ''folio'')),
      Member ''pfn'' (Scalar ULong64),
      Member ''__data'' (Array (Scalar Char8) 0)]"

lemma struct_trace_event_raw_mm_lru_activate_layout [layout_simps]:
  "wf_type struct_trace_event_raw_mm_lru_activate" "shape struct_trace_event_raw_mm_lru_activate = (24, 8)"
  by (simp_all del: One_nat_def add: struct_trace_event_raw_mm_lru_activate_def layout_eval layout_simps)

definition struct_trace_event_raw_mmap_lock :: ctype where
  "struct_trace_event_raw_mmap_lock =
     Composite Struct False
     [Member ''ent'' struct_trace_entry,
      Member ''mm'' (Pointer (Named Struct_name ''mm_struct'')),
      Member ''__data_loc_memcg_path'' typedef_u32,
      Member ''write'' typedef_bool,
      Member ''__data'' (Array (Scalar Char8) 0)]"

lemma struct_trace_event_raw_mmap_lock_layout [layout_simps]:
  "wf_type struct_trace_event_raw_mmap_lock" "shape struct_trace_event_raw_mmap_lock = (24, 8)"
  by (simp_all del: One_nat_def add: struct_trace_event_raw_mmap_lock_def layout_eval layout_simps)

definition struct_trace_event_raw_mmap_lock_acquire_returned :: ctype where
  "struct_trace_event_raw_mmap_lock_acquire_returned =
     Composite Struct False
     [Member ''ent'' struct_trace_entry,
      Member ''mm'' (Pointer (Named Struct_name ''mm_struct'')),
      Member ''__data_loc_memcg_path'' typedef_u32,
      Member ''write'' typedef_bool,
      Member ''success'' typedef_bool,
      Member ''__data'' (Array (Scalar Char8) 0)]"

lemma struct_trace_event_raw_mmap_lock_acquire_returned_layout [layout_simps]:
  "wf_type struct_trace_event_raw_mmap_lock_acquire_returned" "shape struct_trace_event_raw_mmap_lock_acquire_returned = (24, 8)"
  by (simp_all del: One_nat_def add: struct_trace_event_raw_mmap_lock_acquire_returned_def layout_eval layout_simps)

definition struct_trace_event_raw_free_vmap_area_noflush :: ctype where
  "struct_trace_event_raw_free_vmap_area_noflush =
     Composite Struct False
     [Member ''ent'' struct_trace_entry,
      Member ''va_start'' (Scalar ULong64),
      Member ''nr_lazy'' (Scalar ULong64),
      Member ''nr_lazy_max'' (Scalar ULong64),
      Member ''__data'' (Array (Scalar Char8) 0)]"

lemma struct_trace_event_raw_free_vmap_area_noflush_layout [layout_simps]:
  "wf_type struct_trace_event_raw_free_vmap_area_noflush" "shape struct_trace_event_raw_free_vmap_area_noflush = (32, 8)"
  by (simp_all del: One_nat_def add: struct_trace_event_raw_free_vmap_area_noflush_def layout_eval layout_simps)

definition struct_trace_event_raw_inode_foreign_history :: ctype where
  "struct_trace_event_raw_inode_foreign_history =
     Composite Struct False
     [Member ''ent'' struct_trace_entry,
      Member ''name'' (Array (Scalar Char8) 32),
      Member ''ino'' typedef_ino_t,
      Member ''cgroup_ino'' typedef_ino_t,
      Member ''history'' (Scalar UInt32),
      Member ''__data'' (Array (Scalar Char8) 0)]"

lemma struct_trace_event_raw_inode_foreign_history_layout [layout_simps]:
  "wf_type struct_trace_event_raw_inode_foreign_history" "shape struct_trace_event_raw_inode_foreign_history = (64, 8)"
  by (simp_all del: One_nat_def add: struct_trace_event_raw_inode_foreign_history_def layout_eval layout_simps)

definition struct_trace_event_raw_inode_switch_wbs :: ctype where
  "struct_trace_event_raw_inode_switch_wbs =
     Composite Struct False
     [Member ''ent'' struct_trace_entry,
      Member ''name'' (Array (Scalar Char8) 32),
      Member ''ino'' typedef_ino_t,
      Member ''old_cgroup_ino'' typedef_ino_t,
      Member ''new_cgroup_ino'' typedef_ino_t,
      Member ''__data'' (Array (Scalar Char8) 0)]"

lemma struct_trace_event_raw_inode_switch_wbs_layout [layout_simps]:
  "wf_type struct_trace_event_raw_inode_switch_wbs" "shape struct_trace_event_raw_inode_switch_wbs = (64, 8)"
  by (simp_all del: One_nat_def add: struct_trace_event_raw_inode_switch_wbs_def layout_eval layout_simps)

definition struct_trace_event_raw_flush_foreign :: ctype where
  "struct_trace_event_raw_flush_foreign =
     Composite Struct False
     [Member ''ent'' struct_trace_entry,
      Member ''name'' (Array (Scalar Char8) 32),
      Member ''cgroup_ino'' typedef_ino_t,
      Member ''frn_bdi_id'' (Scalar UInt32),
      Member ''frn_memcg_id'' (Scalar UInt32),
      Member ''__data'' (Array (Scalar Char8) 0)]"

lemma struct_trace_event_raw_flush_foreign_layout [layout_simps]:
  "wf_type struct_trace_event_raw_flush_foreign" "shape struct_trace_event_raw_flush_foreign = (56, 8)"
  by (simp_all del: One_nat_def add: struct_trace_event_raw_flush_foreign_def layout_eval layout_simps)

definition struct_trace_event_raw_global_dirty_state :: ctype where
  "struct_trace_event_raw_global_dirty_state =
     Composite Struct False
     [Member ''ent'' struct_trace_entry,
      Member ''nr_dirty'' (Scalar ULong64),
      Member ''nr_writeback'' (Scalar ULong64),
      Member ''background_thresh'' (Scalar ULong64),
      Member ''dirty_thresh'' (Scalar ULong64),
      Member ''dirty_limit'' (Scalar ULong64),
      Member ''nr_dirtied'' (Scalar ULong64),
      Member ''nr_written'' (Scalar ULong64),
      Member ''__data'' (Array (Scalar Char8) 0)]"

lemma struct_trace_event_raw_global_dirty_state_layout [layout_simps]:
  "wf_type struct_trace_event_raw_global_dirty_state" "shape struct_trace_event_raw_global_dirty_state = (64, 8)"
  by (simp_all del: One_nat_def add: struct_trace_event_raw_global_dirty_state_def layout_eval layout_simps)

definition struct_trace_event_raw_jbd2_checkpoint :: ctype where
  "struct_trace_event_raw_jbd2_checkpoint =
     Composite Struct False
     [Member ''ent'' struct_trace_entry,
      Member ''dev'' typedef_dev_t,
      Member ''result'' (Scalar Int32),
      Member ''__data'' (Array (Scalar Char8) 0)]"

lemma struct_trace_event_raw_jbd2_checkpoint_layout [layout_simps]:
  "wf_type struct_trace_event_raw_jbd2_checkpoint" "shape struct_trace_event_raw_jbd2_checkpoint = (16, 4)"
  by (simp_all del: One_nat_def add: struct_trace_event_raw_jbd2_checkpoint_def layout_eval layout_simps)

definition struct_trace_event_raw_jbd2_commit :: ctype where
  "struct_trace_event_raw_jbd2_commit =
     Composite Struct False
     [Member ''ent'' struct_trace_entry,
      Member ''dev'' typedef_dev_t,
      Member ''sync_commit'' (Scalar Char8),
      Member ''transaction'' typedef_tid_t,
      Member ''__data'' (Array (Scalar Char8) 0)]"

lemma struct_trace_event_raw_jbd2_commit_layout [layout_simps]:
  "wf_type struct_trace_event_raw_jbd2_commit" "shape struct_trace_event_raw_jbd2_commit = (20, 4)"
  by (simp_all del: One_nat_def add: struct_trace_event_raw_jbd2_commit_def layout_eval layout_simps)

definition struct_trace_event_raw_jbd2_end_commit :: ctype where
  "struct_trace_event_raw_jbd2_end_commit =
     Composite Struct False
     [Member ''ent'' struct_trace_entry,
      Member ''dev'' typedef_dev_t,
      Member ''sync_commit'' (Scalar Char8),
      Member ''transaction'' typedef_tid_t,
      Member ''head'' typedef_tid_t,
      Member ''__data'' (Array (Scalar Char8) 0)]"

lemma struct_trace_event_raw_jbd2_end_commit_layout [layout_simps]:
  "wf_type struct_trace_event_raw_jbd2_end_commit" "shape struct_trace_event_raw_jbd2_end_commit = (24, 4)"
  by (simp_all del: One_nat_def add: struct_trace_event_raw_jbd2_end_commit_def layout_eval layout_simps)

definition struct_trace_event_raw_jbd2_submit_inode_data :: ctype where
  "struct_trace_event_raw_jbd2_submit_inode_data =
     Composite Struct False
     [Member ''ent'' struct_trace_entry,
      Member ''dev'' typedef_dev_t,
      Member ''ino'' typedef_ino_t,
      Member ''__data'' (Array (Scalar Char8) 0)]"

lemma struct_trace_event_raw_jbd2_submit_inode_data_layout [layout_simps]:
  "wf_type struct_trace_event_raw_jbd2_submit_inode_data" "shape struct_trace_event_raw_jbd2_submit_inode_data = (24, 8)"
  by (simp_all del: One_nat_def add: struct_trace_event_raw_jbd2_submit_inode_data_def layout_eval layout_simps)

definition struct_trace_event_raw_jbd2_handle_start_class :: ctype where
  "struct_trace_event_raw_jbd2_handle_start_class =
     Composite Struct False
     [Member ''ent'' struct_trace_entry,
      Member ''dev'' typedef_dev_t,
      Member ''tid'' typedef_tid_t,
      Member ''type'' (Scalar UInt32),
      Member ''line_no'' (Scalar UInt32),
      Member ''requested_blocks'' (Scalar Int32),
      Member ''__data'' (Array (Scalar Char8) 0)]"

lemma struct_trace_event_raw_jbd2_handle_start_class_layout [layout_simps]:
  "wf_type struct_trace_event_raw_jbd2_handle_start_class" "shape struct_trace_event_raw_jbd2_handle_start_class = (28, 4)"
  by (simp_all del: One_nat_def add: struct_trace_event_raw_jbd2_handle_start_class_def layout_eval layout_simps)

definition struct_trace_event_raw_jbd2_handle_extend :: ctype where
  "struct_trace_event_raw_jbd2_handle_extend =
     Composite Struct False
     [Member ''ent'' struct_trace_entry,
      Member ''dev'' typedef_dev_t,
      Member ''tid'' typedef_tid_t,
      Member ''type'' (Scalar UInt32),
      Member ''line_no'' (Scalar UInt32),
      Member ''buffer_credits'' (Scalar Int32),
      Member ''requested_blocks'' (Scalar Int32),
      Member ''__data'' (Array (Scalar Char8) 0)]"

lemma struct_trace_event_raw_jbd2_handle_extend_layout [layout_simps]:
  "wf_type struct_trace_event_raw_jbd2_handle_extend" "shape struct_trace_event_raw_jbd2_handle_extend = (32, 4)"
  by (simp_all del: One_nat_def add: struct_trace_event_raw_jbd2_handle_extend_def layout_eval layout_simps)

definition struct_trace_event_raw_jbd2_handle_stats :: ctype where
  "struct_trace_event_raw_jbd2_handle_stats =
     Composite Struct False
     [Member ''ent'' struct_trace_entry,
      Member ''dev'' typedef_dev_t,
      Member ''tid'' typedef_tid_t,
      Member ''type'' (Scalar UInt32),
      Member ''line_no'' (Scalar UInt32),
      Member ''interval'' (Scalar Int32),
      Member ''sync'' (Scalar Int32),
      Member ''requested_blocks'' (Scalar Int32),
      Member ''dirtied_blocks'' (Scalar Int32),
      Member ''__data'' (Array (Scalar Char8) 0)]"

lemma struct_trace_event_raw_jbd2_handle_stats_layout [layout_simps]:
  "wf_type struct_trace_event_raw_jbd2_handle_stats" "shape struct_trace_event_raw_jbd2_handle_stats = (40, 4)"
  by (simp_all del: One_nat_def add: struct_trace_event_raw_jbd2_handle_stats_def layout_eval layout_simps)

definition struct_trace_event_raw_jbd2_run_stats :: ctype where
  "struct_trace_event_raw_jbd2_run_stats =
     Composite Struct False
     [Member ''ent'' struct_trace_entry,
      Member ''dev'' typedef_dev_t,
      Member ''tid'' typedef_tid_t,
      Member ''wait'' (Scalar ULong64),
      Member ''request_delay'' (Scalar ULong64),
      Member ''running'' (Scalar ULong64),
      Member ''locked'' (Scalar ULong64),
      Member ''flushing'' (Scalar ULong64),
      Member ''logging'' (Scalar ULong64),
      Member ''handle_count'' typedef___u32,
      Member ''blocks'' typedef___u32,
      Member ''blocks_logged'' typedef___u32,
      Member ''__data'' (Array (Scalar Char8) 0)]"

lemma struct_trace_event_raw_jbd2_run_stats_layout [layout_simps]:
  "wf_type struct_trace_event_raw_jbd2_run_stats" "shape struct_trace_event_raw_jbd2_run_stats = (80, 8)"
  by (simp_all del: One_nat_def add: struct_trace_event_raw_jbd2_run_stats_def layout_eval layout_simps)

definition struct_trace_event_raw_jbd2_checkpoint_stats :: ctype where
  "struct_trace_event_raw_jbd2_checkpoint_stats =
     Composite Struct False
     [Member ''ent'' struct_trace_entry,
      Member ''dev'' typedef_dev_t,
      Member ''tid'' typedef_tid_t,
      Member ''chp_time'' (Scalar ULong64),
      Member ''forced_to_close'' typedef___u32,
      Member ''written'' typedef___u32,
      Member ''dropped'' typedef___u32,
      Member ''__data'' (Array (Scalar Char8) 0)]"

lemma struct_trace_event_raw_jbd2_checkpoint_stats_layout [layout_simps]:
  "wf_type struct_trace_event_raw_jbd2_checkpoint_stats" "shape struct_trace_event_raw_jbd2_checkpoint_stats = (40, 8)"
  by (simp_all del: One_nat_def add: struct_trace_event_raw_jbd2_checkpoint_stats_def layout_eval layout_simps)

definition struct_trace_event_raw_jbd2_update_log_tail :: ctype where
  "struct_trace_event_raw_jbd2_update_log_tail =
     Composite Struct False
     [Member ''ent'' struct_trace_entry,
      Member ''dev'' typedef_dev_t,
      Member ''tail_sequence'' typedef_tid_t,
      Member ''first_tid'' typedef_tid_t,
      Member ''block_nr'' (Scalar ULong64),
      Member ''freed'' (Scalar ULong64),
      Member ''__data'' (Array (Scalar Char8) 0)]"

lemma struct_trace_event_raw_jbd2_update_log_tail_layout [layout_simps]:
  "wf_type struct_trace_event_raw_jbd2_update_log_tail" "shape struct_trace_event_raw_jbd2_update_log_tail = (40, 8)"
  by (simp_all del: One_nat_def add: struct_trace_event_raw_jbd2_update_log_tail_def layout_eval layout_simps)

definition struct_trace_event_raw_jbd2_write_superblock :: ctype where
  "struct_trace_event_raw_jbd2_write_superblock =
     Composite Struct False
     [Member ''ent'' struct_trace_entry,
      Member ''dev'' typedef_dev_t,
      Member ''write_flags'' typedef_blk_opf_t,
      Member ''__data'' (Array (Scalar Char8) 0)]"

lemma struct_trace_event_raw_jbd2_write_superblock_layout [layout_simps]:
  "wf_type struct_trace_event_raw_jbd2_write_superblock" "shape struct_trace_event_raw_jbd2_write_superblock = (16, 4)"
  by (simp_all del: One_nat_def add: struct_trace_event_raw_jbd2_write_superblock_def layout_eval layout_simps)

definition struct_trace_event_raw_jbd2_lock_buffer_stall :: ctype where
  "struct_trace_event_raw_jbd2_lock_buffer_stall =
     Composite Struct False
     [Member ''ent'' struct_trace_entry,
      Member ''dev'' typedef_dev_t,
      Member ''stall_ms'' (Scalar ULong64),
      Member ''__data'' (Array (Scalar Char8) 0)]"

lemma struct_trace_event_raw_jbd2_lock_buffer_stall_layout [layout_simps]:
  "wf_type struct_trace_event_raw_jbd2_lock_buffer_stall" "shape struct_trace_event_raw_jbd2_lock_buffer_stall = (24, 8)"
  by (simp_all del: One_nat_def add: struct_trace_event_raw_jbd2_lock_buffer_stall_def layout_eval layout_simps)

definition struct_trace_event_raw_jbd2_journal_shrink :: ctype where
  "struct_trace_event_raw_jbd2_journal_shrink =
     Composite Struct False
     [Member ''ent'' struct_trace_entry,
      Member ''dev'' typedef_dev_t,
      Member ''nr_to_scan'' (Scalar ULong64),
      Member ''count'' (Scalar ULong64),
      Member ''__data'' (Array (Scalar Char8) 0)]"

lemma struct_trace_event_raw_jbd2_journal_shrink_layout [layout_simps]:
  "wf_type struct_trace_event_raw_jbd2_journal_shrink" "shape struct_trace_event_raw_jbd2_journal_shrink = (32, 8)"
  by (simp_all del: One_nat_def add: struct_trace_event_raw_jbd2_journal_shrink_def layout_eval layout_simps)

definition struct_trace_event_raw_jbd2_shrink_scan_exit :: ctype where
  "struct_trace_event_raw_jbd2_shrink_scan_exit =
     Composite Struct False
     [Member ''ent'' struct_trace_entry,
      Member ''dev'' typedef_dev_t,
      Member ''nr_to_scan'' (Scalar ULong64),
      Member ''nr_shrunk'' (Scalar ULong64),
      Member ''count'' (Scalar ULong64),
      Member ''__data'' (Array (Scalar Char8) 0)]"

lemma struct_trace_event_raw_jbd2_shrink_scan_exit_layout [layout_simps]:
  "wf_type struct_trace_event_raw_jbd2_shrink_scan_exit" "shape struct_trace_event_raw_jbd2_shrink_scan_exit = (40, 8)"
  by (simp_all del: One_nat_def add: struct_trace_event_raw_jbd2_shrink_scan_exit_def layout_eval layout_simps)

definition struct_trace_event_raw_jbd2_shrink_checkpoint_list :: ctype where
  "struct_trace_event_raw_jbd2_shrink_checkpoint_list =
     Composite Struct False
     [Member ''ent'' struct_trace_entry,
      Member ''dev'' typedef_dev_t,
      Member ''first_tid'' typedef_tid_t,
      Member ''tid'' typedef_tid_t,
      Member ''last_tid'' typedef_tid_t,
      Member ''nr_freed'' (Scalar ULong64),
      Member ''next_tid'' typedef_tid_t,
      Member ''__data'' (Array (Scalar Char8) 0)]"

lemma struct_trace_event_raw_jbd2_shrink_checkpoint_list_layout [layout_simps]:
  "wf_type struct_trace_event_raw_jbd2_shrink_checkpoint_list" "shape struct_trace_event_raw_jbd2_shrink_checkpoint_list = (40, 8)"
  by (simp_all del: One_nat_def add: struct_trace_event_raw_jbd2_shrink_checkpoint_list_def layout_eval layout_simps)

definition struct_trace_event_raw_i2c_write :: ctype where
  "struct_trace_event_raw_i2c_write =
     Composite Struct False
     [Member ''ent'' struct_trace_entry,
      Member ''adapter_nr'' (Scalar Int32),
      Member ''msg_nr'' typedef___u16,
      Member ''addr'' typedef___u16,
      Member ''flags'' typedef___u16,
      Member ''len'' typedef___u16,
      Member ''__data_loc_buf'' typedef_u32,
      Member ''__data'' (Array (Scalar Char8) 0)]"

lemma struct_trace_event_raw_i2c_write_layout [layout_simps]:
  "wf_type struct_trace_event_raw_i2c_write" "shape struct_trace_event_raw_i2c_write = (24, 4)"
  by (simp_all del: One_nat_def add: struct_trace_event_raw_i2c_write_def layout_eval layout_simps)

definition struct_trace_event_raw_i2c_read :: ctype where
  "struct_trace_event_raw_i2c_read =
     Composite Struct False
     [Member ''ent'' struct_trace_entry,
      Member ''adapter_nr'' (Scalar Int32),
      Member ''msg_nr'' typedef___u16,
      Member ''addr'' typedef___u16,
      Member ''flags'' typedef___u16,
      Member ''len'' typedef___u16,
      Member ''__data'' (Array (Scalar Char8) 0)]"

lemma struct_trace_event_raw_i2c_read_layout [layout_simps]:
  "wf_type struct_trace_event_raw_i2c_read" "shape struct_trace_event_raw_i2c_read = (20, 4)"
  by (simp_all del: One_nat_def add: struct_trace_event_raw_i2c_read_def layout_eval layout_simps)

definition struct_trace_event_raw_i2c_reply :: ctype where
  "struct_trace_event_raw_i2c_reply =
     Composite Struct False
     [Member ''ent'' struct_trace_entry,
      Member ''adapter_nr'' (Scalar Int32),
      Member ''msg_nr'' typedef___u16,
      Member ''addr'' typedef___u16,
      Member ''flags'' typedef___u16,
      Member ''len'' typedef___u16,
      Member ''__data_loc_buf'' typedef_u32,
      Member ''__data'' (Array (Scalar Char8) 0)]"

lemma struct_trace_event_raw_i2c_reply_layout [layout_simps]:
  "wf_type struct_trace_event_raw_i2c_reply" "shape struct_trace_event_raw_i2c_reply = (24, 4)"
  by (simp_all del: One_nat_def add: struct_trace_event_raw_i2c_reply_def layout_eval layout_simps)

definition struct_trace_event_raw_i2c_result :: ctype where
  "struct_trace_event_raw_i2c_result =
     Composite Struct False
     [Member ''ent'' struct_trace_entry,
      Member ''adapter_nr'' (Scalar Int32),
      Member ''nr_msgs'' typedef___u16,
      Member ''ret'' typedef___s16,
      Member ''__data'' (Array (Scalar Char8) 0)]"

lemma struct_trace_event_raw_i2c_result_layout [layout_simps]:
  "wf_type struct_trace_event_raw_i2c_result" "shape struct_trace_event_raw_i2c_result = (16, 4)"
  by (simp_all del: One_nat_def add: struct_trace_event_raw_i2c_result_def layout_eval layout_simps)

definition struct_trace_event_raw_mmc_request_start :: ctype where
  "struct_trace_event_raw_mmc_request_start =
     Composite Struct False
     [Member ''ent'' struct_trace_entry,
      Member ''cmd_opcode'' typedef_u32,
      Member ''cmd_arg'' typedef_u32,
      Member ''cmd_flags'' (Scalar UInt32),
      Member ''cmd_retries'' (Scalar UInt32),
      Member ''stop_opcode'' typedef_u32,
      Member ''stop_arg'' typedef_u32,
      Member ''stop_flags'' (Scalar UInt32),
      Member ''stop_retries'' (Scalar UInt32),
      Member ''sbc_opcode'' typedef_u32,
      Member ''sbc_arg'' typedef_u32,
      Member ''sbc_flags'' (Scalar UInt32),
      Member ''sbc_retries'' (Scalar UInt32),
      Member ''blocks'' (Scalar UInt32),
      Member ''blk_addr'' (Scalar UInt32),
      Member ''blksz'' (Scalar UInt32),
      Member ''data_flags'' (Scalar UInt32),
      Member ''tag'' (Scalar Int32),
      Member ''can_retune'' (Scalar UInt32),
      Member ''doing_retune'' (Scalar UInt32),
      Member ''retune_now'' (Scalar UInt32),
      Member ''need_retune'' (Scalar Int32),
      Member ''hold_retune'' (Scalar Int32),
      Member ''retune_period'' (Scalar UInt32),
      Member ''mrq'' (Pointer (Named Struct_name ''mmc_request'')),
      Member ''__data_loc_name'' typedef_u32,
      Member ''__data'' (Array (Scalar Char8) 0)]"

lemma struct_trace_event_raw_mmc_request_start_layout [layout_simps]:
  "wf_type struct_trace_event_raw_mmc_request_start" "shape struct_trace_event_raw_mmc_request_start = (120, 8)"
  by (simp_all del: One_nat_def add: struct_trace_event_raw_mmc_request_start_def layout_eval layout_simps)

definition struct_trace_event_raw_mmc_request_done :: ctype where
  "struct_trace_event_raw_mmc_request_done =
     Composite Struct False
     [Member ''ent'' struct_trace_entry,
      Member ''cmd_opcode'' typedef_u32,
      Member ''cmd_err'' (Scalar Int32),
      Member ''cmd_resp'' (Array typedef_u32 4),
      Member ''cmd_retries'' (Scalar UInt32),
      Member ''stop_opcode'' typedef_u32,
      Member ''stop_err'' (Scalar Int32),
      Member ''stop_resp'' (Array typedef_u32 4),
      Member ''stop_retries'' (Scalar UInt32),
      Member ''sbc_opcode'' typedef_u32,
      Member ''sbc_err'' (Scalar Int32),
      Member ''sbc_resp'' (Array typedef_u32 4),
      Member ''sbc_retries'' (Scalar UInt32),
      Member ''bytes_xfered'' (Scalar UInt32),
      Member ''data_err'' (Scalar Int32),
      Member ''tag'' (Scalar Int32),
      Member ''can_retune'' (Scalar UInt32),
      Member ''doing_retune'' (Scalar UInt32),
      Member ''retune_now'' (Scalar UInt32),
      Member ''need_retune'' (Scalar Int32),
      Member ''hold_retune'' (Scalar Int32),
      Member ''retune_period'' (Scalar UInt32),
      Member ''mrq'' (Pointer (Named Struct_name ''mmc_request'')),
      Member ''__data_loc_name'' typedef_u32,
      Member ''__data'' (Array (Scalar Char8) 0)]"

lemma struct_trace_event_raw_mmc_request_done_layout [layout_simps]:
  "wf_type struct_trace_event_raw_mmc_request_done" "shape struct_trace_event_raw_mmc_request_done = (144, 8)"
  by (simp_all del: One_nat_def add: struct_trace_event_raw_mmc_request_done_def layout_eval layout_simps)

definition struct_trace_event_raw_mc_event :: ctype where
  "struct_trace_event_raw_mc_event =
     Composite Struct False
     [Member ''ent'' struct_trace_entry,
      Member ''error_type'' (Scalar UInt32),
      Member ''__data_loc_msg'' typedef_u32,
      Member ''__data_loc_label'' typedef_u32,
      Member ''error_count'' typedef_u16,
      Member ''mc_index'' typedef_u8,
      Member ''top_layer'' typedef_s8,
      Member ''middle_layer'' typedef_s8,
      Member ''lower_layer'' typedef_s8,
      Member ''address'' (Scalar Long64),
      Member ''grain_bits'' typedef_u8,
      Member ''syndrome'' (Scalar Long64),
      Member ''__data_loc_driver_detail'' typedef_u32,
      Member ''__data'' (Array (Scalar Char8) 0)]"

lemma struct_trace_event_raw_mc_event_layout [layout_simps]:
  "wf_type struct_trace_event_raw_mc_event" "shape struct_trace_event_raw_mc_event = (64, 8)"
  by (simp_all del: One_nat_def add: struct_trace_event_raw_mc_event_def layout_eval layout_simps)

definition struct_trace_event_raw_non_standard_event :: ctype where
  "struct_trace_event_raw_non_standard_event =
     Composite Struct False
     [Member ''ent'' struct_trace_entry,
      Member ''sec_type'' (Array (Scalar Char8) 16),
      Member ''fru_id'' (Array (Scalar Char8) 16),
      Member ''__data_loc_fru_text'' typedef_u32,
      Member ''sev'' typedef_u8,
      Member ''len'' typedef_u32,
      Member ''__data_loc_buf'' typedef_u32,
      Member ''__data'' (Array (Scalar Char8) 0)]"

lemma struct_trace_event_raw_non_standard_event_layout [layout_simps]:
  "wf_type struct_trace_event_raw_non_standard_event" "shape struct_trace_event_raw_non_standard_event = (56, 4)"
  by (simp_all del: One_nat_def add: struct_trace_event_raw_non_standard_event_def layout_eval layout_simps)

definition struct_trace_event_raw_memory_failure_event :: ctype where
  "struct_trace_event_raw_memory_failure_event =
     Composite Struct False
     [Member ''ent'' struct_trace_entry,
      Member ''pfn'' (Scalar ULong64),
      Member ''type'' (Scalar Int32),
      Member ''result'' (Scalar Int32),
      Member ''__data'' (Array (Scalar Char8) 0)]"

lemma struct_trace_event_raw_memory_failure_event_layout [layout_simps]:
  "wf_type struct_trace_event_raw_memory_failure_event" "shape struct_trace_event_raw_memory_failure_event = (24, 8)"
  by (simp_all del: One_nat_def add: struct_trace_event_raw_memory_failure_event_def layout_eval layout_simps)

definition struct_trace_event_raw_mptcp_subflow_get_send :: ctype where
  "struct_trace_event_raw_mptcp_subflow_get_send =
     Composite Struct False
     [Member ''ent'' struct_trace_entry,
      Member ''active'' typedef_bool,
      Member ''free'' typedef_bool,
      Member ''snd_wnd'' typedef_u32,
      Member ''pace'' typedef_u32,
      Member ''backup'' typedef_u8,
      Member ''ratio'' typedef_u64,
      Member ''__data'' (Array (Scalar Char8) 0)]"

lemma struct_trace_event_raw_mptcp_subflow_get_send_layout [layout_simps]:
  "wf_type struct_trace_event_raw_mptcp_subflow_get_send" "shape struct_trace_event_raw_mptcp_subflow_get_send = (32, 8)"
  by (simp_all del: One_nat_def add: struct_trace_event_raw_mptcp_subflow_get_send_def layout_eval layout_simps)

definition struct_trace_event_raw_mptcp_dump_mpext :: ctype where
  "struct_trace_event_raw_mptcp_dump_mpext =
     Composite Struct False
     [Member ''ent'' struct_trace_entry,
      Member ''data_ack'' typedef_u64,
      Member ''data_seq'' typedef_u64,
      Member ''subflow_seq'' typedef_u32,
      Member ''data_len'' typedef_u16,
      Member ''csum'' typedef_u16,
      Member ''use_map'' typedef_u8,
      Member ''dsn64'' typedef_u8,
      Member ''data_fin'' typedef_u8,
      Member ''use_ack'' typedef_u8,
      Member ''ack64'' typedef_u8,
      Member ''mpc_map'' typedef_u8,
      Member ''frozen'' typedef_u8,
      Member ''reset_transient'' typedef_u8,
      Member ''reset_reason'' typedef_u8,
      Member ''csum_reqd'' typedef_u8,
      Member ''infinite_map'' typedef_u8,
      Member ''__data'' (Array (Scalar Char8) 0)]"

lemma struct_trace_event_raw_mptcp_dump_mpext_layout [layout_simps]:
  "wf_type struct_trace_event_raw_mptcp_dump_mpext" "shape struct_trace_event_raw_mptcp_dump_mpext = (48, 8)"
  by (simp_all del: One_nat_def add: struct_trace_event_raw_mptcp_dump_mpext_def layout_eval layout_simps)

definition struct_trace_event_raw_mctp_key_acquire :: ctype where
  "struct_trace_event_raw_mctp_key_acquire =
     Composite Struct False
     [Member ''ent'' struct_trace_entry,
      Member ''paddr'' typedef___u8,
      Member ''laddr'' typedef___u8,
      Member ''tag'' typedef___u8,
      Member ''__data'' (Array (Scalar Char8) 0)]"

lemma struct_trace_event_raw_mctp_key_acquire_layout [layout_simps]:
  "wf_type struct_trace_event_raw_mctp_key_acquire" "shape struct_trace_event_raw_mctp_key_acquire = (12, 4)"
  by (simp_all del: One_nat_def add: struct_trace_event_raw_mctp_key_acquire_def layout_eval layout_simps)

definition struct_trace_event_raw_mctp_key_release :: ctype where
  "struct_trace_event_raw_mctp_key_release =
     Composite Struct False
     [Member ''ent'' struct_trace_entry,
      Member ''paddr'' typedef___u8,
      Member ''laddr'' typedef___u8,
      Member ''tag'' typedef___u8,
      Member ''reason'' (Scalar Int32),
      Member ''__data'' (Array (Scalar Char8) 0)]"

lemma struct_trace_event_raw_mctp_key_release_layout [layout_simps]:
  "wf_type struct_trace_event_raw_mctp_key_release" "shape struct_trace_event_raw_mctp_key_release = (16, 4)"
  by (simp_all del: One_nat_def add: struct_trace_event_raw_mctp_key_release_def layout_eval layout_simps)

definition struct_trace_event_raw_handshake_event_class :: ctype where
  "struct_trace_event_raw_handshake_event_class =
     Composite Struct False
     [Member ''ent'' struct_trace_entry,
      Member ''req'' (Pointer Void),
      Member ''sk'' (Pointer Void),
      Member ''netns_ino'' (Scalar UInt32),
      Member ''__data'' (Array (Scalar Char8) 0)]"

lemma struct_trace_event_raw_handshake_event_class_layout [layout_simps]:
  "wf_type struct_trace_event_raw_handshake_event_class" "shape struct_trace_event_raw_handshake_event_class = (32, 8)"
  by (simp_all del: One_nat_def add: struct_trace_event_raw_handshake_event_class_def layout_eval layout_simps)

definition struct_trace_event_raw_handshake_fd_class :: ctype where
  "struct_trace_event_raw_handshake_fd_class =
     Composite Struct False
     [Member ''ent'' struct_trace_entry,
      Member ''req'' (Pointer Void),
      Member ''sk'' (Pointer Void),
      Member ''fd'' (Scalar Int32),
      Member ''netns_ino'' (Scalar UInt32),
      Member ''__data'' (Array (Scalar Char8) 0)]"

lemma struct_trace_event_raw_handshake_fd_class_layout [layout_simps]:
  "wf_type struct_trace_event_raw_handshake_fd_class" "shape struct_trace_event_raw_handshake_fd_class = (32, 8)"
  by (simp_all del: One_nat_def add: struct_trace_event_raw_handshake_fd_class_def layout_eval layout_simps)

definition struct_trace_event_raw_handshake_error_class :: ctype where
  "struct_trace_event_raw_handshake_error_class =
     Composite Struct False
     [Member ''ent'' struct_trace_entry,
      Member ''req'' (Pointer Void),
      Member ''sk'' (Pointer Void),
      Member ''err'' (Scalar Int32),
      Member ''netns_ino'' (Scalar UInt32),
      Member ''__data'' (Array (Scalar Char8) 0)]"

lemma struct_trace_event_raw_handshake_error_class_layout [layout_simps]:
  "wf_type struct_trace_event_raw_handshake_error_class" "shape struct_trace_event_raw_handshake_error_class = (32, 8)"
  by (simp_all del: One_nat_def add: struct_trace_event_raw_handshake_error_class_def layout_eval layout_simps)

definition struct_trace_event_raw_handshake_alert_class :: ctype where
  "struct_trace_event_raw_handshake_alert_class =
     Composite Struct False
     [Member ''ent'' struct_trace_entry,
      Member ''saddr'' (Array typedef___u8 28),
      Member ''daddr'' (Array typedef___u8 28),
      Member ''netns_ino'' (Scalar UInt32),
      Member ''level'' (Scalar ULong64),
      Member ''description'' (Scalar ULong64),
      Member ''__data'' (Array (Scalar Char8) 0)]"

lemma struct_trace_event_raw_handshake_alert_class_layout [layout_simps]:
  "wf_type struct_trace_event_raw_handshake_alert_class" "shape struct_trace_event_raw_handshake_alert_class = (88, 8)"
  by (simp_all del: One_nat_def add: struct_trace_event_raw_handshake_alert_class_def layout_eval layout_simps)

definition struct_trace_event_raw_handshake_complete :: ctype where
  "struct_trace_event_raw_handshake_complete =
     Composite Struct False
     [Member ''ent'' struct_trace_entry,
      Member ''req'' (Pointer Void),
      Member ''sk'' (Pointer Void),
      Member ''status'' (Scalar Int32),
      Member ''netns_ino'' (Scalar UInt32),
      Member ''__data'' (Array (Scalar Char8) 0)]"

lemma struct_trace_event_raw_handshake_complete_layout [layout_simps]:
  "wf_type struct_trace_event_raw_handshake_complete" "shape struct_trace_event_raw_handshake_complete = (32, 8)"
  by (simp_all del: One_nat_def add: struct_trace_event_raw_handshake_complete_def layout_eval layout_simps)

definition struct_trace_event_raw_hyperv_mmu_flush_tlb_multi :: ctype where
  "struct_trace_event_raw_hyperv_mmu_flush_tlb_multi =
     Composite Struct False
     [Member ''ent'' struct_trace_entry,
      Member ''ncpus'' (Scalar UInt32),
      Member ''mm'' (Pointer (Named Struct_name ''mm_struct'')),
      Member ''addr'' (Scalar ULong64),
      Member ''end'' (Scalar ULong64),
      Member ''__data'' (Array (Scalar Char8) 0)]"

lemma struct_trace_event_raw_hyperv_mmu_flush_tlb_multi_layout [layout_simps]:
  "wf_type struct_trace_event_raw_hyperv_mmu_flush_tlb_multi" "shape struct_trace_event_raw_hyperv_mmu_flush_tlb_multi = (40, 8)"
  by (simp_all del: One_nat_def add: struct_trace_event_raw_hyperv_mmu_flush_tlb_multi_def layout_eval layout_simps)

definition struct_trace_event_raw_hyperv_nested_flush_guest_mapping :: ctype where
  "struct_trace_event_raw_hyperv_nested_flush_guest_mapping =
     Composite Struct False
     [Member ''ent'' struct_trace_entry,
      Member ''as'' typedef_u64,
      Member ''ret'' (Scalar Int32),
      Member ''__data'' (Array (Scalar Char8) 0)]"

lemma struct_trace_event_raw_hyperv_nested_flush_guest_mapping_layout [layout_simps]:
  "wf_type struct_trace_event_raw_hyperv_nested_flush_guest_mapping" "shape struct_trace_event_raw_hyperv_nested_flush_guest_mapping = (24, 8)"
  by (simp_all del: One_nat_def add: struct_trace_event_raw_hyperv_nested_flush_guest_mapping_def layout_eval layout_simps)

definition struct_trace_event_raw_hyperv_nested_flush_guest_mapping_range :: ctype where
  "struct_trace_event_raw_hyperv_nested_flush_guest_mapping_range =
     Composite Struct False
     [Member ''ent'' struct_trace_entry,
      Member ''as'' typedef_u64,
      Member ''ret'' (Scalar Int32),
      Member ''__data'' (Array (Scalar Char8) 0)]"

lemma struct_trace_event_raw_hyperv_nested_flush_guest_mapping_range_layout [layout_simps]:
  "wf_type struct_trace_event_raw_hyperv_nested_flush_guest_mapping_range" "shape struct_trace_event_raw_hyperv_nested_flush_guest_mapping_range = (24, 8)"
  by (simp_all del: One_nat_def add: struct_trace_event_raw_hyperv_nested_flush_guest_mapping_range_def layout_eval layout_simps)

definition struct_trace_event_raw_hyperv_send_ipi_mask :: ctype where
  "struct_trace_event_raw_hyperv_send_ipi_mask =
     Composite Struct False
     [Member ''ent'' struct_trace_entry,
      Member ''ncpus'' (Scalar UInt32),
      Member ''vector'' (Scalar Int32),
      Member ''__data'' (Array (Scalar Char8) 0)]"

lemma struct_trace_event_raw_hyperv_send_ipi_mask_layout [layout_simps]:
  "wf_type struct_trace_event_raw_hyperv_send_ipi_mask" "shape struct_trace_event_raw_hyperv_send_ipi_mask = (16, 4)"
  by (simp_all del: One_nat_def add: struct_trace_event_raw_hyperv_send_ipi_mask_def layout_eval layout_simps)

definition struct_trace_event_raw_hyperv_send_ipi_one :: ctype where
  "struct_trace_event_raw_hyperv_send_ipi_one =
     Composite Struct False
     [Member ''ent'' struct_trace_entry,
      Member ''cpu'' (Scalar Int32),
      Member ''vector'' (Scalar Int32),
      Member ''__data'' (Array (Scalar Char8) 0)]"

lemma struct_trace_event_raw_hyperv_send_ipi_one_layout [layout_simps]:
  "wf_type struct_trace_event_raw_hyperv_send_ipi_one" "shape struct_trace_event_raw_hyperv_send_ipi_one = (16, 4)"
  by (simp_all del: One_nat_def add: struct_trace_event_raw_hyperv_send_ipi_one_def layout_eval layout_simps)

definition struct_trace_event_raw_nmi_handler :: ctype where
  "struct_trace_event_raw_nmi_handler =
     Composite Struct False
     [Member ''ent'' struct_trace_entry,
      Member ''handler'' (Pointer Void),
      Member ''delta_ns'' typedef_s64,
      Member ''handled'' (Scalar Int32),
      Member ''__data'' (Array (Scalar Char8) 0)]"

lemma struct_trace_event_raw_nmi_handler_layout [layout_simps]:
  "wf_type struct_trace_event_raw_nmi_handler" "shape struct_trace_event_raw_nmi_handler = (32, 8)"
  by (simp_all del: One_nat_def add: struct_trace_event_raw_nmi_handler_def layout_eval layout_simps)

definition struct_trace_event_raw_module_load :: ctype where
  "struct_trace_event_raw_module_load =
     Composite Struct False
     [Member ''ent'' struct_trace_entry,
      Member ''taints'' (Scalar UInt32),
      Member ''__data_loc_name'' typedef_u32,
      Member ''__data'' (Array (Scalar Char8) 0)]"

lemma struct_trace_event_raw_module_load_layout [layout_simps]:
  "wf_type struct_trace_event_raw_module_load" "shape struct_trace_event_raw_module_load = (16, 4)"
  by (simp_all del: One_nat_def add: struct_trace_event_raw_module_load_def layout_eval layout_simps)

definition struct_trace_event_raw_module_free :: ctype where
  "struct_trace_event_raw_module_free =
     Composite Struct False
     [Member ''ent'' struct_trace_entry,
      Member ''__data_loc_name'' typedef_u32,
      Member ''__data'' (Array (Scalar Char8) 0)]"

lemma struct_trace_event_raw_module_free_layout [layout_simps]:
  "wf_type struct_trace_event_raw_module_free" "shape struct_trace_event_raw_module_free = (12, 4)"
  by (simp_all del: One_nat_def add: struct_trace_event_raw_module_free_def layout_eval layout_simps)

definition struct_trace_event_raw_module_refcnt :: ctype where
  "struct_trace_event_raw_module_refcnt =
     Composite Struct False
     [Member ''ent'' struct_trace_entry,
      Member ''ip'' (Scalar ULong64),
      Member ''refcnt'' (Scalar Int32),
      Member ''__data_loc_name'' typedef_u32,
      Member ''__data'' (Array (Scalar Char8) 0)]"

lemma struct_trace_event_raw_module_refcnt_layout [layout_simps]:
  "wf_type struct_trace_event_raw_module_refcnt" "shape struct_trace_event_raw_module_refcnt = (24, 8)"
  by (simp_all del: One_nat_def add: struct_trace_event_raw_module_refcnt_def layout_eval layout_simps)

definition struct_trace_event_raw_module_request :: ctype where
  "struct_trace_event_raw_module_request =
     Composite Struct False
     [Member ''ent'' struct_trace_entry,
      Member ''ip'' (Scalar ULong64),
      Member ''wait'' typedef_bool,
      Member ''__data_loc_name'' typedef_u32,
      Member ''__data'' (Array (Scalar Char8) 0)]"

lemma struct_trace_event_raw_module_request_layout [layout_simps]:
  "wf_type struct_trace_event_raw_module_request" "shape struct_trace_event_raw_module_request = (24, 8)"
  by (simp_all del: One_nat_def add: struct_trace_event_raw_module_request_def layout_eval layout_simps)

definition struct_trace_event_raw_hrtimer_init :: ctype where
  "struct_trace_event_raw_hrtimer_init =
     Composite Struct False
     [Member ''ent'' struct_trace_entry,
      Member ''hrtimer'' (Pointer Void),
      Member ''clockid'' typedef_clockid_t,
      Member ''mode'' enum_hrtimer_mode,
      Member ''__data'' (Array (Scalar Char8) 0)]"

lemma struct_trace_event_raw_hrtimer_init_layout [layout_simps]:
  "wf_type struct_trace_event_raw_hrtimer_init" "shape struct_trace_event_raw_hrtimer_init = (24, 8)"
  by (simp_all del: One_nat_def add: struct_trace_event_raw_hrtimer_init_def layout_eval layout_simps)

definition struct_trace_event_raw_hrtimer_start :: ctype where
  "struct_trace_event_raw_hrtimer_start =
     Composite Struct False
     [Member ''ent'' struct_trace_entry,
      Member ''hrtimer'' (Pointer Void),
      Member ''function'' (Pointer Void),
      Member ''expires'' typedef_s64,
      Member ''softexpires'' typedef_s64,
      Member ''mode'' enum_hrtimer_mode,
      Member ''__data'' (Array (Scalar Char8) 0)]"

lemma struct_trace_event_raw_hrtimer_start_layout [layout_simps]:
  "wf_type struct_trace_event_raw_hrtimer_start" "shape struct_trace_event_raw_hrtimer_start = (48, 8)"
  by (simp_all del: One_nat_def add: struct_trace_event_raw_hrtimer_start_def layout_eval layout_simps)

definition struct_trace_event_raw_hrtimer_expire_entry :: ctype where
  "struct_trace_event_raw_hrtimer_expire_entry =
     Composite Struct False
     [Member ''ent'' struct_trace_entry,
      Member ''hrtimer'' (Pointer Void),
      Member ''now'' typedef_s64,
      Member ''function'' (Pointer Void),
      Member ''__data'' (Array (Scalar Char8) 0)]"

lemma struct_trace_event_raw_hrtimer_expire_entry_layout [layout_simps]:
  "wf_type struct_trace_event_raw_hrtimer_expire_entry" "shape struct_trace_event_raw_hrtimer_expire_entry = (32, 8)"
  by (simp_all del: One_nat_def add: struct_trace_event_raw_hrtimer_expire_entry_def layout_eval layout_simps)

definition struct_trace_event_raw_hrtimer_class :: ctype where
  "struct_trace_event_raw_hrtimer_class =
     Composite Struct False
     [Member ''ent'' struct_trace_entry,
      Member ''hrtimer'' (Pointer Void),
      Member ''__data'' (Array (Scalar Char8) 0)]"

lemma struct_trace_event_raw_hrtimer_class_layout [layout_simps]:
  "wf_type struct_trace_event_raw_hrtimer_class" "shape struct_trace_event_raw_hrtimer_class = (16, 8)"
  by (simp_all del: One_nat_def add: struct_trace_event_raw_hrtimer_class_def layout_eval layout_simps)

definition struct_trace_event_raw_itimer_state :: ctype where
  "struct_trace_event_raw_itimer_state =
     Composite Struct False
     [Member ''ent'' struct_trace_entry,
      Member ''which'' (Scalar Int32),
      Member ''expires'' (Scalar ULongLong64),
      Member ''value_sec'' (Scalar Long64),
      Member ''value_nsec'' (Scalar Long64),
      Member ''interval_sec'' (Scalar Long64),
      Member ''interval_nsec'' (Scalar Long64),
      Member ''__data'' (Array (Scalar Char8) 0)]"

lemma struct_trace_event_raw_itimer_state_layout [layout_simps]:
  "wf_type struct_trace_event_raw_itimer_state" "shape struct_trace_event_raw_itimer_state = (56, 8)"
  by (simp_all del: One_nat_def add: struct_trace_event_raw_itimer_state_def layout_eval layout_simps)

definition struct_trace_event_raw_itimer_expire :: ctype where
  "struct_trace_event_raw_itimer_expire =
     Composite Struct False
     [Member ''ent'' struct_trace_entry,
      Member ''which'' (Scalar Int32),
      Member ''pid'' typedef_pid_t,
      Member ''now'' (Scalar ULongLong64),
      Member ''__data'' (Array (Scalar Char8) 0)]"

lemma struct_trace_event_raw_itimer_expire_layout [layout_simps]:
  "wf_type struct_trace_event_raw_itimer_expire" "shape struct_trace_event_raw_itimer_expire = (24, 8)"
  by (simp_all del: One_nat_def add: struct_trace_event_raw_itimer_expire_def layout_eval layout_simps)

definition struct_trace_event_raw_mem_disconnect :: ctype where
  "struct_trace_event_raw_mem_disconnect =
     Composite Struct False
     [Member ''ent'' struct_trace_entry,
      Member ''xa'' (Pointer (Named Struct_name ''xdp_mem_allocator'')),
      Member ''mem_id'' typedef_u32,
      Member ''mem_type'' typedef_u32,
      Member ''allocator'' (Pointer Void),
      Member ''__data'' (Array (Scalar Char8) 0)]"

lemma struct_trace_event_raw_mem_disconnect_layout [layout_simps]:
  "wf_type struct_trace_event_raw_mem_disconnect" "shape struct_trace_event_raw_mem_disconnect = (32, 8)"
  by (simp_all del: One_nat_def add: struct_trace_event_raw_mem_disconnect_def layout_eval layout_simps)

definition struct_trace_event_raw_mem_connect :: ctype where
  "struct_trace_event_raw_mem_connect =
     Composite Struct False
     [Member ''ent'' struct_trace_entry,
      Member ''xa'' (Pointer (Named Struct_name ''xdp_mem_allocator'')),
      Member ''mem_id'' typedef_u32,
      Member ''mem_type'' typedef_u32,
      Member ''allocator'' (Pointer Void),
      Member ''rxq'' (Pointer (Named Struct_name ''xdp_rxq_info'')),
      Member ''ifindex'' (Scalar Int32),
      Member ''__data'' (Array (Scalar Char8) 0)]"

lemma struct_trace_event_raw_mem_connect_layout [layout_simps]:
  "wf_type struct_trace_event_raw_mem_connect" "shape struct_trace_event_raw_mem_connect = (48, 8)"
  by (simp_all del: One_nat_def add: struct_trace_event_raw_mem_connect_def layout_eval layout_simps)

definition struct_trace_event_raw_mem_return_failed :: ctype where
  "struct_trace_event_raw_mem_return_failed =
     Composite Struct False
     [Member ''ent'' struct_trace_entry,
      Member ''page'' (Pointer (Named Struct_name ''page'')),
      Member ''mem_id'' typedef_u32,
      Member ''mem_type'' typedef_u32,
      Member ''__data'' (Array (Scalar Char8) 0)]"

lemma struct_trace_event_raw_mem_return_failed_layout [layout_simps]:
  "wf_type struct_trace_event_raw_mem_return_failed" "shape struct_trace_event_raw_mem_return_failed = (24, 8)"
  by (simp_all del: One_nat_def add: struct_trace_event_raw_mem_return_failed_def layout_eval layout_simps)

definition struct_trace_event_raw_percpu_alloc_percpu_fail :: ctype where
  "struct_trace_event_raw_percpu_alloc_percpu_fail =
     Composite Struct False
     [Member ''ent'' struct_trace_entry,
      Member ''reserved'' typedef_bool,
      Member ''is_atomic'' typedef_bool,
      Member ''size'' typedef_size_t,
      Member ''align'' typedef_size_t,
      Member ''__data'' (Array (Scalar Char8) 0)]"

lemma struct_trace_event_raw_percpu_alloc_percpu_fail_layout [layout_simps]:
  "wf_type struct_trace_event_raw_percpu_alloc_percpu_fail" "shape struct_trace_event_raw_percpu_alloc_percpu_fail = (32, 8)"
  by (simp_all del: One_nat_def add: struct_trace_event_raw_percpu_alloc_percpu_fail_def layout_eval layout_simps)

definition struct_trace_event_raw_percpu_create_chunk :: ctype where
  "struct_trace_event_raw_percpu_create_chunk =
     Composite Struct False
     [Member ''ent'' struct_trace_entry,
      Member ''base_addr'' (Pointer Void),
      Member ''__data'' (Array (Scalar Char8) 0)]"

lemma struct_trace_event_raw_percpu_create_chunk_layout [layout_simps]:
  "wf_type struct_trace_event_raw_percpu_create_chunk" "shape struct_trace_event_raw_percpu_create_chunk = (16, 8)"
  by (simp_all del: One_nat_def add: struct_trace_event_raw_percpu_create_chunk_def layout_eval layout_simps)

definition struct_trace_event_raw_percpu_destroy_chunk :: ctype where
  "struct_trace_event_raw_percpu_destroy_chunk =
     Composite Struct False
     [Member ''ent'' struct_trace_entry,
      Member ''base_addr'' (Pointer Void),
      Member ''__data'' (Array (Scalar Char8) 0)]"

lemma struct_trace_event_raw_percpu_destroy_chunk_layout [layout_simps]:
  "wf_type struct_trace_event_raw_percpu_destroy_chunk" "shape struct_trace_event_raw_percpu_destroy_chunk = (16, 8)"
  by (simp_all del: One_nat_def add: struct_trace_event_raw_percpu_destroy_chunk_def layout_eval layout_simps)

definition struct_trace_event_raw_mm_migrate_pages :: ctype where
  "struct_trace_event_raw_mm_migrate_pages =
     Composite Struct False
     [Member ''ent'' struct_trace_entry,
      Member ''succeeded'' (Scalar ULong64),
      Member ''failed'' (Scalar ULong64),
      Member ''thp_succeeded'' (Scalar ULong64),
      Member ''thp_failed'' (Scalar ULong64),
      Member ''thp_split'' (Scalar ULong64),
      Member ''large_folio_split'' (Scalar ULong64),
      Member ''mode'' enum_migrate_mode,
      Member ''reason'' (Scalar Int32),
      Member ''__data'' (Array (Scalar Char8) 0)]"

lemma struct_trace_event_raw_mm_migrate_pages_layout [layout_simps]:
  "wf_type struct_trace_event_raw_mm_migrate_pages" "shape struct_trace_event_raw_mm_migrate_pages = (64, 8)"
  by (simp_all del: One_nat_def add: struct_trace_event_raw_mm_migrate_pages_def layout_eval layout_simps)

definition struct_trace_event_raw_mm_migrate_pages_start :: ctype where
  "struct_trace_event_raw_mm_migrate_pages_start =
     Composite Struct False
     [Member ''ent'' struct_trace_entry,
      Member ''mode'' enum_migrate_mode,
      Member ''reason'' (Scalar Int32),
      Member ''__data'' (Array (Scalar Char8) 0)]"

lemma struct_trace_event_raw_mm_migrate_pages_start_layout [layout_simps]:
  "wf_type struct_trace_event_raw_mm_migrate_pages_start" "shape struct_trace_event_raw_mm_migrate_pages_start = (16, 4)"
  by (simp_all del: One_nat_def add: struct_trace_event_raw_mm_migrate_pages_start_def layout_eval layout_simps)

definition struct_trace_event_raw_migration_pte :: ctype where
  "struct_trace_event_raw_migration_pte =
     Composite Struct False
     [Member ''ent'' struct_trace_entry,
      Member ''addr'' (Scalar ULong64),
      Member ''pte'' (Scalar ULong64),
      Member ''order'' (Scalar Int32),
      Member ''__data'' (Array (Scalar Char8) 0)]"

lemma struct_trace_event_raw_migration_pte_layout [layout_simps]:
  "wf_type struct_trace_event_raw_migration_pte" "shape struct_trace_event_raw_migration_pte = (32, 8)"
  by (simp_all del: One_nat_def add: struct_trace_event_raw_migration_pte_def layout_eval layout_simps)

definition struct_trace_event_raw_ksm_scan_template :: ctype where
  "struct_trace_event_raw_ksm_scan_template =
     Composite Struct False
     [Member ''ent'' struct_trace_entry,
      Member ''seq'' (Scalar Int32),
      Member ''rmap_entries'' typedef_u32,
      Member ''__data'' (Array (Scalar Char8) 0)]"

lemma struct_trace_event_raw_ksm_scan_template_layout [layout_simps]:
  "wf_type struct_trace_event_raw_ksm_scan_template" "shape struct_trace_event_raw_ksm_scan_template = (16, 4)"
  by (simp_all del: One_nat_def add: struct_trace_event_raw_ksm_scan_template_def layout_eval layout_simps)

definition struct_trace_event_raw_ksm_enter_exit_template :: ctype where
  "struct_trace_event_raw_ksm_enter_exit_template =
     Composite Struct False
     [Member ''ent'' struct_trace_entry,
      Member ''mm'' (Pointer Void),
      Member ''__data'' (Array (Scalar Char8) 0)]"

lemma struct_trace_event_raw_ksm_enter_exit_template_layout [layout_simps]:
  "wf_type struct_trace_event_raw_ksm_enter_exit_template" "shape struct_trace_event_raw_ksm_enter_exit_template = (16, 8)"
  by (simp_all del: One_nat_def add: struct_trace_event_raw_ksm_enter_exit_template_def layout_eval layout_simps)

definition struct_trace_event_raw_ksm_merge_one_page :: ctype where
  "struct_trace_event_raw_ksm_merge_one_page =
     Composite Struct False
     [Member ''ent'' struct_trace_entry,
      Member ''pfn'' (Scalar ULong64),
      Member ''rmap_item'' (Pointer Void),
      Member ''mm'' (Pointer Void),
      Member ''err'' (Scalar Int32),
      Member ''__data'' (Array (Scalar Char8) 0)]"

lemma struct_trace_event_raw_ksm_merge_one_page_layout [layout_simps]:
  "wf_type struct_trace_event_raw_ksm_merge_one_page" "shape struct_trace_event_raw_ksm_merge_one_page = (40, 8)"
  by (simp_all del: One_nat_def add: struct_trace_event_raw_ksm_merge_one_page_def layout_eval layout_simps)

definition struct_trace_event_raw_ksm_merge_with_ksm_page :: ctype where
  "struct_trace_event_raw_ksm_merge_with_ksm_page =
     Composite Struct False
     [Member ''ent'' struct_trace_entry,
      Member ''ksm_page'' (Pointer Void),
      Member ''pfn'' (Scalar ULong64),
      Member ''rmap_item'' (Pointer Void),
      Member ''mm'' (Pointer Void),
      Member ''err'' (Scalar Int32),
      Member ''__data'' (Array (Scalar Char8) 0)]"

lemma struct_trace_event_raw_ksm_merge_with_ksm_page_layout [layout_simps]:
  "wf_type struct_trace_event_raw_ksm_merge_with_ksm_page" "shape struct_trace_event_raw_ksm_merge_with_ksm_page = (48, 8)"
  by (simp_all del: One_nat_def add: struct_trace_event_raw_ksm_merge_with_ksm_page_def layout_eval layout_simps)

definition struct_trace_event_raw_ksm_remove_ksm_page :: ctype where
  "struct_trace_event_raw_ksm_remove_ksm_page =
     Composite Struct False
     [Member ''ent'' struct_trace_entry,
      Member ''pfn'' (Scalar ULong64),
      Member ''__data'' (Array (Scalar Char8) 0)]"

lemma struct_trace_event_raw_ksm_remove_ksm_page_layout [layout_simps]:
  "wf_type struct_trace_event_raw_ksm_remove_ksm_page" "shape struct_trace_event_raw_ksm_remove_ksm_page = (16, 8)"
  by (simp_all del: One_nat_def add: struct_trace_event_raw_ksm_remove_ksm_page_def layout_eval layout_simps)

definition struct_trace_event_raw_ksm_remove_rmap_item :: ctype where
  "struct_trace_event_raw_ksm_remove_rmap_item =
     Composite Struct False
     [Member ''ent'' struct_trace_entry,
      Member ''pfn'' (Scalar ULong64),
      Member ''rmap_item'' (Pointer Void),
      Member ''mm'' (Pointer Void),
      Member ''__data'' (Array (Scalar Char8) 0)]"

lemma struct_trace_event_raw_ksm_remove_rmap_item_layout [layout_simps]:
  "wf_type struct_trace_event_raw_ksm_remove_rmap_item" "shape struct_trace_event_raw_ksm_remove_rmap_item = (32, 8)"
  by (simp_all del: One_nat_def add: struct_trace_event_raw_ksm_remove_rmap_item_def layout_eval layout_simps)

definition struct_trace_event_raw_ksm_advisor :: ctype where
  "struct_trace_event_raw_ksm_advisor =
     Composite Struct False
     [Member ''ent'' struct_trace_entry,
      Member ''scan_time'' typedef_s64,
      Member ''pages_to_scan'' (Scalar ULong64),
      Member ''cpu_percent'' (Scalar UInt32),
      Member ''__data'' (Array (Scalar Char8) 0)]"

lemma struct_trace_event_raw_ksm_advisor_layout [layout_simps]:
  "wf_type struct_trace_event_raw_ksm_advisor" "shape struct_trace_event_raw_ksm_advisor = (32, 8)"
  by (simp_all del: One_nat_def add: struct_trace_event_raw_ksm_advisor_def layout_eval layout_simps)

definition struct_trace_event_raw_hugepage_set :: ctype where
  "struct_trace_event_raw_hugepage_set =
     Composite Struct False
     [Member ''ent'' struct_trace_entry,
      Member ''addr'' (Scalar ULong64),
      Member ''pte'' (Scalar ULong64),
      Member ''__data'' (Array (Scalar Char8) 0)]"

lemma struct_trace_event_raw_hugepage_set_layout [layout_simps]:
  "wf_type struct_trace_event_raw_hugepage_set" "shape struct_trace_event_raw_hugepage_set = (24, 8)"
  by (simp_all del: One_nat_def add: struct_trace_event_raw_hugepage_set_def layout_eval layout_simps)

definition struct_trace_event_raw_hugepage_update :: ctype where
  "struct_trace_event_raw_hugepage_update =
     Composite Struct False
     [Member ''ent'' struct_trace_entry,
      Member ''addr'' (Scalar ULong64),
      Member ''pte'' (Scalar ULong64),
      Member ''clr'' (Scalar ULong64),
      Member ''set'' (Scalar ULong64),
      Member ''__data'' (Array (Scalar Char8) 0)]"

lemma struct_trace_event_raw_hugepage_update_layout [layout_simps]:
  "wf_type struct_trace_event_raw_hugepage_update" "shape struct_trace_event_raw_hugepage_update = (40, 8)"
  by (simp_all del: One_nat_def add: struct_trace_event_raw_hugepage_update_def layout_eval layout_simps)

definition struct_trace_event_raw_migration_pmd :: ctype where
  "struct_trace_event_raw_migration_pmd =
     Composite Struct False
     [Member ''ent'' struct_trace_entry,
      Member ''addr'' (Scalar ULong64),
      Member ''pmd'' (Scalar ULong64),
      Member ''__data'' (Array (Scalar Char8) 0)]"

lemma struct_trace_event_raw_migration_pmd_layout [layout_simps]:
  "wf_type struct_trace_event_raw_migration_pmd" "shape struct_trace_event_raw_migration_pmd = (24, 8)"
  by (simp_all del: One_nat_def add: struct_trace_event_raw_migration_pmd_def layout_eval layout_simps)

definition struct_trace_event_raw_locks_get_lock_context :: ctype where
  "struct_trace_event_raw_locks_get_lock_context =
     Composite Struct False
     [Member ''ent'' struct_trace_entry,
      Member ''i_ino'' (Scalar ULong64),
      Member ''s_dev'' typedef_dev_t,
      Member ''type'' (Scalar UChar8),
      Member ''ctx'' (Pointer (Named Struct_name ''file_lock_context'')),
      Member ''__data'' (Array (Scalar Char8) 0)]"

lemma struct_trace_event_raw_locks_get_lock_context_layout [layout_simps]:
  "wf_type struct_trace_event_raw_locks_get_lock_context" "shape struct_trace_event_raw_locks_get_lock_context = (32, 8)"
  by (simp_all del: One_nat_def add: struct_trace_event_raw_locks_get_lock_context_def layout_eval layout_simps)

definition struct_trace_event_raw_generic_add_lease :: ctype where
  "struct_trace_event_raw_generic_add_lease =
     Composite Struct False
     [Member ''ent'' struct_trace_entry,
      Member ''i_ino'' (Scalar ULong64),
      Member ''wcount'' (Scalar Int32),
      Member ''rcount'' (Scalar Int32),
      Member ''icount'' (Scalar Int32),
      Member ''s_dev'' typedef_dev_t,
      Member ''fl_owner'' typedef_fl_owner_t,
      Member ''fl_flags'' (Scalar UInt32),
      Member ''fl_type'' (Scalar UChar8),
      Member ''__data'' (Array (Scalar Char8) 0)]"

lemma struct_trace_event_raw_generic_add_lease_layout [layout_simps]:
  "wf_type struct_trace_event_raw_generic_add_lease" "shape struct_trace_event_raw_generic_add_lease = (48, 8)"
  by (simp_all del: One_nat_def add: struct_trace_event_raw_generic_add_lease_def layout_eval layout_simps)

definition struct_trace_event_raw_leases_conflict :: ctype where
  "struct_trace_event_raw_leases_conflict =
     Composite Struct False
     [Member ''ent'' struct_trace_entry,
      Member ''lease'' (Pointer Void),
      Member ''breaker'' (Pointer Void),
      Member ''l_fl_flags'' (Scalar UInt32),
      Member ''b_fl_flags'' (Scalar UInt32),
      Member ''l_fl_type'' (Scalar UChar8),
      Member ''b_fl_type'' (Scalar UChar8),
      Member ''conflict'' typedef_bool,
      Member ''__data'' (Array (Scalar Char8) 0)]"

lemma struct_trace_event_raw_leases_conflict_layout [layout_simps]:
  "wf_type struct_trace_event_raw_leases_conflict" "shape struct_trace_event_raw_leases_conflict = (40, 8)"
  by (simp_all del: One_nat_def add: struct_trace_event_raw_leases_conflict_def layout_eval layout_simps)

definition struct_trace_event_raw_iomap_readpage_class :: ctype where
  "struct_trace_event_raw_iomap_readpage_class =
     Composite Struct False
     [Member ''ent'' struct_trace_entry,
      Member ''dev'' typedef_dev_t,
      Member ''ino'' typedef_u64,
      Member ''nr_pages'' (Scalar Int32),
      Member ''__data'' (Array (Scalar Char8) 0)]"

lemma struct_trace_event_raw_iomap_readpage_class_layout [layout_simps]:
  "wf_type struct_trace_event_raw_iomap_readpage_class" "shape struct_trace_event_raw_iomap_readpage_class = (32, 8)"
  by (simp_all del: One_nat_def add: struct_trace_event_raw_iomap_readpage_class_def layout_eval layout_simps)

definition struct_trace_event_raw_iomap_range_class :: ctype where
  "struct_trace_event_raw_iomap_range_class =
     Composite Struct False
     [Member ''ent'' struct_trace_entry,
      Member ''dev'' typedef_dev_t,
      Member ''ino'' typedef_u64,
      Member ''size'' typedef_loff_t,
      Member ''offset'' typedef_loff_t,
      Member ''length'' typedef_u64,
      Member ''__data'' (Array (Scalar Char8) 0)]"

lemma struct_trace_event_raw_iomap_range_class_layout [layout_simps]:
  "wf_type struct_trace_event_raw_iomap_range_class" "shape struct_trace_event_raw_iomap_range_class = (48, 8)"
  by (simp_all del: One_nat_def add: struct_trace_event_raw_iomap_range_class_def layout_eval layout_simps)

definition struct_trace_event_raw_iomap_class :: ctype where
  "struct_trace_event_raw_iomap_class =
     Composite Struct False
     [Member ''ent'' struct_trace_entry,
      Member ''dev'' typedef_dev_t,
      Member ''ino'' typedef_u64,
      Member ''addr'' typedef_u64,
      Member ''offset'' typedef_loff_t,
      Member ''length'' typedef_u64,
      Member ''type'' typedef_u16,
      Member ''flags'' typedef_u16,
      Member ''bdev'' typedef_dev_t,
      Member ''__data'' (Array (Scalar Char8) 0)]"

lemma struct_trace_event_raw_iomap_class_layout [layout_simps]:
  "wf_type struct_trace_event_raw_iomap_class" "shape struct_trace_event_raw_iomap_class = (56, 8)"
  by (simp_all del: One_nat_def add: struct_trace_event_raw_iomap_class_def layout_eval layout_simps)

definition struct_trace_event_raw_iomap_iter :: ctype where
  "struct_trace_event_raw_iomap_iter =
     Composite Struct False
     [Member ''ent'' struct_trace_entry,
      Member ''dev'' typedef_dev_t,
      Member ''ino'' typedef_u64,
      Member ''pos'' typedef_loff_t,
      Member ''length'' typedef_u64,
      Member ''flags'' (Scalar UInt32),
      Member ''ops'' (Pointer Void),
      Member ''caller'' (Scalar ULong64),
      Member ''__data'' (Array (Scalar Char8) 0)]"

lemma struct_trace_event_raw_iomap_iter_layout [layout_simps]:
  "wf_type struct_trace_event_raw_iomap_iter" "shape struct_trace_event_raw_iomap_iter = (64, 8)"
  by (simp_all del: One_nat_def add: struct_trace_event_raw_iomap_iter_def layout_eval layout_simps)

definition struct_trace_event_raw_iomap_dio_rw_begin :: ctype where
  "struct_trace_event_raw_iomap_dio_rw_begin =
     Composite Struct False
     [Member ''ent'' struct_trace_entry,
      Member ''dev'' typedef_dev_t,
      Member ''ino'' typedef_ino_t,
      Member ''isize'' typedef_loff_t,
      Member ''pos'' typedef_loff_t,
      Member ''count'' typedef_size_t,
      Member ''done_before'' typedef_size_t,
      Member ''ki_flags'' (Scalar Int32),
      Member ''dio_flags'' (Scalar UInt32),
      Member ''aio'' typedef_bool,
      Member ''__data'' (Array (Scalar Char8) 0)]"

lemma struct_trace_event_raw_iomap_dio_rw_begin_layout [layout_simps]:
  "wf_type struct_trace_event_raw_iomap_dio_rw_begin" "shape struct_trace_event_raw_iomap_dio_rw_begin = (72, 8)"
  by (simp_all del: One_nat_def add: struct_trace_event_raw_iomap_dio_rw_begin_def layout_eval layout_simps)

definition struct_trace_event_raw_iomap_dio_complete :: ctype where
  "struct_trace_event_raw_iomap_dio_complete =
     Composite Struct False
     [Member ''ent'' struct_trace_entry,
      Member ''dev'' typedef_dev_t,
      Member ''ino'' typedef_ino_t,
      Member ''isize'' typedef_loff_t,
      Member ''pos'' typedef_loff_t,
      Member ''ki_flags'' (Scalar Int32),
      Member ''aio'' typedef_bool,
      Member ''error'' (Scalar Int32),
      Member ''ret'' typedef_ssize_t,
      Member ''__data'' (Array (Scalar Char8) 0)]"

lemma struct_trace_event_raw_iomap_dio_complete_layout [layout_simps]:
  "wf_type struct_trace_event_raw_iomap_dio_complete" "shape struct_trace_event_raw_iomap_dio_complete = (64, 8)"
  by (simp_all del: One_nat_def add: struct_trace_event_raw_iomap_dio_complete_def layout_eval layout_simps)

definition struct_trace_event_raw_prq_report :: ctype where
  "struct_trace_event_raw_prq_report =
     Composite Struct False
     [Member ''ent'' struct_trace_entry,
      Member ''dw0'' typedef_u64,
      Member ''dw1'' typedef_u64,
      Member ''dw2'' typedef_u64,
      Member ''dw3'' typedef_u64,
      Member ''seq'' (Scalar ULong64),
      Member ''__data_loc_iommu'' typedef_u32,
      Member ''__data_loc_dev'' typedef_u32,
      Member ''__data_loc_buff'' typedef_u32,
      Member ''__data'' (Array (Scalar Char8) 0)]"

lemma struct_trace_event_raw_prq_report_layout [layout_simps]:
  "wf_type struct_trace_event_raw_prq_report" "shape struct_trace_event_raw_prq_report = (64, 8)"
  by (simp_all del: One_nat_def add: struct_trace_event_raw_prq_report_def layout_eval layout_simps)

definition struct_trace_event_raw_mdio_access :: ctype where
  "struct_trace_event_raw_mdio_access =
     Composite Struct False
     [Member ''ent'' struct_trace_entry,
      Member ''busid'' (Array (Scalar Char8) 61),
      Member ''read'' (Scalar Char8),
      Member ''addr'' typedef_u8,
      Member ''val'' typedef_u16,
      Member ''regnum'' (Scalar UInt32),
      Member ''__data'' (Array (Scalar Char8) 0)]"

lemma struct_trace_event_raw_mdio_access_layout [layout_simps]:
  "wf_type struct_trace_event_raw_mdio_access" "shape struct_trace_event_raw_mdio_access = (80, 4)"
  by (simp_all del: One_nat_def add: struct_trace_event_raw_mdio_access_def layout_eval layout_simps)

definition struct_trace_event_raw_icc_set_bw :: ctype where
  "struct_trace_event_raw_icc_set_bw =
     Composite Struct False
     [Member ''ent'' struct_trace_entry,
      Member ''__data_loc_path_name'' typedef_u32,
      Member ''__data_loc_dev'' typedef_u32,
      Member ''__data_loc_node_name'' typedef_u32,
      Member ''avg_bw'' typedef_u32,
      Member ''peak_bw'' typedef_u32,
      Member ''node_avg_bw'' typedef_u32,
      Member ''node_peak_bw'' typedef_u32,
      Member ''__data'' (Array (Scalar Char8) 0)]"

lemma struct_trace_event_raw_icc_set_bw_layout [layout_simps]:
  "wf_type struct_trace_event_raw_icc_set_bw" "shape struct_trace_event_raw_icc_set_bw = (36, 4)"
  by (simp_all del: One_nat_def add: struct_trace_event_raw_icc_set_bw_def layout_eval layout_simps)

definition struct_trace_event_raw_icc_set_bw_end :: ctype where
  "struct_trace_event_raw_icc_set_bw_end =
     Composite Struct False
     [Member ''ent'' struct_trace_entry,
      Member ''__data_loc_path_name'' typedef_u32,
      Member ''__data_loc_dev'' typedef_u32,
      Member ''ret'' (Scalar Int32),
      Member ''__data'' (Array (Scalar Char8) 0)]"

lemma struct_trace_event_raw_icc_set_bw_end_layout [layout_simps]:
  "wf_type struct_trace_event_raw_icc_set_bw_end" "shape struct_trace_event_raw_icc_set_bw_end = (20, 4)"
  by (simp_all del: One_nat_def add: struct_trace_event_raw_icc_set_bw_end_def layout_eval layout_simps)

definition struct_trace_event_raw_netlink_extack :: ctype where
  "struct_trace_event_raw_netlink_extack =
     Composite Struct False
     [Member ''ent'' struct_trace_entry,
      Member ''__data_loc_msg'' typedef_u32,
      Member ''__data'' (Array (Scalar Char8) 0)]"

lemma struct_trace_event_raw_netlink_extack_layout [layout_simps]:
  "wf_type struct_trace_event_raw_netlink_extack" "shape struct_trace_event_raw_netlink_extack = (12, 4)"
  by (simp_all del: One_nat_def add: struct_trace_event_raw_netlink_extack_def layout_eval layout_simps)

definition struct_trace_event_raw_mce_record :: ctype where
  "struct_trace_event_raw_mce_record =
     Composite Struct False
     [Member ''ent'' struct_trace_entry,
      Member ''mcgcap'' typedef_u64,
      Member ''mcgstatus'' typedef_u64,
      Member ''status'' typedef_u64,
      Member ''addr'' typedef_u64,
      Member ''misc'' typedef_u64,
      Member ''synd'' typedef_u64,
      Member ''ipid'' typedef_u64,
      Member ''ip'' typedef_u64,
      Member ''tsc'' typedef_u64,
      Member ''walltime'' typedef_u64,
      Member ''cpu'' typedef_u32,
      Member ''cpuid'' typedef_u32,
      Member ''apicid'' typedef_u32,
      Member ''socketid'' typedef_u32,
      Member ''cs'' typedef_u8,
      Member ''bank'' typedef_u8,
      Member ''cpuvendor'' typedef_u8,
      Member ''__data'' (Array (Scalar Char8) 0)]"

lemma struct_trace_event_raw_mce_record_layout [layout_simps]:
  "wf_type struct_trace_event_raw_mce_record" "shape struct_trace_event_raw_mce_record = (112, 8)"
  by (simp_all del: One_nat_def add: struct_trace_event_raw_mce_record_def layout_eval layout_simps)

definition struct_trace_event_raw_oom_score_adj_update :: ctype where
  "struct_trace_event_raw_oom_score_adj_update =
     Composite Struct False
     [Member ''ent'' struct_trace_entry,
      Member ''pid'' typedef_pid_t,
      Member ''comm'' (Array (Scalar Char8) 16),
      Member ''oom_score_adj'' (Scalar Short16),
      Member ''__data'' (Array (Scalar Char8) 0)]"

lemma struct_trace_event_raw_oom_score_adj_update_layout [layout_simps]:
  "wf_type struct_trace_event_raw_oom_score_adj_update" "shape struct_trace_event_raw_oom_score_adj_update = (32, 4)"
  by (simp_all del: One_nat_def add: struct_trace_event_raw_oom_score_adj_update_def layout_eval layout_simps)

definition struct_trace_event_raw_mark_victim :: ctype where
  "struct_trace_event_raw_mark_victim =
     Composite Struct False
     [Member ''ent'' struct_trace_entry,
      Member ''pid'' (Scalar Int32),
      Member ''__data'' (Array (Scalar Char8) 0)]"

lemma struct_trace_event_raw_mark_victim_layout [layout_simps]:
  "wf_type struct_trace_event_raw_mark_victim" "shape struct_trace_event_raw_mark_victim = (12, 4)"
  by (simp_all del: One_nat_def add: struct_trace_event_raw_mark_victim_def layout_eval layout_simps)

definition struct_trace_event_raw_mm_vmscan_kswapd_sleep :: ctype where
  "struct_trace_event_raw_mm_vmscan_kswapd_sleep =
     Composite Struct False
     [Member ''ent'' struct_trace_entry,
      Member ''nid'' (Scalar Int32),
      Member ''__data'' (Array (Scalar Char8) 0)]"

lemma struct_trace_event_raw_mm_vmscan_kswapd_sleep_layout [layout_simps]:
  "wf_type struct_trace_event_raw_mm_vmscan_kswapd_sleep" "shape struct_trace_event_raw_mm_vmscan_kswapd_sleep = (12, 4)"
  by (simp_all del: One_nat_def add: struct_trace_event_raw_mm_vmscan_kswapd_sleep_def layout_eval layout_simps)

definition struct_trace_event_raw_mm_vmscan_kswapd_wake :: ctype where
  "struct_trace_event_raw_mm_vmscan_kswapd_wake =
     Composite Struct False
     [Member ''ent'' struct_trace_entry,
      Member ''nid'' (Scalar Int32),
      Member ''zid'' (Scalar Int32),
      Member ''order'' (Scalar Int32),
      Member ''__data'' (Array (Scalar Char8) 0)]"

lemma struct_trace_event_raw_mm_vmscan_kswapd_wake_layout [layout_simps]:
  "wf_type struct_trace_event_raw_mm_vmscan_kswapd_wake" "shape struct_trace_event_raw_mm_vmscan_kswapd_wake = (20, 4)"
  by (simp_all del: One_nat_def add: struct_trace_event_raw_mm_vmscan_kswapd_wake_def layout_eval layout_simps)

definition struct_trace_event_raw_mm_vmscan_wakeup_kswapd :: ctype where
  "struct_trace_event_raw_mm_vmscan_wakeup_kswapd =
     Composite Struct False
     [Member ''ent'' struct_trace_entry,
      Member ''nid'' (Scalar Int32),
      Member ''zid'' (Scalar Int32),
      Member ''order'' (Scalar Int32),
      Member ''gfp_flags'' (Scalar ULong64),
      Member ''__data'' (Array (Scalar Char8) 0)]"

lemma struct_trace_event_raw_mm_vmscan_wakeup_kswapd_layout [layout_simps]:
  "wf_type struct_trace_event_raw_mm_vmscan_wakeup_kswapd" "shape struct_trace_event_raw_mm_vmscan_wakeup_kswapd = (32, 8)"
  by (simp_all del: One_nat_def add: struct_trace_event_raw_mm_vmscan_wakeup_kswapd_def layout_eval layout_simps)

definition struct_trace_event_raw_mm_vmscan_direct_reclaim_begin_template :: ctype where
  "struct_trace_event_raw_mm_vmscan_direct_reclaim_begin_template =
     Composite Struct False
     [Member ''ent'' struct_trace_entry,
      Member ''order'' (Scalar Int32),
      Member ''gfp_flags'' (Scalar ULong64),
      Member ''__data'' (Array (Scalar Char8) 0)]"

lemma struct_trace_event_raw_mm_vmscan_direct_reclaim_begin_template_layout [layout_simps]:
  "wf_type struct_trace_event_raw_mm_vmscan_direct_reclaim_begin_template" "shape struct_trace_event_raw_mm_vmscan_direct_reclaim_begin_template = (24, 8)"
  by (simp_all del: One_nat_def add: struct_trace_event_raw_mm_vmscan_direct_reclaim_begin_template_def layout_eval layout_simps)

definition struct_trace_event_raw_mm_vmscan_direct_reclaim_end_template :: ctype where
  "struct_trace_event_raw_mm_vmscan_direct_reclaim_end_template =
     Composite Struct False
     [Member ''ent'' struct_trace_entry,
      Member ''nr_reclaimed'' (Scalar ULong64),
      Member ''__data'' (Array (Scalar Char8) 0)]"

lemma struct_trace_event_raw_mm_vmscan_direct_reclaim_end_template_layout [layout_simps]:
  "wf_type struct_trace_event_raw_mm_vmscan_direct_reclaim_end_template" "shape struct_trace_event_raw_mm_vmscan_direct_reclaim_end_template = (16, 8)"
  by (simp_all del: One_nat_def add: struct_trace_event_raw_mm_vmscan_direct_reclaim_end_template_def layout_eval layout_simps)

definition struct_trace_event_raw_mm_shrink_slab_start :: ctype where
  "struct_trace_event_raw_mm_shrink_slab_start =
     Composite Struct False
     [Member ''ent'' struct_trace_entry,
      Member ''shr'' (Pointer (Named Struct_name ''shrinker'')),
      Member ''shrink'' (Pointer Void),
      Member ''nid'' (Scalar Int32),
      Member ''nr_objects_to_shrink'' (Scalar Long64),
      Member ''gfp_flags'' (Scalar ULong64),
      Member ''cache_items'' (Scalar ULong64),
      Member ''delta'' (Scalar ULongLong64),
      Member ''total_scan'' (Scalar ULong64),
      Member ''priority'' (Scalar Int32),
      Member ''__data'' (Array (Scalar Char8) 0)]"

lemma struct_trace_event_raw_mm_shrink_slab_start_layout [layout_simps]:
  "wf_type struct_trace_event_raw_mm_shrink_slab_start" "shape struct_trace_event_raw_mm_shrink_slab_start = (80, 8)"
  by (simp_all del: One_nat_def add: struct_trace_event_raw_mm_shrink_slab_start_def layout_eval layout_simps)

definition struct_trace_event_raw_mm_shrink_slab_end :: ctype where
  "struct_trace_event_raw_mm_shrink_slab_end =
     Composite Struct False
     [Member ''ent'' struct_trace_entry,
      Member ''shr'' (Pointer (Named Struct_name ''shrinker'')),
      Member ''nid'' (Scalar Int32),
      Member ''shrink'' (Pointer Void),
      Member ''unused_scan'' (Scalar Long64),
      Member ''new_scan'' (Scalar Long64),
      Member ''retval'' (Scalar Int32),
      Member ''total_scan'' (Scalar Long64),
      Member ''__data'' (Array (Scalar Char8) 0)]"

lemma struct_trace_event_raw_mm_shrink_slab_end_layout [layout_simps]:
  "wf_type struct_trace_event_raw_mm_shrink_slab_end" "shape struct_trace_event_raw_mm_shrink_slab_end = (64, 8)"
  by (simp_all del: One_nat_def add: struct_trace_event_raw_mm_shrink_slab_end_def layout_eval layout_simps)

definition struct_trace_event_raw_mm_vmscan_lru_isolate :: ctype where
  "struct_trace_event_raw_mm_vmscan_lru_isolate =
     Composite Struct False
     [Member ''ent'' struct_trace_entry,
      Member ''highest_zoneidx'' (Scalar Int32),
      Member ''order'' (Scalar Int32),
      Member ''nr_requested'' (Scalar ULong64),
      Member ''nr_scanned'' (Scalar ULong64),
      Member ''nr_skipped'' (Scalar ULong64),
      Member ''nr_taken'' (Scalar ULong64),
      Member ''lru'' (Scalar Int32),
      Member ''__data'' (Array (Scalar Char8) 0)]"

lemma struct_trace_event_raw_mm_vmscan_lru_isolate_layout [layout_simps]:
  "wf_type struct_trace_event_raw_mm_vmscan_lru_isolate" "shape struct_trace_event_raw_mm_vmscan_lru_isolate = (56, 8)"
  by (simp_all del: One_nat_def add: struct_trace_event_raw_mm_vmscan_lru_isolate_def layout_eval layout_simps)

definition struct_trace_event_raw_mm_vmscan_write_folio :: ctype where
  "struct_trace_event_raw_mm_vmscan_write_folio =
     Composite Struct False
     [Member ''ent'' struct_trace_entry,
      Member ''pfn'' (Scalar ULong64),
      Member ''reclaim_flags'' (Scalar Int32),
      Member ''__data'' (Array (Scalar Char8) 0)]"

lemma struct_trace_event_raw_mm_vmscan_write_folio_layout [layout_simps]:
  "wf_type struct_trace_event_raw_mm_vmscan_write_folio" "shape struct_trace_event_raw_mm_vmscan_write_folio = (24, 8)"
  by (simp_all del: One_nat_def add: struct_trace_event_raw_mm_vmscan_write_folio_def layout_eval layout_simps)

definition struct_trace_event_raw_mm_vmscan_lru_shrink_inactive :: ctype where
  "struct_trace_event_raw_mm_vmscan_lru_shrink_inactive =
     Composite Struct False
     [Member ''ent'' struct_trace_entry,
      Member ''nid'' (Scalar Int32),
      Member ''nr_scanned'' (Scalar ULong64),
      Member ''nr_reclaimed'' (Scalar ULong64),
      Member ''nr_dirty'' (Scalar ULong64),
      Member ''nr_writeback'' (Scalar ULong64),
      Member ''nr_congested'' (Scalar ULong64),
      Member ''nr_immediate'' (Scalar ULong64),
      Member ''nr_activate0'' (Scalar UInt32),
      Member ''nr_activate1'' (Scalar UInt32),
      Member ''nr_ref_keep'' (Scalar ULong64),
      Member ''nr_unmap_fail'' (Scalar ULong64),
      Member ''priority'' (Scalar Int32),
      Member ''reclaim_flags'' (Scalar Int32),
      Member ''__data'' (Array (Scalar Char8) 0)]"

lemma struct_trace_event_raw_mm_vmscan_lru_shrink_inactive_layout [layout_simps]:
  "wf_type struct_trace_event_raw_mm_vmscan_lru_shrink_inactive" "shape struct_trace_event_raw_mm_vmscan_lru_shrink_inactive = (96, 8)"
  by (simp_all del: One_nat_def add: struct_trace_event_raw_mm_vmscan_lru_shrink_inactive_def layout_eval layout_simps)

definition struct_trace_event_raw_mm_vmscan_lru_shrink_active :: ctype where
  "struct_trace_event_raw_mm_vmscan_lru_shrink_active =
     Composite Struct False
     [Member ''ent'' struct_trace_entry,
      Member ''nid'' (Scalar Int32),
      Member ''nr_taken'' (Scalar ULong64),
      Member ''nr_active'' (Scalar ULong64),
      Member ''nr_deactivated'' (Scalar ULong64),
      Member ''nr_referenced'' (Scalar ULong64),
      Member ''priority'' (Scalar Int32),
      Member ''reclaim_flags'' (Scalar Int32),
      Member ''__data'' (Array (Scalar Char8) 0)]"

lemma struct_trace_event_raw_mm_vmscan_lru_shrink_active_layout [layout_simps]:
  "wf_type struct_trace_event_raw_mm_vmscan_lru_shrink_active" "shape struct_trace_event_raw_mm_vmscan_lru_shrink_active = (56, 8)"
  by (simp_all del: One_nat_def add: struct_trace_event_raw_mm_vmscan_lru_shrink_active_def layout_eval layout_simps)

definition struct_trace_event_raw_mm_vmscan_node_reclaim_begin :: ctype where
  "struct_trace_event_raw_mm_vmscan_node_reclaim_begin =
     Composite Struct False
     [Member ''ent'' struct_trace_entry,
      Member ''nid'' (Scalar Int32),
      Member ''order'' (Scalar Int32),
      Member ''gfp_flags'' (Scalar ULong64),
      Member ''__data'' (Array (Scalar Char8) 0)]"

lemma struct_trace_event_raw_mm_vmscan_node_reclaim_begin_layout [layout_simps]:
  "wf_type struct_trace_event_raw_mm_vmscan_node_reclaim_begin" "shape struct_trace_event_raw_mm_vmscan_node_reclaim_begin = (24, 8)"
  by (simp_all del: One_nat_def add: struct_trace_event_raw_mm_vmscan_node_reclaim_begin_def layout_eval layout_simps)

definition struct_trace_event_raw_mm_vmscan_throttled :: ctype where
  "struct_trace_event_raw_mm_vmscan_throttled =
     Composite Struct False
     [Member ''ent'' struct_trace_entry,
      Member ''nid'' (Scalar Int32),
      Member ''usec_timeout'' (Scalar Int32),
      Member ''usec_delayed'' (Scalar Int32),
      Member ''reason'' (Scalar Int32),
      Member ''__data'' (Array (Scalar Char8) 0)]"

lemma struct_trace_event_raw_mm_vmscan_throttled_layout [layout_simps]:
  "wf_type struct_trace_event_raw_mm_vmscan_throttled" "shape struct_trace_event_raw_mm_vmscan_throttled = (24, 4)"
  by (simp_all del: One_nat_def add: struct_trace_event_raw_mm_vmscan_throttled_def layout_eval layout_simps)

definition struct_trace_event_raw_mm_compaction_isolate_template :: ctype where
  "struct_trace_event_raw_mm_compaction_isolate_template =
     Composite Struct False
     [Member ''ent'' struct_trace_entry,
      Member ''start_pfn'' (Scalar ULong64),
      Member ''end_pfn'' (Scalar ULong64),
      Member ''nr_scanned'' (Scalar ULong64),
      Member ''nr_taken'' (Scalar ULong64),
      Member ''__data'' (Array (Scalar Char8) 0)]"

lemma struct_trace_event_raw_mm_compaction_isolate_template_layout [layout_simps]:
  "wf_type struct_trace_event_raw_mm_compaction_isolate_template" "shape struct_trace_event_raw_mm_compaction_isolate_template = (40, 8)"
  by (simp_all del: One_nat_def add: struct_trace_event_raw_mm_compaction_isolate_template_def layout_eval layout_simps)

definition struct_trace_event_raw_mm_compaction_migratepages :: ctype where
  "struct_trace_event_raw_mm_compaction_migratepages =
     Composite Struct False
     [Member ''ent'' struct_trace_entry,
      Member ''nr_migrated'' (Scalar ULong64),
      Member ''nr_failed'' (Scalar ULong64),
      Member ''__data'' (Array (Scalar Char8) 0)]"

lemma struct_trace_event_raw_mm_compaction_migratepages_layout [layout_simps]:
  "wf_type struct_trace_event_raw_mm_compaction_migratepages" "shape struct_trace_event_raw_mm_compaction_migratepages = (24, 8)"
  by (simp_all del: One_nat_def add: struct_trace_event_raw_mm_compaction_migratepages_def layout_eval layout_simps)

definition struct_trace_event_raw_mm_compaction_begin :: ctype where
  "struct_trace_event_raw_mm_compaction_begin =
     Composite Struct False
     [Member ''ent'' struct_trace_entry,
      Member ''zone_start'' (Scalar ULong64),
      Member ''migrate_pfn'' (Scalar ULong64),
      Member ''free_pfn'' (Scalar ULong64),
      Member ''zone_end'' (Scalar ULong64),
      Member ''sync'' typedef_bool,
      Member ''__data'' (Array (Scalar Char8) 0)]"

lemma struct_trace_event_raw_mm_compaction_begin_layout [layout_simps]:
  "wf_type struct_trace_event_raw_mm_compaction_begin" "shape struct_trace_event_raw_mm_compaction_begin = (48, 8)"
  by (simp_all del: One_nat_def add: struct_trace_event_raw_mm_compaction_begin_def layout_eval layout_simps)

definition struct_trace_event_raw_mm_compaction_end :: ctype where
  "struct_trace_event_raw_mm_compaction_end =
     Composite Struct False
     [Member ''ent'' struct_trace_entry,
      Member ''zone_start'' (Scalar ULong64),
      Member ''migrate_pfn'' (Scalar ULong64),
      Member ''free_pfn'' (Scalar ULong64),
      Member ''zone_end'' (Scalar ULong64),
      Member ''sync'' typedef_bool,
      Member ''status'' (Scalar Int32),
      Member ''__data'' (Array (Scalar Char8) 0)]"

lemma struct_trace_event_raw_mm_compaction_end_layout [layout_simps]:
  "wf_type struct_trace_event_raw_mm_compaction_end" "shape struct_trace_event_raw_mm_compaction_end = (48, 8)"
  by (simp_all del: One_nat_def add: struct_trace_event_raw_mm_compaction_end_def layout_eval layout_simps)

definition struct_trace_event_raw_mm_compaction_try_to_compact_pages :: ctype where
  "struct_trace_event_raw_mm_compaction_try_to_compact_pages =
     Composite Struct False
     [Member ''ent'' struct_trace_entry,
      Member ''order'' (Scalar Int32),
      Member ''gfp_mask'' (Scalar ULong64),
      Member ''prio'' (Scalar Int32),
      Member ''__data'' (Array (Scalar Char8) 0)]"

lemma struct_trace_event_raw_mm_compaction_try_to_compact_pages_layout [layout_simps]:
  "wf_type struct_trace_event_raw_mm_compaction_try_to_compact_pages" "shape struct_trace_event_raw_mm_compaction_try_to_compact_pages = (32, 8)"
  by (simp_all del: One_nat_def add: struct_trace_event_raw_mm_compaction_try_to_compact_pages_def layout_eval layout_simps)

definition struct_trace_event_raw_mm_compaction_suitable_template :: ctype where
  "struct_trace_event_raw_mm_compaction_suitable_template =
     Composite Struct False
     [Member ''ent'' struct_trace_entry,
      Member ''nid'' (Scalar Int32),
      Member ''idx'' enum_zone_type,
      Member ''order'' (Scalar Int32),
      Member ''ret'' (Scalar Int32),
      Member ''__data'' (Array (Scalar Char8) 0)]"

lemma struct_trace_event_raw_mm_compaction_suitable_template_layout [layout_simps]:
  "wf_type struct_trace_event_raw_mm_compaction_suitable_template" "shape struct_trace_event_raw_mm_compaction_suitable_template = (24, 4)"
  by (simp_all del: One_nat_def add: struct_trace_event_raw_mm_compaction_suitable_template_def layout_eval layout_simps)

definition struct_trace_event_raw_mm_compaction_defer_template :: ctype where
  "struct_trace_event_raw_mm_compaction_defer_template =
     Composite Struct False
     [Member ''ent'' struct_trace_entry,
      Member ''nid'' (Scalar Int32),
      Member ''idx'' enum_zone_type,
      Member ''order'' (Scalar Int32),
      Member ''considered'' (Scalar UInt32),
      Member ''defer_shift'' (Scalar UInt32),
      Member ''order_failed'' (Scalar Int32),
      Member ''__data'' (Array (Scalar Char8) 0)]"

lemma struct_trace_event_raw_mm_compaction_defer_template_layout [layout_simps]:
  "wf_type struct_trace_event_raw_mm_compaction_defer_template" "shape struct_trace_event_raw_mm_compaction_defer_template = (32, 4)"
  by (simp_all del: One_nat_def add: struct_trace_event_raw_mm_compaction_defer_template_def layout_eval layout_simps)

definition struct_trace_event_raw_mm_compaction_kcompactd_sleep :: ctype where
  "struct_trace_event_raw_mm_compaction_kcompactd_sleep =
     Composite Struct False
     [Member ''ent'' struct_trace_entry,
      Member ''nid'' (Scalar Int32),
      Member ''__data'' (Array (Scalar Char8) 0)]"

lemma struct_trace_event_raw_mm_compaction_kcompactd_sleep_layout [layout_simps]:
  "wf_type struct_trace_event_raw_mm_compaction_kcompactd_sleep" "shape struct_trace_event_raw_mm_compaction_kcompactd_sleep = (12, 4)"
  by (simp_all del: One_nat_def add: struct_trace_event_raw_mm_compaction_kcompactd_sleep_def layout_eval layout_simps)

definition struct_trace_event_raw_kcompactd_wake_template :: ctype where
  "struct_trace_event_raw_kcompactd_wake_template =
     Composite Struct False
     [Member ''ent'' struct_trace_entry,
      Member ''nid'' (Scalar Int32),
      Member ''order'' (Scalar Int32),
      Member ''highest_zoneidx'' enum_zone_type,
      Member ''__data'' (Array (Scalar Char8) 0)]"

lemma struct_trace_event_raw_kcompactd_wake_template_layout [layout_simps]:
  "wf_type struct_trace_event_raw_kcompactd_wake_template" "shape struct_trace_event_raw_kcompactd_wake_template = (20, 4)"
  by (simp_all del: One_nat_def add: struct_trace_event_raw_kcompactd_wake_template_def layout_eval layout_simps)

definition struct_trace_event_raw_iocost_iocg_state :: ctype where
  "struct_trace_event_raw_iocost_iocg_state =
     Composite Struct False
     [Member ''ent'' struct_trace_entry,
      Member ''__data_loc_devname'' typedef_u32,
      Member ''__data_loc_cgroup'' typedef_u32,
      Member ''now'' typedef_u64,
      Member ''vnow'' typedef_u64,
      Member ''vrate'' typedef_u64,
      Member ''last_period'' typedef_u64,
      Member ''cur_period'' typedef_u64,
      Member ''vtime'' typedef_u64,
      Member ''weight'' typedef_u32,
      Member ''inuse'' typedef_u32,
      Member ''hweight_active'' typedef_u64,
      Member ''hweight_inuse'' typedef_u64,
      Member ''__data'' (Array (Scalar Char8) 0)]"

lemma struct_trace_event_raw_iocost_iocg_state_layout [layout_simps]:
  "wf_type struct_trace_event_raw_iocost_iocg_state" "shape struct_trace_event_raw_iocost_iocg_state = (88, 8)"
  by (simp_all del: One_nat_def add: struct_trace_event_raw_iocost_iocg_state_def layout_eval layout_simps)

definition struct_trace_event_raw_iocg_inuse_update :: ctype where
  "struct_trace_event_raw_iocg_inuse_update =
     Composite Struct False
     [Member ''ent'' struct_trace_entry,
      Member ''__data_loc_devname'' typedef_u32,
      Member ''__data_loc_cgroup'' typedef_u32,
      Member ''now'' typedef_u64,
      Member ''old_inuse'' typedef_u32,
      Member ''new_inuse'' typedef_u32,
      Member ''old_hweight_inuse'' typedef_u64,
      Member ''new_hweight_inuse'' typedef_u64,
      Member ''__data'' (Array (Scalar Char8) 0)]"

lemma struct_trace_event_raw_iocg_inuse_update_layout [layout_simps]:
  "wf_type struct_trace_event_raw_iocg_inuse_update" "shape struct_trace_event_raw_iocg_inuse_update = (48, 8)"
  by (simp_all del: One_nat_def add: struct_trace_event_raw_iocg_inuse_update_def layout_eval layout_simps)

definition struct_trace_event_raw_iocost_ioc_vrate_adj :: ctype where
  "struct_trace_event_raw_iocost_ioc_vrate_adj =
     Composite Struct False
     [Member ''ent'' struct_trace_entry,
      Member ''__data_loc_devname'' typedef_u32,
      Member ''old_vrate'' typedef_u64,
      Member ''new_vrate'' typedef_u64,
      Member ''busy_level'' (Scalar Int32),
      Member ''read_missed_ppm'' typedef_u32,
      Member ''write_missed_ppm'' typedef_u32,
      Member ''rq_wait_pct'' typedef_u32,
      Member ''nr_lagging'' (Scalar Int32),
      Member ''nr_shortages'' (Scalar Int32),
      Member ''__data'' (Array (Scalar Char8) 0)]"

lemma struct_trace_event_raw_iocost_ioc_vrate_adj_layout [layout_simps]:
  "wf_type struct_trace_event_raw_iocost_ioc_vrate_adj" "shape struct_trace_event_raw_iocost_ioc_vrate_adj = (56, 8)"
  by (simp_all del: One_nat_def add: struct_trace_event_raw_iocost_ioc_vrate_adj_def layout_eval layout_simps)

definition struct_trace_event_raw_iocost_iocg_forgive_debt :: ctype where
  "struct_trace_event_raw_iocost_iocg_forgive_debt =
     Composite Struct False
     [Member ''ent'' struct_trace_entry,
      Member ''__data_loc_devname'' typedef_u32,
      Member ''__data_loc_cgroup'' typedef_u32,
      Member ''now'' typedef_u64,
      Member ''vnow'' typedef_u64,
      Member ''usage_pct'' typedef_u32,
      Member ''old_debt'' typedef_u64,
      Member ''new_debt'' typedef_u64,
      Member ''old_delay'' typedef_u64,
      Member ''new_delay'' typedef_u64,
      Member ''__data'' (Array (Scalar Char8) 0)]"

lemma struct_trace_event_raw_iocost_iocg_forgive_debt_layout [layout_simps]:
  "wf_type struct_trace_event_raw_iocost_iocg_forgive_debt" "shape struct_trace_event_raw_iocost_iocg_forgive_debt = (72, 8)"
  by (simp_all del: One_nat_def add: struct_trace_event_raw_iocost_iocg_forgive_debt_def layout_eval layout_simps)

definition struct_trace_event_raw_msr_trace_class :: ctype where
  "struct_trace_event_raw_msr_trace_class =
     Composite Struct False
     [Member ''ent'' struct_trace_entry,
      Member ''msr'' (Scalar UInt32),
      Member ''val'' typedef_u64,
      Member ''failed'' (Scalar Int32),
      Member ''__data'' (Array (Scalar Char8) 0)]"

lemma struct_trace_event_raw_msr_trace_class_layout [layout_simps]:
  "wf_type struct_trace_event_raw_msr_trace_class" "shape struct_trace_event_raw_msr_trace_class = (32, 8)"
  by (simp_all del: One_nat_def add: struct_trace_event_raw_msr_trace_class_def layout_eval layout_simps)

definition struct_trace_event_raw_gpio_direction :: ctype where
  "struct_trace_event_raw_gpio_direction =
     Composite Struct False
     [Member ''ent'' struct_trace_entry,
      Member ''gpio'' (Scalar UInt32),
      Member ''in'' (Scalar Int32),
      Member ''err'' (Scalar Int32),
      Member ''__data'' (Array (Scalar Char8) 0)]"

lemma struct_trace_event_raw_gpio_direction_layout [layout_simps]:
  "wf_type struct_trace_event_raw_gpio_direction" "shape struct_trace_event_raw_gpio_direction = (20, 4)"
  by (simp_all del: One_nat_def add: struct_trace_event_raw_gpio_direction_def layout_eval layout_simps)

definition struct_trace_event_raw_gpio_value :: ctype where
  "struct_trace_event_raw_gpio_value =
     Composite Struct False
     [Member ''ent'' struct_trace_entry,
      Member ''gpio'' (Scalar UInt32),
      Member ''get'' (Scalar Int32),
      Member ''value'' (Scalar Int32),
      Member ''__data'' (Array (Scalar Char8) 0)]"

lemma struct_trace_event_raw_gpio_value_layout [layout_simps]:
  "wf_type struct_trace_event_raw_gpio_value" "shape struct_trace_event_raw_gpio_value = (20, 4)"
  by (simp_all del: One_nat_def add: struct_trace_event_raw_gpio_value_def layout_eval layout_simps)

definition struct_trace_event_raw_iommu_group_event :: ctype where
  "struct_trace_event_raw_iommu_group_event =
     Composite Struct False
     [Member ''ent'' struct_trace_entry,
      Member ''gid'' (Scalar Int32),
      Member ''__data_loc_device'' typedef_u32,
      Member ''__data'' (Array (Scalar Char8) 0)]"

lemma struct_trace_event_raw_iommu_group_event_layout [layout_simps]:
  "wf_type struct_trace_event_raw_iommu_group_event" "shape struct_trace_event_raw_iommu_group_event = (16, 4)"
  by (simp_all del: One_nat_def add: struct_trace_event_raw_iommu_group_event_def layout_eval layout_simps)

definition struct_trace_event_raw_iommu_device_event :: ctype where
  "struct_trace_event_raw_iommu_device_event =
     Composite Struct False
     [Member ''ent'' struct_trace_entry,
      Member ''__data_loc_device'' typedef_u32,
      Member ''__data'' (Array (Scalar Char8) 0)]"

lemma struct_trace_event_raw_iommu_device_event_layout [layout_simps]:
  "wf_type struct_trace_event_raw_iommu_device_event" "shape struct_trace_event_raw_iommu_device_event = (12, 4)"
  by (simp_all del: One_nat_def add: struct_trace_event_raw_iommu_device_event_def layout_eval layout_simps)

definition struct_trace_event_raw_map :: ctype where
  "struct_trace_event_raw_map =
     Composite Struct False
     [Member ''ent'' struct_trace_entry,
      Member ''iova'' typedef_u64,
      Member ''paddr'' typedef_u64,
      Member ''size'' typedef_size_t,
      Member ''__data'' (Array (Scalar Char8) 0)]"

lemma struct_trace_event_raw_map_layout [layout_simps]:
  "wf_type struct_trace_event_raw_map" "shape struct_trace_event_raw_map = (32, 8)"
  by (simp_all del: One_nat_def add: struct_trace_event_raw_map_def layout_eval layout_simps)

definition struct_trace_event_raw_iommu_error :: ctype where
  "struct_trace_event_raw_iommu_error =
     Composite Struct False
     [Member ''ent'' struct_trace_entry,
      Member ''__data_loc_device'' typedef_u32,
      Member ''__data_loc_driver'' typedef_u32,
      Member ''iova'' typedef_u64,
      Member ''flags'' (Scalar Int32),
      Member ''__data'' (Array (Scalar Char8) 0)]"

lemma struct_trace_event_raw_iommu_error_layout [layout_simps]:
  "wf_type struct_trace_event_raw_iommu_error" "shape struct_trace_event_raw_iommu_error = (32, 8)"
  by (simp_all del: One_nat_def add: struct_trace_event_raw_iommu_error_def layout_eval layout_simps)

definition struct_trace_event_raw_hwmon_attr_class :: ctype where
  "struct_trace_event_raw_hwmon_attr_class =
     Composite Struct False
     [Member ''ent'' struct_trace_entry,
      Member ''index'' (Scalar Int32),
      Member ''__data_loc_attr_name'' typedef_u32,
      Member ''val'' (Scalar Long64),
      Member ''__data'' (Array (Scalar Char8) 0)]"

lemma struct_trace_event_raw_hwmon_attr_class_layout [layout_simps]:
  "wf_type struct_trace_event_raw_hwmon_attr_class" "shape struct_trace_event_raw_hwmon_attr_class = (24, 8)"
  by (simp_all del: One_nat_def add: struct_trace_event_raw_hwmon_attr_class_def layout_eval layout_simps)

definition struct_trace_event_raw_hwmon_attr_show_string :: ctype where
  "struct_trace_event_raw_hwmon_attr_show_string =
     Composite Struct False
     [Member ''ent'' struct_trace_entry,
      Member ''index'' (Scalar Int32),
      Member ''__data_loc_attr_name'' typedef_u32,
      Member ''__data_loc_label'' typedef_u32,
      Member ''__data'' (Array (Scalar Char8) 0)]"

lemma struct_trace_event_raw_hwmon_attr_show_string_layout [layout_simps]:
  "wf_type struct_trace_event_raw_hwmon_attr_show_string" "shape struct_trace_event_raw_hwmon_attr_show_string = (20, 4)"
  by (simp_all del: One_nat_def add: struct_trace_event_raw_hwmon_attr_show_string_def layout_eval layout_simps)

definition struct_trace_event_raw_kfree_skb :: ctype where
  "struct_trace_event_raw_kfree_skb =
     Composite Struct False
     [Member ''ent'' struct_trace_entry,
      Member ''skbaddr'' (Pointer Void),
      Member ''location'' (Pointer Void),
      Member ''protocol'' (Scalar UShort16),
      Member ''reason'' enum_skb_drop_reason,
      Member ''__data'' (Array (Scalar Char8) 0)]"

lemma struct_trace_event_raw_kfree_skb_layout [layout_simps]:
  "wf_type struct_trace_event_raw_kfree_skb" "shape struct_trace_event_raw_kfree_skb = (32, 8)"
  by (simp_all del: One_nat_def add: struct_trace_event_raw_kfree_skb_def layout_eval layout_simps)

definition struct_trace_event_raw_net_dev_start_xmit :: ctype where
  "struct_trace_event_raw_net_dev_start_xmit =
     Composite Struct False
     [Member ''ent'' struct_trace_entry,
      Member ''__data_loc_name'' typedef_u32,
      Member ''queue_mapping'' typedef_u16,
      Member ''skbaddr'' (Pointer Void),
      Member ''vlan_tagged'' typedef_bool,
      Member ''vlan_proto'' typedef_u16,
      Member ''vlan_tci'' typedef_u16,
      Member ''protocol'' typedef_u16,
      Member ''ip_summed'' typedef_u8,
      Member ''len'' (Scalar UInt32),
      Member ''data_len'' (Scalar UInt32),
      Member ''network_offset'' (Scalar Int32),
      Member ''transport_offset_valid'' typedef_bool,
      Member ''transport_offset'' (Scalar Int32),
      Member ''tx_flags'' typedef_u8,
      Member ''gso_size'' typedef_u16,
      Member ''gso_segs'' typedef_u16,
      Member ''gso_type'' typedef_u16,
      Member ''__data'' (Array (Scalar Char8) 0)]"

lemma struct_trace_event_raw_net_dev_start_xmit_layout [layout_simps]:
  "wf_type struct_trace_event_raw_net_dev_start_xmit" "shape struct_trace_event_raw_net_dev_start_xmit = (64, 8)"
  by (simp_all del: One_nat_def add: struct_trace_event_raw_net_dev_start_xmit_def layout_eval layout_simps)

definition struct_trace_event_raw_net_dev_xmit :: ctype where
  "struct_trace_event_raw_net_dev_xmit =
     Composite Struct False
     [Member ''ent'' struct_trace_entry,
      Member ''skbaddr'' (Pointer Void),
      Member ''len'' (Scalar UInt32),
      Member ''rc'' (Scalar Int32),
      Member ''__data_loc_name'' typedef_u32,
      Member ''__data'' (Array (Scalar Char8) 0)]"

lemma struct_trace_event_raw_net_dev_xmit_layout [layout_simps]:
  "wf_type struct_trace_event_raw_net_dev_xmit" "shape struct_trace_event_raw_net_dev_xmit = (32, 8)"
  by (simp_all del: One_nat_def add: struct_trace_event_raw_net_dev_xmit_def layout_eval layout_simps)

definition struct_trace_event_raw_net_dev_xmit_timeout :: ctype where
  "struct_trace_event_raw_net_dev_xmit_timeout =
     Composite Struct False
     [Member ''ent'' struct_trace_entry,
      Member ''__data_loc_name'' typedef_u32,
      Member ''__data_loc_driver'' typedef_u32,
      Member ''queue_index'' (Scalar Int32),
      Member ''__data'' (Array (Scalar Char8) 0)]"

lemma struct_trace_event_raw_net_dev_xmit_timeout_layout [layout_simps]:
  "wf_type struct_trace_event_raw_net_dev_xmit_timeout" "shape struct_trace_event_raw_net_dev_xmit_timeout = (20, 4)"
  by (simp_all del: One_nat_def add: struct_trace_event_raw_net_dev_xmit_timeout_def layout_eval layout_simps)

definition struct_trace_event_raw_net_dev_template :: ctype where
  "struct_trace_event_raw_net_dev_template =
     Composite Struct False
     [Member ''ent'' struct_trace_entry,
      Member ''skbaddr'' (Pointer Void),
      Member ''len'' (Scalar UInt32),
      Member ''__data_loc_name'' typedef_u32,
      Member ''__data'' (Array (Scalar Char8) 0)]"

lemma struct_trace_event_raw_net_dev_template_layout [layout_simps]:
  "wf_type struct_trace_event_raw_net_dev_template" "shape struct_trace_event_raw_net_dev_template = (24, 8)"
  by (simp_all del: One_nat_def add: struct_trace_event_raw_net_dev_template_def layout_eval layout_simps)

definition struct_trace_event_raw_net_dev_rx_verbose_template :: ctype where
  "struct_trace_event_raw_net_dev_rx_verbose_template =
     Composite Struct False
     [Member ''ent'' struct_trace_entry,
      Member ''__data_loc_name'' typedef_u32,
      Member ''napi_id'' (Scalar UInt32),
      Member ''queue_mapping'' typedef_u16,
      Member ''skbaddr'' (Pointer Void),
      Member ''vlan_tagged'' typedef_bool,
      Member ''vlan_proto'' typedef_u16,
      Member ''vlan_tci'' typedef_u16,
      Member ''protocol'' typedef_u16,
      Member ''ip_summed'' typedef_u8,
      Member ''hash'' typedef_u32,
      Member ''l4_hash'' typedef_bool,
      Member ''len'' (Scalar UInt32),
      Member ''data_len'' (Scalar UInt32),
      Member ''truesize'' (Scalar UInt32),
      Member ''mac_header_valid'' typedef_bool,
      Member ''mac_header'' (Scalar Int32),
      Member ''nr_frags'' (Scalar UChar8),
      Member ''gso_size'' typedef_u16,
      Member ''gso_type'' typedef_u16,
      Member ''__data'' (Array (Scalar Char8) 0)]"

lemma struct_trace_event_raw_net_dev_rx_verbose_template_layout [layout_simps]:
  "wf_type struct_trace_event_raw_net_dev_rx_verbose_template" "shape struct_trace_event_raw_net_dev_rx_verbose_template = (80, 8)"
  by (simp_all del: One_nat_def add: struct_trace_event_raw_net_dev_rx_verbose_template_def layout_eval layout_simps)

definition struct_trace_event_raw_net_dev_rx_exit_template :: ctype where
  "struct_trace_event_raw_net_dev_rx_exit_template =
     Composite Struct False
     [Member ''ent'' struct_trace_entry,
      Member ''ret'' (Scalar Int32),
      Member ''__data'' (Array (Scalar Char8) 0)]"

lemma struct_trace_event_raw_net_dev_rx_exit_template_layout [layout_simps]:
  "wf_type struct_trace_event_raw_net_dev_rx_exit_template" "shape struct_trace_event_raw_net_dev_rx_exit_template = (12, 4)"
  by (simp_all del: One_nat_def add: struct_trace_event_raw_net_dev_rx_exit_template_def layout_eval layout_simps)

definition struct_trace_event_raw_napi_poll :: ctype where
  "struct_trace_event_raw_napi_poll =
     Composite Struct False
     [Member ''ent'' struct_trace_entry,
      Member ''napi'' (Pointer (Named Struct_name ''napi_struct'')),
      Member ''__data_loc_dev_name'' typedef_u32,
      Member ''work'' (Scalar Int32),
      Member ''budget'' (Scalar Int32),
      Member ''__data'' (Array (Scalar Char8) 0)]"

lemma struct_trace_event_raw_napi_poll_layout [layout_simps]:
  "wf_type struct_trace_event_raw_napi_poll" "shape struct_trace_event_raw_napi_poll = (32, 8)"
  by (simp_all del: One_nat_def add: struct_trace_event_raw_napi_poll_def layout_eval layout_simps)

definition struct_trace_event_raw_inet_sock_set_state :: ctype where
  "struct_trace_event_raw_inet_sock_set_state =
     Composite Struct False
     [Member ''ent'' struct_trace_entry,
      Member ''skaddr'' (Pointer Void),
      Member ''oldstate'' (Scalar Int32),
      Member ''newstate'' (Scalar Int32),
      Member ''sport'' typedef___u16,
      Member ''dport'' typedef___u16,
      Member ''family'' typedef___u16,
      Member ''protocol'' typedef___u16,
      Member ''saddr'' (Array typedef___u8 4),
      Member ''daddr'' (Array typedef___u8 4),
      Member ''saddr_v6'' (Array typedef___u8 16),
      Member ''daddr_v6'' (Array typedef___u8 16),
      Member ''__data'' (Array (Scalar Char8) 0)]"

lemma struct_trace_event_raw_inet_sock_set_state_layout [layout_simps]:
  "wf_type struct_trace_event_raw_inet_sock_set_state" "shape struct_trace_event_raw_inet_sock_set_state = (72, 8)"
  by (simp_all del: One_nat_def add: struct_trace_event_raw_inet_sock_set_state_def layout_eval layout_simps)

definition struct_trace_event_raw_inet_sk_error_report :: ctype where
  "struct_trace_event_raw_inet_sk_error_report =
     Composite Struct False
     [Member ''ent'' struct_trace_entry,
      Member ''error'' (Scalar Int32),
      Member ''sport'' typedef___u16,
      Member ''dport'' typedef___u16,
      Member ''family'' typedef___u16,
      Member ''protocol'' typedef___u16,
      Member ''saddr'' (Array typedef___u8 4),
      Member ''daddr'' (Array typedef___u8 4),
      Member ''saddr_v6'' (Array typedef___u8 16),
      Member ''daddr_v6'' (Array typedef___u8 16),
      Member ''__data'' (Array (Scalar Char8) 0)]"

lemma struct_trace_event_raw_inet_sk_error_report_layout [layout_simps]:
  "wf_type struct_trace_event_raw_inet_sk_error_report" "shape struct_trace_event_raw_inet_sk_error_report = (60, 4)"
  by (simp_all del: One_nat_def add: struct_trace_event_raw_inet_sk_error_report_def layout_eval layout_simps)

definition struct_trace_event_raw_page_pool_release :: ctype where
  "struct_trace_event_raw_page_pool_release =
     Composite Struct False
     [Member ''ent'' struct_trace_entry,
      Member ''pool'' (Pointer (Named Struct_name ''page_pool'')),
      Member ''inflight'' typedef_s32,
      Member ''hold'' typedef_u32,
      Member ''release'' typedef_u32,
      Member ''cnt'' typedef_u64,
      Member ''__data'' (Array (Scalar Char8) 0)]"

lemma struct_trace_event_raw_page_pool_release_layout [layout_simps]:
  "wf_type struct_trace_event_raw_page_pool_release" "shape struct_trace_event_raw_page_pool_release = (40, 8)"
  by (simp_all del: One_nat_def add: struct_trace_event_raw_page_pool_release_def layout_eval layout_simps)

definition struct_trace_event_raw_page_pool_state_release :: ctype where
  "struct_trace_event_raw_page_pool_state_release =
     Composite Struct False
     [Member ''ent'' struct_trace_entry,
      Member ''pool'' (Pointer (Named Struct_name ''page_pool'')),
      Member ''page'' (Pointer (Named Struct_name ''page'')),
      Member ''release'' typedef_u32,
      Member ''pfn'' (Scalar ULong64),
      Member ''__data'' (Array (Scalar Char8) 0)]"

lemma struct_trace_event_raw_page_pool_state_release_layout [layout_simps]:
  "wf_type struct_trace_event_raw_page_pool_state_release" "shape struct_trace_event_raw_page_pool_state_release = (40, 8)"
  by (simp_all del: One_nat_def add: struct_trace_event_raw_page_pool_state_release_def layout_eval layout_simps)

definition struct_trace_event_raw_page_pool_state_hold :: ctype where
  "struct_trace_event_raw_page_pool_state_hold =
     Composite Struct False
     [Member ''ent'' struct_trace_entry,
      Member ''pool'' (Pointer (Named Struct_name ''page_pool'')),
      Member ''page'' (Pointer (Named Struct_name ''page'')),
      Member ''hold'' typedef_u32,
      Member ''pfn'' (Scalar ULong64),
      Member ''__data'' (Array (Scalar Char8) 0)]"

lemma struct_trace_event_raw_page_pool_state_hold_layout [layout_simps]:
  "wf_type struct_trace_event_raw_page_pool_state_hold" "shape struct_trace_event_raw_page_pool_state_hold = (40, 8)"
  by (simp_all del: One_nat_def add: struct_trace_event_raw_page_pool_state_hold_def layout_eval layout_simps)

definition struct_trace_event_raw_page_pool_update_nid :: ctype where
  "struct_trace_event_raw_page_pool_update_nid =
     Composite Struct False
     [Member ''ent'' struct_trace_entry,
      Member ''pool'' (Pointer (Named Struct_name ''page_pool'')),
      Member ''pool_nid'' (Scalar Int32),
      Member ''new_nid'' (Scalar Int32),
      Member ''__data'' (Array (Scalar Char8) 0)]"

lemma struct_trace_event_raw_page_pool_update_nid_layout [layout_simps]:
  "wf_type struct_trace_event_raw_page_pool_update_nid" "shape struct_trace_event_raw_page_pool_update_nid = (24, 8)"
  by (simp_all del: One_nat_def add: struct_trace_event_raw_page_pool_update_nid_def layout_eval layout_simps)

definition struct_trace_event_raw_neigh_create :: ctype where
  "struct_trace_event_raw_neigh_create =
     Composite Struct False
     [Member ''ent'' struct_trace_entry,
      Member ''family'' typedef_u32,
      Member ''__data_loc_dev'' typedef_u32,
      Member ''entries'' (Scalar Int32),
      Member ''created'' typedef_u8,
      Member ''gc_exempt'' typedef_u8,
      Member ''primary_key4'' (Array typedef_u8 4),
      Member ''primary_key6'' (Array typedef_u8 16),
      Member ''__data'' (Array (Scalar Char8) 0)]"

lemma struct_trace_event_raw_neigh_create_layout [layout_simps]:
  "wf_type struct_trace_event_raw_neigh_create" "shape struct_trace_event_raw_neigh_create = (44, 4)"
  by (simp_all del: One_nat_def add: struct_trace_event_raw_neigh_create_def layout_eval layout_simps)

definition struct_trace_event_raw_neigh_update :: ctype where
  "struct_trace_event_raw_neigh_update =
     Composite Struct False
     [Member ''ent'' struct_trace_entry,
      Member ''family'' typedef_u32,
      Member ''__data_loc_dev'' typedef_u32,
      Member ''lladdr'' (Array typedef_u8 32),
      Member ''lladdr_len'' typedef_u8,
      Member ''flags'' typedef_u8,
      Member ''nud_state'' typedef_u8,
      Member ''type'' typedef_u8,
      Member ''dead'' typedef_u8,
      Member ''refcnt'' (Scalar Int32),
      Member ''primary_key4'' (Array typedef___u8 4),
      Member ''primary_key6'' (Array typedef___u8 16),
      Member ''confirmed'' (Scalar ULong64),
      Member ''updated'' (Scalar ULong64),
      Member ''used'' (Scalar ULong64),
      Member ''new_lladdr'' (Array typedef_u8 32),
      Member ''new_state'' typedef_u8,
      Member ''update_flags'' typedef_u32,
      Member ''pid'' typedef_u32,
      Member ''__data'' (Array (Scalar Char8) 0)]"

lemma struct_trace_event_raw_neigh_update_layout [layout_simps]:
  "wf_type struct_trace_event_raw_neigh_update" "shape struct_trace_event_raw_neigh_update = (152, 8)"
  by (simp_all del: One_nat_def add: struct_trace_event_raw_neigh_update_def layout_eval layout_simps)

definition struct_trace_event_raw_neigh__update :: ctype where
  "struct_trace_event_raw_neigh__update =
     Composite Struct False
     [Member ''ent'' struct_trace_entry,
      Member ''family'' typedef_u32,
      Member ''__data_loc_dev'' typedef_u32,
      Member ''lladdr'' (Array typedef_u8 32),
      Member ''lladdr_len'' typedef_u8,
      Member ''flags'' typedef_u8,
      Member ''nud_state'' typedef_u8,
      Member ''type'' typedef_u8,
      Member ''dead'' typedef_u8,
      Member ''refcnt'' (Scalar Int32),
      Member ''primary_key4'' (Array typedef___u8 4),
      Member ''primary_key6'' (Array typedef___u8 16),
      Member ''confirmed'' (Scalar ULong64),
      Member ''updated'' (Scalar ULong64),
      Member ''used'' (Scalar ULong64),
      Member ''err'' typedef_u32,
      Member ''__data'' (Array (Scalar Char8) 0)]"

lemma struct_trace_event_raw_neigh__update_layout [layout_simps]:
  "wf_type struct_trace_event_raw_neigh__update" "shape struct_trace_event_raw_neigh__update = (112, 8)"
  by (simp_all del: One_nat_def add: struct_trace_event_raw_neigh__update_def layout_eval layout_simps)

definition struct_trace_event_raw_ma_op :: ctype where
  "struct_trace_event_raw_ma_op =
     Composite Struct False
     [Member ''ent'' struct_trace_entry,
      Member ''fn'' (Pointer (Scalar Char8)),
      Member ''min'' (Scalar ULong64),
      Member ''max'' (Scalar ULong64),
      Member ''index'' (Scalar ULong64),
      Member ''last'' (Scalar ULong64),
      Member ''node'' (Pointer Void),
      Member ''__data'' (Array (Scalar Char8) 0)]"

lemma struct_trace_event_raw_ma_op_layout [layout_simps]:
  "wf_type struct_trace_event_raw_ma_op" "shape struct_trace_event_raw_ma_op = (56, 8)"
  by (simp_all del: One_nat_def add: struct_trace_event_raw_ma_op_def layout_eval layout_simps)

definition struct_trace_event_raw_ma_read :: ctype where
  "struct_trace_event_raw_ma_read =
     Composite Struct False
     [Member ''ent'' struct_trace_entry,
      Member ''fn'' (Pointer (Scalar Char8)),
      Member ''min'' (Scalar ULong64),
      Member ''max'' (Scalar ULong64),
      Member ''index'' (Scalar ULong64),
      Member ''last'' (Scalar ULong64),
      Member ''node'' (Pointer Void),
      Member ''__data'' (Array (Scalar Char8) 0)]"

lemma struct_trace_event_raw_ma_read_layout [layout_simps]:
  "wf_type struct_trace_event_raw_ma_read" "shape struct_trace_event_raw_ma_read = (56, 8)"
  by (simp_all del: One_nat_def add: struct_trace_event_raw_ma_read_def layout_eval layout_simps)

definition struct_trace_event_raw_ma_write :: ctype where
  "struct_trace_event_raw_ma_write =
     Composite Struct False
     [Member ''ent'' struct_trace_entry,
      Member ''fn'' (Pointer (Scalar Char8)),
      Member ''min'' (Scalar ULong64),
      Member ''max'' (Scalar ULong64),
      Member ''index'' (Scalar ULong64),
      Member ''last'' (Scalar ULong64),
      Member ''piv'' (Scalar ULong64),
      Member ''val'' (Pointer Void),
      Member ''node'' (Pointer Void),
      Member ''__data'' (Array (Scalar Char8) 0)]"

lemma struct_trace_event_raw_ma_write_layout [layout_simps]:
  "wf_type struct_trace_event_raw_ma_write" "shape struct_trace_event_raw_ma_write = (72, 8)"
  by (simp_all del: One_nat_def add: struct_trace_event_raw_ma_write_def layout_eval layout_simps)

text \<open>The types of this theory by kind and name.\<close>

definition events_b_records :: "(string \<times> ctype) list" where
  "events_b_records =
     [(''pseudo_lock_l2'', struct_trace_event_raw_pseudo_lock_l2),
      (''pseudo_lock_l3'', struct_trace_event_raw_pseudo_lock_l3),
      (''irq_handler_entry'', struct_trace_event_raw_irq_handler_entry),
      (''irq_handler_exit'', struct_trace_event_raw_irq_handler_exit),
      (''notifier_info'', struct_trace_event_raw_notifier_info),
      (''ipi_raise'', struct_trace_event_raw_ipi_raise),
      (''ipi_send_cpu'', struct_trace_event_raw_ipi_send_cpu),
      (''ipi_send_cpumask'', struct_trace_event_raw_ipi_send_cpumask),
      (''ipi_handler'', struct_trace_event_raw_ipi_handler),
      (''irq_matrix_global'', struct_trace_event_raw_irq_matrix_global),
      (''irq_matrix_global_update'', struct_trace_event_raw_irq_matrix_global_update),
      (''irq_matrix_cpu'', struct_trace_event_raw_irq_matrix_cpu),
      (''irq_noise'', struct_trace_event_raw_irq_noise),
      (''nmi_noise'', struct_trace_event_raw_nmi_noise),
      (''mm_page_free_batched'', struct_trace_event_raw_mm_page_free_batched),
      (''mm_page'', struct_trace_event_raw_mm_page),
      (''mm_page_pcpu_drain'', struct_trace_event_raw_mm_page_pcpu_drain),
      (''mm_page_alloc_extfrag'', struct_trace_event_raw_mm_page_alloc_extfrag),
      (''mm_khugepaged_scan_pmd'', struct_trace_event_raw_mm_khugepaged_scan_pmd),
      (''mm_collapse_huge_page'', struct_trace_event_raw_mm_collapse_huge_page),
      (''mm_collapse_huge_page_isolate'', struct_trace_event_raw_mm_collapse_huge_page_isolate),
      (''mm_collapse_huge_page_swapin'', struct_trace_event_raw_mm_collapse_huge_page_swapin),
      (''mm_khugepaged_scan_file'', struct_trace_event_raw_mm_khugepaged_scan_file),
      (''mm_khugepaged_collapse_file'', struct_trace_event_raw_mm_khugepaged_collapse_file),
      (''io_uring_create'', struct_trace_event_raw_io_uring_create),
      (''io_uring_register'', struct_trace_event_raw_io_uring_register),
      (''io_uring_file_get'', struct_trace_event_raw_io_uring_file_get),
      (''io_uring_queue_async_work'', struct_trace_event_raw_io_uring_queue_async_work),
      (''io_uring_defer'', struct_trace_event_raw_io_uring_defer),
      (''io_uring_link'', struct_trace_event_raw_io_uring_link),
      (''io_uring_cqring_wait'', struct_trace_event_raw_io_uring_cqring_wait),
      (''io_uring_fail_link'', struct_trace_event_raw_io_uring_fail_link),
      (''io_uring_complete'', struct_trace_event_raw_io_uring_complete),
      (''io_uring_submit_req'', struct_trace_event_raw_io_uring_submit_req),
      (''io_uring_poll_arm'', struct_trace_event_raw_io_uring_poll_arm),
      (''io_uring_task_add'', struct_trace_event_raw_io_uring_task_add),
      (''io_uring_req_failed'', struct_trace_event_raw_io_uring_req_failed),
      (''io_uring_cqe_overflow'', struct_trace_event_raw_io_uring_cqe_overflow),
      (''io_uring_task_work_run'', struct_trace_event_raw_io_uring_task_work_run),
      (''io_uring_short_write'', struct_trace_event_raw_io_uring_short_write),
      (''io_uring_local_work_run'', struct_trace_event_raw_io_uring_local_work_run),
      (''initcall_level'', struct_trace_event_raw_initcall_level),
      (''initcall_start'', struct_trace_event_raw_initcall_start),
      (''initcall_finish'', struct_trace_event_raw_initcall_finish),
      (''powernv_throttle'', struct_trace_event_raw_powernv_throttle),
      (''power_domain'', struct_trace_event_raw_power_domain),
      (''pm_qos_update'', struct_trace_event_raw_pm_qos_update),
      (''guest_halt_poll_ns'', struct_trace_event_raw_guest_halt_poll_ns),
      (''mm_filemap_op_page_cache'', struct_trace_event_raw_mm_filemap_op_page_cache),
      (''mm_lru_insertion'', struct_trace_event_raw_mm_lru_insertion),
      (''mm_lru_activate'', struct_trace_event_raw_mm_lru_activate),
      (''mmap_lock'', struct_trace_event_raw_mmap_lock),
      (''mmap_lock_acquire_returned'', struct_trace_event_raw_mmap_lock_acquire_returned),
      (''free_vmap_area_noflush'', struct_trace_event_raw_free_vmap_area_noflush),
      (''inode_foreign_history'', struct_trace_event_raw_inode_foreign_history),
      (''inode_switch_wbs'', struct_trace_event_raw_inode_switch_wbs),
      (''flush_foreign'', struct_trace_event_raw_flush_foreign),
      (''global_dirty_state'', struct_trace_event_raw_global_dirty_state),
      (''jbd2_checkpoint'', struct_trace_event_raw_jbd2_checkpoint),
      (''jbd2_commit'', struct_trace_event_raw_jbd2_commit),
      (''jbd2_end_commit'', struct_trace_event_raw_jbd2_end_commit),
      (''jbd2_submit_inode_data'', struct_trace_event_raw_jbd2_submit_inode_data),
      (''jbd2_handle_start_class'', struct_trace_event_raw_jbd2_handle_start_class),
      (''jbd2_handle_extend'', struct_trace_event_raw_jbd2_handle_extend),
      (''jbd2_handle_stats'', struct_trace_event_raw_jbd2_handle_stats),
      (''jbd2_run_stats'', struct_trace_event_raw_jbd2_run_stats),
      (''jbd2_checkpoint_stats'', struct_trace_event_raw_jbd2_checkpoint_stats),
      (''jbd2_update_log_tail'', struct_trace_event_raw_jbd2_update_log_tail),
      (''jbd2_write_superblock'', struct_trace_event_raw_jbd2_write_superblock),
      (''jbd2_lock_buffer_stall'', struct_trace_event_raw_jbd2_lock_buffer_stall),
      (''jbd2_journal_shrink'', struct_trace_event_raw_jbd2_journal_shrink),
      (''jbd2_shrink_scan_exit'', struct_trace_event_raw_jbd2_shrink_scan_exit),
      (''jbd2_shrink_checkpoint_list'', struct_trace_event_raw_jbd2_shrink_checkpoint_list),
      (''i2c_write'', struct_trace_event_raw_i2c_write),
      (''i2c_read'', struct_trace_event_raw_i2c_read),
      (''i2c_reply'', struct_trace_event_raw_i2c_reply),
      (''i2c_result'', struct_trace_event_raw_i2c_result),
      (''mmc_request_start'', struct_trace_event_raw_mmc_request_start),
      (''mmc_request_done'', struct_trace_event_raw_mmc_request_done),
      (''mc_event'', struct_trace_event_raw_mc_event),
      (''non_standard_event'', struct_trace_event_raw_non_standard_event),
      (''memory_failure_event'', struct_trace_event_raw_memory_failure_event),
      (''mptcp_subflow_get_send'', struct_trace_event_raw_mptcp_subflow_get_send),
      (''mptcp_dump_mpext'', struct_trace_event_raw_mptcp_dump_mpext),
      (''mctp_key_acquire'', struct_trace_event_raw_mctp_key_acquire),
      (''mctp_key_release'', struct_trace_event_raw_mctp_key_release),
      (''handshake_event_class'', struct_trace_event_raw_handshake_event_class),
      (''handshake_fd_class'', struct_trace_event_raw_handshake_fd_class),
      (''handshake_error_class'', struct_trace_event_raw_handshake_error_class),
      (''handshake_alert_class'', struct_trace_event_raw_handshake_alert_class),
      (''handshake_complete'', struct_trace_event_raw_handshake_complete),
      (''hyperv_mmu_flush_tlb_multi'', struct_trace_event_raw_hyperv_mmu_flush_tlb_multi),
      (''hyperv_nested_flush_guest_mapping'', struct_trace_event_raw_hyperv_nested_flush_guest_mapping),
      (''hyperv_nested_flush_guest_mapping_range'', struct_trace_event_raw_hyperv_nested_flush_guest_mapping_range),
      (''hyperv_send_ipi_mask'', struct_trace_event_raw_hyperv_send_ipi_mask),
      (''hyperv_send_ipi_one'', struct_trace_event_raw_hyperv_send_ipi_one),
      (''nmi_handler'', struct_trace_event_raw_nmi_handler),
      (''module_load'', struct_trace_event_raw_module_load),
      (''module_free'', struct_trace_event_raw_module_free),
      (''module_refcnt'', struct_trace_event_raw_module_refcnt),
      (''module_request'', struct_trace_event_raw_module_request),
      (''hrtimer_init'', struct_trace_event_raw_hrtimer_init),
      (''hrtimer_start'', struct_trace_event_raw_hrtimer_start),
      (''hrtimer_expire_entry'', struct_trace_event_raw_hrtimer_expire_entry),
      (''hrtimer_class'', struct_trace_event_raw_hrtimer_class),
      (''itimer_state'', struct_trace_event_raw_itimer_state),
      (''itimer_expire'', struct_trace_event_raw_itimer_expire),
      (''mem_disconnect'', struct_trace_event_raw_mem_disconnect),
      (''mem_connect'', struct_trace_event_raw_mem_connect),
      (''mem_return_failed'', struct_trace_event_raw_mem_return_failed),
      (''percpu_alloc_percpu_fail'', struct_trace_event_raw_percpu_alloc_percpu_fail),
      (''percpu_create_chunk'', struct_trace_event_raw_percpu_create_chunk),
      (''percpu_destroy_chunk'', struct_trace_event_raw_percpu_destroy_chunk),
      (''mm_migrate_pages'', struct_trace_event_raw_mm_migrate_pages),
      (''mm_migrate_pages_start'', struct_trace_event_raw_mm_migrate_pages_start),
      (''migration_pte'', struct_trace_event_raw_migration_pte),
      (''ksm_scan_template'', struct_trace_event_raw_ksm_scan_template),
      (''ksm_enter_exit_template'', struct_trace_event_raw_ksm_enter_exit_template),
      (''ksm_merge_one_page'', struct_trace_event_raw_ksm_merge_one_page),
      (''ksm_merge_with_ksm_page'', struct_trace_event_raw_ksm_merge_with_ksm_page),
      (''ksm_remove_ksm_page'', struct_trace_event_raw_ksm_remove_ksm_page),
      (''ksm_remove_rmap_item'', struct_trace_event_raw_ksm_remove_rmap_item),
      (''ksm_advisor'', struct_trace_event_raw_ksm_advisor),
      (''hugepage_set'', struct_trace_event_raw_hugepage_set),
      (''hugepage_update'', struct_trace_event_raw_hugepage_update),
      (''migration_pmd'', struct_trace_event_raw_migration_pmd),
      (''locks_get_lock_context'', struct_trace_event_raw_locks_get_lock_context),
      (''generic_add_lease'', struct_trace_event_raw_generic_add_lease),
      (''leases_conflict'', struct_trace_event_raw_leases_conflict),
      (''iomap_readpage_class'', struct_trace_event_raw_iomap_readpage_class),
      (''iomap_range_class'', struct_trace_event_raw_iomap_range_class),
      (''iomap_class'', struct_trace_event_raw_iomap_class),
      (''iomap_iter'', struct_trace_event_raw_iomap_iter),
      (''iomap_dio_rw_begin'', struct_trace_event_raw_iomap_dio_rw_begin),
      (''iomap_dio_complete'', struct_trace_event_raw_iomap_dio_complete),
      (''prq_report'', struct_trace_event_raw_prq_report),
      (''mdio_access'', struct_trace_event_raw_mdio_access),
      (''icc_set_bw'', struct_trace_event_raw_icc_set_bw),
      (''icc_set_bw_end'', struct_trace_event_raw_icc_set_bw_end),
      (''netlink_extack'', struct_trace_event_raw_netlink_extack),
      (''mce_record'', struct_trace_event_raw_mce_record),
      (''oom_score_adj_update'', struct_trace_event_raw_oom_score_adj_update),
      (''mark_victim'', struct_trace_event_raw_mark_victim),
      (''mm_vmscan_kswapd_sleep'', struct_trace_event_raw_mm_vmscan_kswapd_sleep),
      (''mm_vmscan_kswapd_wake'', struct_trace_event_raw_mm_vmscan_kswapd_wake),
      (''mm_vmscan_wakeup_kswapd'', struct_trace_event_raw_mm_vmscan_wakeup_kswapd),
      (''mm_vmscan_direct_reclaim_begin_template'', struct_trace_event_raw_mm_vmscan_direct_reclaim_begin_template),
      (''mm_vmscan_direct_reclaim_end_template'', struct_trace_event_raw_mm_vmscan_direct_reclaim_end_template),
      (''mm_shrink_slab_start'', struct_trace_event_raw_mm_shrink_slab_start),
      (''mm_shrink_slab_end'', struct_trace_event_raw_mm_shrink_slab_end),
      (''mm_vmscan_lru_isolate'', struct_trace_event_raw_mm_vmscan_lru_isolate),
      (''mm_vmscan_write_folio'', struct_trace_event_raw_mm_vmscan_write_folio),
      (''mm_vmscan_lru_shrink_inactive'', struct_trace_event_raw_mm_vmscan_lru_shrink_inactive),
      (''mm_vmscan_lru_shrink_active'', struct_trace_event_raw_mm_vmscan_lru_shrink_active),
      (''mm_vmscan_node_reclaim_begin'', struct_trace_event_raw_mm_vmscan_node_reclaim_begin),
      (''mm_vmscan_throttled'', struct_trace_event_raw_mm_vmscan_throttled),
      (''mm_compaction_isolate_template'', struct_trace_event_raw_mm_compaction_isolate_template),
      (''mm_compaction_migratepages'', struct_trace_event_raw_mm_compaction_migratepages),
      (''mm_compaction_begin'', struct_trace_event_raw_mm_compaction_begin),
      (''mm_compaction_end'', struct_trace_event_raw_mm_compaction_end),
      (''mm_compaction_try_to_compact_pages'', struct_trace_event_raw_mm_compaction_try_to_compact_pages),
      (''mm_compaction_suitable_template'', struct_trace_event_raw_mm_compaction_suitable_template),
      (''mm_compaction_defer_template'', struct_trace_event_raw_mm_compaction_defer_template),
      (''mm_compaction_kcompactd_sleep'', struct_trace_event_raw_mm_compaction_kcompactd_sleep),
      (''kcompactd_wake_template'', struct_trace_event_raw_kcompactd_wake_template),
      (''iocost_iocg_state'', struct_trace_event_raw_iocost_iocg_state),
      (''iocg_inuse_update'', struct_trace_event_raw_iocg_inuse_update),
      (''iocost_ioc_vrate_adj'', struct_trace_event_raw_iocost_ioc_vrate_adj),
      (''iocost_iocg_forgive_debt'', struct_trace_event_raw_iocost_iocg_forgive_debt),
      (''msr_trace_class'', struct_trace_event_raw_msr_trace_class),
      (''gpio_direction'', struct_trace_event_raw_gpio_direction),
      (''gpio_value'', struct_trace_event_raw_gpio_value),
      (''iommu_group_event'', struct_trace_event_raw_iommu_group_event),
      (''iommu_device_event'', struct_trace_event_raw_iommu_device_event),
      (''map'', struct_trace_event_raw_map),
      (''iommu_error'', struct_trace_event_raw_iommu_error),
      (''hwmon_attr_class'', struct_trace_event_raw_hwmon_attr_class),
      (''hwmon_attr_show_string'', struct_trace_event_raw_hwmon_attr_show_string),
      (''kfree_skb'', struct_trace_event_raw_kfree_skb),
      (''net_dev_start_xmit'', struct_trace_event_raw_net_dev_start_xmit),
      (''net_dev_xmit'', struct_trace_event_raw_net_dev_xmit),
      (''net_dev_xmit_timeout'', struct_trace_event_raw_net_dev_xmit_timeout),
      (''net_dev_template'', struct_trace_event_raw_net_dev_template),
      (''net_dev_rx_verbose_template'', struct_trace_event_raw_net_dev_rx_verbose_template),
      (''net_dev_rx_exit_template'', struct_trace_event_raw_net_dev_rx_exit_template),
      (''napi_poll'', struct_trace_event_raw_napi_poll),
      (''inet_sock_set_state'', struct_trace_event_raw_inet_sock_set_state),
      (''inet_sk_error_report'', struct_trace_event_raw_inet_sk_error_report),
      (''page_pool_release'', struct_trace_event_raw_page_pool_release),
      (''page_pool_state_release'', struct_trace_event_raw_page_pool_state_release),
      (''page_pool_state_hold'', struct_trace_event_raw_page_pool_state_hold),
      (''page_pool_update_nid'', struct_trace_event_raw_page_pool_update_nid),
      (''neigh_create'', struct_trace_event_raw_neigh_create),
      (''neigh_update'', struct_trace_event_raw_neigh_update),
      (''neigh__update'', struct_trace_event_raw_neigh__update),
      (''ma_op'', struct_trace_event_raw_ma_op),
      (''ma_read'', struct_trace_event_raw_ma_read),
      (''ma_write'', struct_trace_event_raw_ma_write)]"

definition events_b_types :: "(name_kind \<times> string \<times> ctype) list" where
  "events_b_types = map event_record events_b_records"

lemmas events_b_defs = struct_trace_event_raw_pseudo_lock_l2_def
  struct_trace_event_raw_pseudo_lock_l3_def struct_trace_event_raw_irq_handler_entry_def
  struct_trace_event_raw_irq_handler_exit_def struct_trace_event_raw_notifier_info_def
  struct_trace_event_raw_ipi_raise_def struct_trace_event_raw_ipi_send_cpu_def
  struct_trace_event_raw_ipi_send_cpumask_def struct_trace_event_raw_ipi_handler_def
  struct_trace_event_raw_irq_matrix_global_def struct_trace_event_raw_irq_matrix_global_update_def
  struct_trace_event_raw_irq_matrix_cpu_def struct_trace_event_raw_irq_noise_def
  struct_trace_event_raw_nmi_noise_def struct_trace_event_raw_mm_page_free_batched_def
  struct_trace_event_raw_mm_page_def struct_trace_event_raw_mm_page_pcpu_drain_def
  struct_trace_event_raw_mm_page_alloc_extfrag_def
  struct_trace_event_raw_mm_khugepaged_scan_pmd_def
  struct_trace_event_raw_mm_collapse_huge_page_def
  struct_trace_event_raw_mm_collapse_huge_page_isolate_def
  struct_trace_event_raw_mm_collapse_huge_page_swapin_def
  struct_trace_event_raw_mm_khugepaged_scan_file_def
  struct_trace_event_raw_mm_khugepaged_collapse_file_def
  struct_trace_event_raw_io_uring_create_def struct_trace_event_raw_io_uring_register_def
  struct_trace_event_raw_io_uring_file_get_def
  struct_trace_event_raw_io_uring_queue_async_work_def struct_trace_event_raw_io_uring_defer_def
  struct_trace_event_raw_io_uring_link_def struct_trace_event_raw_io_uring_cqring_wait_def
  struct_trace_event_raw_io_uring_fail_link_def struct_trace_event_raw_io_uring_complete_def
  struct_trace_event_raw_io_uring_submit_req_def struct_trace_event_raw_io_uring_poll_arm_def
  struct_trace_event_raw_io_uring_task_add_def struct_trace_event_raw_io_uring_req_failed_def
  struct_trace_event_raw_io_uring_cqe_overflow_def
  struct_trace_event_raw_io_uring_task_work_run_def
  struct_trace_event_raw_io_uring_short_write_def
  struct_trace_event_raw_io_uring_local_work_run_def struct_trace_event_raw_initcall_level_def
  struct_trace_event_raw_initcall_start_def struct_trace_event_raw_initcall_finish_def
  struct_trace_event_raw_powernv_throttle_def struct_trace_event_raw_power_domain_def
  struct_trace_event_raw_pm_qos_update_def struct_trace_event_raw_guest_halt_poll_ns_def
  struct_trace_event_raw_mm_filemap_op_page_cache_def struct_trace_event_raw_mm_lru_insertion_def
  struct_trace_event_raw_mm_lru_activate_def struct_trace_event_raw_mmap_lock_def
  struct_trace_event_raw_mmap_lock_acquire_returned_def
  struct_trace_event_raw_free_vmap_area_noflush_def
  struct_trace_event_raw_inode_foreign_history_def struct_trace_event_raw_inode_switch_wbs_def
  struct_trace_event_raw_flush_foreign_def struct_trace_event_raw_global_dirty_state_def
  struct_trace_event_raw_jbd2_checkpoint_def struct_trace_event_raw_jbd2_commit_def
  struct_trace_event_raw_jbd2_end_commit_def struct_trace_event_raw_jbd2_submit_inode_data_def
  struct_trace_event_raw_jbd2_handle_start_class_def struct_trace_event_raw_jbd2_handle_extend_def
  struct_trace_event_raw_jbd2_handle_stats_def struct_trace_event_raw_jbd2_run_stats_def
  struct_trace_event_raw_jbd2_checkpoint_stats_def struct_trace_event_raw_jbd2_update_log_tail_def
  struct_trace_event_raw_jbd2_write_superblock_def
  struct_trace_event_raw_jbd2_lock_buffer_stall_def struct_trace_event_raw_jbd2_journal_shrink_def
  struct_trace_event_raw_jbd2_shrink_scan_exit_def
  struct_trace_event_raw_jbd2_shrink_checkpoint_list_def struct_trace_event_raw_i2c_write_def
  struct_trace_event_raw_i2c_read_def struct_trace_event_raw_i2c_reply_def
  struct_trace_event_raw_i2c_result_def struct_trace_event_raw_mmc_request_start_def
  struct_trace_event_raw_mmc_request_done_def struct_trace_event_raw_mc_event_def
  struct_trace_event_raw_non_standard_event_def struct_trace_event_raw_memory_failure_event_def
  struct_trace_event_raw_mptcp_subflow_get_send_def struct_trace_event_raw_mptcp_dump_mpext_def
  struct_trace_event_raw_mctp_key_acquire_def struct_trace_event_raw_mctp_key_release_def
  struct_trace_event_raw_handshake_event_class_def struct_trace_event_raw_handshake_fd_class_def
  struct_trace_event_raw_handshake_error_class_def
  struct_trace_event_raw_handshake_alert_class_def struct_trace_event_raw_handshake_complete_def
  struct_trace_event_raw_hyperv_mmu_flush_tlb_multi_def
  struct_trace_event_raw_hyperv_nested_flush_guest_mapping_def
  struct_trace_event_raw_hyperv_nested_flush_guest_mapping_range_def
  struct_trace_event_raw_hyperv_send_ipi_mask_def struct_trace_event_raw_hyperv_send_ipi_one_def
  struct_trace_event_raw_nmi_handler_def struct_trace_event_raw_module_load_def
  struct_trace_event_raw_module_free_def struct_trace_event_raw_module_refcnt_def
  struct_trace_event_raw_module_request_def struct_trace_event_raw_hrtimer_init_def
  struct_trace_event_raw_hrtimer_start_def struct_trace_event_raw_hrtimer_expire_entry_def
  struct_trace_event_raw_hrtimer_class_def struct_trace_event_raw_itimer_state_def
  struct_trace_event_raw_itimer_expire_def struct_trace_event_raw_mem_disconnect_def
  struct_trace_event_raw_mem_connect_def struct_trace_event_raw_mem_return_failed_def
  struct_trace_event_raw_percpu_alloc_percpu_fail_def
  struct_trace_event_raw_percpu_create_chunk_def struct_trace_event_raw_percpu_destroy_chunk_def
  struct_trace_event_raw_mm_migrate_pages_def struct_trace_event_raw_mm_migrate_pages_start_def
  struct_trace_event_raw_migration_pte_def struct_trace_event_raw_ksm_scan_template_def
  struct_trace_event_raw_ksm_enter_exit_template_def struct_trace_event_raw_ksm_merge_one_page_def
  struct_trace_event_raw_ksm_merge_with_ksm_page_def
  struct_trace_event_raw_ksm_remove_ksm_page_def struct_trace_event_raw_ksm_remove_rmap_item_def
  struct_trace_event_raw_ksm_advisor_def struct_trace_event_raw_hugepage_set_def
  struct_trace_event_raw_hugepage_update_def struct_trace_event_raw_migration_pmd_def
  struct_trace_event_raw_locks_get_lock_context_def struct_trace_event_raw_generic_add_lease_def
  struct_trace_event_raw_leases_conflict_def struct_trace_event_raw_iomap_readpage_class_def
  struct_trace_event_raw_iomap_range_class_def struct_trace_event_raw_iomap_class_def
  struct_trace_event_raw_iomap_iter_def struct_trace_event_raw_iomap_dio_rw_begin_def
  struct_trace_event_raw_iomap_dio_complete_def struct_trace_event_raw_prq_report_def
  struct_trace_event_raw_mdio_access_def struct_trace_event_raw_icc_set_bw_def
  struct_trace_event_raw_icc_set_bw_end_def struct_trace_event_raw_netlink_extack_def
  struct_trace_event_raw_mce_record_def struct_trace_event_raw_oom_score_adj_update_def
  struct_trace_event_raw_mark_victim_def struct_trace_event_raw_mm_vmscan_kswapd_sleep_def
  struct_trace_event_raw_mm_vmscan_kswapd_wake_def
  struct_trace_event_raw_mm_vmscan_wakeup_kswapd_def
  struct_trace_event_raw_mm_vmscan_direct_reclaim_begin_template_def
  struct_trace_event_raw_mm_vmscan_direct_reclaim_end_template_def
  struct_trace_event_raw_mm_shrink_slab_start_def struct_trace_event_raw_mm_shrink_slab_end_def
  struct_trace_event_raw_mm_vmscan_lru_isolate_def
  struct_trace_event_raw_mm_vmscan_write_folio_def
  struct_trace_event_raw_mm_vmscan_lru_shrink_inactive_def
  struct_trace_event_raw_mm_vmscan_lru_shrink_active_def
  struct_trace_event_raw_mm_vmscan_node_reclaim_begin_def
  struct_trace_event_raw_mm_vmscan_throttled_def
  struct_trace_event_raw_mm_compaction_isolate_template_def
  struct_trace_event_raw_mm_compaction_migratepages_def
  struct_trace_event_raw_mm_compaction_begin_def struct_trace_event_raw_mm_compaction_end_def
  struct_trace_event_raw_mm_compaction_try_to_compact_pages_def
  struct_trace_event_raw_mm_compaction_suitable_template_def
  struct_trace_event_raw_mm_compaction_defer_template_def
  struct_trace_event_raw_mm_compaction_kcompactd_sleep_def
  struct_trace_event_raw_kcompactd_wake_template_def struct_trace_event_raw_iocost_iocg_state_def
  struct_trace_event_raw_iocg_inuse_update_def struct_trace_event_raw_iocost_ioc_vrate_adj_def
  struct_trace_event_raw_iocost_iocg_forgive_debt_def struct_trace_event_raw_msr_trace_class_def
  struct_trace_event_raw_gpio_direction_def struct_trace_event_raw_gpio_value_def
  struct_trace_event_raw_iommu_group_event_def struct_trace_event_raw_iommu_device_event_def
  struct_trace_event_raw_map_def struct_trace_event_raw_iommu_error_def
  struct_trace_event_raw_hwmon_attr_class_def struct_trace_event_raw_hwmon_attr_show_string_def
  struct_trace_event_raw_kfree_skb_def struct_trace_event_raw_net_dev_start_xmit_def
  struct_trace_event_raw_net_dev_xmit_def struct_trace_event_raw_net_dev_xmit_timeout_def
  struct_trace_event_raw_net_dev_template_def
  struct_trace_event_raw_net_dev_rx_verbose_template_def
  struct_trace_event_raw_net_dev_rx_exit_template_def struct_trace_event_raw_napi_poll_def
  struct_trace_event_raw_inet_sock_set_state_def struct_trace_event_raw_inet_sk_error_report_def
  struct_trace_event_raw_page_pool_release_def struct_trace_event_raw_page_pool_state_release_def
  struct_trace_event_raw_page_pool_state_hold_def struct_trace_event_raw_page_pool_update_nid_def
  struct_trace_event_raw_neigh_create_def struct_trace_event_raw_neigh_update_def
  struct_trace_event_raw_neigh__update_def struct_trace_event_raw_ma_op_def
  struct_trace_event_raw_ma_read_def struct_trace_event_raw_ma_write_def

end
