(* ===== verification/VmlinuxEventsC.thy ===== *)
theory VmlinuxEventsC
  imports VmlinuxUapi
begin

text \<open>
  Kernel types: the records of the tracepoints of the kernel besides those that the programs are
  attached to, \<open>trace_event_raw_pseudo_lock_mem_latency\<close> to
  \<open>trace_event_raw_xhci_log_virt_dev\<close>. Each definition is one declaration of the
  header, in the order of use; a lemma with each gives its size and alignment in bytes.
\<close>

definition struct_trace_event_raw_xen_mc__batch :: ctype where
  "struct_trace_event_raw_xen_mc__batch =
     Composite Struct False
     [Member ''ent'' struct_trace_entry,
      Member ''mode'' enum_xen_lazy_mode,
      Member ''__data'' (Array (Scalar Char8) 0)]"

lemma struct_trace_event_raw_xen_mc__batch_layout [layout_simps]:
  "wf_type struct_trace_event_raw_xen_mc__batch" "shape struct_trace_event_raw_xen_mc__batch = (12, 4)"
  by (simp_all del: One_nat_def add: struct_trace_event_raw_xen_mc__batch_def layout_eval layout_simps)

definition struct_trace_event_raw_xen_mc_entry :: ctype where
  "struct_trace_event_raw_xen_mc_entry =
     Composite Struct False
     [Member ''ent'' struct_trace_entry,
      Member ''op'' (Scalar UInt32),
      Member ''nargs'' (Scalar UInt32),
      Member ''args'' (Array (Scalar ULong64) 6),
      Member ''__data'' (Array (Scalar Char8) 0)]"

lemma struct_trace_event_raw_xen_mc_entry_layout [layout_simps]:
  "wf_type struct_trace_event_raw_xen_mc_entry" "shape struct_trace_event_raw_xen_mc_entry = (64, 8)"
  by (simp_all del: One_nat_def add: struct_trace_event_raw_xen_mc_entry_def layout_eval layout_simps)

definition struct_trace_event_raw_xen_mc_entry_alloc :: ctype where
  "struct_trace_event_raw_xen_mc_entry_alloc =
     Composite Struct False
     [Member ''ent'' struct_trace_entry,
      Member ''args'' typedef_size_t,
      Member ''__data'' (Array (Scalar Char8) 0)]"

lemma struct_trace_event_raw_xen_mc_entry_alloc_layout [layout_simps]:
  "wf_type struct_trace_event_raw_xen_mc_entry_alloc" "shape struct_trace_event_raw_xen_mc_entry_alloc = (16, 8)"
  by (simp_all del: One_nat_def add: struct_trace_event_raw_xen_mc_entry_alloc_def layout_eval layout_simps)

definition struct_trace_event_raw_xen_mc_callback :: ctype where
  "struct_trace_event_raw_xen_mc_callback =
     Composite Struct False
     [Member ''ent'' struct_trace_entry,
      Member ''fn'' typedef_xen_mc_callback_fn_t,
      Member ''data'' (Pointer Void),
      Member ''__data'' (Array (Scalar Char8) 0)]"

lemma struct_trace_event_raw_xen_mc_callback_layout [layout_simps]:
  "wf_type struct_trace_event_raw_xen_mc_callback" "shape struct_trace_event_raw_xen_mc_callback = (24, 8)"
  by (simp_all del: One_nat_def add: struct_trace_event_raw_xen_mc_callback_def layout_eval layout_simps)

definition struct_trace_event_raw_xen_mc_flush_reason :: ctype where
  "struct_trace_event_raw_xen_mc_flush_reason =
     Composite Struct False
     [Member ''ent'' struct_trace_entry,
      Member ''reason'' enum_xen_mc_flush_reason,
      Member ''__data'' (Array (Scalar Char8) 0)]"

lemma struct_trace_event_raw_xen_mc_flush_reason_layout [layout_simps]:
  "wf_type struct_trace_event_raw_xen_mc_flush_reason" "shape struct_trace_event_raw_xen_mc_flush_reason = (12, 4)"
  by (simp_all del: One_nat_def add: struct_trace_event_raw_xen_mc_flush_reason_def layout_eval layout_simps)

definition struct_trace_event_raw_xen_mc_flush :: ctype where
  "struct_trace_event_raw_xen_mc_flush =
     Composite Struct False
     [Member ''ent'' struct_trace_entry,
      Member ''mcidx'' (Scalar UInt32),
      Member ''argidx'' (Scalar UInt32),
      Member ''cbidx'' (Scalar UInt32),
      Member ''__data'' (Array (Scalar Char8) 0)]"

lemma struct_trace_event_raw_xen_mc_flush_layout [layout_simps]:
  "wf_type struct_trace_event_raw_xen_mc_flush" "shape struct_trace_event_raw_xen_mc_flush = (20, 4)"
  by (simp_all del: One_nat_def add: struct_trace_event_raw_xen_mc_flush_def layout_eval layout_simps)

definition struct_trace_event_raw_xen_mc_extend_args :: ctype where
  "struct_trace_event_raw_xen_mc_extend_args =
     Composite Struct False
     [Member ''ent'' struct_trace_entry,
      Member ''op'' (Scalar UInt32),
      Member ''args'' typedef_size_t,
      Member ''res'' enum_xen_mc_extend_args,
      Member ''__data'' (Array (Scalar Char8) 0)]"

lemma struct_trace_event_raw_xen_mc_extend_args_layout [layout_simps]:
  "wf_type struct_trace_event_raw_xen_mc_extend_args" "shape struct_trace_event_raw_xen_mc_extend_args = (32, 8)"
  by (simp_all del: One_nat_def add: struct_trace_event_raw_xen_mc_extend_args_def layout_eval layout_simps)

definition struct_trace_event_raw_xen_mmu__set_pte :: ctype where
  "struct_trace_event_raw_xen_mmu__set_pte =
     Composite Struct False
     [Member ''ent'' struct_trace_entry,
      Member ''ptep'' (Pointer (Named Typedef_name ''pte_t'')),
      Member ''pteval'' typedef_pteval_t,
      Member ''__data'' (Array (Scalar Char8) 0)]"

lemma struct_trace_event_raw_xen_mmu__set_pte_layout [layout_simps]:
  "wf_type struct_trace_event_raw_xen_mmu__set_pte" "shape struct_trace_event_raw_xen_mmu__set_pte = (24, 8)"
  by (simp_all del: One_nat_def add: struct_trace_event_raw_xen_mmu__set_pte_def layout_eval layout_simps)

definition struct_trace_event_raw_xen_mmu_set_pmd :: ctype where
  "struct_trace_event_raw_xen_mmu_set_pmd =
     Composite Struct False
     [Member ''ent'' struct_trace_entry,
      Member ''pmdp'' (Pointer (Named Typedef_name ''pmd_t'')),
      Member ''pmdval'' typedef_pmdval_t,
      Member ''__data'' (Array (Scalar Char8) 0)]"

lemma struct_trace_event_raw_xen_mmu_set_pmd_layout [layout_simps]:
  "wf_type struct_trace_event_raw_xen_mmu_set_pmd" "shape struct_trace_event_raw_xen_mmu_set_pmd = (24, 8)"
  by (simp_all del: One_nat_def add: struct_trace_event_raw_xen_mmu_set_pmd_def layout_eval layout_simps)

definition struct_trace_event_raw_xen_mmu_set_pud :: ctype where
  "struct_trace_event_raw_xen_mmu_set_pud =
     Composite Struct False
     [Member ''ent'' struct_trace_entry,
      Member ''pudp'' (Pointer (Named Typedef_name ''pud_t'')),
      Member ''pudval'' typedef_pudval_t,
      Member ''__data'' (Array (Scalar Char8) 0)]"

lemma struct_trace_event_raw_xen_mmu_set_pud_layout [layout_simps]:
  "wf_type struct_trace_event_raw_xen_mmu_set_pud" "shape struct_trace_event_raw_xen_mmu_set_pud = (24, 8)"
  by (simp_all del: One_nat_def add: struct_trace_event_raw_xen_mmu_set_pud_def layout_eval layout_simps)

definition struct_trace_event_raw_xen_mmu_set_p4d :: ctype where
  "struct_trace_event_raw_xen_mmu_set_p4d =
     Composite Struct False
     [Member ''ent'' struct_trace_entry,
      Member ''p4dp'' (Pointer (Named Typedef_name ''p4d_t'')),
      Member ''user_p4dp'' (Pointer (Named Typedef_name ''p4d_t'')),
      Member ''p4dval'' typedef_p4dval_t,
      Member ''__data'' (Array (Scalar Char8) 0)]"

lemma struct_trace_event_raw_xen_mmu_set_p4d_layout [layout_simps]:
  "wf_type struct_trace_event_raw_xen_mmu_set_p4d" "shape struct_trace_event_raw_xen_mmu_set_p4d = (32, 8)"
  by (simp_all del: One_nat_def add: struct_trace_event_raw_xen_mmu_set_p4d_def layout_eval layout_simps)

definition struct_trace_event_raw_xen_mmu_ptep_modify_prot :: ctype where
  "struct_trace_event_raw_xen_mmu_ptep_modify_prot =
     Composite Struct False
     [Member ''ent'' struct_trace_entry,
      Member ''mm'' (Pointer (Named Struct_name ''mm_struct'')),
      Member ''addr'' (Scalar ULong64),
      Member ''ptep'' (Pointer (Named Typedef_name ''pte_t'')),
      Member ''pteval'' typedef_pteval_t,
      Member ''__data'' (Array (Scalar Char8) 0)]"

lemma struct_trace_event_raw_xen_mmu_ptep_modify_prot_layout [layout_simps]:
  "wf_type struct_trace_event_raw_xen_mmu_ptep_modify_prot" "shape struct_trace_event_raw_xen_mmu_ptep_modify_prot = (40, 8)"
  by (simp_all del: One_nat_def add: struct_trace_event_raw_xen_mmu_ptep_modify_prot_def layout_eval layout_simps)

definition struct_trace_event_raw_xen_mmu_alloc_ptpage :: ctype where
  "struct_trace_event_raw_xen_mmu_alloc_ptpage =
     Composite Struct False
     [Member ''ent'' struct_trace_entry,
      Member ''mm'' (Pointer (Named Struct_name ''mm_struct'')),
      Member ''pfn'' (Scalar ULong64),
      Member ''level'' (Scalar UInt32),
      Member ''pinned'' typedef_bool,
      Member ''__data'' (Array (Scalar Char8) 0)]"

lemma struct_trace_event_raw_xen_mmu_alloc_ptpage_layout [layout_simps]:
  "wf_type struct_trace_event_raw_xen_mmu_alloc_ptpage" "shape struct_trace_event_raw_xen_mmu_alloc_ptpage = (32, 8)"
  by (simp_all del: One_nat_def add: struct_trace_event_raw_xen_mmu_alloc_ptpage_def layout_eval layout_simps)

definition struct_trace_event_raw_xen_mmu_release_ptpage :: ctype where
  "struct_trace_event_raw_xen_mmu_release_ptpage =
     Composite Struct False
     [Member ''ent'' struct_trace_entry,
      Member ''pfn'' (Scalar ULong64),
      Member ''level'' (Scalar UInt32),
      Member ''pinned'' typedef_bool,
      Member ''__data'' (Array (Scalar Char8) 0)]"

lemma struct_trace_event_raw_xen_mmu_release_ptpage_layout [layout_simps]:
  "wf_type struct_trace_event_raw_xen_mmu_release_ptpage" "shape struct_trace_event_raw_xen_mmu_release_ptpage = (24, 8)"
  by (simp_all del: One_nat_def add: struct_trace_event_raw_xen_mmu_release_ptpage_def layout_eval layout_simps)

definition struct_trace_event_raw_xen_mmu_pgd :: ctype where
  "struct_trace_event_raw_xen_mmu_pgd =
     Composite Struct False
     [Member ''ent'' struct_trace_entry,
      Member ''mm'' (Pointer (Named Struct_name ''mm_struct'')),
      Member ''pgd'' (Pointer (Named Typedef_name ''pgd_t'')),
      Member ''__data'' (Array (Scalar Char8) 0)]"

lemma struct_trace_event_raw_xen_mmu_pgd_layout [layout_simps]:
  "wf_type struct_trace_event_raw_xen_mmu_pgd" "shape struct_trace_event_raw_xen_mmu_pgd = (24, 8)"
  by (simp_all del: One_nat_def add: struct_trace_event_raw_xen_mmu_pgd_def layout_eval layout_simps)

definition struct_trace_event_raw_xen_mmu_flush_tlb_one_user :: ctype where
  "struct_trace_event_raw_xen_mmu_flush_tlb_one_user =
     Composite Struct False
     [Member ''ent'' struct_trace_entry,
      Member ''addr'' (Scalar ULong64),
      Member ''__data'' (Array (Scalar Char8) 0)]"

lemma struct_trace_event_raw_xen_mmu_flush_tlb_one_user_layout [layout_simps]:
  "wf_type struct_trace_event_raw_xen_mmu_flush_tlb_one_user" "shape struct_trace_event_raw_xen_mmu_flush_tlb_one_user = (16, 8)"
  by (simp_all del: One_nat_def add: struct_trace_event_raw_xen_mmu_flush_tlb_one_user_def layout_eval layout_simps)

definition struct_trace_event_raw_xen_mmu_flush_tlb_multi :: ctype where
  "struct_trace_event_raw_xen_mmu_flush_tlb_multi =
     Composite Struct False
     [Member ''ent'' struct_trace_entry,
      Member ''ncpus'' (Scalar UInt32),
      Member ''mm'' (Pointer (Named Struct_name ''mm_struct'')),
      Member ''addr'' (Scalar ULong64),
      Member ''end'' (Scalar ULong64),
      Member ''__data'' (Array (Scalar Char8) 0)]"

lemma struct_trace_event_raw_xen_mmu_flush_tlb_multi_layout [layout_simps]:
  "wf_type struct_trace_event_raw_xen_mmu_flush_tlb_multi" "shape struct_trace_event_raw_xen_mmu_flush_tlb_multi = (40, 8)"
  by (simp_all del: One_nat_def add: struct_trace_event_raw_xen_mmu_flush_tlb_multi_def layout_eval layout_simps)

definition struct_trace_event_raw_xen_mmu_write_cr3 :: ctype where
  "struct_trace_event_raw_xen_mmu_write_cr3 =
     Composite Struct False
     [Member ''ent'' struct_trace_entry,
      Member ''kernel'' typedef_bool,
      Member ''cr3'' (Scalar ULong64),
      Member ''__data'' (Array (Scalar Char8) 0)]"

lemma struct_trace_event_raw_xen_mmu_write_cr3_layout [layout_simps]:
  "wf_type struct_trace_event_raw_xen_mmu_write_cr3" "shape struct_trace_event_raw_xen_mmu_write_cr3 = (24, 8)"
  by (simp_all del: One_nat_def add: struct_trace_event_raw_xen_mmu_write_cr3_def layout_eval layout_simps)

definition struct_trace_event_raw_xen_cpu_write_ldt_entry :: ctype where
  "struct_trace_event_raw_xen_cpu_write_ldt_entry =
     Composite Struct False
     [Member ''ent'' struct_trace_entry,
      Member ''dt'' (Pointer (Named Struct_name ''desc_struct'')),
      Member ''entrynum'' (Scalar Int32),
      Member ''desc'' typedef_u64,
      Member ''__data'' (Array (Scalar Char8) 0)]"

lemma struct_trace_event_raw_xen_cpu_write_ldt_entry_layout [layout_simps]:
  "wf_type struct_trace_event_raw_xen_cpu_write_ldt_entry" "shape struct_trace_event_raw_xen_cpu_write_ldt_entry = (32, 8)"
  by (simp_all del: One_nat_def add: struct_trace_event_raw_xen_cpu_write_ldt_entry_def layout_eval layout_simps)

definition struct_trace_event_raw_xen_cpu_write_idt_entry :: ctype where
  "struct_trace_event_raw_xen_cpu_write_idt_entry =
     Composite Struct False
     [Member ''ent'' struct_trace_entry,
      Member ''dt'' (Pointer (Named Typedef_name ''gate_desc'')),
      Member ''entrynum'' (Scalar Int32),
      Member ''__data'' (Array (Scalar Char8) 0)]"

lemma struct_trace_event_raw_xen_cpu_write_idt_entry_layout [layout_simps]:
  "wf_type struct_trace_event_raw_xen_cpu_write_idt_entry" "shape struct_trace_event_raw_xen_cpu_write_idt_entry = (24, 8)"
  by (simp_all del: One_nat_def add: struct_trace_event_raw_xen_cpu_write_idt_entry_def layout_eval layout_simps)

definition struct_trace_event_raw_xen_cpu_load_idt :: ctype where
  "struct_trace_event_raw_xen_cpu_load_idt =
     Composite Struct False
     [Member ''ent'' struct_trace_entry,
      Member ''addr'' (Scalar ULong64),
      Member ''__data'' (Array (Scalar Char8) 0)]"

lemma struct_trace_event_raw_xen_cpu_load_idt_layout [layout_simps]:
  "wf_type struct_trace_event_raw_xen_cpu_load_idt" "shape struct_trace_event_raw_xen_cpu_load_idt = (16, 8)"
  by (simp_all del: One_nat_def add: struct_trace_event_raw_xen_cpu_load_idt_def layout_eval layout_simps)

definition struct_trace_event_raw_xen_cpu_write_gdt_entry :: ctype where
  "struct_trace_event_raw_xen_cpu_write_gdt_entry =
     Composite Struct False
     [Member ''ent'' struct_trace_entry,
      Member ''desc'' typedef_u64,
      Member ''dt'' (Pointer (Named Struct_name ''desc_struct'')),
      Member ''entrynum'' (Scalar Int32),
      Member ''type'' (Scalar Int32),
      Member ''__data'' (Array (Scalar Char8) 0)]"

lemma struct_trace_event_raw_xen_cpu_write_gdt_entry_layout [layout_simps]:
  "wf_type struct_trace_event_raw_xen_cpu_write_gdt_entry" "shape struct_trace_event_raw_xen_cpu_write_gdt_entry = (32, 8)"
  by (simp_all del: One_nat_def add: struct_trace_event_raw_xen_cpu_write_gdt_entry_def layout_eval layout_simps)

definition struct_trace_event_raw_xen_cpu_set_ldt :: ctype where
  "struct_trace_event_raw_xen_cpu_set_ldt =
     Composite Struct False
     [Member ''ent'' struct_trace_entry,
      Member ''addr'' (Pointer Void),
      Member ''entries'' (Scalar UInt32),
      Member ''__data'' (Array (Scalar Char8) 0)]"

lemma struct_trace_event_raw_xen_cpu_set_ldt_layout [layout_simps]:
  "wf_type struct_trace_event_raw_xen_cpu_set_ldt" "shape struct_trace_event_raw_xen_cpu_set_ldt = (24, 8)"
  by (simp_all del: One_nat_def add: struct_trace_event_raw_xen_cpu_set_ldt_def layout_eval layout_simps)

definition struct_trace_event_raw_x86_irq_vector :: ctype where
  "struct_trace_event_raw_x86_irq_vector =
     Composite Struct False
     [Member ''ent'' struct_trace_entry,
      Member ''vector'' (Scalar Int32),
      Member ''__data'' (Array (Scalar Char8) 0)]"

lemma struct_trace_event_raw_x86_irq_vector_layout [layout_simps]:
  "wf_type struct_trace_event_raw_x86_irq_vector" "shape struct_trace_event_raw_x86_irq_vector = (12, 4)"
  by (simp_all del: One_nat_def add: struct_trace_event_raw_x86_irq_vector_def layout_eval layout_simps)

definition struct_trace_event_raw_vector_config :: ctype where
  "struct_trace_event_raw_vector_config =
     Composite Struct False
     [Member ''ent'' struct_trace_entry,
      Member ''irq'' (Scalar UInt32),
      Member ''vector'' (Scalar UInt32),
      Member ''cpu'' (Scalar UInt32),
      Member ''apicdest'' (Scalar UInt32),
      Member ''__data'' (Array (Scalar Char8) 0)]"

lemma struct_trace_event_raw_vector_config_layout [layout_simps]:
  "wf_type struct_trace_event_raw_vector_config" "shape struct_trace_event_raw_vector_config = (24, 4)"
  by (simp_all del: One_nat_def add: struct_trace_event_raw_vector_config_def layout_eval layout_simps)

definition struct_trace_event_raw_vector_mod :: ctype where
  "struct_trace_event_raw_vector_mod =
     Composite Struct False
     [Member ''ent'' struct_trace_entry,
      Member ''irq'' (Scalar UInt32),
      Member ''vector'' (Scalar UInt32),
      Member ''cpu'' (Scalar UInt32),
      Member ''prev_vector'' (Scalar UInt32),
      Member ''prev_cpu'' (Scalar UInt32),
      Member ''__data'' (Array (Scalar Char8) 0)]"

lemma struct_trace_event_raw_vector_mod_layout [layout_simps]:
  "wf_type struct_trace_event_raw_vector_mod" "shape struct_trace_event_raw_vector_mod = (28, 4)"
  by (simp_all del: One_nat_def add: struct_trace_event_raw_vector_mod_def layout_eval layout_simps)

definition struct_trace_event_raw_vector_reserve :: ctype where
  "struct_trace_event_raw_vector_reserve =
     Composite Struct False
     [Member ''ent'' struct_trace_entry,
      Member ''irq'' (Scalar UInt32),
      Member ''ret'' (Scalar Int32),
      Member ''__data'' (Array (Scalar Char8) 0)]"

lemma struct_trace_event_raw_vector_reserve_layout [layout_simps]:
  "wf_type struct_trace_event_raw_vector_reserve" "shape struct_trace_event_raw_vector_reserve = (16, 4)"
  by (simp_all del: One_nat_def add: struct_trace_event_raw_vector_reserve_def layout_eval layout_simps)

definition struct_trace_event_raw_vector_alloc :: ctype where
  "struct_trace_event_raw_vector_alloc =
     Composite Struct False
     [Member ''ent'' struct_trace_entry,
      Member ''irq'' (Scalar UInt32),
      Member ''vector'' (Scalar UInt32),
      Member ''reserved'' typedef_bool,
      Member ''ret'' (Scalar Int32),
      Member ''__data'' (Array (Scalar Char8) 0)]"

lemma struct_trace_event_raw_vector_alloc_layout [layout_simps]:
  "wf_type struct_trace_event_raw_vector_alloc" "shape struct_trace_event_raw_vector_alloc = (24, 4)"
  by (simp_all del: One_nat_def add: struct_trace_event_raw_vector_alloc_def layout_eval layout_simps)

definition struct_trace_event_raw_vector_alloc_managed :: ctype where
  "struct_trace_event_raw_vector_alloc_managed =
     Composite Struct False
     [Member ''ent'' struct_trace_entry,
      Member ''irq'' (Scalar UInt32),
      Member ''vector'' (Scalar UInt32),
      Member ''ret'' (Scalar Int32),
      Member ''__data'' (Array (Scalar Char8) 0)]"

lemma struct_trace_event_raw_vector_alloc_managed_layout [layout_simps]:
  "wf_type struct_trace_event_raw_vector_alloc_managed" "shape struct_trace_event_raw_vector_alloc_managed = (20, 4)"
  by (simp_all del: One_nat_def add: struct_trace_event_raw_vector_alloc_managed_def layout_eval layout_simps)

definition struct_trace_event_raw_vector_activate :: ctype where
  "struct_trace_event_raw_vector_activate =
     Composite Struct False
     [Member ''ent'' struct_trace_entry,
      Member ''irq'' (Scalar UInt32),
      Member ''is_managed'' typedef_bool,
      Member ''can_reserve'' typedef_bool,
      Member ''reserve'' typedef_bool,
      Member ''__data'' (Array (Scalar Char8) 0)]"

lemma struct_trace_event_raw_vector_activate_layout [layout_simps]:
  "wf_type struct_trace_event_raw_vector_activate" "shape struct_trace_event_raw_vector_activate = (16, 4)"
  by (simp_all del: One_nat_def add: struct_trace_event_raw_vector_activate_def layout_eval layout_simps)

definition struct_trace_event_raw_vector_teardown :: ctype where
  "struct_trace_event_raw_vector_teardown =
     Composite Struct False
     [Member ''ent'' struct_trace_entry,
      Member ''irq'' (Scalar UInt32),
      Member ''is_managed'' typedef_bool,
      Member ''has_reserved'' typedef_bool,
      Member ''__data'' (Array (Scalar Char8) 0)]"

lemma struct_trace_event_raw_vector_teardown_layout [layout_simps]:
  "wf_type struct_trace_event_raw_vector_teardown" "shape struct_trace_event_raw_vector_teardown = (16, 4)"
  by (simp_all del: One_nat_def add: struct_trace_event_raw_vector_teardown_def layout_eval layout_simps)

definition struct_trace_event_raw_vector_setup :: ctype where
  "struct_trace_event_raw_vector_setup =
     Composite Struct False
     [Member ''ent'' struct_trace_entry,
      Member ''irq'' (Scalar UInt32),
      Member ''is_legacy'' typedef_bool,
      Member ''ret'' (Scalar Int32),
      Member ''__data'' (Array (Scalar Char8) 0)]"

lemma struct_trace_event_raw_vector_setup_layout [layout_simps]:
  "wf_type struct_trace_event_raw_vector_setup" "shape struct_trace_event_raw_vector_setup = (20, 4)"
  by (simp_all del: One_nat_def add: struct_trace_event_raw_vector_setup_def layout_eval layout_simps)

definition struct_trace_event_raw_vector_free_moved :: ctype where
  "struct_trace_event_raw_vector_free_moved =
     Composite Struct False
     [Member ''ent'' struct_trace_entry,
      Member ''irq'' (Scalar UInt32),
      Member ''cpu'' (Scalar UInt32),
      Member ''vector'' (Scalar UInt32),
      Member ''is_managed'' typedef_bool,
      Member ''__data'' (Array (Scalar Char8) 0)]"

lemma struct_trace_event_raw_vector_free_moved_layout [layout_simps]:
  "wf_type struct_trace_event_raw_vector_free_moved" "shape struct_trace_event_raw_vector_free_moved = (24, 4)"
  by (simp_all del: One_nat_def add: struct_trace_event_raw_vector_free_moved_def layout_eval layout_simps)

definition struct_trace_event_raw_pseudo_lock_mem_latency :: ctype where
  "struct_trace_event_raw_pseudo_lock_mem_latency =
     Composite Struct False
     [Member ''ent'' struct_trace_entry,
      Member ''latency'' typedef_u32,
      Member ''__data'' (Array (Scalar Char8) 0)]"

lemma struct_trace_event_raw_pseudo_lock_mem_latency_layout [layout_simps]:
  "wf_type struct_trace_event_raw_pseudo_lock_mem_latency" "shape struct_trace_event_raw_pseudo_lock_mem_latency = (12, 4)"
  by (simp_all del: One_nat_def add: struct_trace_event_raw_pseudo_lock_mem_latency_def layout_eval layout_simps)

definition struct_trace_event_raw_softirq :: ctype where
  "struct_trace_event_raw_softirq =
     Composite Struct False
     [Member ''ent'' struct_trace_entry,
      Member ''vec'' (Scalar UInt32),
      Member ''__data'' (Array (Scalar Char8) 0)]"

lemma struct_trace_event_raw_softirq_layout [layout_simps]:
  "wf_type struct_trace_event_raw_softirq" "shape struct_trace_event_raw_softirq = (12, 4)"
  by (simp_all del: One_nat_def add: struct_trace_event_raw_softirq_def layout_eval layout_simps)

definition struct_trace_event_raw_tasklet :: ctype where
  "struct_trace_event_raw_tasklet =
     Composite Struct False
     [Member ''ent'' struct_trace_entry,
      Member ''tasklet'' (Pointer Void),
      Member ''func'' (Pointer Void),
      Member ''__data'' (Array (Scalar Char8) 0)]"

lemma struct_trace_event_raw_tasklet_layout [layout_simps]:
  "wf_type struct_trace_event_raw_tasklet" "shape struct_trace_event_raw_tasklet = (24, 8)"
  by (simp_all del: One_nat_def add: struct_trace_event_raw_tasklet_def layout_eval layout_simps)

definition struct_trace_event_raw_sched_kthread_stop :: ctype where
  "struct_trace_event_raw_sched_kthread_stop =
     Composite Struct False
     [Member ''ent'' struct_trace_entry,
      Member ''comm'' (Array (Scalar Char8) 16),
      Member ''pid'' typedef_pid_t,
      Member ''__data'' (Array (Scalar Char8) 0)]"

lemma struct_trace_event_raw_sched_kthread_stop_layout [layout_simps]:
  "wf_type struct_trace_event_raw_sched_kthread_stop" "shape struct_trace_event_raw_sched_kthread_stop = (28, 4)"
  by (simp_all del: One_nat_def add: struct_trace_event_raw_sched_kthread_stop_def layout_eval layout_simps)

definition struct_trace_event_raw_sched_kthread_stop_ret :: ctype where
  "struct_trace_event_raw_sched_kthread_stop_ret =
     Composite Struct False
     [Member ''ent'' struct_trace_entry,
      Member ''ret'' (Scalar Int32),
      Member ''__data'' (Array (Scalar Char8) 0)]"

lemma struct_trace_event_raw_sched_kthread_stop_ret_layout [layout_simps]:
  "wf_type struct_trace_event_raw_sched_kthread_stop_ret" "shape struct_trace_event_raw_sched_kthread_stop_ret = (12, 4)"
  by (simp_all del: One_nat_def add: struct_trace_event_raw_sched_kthread_stop_ret_def layout_eval layout_simps)

definition struct_trace_event_raw_sched_kthread_work_queue_work :: ctype where
  "struct_trace_event_raw_sched_kthread_work_queue_work =
     Composite Struct False
     [Member ''ent'' struct_trace_entry,
      Member ''work'' (Pointer Void),
      Member ''function'' (Pointer Void),
      Member ''worker'' (Pointer Void),
      Member ''__data'' (Array (Scalar Char8) 0)]"

lemma struct_trace_event_raw_sched_kthread_work_queue_work_layout [layout_simps]:
  "wf_type struct_trace_event_raw_sched_kthread_work_queue_work" "shape struct_trace_event_raw_sched_kthread_work_queue_work = (32, 8)"
  by (simp_all del: One_nat_def add: struct_trace_event_raw_sched_kthread_work_queue_work_def layout_eval layout_simps)

definition struct_trace_event_raw_sched_kthread_work_execute_start :: ctype where
  "struct_trace_event_raw_sched_kthread_work_execute_start =
     Composite Struct False
     [Member ''ent'' struct_trace_entry,
      Member ''work'' (Pointer Void),
      Member ''function'' (Pointer Void),
      Member ''__data'' (Array (Scalar Char8) 0)]"

lemma struct_trace_event_raw_sched_kthread_work_execute_start_layout [layout_simps]:
  "wf_type struct_trace_event_raw_sched_kthread_work_execute_start" "shape struct_trace_event_raw_sched_kthread_work_execute_start = (24, 8)"
  by (simp_all del: One_nat_def add: struct_trace_event_raw_sched_kthread_work_execute_start_def layout_eval layout_simps)

definition struct_trace_event_raw_sched_kthread_work_execute_end :: ctype where
  "struct_trace_event_raw_sched_kthread_work_execute_end =
     Composite Struct False
     [Member ''ent'' struct_trace_entry,
      Member ''work'' (Pointer Void),
      Member ''function'' (Pointer Void),
      Member ''__data'' (Array (Scalar Char8) 0)]"

lemma struct_trace_event_raw_sched_kthread_work_execute_end_layout [layout_simps]:
  "wf_type struct_trace_event_raw_sched_kthread_work_execute_end" "shape struct_trace_event_raw_sched_kthread_work_execute_end = (24, 8)"
  by (simp_all del: One_nat_def add: struct_trace_event_raw_sched_kthread_work_execute_end_def layout_eval layout_simps)

definition struct_trace_event_raw_sched_wakeup_template :: ctype where
  "struct_trace_event_raw_sched_wakeup_template =
     Composite Struct False
     [Member ''ent'' struct_trace_entry,
      Member ''comm'' (Array (Scalar Char8) 16),
      Member ''pid'' typedef_pid_t,
      Member ''prio'' (Scalar Int32),
      Member ''target_cpu'' (Scalar Int32),
      Member ''__data'' (Array (Scalar Char8) 0)]"

lemma struct_trace_event_raw_sched_wakeup_template_layout [layout_simps]:
  "wf_type struct_trace_event_raw_sched_wakeup_template" "shape struct_trace_event_raw_sched_wakeup_template = (36, 4)"
  by (simp_all del: One_nat_def add: struct_trace_event_raw_sched_wakeup_template_def layout_eval layout_simps)

definition struct_trace_event_raw_sched_switch :: ctype where
  "struct_trace_event_raw_sched_switch =
     Composite Struct False
     [Member ''ent'' struct_trace_entry,
      Member ''prev_comm'' (Array (Scalar Char8) 16),
      Member ''prev_pid'' typedef_pid_t,
      Member ''prev_prio'' (Scalar Int32),
      Member ''prev_state'' (Scalar Long64),
      Member ''next_comm'' (Array (Scalar Char8) 16),
      Member ''next_pid'' typedef_pid_t,
      Member ''next_prio'' (Scalar Int32),
      Member ''__data'' (Array (Scalar Char8) 0)]"

lemma struct_trace_event_raw_sched_switch_layout [layout_simps]:
  "wf_type struct_trace_event_raw_sched_switch" "shape struct_trace_event_raw_sched_switch = (64, 8)"
  by (simp_all del: One_nat_def add: struct_trace_event_raw_sched_switch_def layout_eval layout_simps)

definition struct_trace_event_raw_sched_migrate_task :: ctype where
  "struct_trace_event_raw_sched_migrate_task =
     Composite Struct False
     [Member ''ent'' struct_trace_entry,
      Member ''comm'' (Array (Scalar Char8) 16),
      Member ''pid'' typedef_pid_t,
      Member ''prio'' (Scalar Int32),
      Member ''orig_cpu'' (Scalar Int32),
      Member ''dest_cpu'' (Scalar Int32),
      Member ''__data'' (Array (Scalar Char8) 0)]"

lemma struct_trace_event_raw_sched_migrate_task_layout [layout_simps]:
  "wf_type struct_trace_event_raw_sched_migrate_task" "shape struct_trace_event_raw_sched_migrate_task = (40, 4)"
  by (simp_all del: One_nat_def add: struct_trace_event_raw_sched_migrate_task_def layout_eval layout_simps)

definition struct_trace_event_raw_sched_process_template :: ctype where
  "struct_trace_event_raw_sched_process_template =
     Composite Struct False
     [Member ''ent'' struct_trace_entry,
      Member ''comm'' (Array (Scalar Char8) 16),
      Member ''pid'' typedef_pid_t,
      Member ''prio'' (Scalar Int32),
      Member ''__data'' (Array (Scalar Char8) 0)]"

lemma struct_trace_event_raw_sched_process_template_layout [layout_simps]:
  "wf_type struct_trace_event_raw_sched_process_template" "shape struct_trace_event_raw_sched_process_template = (32, 4)"
  by (simp_all del: One_nat_def add: struct_trace_event_raw_sched_process_template_def layout_eval layout_simps)

definition struct_trace_event_raw_sched_process_wait :: ctype where
  "struct_trace_event_raw_sched_process_wait =
     Composite Struct False
     [Member ''ent'' struct_trace_entry,
      Member ''comm'' (Array (Scalar Char8) 16),
      Member ''pid'' typedef_pid_t,
      Member ''prio'' (Scalar Int32),
      Member ''__data'' (Array (Scalar Char8) 0)]"

lemma struct_trace_event_raw_sched_process_wait_layout [layout_simps]:
  "wf_type struct_trace_event_raw_sched_process_wait" "shape struct_trace_event_raw_sched_process_wait = (32, 4)"
  by (simp_all del: One_nat_def add: struct_trace_event_raw_sched_process_wait_def layout_eval layout_simps)

definition struct_trace_event_raw_sched_process_fork :: ctype where
  "struct_trace_event_raw_sched_process_fork =
     Composite Struct False
     [Member ''ent'' struct_trace_entry,
      Member ''parent_comm'' (Array (Scalar Char8) 16),
      Member ''parent_pid'' typedef_pid_t,
      Member ''child_comm'' (Array (Scalar Char8) 16),
      Member ''child_pid'' typedef_pid_t,
      Member ''__data'' (Array (Scalar Char8) 0)]"

lemma struct_trace_event_raw_sched_process_fork_layout [layout_simps]:
  "wf_type struct_trace_event_raw_sched_process_fork" "shape struct_trace_event_raw_sched_process_fork = (48, 4)"
  by (simp_all del: One_nat_def add: struct_trace_event_raw_sched_process_fork_def layout_eval layout_simps)

definition struct_trace_event_raw_sched_process_exec :: ctype where
  "struct_trace_event_raw_sched_process_exec =
     Composite Struct False
     [Member ''ent'' struct_trace_entry,
      Member ''__data_loc_filename'' typedef_u32,
      Member ''pid'' typedef_pid_t,
      Member ''old_pid'' typedef_pid_t,
      Member ''__data'' (Array (Scalar Char8) 0)]"

lemma struct_trace_event_raw_sched_process_exec_layout [layout_simps]:
  "wf_type struct_trace_event_raw_sched_process_exec" "shape struct_trace_event_raw_sched_process_exec = (20, 4)"
  by (simp_all del: One_nat_def add: struct_trace_event_raw_sched_process_exec_def layout_eval layout_simps)

definition struct_trace_event_raw_sched_stat_template :: ctype where
  "struct_trace_event_raw_sched_stat_template =
     Composite Struct False
     [Member ''ent'' struct_trace_entry,
      Member ''comm'' (Array (Scalar Char8) 16),
      Member ''pid'' typedef_pid_t,
      Member ''delay'' typedef_u64,
      Member ''__data'' (Array (Scalar Char8) 0)]"

lemma struct_trace_event_raw_sched_stat_template_layout [layout_simps]:
  "wf_type struct_trace_event_raw_sched_stat_template" "shape struct_trace_event_raw_sched_stat_template = (40, 8)"
  by (simp_all del: One_nat_def add: struct_trace_event_raw_sched_stat_template_def layout_eval layout_simps)

definition struct_trace_event_raw_sched_stat_runtime :: ctype where
  "struct_trace_event_raw_sched_stat_runtime =
     Composite Struct False
     [Member ''ent'' struct_trace_entry,
      Member ''comm'' (Array (Scalar Char8) 16),
      Member ''pid'' typedef_pid_t,
      Member ''runtime'' typedef_u64,
      Member ''__data'' (Array (Scalar Char8) 0)]"

lemma struct_trace_event_raw_sched_stat_runtime_layout [layout_simps]:
  "wf_type struct_trace_event_raw_sched_stat_runtime" "shape struct_trace_event_raw_sched_stat_runtime = (40, 8)"
  by (simp_all del: One_nat_def add: struct_trace_event_raw_sched_stat_runtime_def layout_eval layout_simps)

definition struct_trace_event_raw_sched_pi_setprio :: ctype where
  "struct_trace_event_raw_sched_pi_setprio =
     Composite Struct False
     [Member ''ent'' struct_trace_entry,
      Member ''comm'' (Array (Scalar Char8) 16),
      Member ''pid'' typedef_pid_t,
      Member ''oldprio'' (Scalar Int32),
      Member ''newprio'' (Scalar Int32),
      Member ''__data'' (Array (Scalar Char8) 0)]"

lemma struct_trace_event_raw_sched_pi_setprio_layout [layout_simps]:
  "wf_type struct_trace_event_raw_sched_pi_setprio" "shape struct_trace_event_raw_sched_pi_setprio = (36, 4)"
  by (simp_all del: One_nat_def add: struct_trace_event_raw_sched_pi_setprio_def layout_eval layout_simps)

definition struct_trace_event_raw_sched_process_hang :: ctype where
  "struct_trace_event_raw_sched_process_hang =
     Composite Struct False
     [Member ''ent'' struct_trace_entry,
      Member ''comm'' (Array (Scalar Char8) 16),
      Member ''pid'' typedef_pid_t,
      Member ''__data'' (Array (Scalar Char8) 0)]"

lemma struct_trace_event_raw_sched_process_hang_layout [layout_simps]:
  "wf_type struct_trace_event_raw_sched_process_hang" "shape struct_trace_event_raw_sched_process_hang = (28, 4)"
  by (simp_all del: One_nat_def add: struct_trace_event_raw_sched_process_hang_def layout_eval layout_simps)

definition struct_trace_event_raw_sched_move_numa :: ctype where
  "struct_trace_event_raw_sched_move_numa =
     Composite Struct False
     [Member ''ent'' struct_trace_entry,
      Member ''pid'' typedef_pid_t,
      Member ''tgid'' typedef_pid_t,
      Member ''ngid'' typedef_pid_t,
      Member ''src_cpu'' (Scalar Int32),
      Member ''src_nid'' (Scalar Int32),
      Member ''dst_cpu'' (Scalar Int32),
      Member ''dst_nid'' (Scalar Int32),
      Member ''__data'' (Array (Scalar Char8) 0)]"

lemma struct_trace_event_raw_sched_move_numa_layout [layout_simps]:
  "wf_type struct_trace_event_raw_sched_move_numa" "shape struct_trace_event_raw_sched_move_numa = (36, 4)"
  by (simp_all del: One_nat_def add: struct_trace_event_raw_sched_move_numa_def layout_eval layout_simps)

definition struct_trace_event_raw_sched_numa_pair_template :: ctype where
  "struct_trace_event_raw_sched_numa_pair_template =
     Composite Struct False
     [Member ''ent'' struct_trace_entry,
      Member ''src_pid'' typedef_pid_t,
      Member ''src_tgid'' typedef_pid_t,
      Member ''src_ngid'' typedef_pid_t,
      Member ''src_cpu'' (Scalar Int32),
      Member ''src_nid'' (Scalar Int32),
      Member ''dst_pid'' typedef_pid_t,
      Member ''dst_tgid'' typedef_pid_t,
      Member ''dst_ngid'' typedef_pid_t,
      Member ''dst_cpu'' (Scalar Int32),
      Member ''dst_nid'' (Scalar Int32),
      Member ''__data'' (Array (Scalar Char8) 0)]"

lemma struct_trace_event_raw_sched_numa_pair_template_layout [layout_simps]:
  "wf_type struct_trace_event_raw_sched_numa_pair_template" "shape struct_trace_event_raw_sched_numa_pair_template = (48, 4)"
  by (simp_all del: One_nat_def add: struct_trace_event_raw_sched_numa_pair_template_def layout_eval layout_simps)

definition struct_trace_event_raw_sched_skip_vma_numa :: ctype where
  "struct_trace_event_raw_sched_skip_vma_numa =
     Composite Struct False
     [Member ''ent'' struct_trace_entry,
      Member ''numa_scan_offset'' (Scalar ULong64),
      Member ''vm_start'' (Scalar ULong64),
      Member ''vm_end'' (Scalar ULong64),
      Member ''reason'' enum_numa_vmaskip_reason,
      Member ''__data'' (Array (Scalar Char8) 0)]"

lemma struct_trace_event_raw_sched_skip_vma_numa_layout [layout_simps]:
  "wf_type struct_trace_event_raw_sched_skip_vma_numa" "shape struct_trace_event_raw_sched_skip_vma_numa = (40, 8)"
  by (simp_all del: One_nat_def add: struct_trace_event_raw_sched_skip_vma_numa_def layout_eval layout_simps)

definition struct_trace_event_raw_sched_wake_idle_without_ipi :: ctype where
  "struct_trace_event_raw_sched_wake_idle_without_ipi =
     Composite Struct False
     [Member ''ent'' struct_trace_entry,
      Member ''cpu'' (Scalar Int32),
      Member ''__data'' (Array (Scalar Char8) 0)]"

lemma struct_trace_event_raw_sched_wake_idle_without_ipi_layout [layout_simps]:
  "wf_type struct_trace_event_raw_sched_wake_idle_without_ipi" "shape struct_trace_event_raw_sched_wake_idle_without_ipi = (12, 4)"
  by (simp_all del: One_nat_def add: struct_trace_event_raw_sched_wake_idle_without_ipi_def layout_eval layout_simps)

definition struct_trace_event_raw_thread_noise :: ctype where
  "struct_trace_event_raw_thread_noise =
     Composite Struct False
     [Member ''ent'' struct_trace_entry,
      Member ''comm'' (Array (Scalar Char8) 16),
      Member ''start'' typedef_u64,
      Member ''duration'' typedef_u64,
      Member ''pid'' typedef_pid_t,
      Member ''__data'' (Array (Scalar Char8) 0)]"

lemma struct_trace_event_raw_thread_noise_layout [layout_simps]:
  "wf_type struct_trace_event_raw_thread_noise" "shape struct_trace_event_raw_thread_noise = (48, 8)"
  by (simp_all del: One_nat_def add: struct_trace_event_raw_thread_noise_def layout_eval layout_simps)

definition struct_trace_event_raw_softirq_noise :: ctype where
  "struct_trace_event_raw_softirq_noise =
     Composite Struct False
     [Member ''ent'' struct_trace_entry,
      Member ''start'' typedef_u64,
      Member ''duration'' typedef_u64,
      Member ''vector'' (Scalar Int32),
      Member ''__data'' (Array (Scalar Char8) 0)]"

lemma struct_trace_event_raw_softirq_noise_layout [layout_simps]:
  "wf_type struct_trace_event_raw_softirq_noise" "shape struct_trace_event_raw_softirq_noise = (32, 8)"
  by (simp_all del: One_nat_def add: struct_trace_event_raw_softirq_noise_def layout_eval layout_simps)

definition struct_trace_event_raw_sample_threshold :: ctype where
  "struct_trace_event_raw_sample_threshold =
     Composite Struct False
     [Member ''ent'' struct_trace_entry,
      Member ''start'' typedef_u64,
      Member ''duration'' typedef_u64,
      Member ''interference'' typedef_u64,
      Member ''__data'' (Array (Scalar Char8) 0)]"

lemma struct_trace_event_raw_sample_threshold_layout [layout_simps]:
  "wf_type struct_trace_event_raw_sample_threshold" "shape struct_trace_event_raw_sample_threshold = (32, 8)"
  by (simp_all del: One_nat_def add: struct_trace_event_raw_sample_threshold_def layout_eval layout_simps)

definition struct_trace_event_raw_rpm_internal :: ctype where
  "struct_trace_event_raw_rpm_internal =
     Composite Struct False
     [Member ''ent'' struct_trace_entry,
      Member ''__data_loc_name'' typedef_u32,
      Member ''flags'' (Scalar Int32),
      Member ''usage_count'' (Scalar Int32),
      Member ''disable_depth'' (Scalar Int32),
      Member ''runtime_auto'' (Scalar Int32),
      Member ''request_pending'' (Scalar Int32),
      Member ''irq_safe'' (Scalar Int32),
      Member ''child_count'' (Scalar Int32),
      Member ''__data'' (Array (Scalar Char8) 0)]"

lemma struct_trace_event_raw_rpm_internal_layout [layout_simps]:
  "wf_type struct_trace_event_raw_rpm_internal" "shape struct_trace_event_raw_rpm_internal = (40, 4)"
  by (simp_all del: One_nat_def add: struct_trace_event_raw_rpm_internal_def layout_eval layout_simps)

definition struct_trace_event_raw_rpm_return_int :: ctype where
  "struct_trace_event_raw_rpm_return_int =
     Composite Struct False
     [Member ''ent'' struct_trace_entry,
      Member ''__data_loc_name'' typedef_u32,
      Member ''ip'' (Scalar ULong64),
      Member ''ret'' (Scalar Int32),
      Member ''__data'' (Array (Scalar Char8) 0)]"

lemma struct_trace_event_raw_rpm_return_int_layout [layout_simps]:
  "wf_type struct_trace_event_raw_rpm_return_int" "shape struct_trace_event_raw_rpm_return_int = (32, 8)"
  by (simp_all del: One_nat_def add: struct_trace_event_raw_rpm_return_int_def layout_eval layout_simps)

definition struct_trace_event_raw_rss_stat :: ctype where
  "struct_trace_event_raw_rss_stat =
     Composite Struct False
     [Member ''ent'' struct_trace_entry,
      Member ''mm_id'' (Scalar UInt32),
      Member ''curr'' (Scalar UInt32),
      Member ''member'' (Scalar Int32),
      Member ''size'' (Scalar Long64),
      Member ''__data'' (Array (Scalar Char8) 0)]"

lemma struct_trace_event_raw_rss_stat_layout [layout_simps]:
  "wf_type struct_trace_event_raw_rss_stat" "shape struct_trace_event_raw_rss_stat = (32, 8)"
  by (simp_all del: One_nat_def add: struct_trace_event_raw_rss_stat_def layout_eval layout_simps)

definition struct_trace_event_raw_smbus_write :: ctype where
  "struct_trace_event_raw_smbus_write =
     Composite Struct False
     [Member ''ent'' struct_trace_entry,
      Member ''adapter_nr'' (Scalar Int32),
      Member ''addr'' typedef___u16,
      Member ''flags'' typedef___u16,
      Member ''command'' typedef___u8,
      Member ''len'' typedef___u8,
      Member ''protocol'' typedef___u32,
      Member ''buf'' (Array typedef___u8 34),
      Member ''__data'' (Array (Scalar Char8) 0)]"

lemma struct_trace_event_raw_smbus_write_layout [layout_simps]:
  "wf_type struct_trace_event_raw_smbus_write" "shape struct_trace_event_raw_smbus_write = (60, 4)"
  by (simp_all del: One_nat_def add: struct_trace_event_raw_smbus_write_def layout_eval layout_simps)

definition struct_trace_event_raw_smbus_read :: ctype where
  "struct_trace_event_raw_smbus_read =
     Composite Struct False
     [Member ''ent'' struct_trace_entry,
      Member ''adapter_nr'' (Scalar Int32),
      Member ''flags'' typedef___u16,
      Member ''addr'' typedef___u16,
      Member ''command'' typedef___u8,
      Member ''protocol'' typedef___u32,
      Member ''buf'' (Array typedef___u8 34),
      Member ''__data'' (Array (Scalar Char8) 0)]"

lemma struct_trace_event_raw_smbus_read_layout [layout_simps]:
  "wf_type struct_trace_event_raw_smbus_read" "shape struct_trace_event_raw_smbus_read = (60, 4)"
  by (simp_all del: One_nat_def add: struct_trace_event_raw_smbus_read_def layout_eval layout_simps)

definition struct_trace_event_raw_smbus_reply :: ctype where
  "struct_trace_event_raw_smbus_reply =
     Composite Struct False
     [Member ''ent'' struct_trace_entry,
      Member ''adapter_nr'' (Scalar Int32),
      Member ''addr'' typedef___u16,
      Member ''flags'' typedef___u16,
      Member ''command'' typedef___u8,
      Member ''len'' typedef___u8,
      Member ''protocol'' typedef___u32,
      Member ''buf'' (Array typedef___u8 34),
      Member ''__data'' (Array (Scalar Char8) 0)]"

lemma struct_trace_event_raw_smbus_reply_layout [layout_simps]:
  "wf_type struct_trace_event_raw_smbus_reply" "shape struct_trace_event_raw_smbus_reply = (60, 4)"
  by (simp_all del: One_nat_def add: struct_trace_event_raw_smbus_reply_def layout_eval layout_simps)

definition struct_trace_event_raw_smbus_result :: ctype where
  "struct_trace_event_raw_smbus_result =
     Composite Struct False
     [Member ''ent'' struct_trace_entry,
      Member ''adapter_nr'' (Scalar Int32),
      Member ''addr'' typedef___u16,
      Member ''flags'' typedef___u16,
      Member ''read_write'' typedef___u8,
      Member ''command'' typedef___u8,
      Member ''res'' typedef___s16,
      Member ''protocol'' typedef___u32,
      Member ''__data'' (Array (Scalar Char8) 0)]"

lemma struct_trace_event_raw_smbus_result_layout [layout_simps]:
  "wf_type struct_trace_event_raw_smbus_result" "shape struct_trace_event_raw_smbus_result = (24, 4)"
  by (simp_all del: One_nat_def add: struct_trace_event_raw_smbus_result_def layout_eval layout_simps)

definition struct_trace_event_raw_workqueue_queue_work :: ctype where
  "struct_trace_event_raw_workqueue_queue_work =
     Composite Struct False
     [Member ''ent'' struct_trace_entry,
      Member ''work'' (Pointer Void),
      Member ''function'' (Pointer Void),
      Member ''__data_loc_workqueue'' typedef_u32,
      Member ''req_cpu'' (Scalar Int32),
      Member ''cpu'' (Scalar Int32),
      Member ''__data'' (Array (Scalar Char8) 0)]"

lemma struct_trace_event_raw_workqueue_queue_work_layout [layout_simps]:
  "wf_type struct_trace_event_raw_workqueue_queue_work" "shape struct_trace_event_raw_workqueue_queue_work = (40, 8)"
  by (simp_all del: One_nat_def add: struct_trace_event_raw_workqueue_queue_work_def layout_eval layout_simps)

definition struct_trace_event_raw_workqueue_activate_work :: ctype where
  "struct_trace_event_raw_workqueue_activate_work =
     Composite Struct False
     [Member ''ent'' struct_trace_entry,
      Member ''work'' (Pointer Void),
      Member ''__data'' (Array (Scalar Char8) 0)]"

lemma struct_trace_event_raw_workqueue_activate_work_layout [layout_simps]:
  "wf_type struct_trace_event_raw_workqueue_activate_work" "shape struct_trace_event_raw_workqueue_activate_work = (16, 8)"
  by (simp_all del: One_nat_def add: struct_trace_event_raw_workqueue_activate_work_def layout_eval layout_simps)

definition struct_trace_event_raw_workqueue_execute_start :: ctype where
  "struct_trace_event_raw_workqueue_execute_start =
     Composite Struct False
     [Member ''ent'' struct_trace_entry,
      Member ''work'' (Pointer Void),
      Member ''function'' (Pointer Void),
      Member ''__data'' (Array (Scalar Char8) 0)]"

lemma struct_trace_event_raw_workqueue_execute_start_layout [layout_simps]:
  "wf_type struct_trace_event_raw_workqueue_execute_start" "shape struct_trace_event_raw_workqueue_execute_start = (24, 8)"
  by (simp_all del: One_nat_def add: struct_trace_event_raw_workqueue_execute_start_def layout_eval layout_simps)

definition struct_trace_event_raw_workqueue_execute_end :: ctype where
  "struct_trace_event_raw_workqueue_execute_end =
     Composite Struct False
     [Member ''ent'' struct_trace_entry,
      Member ''work'' (Pointer Void),
      Member ''function'' (Pointer Void),
      Member ''__data'' (Array (Scalar Char8) 0)]"

lemma struct_trace_event_raw_workqueue_execute_end_layout [layout_simps]:
  "wf_type struct_trace_event_raw_workqueue_execute_end" "shape struct_trace_event_raw_workqueue_execute_end = (24, 8)"
  by (simp_all del: One_nat_def add: struct_trace_event_raw_workqueue_execute_end_def layout_eval layout_simps)

definition struct_trace_event_raw_rcu_utilization :: ctype where
  "struct_trace_event_raw_rcu_utilization =
     Composite Struct False
     [Member ''ent'' struct_trace_entry,
      Member ''s'' (Pointer (Scalar Char8)),
      Member ''__data'' (Array (Scalar Char8) 0)]"

lemma struct_trace_event_raw_rcu_utilization_layout [layout_simps]:
  "wf_type struct_trace_event_raw_rcu_utilization" "shape struct_trace_event_raw_rcu_utilization = (16, 8)"
  by (simp_all del: One_nat_def add: struct_trace_event_raw_rcu_utilization_def layout_eval layout_simps)

definition struct_trace_event_raw_rcu_stall_warning :: ctype where
  "struct_trace_event_raw_rcu_stall_warning =
     Composite Struct False
     [Member ''ent'' struct_trace_entry,
      Member ''rcuname'' (Pointer (Scalar Char8)),
      Member ''msg'' (Pointer (Scalar Char8)),
      Member ''__data'' (Array (Scalar Char8) 0)]"

lemma struct_trace_event_raw_rcu_stall_warning_layout [layout_simps]:
  "wf_type struct_trace_event_raw_rcu_stall_warning" "shape struct_trace_event_raw_rcu_stall_warning = (24, 8)"
  by (simp_all del: One_nat_def add: struct_trace_event_raw_rcu_stall_warning_def layout_eval layout_simps)

definition struct_trace_event_raw_sys_enter :: ctype where
  "struct_trace_event_raw_sys_enter =
     Composite Struct False
     [Member ''ent'' struct_trace_entry,
      Member ''id'' (Scalar Long64),
      Member ''args'' (Array (Scalar ULong64) 6),
      Member ''__data'' (Array (Scalar Char8) 0)]"

lemma struct_trace_event_raw_sys_enter_layout [layout_simps]:
  "wf_type struct_trace_event_raw_sys_enter" "shape struct_trace_event_raw_sys_enter = (64, 8)"
  by (simp_all del: One_nat_def add: struct_trace_event_raw_sys_enter_def layout_eval layout_simps)

definition struct_trace_event_raw_sys_exit :: ctype where
  "struct_trace_event_raw_sys_exit =
     Composite Struct False
     [Member ''ent'' struct_trace_entry,
      Member ''id'' (Scalar Long64),
      Member ''ret'' (Scalar Long64),
      Member ''__data'' (Array (Scalar Char8) 0)]"

lemma struct_trace_event_raw_sys_exit_layout [layout_simps]:
  "wf_type struct_trace_event_raw_sys_exit" "shape struct_trace_event_raw_sys_exit = (24, 8)"
  by (simp_all del: One_nat_def add: struct_trace_event_raw_sys_exit_def layout_eval layout_simps)

definition struct_trace_event_raw_pstate_sample :: ctype where
  "struct_trace_event_raw_pstate_sample =
     Composite Struct False
     [Member ''ent'' struct_trace_entry,
      Member ''core_busy'' typedef_u32,
      Member ''scaled_busy'' typedef_u32,
      Member ''from'' typedef_u32,
      Member ''to'' typedef_u32,
      Member ''mperf'' typedef_u64,
      Member ''aperf'' typedef_u64,
      Member ''tsc'' typedef_u64,
      Member ''freq'' typedef_u32,
      Member ''io_boost'' typedef_u32,
      Member ''__data'' (Array (Scalar Char8) 0)]"

lemma struct_trace_event_raw_pstate_sample_layout [layout_simps]:
  "wf_type struct_trace_event_raw_pstate_sample" "shape struct_trace_event_raw_pstate_sample = (56, 8)"
  by (simp_all del: One_nat_def add: struct_trace_event_raw_pstate_sample_def layout_eval layout_simps)

definition struct_trace_event_raw_suspend_resume :: ctype where
  "struct_trace_event_raw_suspend_resume =
     Composite Struct False
     [Member ''ent'' struct_trace_entry,
      Member ''action'' (Pointer (Scalar Char8)),
      Member ''val'' (Scalar Int32),
      Member ''start'' typedef_bool,
      Member ''__data'' (Array (Scalar Char8) 0)]"

lemma struct_trace_event_raw_suspend_resume_layout [layout_simps]:
  "wf_type struct_trace_event_raw_suspend_resume" "shape struct_trace_event_raw_suspend_resume = (24, 8)"
  by (simp_all del: One_nat_def add: struct_trace_event_raw_suspend_resume_def layout_eval layout_simps)

definition struct_trace_event_raw_wakeup_source :: ctype where
  "struct_trace_event_raw_wakeup_source =
     Composite Struct False
     [Member ''ent'' struct_trace_entry,
      Member ''__data_loc_name'' typedef_u32,
      Member ''state'' typedef_u64,
      Member ''__data'' (Array (Scalar Char8) 0)]"

lemma struct_trace_event_raw_wakeup_source_layout [layout_simps]:
  "wf_type struct_trace_event_raw_wakeup_source" "shape struct_trace_event_raw_wakeup_source = (24, 8)"
  by (simp_all del: One_nat_def add: struct_trace_event_raw_wakeup_source_def layout_eval layout_simps)

definition struct_trace_event_raw_purge_vmap_area_lazy :: ctype where
  "struct_trace_event_raw_purge_vmap_area_lazy =
     Composite Struct False
     [Member ''ent'' struct_trace_entry,
      Member ''start'' (Scalar ULong64),
      Member ''end'' (Scalar ULong64),
      Member ''npurged'' (Scalar UInt32),
      Member ''__data'' (Array (Scalar Char8) 0)]"

lemma struct_trace_event_raw_purge_vmap_area_lazy_layout [layout_simps]:
  "wf_type struct_trace_event_raw_purge_vmap_area_lazy" "shape struct_trace_event_raw_purge_vmap_area_lazy = (32, 8)"
  by (simp_all del: One_nat_def add: struct_trace_event_raw_purge_vmap_area_lazy_def layout_eval layout_simps)

definition struct_trace_event_raw_test_pages_isolated :: ctype where
  "struct_trace_event_raw_test_pages_isolated =
     Composite Struct False
     [Member ''ent'' struct_trace_entry,
      Member ''start_pfn'' (Scalar ULong64),
      Member ''end_pfn'' (Scalar ULong64),
      Member ''fin_pfn'' (Scalar ULong64),
      Member ''__data'' (Array (Scalar Char8) 0)]"

lemma struct_trace_event_raw_test_pages_isolated_layout [layout_simps]:
  "wf_type struct_trace_event_raw_test_pages_isolated" "shape struct_trace_event_raw_test_pages_isolated = (32, 8)"
  by (simp_all del: One_nat_def add: struct_trace_event_raw_test_pages_isolated_def layout_eval layout_simps)

definition struct_trace_event_raw_writeback_folio_template :: ctype where
  "struct_trace_event_raw_writeback_folio_template =
     Composite Struct False
     [Member ''ent'' struct_trace_entry,
      Member ''name'' (Array (Scalar Char8) 32),
      Member ''ino'' typedef_ino_t,
      Member ''index'' (Scalar ULong64),
      Member ''__data'' (Array (Scalar Char8) 0)]"

lemma struct_trace_event_raw_writeback_folio_template_layout [layout_simps]:
  "wf_type struct_trace_event_raw_writeback_folio_template" "shape struct_trace_event_raw_writeback_folio_template = (56, 8)"
  by (simp_all del: One_nat_def add: struct_trace_event_raw_writeback_folio_template_def layout_eval layout_simps)

definition struct_trace_event_raw_writeback_dirty_inode_template :: ctype where
  "struct_trace_event_raw_writeback_dirty_inode_template =
     Composite Struct False
     [Member ''ent'' struct_trace_entry,
      Member ''name'' (Array (Scalar Char8) 32),
      Member ''ino'' typedef_ino_t,
      Member ''state'' (Scalar ULong64),
      Member ''flags'' (Scalar ULong64),
      Member ''__data'' (Array (Scalar Char8) 0)]"

lemma struct_trace_event_raw_writeback_dirty_inode_template_layout [layout_simps]:
  "wf_type struct_trace_event_raw_writeback_dirty_inode_template" "shape struct_trace_event_raw_writeback_dirty_inode_template = (64, 8)"
  by (simp_all del: One_nat_def add: struct_trace_event_raw_writeback_dirty_inode_template_def layout_eval layout_simps)

definition struct_trace_event_raw_track_foreign_dirty :: ctype where
  "struct_trace_event_raw_track_foreign_dirty =
     Composite Struct False
     [Member ''ent'' struct_trace_entry,
      Member ''name'' (Array (Scalar Char8) 32),
      Member ''bdi_id'' typedef_u64,
      Member ''ino'' typedef_ino_t,
      Member ''memcg_id'' (Scalar UInt32),
      Member ''cgroup_ino'' typedef_ino_t,
      Member ''page_cgroup_ino'' typedef_ino_t,
      Member ''__data'' (Array (Scalar Char8) 0)]"

lemma struct_trace_event_raw_track_foreign_dirty_layout [layout_simps]:
  "wf_type struct_trace_event_raw_track_foreign_dirty" "shape struct_trace_event_raw_track_foreign_dirty = (80, 8)"
  by (simp_all del: One_nat_def add: struct_trace_event_raw_track_foreign_dirty_def layout_eval layout_simps)

definition struct_trace_event_raw_writeback_write_inode_template :: ctype where
  "struct_trace_event_raw_writeback_write_inode_template =
     Composite Struct False
     [Member ''ent'' struct_trace_entry,
      Member ''name'' (Array (Scalar Char8) 32),
      Member ''ino'' typedef_ino_t,
      Member ''sync_mode'' (Scalar Int32),
      Member ''cgroup_ino'' typedef_ino_t,
      Member ''__data'' (Array (Scalar Char8) 0)]"

lemma struct_trace_event_raw_writeback_write_inode_template_layout [layout_simps]:
  "wf_type struct_trace_event_raw_writeback_write_inode_template" "shape struct_trace_event_raw_writeback_write_inode_template = (64, 8)"
  by (simp_all del: One_nat_def add: struct_trace_event_raw_writeback_write_inode_template_def layout_eval layout_simps)

definition struct_trace_event_raw_writeback_work_class :: ctype where
  "struct_trace_event_raw_writeback_work_class =
     Composite Struct False
     [Member ''ent'' struct_trace_entry,
      Member ''name'' (Array (Scalar Char8) 32),
      Member ''nr_pages'' (Scalar Long64),
      Member ''sb_dev'' typedef_dev_t,
      Member ''sync_mode'' (Scalar Int32),
      Member ''for_kupdate'' (Scalar Int32),
      Member ''range_cyclic'' (Scalar Int32),
      Member ''for_background'' (Scalar Int32),
      Member ''reason'' (Scalar Int32),
      Member ''cgroup_ino'' typedef_ino_t,
      Member ''__data'' (Array (Scalar Char8) 0)]"

lemma struct_trace_event_raw_writeback_work_class_layout [layout_simps]:
  "wf_type struct_trace_event_raw_writeback_work_class" "shape struct_trace_event_raw_writeback_work_class = (80, 8)"
  by (simp_all del: One_nat_def add: struct_trace_event_raw_writeback_work_class_def layout_eval layout_simps)

definition struct_trace_event_raw_writeback_pages_written :: ctype where
  "struct_trace_event_raw_writeback_pages_written =
     Composite Struct False
     [Member ''ent'' struct_trace_entry,
      Member ''pages'' (Scalar Long64),
      Member ''__data'' (Array (Scalar Char8) 0)]"

lemma struct_trace_event_raw_writeback_pages_written_layout [layout_simps]:
  "wf_type struct_trace_event_raw_writeback_pages_written" "shape struct_trace_event_raw_writeback_pages_written = (16, 8)"
  by (simp_all del: One_nat_def add: struct_trace_event_raw_writeback_pages_written_def layout_eval layout_simps)

definition struct_trace_event_raw_writeback_class :: ctype where
  "struct_trace_event_raw_writeback_class =
     Composite Struct False
     [Member ''ent'' struct_trace_entry,
      Member ''name'' (Array (Scalar Char8) 32),
      Member ''cgroup_ino'' typedef_ino_t,
      Member ''__data'' (Array (Scalar Char8) 0)]"

lemma struct_trace_event_raw_writeback_class_layout [layout_simps]:
  "wf_type struct_trace_event_raw_writeback_class" "shape struct_trace_event_raw_writeback_class = (48, 8)"
  by (simp_all del: One_nat_def add: struct_trace_event_raw_writeback_class_def layout_eval layout_simps)

definition struct_trace_event_raw_writeback_bdi_register :: ctype where
  "struct_trace_event_raw_writeback_bdi_register =
     Composite Struct False
     [Member ''ent'' struct_trace_entry,
      Member ''name'' (Array (Scalar Char8) 32),
      Member ''__data'' (Array (Scalar Char8) 0)]"

lemma struct_trace_event_raw_writeback_bdi_register_layout [layout_simps]:
  "wf_type struct_trace_event_raw_writeback_bdi_register" "shape struct_trace_event_raw_writeback_bdi_register = (40, 4)"
  by (simp_all del: One_nat_def add: struct_trace_event_raw_writeback_bdi_register_def layout_eval layout_simps)

definition struct_trace_event_raw_wbc_class :: ctype where
  "struct_trace_event_raw_wbc_class =
     Composite Struct False
     [Member ''ent'' struct_trace_entry,
      Member ''name'' (Array (Scalar Char8) 32),
      Member ''nr_to_write'' (Scalar Long64),
      Member ''pages_skipped'' (Scalar Long64),
      Member ''sync_mode'' (Scalar Int32),
      Member ''for_kupdate'' (Scalar Int32),
      Member ''for_background'' (Scalar Int32),
      Member ''for_reclaim'' (Scalar Int32),
      Member ''range_cyclic'' (Scalar Int32),
      Member ''range_start'' (Scalar Long64),
      Member ''range_end'' (Scalar Long64),
      Member ''cgroup_ino'' typedef_ino_t,
      Member ''__data'' (Array (Scalar Char8) 0)]"

lemma struct_trace_event_raw_wbc_class_layout [layout_simps]:
  "wf_type struct_trace_event_raw_wbc_class" "shape struct_trace_event_raw_wbc_class = (104, 8)"
  by (simp_all del: One_nat_def add: struct_trace_event_raw_wbc_class_def layout_eval layout_simps)

definition struct_trace_event_raw_writeback_queue_io :: ctype where
  "struct_trace_event_raw_writeback_queue_io =
     Composite Struct False
     [Member ''ent'' struct_trace_entry,
      Member ''name'' (Array (Scalar Char8) 32),
      Member ''older'' (Scalar ULong64),
      Member ''age'' (Scalar Long64),
      Member ''moved'' (Scalar Int32),
      Member ''reason'' (Scalar Int32),
      Member ''cgroup_ino'' typedef_ino_t,
      Member ''__data'' (Array (Scalar Char8) 0)]"

lemma struct_trace_event_raw_writeback_queue_io_layout [layout_simps]:
  "wf_type struct_trace_event_raw_writeback_queue_io" "shape struct_trace_event_raw_writeback_queue_io = (72, 8)"
  by (simp_all del: One_nat_def add: struct_trace_event_raw_writeback_queue_io_def layout_eval layout_simps)

definition struct_trace_event_raw_writeback_sb_inodes_requeue :: ctype where
  "struct_trace_event_raw_writeback_sb_inodes_requeue =
     Composite Struct False
     [Member ''ent'' struct_trace_entry,
      Member ''name'' (Array (Scalar Char8) 32),
      Member ''ino'' typedef_ino_t,
      Member ''state'' (Scalar ULong64),
      Member ''dirtied_when'' (Scalar ULong64),
      Member ''cgroup_ino'' typedef_ino_t,
      Member ''__data'' (Array (Scalar Char8) 0)]"

lemma struct_trace_event_raw_writeback_sb_inodes_requeue_layout [layout_simps]:
  "wf_type struct_trace_event_raw_writeback_sb_inodes_requeue" "shape struct_trace_event_raw_writeback_sb_inodes_requeue = (72, 8)"
  by (simp_all del: One_nat_def add: struct_trace_event_raw_writeback_sb_inodes_requeue_def layout_eval layout_simps)

definition struct_trace_event_raw_writeback_single_inode_template :: ctype where
  "struct_trace_event_raw_writeback_single_inode_template =
     Composite Struct False
     [Member ''ent'' struct_trace_entry,
      Member ''name'' (Array (Scalar Char8) 32),
      Member ''ino'' typedef_ino_t,
      Member ''state'' (Scalar ULong64),
      Member ''dirtied_when'' (Scalar ULong64),
      Member ''writeback_index'' (Scalar ULong64),
      Member ''nr_to_write'' (Scalar Long64),
      Member ''wrote'' (Scalar ULong64),
      Member ''cgroup_ino'' typedef_ino_t,
      Member ''__data'' (Array (Scalar Char8) 0)]"

lemma struct_trace_event_raw_writeback_single_inode_template_layout [layout_simps]:
  "wf_type struct_trace_event_raw_writeback_single_inode_template" "shape struct_trace_event_raw_writeback_single_inode_template = (96, 8)"
  by (simp_all del: One_nat_def add: struct_trace_event_raw_writeback_single_inode_template_def layout_eval layout_simps)

definition struct_trace_event_raw_writeback_inode_template :: ctype where
  "struct_trace_event_raw_writeback_inode_template =
     Composite Struct False
     [Member ''ent'' struct_trace_entry,
      Member ''dev'' typedef_dev_t,
      Member ''ino'' typedef_ino_t,
      Member ''state'' (Scalar ULong64),
      Member ''mode'' typedef___u16,
      Member ''dirtied_when'' (Scalar ULong64),
      Member ''__data'' (Array (Scalar Char8) 0)]"

lemma struct_trace_event_raw_writeback_inode_template_layout [layout_simps]:
  "wf_type struct_trace_event_raw_writeback_inode_template" "shape struct_trace_event_raw_writeback_inode_template = (48, 8)"
  by (simp_all del: One_nat_def add: struct_trace_event_raw_writeback_inode_template_def layout_eval layout_simps)

definition struct_trace_event_raw_selinux_audited :: ctype where
  "struct_trace_event_raw_selinux_audited =
     Composite Struct False
     [Member ''ent'' struct_trace_entry,
      Member ''requested'' typedef_u32,
      Member ''denied'' typedef_u32,
      Member ''audited'' typedef_u32,
      Member ''result'' (Scalar Int32),
      Member ''__data_loc_scontext'' typedef_u32,
      Member ''__data_loc_tcontext'' typedef_u32,
      Member ''__data_loc_tclass'' typedef_u32,
      Member ''__data'' (Array (Scalar Char8) 0)]"

lemma struct_trace_event_raw_selinux_audited_layout [layout_simps]:
  "wf_type struct_trace_event_raw_selinux_audited" "shape struct_trace_event_raw_selinux_audited = (36, 4)"
  by (simp_all del: One_nat_def add: struct_trace_event_raw_selinux_audited_def layout_eval layout_simps)

definition struct_trace_event_raw_scsi_dispatch_cmd_start :: ctype where
  "struct_trace_event_raw_scsi_dispatch_cmd_start =
     Composite Struct False
     [Member ''ent'' struct_trace_entry,
      Member ''host_no'' (Scalar UInt32),
      Member ''channel'' (Scalar UInt32),
      Member ''id'' (Scalar UInt32),
      Member ''lun'' (Scalar UInt32),
      Member ''opcode'' (Scalar UInt32),
      Member ''cmd_len'' (Scalar UInt32),
      Member ''driver_tag'' (Scalar Int32),
      Member ''scheduler_tag'' (Scalar Int32),
      Member ''data_sglen'' (Scalar UInt32),
      Member ''prot_sglen'' (Scalar UInt32),
      Member ''prot_op'' (Scalar UChar8),
      Member ''__data_loc_cmnd'' typedef_u32,
      Member ''__data'' (Array (Scalar Char8) 0)]"

lemma struct_trace_event_raw_scsi_dispatch_cmd_start_layout [layout_simps]:
  "wf_type struct_trace_event_raw_scsi_dispatch_cmd_start" "shape struct_trace_event_raw_scsi_dispatch_cmd_start = (56, 4)"
  by (simp_all del: One_nat_def add: struct_trace_event_raw_scsi_dispatch_cmd_start_def layout_eval layout_simps)

definition struct_trace_event_raw_scsi_dispatch_cmd_error :: ctype where
  "struct_trace_event_raw_scsi_dispatch_cmd_error =
     Composite Struct False
     [Member ''ent'' struct_trace_entry,
      Member ''host_no'' (Scalar UInt32),
      Member ''channel'' (Scalar UInt32),
      Member ''id'' (Scalar UInt32),
      Member ''lun'' (Scalar UInt32),
      Member ''rtn'' (Scalar Int32),
      Member ''opcode'' (Scalar UInt32),
      Member ''cmd_len'' (Scalar UInt32),
      Member ''driver_tag'' (Scalar Int32),
      Member ''scheduler_tag'' (Scalar Int32),
      Member ''data_sglen'' (Scalar UInt32),
      Member ''prot_sglen'' (Scalar UInt32),
      Member ''prot_op'' (Scalar UChar8),
      Member ''__data_loc_cmnd'' typedef_u32,
      Member ''__data'' (Array (Scalar Char8) 0)]"

lemma struct_trace_event_raw_scsi_dispatch_cmd_error_layout [layout_simps]:
  "wf_type struct_trace_event_raw_scsi_dispatch_cmd_error" "shape struct_trace_event_raw_scsi_dispatch_cmd_error = (60, 4)"
  by (simp_all del: One_nat_def add: struct_trace_event_raw_scsi_dispatch_cmd_error_def layout_eval layout_simps)

definition struct_trace_event_raw_scsi_cmd_done_timeout_template :: ctype where
  "struct_trace_event_raw_scsi_cmd_done_timeout_template =
     Composite Struct False
     [Member ''ent'' struct_trace_entry,
      Member ''host_no'' (Scalar UInt32),
      Member ''channel'' (Scalar UInt32),
      Member ''id'' (Scalar UInt32),
      Member ''lun'' (Scalar UInt32),
      Member ''result'' (Scalar Int32),
      Member ''opcode'' (Scalar UInt32),
      Member ''cmd_len'' (Scalar UInt32),
      Member ''driver_tag'' (Scalar Int32),
      Member ''scheduler_tag'' (Scalar Int32),
      Member ''data_sglen'' (Scalar UInt32),
      Member ''prot_sglen'' (Scalar UInt32),
      Member ''prot_op'' (Scalar UChar8),
      Member ''__data_loc_cmnd'' typedef_u32,
      Member ''sense_key'' typedef_u8,
      Member ''asc'' typedef_u8,
      Member ''ascq'' typedef_u8,
      Member ''__data'' (Array (Scalar Char8) 0)]"

lemma struct_trace_event_raw_scsi_cmd_done_timeout_template_layout [layout_simps]:
  "wf_type struct_trace_event_raw_scsi_cmd_done_timeout_template" "shape struct_trace_event_raw_scsi_cmd_done_timeout_template = (64, 4)"
  by (simp_all del: One_nat_def add: struct_trace_event_raw_scsi_cmd_done_timeout_template_def layout_eval layout_simps)

definition struct_trace_event_raw_scsi_eh_wakeup :: ctype where
  "struct_trace_event_raw_scsi_eh_wakeup =
     Composite Struct False
     [Member ''ent'' struct_trace_entry,
      Member ''host_no'' (Scalar UInt32),
      Member ''__data'' (Array (Scalar Char8) 0)]"

lemma struct_trace_event_raw_scsi_eh_wakeup_layout [layout_simps]:
  "wf_type struct_trace_event_raw_scsi_eh_wakeup" "shape struct_trace_event_raw_scsi_eh_wakeup = (12, 4)"
  by (simp_all del: One_nat_def add: struct_trace_event_raw_scsi_eh_wakeup_def layout_eval layout_simps)

definition struct_trace_event_raw_spi_controller :: ctype where
  "struct_trace_event_raw_spi_controller =
     Composite Struct False
     [Member ''ent'' struct_trace_entry,
      Member ''bus_num'' (Scalar Int32),
      Member ''__data'' (Array (Scalar Char8) 0)]"

lemma struct_trace_event_raw_spi_controller_layout [layout_simps]:
  "wf_type struct_trace_event_raw_spi_controller" "shape struct_trace_event_raw_spi_controller = (12, 4)"
  by (simp_all del: One_nat_def add: struct_trace_event_raw_spi_controller_def layout_eval layout_simps)

definition struct_trace_event_raw_spi_setup :: ctype where
  "struct_trace_event_raw_spi_setup =
     Composite Struct False
     [Member ''ent'' struct_trace_entry,
      Member ''bus_num'' (Scalar Int32),
      Member ''chip_select'' (Scalar Int32),
      Member ''mode'' (Scalar ULong64),
      Member ''bits_per_word'' (Scalar UInt32),
      Member ''max_speed_hz'' (Scalar UInt32),
      Member ''status'' (Scalar Int32),
      Member ''__data'' (Array (Scalar Char8) 0)]"

lemma struct_trace_event_raw_spi_setup_layout [layout_simps]:
  "wf_type struct_trace_event_raw_spi_setup" "shape struct_trace_event_raw_spi_setup = (40, 8)"
  by (simp_all del: One_nat_def add: struct_trace_event_raw_spi_setup_def layout_eval layout_simps)

definition struct_trace_event_raw_spi_set_cs :: ctype where
  "struct_trace_event_raw_spi_set_cs =
     Composite Struct False
     [Member ''ent'' struct_trace_entry,
      Member ''bus_num'' (Scalar Int32),
      Member ''chip_select'' (Scalar Int32),
      Member ''mode'' (Scalar ULong64),
      Member ''enable'' typedef_bool,
      Member ''__data'' (Array (Scalar Char8) 0)]"

lemma struct_trace_event_raw_spi_set_cs_layout [layout_simps]:
  "wf_type struct_trace_event_raw_spi_set_cs" "shape struct_trace_event_raw_spi_set_cs = (32, 8)"
  by (simp_all del: One_nat_def add: struct_trace_event_raw_spi_set_cs_def layout_eval layout_simps)

definition struct_trace_event_raw_spi_message :: ctype where
  "struct_trace_event_raw_spi_message =
     Composite Struct False
     [Member ''ent'' struct_trace_entry,
      Member ''bus_num'' (Scalar Int32),
      Member ''chip_select'' (Scalar Int32),
      Member ''msg'' (Pointer (Named Struct_name ''spi_message'')),
      Member ''__data'' (Array (Scalar Char8) 0)]"

lemma struct_trace_event_raw_spi_message_layout [layout_simps]:
  "wf_type struct_trace_event_raw_spi_message" "shape struct_trace_event_raw_spi_message = (24, 8)"
  by (simp_all del: One_nat_def add: struct_trace_event_raw_spi_message_def layout_eval layout_simps)

definition struct_trace_event_raw_spi_message_done :: ctype where
  "struct_trace_event_raw_spi_message_done =
     Composite Struct False
     [Member ''ent'' struct_trace_entry,
      Member ''bus_num'' (Scalar Int32),
      Member ''chip_select'' (Scalar Int32),
      Member ''msg'' (Pointer (Named Struct_name ''spi_message'')),
      Member ''frame'' (Scalar UInt32),
      Member ''actual'' (Scalar UInt32),
      Member ''__data'' (Array (Scalar Char8) 0)]"

lemma struct_trace_event_raw_spi_message_done_layout [layout_simps]:
  "wf_type struct_trace_event_raw_spi_message_done" "shape struct_trace_event_raw_spi_message_done = (32, 8)"
  by (simp_all del: One_nat_def add: struct_trace_event_raw_spi_message_done_def layout_eval layout_simps)

definition struct_trace_event_raw_spi_transfer :: ctype where
  "struct_trace_event_raw_spi_transfer =
     Composite Struct False
     [Member ''ent'' struct_trace_entry,
      Member ''bus_num'' (Scalar Int32),
      Member ''chip_select'' (Scalar Int32),
      Member ''xfer'' (Pointer (Named Struct_name ''spi_transfer'')),
      Member ''len'' (Scalar Int32),
      Member ''__data_loc_rx_buf'' typedef_u32,
      Member ''__data_loc_tx_buf'' typedef_u32,
      Member ''__data'' (Array (Scalar Char8) 0)]"

lemma struct_trace_event_raw_spi_transfer_layout [layout_simps]:
  "wf_type struct_trace_event_raw_spi_transfer" "shape struct_trace_event_raw_spi_transfer = (40, 8)"
  by (simp_all del: One_nat_def add: struct_trace_event_raw_spi_transfer_def layout_eval layout_simps)

definition struct_trace_event_raw_thermal_temperature :: ctype where
  "struct_trace_event_raw_thermal_temperature =
     Composite Struct False
     [Member ''ent'' struct_trace_entry,
      Member ''__data_loc_thermal_zone'' typedef_u32,
      Member ''id'' (Scalar Int32),
      Member ''temp_prev'' (Scalar Int32),
      Member ''temp'' (Scalar Int32),
      Member ''__data'' (Array (Scalar Char8) 0)]"

lemma struct_trace_event_raw_thermal_temperature_layout [layout_simps]:
  "wf_type struct_trace_event_raw_thermal_temperature" "shape struct_trace_event_raw_thermal_temperature = (24, 4)"
  by (simp_all del: One_nat_def add: struct_trace_event_raw_thermal_temperature_def layout_eval layout_simps)

definition struct_trace_event_raw_thermal_zone_trip :: ctype where
  "struct_trace_event_raw_thermal_zone_trip =
     Composite Struct False
     [Member ''ent'' struct_trace_entry,
      Member ''__data_loc_thermal_zone'' typedef_u32,
      Member ''id'' (Scalar Int32),
      Member ''trip'' (Scalar Int32),
      Member ''trip_type'' enum_thermal_trip_type,
      Member ''__data'' (Array (Scalar Char8) 0)]"

lemma struct_trace_event_raw_thermal_zone_trip_layout [layout_simps]:
  "wf_type struct_trace_event_raw_thermal_zone_trip" "shape struct_trace_event_raw_thermal_zone_trip = (24, 4)"
  by (simp_all del: One_nat_def add: struct_trace_event_raw_thermal_zone_trip_def layout_eval layout_simps)

definition struct_trace_event_raw_thermal_power_devfreq_get_power :: ctype where
  "struct_trace_event_raw_thermal_power_devfreq_get_power =
     Composite Struct False
     [Member ''ent'' struct_trace_entry,
      Member ''__data_loc_type'' typedef_u32,
      Member ''freq'' (Scalar ULong64),
      Member ''busy_time'' typedef_u32,
      Member ''total_time'' typedef_u32,
      Member ''power'' typedef_u32,
      Member ''__data'' (Array (Scalar Char8) 0)]"

lemma struct_trace_event_raw_thermal_power_devfreq_get_power_layout [layout_simps]:
  "wf_type struct_trace_event_raw_thermal_power_devfreq_get_power" "shape struct_trace_event_raw_thermal_power_devfreq_get_power = (40, 8)"
  by (simp_all del: One_nat_def add: struct_trace_event_raw_thermal_power_devfreq_get_power_def layout_eval layout_simps)

definition struct_trace_event_raw_thermal_power_devfreq_limit :: ctype where
  "struct_trace_event_raw_thermal_power_devfreq_limit =
     Composite Struct False
     [Member ''ent'' struct_trace_entry,
      Member ''__data_loc_type'' typedef_u32,
      Member ''freq'' (Scalar UInt32),
      Member ''cdev_state'' (Scalar ULong64),
      Member ''power'' typedef_u32,
      Member ''__data'' (Array (Scalar Char8) 0)]"

lemma struct_trace_event_raw_thermal_power_devfreq_limit_layout [layout_simps]:
  "wf_type struct_trace_event_raw_thermal_power_devfreq_limit" "shape struct_trace_event_raw_thermal_power_devfreq_limit = (32, 8)"
  by (simp_all del: One_nat_def add: struct_trace_event_raw_thermal_power_devfreq_limit_def layout_eval layout_simps)

definition struct_trace_event_raw_thermal_power_allocator :: ctype where
  "struct_trace_event_raw_thermal_power_allocator =
     Composite Struct False
     [Member ''ent'' struct_trace_entry,
      Member ''tz_id'' (Scalar Int32),
      Member ''total_req_power'' typedef_u32,
      Member ''total_granted_power'' typedef_u32,
      Member ''num_actors'' typedef_size_t,
      Member ''power_range'' typedef_u32,
      Member ''max_allocatable_power'' typedef_u32,
      Member ''current_temp'' (Scalar Int32),
      Member ''delta_temp'' typedef_s32,
      Member ''__data'' (Array (Scalar Char8) 0)]"

lemma struct_trace_event_raw_thermal_power_allocator_layout [layout_simps]:
  "wf_type struct_trace_event_raw_thermal_power_allocator" "shape struct_trace_event_raw_thermal_power_allocator = (48, 8)"
  by (simp_all del: One_nat_def add: struct_trace_event_raw_thermal_power_allocator_def layout_eval layout_simps)

definition struct_trace_event_raw_thermal_power_actor :: ctype where
  "struct_trace_event_raw_thermal_power_actor =
     Composite Struct False
     [Member ''ent'' struct_trace_entry,
      Member ''tz_id'' (Scalar Int32),
      Member ''actor_id'' (Scalar Int32),
      Member ''req_power'' typedef_u32,
      Member ''granted_power'' typedef_u32,
      Member ''__data'' (Array (Scalar Char8) 0)]"

lemma struct_trace_event_raw_thermal_power_actor_layout [layout_simps]:
  "wf_type struct_trace_event_raw_thermal_power_actor" "shape struct_trace_event_raw_thermal_power_actor = (24, 4)"
  by (simp_all del: One_nat_def add: struct_trace_event_raw_thermal_power_actor_def layout_eval layout_simps)

definition struct_trace_event_raw_thermal_power_allocator_pid :: ctype where
  "struct_trace_event_raw_thermal_power_allocator_pid =
     Composite Struct False
     [Member ''ent'' struct_trace_entry,
      Member ''tz_id'' (Scalar Int32),
      Member ''err'' typedef_s32,
      Member ''err_integral'' typedef_s32,
      Member ''p'' typedef_s64,
      Member ''i'' typedef_s64,
      Member ''d'' typedef_s64,
      Member ''output'' typedef_s32,
      Member ''__data'' (Array (Scalar Char8) 0)]"

lemma struct_trace_event_raw_thermal_power_allocator_pid_layout [layout_simps]:
  "wf_type struct_trace_event_raw_thermal_power_allocator_pid" "shape struct_trace_event_raw_thermal_power_allocator_pid = (56, 8)"
  by (simp_all del: One_nat_def add: struct_trace_event_raw_thermal_power_allocator_pid_def layout_eval layout_simps)

definition struct_trace_event_raw_subflow_check_data_avail :: ctype where
  "struct_trace_event_raw_subflow_check_data_avail =
     Composite Struct False
     [Member ''ent'' struct_trace_entry,
      Member ''status'' typedef_u8,
      Member ''skb'' (Pointer Void),
      Member ''__data'' (Array (Scalar Char8) 0)]"

lemma struct_trace_event_raw_subflow_check_data_avail_layout [layout_simps]:
  "wf_type struct_trace_event_raw_subflow_check_data_avail" "shape struct_trace_event_raw_subflow_check_data_avail = (24, 8)"
  by (simp_all del: One_nat_def add: struct_trace_event_raw_subflow_check_data_avail_def layout_eval layout_simps)

definition struct_trace_event_raw_tls_contenttype :: ctype where
  "struct_trace_event_raw_tls_contenttype =
     Composite Struct False
     [Member ''ent'' struct_trace_entry,
      Member ''saddr'' (Array typedef___u8 28),
      Member ''daddr'' (Array typedef___u8 28),
      Member ''netns_ino'' (Scalar UInt32),
      Member ''type'' (Scalar ULong64),
      Member ''__data'' (Array (Scalar Char8) 0)]"

lemma struct_trace_event_raw_tls_contenttype_layout [layout_simps]:
  "wf_type struct_trace_event_raw_tls_contenttype" "shape struct_trace_event_raw_tls_contenttype = (80, 8)"
  by (simp_all del: One_nat_def add: struct_trace_event_raw_tls_contenttype_def layout_eval layout_simps)

definition struct_trace_event_raw_x86_fpu :: ctype where
  "struct_trace_event_raw_x86_fpu =
     Composite Struct False
     [Member ''ent'' struct_trace_entry,
      Member ''fpu'' (Pointer (Named Struct_name ''fpu'')),
      Member ''load_fpu'' typedef_bool,
      Member ''xfeatures'' typedef_u64,
      Member ''xcomp_bv'' typedef_u64,
      Member ''__data'' (Array (Scalar Char8) 0)]"

lemma struct_trace_event_raw_x86_fpu_layout [layout_simps]:
  "wf_type struct_trace_event_raw_x86_fpu" "shape struct_trace_event_raw_x86_fpu = (40, 8)"
  by (simp_all del: One_nat_def add: struct_trace_event_raw_x86_fpu_def layout_eval layout_simps)

definition struct_trace_event_raw_signal_generate :: ctype where
  "struct_trace_event_raw_signal_generate =
     Composite Struct False
     [Member ''ent'' struct_trace_entry,
      Member ''sig'' (Scalar Int32),
      Member ''errno'' (Scalar Int32),
      Member ''code'' (Scalar Int32),
      Member ''comm'' (Array (Scalar Char8) 16),
      Member ''pid'' typedef_pid_t,
      Member ''group'' (Scalar Int32),
      Member ''result'' (Scalar Int32),
      Member ''__data'' (Array (Scalar Char8) 0)]"

lemma struct_trace_event_raw_signal_generate_layout [layout_simps]:
  "wf_type struct_trace_event_raw_signal_generate" "shape struct_trace_event_raw_signal_generate = (48, 4)"
  by (simp_all del: One_nat_def add: struct_trace_event_raw_signal_generate_def layout_eval layout_simps)

definition struct_trace_event_raw_signal_deliver :: ctype where
  "struct_trace_event_raw_signal_deliver =
     Composite Struct False
     [Member ''ent'' struct_trace_entry,
      Member ''sig'' (Scalar Int32),
      Member ''errno'' (Scalar Int32),
      Member ''code'' (Scalar Int32),
      Member ''sa_handler'' (Scalar ULong64),
      Member ''sa_flags'' (Scalar ULong64),
      Member ''__data'' (Array (Scalar Char8) 0)]"

lemma struct_trace_event_raw_signal_deliver_layout [layout_simps]:
  "wf_type struct_trace_event_raw_signal_deliver" "shape struct_trace_event_raw_signal_deliver = (40, 8)"
  by (simp_all del: One_nat_def add: struct_trace_event_raw_signal_deliver_def layout_eval layout_simps)

definition struct_trace_event_raw_swiotlb_bounced :: ctype where
  "struct_trace_event_raw_swiotlb_bounced =
     Composite Struct False
     [Member ''ent'' struct_trace_entry,
      Member ''__data_loc_dev_name'' typedef_u32,
      Member ''dma_mask'' typedef_u64,
      Member ''dev_addr'' typedef_dma_addr_t,
      Member ''size'' typedef_size_t,
      Member ''force'' typedef_bool,
      Member ''__data'' (Array (Scalar Char8) 0)]"

lemma struct_trace_event_raw_swiotlb_bounced_layout [layout_simps]:
  "wf_type struct_trace_event_raw_swiotlb_bounced" "shape struct_trace_event_raw_swiotlb_bounced = (48, 8)"
  by (simp_all del: One_nat_def add: struct_trace_event_raw_swiotlb_bounced_def layout_eval layout_simps)

definition struct_trace_event_raw_timer_class :: ctype where
  "struct_trace_event_raw_timer_class =
     Composite Struct False
     [Member ''ent'' struct_trace_entry,
      Member ''timer'' (Pointer Void),
      Member ''__data'' (Array (Scalar Char8) 0)]"

lemma struct_trace_event_raw_timer_class_layout [layout_simps]:
  "wf_type struct_trace_event_raw_timer_class" "shape struct_trace_event_raw_timer_class = (16, 8)"
  by (simp_all del: One_nat_def add: struct_trace_event_raw_timer_class_def layout_eval layout_simps)

definition struct_trace_event_raw_timer_start :: ctype where
  "struct_trace_event_raw_timer_start =
     Composite Struct False
     [Member ''ent'' struct_trace_entry,
      Member ''timer'' (Pointer Void),
      Member ''function'' (Pointer Void),
      Member ''expires'' (Scalar ULong64),
      Member ''bucket_expiry'' (Scalar ULong64),
      Member ''now'' (Scalar ULong64),
      Member ''flags'' (Scalar UInt32),
      Member ''__data'' (Array (Scalar Char8) 0)]"

lemma struct_trace_event_raw_timer_start_layout [layout_simps]:
  "wf_type struct_trace_event_raw_timer_start" "shape struct_trace_event_raw_timer_start = (56, 8)"
  by (simp_all del: One_nat_def add: struct_trace_event_raw_timer_start_def layout_eval layout_simps)

definition struct_trace_event_raw_timer_expire_entry :: ctype where
  "struct_trace_event_raw_timer_expire_entry =
     Composite Struct False
     [Member ''ent'' struct_trace_entry,
      Member ''timer'' (Pointer Void),
      Member ''now'' (Scalar ULong64),
      Member ''function'' (Pointer Void),
      Member ''baseclk'' (Scalar ULong64),
      Member ''__data'' (Array (Scalar Char8) 0)]"

lemma struct_trace_event_raw_timer_expire_entry_layout [layout_simps]:
  "wf_type struct_trace_event_raw_timer_expire_entry" "shape struct_trace_event_raw_timer_expire_entry = (40, 8)"
  by (simp_all del: One_nat_def add: struct_trace_event_raw_timer_expire_entry_def layout_eval layout_simps)

definition struct_trace_event_raw_timer_base_idle :: ctype where
  "struct_trace_event_raw_timer_base_idle =
     Composite Struct False
     [Member ''ent'' struct_trace_entry,
      Member ''is_idle'' typedef_bool,
      Member ''cpu'' (Scalar UInt32),
      Member ''__data'' (Array (Scalar Char8) 0)]"

lemma struct_trace_event_raw_timer_base_idle_layout [layout_simps]:
  "wf_type struct_trace_event_raw_timer_base_idle" "shape struct_trace_event_raw_timer_base_idle = (16, 4)"
  by (simp_all del: One_nat_def add: struct_trace_event_raw_timer_base_idle_def layout_eval layout_simps)

definition struct_trace_event_raw_tick_stop :: ctype where
  "struct_trace_event_raw_tick_stop =
     Composite Struct False
     [Member ''ent'' struct_trace_entry,
      Member ''success'' (Scalar Int32),
      Member ''dependency'' (Scalar Int32),
      Member ''__data'' (Array (Scalar Char8) 0)]"

lemma struct_trace_event_raw_tick_stop_layout [layout_simps]:
  "wf_type struct_trace_event_raw_tick_stop" "shape struct_trace_event_raw_tick_stop = (16, 4)"
  by (simp_all del: One_nat_def add: struct_trace_event_raw_tick_stop_def layout_eval layout_simps)

definition struct_trace_event_raw_xdp_exception :: ctype where
  "struct_trace_event_raw_xdp_exception =
     Composite Struct False
     [Member ''ent'' struct_trace_entry,
      Member ''prog_id'' (Scalar Int32),
      Member ''act'' typedef_u32,
      Member ''ifindex'' (Scalar Int32),
      Member ''__data'' (Array (Scalar Char8) 0)]"

lemma struct_trace_event_raw_xdp_exception_layout [layout_simps]:
  "wf_type struct_trace_event_raw_xdp_exception" "shape struct_trace_event_raw_xdp_exception = (20, 4)"
  by (simp_all del: One_nat_def add: struct_trace_event_raw_xdp_exception_def layout_eval layout_simps)

definition struct_trace_event_raw_xdp_bulk_tx :: ctype where
  "struct_trace_event_raw_xdp_bulk_tx =
     Composite Struct False
     [Member ''ent'' struct_trace_entry,
      Member ''ifindex'' (Scalar Int32),
      Member ''act'' typedef_u32,
      Member ''drops'' (Scalar Int32),
      Member ''sent'' (Scalar Int32),
      Member ''err'' (Scalar Int32),
      Member ''__data'' (Array (Scalar Char8) 0)]"

lemma struct_trace_event_raw_xdp_bulk_tx_layout [layout_simps]:
  "wf_type struct_trace_event_raw_xdp_bulk_tx" "shape struct_trace_event_raw_xdp_bulk_tx = (28, 4)"
  by (simp_all del: One_nat_def add: struct_trace_event_raw_xdp_bulk_tx_def layout_eval layout_simps)

definition struct_trace_event_raw_xdp_redirect_template :: ctype where
  "struct_trace_event_raw_xdp_redirect_template =
     Composite Struct False
     [Member ''ent'' struct_trace_entry,
      Member ''prog_id'' (Scalar Int32),
      Member ''act'' typedef_u32,
      Member ''ifindex'' (Scalar Int32),
      Member ''err'' (Scalar Int32),
      Member ''to_ifindex'' (Scalar Int32),
      Member ''map_id'' typedef_u32,
      Member ''map_index'' (Scalar Int32),
      Member ''__data'' (Array (Scalar Char8) 0)]"

lemma struct_trace_event_raw_xdp_redirect_template_layout [layout_simps]:
  "wf_type struct_trace_event_raw_xdp_redirect_template" "shape struct_trace_event_raw_xdp_redirect_template = (36, 4)"
  by (simp_all del: One_nat_def add: struct_trace_event_raw_xdp_redirect_template_def layout_eval layout_simps)

definition struct_trace_event_raw_xdp_cpumap_kthread :: ctype where
  "struct_trace_event_raw_xdp_cpumap_kthread =
     Composite Struct False
     [Member ''ent'' struct_trace_entry,
      Member ''map_id'' (Scalar Int32),
      Member ''act'' typedef_u32,
      Member ''cpu'' (Scalar Int32),
      Member ''drops'' (Scalar UInt32),
      Member ''processed'' (Scalar UInt32),
      Member ''sched'' (Scalar Int32),
      Member ''xdp_pass'' (Scalar UInt32),
      Member ''xdp_drop'' (Scalar UInt32),
      Member ''xdp_redirect'' (Scalar UInt32),
      Member ''__data'' (Array (Scalar Char8) 0)]"

lemma struct_trace_event_raw_xdp_cpumap_kthread_layout [layout_simps]:
  "wf_type struct_trace_event_raw_xdp_cpumap_kthread" "shape struct_trace_event_raw_xdp_cpumap_kthread = (44, 4)"
  by (simp_all del: One_nat_def add: struct_trace_event_raw_xdp_cpumap_kthread_def layout_eval layout_simps)

definition struct_trace_event_raw_xdp_cpumap_enqueue :: ctype where
  "struct_trace_event_raw_xdp_cpumap_enqueue =
     Composite Struct False
     [Member ''ent'' struct_trace_entry,
      Member ''map_id'' (Scalar Int32),
      Member ''act'' typedef_u32,
      Member ''cpu'' (Scalar Int32),
      Member ''drops'' (Scalar UInt32),
      Member ''processed'' (Scalar UInt32),
      Member ''to_cpu'' (Scalar Int32),
      Member ''__data'' (Array (Scalar Char8) 0)]"

lemma struct_trace_event_raw_xdp_cpumap_enqueue_layout [layout_simps]:
  "wf_type struct_trace_event_raw_xdp_cpumap_enqueue" "shape struct_trace_event_raw_xdp_cpumap_enqueue = (32, 4)"
  by (simp_all del: One_nat_def add: struct_trace_event_raw_xdp_cpumap_enqueue_def layout_eval layout_simps)

definition struct_trace_event_raw_xdp_devmap_xmit :: ctype where
  "struct_trace_event_raw_xdp_devmap_xmit =
     Composite Struct False
     [Member ''ent'' struct_trace_entry,
      Member ''from_ifindex'' (Scalar Int32),
      Member ''act'' typedef_u32,
      Member ''to_ifindex'' (Scalar Int32),
      Member ''drops'' (Scalar Int32),
      Member ''sent'' (Scalar Int32),
      Member ''err'' (Scalar Int32),
      Member ''__data'' (Array (Scalar Char8) 0)]"

lemma struct_trace_event_raw_xdp_devmap_xmit_layout [layout_simps]:
  "wf_type struct_trace_event_raw_xdp_devmap_xmit" "shape struct_trace_event_raw_xdp_devmap_xmit = (32, 4)"
  by (simp_all del: One_nat_def add: struct_trace_event_raw_xdp_devmap_xmit_def layout_eval layout_simps)

definition struct_trace_event_raw_tlb_flush :: ctype where
  "struct_trace_event_raw_tlb_flush =
     Composite Struct False
     [Member ''ent'' struct_trace_entry,
      Member ''reason'' (Scalar Int32),
      Member ''pages'' (Scalar ULong64),
      Member ''__data'' (Array (Scalar Char8) 0)]"

lemma struct_trace_event_raw_tlb_flush_layout [layout_simps]:
  "wf_type struct_trace_event_raw_tlb_flush" "shape struct_trace_event_raw_tlb_flush = (24, 8)"
  by (simp_all del: One_nat_def add: struct_trace_event_raw_tlb_flush_def layout_eval layout_simps)

definition struct_trace_event_raw_wbt_stat :: ctype where
  "struct_trace_event_raw_wbt_stat =
     Composite Struct False
     [Member ''ent'' struct_trace_entry,
      Member ''name'' (Array (Scalar Char8) 32),
      Member ''rmean'' typedef_s64,
      Member ''rmin'' typedef_u64,
      Member ''rmax'' typedef_u64,
      Member ''rnr_samples'' typedef_s64,
      Member ''rtime'' typedef_s64,
      Member ''wmean'' typedef_s64,
      Member ''wmin'' typedef_u64,
      Member ''wmax'' typedef_u64,
      Member ''wnr_samples'' typedef_s64,
      Member ''wtime'' typedef_s64,
      Member ''__data'' (Array (Scalar Char8) 0)]"

lemma struct_trace_event_raw_wbt_stat_layout [layout_simps]:
  "wf_type struct_trace_event_raw_wbt_stat" "shape struct_trace_event_raw_wbt_stat = (120, 8)"
  by (simp_all del: One_nat_def add: struct_trace_event_raw_wbt_stat_def layout_eval layout_simps)

definition struct_trace_event_raw_wbt_lat :: ctype where
  "struct_trace_event_raw_wbt_lat =
     Composite Struct False
     [Member ''ent'' struct_trace_entry,
      Member ''name'' (Array (Scalar Char8) 32),
      Member ''lat'' (Scalar ULong64),
      Member ''__data'' (Array (Scalar Char8) 0)]"

lemma struct_trace_event_raw_wbt_lat_layout [layout_simps]:
  "wf_type struct_trace_event_raw_wbt_lat" "shape struct_trace_event_raw_wbt_lat = (48, 8)"
  by (simp_all del: One_nat_def add: struct_trace_event_raw_wbt_lat_def layout_eval layout_simps)

definition struct_trace_event_raw_wbt_step :: ctype where
  "struct_trace_event_raw_wbt_step =
     Composite Struct False
     [Member ''ent'' struct_trace_entry,
      Member ''name'' (Array (Scalar Char8) 32),
      Member ''msg'' (Pointer (Scalar Char8)),
      Member ''step'' (Scalar Int32),
      Member ''window'' (Scalar ULong64),
      Member ''bg'' (Scalar UInt32),
      Member ''normal'' (Scalar UInt32),
      Member ''max'' (Scalar UInt32),
      Member ''__data'' (Array (Scalar Char8) 0)]"

lemma struct_trace_event_raw_wbt_step_layout [layout_simps]:
  "wf_type struct_trace_event_raw_wbt_step" "shape struct_trace_event_raw_wbt_step = (80, 8)"
  by (simp_all del: One_nat_def add: struct_trace_event_raw_wbt_step_def layout_eval layout_simps)

definition struct_trace_event_raw_wbt_timer :: ctype where
  "struct_trace_event_raw_wbt_timer =
     Composite Struct False
     [Member ''ent'' struct_trace_entry,
      Member ''name'' (Array (Scalar Char8) 32),
      Member ''status'' (Scalar UInt32),
      Member ''step'' (Scalar Int32),
      Member ''inflight'' (Scalar UInt32),
      Member ''__data'' (Array (Scalar Char8) 0)]"

lemma struct_trace_event_raw_wbt_timer_layout [layout_simps]:
  "wf_type struct_trace_event_raw_wbt_timer" "shape struct_trace_event_raw_wbt_timer = (52, 4)"
  by (simp_all del: One_nat_def add: struct_trace_event_raw_wbt_timer_def layout_eval layout_simps)

definition struct_trace_event_raw_qi_submit :: ctype where
  "struct_trace_event_raw_qi_submit =
     Composite Struct False
     [Member ''ent'' struct_trace_entry,
      Member ''qw0'' typedef_u64,
      Member ''qw1'' typedef_u64,
      Member ''qw2'' typedef_u64,
      Member ''qw3'' typedef_u64,
      Member ''__data_loc_iommu'' typedef_u32,
      Member ''__data'' (Array (Scalar Char8) 0)]"

lemma struct_trace_event_raw_qi_submit_layout [layout_simps]:
  "wf_type struct_trace_event_raw_qi_submit" "shape struct_trace_event_raw_qi_submit = (48, 8)"
  by (simp_all del: One_nat_def add: struct_trace_event_raw_qi_submit_def layout_eval layout_simps)

definition struct_trace_event_raw_scsi_prepare_zone_append :: ctype where
  "struct_trace_event_raw_scsi_prepare_zone_append =
     Composite Struct False
     [Member ''ent'' struct_trace_entry,
      Member ''host_no'' (Scalar UInt32),
      Member ''channel'' (Scalar UInt32),
      Member ''id'' (Scalar UInt32),
      Member ''lun'' (Scalar UInt32),
      Member ''lba'' typedef_sector_t,
      Member ''wp_offset'' (Scalar UInt32),
      Member ''__data'' (Array (Scalar Char8) 0)]"

lemma struct_trace_event_raw_scsi_prepare_zone_append_layout [layout_simps]:
  "wf_type struct_trace_event_raw_scsi_prepare_zone_append" "shape struct_trace_event_raw_scsi_prepare_zone_append = (40, 8)"
  by (simp_all del: One_nat_def add: struct_trace_event_raw_scsi_prepare_zone_append_def layout_eval layout_simps)

definition struct_trace_event_raw_scsi_zone_wp_update :: ctype where
  "struct_trace_event_raw_scsi_zone_wp_update =
     Composite Struct False
     [Member ''ent'' struct_trace_entry,
      Member ''host_no'' (Scalar UInt32),
      Member ''channel'' (Scalar UInt32),
      Member ''id'' (Scalar UInt32),
      Member ''lun'' (Scalar UInt32),
      Member ''rq_sector'' typedef_sector_t,
      Member ''wp_offset'' (Scalar UInt32),
      Member ''good_bytes'' (Scalar UInt32),
      Member ''__data'' (Array (Scalar Char8) 0)]"

lemma struct_trace_event_raw_scsi_zone_wp_update_layout [layout_simps]:
  "wf_type struct_trace_event_raw_scsi_zone_wp_update" "shape struct_trace_event_raw_scsi_zone_wp_update = (40, 8)"
  by (simp_all del: One_nat_def add: struct_trace_event_raw_scsi_zone_wp_update_def layout_eval layout_simps)

definition struct_trace_event_raw_watchdog_template :: ctype where
  "struct_trace_event_raw_watchdog_template =
     Composite Struct False
     [Member ''ent'' struct_trace_entry,
      Member ''id'' (Scalar Int32),
      Member ''err'' (Scalar Int32),
      Member ''__data'' (Array (Scalar Char8) 0)]"

lemma struct_trace_event_raw_watchdog_template_layout [layout_simps]:
  "wf_type struct_trace_event_raw_watchdog_template" "shape struct_trace_event_raw_watchdog_template = (16, 4)"
  by (simp_all del: One_nat_def add: struct_trace_event_raw_watchdog_template_def layout_eval layout_simps)

definition struct_trace_event_raw_watchdog_set_timeout :: ctype where
  "struct_trace_event_raw_watchdog_set_timeout =
     Composite Struct False
     [Member ''ent'' struct_trace_entry,
      Member ''id'' (Scalar Int32),
      Member ''timeout'' (Scalar UInt32),
      Member ''err'' (Scalar Int32),
      Member ''__data'' (Array (Scalar Char8) 0)]"

lemma struct_trace_event_raw_watchdog_set_timeout_layout [layout_simps]:
  "wf_type struct_trace_event_raw_watchdog_set_timeout" "shape struct_trace_event_raw_watchdog_set_timeout = (20, 4)"
  by (simp_all del: One_nat_def add: struct_trace_event_raw_watchdog_set_timeout_def layout_eval layout_simps)

definition struct_trace_event_raw_x86_exceptions :: ctype where
  "struct_trace_event_raw_x86_exceptions =
     Composite Struct False
     [Member ''ent'' struct_trace_entry,
      Member ''address'' (Scalar ULong64),
      Member ''ip'' (Scalar ULong64),
      Member ''error_code'' (Scalar ULong64),
      Member ''__data'' (Array (Scalar Char8) 0)]"

lemma struct_trace_event_raw_x86_exceptions_layout [layout_simps]:
  "wf_type struct_trace_event_raw_x86_exceptions" "shape struct_trace_event_raw_x86_exceptions = (32, 8)"
  by (simp_all del: One_nat_def add: struct_trace_event_raw_x86_exceptions_def layout_eval layout_simps)

definition struct_trace_event_raw_task_newtask :: ctype where
  "struct_trace_event_raw_task_newtask =
     Composite Struct False
     [Member ''ent'' struct_trace_entry,
      Member ''pid'' typedef_pid_t,
      Member ''comm'' (Array (Scalar Char8) 16),
      Member ''clone_flags'' (Scalar ULong64),
      Member ''oom_score_adj'' (Scalar Short16),
      Member ''__data'' (Array (Scalar Char8) 0)]"

lemma struct_trace_event_raw_task_newtask_layout [layout_simps]:
  "wf_type struct_trace_event_raw_task_newtask" "shape struct_trace_event_raw_task_newtask = (48, 8)"
  by (simp_all del: One_nat_def add: struct_trace_event_raw_task_newtask_def layout_eval layout_simps)

definition struct_trace_event_raw_task_rename :: ctype where
  "struct_trace_event_raw_task_rename =
     Composite Struct False
     [Member ''ent'' struct_trace_entry,
      Member ''pid'' typedef_pid_t,
      Member ''oldcomm'' (Array (Scalar Char8) 16),
      Member ''newcomm'' (Array (Scalar Char8) 16),
      Member ''oom_score_adj'' (Scalar Short16),
      Member ''__data'' (Array (Scalar Char8) 0)]"

lemma struct_trace_event_raw_task_rename_layout [layout_simps]:
  "wf_type struct_trace_event_raw_task_rename" "shape struct_trace_event_raw_task_rename = (48, 4)"
  by (simp_all del: One_nat_def add: struct_trace_event_raw_task_rename_def layout_eval layout_simps)

definition struct_trace_event_raw_rseq_update :: ctype where
  "struct_trace_event_raw_rseq_update =
     Composite Struct False
     [Member ''ent'' struct_trace_entry,
      Member ''cpu_id'' typedef_s32,
      Member ''node_id'' typedef_s32,
      Member ''mm_cid'' typedef_s32,
      Member ''__data'' (Array (Scalar Char8) 0)]"

lemma struct_trace_event_raw_rseq_update_layout [layout_simps]:
  "wf_type struct_trace_event_raw_rseq_update" "shape struct_trace_event_raw_rseq_update = (20, 4)"
  by (simp_all del: One_nat_def add: struct_trace_event_raw_rseq_update_def layout_eval layout_simps)

definition struct_trace_event_raw_rseq_ip_fixup :: ctype where
  "struct_trace_event_raw_rseq_ip_fixup =
     Composite Struct False
     [Member ''ent'' struct_trace_entry,
      Member ''regs_ip'' (Scalar ULong64),
      Member ''start_ip'' (Scalar ULong64),
      Member ''post_commit_offset'' (Scalar ULong64),
      Member ''abort_ip'' (Scalar ULong64),
      Member ''__data'' (Array (Scalar Char8) 0)]"

lemma struct_trace_event_raw_rseq_ip_fixup_layout [layout_simps]:
  "wf_type struct_trace_event_raw_rseq_ip_fixup" "shape struct_trace_event_raw_rseq_ip_fixup = (40, 8)"
  by (simp_all del: One_nat_def add: struct_trace_event_raw_rseq_ip_fixup_def layout_eval layout_simps)

definition struct_trace_event_raw_reclaim_retry_zone :: ctype where
  "struct_trace_event_raw_reclaim_retry_zone =
     Composite Struct False
     [Member ''ent'' struct_trace_entry,
      Member ''node'' (Scalar Int32),
      Member ''zone_idx'' (Scalar Int32),
      Member ''order'' (Scalar Int32),
      Member ''reclaimable'' (Scalar ULong64),
      Member ''available'' (Scalar ULong64),
      Member ''min_wmark'' (Scalar ULong64),
      Member ''no_progress_loops'' (Scalar Int32),
      Member ''wmark_check'' typedef_bool,
      Member ''__data'' (Array (Scalar Char8) 0)]"

lemma struct_trace_event_raw_reclaim_retry_zone_layout [layout_simps]:
  "wf_type struct_trace_event_raw_reclaim_retry_zone" "shape struct_trace_event_raw_reclaim_retry_zone = (56, 8)"
  by (simp_all del: One_nat_def add: struct_trace_event_raw_reclaim_retry_zone_def layout_eval layout_simps)

definition struct_trace_event_raw_wake_reaper :: ctype where
  "struct_trace_event_raw_wake_reaper =
     Composite Struct False
     [Member ''ent'' struct_trace_entry,
      Member ''pid'' (Scalar Int32),
      Member ''__data'' (Array (Scalar Char8) 0)]"

lemma struct_trace_event_raw_wake_reaper_layout [layout_simps]:
  "wf_type struct_trace_event_raw_wake_reaper" "shape struct_trace_event_raw_wake_reaper = (12, 4)"
  by (simp_all del: One_nat_def add: struct_trace_event_raw_wake_reaper_def layout_eval layout_simps)

definition struct_trace_event_raw_start_task_reaping :: ctype where
  "struct_trace_event_raw_start_task_reaping =
     Composite Struct False
     [Member ''ent'' struct_trace_entry,
      Member ''pid'' (Scalar Int32),
      Member ''__data'' (Array (Scalar Char8) 0)]"

lemma struct_trace_event_raw_start_task_reaping_layout [layout_simps]:
  "wf_type struct_trace_event_raw_start_task_reaping" "shape struct_trace_event_raw_start_task_reaping = (12, 4)"
  by (simp_all del: One_nat_def add: struct_trace_event_raw_start_task_reaping_def layout_eval layout_simps)

definition struct_trace_event_raw_skip_task_reaping :: ctype where
  "struct_trace_event_raw_skip_task_reaping =
     Composite Struct False
     [Member ''ent'' struct_trace_entry,
      Member ''pid'' (Scalar Int32),
      Member ''__data'' (Array (Scalar Char8) 0)]"

lemma struct_trace_event_raw_skip_task_reaping_layout [layout_simps]:
  "wf_type struct_trace_event_raw_skip_task_reaping" "shape struct_trace_event_raw_skip_task_reaping = (12, 4)"
  by (simp_all del: One_nat_def add: struct_trace_event_raw_skip_task_reaping_def layout_eval layout_simps)

definition struct_trace_event_raw_vm_unmapped_area :: ctype where
  "struct_trace_event_raw_vm_unmapped_area =
     Composite Struct False
     [Member ''ent'' struct_trace_entry,
      Member ''addr'' (Scalar ULong64),
      Member ''total_vm'' (Scalar ULong64),
      Member ''flags'' (Scalar ULong64),
      Member ''length'' (Scalar ULong64),
      Member ''low_limit'' (Scalar ULong64),
      Member ''high_limit'' (Scalar ULong64),
      Member ''align_mask'' (Scalar ULong64),
      Member ''align_offset'' (Scalar ULong64),
      Member ''__data'' (Array (Scalar Char8) 0)]"

lemma struct_trace_event_raw_vm_unmapped_area_layout [layout_simps]:
  "wf_type struct_trace_event_raw_vm_unmapped_area" "shape struct_trace_event_raw_vm_unmapped_area = (72, 8)"
  by (simp_all del: One_nat_def add: struct_trace_event_raw_vm_unmapped_area_def layout_eval layout_simps)

definition struct_trace_event_raw_vma_mas_szero :: ctype where
  "struct_trace_event_raw_vma_mas_szero =
     Composite Struct False
     [Member ''ent'' struct_trace_entry,
      Member ''mt'' (Pointer (Named Struct_name ''maple_tree'')),
      Member ''start'' (Scalar ULong64),
      Member ''end'' (Scalar ULong64),
      Member ''__data'' (Array (Scalar Char8) 0)]"

lemma struct_trace_event_raw_vma_mas_szero_layout [layout_simps]:
  "wf_type struct_trace_event_raw_vma_mas_szero" "shape struct_trace_event_raw_vma_mas_szero = (32, 8)"
  by (simp_all del: One_nat_def add: struct_trace_event_raw_vma_mas_szero_def layout_eval layout_simps)

definition struct_trace_event_raw_vma_store :: ctype where
  "struct_trace_event_raw_vma_store =
     Composite Struct False
     [Member ''ent'' struct_trace_entry,
      Member ''mt'' (Pointer (Named Struct_name ''maple_tree'')),
      Member ''vma'' (Pointer (Named Struct_name ''vm_area_struct'')),
      Member ''vm_start'' (Scalar ULong64),
      Member ''vm_end'' (Scalar ULong64),
      Member ''__data'' (Array (Scalar Char8) 0)]"

lemma struct_trace_event_raw_vma_store_layout [layout_simps]:
  "wf_type struct_trace_event_raw_vma_store" "shape struct_trace_event_raw_vma_store = (40, 8)"
  by (simp_all del: One_nat_def add: struct_trace_event_raw_vma_store_def layout_eval layout_simps)

definition struct_trace_event_raw_pwm :: ctype where
  "struct_trace_event_raw_pwm =
     Composite Struct False
     [Member ''ent'' struct_trace_entry,
      Member ''pwm'' (Pointer (Named Struct_name ''pwm_device'')),
      Member ''period'' typedef_u64,
      Member ''duty_cycle'' typedef_u64,
      Member ''polarity'' enum_pwm_polarity,
      Member ''enabled'' typedef_bool,
      Member ''err'' (Scalar Int32),
      Member ''__data'' (Array (Scalar Char8) 0)]"

lemma struct_trace_event_raw_pwm_layout [layout_simps]:
  "wf_type struct_trace_event_raw_pwm" "shape struct_trace_event_raw_pwm = (48, 8)"
  by (simp_all del: One_nat_def add: struct_trace_event_raw_pwm_def layout_eval layout_simps)

definition struct_trace_event_raw_regulator_basic :: ctype where
  "struct_trace_event_raw_regulator_basic =
     Composite Struct False
     [Member ''ent'' struct_trace_entry,
      Member ''__data_loc_name'' typedef_u32,
      Member ''__data'' (Array (Scalar Char8) 0)]"

lemma struct_trace_event_raw_regulator_basic_layout [layout_simps]:
  "wf_type struct_trace_event_raw_regulator_basic" "shape struct_trace_event_raw_regulator_basic = (12, 4)"
  by (simp_all del: One_nat_def add: struct_trace_event_raw_regulator_basic_def layout_eval layout_simps)

definition struct_trace_event_raw_regulator_range :: ctype where
  "struct_trace_event_raw_regulator_range =
     Composite Struct False
     [Member ''ent'' struct_trace_entry,
      Member ''__data_loc_name'' typedef_u32,
      Member ''min'' (Scalar Int32),
      Member ''max'' (Scalar Int32),
      Member ''__data'' (Array (Scalar Char8) 0)]"

lemma struct_trace_event_raw_regulator_range_layout [layout_simps]:
  "wf_type struct_trace_event_raw_regulator_range" "shape struct_trace_event_raw_regulator_range = (20, 4)"
  by (simp_all del: One_nat_def add: struct_trace_event_raw_regulator_range_def layout_eval layout_simps)

definition struct_trace_event_raw_regulator_value :: ctype where
  "struct_trace_event_raw_regulator_value =
     Composite Struct False
     [Member ''ent'' struct_trace_entry,
      Member ''__data_loc_name'' typedef_u32,
      Member ''val'' (Scalar UInt32),
      Member ''__data'' (Array (Scalar Char8) 0)]"

lemma struct_trace_event_raw_regulator_value_layout [layout_simps]:
  "wf_type struct_trace_event_raw_regulator_value" "shape struct_trace_event_raw_regulator_value = (16, 4)"
  by (simp_all del: One_nat_def add: struct_trace_event_raw_regulator_value_def layout_eval layout_simps)

definition struct_trace_event_raw_unmap :: ctype where
  "struct_trace_event_raw_unmap =
     Composite Struct False
     [Member ''ent'' struct_trace_entry,
      Member ''iova'' typedef_u64,
      Member ''size'' typedef_size_t,
      Member ''unmapped_size'' typedef_size_t,
      Member ''__data'' (Array (Scalar Char8) 0)]"

lemma struct_trace_event_raw_unmap_layout [layout_simps]:
  "wf_type struct_trace_event_raw_unmap" "shape struct_trace_event_raw_unmap = (32, 8)"
  by (simp_all del: One_nat_def add: struct_trace_event_raw_unmap_def layout_eval layout_simps)

definition struct_trace_event_raw_regmap_reg :: ctype where
  "struct_trace_event_raw_regmap_reg =
     Composite Struct False
     [Member ''ent'' struct_trace_entry,
      Member ''__data_loc_name'' typedef_u32,
      Member ''reg'' (Scalar UInt32),
      Member ''val'' (Scalar UInt32),
      Member ''__data'' (Array (Scalar Char8) 0)]"

lemma struct_trace_event_raw_regmap_reg_layout [layout_simps]:
  "wf_type struct_trace_event_raw_regmap_reg" "shape struct_trace_event_raw_regmap_reg = (20, 4)"
  by (simp_all del: One_nat_def add: struct_trace_event_raw_regmap_reg_def layout_eval layout_simps)

definition struct_trace_event_raw_regmap_bulk :: ctype where
  "struct_trace_event_raw_regmap_bulk =
     Composite Struct False
     [Member ''ent'' struct_trace_entry,
      Member ''__data_loc_name'' typedef_u32,
      Member ''reg'' (Scalar UInt32),
      Member ''__data_loc_buf'' typedef_u32,
      Member ''val_len'' (Scalar Int32),
      Member ''__data'' (Array (Scalar Char8) 0)]"

lemma struct_trace_event_raw_regmap_bulk_layout [layout_simps]:
  "wf_type struct_trace_event_raw_regmap_bulk" "shape struct_trace_event_raw_regmap_bulk = (24, 4)"
  by (simp_all del: One_nat_def add: struct_trace_event_raw_regmap_bulk_def layout_eval layout_simps)

definition struct_trace_event_raw_regmap_block :: ctype where
  "struct_trace_event_raw_regmap_block =
     Composite Struct False
     [Member ''ent'' struct_trace_entry,
      Member ''__data_loc_name'' typedef_u32,
      Member ''reg'' (Scalar UInt32),
      Member ''count'' (Scalar Int32),
      Member ''__data'' (Array (Scalar Char8) 0)]"

lemma struct_trace_event_raw_regmap_block_layout [layout_simps]:
  "wf_type struct_trace_event_raw_regmap_block" "shape struct_trace_event_raw_regmap_block = (20, 4)"
  by (simp_all del: One_nat_def add: struct_trace_event_raw_regmap_block_def layout_eval layout_simps)

definition struct_trace_event_raw_regcache_sync :: ctype where
  "struct_trace_event_raw_regcache_sync =
     Composite Struct False
     [Member ''ent'' struct_trace_entry,
      Member ''__data_loc_name'' typedef_u32,
      Member ''__data_loc_status'' typedef_u32,
      Member ''__data_loc_type'' typedef_u32,
      Member ''__data'' (Array (Scalar Char8) 0)]"

lemma struct_trace_event_raw_regcache_sync_layout [layout_simps]:
  "wf_type struct_trace_event_raw_regcache_sync" "shape struct_trace_event_raw_regcache_sync = (20, 4)"
  by (simp_all del: One_nat_def add: struct_trace_event_raw_regcache_sync_def layout_eval layout_simps)

definition struct_trace_event_raw_regmap_bool :: ctype where
  "struct_trace_event_raw_regmap_bool =
     Composite Struct False
     [Member ''ent'' struct_trace_entry,
      Member ''__data_loc_name'' typedef_u32,
      Member ''flag'' (Scalar Int32),
      Member ''__data'' (Array (Scalar Char8) 0)]"

lemma struct_trace_event_raw_regmap_bool_layout [layout_simps]:
  "wf_type struct_trace_event_raw_regmap_bool" "shape struct_trace_event_raw_regmap_bool = (16, 4)"
  by (simp_all del: One_nat_def add: struct_trace_event_raw_regmap_bool_def layout_eval layout_simps)

definition struct_trace_event_raw_regmap_async :: ctype where
  "struct_trace_event_raw_regmap_async =
     Composite Struct False
     [Member ''ent'' struct_trace_entry,
      Member ''__data_loc_name'' typedef_u32,
      Member ''__data'' (Array (Scalar Char8) 0)]"

lemma struct_trace_event_raw_regmap_async_layout [layout_simps]:
  "wf_type struct_trace_event_raw_regmap_async" "shape struct_trace_event_raw_regmap_async = (12, 4)"
  by (simp_all del: One_nat_def add: struct_trace_event_raw_regmap_async_def layout_eval layout_simps)

definition struct_trace_event_raw_regcache_drop_region :: ctype where
  "struct_trace_event_raw_regcache_drop_region =
     Composite Struct False
     [Member ''ent'' struct_trace_entry,
      Member ''__data_loc_name'' typedef_u32,
      Member ''from'' (Scalar UInt32),
      Member ''to'' (Scalar UInt32),
      Member ''__data'' (Array (Scalar Char8) 0)]"

lemma struct_trace_event_raw_regcache_drop_region_layout [layout_simps]:
  "wf_type struct_trace_event_raw_regcache_drop_region" "shape struct_trace_event_raw_regcache_drop_region = (20, 4)"
  by (simp_all del: One_nat_def add: struct_trace_event_raw_regcache_drop_region_def layout_eval layout_simps)

definition struct_trace_event_raw_sync_timeline :: ctype where
  "struct_trace_event_raw_sync_timeline =
     Composite Struct False
     [Member ''ent'' struct_trace_entry,
      Member ''__data_loc_name'' typedef_u32,
      Member ''value'' typedef_u32,
      Member ''__data'' (Array (Scalar Char8) 0)]"

lemma struct_trace_event_raw_sync_timeline_layout [layout_simps]:
  "wf_type struct_trace_event_raw_sync_timeline" "shape struct_trace_event_raw_sync_timeline = (16, 4)"
  by (simp_all del: One_nat_def add: struct_trace_event_raw_sync_timeline_def layout_eval layout_simps)

definition struct_trace_event_raw_xhci_log_msg :: ctype where
  "struct_trace_event_raw_xhci_log_msg =
     Composite Struct False
     [Member ''ent'' struct_trace_entry,
      Member ''__data_loc_msg'' typedef_u32,
      Member ''__data'' (Array (Scalar Char8) 0)]"

lemma struct_trace_event_raw_xhci_log_msg_layout [layout_simps]:
  "wf_type struct_trace_event_raw_xhci_log_msg" "shape struct_trace_event_raw_xhci_log_msg = (12, 4)"
  by (simp_all del: One_nat_def add: struct_trace_event_raw_xhci_log_msg_def layout_eval layout_simps)

definition struct_trace_event_raw_xhci_log_ctx :: ctype where
  "struct_trace_event_raw_xhci_log_ctx =
     Composite Struct False
     [Member ''ent'' struct_trace_entry,
      Member ''ctx_64'' (Scalar Int32),
      Member ''ctx_type'' (Scalar UInt32),
      Member ''ctx_dma'' typedef_dma_addr_t,
      Member ''ctx_va'' (Pointer (Named Typedef_name ''u8'')),
      Member ''ctx_ep_num'' (Scalar UInt32),
      Member ''__data_loc_ctx_data'' typedef_u32,
      Member ''__data'' (Array (Scalar Char8) 0)]"

lemma struct_trace_event_raw_xhci_log_ctx_layout [layout_simps]:
  "wf_type struct_trace_event_raw_xhci_log_ctx" "shape struct_trace_event_raw_xhci_log_ctx = (40, 8)"
  by (simp_all del: One_nat_def add: struct_trace_event_raw_xhci_log_ctx_def layout_eval layout_simps)

definition struct_trace_event_raw_xhci_log_trb :: ctype where
  "struct_trace_event_raw_xhci_log_trb =
     Composite Struct False
     [Member ''ent'' struct_trace_entry,
      Member ''type'' typedef_u32,
      Member ''field0'' typedef_u32,
      Member ''field1'' typedef_u32,
      Member ''field2'' typedef_u32,
      Member ''field3'' typedef_u32,
      Member ''__data'' (Array (Scalar Char8) 0)]"

lemma struct_trace_event_raw_xhci_log_trb_layout [layout_simps]:
  "wf_type struct_trace_event_raw_xhci_log_trb" "shape struct_trace_event_raw_xhci_log_trb = (28, 4)"
  by (simp_all del: One_nat_def add: struct_trace_event_raw_xhci_log_trb_def layout_eval layout_simps)

definition struct_trace_event_raw_xhci_log_free_virt_dev :: ctype where
  "struct_trace_event_raw_xhci_log_free_virt_dev =
     Composite Struct False
     [Member ''ent'' struct_trace_entry,
      Member ''vdev'' (Pointer Void),
      Member ''out_ctx'' (Scalar ULongLong64),
      Member ''in_ctx'' (Scalar ULongLong64),
      Member ''fake_port'' typedef_u8,
      Member ''real_port'' typedef_u8,
      Member ''current_mel'' typedef_u16,
      Member ''__data'' (Array (Scalar Char8) 0)]"

lemma struct_trace_event_raw_xhci_log_free_virt_dev_layout [layout_simps]:
  "wf_type struct_trace_event_raw_xhci_log_free_virt_dev" "shape struct_trace_event_raw_xhci_log_free_virt_dev = (40, 8)"
  by (simp_all del: One_nat_def add: struct_trace_event_raw_xhci_log_free_virt_dev_def layout_eval layout_simps)

definition struct_trace_event_raw_xhci_log_virt_dev :: ctype where
  "struct_trace_event_raw_xhci_log_virt_dev =
     Composite Struct False
     [Member ''ent'' struct_trace_entry,
      Member ''vdev'' (Pointer Void),
      Member ''out_ctx'' (Scalar ULongLong64),
      Member ''in_ctx'' (Scalar ULongLong64),
      Member ''devnum'' (Scalar Int32),
      Member ''state'' (Scalar Int32),
      Member ''speed'' (Scalar Int32),
      Member ''portnum'' typedef_u8,
      Member ''level'' typedef_u8,
      Member ''slot_id'' (Scalar Int32),
      Member ''__data'' (Array (Scalar Char8) 0)]"

lemma struct_trace_event_raw_xhci_log_virt_dev_layout [layout_simps]:
  "wf_type struct_trace_event_raw_xhci_log_virt_dev" "shape struct_trace_event_raw_xhci_log_virt_dev = (56, 8)"
  by (simp_all del: One_nat_def add: struct_trace_event_raw_xhci_log_virt_dev_def layout_eval layout_simps)

definition struct_trace_event_raw_xhci_log_urb :: ctype where
  "struct_trace_event_raw_xhci_log_urb =
     Composite Struct False
     [Member ''ent'' struct_trace_entry,
      Member ''urb'' (Pointer Void),
      Member ''pipe'' (Scalar UInt32),
      Member ''stream'' (Scalar UInt32),
      Member ''status'' (Scalar Int32),
      Member ''flags'' (Scalar UInt32),
      Member ''num_mapped_sgs'' (Scalar Int32),
      Member ''num_sgs'' (Scalar Int32),
      Member ''length'' (Scalar Int32),
      Member ''actual'' (Scalar Int32),
      Member ''epnum'' (Scalar Int32),
      Member ''dir_in'' (Scalar Int32),
      Member ''type'' (Scalar Int32),
      Member ''slot_id'' (Scalar Int32),
      Member ''__data'' (Array (Scalar Char8) 0)]"

lemma struct_trace_event_raw_xhci_log_urb_layout [layout_simps]:
  "wf_type struct_trace_event_raw_xhci_log_urb" "shape struct_trace_event_raw_xhci_log_urb = (64, 8)"
  by (simp_all del: One_nat_def add: struct_trace_event_raw_xhci_log_urb_def layout_eval layout_simps)

definition struct_trace_event_raw_xhci_log_ep_ctx :: ctype where
  "struct_trace_event_raw_xhci_log_ep_ctx =
     Composite Struct False
     [Member ''ent'' struct_trace_entry,
      Member ''info'' typedef_u32,
      Member ''info2'' typedef_u32,
      Member ''deq'' typedef_u64,
      Member ''tx_info'' typedef_u32,
      Member ''__data'' (Array (Scalar Char8) 0)]"

lemma struct_trace_event_raw_xhci_log_ep_ctx_layout [layout_simps]:
  "wf_type struct_trace_event_raw_xhci_log_ep_ctx" "shape struct_trace_event_raw_xhci_log_ep_ctx = (32, 8)"
  by (simp_all del: One_nat_def add: struct_trace_event_raw_xhci_log_ep_ctx_def layout_eval layout_simps)

definition struct_trace_event_raw_xhci_log_slot_ctx :: ctype where
  "struct_trace_event_raw_xhci_log_slot_ctx =
     Composite Struct False
     [Member ''ent'' struct_trace_entry,
      Member ''info'' typedef_u32,
      Member ''info2'' typedef_u32,
      Member ''tt_info'' typedef_u32,
      Member ''state'' typedef_u32,
      Member ''__data'' (Array (Scalar Char8) 0)]"

lemma struct_trace_event_raw_xhci_log_slot_ctx_layout [layout_simps]:
  "wf_type struct_trace_event_raw_xhci_log_slot_ctx" "shape struct_trace_event_raw_xhci_log_slot_ctx = (24, 4)"
  by (simp_all del: One_nat_def add: struct_trace_event_raw_xhci_log_slot_ctx_def layout_eval layout_simps)

definition struct_trace_event_raw_xhci_log_ctrl_ctx :: ctype where
  "struct_trace_event_raw_xhci_log_ctrl_ctx =
     Composite Struct False
     [Member ''ent'' struct_trace_entry,
      Member ''drop'' typedef_u32,
      Member ''add'' typedef_u32,
      Member ''__data'' (Array (Scalar Char8) 0)]"

lemma struct_trace_event_raw_xhci_log_ctrl_ctx_layout [layout_simps]:
  "wf_type struct_trace_event_raw_xhci_log_ctrl_ctx" "shape struct_trace_event_raw_xhci_log_ctrl_ctx = (16, 4)"
  by (simp_all del: One_nat_def add: struct_trace_event_raw_xhci_log_ctrl_ctx_def layout_eval layout_simps)

definition struct_trace_event_raw_xhci_log_ring :: ctype where
  "struct_trace_event_raw_xhci_log_ring =
     Composite Struct False
     [Member ''ent'' struct_trace_entry,
      Member ''type'' typedef_u32,
      Member ''ring'' (Pointer Void),
      Member ''enq'' typedef_dma_addr_t,
      Member ''deq'' typedef_dma_addr_t,
      Member ''enq_seg'' typedef_dma_addr_t,
      Member ''deq_seg'' typedef_dma_addr_t,
      Member ''num_segs'' (Scalar UInt32),
      Member ''stream_id'' (Scalar UInt32),
      Member ''cycle_state'' (Scalar UInt32),
      Member ''bounce_buf_len'' (Scalar UInt32),
      Member ''__data'' (Array (Scalar Char8) 0)]"

lemma struct_trace_event_raw_xhci_log_ring_layout [layout_simps]:
  "wf_type struct_trace_event_raw_xhci_log_ring" "shape struct_trace_event_raw_xhci_log_ring = (72, 8)"
  by (simp_all del: One_nat_def add: struct_trace_event_raw_xhci_log_ring_def layout_eval layout_simps)

definition struct_trace_event_raw_xhci_log_portsc :: ctype where
  "struct_trace_event_raw_xhci_log_portsc =
     Composite Struct False
     [Member ''ent'' struct_trace_entry,
      Member ''busnum'' typedef_u32,
      Member ''portnum'' typedef_u32,
      Member ''portsc'' typedef_u32,
      Member ''__data'' (Array (Scalar Char8) 0)]"

lemma struct_trace_event_raw_xhci_log_portsc_layout [layout_simps]:
  "wf_type struct_trace_event_raw_xhci_log_portsc" "shape struct_trace_event_raw_xhci_log_portsc = (20, 4)"
  by (simp_all del: One_nat_def add: struct_trace_event_raw_xhci_log_portsc_def layout_eval layout_simps)

definition struct_trace_event_raw_xhci_log_doorbell :: ctype where
  "struct_trace_event_raw_xhci_log_doorbell =
     Composite Struct False
     [Member ''ent'' struct_trace_entry,
      Member ''slot'' typedef_u32,
      Member ''doorbell'' typedef_u32,
      Member ''__data'' (Array (Scalar Char8) 0)]"

lemma struct_trace_event_raw_xhci_log_doorbell_layout [layout_simps]:
  "wf_type struct_trace_event_raw_xhci_log_doorbell" "shape struct_trace_event_raw_xhci_log_doorbell = (16, 4)"
  by (simp_all del: One_nat_def add: struct_trace_event_raw_xhci_log_doorbell_def layout_eval layout_simps)

definition struct_trace_event_raw_xhci_dbc_log_request :: ctype where
  "struct_trace_event_raw_xhci_dbc_log_request =
     Composite Struct False
     [Member ''ent'' struct_trace_entry,
      Member ''req'' (Pointer (Named Struct_name ''dbc_request'')),
      Member ''dir'' typedef_bool,
      Member ''actual'' (Scalar UInt32),
      Member ''length'' (Scalar UInt32),
      Member ''status'' (Scalar Int32),
      Member ''__data'' (Array (Scalar Char8) 0)]"

lemma struct_trace_event_raw_xhci_dbc_log_request_layout [layout_simps]:
  "wf_type struct_trace_event_raw_xhci_dbc_log_request" "shape struct_trace_event_raw_xhci_dbc_log_request = (32, 8)"
  by (simp_all del: One_nat_def add: struct_trace_event_raw_xhci_dbc_log_request_def layout_eval layout_simps)

definition struct_trace_event_raw_rtc_time_alarm_class :: ctype where
  "struct_trace_event_raw_rtc_time_alarm_class =
     Composite Struct False
     [Member ''ent'' struct_trace_entry,
      Member ''secs'' typedef_time64_t,
      Member ''err'' (Scalar Int32),
      Member ''__data'' (Array (Scalar Char8) 0)]"

lemma struct_trace_event_raw_rtc_time_alarm_class_layout [layout_simps]:
  "wf_type struct_trace_event_raw_rtc_time_alarm_class" "shape struct_trace_event_raw_rtc_time_alarm_class = (24, 8)"
  by (simp_all del: One_nat_def add: struct_trace_event_raw_rtc_time_alarm_class_def layout_eval layout_simps)

definition struct_trace_event_raw_rtc_irq_set_freq :: ctype where
  "struct_trace_event_raw_rtc_irq_set_freq =
     Composite Struct False
     [Member ''ent'' struct_trace_entry,
      Member ''freq'' (Scalar Int32),
      Member ''err'' (Scalar Int32),
      Member ''__data'' (Array (Scalar Char8) 0)]"

lemma struct_trace_event_raw_rtc_irq_set_freq_layout [layout_simps]:
  "wf_type struct_trace_event_raw_rtc_irq_set_freq" "shape struct_trace_event_raw_rtc_irq_set_freq = (16, 4)"
  by (simp_all del: One_nat_def add: struct_trace_event_raw_rtc_irq_set_freq_def layout_eval layout_simps)

definition struct_trace_event_raw_rtc_irq_set_state :: ctype where
  "struct_trace_event_raw_rtc_irq_set_state =
     Composite Struct False
     [Member ''ent'' struct_trace_entry,
      Member ''enabled'' (Scalar Int32),
      Member ''err'' (Scalar Int32),
      Member ''__data'' (Array (Scalar Char8) 0)]"

lemma struct_trace_event_raw_rtc_irq_set_state_layout [layout_simps]:
  "wf_type struct_trace_event_raw_rtc_irq_set_state" "shape struct_trace_event_raw_rtc_irq_set_state = (16, 4)"
  by (simp_all del: One_nat_def add: struct_trace_event_raw_rtc_irq_set_state_def layout_eval layout_simps)

definition struct_trace_event_raw_rtc_alarm_irq_enable :: ctype where
  "struct_trace_event_raw_rtc_alarm_irq_enable =
     Composite Struct False
     [Member ''ent'' struct_trace_entry,
      Member ''enabled'' (Scalar UInt32),
      Member ''err'' (Scalar Int32),
      Member ''__data'' (Array (Scalar Char8) 0)]"

lemma struct_trace_event_raw_rtc_alarm_irq_enable_layout [layout_simps]:
  "wf_type struct_trace_event_raw_rtc_alarm_irq_enable" "shape struct_trace_event_raw_rtc_alarm_irq_enable = (16, 4)"
  by (simp_all del: One_nat_def add: struct_trace_event_raw_rtc_alarm_irq_enable_def layout_eval layout_simps)

definition struct_trace_event_raw_rtc_offset_class :: ctype where
  "struct_trace_event_raw_rtc_offset_class =
     Composite Struct False
     [Member ''ent'' struct_trace_entry,
      Member ''offset'' (Scalar Long64),
      Member ''err'' (Scalar Int32),
      Member ''__data'' (Array (Scalar Char8) 0)]"

lemma struct_trace_event_raw_rtc_offset_class_layout [layout_simps]:
  "wf_type struct_trace_event_raw_rtc_offset_class" "shape struct_trace_event_raw_rtc_offset_class = (24, 8)"
  by (simp_all del: One_nat_def add: struct_trace_event_raw_rtc_offset_class_def layout_eval layout_simps)

definition struct_trace_event_raw_rtc_timer_class :: ctype where
  "struct_trace_event_raw_rtc_timer_class =
     Composite Struct False
     [Member ''ent'' struct_trace_entry,
      Member ''timer'' (Pointer (Named Struct_name ''rtc_timer'')),
      Member ''expires'' typedef_ktime_t,
      Member ''period'' typedef_ktime_t,
      Member ''__data'' (Array (Scalar Char8) 0)]"

lemma struct_trace_event_raw_rtc_timer_class_layout [layout_simps]:
  "wf_type struct_trace_event_raw_rtc_timer_class" "shape struct_trace_event_raw_rtc_timer_class = (32, 8)"
  by (simp_all del: One_nat_def add: struct_trace_event_raw_rtc_timer_class_def layout_eval layout_simps)

definition struct_trace_event_raw_skb_copy_datagram_iovec :: ctype where
  "struct_trace_event_raw_skb_copy_datagram_iovec =
     Composite Struct False
     [Member ''ent'' struct_trace_entry,
      Member ''skbaddr'' (Pointer Void),
      Member ''len'' (Scalar Int32),
      Member ''__data'' (Array (Scalar Char8) 0)]"

lemma struct_trace_event_raw_skb_copy_datagram_iovec_layout [layout_simps]:
  "wf_type struct_trace_event_raw_skb_copy_datagram_iovec" "shape struct_trace_event_raw_skb_copy_datagram_iovec = (24, 8)"
  by (simp_all del: One_nat_def add: struct_trace_event_raw_skb_copy_datagram_iovec_def layout_eval layout_simps)

definition struct_trace_event_raw_sock_rcvqueue_full :: ctype where
  "struct_trace_event_raw_sock_rcvqueue_full =
     Composite Struct False
     [Member ''ent'' struct_trace_entry,
      Member ''rmem_alloc'' (Scalar Int32),
      Member ''truesize'' (Scalar UInt32),
      Member ''sk_rcvbuf'' (Scalar Int32),
      Member ''__data'' (Array (Scalar Char8) 0)]"

lemma struct_trace_event_raw_sock_rcvqueue_full_layout [layout_simps]:
  "wf_type struct_trace_event_raw_sock_rcvqueue_full" "shape struct_trace_event_raw_sock_rcvqueue_full = (20, 4)"
  by (simp_all del: One_nat_def add: struct_trace_event_raw_sock_rcvqueue_full_def layout_eval layout_simps)

definition struct_trace_event_raw_sock_exceed_buf_limit :: ctype where
  "struct_trace_event_raw_sock_exceed_buf_limit =
     Composite Struct False
     [Member ''ent'' struct_trace_entry,
      Member ''name'' (Array (Scalar Char8) 32),
      Member ''sysctl_mem'' (Array (Scalar Long64) 3),
      Member ''allocated'' (Scalar Long64),
      Member ''sysctl_rmem'' (Scalar Int32),
      Member ''rmem_alloc'' (Scalar Int32),
      Member ''sysctl_wmem'' (Scalar Int32),
      Member ''wmem_alloc'' (Scalar Int32),
      Member ''wmem_queued'' (Scalar Int32),
      Member ''kind'' (Scalar Int32),
      Member ''__data'' (Array (Scalar Char8) 0)]"

lemma struct_trace_event_raw_sock_exceed_buf_limit_layout [layout_simps]:
  "wf_type struct_trace_event_raw_sock_exceed_buf_limit" "shape struct_trace_event_raw_sock_exceed_buf_limit = (96, 8)"
  by (simp_all del: One_nat_def add: struct_trace_event_raw_sock_exceed_buf_limit_def layout_eval layout_simps)

definition struct_trace_event_raw_sk_data_ready :: ctype where
  "struct_trace_event_raw_sk_data_ready =
     Composite Struct False
     [Member ''ent'' struct_trace_entry,
      Member ''skaddr'' (Pointer Void),
      Member ''family'' typedef___u16,
      Member ''protocol'' typedef___u16,
      Member ''ip'' (Scalar ULong64),
      Member ''__data'' (Array (Scalar Char8) 0)]"

lemma struct_trace_event_raw_sk_data_ready_layout [layout_simps]:
  "wf_type struct_trace_event_raw_sk_data_ready" "shape struct_trace_event_raw_sk_data_ready = (32, 8)"
  by (simp_all del: One_nat_def add: struct_trace_event_raw_sk_data_ready_def layout_eval layout_simps)

definition struct_trace_event_raw_sock_msg_length :: ctype where
  "struct_trace_event_raw_sock_msg_length =
     Composite Struct False
     [Member ''ent'' struct_trace_entry,
      Member ''sk'' (Pointer Void),
      Member ''family'' typedef___u16,
      Member ''protocol'' typedef___u16,
      Member ''ret'' (Scalar Int32),
      Member ''flags'' (Scalar Int32),
      Member ''__data'' (Array (Scalar Char8) 0)]"

lemma struct_trace_event_raw_sock_msg_length_layout [layout_simps]:
  "wf_type struct_trace_event_raw_sock_msg_length" "shape struct_trace_event_raw_sock_msg_length = (32, 8)"
  by (simp_all del: One_nat_def add: struct_trace_event_raw_sock_msg_length_def layout_eval layout_simps)

definition struct_trace_event_raw_udp_fail_queue_rcv_skb :: ctype where
  "struct_trace_event_raw_udp_fail_queue_rcv_skb =
     Composite Struct False
     [Member ''ent'' struct_trace_entry,
      Member ''rc'' (Scalar Int32),
      Member ''lport'' typedef___u16,
      Member ''__data'' (Array (Scalar Char8) 0)]"

lemma struct_trace_event_raw_udp_fail_queue_rcv_skb_layout [layout_simps]:
  "wf_type struct_trace_event_raw_udp_fail_queue_rcv_skb" "shape struct_trace_event_raw_udp_fail_queue_rcv_skb = (16, 4)"
  by (simp_all del: One_nat_def add: struct_trace_event_raw_udp_fail_queue_rcv_skb_def layout_eval layout_simps)

definition struct_trace_event_raw_tcp_event_sk_skb :: ctype where
  "struct_trace_event_raw_tcp_event_sk_skb =
     Composite Struct False
     [Member ''ent'' struct_trace_entry,
      Member ''skbaddr'' (Pointer Void),
      Member ''skaddr'' (Pointer Void),
      Member ''state'' (Scalar Int32),
      Member ''sport'' typedef___u16,
      Member ''dport'' typedef___u16,
      Member ''family'' typedef___u16,
      Member ''saddr'' (Array typedef___u8 4),
      Member ''daddr'' (Array typedef___u8 4),
      Member ''saddr_v6'' (Array typedef___u8 16),
      Member ''daddr_v6'' (Array typedef___u8 16),
      Member ''__data'' (Array (Scalar Char8) 0)]"

lemma struct_trace_event_raw_tcp_event_sk_skb_layout [layout_simps]:
  "wf_type struct_trace_event_raw_tcp_event_sk_skb" "shape struct_trace_event_raw_tcp_event_sk_skb = (80, 8)"
  by (simp_all del: One_nat_def add: struct_trace_event_raw_tcp_event_sk_skb_def layout_eval layout_simps)

definition struct_trace_event_raw_tcp_event_sk :: ctype where
  "struct_trace_event_raw_tcp_event_sk =
     Composite Struct False
     [Member ''ent'' struct_trace_entry,
      Member ''skaddr'' (Pointer Void),
      Member ''sport'' typedef___u16,
      Member ''dport'' typedef___u16,
      Member ''family'' typedef___u16,
      Member ''saddr'' (Array typedef___u8 4),
      Member ''daddr'' (Array typedef___u8 4),
      Member ''saddr_v6'' (Array typedef___u8 16),
      Member ''daddr_v6'' (Array typedef___u8 16),
      Member ''sock_cookie'' typedef___u64,
      Member ''__data'' (Array (Scalar Char8) 0)]"

lemma struct_trace_event_raw_tcp_event_sk_layout [layout_simps]:
  "wf_type struct_trace_event_raw_tcp_event_sk" "shape struct_trace_event_raw_tcp_event_sk = (72, 8)"
  by (simp_all del: One_nat_def add: struct_trace_event_raw_tcp_event_sk_def layout_eval layout_simps)

definition struct_trace_event_raw_tcp_retransmit_synack :: ctype where
  "struct_trace_event_raw_tcp_retransmit_synack =
     Composite Struct False
     [Member ''ent'' struct_trace_entry,
      Member ''skaddr'' (Pointer Void),
      Member ''req'' (Pointer Void),
      Member ''sport'' typedef___u16,
      Member ''dport'' typedef___u16,
      Member ''family'' typedef___u16,
      Member ''saddr'' (Array typedef___u8 4),
      Member ''daddr'' (Array typedef___u8 4),
      Member ''saddr_v6'' (Array typedef___u8 16),
      Member ''daddr_v6'' (Array typedef___u8 16),
      Member ''__data'' (Array (Scalar Char8) 0)]"

lemma struct_trace_event_raw_tcp_retransmit_synack_layout [layout_simps]:
  "wf_type struct_trace_event_raw_tcp_retransmit_synack" "shape struct_trace_event_raw_tcp_retransmit_synack = (72, 8)"
  by (simp_all del: One_nat_def add: struct_trace_event_raw_tcp_retransmit_synack_def layout_eval layout_simps)

definition struct_trace_event_raw_tcp_probe :: ctype where
  "struct_trace_event_raw_tcp_probe =
     Composite Struct False
     [Member ''ent'' struct_trace_entry,
      Member ''saddr'' (Array typedef___u8 28),
      Member ''daddr'' (Array typedef___u8 28),
      Member ''sport'' typedef___u16,
      Member ''dport'' typedef___u16,
      Member ''family'' typedef___u16,
      Member ''mark'' typedef___u32,
      Member ''data_len'' typedef___u16,
      Member ''snd_nxt'' typedef___u32,
      Member ''snd_una'' typedef___u32,
      Member ''snd_cwnd'' typedef___u32,
      Member ''ssthresh'' typedef___u32,
      Member ''snd_wnd'' typedef___u32,
      Member ''srtt'' typedef___u32,
      Member ''rcv_wnd'' typedef___u32,
      Member ''sock_cookie'' typedef___u64,
      Member ''__data'' (Array (Scalar Char8) 0)]"

lemma struct_trace_event_raw_tcp_probe_layout [layout_simps]:
  "wf_type struct_trace_event_raw_tcp_probe" "shape struct_trace_event_raw_tcp_probe = (120, 8)"
  by (simp_all del: One_nat_def add: struct_trace_event_raw_tcp_probe_def layout_eval layout_simps)

definition struct_trace_event_raw_tcp_event_skb :: ctype where
  "struct_trace_event_raw_tcp_event_skb =
     Composite Struct False
     [Member ''ent'' struct_trace_entry,
      Member ''skbaddr'' (Pointer Void),
      Member ''saddr'' (Array typedef___u8 28),
      Member ''daddr'' (Array typedef___u8 28),
      Member ''__data'' (Array (Scalar Char8) 0)]"

lemma struct_trace_event_raw_tcp_event_skb_layout [layout_simps]:
  "wf_type struct_trace_event_raw_tcp_event_skb" "shape struct_trace_event_raw_tcp_event_skb = (72, 8)"
  by (simp_all del: One_nat_def add: struct_trace_event_raw_tcp_event_skb_def layout_eval layout_simps)

definition struct_trace_event_raw_tcp_cong_state_set :: ctype where
  "struct_trace_event_raw_tcp_cong_state_set =
     Composite Struct False
     [Member ''ent'' struct_trace_entry,
      Member ''skaddr'' (Pointer Void),
      Member ''sport'' typedef___u16,
      Member ''dport'' typedef___u16,
      Member ''family'' typedef___u16,
      Member ''saddr'' (Array typedef___u8 4),
      Member ''daddr'' (Array typedef___u8 4),
      Member ''saddr_v6'' (Array typedef___u8 16),
      Member ''daddr_v6'' (Array typedef___u8 16),
      Member ''cong_state'' typedef___u8,
      Member ''__data'' (Array (Scalar Char8) 0)]"

lemma struct_trace_event_raw_tcp_cong_state_set_layout [layout_simps]:
  "wf_type struct_trace_event_raw_tcp_cong_state_set" "shape struct_trace_event_raw_tcp_cong_state_set = (64, 8)"
  by (simp_all del: One_nat_def add: struct_trace_event_raw_tcp_cong_state_set_def layout_eval layout_simps)

definition struct_trace_event_raw_qdisc_dequeue :: ctype where
  "struct_trace_event_raw_qdisc_dequeue =
     Composite Struct False
     [Member ''ent'' struct_trace_entry,
      Member ''qdisc'' (Pointer (Named Struct_name ''Qdisc'')),
      Member ''txq'' (Pointer (Named Struct_name ''netdev_queue'')),
      Member ''packets'' (Scalar Int32),
      Member ''skbaddr'' (Pointer Void),
      Member ''ifindex'' (Scalar Int32),
      Member ''handle'' typedef_u32,
      Member ''parent'' typedef_u32,
      Member ''txq_state'' (Scalar ULong64),
      Member ''__data'' (Array (Scalar Char8) 0)]"

lemma struct_trace_event_raw_qdisc_dequeue_layout [layout_simps]:
  "wf_type struct_trace_event_raw_qdisc_dequeue" "shape struct_trace_event_raw_qdisc_dequeue = (64, 8)"
  by (simp_all del: One_nat_def add: struct_trace_event_raw_qdisc_dequeue_def layout_eval layout_simps)

definition struct_trace_event_raw_qdisc_enqueue :: ctype where
  "struct_trace_event_raw_qdisc_enqueue =
     Composite Struct False
     [Member ''ent'' struct_trace_entry,
      Member ''qdisc'' (Pointer (Named Struct_name ''Qdisc'')),
      Member ''txq'' (Pointer (Named Struct_name ''netdev_queue'')),
      Member ''skbaddr'' (Pointer Void),
      Member ''ifindex'' (Scalar Int32),
      Member ''handle'' typedef_u32,
      Member ''parent'' typedef_u32,
      Member ''__data'' (Array (Scalar Char8) 0)]"

lemma struct_trace_event_raw_qdisc_enqueue_layout [layout_simps]:
  "wf_type struct_trace_event_raw_qdisc_enqueue" "shape struct_trace_event_raw_qdisc_enqueue = (48, 8)"
  by (simp_all del: One_nat_def add: struct_trace_event_raw_qdisc_enqueue_def layout_eval layout_simps)

definition struct_trace_event_raw_qdisc_reset :: ctype where
  "struct_trace_event_raw_qdisc_reset =
     Composite Struct False
     [Member ''ent'' struct_trace_entry,
      Member ''__data_loc_dev'' typedef_u32,
      Member ''__data_loc_kind'' typedef_u32,
      Member ''parent'' typedef_u32,
      Member ''handle'' typedef_u32,
      Member ''__data'' (Array (Scalar Char8) 0)]"

lemma struct_trace_event_raw_qdisc_reset_layout [layout_simps]:
  "wf_type struct_trace_event_raw_qdisc_reset" "shape struct_trace_event_raw_qdisc_reset = (24, 4)"
  by (simp_all del: One_nat_def add: struct_trace_event_raw_qdisc_reset_def layout_eval layout_simps)

definition struct_trace_event_raw_qdisc_destroy :: ctype where
  "struct_trace_event_raw_qdisc_destroy =
     Composite Struct False
     [Member ''ent'' struct_trace_entry,
      Member ''__data_loc_dev'' typedef_u32,
      Member ''__data_loc_kind'' typedef_u32,
      Member ''parent'' typedef_u32,
      Member ''handle'' typedef_u32,
      Member ''__data'' (Array (Scalar Char8) 0)]"

lemma struct_trace_event_raw_qdisc_destroy_layout [layout_simps]:
  "wf_type struct_trace_event_raw_qdisc_destroy" "shape struct_trace_event_raw_qdisc_destroy = (24, 4)"
  by (simp_all del: One_nat_def add: struct_trace_event_raw_qdisc_destroy_def layout_eval layout_simps)

definition struct_trace_event_raw_qdisc_create :: ctype where
  "struct_trace_event_raw_qdisc_create =
     Composite Struct False
     [Member ''ent'' struct_trace_entry,
      Member ''__data_loc_dev'' typedef_u32,
      Member ''__data_loc_kind'' typedef_u32,
      Member ''parent'' typedef_u32,
      Member ''__data'' (Array (Scalar Char8) 0)]"

lemma struct_trace_event_raw_qdisc_create_layout [layout_simps]:
  "wf_type struct_trace_event_raw_qdisc_create" "shape struct_trace_event_raw_qdisc_create = (20, 4)"
  by (simp_all del: One_nat_def add: struct_trace_event_raw_qdisc_create_def layout_eval layout_simps)

text \<open>The types of this theory by kind and name.\<close>

definition events_c_records :: "(string \<times> ctype) list" where
  "events_c_records =
     [(''xen_mc__batch'', struct_trace_event_raw_xen_mc__batch),
      (''xen_mc_entry'', struct_trace_event_raw_xen_mc_entry),
      (''xen_mc_entry_alloc'', struct_trace_event_raw_xen_mc_entry_alloc),
      (''xen_mc_callback'', struct_trace_event_raw_xen_mc_callback),
      (''xen_mc_flush_reason'', struct_trace_event_raw_xen_mc_flush_reason),
      (''xen_mc_flush'', struct_trace_event_raw_xen_mc_flush),
      (''xen_mc_extend_args'', struct_trace_event_raw_xen_mc_extend_args),
      (''xen_mmu__set_pte'', struct_trace_event_raw_xen_mmu__set_pte),
      (''xen_mmu_set_pmd'', struct_trace_event_raw_xen_mmu_set_pmd),
      (''xen_mmu_set_pud'', struct_trace_event_raw_xen_mmu_set_pud),
      (''xen_mmu_set_p4d'', struct_trace_event_raw_xen_mmu_set_p4d),
      (''xen_mmu_ptep_modify_prot'', struct_trace_event_raw_xen_mmu_ptep_modify_prot),
      (''xen_mmu_alloc_ptpage'', struct_trace_event_raw_xen_mmu_alloc_ptpage),
      (''xen_mmu_release_ptpage'', struct_trace_event_raw_xen_mmu_release_ptpage),
      (''xen_mmu_pgd'', struct_trace_event_raw_xen_mmu_pgd),
      (''xen_mmu_flush_tlb_one_user'', struct_trace_event_raw_xen_mmu_flush_tlb_one_user),
      (''xen_mmu_flush_tlb_multi'', struct_trace_event_raw_xen_mmu_flush_tlb_multi),
      (''xen_mmu_write_cr3'', struct_trace_event_raw_xen_mmu_write_cr3),
      (''xen_cpu_write_ldt_entry'', struct_trace_event_raw_xen_cpu_write_ldt_entry),
      (''xen_cpu_write_idt_entry'', struct_trace_event_raw_xen_cpu_write_idt_entry),
      (''xen_cpu_load_idt'', struct_trace_event_raw_xen_cpu_load_idt),
      (''xen_cpu_write_gdt_entry'', struct_trace_event_raw_xen_cpu_write_gdt_entry),
      (''xen_cpu_set_ldt'', struct_trace_event_raw_xen_cpu_set_ldt),
      (''x86_irq_vector'', struct_trace_event_raw_x86_irq_vector),
      (''vector_config'', struct_trace_event_raw_vector_config),
      (''vector_mod'', struct_trace_event_raw_vector_mod),
      (''vector_reserve'', struct_trace_event_raw_vector_reserve),
      (''vector_alloc'', struct_trace_event_raw_vector_alloc),
      (''vector_alloc_managed'', struct_trace_event_raw_vector_alloc_managed),
      (''vector_activate'', struct_trace_event_raw_vector_activate),
      (''vector_teardown'', struct_trace_event_raw_vector_teardown),
      (''vector_setup'', struct_trace_event_raw_vector_setup),
      (''vector_free_moved'', struct_trace_event_raw_vector_free_moved),
      (''pseudo_lock_mem_latency'', struct_trace_event_raw_pseudo_lock_mem_latency),
      (''softirq'', struct_trace_event_raw_softirq),
      (''tasklet'', struct_trace_event_raw_tasklet),
      (''sched_kthread_stop'', struct_trace_event_raw_sched_kthread_stop),
      (''sched_kthread_stop_ret'', struct_trace_event_raw_sched_kthread_stop_ret),
      (''sched_kthread_work_queue_work'', struct_trace_event_raw_sched_kthread_work_queue_work),
      (''sched_kthread_work_execute_start'', struct_trace_event_raw_sched_kthread_work_execute_start),
      (''sched_kthread_work_execute_end'', struct_trace_event_raw_sched_kthread_work_execute_end),
      (''sched_wakeup_template'', struct_trace_event_raw_sched_wakeup_template),
      (''sched_switch'', struct_trace_event_raw_sched_switch),
      (''sched_migrate_task'', struct_trace_event_raw_sched_migrate_task),
      (''sched_process_template'', struct_trace_event_raw_sched_process_template),
      (''sched_process_wait'', struct_trace_event_raw_sched_process_wait),
      (''sched_process_fork'', struct_trace_event_raw_sched_process_fork),
      (''sched_process_exec'', struct_trace_event_raw_sched_process_exec),
      (''sched_stat_template'', struct_trace_event_raw_sched_stat_template),
      (''sched_stat_runtime'', struct_trace_event_raw_sched_stat_runtime),
      (''sched_pi_setprio'', struct_trace_event_raw_sched_pi_setprio),
      (''sched_process_hang'', struct_trace_event_raw_sched_process_hang),
      (''sched_move_numa'', struct_trace_event_raw_sched_move_numa),
      (''sched_numa_pair_template'', struct_trace_event_raw_sched_numa_pair_template),
      (''sched_skip_vma_numa'', struct_trace_event_raw_sched_skip_vma_numa),
      (''sched_wake_idle_without_ipi'', struct_trace_event_raw_sched_wake_idle_without_ipi),
      (''thread_noise'', struct_trace_event_raw_thread_noise),
      (''softirq_noise'', struct_trace_event_raw_softirq_noise),
      (''sample_threshold'', struct_trace_event_raw_sample_threshold),
      (''rpm_internal'', struct_trace_event_raw_rpm_internal),
      (''rpm_return_int'', struct_trace_event_raw_rpm_return_int),
      (''rss_stat'', struct_trace_event_raw_rss_stat),
      (''smbus_write'', struct_trace_event_raw_smbus_write),
      (''smbus_read'', struct_trace_event_raw_smbus_read),
      (''smbus_reply'', struct_trace_event_raw_smbus_reply),
      (''smbus_result'', struct_trace_event_raw_smbus_result),
      (''workqueue_queue_work'', struct_trace_event_raw_workqueue_queue_work),
      (''workqueue_activate_work'', struct_trace_event_raw_workqueue_activate_work),
      (''workqueue_execute_start'', struct_trace_event_raw_workqueue_execute_start),
      (''workqueue_execute_end'', struct_trace_event_raw_workqueue_execute_end),
      (''rcu_utilization'', struct_trace_event_raw_rcu_utilization),
      (''rcu_stall_warning'', struct_trace_event_raw_rcu_stall_warning),
      (''sys_enter'', struct_trace_event_raw_sys_enter),
      (''sys_exit'', struct_trace_event_raw_sys_exit),
      (''pstate_sample'', struct_trace_event_raw_pstate_sample),
      (''suspend_resume'', struct_trace_event_raw_suspend_resume),
      (''wakeup_source'', struct_trace_event_raw_wakeup_source),
      (''purge_vmap_area_lazy'', struct_trace_event_raw_purge_vmap_area_lazy),
      (''test_pages_isolated'', struct_trace_event_raw_test_pages_isolated),
      (''writeback_folio_template'', struct_trace_event_raw_writeback_folio_template),
      (''writeback_dirty_inode_template'', struct_trace_event_raw_writeback_dirty_inode_template),
      (''track_foreign_dirty'', struct_trace_event_raw_track_foreign_dirty),
      (''writeback_write_inode_template'', struct_trace_event_raw_writeback_write_inode_template),
      (''writeback_work_class'', struct_trace_event_raw_writeback_work_class),
      (''writeback_pages_written'', struct_trace_event_raw_writeback_pages_written),
      (''writeback_class'', struct_trace_event_raw_writeback_class),
      (''writeback_bdi_register'', struct_trace_event_raw_writeback_bdi_register),
      (''wbc_class'', struct_trace_event_raw_wbc_class),
      (''writeback_queue_io'', struct_trace_event_raw_writeback_queue_io),
      (''writeback_sb_inodes_requeue'', struct_trace_event_raw_writeback_sb_inodes_requeue),
      (''writeback_single_inode_template'', struct_trace_event_raw_writeback_single_inode_template),
      (''writeback_inode_template'', struct_trace_event_raw_writeback_inode_template),
      (''selinux_audited'', struct_trace_event_raw_selinux_audited),
      (''scsi_dispatch_cmd_start'', struct_trace_event_raw_scsi_dispatch_cmd_start),
      (''scsi_dispatch_cmd_error'', struct_trace_event_raw_scsi_dispatch_cmd_error),
      (''scsi_cmd_done_timeout_template'', struct_trace_event_raw_scsi_cmd_done_timeout_template),
      (''scsi_eh_wakeup'', struct_trace_event_raw_scsi_eh_wakeup),
      (''spi_controller'', struct_trace_event_raw_spi_controller),
      (''spi_setup'', struct_trace_event_raw_spi_setup),
      (''spi_set_cs'', struct_trace_event_raw_spi_set_cs),
      (''spi_message'', struct_trace_event_raw_spi_message),
      (''spi_message_done'', struct_trace_event_raw_spi_message_done),
      (''spi_transfer'', struct_trace_event_raw_spi_transfer),
      (''thermal_temperature'', struct_trace_event_raw_thermal_temperature),
      (''thermal_zone_trip'', struct_trace_event_raw_thermal_zone_trip),
      (''thermal_power_devfreq_get_power'', struct_trace_event_raw_thermal_power_devfreq_get_power),
      (''thermal_power_devfreq_limit'', struct_trace_event_raw_thermal_power_devfreq_limit),
      (''thermal_power_allocator'', struct_trace_event_raw_thermal_power_allocator),
      (''thermal_power_actor'', struct_trace_event_raw_thermal_power_actor),
      (''thermal_power_allocator_pid'', struct_trace_event_raw_thermal_power_allocator_pid),
      (''subflow_check_data_avail'', struct_trace_event_raw_subflow_check_data_avail),
      (''tls_contenttype'', struct_trace_event_raw_tls_contenttype),
      (''x86_fpu'', struct_trace_event_raw_x86_fpu),
      (''signal_generate'', struct_trace_event_raw_signal_generate),
      (''signal_deliver'', struct_trace_event_raw_signal_deliver),
      (''swiotlb_bounced'', struct_trace_event_raw_swiotlb_bounced),
      (''timer_class'', struct_trace_event_raw_timer_class),
      (''timer_start'', struct_trace_event_raw_timer_start),
      (''timer_expire_entry'', struct_trace_event_raw_timer_expire_entry),
      (''timer_base_idle'', struct_trace_event_raw_timer_base_idle),
      (''tick_stop'', struct_trace_event_raw_tick_stop),
      (''xdp_exception'', struct_trace_event_raw_xdp_exception),
      (''xdp_bulk_tx'', struct_trace_event_raw_xdp_bulk_tx),
      (''xdp_redirect_template'', struct_trace_event_raw_xdp_redirect_template),
      (''xdp_cpumap_kthread'', struct_trace_event_raw_xdp_cpumap_kthread),
      (''xdp_cpumap_enqueue'', struct_trace_event_raw_xdp_cpumap_enqueue),
      (''xdp_devmap_xmit'', struct_trace_event_raw_xdp_devmap_xmit),
      (''tlb_flush'', struct_trace_event_raw_tlb_flush),
      (''wbt_stat'', struct_trace_event_raw_wbt_stat),
      (''wbt_lat'', struct_trace_event_raw_wbt_lat),
      (''wbt_step'', struct_trace_event_raw_wbt_step),
      (''wbt_timer'', struct_trace_event_raw_wbt_timer),
      (''qi_submit'', struct_trace_event_raw_qi_submit),
      (''scsi_prepare_zone_append'', struct_trace_event_raw_scsi_prepare_zone_append),
      (''scsi_zone_wp_update'', struct_trace_event_raw_scsi_zone_wp_update),
      (''watchdog_template'', struct_trace_event_raw_watchdog_template),
      (''watchdog_set_timeout'', struct_trace_event_raw_watchdog_set_timeout),
      (''x86_exceptions'', struct_trace_event_raw_x86_exceptions),
      (''task_newtask'', struct_trace_event_raw_task_newtask),
      (''task_rename'', struct_trace_event_raw_task_rename),
      (''rseq_update'', struct_trace_event_raw_rseq_update),
      (''rseq_ip_fixup'', struct_trace_event_raw_rseq_ip_fixup),
      (''reclaim_retry_zone'', struct_trace_event_raw_reclaim_retry_zone),
      (''wake_reaper'', struct_trace_event_raw_wake_reaper),
      (''start_task_reaping'', struct_trace_event_raw_start_task_reaping),
      (''skip_task_reaping'', struct_trace_event_raw_skip_task_reaping),
      (''vm_unmapped_area'', struct_trace_event_raw_vm_unmapped_area),
      (''vma_mas_szero'', struct_trace_event_raw_vma_mas_szero),
      (''vma_store'', struct_trace_event_raw_vma_store),
      (''pwm'', struct_trace_event_raw_pwm),
      (''regulator_basic'', struct_trace_event_raw_regulator_basic),
      (''regulator_range'', struct_trace_event_raw_regulator_range),
      (''regulator_value'', struct_trace_event_raw_regulator_value),
      (''unmap'', struct_trace_event_raw_unmap),
      (''regmap_reg'', struct_trace_event_raw_regmap_reg),
      (''regmap_bulk'', struct_trace_event_raw_regmap_bulk),
      (''regmap_block'', struct_trace_event_raw_regmap_block),
      (''regcache_sync'', struct_trace_event_raw_regcache_sync),
      (''regmap_bool'', struct_trace_event_raw_regmap_bool),
      (''regmap_async'', struct_trace_event_raw_regmap_async),
      (''regcache_drop_region'', struct_trace_event_raw_regcache_drop_region),
      (''sync_timeline'', struct_trace_event_raw_sync_timeline),
      (''xhci_log_msg'', struct_trace_event_raw_xhci_log_msg),
      (''xhci_log_ctx'', struct_trace_event_raw_xhci_log_ctx),
      (''xhci_log_trb'', struct_trace_event_raw_xhci_log_trb),
      (''xhci_log_free_virt_dev'', struct_trace_event_raw_xhci_log_free_virt_dev),
      (''xhci_log_virt_dev'', struct_trace_event_raw_xhci_log_virt_dev),
      (''xhci_log_urb'', struct_trace_event_raw_xhci_log_urb),
      (''xhci_log_ep_ctx'', struct_trace_event_raw_xhci_log_ep_ctx),
      (''xhci_log_slot_ctx'', struct_trace_event_raw_xhci_log_slot_ctx),
      (''xhci_log_ctrl_ctx'', struct_trace_event_raw_xhci_log_ctrl_ctx),
      (''xhci_log_ring'', struct_trace_event_raw_xhci_log_ring),
      (''xhci_log_portsc'', struct_trace_event_raw_xhci_log_portsc),
      (''xhci_log_doorbell'', struct_trace_event_raw_xhci_log_doorbell),
      (''xhci_dbc_log_request'', struct_trace_event_raw_xhci_dbc_log_request),
      (''rtc_time_alarm_class'', struct_trace_event_raw_rtc_time_alarm_class),
      (''rtc_irq_set_freq'', struct_trace_event_raw_rtc_irq_set_freq),
      (''rtc_irq_set_state'', struct_trace_event_raw_rtc_irq_set_state),
      (''rtc_alarm_irq_enable'', struct_trace_event_raw_rtc_alarm_irq_enable),
      (''rtc_offset_class'', struct_trace_event_raw_rtc_offset_class),
      (''rtc_timer_class'', struct_trace_event_raw_rtc_timer_class),
      (''skb_copy_datagram_iovec'', struct_trace_event_raw_skb_copy_datagram_iovec),
      (''sock_rcvqueue_full'', struct_trace_event_raw_sock_rcvqueue_full),
      (''sock_exceed_buf_limit'', struct_trace_event_raw_sock_exceed_buf_limit),
      (''sk_data_ready'', struct_trace_event_raw_sk_data_ready),
      (''sock_msg_length'', struct_trace_event_raw_sock_msg_length),
      (''udp_fail_queue_rcv_skb'', struct_trace_event_raw_udp_fail_queue_rcv_skb),
      (''tcp_event_sk_skb'', struct_trace_event_raw_tcp_event_sk_skb),
      (''tcp_event_sk'', struct_trace_event_raw_tcp_event_sk),
      (''tcp_retransmit_synack'', struct_trace_event_raw_tcp_retransmit_synack),
      (''tcp_probe'', struct_trace_event_raw_tcp_probe),
      (''tcp_event_skb'', struct_trace_event_raw_tcp_event_skb),
      (''tcp_cong_state_set'', struct_trace_event_raw_tcp_cong_state_set),
      (''qdisc_dequeue'', struct_trace_event_raw_qdisc_dequeue),
      (''qdisc_enqueue'', struct_trace_event_raw_qdisc_enqueue),
      (''qdisc_reset'', struct_trace_event_raw_qdisc_reset),
      (''qdisc_destroy'', struct_trace_event_raw_qdisc_destroy),
      (''qdisc_create'', struct_trace_event_raw_qdisc_create)]"

definition events_c_types :: "(name_kind \<times> string \<times> ctype) list" where
  "events_c_types = map event_record events_c_records"

lemmas events_c_defs = struct_trace_event_raw_xen_mc__batch_def
  struct_trace_event_raw_xen_mc_entry_def struct_trace_event_raw_xen_mc_entry_alloc_def
  struct_trace_event_raw_xen_mc_callback_def struct_trace_event_raw_xen_mc_flush_reason_def
  struct_trace_event_raw_xen_mc_flush_def struct_trace_event_raw_xen_mc_extend_args_def
  struct_trace_event_raw_xen_mmu__set_pte_def struct_trace_event_raw_xen_mmu_set_pmd_def
  struct_trace_event_raw_xen_mmu_set_pud_def struct_trace_event_raw_xen_mmu_set_p4d_def
  struct_trace_event_raw_xen_mmu_ptep_modify_prot_def
  struct_trace_event_raw_xen_mmu_alloc_ptpage_def
  struct_trace_event_raw_xen_mmu_release_ptpage_def struct_trace_event_raw_xen_mmu_pgd_def
  struct_trace_event_raw_xen_mmu_flush_tlb_one_user_def
  struct_trace_event_raw_xen_mmu_flush_tlb_multi_def struct_trace_event_raw_xen_mmu_write_cr3_def
  struct_trace_event_raw_xen_cpu_write_ldt_entry_def
  struct_trace_event_raw_xen_cpu_write_idt_entry_def struct_trace_event_raw_xen_cpu_load_idt_def
  struct_trace_event_raw_xen_cpu_write_gdt_entry_def struct_trace_event_raw_xen_cpu_set_ldt_def
  struct_trace_event_raw_x86_irq_vector_def struct_trace_event_raw_vector_config_def
  struct_trace_event_raw_vector_mod_def struct_trace_event_raw_vector_reserve_def
  struct_trace_event_raw_vector_alloc_def struct_trace_event_raw_vector_alloc_managed_def
  struct_trace_event_raw_vector_activate_def struct_trace_event_raw_vector_teardown_def
  struct_trace_event_raw_vector_setup_def struct_trace_event_raw_vector_free_moved_def
  struct_trace_event_raw_pseudo_lock_mem_latency_def struct_trace_event_raw_softirq_def
  struct_trace_event_raw_tasklet_def struct_trace_event_raw_sched_kthread_stop_def
  struct_trace_event_raw_sched_kthread_stop_ret_def
  struct_trace_event_raw_sched_kthread_work_queue_work_def
  struct_trace_event_raw_sched_kthread_work_execute_start_def
  struct_trace_event_raw_sched_kthread_work_execute_end_def
  struct_trace_event_raw_sched_wakeup_template_def struct_trace_event_raw_sched_switch_def
  struct_trace_event_raw_sched_migrate_task_def struct_trace_event_raw_sched_process_template_def
  struct_trace_event_raw_sched_process_wait_def struct_trace_event_raw_sched_process_fork_def
  struct_trace_event_raw_sched_process_exec_def struct_trace_event_raw_sched_stat_template_def
  struct_trace_event_raw_sched_stat_runtime_def struct_trace_event_raw_sched_pi_setprio_def
  struct_trace_event_raw_sched_process_hang_def struct_trace_event_raw_sched_move_numa_def
  struct_trace_event_raw_sched_numa_pair_template_def
  struct_trace_event_raw_sched_skip_vma_numa_def
  struct_trace_event_raw_sched_wake_idle_without_ipi_def struct_trace_event_raw_thread_noise_def
  struct_trace_event_raw_softirq_noise_def struct_trace_event_raw_sample_threshold_def
  struct_trace_event_raw_rpm_internal_def struct_trace_event_raw_rpm_return_int_def
  struct_trace_event_raw_rss_stat_def struct_trace_event_raw_smbus_write_def
  struct_trace_event_raw_smbus_read_def struct_trace_event_raw_smbus_reply_def
  struct_trace_event_raw_smbus_result_def struct_trace_event_raw_workqueue_queue_work_def
  struct_trace_event_raw_workqueue_activate_work_def
  struct_trace_event_raw_workqueue_execute_start_def
  struct_trace_event_raw_workqueue_execute_end_def struct_trace_event_raw_rcu_utilization_def
  struct_trace_event_raw_rcu_stall_warning_def struct_trace_event_raw_sys_enter_def
  struct_trace_event_raw_sys_exit_def struct_trace_event_raw_pstate_sample_def
  struct_trace_event_raw_suspend_resume_def struct_trace_event_raw_wakeup_source_def
  struct_trace_event_raw_purge_vmap_area_lazy_def struct_trace_event_raw_test_pages_isolated_def
  struct_trace_event_raw_writeback_folio_template_def
  struct_trace_event_raw_writeback_dirty_inode_template_def
  struct_trace_event_raw_track_foreign_dirty_def
  struct_trace_event_raw_writeback_write_inode_template_def
  struct_trace_event_raw_writeback_work_class_def
  struct_trace_event_raw_writeback_pages_written_def struct_trace_event_raw_writeback_class_def
  struct_trace_event_raw_writeback_bdi_register_def struct_trace_event_raw_wbc_class_def
  struct_trace_event_raw_writeback_queue_io_def
  struct_trace_event_raw_writeback_sb_inodes_requeue_def
  struct_trace_event_raw_writeback_single_inode_template_def
  struct_trace_event_raw_writeback_inode_template_def struct_trace_event_raw_selinux_audited_def
  struct_trace_event_raw_scsi_dispatch_cmd_start_def
  struct_trace_event_raw_scsi_dispatch_cmd_error_def
  struct_trace_event_raw_scsi_cmd_done_timeout_template_def
  struct_trace_event_raw_scsi_eh_wakeup_def struct_trace_event_raw_spi_controller_def
  struct_trace_event_raw_spi_setup_def struct_trace_event_raw_spi_set_cs_def
  struct_trace_event_raw_spi_message_def struct_trace_event_raw_spi_message_done_def
  struct_trace_event_raw_spi_transfer_def struct_trace_event_raw_thermal_temperature_def
  struct_trace_event_raw_thermal_zone_trip_def
  struct_trace_event_raw_thermal_power_devfreq_get_power_def
  struct_trace_event_raw_thermal_power_devfreq_limit_def
  struct_trace_event_raw_thermal_power_allocator_def
  struct_trace_event_raw_thermal_power_actor_def
  struct_trace_event_raw_thermal_power_allocator_pid_def
  struct_trace_event_raw_subflow_check_data_avail_def struct_trace_event_raw_tls_contenttype_def
  struct_trace_event_raw_x86_fpu_def struct_trace_event_raw_signal_generate_def
  struct_trace_event_raw_signal_deliver_def struct_trace_event_raw_swiotlb_bounced_def
  struct_trace_event_raw_timer_class_def struct_trace_event_raw_timer_start_def
  struct_trace_event_raw_timer_expire_entry_def struct_trace_event_raw_timer_base_idle_def
  struct_trace_event_raw_tick_stop_def struct_trace_event_raw_xdp_exception_def
  struct_trace_event_raw_xdp_bulk_tx_def struct_trace_event_raw_xdp_redirect_template_def
  struct_trace_event_raw_xdp_cpumap_kthread_def struct_trace_event_raw_xdp_cpumap_enqueue_def
  struct_trace_event_raw_xdp_devmap_xmit_def struct_trace_event_raw_tlb_flush_def
  struct_trace_event_raw_wbt_stat_def struct_trace_event_raw_wbt_lat_def
  struct_trace_event_raw_wbt_step_def struct_trace_event_raw_wbt_timer_def
  struct_trace_event_raw_qi_submit_def struct_trace_event_raw_scsi_prepare_zone_append_def
  struct_trace_event_raw_scsi_zone_wp_update_def struct_trace_event_raw_watchdog_template_def
  struct_trace_event_raw_watchdog_set_timeout_def struct_trace_event_raw_x86_exceptions_def
  struct_trace_event_raw_task_newtask_def struct_trace_event_raw_task_rename_def
  struct_trace_event_raw_rseq_update_def struct_trace_event_raw_rseq_ip_fixup_def
  struct_trace_event_raw_reclaim_retry_zone_def struct_trace_event_raw_wake_reaper_def
  struct_trace_event_raw_start_task_reaping_def struct_trace_event_raw_skip_task_reaping_def
  struct_trace_event_raw_vm_unmapped_area_def struct_trace_event_raw_vma_mas_szero_def
  struct_trace_event_raw_vma_store_def struct_trace_event_raw_pwm_def
  struct_trace_event_raw_regulator_basic_def struct_trace_event_raw_regulator_range_def
  struct_trace_event_raw_regulator_value_def struct_trace_event_raw_unmap_def
  struct_trace_event_raw_regmap_reg_def struct_trace_event_raw_regmap_bulk_def
  struct_trace_event_raw_regmap_block_def struct_trace_event_raw_regcache_sync_def
  struct_trace_event_raw_regmap_bool_def struct_trace_event_raw_regmap_async_def
  struct_trace_event_raw_regcache_drop_region_def struct_trace_event_raw_sync_timeline_def
  struct_trace_event_raw_xhci_log_msg_def struct_trace_event_raw_xhci_log_ctx_def
  struct_trace_event_raw_xhci_log_trb_def struct_trace_event_raw_xhci_log_free_virt_dev_def
  struct_trace_event_raw_xhci_log_virt_dev_def struct_trace_event_raw_xhci_log_urb_def
  struct_trace_event_raw_xhci_log_ep_ctx_def struct_trace_event_raw_xhci_log_slot_ctx_def
  struct_trace_event_raw_xhci_log_ctrl_ctx_def struct_trace_event_raw_xhci_log_ring_def
  struct_trace_event_raw_xhci_log_portsc_def struct_trace_event_raw_xhci_log_doorbell_def
  struct_trace_event_raw_xhci_dbc_log_request_def struct_trace_event_raw_rtc_time_alarm_class_def
  struct_trace_event_raw_rtc_irq_set_freq_def struct_trace_event_raw_rtc_irq_set_state_def
  struct_trace_event_raw_rtc_alarm_irq_enable_def struct_trace_event_raw_rtc_offset_class_def
  struct_trace_event_raw_rtc_timer_class_def struct_trace_event_raw_skb_copy_datagram_iovec_def
  struct_trace_event_raw_sock_rcvqueue_full_def struct_trace_event_raw_sock_exceed_buf_limit_def
  struct_trace_event_raw_sk_data_ready_def struct_trace_event_raw_sock_msg_length_def
  struct_trace_event_raw_udp_fail_queue_rcv_skb_def struct_trace_event_raw_tcp_event_sk_skb_def
  struct_trace_event_raw_tcp_event_sk_def struct_trace_event_raw_tcp_retransmit_synack_def
  struct_trace_event_raw_tcp_probe_def struct_trace_event_raw_tcp_event_skb_def
  struct_trace_event_raw_tcp_cong_state_set_def struct_trace_event_raw_qdisc_dequeue_def
  struct_trace_event_raw_qdisc_enqueue_def struct_trace_event_raw_qdisc_reset_def
  struct_trace_event_raw_qdisc_destroy_def struct_trace_event_raw_qdisc_create_def

end
