(* ===== verification/CMemory.thy ===== *)
theory CMemory
  imports CLayout
begin

text \<open>
  Memory as bytes, and the fields of C types in it. A field is a range of bits of an object,
  counted from the least significant bit of its first byte: on a little-endian machine this
  covers scalars and bit-fields alike. Addresses wrap around at 64 bits.
\<close>

type_synonym memory = "u64 \<Rightarrow> u8"

definition mem_bit :: "memory \<Rightarrow> u64 \<Rightarrow> nat \<Rightarrow> bool" where
  "mem_bit M a k = bit (M (a + word_of_nat (k div 8))) (k mod 8)"

definition load :: "memory \<Rightarrow> u64 \<Rightarrow> nat \<Rightarrow> nat \<Rightarrow> u64" where
  "load M a p w = horner_sum of_bool 2 (map (\<lambda>k. mem_bit M a (p + k)) [0..<w])"

text \<open>A store rewrites the bits of its range in the bytes from \<open>a\<close> on.\<close>

definition store :: "memory \<Rightarrow> u64 \<Rightarrow> nat \<Rightarrow> nat \<Rightarrow> u64 \<Rightarrow> memory" where
  "store M a p w v =
     (\<lambda>x. let d = 8 * unat (x - a)
          in horner_sum of_bool 2
               (map (\<lambda>i. if p \<le> d + i \<and> d + i < p + w then bit v (d + i - p) else bit (M x) i) [0..<8]))"

lemma bit_load: "bit (load M a p w) n \<longleftrightarrow> n < 64 \<and> n < w \<and> mem_bit M a (p + n)"
  by (auto simp: load_def bit_horner_sum_bit_word_iff)

text \<open>An object that does not reach around the address space.\<close>

abbreviation address_bits :: nat where "address_bits \<equiv> 8 * 2 ^ 64"

lemma mem_bit_store:
  assumes "k < address_bits"
  shows "mem_bit (store M a p w v) a k =
    (if p \<le> k \<and> k < p + w then bit v (k - p) else mem_bit M a k)"
proof -
  have "unat (word_of_nat (k div 8) :: u64) = k div 8"
    using assms by (simp add: unsigned_of_nat take_bit_nat_eq_self less_mult_imp_div_less)
  then show ?thesis
    by (auto simp: mem_bit_def store_def Let_def bit_horner_sum_bit_word_iff nth_append)
qed

lemma load_store:
  assumes "p + w \<le> address_bits"
  shows "load (store M a p w v) a p w = take_bit w v"
proof (rule bit_word_eqI)
  fix n assume "n < LENGTH(64)"
  then show "bit (load (store M a p w v) a p w) n = bit (take_bit w v) n"
    using assms by (auto simp: bit_load bit_take_bit_iff mem_bit_store)
qed

lemma load_store_apart:
  assumes "p + w \<le> q \<or> q + l \<le> p" and "q + l \<le> address_bits"
  shows "load (store M a p w v) a q l = load M a q l"
proof (rule bit_word_eqI)
  fix n assume "n < LENGTH(64)"
  show "bit (load (store M a p w v) a q l) n = bit (load M a q l) n"
    using assms by (cases "n < l") (auto simp: bit_load mem_bit_store)
qed

text \<open>A store leaves the bytes outside of its range alone.\<close>

lemma store_outside:
  assumes "p + w \<le> 8 * m" and "m \<le> unat (x - a)"
  shows "store M a p w v x = M x"
proof (rule bit_word_eqI)
  fix i :: nat assume "i < LENGTH(8)"
  with assms show "bit (store M a p w v x) i = bit (M x) i"
    by (auto simp: store_def Let_def bit_horner_sum_bit_word_iff)
qed

subsection \<open>Fields by name\<close>

definition read_field :: "memory \<Rightarrow> ctype \<Rightarrow> string \<Rightarrow> u64 \<Rightarrow> u64 option" where
  "read_field M t f a =
     (case field_at t f of None \<Rightarrow> None | Some (p, w, u) \<Rightarrow> Some (load M a p w))"

definition write_field :: "ctype \<Rightarrow> u64 \<Rightarrow> string \<Rightarrow> u64 \<Rightarrow> memory \<Rightarrow> memory" where
  "write_field t a f v M =
     (case field_at t f of None \<Rightarrow> M | Some (p, w, u) \<Rightarrow> store M a p w v)"

text \<open>Writing the fields of a record in order.\<close>

definition write_fields :: "ctype \<Rightarrow> u64 \<Rightarrow> (string \<times> u64) list \<Rightarrow> memory \<Rightarrow> memory" where
  "write_fields t a fvs M = fold (\<lambda>(f, v). write_field t a f v) fvs M"

lemma write_fields_simps [simp]:
  "write_fields t a [] M = M"
  "write_fields t a ((f, v) # fvs) M = write_fields t a fvs (write_field t a f v M)"
  by (simp_all add: write_fields_def)

end
