(* ===== verification/VmlinuxLayouts.thy ===== *)
theory VmlinuxLayouts
  imports VmlinuxEventsA VmlinuxEventsB VmlinuxEventsC CMemory
begin

text \<open>
  The modelled types of \<open>bpf/vmlinux.h\<close> together, and the soundness of every layout: of the type
  itself, and of stores to its fields.
\<close>

definition vmlinux_types :: "(name_kind \<times> string \<times> ctype) list" where
  "vmlinux_types =
     trace_types @ block_types @ task_types @ fs_types @ mm_types @ bpf_types @ base_types @
     uapi_types @ events_a_types @ events_b_types @ events_c_types"

lemmas types_defs = base_types_def trace_types_def task_types_def mm_types_def block_types_def
  fs_types_def bpf_types_def uapi_types_def

lemma event_record_type: "(case event_record (n, t) of (k, m, u) \<Rightarrow> P u) \<longleftrightarrow> P t"
  by (simp add: event_record_def)

lemmas events_defs = events_a_types_def events_b_types_def events_c_types_def
  event_record_type events_a_records_def events_b_records_def events_c_records_def

lemma types_wf:
  "list_all (\<lambda>(k, n, t). wf_type t) base_types"
  "list_all (\<lambda>(k, n, t). wf_type t) trace_types"
  "list_all (\<lambda>(k, n, t). wf_type t) task_types"
  "list_all (\<lambda>(k, n, t). wf_type t) mm_types"
  "list_all (\<lambda>(k, n, t). wf_type t) block_types"
  "list_all (\<lambda>(k, n, t). wf_type t) fs_types"
  "list_all (\<lambda>(k, n, t). wf_type t) bpf_types"
  "list_all (\<lambda>(k, n, t). wf_type t) uapi_types"
  "list_all (\<lambda>(k, n, t). wf_type t) events_a_types"
  "list_all (\<lambda>(k, n, t). wf_type t) events_b_types"
  "list_all (\<lambda>(k, n, t). wf_type t) events_c_types"
  by (simp_all add: types_defs events_defs layout_simps)

lemma vmlinux_wf: "(k, n, t) \<in> set vmlinux_types \<Longrightarrow> wf_type t"
  using types_wf by (auto simp: vmlinux_types_def list_all_iff)

lemma types_small:
  "list_all (\<lambda>(k, n, t). size_of t < 2 ^ 32) base_types"
  "list_all (\<lambda>(k, n, t). size_of t < 2 ^ 32) trace_types"
  "list_all (\<lambda>(k, n, t). size_of t < 2 ^ 32) task_types"
  "list_all (\<lambda>(k, n, t). size_of t < 2 ^ 32) mm_types"
  "list_all (\<lambda>(k, n, t). size_of t < 2 ^ 32) block_types"
  "list_all (\<lambda>(k, n, t). size_of t < 2 ^ 32) fs_types"
  "list_all (\<lambda>(k, n, t). size_of t < 2 ^ 32) bpf_types"
  "list_all (\<lambda>(k, n, t). size_of t < 2 ^ 32) uapi_types"
  "list_all (\<lambda>(k, n, t). size_of t < 2 ^ 32) events_a_types"
  "list_all (\<lambda>(k, n, t). size_of t < 2 ^ 32) events_b_types"
  "list_all (\<lambda>(k, n, t). size_of t < 2 ^ 32) events_c_types"
  by (simp_all add: types_defs events_defs layout_simps)

lemma vmlinux_small: "(k, n, t) \<in> set vmlinux_types \<Longrightarrow> size_of t < 2 ^ 32"
  using types_small by (auto simp: vmlinux_types_def list_all_iff)

text \<open>Every record of a tracepoint begins with the eight bytes of the common entry.\<close>

fun begins_with_entry :: "ctype \<Rightarrow> bool" where
  "begins_with_entry (Composite Struct pk (Member f t # ms)) \<longleftrightarrow>
     \<not> pk \<and> f = ''ent'' \<and> t = struct_trace_entry"
| "begins_with_entry t \<longleftrightarrow> False"

definition event_types :: "(name_kind \<times> string \<times> ctype) list" where
  "event_types = events_a_types @ events_b_types @ events_c_types"

lemma event_lists_begin:
  "list_all (\<lambda>(k, n, t). begins_with_entry t) events_a_types"
  "list_all (\<lambda>(k, n, t). begins_with_entry t) events_b_types"
  "list_all (\<lambda>(k, n, t). begins_with_entry t) events_c_types"
  by (simp_all add: events_defs events_a_defs events_b_defs events_c_defs)

lemma entry_first:
  "begins_with_entry t \<Longrightarrow>
     field_groups t \<noteq> [] \<and> hd (field_groups t) = [(''ent'', 0, 64, struct_trace_entry)]"
  by (cases t rule: begins_with_entry.cases)
    (auto simp: layout_eval layout_simps)

lemma event_records_begin:
  assumes "(k, n, t) \<in> set event_types"
  shows "field_groups t \<noteq> [] \<and> hd (field_groups t) = [(''ent'', 0, 64, struct_trace_entry)]"
  using assms event_lists_begin by (intro entry_first) (auto simp: event_types_def list_all_iff)

text \<open>Every modelled type of \<open>vmlinux.h\<close> is a complete, well-formed C type whose size is a
  multiple of its alignment; all of its fields, those of anonymous members included, lie within
  it; and where no packing is asked for, every field that is not a narrow bit-field is aligned
  for its type.\<close>

theorem vmlinux_layouts_sound:
  assumes "(k, n, t) \<in> set vmlinux_types"
  shows "wf_type t \<and> align_of t dvd size_of t \<and>
    (\<forall>(f, p, w, u) \<in> set (fields t). p + w \<le> 8 * size_of t \<and>
       (natural t \<and> w = 8 * size_of u \<longrightarrow> 8 * align_of u dvd p))"
  using vmlinux_wf [OF assms] wf_shape(1) fields_within(1) fields_aligned(1) by fast

theorem vmlinux_layouts_sound_witness:
  "wf_type struct_request \<and> align_of struct_request dvd size_of struct_request"
  using vmlinux_layouts_sound [of Struct_name "''request''" struct_request]
  by (simp add: vmlinux_types_def block_types_def)

text \<open>In every modelled struct of \<open>vmlinux.h\<close>, a store to a field is read back at the field's
  width, and does not change any field of another member.\<close>

theorem vmlinux_field_store:
  assumes "(k, n, t) \<in> set vmlinux_types" and "is_struct t"
    and "i < length (field_groups t)" and "(f, p, w, u) \<in> set (field_groups t ! i)"
    and "j < length (field_groups t)" and "(g, q, l, x) \<in> set (field_groups t ! j)"
  shows "load (store M a p w v) a p w = take_bit w v \<and>
    (i \<noteq> j \<longrightarrow> load (store M a p w v) a q l = load M a q l)"
proof -
  have wf: "wf_type t" and small: "8 * size_of t \<le> address_bits"
    using vmlinux_wf [OF assms(1)] vmlinux_small [OF assms(1)] by simp_all
  have "(f, p, w, u) \<in> set (fields t)" "(g, q, l, x) \<in> set (fields t)"
    using assms(3-6) by (auto simp: fields_def)
  then have within: "p + w \<le> address_bits" "q + l \<le> address_bits"
    using fields_within(1) [OF wf] small by (meson order_trans)+
  show ?thesis
  proof (intro conjI impI)
    show "load (store M a p w v) a p w = take_bit w v"
      using within(1) by (rule load_store)
    assume "i \<noteq> j"
    then have "p + w \<le> q \<or> q + l \<le> p"
      using struct_groups_apart [OF wf assms(2)] assms(3-6)
      by (fastforce simp: before_def nat_neq_iff)
    then show "load (store M a p w v) a q l = load M a q l"
      using within(2) by (rule load_store_apart)
  qed
qed

theorem vmlinux_field_store_witness:
  "load (store (\<lambda>x. 9) 4096 128 64 7) 4096 128 64 = 7 \<and>
   load (store (\<lambda>x. 9) 4096 128 64 7) 4096 64 64 = load (\<lambda>x. 9) 4096 64 64"
proof -
  let ?t = struct_trace_event_raw_kfree
  have groups: "field_groups ?t =
     [[(''ent'', 0, 64, struct_trace_entry)], [(''call_site'', 64, 64, Scalar ULong64)],
      [(''ptr'', 128, 64, Pointer Void)], [(''__data'', 192, 0, Array (Scalar Char8) 0)]]"
    by (simp del: One_nat_def add: struct_trace_event_raw_kfree_def layout_eval layout_simps)
  have "(Struct_name, ''trace_event_raw_kfree'', ?t) \<in> set vmlinux_types"
    by (simp add: vmlinux_types_def trace_types_def)
  from vmlinux_field_store [OF this, of 2 "''ptr''" 128 64 "Pointer Void" 1 "''call_site''" 64 64
      "Scalar ULong64" "\<lambda>x. 9" 4096 7]
  show ?thesis by (simp add: groups) (simp add: struct_trace_event_raw_kfree_def take_bit_eq_mask mask_eq_exp_minus_1)
qed

end
