(* ===== verification/VmlinuxLookup.thy ===== *)
theory VmlinuxLookup
  imports VmlinuxLayouts
begin

text \<open>
  The types of \<open>bpf/vmlinux.h\<close> by kind and name, and where in them are the fields that the
  programs and the accessors of \<open>core_fixes.bpf.h\<close> read.
\<close>

fun find_type :: "name_kind \<Rightarrow> string \<Rightarrow> (name_kind \<times> string \<times> ctype) list \<Rightarrow> ctype option" where
  "find_type k n [] = None"
| "find_type k n ((k', n', t) # ts) =
     (if k' = k then if n' = n then Some t else find_type k n ts else find_type k n ts)"

definition vmlinux_type :: "name_kind \<Rightarrow> string \<Rightarrow> ctype option" where
  "vmlinux_type k n = find_type k n vmlinux_types"

lemma find_type_in: "find_type k n ts = Some t \<Longrightarrow> (k, n, t) \<in> set ts"
  by (induction k n ts rule: find_type.induct) (auto split: if_splits)

lemma find_type_append:
  "find_type k n (xs @ ys) =
     (case find_type k n xs of None \<Rightarrow> find_type k n ys | Some t \<Rightarrow> Some t)"
  by (induction k n xs rule: find_type.induct) simp_all

lemma vmlinux_type_wf: "vmlinux_type k n = Some t \<Longrightarrow> wf_type t"
  unfolding vmlinux_type_def by (blast dest: find_type_in vmlinux_wf)

text \<open>The types that the programs look up.\<close>

lemma trace_found:
  "find_type Struct_name ''trace_event_raw_kmalloc'' trace_types =
     Some struct_trace_event_raw_kmalloc"
  "find_type Struct_name ''trace_event_raw_kmem_cache_alloc'' trace_types =
     Some struct_trace_event_raw_kmem_cache_alloc"
  "find_type Struct_name ''trace_event_raw_kfree'' trace_types =
     Some struct_trace_event_raw_kfree"
  "find_type Struct_name ''trace_event_raw_kmem_cache_free'' trace_types =
     Some struct_trace_event_raw_kmem_cache_free"
  "find_type Struct_name ''trace_event_raw_mm_page_alloc'' trace_types =
     Some struct_trace_event_raw_mm_page_alloc"
  "find_type Struct_name ''trace_event_raw_mm_page_free'' trace_types =
     Some struct_trace_event_raw_mm_page_free"
  "find_type Struct_name ''trace_event_raw_percpu_alloc_percpu'' trace_types =
     Some struct_trace_event_raw_percpu_alloc_percpu"
  "find_type Struct_name ''trace_event_raw_percpu_free_percpu'' trace_types =
     Some struct_trace_event_raw_percpu_free_percpu"
  "find_type Struct_name ''trace_event_raw_block_rq_completion'' trace_types =
     Some struct_trace_event_raw_block_rq_completion"
  by (simp_all add: trace_types_def)

lemma block_found:
  "find_type Struct_name ''bio'' block_types =
     Some struct_bio"
  "find_type Struct_name ''block_device'' block_types =
     Some struct_block_device"
  "find_type Struct_name ''request'' block_types =
     Some struct_request"
  "find_type Struct_name ''request_queue'' block_types =
     Some struct_request_queue"
  by (simp_all add: block_types_def)

lemma trace_absent:
  "find_type Struct_name ''bio'' trace_types = None"
  "find_type Struct_name ''block_device'' trace_types = None"
  "find_type Struct_name ''request'' trace_types = None"
  "find_type Struct_name ''request_queue'' trace_types = None"
  "find_type Struct_name ''trace_event_raw_kmem_alloc'' trace_types = None"
  "find_type Struct_name ''trace_event_raw_kmem_alloc_node'' trace_types = None"
  "find_type Struct_name ''trace_event_raw_kmem_free'' trace_types = None"
  "find_type Struct_name ''trace_event_raw_block_rq_complete'' trace_types = None"
  "find_type Struct_name ''task_struct'' trace_types = None"
  "find_type Struct_name ''renamedata'' trace_types = None"
  by (simp_all add: trace_types_def)

lemma block_absent:
  "find_type Struct_name ''trace_event_raw_kmem_alloc'' block_types = None"
  "find_type Struct_name ''trace_event_raw_kmem_alloc_node'' block_types = None"
  "find_type Struct_name ''trace_event_raw_kmem_free'' block_types = None"
  "find_type Struct_name ''trace_event_raw_block_rq_complete'' block_types = None"
  "find_type Struct_name ''task_struct'' block_types = None"
  "find_type Struct_name ''renamedata'' block_types = None"
  by (simp_all add: block_types_def)

lemma task_absent:
  "find_type Struct_name ''trace_event_raw_kmem_alloc'' task_types = None"
  "find_type Struct_name ''trace_event_raw_kmem_alloc_node'' task_types = None"
  "find_type Struct_name ''trace_event_raw_kmem_free'' task_types = None"
  "find_type Struct_name ''trace_event_raw_block_rq_complete'' task_types = None"
  "find_type Struct_name ''renamedata'' task_types = None"
  by (simp_all add: task_types_def)

lemma fs_absent:
  "find_type Struct_name ''trace_event_raw_kmem_alloc'' fs_types = None"
  "find_type Struct_name ''trace_event_raw_kmem_alloc_node'' fs_types = None"
  "find_type Struct_name ''trace_event_raw_kmem_free'' fs_types = None"
  "find_type Struct_name ''trace_event_raw_block_rq_complete'' fs_types = None"
  by (simp_all add: fs_types_def)

lemma mm_absent:
  "find_type Struct_name ''trace_event_raw_kmem_alloc'' mm_types = None"
  "find_type Struct_name ''trace_event_raw_kmem_alloc_node'' mm_types = None"
  "find_type Struct_name ''trace_event_raw_kmem_free'' mm_types = None"
  "find_type Struct_name ''trace_event_raw_block_rq_complete'' mm_types = None"
  by (simp_all add: mm_types_def)

lemma bpf_absent:
  "find_type Struct_name ''trace_event_raw_kmem_alloc'' bpf_types = None"
  "find_type Struct_name ''trace_event_raw_kmem_alloc_node'' bpf_types = None"
  "find_type Struct_name ''trace_event_raw_kmem_free'' bpf_types = None"
  "find_type Struct_name ''trace_event_raw_block_rq_complete'' bpf_types = None"
  by (simp_all add: bpf_types_def)

lemma base_absent:
  "find_type Struct_name ''trace_event_raw_kmem_alloc'' base_types = None"
  "find_type Struct_name ''trace_event_raw_kmem_alloc_node'' base_types = None"
  "find_type Struct_name ''trace_event_raw_kmem_free'' base_types = None"
  "find_type Struct_name ''trace_event_raw_block_rq_complete'' base_types = None"
  by (simp_all add: base_types_def)

lemma uapi_absent:
  "find_type Struct_name ''trace_event_raw_kmem_alloc'' uapi_types = None"
  "find_type Struct_name ''trace_event_raw_kmem_alloc_node'' uapi_types = None"
  "find_type Struct_name ''trace_event_raw_kmem_free'' uapi_types = None"
  "find_type Struct_name ''trace_event_raw_block_rq_complete'' uapi_types = None"
  by (simp_all add: uapi_types_def)

lemma no_event:
  "list_all (\<lambda>(m, t). m \<noteq> n) rs \<Longrightarrow>
     find_type Struct_name (''trace_event_raw_'' @ n) (map event_record rs) = None"
  by (induction rs) (auto simp: event_record_def simp del: append_Cons append_Nil)

lemmas no_events = no_event [of "''kmem_alloc''", simplified] no_event [of "''kmem_alloc_node''", simplified]
  no_event [of "''kmem_free''", simplified] no_event [of "''block_rq_complete''", simplified]

lemma events_a_absent:
  "find_type Struct_name ''trace_event_raw_kmem_alloc'' events_a_types = None"
  "find_type Struct_name ''trace_event_raw_kmem_alloc_node'' events_a_types = None"
  "find_type Struct_name ''trace_event_raw_kmem_free'' events_a_types = None"
  "find_type Struct_name ''trace_event_raw_block_rq_complete'' events_a_types = None"
  unfolding events_a_types_def by (rule no_events; simp add: events_a_records_def)+

lemma events_b_absent:
  "find_type Struct_name ''trace_event_raw_kmem_alloc'' events_b_types = None"
  "find_type Struct_name ''trace_event_raw_kmem_alloc_node'' events_b_types = None"
  "find_type Struct_name ''trace_event_raw_kmem_free'' events_b_types = None"
  "find_type Struct_name ''trace_event_raw_block_rq_complete'' events_b_types = None"
  unfolding events_b_types_def by (rule no_events; simp add: events_b_records_def)+

lemma events_c_absent:
  "find_type Struct_name ''trace_event_raw_kmem_alloc'' events_c_types = None"
  "find_type Struct_name ''trace_event_raw_kmem_alloc_node'' events_c_types = None"
  "find_type Struct_name ''trace_event_raw_kmem_free'' events_c_types = None"
  "find_type Struct_name ''trace_event_raw_block_rq_complete'' events_c_types = None"
  unfolding events_c_types_def by (rule no_events; simp add: events_c_records_def)+

lemma task_found:
  "find_type Struct_name ''task_struct'' task_types =
     Some struct_task_struct"
  by (simp add: task_types_def)

lemma fs_found:
  "find_type Struct_name ''renamedata'' fs_types =
     Some struct_renamedata"
  by (simp add: fs_types_def)

lemmas vmlinux_lookup = vmlinux_type_def vmlinux_types_def find_type_append trace_found block_found
  task_found fs_found trace_absent block_absent task_absent fs_absent mm_absent bpf_absent base_absent
  uapi_absent events_a_absent events_b_absent events_c_absent

lemma vmlinux_found:
  "vmlinux_type Struct_name ''task_struct'' = Some struct_task_struct"
  "vmlinux_type Struct_name ''renamedata'' = Some struct_renamedata"
  "vmlinux_type Struct_name ''bio'' = Some struct_bio"
  "vmlinux_type Struct_name ''block_device'' = Some struct_block_device"
  "vmlinux_type Struct_name ''request'' = Some struct_request"
  "vmlinux_type Struct_name ''request_queue'' = Some struct_request_queue"
  "vmlinux_type Struct_name ''trace_event_raw_kmalloc'' =
     Some struct_trace_event_raw_kmalloc"
  "vmlinux_type Struct_name ''trace_event_raw_kmem_cache_alloc'' =
     Some struct_trace_event_raw_kmem_cache_alloc"
  "vmlinux_type Struct_name ''trace_event_raw_kfree'' =
     Some struct_trace_event_raw_kfree"
  "vmlinux_type Struct_name ''trace_event_raw_kmem_cache_free'' =
     Some struct_trace_event_raw_kmem_cache_free"
  "vmlinux_type Struct_name ''trace_event_raw_mm_page_alloc'' =
     Some struct_trace_event_raw_mm_page_alloc"
  "vmlinux_type Struct_name ''trace_event_raw_mm_page_free'' =
     Some struct_trace_event_raw_mm_page_free"
  "vmlinux_type Struct_name ''trace_event_raw_percpu_alloc_percpu'' =
     Some struct_trace_event_raw_percpu_alloc_percpu"
  "vmlinux_type Struct_name ''trace_event_raw_percpu_free_percpu'' =
     Some struct_trace_event_raw_percpu_free_percpu"
  "vmlinux_type Struct_name ''trace_event_raw_block_rq_completion'' =
     Some struct_trace_event_raw_block_rq_completion"
  by (simp_all add: vmlinux_lookup)

lemma vmlinux_absent:
  "vmlinux_type Struct_name ''trace_event_raw_kmem_alloc'' = None"
  "vmlinux_type Struct_name ''trace_event_raw_kmem_alloc_node'' = None"
  "vmlinux_type Struct_name ''trace_event_raw_kmem_free'' = None"
  "vmlinux_type Struct_name ''trace_event_raw_block_rq_complete'' = None"
  by (simp_all add: vmlinux_lookup)

text \<open>The fields that are read: first bit, width and type.\<close>

lemma task_struct_fields:
  "field_at struct_task_struct ''__state'' =
     Some (192, 32, Scalar UInt32)"
  by (simp_all del: One_nat_def add: struct_task_struct_def field_at_struct layout_eval layout_simps)

lemma bio_fields:
  "field_at struct_bio ''bi_bdev'' =
     Some (64, 64, Pointer (Named Struct_name ''block_device''))"
  by (simp_all del: One_nat_def add: struct_bio_def field_at_struct layout_eval layout_simps)

lemma block_device_fields:
  "field_at struct_block_device ''bd_disk'' =
     Some (128, 64, Pointer (Named Struct_name ''gendisk''))"
  by (simp_all del: One_nat_def add: struct_block_device_def field_at_struct layout_eval layout_simps)

lemma request_fields:
  "field_at struct_request ''q'' =
     Some (0, 64, Pointer (Named Struct_name ''request_queue''))"
  "field_at struct_request ''rq_disk'' = None"
  by (simp_all del: One_nat_def add: struct_request_def field_at_struct layout_eval layout_simps)

lemma request_queue_fields:
  "field_at struct_request_queue ''disk'' =
     Some (832, 64, Pointer (Named Struct_name ''gendisk''))"
  by (simp_all del: One_nat_def add: struct_request_queue_def field_at_struct layout_eval layout_simps)

lemma renamedata_fields:
  "field_at struct_renamedata ''old_mnt_userns'' = None"
  by (simp_all del: One_nat_def add: struct_renamedata_def field_at_struct layout_eval layout_simps)

lemma trace_event_raw_kmalloc_fields:
  "field_at struct_trace_event_raw_kmalloc ''call_site'' =
     Some (64, 64, Scalar ULong64)"
  "field_at struct_trace_event_raw_kmalloc ''ptr'' =
     Some (128, 64, Pointer Void)"
  "field_at struct_trace_event_raw_kmalloc ''bytes_req'' =
     Some (192, 64, typedef_size_t)"
  "field_at struct_trace_event_raw_kmalloc ''bytes_alloc'' =
     Some (256, 64, typedef_size_t)"
  "field_at struct_trace_event_raw_kmalloc ''gfp_flags'' =
     Some (320, 64, Scalar ULong64)"
  "field_at struct_trace_event_raw_kmalloc ''node'' =
     Some (384, 32, Scalar Int32)"
  by (simp_all del: One_nat_def add: struct_trace_event_raw_kmalloc_def field_at_struct layout_eval layout_simps)

lemma trace_event_raw_kmem_cache_alloc_fields:
  "field_at struct_trace_event_raw_kmem_cache_alloc ''call_site'' =
     Some (64, 64, Scalar ULong64)"
  "field_at struct_trace_event_raw_kmem_cache_alloc ''ptr'' =
     Some (128, 64, Pointer Void)"
  "field_at struct_trace_event_raw_kmem_cache_alloc ''bytes_req'' =
     Some (192, 64, typedef_size_t)"
  "field_at struct_trace_event_raw_kmem_cache_alloc ''bytes_alloc'' =
     Some (256, 64, typedef_size_t)"
  "field_at struct_trace_event_raw_kmem_cache_alloc ''gfp_flags'' =
     Some (320, 64, Scalar ULong64)"
  "field_at struct_trace_event_raw_kmem_cache_alloc ''node'' =
     Some (384, 32, Scalar Int32)"
  "field_at struct_trace_event_raw_kmem_cache_alloc ''accounted'' =
     Some (416, 8, typedef_bool)"
  by (simp_all del: One_nat_def add: struct_trace_event_raw_kmem_cache_alloc_def field_at_struct layout_eval layout_simps)

lemma trace_event_raw_kfree_fields:
  "field_at struct_trace_event_raw_kfree ''call_site'' =
     Some (64, 64, Scalar ULong64)"
  "field_at struct_trace_event_raw_kfree ''ptr'' =
     Some (128, 64, Pointer Void)"
  by (simp_all del: One_nat_def add: struct_trace_event_raw_kfree_def field_at_struct layout_eval layout_simps)

lemma trace_event_raw_kmem_cache_free_fields:
  "field_at struct_trace_event_raw_kmem_cache_free ''call_site'' =
     Some (64, 64, Scalar ULong64)"
  "field_at struct_trace_event_raw_kmem_cache_free ''ptr'' =
     Some (128, 64, Pointer Void)"
  "field_at struct_trace_event_raw_kmem_cache_free ''__data_loc_name'' =
     Some (192, 32, typedef_u32)"
  by (simp_all del: One_nat_def add: struct_trace_event_raw_kmem_cache_free_def field_at_struct layout_eval layout_simps)

lemma trace_event_raw_mm_page_alloc_fields:
  "field_at struct_trace_event_raw_mm_page_alloc ''pfn'' =
     Some (64, 64, Scalar ULong64)"
  "field_at struct_trace_event_raw_mm_page_alloc ''order'' =
     Some (128, 32, Scalar UInt32)"
  "field_at struct_trace_event_raw_mm_page_alloc ''gfp_flags'' =
     Some (192, 64, Scalar ULong64)"
  "field_at struct_trace_event_raw_mm_page_alloc ''migratetype'' =
     Some (256, 32, Scalar Int32)"
  by (simp_all del: One_nat_def add: struct_trace_event_raw_mm_page_alloc_def field_at_struct layout_eval layout_simps)

lemma trace_event_raw_mm_page_free_fields:
  "field_at struct_trace_event_raw_mm_page_free ''pfn'' =
     Some (64, 64, Scalar ULong64)"
  "field_at struct_trace_event_raw_mm_page_free ''order'' =
     Some (128, 32, Scalar UInt32)"
  by (simp_all del: One_nat_def add: struct_trace_event_raw_mm_page_free_def field_at_struct layout_eval layout_simps)

lemma trace_event_raw_percpu_alloc_percpu_fields:
  "field_at struct_trace_event_raw_percpu_alloc_percpu ''call_site'' =
     Some (64, 64, Scalar ULong64)"
  "field_at struct_trace_event_raw_percpu_alloc_percpu ''reserved'' =
     Some (128, 8, typedef_bool)"
  "field_at struct_trace_event_raw_percpu_alloc_percpu ''is_atomic'' =
     Some (136, 8, typedef_bool)"
  "field_at struct_trace_event_raw_percpu_alloc_percpu ''size'' =
     Some (192, 64, typedef_size_t)"
  "field_at struct_trace_event_raw_percpu_alloc_percpu ''align'' =
     Some (256, 64, typedef_size_t)"
  "field_at struct_trace_event_raw_percpu_alloc_percpu ''base_addr'' =
     Some (320, 64, Pointer Void)"
  "field_at struct_trace_event_raw_percpu_alloc_percpu ''off'' =
     Some (384, 32, Scalar Int32)"
  "field_at struct_trace_event_raw_percpu_alloc_percpu ''ptr'' =
     Some (448, 64, Pointer Void)"
  "field_at struct_trace_event_raw_percpu_alloc_percpu ''bytes_alloc'' =
     Some (512, 64, typedef_size_t)"
  "field_at struct_trace_event_raw_percpu_alloc_percpu ''gfp_flags'' =
     Some (576, 64, Scalar ULong64)"
  by (simp_all del: One_nat_def add: struct_trace_event_raw_percpu_alloc_percpu_def field_at_struct layout_eval layout_simps)

lemma trace_event_raw_percpu_free_percpu_fields:
  "field_at struct_trace_event_raw_percpu_free_percpu ''base_addr'' =
     Some (64, 64, Pointer Void)"
  "field_at struct_trace_event_raw_percpu_free_percpu ''off'' =
     Some (128, 32, Scalar Int32)"
  "field_at struct_trace_event_raw_percpu_free_percpu ''ptr'' =
     Some (192, 64, Pointer Void)"
  by (simp_all del: One_nat_def add: struct_trace_event_raw_percpu_free_percpu_def field_at_struct layout_eval layout_simps)

lemma trace_event_raw_block_rq_completion_fields:
  "field_at struct_trace_event_raw_block_rq_completion ''dev'' =
     Some (64, 32, typedef_dev_t)"
  "field_at struct_trace_event_raw_block_rq_completion ''sector'' =
     Some (128, 64, typedef_sector_t)"
  "field_at struct_trace_event_raw_block_rq_completion ''nr_sector'' =
     Some (192, 32, Scalar UInt32)"
  by (simp_all del: One_nat_def add: struct_trace_event_raw_block_rq_completion_def field_at_struct layout_eval layout_simps)

lemmas vmlinux_fields =
    task_struct_fields bio_fields block_device_fields request_fields request_queue_fields
  renamedata_fields trace_event_raw_kmalloc_fields trace_event_raw_kmem_cache_alloc_fields
  trace_event_raw_kfree_fields trace_event_raw_kmem_cache_free_fields
  trace_event_raw_mm_page_alloc_fields trace_event_raw_mm_page_free_fields
  trace_event_raw_percpu_alloc_percpu_fields trace_event_raw_percpu_free_percpu_fields
  trace_event_raw_block_rq_completion_fields

end
