(* ===== verification/VmlinuxKernel.thy ===== *)
theory VmlinuxKernel
  imports VmlinuxLookup KernelCompat
begin

text \<open>
  The kernel whose types \<open>bpf/vmlinux.h\<close> lists, as the running kernel of the programs: a struct
  flavour is matched to a type of the header by its name up to \<open>___\<close>, a field by its name, and a
  read takes the flavour's width at the field's place in the memory of the kernel. On this kernel
  the choices of \<open>core_fixes.bpf.h\<close> and of the tracepoints are decided, and each tracepoint
  program gets the values that the kernel wrote into the record of the event. (The lookup is
  among the modelled types, which have every record of a tracepoint; the header has no other type
  by a name that a flavour asks for.)
\<close>

text \<open>The name of a flavour without its suffix.\<close>

fun essential_name :: "string \<Rightarrow> string" where
  "essential_name [] = []"
| "essential_name (c # cs) = (if take 3 (c # cs) = ''___'' then [] else c # essential_name cs)"

definition flavour_type :: "core_struct \<Rightarrow> ctype option" where
  "flavour_type t = vmlinux_type Struct_name (essential_name (cs_name t))"

definition flavour_field :: "core_struct \<Rightarrow> string \<Rightarrow> (nat \<times> nat \<times> ctype) option" where
  "flavour_field t f = (case flavour_type t of None \<Rightarrow> None | Some u \<Rightarrow> field_at u f)"

definition flavour_width :: "core_struct \<Rightarrow> string \<Rightarrow> nat" where
  "flavour_width t f = (case map_of (cs_fields t) f of None \<Rightarrow> 0 | Some w \<Rightarrow> w)"

text \<open>A read of a field that the kernel does not have yields \<open>junk\<close>.\<close>

definition vmlinux_btf :: "u64 \<Rightarrow> memory \<Rightarrow> btf" where
  "vmlinux_btf junk M =
     \<lparr>core_type_exists = (\<lambda>t. flavour_type t \<noteq> None),
      core_field_exists = (\<lambda>t f. flavour_field t f \<noteq> None),
      core_read = (\<lambda>t f a. case flavour_field t f of
                     None \<Rightarrow> junk | Some (p, w, u) \<Rightarrow> load M a p (flavour_width t f))\<rparr>"

lemmas accessor_flavour_defs = task_struct___x_def task_struct___o_def bio___x_def bio___o_def
  block_device_def request___x_def request_queue___x_def renamedata___x_def
  trace_event_raw_block_rq_complete___x_def trace_event_raw_block_rq_completion___x_def

lemma flavour_types:
  "flavour_type trace_event_raw_kmem_alloc___x = None"
  "flavour_type trace_event_raw_kmem_alloc_node___x = None"
  "flavour_type trace_event_raw_kmem_free___x = None"
  "flavour_type trace_event_raw_block_rq_complete___x = None"
  "flavour_type trace_event_raw_kmalloc___x = Some struct_trace_event_raw_kmalloc"
  "flavour_type trace_event_raw_kmem_cache_alloc___x = Some struct_trace_event_raw_kmem_cache_alloc"
  "flavour_type trace_event_raw_kfree___x = Some struct_trace_event_raw_kfree"
  "flavour_type trace_event_raw_kmem_cache_free___x = Some struct_trace_event_raw_kmem_cache_free"
  "flavour_type trace_event_raw_block_rq_completion___x =
     Some struct_trace_event_raw_block_rq_completion"
  "flavour_type trace_event_raw_mm_page_alloc = Some struct_trace_event_raw_mm_page_alloc"
  "flavour_type trace_event_raw_mm_page_free = Some struct_trace_event_raw_mm_page_free"
  "flavour_type trace_event_raw_percpu_alloc_percpu =
     Some struct_trace_event_raw_percpu_alloc_percpu"
  "flavour_type trace_event_raw_percpu_free_percpu =
     Some struct_trace_event_raw_percpu_free_percpu"
  by (simp_all add: flavour_type_def flavour_defs accessor_flavour_defs vmlinux_found vmlinux_absent)

lemma accessor_flavour_types:
  "flavour_type task_struct___x = Some struct_task_struct"
  "flavour_type bio___x = Some struct_bio"
  "flavour_type block_device = Some struct_block_device"
  "flavour_type request___x = Some struct_request"
  "flavour_type request_queue___x = Some struct_request_queue"
  "flavour_type renamedata___x = Some struct_renamedata"
  by (simp_all add: flavour_type_def accessor_flavour_defs vmlinux_found)

lemma vmlinux_btf_simps:
  "core_type_exists (vmlinux_btf junk M) t \<longleftrightarrow> flavour_type t \<noteq> None"
  "core_field_exists (vmlinux_btf junk M) t f \<longleftrightarrow> flavour_field t f \<noteq> None"
  "core_read (vmlinux_btf junk M) t f a =
     (case flavour_field t f of
        None \<Rightarrow> junk | Some (p, w, u) \<Rightarrow> load M a p (flavour_width t f))"
  by (simp_all add: vmlinux_btf_def)

text \<open>The kernel of \<open>vmlinux.h\<close> is a supported one. It has the two allocation events of its
  own instead of the common class, no node events, the two release classes, the completion
  event of the block layer under its new name, and no user namespaces in \<open>renamedata\<close>.\<close>

theorem vmlinux_kernel_choices:
  "supported_tracepoints (vmlinux_btf junk M) \<and>
   \<not> has_kmem_alloc (vmlinux_btf junk M) \<and> \<not> has_kmem_alloc_node (vmlinux_btf junk M) \<and>
   has_kfree (vmlinux_btf junk M) \<and> has_kmem_cache_free (vmlinux_btf junk M) \<and>
   has_block_rq_completion (vmlinux_btf junk M) \<and>
   \<not> renamedata_has_old_mnt_userns_field (vmlinux_btf junk M)"
proof -
  have "has_all_fields (vmlinux_btf junk M) t \<longleftrightarrow>
      list_all (\<lambda>(f, w). flavour_field t f \<noteq> None) (cs_fields t)" for t
    by (simp add: has_all_fields_def vmlinux_btf_simps)
  then show ?thesis
    by (simp add: supported_tracepoints_def vmlinux_btf_simps choice_defs flavour_types
        accessor_flavour_types flavour_field_def vmlinux_fields has_block_rq_completion_def
        renamedata_has_old_mnt_userns_field_def)
      (simp add: flavour_defs accessor_flavour_defs vmlinux_fields)
qed

subsection \<open>The accessors\<close>

lemma narrow_load: "w \<le> 32 \<Longrightarrow> ucast (ucast (load M a p w) :: u32) = load M a p w"
  by (rule bit_word_eqI) (auto simp: bit_simps bit_load)

text \<open>On this kernel the task state is the 32-bit field \<open>__state\<close> of \<open>task_struct\<close>,
  zero-extended; the disk of a bio is the one of its block device, and the disk of a request the
  one of its queue.\<close>

theorem accessors_on_vmlinux:
  "Some (get_task_state (vmlinux_btf junk M) task) = read_field M struct_task_struct ''__state'' task \<and>
   Some (get_gendisk (vmlinux_btf junk M) bio) =
     Option.bind (read_field M struct_bio ''bi_bdev'' bio)
       (\<lambda>bdev. read_field M struct_block_device ''bd_disk'' bdev) \<and>
   Some (get_disk (vmlinux_btf junk M) request) =
     Option.bind (read_field M struct_request ''q'' request)
       (\<lambda>q. read_field M struct_request_queue ''disk'' q)"
  by (simp add: get_task_state_def get_gendisk_def get_disk_def vmlinux_btf_simps flavour_field_def
      accessor_flavour_types vmlinux_fields read_field_def flavour_width_def narrow_load)
    (simp add: accessor_flavour_defs narrow_load)

subsection \<open>The records of events\<close>

text \<open>An event of the kernel with the values that it writes into its record, in the order of the
  record's fields. (A value is cut to the width of its field.)\<close>

datatype kernel_event =
    Kmalloc_event u64 u64 u64 u64 u64 u64
  | Kmem_cache_alloc_event u64 u64 u64 u64 u64 u64 u64
  | Kfree_event u64 u64
  | Kmem_cache_free_event u64 u64 u64
  | Mm_page_alloc_event u64 u32 u64 u64
  | Mm_page_free_event u64 u32
  | Percpu_alloc_percpu_event u64 u64 u64 u64 u64 u64 u64 u64 u64 u64
  | Percpu_free_percpu_event u64 u64 u64

fun event_record :: "kernel_event \<Rightarrow> ctype \<times> (string \<times> u64) list" where
  "event_record (Kmalloc_event call_site ptr bytes_req bytes_alloc gfp_flags node) =
     (struct_trace_event_raw_kmalloc,
      [(''call_site'', call_site), (''ptr'', ptr), (''bytes_req'', bytes_req),
       (''bytes_alloc'', bytes_alloc), (''gfp_flags'', gfp_flags), (''node'', node)])"
| "event_record (Kmem_cache_alloc_event call_site ptr bytes_req bytes_alloc gfp_flags node acct) =
     (struct_trace_event_raw_kmem_cache_alloc,
      [(''call_site'', call_site), (''ptr'', ptr), (''bytes_req'', bytes_req),
       (''bytes_alloc'', bytes_alloc), (''gfp_flags'', gfp_flags), (''node'', node),
       (''accounted'', acct)])"
| "event_record (Kfree_event call_site ptr) =
     (struct_trace_event_raw_kfree, [(''call_site'', call_site), (''ptr'', ptr)])"
| "event_record (Kmem_cache_free_event call_site ptr name) =
     (struct_trace_event_raw_kmem_cache_free,
      [(''call_site'', call_site), (''ptr'', ptr), (''__data_loc_name'', name)])"
| "event_record (Mm_page_alloc_event pfn order gfp_flags migratetype) =
     (struct_trace_event_raw_mm_page_alloc,
      [(''pfn'', pfn), (''order'', ucast order), (''gfp_flags'', gfp_flags),
       (''migratetype'', migratetype)])"
| "event_record (Mm_page_free_event pfn order) =
     (struct_trace_event_raw_mm_page_free, [(''pfn'', pfn), (''order'', ucast order)])"
| "event_record (Percpu_alloc_percpu_event call_site reserved is_atomic n al base_addr off ptr
       bytes_alloc gfp_flags) =
     (struct_trace_event_raw_percpu_alloc_percpu,
      [(''call_site'', call_site), (''reserved'', reserved), (''is_atomic'', is_atomic),
       (''size'', n), (''align'', al), (''base_addr'', base_addr), (''off'', off),
       (''ptr'', ptr), (''bytes_alloc'', bytes_alloc), (''gfp_flags'', gfp_flags)])"
| "event_record (Percpu_free_percpu_event base_addr off ptr) =
     (struct_trace_event_raw_percpu_free_percpu,
      [(''base_addr'', base_addr), (''off'', off), (''ptr'', ptr)])"

text \<open>The memory with the record of an event at \<open>ctx\<close>, and the program that runs on it.\<close>

definition with_record :: "memory \<Rightarrow> u64 \<Rightarrow> kernel_event \<Rightarrow> memory" where
  "with_record M ctx e = (case event_record e of (t, fvs) \<Rightarrow> write_fields t ctx fvs M)"

fun event_program :: "kernel_event \<Rightarrow> u64 \<Rightarrow> program" where
  "event_program (Kmalloc_event cs p br ba g n) ctx = Memleak_kmalloc ctx"
| "event_program (Kmem_cache_alloc_event cs p br ba g n acc) ctx = Memleak_kmem_cache_alloc ctx"
| "event_program (Kfree_event cs p) ctx = Memleak_kfree ctx"
| "event_program (Kmem_cache_free_event cs p n) ctx = Memleak_kmem_cache_free ctx"
| "event_program (Mm_page_alloc_event pfn order g m) ctx = Memleak_mm_page_alloc ctx"
| "event_program (Mm_page_free_event pfn order) ctx = Memleak_mm_page_free ctx"
| "event_program (Percpu_alloc_percpu_event cs r at n al b off p ba g) ctx =
     Memleak_percpu_alloc_percpu ctx"
| "event_program (Percpu_free_percpu_event b off p) ctx = Memleak_percpu_free_percpu ctx"

text \<open>What the tracker is to do about an event: note and record a block, or forget one.\<close>

definition note_block ::
    "('ms, 'ma, 'mc, 'mp) kernel \<Rightarrow> config \<Rightarrow> invocation \<Rightarrow> u64 \<Rightarrow> u64 \<Rightarrow>
     ('ms, 'ma, 'mc, 'mp) tracker \<Rightarrow> int \<times> ('ms, 'ma, 'mc, 'mp) tracker" where
  "note_block K cfg I a n s = gen_alloc_exit2 K cfg I a (snd (gen_alloc_enter K cfg I n s))"

definition forget_stale ::
    "('ms, 'ma, 'mc, 'mp) kernel \<Rightarrow> config \<Rightarrow> u64 \<Rightarrow>
     ('ms, 'ma, 'mc, 'mp) tracker \<Rightarrow> ('ms, 'ma, 'mc, 'mp) tracker" where
  "forget_stale K cfg a s = (if wa_missing_free cfg then snd (gen_free_enter K cfg a s) else s)"

fun event_effect ::
    "('ms, 'ma, 'mc, 'mp) kernel \<Rightarrow> config \<Rightarrow> invocation \<Rightarrow> kernel_event \<Rightarrow>
     ('ms, 'ma, 'mc, 'mp) tracker \<Rightarrow> int \<times> ('ms, 'ma, 'mc, 'mp) tracker" where
  "event_effect K cfg I (Kmalloc_event cs p br ba g n) s =
     note_block K cfg I p ba (forget_stale K cfg p s)"
| "event_effect K cfg I (Kmem_cache_alloc_event cs p br ba g n acc) s =
     note_block K cfg I p ba (forget_stale K cfg p s)"
| "event_effect K cfg I (Kfree_event cs p) s = gen_free_enter K cfg p s"
| "event_effect K cfg I (Kmem_cache_free_event cs p n) s = gen_free_enter K cfg p s"
| "event_effect K cfg I (Mm_page_alloc_event pfn order g m) s =
     note_block K cfg I pfn (push_bit (unat order) (page_size cfg)) s"
| "event_effect K cfg I (Mm_page_free_event pfn order) s = gen_free_enter K cfg pfn s"
| "event_effect K cfg I (Percpu_alloc_percpu_event cs r at n al b off p ba g) s =
     note_block K cfg I p ba s"
| "event_effect K cfg I (Percpu_free_percpu_event b off p) s = gen_free_enter K cfg p s"

lemma vmlinux_choices:
  "\<not> has_kmem_alloc (vmlinux_btf junk M)" "\<not> has_kmem_alloc_node (vmlinux_btf junk M)"
  "has_kfree (vmlinux_btf junk M)" "has_kmem_cache_free (vmlinux_btf junk M)"
  by (simp_all add: choice_defs vmlinux_btf_simps flavour_types)

lemma full_load: "load (store M a p 64 v) a p 64 = v" if "p + 64 \<le> address_bits"
  unfolding load_store [OF that] by (rule bit_word_eqI) (auto simp: bit_simps)

lemma order_load:
  assumes "p + 32 \<le> address_bits"
  shows "ucast (load (store M a p 32 (ucast (n :: u32))) a p 32) = n"
proof -
  have "ucast (take_bit 32 (ucast n :: u64)) = n"
    by (rule bit_word_eqI) (auto simp: bit_simps)
  then show ?thesis using load_store [OF assms] by metis
qed

lemma flavour_widths:
  "flavour_width trace_event_raw_kmalloc___x ''ptr'' = 64"
  "flavour_width trace_event_raw_kmalloc___x ''bytes_alloc'' = 64"
  "flavour_width trace_event_raw_kmem_cache_alloc___x ''ptr'' = 64"
  "flavour_width trace_event_raw_kmem_cache_alloc___x ''bytes_alloc'' = 64"
  "flavour_width trace_event_raw_kfree___x ''ptr'' = 64"
  "flavour_width trace_event_raw_kmem_cache_free___x ''ptr'' = 64"
  "flavour_width trace_event_raw_mm_page_alloc ''pfn'' = 64"
  "flavour_width trace_event_raw_mm_page_alloc ''order'' = 32"
  "flavour_width trace_event_raw_mm_page_free ''pfn'' = 64"
  "flavour_width trace_event_raw_percpu_alloc_percpu ''ptr'' = 64"
  "flavour_width trace_event_raw_percpu_alloc_percpu ''bytes_alloc'' = 64"
  "flavour_width trace_event_raw_percpu_free_percpu ''ptr'' = 64"
  by (simp_all add: flavour_width_def flavour_defs)

lemma event_reads:
  "let B = vmlinux_btf junk (with_record M ctx (Kmalloc_event cs p br ba g n)) in
   core_read B trace_event_raw_kmalloc___x ''ptr'' ctx = p \<and>
   core_read B trace_event_raw_kmalloc___x ''bytes_alloc'' ctx = ba"
  "let B = vmlinux_btf junk (with_record M ctx (Kmem_cache_alloc_event cs p br ba g n acc)) in
   core_read B trace_event_raw_kmem_cache_alloc___x ''ptr'' ctx = p \<and>
   core_read B trace_event_raw_kmem_cache_alloc___x ''bytes_alloc'' ctx = ba"
  "core_read (vmlinux_btf junk (with_record M ctx (Kfree_event cs p)))
     trace_event_raw_kfree___x ''ptr'' ctx = p"
  "core_read (vmlinux_btf junk (with_record M ctx (Kmem_cache_free_event cs p x)))
     trace_event_raw_kmem_cache_free___x ''ptr'' ctx = p"
  "let B = vmlinux_btf junk (with_record M ctx (Mm_page_alloc_event pfn order g m)) in
   core_read B trace_event_raw_mm_page_alloc ''pfn'' ctx = pfn \<and>
   ucast (core_read B trace_event_raw_mm_page_alloc ''order'' ctx) = order"
  "core_read (vmlinux_btf junk (with_record M ctx (Mm_page_free_event pfn order)))
     trace_event_raw_mm_page_free ''pfn'' ctx = pfn"
  "let B = vmlinux_btf junk
     (with_record M ctx (Percpu_alloc_percpu_event cs r at n' al b off p ba g)) in
   core_read B trace_event_raw_percpu_alloc_percpu ''ptr'' ctx = p \<and>
   core_read B trace_event_raw_percpu_alloc_percpu ''bytes_alloc'' ctx = ba"
  "core_read (vmlinux_btf junk (with_record M ctx (Percpu_free_percpu_event b off p)))
     trace_event_raw_percpu_free_percpu ''ptr'' ctx = p"
  by (simp_all add: Let_def with_record_def write_field_def vmlinux_btf_simps flavour_field_def
      flavour_types vmlinux_fields flavour_widths load_store_apart full_load order_load)

lemma tracepoint_effect:
  "run_program K cfg (vmlinux_btf junk (with_record M ctx e)) I (event_program e ctx) s =
   event_effect K cfg I e s"
  using event_reads
  by (cases e)
    (simp_all add: kernel_probe_defs vmlinux_choices note_block_def forget_stale_def page_order_def
      Let_def)

text \<open>C15: On the kernel of \<open>vmlinux.h\<close>, every tracepoint program does to the tracker what its event
  asks for: run on the record that the kernel wrote, it notes a block with the address and the
  bytes of the event, or forgets the block with its address, whatever else is in the memory.\<close>

theorem tracepoint_delivers_event:
  "run_program K cfg (vmlinux_btf junk (with_record M ctx e)) I (event_program e ctx) s =
   event_effect K cfg I e s"
  by (rule tracepoint_effect)

text \<open>On this kernel the two programs for node allocations do nothing: its tracepoints have no
  records of their own, and the allocations are reported by the other two.\<close>

theorem node_programs_idle:
  "run_program K cfg (vmlinux_btf junk M) I (Memleak_kmalloc_node ctx) s = (0, s) \<and>
   run_program K cfg (vmlinux_btf junk M) I (Memleak_kmem_cache_alloc_node ctx) s = (0, s)"
  by (simp add: kernel_probe_defs vmlinux_choices)

end
