(* ===== verification/KernelEvents.thy ===== *)
theory KernelEvents
  imports VmlinuxKernel Blocks
begin

text \<open>
  Tracing the kernel of \<open>vmlinux.h\<close>: sequences of its events, each with a record written
  somewhere into a memory, and what the tracker then reports. The blocks that are outstanding
  are counted from the events alone, without reference to the maps.
\<close>

subsection \<open>What events mean\<close>

text \<open>An event allocates a block, at an address and of a size, or releases one. With the workaround
  for missing frees, an allocation also ends an earlier block at its address.\<close>

datatype block_event = Allocated u64 u64 bool | Released u64

fun meaning :: "config \<Rightarrow> kernel_event \<Rightarrow> block_event" where
  "meaning cfg (Kmalloc_event cs p br ba g n) = Allocated p ba (wa_missing_free cfg)"
| "meaning cfg (Kmem_cache_alloc_event cs p br ba g n acct) = Allocated p ba (wa_missing_free cfg)"
| "meaning cfg (Kfree_event cs p) = Released p"
| "meaning cfg (Kmem_cache_free_event cs p n) = Released p"
| "meaning cfg (Mm_page_alloc_event pfn order g m) =
     Allocated pfn (push_bit (unat order) (page_size cfg)) False"
| "meaning cfg (Mm_page_free_event pfn order) = Released pfn"
| "meaning cfg (Percpu_alloc_percpu_event cs r at n al b off p ba g) = Allocated p ba False"
| "meaning cfg (Percpu_free_percpu_event b off p) = Released p"

definition unless_stale :: "bool \<Rightarrow> u64 \<Rightarrow> blocks \<Rightarrow> blocks" where
  "unless_stale stale p m = (if stale then m(p := None) else m)"

text \<open>The blocks that are outstanding after an event: those that pass the filters.\<close>

fun live_step :: "config \<Rightarrow> invocation \<Rightarrow> block_event \<Rightarrow> blocks \<Rightarrow> blocks" where
  "live_step cfg I (Released p) m = m(p := None)"
| "live_step cfg I (Allocated p n stale) m =
     (let m' = unless_stale stale p m
      in if alloc_admitted cfg I n \<and> p \<noteq> 0 then m'(p \<mapsto> exit_info cfg I n) else m')"

text \<open>An event that the tracker can follow: a new block is at an address that is free, and there
  are fewer than a million blocks.\<close>

fun step_followed :: "config \<Rightarrow> invocation \<Rightarrow> block_event \<Rightarrow> blocks \<Rightarrow> bool" where
  "step_followed cfg I (Released p) m = True"
| "step_followed cfg I (Allocated p n stale) m =
     (let m' = unless_stale stale p m
      in alloc_admitted cfg I n \<and> p \<noteq> 0 \<longrightarrow> m' p = None \<and> card (dom m') < ALLOCS_MAX_ENTRIES)"

text \<open>A delivery: the invocation, the place of the record, the memory it is written into, the event.\<close>

type_synonym delivery = "invocation \<times> u64 \<times> memory \<times> kernel_event"

fun live :: "config \<Rightarrow> delivery list \<Rightarrow> blocks \<Rightarrow> blocks" where
  "live cfg [] m = m"
| "live cfg ((I, ctx, M, e) # ds) m = live cfg ds (live_step cfg I (meaning cfg e) m)"

fun followed :: "config \<Rightarrow> delivery list \<Rightarrow> blocks \<Rightarrow> bool" where
  "followed cfg [] m = True"
| "followed cfg ((I, ctx, M, e) # ds) m =
     (step_followed cfg I (meaning cfg e) m \<and> followed cfg ds (live_step cfg I (meaning cfg e) m))"

definition stacks :: "config \<Rightarrow> delivery list \<Rightarrow> u64 set" where
  "stacks cfg ds = (\<lambda>(I, ctx, M, e). stack_of cfg I) ` set ds"

subsection \<open>What the tracker does\<close>

definition deliver ::
    "('ms, 'ma, 'mc, 'mp) kernel \<Rightarrow> config \<Rightarrow> u64 \<Rightarrow> delivery \<Rightarrow>
     ('ms, 'ma, 'mc, 'mp) tracker \<Rightarrow> ('ms, 'ma, 'mc, 'mp) tracker" where
  "deliver K cfg junk d s =
     (case d of (I, ctx, M, e) \<Rightarrow>
        snd (run_program K cfg (vmlinux_btf junk (with_record M ctx e)) I (event_program e ctx) s))"

fun block_actions :: "block_event \<Rightarrow> action list" where
  "block_actions (Released p) = [Forget p]"
| "block_actions (Allocated p n stale) = (if stale then [Forget p] else []) @ [Note n, Settle p]"

definition spec_deliver :: "config \<Rightarrow> delivery \<Rightarrow> contents \<Rightarrow> contents" where
  "spec_deliver cfg d c =
     (case d of (I, ctx, M, e) \<Rightarrow> fold (spec_action cfg I) (block_actions (meaning cfg e)) c)"

lemma event_effect_contents:
  assumes "memleak_kernel K" and "maps_valid K s"
  shows "maps_valid K (snd (event_effect K cfg I e s)) \<and>
    contents_of K (snd (event_effect K cfg I e s)) =
      fold (spec_action cfg I) (block_actions (meaning cfg e)) (contents_of K s)"
  using assms(2)
  by (cases e)
    (simp_all add: note_block_def forget_stale_def memleak_kernel.core_refines [OF assms(1)])

sublocale memleak_kernel \<subseteq> deliveries: run_refinement
  "deliver K cfg junk" "spec_deliver cfg" "contents_of K" "maps_valid K" for cfg junk
  by unfold_locales
    (simp_all add: deliver_def spec_deliver_def tracepoint_effect split_beta
      event_effect_contents [OF memleak_kernel_axioms])

context memleak_kernel
begin

lemmas deliveries_contents = deliveries.run_view

end

interpretation slot_deliveries: run_refinement
  "deliver slot_kernel cfg junk" "spec_deliver cfg" "contents_of slot_kernel" "maps_valid slot_kernel"
  by unfold_locales (simp_all add: slotk.deliveries.step_good slotk.deliveries.step_view)

subsection \<open>The tracker follows the events\<close>

lemma agrees_step:
  assumes "agrees T m c" and "finite T" and "card T \<le> COMBINED_ALLOCS_MAX_ENTRIES"
    and "stack_of cfg I \<in> T" and "step_followed cfg I b m"
  shows "agrees T (live_step cfg I b m) (fold (spec_action cfg I) (block_actions b) c)"
proof (cases b)
  case (Released p)
  then show ?thesis using assms(1) by (simp add: agrees_free)
next
  case (Allocated p n stale)
  let ?m = "unless_stale stale p m" and ?c = "if stale then spec_free p c else c"
  have "agrees T ?m ?c" using assms(1) by (simp add: unless_stale_def agrees_free)
  from agrees_alloc [OF this assms(2-4) refl, of n p] assms(5) Allocated
  have "agrees T (if alloc_admitted cfg I n \<and> p \<noteq> 0 then ?m(p \<mapsto> exit_info cfg I n) else ?m)
      (spec_exit cfg I p (spec_enter cfg I n ?c))" by (simp only: step_followed.simps Let_def)
  moreover have "live_step cfg I b m =
      (if alloc_admitted cfg I n \<and> p \<noteq> 0 then ?m(p \<mapsto> exit_info cfg I n) else ?m)"
    by (simp add: Allocated Let_def)
  moreover have "fold (spec_action cfg I) (block_actions b) c =
      spec_exit cfg I p (spec_enter cfg I n ?c)" by (simp add: Allocated)
  ultimately show ?thesis by (simp only:)
qed

lemma agrees_run:
  assumes "finite T" and "card T \<le> COMBINED_ALLOCS_MAX_ENTRIES"
  shows "agrees T m c \<Longrightarrow> stacks cfg ds \<subseteq> T \<Longrightarrow> followed cfg ds m \<Longrightarrow>
    agrees T (live cfg ds m) (fold (spec_deliver cfg) ds c)"
proof (induction ds arbitrary: m c)
  case (Cons d ds)
  obtain I ctx M e where d: "d = (I, ctx, M, e)" by (metis prod_cases4)
  have "agrees T (live_step cfg I (meaning cfg e) m) (spec_deliver cfg d c)"
    using agrees_step [OF Cons.prems(1) assms, of cfg I "meaning cfg e"] Cons.prems(2,3)
    by (simp add: d stacks_def spec_deliver_def)
  with Cons.IH Cons.prems(2,3) show ?case
    by (simp add: d stacks_def)
qed simp

lemma kernel_trace_agrees:
  assumes "memleak_kernel K" and "maps_valid K s" and "contents_of K s = no_contents"
    and "followed cfg ds Map.empty" and "card (stacks cfg ds) \<le> COMBINED_ALLOCS_MAX_ENTRIES"
  shows "agrees (stacks cfg ds) (live cfg ds Map.empty)
    (contents_of K (fold (deliver K cfg junk) ds s))"
proof -
  have "contents_of K (fold (deliver K cfg junk) ds s) = fold (spec_deliver cfg) ds no_contents"
    using memleak_kernel.deliveries_contents [OF assms(1,2)] assms(3) by simp
  moreover have "finite (stacks cfg ds)" by (simp add: stacks_def)
  ultimately show ?thesis
    using agrees_run [OF _ assms(5) agrees_empty order_refl assms(4)] by simp
qed


text \<open>A kmalloc of 100 bytes that gets 128, two pages, and the kfree of the former.\<close>

definition demo_deliveries :: "delivery list" where
  "demo_deliveries =
     [(call 0 5, 64, (\<lambda>_. 0), Kmalloc_event 1 4096 100 128 3264 0),
      (call 0 5, 4096, (\<lambda>_. 255), Mm_page_alloc_event 77 1 3264 0),
      (call 0 6, 64, (\<lambda>_. 0), Kfree_event 1 4096)]"

lemma demo_live:
  "followed default_config demo_deliveries Map.empty"
  "live default_config demo_deliveries Map.empty =
     [77 \<mapsto> \<lparr>ai_size = 8192, ai_timestamp_ns = 200, ai_stack_id = 5\<rparr>]"
  "stacks default_config demo_deliveries = {5, 6}"
  by (simp_all add: demo_deliveries_def default_config_def alloc_admitted_def exit_info_def
      unless_stale_def stacks_def stack_of_def stack_key_def ALLOCS_MAX_ENTRIES_def fun_eq_iff)


end
