(* ===== verification/Leaks.thy ===== *)
theory Leaks
  imports Report LibcCalls KernelEvents
begin

text \<open>
  From the calls of a process, or the events of the kernel, to the lines that are printed: the
  tracker, the decoding of its map, the selection of stacks and the report together.
\<close>

subsection \<open>What a report must say\<close>

text \<open>The entries of the statistics map as user space reads them, in any order.\<close>

definition entries_of :: "contents \<Rightarrow> (u64 \<times> u8 list) list \<Rightarrow> bool" where
  "entries_of c es \<longleftrightarrow>
     (\<exists>xs. distinct (map fst xs) \<and> map_of xs = c_combined c \<and>
        es = map (\<lambda>(k, ci). (k, combined_bytes ci)) xs)"

text \<open>The stacks to list for given totals of bytes: the \<open>n\<close> with the largest, the largest first, and
  only those that are not zero.\<close>

definition ranked :: "int \<Rightarrow> (u64 \<Rightarrow> nat) \<Rightarrow> u64 list \<Rightarrow> bool" where
  "ranked n f sids \<longleftrightarrow>
     distinct sids \<and> (\<forall>sid\<in>set sids. 0 < f sid) \<and>
     length sids = min (nat n) (card {sid. 0 < f sid}) \<and>
     sorted (rev (map f sids)) \<and>
     (\<forall>sid\<in>set sids. \<forall>other. other \<notin> set sids \<longrightarrow> f other \<le> f sid)"

abbreviation top_ranked :: "int \<Rightarrow> blocks \<Rightarrow> u64 list \<Rightarrow> bool" where
  "top_ranked n m \<equiv> ranked n (\<lambda>sid. live_bytes sid m)"

text \<open>The report for given stacks, with the bytes and the number of blocks of each.\<close>

definition total_lines :: "i64 \<Rightarrow> snapshot \<Rightarrow> (u64 \<Rightarrow> nat) \<Rightarrow> (u64 \<Rightarrow> nat) \<Rightarrow> u64 \<Rightarrow> out_line list" where
  "total_lines pid sn f g sid =
     Out (digits (f sid) @ '' Bytes in '' @ digits (g sid) @ '' allocations from stack'') #
     frame_lines pid sn (ucast sid)"

definition totals_report ::
    "i64 \<Rightarrow> snapshot \<Rightarrow> (u64 \<Rightarrow> nat) \<Rightarrow> (u64 \<Rightarrow> nat) \<Rightarrow> u64 list \<Rightarrow> out_line list" where
  "totals_report pid sn f g sids =
     Out ''=== Reading combined allocs map entries ==='' #
     (if sn_iter_error sn then [Log_iterator_error] else []) @
     Out (''['' @ sn_now sn @ ''] Top '' @ digits (length sids) @
          '' stacks with outstanding allocations:'') #
     concat (map (total_lines pid sn f g) sids) @ [Out ''==========================='']"

abbreviation leak_report :: "i64 \<Rightarrow> snapshot \<Rightarrow> blocks \<Rightarrow> u64 list \<Rightarrow> out_line list" where
  "leak_report pid sn m \<equiv> totals_report pid sn (\<lambda>sid. live_bytes sid m) (\<lambda>sid. live_count sid m)"

subsection \<open>The report for contents that agree with the blocks\<close>

definition stack_key_of :: "CombinedAllocInfo \<Rightarrow> u64" where
  "stack_key_of x = scast (CA_StackId x)"

lemma sorted_map_mono:
  "sorted (map f xs) \<Longrightarrow> (\<And>x y. f x \<le> f y \<Longrightarrow> g x \<le> g y) \<Longrightarrow> sorted (map g xs)"
  by (induction xs) auto

lemma distinct_submultiset:
  assumes "mset xs \<subseteq># mset ys" and "distinct ys"
  shows "distinct xs"
proof -
  have "count (mset xs) a = (if a \<in> set xs then 1 else 0)" for a
  proof -
    have "count (mset xs) a \<le> count (mset ys) a" using mset_subset_eq_count [OF assms(1)] .
    also have "\<dots> \<le> 1" using assms(2) by (simp add: distinct_count_atmost_1)
    finally show ?thesis
      using count_eq_zero_iff [of "mset xs" a] by (cases "count (mset xs) a") auto
  qed
  then show ?thesis by (simp add: distinct_count_atmost_1)
qed

text \<open>Entries that hold the totals \<open>f\<close> and \<open>g\<close> of their stacks, and all stacks whose total is not zero.\<close>

definition hold_totals ::
    "(u64 \<times> combined_alloc_info) list \<Rightarrow> (u64 \<Rightarrow> nat) \<Rightarrow> (u64 \<Rightarrow> nat) \<Rightarrow> bool" where
  "hold_totals es f g \<longleftrightarrow>
     distinct (map fst es) \<and>
     (\<forall>(k, ci)\<in>set es. k = scast (ucast k :: i32) \<and> unat (total_size ci) = f k \<and>
        unat (number_of_allocs ci) = g k) \<and>
     (\<forall>k. 0 < f k \<longrightarrow> k \<in> fst ` set es)"

definition decoded_entries :: "(u64 \<times> combined_alloc_info) list \<Rightarrow> CombinedAllocInfo list" where
  "decoded_entries es = map (\<lambda>(k, ci). GetCombinedAllocInfo (ucast k) (combined_bytes ci)) es"

lemma decoded_totals:
  assumes "hold_totals es f g" and "x \<in> set (decoded_entries es)"
  shows "unat (CA_TotalSize x) = f (stack_key_of x)" "unat (CA_NumberOfAllocs x) = g (stack_key_of x)"
    "CA_StackId x = ucast (stack_key_of x)"
proof -
  obtain k ci where x: "(k, ci) \<in> set es" "x = GetCombinedAllocInfo (ucast k) (combined_bytes ci)"
    using assms(2) by (auto simp: decoded_entries_def)
  then have "k = scast (ucast k :: i32) \<and> unat (total_size ci) = f k \<and> unat (number_of_allocs ci) = g k"
    using assms(1) unfolding hold_totals_def by blast
  then show "unat (CA_TotalSize x) = f (stack_key_of x)" "CA_StackId x = ucast (stack_key_of x)"
    "unat (CA_NumberOfAllocs x) = g (stack_key_of x)"
    using x(2) by (simp_all add: stack_key_of_def decoded_fields unat_number_u32 unat_number_of_allocs)
qed

lemma decoded_keys:
  assumes "hold_totals es f g"
  shows "map stack_key_of (decoded_entries es) = map fst es"
    "distinct (decoded_entries es)" "inj_on stack_key_of (set (decoded_entries es))"
proof -
  show keys: "map stack_key_of (decoded_entries es) = map fst es"
    using assms by (auto simp: hold_totals_def stack_key_of_def decoded_fields decoded_entries_def)
  then show "distinct (decoded_entries es)" "inj_on stack_key_of (set (decoded_entries es))"
    using assms by (simp_all add: hold_totals_def flip: keys) (simp_all add: distinct_map)
qed

lemma positive_keys:
  assumes "hold_totals es f g"
  shows "{sid. 0 < f sid} = stack_key_of ` {x \<in> set (decoded_entries es). 0 < CA_TotalSize x}"
proof -
  have pos: "0 < CA_TotalSize x \<longleftrightarrow> 0 < f (stack_key_of x)" if "x \<in> set (decoded_entries es)" for x
    using decoded_totals(1) [OF assms that] by (simp add: word_greater_zero_iff unat_gt_0 [symmetric] del: unat_gt_0)
  have "stack_key_of ` set (decoded_entries es) = fst ` set es"
    using decoded_keys(1) [OF assms] by (metis set_map)
  moreover have "{sid. 0 < f sid} \<subseteq> fst ` set es" using assms by (auto simp: hold_totals_def)
  ultimately have "{sid. 0 < f sid} \<subseteq> stack_key_of ` set (decoded_entries es)" by simp
  then show ?thesis using pos by blast
qed

lemma selection_ranked:
  assumes "hold_totals es f g"
    and "mset ts + R = filter_mset (\<lambda>x. 0 < CA_TotalSize x) (mset (decoded_entries es))"
    and "length ts = min (nat n) (size (mset ts + R))"
    and "\<forall>x \<in># R. \<forall>y \<in> set ts. CA_TotalSize x \<le> CA_TotalSize y"
    and "sorted (rev (map CA_TotalSize ts))"
  shows "ranked n f (map stack_key_of ts)"
proof -
  let ?D = "decoded_entries es" and ?sids = "map stack_key_of ts"
  note known = decoded_totals(1) [OF assms(1)] and keys = decoded_keys [OF assms(1)]
    and live = positive_keys [OF assms(1)]
  have from_D: "x \<in> set ?D \<and> 0 < CA_TotalSize x" if "x \<in># mset ts + R" for x
    using that unfolding assms(2) by auto
  have "size (mset ts + R) = length (filter (\<lambda>x. 0 < CA_TotalSize x) ?D)"
    unfolding assms(2) by (metis mset_filter size_mset)
  also have "\<dots> = card {x \<in> set ?D. 0 < CA_TotalSize x}"
    using distinct_card [OF distinct_filter [OF keys(2)]] by (metis set_filter)
  also have "\<dots> = card (stack_key_of ` {x \<in> set ?D. 0 < CA_TotalSize x})"
    by (rule card_image [symmetric], rule inj_on_subset [OF keys(3)]) blast
  finally have "size (mset ts + R) = card {sid. 0 < f sid}" by (simp only: live)
  then have "length ?sids = min (nat n) (card {sid. 0 < f sid})" by (simp only: length_map assms(3))
  moreover have within: "mset ts \<subseteq># mset ?D"
    by (rule subset_mset.order_trans [OF mset_subset_eq_add_left [of _ R]])
      (unfold assms(2), rule multiset_filter_subset)
  then have "distinct ?sids"
    using distinct_submultiset [OF within keys(2)] keys(3) set_mset_mono [OF within]
    by (simp add: distinct_map inj_on_subset)
  moreover have "\<forall>sid\<in>set ?sids. 0 < f sid" using live from_D by fastforce
  moreover have "map f ?sids = map unat (map CA_TotalSize ts)" using known from_D by simp
  then have "sorted (rev (map f ?sids))"
    using assms(5) sorted_map_mono [of "\<lambda>x. x" "rev (map CA_TotalSize ts)" unat]
    by (simp only: rev_map) (simp add: word_le_nat_alt)
  moreover have "f other \<le> f sid" if listed: "sid \<in> set ?sids" "other \<notin> set ?sids" for sid other
  proof (cases "0 < f other")
    case True
    then obtain x where x: "other = stack_key_of x" "x \<in> set ?D" "0 < CA_TotalSize x"
      using live by blast
    then have "x \<in># mset ts + R" unfolding assms(2) by simp
    then have "x \<in># R" using x(1) listed(2) by auto
    moreover obtain y where y: "sid = stack_key_of y" "y \<in> set ts" using listed(1) by auto
    ultimately show ?thesis
      using known x y from_D assms(4) by (simp add: word_le_nat_alt)
  qed simp
  ultimately show ?thesis unfolding ranked_def by blast
qed

text \<open>A round prints the report for the totals that it reads.\<close>

lemma read_report:
  assumes "hold_totals es f g" and "sn_combined sn = map (\<lambda>(k, ci). (k, combined_bytes ci)) es" and "0 < n"
  shows "\<exists>sids. ranked n f sids \<and> report pid n sn = (totals_report pid sn f g sids, None)"
proof -
  have D: "decode_entries (sn_combined sn) = decoded_entries es"
    by (simp add: decode_entries_def decoded_entries_def assms(2) split_beta)
  obtain ts R where ts: "topStacks n (sn_combined sn) = Inr ts"
    "mset ts + R = filter_mset (\<lambda>x. 0 < CA_TotalSize x) (mset (decoded_entries es))"
    "length ts = min (nat n) (size (mset ts + R))"
    "\<forall>x \<in># R. \<forall>y \<in> set ts. CA_TotalSize x \<le> CA_TotalSize y"
    "sorted (rev (map CA_TotalSize ts))"
    using selected_largest [OF assms(3), of "sn_combined sn"] unfolding D by blast
  have "stack_lines pid sn x = total_lines pid sn f g (stack_key_of x)" if listed: "x \<in> set ts" for x
  proof -
    have "x \<in># mset ts + R" using listed by simp
    then have "x \<in> set (decoded_entries es)" unfolding ts(2) by simp
    then show ?thesis
      using decoded_totals [OF assms(1), of x] by (simp add: stack_lines_def total_lines_def)
  qed
  then have lines: "map (stack_lines pid sn) ts = map (total_lines pid sn f g) (map stack_key_of ts)"
    by simp
  have "report pid n sn = (totals_report pid sn f g (map stack_key_of ts), None)"
    by (simp only: report_def ts(1) totals_report_def Let_def sum.case lines) simp
  with selection_ranked [OF assms(1) ts(2-5)] show ?thesis by blast
qed

text \<open>The entry of a stack in contents that agree with the blocks; a stack without one has no bytes.\<close>

lemma agreeing_entry:
  assumes "agrees T m c" and "\<forall>k\<in>T. k = scast (ucast k :: i32)"
    and "live_bytes k m < 2 ^ 40" and "live_count k m < 2 ^ 24" and "c_combined c k = Some ci"
  shows "k = scast (ucast k :: i32) \<and> unat (total_size ci) = live_bytes k m \<and>
    unat (number_of_allocs ci) = live_count k m"
proof -
  have "k \<in> T" using assms(1,5) by (auto simp: agrees_def)
  then show ?thesis
    using agrees_totals [OF assms(1,3,4)] assms(2,5) by (simp add: stack_stats_def)
qed

lemma agreeing_absent:
  assumes "agrees T m c" and "live_bytes k m < 2 ^ 40" and "live_count k m < 2 ^ 24"
    and "c_combined c k = None"
  shows "live_bytes k m = 0"
  using agrees_totals [OF assms(1-3)] assms(4) by (simp add: stack_stats_def total_size_def)

text \<open>A complete reading at one moment.\<close>

lemma entries_report:
  assumes "\<forall>k\<in>dom (c_combined c). k = scast (ucast k :: i32)"
    and "entries_of c (sn_combined sn)" and "0 < n"
  shows "\<exists>sids. ranked n (\<lambda>sid. unat (total_size (stack_stats c sid))) sids \<and>
    report pid n sn = (totals_report pid sn (\<lambda>sid. unat (total_size (stack_stats c sid)))
                         (\<lambda>sid. unat (number_of_allocs (stack_stats c sid))) sids, None)"
proof -
  obtain es where es: "distinct (map fst es)" "map_of es = c_combined c"
    "sn_combined sn = map (\<lambda>(k, ci). (k, combined_bytes ci)) es"
    using assms(2) unfolding entries_of_def by blast
  have found: "c_combined c k = Some ci" if "(k, ci) \<in> set es" for k ci
    using that es(1) by (simp flip: es(2))
  then have "\<forall>(k, ci)\<in>set es. k = scast (ucast k :: i32) \<and>
      unat (total_size ci) = unat (total_size (stack_stats c k)) \<and>
      unat (number_of_allocs ci) = unat (number_of_allocs (stack_stats c k))"
    using assms(1) by (fastforce simp: stack_stats_def)
  moreover have "k \<in> fst ` set es" if "0 < unat (total_size (stack_stats c k))" for k
  proof -
    have "c_combined c k \<noteq> None"
      using that by (cases "c_combined c k") (simp_all add: stack_stats_def total_size_def)
    then show ?thesis by (simp add: map_of_eq_None_iff flip: es(2))
  qed
  ultimately have "hold_totals es (\<lambda>sid. unat (total_size (stack_stats c sid)))
      (\<lambda>sid. unat (number_of_allocs (stack_stats c sid)))"
    using es(1) unfolding hold_totals_def by blast
  from read_report [OF this es(3) assms(3)] show ?thesis .
qed

lemma agreeing_report:
  assumes "agrees T m c" and "\<forall>k\<in>T. k = scast (ucast k :: i32)"
    and "\<forall>sid. live_bytes sid m < 2 ^ 40 \<and> live_count sid m < 2 ^ 24"
    and "entries_of c (sn_combined sn)" and "0 < n"
  shows "\<exists>sids. top_ranked n m sids \<and> report pid n sn = (leak_report pid sn m sids, None)"
proof -
  have "unat (total_size (stack_stats c sid)) = live_bytes sid m"
    "unat (number_of_allocs (stack_stats c sid)) = live_count sid m" for sid
    using agrees_totals [OF assms(1)] assms(3) by simp_all
  moreover have "\<forall>k\<in>dom (c_combined c). k = scast (ucast k :: i32)"
    using assms(1,2) unfolding agrees_def by blast
  ultimately show ?thesis using entries_report [OF _ assms(4,5)] by simp
qed

subsection \<open>Entries that change while they are read\<close>

text \<open>User space reads a map one entry at a time, while it changes; the moments are given by what the
  map holds then. If nothing is deleted meanwhile, no key is read twice, and every value read is
  that of some moment, or zero for a stack that had no entry: a program creates an entry with zero
  and then adds to it. That no key is missed is promised only if the map is not modified at all
  and the iterator reports no error.\<close>

definition undisturbed :: "('k \<rightharpoonup> 'v) list \<Rightarrow> bool" where
  "undisturbed cs \<longleftrightarrow> sorted_wrt (\<lambda>c d. dom c \<subseteq> dom d) cs"

definition value_read :: "(u64 \<rightharpoonup> combined_alloc_info) \<Rightarrow> u64 \<Rightarrow> combined_alloc_info \<Rightarrow> bool" where
  "value_read c k v \<longleftrightarrow>
     (case c k of None \<Rightarrow> v = 0 \<and> k = scast (ucast k :: i32) | Some w \<Rightarrow> v = w)"

definition walk_reads ::
    "bool \<Rightarrow> (u64 \<rightharpoonup> combined_alloc_info) list \<Rightarrow> (u64 \<times> combined_alloc_info) list \<Rightarrow> bool" where
  "walk_reads err cs es \<longleftrightarrow>
     distinct (map fst es) \<and>
     (\<forall>(k, v)\<in>set es. \<exists>c\<in>set cs. value_read c k v) \<and>
     (\<not> err \<and> (\<forall>c\<in>set cs. c = hd cs) \<longrightarrow> dom (hd cs) \<subseteq> fst ` set es)"

lemma walk_of_one:
  assumes "distinct (map fst es)" and "map_of es = c"
  shows "walk_reads err [c] es"
  using assms by (force simp: walk_reads_def value_read_def dom_map_of_conv_image_fst)

text \<open>A round that reads in this way prints, for every stack that it reads, the bytes and blocks of
  some moment; the other stacks count as if they had none.\<close>

definition within :: "u64 set \<Rightarrow> (u64 \<Rightarrow> nat) \<Rightarrow> u64 \<Rightarrow> nat" where
  "within R f sid = (if sid \<in> R then f sid else 0)"

lemma value_read_totals:
  assumes "agrees T m c" and "\<forall>k\<in>T. k = scast (ucast k :: i32)"
    and "live_bytes k m < 2 ^ 40" and "live_count k m < 2 ^ 24" and "value_read (c_combined c) k v"
  shows "k = scast (ucast k :: i32) \<and> unat (total_size v) = live_bytes k m \<and>
    unat (number_of_allocs v) = live_count k m"
proof (cases "c_combined c k")
  case None
  then show ?thesis
    using agrees_totals [OF assms(1,3,4)] assms(5) by (simp add: value_read_def stack_stats_def)
next
  case (Some w)
  then show ?thesis using agreeing_entry [OF assms(1-4)] assms(5) by (simp add: value_read_def)
qed

lemma changing_report:
  assumes "\<forall>x\<in>set ms. agrees T (fst x) (snd x)" and "\<forall>k\<in>T. k = scast (ucast k :: i32)"
    and "\<forall>x\<in>set ms. \<forall>sid. live_bytes sid (fst x) < 2 ^ 40 \<and> live_count sid (fst x) < 2 ^ 24"
    and "ms \<noteq> []" and "walk_reads err (map (\<lambda>x. c_combined (snd x)) ms) es"
    and "sn_combined sn = map (\<lambda>(k, ci). (k, combined_bytes ci)) es" and "0 < n"
  shows "\<exists>at R. (\<forall>k. at k \<in> fst ` set ms) \<and>
    (\<not> err \<and> (\<forall>x\<in>set ms. c_combined (snd x) = c_combined (snd (hd ms))) \<longrightarrow> R = UNIV) \<and>
    (\<exists>sids. ranked n (within R (\<lambda>sid. live_bytes sid (at sid))) sids \<and>
       report pid n sn = (totals_report pid sn (within R (\<lambda>sid. live_bytes sid (at sid)))
                            (within R (\<lambda>sid. live_count sid (at sid))) sids, None))"
proof -
  let ?keys = "fst ` set es"
  let ?complete = "\<not> err \<and> (\<forall>x\<in>set ms. c_combined (snd x) = c_combined (snd (hd ms)))"
  define R where "R = (if ?complete then UNIV else ?keys)"
  have walk: "distinct (map fst es)"
    "\<And>k v. (k, v) \<in> set es \<Longrightarrow> \<exists>x\<in>set ms. value_read (c_combined (snd x)) k v"
    "\<And>k. ?complete \<Longrightarrow> k \<notin> ?keys \<Longrightarrow> c_combined (snd (hd ms)) k = None"
  proof -
    show "distinct (map fst es)" using assms(5) by (simp add: walk_reads_def)
    show "\<exists>x\<in>set ms. value_read (c_combined (snd x)) k v" if "(k, v) \<in> set es" for k v
      using assms(5) that by (fastforce simp: walk_reads_def)
    assume "?complete"
    have first: "hd (map (\<lambda>x. c_combined (snd x)) ms) = c_combined (snd (hd ms))"
      using assms(4) by (rule hd_map)
    have "\<forall>c\<in>set (map (\<lambda>x. c_combined (snd x)) ms). c = hd (map (\<lambda>x. c_combined (snd x)) ms)"
      unfolding first set_map using \<open>?complete\<close> by blast
    with \<open>?complete\<close> have "dom (c_combined (snd (hd ms))) \<subseteq> ?keys"
      using assms(5) unfolding walk_reads_def first by blast
    then show "c_combined (snd (hd ms)) k = None" if "k \<notin> ?keys" for k
      using that by blast
  qed
  have "\<exists>x\<in>set ms. (\<forall>v. (k, v) \<in> set es \<longrightarrow> value_read (c_combined (snd x)) k v) \<and>
      (k \<notin> ?keys \<longrightarrow> x = hd ms)" for k
  proof (cases "k \<in> ?keys")
    case True
    then obtain v where v: "(k, v) \<in> set es" by auto
    then have "(k, w) \<in> set es \<Longrightarrow> w = v" for w using walk(1) eq_key_imp_eq_value by metis
    with walk(2) [OF v] True show ?thesis by blast
  next
    case False
    then have "(k, v) \<notin> set es" for v by force
    with hd_in_set [OF assms(4)] show ?thesis by blast
  qed
  then obtain x where x: "\<And>k. x k \<in> set ms"
    "\<And>k v. (k, v) \<in> set es \<Longrightarrow> value_read (c_combined (snd (x k))) k v"
    "\<And>k. k \<notin> ?keys \<Longrightarrow> x k = hd ms" by metis
  have agree: "agrees T (fst (x k)) (snd (x k))"
    "live_bytes sid (fst (x k)) < 2 ^ 40" "live_count sid (fst (x k)) < 2 ^ 24" for k sid
    using x(1) [of k] assms(1,3) by simp_all
  let ?f = "within R (\<lambda>sid. live_bytes sid (fst (x sid)))" and ?g = "within R (\<lambda>sid. live_count sid (fst (x sid)))"
  have "k \<in> ?keys" if "0 < ?f k" for k
  proof (rule ccontr)
    assume missed: "k \<notin> ?keys"
    with that have "?complete" "0 < live_bytes k (fst (x k))" by (auto simp: within_def R_def split: if_splits)
    with missed show False using agreeing_absent [OF agree, of k k] walk(3) x(3) by simp
  qed
  moreover have "k = scast (ucast k :: i32) \<and> unat (total_size ci) = ?f k \<and>
      unat (number_of_allocs ci) = ?g k" if "(k, ci) \<in> set es" for k ci
  proof -
    have "k \<in> R" using that by (force simp: R_def)
    then show ?thesis
      using value_read_totals [OF agree(1) assms(2) agree(2,3) x(2) [OF that]] by (simp add: within_def)
  qed
  ultimately have "hold_totals es ?f ?g"
    using walk(1) unfolding hold_totals_def by blast
  from read_report [OF this assms(6,7)] x(1) show ?thesis
    by (intro exI [of _ "\<lambda>sid. fst (x sid)"] exI [of _ R]) (simp add: R_def)
qed

lemma stacks_extended:
  "\<forall>k\<in>call_stacks cfg xs. k = scast (ucast k :: i32)"
  "\<forall>k\<in>stacks cfg ds. k = scast (ucast k :: i32)"
  by (auto simp: call_stacks_def stacks_def stack_of_def stack_key_def exit_info_def)

subsection \<open>From calls and events to the report\<close>

text \<open>The report on a process is right, line by line: after any sequence of calls that the tracker
  can follow, with a positive number of stacks to show, it lists the stacks with the most bytes in
  blocks allocated and not released, in descending order, each with just its bytes and number of
  blocks, counted from the calls alone, and the frames of its stack. (The entries of the map are
  those at one moment, in any order.)\<close>

theorem process_report_exact:
  assumes "memleak_kernel K" and "maps_valid K s" and "contents_of K s = no_contents"
    and "calls_followed cfg xs Map.empty"
    and "card (call_stacks cfg xs) \<le> COMBINED_ALLOCS_MAX_ENTRIES"
    and "\<forall>sid. live_bytes sid (outstanding cfg xs Map.empty) < 2 ^ 40 \<and>
           live_count sid (outstanding cfg xs Map.empty) < 2 ^ 24"
    and "entries_of (contents_of K (run_events K cfg B (concat (map call_events xs)) s))
           (sn_combined sn)"
    and "0 < n"
  shows "\<exists>sids. top_ranked n (outstanding cfg xs Map.empty) sids \<and>
           report pid n sn = (leak_report pid sn (outstanding cfg xs Map.empty) sids, None)"
  by (rule agreeing_report [OF libc_trace_agrees [OF assms(1-5)] stacks_extended(1) assms(6-8)])

text \<open>The calls of \<open>demo_calls\<close>, with one stack to show.\<close>

definition calls_snapshot :: snapshot where
  "calls_snapshot = (demo_snapshot Map.empty)
     \<lparr>sn_combined := [(6, combined_bytes (combined_of_info 512 1)), (5, combined_bytes 0)]\<rparr>"

lemma demo_calls_combined:
  "c_combined (contents_of slot_kernel
     (run_events slot_kernel default_config no_btf (concat (map call_events demo_calls)) slot_init)) =
   [5 \<mapsto> 0, 6 \<mapsto> combined_of_info 512 1]"
  by (simp add: slotk.run_contents demo_calls_def run_spec_simps default_config_def bounded_upd_def
      capacity_defs spec_record_def spec_credit_def spec_debit_def stack_key_def stack_stats_def
      no_contents_def spec_save_memptr_def spec_memptr_exit_def call_def current_pid_def
      current_pid64_def Let_def fun_upd_twist)

lemma demo_calls_entries:
  "entries_of (contents_of slot_kernel
     (run_events slot_kernel default_config no_btf (concat (map call_events demo_calls)) slot_init))
     (sn_combined calls_snapshot)"
  unfolding entries_of_def demo_calls_combined
  by (rule exI [of _ "[(6, combined_of_info 512 1), (5, 0)]"]) (simp add: calls_snapshot_def)

lemma demo_calls_live:
  "live_bytes sid (outstanding default_config demo_calls Map.empty) = (if sid = 6 then 512 else 0)"
  "live_count sid (outstanding default_config demo_calls Map.empty) = (if sid = 6 then 1 else 0)"
  by (simp_all add: demo_outstanding_blocks(2) live_bytes_def live_count_def map_sum_def stack_key_def)

lemma demo_digits: "digits (Suc 0) = ''1''" "digits 512 = ''512''"
  by code_simp+

theorem process_report_exact_witness:
  "report 7 1 calls_snapshot =
     ([Out ''=== Reading combined allocs map entries ==='',
       Out ''[12:00:00] Top 1 stacks with outstanding allocations:'',
       Out ''512 Bytes in 1 allocations from stack'', Log_no_trace 6 Lookup_failed,
       Out ''===========================''], None)"
proof -
  have "card (call_stacks default_config demo_calls) \<le> COMBINED_ALLOCS_MAX_ENTRIES"
    by (simp add: demo_outstanding_blocks(3) COMBINED_ALLOCS_MAX_ENTRIES_def)
  moreover have "\<forall>sid. live_bytes sid (outstanding default_config demo_calls Map.empty) < 2 ^ 40 \<and>
      live_count sid (outstanding default_config demo_calls Map.empty) < 2 ^ 24"
    by (simp add: demo_calls_live)
  ultimately obtain sids where sids:
    "top_ranked 1 (outstanding default_config demo_calls Map.empty) sids"
    "report 7 1 calls_snapshot =
      (leak_report 7 calls_snapshot (outstanding default_config demo_calls Map.empty) sids, None)"
    using process_report_exact [OF slot_kernel_ok slot_init_valid slot_init_contents
        demo_outstanding_blocks(1) _ _ demo_calls_entries, of 1 7] by auto
  have "length sids = 1" "\<forall>sid\<in>set sids. sid = 6"
    using sids(1) by (auto simp: ranked_def demo_calls_live split: if_splits)
  then have "sids = [6]" by (cases sids) auto
  then show ?thesis
    unfolding sids(2)
    by (simp add: totals_report_def total_lines_def frame_lines_def demo_calls_live demo_digits
        word_sless_alt getUserspaceStackTrace_def calls_snapshot_def demo_snapshot_def)
qed

text \<open>The same for the kernel and its events.\<close>

theorem kernel_report_exact:
  assumes "memleak_kernel K" and "maps_valid K s" and "contents_of K s = no_contents"
    and "followed cfg ds Map.empty" and "card (stacks cfg ds) \<le> COMBINED_ALLOCS_MAX_ENTRIES"
    and "\<forall>sid. live_bytes sid (live cfg ds Map.empty) < 2 ^ 40 \<and>
           live_count sid (live cfg ds Map.empty) < 2 ^ 24"
    and "entries_of (contents_of K (fold (deliver K cfg junk) ds s)) (sn_combined sn)"
    and "0 < n"
  shows "\<exists>sids. top_ranked n (live cfg ds Map.empty) sids \<and>
           report pid n sn = (leak_report pid sn (live cfg ds Map.empty) sids, None)"
  by (rule agreeing_report [OF kernel_trace_agrees [OF assms(1-5)] stacks_extended(2) assms(6-8)])

end
