(* ===== verification/Session.thy ===== *)
theory Session
  imports Command Leaks
begin

text \<open>
  A session of the command, from its flags to its reports: the globals that the flags give, the
  programs that \<open>attachPrograms\<close> really attaches, the calls and events that reach them, and what a
  round prints.
\<close>

subsection \<open>What is loaded and attached\<close>

definition config_of :: "flags \<Rightarrow> config" where
  "config_of fl =
     \<lparr>min_size = fl_min_size fl,
      max_size = (if fl_max_size fl = 0 then - 1 else fl_max_size fl),
      page_size = (if fl_page_size fl = 0 then 4096 else fl_page_size fl),
      sample_rate = fl_sample_rate fl, trace_all = fl_trace_all fl,
      stack_flags = stackFlag (fl_pid fl), wa_missing_free = fl_wa_missing_free fl,
      target_pid = (if 0 <s fl_pid fl then ucast (fl_pid fl) else 0)\<rparr>"

definition programs_of :: "i64 \<Rightarrow> string list" where
  "programs_of pid =
     (if 0 <s pid
      then [''malloc_enter'', ''malloc_exit'', ''free_enter'', ''calloc_enter'', ''calloc_exit'',
            ''realloc_enter'', ''realloc_exit'']
      else [''memleak__kmalloc'', ''memleak__kfree''])"

lemma set_variable_Some:
  "set_variable fails name b upd c = Some cfg \<longleftrightarrow>
     (\<exists>d. c = Some d \<and> (b \<longrightarrow> \<not> fails name) \<and> cfg = (if b then upd d else d))"
  by (auto simp: set_variable_def split: option.split)

lemma load_config: "loadObjects fails fl (stackFlag (fl_pid fl)) = Some cfg \<Longrightarrow> cfg = config_of fl"
  by (auto simp: loadObjects_def set_variable_Some default_config_def config_of_def word_gt_0)

lemma newProbe_result:
  assumes "newProbe w fl (stackFlag (fl_pid fl)) = New_probe cfg links"
  shows "cfg = config_of fl \<and> attached_links links = programs_of (fl_pid fl)"
  using assms
  by (auto simp: newProbe_def load_config attached_links_of attachPrograms_def attach_each_result
      programs_of_def split: if_splits option.splits attach_outcome.splits)

subsection \<open>What reaches the programs\<close>

text \<open>The name of a program in the object file.\<close>

fun program_name :: "program \<Rightarrow> string" where
  "program_name (Malloc_enter n) = ''malloc_enter''"
| "program_name Malloc_exit = ''malloc_exit''"
| "program_name (Free_enter a) = ''free_enter''"
| "program_name (Calloc_enter nmemb n) = ''calloc_enter''"
| "program_name Calloc_exit = ''calloc_exit''"
| "program_name (Realloc_enter p n) = ''realloc_enter''"
| "program_name Realloc_exit = ''realloc_exit''"
| "program_name (Mmap_enter a n) = ''mmap_enter''"
| "program_name Mmap_exit = ''mmap_exit''"
| "program_name (Munmap_enter a) = ''munmap_enter''"
| "program_name (Posix_memalign_enter m al n) = ''posix_memalign_enter''"
| "program_name Posix_memalign_exit = ''posix_memalign_exit''"
| "program_name (Aligned_alloc_enter al n) = ''aligned_alloc_enter''"
| "program_name Aligned_alloc_exit = ''aligned_alloc_exit''"
| "program_name (Valloc_enter n) = ''valloc_enter''"
| "program_name Valloc_exit = ''valloc_exit''"
| "program_name (Memalign_enter al n) = ''memalign_enter''"
| "program_name Memalign_exit = ''memalign_exit''"
| "program_name (Pvalloc_enter n) = ''pvalloc_enter''"
| "program_name Pvalloc_exit = ''pvalloc_exit''"
| "program_name (Memleak_kmalloc c) = ''memleak__kmalloc''"
| "program_name (Memleak_kmalloc_node c) = ''memleak__kmalloc_node''"
| "program_name (Memleak_kfree c) = ''memleak__kfree''"
| "program_name (Memleak_kmem_cache_alloc c) = ''memleak__kmem_cache_alloc''"
| "program_name (Memleak_kmem_cache_alloc_node c) = ''memleak__kmem_cache_alloc_node''"
| "program_name (Memleak_kmem_cache_free c) = ''memleak__kmem_cache_free''"
| "program_name (Memleak_mm_page_alloc c) = ''memleak__mm_page_alloc''"
| "program_name (Memleak_mm_page_free c) = ''memleak__mm_page_free''"
| "program_name (Memleak_percpu_alloc_percpu c) = ''memleak__percpu_alloc_percpu''"
| "program_name (Memleak_percpu_free_percpu c) = ''memleak__percpu_free_percpu''"

text \<open>Only attached programs run; the uprobes are attached to the process of the option \<open>PID\<close>.\<close>

definition fires :: "string list \<Rightarrow> i64 \<Rightarrow> event \<Rightarrow> bool" where
  "fires ps pid e \<longleftrightarrow>
     program_name (snd e) \<in> set ps \<and> (0 <s pid \<longrightarrow> current_pid (fst e) = ucast pid)"

text \<open>The calls of a process that the command sees, and the events of the kernel.\<close>

fun probed_function :: "libc_call \<Rightarrow> bool" where
  "probed_function (Malloc n) = True" | "probed_function (Calloc nmemb n) = True"
| "probed_function (Realloc p n) = True" | "probed_function (Free p) = True"
| "probed_function f = False"

definition probed :: "i64 \<Rightarrow> traced_call \<Rightarrow> bool" where
  "probed pid x \<longleftrightarrow> (case x of (I, J, f) \<Rightarrow> probed_function f \<and> current_pid I = ucast pid)"

fun probed_event :: "kernel_event \<Rightarrow> bool" where
  "probed_event (Kmalloc_event cs p br ba g n) = True"
| "probed_event (Kfree_event cs p) = True"
| "probed_event e = False"

lemma fired_calls:
  assumes "0 <s pid" and "\<forall>(I, J, f)\<in>set xs. current_pid J = current_pid I"
  shows "filter (fires (programs_of pid) pid) (concat (map call_events xs)) =
    concat (map call_events (filter (probed pid) xs))"
  using assms(2)
proof (induction xs)
  case (Cons x xs)
  obtain I J f where x: "x = (I, J, f)" by (metis prod_cases3)
  have "filter (fires (programs_of pid) pid) (call_events x) =
      (if probed pid x then call_events x else [])"
    using Cons.prems assms(1)
    by (cases f) (simp_all add: x fires_def probed_def programs_of_def)
  with Cons show ?case by simp
qed simp

lemma fired_deliveries:
  "filter (\<lambda>(I, ctx, M, e). fires (programs_of 0) 0 (I, event_program e ctx)) ds =
     filter (\<lambda>(I, ctx, M, e). probed_event e) ds"
proof (rule filter_cong [OF refl])
  fix d assume "d \<in> set ds"
  obtain I ctx M e where "d = (I, ctx, M, e)" by (metis prod_cases4)
  then show "(case d of (I, ctx, M, e) \<Rightarrow> fires (programs_of 0) 0 (I, event_program e ctx)) =
      (case d of (I, ctx, M, e) \<Rightarrow> probed_event e)"
    by (cases e) (simp_all add: fires_def programs_of_def)
qed

subsection \<open>The reports of a session\<close>

text \<open>C2: The command started for a process, on an empty tracker: a report is exact for the calls that
  this process makes of malloc, calloc, realloc and free, with the filters of the flags, whatever
  calls of other functions and of other processes are made besides. It lists, up to the positive number of
  stacks asked for and in descending order, the stacks with the most bytes outstanding by those
  calls, each with its bytes, its number of blocks and its frames. (Blocks from other allocation
  functions do not occur: their probes are not attached.) The conditions: these calls come one
  after another, none of them is a realloc that fails, a new block is at a free address, fewer than
  a million blocks are outstanding, there are at most 10240 stacks, the totals of each fit the
  bit-fields, and the round reads the whole map at one moment after the calls.\<close>

theorem process_session_exact:
  assumes "newProbe w fl (stackFlag (fl_pid fl)) = New_probe cfg links" and "0 <s fl_pid fl"
    and "memleak_kernel K" and "maps_valid K s" and "contents_of K s = no_contents"
    and "\<forall>(I, J, f)\<in>set xs. current_pid J = current_pid I"
    and "calls = filter (probed (fl_pid fl)) xs"
    and "calls_followed (config_of fl) calls Map.empty"
    and "card (call_stacks (config_of fl) calls) \<le> COMBINED_ALLOCS_MAX_ENTRIES"
    and "m = outstanding (config_of fl) calls Map.empty"
    and "\<forall>sid. live_bytes sid m < 2 ^ 40 \<and> live_count sid m < 2 ^ 24"
    and "entries_of (contents_of K (run_events K cfg B
           (filter (fires (attached_links links) (fl_pid fl)) (concat (map call_events xs))) s))
           (sn_combined sn)"
    and "0 < n"
  shows "\<exists>sids. top_ranked n m sids \<and> report (fl_pid fl) n sn = (leak_report (fl_pid fl) sn m sids, None)"
proof -
  have probe: "cfg = config_of fl" "attached_links links = programs_of (fl_pid fl)"
    using newProbe_result [OF assms(1)] by simp_all
  have "agrees (call_stacks cfg calls) m
      (contents_of K (run_events K cfg B (concat (map call_events calls)) s))"
    using libc_trace_agrees [OF assms(3-5), of cfg calls] assms(8-10) probe(1) by simp
  moreover have "filter (fires (attached_links links) (fl_pid fl)) (concat (map call_events xs)) =
      concat (map call_events calls)"
    using fired_calls [OF assms(2,6)] assms(7) probe(2) by simp
  ultimately show ?thesis
    using agreeing_report [OF _ stacks_extended(1) assms(11) _ assms(13)] assms(12) by simp
qed

text \<open>Process 7 allocates 64 bytes by malloc and 512 by posix_memalign.\<close>

definition session_flags :: flags where
  "session_flags = default_flags\<lparr>fl_pid := 7\<rparr>"

definition session_world :: world where
  "session_world = willing\<lparr>w_maps := [''0-1 r-xp 0 8:1 1 /libc.so.6'']\<rparr>"

definition session_calls :: "traced_call list" where
  "session_calls =
     [(call 0 5, call 4096 5, Malloc 64),
      (call 0 5, (call 0 6)\<lparr>probe_read_user := [256 \<mapsto> 16384]\<rparr>, Posix_memalign 256 64 512)]"

definition session_snapshot :: snapshot where
  "session_snapshot = (demo_snapshot Map.empty)
     \<lparr>sn_combined := [(5, combined_bytes (combined_of_info 64 1))]\<rparr>"

lemma session_libc: "getLibcPath [''0-1 r-xp 0 8:1 1 /libc.so.6''] = Some ''/libc.so.6''"
proof -
  have "contains ''0-1 r-xp 0 8:1 1 /libc.so.6'' ''/libc.so''"
    unfolding contains_def by (rule bexI [of _ 17]) simp_all
  then show ?thesis by (simp add: Fields_def is_space_def)
qed

lemma session_probe:
  "\<exists>cfg links. newProbe session_world session_flags (stackFlag (fl_pid session_flags)) =
     New_probe cfg links"
  by (simp add: newProbe_def session_world_def willing_def loaded_config attachPrograms_def
      session_flags_def default_flags_def attach_each_result session_libc word_sless_alt
      del: getLibcPath.simps)

lemma session_probed: "filter (probed 7) session_calls = [(call 0 5, call 4096 5, Malloc 64)]"
  by (simp add: session_calls_def probed_def)

lemma session_config:
  "config_of session_flags = default_config
     \<lparr>sample_rate := 1, stack_flags := BPF_F_USER_STACK, target_pid := 7\<rparr>"
  by (simp add: config_of_def session_flags_def default_flags_def default_config_def stackFlag_def
      word_sless_alt)

lemma session_live:
  "calls_followed (config_of session_flags) [(call 0 5, call 4096 5, Malloc 64)] Map.empty"
  "outstanding (config_of session_flags) [(call 0 5, call 4096 5, Malloc 64)] Map.empty =
     [4096 \<mapsto> \<lparr>ai_size = 64, ai_timestamp_ns = 200, ai_stack_id = 5\<rparr>]"
  "call_stacks (config_of session_flags) [(call 0 5, call 4096 5, Malloc 64)] = {5}"
  by (simp_all add: session_config call_followed_def call_step_def without_def unless_null_def
      default_config_def alloc_admitted_def exit_info_def call_stacks_def stack_of_def stack_key_def
      ALLOCS_MAX_ENTRIES_def)

lemma session_combined:
  "c_combined (contents_of slot_kernel (run_events slot_kernel (config_of session_flags) no_btf
     [(call 0 5, Malloc_enter 64), (call 4096 5, Malloc_exit)] slot_init)) =
   [5 \<mapsto> combined_of_info 64 1]"
  by (simp add: slotk.run_contents run_spec_simps session_config default_config_def bounded_upd_def
      capacity_defs spec_record_def spec_credit_def stack_key_def stack_stats_def no_contents_def)

lemma session_totals:
  "live_bytes sid [4096 \<mapsto> \<lparr>ai_size = 64, ai_timestamp_ns = 200, ai_stack_id = 5\<rparr>] =
     (if sid = 5 then 64 else 0)"
  "live_count sid [4096 \<mapsto> \<lparr>ai_size = 64, ai_timestamp_ns = 200, ai_stack_id = 5\<rparr>] =
     (if sid = 5 then 1 else 0)"
  by (simp_all add: live_bytes_def live_count_def map_sum_def stack_key_def)

lemma only_stack:
  assumes "top_ranked 3 m sids" and "\<And>sid. live_bytes sid m = (if sid = x then b else 0)" and "0 < b"
  shows "sids = [x]"
proof -
  have "{sid. 0 < live_bytes sid m} = {x}" using assms(2,3) by auto
  then have "length sids = 1" "\<forall>sid\<in>set sids. sid = x"
    using assms by (auto simp: ranked_def split: if_splits)
  then show ?thesis by (cases sids) auto
qed

lemma session_digits: "digits 64 = ''64''"
  by code_simp

theorem process_session_exact_witness:
  "report 7 3 session_snapshot =
     ([Out ''=== Reading combined allocs map entries ==='',
       Out ''[12:00:00] Top 1 stacks with outstanding allocations:'',
       Out ''64 Bytes in 1 allocations from stack'', Log_no_trace 5 Lookup_failed,
       Out ''===========================''], None)"
proof -
  let ?m = "[4096 \<mapsto> \<lparr>ai_size = 64, ai_timestamp_ns = 200, ai_stack_id = 5\<rparr>]"
  have pid: "fl_pid session_flags = 7" by (simp add: session_flags_def)
  obtain cfg links where probe:
    "newProbe session_world session_flags (stackFlag (fl_pid session_flags)) = New_probe cfg links"
    using session_probe by blast
  note p = newProbe_result [OF probe]
  have same: "\<forall>(I, J, f)\<in>set session_calls. current_pid J = current_pid I"
    by (simp add: session_calls_def call_def current_pid_def)
  have calls: "filter (probed (fl_pid session_flags)) session_calls = [(call 0 5, call 4096 5, Malloc 64)]"
    by (simp add: pid session_probed)
  have "filter (fires (attached_links links) (fl_pid session_flags)) (concat (map call_events session_calls))
      = [(call 0 5, Malloc_enter 64), (call 4096 5, Malloc_exit)]"
    using fired_calls [OF _ same, of 7] by (simp add: p pid session_probed word_sless_alt)
  then have entries: "entries_of (contents_of slot_kernel (run_events slot_kernel cfg no_btf
      (filter (fires (attached_links links) (fl_pid session_flags))
        (concat (map call_events session_calls))) slot_init)) (sn_combined session_snapshot)"
    using session_combined p
    by (simp add: entries_of_def exI [of _ "[(5, combined_of_info 64 1)]"] session_snapshot_def)
  have "0 <s fl_pid session_flags" by (simp add: pid word_sless_alt)
  moreover have "card (call_stacks (config_of session_flags) [(call 0 5, call 4096 5, Malloc 64)])
      \<le> COMBINED_ALLOCS_MAX_ENTRIES" by (simp add: session_live(3) COMBINED_ALLOCS_MAX_ENTRIES_def)
  moreover have "\<forall>sid. live_bytes sid ?m < 2 ^ 40 \<and> live_count sid ?m < 2 ^ 24"
    by (simp add: session_totals)
  ultimately obtain sids where sids: "top_ranked 3 ?m sids"
    "report (fl_pid session_flags) 3 session_snapshot =
      (leak_report (fl_pid session_flags) session_snapshot ?m sids, None)"
    using process_session_exact [OF probe _ slot_kernel_ok slot_init_valid slot_init_contents same
        calls [symmetric] session_live(1) _ session_live(2) [symmetric] _ entries, of 3]
    by auto
  have "sids = [5]" by (rule only_stack [OF sids(1) session_totals(1)]) simp
  then show ?thesis
    using sids(2)
    by (simp add: pid totals_report_def total_lines_def frame_lines_def session_totals session_digits
        demo_digits word_sless_alt getUserspaceStackTrace_def session_snapshot_def demo_snapshot_def)
qed

text \<open>C8: The command started without a process, on an empty tracker: a report is exact for the kmalloc
  and kfree events of the kernel, with the filters of the flags, whatever other events it has: of
  the ten tracepoint programs only these two are attached. The conditions: the number of stacks to
  show is positive, the events come one after another, a new block is at an address that is free
  by these events, fewer than a million blocks are outstanding, there are at most 10240 stacks, the
  totals of each fit the bit-fields, and the round reads the whole map at one moment after the
  events.\<close>

theorem kernel_session_exact:
  assumes "newProbe w fl (stackFlag (fl_pid fl)) = New_probe cfg links" and "fl_pid fl = 0"
    and "memleak_kernel K" and "maps_valid K s" and "contents_of K s = no_contents"
    and "events = filter (\<lambda>(I, ctx, M, e). probed_event e) ds"
    and "followed (config_of fl) events Map.empty"
    and "card (stacks (config_of fl) events) \<le> COMBINED_ALLOCS_MAX_ENTRIES"
    and "m = live (config_of fl) events Map.empty"
    and "\<forall>sid. live_bytes sid m < 2 ^ 40 \<and> live_count sid m < 2 ^ 24"
    and "entries_of (contents_of K (fold (deliver K cfg junk)
           (filter (\<lambda>(I, ctx, M, e). fires (attached_links links) 0 (I, event_program e ctx)) ds) s))
           (sn_combined sn)"
    and "0 < n"
  shows "\<exists>sids. top_ranked n m sids \<and> report 0 n sn = (leak_report 0 sn m sids, None)"
proof -
  have probe: "cfg = config_of fl" "attached_links links = programs_of 0"
    using newProbe_result [OF assms(1)] assms(2) by simp_all
  have "agrees (stacks cfg events) m (contents_of K (fold (deliver K cfg junk) events s))"
    using kernel_trace_agrees [OF assms(3-5), of cfg events] assms(7-9) probe(1) by simp
  then show ?thesis
    using agreeing_report [OF _ stacks_extended(2) assms(10) _ assms(12)] assms(6,11)
    by (simp add: probe(2) fired_deliveries)
qed

text \<open>A kmalloc of 100 bytes that gets 128, and two pages.\<close>

definition session_events :: "delivery list" where
  "session_events =
     [(call 0 5, 64, (\<lambda>_. 0), Kmalloc_event 1 4096 100 128 3264 0),
      (call 0 5, 4096, (\<lambda>_. 255), Mm_page_alloc_event 77 1 3264 0)]"

abbreviation kmalloc_only :: "delivery list" where
  "kmalloc_only \<equiv> [(call 0 5, 64, (\<lambda>_. 0), Kmalloc_event 1 4096 100 128 3264 0)]"

lemma kernel_config: "config_of default_flags = default_config\<lparr>sample_rate := 1\<rparr>"
  by (simp add: config_of_def default_flags_def default_config_def stackFlag_def)

lemma kernel_live:
  "followed (config_of default_flags) kmalloc_only Map.empty"
  "live (config_of default_flags) kmalloc_only Map.empty =
     [4096 \<mapsto> \<lparr>ai_size = 128, ai_timestamp_ns = 200, ai_stack_id = 5\<rparr>]"
  "stacks (config_of default_flags) kmalloc_only = {5}"
  by (simp_all add: kernel_config default_config_def alloc_admitted_def exit_info_def unless_stale_def
      stacks_def stack_of_def stack_key_def ALLOCS_MAX_ENTRIES_def)

lemma kernel_totals:
  "live_bytes sid [4096 \<mapsto> \<lparr>ai_size = 128, ai_timestamp_ns = 200, ai_stack_id = 5\<rparr>] =
     (if sid = 5 then 128 else 0)"
  "live_count sid [4096 \<mapsto> \<lparr>ai_size = 128, ai_timestamp_ns = 200, ai_stack_id = 5\<rparr>] =
     (if sid = 5 then 1 else 0)"
  by (simp_all add: live_bytes_def live_count_def map_sum_def stack_key_def)

lemma kernel_combined:
  "c_combined (contents_of slot_kernel
     (fold (deliver slot_kernel (config_of default_flags) 0) kmalloc_only slot_init)) =
   [5 \<mapsto> combined_of_info 128 1]"
proof -
  have "contents_of slot_kernel
      (fold (deliver slot_kernel (config_of default_flags) 0) kmalloc_only slot_init) =
      fold (spec_deliver (config_of default_flags)) kmalloc_only no_contents"
    using slotk.deliveries_contents [of slot_init _ 0 kmalloc_only] by simp
  then show ?thesis
    by (simp add: spec_deliver_def run_spec_simps kernel_config default_config_def bounded_upd_def
        capacity_defs spec_record_def spec_credit_def stack_key_def stack_stats_def no_contents_def)
qed

definition kernel_snapshot :: snapshot where
  "kernel_snapshot = (demo_snapshot [5 \<mapsto> stack_value [3]])
     \<lparr>sn_combined := [(5, combined_bytes (combined_of_info 128 1))]\<rparr>"

lemma kernel_frames: "frame_lines 0 kernel_snapshot 5 = [Out ''    0x3 start+0x2'']"
proof -
  have "kernel_resolver demo_system = Some (KernelResolve (\<lambda>_ _. None) [(1, ''start'')] '''')"
    using demo_resolver by (simp add: resolver_of_def)
  then show ?thesis
    by (simp add: frame_lines_def getKernelspaceStackTrace_def kernel_snapshot_def
        demo_snapshot_def stack_frames_value demo_frames MAX_STACK_DEPTH_def)
qed

lemma kernel_digits: "digits 128 = ''128''"
  by code_simp

theorem kernel_session_exact_witness:
  "report 0 3 kernel_snapshot =
     ([Out ''=== Reading combined allocs map entries ==='',
       Out ''[12:00:00] Top 1 stacks with outstanding allocations:'',
       Out ''128 Bytes in 1 allocations from stack'', Out ''    0x3 start+0x2'',
       Out ''===========================''], None)"
proof -
  let ?m = "[4096 \<mapsto> \<lparr>ai_size = 128, ai_timestamp_ns = 200, ai_stack_id = 5\<rparr>]"
  have pid: "fl_pid default_flags = 0" by (simp add: default_flags_def)
  obtain cfg links where probe:
    "newProbe willing default_flags (stackFlag (fl_pid default_flags)) = New_probe cfg links"
    using willing_probe by (auto simp: pid stackFlag_def)
  note p = newProbe_result [OF probe]
  have events: "filter (\<lambda>(I, ctx, M, e). probed_event e) session_events = kmalloc_only"
    by (simp add: session_events_def)
  then have "entries_of (contents_of slot_kernel (fold (deliver slot_kernel cfg 0)
      (filter (\<lambda>(I, ctx, M, e). fires (attached_links links) 0 (I, event_program e ctx)) session_events)
      slot_init)) (sn_combined kernel_snapshot)"
    using kernel_combined p fired_deliveries [of session_events]
    by (simp add: pid entries_of_def exI [of _ "[(5, combined_of_info 128 1)]"] kernel_snapshot_def)
  note entries = this
  have "card (stacks (config_of default_flags) kmalloc_only) \<le> COMBINED_ALLOCS_MAX_ENTRIES"
    by (simp add: kernel_live(3) COMBINED_ALLOCS_MAX_ENTRIES_def)
  moreover have "\<forall>sid. live_bytes sid ?m < 2 ^ 40 \<and> live_count sid ?m < 2 ^ 24"
    by (simp add: kernel_totals)
  ultimately obtain sids where sids: "top_ranked 3 ?m sids"
    "report 0 3 kernel_snapshot = (leak_report 0 kernel_snapshot ?m sids, None)"
    using kernel_session_exact [OF probe pid slot_kernel_ok slot_init_valid slot_init_contents
        events [symmetric] kernel_live(1) _ kernel_live(2) [symmetric] _ entries, of 3]
    by auto
  have "sids = [5]" by (rule only_stack [OF sids(1) kernel_totals(1)]) simp
  then show ?thesis
    using sids(2)
    by (simp add: totals_report_def total_lines_def kernel_frames kernel_totals kernel_digits demo_digits)
      (simp add: kernel_snapshot_def demo_snapshot_def)
qed

end
