(* ===== verification/LiveSession.thy ===== *)
theory LiveSession
  imports Session "HOL-Library.Sublist"
begin

text \<open>
  The command and the traced processes together: calls are made, and the probes at their entries and
  exits run the programs attached at that time, while the two goroutines of the command take their
  steps; a round of the monitor reads the entries of the statistics map one by one, while programs
  go on running. Whatever the order, what the command prints for a stack is a total that the stack
  really had, and a round during which no program ran misses no stack.
\<close>

subsection \<open>The system\<close>

text \<open>The command and the tracker; for the statements, the programs that have run so far, the tracker
  before each of them, the number of programs that had run when the monitor last came to the start
  of its loop, and for each round that number, the number at its end, and what it read. One step is
  one program, not one call: there are steps between the entry of a call and its exit.\<close>

type_synonym round = "nat \<times> nat \<times> snapshot"

record ('ms, 'ma, 'mc, 'mp) system =
  sy_run :: run_state
  sy_tracker :: "('ms, 'ma, 'mc, 'mp) tracker"
  sy_events :: "event list"
  sy_past :: "('ms, 'ma, 'mc, 'mp) tracker list"
  sy_since :: nat
  sy_rounds :: "round list"

datatype occurrence = Probe event | Happens happening

definition has_ended :: "run_state \<Rightarrow> bool" where
  "has_ended s \<longleftrightarrow> (case rs_main s of Exit c \<Rightarrow> True | _ \<Rightarrow> False)"

text \<open>A round whose reading ends now, of a process that was found alive.\<close>

definition new_rounds :: "happening \<Rightarrow> ('ms, 'ma, 'mc, 'mp) system \<Rightarrow> round list" where
  "new_rounds h S =
     (case h of
        Monitor_runs isProcessAlive sn \<Rightarrow>
          if isProcessAlive \<and> rs_monitor (sy_run S) = Checking \<and> \<not> has_ended (sy_run S)
          then [(sy_since S, length (sy_events S), sn)] else []
      | _ \<Rightarrow> [])"

text \<open>The monitor comes back to the start of its loop.\<close>

definition starts_over :: "run_state \<Rightarrow> run_state \<Rightarrow> bool" where
  "starts_over s s' \<longleftrightarrow> rs_monitor s \<noteq> Checking \<and> rs_monitor s' = Checking"

text \<open>A function is entered or left, in any process: if a program is attached there, it runs.\<close>

definition system_step ::
    "('ms, 'ma, 'mc, 'mp) kernel \<Rightarrow> btf \<Rightarrow> config \<Rightarrow> flags \<Rightarrow> (string \<Rightarrow> bool) \<Rightarrow> occurrence \<Rightarrow>
     ('ms, 'ma, 'mc, 'mp) system \<Rightarrow> ('ms, 'ma, 'mc, 'mp) system" where
  "system_step K B cfg fl fails oc S =
     (case oc of
        Probe e \<Rightarrow>
          if fires (attached_links (rs_links (sy_run S))) (fl_pid fl) e
          then S\<lparr>sy_tracker := run_events K cfg B [e] (sy_tracker S),
                 sy_events := sy_events S @ [e], sy_past := sy_past S @ [sy_tracker S]\<rparr>
          else S
      | Happens h \<Rightarrow>
          (let s = command_step (fl_pid fl) (sint (fl_n_top_stacks fl)) fails h (sy_run S)
           in S\<lparr>sy_run := s,
                sy_since := (if starts_over (sy_run S) s then length (sy_events S) else sy_since S),
                sy_rounds := sy_rounds S @ new_rounds h S\<rparr>))"

definition system_started ::
    "bool \<Rightarrow> string option list \<Rightarrow> ('ms, 'ma, 'mc, 'mp) tracker \<Rightarrow> ('ms, 'ma, 'mc, 'mp) system" where
  "system_started signalled links s =
     \<lparr>sy_run = started signalled links, sy_tracker = s, sy_events = [], sy_past = [],
      sy_since = 0, sy_rounds = []\<rparr>"

text \<open>What the statistics map holds between the start of the loop and now, after each program. A round
  reads entries of these as the iterator promises.\<close>

definition moments ::
    "('ms, 'ma, 'mc, 'mp) kernel \<Rightarrow> ('ms, 'ma, 'mc, 'mp) system \<Rightarrow> (u64 \<rightharpoonup> combined_alloc_info) list" where
  "moments K S =
     map (\<lambda>t. c_combined (contents_of K t)) (drop (sy_since S) (sy_past S @ [sy_tracker S]))"

definition reads_maps ::
    "('ms, 'ma, 'mc, 'mp) kernel \<Rightarrow> occurrence \<Rightarrow> ('ms, 'ma, 'mc, 'mp) system \<Rightarrow> bool" where
  "reads_maps K oc S \<longleftrightarrow>
     (\<forall>alive sn. oc = Happens (Monitor_runs alive sn) \<and> rs_monitor (sy_run S) = Checking \<longrightarrow>
        (\<exists>es. sn_combined sn = map (\<lambda>(k, ci). (k, combined_bytes ci)) es \<and>
           (undisturbed (moments K S) \<longrightarrow> walk_reads (sn_iter_error sn) (moments K S) es)))"

inductive system_reachable ::
    "('ms, 'ma, 'mc, 'mp) kernel \<Rightarrow> btf \<Rightarrow> config \<Rightarrow> flags \<Rightarrow> (string \<Rightarrow> bool) \<Rightarrow>
     ('ms, 'ma, 'mc, 'mp) system \<Rightarrow> ('ms, 'ma, 'mc, 'mp) system \<Rightarrow> bool"
  for K B cfg fl fails S0 where
  system_start: "system_reachable K B cfg fl fails S0 S0"
| system_next: "system_reachable K B cfg fl fails S0 S \<Longrightarrow> reads_maps K oc S \<Longrightarrow>
    system_reachable K B cfg fl fails S0 (system_step K B cfg fl fails oc S)"

subsection \<open>What the tracker can follow\<close>

text \<open>The blocks outstanding after the first \<open>k\<close> of the programs that some calls run: a call is one or
  two programs, and a call under way has released its block, but not yet allocated.\<close>

fun blocks_at :: "config \<Rightarrow> traced_call list \<Rightarrow> nat \<Rightarrow> blocks \<Rightarrow> blocks" where
  "blocks_at cfg [] k m = m"
| "blocks_at cfg ((I, J, f) # xs) k m =
     (if length (call_events (I, J, f)) \<le> k
      then blocks_at cfg xs (k - length (call_events (I, J, f))) (call_step cfg (I, J, f) m)
      else if k = 0 then m else without (released J f) m)"

text \<open>The programs so far are those of calls made one after another, of which the last may be under
  way; the addresses and the tables allow to follow these calls, and the totals of a stack never
  leave their bit-fields.\<close>

definition trackable :: "flags \<Rightarrow> traced_call list \<Rightarrow> event list \<Rightarrow> bool" where
  "trackable fl calls es \<longleftrightarrow>
     prefix es (concat (map call_events calls)) \<and>
     calls_followed (config_of fl) calls Map.empty \<and>
     card (call_stacks (config_of fl) calls) \<le> COMBINED_ALLOCS_MAX_ENTRIES \<and>
     (\<forall>k sid. live_bytes sid (blocks_at (config_of fl) calls k Map.empty) < 2 ^ 40 \<and>
              live_count sid (blocks_at (config_of fl) calls k Map.empty) < 2 ^ 24)"

lemma trackable_prefix: "trackable fl calls (es @ [e]) \<Longrightarrow> trackable fl calls es"
  by (auto simp: trackable_def dest: append_prefixD)

text \<open>The lines of a round are exact if every stack that was read has its totals after a number of
  programs that had run by some moment of the round, and the listed stacks are those with the
  largest of these totals. If no program ran during the round and the iterator reported no error,
  all stacks were read.\<close>

definition exact_round :: "flags \<Rightarrow> traced_call list \<Rightarrow> round \<Rightarrow> out_line list \<Rightarrow> bool" where
  "exact_round fl calls r ls \<longleftrightarrow>
     (case r of (since, now, sn) \<Rightarrow>
        \<exists>at R sids.
          (\<forall>sid. since \<le> at sid \<and> at sid \<le> now) \<and>
          (since = now \<and> \<not> sn_iter_error sn \<longrightarrow> R = UNIV) \<and>
          (let blocks = (\<lambda>sid. blocks_at (config_of fl) calls (at sid) Map.empty);
               total = within R (\<lambda>sid. live_bytes sid (blocks sid));
               number = within R (\<lambda>sid. live_count sid (blocks sid))
           in ranked (sint (fl_n_top_stacks fl)) total sids \<and>
              ls = totals_report (fl_pid fl) sn total number sids))"

text \<open>What the monitor prints when it leaves.\<close>

fun exit_notice :: "i64 \<Rightarrow> monitor \<Rightarrow> out_line list" where
  "exit_notice pid (Leaving ls) = [Log_exited pid]"
| "exit_notice pid Finished = [Log_exited pid]"
| "exit_notice pid m = []"

subsection \<open>The tracker between the programs of a call\<close>

text \<open>Between entry and exit only a request is noted besides.\<close>

lemma spec_events_append: "spec_events cfg B (xs @ ys) c = spec_events cfg B ys (spec_events cfg B xs c)"
  by (simp add: spec_events_def)

lemma accounted_requests: "accounted (c\<lparr>c_sizes := m\<rparr>) = accounted c"
  by (simp add: accounted_def drift_def expected_stats_def stack_stats_def covered_def)

lemma agrees_memptrs:
  "agrees T m (c\<lparr>c_memptrs := p, c_sizes := q\<rparr>) = agrees T m (c\<lparr>c_sizes := q\<rparr>)"
  by (simp add: agrees_def accounted_def drift_def expected_stats_def stack_stats_def covered_def)

lemma agrees_entered:
  assumes "agrees T m c" and "understood J f" and "k < length (call_events (I, J, f))"
  shows "agrees T (if k = 0 then m else without (released J f) m)
    ((spec_events cfg B (take k (call_events (I, J, f))) c)\<lparr>c_sizes := Map.empty\<rparr>)"
proof (cases "k = 0")
  case True
  then show ?thesis using assms(1) by (simp add: agrees_def spec_events_def accounted_requests)
next
  case False
  have drop: "agrees T n d \<Longrightarrow> agrees T n (d\<lparr>c_sizes := Map.empty\<rparr>)" for n d
    by (simp add: agrees_def accounted_requests)
  have enter: "(spec_enter cfg I n d)\<lparr>c_sizes := Map.empty\<rparr> = d\<lparr>c_sizes := Map.empty\<rparr>" for n d
    by (simp add: spec_enter_def)
  have "length (call_events (I, J, f)) \<le> 2" by (cases f) simp_all
  with False assms(3) have k: "k = 1" "length (call_events (I, J, f)) = 2" by simp_all
  then show ?thesis
    using assms(1,2) drop [OF assms(1)] drop [OF agrees_free [OF assms(1)]]
    by (cases f)
      (auto simp: spec_run enter without_def agrees_memptrs spec_save_memptr_def split: if_splits)
qed

lemma agrees_moment:
  assumes "finite T" and "card T \<le> COMBINED_ALLOCS_MAX_ENTRIES"
  shows "agrees T m c \<Longrightarrow> c_memptrs c = Map.empty \<Longrightarrow> call_stacks cfg xs \<subseteq> T \<Longrightarrow>
    calls_followed cfg xs m \<Longrightarrow>
    agrees T (blocks_at cfg xs k m)
      ((spec_events cfg B (take k (concat (map call_events xs))) c)\<lparr>c_sizes := Map.empty\<rparr>)"
proof (induction xs arbitrary: m c k)
  case Nil
  then show ?case by (simp add: agrees_def spec_events_def accounted_requests)
next
  case (Cons x xs)
  obtain I J f where x: "x = (I, J, f)" by (metis prod_cases3)
  have follow: "call_followed cfg (I, J, f) m" using Cons.prems(4) by (simp add: x)
  then have ok: "understood J f" "current_pid64 J = current_pid64 I" by (simp_all add: call_followed_def)
  show ?case
  proof (cases "length (call_events x) \<le> k")
    case True
    have "stack_of cfg J \<in> T" using Cons.prems(3) by (simp add: x call_stacks_def)
    with agrees_call [OF Cons.prems(1) assms _ follow]
    have "agrees T (call_step cfg x m) (spec_call cfg x c)" by (simp add: x)
    moreover have "spec_events cfg B (call_events x) c = spec_call cfg x c"
      using call_contents [OF ok Cons.prems(2)] by (simp add: x)
    ultimately show ?thesis
      using Cons.IH [of "call_step cfg x m" "spec_call cfg x c" "k - length (call_events x)"] Cons.prems True
      by (simp add: x call_stacks_def spec_call_memptrs spec_events_append)
  next
    case False
    then show ?thesis using agrees_entered [OF Cons.prems(1) ok(1), of k I cfg B] by (simp add: x)
  qed
qed

subsection \<open>A round during which programs run\<close>

text \<open>Nothing is ever deleted from the statistics map.\<close>

lemma exit_keeps: "dom (c_combined c) \<subseteq> dom (c_combined (spec_exit cfg I a c))"
  by (auto simp: spec_exit_def spec_record_def spec_credit_def bounded_upd_def Let_def split: option.split)

lemma action_keeps: "dom (c_combined c) \<subseteq> dom (c_combined (spec_action cfg I a c))"
proof (cases a)
  case (Settle p)
  then show ?thesis using exit_keeps by simp
next
  case Settle_memptr
  have "dom (c_combined c) \<subseteq> dom (c_combined (spec_exit cfg I p (c\<lparr>c_memptrs := m\<rparr>)))" for p m
    using exit_keeps [of "c\<lparr>c_memptrs := m\<rparr>" cfg I p] by simp
  then show ?thesis
    using Settle_memptr by (simp add: spec_memptr_exit_def Let_def split: option.split)
qed (auto simp: spec_enter_def spec_free_def spec_debit_def spec_save_memptr_def split: option.splits)

lemma events_keep: "dom (c_combined c) \<subseteq> dom (c_combined (spec_events cfg B es c))"
proof -
  have actions: "dom (c_combined c) \<subseteq> dom (c_combined (fold (spec_action cfg I) as c))" for c I as
    by (induction as arbitrary: c) (simp_all, use action_keeps in blast)
  show ?thesis
    unfolding spec_events_def
    by (induction es arbitrary: c)
      (simp_all add: spec_step_def spec_program_def, use actions in blast)
qed

lemma tracker_agrees:
  assumes "memleak_kernel K" and "maps_valid K s" and "contents_of K s = no_contents"
    and "trackable fl calls es"
  shows "agrees (call_stacks (config_of fl) calls) (blocks_at (config_of fl) calls i Map.empty)
    ((contents_of K (run_events K (config_of fl) B (take i (concat (map call_events calls))) s))
       \<lparr>c_sizes := Map.empty\<rparr>)"
proof -
  have "finite (call_stacks (config_of fl) calls)" by (simp add: call_stacks_def)
  moreover have "c_memptrs no_contents = Map.empty" by (simp add: no_contents_def)
  ultimately show ?thesis
    using agrees_moment [OF _ _ agrees_empty] assms(4)
    by (simp add: trackable_def memleak_kernel.run_contents [OF assms(1,2)] assms(3))
qed

lemma events_grow:
  assumes "memleak_kernel K" and "maps_valid K s"
  shows "dom (c_combined (contents_of K (run_events K cfg B xs s))) \<subseteq>
    dom (c_combined (contents_of K (run_events K cfg B (xs @ ys) s)))"
  using events_keep by (simp add: memleak_kernel.run_contents [OF assms] spec_events_append)

lemma take_prefix:
  assumes "prefix xs ys" and "i \<le> length xs"
  shows "take i xs = take i ys"
  using assms by (auto simp: prefix_def)

lemma changing_round:
  assumes "memleak_kernel K" and "maps_valid K s" and "contents_of K s = no_contents"
    and "0 < sint (fl_n_top_stacks fl)" and "trackable fl calls es"
    and "cs = map (\<lambda>i. c_combined (contents_of K (run_events K (config_of fl) B (take i es) s)))
      [since..<Suc (length es)]"
    and "since \<le> length es" and "undisturbed cs \<longrightarrow> walk_reads (sn_iter_error sn) cs reads"
    and "sn_combined sn = map (\<lambda>(k, ci). (k, combined_bytes ci)) reads"
  shows "\<exists>ls. exact_round fl calls (since, length es, sn) ls \<and>
    report (fl_pid fl) (sint (fl_n_top_stacks fl)) sn = (ls, None)"
proof -
  let ?T = "call_stacks (config_of fl) calls" and ?n = "sint (fl_n_top_stacks fl)"
  let ?blocks = "\<lambda>i. blocks_at (config_of fl) calls i Map.empty"
  let ?c = "\<lambda>i. contents_of K (run_events K (config_of fl) B (take i es) s)"
  let ?ms = "map (\<lambda>i. (?blocks i, (?c i)\<lparr>c_sizes := Map.empty\<rparr>)) [since..<Suc (length es)]"
  have "dom (c_combined (?c i)) \<subseteq> dom (c_combined (?c j))" if "i < j" for i j
    using events_grow [OF assms(1,2), of "config_of fl" B "take i es" "take (j - i) (drop i es)"] that
    by (simp flip: take_add)
  then have "undisturbed cs"
    unfolding undisturbed_def assms(6) sorted_wrt_map by (rule sorted_wrt_mono_rel [OF _ sorted_wrt_upt])
  then have walk: "walk_reads (sn_iter_error sn) (map (\<lambda>x. c_combined (snd x)) ?ms) reads"
    using assms(6,8) by (simp add: comp_def del: upt_Suc)
  have "prefix es (concat (map call_events calls))" using assms(5) by (simp add: trackable_def)
  note same = take_prefix [OF this]
  have agree: "\<forall>x\<in>set ?ms. agrees ?T (fst x) (snd x)"
    using tracker_agrees [OF assms(1-3,5)] by (auto simp: same simp del: take_all)
  have bounds: "\<forall>x\<in>set ?ms. \<forall>sid. live_bytes sid (fst x) < 2 ^ 40 \<and> live_count sid (fst x) < 2 ^ 24"
    using assms(5) by (auto simp: trackable_def)
  have "?ms \<noteq> []" using assms(7) by simp
  from changing_report [OF agree stacks_extended(1) bounds this walk assms(9,4)] obtain m R sids where
    m: "\<And>k. m k \<in> fst ` set ?ms"
    "\<not> sn_iter_error sn \<and> (\<forall>x\<in>set ?ms. c_combined (snd x) = c_combined (snd (hd ?ms))) \<Longrightarrow> R = UNIV"
    "ranked ?n (within R (\<lambda>sid. live_bytes sid (m sid))) sids"
    "report (fl_pid fl) ?n sn =
       (totals_report (fl_pid fl) sn (within R (\<lambda>sid. live_bytes sid (m sid)))
          (within R (\<lambda>sid. live_count sid (m sid))) sids, None)"
    by blast
  have complete: "R = UNIV" if "since = length es" "\<not> sn_iter_error sn"
    using that m(2) by simp
  have "\<exists>i. since \<le> i \<and> i \<le> length es \<and> m k = ?blocks i" for k
    using m(1) [of k] by (auto simp: less_Suc_eq_le)
  then obtain at where at: "\<And>k. since \<le> at k \<and> at k \<le> length es" "\<And>k. m k = ?blocks (at k)"
    by metis
  show ?thesis
    unfolding exact_round_def Let_def
    using m(3,4) at(1) complete by (auto simp: at(2) intro!: exI [of _ at] exI [of _ R] exI [of _ sids])
qed

subsection \<open>All that is printed\<close>

definition live_exact :: "('ms, 'ma, 'mc, 'mp) kernel \<Rightarrow> btf \<Rightarrow> flags \<Rightarrow> traced_call list \<Rightarrow>
    ('ms, 'ma, 'mc, 'mp) tracker \<Rightarrow> ('ms, 'ma, 'mc, 'mp) system \<Rightarrow> bool" where
  "live_exact K B fl calls s S \<longleftrightarrow>
     sy_past S @ [sy_tracker S] =
       map (\<lambda>i. run_events K (config_of fl) B (take i (sy_events S)) s) [0..<Suc (length (sy_events S))] \<and>
     sy_since S \<le> length (sy_events S) \<and>
     (\<exists>reports. list_all2 (exact_round fl calls) (sy_rounds S) reports \<and>
        rs_out (sy_run S) @ pending (rs_monitor (sy_run S)) =
          concat reports @ exit_notice (fl_pid fl) (rs_monitor (sy_run S)))"

lemma system_closing:
  assumes "system_reachable K B cfg fl fails (system_started signalled links s) S"
  shows "closing_ok (sint (fl_n_top_stacks fl)) fails (attached_links links) (sy_run S)"
  using assms
  by induction
    (auto simp: system_started_def started_closing system_step_def command_closing Let_def
      split: occurrence.split)

lemma closed_grows:
  "rs_closed (command_step pid n fails h s) = [] \<Longrightarrow> rs_closed s = []"
  by (auto simp: command_step_def main_step_def
      split: main_state.splits happening.splits list.splits option.splits if_splits)

text \<open>A step of the monitor that does not start a round, and a step of anything else, moves lines at most.\<close>

lemma quiet_step:
  assumes "rs_monitor s \<noteq> Checking \<or> (\<forall>alive sn. h \<noteq> Monitor_runs alive sn) \<or> has_ended s"
  shows "rs_out (command_step pid n fails h s) @ pending (rs_monitor (command_step pid n fails h s)) =
      rs_out s @ pending (rs_monitor s) \<and>
    exit_notice pid' (rs_monitor (command_step pid n fails h s)) = exit_notice pid' (rs_monitor s)"
  using assms
  by (cases "rs_monitor s")
    (auto simp: command_step_def monitor_step_def has_ended_def
      split: main_state.split happening.split list.split option.split)

lemma quiet_rounds:
  "rs_monitor (sy_run S) \<noteq> Checking \<or> (\<forall>alive sn. h \<noteq> Monitor_runs alive sn) \<or> has_ended (sy_run S) \<Longrightarrow>
     new_rounds h S = []"
  by (auto simp: new_rounds_def split: happening.split)

lemma live_exact_probe:
  assumes "live_exact K B fl calls s S"
  shows "live_exact K B fl calls s (system_step K B (config_of fl) fl fails (Probe e) S)"
proof -
  let ?after = "\<lambda>xs. run_events K (config_of fl) B xs s"
  have past: "sy_past S @ [sy_tracker S] =
      map (\<lambda>i. ?after (take i (sy_events S))) [0..<Suc (length (sy_events S))]"
    using assms by (simp only: live_exact_def)
  then have "sy_tracker S = ?after (sy_events S)" by simp
  then have "run_events K (config_of fl) B [e] (sy_tracker S) = ?after (sy_events S @ [e])"
    by (simp add: run_events_def)
  moreover have "map (\<lambda>i. ?after (take i (sy_events S @ [e]))) [0..<Suc (length (sy_events S))] =
      map (\<lambda>i. ?after (take i (sy_events S))) [0..<Suc (length (sy_events S))]"
    by (rule map_cong) auto
  ultimately show ?thesis
    using assms past by (simp add: live_exact_def system_step_def)
qed

lemma live_exact_happens:
  assumes "live_exact K B fl calls s S"
    and "S' = system_step K B (config_of fl) fl fails (Happens h) S"
    and "list_all2 (exact_round fl calls) (sy_rounds S') reports"
    and "rs_out (sy_run S') @ pending (rs_monitor (sy_run S')) =
      concat reports @ exit_notice (fl_pid fl) (rs_monitor (sy_run S'))"
  shows "live_exact K B fl calls s S'"
  using assms(1,3,4) unfolding live_exact_def
  by (auto simp: assms(2) system_step_def Let_def simp del: upt_Suc)

lemma live_exact_quiet:
  assumes "live_exact K B fl calls s S"
    and "rs_monitor (sy_run S) \<noteq> Checking \<or> (\<forall>alive sn. h \<noteq> Monitor_runs alive sn) \<or> has_ended (sy_run S)"
  shows "live_exact K B fl calls s (system_step K B (config_of fl) fl fails (Happens h) S)"
proof -
  obtain reports where "list_all2 (exact_round fl calls) (sy_rounds S) reports"
    "rs_out (sy_run S) @ pending (rs_monitor (sy_run S)) =
       concat reports @ exit_notice (fl_pid fl) (rs_monitor (sy_run S))"
    using assms(1) by (auto simp: live_exact_def)
  then show ?thesis
    using quiet_step [OF assms(2), of "fl_pid fl" "sint (fl_n_top_stacks fl)" fails "fl_pid fl"]
    by (intro live_exact_happens [OF assms(1) refl, where reports = reports])
      (simp_all add: system_step_def Let_def quiet_rounds [OF assms(2)])
qed

text \<open>The start of the loop: the monitor leaves, or it has read a round.\<close>

lemma live_exact_checking:
  assumes "live_exact K B fl calls s S" and "rs_monitor (sy_run S) = Checking" and "\<not> has_ended (sy_run S)"
    and "0 <s fl_pid fl" and "report (fl_pid fl) (sint (fl_n_top_stacks fl)) sn = (ls, None)"
    and "exact_round fl calls (sy_since S, length (sy_events S), sn) ls"
  shows "live_exact K B fl calls s (system_step K B (config_of fl) fl fails (Happens (Monitor_runs alive sn)) S)"
proof -
  obtain reports where reports: "list_all2 (exact_round fl calls) (sy_rounds S) reports"
    "rs_out (sy_run S) = concat reports"
    using assms(1,2) by (auto simp: live_exact_def)
  have "fl_pid fl \<noteq> 0" using assms(4) by auto
  with assms(2-5) reports(2) have
    "rs_out s' @ pending (rs_monitor s') =
       concat (reports @ (if alive then [ls] else [])) @ exit_notice (fl_pid fl) (rs_monitor s')"
    if "s' = command_step (fl_pid fl) (sint (fl_n_top_stacks fl)) fails (Monitor_runs alive sn) (sy_run S)" for s'
    by (auto simp: that command_step_def monitor_step_def has_ended_def Let_def split: main_state.splits)
  moreover have "list_all2 (exact_round fl calls) (sy_rounds S @ new_rounds (Monitor_runs alive sn) S)
      (reports @ (if alive then [ls] else []))"
    using reports(1) assms(2,3,6) by (simp add: new_rounds_def list_all2_appendI)
  ultimately obtain out where "list_all2 (exact_round fl calls) (sy_rounds S @ new_rounds (Monitor_runs alive sn) S) out"
    "\<And>s'. s' = command_step (fl_pid fl) (sint (fl_n_top_stacks fl)) fails (Monitor_runs alive sn) (sy_run S) \<Longrightarrow>
       rs_out s' @ pending (rs_monitor s') = concat out @ exit_notice (fl_pid fl) (rs_monitor s')"
    by blast
  then show ?thesis
    by (intro live_exact_happens [OF assms(1) refl, where reports = out]) (simp_all add: system_step_def Let_def)
qed

lemma reachable_live_exact:
  assumes "newProbe w fl (stackFlag (fl_pid fl)) = New_probe cfg links"
    and "0 <s fl_pid fl" and "0 < sint (fl_n_top_stacks fl)"
    and "memleak_kernel K" and "maps_valid K s" and "contents_of K s = no_contents"
    and "system_reachable K B cfg fl fails (system_started signalled links s) S"
    and "trackable fl calls (sy_events S)"
  shows "live_exact K B fl calls s S"
  using assms(7,8)
proof induction
  case system_start
  show ?case by (simp add: system_started_def started_def live_exact_def run_events_def)
next
  case (system_next S oc)
  have cfg: "cfg = config_of fl" using newProbe_result [OF assms(1)] by simp
  show ?case
  proof (cases oc)
    case (Probe e)
    with system_next have "live_exact K B fl calls s S"
      using trackable_prefix by (auto simp: system_step_def split: if_splits)
    then show ?thesis by (simp add: Probe cfg live_exact_probe)
  next
    case (Happens h)
    with system_next have S: "live_exact K B fl calls s S" "trackable fl calls (sy_events S)"
      by (auto simp: system_step_def Let_def)
    consider (quiet) "rs_monitor (sy_run S) \<noteq> Checking \<or> (\<forall>alive sn. h \<noteq> Monitor_runs alive sn) \<or>
        has_ended (sy_run S)"
      | (round) alive sn where "h = Monitor_runs alive sn" "rs_monitor (sy_run S) = Checking"
        "\<not> has_ended (sy_run S)"
      by blast
    then show ?thesis
    proof cases
      case quiet
      with S(1) show ?thesis by (simp add: Happens cfg live_exact_quiet)
    next
      case round
      have moments: "moments K S = map (\<lambda>i. c_combined (contents_of K
          (run_events K (config_of fl) B (take i (sy_events S)) s))) [sy_since S..<Suc (length (sy_events S))]"
        using S(1) by (simp add: live_exact_def moments_def drop_map drop_upt comp_def del: upt_Suc)
      obtain es where "sn_combined sn = map (\<lambda>(k, ci). (k, combined_bytes ci)) es"
        "undisturbed (moments K S) \<longrightarrow> walk_reads (sn_iter_error sn) (moments K S) es"
        using system_next.hyps(2) Happens round by (auto simp: reads_maps_def)
      with changing_round [OF assms(4-6,3) S(2) moments] S(1)
      obtain ls where "exact_round fl calls (sy_since S, length (sy_events S), sn) ls"
        "report (fl_pid fl) (sint (fl_n_top_stacks fl)) sn = (ls, None)"
        by (auto simp: live_exact_def)
      from live_exact_checking [OF S(1) round(2,3) assms(2) this(2,1)] show ?thesis
        by (simp add: Happens cfg round(1))
    qed
  qed
qed


text \<open>While no link is closed, every entry and exit of malloc, calloc and realloc and every entry of free in
  the process runs its program, and nothing else does.\<close>

lemma open_links_fire:
  assumes "newProbe w fl (stackFlag (fl_pid fl)) = New_probe cfg links" and "0 <s fl_pid fl"
    and "system_reachable K B cfg fl fails (system_started signalled links s) S"
    and "rs_closed (sy_run S) = []"
  shows "sy_events (system_step K B cfg fl fails (Probe e) S) = sy_events S @
    (if current_pid (fst e) = ucast (fl_pid fl) \<and> program_name (snd e) \<in>
       {''malloc_enter'', ''malloc_exit'', ''free_enter'', ''calloc_enter'', ''calloc_exit'',
        ''realloc_enter'', ''realloc_exit''} then [e] else [])"
proof -
  have "attached_links (rs_links (sy_run S)) = programs_of (fl_pid fl)"
    using system_closing [OF assms(3)] assms(4) newProbe_result [OF assms(1)] by (simp add: closing_ok_def)
  then show ?thesis
    using assms(2) by (auto simp: system_step_def fires_def programs_of_def)
qed


text \<open>Process 7 allocates 64 bytes during the first round of the monitor.\<close>

abbreviation live_call :: traced_call where
  "live_call \<equiv> (call 0 5, call 4096 5, Malloc 64)"

abbreviation live_step where
  "live_step \<equiv> system_step slot_kernel no_btf (config_of session_flags) session_flags (\<lambda>_. False)"

definition live_start where
  "live_start = system_started False (links_of 7 (programs_of 7)) slot_init"

definition live_entered where
  "live_entered = live_step (Probe (call 0 5, Malloc_enter 64)) live_start"

definition live_called where
  "live_called = live_step (Probe (call 4096 5, Malloc_exit)) live_entered"

definition live_round where
  "live_round = live_step (Happens (Monitor_runs True session_snapshot)) live_called"

lemma live_pid: "fl_pid session_flags = 7" "0 <s fl_pid session_flags"
  "sint (fl_n_top_stacks session_flags) = 3"
  by (simp_all add: session_flags_def default_flags_def word_sless_alt)

lemma live_probe:
  "newProbe session_world session_flags (stackFlag (fl_pid session_flags)) =
     New_probe (config_of session_flags) (links_of 7 (programs_of 7))"
proof -
  obtain cfg links where "newProbe session_world session_flags (stackFlag (fl_pid session_flags)) =
      New_probe cfg links"
    using session_probe by blast
  moreover from this have "links = links_of 7 (programs_of 7)"
    by (auto simp: newProbe_def live_pid attachPrograms_def attach_each_result programs_of_def
        word_sless_alt split: if_splits option.splits attach_outcome.splits)
  ultimately show ?thesis using newProbe_result by auto
qed

lemma live_fires:
  "fires (attached_links (links_of 7 (programs_of 7))) 7 (call 0 5, Malloc_enter 64)"
  "fires (attached_links (links_of 7 (programs_of 7))) 7 (call 4096 5, Malloc_exit)"
  by (simp_all add: attached_links_of fires_def programs_of_def)
    (simp_all add: current_pid_def call_def word_sless_alt)

lemma live_called_simps:
  "sy_events live_called = [(call 0 5, Malloc_enter 64), (call 4096 5, Malloc_exit)]"
  "sy_rounds live_called = []" "sy_since live_called = 0"
  "sy_past live_called = [slot_init, run_events slot_kernel (config_of session_flags) no_btf
     [(call 0 5, Malloc_enter 64)] slot_init]"
  "sy_run live_called = started False (links_of 7 (programs_of 7))"
  "sy_tracker live_called = run_events slot_kernel (config_of session_flags) no_btf
     [(call 0 5, Malloc_enter 64), (call 4096 5, Malloc_exit)] slot_init"
  by (simp_all add: live_called_def live_entered_def live_start_def system_step_def system_started_def
      started_def live_pid live_fires) (simp add: run_events_def)

lemma live_round_simps:
  "sy_events live_round = [(call 0 5, Malloc_enter 64), (call 4096 5, Malloc_exit)]"
  "sy_rounds live_round = [(0, 2, session_snapshot)]"
  "exit_notice 7 (rs_monitor (sy_run live_round)) = []"
  by (simp_all add: live_round_def system_step_def live_called_simps new_rounds_def has_ended_def
      started_def command_step_def monitor_step_def live_pid word_sless_alt Let_def split: prod.split)

lemma live_reached:
  "system_reachable slot_kernel no_btf (config_of session_flags) session_flags
     (w_close_fails session_world) live_start live_round"
proof -
  have "c_combined (contents_of slot_kernel (run_events slot_kernel (config_of session_flags) no_btf
      [(call 0 5, Malloc_enter 64), (call 4096 5, Malloc_exit)] slot_init)) = [5 \<mapsto> combined_of_info 64 1]"
    by (rule session_combined)
  then have "[5 \<mapsto> combined_of_info 64 1] \<in> set (moments slot_kernel live_called)"
    by (simp add: moments_def live_called_simps)
  then have read: "\<exists>c\<in>set (moments slot_kernel live_called). value_read c 5 (combined_of_info 64 1)"
    by (rule rev_bexI) (simp add: value_read_def)
  have "hd (moments slot_kernel live_called) = Map.empty"
    by (simp only: moments_def live_called_simps append.simps drop_0 list.map list.sel slot_init_contents)
      (simp add: no_contents_def)
  then have "dom (hd (moments slot_kernel live_called)) \<subseteq> fst ` set [(5 :: u64, combined_of_info 64 1)]"
    by simp
  with read have "walk_reads False (moments slot_kernel live_called) [(5, combined_of_info 64 1)]"
    unfolding walk_reads_def by (intro conjI impI; (assumption | simp; fail))
  then have round: "reads_maps slot_kernel (Happens (Monitor_runs True session_snapshot)) live_called"
    unfolding reads_maps_def
    by (auto simp: session_snapshot_def demo_snapshot_def intro: exI [of _ "[(5, combined_of_info 64 1)]"])
  have close: "w_close_fails session_world = (\<lambda>_. False)"
    by (simp add: session_world_def willing_def)
  have "reads_maps slot_kernel (Probe (call 4096 5, Malloc_exit)) live_entered"
    "reads_maps slot_kernel (Probe (call 0 5, Malloc_enter 64)) live_start"
    by (simp_all add: reads_maps_def)
  note steps = system_next [OF system_next [OF system_next [OF system_start this(2)]
      this(1) [unfolded live_entered_def]] round [unfolded live_called_def live_entered_def]]
  show ?thesis
    unfolding close live_round_def live_called_def live_entered_def by (rule steps)
qed


end
