(* ===== verification/Interleaving.thy ===== *)
theory Interleaving
  imports InfoGo
begin

text \<open>
  The same programs at the grain of the helper calls and memory accesses that other CPUs can
  interleave with. A CPU is a program counter with the locals that are live there; a schedule
  is the sequence of CPUs that make the next step on the shared maps. A CPU that runs alone
  does what the operations of \<open>MemleakCore\<close> do. Concurrent updates of the statistics lose
  nothing, whatever the schedule: the insertion that loses the race for a new stack finds the
  winner's entry, and the additions are atomic. The release of a block is not as robust: it
  reads the deleted element, which another CPU may have reused.
\<close>

subsection \<open>A CPU\<close>

type_synonym msgs = "(string \<times> u64 list) list"

text \<open>Each constructor is the next access; \<open>msgs\<close> is what is traced at the end.\<close>

datatype cpu =
    Free_lookup u64 | Free_delete u64 vptr | Free_read u64 vptr
  | Exit_lookup invocation u64 | Exit_load invocation u64 vptr | Exit_delete invocation u64 u64
  | Exit_store invocation u64 alloc_info
  | Add_lookup u64 u64 msgs | Add_insert u64 u64 msgs | Add_relookup u64 u64 msgs
  | Add_fetch vptr u64 msgs
  | Del_lookup u64 u64 msgs | Del_fetch vptr u64 msgs
  | Finish msgs | Halted

definition print_all ::
    "msgs \<Rightarrow> ('ms, 'ma, 'mc, 'mp) tracker \<Rightarrow> ('ms, 'ma, 'mc, 'mp) tracker" where
  "print_all ms s = fold (\<lambda>(fmt, args). bpf_printk fmt args) ms s"

fun cpu_step ::
    "('ms, 'ma, 'mc, 'mp) kernel \<Rightarrow> config \<Rightarrow> cpu \<Rightarrow>
     ('ms, 'ma, 'mc, 'mp) tracker \<Rightarrow> cpu \<times> ('ms, 'ma, 'mc, 'mp) tracker" where
  "cpu_step K cfg (Free_lookup a) s =
     (case lookup_elem (allocs_ops K) (allocs s) a of
        None \<Rightarrow> (Halted, s) | Some p \<Rightarrow> (Free_delete a p, s))"
| "cpu_step K cfg (Free_delete a p) s =
     (Free_read a p, s\<lparr>allocs := snd (delete_elem (allocs_ops K) (allocs s) a)\<rparr>)"
| "cpu_step K cfg (Free_read a p) s =
     (let info = elem_load (allocs_ops K) (allocs s) p
      in (Del_lookup (scast (ai_stack_id info)) (ai_size info)
            (if trace_all cfg
             then [(''free entered, address = %lx, size = %lu'' @ LF, [a, ai_size info])] else []), s))"
| "cpu_step K cfg (Exit_lookup I a) s =
     (case lookup_elem (sizes_ops K) (sizes s) (current_pid I) of
        None \<Rightarrow> (Halted, s) | Some p \<Rightarrow> (Exit_load I a p, s))"
| "cpu_step K cfg (Exit_load I a p) s =
     (Exit_delete I a (elem_load (sizes_ops K) (sizes s) p), s)"
| "cpu_step K cfg (Exit_delete I a n) s =
     (let s' = s\<lparr>sizes := snd (delete_elem (sizes_ops K) (sizes s) (current_pid I))\<rparr>
      in if a \<noteq> 0
         then (Exit_store I a \<lparr>ai_size = n, ai_timestamp_ns = ktime_exit I,
                               ai_stack_id = ucast (get_stackid I (stack_flags cfg))\<rparr>, s')
         else (Finish (if trace_all cfg
                       then [(''alloc exited, size = %lu, result = %lx'' @ LF, [n, a])] else []), s'))"
| "cpu_step K cfg (Exit_store I a info) s =
     (Add_lookup (scast (ai_stack_id info)) (ai_size info)
        (if trace_all cfg
         then [(''alloc exited, size = %lu, result = %lx'' @ LF, [ai_size info, a])] else []),
      s\<lparr>allocs := snd (update_elem (allocs_ops K) (allocs s) a info BPF_ANY)\<rparr>)"
| "cpu_step K cfg (Add_lookup sid n ms) s =
     (case lookup_elem (combined_allocs_ops K) (combined_allocs s) sid of
        Some p \<Rightarrow> (Add_fetch p n ms, s) | None \<Rightarrow> (Add_insert sid n ms, s))"
| "cpu_step K cfg (Add_insert sid n ms) s =
     (let (err, m) = update_elem (combined_allocs_ops K) (combined_allocs s) sid initial_cinfo
                       BPF_NOEXIST;
          s' = s\<lparr>combined_allocs := m\<rparr>
      in if err \<noteq> 0 \<and> err \<noteq> - EEXIST then (Finish ms, s') else (Add_relookup sid n ms, s'))"
| "cpu_step K cfg (Add_relookup sid n ms) s =
     (case lookup_elem (combined_allocs_ops K) (combined_allocs s) sid of
        Some p \<Rightarrow> (Add_fetch p n ms, s) | None \<Rightarrow> (Finish ms, s))"
| "cpu_step K cfg (Add_fetch p n ms) s =
     (let old = elem_load (combined_allocs_ops K) (combined_allocs s) p
      in (Finish ms, s\<lparr>combined_allocs := elem_store (combined_allocs_ops K) (combined_allocs s) p
                          (Combined (bits old + bits (combined_of_info n 1)))\<rparr>))"
| "cpu_step K cfg (Del_lookup sid n ms) s =
     (case lookup_elem (combined_allocs_ops K) (combined_allocs s) sid of
        None \<Rightarrow> (Finish ms, bpf_printk (''failed to lookup combined allocs'' @ LF) [] s)
      | Some p \<Rightarrow> (Del_fetch p n ms, s))"
| "cpu_step K cfg (Del_fetch p n ms) s =
     (let old = elem_load (combined_allocs_ops K) (combined_allocs s) p
      in (Finish ms, s\<lparr>combined_allocs := elem_store (combined_allocs_ops K) (combined_allocs s) p
                          (Combined (bits old - bits (combined_of_info n 1)))\<rparr>))"
| "cpu_step K cfg (Finish ms) s = (Halted, print_all ms s)"
| "cpu_step K cfg Halted s = (Halted, s)"

text \<open>\<open>n\<close> steps of one CPU with nothing in between.\<close>

fun cpu_run ::
    "('ms, 'ma, 'mc, 'mp) kernel \<Rightarrow> config \<Rightarrow> nat \<Rightarrow> cpu \<times> ('ms, 'ma, 'mc, 'mp) tracker \<Rightarrow>
     cpu \<times> ('ms, 'ma, 'mc, 'mp) tracker" where
  "cpu_run K cfg 0 x = x"
| "cpu_run K cfg (Suc n) x = cpu_run K cfg n (cpu_step K cfg (fst x) (snd x))"

lemma cpu_run_halted [simp]: "cpu_run K cfg n (Halted, s) = (Halted, s)"
  by (induction n) simp_all

lemma cpu_run_numeral:
  "cpu_run K cfg (numeral n) x = cpu_run K cfg (pred_numeral n) (cpu_step K cfg (fst x) (snd x))"
  by (simp add: numeral_eq_Suc)

lemma cpu_run_add: "cpu_run K cfg (m + n) x = cpu_run K cfg n (cpu_run K cfg m x)"
  by (induction m arbitrary: x) simp_all

lemma add_alone:
  "cpu_run K cfg 5 (Add_lookup sid n ms, s) = (Halted, print_all ms (update_statistics_add K sid n s))"
  by (auto simp: cpu_run_numeral update_statistics_add_def bpf_map_lookup_or_try_init_def Let_def
      split: option.splits prod.splits)

lemma del_alone:
  "cpu_run K cfg 3 (Del_lookup sid n ms, s) = (Halted, print_all ms (update_statistics_del K sid n s))"
  by (simp add: cpu_run_numeral update_statistics_del_def Let_def split: option.splits)

lemma finish_alone: "cpu_run K cfg 5 (Finish ms, s) = (Halted, print_all ms s)"
  by (simp add: cpu_run_numeral)

lemma free_alone: "cpu_run K cfg 6 (Free_lookup a, s) = (Halted, snd (gen_free_enter K cfg a s))"
proof -
  have "cpu_run K cfg 6 (Free_lookup a, s) = cpu_run K cfg 3 (cpu_run K cfg 3 (Free_lookup a, s))"
    using cpu_run_add [of K cfg 3 3] by simp
  moreover have "cpu_run K cfg 3 (Free_lookup a, s) =
      (case lookup_elem (allocs_ops K) (allocs s) a of
         None \<Rightarrow> (Halted, s)
       | Some p \<Rightarrow> cpu_step K cfg (Free_read a p)
                     (s\<lparr>allocs := snd (delete_elem (allocs_ops K) (allocs s) a)\<rparr>))"
    by (simp add: cpu_run_numeral split: option.split)
  ultimately show ?thesis
    by (simp add: gen_free_enter_def del_alone print_all_def Let_def split: option.split)
qed

lemma exit_alone:
  "cpu_run K cfg 9 (Exit_lookup I a, s) = (Halted, snd (gen_alloc_exit2 K cfg I a s))"
proof -
  have "cpu_run K cfg 9 (Exit_lookup I a, s) = cpu_run K cfg 5 (cpu_run K cfg 4 (Exit_lookup I a, s))"
    using cpu_run_add [of K cfg 4 5] by simp
  moreover have "cpu_run K cfg 4 (Exit_lookup I a, s) =
      (case lookup_elem (sizes_ops K) (sizes s) (current_pid I) of
         None \<Rightarrow> (Halted, s)
       | Some p \<Rightarrow> cpu_run K cfg 2 (Exit_delete I a (elem_load (sizes_ops K) (sizes s) p), s))"
    by (simp add: cpu_run_numeral split: option.split)
  moreover have "cpu_run K cfg 5 (cpu_run K cfg 2 (Exit_delete I 0 n, s)) =
      cpu_run K cfg 5 (Finish (if trace_all cfg
         then [(''alloc exited, size = %lu, result = %lx'' @ LF, [n, 0])] else []),
         s\<lparr>sizes := snd (delete_elem (sizes_ops K) (sizes s) (current_pid I))\<rparr>)" for n
    by (simp add: cpu_run_numeral)
  moreover have "a \<noteq> 0 \<Longrightarrow> cpu_run K cfg 2 (Exit_delete I a n, s) =
      cpu_step K cfg (Exit_store I a \<lparr>ai_size = n, ai_timestamp_ns = ktime_exit I,
          ai_stack_id = ucast (get_stackid I (stack_flags cfg))\<rparr>)
        (s\<lparr>sizes := snd (delete_elem (sizes_ops K) (sizes s) (current_pid I))\<rparr>)" for n
    by (simp add: cpu_run_numeral Let_def)
  ultimately show ?thesis
    by (cases "a = 0")
      (simp_all add: gen_alloc_exit2_def add_alone finish_alone print_all_def Let_def
        split: option.split)
qed

text \<open>A CPU that runs alone halts, within six accesses for a release and nine for an allocation's
  exit, in the state that \<open>gen_free_enter\<close> and \<open>gen_alloc_exit2\<close> compute, traces included.\<close>

theorem alone_is_atomic:
  "cpu_run K cfg 6 (Free_lookup a, s) = (Halted, snd (gen_free_enter K cfg a s)) \<and>
   cpu_run K cfg 9 (Exit_lookup I a, s) = (Halted, snd (gen_alloc_exit2 K cfg I a s))"
  by (simp add: free_alone exit_alone)

subsection \<open>Schedules\<close>

definition interleave_step ::
    "('ms, 'ma, 'mc, 'mp) kernel \<Rightarrow> config \<Rightarrow> nat \<Rightarrow> cpu list \<times> ('ms, 'ma, 'mc, 'mp) tracker \<Rightarrow>
     cpu list \<times> ('ms, 'ma, 'mc, 'mp) tracker" where
  "interleave_step K cfg i x =
     (let (cs, s) = x
      in if i < length cs
         then (let (c', s') = cpu_step K cfg (cs ! i) s in (cs[i := c'], s'))
         else x)"

definition run_schedule ::
    "('ms, 'ma, 'mc, 'mp) kernel \<Rightarrow> config \<Rightarrow> nat list \<Rightarrow>
     cpu list \<times> ('ms, 'ma, 'mc, 'mp) tracker \<Rightarrow> cpu list \<times> ('ms, 'ma, 'mc, 'mp) tracker" where
  "run_schedule K cfg sched x = fold (interleave_step K cfg) sched x"

datatype stat_update = Credit u64 u64 | Debit u64 u64

fun start :: "stat_update \<Rightarrow> cpu" where
  "start (Credit sid n) = Add_lookup sid n []"
| "start (Debit sid n) = Del_lookup sid n []"

fun change :: "u64 \<Rightarrow> stat_update \<Rightarrow> combined_alloc_info" where
  "change sid (Credit k n) = (if k = sid then combined_of_info n 1 else 0)"
| "change sid (Debit k n) = (if k = sid then - combined_of_info n 1 else 0)"

text \<open>What a CPU has still to add to the statistics of a stack, in a given map.\<close>

fun pending ::
    "('mc, u64, combined_alloc_info) map_ops \<Rightarrow> 'mc \<Rightarrow> u64 \<Rightarrow> cpu \<Rightarrow> combined_alloc_info" where
  "pending ops m sid (Add_lookup k n ms) = (if k = sid then combined_of_info n 1 else 0)"
| "pending ops m sid (Add_insert k n ms) = (if k = sid then combined_of_info n 1 else 0)"
| "pending ops m sid (Add_relookup k n ms) = (if k = sid then combined_of_info n 1 else 0)"
| "pending ops m sid (Add_fetch p n ms) =
     (if lookup_elem ops m sid = Some p then combined_of_info n 1 else 0)"
| "pending ops m sid (Del_lookup k n ms) = (if k = sid then - combined_of_info n 1 else 0)"
| "pending ops m sid (Del_fetch p n ms) =
     (if lookup_elem ops m sid = Some p then - combined_of_info n 1 else 0)"
| "pending ops m sid c = 0"

text \<open>What holds of a CPU in the middle of an update: its stack is stored, its address is one.\<close>

fun cpu_ok :: "('mc, u64, combined_alloc_info) map_ops \<Rightarrow> 'mc \<Rightarrow> cpu \<Rightarrow> bool" where
  "cpu_ok ops m (Add_lookup k n ms) = True"
| "cpu_ok ops m (Add_insert k n ms) = True"
| "cpu_ok ops m (Add_relookup k n ms) = (lookup_elem ops m k \<noteq> None)"
| "cpu_ok ops m (Add_fetch p n ms) = (\<exists>k. lookup_elem ops m k = Some p)"
| "cpu_ok ops m (Del_lookup k n ms) = (lookup_elem ops m k \<noteq> None)"
| "cpu_ok ops m (Del_fetch p n ms) = (\<exists>k. lookup_elem ops m k = Some p)"
| "cpu_ok ops m (Finish ms) = True"
| "cpu_ok ops m Halted = True"
| "cpu_ok ops m c = False"

fun may_insert :: "cpu \<Rightarrow> nat" where
  "may_insert (Add_lookup k n ms) = 1"
| "may_insert (Add_insert k n ms) = 1"
| "may_insert c = 0"

fun steps_left :: "cpu \<Rightarrow> nat" where
  "steps_left (Add_lookup k n ms) = 5"
| "steps_left (Add_insert k n ms) = 4"
| "steps_left (Add_relookup k n ms) = 3"
| "steps_left (Add_fetch p n ms) = 2"
| "steps_left (Del_lookup k n ms) = 3"
| "steps_left (Del_fetch p n ms) = 2"
| "steps_left (Finish ms) = 1"
| "steps_left c = 0"

lemma print_all_frame [simp]:
  "combined_allocs (print_all ms s) = combined_allocs s" "allocs (print_all ms s) = allocs s"
  "sizes (print_all ms s) = sizes s" "memptrs (print_all ms s) = memptrs s"
  unfolding print_all_def by (induction ms arbitrary: s) auto

text \<open>The statistics of a stack in the map alone.\<close>

definition entry_stats ::
    "('mc, u64, combined_alloc_info) map_ops \<Rightarrow> 'mc \<Rightarrow> u64 \<Rightarrow> combined_alloc_info" where
  "entry_stats ops m sid = (case map_find ops m sid of None \<Rightarrow> 0 | Some c \<Rightarrow> c)"

lemma stack_stats_entry:
  "stack_stats (contents_of K s) sid = entry_stats (combined_allocs_ops K) (combined_allocs s) sid"
  by (simp add: stack_stats_def entry_stats_def contents_of_simps)

text \<open>
  One step: the map stays valid, no address is lost, the CPU stays in order, what it moves into
  the statistics is no longer pending, and room is used only by a CPU that had a claim to it.
\<close>

definition step_ok ::
    "('mc, u64, combined_alloc_info) map_ops \<Rightarrow> nat \<Rightarrow> 'mc \<Rightarrow> cpu \<Rightarrow> 'mc \<Rightarrow> cpu \<Rightarrow> bool" where
  "step_ok ops cap m c m' c' \<longleftrightarrow> map_valid ops m' \<and> cpu_ok ops m' c' \<and>
     (\<forall>k p. lookup_elem ops m k = Some p \<longrightarrow> lookup_elem ops m' k = Some p) \<and>
     (\<forall>sid. entry_stats ops m' sid + pending ops m' sid c' = entry_stats ops m sid + pending ops m sid c) \<and>
     card (dom (map_find ops m')) + may_insert c' \<le> card (dom (map_find ops m)) + may_insert c \<and>
     steps_left c' \<le> steps_left c - 1"

context bpf_stable_map
begin

lemma lookup_found: "lookup_elem ops m k \<noteq> None \<longleftrightarrow> map_find ops m k \<noteq> None"
  by (simp add: map_find_def)

lemma same_element_iff:
  "map_valid ops m \<Longrightarrow> lookup_elem ops m k = Some p \<Longrightarrow> lookup_elem ops m k' = Some p \<longleftrightarrow> k' = k"
  using element_of_one_key by blast

end

context stats_map
begin

text \<open>The steps of an addition and of a removal, on the map alone.\<close>

lemma stay_ok:
  assumes "map_valid ops m" and "cpu_ok ops m c'"
    and "\<And>sid. pending ops m sid c' = pending ops m sid c"
    and "may_insert c' \<le> may_insert c" and "steps_left c' \<le> steps_left c - 1"
  shows "step_ok ops max_entries m c m c'"
  using assms by (simp add: step_ok_def)

lemma insert_ok:
  assumes "map_valid ops m" and "card (dom (map_find ops m)) < max_entries"
  shows "step_ok ops max_entries m (Add_insert k n ms)
           (snd (update_elem ops m k 0 BPF_NOEXIST)) (Add_relookup k n ms)"
    and "fst (update_elem ops m k 0 BPF_NOEXIST) = 0 \<or>
         fst (update_elem ops m k 0 BPF_NOEXIST) = - EEXIST"
proof -
  let ?m' = "snd (update_elem ops m k 0 BPF_NOEXIST)"
  have keeps: "\<And>k' p. lookup_elem ops m k' = Some p \<Longrightarrow> lookup_elem ops ?m' k' = Some p"
    using assms(1) by (rule insert_keeps)
  have "step_ok ops max_entries m (Add_insert k n ms) ?m' (Add_relookup k n ms) \<and>
    (fst (update_elem ops m k 0 BPF_NOEXIST) = 0 \<or>
     fst (update_elem ops m k 0 BPF_NOEXIST) = - EEXIST)"
  proof (cases "map_find ops m k")
    case None
    note * = insert_absent [OF assms(1) None assms(2), of 0]
    have "lookup_elem ops ?m' k \<noteq> None" unfolding lookup_found using *(2) by simp
    moreover have "card (dom (map_find ops ?m')) \<le> Suc (card (dom (map_find ops m)))"
      unfolding *(2) by (rule card_dom_upd_le [OF finite_contents [OF assms(1)]])
    moreover have "entry_stats ops ?m' sid = entry_stats ops m sid" for sid
      using *(2) None by (simp add: entry_stats_def)
    ultimately show ?thesis
      using assms(1) *(1) keeps by (simp add: step_ok_def update_valid)
  next
    case (Some w)
    note * = insert_present [OF assms(1) Some, of 0]
    have "lookup_elem ops ?m' k \<noteq> None" unfolding lookup_found using *(2) Some by simp
    moreover have "entry_stats ops ?m' sid = entry_stats ops m sid" for sid
      using *(2) by (simp add: entry_stats_def)
    ultimately show ?thesis
      using assms(1) * keeps by (simp add: step_ok_def update_valid)
  qed
  then show "step_ok ops max_entries m (Add_insert k n ms) ?m' (Add_relookup k n ms)"
    and "fst (update_elem ops m k 0 BPF_NOEXIST) = 0 \<or>
         fst (update_elem ops m k 0 BPF_NOEXIST) = - EEXIST"
    by blast+
qed

lemma write_ok:
  assumes "map_valid ops m" and "lookup_elem ops m k = Some p"
    and "\<And>sid. pending ops m sid c = (if lookup_elem ops m sid = Some p then d else 0)"
    and "1 < steps_left c"
  shows "step_ok ops max_entries m c (elem_store ops m p (elem_load ops m p + d)) (Finish ms)"
proof -
  let ?m' = "elem_store ops m p (elem_load ops m p + d)"
  have find: "map_find ops ?m' = (map_find ops m)(k \<mapsto> elem_load ops m p + d)"
    using assms(1,2) by (rule store_found)
  have old: "map_find ops m k = Some (elem_load ops m p)"
    using assms(2) by (rule lookup_Some_load)
  have "entry_stats ops ?m' sid = entry_stats ops m sid + pending ops m sid c" for sid
    using find old by (simp add: entry_stats_def assms(3) same_element_iff [OF assms(1,2)])
  moreover have "dom (map_find ops ?m') = dom (map_find ops m)"
    using find old by auto
  ultimately show ?thesis
    using assms(1,2,4) store_keeps [OF assms(1,2)] store_valid [OF assms(1,2)]
    by (simp add: step_ok_def)
qed

end

context memleak_smp
begin

lemma combined_valid: "maps_valid K s \<Longrightarrow> map_valid (combined_allocs_ops K) (combined_allocs s)"
  by (simp add: maps_valid_def)

lemma cpu_step_ok:
  assumes "maps_valid K s" and "cpu_ok (combined_allocs_ops K) (combined_allocs s) c"
    and "card (dom (map_find (combined_allocs_ops K) (combined_allocs s))) + may_insert c
           \<le> combined_allocs_max_entries"
    and "cpu_step K cfg c s = (c', s')"
  shows "maps_valid K s' \<and>
         step_ok (combined_allocs_ops K) combined_allocs_max_entries (combined_allocs s) c
           (combined_allocs s') c'"
proof -
  note valid = combined_valid [OF assms(1)]
  have store: "maps_valid K (s\<lparr>combined_allocs := m\<rparr>) \<longleftrightarrow> map_valid (combined_allocs_ops K) m" for m
    using assms(1) by (simp add: maps_valid_def)
  have sub: "Combined (bits x - bits y) = x + - y" and add: "Combined (bits x + bits y) = x + y"
    for x y by (simp_all add: combined_eq_iff uminus_combined_alloc_info_def)
  show ?thesis
  proof (cases c)
    case (Add_insert k n ms)
    then have "card (dom (map_find (combined_allocs_ops K) (combined_allocs s)))
        < combined_allocs_max_entries" using assms(3) by simp
    note * = st.insert_ok(1) [OF valid this, where k = k and n = n and ms = ms]
      st.insert_ok(2) [OF valid this, where k = k]
    from * have "map_valid (combined_allocs_ops K)
        (snd (update_elem (combined_allocs_ops K) (combined_allocs s) k 0 BPF_NOEXIST))"
      by (simp add: step_ok_def)
    with * Add_insert assms(4) show ?thesis
      by (auto simp: split_beta store Let_def)
  next
    case (Add_fetch p n ms)
    then obtain k where k: "lookup_elem (combined_allocs_ops K) (combined_allocs s) k = Some p"
      using assms(2) by auto
    have "step_ok (combined_allocs_ops K) combined_allocs_max_entries (combined_allocs s) c
      (elem_store (combined_allocs_ops K) (combined_allocs s) p
        (elem_load (combined_allocs_ops K) (combined_allocs s) p + combined_of_info n 1)) (Finish ms)"
      using Add_fetch by (intro st.write_ok [OF valid k]) simp_all
    with Add_fetch assms(4) show ?thesis
      by (auto simp: Let_def add store step_ok_def)
  next
    case (Del_fetch p n ms)
    then obtain k where k: "lookup_elem (combined_allocs_ops K) (combined_allocs s) k = Some p"
      using assms(2) by auto
    have "step_ok (combined_allocs_ops K) combined_allocs_max_entries (combined_allocs s) c
      (elem_store (combined_allocs_ops K) (combined_allocs s) p
        (elem_load (combined_allocs_ops K) (combined_allocs s) p + - combined_of_info n 1)) (Finish ms)"
      using Del_fetch by (intro st.write_ok [OF valid k]) simp_all
    with Del_fetch assms(4) show ?thesis
      by (auto simp: Let_def sub store step_ok_def simp del: add_uminus_conv_diff)
  next
    case (Add_lookup k n ms)
    then show ?thesis
      using assms(1,4) valid st.same_element_iff [OF valid]
      by (auto split: option.splits intro!: st.stay_ok)
  next
    case (Add_relookup k n ms)
    then show ?thesis
      using assms(1,2,4) valid st.same_element_iff [OF valid]
      by (auto split: option.splits intro!: st.stay_ok)
  next
    case (Del_lookup k n ms)
    then show ?thesis
      using assms(1,2,4) valid st.same_element_iff [OF valid]
      by (auto split: option.splits intro!: st.stay_ok)
  next
    case (Finish ms)
    then show ?thesis
      using assms(1,4) valid by (auto simp: maps_valid_def intro!: st.stay_ok)
  next
    case Halted
    then show ?thesis
      using assms(1,4) valid by (auto intro!: st.stay_ok)
  qed (use assms(2) in simp_all)
qed

text \<open>What one CPU's step means for the others.\<close>

lemma step_frame:
  assumes "map_valid ops m'" and "cpu_ok ops m d"
    and "\<And>k p. lookup_elem ops m k = Some p \<Longrightarrow> lookup_elem ops m' k = Some p"
    and "\<And>k k' p. lookup_elem ops m' k = Some p \<Longrightarrow> lookup_elem ops m' k' = Some p \<Longrightarrow> k = k'"
  shows "cpu_ok ops m' d \<and> pending ops m' sid d = pending ops m sid d"
proof (cases d)
  case (Add_fetch p n ms)
  then obtain k where "lookup_elem ops m k = Some p" using assms(2) by auto
  then have "lookup_elem ops m' sid = Some p \<longleftrightarrow> lookup_elem ops m sid = Some p"
    using assms(3,4) by metis
  then show ?thesis using Add_fetch assms(2,3) by auto
next
  case (Del_fetch p n ms)
  then obtain k where "lookup_elem ops m k = Some p" using assms(2) by auto
  then have "lookup_elem ops m' sid = Some p \<longleftrightarrow> lookup_elem ops m sid = Some p"
    using assms(3,4) by metis
  then show ?thesis using Del_fetch assms(2,3) by auto
qed (use assms(2,3) in auto)

end

text \<open>The invariant of a schedule: \<open>T\<close> is what the statistics will come to.\<close>

definition schedule_ok ::
    "('ms, 'ma, 'mc, 'mp) kernel \<Rightarrow> (u64 \<Rightarrow> combined_alloc_info) \<Rightarrow>
     cpu list \<times> ('ms, 'ma, 'mc, 'mp) tracker \<Rightarrow> bool" where
  "schedule_ok K T x \<longleftrightarrow>
     (let (cs, s) = x; ops = combined_allocs_ops K; m = combined_allocs s
      in maps_valid K s \<and> (\<forall>c\<in>set cs. cpu_ok ops m c) \<and>
         card (dom (map_find ops m)) + sum_list (map may_insert cs) \<le> combined_allocs_max_entries \<and>
         (\<forall>sid. entry_stats ops m sid + sum_list (map (pending ops m sid) cs) = T sid))"

lemmas schedule_ok_iff = schedule_ok_def [of _ _ "(cs, s)" for cs s, unfolded Let_def prod.case]

lemma exchange:
  fixes a a' b b' p p' :: "'a::ab_group_add"
  assumes "a' + p' = a + p" and "b' + p = b + p'"
  shows "a' + b' = a + b"
proof -
  have "a' = a + p - p'" "b' = b + p' - p" using assms by (simp_all add: eq_diff_eq)
  then have "a' + b' = (a + p - p') + (b + p' - p)" by (simp only:)
  also have "\<dots> = a + b" by (simp add: algebra_simps)
  finally show ?thesis .
qed

context memleak_smp
begin

lemma interleave_ok:
  assumes "schedule_ok K T (cs, s)" and "interleave_step K cfg i (cs, s) = (ds, t)"
  shows "schedule_ok K T (ds, t) \<and> length ds = length cs \<and>
         (\<forall>j < length cs. steps_left (ds ! j) \<le> steps_left (cs ! j) - (if j = i then 1 else 0))"
proof (cases "i < length cs")
  case False
  then show ?thesis using assms by (auto simp: interleave_step_def)
next
  case True
  let ?ops = "combined_allocs_ops K" and ?m = "combined_allocs s" and ?m' = "combined_allocs t"
  let ?c = "cs ! i"
  obtain c' where c': "cpu_step K cfg ?c s = (c', t)" and ds: "ds = cs[i := c']"
    using True assms(2) by (auto simp: interleave_step_def split: prod.splits)
  from assms(1) have inv: "maps_valid K s" "\<And>c. c \<in> set cs \<Longrightarrow> cpu_ok ?ops ?m c"
    "card (dom (map_find ?ops ?m)) + sum_list (map may_insert cs) \<le> combined_allocs_max_entries"
    "\<And>sid. entry_stats ?ops ?m sid + sum_list (map (pending ?ops ?m sid) cs) = T sid"
    by (simp_all add: schedule_ok_iff)
  have "may_insert ?c \<le> sum_list (map may_insert cs)"
    using True by (intro member_le_sum_list) auto
  with inv True have step: "maps_valid K t" "step_ok ?ops combined_allocs_max_entries ?m ?c ?m' c'"
    using cpu_step_ok [OF inv(1) _ _ c'] by simp_all
  from step(2) have fresh: "map_valid ?ops ?m'" "cpu_ok ?ops ?m' c'"
    "\<And>k p. lookup_elem ?ops ?m k = Some p \<Longrightarrow> lookup_elem ?ops ?m' k = Some p"
    "\<And>sid. entry_stats ?ops ?m' sid + pending ?ops ?m' sid c' =
            entry_stats ?ops ?m sid + pending ?ops ?m sid ?c"
    "card (dom (map_find ?ops ?m')) + may_insert c' \<le> card (dom (map_find ?ops ?m)) + may_insert ?c"
    "steps_left c' \<le> steps_left ?c - 1"
    by (simp_all add: step_ok_def)
  have frame: "cpu_ok ?ops ?m' d \<and> pending ?ops ?m' sid d = pending ?ops ?m sid d"
    if "d \<in> set cs" for d sid
    using inv(2) [OF that] st.element_of_one_key [OF fresh(1)]
    by (intro step_frame [OF fresh(1) _ fresh(3)]) auto
  have "sum_list (map may_insert ds) + may_insert ?c = sum_list (map may_insert cs) + may_insert c'"
    unfolding ds using True by (intro sum_list_map_update) simp_all
  then have room: "card (dom (map_find ?ops ?m')) + sum_list (map may_insert ds)
      \<le> combined_allocs_max_entries"
    using fresh(5) inv(3) by linarith
  have total: "entry_stats ?ops ?m' sid + sum_list (map (pending ?ops ?m' sid) ds) = T sid" for sid
  proof -
    have "sum_list (map (pending ?ops ?m' sid) ds) + pending ?ops ?m sid ?c =
        sum_list (map (pending ?ops ?m sid) cs) + pending ?ops ?m' sid c'"
      unfolding ds using True frame by (intro sum_list_map_update) simp_all
    from exchange [OF fresh(4) this] inv(4) [of sid] show ?thesis by (rule trans)
  qed
  have "\<forall>c\<in>set ds. cpu_ok ?ops ?m' c"
    using frame fresh(2) set_update_subset_insert [of cs i c'] unfolding ds by blast
  with step(1) room total fresh(6) ds show ?thesis
    by (simp add: schedule_ok_iff nth_list_update)
qed

lemma schedule_run_ok:
  assumes "schedule_ok K T (cs, s)" and "run_schedule K cfg sched (cs, s) = (ds, t)"
  shows "schedule_ok K T (ds, t) \<and> length ds = length cs \<and>
         (\<forall>j < length cs. steps_left (ds ! j) \<le> steps_left (cs ! j) - count_list sched j)"
  using assms
proof (induction sched arbitrary: cs s)
  case Nil
  then show ?case by (simp add: run_schedule_def)
next
  case (Cons i sched)
  obtain es u where step: "interleave_step K cfg i (cs, s) = (es, u)" by fastforce
  from interleave_ok [OF Cons.prems(1) step] have
    one: "schedule_ok K T (es, u)" "length es = length cs"
    "\<And>j. j < length cs \<Longrightarrow> steps_left (es ! j) \<le> steps_left (cs ! j) - (if j = i then 1 else 0)"
    by blast+
  have "run_schedule K cfg sched (es, u) = (ds, t)"
    using Cons.prems(2) step by (simp add: run_schedule_def)
  note rest = Cons.IH [OF one(1) this]
  have "steps_left (ds ! j) \<le> steps_left (cs ! j) - count_list (i # sched) j" if "j < length cs" for j
  proof -
    have "steps_left (ds ! j) \<le> steps_left (es ! j) - count_list sched j"
      using rest one(2) that by simp
    with one(3) [OF that] show ?thesis by (cases "j = i") simp_all
  qed
  with rest one(2) show ?case by simp
qed

end

lemma steps_left_start: "steps_left (start u) \<le> 5"
  by (cases u) simp_all

lemma halted_pending: "cpu_ok ops m c \<Longrightarrow> steps_left c = 0 \<Longrightarrow> c = Halted"
  by (cases c) simp_all

lemma start_ok:
  assumes "maps_valid K s"
    and "\<And>k n. Debit k n \<in> set us \<Longrightarrow> c_combined (contents_of K s) k \<noteq> None"
    and "card (dom (c_combined (contents_of K s))) + length us \<le> COMBINED_ALLOCS_MAX_ENTRIES"
  shows "schedule_ok K (\<lambda>sid. stack_stats (contents_of K s) sid + sum_list (map (change sid) us))
           (map start us, s)"
proof -
  have "sum_list (map (may_insert \<circ> start) us) \<le> length us"
  proof (induction us)
    case (Cons u us)
    then show ?case by (cases u) simp_all
  qed simp
  moreover have "sum_list (map (pending ops m sid \<circ> start) us) = sum_list (map (change sid) us)"
    for ops m sid
  proof -
    have "pending ops m sid (start u) = change sid u" for u by (cases u) simp_all
    then show ?thesis by (simp add: o_def)
  qed
  moreover have "cpu_ok (combined_allocs_ops K) (combined_allocs s) (start u)" if "u \<in> set us" for u
  proof (cases u)
    case (Debit k n)
    then show ?thesis using assms(2) [of k n] that by (auto simp: contents_of_simps map_find_def)
  qed simp
  ultimately show ?thesis
    using assms(1,3)
    by (auto simp: schedule_ok_iff stack_stats_entry combined_allocs_max_entries_def
        contents_of_simps)
qed

text \<open>C36: Updates of the statistics on any number of CPUs, under any schedule that gives each CPU five
  steps, all come to an end, and every stack's statistics have then changed by exactly the sum of
  the updates: none is lost, also when several CPUs meet on a stack that has no entry yet. Removals
  are of stacks that have one, and there is room for the new stacks.\<close>

theorem concurrent_updates_exact:
  assumes "memleak_smp K" and "maps_valid K s"
    and "\<forall>k n. Debit k n \<in> set us \<longrightarrow> c_combined (contents_of K s) k \<noteq> None"
    and "card (dom (c_combined (contents_of K s))) + length us \<le> COMBINED_ALLOCS_MAX_ENTRIES"
    and "\<forall>i < length us. 5 \<le> count_list sched i"
    and "run_schedule K cfg sched (map start us, s) = (cs, t)"
  shows "cs = replicate (length us) Halted \<and>
         (\<forall>sid. stack_stats (contents_of K t) sid =
                stack_stats (contents_of K s) sid + sum_list (map (change sid) us))"
proof -
  let ?T = "\<lambda>sid. stack_stats (contents_of K s) sid + sum_list (map (change sid) us)"
  have "schedule_ok K ?T (map start us, s)"
    using assms(2-4) by (intro start_ok) auto
  from memleak_smp.schedule_run_ok [OF assms(1) this assms(6)] have
    fin: "schedule_ok K ?T (cs, t)" "length cs = length us"
    "\<And>j. j < length us \<Longrightarrow> steps_left (cs ! j) \<le> steps_left (start (us ! j)) - count_list sched j"
    by auto
  have "cs ! j = Halted" if "j < length us" for j
  proof (rule halted_pending)
    show "cpu_ok (combined_allocs_ops K) (combined_allocs t) (cs ! j)"
      using fin(1,2) that by (simp add: schedule_ok_iff)
    show "steps_left (cs ! j) = 0"
      using fin(3) [OF that] steps_left_start [of "us ! j"] assms(5) that by fastforce
  qed
  then have cs: "cs = replicate (length us) Halted"
    using fin(2) by (simp add: list_eq_iff_nth_eq)
  moreover have "sum_list (replicate n (0 :: combined_alloc_info)) = 0" for n
    by (induction n) simp_all
  ultimately show ?thesis
    using fin(1) by (simp add: schedule_ok_iff stack_stats_entry)
qed

theorem concurrent_updates_exact_witness:
  "stack_stats (contents_of slot_kernel (snd (run_schedule slot_kernel default_config
     [0, 1, 0, 1, 2, 1, 0, 0, 1, 2, 2, 0, 1, 2, 2]
     (map start [Credit 9 10, Credit 9 20, Debit 5 64], one_block)))) 9 = combined_of_info 30 2"
proof -
  let ?us = "[Credit 9 10, Credit 9 20, Debit 5 64]" and ?sched = "[0, 1, 0, 1, 2, 1, 0, 0, 1, 2, 2, 0, 1, 2, 2]"
  obtain cs t where run: "run_schedule slot_kernel default_config ?sched (map start ?us, one_block) = (cs, t)"
    by fastforce
  have "\<forall>i < length ?us. 5 \<le> count_list ?sched i"
    by (simp add: less_Suc_eq numeral_3_eq_3)
  then have "stack_stats (contents_of slot_kernel t) 9 =
      stack_stats (contents_of slot_kernel one_block) 9 + sum_list (map (change 9) ?us)"
    using concurrent_updates_exact [OF slot_kernel_smp one_block_valid _ _ _ run]
    by (simp add: capacity_defs)
  with run show ?thesis
    by (simp add: stack_stats_def combined_eq_iff combined_of_info_def)
qed

subsection \<open>Reading a deleted element\<close>

lemma update_statistics_allocs [simp]:
  "allocs (update_statistics_add K sid n s) = allocs s"
  "allocs (update_statistics_del K sid n s) = allocs s"
  by (simp_all add: update_statistics_add_def update_statistics_del_def Let_def
      split: option.split prod.split)

lemma contents_of_print_all: "contents_of K (print_all ms s) = contents_of K s"
  unfolding print_all_def by (induction ms arbitrary: s) auto

lemma exit_allocs:
  "map_find (sizes_ops K) (sizes s) (current_pid I) = Some n \<Longrightarrow> a \<noteq> 0 \<Longrightarrow>
     allocs (snd (gen_alloc_exit2 K cfg I a s)) =
       snd (update_elem (allocs_ops K) (allocs s) a (exit_info cfg I n) BPF_ANY)"
  by (auto simp: gen_alloc_exit2_def map_find_def exit_info_def Let_def)

lemma run_schedule_append:
  "run_schedule K cfg (xs @ ys) x = run_schedule K cfg ys (run_schedule K cfg xs x)"
  by (simp add: run_schedule_def)

lemma run_schedule_one:
  "i < length cs \<Longrightarrow> cpu_run K cfg n (cs ! i, s) = (c, t) \<Longrightarrow>
     run_schedule K cfg (replicate n i) (cs, s) = (cs[i := c], t)"
proof (induction n arbitrary: cs s)
  case 0
  then have "cs[i := c] = cs" by (metis cpu_run.simps(1) fst_conv list_update_id)
  with 0 show ?case by (simp add: run_schedule_def)
next
  case (Suc n)
  obtain c1 s1 where step: "cpu_step K cfg (cs ! i) s = (c1, s1)" by fastforce
  have "cpu_run K cfg n ((cs[i := c1]) ! i, s1) = (c, t)"
    using Suc.prems step by simp
  from Suc.IH [OF _ this] Suc.prems(1) step show ?case
    by (simp add: run_schedule_def interleave_step_def)
qed

text \<open>C37: The release of a block reads its record after deleting it. If, between the two, another CPU
  records a new block and the map puts it where the deleted record was, the release takes the new
  block out of the statistics: the two blocks' records are right, but every stack's statistics are
  what they were, with the released block still counted and the new one not.\<close>

theorem free_race_miscounts:
  assumes "memleak_kernel K" and "maps_valid K s"
    and "lookup_elem (allocs_ops K) (allocs s) a = Some p"
    and "c_sizes (contents_of K s) (current_pid J) = Some n" and "b \<noteq> 0" and "b \<noteq> a"
    and "tables_room (contents_of K s)"
    and "lookup_elem (allocs_ops K)
           (snd (update_elem (allocs_ops K) (snd (delete_elem (allocs_ops K) (allocs s) a)) b
                   (exit_info cfg J n) BPF_ANY)) b = Some p"
  shows "(let (cs, t) = run_schedule K cfg (replicate 2 0 @ replicate 9 1 @ replicate 4 0)
                          ([Free_lookup a, Exit_lookup J b], s)
          in cs = [Halted, Halted] \<and>
             c_allocs (contents_of K t) =
               (c_allocs (contents_of K s))(a := None, b \<mapsto> exit_info cfg J n) \<and>
             stack_stats (contents_of K t) = stack_stats (contents_of K s))"
proof -
  let ?j = "exit_info cfg J n"
  let ?s1 = "s\<lparr>allocs := snd (delete_elem (allocs_ops K) (allocs s) a)\<rparr>"
  let ?s2 = "snd (gen_alloc_exit2 K cfg J b ?s1)"
  let ?c = "(contents_of K ?s1)\<lparr>c_sizes := (c_sizes (contents_of K s))(current_pid J := None)\<rparr>"
  note s1 = memleak_kernel.delete_alloc_refines [OF assms(1,2), of a]
  note s2 = memleak_kernel.exit_refines [OF assms(1) s1(1), of cfg J b]
  have noted: "c_sizes (contents_of K ?s1) (current_pid J) = Some n"
    using assms(4) s1(2) by simp
  have c2: "contents_of K ?s2 = spec_record b ?j ?c"
    using exit_noted [of "contents_of K ?s1" J n b cfg] noted assms(5) s2(2) s1(2) by simp
  have "tables_room (contents_of K ?s1)"
    using assms(7) by (auto simp: s1(2) tables_room_def intro: le_less_trans [OF card_Diff1_le])
  then have room: "has_room ?c b ?j" by (simp add: tables_room_has_room)
  have "allocs ?s2 = snd (update_elem (allocs_ops K) (allocs ?s1) b ?j BPF_ANY)"
    using noted assms(5) by (intro exit_allocs) (simp_all add: contents_of_simps)
  then have "lookup_elem (allocs_ops K) (allocs ?s2) b = Some p" using assms(8) by simp
  then have "c_allocs (contents_of K ?s2) b = Some (elem_load (allocs_ops K) (allocs ?s2) p)"
    by (simp add: contents_of_simps map_find_def)
  then have load: "elem_load (allocs_ops K) (allocs ?s2) p = ?j"
    using record_allocs_room [OF room] c2 by simp
  obtain ms where "cpu_step K cfg (Free_read a p) ?s2 = (Del_lookup (stack_key ?j) n ms, ?s2)"
    using load by (simp add: Let_def stack_key_def) (simp add: exit_info_def)
  then have last: "cpu_run K cfg 4 (Free_read a p, ?s2) =
      (Halted, print_all ms (update_statistics_del K (stack_key ?j) n ?s2))"
    using cpu_run_add [of K cfg 1 3 "(Free_read a p, ?s2)"] by (simp add: del_alone)
  have first: "cpu_run K cfg 2 (Free_lookup a, s) = (Free_read a p, ?s1)"
    using assms(3) by (simp add: cpu_run_numeral)
  let ?d = "spec_debit (stack_key ?j) n (spec_record b ?j ?c)"
  have run: "run_schedule K cfg (replicate 2 0 @ replicate 9 1 @ replicate 4 0)
      ([Free_lookup a, Exit_lookup J b], s) =
      ([Halted, Halted], print_all ms (update_statistics_del K (stack_key ?j) n ?s2))"
    using first last exit_alone [of K cfg J b ?s1]
    by (simp add: run_schedule_append run_schedule_one)
  have contents: "contents_of K (print_all ms (update_statistics_del K (stack_key ?j) n ?s2)) = ?d"
    by (simp add: contents_of_print_all memleak_kernel.debit_refines [OF assms(1) s2(1)] c2)
  have entry: "c_combined (spec_record b ?j ?c) (stack_key ?j) =
      Some (stack_stats ?c (stack_key ?j) + combined_of_info n 1)"
    using room by (simp add: spec_record_combined bounded_upd_def has_room_def) (simp add: exit_info_def)
  have "stack_stats ?d = stack_stats (contents_of K s)"
  proof
    fix sid
    have "stack_stats ?d sid = stack_stats (spec_record b ?j ?c) sid - contribution sid ?j"
      using entry by (auto simp: spec_debit_def stack_stats_def contribution_def exit_info_def)
    also have "\<dots> = stack_stats ?c sid" using record_stats_room [OF room, of sid] by simp
    finally show "stack_stats ?d sid = stack_stats (contents_of K s) sid"
      by (simp add: s1(2) stack_stats_def)
  qed
  moreover have "c_allocs ?d = (c_allocs (contents_of K s))(a := None, b \<mapsto> ?j)"
    using record_allocs_room [OF room] by (simp add: s1(2) spec_debit_def split: option.split)
  ultimately show ?thesis
    unfolding run Let_def by (simp add: contents)
qed

lemma one_block_allocs:
  "index (allocs one_block) = [(4096, 0)]" "freed (allocs one_block) = []"
  by (simp_all add: one_block_def run_events_def program_step_def malloc_enter_def malloc_exit_def
      gen_alloc_enter_def gen_alloc_exit_def gen_alloc_exit2_def slot_kernel_def slot_init_def
      sm_empty_def sm_update_def sm_insert_def sm_delete_def default_config_def capacity_defs Let_def)

lemma slot_allocs_ops: "allocs_ops slot_kernel = sm_ops allocs_max_entries"
  by (simp add: slot_kernel_def)

theorem free_race_miscounts_witness:
  "stack_stats (contents_of slot_kernel (snd (run_schedule slot_kernel default_config
     (replicate 2 0 @ replicate 9 1 @ replicate 4 0)
     ([Free_lookup 4096, Exit_lookup (call 8192 6) 8192], one_block)))) 5 = combined_of_info 64 1"
  using free_race_miscounts [OF slot_kernel_ok one_block_valid, of 4096 0 "call 8192 6" 32 8192
      default_config]
  by (simp add: one_block_room [simplified] one_block_allocs slot_allocs_ops sm_update_def
      sm_insert_def sm_delete_def Let_def split_beta one_block_stats [simplified])

end
