(* ===== verification/ProgramSteps.thy ===== *)
theory ProgramSteps
  imports Interleaving
begin

text \<open>
  All thirty programs at the grain of \<open>Interleaving\<close>: a program is a list of work items, each the
  accesses of one operation on the maps or one message to the trace pipe; a CPU makes one
  access at a time. A CPU that runs alone computes what the program does as a whole; and every
  program halts within eighteen of its own steps, whatever the other CPUs do in between and
  whatever the maps answer.
\<close>

datatype work =
    Core cpu
  | Print string "u64 list"
  | Note_size u32 u64
  | Put_memptr u64 u64
  | Memptr_lookup invocation
  | Memptr_delete invocation vptr
  | Memptr_load invocation vptr

text \<open>One step: the next access of the first item. A program that finds no saved pointer, or cannot
  read through it, returns.\<close>

fun work_step ::
    "('ms, 'ma, 'mc, 'mp) kernel \<Rightarrow> config \<Rightarrow> work list \<Rightarrow>
     ('ms, 'ma, 'mc, 'mp) tracker \<Rightarrow> work list \<times> ('ms, 'ma, 'mc, 'mp) tracker" where
  "work_step K cfg [] s = ([], s)"
| "work_step K cfg (Core c # ws) s =
     (let (c', s') = cpu_step K cfg c s in (if c' = Halted then ws else Core c' # ws, s'))"
| "work_step K cfg (Print fmt args # ws) s = (ws, bpf_printk fmt args s)"
| "work_step K cfg (Note_size pid n # ws) s =
     (ws, s\<lparr>sizes := snd (update_elem (sizes_ops K) (sizes s) pid n BPF_ANY)\<rparr>)"
| "work_step K cfg (Put_memptr pid m # ws) s =
     (ws, s\<lparr>memptrs := snd (update_elem (memptrs_ops K) (memptrs s) pid m BPF_ANY)\<rparr>)"
| "work_step K cfg (Memptr_lookup I # ws) s =
     (case lookup_elem (memptrs_ops K) (memptrs s) (current_pid64 I) of
        None \<Rightarrow> ([], s) | Some p \<Rightarrow> (Memptr_delete I p # ws, s))"
| "work_step K cfg (Memptr_delete I p # ws) s =
     (Memptr_load I p # ws,
      s\<lparr>memptrs := snd (delete_elem (memptrs_ops K) (memptrs s) (current_pid64 I))\<rparr>)"
| "work_step K cfg (Memptr_load I p # ws) s =
     (case probe_read_user I (elem_load (memptrs_ops K) (memptrs s) p) of
        None \<Rightarrow> ([], s) | Some a \<Rightarrow> (Core (Exit_lookup I a) # ws, s))"

subsection \<open>The programs as work\<close>

definition enter_work :: "config \<Rightarrow> invocation \<Rightarrow> u64 \<Rightarrow> work list" where
  "enter_work cfg I n =
     (if alloc_admitted cfg I n
      then [Print ''alloc entered: pid=%u tid=%u'' [scast (current_pid I), current_pid_tgid I],
            Note_size (current_pid I) n] @
           (if trace_all cfg then [Print (''alloc entered, size = %lu'' @ LF) [n]] else [])
      else [])"

definition exit_work :: "invocation \<Rightarrow> u64 \<Rightarrow> work list" where
  "exit_work I a = [Core (Exit_lookup I a)]"

definition free_work :: "u64 \<Rightarrow> work list" where
  "free_work a = [Core (Free_lookup a)]"

text \<open>A tracepoint of an allocation, at the address and size read from its record.\<close>

definition event_work :: "config \<Rightarrow> invocation \<Rightarrow> u64 \<Rightarrow> u64 \<Rightarrow> work list" where
  "event_work cfg I a n =
     (if wa_missing_free cfg then free_work a else []) @ enter_work cfg I n @ exit_work I a"

fun program_work :: "config \<Rightarrow> btf \<Rightarrow> invocation \<Rightarrow> program \<Rightarrow> work list" where
  "program_work cfg B I (Malloc_enter n) =
     Print (''malloc entered, size=%lu'' @ LF) [n] # enter_work cfg I n"
| "program_work cfg B I Malloc_exit = Print ''malloc exited'' [] # exit_work I (regs_rc I)"
| "program_work cfg B I (Free_enter a) = free_work a"
| "program_work cfg B I (Calloc_enter nmemb n) = enter_work cfg I (nmemb * n)"
| "program_work cfg B I Calloc_exit = exit_work I (regs_rc I)"
| "program_work cfg B I (Realloc_enter p n) = free_work p @ enter_work cfg I n"
| "program_work cfg B I Realloc_exit = exit_work I (regs_rc I)"
| "program_work cfg B I (Mmap_enter a n) = enter_work cfg I n"
| "program_work cfg B I Mmap_exit = exit_work I (regs_rc I)"
| "program_work cfg B I (Munmap_enter a) = free_work a"
| "program_work cfg B I (Posix_memalign_enter m al n) =
     Put_memptr (current_pid64 I) m # enter_work cfg I n"
| "program_work cfg B I Posix_memalign_exit = [Memptr_lookup I]"
| "program_work cfg B I (Aligned_alloc_enter al n) = enter_work cfg I n"
| "program_work cfg B I Aligned_alloc_exit = exit_work I (regs_rc I)"
| "program_work cfg B I (Valloc_enter n) = enter_work cfg I n"
| "program_work cfg B I Valloc_exit = exit_work I (regs_rc I)"
| "program_work cfg B I (Memalign_enter al n) = enter_work cfg I n"
| "program_work cfg B I Memalign_exit = exit_work I (regs_rc I)"
| "program_work cfg B I (Pvalloc_enter n) = enter_work cfg I n"
| "program_work cfg B I Pvalloc_exit = exit_work I (regs_rc I)"
| "program_work cfg B I (Memleak_kmalloc c) =
     (if has_kmem_alloc B
      then event_work cfg I (core_read B trace_event_raw_kmem_alloc___x ''ptr'' c)
             (core_read B trace_event_raw_kmem_alloc___x ''bytes_alloc'' c)
      else event_work cfg I (core_read B trace_event_raw_kmalloc___x ''ptr'' c)
             (core_read B trace_event_raw_kmalloc___x ''bytes_alloc'' c))"
| "program_work cfg B I (Memleak_kmalloc_node c) =
     (if has_kmem_alloc_node B
      then event_work cfg I (core_read B trace_event_raw_kmem_alloc_node___x ''ptr'' c)
             (core_read B trace_event_raw_kmem_alloc_node___x ''bytes_alloc'' c)
      else [])"
| "program_work cfg B I (Memleak_kfree c) =
     free_work (if has_kfree B then core_read B trace_event_raw_kfree___x ''ptr'' c
                else core_read B trace_event_raw_kmem_free___x ''ptr'' c)"
| "program_work cfg B I (Memleak_kmem_cache_alloc c) =
     (if has_kmem_alloc B
      then event_work cfg I (core_read B trace_event_raw_kmem_alloc___x ''ptr'' c)
             (core_read B trace_event_raw_kmem_alloc___x ''bytes_alloc'' c)
      else event_work cfg I (core_read B trace_event_raw_kmem_cache_alloc___x ''ptr'' c)
             (core_read B trace_event_raw_kmem_cache_alloc___x ''bytes_alloc'' c))"
| "program_work cfg B I (Memleak_kmem_cache_alloc_node c) =
     (if has_kmem_alloc_node B
      then event_work cfg I (core_read B trace_event_raw_kmem_alloc_node___x ''ptr'' c)
             (core_read B trace_event_raw_kmem_alloc_node___x ''bytes_alloc'' c)
      else [])"
| "program_work cfg B I (Memleak_kmem_cache_free c) =
     free_work (if has_kmem_cache_free B
                then core_read B trace_event_raw_kmem_cache_free___x ''ptr'' c
                else core_read B trace_event_raw_kmem_free___x ''ptr'' c)"
| "program_work cfg B I (Memleak_mm_page_alloc c) =
     enter_work cfg I (push_bit (page_order B c) (page_size cfg)) @
     exit_work I (core_read B trace_event_raw_mm_page_alloc ''pfn'' c)"
| "program_work cfg B I (Memleak_mm_page_free c) =
     free_work (core_read B trace_event_raw_mm_page_free ''pfn'' c)"
| "program_work cfg B I (Memleak_percpu_alloc_percpu c) =
     enter_work cfg I (core_read B trace_event_raw_percpu_alloc_percpu ''bytes_alloc'' c) @
     exit_work I (core_read B trace_event_raw_percpu_alloc_percpu ''ptr'' c)"
| "program_work cfg B I (Memleak_percpu_free_percpu c) =
     free_work (core_read B trace_event_raw_percpu_free_percpu ''ptr'' c)"

subsection \<open>Every program halts\<close>

fun cpu_left :: "cpu \<Rightarrow> nat" where
  "cpu_left (Free_lookup a) = 6" | "cpu_left (Free_delete a p) = 5" | "cpu_left (Free_read a p) = 4"
| "cpu_left (Exit_lookup I a) = 9" | "cpu_left (Exit_load I a p) = 8"
| "cpu_left (Exit_delete I a n) = 7" | "cpu_left (Exit_store I a i) = 6"
| "cpu_left c = steps_left c"

fun work_left :: "work list \<Rightarrow> nat" where
  "work_left [] = 0"
| "work_left (Core c # ws) = max 1 (cpu_left c) + work_left ws"
| "work_left (Memptr_lookup I # ws) = 12 + work_left ws"
| "work_left (Memptr_delete I p # ws) = 11 + work_left ws"
| "work_left (Memptr_load I p # ws) = 10 + work_left ws"
| "work_left (w # ws) = 1 + work_left ws"

lemma cpu_step_left: "cpu_left (fst (cpu_step K cfg c s)) \<le> cpu_left c - 1"
  by (cases "(K, cfg, c, s)" rule: cpu_step.cases)
    (simp_all add: Let_def split: option.split prod.split)

lemma work_step_left: "work_left (fst (work_step K cfg ws s)) \<le> work_left ws - 1"
proof (cases "(K, cfg, ws, s)" rule: work_step.cases)
  case (2 K' cfg' c ws' s')
  obtain c' t where step: "cpu_step K cfg c s = (c', t)" by fastforce
  have "cpu_left c' \<le> cpu_left c - 1" using cpu_step_left [of K cfg c s] step by simp
  moreover have "c' \<noteq> Halted \<Longrightarrow> 0 < cpu_left c'" by (cases c') simp_all
  ultimately show ?thesis using 2 step by (cases "c' = Halted") (auto simp: max_def)
qed (simp_all split: option.split)

lemma work_left_append: "work_left (xs @ ys) = work_left xs + work_left ys"
  by (induction xs rule: work_left.induct) simp_all

lemma program_work_left: "work_left (program_work cfg B I p) \<le> 18"
  by (cases p) (simp_all add: enter_work_def exit_work_def free_work_def event_work_def
      work_left_append)

lemma work_left_0: "work_left ws = 0 \<longleftrightarrow> ws = []"
  by (cases ws rule: work_left.cases) simp_all

subsection \<open>A CPU alone\<close>

fun work_run ::
    "('ms, 'ma, 'mc, 'mp) kernel \<Rightarrow> config \<Rightarrow> nat \<Rightarrow> work list \<times> ('ms, 'ma, 'mc, 'mp) tracker \<Rightarrow>
     work list \<times> ('ms, 'ma, 'mc, 'mp) tracker" where
  "work_run K cfg 0 x = x"
| "work_run K cfg (Suc n) x = work_run K cfg n (work_step K cfg (fst x) (snd x))"

lemma work_run_add: "work_run K cfg (m + n) x = work_run K cfg n (work_run K cfg m x)"
  by (induction m arbitrary: x) simp_all

lemma work_run_done [simp]: "work_run K cfg n ([], s) = ([], s)"
  by (induction n) simp_all

lemma work_run_left: "work_left (fst (work_run K cfg n x)) \<le> work_left (fst x) - n"
proof (induction n arbitrary: x)
  case (Suc n)
  have "work_left (fst (work_run K cfg (Suc n) x)) \<le>
      work_left (fst (work_step K cfg (fst x) (snd x))) - n"
    using Suc.IH by simp
  also have "\<dots> \<le> work_left (fst x) - Suc n"
    using work_step_left [of K cfg "fst x" "snd x"] by linarith
  finally show ?case .
qed simp

definition reaches ::
    "('ms, 'ma, 'mc, 'mp) kernel \<Rightarrow> config \<Rightarrow> work list \<times> ('ms, 'ma, 'mc, 'mp) tracker \<Rightarrow>
     work list \<times> ('ms, 'ma, 'mc, 'mp) tracker \<Rightarrow> bool" where
  "reaches K cfg x y \<longleftrightarrow> (\<exists>n. work_run K cfg n x = y)"

lemma reaches_refl: "reaches K cfg x x"
  unfolding reaches_def by (rule exI [of _ 0]) simp

lemma reaches_trans: "reaches K cfg x y \<Longrightarrow> reaches K cfg y z \<Longrightarrow> reaches K cfg x z"
  unfolding reaches_def by (metis work_run_add)

lemma reaches_step: "reaches K cfg (work_step K cfg ws s) y \<Longrightarrow> reaches K cfg (ws, s) y"
  unfolding reaches_def by (metis fst_conv snd_conv work_run.simps(2))

lemma reaches_core:
  "cpu_run K cfg n (c, s) = (Halted, t) \<Longrightarrow> c \<noteq> Halted \<Longrightarrow> reaches K cfg (Core c # ws, s) (ws, t)"
proof (induction n arbitrary: c s)
  case (Suc n)
  obtain c' s' where step: "cpu_step K cfg c s = (c', s')" by fastforce
  show ?case
  proof (cases "c' = Halted")
    case True
    then show ?thesis using Suc.prems(1) step by (intro reaches_step) (simp add: reaches_refl)
  next
    case False
    then show ?thesis using Suc step by (intro reaches_step) simp
  qed
qed simp

lemma reaches_free: "reaches K cfg (free_work a @ ws, s) (ws, snd (gen_free_enter K cfg a s))"
  unfolding free_work_def using reaches_core [OF free_alone] by simp

lemma reaches_exit: "reaches K cfg (exit_work I a @ ws, s) (ws, snd (gen_alloc_exit2 K cfg I a s))"
  unfolding exit_work_def using reaches_core [OF exit_alone] by simp

lemma reaches_enter: "reaches K cfg (enter_work cfg I n @ ws, s) (ws, snd (gen_alloc_enter K cfg I n s))"
  by (auto simp: enter_work_def gen_alloc_enter_cases Let_def intro!: reaches_step reaches_refl)

lemmas reaches_last = reaches_free [of K cfg a "[]" for K cfg a, simplified]
  reaches_exit [of K cfg I a "[]" for K cfg I a, simplified]
  reaches_enter [of K cfg I n "[]" for K cfg I n, simplified]

lemma reaches_traced:
  "reaches K cfg (enter_work cfg I n @ exit_work I a, s)
     ([], snd (gen_alloc_exit2 K cfg I a (snd (gen_alloc_enter K cfg I n s))))"
  by (rule reaches_trans [OF reaches_enter reaches_last(2)])

lemma reaches_event:
  "\<not> wa_missing_free cfg \<Longrightarrow> reaches K cfg (event_work cfg I a n, s)
     ([], snd (gen_alloc_exit2 K cfg I a (snd (gen_alloc_enter K cfg I n s))))"
  "wa_missing_free cfg \<Longrightarrow> reaches K cfg (event_work cfg I a n, s)
     ([], snd (gen_alloc_exit2 K cfg I a (snd (gen_alloc_enter K cfg I n
       (snd (gen_free_enter K cfg a s))))))"
  by (simp_all add: event_work_def reaches_traced reaches_trans [OF reaches_free reaches_traced])

lemma reaches_memptr_exit:
  "reaches K cfg ([Memptr_lookup I], s) ([], snd (posix_memalign_exit K cfg I s))"
proof (cases "lookup_elem (memptrs_ops K) (memptrs s) (current_pid64 I)")
  case None
  then show ?thesis by (intro reaches_step) (simp add: posix_memalign_exit_def reaches_refl)
next
  case (Some p)
  let ?s = "s\<lparr>memptrs := snd (delete_elem (memptrs_ops K) (memptrs s) (current_pid64 I))\<rparr>"
  have "reaches K cfg ([Memptr_load I p], ?s) ([], snd (posix_memalign_exit K cfg I s))"
    using Some
    by (intro reaches_step)
      (auto simp: posix_memalign_exit_def Let_def reaches_last(2) [unfolded exit_work_def] reaches_refl
        split: option.split)
  with Some show ?thesis
    by (intro reaches_step, simp) (rule reaches_step, simp)
qed

lemma reaches_print:
  "reaches K cfg (ws, bpf_printk fmt args s) y \<Longrightarrow> reaches K cfg (Print fmt args # ws, s) y"
  by (rule reaches_step) simp

lemma reaches_realloc:
  "reaches K cfg (free_work a @ enter_work cfg I n, s)
     ([], snd (gen_alloc_enter K cfg I n (snd (gen_free_enter K cfg a s))))"
  by (rule reaches_trans [OF reaches_free reaches_last(3)])

lemma reaches_put_memptr:
  "reaches K cfg (ws, s\<lparr>memptrs := snd (update_elem (memptrs_ops K) (memptrs s) pid m BPF_ANY)\<rparr>) y \<Longrightarrow>
   reaches K cfg (Put_memptr pid m # ws, s) y"
  by (rule reaches_step) simp

lemma reaches_program:
  "reaches K cfg (program_work cfg B I p, s) ([], snd (run_program K cfg B I p s))"
  by (cases p)
    (simp_all add: user_probe_defs gen_alloc_exit_def kernel_probe_defs posix_memalign_enter_def
      Let_def split_beta reaches_last reaches_traced reaches_event reaches_memptr_exit
      reaches_realloc reaches_print reaches_put_memptr reaches_refl)

text \<open>C35: Each of the thirty programs, run by one CPU alone, is done after at most eighteen accesses
  and leaves the tracker, trace pipe included, as the program as a whole does.\<close>

theorem programs_alone:
  "work_run K cfg 18 (program_work cfg B I p, s) = ([], snd (run_program K cfg B I p s))"
proof -
  obtain n where n: "work_run K cfg n (program_work cfg B I p, s) =
      ([], snd (run_program K cfg B I p s))"
    using reaches_program unfolding reaches_def by blast
  have "work_left (fst (work_run K cfg 18 (program_work cfg B I p, s))) = 0"
    using work_run_left [where n = 18 and x = "(program_work cfg B I p, s)"] program_work_left [of cfg B I p]
    by simp
  then obtain t where t: "work_run K cfg 18 (program_work cfg B I p, s) = ([], t)"
    by (metis prod.collapse work_left_0)
  then have "work_run K cfg (18 + n) (program_work cfg B I p, s) = ([], t)"
    by (simp only: work_run_add) simp
  moreover have "work_run K cfg (n + 18) (program_work cfg B I p, s) =
      ([], snd (run_program K cfg B I p s))"
    using n by (simp only: work_run_add) simp
  ultimately show ?thesis using t by (simp add: add.commute)
qed

subsection \<open>Many CPUs\<close>

definition work_interleave ::
    "('ms, 'ma, 'mc, 'mp) kernel \<Rightarrow> config \<Rightarrow> nat \<Rightarrow> work list list \<times> ('ms, 'ma, 'mc, 'mp) tracker \<Rightarrow>
     work list list \<times> ('ms, 'ma, 'mc, 'mp) tracker" where
  "work_interleave K cfg i x =
     (let (cs, s) = x
      in if i < length cs
         then (let (ws, s') = work_step K cfg (cs ! i) s in (cs[i := ws], s'))
         else x)"

definition work_schedule ::
    "('ms, 'ma, 'mc, 'mp) kernel \<Rightarrow> config \<Rightarrow> nat list \<Rightarrow>
     work list list \<times> ('ms, 'ma, 'mc, 'mp) tracker \<Rightarrow>
     work list list \<times> ('ms, 'ma, 'mc, 'mp) tracker" where
  "work_schedule K cfg sched x = fold (work_interleave K cfg) sched x"

lemma work_interleave_left:
  "length (fst (work_interleave K cfg i (cs, s))) = length cs"
  "j < length cs \<Longrightarrow>
     work_left (fst (work_interleave K cfg i (cs, s)) ! j) \<le> work_left (cs ! j) - (if j = i then 1 else 0)"
  using work_step_left [of K cfg "cs ! i" s]
  by (auto simp: work_interleave_def split_beta nth_list_update)

lemma work_schedule_left:
  "j < length cs \<Longrightarrow>
     length (fst (work_schedule K cfg sched (cs, s))) = length cs \<and>
     work_left (fst (work_schedule K cfg sched (cs, s)) ! j) \<le> work_left (cs ! j) - count_list sched j"
proof (induction sched arbitrary: cs s)
  case (Cons i sched)
  obtain ds t where step: "work_interleave K cfg i (cs, s) = (ds, t)" by fastforce
  have ds: "length ds = length cs"
    "work_left (ds ! j) \<le> work_left (cs ! j) - (if j = i then 1 else 0)"
    using work_interleave_left [where K = K and cfg = cfg and i = i and cs = cs and s = s] Cons.prems step by (simp_all split: if_splits)
  have "work_schedule K cfg (i # sched) (cs, s) = work_schedule K cfg sched (ds, t)"
    by (simp add: work_schedule_def step)
  with Cons.IH [of ds t] Cons.prems ds show ?case
    by (auto intro: order_trans)
qed (simp add: work_schedule_def)

text \<open>Every program terminates, in a bounded number of its own steps, under every schedule:
  whatever programs run on the other CPUs, in whatever order, and whatever the maps answer, a CPU
  that has made eighteen steps of its program is done.\<close>

theorem programs_terminate:
  assumes "j < length ps" and "18 \<le> count_list sched j"
  shows "fst (work_schedule K cfg sched (map (\<lambda>(I, p). program_work cfg B I p) ps, s)) ! j = []"
proof -
  let ?cs = "map (\<lambda>(I, p). program_work cfg B I p) ps"
  have "work_left (?cs ! j) \<le> 18"
    using assms(1) program_work_left by (simp add: split_beta)
  then have "work_left (fst (work_schedule K cfg sched (?cs, s)) ! j) = 0"
    using work_schedule_left [of j ?cs K cfg sched s] assms by simp
  then show ?thesis by (simp only: work_left_0)
qed

theorem programs_terminate_witness:
  "fst (work_schedule slot_kernel default_config (concat (replicate 18 [0, 1]))
     (map (\<lambda>(I, p). program_work default_config no_btf I p)
        [(call 4096 5, Realloc_enter 8192 64), (call 4096 6, Free_enter 8192)], one_block)) ! 1 = []"
  by (rule programs_terminate) (simp_all add: numeral_eq_Suc)

end
