(* ===== verification/Effects.thy ===== *)
theory Effects
  imports ProgramSteps
begin

text \<open>
  What a program in the middle of its run has still to do, as effects on the contents of the
  maps. Effects on different keys commute, and additions to statistics always do. The two are
  what the independence of concurrent programs rests on.
\<close>

datatype effect =
    Set_size i32 u64 | Del_size i32
  | Set_alloc u64 alloc_info | Del_alloc u64
  | Set_memptr u64 u64 | Del_memptr u64
  | Add_stats u64 combined_alloc_info

fun apply_effect :: "effect \<Rightarrow> contents \<Rightarrow> contents" where
  "apply_effect (Set_size p n) c = c\<lparr>c_sizes := (c_sizes c)(p \<mapsto> n)\<rparr>"
| "apply_effect (Del_size p) c = c\<lparr>c_sizes := (c_sizes c)(p := None)\<rparr>"
| "apply_effect (Set_alloc a i) c = c\<lparr>c_allocs := (c_allocs c)(a \<mapsto> i)\<rparr>"
| "apply_effect (Del_alloc a) c = c\<lparr>c_allocs := (c_allocs c)(a := None)\<rparr>"
| "apply_effect (Set_memptr p m) c = c\<lparr>c_memptrs := (c_memptrs c)(p \<mapsto> m)\<rparr>"
| "apply_effect (Del_memptr p) c = c\<lparr>c_memptrs := (c_memptrs c)(p := None)\<rparr>"
| "apply_effect (Add_stats sid d) c =
     c\<lparr>c_combined := (c_combined c)(sid \<mapsto> stack_stats c sid + d)\<rparr>"

abbreviation apply_effects :: "effect list \<Rightarrow> contents \<Rightarrow> contents" where
  "apply_effects es c \<equiv> fold apply_effect es c"

text \<open>The keys of a request, a block and a saved pointer; statistics are shared.\<close>

datatype key = Size_key i32 | Alloc_key u64 | Memptr_key u64

fun effect_keys :: "effect \<Rightarrow> key set" where
  "effect_keys (Set_size p n) = {Size_key p}" | "effect_keys (Del_size p) = {Size_key p}"
| "effect_keys (Set_alloc a i) = {Alloc_key a}" | "effect_keys (Del_alloc a) = {Alloc_key a}"
| "effect_keys (Set_memptr p m) = {Memptr_key p}" | "effect_keys (Del_memptr p) = {Memptr_key p}"
| "effect_keys (Add_stats sid d) = {}"

definition effects_keys :: "effect list \<Rightarrow> key set" where
  "effects_keys es = (\<Union>e\<in>set es. effect_keys e)"

lemma effects_keys_simps [simp]:
  "effects_keys [] = {}" "effects_keys (e # es) = effect_keys e \<union> effects_keys es"
  "effects_keys (es @ fs) = effects_keys es \<union> effects_keys fs"
  by (auto simp: effects_keys_def)

subsection \<open>Effects commute\<close>

lemma apply_effect_frame:
  "stack_stats (c\<lparr>c_sizes := m\<rparr>) = stack_stats c" "stack_stats (c\<lparr>c_allocs := l\<rparr>) = stack_stats c"
  "stack_stats (c\<lparr>c_memptrs := k\<rparr>) = stack_stats c"
  by (simp_all add: stack_stats_def fun_eq_iff)

lemma stats_commute:
  "apply_effect (Add_stats s d) (apply_effect (Add_stats t e) c) =
   apply_effect (Add_stats t e) (apply_effect (Add_stats s d) c)"
  by (cases "s = t") (auto simp: stack_stats_def ac_simps fun_upd_twist)

lemma effect_commute:
  "effect_keys e \<inter> effect_keys f = {} \<Longrightarrow>
     apply_effect e (apply_effect f c) = apply_effect f (apply_effect e c)"
  by (cases "(e, c)" rule: apply_effect.cases; cases "(f, c)" rule: apply_effect.cases)
    (simp_all add: apply_effect_frame fun_upd_twist stats_commute [simplified])

lemma effects_commute1:
  "effect_keys e \<inter> effects_keys fs = {} \<Longrightarrow>
     apply_effects fs (apply_effect e c) = apply_effect e (apply_effects fs c)"
proof (induction fs arbitrary: c)
  case (Cons f fs)
  then have "apply_effect f (apply_effect e c) = apply_effect e (apply_effect f c)"
    by (intro effect_commute) auto
  then have "apply_effects (f # fs) (apply_effect e c) =
      apply_effects fs (apply_effect e (apply_effect f c))" by simp
  also have "\<dots> = apply_effect e (apply_effects (f # fs) c)"
    using Cons by (simp add: Int_Un_distrib)
  finally show ?case .
qed simp

lemma effects_commute:
  "effects_keys es \<inter> effects_keys fs = {} \<Longrightarrow>
     apply_effects fs (apply_effects es c) = apply_effects es (apply_effects fs c)"
proof (induction es arbitrary: c)
  case (Cons e es)
  have "apply_effects fs (apply_effects es (apply_effect e c)) =
      apply_effects es (apply_effects fs (apply_effect e c))"
    using Cons by (intro Cons.IH) auto
  also have "apply_effects fs (apply_effect e c) = apply_effect e (apply_effects fs c)"
    using Cons.prems by (intro effects_commute1) auto
  finally show ?case by simp
qed simp

text \<open>Contents that agree on a set of keys still do after the same effects.\<close>

definition agree :: "key set \<Rightarrow> contents \<Rightarrow> contents \<Rightarrow> bool" where
  "agree F c d \<longleftrightarrow> (\<forall>p. Size_key p \<in> F \<longrightarrow> c_sizes c p = c_sizes d p) \<and>
     (\<forall>a. Alloc_key a \<in> F \<longrightarrow> c_allocs c a = c_allocs d a) \<and>
     (\<forall>p. Memptr_key p \<in> F \<longrightarrow> c_memptrs c p = c_memptrs d p)"

lemma agree_refl [simp]: "agree F c c"
  by (simp add: agree_def)

lemma agree_mono: "agree F c d \<Longrightarrow> G \<subseteq> F \<Longrightarrow> agree G c d"
  by (auto simp: agree_def)

lemma agree_effect: "agree F c d \<Longrightarrow> agree F (apply_effect e c) (apply_effect e d)"
  by (cases "(e, c)" rule: apply_effect.cases) (auto simp: agree_def)

lemma agree_effects: "agree F c d \<Longrightarrow> agree F (apply_effects es c) (apply_effects es d)"
  by (induction es arbitrary: c d) (simp_all add: agree_effect)

subsection \<open>What is left to do\<close>

definition credit :: "alloc_info \<Rightarrow> effect" where
  "credit i = Add_stats (stack_key i) (combined_of_info (ai_size i) 1)"

definition debit :: "alloc_info \<Rightarrow> effect" where
  "debit i = Add_stats (stack_key i) (- combined_of_info (ai_size i) 1)"

lemma credit_debit_keys [simp]: "effect_keys (credit i) = {}" "effect_keys (debit i) = {}"
  by (simp_all add: credit_def debit_def)

definition free_effects :: "u64 \<Rightarrow> contents \<Rightarrow> effect list" where
  "free_effects a c = (case c_allocs c a of None \<Rightarrow> [] | Some i \<Rightarrow> [Del_alloc a, debit i])"

definition settle_effects :: "config \<Rightarrow> invocation \<Rightarrow> u64 \<Rightarrow> u64 \<Rightarrow> effect list" where
  "settle_effects cfg I a n =
     Del_size (current_pid I) #
       (if a = 0 then [] else [Set_alloc a (exit_info cfg I n), credit (exit_info cfg I n)])"

definition exit_effects :: "config \<Rightarrow> invocation \<Rightarrow> u64 \<Rightarrow> contents \<Rightarrow> effect list" where
  "exit_effects cfg I a c =
     (case c_sizes c (current_pid I) of None \<Rightarrow> [] | Some n \<Rightarrow> settle_effects cfg I a n)"

text \<open>The key of an element, for an address that was looked up.\<close>

definition key_at :: "('m, 'k, 'v) map_ops \<Rightarrow> 'm \<Rightarrow> vptr \<Rightarrow> 'k" where
  "key_at ops m p = (SOME k. lookup_elem ops m k = Some p)"

context bpf_stable_map
begin

lemma key_at_lookup:
  "map_valid ops m \<Longrightarrow> lookup_elem ops m k = Some p \<Longrightarrow> key_at ops m p = k"
  unfolding key_at_def by (rule some_equality) (auto intro: element_of_one_key)

end

end
