(* ===== verification/SerialSteps.thy ===== *)
theory SerialSteps
  imports Effects
begin

text \<open>
  The steps of a program in terms of what it has left to do: a step performs some of the CPU's own
  effects (\<open>work_step_good\<close>), and leaves every other CPU, on other keys, with the same effects
  left and the addresses it holds still valid (\<open>work_unmoved\<close>).
\<close>

subsection \<open>The effects of a CPU\<close>

fun cpu_effects ::
    "('ms, 'ma, 'mc, 'mp) kernel \<Rightarrow> config \<Rightarrow> ('ms, 'ma, 'mc, 'mp) tracker \<Rightarrow> contents \<Rightarrow>
     cpu \<Rightarrow> effect list" where
  "cpu_effects K cfg s c (Free_lookup a) = free_effects a c"
| "cpu_effects K cfg s c (Free_delete a p) = free_effects a c"
| "cpu_effects K cfg s c (Free_read a p) = [debit (elem_load (allocs_ops K) (allocs s) p)]"
| "cpu_effects K cfg s c (Exit_lookup I a) = exit_effects cfg I a c"
| "cpu_effects K cfg s c (Exit_load I a p) = exit_effects cfg I a c"
| "cpu_effects K cfg s c (Exit_delete I a n) = settle_effects cfg I a n"
| "cpu_effects K cfg s c (Exit_store I a i) = [Set_alloc a i, credit i]"
| "cpu_effects K cfg s c (Add_lookup sid n ms) = [Add_stats sid (combined_of_info n 1)]"
| "cpu_effects K cfg s c (Add_insert sid n ms) = [Add_stats sid (combined_of_info n 1)]"
| "cpu_effects K cfg s c (Add_relookup sid n ms) = [Add_stats sid (combined_of_info n 1)]"
| "cpu_effects K cfg s c (Add_fetch p n ms) =
     [Add_stats (key_at (combined_allocs_ops K) (combined_allocs s) p) (combined_of_info n 1)]"
| "cpu_effects K cfg s c (Del_lookup sid n ms) = [Add_stats sid (- combined_of_info n 1)]"
| "cpu_effects K cfg s c (Del_fetch p n ms) =
     [Add_stats (key_at (combined_allocs_ops K) (combined_allocs s) p) (- combined_of_info n 1)]"
| "cpu_effects K cfg s c (Finish ms) = []"
| "cpu_effects K cfg s c Halted = []"

definition memptr_effects :: "config \<Rightarrow> invocation \<Rightarrow> contents \<Rightarrow> effect list" where
  "memptr_effects cfg I c =
     (case c_memptrs c (current_pid64 I) of
        None \<Rightarrow> []
      | Some m \<Rightarrow> Del_memptr (current_pid64 I) #
          (case probe_read_user I m of None \<Rightarrow> [] | Some a \<Rightarrow> exit_effects cfg I a c))"

text \<open>A work item that follows another: it holds no address.\<close>

fun plain :: "work \<Rightarrow> bool" where
  "plain (Core (Exit_lookup I a)) = True"
| "plain (Print fmt args) = True"
| "plain (Note_size p n) = True"
| "plain (Put_memptr p m) = True"
| "plain w = False"

fun item_effects ::
    "('ms, 'ma, 'mc, 'mp) kernel \<Rightarrow> config \<Rightarrow> ('ms, 'ma, 'mc, 'mp) tracker \<Rightarrow> contents \<Rightarrow>
     work \<Rightarrow> effect list" where
  "item_effects K cfg s c (Core x) = cpu_effects K cfg s c x"
| "item_effects K cfg s c (Print fmt args) = []"
| "item_effects K cfg s c (Note_size p n) = [Set_size p n]"
| "item_effects K cfg s c (Put_memptr p m) = [Set_memptr p m]"
| "item_effects K cfg s c (Memptr_lookup I) = memptr_effects cfg I c"
| "item_effects K cfg s c (Memptr_delete I p) = memptr_effects cfg I c"
| "item_effects K cfg s c (Memptr_load I p) =
     (case probe_read_user I (elem_load (memptrs_ops K) (memptrs s) p) of
        None \<Rightarrow> [] | Some a \<Rightarrow> exit_effects cfg I a c)"

fun work_effects ::
    "('ms, 'ma, 'mc, 'mp) kernel \<Rightarrow> config \<Rightarrow> ('ms, 'ma, 'mc, 'mp) tracker \<Rightarrow> contents \<Rightarrow>
     work list \<Rightarrow> effect list" where
  "work_effects K cfg s c [] = []"
| "work_effects K cfg s c (w # ws) =
     item_effects K cfg s c w @
     work_effects K cfg s (apply_effects (item_effects K cfg s c w) c) ws"

subsection \<open>The keys of a CPU\<close>

fun cpu_keys :: "cpu \<Rightarrow> key set" where
  "cpu_keys (Free_lookup a) = {Alloc_key a}" | "cpu_keys (Free_delete a p) = {Alloc_key a}"
| "cpu_keys (Exit_lookup I a) = {Size_key (current_pid I), Alloc_key a}"
| "cpu_keys (Exit_load I a p) = {Size_key (current_pid I), Alloc_key a}"
| "cpu_keys (Exit_delete I a n) = {Size_key (current_pid I), Alloc_key a}"
| "cpu_keys (Exit_store I a i) = {Alloc_key a}"
| "cpu_keys c = {}"

definition pointer_keys :: "invocation \<Rightarrow> u64 \<Rightarrow> key set" where
  "pointer_keys I m =
     {Size_key (current_pid I)} \<union>
     (case probe_read_user I m of None \<Rightarrow> {} | Some a \<Rightarrow> {Alloc_key a})"

definition memptr_keys :: "invocation \<Rightarrow> contents \<Rightarrow> key set" where
  "memptr_keys I c =
     {Memptr_key (current_pid64 I)} \<union>
     (case c_memptrs c (current_pid64 I) of None \<Rightarrow> {} | Some m \<Rightarrow> pointer_keys I m)"

fun item_keys ::
    "('ms, 'ma, 'mc, 'mp) kernel \<Rightarrow> ('ms, 'ma, 'mc, 'mp) tracker \<Rightarrow> work \<Rightarrow> key set" where
  "item_keys K s (Core x) = cpu_keys x"
| "item_keys K s (Print fmt args) = {}"
| "item_keys K s (Note_size p n) = {Size_key p}"
| "item_keys K s (Put_memptr p m) = {Memptr_key p}"
| "item_keys K s (Memptr_lookup I) = memptr_keys I (contents_of K s)"
| "item_keys K s (Memptr_delete I p) = memptr_keys I (contents_of K s)"
| "item_keys K s (Memptr_load I p) = pointer_keys I (elem_load (memptrs_ops K) (memptrs s) p)"

definition work_keys ::
    "('ms, 'ma, 'mc, 'mp) kernel \<Rightarrow> ('ms, 'ma, 'mc, 'mp) tracker \<Rightarrow> work list \<Rightarrow> key set" where
  "work_keys K s ws = (\<Union>w\<in>set ws. item_keys K s w)"

lemma work_keys_simps [simp]:
  "work_keys K s [] = {}" "work_keys K s (w # ws) = item_keys K s w \<union> work_keys K s ws"
  "work_keys K s (vs @ ws) = work_keys K s vs \<union> work_keys K s ws"
  by (auto simp: work_keys_def)

lemma plain_independent:
  "plain w \<Longrightarrow> item_effects K cfg s c w = item_effects K cfg t c w"
  "plain w \<Longrightarrow> item_keys K s w = item_keys K t w"
  by (cases w rule: plain.cases; simp)+

lemma plains_independent:
  "list_all plain ws \<Longrightarrow> work_effects K cfg s c ws = work_effects K cfg t c ws"
  "list_all plain ws \<Longrightarrow> work_keys K s ws = work_keys K t ws"
  by (induction ws arbitrary: c) (simp_all add: plain_independent [where s = s and t = t])

lemma effects_keys_defs [simp]:
  "effects_keys (free_effects a c) \<subseteq> {Alloc_key a}"
  "effects_keys (settle_effects cfg I a n) \<subseteq> {Size_key (current_pid I), Alloc_key a}"
  "effects_keys (exit_effects cfg I a c) \<subseteq> {Size_key (current_pid I), Alloc_key a}"
  by (auto simp: free_effects_def settle_effects_def exit_effects_def split: option.splits if_splits)

lemma cpu_effects_keys: "effects_keys (cpu_effects K cfg s c x) \<subseteq> cpu_keys x"
  using effects_keys_defs by (cases x) (simp_all add: subset_iff)

lemma memptr_effects_keys: "effects_keys (memptr_effects cfg I (contents_of K s)) \<subseteq> memptr_keys I (contents_of K s)"
  using effects_keys_defs
  by (auto simp: memptr_effects_def memptr_keys_def pointer_keys_def subset_iff split: option.split)

text \<open>Shapes of the work of a CPU: what follows the current item is plain, and nothing follows the
  exit of posix_memalign.\<close>

fun is_memptr_exit :: "work \<Rightarrow> bool" where
  "is_memptr_exit (Memptr_lookup I) = True"
| "is_memptr_exit (Memptr_delete I p) = True"
| "is_memptr_exit (Memptr_load I p) = True"
| "is_memptr_exit w = False"

fun shaped :: "work list \<Rightarrow> bool" where
  "shaped [] = True"
| "shaped (w # ws) = (list_all plain ws \<and> (is_memptr_exit w \<longrightarrow> ws = []))"

text \<open>What holds of a CPU in the middle of an operation: the addresses it holds are those of its
  keys, and the statistics it will debit exist.\<close>

definition freeable :: "contents \<Rightarrow> u64 \<Rightarrow> bool" where
  "freeable c a \<longleftrightarrow> (\<forall>i. c_allocs c a = Some i \<longrightarrow> c_combined c (stack_key i) \<noteq> None)"

fun cpu_in_order ::
    "('ms, 'ma, 'mc, 'mp) kernel \<Rightarrow> ('ms, 'ma, 'mc, 'mp) tracker \<Rightarrow> cpu \<Rightarrow> bool" where
  "cpu_in_order K s (Free_lookup a) = freeable (contents_of K s) a"
| "cpu_in_order K s (Free_delete a p) =
     (lookup_elem (allocs_ops K) (allocs s) a = Some p \<and> freeable (contents_of K s) a)"
| "cpu_in_order K s (Free_read a p) =
     (lookup_elem (combined_allocs_ops K) (combined_allocs s)
        (stack_key (elem_load (allocs_ops K) (allocs s) p)) \<noteq> None)"
| "cpu_in_order K s (Exit_lookup I a) = True"
| "cpu_in_order K s (Exit_load I a p) =
     (lookup_elem (sizes_ops K) (sizes s) (current_pid I) = Some p)"
| "cpu_in_order K s (Exit_delete I a n) = True"
| "cpu_in_order K s (Exit_store I a i) = True"
| "cpu_in_order K s c = cpu_ok (combined_allocs_ops K) (combined_allocs s) c"

fun item_in_order ::
    "('ms, 'ma, 'mc, 'mp) kernel \<Rightarrow> ('ms, 'ma, 'mc, 'mp) tracker \<Rightarrow> work \<Rightarrow> bool" where
  "item_in_order K s (Core x) = cpu_in_order K s x"
| "item_in_order K s (Memptr_delete I p) =
     (lookup_elem (memptrs_ops K) (memptrs s) (current_pid64 I) = Some p)"
| "item_in_order K s w = True"

fun work_in_order ::
    "('ms, 'ma, 'mc, 'mp) kernel \<Rightarrow> ('ms, 'ma, 'mc, 'mp) tracker \<Rightarrow> work list \<Rightarrow> bool" where
  "work_in_order K s [] = True"
| "work_in_order K s (w # ws) = (item_in_order K s w \<and> shaped (w # ws))"

lemma plain_in_order: "plain w \<Longrightarrow> item_in_order K s w"
  by (cases w rule: plain.cases) simp_all

lemma plains_in_order: "list_all plain ws \<Longrightarrow> work_in_order K s ws"
  by (cases ws) (auto simp: plain_in_order elim: is_memptr_exit.elims)

text \<open>The entries that a CPU may still add to the maps.\<close>

datatype table = In_sizes | In_allocs | In_combined | In_memptrs

fun entries :: "contents \<Rightarrow> table \<Rightarrow> nat" where
  "entries c In_sizes = card (dom (c_sizes c))"
| "entries c In_allocs = card (dom (c_allocs c))"
| "entries c In_combined = card (dom (c_combined c))"
| "entries c In_memptrs = card (dom (c_memptrs c))"

fun capacity :: "table \<Rightarrow> nat" where
  "capacity In_sizes = sizes_max_entries"
| "capacity In_allocs = allocs_max_entries"
| "capacity In_combined = combined_allocs_max_entries"
| "capacity In_memptrs = memptrs_max_entries"

definition one_of :: "table set \<Rightarrow> table \<Rightarrow> nat" where
  "one_of T t = (if t \<in> T then 1 else 0)"

fun cpu_claims :: "cpu \<Rightarrow> table \<Rightarrow> nat" where
  "cpu_claims (Exit_lookup I a) = one_of {In_allocs, In_combined}"
| "cpu_claims (Exit_load I a p) = one_of {In_allocs, In_combined}"
| "cpu_claims (Exit_delete I a n) = one_of {In_allocs, In_combined}"
| "cpu_claims (Exit_store I a i) = one_of {In_allocs, In_combined}"
| "cpu_claims (Add_lookup k n ms) = one_of {In_combined}"
| "cpu_claims (Add_insert k n ms) = one_of {In_combined}"
| "cpu_claims c = one_of {}"

fun item_claims :: "work \<Rightarrow> table \<Rightarrow> nat" where
  "item_claims (Core x) = cpu_claims x"
| "item_claims (Print fmt args) = one_of {}"
| "item_claims (Note_size p n) = one_of {In_sizes}"
| "item_claims (Put_memptr p m) = one_of {In_memptrs}"
| "item_claims w = one_of {In_allocs, In_combined}"

definition work_claims :: "work list \<Rightarrow> table \<Rightarrow> nat" where
  "work_claims ws t = sum_list (map (\<lambda>w. item_claims w t) ws)"

lemma work_claims_simps [simp]:
  "work_claims [] t = 0" "work_claims (w # ws) t = item_claims w t + work_claims ws t"
  by (simp_all add: work_claims_def)

text \<open>A step that disturbs no key outside \<open>G\<close> and no statistics entry.\<close>

definition undisturbed ::
    "('ms, 'ma, 'mc, 'mp) kernel \<Rightarrow> key set \<Rightarrow> ('ms, 'ma, 'mc, 'mp) tracker \<Rightarrow>
     ('ms, 'ma, 'mc, 'mp) tracker \<Rightarrow> bool" where
  "undisturbed K G s t \<longleftrightarrow>
     (\<forall>p. Size_key p \<notin> G \<longrightarrow>
        lookup_elem (sizes_ops K) (sizes t) p = lookup_elem (sizes_ops K) (sizes s) p) \<and>
     (\<forall>a. Alloc_key a \<notin> G \<longrightarrow>
        lookup_elem (allocs_ops K) (allocs t) a = lookup_elem (allocs_ops K) (allocs s) a) \<and>
     (\<forall>p. Memptr_key p \<notin> G \<longrightarrow>
        lookup_elem (memptrs_ops K) (memptrs t) p = lookup_elem (memptrs_ops K) (memptrs s) p) \<and>
     (\<forall>k p. lookup_elem (combined_allocs_ops K) (combined_allocs s) k = Some p \<longrightarrow>
        lookup_elem (combined_allocs_ops K) (combined_allocs t) k = Some p) \<and>
     agree (- G) (contents_of K s) (contents_of K t)"

lemma undisturbed_refl [simp]: "undisturbed K G s s"
  by (simp add: undisturbed_def)

lemma undisturbed_mono: "undisturbed K G s t \<Longrightarrow> G \<subseteq> H \<Longrightarrow> undisturbed K H s t"
  unfolding undisturbed_def by (meson Compl_subset_Compl_iff agree_mono subset_iff)

fun stores_block :: "work list \<Rightarrow> bool" where
  "stores_block (Core (Exit_store I a i) # ws) = True" | "stores_block ws = False"

fun saves_pointer :: "work list \<Rightarrow> bool" where
  "saves_pointer (Put_memptr p m # ws) = True" | "saves_pointer ws = False"

text \<open>Between deleting a record, or a saved pointer, and reading it.\<close>

fun reads_deleted_block :: "work list \<Rightarrow> bool" where
  "reads_deleted_block (Core (Free_read a p) # ws) = True" | "reads_deleted_block ws = False"

fun reads_deleted_pointer :: "work list \<Rightarrow> bool" where
  "reads_deleted_pointer (Memptr_load I p # ws) = True" | "reads_deleted_pointer ws = False"

subsection \<open>One step of a CPU\<close>

definition cpu_good ::
    "('ms, 'ma, 'mc, 'mp) kernel \<Rightarrow> config \<Rightarrow> ('ms, 'ma, 'mc, 'mp) tracker \<Rightarrow> cpu \<Rightarrow>
     ('ms, 'ma, 'mc, 'mp) tracker \<Rightarrow> cpu \<Rightarrow> bool" where
  "cpu_good K cfg s x t y \<longleftrightarrow> maps_valid K t \<and> cpu_in_order K t y \<and>
     apply_effects (cpu_effects K cfg t (contents_of K t) y) (contents_of K t) =
       apply_effects (cpu_effects K cfg s (contents_of K s) x) (contents_of K s) \<and>
     cpu_keys y \<subseteq> cpu_keys x \<and>
     (\<forall>T. entries (contents_of K t) T + cpu_claims y T \<le> entries (contents_of K s) T + cpu_claims x T) \<and>
     undisturbed K (cpu_keys x) s t \<and>
     (\<not> stores_block [Core x] \<longrightarrow>
        elem_load (allocs_ops K) (allocs t) = elem_load (allocs_ops K) (allocs s)) \<and>
     memptrs t = memptrs s"

lemma contents_of_update:
  "contents_of K (s\<lparr>sizes := z\<rparr>) = (contents_of K s)\<lparr>c_sizes := map_find (sizes_ops K) z\<rparr>"
  "contents_of K (s\<lparr>allocs := l\<rparr>) = (contents_of K s)\<lparr>c_allocs := map_find (allocs_ops K) l\<rparr>"
  "contents_of K (s\<lparr>combined_allocs := m\<rparr>) =
     (contents_of K s)\<lparr>c_combined := map_find (combined_allocs_ops K) m\<rparr>"
  "contents_of K (s\<lparr>memptrs := q\<rparr>) = (contents_of K s)\<lparr>c_memptrs := map_find (memptrs_ops K) q\<rparr>"
  by (simp_all add: contents_of_def)

lemma maps_valid_update:
  assumes "maps_valid K s"
  shows "maps_valid K (s\<lparr>sizes := z\<rparr>) = map_valid (sizes_ops K) z"
    "maps_valid K (s\<lparr>allocs := l\<rparr>) = map_valid (allocs_ops K) l"
    "maps_valid K (s\<lparr>combined_allocs := m\<rparr>) = map_valid (combined_allocs_ops K) m"
    "maps_valid K (s\<lparr>memptrs := q\<rparr>) = map_valid (memptrs_ops K) q"
  using assms by (simp_all add: maps_valid_def)

lemma cpu_stays:
  assumes "maps_valid K s" and "cpu_in_order K s y"
    and "cpu_effects K cfg s (contents_of K s) y = cpu_effects K cfg s (contents_of K s) x"
    and "cpu_keys y \<subseteq> cpu_keys x" and "cpu_claims y = cpu_claims x \<or> cpu_claims y = one_of {}"
  shows "cpu_good K cfg s x s y"
  using assms by (auto simp: cpu_good_def one_of_def)

context memleak_concurrent
begin

lemma valid_parts:
  assumes "maps_valid K s"
  shows "map_valid (sizes_ops K) (sizes s)" "map_valid (allocs_ops K) (allocs s)"
    "map_valid (combined_allocs_ops K) (combined_allocs s)" "map_valid (memptrs_ops K) (memptrs s)"
  using assms by (simp_all add: maps_valid_def)

lemma found_allocs:
  "lookup_elem (allocs_ops K) (allocs s) a = Some p \<Longrightarrow>
     c_allocs (contents_of K s) a = Some (elem_load (allocs_ops K) (allocs s) p)"
  by (simp add: contents_of_simps al.lookup_Some_load)

lemma found_sizes:
  "lookup_elem (sizes_ops K) (sizes s) a = Some p \<Longrightarrow>
     c_sizes (contents_of K s) a = Some (elem_load (sizes_ops K) (sizes s) p)"
  by (simp add: contents_of_simps sz.lookup_Some_load)

lemma found_memptrs:
  "lookup_elem (memptrs_ops K) (memptrs s) a = Some p \<Longrightarrow>
     c_memptrs (contents_of K s) a = Some (elem_load (memptrs_ops K) (memptrs s) p)"
  by (simp add: contents_of_simps mp.lookup_Some_load)

lemma found_combined:
  "lookup_elem (combined_allocs_ops K) (combined_allocs s) a = Some p \<Longrightarrow>
     c_combined (contents_of K s) a = Some (elem_load (combined_allocs_ops K) (combined_allocs s) p)"
  by (simp add: contents_of_simps cm.lookup_Some_load)

lemma combined_None_iff:
  "lookup_elem (combined_allocs_ops K) (combined_allocs s) a = None \<longleftrightarrow>
     c_combined (contents_of K s) a = None"
  by (simp add: contents_of_simps cm.lookup_None_iff)

text \<open>A deletion, an insertion and a store, as steps.\<close>

lemma delete_sizes_step:
  assumes "maps_valid K s" and "t = s\<lparr>sizes := snd (delete_elem (sizes_ops K) (sizes s) p)\<rparr>"
  shows "maps_valid K t" and "contents_of K t = apply_effect (Del_size p) (contents_of K s)"
    and "undisturbed K {Size_key p} s t"
proof -
  note v = valid_parts(1) [OF assms(1)]
  show "maps_valid K t"
    using v by (simp add: assms(2) maps_valid_update [OF assms(1)] sz.delete_valid)
  show "contents_of K t = apply_effect (Del_size p) (contents_of K s)"
    using v by (simp add: assms(2) contents_of_def sz.delete_found)
  show "undisturbed K {Size_key p} s t"
    using v by (auto simp: undisturbed_def contents_of_simps assms(2) sze.delete_other agree_def)
qed

lemma update_sizes_step:
  assumes "maps_valid K s" and "t = s\<lparr>sizes := snd (update_elem (sizes_ops K) (sizes s) p n BPF_ANY)\<rparr>"
    and "card (dom (c_sizes (contents_of K s))) < sizes_max_entries"
  shows "maps_valid K t" and "contents_of K t = apply_effect (Set_size p n) (contents_of K s)"
    and "undisturbed K {Size_key p} s t"
proof -
  note v = valid_parts(1) [OF assms(1)]
  show "maps_valid K t"
    using v by (simp add: assms(2) maps_valid_update [OF assms(1)] sz.update_valid)
  show "contents_of K t = apply_effect (Set_size p n) (contents_of K s)"
    using v assms(3) by (simp add: assms(2) contents_of_def sz.update_any_found bounded_upd_def)
  show "undisturbed K {Size_key p} s t"
    using v by (auto simp: undisturbed_def contents_of_simps assms(2) sze.update_other agree_def)
qed

lemma delete_allocs_step:
  assumes "maps_valid K s" and "t = s\<lparr>allocs := snd (delete_elem (allocs_ops K) (allocs s) a)\<rparr>"
  shows "maps_valid K t" and "contents_of K t = apply_effect (Del_alloc a) (contents_of K s)"
    and "undisturbed K {Alloc_key a} s t"
    and "elem_load (allocs_ops K) (allocs t) = elem_load (allocs_ops K) (allocs s)"
proof -
  note v = valid_parts(2) [OF assms(1)]
  show "maps_valid K t"
    using v by (simp add: assms(2) maps_valid_update [OF assms(1)] al.delete_valid)
  show "contents_of K t = apply_effect (Del_alloc a) (contents_of K s)"
    using v by (simp add: assms(2) contents_of_def al.delete_found)
  show "undisturbed K {Alloc_key a} s t"
    using v by (auto simp: undisturbed_def contents_of_simps assms(2) ale.delete_other agree_def)
  show "elem_load (allocs_ops K) (allocs t) = elem_load (allocs_ops K) (allocs s)"
    using v by (simp add: assms(2) ale.delete_keeps_elements fun_eq_iff)
qed

lemma update_allocs_step:
  assumes "maps_valid K s" and "t = s\<lparr>allocs := snd (update_elem (allocs_ops K) (allocs s) a i BPF_ANY)\<rparr>"
    and "card (dom (c_allocs (contents_of K s))) < allocs_max_entries"
  shows "maps_valid K t" and "contents_of K t = apply_effect (Set_alloc a i) (contents_of K s)"
    and "undisturbed K {Alloc_key a} s t"
proof -
  note v = valid_parts(2) [OF assms(1)]
  show "maps_valid K t"
    using v by (simp add: assms(2) maps_valid_update [OF assms(1)] al.update_valid)
  show "contents_of K t = apply_effect (Set_alloc a i) (contents_of K s)"
    using v assms(3) by (simp add: assms(2) contents_of_def al.update_any_found bounded_upd_def)
  show "undisturbed K {Alloc_key a} s t"
    using v by (auto simp: undisturbed_def contents_of_simps assms(2) ale.update_other agree_def)
qed

lemma delete_memptrs_step:
  assumes "maps_valid K s" and "t = s\<lparr>memptrs := snd (delete_elem (memptrs_ops K) (memptrs s) p)\<rparr>"
  shows "maps_valid K t" and "contents_of K t = apply_effect (Del_memptr p) (contents_of K s)"
    and "undisturbed K {Memptr_key p} s t"
    and "elem_load (memptrs_ops K) (memptrs t) = elem_load (memptrs_ops K) (memptrs s)"
proof -
  note v = valid_parts(4) [OF assms(1)]
  show "maps_valid K t"
    using v by (simp add: assms(2) maps_valid_update [OF assms(1)] mp.delete_valid)
  show "contents_of K t = apply_effect (Del_memptr p) (contents_of K s)"
    using v by (simp add: assms(2) contents_of_def mp.delete_found)
  show "undisturbed K {Memptr_key p} s t"
    using v by (auto simp: undisturbed_def contents_of_simps assms(2) mpe.delete_other agree_def)
  show "elem_load (memptrs_ops K) (memptrs t) = elem_load (memptrs_ops K) (memptrs s)"
    using v by (simp add: assms(2) mpe.delete_keeps_elements fun_eq_iff)
qed

lemma update_memptrs_step:
  assumes "maps_valid K s" and "t = s\<lparr>memptrs := snd (update_elem (memptrs_ops K) (memptrs s) p m BPF_ANY)\<rparr>"
    and "card (dom (c_memptrs (contents_of K s))) < memptrs_max_entries"
  shows "maps_valid K t" and "contents_of K t = apply_effect (Set_memptr p m) (contents_of K s)"
    and "undisturbed K {Memptr_key p} s t"
proof -
  note v = valid_parts(4) [OF assms(1)]
  show "maps_valid K t"
    using v by (simp add: assms(2) maps_valid_update [OF assms(1)] mp.update_valid)
  show "contents_of K t = apply_effect (Set_memptr p m) (contents_of K s)"
    using v assms(3) by (simp add: assms(2) contents_of_def mp.update_any_found bounded_upd_def)
  show "undisturbed K {Memptr_key p} s t"
    using v by (auto simp: undisturbed_def contents_of_simps assms(2) mpe.update_other agree_def)
qed

end

text \<open>Cardinalities after an effect.\<close>

lemma entries_effect:
  assumes "finite (dom (c_sizes c))" "finite (dom (c_allocs c))" "finite (dom (c_combined c))"
    "finite (dom (c_memptrs c))"
  shows "entries (apply_effect (Del_size p) c) T \<le> entries c T"
    "entries (apply_effect (Del_alloc a) c) T \<le> entries c T"
    "entries (apply_effect (Del_memptr q) c) T \<le> entries c T"
    "entries (apply_effect (Set_size p n) c) T \<le> entries c T + one_of {In_sizes} T"
    "entries (apply_effect (Set_alloc a i) c) T \<le> entries c T + one_of {In_allocs} T"
    "entries (apply_effect (Set_memptr q m) c) T \<le> entries c T + one_of {In_memptrs} T"
  using assms
  by (cases T; simp add: one_of_def card_insert_if card_Diff1_le)+

context memleak_concurrent
begin

lemma finite_entries:
  assumes "maps_valid K s"
  shows "finite (dom (c_sizes (contents_of K s)))" "finite (dom (c_allocs (contents_of K s)))"
    "finite (dom (c_combined (contents_of K s)))" "finite (dom (c_memptrs (contents_of K s)))"
  using valid_parts [OF assms]
  by (simp_all add: contents_of_simps sz.finite_contents al.finite_contents cm.finite_contents
      mp.finite_contents)

lemma entries_step:
  assumes "maps_valid K s"
  shows "entries (apply_effect (Del_size p) (contents_of K s)) T \<le> entries (contents_of K s) T"
    "entries (apply_effect (Del_alloc a) (contents_of K s)) T \<le> entries (contents_of K s) T"
    "entries (apply_effect (Del_memptr q) (contents_of K s)) T \<le> entries (contents_of K s) T"
    "entries (apply_effect (Set_size p n) (contents_of K s)) T
       \<le> entries (contents_of K s) T + one_of {In_sizes} T"
    "entries (apply_effect (Set_alloc a i) (contents_of K s)) T
       \<le> entries (contents_of K s) T + one_of {In_allocs} T"
    "entries (apply_effect (Set_memptr q m) (contents_of K s)) T
       \<le> entries (contents_of K s) T + one_of {In_memptrs} T"
  by (rule entries_effect; rule finite_entries [OF assms])+

text \<open>The insertion of a stack's entry, when there is room: the statistics do not change.\<close>

lemma insert_entry_step:
  assumes "maps_valid K s" and "card (dom (c_combined (contents_of K s))) < combined_allocs_max_entries"
    and "update_elem (combined_allocs_ops K) (combined_allocs s) k 0 BPF_NOEXIST = (err, m)"
    and "t = s\<lparr>combined_allocs := m\<rparr>"
  shows "err = 0 \<or> err = - EEXIST" and "maps_valid K t" and "undisturbed K {} s t"
    and "lookup_elem (combined_allocs_ops K) m k \<noteq> None"
    and "apply_effect (Add_stats k d) (contents_of K t) = apply_effect (Add_stats k d) (contents_of K s)"
    and "entries (contents_of K t) T \<le> entries (contents_of K s) T + one_of {In_combined} T"
proof -
  note v = valid_parts(3) [OF assms(1)]
  have m: "m = snd (update_elem (combined_allocs_ops K) (combined_allocs s) k 0 BPF_NOEXIST)"
    and err: "err = fst (update_elem (combined_allocs_ops K) (combined_allocs s) k 0 BPF_NOEXIST)"
    by (simp_all add: assms(3))
  have room: "card (dom (map_find (combined_allocs_ops K) (combined_allocs s)))
      < combined_allocs_max_entries"
    using assms(2) by (simp add: contents_of_simps)
  note one = st.insert_ok [OF v room, where k = k, folded m err]
  show "err = 0 \<or> err = - EEXIST" by (rule one(2))
  show "maps_valid K t"
    using v by (simp add: assms(4) maps_valid_update [OF assms(1)] m cm.update_valid)
  show "undisturbed K {} s t"
    using one(1) by (simp add: undisturbed_def step_ok_def contents_of_simps assms(4) agree_def)
  show "lookup_elem (combined_allocs_ops K) m k \<noteq> None"
    using one(1) by (simp add: step_ok_def)
  show "apply_effect (Add_stats k d) (contents_of K t) = apply_effect (Add_stats k d) (contents_of K s)"
    and "entries (contents_of K t) T \<le> entries (contents_of K s) T + one_of {In_combined} T"
  proof -
    have "map_find (combined_allocs_ops K) m =
        (map_find (combined_allocs_ops K) (combined_allocs s))
          (k \<mapsto> entry_stats (combined_allocs_ops K) (combined_allocs s) k)"
    proof (cases "map_find (combined_allocs_ops K) (combined_allocs s) k")
      case None
      then show ?thesis using st.insert_absent(2) [OF v None room, of 0] by (simp add: m entry_stats_def)
    next
      case (Some w)
      then show ?thesis using st.insert_present(2) [OF v Some, of 0] by (auto simp: m entry_stats_def)
    qed
    then have c: "contents_of K t = (contents_of K s)\<lparr>c_combined :=
        (c_combined (contents_of K s))(k \<mapsto> stack_stats (contents_of K s) k)\<rparr>"
      by (simp add: assms(4) contents_of_update) (simp add: contents_of_simps stack_stats_entry)
    show "apply_effect (Add_stats k d) (contents_of K t) =
        apply_effect (Add_stats k d) (contents_of K s)"
      by (simp add: c) (simp add: stack_stats_def)
    show "entries (contents_of K t) T \<le> entries (contents_of K s) T + one_of {In_combined} T"
      using finite_entries(3) [OF assms(1)] by (cases T) (simp_all add: c one_of_def card_insert_if)
  qed
qed

lemma add_to_entry_step:
  assumes "maps_valid K s" and "lookup_elem (combined_allocs_ops K) (combined_allocs s) k = Some p"
    and "t = s\<lparr>combined_allocs := elem_store (combined_allocs_ops K) (combined_allocs s) p
               (elem_load (combined_allocs_ops K) (combined_allocs s) p + d)\<rparr>"
  shows "maps_valid K t" and "undisturbed K {} s t"
    and "contents_of K t = apply_effect (Add_stats k d) (contents_of K s)"
    and "entries (contents_of K t) T = entries (contents_of K s) T"
proof -
  note v = valid_parts(3) [OF assms(1)]
  show "maps_valid K t"
    using v assms(2) by (simp add: assms(3) maps_valid_update [OF assms(1)] cm.store_valid)
  show "undisturbed K {} s t"
    using st.store_keeps [OF v assms(2)]
    by (simp add: undisturbed_def contents_of_simps assms(3) agree_def)
  note old = found_combined [OF assms(2)]
  show c: "contents_of K t = apply_effect (Add_stats k d) (contents_of K s)"
    using old
    by (simp add: assms(3) contents_of_update cm.store_found [OF v assms(2)] stack_stats_def)
      (simp add: contents_of_def)
  have "dom (c_combined (contents_of K t)) = dom (c_combined (contents_of K s))"
    using old unfolding c by auto
  then show "entries (contents_of K t) T = entries (contents_of K s) T"
    by (cases T) (simp_all add: c)
qed

end

context memleak_concurrent
begin

text \<open>Every step of a CPU in order is good, when there is room for what the CPU may still add.\<close>

lemma free_step_good:
  assumes "maps_valid K s" and "cpu_in_order K s x" and "cpu_step K cfg x s = (y, t)"
    and "x \<in> {Free_lookup a, Free_delete a p, Free_read a p}"
  shows "cpu_good K cfg s x t y"
proof -
  consider "x = Free_lookup a" | "x = Free_delete a p" | "x = Free_read a p" using assms(4) by auto
  then show ?thesis
  proof cases
    case 1
    show ?thesis
    proof (cases "lookup_elem (allocs_ops K) (allocs s) a")
      case None
      then have "t = s" "y = Halted" using assms(3) 1 by auto
      with None show ?thesis
        using assms(1,2) 1 by (auto intro!: cpu_stays simp: free_effects_def contents_of_simps
            al.lookup_None_iff)
    next
      case (Some q)
      then have "t = s" "y = Free_delete a q" using assms(3) 1 by auto
      with Some show ?thesis using assms(1,2) 1 by (auto intro!: cpu_stays)
    qed
  next
    case 2
    then have t: "t = s\<lparr>allocs := snd (delete_elem (allocs_ops K) (allocs s) a)\<rparr>"
      and y: "y = Free_read a p" using assms(3) by auto
    let ?i = "elem_load (allocs_ops K) (allocs s) p"
    have i: "c_allocs (contents_of K s) a = Some ?i" using assms(2) 2 by (simp add: found_allocs)
    note d = delete_allocs_step [OF assms(1) t]
    have "lookup_elem (combined_allocs_ops K) (combined_allocs s) (stack_key ?i) \<noteq> None"
      using assms(2) 2 i by (simp add: freeable_def combined_None_iff)
    then show ?thesis
      using d i entries_step(2) [OF assms(1), of a]
      by (simp add: cpu_good_def 2 y free_effects_def undisturbed_mono) (simp add: t)
  next
    case 3
    then have "t = s" "\<exists>ms. y = Del_lookup (stack_key (elem_load (allocs_ops K) (allocs s) p))
        (ai_size (elem_load (allocs_ops K) (allocs s) p)) ms"
      using assms(3) by (auto simp: Let_def stack_key_def)
    then show ?thesis
      using assms(1,2) 3 by (auto intro!: cpu_stays simp: debit_def)
  qed
qed

lemma exit_step_good:
  assumes "maps_valid K s" and "cpu_in_order K s x" and "cpu_step K cfg x s = (y, t)"
    and "\<And>T. entries (contents_of K s) T + cpu_claims x T \<le> capacity T"
    and "x \<in> {Exit_lookup I a, Exit_load I a p, Exit_delete I a n, Exit_store I a i}"
  shows "cpu_good K cfg s x t y"
proof -
  consider "x = Exit_lookup I a" | "x = Exit_load I a p" | "x = Exit_delete I a n"
    | "x = Exit_store I a i" using assms(5) by auto
  then show ?thesis
  proof cases
    case 1
    show ?thesis
    proof (cases "lookup_elem (sizes_ops K) (sizes s) (current_pid I)")
      case None
      then have "t = s" "y = Halted" using assms(3) 1 by auto
      with None show ?thesis
        using assms(1,2) 1 by (auto intro!: cpu_stays simp: exit_effects_def contents_of_simps
            sz.lookup_None_iff)
    next
      case (Some q)
      then have "t = s" "y = Exit_load I a q" using assms(3) 1 by auto
      with Some show ?thesis using assms(1,2) 1 by (auto intro!: cpu_stays)
    qed
  next
    case 2
    then have "t = s" "y = Exit_delete I a (elem_load (sizes_ops K) (sizes s) p)"
      using assms(3) by auto
    then show ?thesis
      using assms(1,2) 2 found_sizes [of s "current_pid I" p]
      by (auto intro!: cpu_stays simp: exit_effects_def)
  next
    case 3
    let ?t = "s\<lparr>sizes := snd (delete_elem (sizes_ops K) (sizes s) (current_pid I))\<rparr>"
    have t: "t = ?t" using assms(3) 3 by (auto simp: Let_def split: if_splits)
    note d = delete_sizes_step [OF assms(1) t]
    have frame: "allocs t = allocs s" "memptrs t = memptrs s" by (simp_all add: t)
    show ?thesis
    proof (cases "a = 0")
      case True
      then have "\<exists>ms. y = Finish ms" using assms(3) 3 by (auto simp: Let_def)
      then show ?thesis
        using d frame True entries_step(1) [OF assms(1), of "current_pid I"]
        by (auto simp: cpu_good_def 3 settle_effects_def undisturbed_mono trans_le_add1 one_of_def)
    next
      case False
      then have "y = Exit_store I a (exit_info cfg I n)" using assms(3) 3
        by (auto simp: Let_def exit_info_def)
      then show ?thesis
        using d frame False entries_step(1) [OF assms(1), of "current_pid I"]
        by (auto simp: cpu_good_def 3 settle_effects_def undisturbed_mono)
    qed
  next
    case 4
    then have t: "t = s\<lparr>allocs := snd (update_elem (allocs_ops K) (allocs s) a i BPF_ANY)\<rparr>"
      and y: "\<exists>ms. y = Add_lookup (stack_key i) (ai_size i) ms"
      using assms(3) by (auto simp: stack_key_def)
    have "card (dom (c_allocs (contents_of K s))) < allocs_max_entries"
      using assms(4) [of In_allocs] 4 by (simp add: one_of_def)
    note d = update_allocs_step [OF assms(1) t this]
    have "entries (contents_of K t) T + one_of {In_combined} T
        \<le> entries (contents_of K s) T + one_of {In_allocs, In_combined} T" for T
      using entries_step(5) [OF assms(1), of a i T] d(2) by (cases T) (simp_all add: one_of_def)
    then show ?thesis
      using d y by (auto simp: cpu_good_def 4 credit_def) (simp_all add: t)
  qed
qed

lemma stats_step_good:
  assumes "maps_valid K s" and "cpu_ok (combined_allocs_ops K) (combined_allocs s) x"
    and "cpu_step K cfg x s = (y, t)"
    and "\<And>T. entries (contents_of K s) T + cpu_claims x T \<le> capacity T"
  shows "cpu_good K cfg s x t y"
proof -
  let ?ops = "combined_allocs_ops K" and ?m = "combined_allocs s"
  note v = valid_parts(3) [OF assms(1)]
  have sub: "Combined (bits u - bits w) = u + - w" and add: "Combined (bits u + bits w) = u + w"
    for u w by (simp_all add: combined_eq_iff uminus_combined_alloc_info_def)
  show ?thesis
  proof (cases x)
    case (Add_lookup k n ms)
    then show ?thesis
      using assms(1,3) st.key_at_lookup [OF v]
      by (auto split: option.splits intro!: cpu_stays)
  next
    case (Add_insert k n ms)
    obtain err m where upd: "update_elem ?ops ?m k 0 BPF_NOEXIST = (err, m)" by fastforce
    have "card (dom (c_combined (contents_of K s))) < combined_allocs_max_entries"
      using assms(4) [of In_combined] Add_insert by (simp add: one_of_def)
    note d = insert_entry_step [OF assms(1) this upd refl]
    have "y = Add_relookup k n ms" "t = s\<lparr>combined_allocs := m\<rparr>"
      using assms(3) d(1) Add_insert by (auto simp: upd Let_def split: if_splits)
    with d show ?thesis by (simp add: cpu_good_def Add_insert undisturbed_mono one_of_def)
  next
    case (Add_relookup k n ms)
    then show ?thesis
      using assms(1-3) st.key_at_lookup [OF v]
      by (auto split: option.splits intro!: cpu_stays)
  next
    case (Add_fetch p n ms)
    then obtain k where k: "lookup_elem ?ops ?m k = Some p" using assms(2) by auto
    have t: "t = s\<lparr>combined_allocs := elem_store ?ops ?m p (elem_load ?ops ?m p + combined_of_info n 1)\<rparr>"
      and y: "y = Finish ms" using assms(3) Add_fetch by (auto simp: Let_def add)
    note d = add_to_entry_step [OF assms(1) k t]
    from d st.key_at_lookup [OF v k] show ?thesis
      by (simp add: cpu_good_def Add_fetch y one_of_def) (simp add: t)
  next
    case (Del_lookup k n ms)
    then show ?thesis
      using assms(1-3) st.key_at_lookup [OF v]
      by (auto split: option.splits intro!: cpu_stays)
  next
    case (Del_fetch p n ms)
    then obtain k where k: "lookup_elem ?ops ?m k = Some p" using assms(2) by auto
    have t: "t = s\<lparr>combined_allocs := elem_store ?ops ?m p (elem_load ?ops ?m p + - combined_of_info n 1)\<rparr>"
      and y: "y = Finish ms" using assms(3) Del_fetch
      by (auto simp: Let_def sub simp del: add_uminus_conv_diff)
    note d = add_to_entry_step [OF assms(1) k t]
    from d st.key_at_lookup [OF v k] show ?thesis
      by (simp add: cpu_good_def Del_fetch y one_of_def) (simp add: t)
  next
    case (Finish ms)
    have "contents_of K (print_all ms s) = contents_of K s" by (rule contents_of_print_all)
    then show ?thesis
      using assms(1,3) Finish
      by (auto simp: cpu_good_def undisturbed_def maps_valid_def one_of_def)
  next
    case Halted
    then show ?thesis using assms(1,3) by (auto intro!: cpu_stays)
  qed (use assms(2) in simp_all)
qed

lemma cpu_step_good:
  assumes "maps_valid K s" and "cpu_in_order K s x" and "cpu_step K cfg x s = (y, t)"
    and "\<And>T. entries (contents_of K s) T + cpu_claims x T \<le> capacity T"
  shows "cpu_good K cfg s x t y"
  using assms(2) free_step_good [OF assms(1-3)] exit_step_good [OF assms(1-4)]
    stats_step_good [OF assms(1) _ assms(3,4)]
  by (cases x) simp_all

end

subsection \<open>One step of a program\<close>

definition work_good ::
    "('ms, 'ma, 'mc, 'mp) kernel \<Rightarrow> config \<Rightarrow> ('ms, 'ma, 'mc, 'mp) tracker \<Rightarrow> work list \<Rightarrow>
     ('ms, 'ma, 'mc, 'mp) tracker \<Rightarrow> work list \<Rightarrow> bool" where
  "work_good K cfg s ws t vs \<longleftrightarrow> maps_valid K t \<and> work_in_order K t vs \<and>
     apply_effects (work_effects K cfg t (contents_of K t) vs) (contents_of K t) =
       apply_effects (work_effects K cfg s (contents_of K s) ws) (contents_of K s) \<and>
     work_keys K t vs \<subseteq> work_keys K s ws \<and>
     (\<forall>T. entries (contents_of K t) T + work_claims vs T
          \<le> entries (contents_of K s) T + work_claims ws T) \<and>
     undisturbed K (work_keys K s ws) s t \<and>
     (\<not> stores_block ws \<longrightarrow>
        elem_load (allocs_ops K) (allocs t) = elem_load (allocs_ops K) (allocs s)) \<and>
     (\<not> saves_pointer ws \<longrightarrow>
        elem_load (memptrs_ops K) (memptrs t) = elem_load (memptrs_ops K) (memptrs s))"

lemma stores_block_Core: "stores_block (Core x # ws) = stores_block [Core x]"
  by (cases x) simp_all

lemma exit_effects_cong:
  "c_sizes c (current_pid I) = c_sizes d (current_pid I) \<Longrightarrow> exit_effects cfg I a c = exit_effects cfg I a d"
  by (simp add: exit_effects_def)

context memleak_concurrent
begin

lemma core_work_good:
  assumes "maps_valid K s" and "work_in_order K s (Core x # ws)"
    and "cpu_step K cfg x s = (y, t)"
    and "\<And>T. entries (contents_of K s) T + work_claims (Core x # ws) T \<le> capacity T"
  shows "work_good K cfg s (Core x # ws) t (if y = Halted then ws else Core y # ws)"
proof -
  have good: "cpu_good K cfg s x t y"
  proof (rule cpu_step_good [OF assms(1) _ assms(3)])
    show "cpu_in_order K s x" using assms(2) by simp
    show "entries (contents_of K s) T + cpu_claims x T \<le> capacity T" for T
      using assms(4) [of T] by simp
  qed
  have plain: "list_all plain ws" using assms(2) by simp
  have tail: "work_effects K cfg t c ws = work_effects K cfg s c ws" "work_keys K t ws = work_keys K s ws"
    for c using plains_independent [OF plain] by blast+
  have "work_good K cfg s (Core x # ws) t (Core y # ws)"
    unfolding work_good_def
  proof (intro conjI allI impI)
    show "undisturbed K (work_keys K s (Core x # ws)) s t"
      using good by (auto simp: cpu_good_def intro: undisturbed_mono)
    show "entries (contents_of K t) T + work_claims (Core y # ws) T
        \<le> entries (contents_of K s) T + work_claims (Core x # ws) T" for T
      using good by (simp add: cpu_good_def)
    show "\<not> stores_block (Core x # ws) \<Longrightarrow>
        elem_load (allocs_ops K) (allocs t) = elem_load (allocs_ops K) (allocs s)"
      using good stores_block_Core [of x ws] by (simp add: cpu_good_def)
  qed (use good plain tail in \<open>auto simp: cpu_good_def\<close>)
  moreover have "work_good K cfg s (Core x # ws) t (Core Halted # ws) \<Longrightarrow>
      work_good K cfg s (Core x # ws) t ws"
    using plains_in_order [OF plain] by (simp add: work_good_def one_of_def)
  ultimately show ?thesis by auto
qed

lemma memptr_work_good:
  assumes "maps_valid K s" and "work_in_order K s ws"
    and "work_step K cfg ws s = (vs, t)"
    and "ws \<in> {[Memptr_lookup I], [Memptr_delete I p], [Memptr_load I p]}"
  shows "work_good K cfg s ws t vs"
proof -
  consider "ws = [Memptr_lookup I]" | "ws = [Memptr_delete I p]" | "ws = [Memptr_load I p]"
    using assms(4) by auto
  then show ?thesis
  proof cases
    case 1
    then show ?thesis
      using assms(1,3)
      by (cases "lookup_elem (memptrs_ops K) (memptrs s) (current_pid64 I)")
        (auto simp: work_good_def memptr_effects_def contents_of_simps mp.lookup_None_iff one_of_def)
  next
    case 2
    let ?m = "elem_load (memptrs_ops K) (memptrs s) p"
    have t: "t = s\<lparr>memptrs := snd (delete_elem (memptrs_ops K) (memptrs s) (current_pid64 I))\<rparr>"
      and vs: "vs = [Memptr_load I p]" using assms(3) 2 by auto
    have m: "c_memptrs (contents_of K s) (current_pid64 I) = Some ?m"
      using assms(2) 2 by (simp add: found_memptrs)
    note d = delete_memptrs_step [OF assms(1) t]
    have "exit_effects cfg I a (contents_of K t) = exit_effects cfg I a (contents_of K s)" for a
      by (rule exit_effects_cong) (simp add: d(2))
    then show ?thesis
      using d m entries_step(3) [OF assms(1), of "current_pid64 I"]
      by (auto simp: work_good_def 2 vs memptr_effects_def memptr_keys_def one_of_def
          intro: undisturbed_mono split: option.split) (simp add: t)
  next
    case 3
    then show ?thesis
      using assms(1,3)
      by (auto simp: work_good_def pointer_keys_def one_of_def split: option.splits)
  qed
qed

lemma work_step_good:
  assumes "maps_valid K s" and "work_in_order K s ws" and "work_step K cfg ws s = (vs, t)"
    and "\<And>T. entries (contents_of K s) T + work_claims ws T \<le> capacity T"
  shows "work_good K cfg s ws t vs"
proof (cases ws)
  case Nil
  then show ?thesis using assms(1,3) by (simp add: work_good_def)
next
  case (Cons w us)
  have plain: "list_all plain us" using assms(2) Cons by simp
  note order = plains_in_order [OF plain]
  have tail: "work_effects K cfg r c us = work_effects K cfg s c us" "work_keys K r us = work_keys K s us"
    for c r using plains_independent [OF plain] by blast+
  show ?thesis
  proof (cases w)
    case (Core x)
    then show ?thesis
      using assms Cons core_work_good [OF assms(1), of x us]
      by (auto simp: split_beta)
  next
    case (Print fmt args)
    then show ?thesis
      using assms(1,3) Cons order tail [of t]
      by (auto simp: work_good_def undisturbed_def one_of_def)
  next
    case (Note_size p n)
    have t: "t = s\<lparr>sizes := snd (update_elem (sizes_ops K) (sizes s) p n BPF_ANY)\<rparr>" "vs = us"
      using assms(3) Cons Note_size by auto
    have "card (dom (c_sizes (contents_of K s))) < sizes_max_entries"
      using assms(4) [of In_sizes] Cons Note_size by (simp add: one_of_def)
    note d = update_sizes_step [OF assms(1) t(1) this]
    have "entries (contents_of K t) T + work_claims us T
        \<le> entries (contents_of K s) T + (one_of {In_sizes} T + work_claims us T)" for T
      using entries_step(4) [OF assms(1), of p n T] by (simp add: d(2))
    then show ?thesis
      using d order tail [of t] Cons Note_size
      by (auto simp: work_good_def t(2) intro: undisturbed_mono) (simp_all add: t(1))
  next
    case (Put_memptr p n)
    have t: "t = s\<lparr>memptrs := snd (update_elem (memptrs_ops K) (memptrs s) p n BPF_ANY)\<rparr>" "vs = us"
      using assms(3) Cons Put_memptr by auto
    have "card (dom (c_memptrs (contents_of K s))) < memptrs_max_entries"
      using assms(4) [of In_memptrs] Cons Put_memptr by (simp add: one_of_def)
    note d = update_memptrs_step [OF assms(1) t(1) this]
    have "entries (contents_of K t) T + work_claims us T
        \<le> entries (contents_of K s) T + (one_of {In_memptrs} T + work_claims us T)" for T
      using entries_step(6) [OF assms(1), of p n T] by (simp add: d(2))
    then show ?thesis
      using d order tail [of t] Cons Put_memptr
      by (auto simp: work_good_def t(2) intro: undisturbed_mono) (simp_all add: t(1))
  qed (use assms Cons memptr_work_good [OF assms(1-3)] in auto)
qed

end

subsection \<open>One step and the other CPUs\<close>

lemma plains_cong:
  "list_all plain ws \<Longrightarrow> agree (work_keys K s ws) c d \<Longrightarrow>
     work_effects K cfg s c ws = work_effects K cfg s d ws"
proof (induction ws arbitrary: c d)
  case (Cons w ws)
  have "item_effects K cfg s c w = item_effects K cfg s d w"
    using Cons.prems by (cases w rule: plain.cases) (auto simp: agree_def intro: exit_effects_cong)
  moreover have "agree (work_keys K s ws) (apply_effects es c) (apply_effects es d)" for es
    using Cons.prems(2) by (intro agree_effects) (auto elim: agree_mono)
  ultimately show ?case using Cons by simp
qed simp

text \<open>What one CPU does leaves the others in order, with the same effects and keys.\<close>

definition unmoved ::
    "('ms, 'ma, 'mc, 'mp) kernel \<Rightarrow> config \<Rightarrow> ('ms, 'ma, 'mc, 'mp) tracker \<Rightarrow>
     ('ms, 'ma, 'mc, 'mp) tracker \<Rightarrow> work list \<Rightarrow> bool" where
  "unmoved K cfg s t ws \<longleftrightarrow> work_in_order K t ws \<and>
     work_effects K cfg t (contents_of K t) ws = work_effects K cfg s (contents_of K s) ws \<and>
     work_keys K t ws = work_keys K s ws"

context memleak_concurrent
begin

lemma combined_persists:
  assumes "undisturbed K G s t" and "c_combined (contents_of K s) k \<noteq> None"
  shows "c_combined (contents_of K t) k \<noteq> None"
  using assms by (auto simp: undisturbed_def combined_None_iff [symmetric])

lemma cpu_unmoved:
  assumes "maps_valid K s" and "maps_valid K t" and "undisturbed K G s t"
    and "cpu_in_order K s x" and "cpu_keys x \<inter> G = {}"
    and "reads_deleted_block [Core x] \<longrightarrow>
      elem_load (allocs_ops K) (allocs t) = elem_load (allocs_ops K) (allocs s)"
  shows "cpu_in_order K t x \<and>
    cpu_effects K cfg t (contents_of K t) x = cpu_effects K cfg s (contents_of K s) x"
proof -
  have lookups:
    "\<And>p. Size_key p \<notin> G \<Longrightarrow>
       lookup_elem (sizes_ops K) (sizes t) p = lookup_elem (sizes_ops K) (sizes s) p"
    "\<And>a. Alloc_key a \<notin> G \<Longrightarrow>
       lookup_elem (allocs_ops K) (allocs t) a = lookup_elem (allocs_ops K) (allocs s) a"
    "\<And>k p. lookup_elem (combined_allocs_ops K) (combined_allocs s) k = Some p \<Longrightarrow>
       lookup_elem (combined_allocs_ops K) (combined_allocs t) k = Some p"
    "\<And>p. Size_key p \<notin> G \<Longrightarrow> c_sizes (contents_of K t) p = c_sizes (contents_of K s) p"
    "\<And>a. Alloc_key a \<notin> G \<Longrightarrow> c_allocs (contents_of K t) a = c_allocs (contents_of K s) a"
    using assms(3) by (simp_all add: undisturbed_def agree_def)
  have key: "key_at (combined_allocs_ops K) (combined_allocs t) p =
      key_at (combined_allocs_ops K) (combined_allocs s) p"
    if "lookup_elem (combined_allocs_ops K) (combined_allocs s) k = Some p" for k p
    using st.key_at_lookup [OF valid_parts(3) [OF assms(1)] that]
      st.key_at_lookup [OF valid_parts(3) [OF assms(2)] lookups(3) [OF that]] by simp
  have freeable: "freeable (contents_of K t) a"
    if "freeable (contents_of K s) a" "Alloc_key a \<notin> G" for a
    using that lookups(5) combined_persists [OF assms(3)] by (simp add: freeable_def)
  show ?thesis
  proof (cases x)
    case (Free_read a p)
    then show ?thesis using assms(4,6) lookups(3) by auto
  next
    case (Add_fetch p n ms)
    then obtain k where k: "lookup_elem (combined_allocs_ops K) (combined_allocs s) k = Some p"
      using assms(4) by auto
    show ?thesis using Add_fetch lookups(3) [OF k] key [OF k] by auto
  next
    case (Del_fetch p n ms)
    then obtain k where k: "lookup_elem (combined_allocs_ops K) (combined_allocs s) k = Some p"
      using assms(4) by auto
    show ?thesis using Del_fetch lookups(3) [OF k] key [OF k] by auto
  qed (use assms(4,5) lookups freeable in \<open>auto simp: free_effects_def exit_effects_def\<close>)
qed

lemma memptr_unmoved:
  assumes "undisturbed K G s t" and "memptr_keys I (contents_of K s) \<inter> G = {}"
  shows "memptr_effects cfg I (contents_of K t) = memptr_effects cfg I (contents_of K s)"
    and "memptr_keys I (contents_of K t) = memptr_keys I (contents_of K s)"
proof -
  have m: "c_memptrs (contents_of K t) (current_pid64 I) = c_memptrs (contents_of K s) (current_pid64 I)"
    using assms by (simp add: undisturbed_def agree_def memptr_keys_def)
  then show "memptr_keys I (contents_of K t) = memptr_keys I (contents_of K s)"
    by (simp add: memptr_keys_def)
  show "memptr_effects cfg I (contents_of K t) = memptr_effects cfg I (contents_of K s)"
  proof (cases "c_memptrs (contents_of K s) (current_pid64 I)")
    case (Some a)
    then have "Size_key (current_pid I) \<notin> G"
      using assms(2) by (simp add: memptr_keys_def pointer_keys_def)
    then have "exit_effects cfg I b (contents_of K t) = exit_effects cfg I b (contents_of K s)" for b
      using assms(1) by (intro exit_effects_cong) (simp add: undisturbed_def agree_def)
    then show ?thesis using m by (simp add: memptr_effects_def split: option.split)
  qed (simp add: memptr_effects_def m)
qed

lemma item_unmoved:
  assumes "maps_valid K s" and "maps_valid K t" and "undisturbed K G s t"
    and "item_in_order K s w" and "item_keys K s w \<inter> G = {}"
    and "reads_deleted_block [w] \<longrightarrow>
      elem_load (allocs_ops K) (allocs t) = elem_load (allocs_ops K) (allocs s)"
    and "reads_deleted_pointer [w] \<longrightarrow>
      elem_load (memptrs_ops K) (memptrs t) = elem_load (memptrs_ops K) (memptrs s)"
  shows "item_in_order K t w \<and>
    item_effects K cfg t (contents_of K t) w = item_effects K cfg s (contents_of K s) w \<and>
    item_keys K t w = item_keys K s w"
proof (cases w)
  case (Core x)
  then show ?thesis using cpu_unmoved [OF assms(1-3), of x] assms(4-6) by simp
next
  case (Memptr_lookup I)
  then show ?thesis using memptr_unmoved [OF assms(3)] assms(5) by simp
next
  case (Memptr_delete I p)
  moreover have "Memptr_key (current_pid64 I) \<notin> G"
    using Memptr_delete assms(5) by (auto simp: memptr_keys_def)
  ultimately show ?thesis
    using memptr_unmoved [OF assms(3)] assms(3-5) by (simp add: undisturbed_def)
next
  case (Memptr_load I p)
  then have "Size_key (current_pid I) \<notin> G" using assms(5) by (auto simp: pointer_keys_def)
  then have "exit_effects cfg I a (contents_of K t) = exit_effects cfg I a (contents_of K s)" for a
    using assms(3) by (intro exit_effects_cong) (simp add: undisturbed_def agree_def)
  then show ?thesis using Memptr_load assms(7) by (simp split: option.split)
qed simp_all

lemma work_unmoved:
  assumes "maps_valid K s" and "maps_valid K t" and "undisturbed K G s t"
    and "work_in_order K s ws" and "work_keys K s ws \<inter> G = {}"
    and "reads_deleted_block ws \<longrightarrow>
      elem_load (allocs_ops K) (allocs t) = elem_load (allocs_ops K) (allocs s)"
    and "reads_deleted_pointer ws \<longrightarrow>
      elem_load (memptrs_ops K) (memptrs t) = elem_load (memptrs_ops K) (memptrs s)"
  shows "unmoved K cfg s t ws"
proof (cases ws)
  case (Cons w us)
  have "reads_deleted_block [w] = reads_deleted_block (w # us)"
    "reads_deleted_pointer [w] = reads_deleted_pointer (w # us)"
    by (cases "w # us" rule: reads_deleted_block.cases; cases "w # us" rule: reads_deleted_pointer.cases;
      simp)+
  then have head: "item_in_order K t w"
    "item_effects K cfg t (contents_of K t) w = item_effects K cfg s (contents_of K s) w"
    "item_keys K t w = item_keys K s w"
    using item_unmoved [OF assms(1-3), of w] assms(4-7) Cons by (auto simp: Int_Un_distrib2)
  have plain: "list_all plain us" using assms(4) Cons by simp
  have "agree (work_keys K s us) (contents_of K s) (contents_of K t)"
    using assms(3,5) Cons by (auto simp: undisturbed_def elim!: agree_mono)
  then have "work_effects K cfg s (apply_effects es (contents_of K t)) us =
      work_effects K cfg s (apply_effects es (contents_of K s)) us" for es
    by (intro plains_cong [OF plain, symmetric] agree_effects)
  then show ?thesis
    using head assms(4) plains_independent [OF plain, where s = t and t = s] Cons
    by (simp add: unmoved_def)
qed (simp add: unmoved_def)

end

end
