(* ===== verification/Serial.thy ===== *)
theory Serial
  imports SerialSteps
begin

text \<open>
  Programs that run at the same time on several CPUs, against the same programs one after the
  other. Each CPU is described by what it has left to do, as effects on the contents; a step
  of a CPU performs some of its own effects and disturbs nobody else's. So the contents that
  all of them will have come to in the end are the same at every moment of every schedule, and
  the same in the schedule that runs one program after the other.
\<close>

subsection \<open>Schedules\<close>

text \<open>A CPU's effects can be performed first.\<close>

lemma effects_keys_concat: "effects_keys (concat ess) = (\<Union>es\<in>set ess. effects_keys es)"
  by (induction ess) simp_all

lemma effects_first:
  assumes "i < length ess"
    and "\<And>j. j < length ess \<Longrightarrow> j \<noteq> i \<Longrightarrow> effects_keys (ess ! i) \<inter> effects_keys (ess ! j) = {}"
  shows "apply_effects (concat ess) c = apply_effects (concat (ess[i := []])) (apply_effects (ess ! i) c)"
proof -
  have "effects_keys (ess ! i) \<inter> effects_keys es = {}" if es: "es \<in> set (take i ess)" for es
  proof -
    from es obtain j where "j < i" "es = ess ! j" by (auto simp: in_set_conv_nth)
    then show ?thesis using assms by simp
  qed
  then have "effects_keys (ess ! i) \<inter> effects_keys (concat (take i ess)) = {}"
    by (auto simp: effects_keys_concat)
  from effects_commute [OF this]
  have "apply_effects (concat (take i ess @ ess ! i # drop (Suc i) ess)) c =
      apply_effects (concat (take i ess @ [] # drop (Suc i) ess)) (apply_effects (ess ! i) c)"
    by simp
  then show ?thesis using assms(1) by (simp add: id_take_nth_drop [symmetric] upd_conv_take_nth_drop)
qed

text \<open>The invariant of a schedule: \<open>G\<close> is what the contents will come to.\<close>

definition serial_ok ::
    "('ms, 'ma, 'mc, 'mp) kernel \<Rightarrow> config \<Rightarrow> contents \<Rightarrow>
     work list list \<times> ('ms, 'ma, 'mc, 'mp) tracker \<Rightarrow> bool" where
  "serial_ok K cfg G x \<longleftrightarrow> (case x of (cs, s) \<Rightarrow>
     maps_valid K s \<and> (\<forall>ws\<in>set cs. work_in_order K s ws) \<and>
     (\<forall>i < length cs. \<forall>j < length cs. i \<noteq> j \<longrightarrow>
        work_keys K s (cs ! i) \<inter> work_keys K s (cs ! j) = {}) \<and>
     (\<forall>T. entries (contents_of K s) T + sum_list (map (\<lambda>ws. work_claims ws T) cs) \<le> capacity T) \<and>
     apply_effects (concat (map (work_effects K cfg s (contents_of K s)) cs)) (contents_of K s) = G)"

text \<open>A step that takes no element out from under a CPU that will still read it: no insertion
  between a deletion and the read of what was deleted.\<close>

definition quiet_step :: "work list list \<Rightarrow> nat \<Rightarrow> bool" where
  "quiet_step cs i \<longleftrightarrow>
     (\<forall>j < length cs. j \<noteq> i \<longrightarrow>
        \<not> (stores_block (cs ! i) \<and> reads_deleted_block (cs ! j)) \<and>
        \<not> (saves_pointer (cs ! i) \<and> reads_deleted_pointer (cs ! j)))"

fun quiet ::
    "('ms, 'ma, 'mc, 'mp) kernel \<Rightarrow> config \<Rightarrow> nat list \<Rightarrow>
     work list list \<times> ('ms, 'ma, 'mc, 'mp) tracker \<Rightarrow> bool" where
  "quiet K cfg [] x = True"
| "quiet K cfg (i # sched) x =
     ((i < length (fst x) \<longrightarrow> quiet_step (fst x) i) \<and> quiet K cfg sched (work_interleave K cfg i x))"

text \<open>Schedules without releases, and schedules without recording, are quiet whatever their order.\<close>

fun tame_cpu :: "cpu \<Rightarrow> bool" where
  "tame_cpu (Free_lookup a) = False" | "tame_cpu (Free_delete a p) = False"
| "tame_cpu (Free_read a p) = False" | "tame_cpu c = True"

fun tame :: "work \<Rightarrow> bool" where
  "tame (Core c) = tame_cpu c" | "tame w = (\<not> is_memptr_exit w)"

lemma tame_cpu_step: "tame_cpu c \<Longrightarrow> tame_cpu (fst (cpu_step K cfg c s))"
  by (cases "(K, cfg, c, s)" rule: cpu_step.cases) (auto simp: Let_def split: option.split prod.split)

lemma tame_work_step: "list_all tame ws \<Longrightarrow> list_all tame (fst (work_step K cfg ws s))"
  using tame_cpu_step
  by (cases "(K, cfg, ws, s)" rule: work_step.cases) (fastforce simp: split_beta)+

lemma tame_calm:
  "list_all tame ws \<Longrightarrow> \<not> reads_deleted_block ws \<and> \<not> reads_deleted_pointer ws"
  by (cases ws rule: reads_deleted_block.cases; cases ws rule: reads_deleted_pointer.cases) auto

lemma quiet_recording:
  "list_all (list_all tame) (fst x) \<Longrightarrow> quiet K cfg sched x"
proof (induction sched arbitrary: x)
  case (Cons i sched)
  have "list_all (list_all tame) (fst (work_interleave K cfg i x))"
  proof (cases "i < length (fst x)")
    case True
    then have "list_all tame (fst (work_step K cfg (fst x ! i) (snd x)))"
      using Cons.prems by (intro tame_work_step) (simp add: list_all_length)
    then show ?thesis
      using Cons.prems True set_update_subset_insert [of "fst x" i]
      by (fastforce simp: work_interleave_def split_beta list_all_iff)
  qed (use Cons.prems in \<open>simp add: work_interleave_def split_beta\<close>)
  moreover have "quiet_step (fst x) i"
    using Cons.prems tame_calm by (fastforce simp: quiet_step_def list_all_length)
  ultimately show ?case using Cons.IH by simp
qed simp

lemma item_effects_keys: "effects_keys (item_effects K cfg s (contents_of K s) w) \<subseteq> item_keys K s w"
proof (cases w)
  case (Core x)
  then show ?thesis using cpu_effects_keys by simp
next
  case (Memptr_load I p)
  then show ?thesis
    using effects_keys_defs by (auto simp: pointer_keys_def subset_iff split: option.split)
qed (simp_all add: memptr_effects_keys)

lemma plain_effects_keys: "plain w \<Longrightarrow> effects_keys (item_effects K cfg s c w) \<subseteq> item_keys K s w"
  using effects_keys_defs by (cases w rule: plain.cases) (auto simp: subset_iff)

lemma plains_effects_keys:
  "list_all plain ws \<Longrightarrow> effects_keys (work_effects K cfg s c ws) \<subseteq> work_keys K s ws"
  by (induction ws arbitrary: c) (auto dest!: plain_effects_keys [THEN subsetD, rotated])

lemma work_effects_keys:
  assumes "work_in_order K s ws"
  shows "effects_keys (work_effects K cfg s (contents_of K s) ws) \<subseteq> work_keys K s ws"
proof (cases ws)
  case (Cons w us)
  then show ?thesis
    using assms item_effects_keys [of K cfg s w]
      plains_effects_keys [of us K cfg s "apply_effects (item_effects K cfg s (contents_of K s) w) (contents_of K s)"]
    by auto
qed simp

context memleak_concurrent
begin

lemma interleave_serial:
  assumes "serial_ok K cfg G (cs, s)" and "i < length cs \<longrightarrow> quiet_step cs i"
  shows "serial_ok K cfg G (work_interleave K cfg i (cs, s))"
proof (cases "i < length cs")
  case False
  then show ?thesis using assms(1) by (simp add: work_interleave_def)
next
  case True
  obtain vs t where step: "work_step K cfg (cs ! i) s = (vs, t)" by fastforce
  from assms(1) have inv: "maps_valid K s" "\<And>ws. ws \<in> set cs \<Longrightarrow> work_in_order K s ws"
    "\<And>i j. i < length cs \<Longrightarrow> j < length cs \<Longrightarrow> i \<noteq> j \<Longrightarrow>
       work_keys K s (cs ! i) \<inter> work_keys K s (cs ! j) = {}"
    "\<And>T. entries (contents_of K s) T + sum_list (map (\<lambda>ws. work_claims ws T) cs) \<le> capacity T"
    "apply_effects (concat (map (work_effects K cfg s (contents_of K s)) cs)) (contents_of K s) = G"
    by (simp_all add: serial_ok_def)
  have claim: "entries (contents_of K s) T + work_claims (cs ! i) T \<le> capacity T" for T
  proof -
    have "work_claims (cs ! i) T \<le> sum_list (map (\<lambda>ws. work_claims ws T) cs)"
      using True by (intro member_le_sum_list) auto
    then show ?thesis using inv(4) [of T] by linarith
  qed
  have good: "work_good K cfg s (cs ! i) t vs"
    using True by (intro work_step_good [OF inv(1) inv(2) step claim]) simp
  then have good': "maps_valid K t" "undisturbed K (work_keys K s (cs ! i)) s t"
    "work_in_order K t vs" "work_keys K t vs \<subseteq> work_keys K s (cs ! i)"
    by (simp_all add: work_good_def)
  have other: "unmoved K cfg s t (cs ! j)" if "j < length cs" "j \<noteq> i" for j
    using that assms(2) True good inv(3) [OF that(1) True that(2)]
    by (intro work_unmoved [OF inv(1) good'(1,2) inv(2)]) (auto simp: work_good_def quiet_step_def)
  let ?ess = "map (work_effects K cfg s (contents_of K s)) cs"
  let ?fss = "map (work_effects K cfg t (contents_of K t)) (cs[i := vs])"
  have rest: "?fss[i := []] = ?ess[i := []]"
    using True other by (rule_tac nth_equalityI) (auto simp: nth_list_update unmoved_def)
  have keys': "work_keys K t (cs[i := vs] ! j) \<subseteq> work_keys K s (cs ! j)" if "j < length cs" for j
    using that other good'(4) by (cases "j = i") (auto simp: unmoved_def)
  have order': "work_in_order K t ws" if "ws \<in> set (cs[i := vs])" for ws
    using that True other good'(3) by (auto simp: in_set_conv_nth nth_list_update unmoved_def)
  have disjoint': "work_keys K t (cs[i := vs] ! j) \<inter> work_keys K t (cs[i := vs] ! k) = {}"
    if "j < length cs" "k < length cs" "j \<noteq> k" for j k
    using keys' [OF that(1)] keys' [OF that(2)] inv(3) [OF that] by blast
  have "apply_effects (concat ?fss) (contents_of K t) =
      apply_effects (concat (?fss[i := []])) (apply_effects (?fss ! i) (contents_of K t))"
  proof (rule effects_first)
    show "i < length ?fss" using True by simp
    show "effects_keys (?fss ! i) \<inter> effects_keys (?fss ! j) = {}" if "j < length ?fss" "j \<noteq> i" for j
      using that True disjoint' [of i j] order' nth_mem [of i "cs[i := vs]"] nth_mem [of j "cs[i := vs]"]
        work_effects_keys [of K t "cs[i := vs] ! i" cfg] work_effects_keys [of K t "cs[i := vs] ! j" cfg]
      by fastforce
  qed
  also have "apply_effects (?fss ! i) (contents_of K t) = apply_effects (?ess ! i) (contents_of K s)"
    using good True by (simp add: work_good_def)
  also have "apply_effects (concat (?fss[i := []])) (apply_effects (?ess ! i) (contents_of K s)) = G"
  proof -
    have "effects_keys (?ess ! i) \<inter> effects_keys (?ess ! j) = {}" if "j < length ?ess" "j \<noteq> i" for j
      using that True inv(3) [of i j] inv(2) work_effects_keys [of K s "cs ! i" cfg]
        work_effects_keys [of K s "cs ! j" cfg] by fastforce
    from effects_first [of i ?ess, OF _ this] True inv(5) show ?thesis by (simp add: rest)
  qed
  finally have final: "apply_effects (concat ?fss) (contents_of K t) = G" .
  have "entries (contents_of K t) T + sum_list (map (\<lambda>ws. work_claims ws T) (cs[i := vs])) \<le> capacity T"
    for T
  proof -
    have "sum_list (map (\<lambda>ws. work_claims ws T) (cs[i := vs])) + work_claims (cs ! i) T =
        sum_list (map (\<lambda>ws. work_claims ws T) cs) + work_claims vs T"
      using True by (intro sum_list_map_update) simp_all
    moreover have "entries (contents_of K t) T + work_claims vs T
        \<le> entries (contents_of K s) T + work_claims (cs ! i) T"
      using good by (simp add: work_good_def)
    ultimately show ?thesis using inv(4) [of T] by linarith
  qed
  then show ?thesis
    using good'(1) order' disjoint' final step True
    by (simp add: serial_ok_def work_interleave_def)
qed

lemma schedule_serial:
  "serial_ok K cfg G x \<Longrightarrow> quiet K cfg sched x \<Longrightarrow> serial_ok K cfg G (work_schedule K cfg sched x)"
proof (induction sched arbitrary: x)
  case (Cons i sched)
  obtain cs s where x: "x = (cs, s)" by fastforce
  have "serial_ok K cfg G (work_interleave K cfg i x)"
    using Cons.prems by (simp add: x interleave_serial)
  with Cons.IH Cons.prems(2) show ?case by (simp add: work_schedule_def)
qed (simp add: work_schedule_def)

end

subsection \<open>Programs at once, and one after the other\<close>

definition works :: "config \<Rightarrow> btf \<Rightarrow> event list \<Rightarrow> work list list" where
  "works cfg B es = map (\<lambda>(I, p). program_work cfg B I p) es"

definition independent ::
    "('ms, 'ma, 'mc, 'mp) kernel \<Rightarrow> config \<Rightarrow> btf \<Rightarrow> ('ms, 'ma, 'mc, 'mp) tracker \<Rightarrow>
     event list \<Rightarrow> bool" where
  "independent K cfg B s es \<longleftrightarrow>
     (\<forall>i < length es. \<forall>j < length es. i \<noteq> j \<longrightarrow>
        work_keys K s (works cfg B es ! i) \<inter> work_keys K s (works cfg B es ! j) = {})"

definition room_for :: "nat \<Rightarrow> contents \<Rightarrow> bool" where
  "room_for n c \<longleftrightarrow>
     card (dom (c_sizes c)) + n \<le> sizes_max_entries \<and>
     card (dom (c_allocs c)) + n \<le> allocs_max_entries \<and>
     card (dom (c_combined c)) + n \<le> combined_allocs_max_entries \<and>
     card (dom (c_memptrs c)) + n \<le> memptrs_max_entries"

lemma length_works [simp]: "length (works cfg B es) = length es"
  by (simp add: works_def)

lemmas work_defs = enter_work_def exit_work_def free_work_def event_work_def

lemma program_in_order:
  "covered (contents_of K s) \<Longrightarrow> work_in_order K s (program_work cfg B I p)"
  by (cases p) (auto simp: work_defs freeable_def covered_def)

lemma program_claims: "work_claims (program_work cfg B I p) T \<le> 1"
  by (cases p) (auto simp: work_defs one_of_def)

lemma program_calm:
  "\<not> reads_deleted_block (program_work cfg B I p)" "\<not> reads_deleted_pointer (program_work cfg B I p)"
  by (cases p; simp add: work_defs)+

lemma start_serial:
  assumes "maps_valid K s" and "covered (contents_of K s)" and "independent K cfg B s es"
    and "room_for (length es) (contents_of K s)"
  obtains G where "serial_ok K cfg G (works cfg B es, s)"
proof -
  have "sum_list (map (\<lambda>ws. work_claims ws T) (works cfg B es)) \<le> length es" for T
  proof (induction es)
    case (Cons e es)
    then show ?case
      using program_claims [of cfg B "fst e" "snd e" T] by (simp add: works_def split_beta)
  qed (simp add: works_def)
  moreover have "entries (contents_of K s) T + length es \<le> capacity T" for T
    using assms(4) by (cases T) (simp_all add: room_for_def)
  ultimately have "entries (contents_of K s) T +
      sum_list (map (\<lambda>ws. work_claims ws T) (works cfg B es)) \<le> capacity T" for T
    by (meson add_le_mono le_refl le_trans)
  moreover have "work_in_order K s ws" if "ws \<in> set (works cfg B es)" for ws
    using that program_in_order [OF assms(2)] by (auto simp: works_def)
  ultimately show ?thesis
    using assms(1,3) that unfolding serial_ok_def by (auto simp: independent_def)
qed

text \<open>One CPU's program while the others have not started or are done.\<close>

lemma run_one:
  assumes "i < length cs" and "work_run K cfg n (cs ! i, s) = (ws, t)"
    and "\<And>j. j < length cs \<Longrightarrow> j \<noteq> i \<Longrightarrow>
      \<not> reads_deleted_block (cs ! j) \<and> \<not> reads_deleted_pointer (cs ! j)"
  shows "work_schedule K cfg (replicate n i) (cs, s) = (cs[i := ws], t) \<and>
    quiet K cfg (replicate n i) (cs, s)"
  using assms
proof (induction n arbitrary: cs s)
  case 0
  then have "cs[i := ws] = cs" "t = s" by (auto intro: list_update_same_conv [THEN iffD2])
  then show ?case by (simp add: work_schedule_def)
next
  case (Suc n)
  obtain vs u where step: "work_step K cfg (cs ! i) s = (vs, u)" by fastforce
  have "work_interleave K cfg i (cs, s) = (cs[i := vs], u)"
    using Suc.prems(1) step by (simp add: work_interleave_def)
  moreover have "work_schedule K cfg (replicate n i) (cs[i := vs], u) = ((cs[i := vs])[i := ws], t) \<and>
      quiet K cfg (replicate n i) (cs[i := vs], u)"
    using Suc.prems step by (intro Suc.IH) (simp_all add: nth_list_update)
  moreover have "quiet_step cs i" using Suc.prems(3) by (simp add: quiet_step_def)
  ultimately show ?case by (simp add: work_schedule_def)
qed

fun one_by_one :: "nat \<Rightarrow> nat list" where
  "one_by_one 0 = []"
| "one_by_one (Suc n) = one_by_one n @ replicate 18 n"

lemma quiet_append:
  "quiet K cfg (xs @ ys) x \<longleftrightarrow> quiet K cfg xs x \<and> quiet K cfg ys (work_schedule K cfg xs x)"
  by (induction xs arbitrary: x) (auto simp: work_schedule_def)

lemma work_schedule_append:
  "work_schedule K cfg (xs @ ys) x = work_schedule K cfg ys (work_schedule K cfg xs x)"
  by (simp add: work_schedule_def)

lemma one_by_one_runs:
  "n \<le> length es \<Longrightarrow>
     work_schedule K cfg (one_by_one n) (works cfg B es, s) =
       (replicate n [] @ drop n (works cfg B es), run_events K cfg B (take n es) s) \<and>
     quiet K cfg (one_by_one n) (works cfg B es, s)"
proof (induction n)
  case 0
  then show ?case by (simp add: work_schedule_def run_events_def)
next
  case (Suc n)
  let ?cs = "replicate n [] @ drop n (works cfg B es)" and ?s = "run_events K cfg B (take n es) s"
  obtain I p where e: "es ! n = (I, p)" by fastforce
  have here: "?cs ! n = program_work cfg B I p"
    using Suc.prems e by (simp add: nth_append works_def)
  have "?cs[n := []] = replicate (Suc n) [] @ drop (Suc n) (works cfg B es)"
    using Suc.prems by (simp add: list_update_append drop_update_swap Cons_nth_drop_Suc [symmetric]
        replicate_append_same)
  moreover have "work_schedule K cfg (replicate 18 n) (?cs, ?s) =
      (?cs[n := []], snd (run_program K cfg B I p ?s)) \<and> quiet K cfg (replicate 18 n) (?cs, ?s)"
  proof (rule run_one)
    show "n < length ?cs" using Suc.prems by simp
    show "work_run K cfg 18 (?cs ! n, ?s) = ([], snd (run_program K cfg B I p ?s))"
      unfolding here using reaches_program [of K cfg B I p ?s] programs_alone by blast
    show "\<not> reads_deleted_block (?cs ! j) \<and> \<not> reads_deleted_pointer (?cs ! j)"
      if "j < length ?cs" "j \<noteq> n" for j
      using that Suc.prems program_calm [of cfg B]
      by (cases "j < n") (simp_all add: nth_append works_def split_beta)
  qed
  moreover have "run_events K cfg B (take (Suc n) es) s = snd (run_program K cfg B I p ?s)"
    using Suc.prems e by (simp add: run_events_def take_Suc_conv_app_nth program_step_def)
  ultimately show ?case
    using Suc by (simp add: work_schedule_append quiet_append)
qed

text \<open>After eighteen steps of each CPU all are done.\<close>

lemma length_work_schedule: "length (fst (work_schedule K cfg sched x)) = length (fst x)"
proof (induction sched arbitrary: x)
  case (Cons i sched)
  then show ?case
    using work_interleave_left(1) [of K cfg i "fst x" "snd x"] by (simp add: work_schedule_def)
qed (simp add: work_schedule_def)

lemma schedule_done:
  assumes "\<forall>i < length es. 18 \<le> count_list sched i"
  shows "fst (work_schedule K cfg sched (works cfg B es, s)) = replicate (length es) []"
proof (rule nth_equalityI)
  show len: "length (fst (work_schedule K cfg sched (works cfg B es, s))) = length (replicate (length es) [])"
    by (simp add: length_work_schedule)
  show "fst (work_schedule K cfg sched (works cfg B es, s)) ! j = replicate (length es) [] ! j"
    if "j < length (fst (work_schedule K cfg sched (works cfg B es, s)))" for j
  proof -
    have j: "j < length es" using that len by simp
    then have "work_left (works cfg B es ! j) \<le> count_list sched j"
      using assms program_work_left [of cfg B "fst (es ! j)" "snd (es ! j)"]
      by (auto simp: works_def split_beta intro: le_trans)
    then have "work_left (fst (work_schedule K cfg sched (works cfg B es, s)) ! j) = 0"
      using work_schedule_left [of j "works cfg B es" K cfg sched s] j by simp
    then show ?thesis using j by (simp add: work_left_0)
  qed
qed

text \<open>C5: Programs on any number of CPUs that concern different processes and different addresses,
  under any schedule that gives each eighteen steps, end in the contents that running them one
  after the other gives. The conditions: every map has a free entry for each of the programs (with
  less room, the order decides which of them are recorded), every recorded block has statistics at
  the start, and no CPU inserts into a map between another's deletion from it and its read of the
  deleted element.\<close>

theorem concurrent_programs_serialize:
  assumes "memleak_concurrent K" and "maps_valid K s" and "covered (contents_of K s)"
    and "independent K cfg B s es" and "room_for (length es) (contents_of K s)"
    and "quiet K cfg sched (works cfg B es, s)" and "\<forall>i < length es. 18 \<le> count_list sched i"
    and "work_schedule K cfg sched (works cfg B es, s) = (cs, t)"
  shows "cs = replicate (length es) [] \<and>
         contents_of K t = contents_of K (run_events K cfg B es s)"
proof -
  obtain G where start: "serial_ok K cfg G (works cfg B es, s)"
    using start_serial [OF assms(2-5)] by blast
  have done': "cs = replicate (length es) []"
    using schedule_done [OF assms(7), of K cfg B s] assms(8) by simp
  have "serial_ok K cfg G (cs, t)"
    using memleak_concurrent.schedule_serial [OF assms(1) start assms(6)] assms(8) by simp
  then have "contents_of K t = G" by (simp add: serial_ok_def done')
  moreover have "serial_ok K cfg G (work_schedule K cfg (one_by_one (length es)) (works cfg B es, s))"
    using memleak_concurrent.schedule_serial [OF assms(1) start] one_by_one_runs [of "length es" es]
    by blast
  then have "contents_of K (run_events K cfg B es s) = G"
    using one_by_one_runs [of "length es" es K cfg B s] by (simp add: serial_ok_def)
  ultimately show ?thesis using done' by simp
qed

text \<open>A block of process 7 and a pending request of process 8; one is released while the other
  returns.\<close>

definition other_call :: "u64 \<Rightarrow> u64 \<Rightarrow> invocation" where
  "other_call rc sid = (call rc sid)\<lparr>current_pid_tgid := push_bit 32 8\<rparr>"

lemma other_call_simps [simp]:
  "current_pid (other_call rc sid) = 8" "ktime_exit (other_call rc sid) = 200"
  "get_stackid (other_call rc sid) f = sid" "regs_rc (other_call rc sid) = rc"
  by (simp_all add: other_call_def current_pid_def call_def)

definition two_processes :: slot_tracker where
  "two_processes =
     \<lparr>sizes = \<lparr>index = [(8, 0)], freed = [], used = 1, elems = (\<lambda>_. 48)\<rparr>,
      allocs = \<lparr>index = [(4096, 0)], freed = [], used = 1,
                elems = (\<lambda>_. \<lparr>ai_size = 64, ai_timestamp_ns = 200, ai_stack_id = 5\<rparr>)\<rparr>,
      combined_allocs = \<lparr>index = [(5, 0)], freed = [], used = 1,
                elems = (\<lambda>_. combined_of_info 64 1)\<rparr>,
      memptrs = sm_empty 0, trace_pipe = []\<rparr>"

lemma two_processes_contents:
  "contents_of slot_kernel two_processes =
     \<lparr>c_sizes = [8 \<mapsto> 48],
      c_allocs = [4096 \<mapsto> \<lparr>ai_size = 64, ai_timestamp_ns = 200, ai_stack_id = 5\<rparr>],
      c_combined = [5 \<mapsto> combined_of_info 64 1], c_memptrs = Map.empty\<rparr>"
  by (simp add: two_processes_def contents_of_def slot_kernel_def sm_find sm_empty_def fun_eq_iff)

lemma two_processes_valid: "maps_valid slot_kernel two_processes"
  by (simp add: maps_valid_def slot_kernel_def two_processes_def sm_valid_def sm_empty_def
      capacity_defs)

abbreviation release_and_return :: "event list" where
  "release_and_return \<equiv> [(call 0 5, Free_enter 4096), (other_call 8192 6, Malloc_exit)]"

lemma two_processes_steps:
  "work_schedule slot_kernel default_config [0, 0]
     (works default_config no_btf release_and_return, two_processes) =
   ([[Core (Free_read 4096 0)],
     [Print ''malloc exited'' [], Core (Exit_lookup (other_call 8192 6) 8192)]],
    two_processes\<lparr>allocs := (allocs two_processes)\<lparr>index := [], freed := [0]\<rparr>\<rparr>)"
  "quiet slot_kernel default_config [0, 0]
     (works default_config no_btf release_and_return, two_processes)"
  by (simp_all add: works_def work_defs work_schedule_def quiet_step_def work_interleave_def less_Suc_eq
      two_processes_def slot_kernel_def sm_delete_def Let_def)

lemma release_and_return_quiet:
  "quiet slot_kernel default_config ([0, 0] @ [1, 1, 0] @ concat (replicate 18 [0, 1]))
     (works default_config no_btf release_and_return, two_processes)"
proof -
  let ?y = "([[Core (Free_read 4096 0)],
      [Print ''malloc exited'' [], Core (Exit_lookup (other_call 8192 6) 8192)]],
    two_processes\<lparr>allocs := (allocs two_processes)\<lparr>index := [], freed := [0]\<rparr>\<rparr>)"
  have "quiet slot_kernel default_config [1, 1, 0] ?y"
    by (simp add: quiet_step_def work_interleave_def less_Suc_eq two_processes_def slot_kernel_def)
  moreover have "quiet slot_kernel default_config (concat (replicate 18 [0, 1]))
      (work_schedule slot_kernel default_config [1, 1, 0] ?y)"
    by (rule quiet_recording)
      (simp add: work_schedule_def work_interleave_def two_processes_def slot_kernel_def Let_def)
  ultimately show ?thesis by (simp only: quiet_append two_processes_steps simp_thms)
qed

theorem concurrent_programs_serialize_witness:
  "c_allocs (contents_of slot_kernel (snd (work_schedule slot_kernel default_config
     ([0, 0] @ [1, 1, 0] @ concat (replicate 18 [0, 1])) (works default_config no_btf release_and_return, two_processes)))) =
   [8192 \<mapsto> \<lparr>ai_size = 48, ai_timestamp_ns = 200, ai_stack_id = 6\<rparr>]"
  (is "c_allocs (contents_of slot_kernel (snd ?x)) = _")
proof -
  let ?sched = "[0, 0] @ [1, 1, 0] @ concat (replicate 18 [0, 1]) :: nat list"
  obtain cs t where run: "work_schedule slot_kernel default_config ?sched
      (works default_config no_btf release_and_return, two_processes) = (cs, t)" by fastforce
  have "snd ?x = t" by (simp only: run snd_conv)
  moreover have "contents_of slot_kernel t = contents_of slot_kernel
      (run_events slot_kernel default_config no_btf release_and_return two_processes)"
  proof (rule concurrent_programs_serialize [OF slot_kernel_concurrent _ _ _ _
        release_and_return_quiet _ run, THEN conjunct2])
    show "maps_valid slot_kernel two_processes" by (rule two_processes_valid)
    show "covered (contents_of slot_kernel two_processes)"
      by (simp add: two_processes_contents covered_def stack_key_def)
    show "independent slot_kernel default_config no_btf two_processes release_and_return"
      by (simp add: independent_def works_def work_defs less_Suc_eq)
    show "room_for (length release_and_return) (contents_of slot_kernel two_processes)"
      by (simp add: two_processes_contents room_for_def capacity_defs)
    show "\<forall>i < length release_and_return. 18 \<le> count_list ?sched i"
      by (simp add: less_Suc_eq numeral_eq_Suc)
  qed
  ultimately show ?thesis
    by (simp add: slotk.run_contents two_processes_valid two_processes_contents spec_events_def spec_step_def
      spec_program_def spec_free_def spec_debit_def spec_exit_def spec_record_def spec_credit_def exit_info_def
      bounded_upd_def stack_key_def capacity_defs)
qed

end
