(* ===== verification/TestMemleak.thy ===== *)
theory TestMemleak
  imports Scenarios Leaks
begin

text \<open>
  The leaking test program \<open>bpf/test_memleak.c\<close>, as the sequence of its library calls, and what
  the tracker has collected when it is done. The allocator's results and the stack ids of the
  three call sites are parameters. The command is attached during the first sleep, as the comment
  in \<open>main\<close> has it; the buffer of the standard output, which the C library allocates at the first
  \<open>printf\<close>, is there by then, and the other calls of \<open>printf\<close> are taken to allocate nothing.
\<close>

datatype lib_call = Printf string | Sleep nat | Malloc_at (site: string) (bytes: u64)

abbreviation newline :: string where
  "newline \<equiv> [CHR 0x0A]"

definition leak_small :: "lib_call list" where
  "leak_small = [Malloc_at ''leak_small'' 1024]"

definition leak_large :: "lib_call list" where
  "leak_large = [Malloc_at ''leak_large'' 8192]"

text \<open>\<open>for (int i = 0; i < 5; i++)\<close>\<close>

function leak_loop :: "nat \<Rightarrow> lib_call list" where
  "leak_loop i = (if i < 5 then Malloc_at ''leak_with_loop'' 2048 # leak_loop (Suc i) else [])"
  by pat_completeness auto
termination
  by (relation "measure (\<lambda>i. 5 - i)") auto

declare leak_loop.simps [simp del]

definition leak_with_loop :: "lib_call list" where
  "leak_with_loop = leak_loop 0"

definition test_main :: "int \<times> lib_call list" where
  "test_main =
     (0,
      [Printf (''Memory leak test starting (PID: %d)'' @ newline),
       Printf (''This program intentionally leaks memory for testing memleak'' @ newline),
       Sleep 5] @
      leak_small @ [Sleep 1] @
      leak_large @ [Sleep 1] @
      leak_with_loop @ [Sleep 1] @
      [Printf (''Leaks created, sleeping for 30 seconds...'' @ newline), Sleep 30, Printf (''Test complete'' @ newline)])"

lemma leak_with_loop_calls:
  "leak_with_loop = (let m = Malloc_at ''leak_with_loop'' 2048 in [m, m, m, m, m])"
  by (simp add: leak_with_loop_def leak_loop.simps Let_def)

lemma test_main_calls: "length (snd test_main) = 16" "fst test_main = 0"
  by (simp_all add: test_main_def leak_small_def leak_large_def leak_with_loop_calls Let_def)

subsection \<open>The program under the tracker\<close>

text \<open>
  The environment of a traced process: its pid and tgid, the address the i-th malloc returns and
  the stack id of each call site.
\<close>

record process =
  pr_pid_tgid :: u64
  pr_address :: "nat \<Rightarrow> u64"
  pr_stackid :: "string \<Rightarrow> i64"

definition malloc_call :: "process \<Rightarrow> nat \<Rightarrow> string \<Rightarrow> invocation" where
  "malloc_call P i at =
     \<lparr>current_pid_tgid = pr_pid_tgid P, ktime_enter = 0, ktime_exit = 0,
      get_stackid = (\<lambda>_. pr_stackid P at), regs_rc = pr_address P i,
      probe_read_user = (\<lambda>_. None)\<rparr>"

text \<open>What is left to do when the command is attached.\<close>

definition is_sleep :: "lib_call \<Rightarrow> bool" where
  "is_sleep c \<longleftrightarrow> (case c of Sleep n \<Rightarrow> True | _ \<Rightarrow> False)"

definition attached_calls :: "lib_call list" where
  "attached_calls = dropWhile (\<lambda>c. \<not> is_sleep c) (snd test_main)"

lemma attached_calls_eq:
  "attached_calls = [Sleep 5, Malloc_at ''leak_small'' 1024, Sleep 1, Malloc_at ''leak_large'' 8192, Sleep 1] @
     leak_with_loop @ [Sleep 1, Printf (''Leaks created, sleeping for 30 seconds...'' @ newline), Sleep 30,
       Printf (''Test complete'' @ newline)]"
  by (simp add: attached_calls_def test_main_def is_sleep_def leak_small_def leak_large_def)

lemma attached_length: "length attached_calls = 14"
  by (simp add: attached_calls_eq leak_with_loop_calls Let_def)

text \<open>Each malloc runs the entry and the exit program; the other calls run none.\<close>

fun traced :: "process \<Rightarrow> nat \<Rightarrow> lib_call list \<Rightarrow> event list" where
  "traced P i [] = []"
| "traced P i (Malloc_at at n # cs) =
     (malloc_call P i at, Malloc_enter n) # (malloc_call P i at, Malloc_exit) # traced P (Suc i) cs"
| "traced P i (_ # cs) = traced P i cs"

definition site_key :: "process \<Rightarrow> string \<Rightarrow> u64" where
  "site_key P at = scast (ucast (pr_stackid P at) :: i32)"

text \<open>What a list of calls allocates from the stack with a given key.\<close>

fun allocated_by :: "process \<Rightarrow> u64 \<Rightarrow> lib_call list \<Rightarrow> combined_alloc_info" where
  "allocated_by P sid [] = 0"
| "allocated_by P sid (Malloc_at at n # cs) =
     (if site_key P at = sid then combined_of_info n 1 else 0) + allocated_by P sid cs"
| "allocated_by P sid (_ # cs) = allocated_by P sid cs"

lemma allocated_append [simp]:
  "allocated_by P sid (xs @ ys) = allocated_by P sid xs + allocated_by P sid ys"
  by (induction P sid xs rule: allocated_by.induct) (simp_all add: add.assoc)

text \<open>A process whose requests are all admitted and whose mallocs succeed.\<close>

definition well_traced :: "config \<Rightarrow> process \<Rightarrow> bool" where
  "well_traced cfg P \<longleftrightarrow> min_size cfg = 0 \<and> max_size cfg = - 1 \<and> sample_rate cfg \<le> 1 \<and>
     (target_pid cfg = 0 \<or> target_pid cfg = ucast (drop_bit 32 (pr_pid_tgid P))) \<and>
     (\<forall>i. pr_address P i \<noteq> 0)"

lemma current_pid_malloc_call: "current_pid (malloc_call P i at) = ucast (drop_bit 32 (pr_pid_tgid P))"
  by (simp add: current_pid_def malloc_call_def)

lemma stack_key_malloc: "stack_key (exit_info cfg (malloc_call P i at) n) = site_key P at"
  by (simp add: stack_key_def exit_info_def malloc_call_def site_key_def)

lemma card_dom_bounded_upd:
  "finite (dom m) \<Longrightarrow> card (dom (bounded_upd k m x v)) \<le> Suc (card (dom m))"
  by (simp add: bounded_upd_def card_insert_if)

lemma traced_malloc_step:
  assumes "well_traced cfg P" and "card (dom (c_sizes c)) < sizes_max_entries"
  shows "spec_events cfg B (traced P i (Malloc_at at n # cs)) c =
           spec_events cfg B (traced P (Suc i) cs)
             (spec_record (pr_address P i) (exit_info cfg (malloc_call P i at) n)
               (c\<lparr>c_sizes := (c_sizes c)(ucast (drop_bit 32 (pr_pid_tgid P)) := None)\<rparr>))"
proof -
  let ?I = "malloc_call P i at"
  have "alloc_admitted cfg ?I n"
    using assms(1) by (auto simp: well_traced_def alloc_admitted_def current_pid_malloc_call)
  moreover have "sizes_room c (current_pid ?I)"
    using assms(2) by (simp add: sizes_room_def)
  moreover have "pr_address P i \<noteq> 0" "regs_rc ?I = pr_address P i"
    using assms(1) by (simp_all add: well_traced_def malloc_call_def)
  ultimately show ?thesis
    by (simp add: spec_run enter_exit current_pid_malloc_call)
qed

lemma traced_stats:
  assumes "well_traced cfg P" and "finite (dom (c_combined c))"
    and "card (dom (c_combined c)) + length cs \<le> COMBINED_ALLOCS_MAX_ENTRIES"
    and "finite (dom (c_sizes c))" and "card (dom (c_sizes c)) < sizes_max_entries"
  shows "stack_stats (spec_events cfg B (traced P i cs) c) sid = stack_stats c sid + allocated_by P sid cs"
  using assms
proof (induction P i cs arbitrary: c rule: traced.induct)
  case (1 P i)
  then show ?case by (simp add: spec_events_def)
next
  case (2 P i at n cs)
  let ?I = "malloc_call P i at" and ?pid = "ucast (drop_bit 32 (pr_pid_tgid P)) :: i32"
  let ?c = "c\<lparr>c_sizes := (c_sizes c)(?pid := None)\<rparr>"
  let ?i = "exit_info cfg ?I n"
  let ?d = "spec_record (pr_address P i) ?i ?c"
  have "finite (dom (c_combined ?d))"
    using "2.prems"(2) by (simp add: spec_record_combined finite_bounded_upd)
  moreover have "card (dom (c_combined ?d)) + length cs \<le> COMBINED_ALLOCS_MAX_ENTRIES"
  proof -
    have "card (dom (c_combined ?d)) \<le> Suc (card (dom (c_combined c)))"
      using "2.prems"(2) by (simp add: spec_record_combined card_dom_bounded_upd)
    then show ?thesis using "2.prems"(3) by simp
  qed
  moreover have "finite (dom (c_sizes ?d))" "card (dom (c_sizes ?d)) < sizes_max_entries"
    using "2.prems"(4,5) card_dom_del_le [OF "2.prems"(4), of ?pid] by simp_all
  ultimately have "stack_stats (spec_events cfg B (traced P (Suc i) cs) ?d) sid =
      stack_stats ?d sid + allocated_by P sid cs"
    by (rule "2.IH" [OF "2.prems"(1)])
  moreover have "stack_stats ?d sid = stack_stats c sid + contribution sid ?i"
    using "2.prems"(3) spec_record_stats [of ?c ?i "pr_address P i" sid]
    by (simp add: combined_allocs_max_entries_def)
  ultimately show ?case
    using traced_malloc_step [OF "2.prems"(1,5)]
    by (simp add: contribution_def stack_key_malloc add.assoc) (simp add: exit_info_def)
qed simp_all

lemma traced_keys:
  assumes "well_traced cfg P" and "finite (dom (c_sizes c))" and "card (dom (c_sizes c)) < sizes_max_entries"
  shows "dom (c_combined (spec_events cfg B (traced P i cs) c)) \<subseteq> dom (c_combined c) \<union> range (site_key P)"
  using assms
proof (induction P i cs arbitrary: c rule: traced.induct)
  case (2 P i at n cs)
  let ?I = "malloc_call P i at" and ?pid = "ucast (drop_bit 32 (pr_pid_tgid P)) :: i32"
  let ?d = "spec_record (pr_address P i) (exit_info cfg ?I n) (c\<lparr>c_sizes := (c_sizes c)(?pid := None)\<rparr>)"
  have "finite (dom (c_sizes ?d))" "card (dom (c_sizes ?d)) < sizes_max_entries"
    using "2.prems"(2,3) card_dom_del_le [OF "2.prems"(2), of ?pid] by simp_all
  from "2.IH" [OF "2.prems"(1) this] have "dom (c_combined (spec_events cfg B (traced P i (Malloc_at at n # cs)) c))
      \<subseteq> dom (c_combined ?d) \<union> range (site_key P)"
    using traced_malloc_step [OF "2.prems"(1,3)] by simp
  moreover have "dom (c_combined ?d) \<subseteq> dom (c_combined c) \<union> range (site_key P)"
    by (auto simp: spec_record_combined bounded_upd_def stack_key_malloc split: if_splits)
  ultimately show ?case by blast
qed (simp_all add: spec_events_def)

lemma allocated_main:
  "allocated_by P sid attached_calls =
     (if site_key P ''leak_small'' = sid then combined_of_info 1024 1 else 0) +
     (if site_key P ''leak_large'' = sid then combined_of_info 8192 1 else 0) +
     (if site_key P ''leak_with_loop'' = sid
      then (combined_of_info 2048 1 + (combined_of_info 2048 1 + (combined_of_info 2048 1 +
        (combined_of_info 2048 1 + combined_of_info 2048 1)))) else 0)"
  by (simp add: attached_calls_eq leak_with_loop_calls Let_def)

lemma read_replicated:
  "unat (total_size (combined_of_info 1024 1)) = 1024"
  "unat (number_of_allocs (combined_of_info 1024 1)) = 1"
  "unat (total_size (combined_of_info 8192 1)) = 8192"
  "unat (number_of_allocs (combined_of_info 8192 1)) = 1"
  "unat (total_size (combined_of_info 2048 1 + (combined_of_info 2048 1 + (combined_of_info 2048 1 +
        (combined_of_info 2048 1 + combined_of_info 2048 1))))) = 10240"
  "unat (number_of_allocs (combined_of_info 2048 1 + (combined_of_info 2048 1 + (combined_of_info 2048 1 +
        (combined_of_info 2048 1 + combined_of_info 2048 1))))) = 5"
  by (simp_all add: total_size_def number_of_allocs_def combined_of_info_def)

text \<open>What the entries of the statistics map hold.\<close>

lemma test_contents:
  assumes "memleak_kernel K" and "maps_valid K s" and "contents_of K s = no_contents"
    and "well_traced cfg P" and "c = contents_of K (run_events K cfg B (traced P 0 attached_calls) s)"
  shows "stack_stats c sid = allocated_by P sid attached_calls"
    and "\<forall>k\<in>dom (c_combined c). k = scast (ucast k :: i32)"
proof -
  have c: "c = spec_events cfg B (traced P 0 attached_calls) no_contents"
    by (simp add: memleak_kernel.run_contents [OF assms(1,2)] assms(3,5))
  show "stack_stats c sid = allocated_by P sid attached_calls"
    using traced_stats [OF assms(4), of no_contents attached_calls B 0 sid]
    by (simp add: c capacity_defs attached_length) (simp add: stack_stats_def)
  have "dom (c_combined c) \<subseteq> range (site_key P)"
    using traced_keys [OF assms(4), of no_contents B 0 attached_calls] by (simp add: c capacity_defs)
  then show "\<forall>k\<in>dom (c_combined c). k = scast (ucast k :: i32)"
    by (auto simp: site_key_def dest!: subsetD)
qed

text \<open>Three stacks with different totals are listed in this order.\<close>

lemma ranked_three:
  assumes "ranked n f sids" and "3 \<le> n" and "\<And>sid. 0 < f sid \<longleftrightarrow> sid \<in> {x, y, z}"
    and "f x > f y" and "f y > f z"
  shows "sids = [x, y, z]"
proof -
  have "{sid. 0 < f sid} = {x, y, z}" using assms(3) by auto
  moreover have "x \<noteq> y" "x \<noteq> z" "y \<noteq> z" using assms(4,5) by auto
  then have "card {x, y, z} = 3" by simp
  moreover have "min (nat n) 3 = 3" using assms(2) by simp
  ultimately have "length sids = 3" "set sids \<subseteq> {x, y, z}" "distinct sids" "sorted (rev (map f sids))"
    using assms(1,3) by (auto simp: ranked_def)
  then obtain p q r where sids: "sids = [p, q, r]" by (auto simp: numeral_3_eq_3 length_Suc_conv)
  then have "p \<in> {x, y, z}" "q \<in> {x, y, z}" "r \<in> {x, y, z}" "p \<noteq> q" "q \<noteq> r" "p \<noteq> r" "f r \<le> f q" "f q \<le> f p"
    using \<open>set sids \<subseteq> {x, y, z}\<close> \<open>distinct sids\<close> \<open>sorted (rev (map f sids))\<close> by auto
  then show ?thesis using assms(4,5) unfolding sids by auto
qed

lemma digit_chars:
  "char_of (48 :: nat) = CHR ''0''" "char_of (49 :: nat) = CHR ''1''" "char_of (50 :: nat) = CHR ''2''"
  "char_of (51 :: nat) = CHR ''3''" "char_of (52 :: nat) = CHR ''4''" "char_of (53 :: nat) = CHR ''5''"
  "char_of (56 :: nat) = CHR ''8''" "char_of (57 :: nat) = CHR ''9''"
  by code_simp+

lemma test_digits: "digits 10240 = ''10240''" "digits 5 = ''5''" "digits 8192 = ''8192''"
  "digits 1024 = ''1024''" "digits (Suc (Suc (Suc 0))) = ''3''" "digits (Suc 0) = ''1''"
  by (simp_all add: digits.simps digit_chars)

text \<open>C14: The report on the test program, with the totals that the README shows: when the program has
  made its calls, a round lists three stacks, \<open>leak_with_loop\<close> with 10240 bytes in 5 allocations,
  \<open>leak_large\<close> with 8192 in 1, \<open>leak_small\<close> with 1024 in 1, in this order, each followed by the frames
  of its stack. The conditions: the tracker was empty and was attached during the first sleep, with
  filters that admit all sizes, without sampling, for this process or for all; \<open>printf\<close> allocates
  nothing afterwards; the mallocs succeed; the three call sites have different stack ids; at least
  three stacks are asked for; and the round reads the whole map at one moment after the last
  malloc, without an error of the iterator.\<close>

theorem test_memleak_report:
  assumes "memleak_kernel K" and "maps_valid K s" and "contents_of K s = no_contents"
    and "well_traced cfg P"
    and "distinct [site_key P ''leak_with_loop'', site_key P ''leak_large'', site_key P ''leak_small'']"
    and "entries_of (contents_of K (run_events K cfg B (traced P 0 attached_calls) s)) (sn_combined sn)"
    and "\<not> sn_iter_error sn" and "3 \<le> n"
  shows "report pid n sn =
    ([Out ''=== Reading combined allocs map entries ==='',
      Out (''['' @ sn_now sn @ ''] Top 3 stacks with outstanding allocations:''),
      Out ''10240 Bytes in 5 allocations from stack''] @
     frame_lines pid sn (ucast (site_key P ''leak_with_loop'')) @
     [Out ''8192 Bytes in 1 allocations from stack''] @
     frame_lines pid sn (ucast (site_key P ''leak_large'')) @
     [Out ''1024 Bytes in 1 allocations from stack''] @
     frame_lines pid sn (ucast (site_key P ''leak_small'')) @
     [Out ''===========================''], None)"
proof -
  let ?c = "contents_of K (run_events K cfg B (traced P 0 attached_calls) s)"
  let ?f = "\<lambda>sid. unat (total_size (stack_stats ?c sid))"
  let ?g = "\<lambda>sid. unat (number_of_allocs (stack_stats ?c sid))"
  let ?loop = "site_key P ''leak_with_loop''" and ?large = "site_key P ''leak_large''"
    and ?small = "site_key P ''leak_small''"
  note held = test_contents [OF assms(1-4) refl, of B]
  have f: "?f ?loop = 10240" "?f ?large = 8192" "?f ?small = 1024"
    and g: "?g ?loop = 5" "?g ?large = 1" "?g ?small = 1"
    using assms(5) by (auto simp: held(1) allocated_main read_replicated)
  have others: "?f sid = 0" if "sid \<notin> {?loop, ?large, ?small}" for sid
    using that by (auto simp: held(1) allocated_main total_size_def)
  have "0 < n" using assms(8) by simp
  from entries_report [OF held(2) assms(6) this, of pid] obtain sids where
    sids: "ranked n ?f sids" "report pid n sn = (totals_report pid sn ?f ?g sids, None)"
    by blast
  have "0 < ?f sid \<longleftrightarrow> sid \<in> {?loop, ?large, ?small}" for sid
    using f others [of sid] by (cases "sid \<in> {?loop, ?large, ?small}") auto
  from ranked_three [OF sids(1) assms(8) this] have "sids = [?loop, ?large, ?small]"
    by (simp add: f)
  then show ?thesis
    using assms(7) by (simp add: sids(2) totals_report_def total_lines_def f g test_digits)
qed

definition demo_process :: process where
  "demo_process =
     \<lparr>pr_pid_tgid = push_bit 32 7 OR 9,
      pr_address = (\<lambda>i. of_nat (4096 + 64 * (i mod 8))),
      pr_stackid = (\<lambda>at. if at = ''leak_small'' then 11 else if at = ''leak_large'' then 12 else 13)\<rparr>"

lemma demo_process_traced: "well_traced default_config demo_process"
proof -
  have "(of_nat (4096 + 64 * (i mod 8)) :: u64) \<noteq> 0" for i
  proof (rule of_nat64_nonzero)
    have "i mod 8 < 8" by simp
    then have "4096 + 64 * (i mod 8) < 8192" by linarith
    then show "4096 + 64 * (i mod 8) < 2 ^ 64" by (rule less_trans) simp
  qed simp
  then show ?thesis
    by (simp add: well_traced_def default_config_def demo_process_def del: of_nat_add)
qed

text \<open>A complete reading of the map after that process, in the order of the keys.\<close>

abbreviation demo_stats :: contents where
  "demo_stats \<equiv> contents_of slot_kernel
     (run_events slot_kernel default_config no_btf (traced demo_process 0 attached_calls) slot_init)"

abbreviation five_times :: combined_alloc_info where
  "five_times \<equiv> combined_of_info 2048 1 + (combined_of_info 2048 1 + (combined_of_info 2048 1 +
     (combined_of_info 2048 1 + combined_of_info 2048 1)))"

definition test_snapshot :: snapshot where
  "test_snapshot = (demo_snapshot Map.empty)
     \<lparr>sn_combined := [(11, combined_bytes (combined_of_info 1024 1)),
                      (12, combined_bytes (combined_of_info 8192 1)), (13, combined_bytes five_times)]\<rparr>"

lemma demo_keys: "site_key demo_process at =
    (if at = ''leak_small'' then 11 else if at = ''leak_large'' then 12 else 13)"
  by (simp add: site_key_def demo_process_def)

lemma demo_combined:
  "c_combined demo_stats = [11 \<mapsto> combined_of_info 1024 1, 12 \<mapsto> combined_of_info 8192 1, 13 \<mapsto> five_times]"
proof
  fix k
  note held = test_contents [OF slot_kernel_ok slot_init_valid slot_init_contents demo_process_traced refl, of no_btf]
  have "dom (c_combined demo_stats) \<subseteq> range (site_key demo_process)"
    using traced_keys [OF demo_process_traced, of no_contents no_btf 0 attached_calls]
    by (simp add: slotk.run_contents slot_init_valid slot_init_contents capacity_defs del: contents_of_simps)
  then have outside: "c_combined demo_stats k = None" if "k \<notin> {11, 12, 13}"
    using that by (auto simp: demo_keys split: if_splits)
  have "stack_stats demo_stats k = (if k = 11 then combined_of_info 1024 1 else
      if k = 12 then combined_of_info 8192 1 else if k = 13 then five_times else 0)"
    using held(1) [of k] by (simp add: allocated_main demo_keys)
  moreover have zero: "unat (total_size 0) = 0" by (simp add: total_size_def)
  then have "combined_of_info 1024 1 \<noteq> 0" "combined_of_info 8192 1 \<noteq> 0" "five_times \<noteq> 0"
    using read_replicated zero by auto
  ultimately show "c_combined demo_stats k =
      [11 \<mapsto> combined_of_info 1024 1, 12 \<mapsto> combined_of_info 8192 1, 13 \<mapsto> five_times] k"
    using outside by (auto simp: stack_stats_def split: option.splits if_splits)
qed

theorem test_memleak_report_witness:
  "report 7 3 test_snapshot =
     ([Out ''=== Reading combined allocs map entries ==='',
       Out ''[12:00:00] Top 3 stacks with outstanding allocations:'',
       Out ''10240 Bytes in 5 allocations from stack'', Log_no_trace 13 Lookup_failed,
       Out ''8192 Bytes in 1 allocations from stack'', Log_no_trace 12 Lookup_failed,
       Out ''1024 Bytes in 1 allocations from stack'', Log_no_trace 11 Lookup_failed,
       Out ''===========================''], None)"
proof -
  have entries: "entries_of demo_stats (sn_combined test_snapshot)"
    unfolding entries_of_def demo_combined
    by (rule exI [of _ "[(11, combined_of_info 1024 1), (12, combined_of_info 8192 1), (13, five_times)]"])
      (simp add: test_snapshot_def fun_eq_iff)
  have "distinct [site_key demo_process ''leak_with_loop'', site_key demo_process ''leak_large'',
      site_key demo_process ''leak_small'']" by (simp add: demo_keys)
  from test_memleak_report [OF slot_kernel_ok slot_init_valid slot_init_contents demo_process_traced this
      entries, of 3 7] show ?thesis
    by (simp add: demo_keys frame_lines_def getUserspaceStackTrace_def word_sless_alt test_snapshot_def
        demo_snapshot_def)
qed

end
