(* ===== verification/GetSize.thy ===== *)
theory GetSize
  imports InfoGo VmlinuxBase CMemory
begin

text \<open>
  \<open>bpf/get_size.c\<close> prints the layout of \<open>struct alloc_info\<close>, from which the Go struct of
  \<open>info.go\<close> was written. The types of \<open>bpf/memleak.h\<close> are laid out by the rules of \<open>CLayout\<close>.
\<close>

definition struct_alloc_info :: ctype where
  "struct_alloc_info =
     Composite Struct False
     [Member ''size'' typedef___u64,
      Member ''timestamp_ns'' typedef___u64,
      Member ''stack_id'' (Scalar Int32)]"

definition struct_combined_info :: ctype where
  "struct_combined_info =
     Composite Struct False
     [Bitfield ''total_size'' typedef___u64 40,
      Bitfield ''number_of_allocs'' typedef___u64 24]"

definition union_combined_alloc_info :: ctype where
  "union_combined_alloc_info =
     Composite Union False
     [Member ''info'' struct_combined_info,
      Member ''bits'' typedef___u64]"

lemma memleak_h_layout [layout_simps]:
  "wf_type struct_alloc_info" "shape struct_alloc_info = (24, 8)"
  "wf_type struct_combined_info" "shape struct_combined_info = (8, 8)"
  "wf_type union_combined_alloc_info" "shape union_combined_alloc_info = (8, 8)"
  by (simp_all del: One_nat_def add: struct_alloc_info_def struct_combined_info_def
      union_combined_alloc_info_def layout_eval layout_simps)

lemma memleak_h_fields:
  "field_at struct_alloc_info ''size'' = Some (0, 64, typedef___u64)"
  "field_at struct_alloc_info ''timestamp_ns'' = Some (64, 64, typedef___u64)"
  "field_at struct_alloc_info ''stack_id'' = Some (128, 32, Scalar Int32)"
  "field_at struct_combined_info ''total_size'' = Some (0, 40, typedef___u64)"
  "field_at struct_combined_info ''number_of_allocs'' = Some (40, 24, typedef___u64)"
  by (simp_all del: One_nat_def add: struct_alloc_info_def struct_combined_info_def field_at_struct
      layout_eval layout_simps)

text \<open>The bit-fields of the union, read from memory, are the two views of its 64 bits.\<close>

lemma combined_bit_fields:
  "read_field M struct_combined_info ''total_size'' a =
     Some (total_size (Combined (load M a 0 64)))"
  "read_field M struct_combined_info ''number_of_allocs'' a =
     Some (number_of_allocs (Combined (load M a 0 64)))"
  by (simp_all add: read_field_def memleak_h_fields total_size_def number_of_allocs_def)
    (rule bit_word_eqI, auto simp: bit_load bit_simps)+

definition sizeof_alloc_info :: nat where
  "sizeof_alloc_info = size_of struct_alloc_info"

definition offsetof_alloc_info :: "string \<Rightarrow> nat" where
  "offsetof_alloc_info f =
     (case field_at struct_alloc_info f of None \<Rightarrow> 0 | Some (p, w, t) \<Rightarrow> p div 8)"

definition sizeof_field :: "string \<Rightarrow> nat" where
  "sizeof_field f = (case field_at struct_alloc_info f of None \<Rightarrow> 0 | Some (p, w, t) \<Rightarrow> w div 8)"

subsection \<open>The program\<close>

text \<open>\<open>%-Ns\<close> of printf: padding with spaces on the right.\<close>

definition ljust :: "nat \<Rightarrow> string \<Rightarrow> string" where
  "ljust w s = s @ replicate (w - length s) (CHR '' '')"

definition PRINT_FIELD :: "string \<Rightarrow> string" where
  "PRINT_FIELD name =
     ljust 12 name @ '' offset='' @ ljust 3 (digits (offsetof_alloc_info name)) @
     '' size='' @ ljust 3 (digits (sizeof_field name)) @ LF"

definition get_size_main :: "int \<times> string" where
  "get_size_main =
     (0,
      ''Struct event layout (total size = '' @ digits sizeof_alloc_info @ '' bytes):'' @ LF @
      ''--------------------------------------------------'' @ LF @
      PRINT_FIELD ''size'' @ PRINT_FIELD ''timestamp_ns'' @ PRINT_FIELD ''stack_id'')"

lemma alloc_info_offsets:
  "sizeof_alloc_info = 24"
  "offsetof_alloc_info ''size'' = 0" "sizeof_field ''size'' = 8"
  "offsetof_alloc_info ''timestamp_ns'' = 8" "sizeof_field ''timestamp_ns'' = 8"
  "offsetof_alloc_info ''stack_id'' = 16" "sizeof_field ''stack_id'' = 4"
  by (simp_all add: sizeof_alloc_info_def offsetof_alloc_info_def sizeof_field_def
      memleak_h_fields memleak_h_layout)

lemma digits_printed:
  "digits 24 = ''24''" "digits 16 = ''16''" "digits 8 = ''8''" "digits 4 = ''4''" "digits 0 = ''0''"
  by code_simp+

lemma ljust_printed:
  "ljust 12 ''size'' = ''size        ''" "ljust 12 ''timestamp_ns'' = ''timestamp_ns''"
  "ljust 12 ''stack_id'' = ''stack_id    ''"
  "ljust 3 ''16'' = ''16 ''" "ljust 3 ''8'' = ''8  ''" "ljust 3 ''4'' = ''4  ''"
  "ljust 3 ''0'' = ''0  ''"
  by code_simp+

text \<open>The program prints a total of 24 bytes and the fields at 0, 8 and 16.\<close>

theorem get_size_output:
  "get_size_main =
     (0,
      ''Struct event layout (total size = 24 bytes):'' @ LF @
      ''--------------------------------------------------'' @ LF @
      ''size         offset=0   size=8  '' @ LF @
      ''timestamp_ns offset=8   size=8  '' @ LF @
      ''stack_id     offset=16  size=4  '' @ LF)"
  by (simp add: get_size_main_def PRINT_FIELD_def alloc_info_offsets digits_printed ljust_printed)

text \<open>The layout that is printed is the one user space decodes by: a record has the printed total
  size, and the bytes at each printed offset are the field's value.\<close>

theorem layout_decoded:
  assumes "length pad = 4"
  shows "length (alloc_info_bytes pad i) = sizeof_alloc_info \<and>
         (let field = (\<lambda>f. le_value (take (sizeof_field f)
                         (drop (offsetof_alloc_info f) (alloc_info_bytes pad i))))
          in field ''size'' = ai_size i \<and> field ''timestamp_ns'' = ai_timestamp_ns i \<and>
             ucast (field ''stack_id'') = ai_stack_id i)"
proof -
  have word: "take_bit 64 w = w" for w :: u64
    by (rule bit_word_eqI) (auto simp: bit_simps)
  have id: "ucast (take_bit 32 (ucast x :: u64)) = x" for x :: i32
    by (rule bit_word_eqI) (auto simp: bit_simps)
  show ?thesis
    using assms
    by (simp add: Let_def alloc_info_offsets alloc_info_bytes_def le_value_bytes word id)
qed

theorem layout_decoded_witness:
  "length (alloc_info_bytes [1, 2, 3, 4] \<lparr>ai_size = 48, ai_timestamp_ns = 200, ai_stack_id = 5\<rparr>) =
     sizeof_alloc_info"
  using layout_decoded [of "[1, 2, 3, 4]" "\<lparr>ai_size = 48, ai_timestamp_ns = 200, ai_stack_id = 5\<rparr>"]
  by simp

end
