(* ===== verification/Utilities.thy ===== *)
theory Utilities
  imports Symbolizer
begin

text \<open>
  Functions of the Go packages that the command does not call: the resolvers of kernel addresses that
  use one mapping of the whole address space, \<open>internal/symbolizer/kernelspace.go\<close>, and the clock
  of \<open>internal/timer/timer.go\<close>.
\<close>

subsection \<open>Kernel resolvers with one mapping\<close>

definition whole_space :: "string \<Rightarrow> (u64 \<times> string) list \<Rightarrow> ProcMapEntry" where
  "whole_space path syms =
     \<lparr>pm_start = 0, pm_end = - 1, pm_offset = 0, pm_path = path, pm_symbols = syms\<rparr>"

text \<open>\<open>None\<close> is a file that cannot be read.\<close>

definition NewKernelResolverFromKallsyms :: "string list option \<Rightarrow> ProcMapEntry list option" where
  "NewKernelResolverFromKallsyms kallsyms =
     map_option (\<lambda>ls. [whole_space ''/proc/kallsyms'' (LoadKernelSymbolsFromKallsyms ls)]) kallsyms"

definition NewKernelResolverFromVmlinux :: "elf_reader \<Rightarrow> string \<Rightarrow> ProcMapEntry list option" where
  "NewKernelResolverFromVmlinux elf vmlinuxPath =
     map_option (\<lambda>syms. [whole_space vmlinuxPath syms]) (loadSymbols elf vmlinuxPath)"

text \<open>They find a symbol for the same addresses as the resolver that the command uses, the last
  address excepted, which is outside of every mapping.\<close>

lemma whole_space_resolves:
  "pc \<noteq> - 1 \<Longrightarrow> Resolve a2l filt [whole_space path syms] pc = Inl (Symbol_not_found pc) \<longleftrightarrow>
     KernelResolve a2l' syms vm pc = Inl (Symbol_not_found pc)"
  using word_order.extremum_strict [of pc] word_order.not_eq_extremum [of pc]
  by (auto simp: whole_space_def KernelResolve_def Let_def split: prod.split option.split)

lemma kallsyms_resolvers_agree:
  assumes "NewKernelResolverFromKallsyms (Some ls) = Some ms" and "pc \<noteq> - 1"
  shows "Resolve a2l filt ms pc = Inl (Symbol_not_found pc) \<longleftrightarrow>
    KernelResolve a2l' (LoadKernelSymbolsFromKallsyms ls) vm pc = Inl (Symbol_not_found pc)"
proof -
  have "ms = [whole_space ''/proc/kallsyms'' (LoadKernelSymbolsFromKallsyms ls)]"
    using assms(1) by (simp add: NewKernelResolverFromKallsyms_def)
  then show ?thesis by (simp only: whole_space_resolves [OF assms(2)])
qed

lemma last_address_unresolved:
  "Resolve a2l filt [whole_space path syms] (- 1) = Inl (Symbol_not_found (- 1))"
  by (simp add: whole_space_def)

subsection \<open>The clock\<close>

text \<open>A reading of the monotonic clock, seconds and nanoseconds, if \<open>ClockGettime\<close> succeeds.\<close>

type_synonym timespec = "i64 \<times> i64"

definition GetNanosecSinceBoot :: "timespec option \<Rightarrow> u64" where
  "GetNanosecSinceBoot clock =
     (case clock of None \<Rightarrow> 0 | Some (Sec, Nsec) \<Rightarrow> ucast (Nsec + Sec * 1000000000))"

definition GetNanosecBootTimestamp :: "timespec option \<Rightarrow> i64 \<Rightarrow> u64" where
  "GetNanosecBootTimestamp clock UnixNano =
     (case clock of
        None \<Rightarrow> 0
      | Some (Sec, Nsec) \<Rightarrow>
          (let nsSinceBoot = ucast Sec * 1000000000 + ucast Nsec in ucast UnixNano - nsSinceBoot))"

text \<open>For one reading of both clocks the two add up to the time of day, however the machine words
  wrap; and no wrap-around occurs within 292 years of the boot.\<close>

lemma boot_and_since_boot:
  "GetNanosecBootTimestamp (Some t) UnixNano + GetNanosecSinceBoot (Some t) = UnixNano"
  by (cases t) (simp add: GetNanosecBootTimestamp_def GetNanosecSinceBoot_def Let_def)

lemma since_boot_value:
  assumes "unat Nsec < 1000000000" and "unat Sec < 9223372036"
  shows "unat (GetNanosecSinceBoot (Some (Sec, Nsec))) = unat Sec * 1000000000 + unat Nsec"
  using assms by (simp add: GetNanosecSinceBoot_def unat_word_ariths)

end
