(* ===== verification/Spec2Isabelle.thy ===== *)
theory Spec2Isabelle
  imports LiveSession Serial TestMemleak GetSize Utilities
begin

text \<open>
  Verification of ebpf-memleak: the eBPF programs that record a process's (or the kernel's)
  outstanding allocations, \<open>bpf/memleak.bpf.c\<close> and the headers \<open>memleak.h\<close>, \<open>maps.bpf.h\<close> and
  \<open>core_fixes.bpf.h\<close>; the kernel types of \<open>vmlinux.h\<close> that they read, and those that these embed;
  the two C utilities beside them; and of the Go user space the decoding of the maps,
  \<open>internal/info/info.go\<close>, the loading, the selection of the stacks, the report, its loop and the
  end of the command in \<open>internal/probe/probe.go\<close> and \<open>cmd/main.go\<close>, the symbol resolution of
  \<open>internal/symbolizer\<close> and the clock of \<open>internal/timer\<close>.

  How the program works. Every libc allocation function has an entry and an exit probe, every
  kernel allocation a tracepoint. The entry notes the requested size per process in the map
  \<open>sizes\<close>; the exit takes it out, records the returned address with size, time and stack id in
  \<open>allocs\<close>, and adds the size to the statistics of the stack in \<open>combined_allocs\<close>; a release
  removes the address and subtracts its size. \<open>memptrs\<close> carries the result pointer of
  posix_memalign from entry to exit. User space prints the stacks with the largest totals.

  Theories and what they model.
  \<^item> \<open>Prelude\<close>: C integer types, sums over partial maps and over lists, word arithmetic.
  \<^item> \<open>MapsBpf\<close>: the map helpers as a parameter (\<open>map_ops\<close>) with their documented laws as the
    locales \<open>bpf_hash_map\<close>, \<open>bpf_prealloc_map\<close>, \<open>bpf_stable_map\<close> and \<open>bpf_element_map\<close>, and
    \<open>bpf_map_lookup_or_try_init\<close> of \<open>maps.bpf.h\<close>.
  \<^item> \<open>SlotMap\<close>: a map of preallocated slots that meets all of these laws at every capacity (the
    interpretations \<open>slot\<close>, \<open>slot_stable\<close>, \<open>slot_elements\<close>); it models no source code.
  \<^item> \<open>MemleakTypes\<close>: \<open>memleak.h\<close>. The union of the statistics is its 64 bits, a group under
    addition; the locale \<open>combined_reader\<close> proves what any reader of its 40-bit and 24-bit fields
    gets, and is interpreted for the C bit-fields and for the Go decoder.
  \<^item> \<open>MemleakState\<close>, \<open>SlotKernel\<close>: the globals, the four maps and the trace pipe; what the other
    helpers return in one invocation; the locale \<open>memleak_kernel\<close> of four maps at the declared
    capacities, and a kernel built of slot maps that it is interpreted on.
  \<^item> \<open>TrackerSpec\<close>: the specification, on the contents of the maps only: noting, recording and
    forgetting a block; the drift of a stack (its statistics minus the sum of its recorded blocks).
  \<^item> \<open>MemleakCore\<close>: \<open>update_statistics_add\<close>, \<open>update_statistics_del\<close>, \<open>gen_alloc_enter\<close>,
    \<open>gen_alloc_exit2\<close>, \<open>gen_alloc_exit\<close>, \<open>gen_free_enter\<close>, through element addresses as in the source,
    each proved to refine the specification.
  \<^item> \<open>UserProbes\<close>, \<open>KernelProbes\<close>, \<open>CoreFixes\<close>: the twenty uprobes, the ten tracepoints, and the
    struct flavours and accessors by which they read kernel structs of different versions.
  \<^item> \<open>Programs\<close>, \<open>Runs\<close>: a dispatcher over the thirty programs, runs of invocations, the step
    relation and the reachable states.
  \<^item> \<open>CLayout\<close>, \<open>CMemory\<close>: C types as data (\<open>ctype\<close>), their sizes, alignments and fields by the
    x86-64 System V rules with bit-fields, unnamed bit-fields, anonymous members and packing;
    loads and stores of fields in a memory of bytes. Offsets and widths are in bits. The
    qualifiers const and volatile, which do not change a layout, are left out.
  \<^item> \<open>VmlinuxBase\<close>, \<open>VmlinuxTrace\<close>, \<open>VmlinuxTask\<close>, \<open>VmlinuxMm\<close>, \<open>VmlinuxBlock\<close>, \<open>VmlinuxFs\<close>,
    \<open>VmlinuxBpf\<close>, \<open>VmlinuxUapi\<close>, \<open>VmlinuxEventsA\<close>, \<open>VmlinuxEventsB\<close>, \<open>VmlinuxEventsC\<close>: types of
    \<open>vmlinux.h\<close>, one definition \<open>struct_X\<close>, \<open>union_X\<close>, \<open>enum_X\<close> or \<open>typedef_X\<close>
    for each, with its size and alignment; \<open>VmlinuxLayouts\<close>, \<open>VmlinuxLookup\<close>: all of them together,
    and lookup by name. They are the records of the tracepoints, the structs that the accessors
    of \<open>core_fixes.bpf.h\<close> go through, the objects of the allocators, the kernel side of maps and
    programs, the bpf system call by which they are loaded, and every type that one of these
    embeds. The records are those of all tracepoints of the kernel (the last three theories have
    the ones that the programs are not attached to); what is behind a pointer is a name.
  \<^item> \<open>VmlinuxKernel\<close>: the kernel with these types as the running kernel (an instance of \<open>btf\<close> over
    a memory), and the records that its tracepoints write.
  \<^item> \<open>Symbolizer\<close>, \<open>Loader\<close>: the parsing of \<open>/proc/kallsyms\<close> and \<open>/proc/PID/maps\<close> and the
    resolution of addresses; the flags, the globals set from them, and the programs attached.
  \<^item> \<open>StackMap\<close>, \<open>StackTraces\<close>: the map \<open>stack_traces\<close> as a parameter (\<open>stack_ops\<close>) with its documented
    laws as the locale \<open>bpf_stack_map\<close>, interpreted on a table of hashed stacks; runs in which every
    invocation comes with its call stack and \<open>bpf_get_stackid\<close> works on that map.
  \<^item> \<open>Report\<close>: from a stack id to its lines (\<open>findVmlinux\<close>, \<open>getKernelspaceStackTrace\<close>,
    \<open>getUserspaceStackTrace\<close>), one round of the loop in \<open>Run\<close> as a function of what the process reads
    in it (\<open>snapshot\<close>), the loop, and \<open>Close\<close>.
  \<^item> \<open>Command\<close>: \<open>newProbe\<close>, the two goroutines of \<open>Run\<close> a step at a time with signals between them
    (\<open>command_step\<close>), and \<open>main\<close> from the flags to the exit status. The answers of the loader
    library are the parameter \<open>world\<close>; log messages of the main goroutine are left out.
  \<^item> \<open>Session\<close>: the globals and the programs that a started command has, and which calls and events
    reach these programs.
  \<^item> \<open>LiveSession\<close>: the tracker, the programs that the processes run and the goroutines of the command
    as one system (\<open>system_step\<close>), in which they take turns in any order, programs also while the map
    is read; a step is one program, so that there are steps between the entry and the exit of a call.
  \<^item> \<open>Utilities\<close>: the functions of the Go packages that the command does not call.
  \<^item> \<open>Blocks\<close>, \<open>LibcCalls\<close>, \<open>KernelEvents\<close>: what allocates and releases, outside the program: calls of
    the C library with their results, events of the kernel; the blocks outstanding by them alone.

  What is proved.
  \<^item> \<open>Accounting\<close>: runs refine the specification; the reported totals are exact when no recorded
    address is reused and the tables have room; what changes the drift of a stack (of the
    releases only that of a block without statistics); the limits (filters, capacities) in every reachable state.
  \<^item> \<open>Operations\<close>: every branch of the three common operations and of the map helper.
  \<^item> \<open>Scenarios\<close>, \<open>TestMemleak\<close>: round trips of malloc, realloc; the cases in which record and
    allocator part ways (failed realloc and mmap, two threads in malloc, a fault in
    posix_memalign); the lines of the report on the leaking program \<open>test_memleak.c\<close>.
  \<^item> \<open>Statistics\<close>: exactness, carry and inverse of the packed updates; sampling, calloc, pages.
  \<^item> \<open>KernelCompat\<close>: no result depends on a struct field that the running kernel lacks.
  \<^item> \<open>InfoGo\<close>, \<open>GetSize\<close>: user space decodes exactly what was written, joins the right blocks to
    a stack, and \<open>get_size.c\<close> prints the layout that it decodes by.
  \<^item> \<open>TopStacks\<close>: the report lists the stacks with the largest totals in descending order, for any
    positive limit, and panics for a limit of zero; Go's heap is proved to meet the locale
    \<open>min_queue\<close> that the selection rests on.
  \<^item> \<open>Interleaving\<close>: the same programs one helper call or memory access at a time, on several CPUs:
    alone they are the operations of \<open>MemleakCore\<close>; concurrent statistics updates are exact under
    every schedule; a release can debit the wrong block, because it reads a deleted record.
  \<^item> \<open>Effects\<close>, \<open>SerialSteps\<close>, \<open>Serial\<close>: programs that concern different processes and addresses,
    interleaved access by access, leave what they leave one after another, if the maps have a free
    entry for each of them and nothing is inserted between a deletion and the read of the deleted
    element. Every step is an effect on the contents, and effects of different programs commute.
  \<^item> \<open>ProgramSteps\<close>: all thirty programs in this way: alone each does what it does as a whole, and
    each terminates under every schedule, whatever the other CPUs do and the maps answer.
  \<^item> \<open>VmlinuxLayouts\<close>: every modelled kernel type is well formed, its fields lie within it, aligned,
    and a store to a field of a struct changes no other member; every record of a tracepoint begins
    with the common entry of eight bytes.
  \<^item> \<open>VmlinuxKernel\<close>: how the CO-RE predicates and accessors come out on this kernel; each
    tracepoint program gets exactly what the kernel wrote into the record of the event.
  \<^item> \<open>LibcCalls\<close>, \<open>KernelEvents\<close>: tracing sequences of libc calls, or of kernel events, the recorded
    blocks are exactly those outstanding by the calls or events alone, and the totals of every
    stack are theirs.
  \<^item> \<open>Leaks\<close>: the report printed after such a sequence, line by line. \<open>Session\<close>: the same for the
    command as it is started, with the programs that it attaches: for a process exact for malloc,
    calloc, realloc and free, for the kernel for kmalloc and kfree. \<open>LiveSession\<close>: everything that the
    command prints while programs go on running is a sequence of such reports, in which every stack
    that was read has its totals of some moment of the round (\<open>changing_report\<close> of \<open>Leaks\<close>). All of
    these are for calls or events one after another, with the results that the probes take the
    right way (\<open>understood\<close>), new blocks at free addresses and room in the tables; \<open>Scenarios\<close> and
    \<open>Accounting\<close> show what happens otherwise.
  \<^item> \<open>Command\<close>: under every schedule of the goroutines the output is a prefix of that of the loop;
    with which status and after closing which links the command ends; that it ends when asked.
  \<^item> \<open>Report\<close>: the frames printed for a block are those of the stack it was allocated from; two
    blocks whose \<open>bpf_get_stackid\<close> failed alike are counted as one stack; when the loop ends.
  \<^item> \<open>Symbolizer\<close>: a kernel address is resolved to the closest symbol, whatever order the table is
    read in; lines of the maps file are read back; addresses in an executable with a fixed base
    are not resolved.
  \<^item> this theory: properties across components.

  Assumptions. The helpers of the kernel are parameters. Their laws (\<open>bpf_prealloc_map\<close>): an update
  stores, a failed one changes nothing, an insertion succeeds while fewer than \<open>max_entries\<close> keys are
  stored, a write through a looked-up address changes that key's value only, and a deleted
  element keeps its contents until the next operation on the map. For \<open>Serial\<close>, besides, an element
  stays where it is as long as other keys are operated on (\<open>bpf_element_map\<close>). A stack map stores a
  stack under the id it returns and, with the flags used, keeps it; an error is a small negative
  number (\<open>bpf_stack_map\<close>). The iterator over a map from which nothing is deleted meanwhile reads no
  key twice, and each with a value that it has at some moment (or the zero with which an entry is
  made); that it misses no key is assumed only if the map does not change at all (\<open>walk_reads\<close>). What a call of the C library returns, and with which meaning, is as the
  library documents it. Clock, stack ids, registers
  and user memory are arbitrary (\<open>invocation\<close>). CO-RE reads are arbitrary (\<open>btf\<close>), except in
  \<open>VmlinuxKernel\<close>, where they follow the documented rules: a flavour is matched by its name up to
  \<open>___\<close>, a field by its name, and a read takes the flavour's width. The ELF reader, \<open>addr2line\<close>,
  \<open>c++filt\<close> and the answers of the loader library are arbitrary.

  Bounds. Map capacities are those of the source (10240, 1000000, 10240, 10240). The bit-fields
  are exact below 2^40 bytes and 2^24 blocks per stack; beyond, \<open>Statistics\<close> states the carry. A
  CPU running alone halts within six (release) or nine (exit) accesses, an update within five, and
  any program within eighteen (a release, a request and an exit, as a traced allocation with the
  workaround for missing frees makes them).

  Not modelled: the kernel types that the programs neither read nor embed, other than records of
  tracepoints, which are most of \<open>vmlinux.h\<close> (a dump of the kernel's types, of which this repository
  uses a few); of the Go command \<open>setRlimit\<close> and \<open>setUnlimitedRlimit\<close>, which nothing calls and which
  only make system calls, the inside of the loader library, and the generated bindings; the
  reading of \<open>allocs\<close> while it changes (what is read there is not printed); and the order in which \<open>bpf_printk\<close> output of
  several CPUs appears beyond one message at the end of each operation.
\<close>

text \<open>The constants and the key and value types that the programs use are those of the header.\<close>

fun enumerator :: "ctype \<Rightarrow> string \<Rightarrow> int option" where
  "enumerator (Enum vs) n = map_of vs n" | "enumerator t n = None"

lemma header_constants:
  "enumerator enum_map_update_flags ''BPF_ANY'' = Some (uint BPF_ANY)"
  "enumerator enum_map_update_flags ''BPF_NOEXIST'' = Some (uint BPF_NOEXIST)"
  "enumerator enum_stack_flags ''BPF_F_USER_STACK'' = Some (uint BPF_F_USER_STACK)"
  by (simp_all add: enum_map_update_flags_def enum_stack_flags_def BPF_ANY_def BPF_NOEXIST_def
      BPF_F_USER_STACK_def)

lemma map_key_value_sizes:
  "8 * size_of typedef_pid_t = LENGTH(32)" "8 * size_of typedef_u64 = LENGTH(64)"
  "size_of struct_alloc_info = 24" "size_of union_combined_alloc_info = 8"
  by (simp_all add: layout_simps)

text \<open>The allocation probes that only note or settle a request.\<close>

definition allocation_probe :: "program \<Rightarrow> bool" where
  "allocation_probe p \<longleftrightarrow>
     (case p of
        Malloc_enter n \<Rightarrow> True | Malloc_exit \<Rightarrow> True
      | Calloc_enter nmemb n \<Rightarrow> True | Calloc_exit \<Rightarrow> True
      | Realloc_exit \<Rightarrow> True
      | Mmap_enter a n \<Rightarrow> True | Mmap_exit \<Rightarrow> True
      | Aligned_alloc_enter al n \<Rightarrow> True | Aligned_alloc_exit \<Rightarrow> True
      | Valloc_enter n \<Rightarrow> True | Valloc_exit \<Rightarrow> True
      | Memalign_enter al n \<Rightarrow> True | Memalign_exit \<Rightarrow> True
      | Pvalloc_enter n \<Rightarrow> True | Pvalloc_exit \<Rightarrow> True
      | _ \<Rightarrow> False)"

lemma foreign_enter:
  "target_pid cfg \<noteq> 0 \<Longrightarrow> current_pid I \<noteq> target_pid cfg \<Longrightarrow> gen_alloc_enter K cfg I n s = (0, s)"
  by (simp add: gen_alloc_enter_cases alloc_admitted_def)

lemma printk_restored: "(bpf_printk fmt args s)\<lparr>trace_pipe := trace_pipe s\<rparr> = s"
  by (simp add: bpf_printk_def)

lemma foreign_exit_printk:
  "c_sizes (contents_of K s) (current_pid I) = None \<Longrightarrow>
     gen_alloc_exit2 K cfg I a (bpf_printk fmt args s) = (0, bpf_printk fmt args s)"
  by (simp add: gen_alloc_exit2_def map_find_def contents_of_simps)

lemma foreign_exit:
  "c_sizes (contents_of K s) (current_pid I) = None \<Longrightarrow> gen_alloc_exit2 K cfg I a s = (0, s)"
  by (simp add: gen_alloc_exit2_def map_find_def contents_of_simps)

text \<open>C22: With a target process set, the allocation probes, run by any other process in a reachable
  state, return 0 and leave all four maps as they were, element for element. (The malloc probes
  still write to the trace pipe: their messages are not subject to the filter.)\<close>

theorem foreign_allocations_ignored:
  assumes "memleak_kernel K" and "reachable K cfg B s"
    and "target_pid cfg \<noteq> 0" and "current_pid I \<noteq> target_pid cfg" and "allocation_probe p"
  shows "(let (r, t) = run_program K cfg B I p s
          in r = 0 \<and> t\<lparr>trace_pipe := trace_pipe s\<rparr> = s)"
proof -
  have "filtered cfg (contents_of K s)"
    using memleak_kernel.reachable_invariant [OF assms(1,2), of "filtered cfg"]
    by (simp add: filtered_no_contents filtered_step)
  with assms(3,4) have "c_sizes (contents_of K s) (current_pid I) = None"
    unfolding filtered_def by (metis not_None_eq)
  with assms(3-5) show ?thesis
    by (cases p) (simp_all add: allocation_probe_def user_probe_defs gen_alloc_exit_def foreign_enter
        foreign_exit foreign_exit_printk printk_restored)
qed

theorem foreign_allocations_ignored_witness:
  "(snd (run_program slot_kernel (default_config\<lparr>target_pid := 8\<rparr>) no_btf (call 4096 5) Malloc_exit
           slot_init))\<lparr>trace_pipe := []\<rparr> = slot_init"
  using foreign_allocations_ignored [OF slot_kernel_ok slot_init_reachable,
      of "default_config\<lparr>target_pid := 8\<rparr>" "call 4096 5" Malloc_exit no_btf]
  by (simp add: allocation_probe_def split_beta slot_init_def)

text \<open>A posix_memalign whose result pointer can be read on exit is recorded at the address read,
  with the requested size, and leaves no pending request or pointer: this does not depend on the
  function's return code, so that a call that failed is recorded too, at whatever address the
  caller's variable holds.\<close>

theorem posix_memalign_recorded:
  assumes "memleak_kernel K" and "maps_valid K s"
    and "alloc_admitted cfg I n" and "sizes_room (contents_of K s) (current_pid I)"
    and "card (dom (c_memptrs (contents_of K s))) < 10240"
    and "current_pid J = current_pid I" and "current_pid64 J = current_pid64 I"
    and "probe_read_user J m = Some a" and "a \<noteq> 0" and "tables_room (contents_of K s)"
  shows "(let c = contents_of K s;
              d = contents_of K
                    (run_events K cfg B [(I, Posix_memalign_enter m al n), (J, Posix_memalign_exit)] s)
          in c_allocs d = (c_allocs c)(a \<mapsto> exit_info cfg J n) \<and>
             c_sizes d = (c_sizes c)(current_pid I := None) \<and>
             c_memptrs d = (c_memptrs c)(current_pid64 I := None) \<and>
             (\<forall>sid. stack_stats d sid = stack_stats c sid + contribution sid (exit_info cfg J n)))"
proof -
  let ?c = "contents_of K s" and ?i = "exit_info cfg J n"
  let ?e = "?c\<lparr>c_memptrs := (c_memptrs ?c)(current_pid64 I := None),
               c_sizes := (c_sizes ?c)(current_pid I := None)\<rparr>"
  let ?c1 = "?c\<lparr>c_memptrs := (c_memptrs ?c)(current_pid64 I \<mapsto> m)\<rparr>"
  let ?c2 = "?c1\<lparr>c_sizes := (c_sizes ?c)(current_pid I \<mapsto> n)\<rparr>"
  let ?c3 = "?c2\<lparr>c_memptrs := (c_memptrs ?c)(current_pid64 I := None)\<rparr>"
  have "spec_save_memptr I m ?c = ?c1"
    using assms(5) by (simp add: spec_save_memptr_def bounded_upd_def memptrs_max_entries_def)
  moreover have "spec_enter cfg I n ?c1 = ?c2"
    using assms(3,4) by (simp add: enter_noted sizes_room_def)
  moreover have "spec_memptr_exit cfg J ?c2 = spec_exit cfg J a ?c3"
    using assms(7,8) by (simp add: spec_memptr_exit_def)
  moreover have "spec_exit cfg J a ?c3 = spec_record a ?i ?e"
    using assms(6,9) by (simp add: exit_noted)
  ultimately have "contents_of K
      (run_events K cfg B [(I, Posix_memalign_enter m al n), (J, Posix_memalign_exit)] s) =
      spec_record a ?i ?e"
    by (simp add: memleak_kernel.run_contents [OF assms(1,2)] spec_run)
  moreover have room: "has_room ?e a ?i"
    using assms(10) by (intro tables_room_has_room) (simp add: tables_room_def)
  ultimately show ?thesis
    using record_allocs_room [OF room] record_stats_room [OF room] by (simp add: Let_def)
qed

text \<open>An invocation of process 7 that returns ENOMEM and can read the address 8192 at 512.\<close>

definition memalign_call :: invocation where
  "memalign_call = (call 12 6)\<lparr>probe_read_user := [512 \<mapsto> 8192]\<rparr>"

lemma memalign_call_simps [simp]:
  "current_pid memalign_call = 7" "current_pid64 memalign_call = 7"
  "ktime_exit memalign_call = 200" "get_stackid memalign_call f = 6"
  "probe_read_user memalign_call = [512 \<mapsto> 8192]"
  by (simp_all add: memalign_call_def current_pid_def current_pid64_def call_def)

theorem posix_memalign_recorded_witness:
  "c_allocs (contents_of slot_kernel (run_events slot_kernel default_config no_btf
     [(call 0 6, Posix_memalign_enter 512 64 4000), (memalign_call, Posix_memalign_exit)] slot_init)) =
   [8192 \<mapsto> \<lparr>ai_size = 4000, ai_timestamp_ns = 200, ai_stack_id = 6\<rparr>]"
  using posix_memalign_recorded [OF slot_kernel_ok slot_init_valid, of default_config "call 0 6" 4000
      memalign_call 512 8192 no_btf 64]
  by (simp add: alloc_admitted_def default_config_def sizes_room_def tables_room_def capacity_defs
      exit_info_def Let_def)

end
